(* ===== verification/Prelude.thy ===== *)
theory Prelude
  imports Main "HOL-Library.Sublist"
begin

text \<open>
  Shared vocabulary of the development: the JavaScript string operations the sources use, the
  dynamically typed values that parsers receive, and the list lemmas (first match, removal of
  duplicates by a key, update of the record with a given id) that the components share.

  A JavaScript string is a sequence of UTF-16 code units. The type \<^typ>\<open>string\<close> holds the
  code units 0 to 255 (Latin-1); on these, white space, trimming and lower-casing below agree
  with the language standard. Code units above 255 are outside the model.
\<close>

named_theorems text_simps \<open>equations of the string operations\<close>
named_theorems dedup_simps \<open>facts on duplicate removal\<close>

section \<open>Strings\<close>

definition js_ws :: "char \<Rightarrow> bool" where
  "js_ws c = (let n = (of_char c :: nat) in (9 \<le> n \<and> n \<le> 13) \<or> n = 32 \<or> n = 160)"

definition js_trim_start :: "string \<Rightarrow> string" where
  "js_trim_start s = dropWhile js_ws s"

definition js_trim_end :: "string \<Rightarrow> string" where
  "js_trim_end s = rev (dropWhile js_ws (rev s))"

definition js_trim :: "string \<Rightarrow> string" where
  "js_trim s = js_trim_end (js_trim_start s)"

text \<open>\<open>s.slice(0, n)\<close> for a non-negative \<open>n\<close>.\<close>

definition js_slice0 :: "nat \<Rightarrow> string \<Rightarrow> string" where
  "js_slice0 n s = take n s"

text \<open>\<open>s.replace(/[...]+/g, r)\<close>: every maximal run of characters of a class becomes \<open>r\<close>; the class
  of \<open>\s\<close> is \<open>js_ws\<close>.\<close>

fun js_runs_from :: "(char \<Rightarrow> bool) \<Rightarrow> bool \<Rightarrow> string \<Rightarrow> string \<Rightarrow> string" where
  "js_runs_from P in_run r [] = []"
| "js_runs_from P in_run r (c # cs) =
     (if P c then (if in_run then [] else r) @ js_runs_from P True r cs
      else c # js_runs_from P False r cs)"

definition js_replace_runs :: "(char \<Rightarrow> bool) \<Rightarrow> string \<Rightarrow> string \<Rightarrow> string" where
  "js_replace_runs P r s = js_runs_from P False r s"

definition js_collapse_ws :: "string \<Rightarrow> string \<Rightarrow> string" where
  "js_collapse_ws r s = js_replace_runs js_ws r s"

text \<open>\<open>s.toLocaleLowerCase('en-US')\<close> on Latin-1: ASCII and accented capitals move by 32.\<close>

definition js_lower_char :: "char \<Rightarrow> char" where
  "js_lower_char c = (let n = (of_char c :: nat) in
     if (65 \<le> n \<and> n \<le> 90) \<or> (192 \<le> n \<and> n \<le> 222 \<and> n \<noteq> 215) then char_of (n + 32) else c)"

definition js_lower :: "string \<Rightarrow> string" where
  "js_lower s = map js_lower_char s"

text \<open>\<open>s.replaceAll(a, b)\<close> for single characters, \<open>s.split(sep)\<close>, \<open>xs.join(sep)\<close>.\<close>

definition js_replace_char :: "char \<Rightarrow> char \<Rightarrow> string \<Rightarrow> string" where
  "js_replace_char a b s = map (\<lambda>c. if c = a then b else c) s"

fun js_split :: "char \<Rightarrow> string \<Rightarrow> string list" where
  "js_split sep [] = [[]]"
| "js_split sep (c # cs) =
     (if c = sep then [] # js_split sep cs
      else (case js_split sep cs of [] \<Rightarrow> [[c]] | w # ws \<Rightarrow> (c # w) # ws))"

fun js_join :: "string \<Rightarrow> string list \<Rightarrow> string" where
  "js_join sep [] = []"
| "js_join sep [w] = w"
| "js_join sep (w # v # ws) = w @ sep @ js_join sep (v # ws)"

text \<open>\<open>s.replace(/^c+|c+$/gu, '')\<close>: strip a character from both ends.\<close>

definition js_strip :: "char \<Rightarrow> string \<Rightarrow> string" where
  "js_strip c s = rev (dropWhile ((=) c) (rev (dropWhile ((=) c) s)))"

definition js_starts_with :: "string \<Rightarrow> string \<Rightarrow> bool" where
  "js_starts_with s p = prefix p s"

definition js_includes :: "string \<Rightarrow> char \<Rightarrow> bool" where
  "js_includes s c = (c \<in> set s)"

subsection \<open>White space\<close>

lemma dropWhile_all_not: "dropWhile P xs = xs \<longleftrightarrow> (xs = [] \<or> \<not> P (hd xs))"
proof (cases xs)
  case Nil
  then show ?thesis by simp
next
  case (Cons x ys)
  have "length (dropWhile P ys) \<le> length ys" by (rule length_dropWhile_le)
  then have "dropWhile P ys \<noteq> x # ys" by (metis impossible_Cons)
  with Cons show ?thesis by simp
qed

lemma trim_end_hd:
  "s \<noteq> [] \<Longrightarrow> \<not> js_ws (hd s) \<Longrightarrow> js_trim_end s \<noteq> [] \<and> hd (js_trim_end s) = hd s"
  by (cases s) (auto simp: js_trim_end_def dropWhile_append)

lemma trim_end_last: "js_trim_end s \<noteq> [] \<Longrightarrow> \<not> js_ws (last (js_trim_end s))"
  unfolding js_trim_end_def by (metis hd_dropWhile last_rev rev_is_Nil_conv)

lemma trim_start_hd: "js_trim_start s \<noteq> [] \<Longrightarrow> \<not> js_ws (hd (js_trim_start s))"
  unfolding js_trim_start_def by (rule hd_dropWhile)

text \<open>A string is trimmed when neither end is white space; \<open>js_trim\<close> produces such strings and
  leaves them alone.\<close>

definition trimmed :: "string \<Rightarrow> bool" where
  "trimmed s \<longleftrightarrow> (s = [] \<or> (\<not> js_ws (hd s) \<and> \<not> js_ws (last s)))"

lemma trimmed_js_trim [simp, intro]: "trimmed (js_trim s)"
  unfolding trimmed_def js_trim_def
  by (metis trim_end_hd trim_end_last trim_start_hd js_trim_end_def dropWhile.simps(1) rev.simps(1))

lemma js_trim_trimmed:
  assumes "trimmed s"
  shows "js_trim s = s"
proof -
  have "dropWhile js_ws s = s" and "dropWhile js_ws (rev s) = rev s"
    using assms by (auto simp: trimmed_def dropWhile_all_not hd_rev)
  then show ?thesis by (simp add: js_trim_def js_trim_start_def js_trim_end_def)
qed

lemma js_trim_idem [simp, text_simps]: "js_trim (js_trim s) = js_trim s"
  by (simp add: js_trim_trimmed)

lemma js_trim_nil [simp]: "js_trim [] = []"
  by (simp add: js_trim_def js_trim_start_def js_trim_end_def)

lemma length_js_trim: "length (js_trim s) \<le> length s"
  unfolding js_trim_def js_trim_start_def js_trim_end_def
  by (metis length_dropWhile_le length_rev order_trans)

lemma trimmed_nil [simp]: "trimmed []"
  by (simp add: trimmed_def)

subsection \<open>Collapsing white space\<close>

lemma collapse_from_trimmed_ws:
  "set (js_runs_from js_ws b [CHR '' ''] s) \<inter> Collect js_ws \<subseteq> {CHR '' ''}"
  by (induction js_ws b "[CHR '' '']" s rule: js_runs_from.induct) (auto split: if_splits)

lemma collapse_from_hd:
  "s \<noteq> [] \<Longrightarrow> \<not> js_ws (hd s) \<Longrightarrow>
   js_runs_from js_ws b r s \<noteq> [] \<and> hd (js_runs_from js_ws b r s) = hd s"
  by (cases s) auto

lemma collapse_from_last:
  "s \<noteq> [] \<Longrightarrow> \<not> js_ws (last s) \<Longrightarrow>
   js_runs_from js_ws b r s \<noteq> [] \<and> last (js_runs_from js_ws b r s) = last s"
proof (induction js_ws b r s rule: js_runs_from.induct)
  case (2 b r c cs)
  then show ?case by (cases cs) auto
qed simp

lemma trimmed_collapse [intro]: "trimmed s \<Longrightarrow> trimmed (js_collapse_ws r s)"
  unfolding trimmed_def js_collapse_ws_def js_replace_runs_def
  by (metis collapse_from_hd collapse_from_last js_runs_from.simps(1))

text \<open>A string is collapsed when its white space consists of single blanks.\<close>

fun collapsed_from :: "bool \<Rightarrow> string \<Rightarrow> bool" where
  "collapsed_from in_run [] = True"
| "collapsed_from in_run (c # cs) =
     (if js_ws c then c = CHR '' '' \<and> \<not> in_run \<and> collapsed_from True cs
      else collapsed_from False cs)"

abbreviation collapsed :: "string \<Rightarrow> bool" where
  "collapsed s \<equiv> collapsed_from False s"

lemma js_ws_blank [simp]: "js_ws (CHR '' '')"
  by (simp add: js_ws_def)

lemma collapsed_collapse_from:
  "collapsed_from b (js_runs_from js_ws b [CHR '' ''] s)"
  by (induction js_ws b "[CHR '' '']" s rule: js_runs_from.induct) auto

lemma collapsed_js_collapse [simp, intro]: "collapsed (js_collapse_ws [CHR '' ''] s)"
  by (simp add: js_collapse_ws_def js_replace_runs_def collapsed_collapse_from)

lemma collapse_from_collapsed: "collapsed_from b s \<Longrightarrow> js_runs_from js_ws b [CHR '' ''] s = s"
  by (induction b s rule: collapsed_from.induct) (auto split: if_splits)

lemma js_collapse_collapsed: "collapsed s \<Longrightarrow> js_collapse_ws [CHR '' ''] s = s"
  by (simp add: js_collapse_ws_def js_replace_runs_def collapse_from_collapsed)

lemma collapsed_from_take: "collapsed_from b s \<Longrightarrow> collapsed_from b (take n s)"
  by (induction b s arbitrary: n rule: collapsed_from.induct)
    (auto simp: take_Cons split: if_splits nat.splits)

lemma length_collapse_from: "length r \<le> 1 \<Longrightarrow> length (js_runs_from js_ws b r s) \<le> length s"
  by (induction js_ws b r s rule: js_runs_from.induct) auto

subsection \<open>Lower case\<close>

lemma js_lower_char_idem [simp]: "js_lower_char (js_lower_char c) = js_lower_char c"
proof -
  have "(of_char c :: nat) < 256" by (rule nat_of_char_less_256)
  then show ?thesis by (auto simp: js_lower_char_def Let_def)
qed

lemma js_lower_idem [simp, text_simps]: "js_lower (js_lower s) = js_lower s"
  by (simp add: js_lower_def)

lemma length_js_lower [simp]: "length (js_lower s) = length s"
  by (simp add: js_lower_def)

lemma js_lower_nil_iff [simp]: "js_lower s = [] \<longleftrightarrow> s = []"
  by (simp add: js_lower_def)

subsection \<open>Splitting and joining\<close>

lemma js_split_nonempty [simp]: "js_split sep s \<noteq> []"
  by (induction s) (auto split: list.splits)

lemma js_split_no_sep: "w \<in> set (js_split sep s) \<Longrightarrow> sep \<notin> set w"
  by (induction s arbitrary: w) (auto split: list.splits if_splits)

lemma js_split_append_sep: "sep \<notin> set w \<Longrightarrow> js_split sep (w @ sep # s) = w # js_split sep s"
  by (induction w) auto

lemma js_split_word: "sep \<notin> set w \<Longrightarrow> js_split sep w = [w]"
  by (induction w) auto

text \<open>Joining words free of the separator and splitting again gives the words back.\<close>

lemma js_split_join:
  "ws \<noteq> [] \<Longrightarrow> (\<forall>w \<in> set ws. sep \<notin> set w) \<Longrightarrow> js_split sep (js_join [sep] ws) = ws"
  by (induction "[sep]" ws rule: js_join.induct)
    (auto simp: js_split_word js_split_append_sep)

section \<open>Dynamically typed values\<close>

text \<open>
  What an \<open>unknown\<close> argument may be: the values JSON text can denote, \<open>undefined\<close>, and every
  other object (\<open>JExotic\<close>: functions, symbols, objects with a prototype of their own). A number is
  an integer or it is not; of a number that is not an integer the modelled code uses at most its
  integer part, so \<open>Fraction n\<close> is any number strictly between \<open>n\<close> and \<open>n + 1\<close>. The properties of a
  plain object are a list of pairs with distinct names.
\<close>

datatype js_nonint = Fraction int | PosInfinity | NegInfinity | NotANumber

datatype js =
    JUndefined
  | JNull
  | JBool bool
  | JInt int
  | JNonInt js_nonint
  | JStr string
  | JArr "js list"
  | JObj "(string \<times> js) list"
  | JExotic

definition isObjectRecord :: "js \<Rightarrow> bool" where
  "isObjectRecord v = (case v of JObj _ \<Rightarrow> True | _ \<Rightarrow> False)"

definition js_prop :: "js \<Rightarrow> string \<Rightarrow> js" where
  "js_prop v k = (case v of
     JObj ps \<Rightarrow> (case map_of ps k of None \<Rightarrow> JUndefined | Some w \<Rightarrow> w)
   | _ \<Rightarrow> JUndefined)"

definition readTrimmedString :: "js \<Rightarrow> string" where
  "readTrimmedString v = (case v of JStr s \<Rightarrow> js_trim s | _ \<Rightarrow> [])"

text \<open>\<open>Array.isArray(v) ? v : []\<close>\<close>

definition js_elements :: "js \<Rightarrow> js list" where
  "js_elements v = (case v of JArr vs \<Rightarrow> vs | _ \<Rightarrow> [])"

definition js_is_array :: "js \<Rightarrow> bool" where
  "js_is_array v = (case v of JArr _ \<Rightarrow> True | _ \<Rightarrow> False)"

definition readStringArray :: "js \<Rightarrow> string list" where
  "readStringArray v =
     concat (map (\<lambda>x. case x of JStr s \<Rightarrow> [s] | _ \<Rightarrow> []) (js_elements v))"

text \<open>A \<open>string | null\<close> field as a value.\<close>

definition js_nullable :: "string option \<Rightarrow> js" where
  "js_nullable x = (case x of None \<Rightarrow> JNull | Some s \<Rightarrow> JStr s)"

lemma isObjectRecord_obj [simp]: "isObjectRecord (JObj ps)"
  by (simp add: isObjectRecord_def)

lemma isObjectRecord_iff: "isObjectRecord v \<longleftrightarrow> (\<exists>ps. v = JObj ps)"
  by (auto simp: isObjectRecord_def split: js.splits)

lemma readTrimmedString_str [simp]: "readTrimmedString (JStr s) = js_trim s"
  by (simp add: readTrimmedString_def)

lemma readTrimmedString_null [simp]: "readTrimmedString JNull = []"
  by (simp add: readTrimmedString_def)

lemma trimmed_readTrimmedString [simp, intro]: "trimmed (readTrimmedString v)"
  by (cases v) (auto simp: readTrimmedString_def)

lemma js_elements_arr [simp]: "js_elements (JArr vs) = vs"
  by (simp add: js_elements_def)

lemma js_is_array_arr [simp]: "js_is_array (JArr vs)"
  by (simp add: js_is_array_def)

lemma readStringArray_strs [simp]: "readStringArray (JArr (map JStr ss)) = ss"
  by (induction ss) (auto simp: readStringArray_def)

section \<open>Numbers\<close>

text \<open>A number is an integer or one of the others.\<close>

type_synonym js_number = "int + js_nonint"

definition number_js :: "js_number \<Rightarrow> js" where
  "number_js x = (case x of Inl n \<Rightarrow> JInt n | Inr y \<Rightarrow> JNonInt y)"

text \<open>\<open>Math.floor\<close> of a finite number, \<open>None\<close> for the others.\<close>

definition finite_floor :: "js_number \<Rightarrow> int option" where
  "finite_floor x = (case x of Inl n \<Rightarrow> Some n | Inr (Fraction n) \<Rightarrow> Some n | _ \<Rightarrow> None)"

text \<open>\<open>Math.trunc\<close> of a finite number.\<close>

definition finite_trunc :: "js_number \<Rightarrow> int option" where
  "finite_trunc x = (case x of Inl n \<Rightarrow> Some n | Inr (Fraction n) \<Rightarrow> Some (if n < 0 then n + 1 else n) | _ \<Rightarrow> None)"

text \<open>Whether a value counts as true.\<close>

definition js_truthy :: "js \<Rightarrow> bool" where
  "js_truthy v = (case v of
     JUndefined \<Rightarrow> False | JNull \<Rightarrow> False | JBool b \<Rightarrow> b | JInt n \<Rightarrow> n \<noteq> 0
   | JNonInt x \<Rightarrow> x \<noteq> NotANumber | JStr s \<Rightarrow> s \<noteq> [] | _ \<Rightarrow> True)"

section \<open>Results of mutations\<close>

text \<open>\<open>{ ok: true, registry }\<close> or \<open>{ ok: false, registry, error }\<close>.\<close>

datatype ('r, 'e) mutation = Ok 'r | Err 'r 'e

fun result_registry :: "('r, 'e) mutation \<Rightarrow> 'r" where
  "result_registry (Ok r) = r"
| "result_registry (Err r e) = r"

fun is_ok :: "('r, 'e) mutation \<Rightarrow> bool" where
  "is_ok (Ok r) = True"
| "is_ok (Err r e) = False"

section \<open>Lists\<close>

subsection \<open>First match\<close>

lemma find_Some_props: "List.find P xs = Some x \<Longrightarrow> x \<in> set xs \<and> P x"
  by (auto simp: find_Some_iff)

lemma find_None_props: "List.find P xs = None \<longleftrightarrow> (\<forall>x \<in> set xs. \<not> P x)"
  by (auto simp: find_None_iff)

lemma find_key_distinct:
  "distinct (map f xs) \<Longrightarrow> x \<in> set xs \<Longrightarrow> List.find (\<lambda>y. f y = f x) xs = Some x"
  by (induction xs) (auto simp: image_iff)

lemma distinct_map_eq: "distinct (map f xs) \<Longrightarrow> x \<in> set xs \<Longrightarrow> y \<in> set xs \<Longrightarrow> f x = f y \<Longrightarrow> x = y"
  by (auto simp: distinct_map inj_on_def)

subsection \<open>Duplicate removal by a key, first occurrence kept\<close>

fun uniq_by :: "('a \<Rightarrow> 'k) \<Rightarrow> 'k set \<Rightarrow> 'a list \<Rightarrow> 'a list" where
  "uniq_by f seen [] = []"
| "uniq_by f seen (x # xs) =
     (if f x \<in> seen then uniq_by f seen xs else x # uniq_by f (insert (f x) seen) xs)"

lemma uniq_by_subset: "set (uniq_by f S xs) \<subseteq> set xs"
  by (induction f S xs rule: uniq_by.induct) auto

lemma uniq_by_keys [dedup_simps]: "f ` set (uniq_by f S xs) = f ` set xs - S"
  by (induction f S xs rule: uniq_by.induct) auto

lemma distinct_uniq_by [dedup_simps]: "distinct (map f (uniq_by f S xs))"
proof (induction f S xs rule: uniq_by.induct)
  case (2 f S x xs)
  have "f x \<notin> f ` set (uniq_by f (insert (f x) S) xs)" by (simp add: uniq_by_keys)
  with 2 show ?case by simp
qed simp

lemma subseq_uniq_by: "subseq (uniq_by f S xs) xs"
  by (induction f S xs rule: uniq_by.induct) auto

lemma uniq_by_id:
  "distinct (map f xs) \<Longrightarrow> f ` set xs \<inter> S = {} \<Longrightarrow> uniq_by f S xs = xs"
  by (induction f S xs rule: uniq_by.induct) auto

lemma uniq_by_idem: "uniq_by f S (uniq_by f S xs) = uniq_by f S xs"
  by (rule uniq_by_id) (auto simp: dedup_simps)

lemma find_uniq_by: "k \<notin> S \<Longrightarrow> List.find (\<lambda>x. f x = k) (uniq_by f S xs) = List.find (\<lambda>x. f x = k) xs"
  by (induction f S xs rule: uniq_by.induct) auto

subsection \<open>Replacing the records that match\<close>

lemma map_if_key: "(\<And>x. k (g x) = k x) \<Longrightarrow> map k (map (\<lambda>x. if P x then g x else x) xs) = map k xs"
  by simp

text \<open>Giving the one record with a key a new second key that no other record has.\<close>

lemma distinct_map_rekey:
  assumes "distinct (map k xs)" "distinct (map j xs)"
    and "\<And>x. x \<in> set xs \<Longrightarrow> j x \<noteq> i \<Longrightarrow> k x \<noteq> c" and "\<And>x. k (g x) = c"
  shows "distinct (map k (map (\<lambda>x. if j x = i then g x else x) xs))"
  using assms
proof (induction xs)
  case (Cons x xs)
  have other: "k y \<noteq> k x" "j y \<noteq> j x" if "y \<in> set xs" for y
    using Cons.prems(1,2) that by (auto simp: image_iff)
  let ?h = "\<lambda>x. if j x = i then g x else x"
  have "k (?h y) \<noteq> k (?h x)" if "y \<in> set xs" for y
    using other [OF that] Cons.prems(3) [of x] Cons.prems(3) [of y] Cons.prems(4) that by auto
  then have "k (?h x) \<notin> set (map k (map ?h xs))" by (fastforce simp del: map_map)
  moreover have "distinct (map k (map ?h xs))" using Cons by simp
  ultimately show ?case by (simp only: list.map distinct.simps simp_thms)
qed simp

lemma filter_key_distinct: "distinct (map f xs) \<Longrightarrow> distinct (map f (filter P xs))"
  by (rule distinct_map_filter)

end
