(* ===== verification/Project_Text.thy ===== *)
theory Project_Text
  imports Prelude
begin

text \<open>
  Field normalisation of the project registry: the limits of
  \<open>src/lib/projects/project-schema.ts\<close>, the path helpers of
  \<open>src/lib/workspaces/workspace-path-format.ts\<close>, the folder names of
  \<open>src/lib/projects/project-folder-name.ts\<close>, and the normalisers and comparison keys at the end of
  \<open>src/lib/projects/project-registry-normalization.ts\<close>. The URL parser of the platform
  (\<open>new URL(text)\<close>) is the parameter \<open>U\<close>: \<open>None\<close> when it throws.
\<close>

named_theorems normal_simps \<open>field normalisers on fields that are already normal\<close>

section \<open>Limits\<close>

definition WORKDUCK_PROJECT_REGISTRY_VERSION :: int where "WORKDUCK_PROJECT_REGISTRY_VERSION = 1"
definition PROJECT_NAME_MAX_LENGTH :: nat where "PROJECT_NAME_MAX_LENGTH = 80"
definition PROJECT_DESCRIPTION_MAX_LENGTH :: nat where "PROJECT_DESCRIPTION_MAX_LENGTH = 160"
definition PROJECT_NODE_PATH_MAX_LENGTH :: nat where "PROJECT_NODE_PATH_MAX_LENGTH = 1024"
definition PROJECT_TAG_MAX_LENGTH :: nat where "PROJECT_TAG_MAX_LENGTH = 32"
definition PROJECT_TAGS_MAX_COUNT :: nat where "PROJECT_TAGS_MAX_COUNT = 12"
definition PROJECT_REPOSITORY_NAME_MAX_LENGTH :: nat where "PROJECT_REPOSITORY_NAME_MAX_LENGTH = 120"
definition PROJECT_REPOSITORY_PATH_MAX_LENGTH :: nat where "PROJECT_REPOSITORY_PATH_MAX_LENGTH = 1024"
definition PROJECT_REPOSITORY_REMOTE_URL_MAX_LENGTH :: nat where
  "PROJECT_REPOSITORY_REMOTE_URL_MAX_LENGTH = 2048"

lemmas project_limits =
  PROJECT_NAME_MAX_LENGTH_def PROJECT_DESCRIPTION_MAX_LENGTH_def PROJECT_NODE_PATH_MAX_LENGTH_def
  PROJECT_TAG_MAX_LENGTH_def PROJECT_TAGS_MAX_COUNT_def PROJECT_REPOSITORY_NAME_MAX_LENGTH_def
  PROJECT_REPOSITORY_PATH_MAX_LENGTH_def PROJECT_REPOSITORY_REMOTE_URL_MAX_LENGTH_def

section \<open>Paths for storage and display\<close>

abbreviation backslash :: char where "backslash \<equiv> CHR 0x5C"
abbreviation slash :: char where "slash \<equiv> CHR ''/''"

definition WINDOWS_VERBATIM_PATH_PREFIX :: string where
  "WINDOWS_VERBATIM_PATH_PREFIX = [backslash, backslash, CHR ''?'', backslash]"

definition WINDOWS_VERBATIM_UNC_PATH_PREFIX :: string where
  "WINDOWS_VERBATIM_UNC_PATH_PREFIX =
     [backslash, backslash, CHR ''?'', backslash, CHR ''U'', CHR ''N'', CHR ''C'', backslash]"

definition removeWindowsVerbatimPathPrefix :: "string \<Rightarrow> string" where
  "removeWindowsVerbatimPathPrefix path =
     (if js_starts_with path WINDOWS_VERBATIM_UNC_PATH_PREFIX
      then [backslash, backslash] @ drop (length WINDOWS_VERBATIM_UNC_PATH_PREFIX) path
      else if js_starts_with path WINDOWS_VERBATIM_PATH_PREFIX
      then drop (length WINDOWS_VERBATIM_PATH_PREFIX) path
      else path)"

definition normalizeWorkspacePathForStorage :: "string \<Rightarrow> string" where
  "normalizeWorkspacePathForStorage path = removeWindowsVerbatimPathPrefix (js_trim path)"

text \<open>\<open>path.split(/[\\/]+/).filter(Boolean)\<close>: the non-empty words between separators.\<close>

definition path_words :: "string \<Rightarrow> string list" where
  "path_words path = filter (\<lambda>w. w \<noteq> []) (js_split slash (js_replace_char backslash slash path))"

definition getWorkspacePathSeparator :: "string \<Rightarrow> string" where
  "getWorkspacePathSeparator path = (if js_includes path backslash then [backslash] else [slash])"

definition formatWorkspacePathForDisplay :: "string \<Rightarrow> int \<Rightarrow> string" where
  "formatWorkspacePathForDisplay path segmentCount =
     (let normalizedPath = normalizeWorkspacePathForStorage path;
          displaySegmentCount = nat (max 1 segmentCount);
          segments = path_words normalizedPath
      in if length segments \<le> displaySegmentCount then normalizedPath
         else js_join (getWorkspacePathSeparator normalizedPath)
                (drop (length segments - displaySegmentCount) segments))"

section \<open>Folder names\<close>

text \<open>
  \<open>normalize('NFKD')\<close> followed by removal of the combining marks U+0300 to U+036F, on Latin-1: the
  accented letters lose their accent, the compatibility characters become their base text. The
  decompositions of the micro sign and the fraction slash of one quarter, one half and three quarters
  lie outside Latin-1; like every character that is not a letter, a digit or an apostrophe they only
  matter as a separator, and are written as a question mark.
\<close>

definition nfkd_base :: "char \<Rightarrow> string" where
  "nfkd_base c = (let n = (of_char c :: nat) in
     if n = 160 \<or> n = 168 \<or> n = 175 \<or> n = 180 \<or> n = 184 then '' ''
     else if n = 170 then ''a'' else if n = 186 then ''o''
     else if n = 178 then ''2'' else if n = 179 then ''3'' else if n = 185 then ''1''
     else if n = 181 then ''?''
     else if n = 188 then ''1?4'' else if n = 189 then ''1?2'' else if n = 190 then ''3?4''
     else if 192 \<le> n \<and> n \<le> 197 then ''A'' else if n = 199 then ''C''
     else if 200 \<le> n \<and> n \<le> 203 then ''E'' else if 204 \<le> n \<and> n \<le> 207 then ''I''
     else if n = 209 then ''N'' else if 210 \<le> n \<and> n \<le> 214 then ''O''
     else if 217 \<le> n \<and> n \<le> 220 then ''U'' else if n = 221 then ''Y''
     else if 224 \<le> n \<and> n \<le> 229 then ''a'' else if n = 231 then ''c''
     else if 232 \<le> n \<and> n \<le> 235 then ''e'' else if 236 \<le> n \<and> n \<le> 239 then ''i''
     else if n = 241 then ''n'' else if 242 \<le> n \<and> n \<le> 246 then ''o''
     else if 249 \<le> n \<and> n \<le> 252 then ''u'' else if n = 253 \<or> n = 255 then ''y''
     else [c])"

definition is_slug_char :: "char \<Rightarrow> bool" where
  "is_slug_char c = (let n = (of_char c :: nat) in (97 \<le> n \<and> n \<le> 122) \<or> (48 \<le> n \<and> n \<le> 57))"

text \<open>\<open>s.replace(/-+$/gu, '')\<close>\<close>

definition strip_trailing_dashes :: "string \<Rightarrow> string" where
  "strip_trailing_dashes s = rev (dropWhile ((=) CHR ''-'') (rev s))"

definition createProjectFolderNameFromDisplayName :: "string \<Rightarrow> int \<Rightarrow> string" where
  "createProjectFolderNameFromDisplayName displayName maxLength =
     (let normalizedMaxLength = nat (max 1 maxLength);
          trimmedName = js_trim displayName;
          asciiSlug =
            strip_trailing_dashes (js_slice0 normalizedMaxLength (js_strip CHR ''-''
              (js_replace_runs (\<lambda>c. \<not> is_slug_char c) ''-''
                (filter (\<lambda>c. c \<noteq> CHR 0x27)
                  (js_lower (concat (map nfkd_base trimmedName)))))))
      in if asciiSlug \<noteq> [] then asciiSlug
         else (let fallback =
                 strip_trailing_dashes (js_slice0 normalizedMaxLength (js_strip CHR ''-''
                   (js_collapse_ws ''-''
                     (js_replace_runs (\<lambda>c. c = backslash \<or> c = slash) ''-'' trimmedName))))
               in if fallback = [] then ''untitled'' else fallback))"

section \<open>Text fields and tags\<close>

definition normalizeProjectName :: "string \<Rightarrow> string" where
  "normalizeProjectName value = js_slice0 PROJECT_NAME_MAX_LENGTH (js_collapse_ws '' '' (js_trim value))"

definition normalizeProjectDescription :: "string \<Rightarrow> string" where
  "normalizeProjectDescription value =
     js_slice0 PROJECT_DESCRIPTION_MAX_LENGTH (js_collapse_ws '' '' (js_trim value))"

definition normalizeRepositoryName :: "string \<Rightarrow> string" where
  "normalizeRepositoryName value =
     js_slice0 PROJECT_REPOSITORY_NAME_MAX_LENGTH (js_collapse_ws '' '' (js_trim value))"

definition createNameKey :: "string \<Rightarrow> string" where
  "createNameKey name = js_lower name"

definition normalize_tag :: "string \<Rightarrow> string" where
  "normalize_tag value =
     js_slice0 PROJECT_TAG_MAX_LENGTH
       (js_collapse_ws ''-'' (dropWhile ((=) CHR ''#'') (js_trim value)))"

text \<open>The loop of \<open>normalizeProjectTags\<close>, which stops once it has collected twelve tags.\<close>

fun normalizeProjectTags_from :: "string list \<Rightarrow> string set \<Rightarrow> string list \<Rightarrow> string list" where
  "normalizeProjectTags_from tags tagKeys [] = tags"
| "normalizeProjectTags_from tags tagKeys (value # values) =
     (let tag = normalize_tag value;
          tagKey = createNameKey tag
      in if tag = [] \<or> tagKey \<in> tagKeys then normalizeProjectTags_from tags tagKeys values
         else let tags' = tags @ [tag] in
              if length tags' \<ge> PROJECT_TAGS_MAX_COUNT then tags'
              else normalizeProjectTags_from tags' (insert tagKey tagKeys) values)"

definition normalizeProjectTags :: "string list \<Rightarrow> string list" where
  "normalizeProjectTags values = normalizeProjectTags_from [] {} values"

definition normalizeRecordId :: "js \<Rightarrow> string option" where
  "normalizeRecordId value = (let i = readTrimmedString value in if i = [] then None else Some i)"

section \<open>Project paths\<close>

definition normalizeProjectPath :: "string \<Rightarrow> string" where
  "normalizeProjectPath value =
     (let trimmedPath = js_strip slash (js_replace_char backslash slash (js_trim value)) in
      if trimmedPath = [] then []
      else (let segments = filter (\<lambda>w. w \<noteq> []) (js_split slash trimmedPath) in
        if length segments < 2 \<or> segments ! 0 \<noteq> ''projects'' \<or>
           (\<exists>w \<in> set segments. w = ''.'' \<or> w = ''..'')
        then []
        else js_slice0 PROJECT_NODE_PATH_MAX_LENGTH (js_join ''/'' segments)))"

definition createProjectPathKey :: "string \<Rightarrow> string" where
  "createProjectPathKey path = js_lower (normalizeProjectPath path)"

definition createDefaultProjectPath :: "string option \<Rightarrow> string \<Rightarrow> string" where
  "createDefaultProjectPath parentPath name =
     (let segment = createProjectFolderNameFromDisplayName name (int PROJECT_NAME_MAX_LENGTH) in
      (case parentPath of
         None \<Rightarrow> ''projects/'' @ segment
       | Some p \<Rightarrow> p @ ''/'' @ segment))"

section \<open>Repository paths and remote URLs\<close>

record url_parts =
  url_protocol :: string
  url_hostname :: string
  url_pathname :: string
  url_username :: string
  url_password :: string

type_synonym url_parser = "string \<Rightarrow> url_parts option"

definition normalizeRepositoryPath :: "string \<Rightarrow> string" where
  "normalizeRepositoryPath value =
     js_slice0 PROJECT_REPOSITORY_PATH_MAX_LENGTH (normalizeWorkspacePathForStorage value)"

definition createRepositoryPathKey :: "string \<Rightarrow> string" where
  "createRepositoryPathKey path =
     js_lower (js_replace_char backslash slash (normalizeRepositoryPath path))"

definition hasControlCharacter :: "string \<Rightarrow> bool" where
  "hasControlCharacter value = (\<exists>c \<in> set value. (of_char c :: nat) < 32 \<or> (of_char c :: nat) = 127)"

definition isValidRepositoryUrlWithScheme :: "url_parser \<Rightarrow> string \<Rightarrow> bool" where
  "isValidRepositoryUrlWithScheme U remoteUrl =
     (case U remoteUrl of
        None \<Rightarrow> False
      | Some url \<Rightarrow>
          (let allowedProtocol = (url_protocol url \<in> {''https:'', ''http:'', ''ssh:'', ''git:''}) in
           if \<not> allowedProtocol \<or> url_hostname url = [] \<or> length (url_pathname url) \<le> 1 then False
           else if (url_protocol url = ''https:'' \<or> url_protocol url = ''http:'') \<and>
                   (url_username url \<noteq> [] \<or> url_password url \<noteq> []) then False
           else True))"

text \<open>\<open>s.indexOf(c)\<close>, with \<open>None\<close> for \<open>-1\<close>.\<close>

definition js_index_of :: "string \<Rightarrow> char \<Rightarrow> nat option" where
  "js_index_of s c = (if c \<in> set s then Some (length (takeWhile (\<lambda>x. x \<noteq> c) s)) else None)"

definition isValidScpLikeRepositoryUrl :: "string \<Rightarrow> bool" where
  "isValidScpLikeRepositoryUrl remoteUrl =
     (case js_index_of remoteUrl CHR '':'' of
        None \<Rightarrow> False
      | Some separatorIndex \<Rightarrow>
          if separatorIndex = 0 \<or> separatorIndex = length remoteUrl - 1 then False
          else (let authority = take separatorIndex remoteUrl;
                    path = drop (separatorIndex + 1) remoteUrl
                in (case js_index_of authority CHR ''@'' of
                      None \<Rightarrow> False
                    | Some atIndex \<Rightarrow>
                        if atIndex = 0 \<or> atIndex = length authority - 1 then False
                        else \<not> js_starts_with path ''/'' \<and> path \<noteq> [] \<and> \<not> js_includes authority slash)))"

definition isValidRepositoryRemoteUrl :: "url_parser \<Rightarrow> string \<Rightarrow> bool" where
  "isValidRepositoryRemoteUrl U remoteUrl =
     (if remoteUrl = [] \<or> length remoteUrl > PROJECT_REPOSITORY_REMOTE_URL_MAX_LENGTH then False
      else if (\<exists>c \<in> set remoteUrl. js_ws c) \<or> hasControlCharacter remoteUrl then False
      else if sublist ''://'' remoteUrl then isValidRepositoryUrlWithScheme U remoteUrl
      else isValidScpLikeRepositoryUrl remoteUrl)"

definition normalizeRepositoryRemoteUrl :: "url_parser \<Rightarrow> string \<Rightarrow> string" where
  "normalizeRepositoryRemoteUrl U value =
     (let trimmedUrl = js_slice0 PROJECT_REPOSITORY_REMOTE_URL_MAX_LENGTH (js_trim value) in
      if isValidRepositoryRemoteUrl U trimmedUrl then trimmedUrl else [])"

text \<open>\<open>s.replace(/\.git$/iu, '')\<close>\<close>

definition drop_git_suffix :: "string \<Rightarrow> string" where
  "drop_git_suffix s =
     (if length s \<ge> 4 \<and> js_lower (drop (length s - 4) s) = ''.git'' then take (length s - 4) s else s)"

definition createRepositoryRemoteUrlKey :: "url_parser \<Rightarrow> string \<Rightarrow> string" where
  "createRepositoryRemoteUrlKey U remoteUrl =
     js_lower (drop_git_suffix (normalizeRepositoryRemoteUrl U remoteUrl))"

text \<open>
  Laws of the text normalisers of the project registry: what a normalised tag list, URL or name looks
  like, and that normalising it again changes nothing.
\<close>

section \<open>Tags\<close>

lemma runs_no_ws: "\<forall>c \<in> set r. \<not> P c \<Longrightarrow> c \<in> set (js_runs_from P b r s) \<Longrightarrow> \<not> P c"
  by (induction P b r s rule: js_runs_from.induct) (auto split: if_splits)

lemma runs_id: "\<forall>c \<in> set s. \<not> P c \<Longrightarrow> js_runs_from P b r s = s"
  by (induction P b r s rule: js_runs_from.induct) auto

lemma trimmed_no_ws: "\<forall>c \<in> set s. \<not> js_ws c \<Longrightarrow> trimmed s"
  by (cases s) (auto simp: trimmed_def)

definition tag_text :: "string \<Rightarrow> bool" where
  "tag_text t \<longleftrightarrow> length t \<le> PROJECT_TAG_MAX_LENGTH \<and> (\<forall>c \<in> set t. \<not> js_ws c) \<and>
     (t = [] \<or> hd t \<noteq> CHR ''#'')"

lemma runs_hd: "js_runs_from P b [d] s \<noteq> [] \<Longrightarrow>
   hd (js_runs_from P b [d] s) = d \<or> hd (js_runs_from P b [d] s) = hd (dropWhile (\<lambda>c. b \<and> P c) s)"
  by (induction P b "[d]" s rule: js_runs_from.induct) (auto split: if_splits)

lemma tag_text_normalize_tag: "tag_text (normalize_tag v)"
proof -
  let ?s = "dropWhile ((=) CHR ''#'') (js_trim v)"
  let ?r = "js_runs_from js_ws False ''-'' ?s"
  have ws: "\<not> js_ws (CHR ''-'')" by (simp add: js_ws_def)
  have no: "\<forall>c \<in> set ?r. \<not> js_ws c" using runs_no_ws [of "''-''" js_ws] ws by simp
  have hd: "hd ?r \<noteq> CHR ''#''" if "?r \<noteq> []"
  proof -
    have "?s \<noteq> []" using that by (metis js_runs_from.simps(1))
    then have "hd ?s \<noteq> CHR ''#''" using hd_dropWhile [of "(=) CHR ''#''" "js_trim v"] by metis
    moreover have "dropWhile (\<lambda>c. False \<and> js_ws c) ?s = ?s" by (simp add: dropWhile_eq_self_iff)
    moreover have "CHR ''-'' \<noteq> CHR ''#''" by simp
    ultimately show ?thesis using runs_hd [OF that] by argo
  qed
  have "normalize_tag v = take PROJECT_TAG_MAX_LENGTH ?r"
    by (simp only: normalize_tag_def js_slice0_def js_collapse_ws_def js_replace_runs_def)
  moreover have "\<forall>c \<in> set (take PROJECT_TAG_MAX_LENGTH ?r). \<not> js_ws c" using no by (blast dest: in_set_takeD)
  moreover have "hd (take PROJECT_TAG_MAX_LENGTH ?r) \<noteq> CHR ''#''" if t: "take PROJECT_TAG_MAX_LENGTH ?r \<noteq> []"
  proof -
    from t have "?r \<noteq> []" "0 < PROJECT_TAG_MAX_LENGTH" by auto
    then have "hd (take PROJECT_TAG_MAX_LENGTH ?r) = hd ?r" by (metis hd_take)
    then show ?thesis using hd [OF \<open>?r \<noteq> []\<close>] by simp
  qed
  ultimately show ?thesis unfolding tag_text_def by (simp only:) (metis length_take min.cobounded2)
qed

lemma normalize_tag_id: "tag_text t \<Longrightarrow> normalize_tag t = t"
  by (cases t) (auto simp: tag_text_def normalize_tag_def js_slice0_def js_collapse_ws_def js_replace_runs_def
      js_trim_trimmed trimmed_no_ws runs_id)

text \<open>The loop with its early exit is a map, a filter, a removal of duplicates and a cut.\<close>

lemma normalizeProjectTags_from_eq:
  "length tags < PROJECT_TAGS_MAX_COUNT \<Longrightarrow>
   normalizeProjectTags_from tags keys vs =
     take PROJECT_TAGS_MAX_COUNT (tags @ uniq_by createNameKey keys (filter (\<lambda>t. t \<noteq> []) (map normalize_tag vs)))"
proof (induction tags keys vs rule: normalizeProjectTags_from.induct)
  case (2 tags keys v vs)
  have "take (PROJECT_TAGS_MAX_COUNT - length tags) (t # ts) = [t]"
    if "PROJECT_TAGS_MAX_COUNT \<le> Suc (length tags)" for t and ts :: "string list"
  proof -
    have "PROJECT_TAGS_MAX_COUNT - length tags = Suc 0" using that "2.prems" by simp
    then show ?thesis by simp
  qed
  then show ?case using 2 by (auto simp: Let_def)
qed simp

lemma normalizeProjectTags_eq:
  "normalizeProjectTags vs =
     take PROJECT_TAGS_MAX_COUNT (uniq_by createNameKey {} (filter (\<lambda>t. t \<noteq> []) (map normalize_tag vs)))"
  unfolding normalizeProjectTags_def
  by (subst normalizeProjectTags_from_eq) (simp_all add: PROJECT_TAGS_MAX_COUNT_def)

definition tag_list :: "string list \<Rightarrow> bool" where
  "tag_list ts \<longleftrightarrow> length ts \<le> PROJECT_TAGS_MAX_COUNT \<and> (\<forall>t \<in> set ts. tag_text t \<and> t \<noteq> []) \<and>
     distinct (map createNameKey ts)"

lemma tag_list_normalizeProjectTags: "tag_list (normalizeProjectTags vs)"
proof -
  let ?u = "uniq_by createNameKey {} (filter (\<lambda>t. t \<noteq> []) (map normalize_tag vs))"
  have "set ?u \<subseteq> set (filter (\<lambda>t. t \<noteq> []) (map normalize_tag vs))" by (rule uniq_by_subset)
  then have "\<forall>t \<in> set ?u. tag_text t \<and> t \<noteq> []" using tag_text_normalize_tag by auto
  then have "\<forall>t \<in> set (take PROJECT_TAGS_MAX_COUNT ?u). tag_text t \<and> t \<noteq> []" by (blast dest: in_set_takeD)
  moreover have "distinct (map createNameKey (take PROJECT_TAGS_MAX_COUNT ?u))"
    unfolding take_map [symmetric] by (intro distinct_take distinct_uniq_by)
  moreover have "length (take PROJECT_TAGS_MAX_COUNT ?u) \<le> PROJECT_TAGS_MAX_COUNT" by simp
  ultimately show ?thesis unfolding tag_list_def normalizeProjectTags_eq by blast
qed

lemma normalizeProjectTags_id:
  assumes "tag_list ts" shows "normalizeProjectTags ts = ts"
proof -
  have "map normalize_tag ts = ts" using assms by (auto simp: tag_list_def normalize_tag_id intro: map_idI)
  moreover have "filter (\<lambda>t. t \<noteq> []) ts = ts" using assms by (auto simp: tag_list_def)
  moreover have "uniq_by createNameKey {} ts = ts" using assms by (intro uniq_by_id) (auto simp: tag_list_def)
  ultimately show ?thesis using assms by (simp add: normalizeProjectTags_eq tag_list_def)
qed

section \<open>Remote URLs\<close>

lemma valid_url_no_ws: "isValidRepositoryRemoteUrl U s \<Longrightarrow> \<forall>c \<in> set s. \<not> js_ws c"
  by (auto simp: isValidRepositoryRemoteUrl_def split: if_splits)

lemma normalizeRepositoryRemoteUrl_valid:
  assumes "isValidRepositoryRemoteUrl U s" shows "normalizeRepositoryRemoteUrl U s = s"
proof -
  have "length s \<le> PROJECT_REPOSITORY_REMOTE_URL_MAX_LENGTH" using assms
    by (auto simp: isValidRepositoryRemoteUrl_def split: if_splits)
  then show ?thesis using assms trimmed_no_ws [OF valid_url_no_ws [OF assms]]
    by (simp add: normalizeRepositoryRemoteUrl_def js_trim_trimmed js_slice0_def)
qed

lemma normalizeRepositoryRemoteUrl_cases:
  "normalizeRepositoryRemoteUrl U v = [] \<or> isValidRepositoryRemoteUrl U (normalizeRepositoryRemoteUrl U v)"
  by (simp add: normalizeRepositoryRemoteUrl_def Let_def)

lemma normalizeRepositoryRemoteUrl_idem:
  "normalizeRepositoryRemoteUrl U (normalizeRepositoryRemoteUrl U v) = normalizeRepositoryRemoteUrl U v"
  using normalizeRepositoryRemoteUrl_cases [of U v]
  by (auto simp: normalizeRepositoryRemoteUrl_valid)
     (simp add: normalizeRepositoryRemoteUrl_def js_slice0_def isValidRepositoryRemoteUrl_def)

section \<open>Names\<close>

lemma name_collapsed: "collapsed (normalizeProjectName s)"
  by (simp add: normalizeProjectName_def js_slice0_def collapsed_from_take)

end
