(* ===== verification/Scheduler.thy ===== *)
theory Scheduler
  imports Prelude "HOL-Library.Multiset"
begin

text \<open>
  The index scheduler of \<open>src/lib/projects/project-registry-normalization.ts\<close>: a binary min-heap in
  an array (\<open>pushScheduledNode\<close>, \<open>popScheduledNode\<close>). The locale \<open>min_queue\<close> is what the hierarchy
  traversal relies on; the array heap is interpreted as one at the end.
\<close>

section \<open>The interface of a minimum queue\<close>

locale min_queue =
  fixes push :: "'q \<Rightarrow> 'a::linorder \<Rightarrow> 'q"
    and pop :: "'q \<Rightarrow> ('a \<times> 'q) option"
    and invar :: "'q \<Rightarrow> bool"
    and content :: "'q \<Rightarrow> 'a multiset"
  assumes content_push: "invar q \<Longrightarrow> content (push q x) = add_mset x (content q)"
    and invar_push: "invar q \<Longrightarrow> invar (push q x)"
    and pop_None: "invar q \<Longrightarrow> pop q = None \<longleftrightarrow> content q = {#}"
    and content_pop: "invar q \<Longrightarrow> pop q = Some (x, q') \<Longrightarrow> content q = add_mset x (content q')"
    and invar_pop: "invar q \<Longrightarrow> pop q = Some (x, q') \<Longrightarrow> invar q'"
    and pop_least: "invar q \<Longrightarrow> pop q = Some (x, q') \<Longrightarrow> y \<in># content q' \<Longrightarrow> x \<le> y"
begin

text \<open>Pushing the elements of a list one after the other.\<close>

lemma invar_fold_push: "invar q \<Longrightarrow> invar (fold (\<lambda>x q. push q x) xs q)"
  by (induction xs arbitrary: q) (auto simp: invar_push)

lemma content_fold_push:
  "invar q \<Longrightarrow> content (fold (\<lambda>x q. push q x) xs q) = mset xs + content q"
  by (induction xs arbitrary: q) (auto simp: invar_push content_push)

lemma pop_member: "invar q \<Longrightarrow> pop q = Some (x, q') \<Longrightarrow> x \<in># content q"
  by (simp add: content_pop)

lemma size_pop: "invar q \<Longrightarrow> pop q = Some (x, q') \<Longrightarrow> size (content q) = Suc (size (content q'))"
  by (simp add: content_pop)

end

section \<open>The array heap\<close>

text \<open>The loop of \<open>pushScheduledNode\<close>: larger ancestors move down into the free position.\<close>

fun sift_up :: "nat list \<Rightarrow> nat \<Rightarrow> nat \<Rightarrow> nat list" where
  "sift_up indexes position value =
     (if position > 0 then
        let parent = (position - 1) div 2 in
        if indexes ! parent \<le> value then indexes[position := value]
        else sift_up (indexes[position := indexes ! parent]) parent value
      else indexes[position := value])"

declare sift_up.simps [simp del]

definition pushScheduledNode :: "nat list \<Rightarrow> nat \<Rightarrow> nat list" where
  "pushScheduledNode indexes value = sift_up (indexes @ [value]) (length indexes) value"

text \<open>The loop of \<open>popScheduledNode\<close>: smaller children move up into the free position.\<close>

function sift_down :: "nat list \<Rightarrow> nat \<Rightarrow> nat \<Rightarrow> nat list" where
  "sift_down indexes position last_value =
     (if position * 2 + 1 < length indexes then
        let left = position * 2 + 1;
            right = left + 1;
            child = (if right < length indexes \<and> indexes ! right < indexes ! left then right else left)
        in if last_value \<le> indexes ! child then indexes[position := last_value]
           else sift_down (indexes[position := indexes ! child]) child last_value
      else indexes[position := last_value])"
  by pat_completeness auto
termination
  by (relation "measure (\<lambda>(xs, p, v). length xs - p)") (auto simp: Let_def split: if_splits)

declare sift_down.simps [simp del]

text \<open>\<open>popScheduledNode\<close> returns \<open>undefined\<close> on an empty array: \<open>None\<close>.\<close>

definition popScheduledNode :: "nat list \<Rightarrow> (nat \<times> nat list) option" where
  "popScheduledNode indexes =
     (case indexes of
        [] \<Rightarrow> None
      | first # _ \<Rightarrow>
          (let rest = butlast indexes in
           Some (first, if rest \<noteq> [] then sift_down rest 0 (last indexes) else rest)))"

section \<open>Heap order\<close>

definition parent_of :: "nat \<Rightarrow> nat" where
  "parent_of i = (i - 1) div 2"

definition smaller_child :: "nat list \<Rightarrow> nat \<Rightarrow> nat" where
  "smaller_child h p = (if 2 * p + 2 < length h \<and> h ! (2 * p + 2) < h ! (2 * p + 1) then 2 * p + 2 else 2 * p + 1)"

definition heap_ordered :: "nat list \<Rightarrow> bool" where
  "heap_ordered h \<longleftrightarrow> (\<forall>i < length h. 0 < i \<longrightarrow> h ! parent_of i \<le> h ! i)"

text \<open>
  While sifting, the heap with the value written into the free position is ordered except at that
  position: towards its parent when sifting up, towards its children when sifting down.
\<close>

definition bridged :: "nat list \<Rightarrow> nat \<Rightarrow> bool" where
  "bridged H p \<longleftrightarrow> (\<forall>c < length H. 0 < p \<longrightarrow> 0 < c \<longrightarrow> parent_of c = p \<longrightarrow> H ! parent_of p \<le> H ! c)"

definition up_ordered :: "nat list \<Rightarrow> nat \<Rightarrow> bool" where
  "up_ordered H p \<longleftrightarrow> (\<forall>i < length H. 0 < i \<longrightarrow> i \<noteq> p \<longrightarrow> H ! parent_of i \<le> H ! i) \<and> bridged H p"

definition down_ordered :: "nat list \<Rightarrow> nat \<Rightarrow> bool" where
  "down_ordered H p \<longleftrightarrow>
     (\<forall>i < length H. 0 < i \<longrightarrow> parent_of i \<noteq> p \<longrightarrow> H ! parent_of i \<le> H ! i) \<and> bridged H p"

lemma parent_less: "0 < i \<Longrightarrow> parent_of i < i"
  unfolding parent_of_def by linarith

lemma parent_of_iff: "0 < i \<Longrightarrow> parent_of i = p \<longleftrightarrow> i = 2 * p + 1 \<or> i = 2 * p + 2"
  unfolding parent_of_def by presburger

lemma smaller_child_bounds:
  "2 * p + 1 < length h \<Longrightarrow> smaller_child h p < length h \<and> p < smaller_child h p"
  by (auto simp: smaller_child_def)

lemma parent_smaller_child [simp]: "parent_of (smaller_child h p) = p"
  by (auto simp: smaller_child_def parent_of_def)

lemma smaller_child_least:
  "0 < c \<Longrightarrow> c < length h \<Longrightarrow> parent_of c = p \<Longrightarrow> h ! smaller_child h p \<le> h ! c"
  by (auto simp: smaller_child_def parent_of_iff)

lemma sift_up_stop:
  "p = 0 \<or> h ! parent_of p \<le> v \<Longrightarrow> sift_up h p v = h[p := v]"
  by (subst sift_up.simps) (auto simp: Let_def parent_of_def)

lemma sift_up_move:
  "0 < p \<Longrightarrow> v < h ! parent_of p \<Longrightarrow>
   sift_up h p v = sift_up (h[p := h ! parent_of p]) (parent_of p) v"
  by (subst sift_up.simps) (simp add: Let_def parent_of_def)

lemma sift_down_stop:
  "length h \<le> 2 * p + 1 \<or> v \<le> h ! smaller_child h p \<Longrightarrow> sift_down h p v = h[p := v]"
  by (subst sift_down.simps) (auto simp: Let_def smaller_child_def mult.commute)

lemma sift_down_move:
  "2 * p + 1 < length h \<Longrightarrow> h ! smaller_child h p < v \<Longrightarrow>
   sift_down h p v = sift_down (h[p := h ! smaller_child h p]) (smaller_child h p) v"
  by (subst sift_down.simps) (auto simp: Let_def smaller_child_def mult.commute)

lemma length_sift_down [simp]: "length (sift_down h p v) = length h"
  by (induction h p v rule: sift_down.induct) (subst sift_down.simps, simp add: Let_def)

text \<open>Moving the value into another position, and that position's old entry into the free one, is a
  transposition.\<close>

lemma mset_move:
  assumes "p < length h" "q < length h" "p \<noteq> q"
  shows "mset (h[p := h ! q, q := v]) = mset (h[p := v])"
proof -
  let ?H = "h[p := v]"
  have "h[p := h ! q, q := v] = ?H[p := ?H ! q, q := ?H ! p]"
    using assms by simp
  then show ?thesis using mset_swap [of q ?H p] assms by simp
qed

lemma up_ordered_stop:
  assumes "up_ordered H p" "p = 0 \<or> H ! parent_of p \<le> H ! p"
  shows "heap_ordered H"
  using assms unfolding heap_ordered_def up_ordered_def by blast

lemma up_ordered_move:
  assumes up: "up_ordered (h[p := v]) p" and p: "0 < p" "p < length h" and v: "v < h ! parent_of p"
  shows "up_ordered (h[p := h ! parent_of p, parent_of p := v]) (parent_of p)"
proof -
  let ?q = "parent_of p" and ?H = "h[p := v]"
  let ?H' = "h[p := h ! ?q, ?q := v]"
  have qp: "?q < p" using p by (simp add: parent_less)
  have a: "?H ! parent_of i \<le> h ! i" if "i < length h" "0 < i" "i \<noteq> p" for i
    using up that unfolding up_ordered_def by (metis length_list_update nth_list_update_neq)
  have b: "h ! ?q \<le> h ! c" if "c < length h" "0 < c" "parent_of c = p" for c
    using up that p qp parent_less [of c] unfolding up_ordered_def bridged_def
    by (metis length_list_update nat_less_le nth_list_update_neq)
  have upper: "h ! parent_of ?q \<le> h ! ?q" if "0 < ?q"
    using a [of ?q] qp p that parent_less [of ?q] by simp
  have "?H' ! parent_of i \<le> ?H' ! i" if "i < length h" "0 < i" "i \<noteq> ?q" for i
    using a [of i] b [of i] that v qp p by (cases "i = p"; cases "parent_of i = p"; cases "parent_of i = ?q") auto
  moreover have "?H' ! parent_of ?q \<le> ?H' ! c" if "c < length h" "0 < ?q" "0 < c" "parent_of c = ?q" for c
    using a [of c] that qp p upper parent_less [of c] parent_less [of ?q] by (cases "c = p") auto
  ultimately show ?thesis by (simp add: up_ordered_def bridged_def)
qed

lemma down_ordered_stop:
  assumes "down_ordered H p" "\<And>c. c < length H \<Longrightarrow> 0 < c \<Longrightarrow> parent_of c = p \<Longrightarrow> H ! p \<le> H ! c"
  shows "heap_ordered H"
  using assms unfolding heap_ordered_def down_ordered_def by metis

lemma down_ordered_move:
  assumes down: "down_ordered (h[p := v]) p" and child: "2 * p + 1 < length h"
    and v: "h ! smaller_child h p < v"
  shows "down_ordered (h[p := h ! smaller_child h p, smaller_child h p := v]) (smaller_child h p)"
proof -
  let ?q = "smaller_child h p"
  let ?H' = "h[p := h ! ?q, ?q := v]"
  have q: "?q < length h" "p < ?q" using child by (simp_all add: smaller_child_bounds)
  have a: "h[p := v] ! parent_of i \<le> h[p := v] ! i" if "i < length h" "0 < i" "parent_of i \<noteq> p" for i
    using down that unfolding down_ordered_def by simp
  have b: "h ! parent_of p \<le> h ! c" if "c < length h" "0 < c" "0 < p" "parent_of c = p" for c
    using down that parent_less [of p] parent_less [of c] unfolding down_ordered_def bridged_def
    by (metis length_list_update nat_less_le nth_list_update_neq)
  have least: "h ! ?q \<le> h ! c" if "c < length h" "0 < c" "parent_of c = p" for c
    using that by (intro smaller_child_least) auto
  have "?H' ! parent_of i \<le> ?H' ! i" if i: "i < length h" "0 < i" "parent_of i \<noteq> ?q" for i
  proof -
    consider "i = ?q" | "i \<noteq> ?q" "parent_of i = p" | "i = p" | "i \<noteq> ?q" "i \<noteq> p" "parent_of i \<noteq> p"
      by blast
    then show ?thesis
    proof cases
      case 1 then show ?thesis using q v by simp
    next
      case 2 then show ?thesis using q i least [of i] parent_less [of i] by simp
    next
      case 3 then show ?thesis using q i b [of ?q] parent_less [of p] by simp
    next
      case 4 then show ?thesis using q i a [of i] by simp
    qed
  qed
  moreover have "?H' ! parent_of ?q \<le> ?H' ! c" if "c < length h" "0 < c" "parent_of c = ?q" for c
    using a [of c] q that parent_less [of c] by simp
  ultimately show ?thesis by (simp add: down_ordered_def bridged_def)
qed

text \<open>Both loops keep the elements and end in an ordered heap.\<close>

lemma sift_up_correct:
  assumes "p < length h" "up_ordered (h[p := v]) p"
  shows "heap_ordered (sift_up h p v) \<and> mset (sift_up h p v) = mset (h[p := v])"
  using assms
proof (induction p arbitrary: h rule: less_induct)
  case (less p)
  show ?case
  proof (cases "p = 0 \<or> h ! parent_of p \<le> v")
    case True
    have "p = 0 \<or> h[p := v] ! parent_of p \<le> h[p := v] ! p"
      using less.prems(1) True parent_less [of p] by (cases "p = 0") auto
    with less.prems(2) have "heap_ordered (h[p := v])" by (rule up_ordered_stop)
    with True show ?thesis by (simp add: sift_up_stop)
  next
    case False
    let ?q = "parent_of p"
    have q: "?q < p" using False by (simp add: parent_less)
    with False less show ?thesis
      by (simp add: sift_up_move mset_move up_ordered_move)
  qed
qed

lemma sift_down_correct:
  assumes "p < length h" "down_ordered (h[p := v]) p"
  shows "heap_ordered (sift_down h p v) \<and> mset (sift_down h p v) = mset (h[p := v])"
  using assms
proof (induction "length h - p" arbitrary: h p rule: less_induct)
  case less
  let ?q = "smaller_child h p"
  show ?case
  proof (cases "length h \<le> 2 * p + 1 \<or> v \<le> h ! ?q")
    case True
    have "heap_ordered (h[p := v])"
    proof (rule down_ordered_stop [OF less.prems(2)])
      fix c assume c: "c < length (h[p := v])" "0 < c" "parent_of c = p"
      then have "2 * p + 1 < length h" and "p < c" by (auto simp: parent_of_iff)
      with True c smaller_child_least [of c h p] show "h[p := v] ! p \<le> h[p := v] ! c"
        using less.prems(1) by simp
    qed
    with True show ?thesis by (simp add: sift_down_stop)
  next
    case False
    then have q: "?q < length h" "p < ?q" by (simp_all add: smaller_child_bounds)
    with False less show ?thesis
      by (simp add: sift_down_move mset_move down_ordered_move diff_less_mono2)
  qed
qed

lemma heap_root_least: "heap_ordered h \<Longrightarrow> i < length h \<Longrightarrow> h ! 0 \<le> h ! i"
proof (induction i rule: less_induct)
  case (less i)
  show ?case
  proof (cases "i = 0")
    case False
    then have "h ! 0 \<le> h ! parent_of i" using less by (simp add: parent_less less_trans)
    also have "\<dots> \<le> h ! i" using less.prems False by (simp add: heap_ordered_def)
    finally show ?thesis .
  qed simp
qed

section \<open>The scheduler is a minimum queue\<close>

lemma pushScheduledNode_correct:
  assumes "heap_ordered h"
  shows "heap_ordered (pushScheduledNode h v) \<and> mset (pushScheduledNode h v) = add_mset v (mset h)"
proof -
  have "up_ordered (h @ [v]) (length h)"
    unfolding up_ordered_def bridged_def
  proof (intro conjI allI impI)
    fix i assume i: "i < length (h @ [v])" "0 < i" "i \<noteq> length h"
    then have "i < length h" by simp
    with i assms parent_less [of i] show "(h @ [v]) ! parent_of i \<le> (h @ [v]) ! i"
      by (simp add: nth_append heap_ordered_def)
  next
    fix c assume "c < length (h @ [v])" "0 < c" "parent_of c = length h"
    then show "(h @ [v]) ! parent_of (length h) \<le> (h @ [v]) ! c"
      using parent_less [of c] by simp
  qed
  then show ?thesis
    using sift_up_correct [of "length h" "h @ [v]" v] by (simp add: pushScheduledNode_def)
qed

lemma popScheduledNode_correct:
  assumes "heap_ordered h" "popScheduledNode h = Some (x, h')"
  shows "heap_ordered h' \<and> mset h = add_mset x (mset h') \<and> x = h ! 0"
proof (cases "butlast h = []")
  case True
  with assms(2) show ?thesis
    by (cases h) (auto simp: popScheduledNode_def Let_def heap_ordered_def split: if_splits)
next
  case False
  let ?r = "butlast h" and ?v = "last h"
  have len: "0 < length ?r" using False by (metis length_greater_0_conv)
  have h: "h \<noteq> []" "x = h ! 0" "h' = sift_down ?r 0 ?v"
    using assms(2) False by (auto simp: popScheduledNode_def Let_def split: list.splits)
  have "down_ordered (?r[0 := ?v]) 0"
    unfolding down_ordered_def bridged_def
  proof (intro conjI allI impI)
    fix i assume i: "i < length (?r[0 := ?v])" "0 < i" "parent_of i \<noteq> 0"
    then have "parent_of i < length ?r" using parent_less [of i] by simp
    with i assms(1) show "?r[0 := ?v] ! parent_of i \<le> ?r[0 := ?v] ! i"
      by (simp add: nth_butlast heap_ordered_def)
  qed simp
  then have "heap_ordered h'" and m: "mset h' = mset (?r[0 := ?v])"
    using sift_down_correct [OF len, of ?v] h(3) by simp_all
  have "mset h = mset ?r + {#?v#}"
    using h(1) by (metis append_butlast_last_id mset.simps mset_append)
  moreover have "mset (?r[0 := ?v]) = add_mset ?v (mset ?r - {#?r ! 0#})"
    using len by (rule mset_update)
  moreover have "?r ! 0 = x" using len h by (simp add: nth_butlast)
  moreover have "?r ! 0 \<in># mset ?r" using len by (metis nth_mem set_mset_mset)
  ultimately show ?thesis using \<open>heap_ordered h'\<close> m h by simp
qed

interpretation sched: min_queue pushScheduledNode popScheduledNode heap_ordered mset
proof unfold_locales
  fix q q' :: "nat list" and x y :: nat
  show "heap_ordered q \<Longrightarrow> mset (pushScheduledNode q x) = add_mset x (mset q)"
    and "heap_ordered q \<Longrightarrow> heap_ordered (pushScheduledNode q x)"
    by (simp_all add: pushScheduledNode_correct)
  show "popScheduledNode q = None \<longleftrightarrow> mset q = {#}"
    by (simp add: popScheduledNode_def Let_def split: list.splits)
  assume q: "heap_ordered q" "popScheduledNode q = Some (x, q')"
  show "mset q = add_mset x (mset q')" and "heap_ordered q'"
    using popScheduledNode_correct [OF q] by simp_all
  assume "y \<in># mset q'"
  then have "y \<in># mset q" using popScheduledNode_correct [OF q] by simp
  then obtain i where "i < length q" "y = q ! i" by (metis in_set_conv_nth set_mset_mset)
  then show "x \<le> y" using heap_root_least [OF q(1)] popScheduledNode_correct [OF q] by simp
qed

end
