(* ===== verification/Project_Normalization.thy ===== *)
theory Project_Normalization
  imports Project_Text Scheduler
begin

text \<open>
  The data model of \<open>src/lib/projects/project-schema.ts\<close> and the parsing and canonicalisation of
  \<open>src/lib/projects/project-registry-normalization.ts\<close>: parsing of untyped records, removal of
  duplicate repositories, and the traversal of the project hierarchy with the index scheduler.
\<close>

section \<open>Data model\<close>

datatype project_node_kind = ProjectKind | GroupKind

datatype project_registry_error =
    project_name_required
  | project_name_duplicate
  | project_parent_not_found
  | project_parent_invalid
  | project_node_not_found
  | project_path_required
  | project_path_duplicate
  | project_tags_too_many
  | project_tag_too_long
  | project_repository_target_invalid
  | project_repository_not_found
  | project_repository_name_required
  | project_repository_source_required
  | project_repository_path_required
  | project_repository_path_outside_workspace
  | project_repository_path_duplicate
  | project_repository_remote_url_invalid
  | project_repository_remote_url_duplicate

record repository_link =
  repo_id :: string
  repo_name :: string
  repo_path :: "string option"
  repo_remoteUrl :: "string option"
  repo_upstreamRemoteUrl :: "string option"
  repo_githubCredentialSecretId :: "string option"
  repo_favorite :: bool
  repo_tags :: "string list"
  repo_createdAt :: string
  repo_updatedAt :: string

record project_node =
  node_id :: string
  node_kind :: project_node_kind
  node_parentId :: "string option"
  node_name :: string
  node_description :: string
  node_path :: string
  node_githubCredentialSecretId :: "string option"
  node_tags :: "string list"
  node_repositories :: "repository_link list"
  node_createdAt :: string
  node_updatedAt :: string

record project_registry =
  reg_version :: int
  reg_workspaceId :: string
  reg_nodes :: "project_node list"
  reg_updatedAt :: string

datatype project_registry_parse_error =
    project_registry_json_invalid
  | project_registry_version_unsupported

type_synonym project_mutation = "(project_registry, project_registry_error) mutation"

text \<open>A typed registry as the value that \<open>normalizeProjectRegistry(value: unknown)\<close> receives.\<close>

definition repository_js :: "repository_link \<Rightarrow> js" where
  "repository_js r = JObj
     [(''id'', JStr (repo_id r)), (''name'', JStr (repo_name r)), (''path'', js_nullable (repo_path r)),
      (''remoteUrl'', js_nullable (repo_remoteUrl r)),
      (''upstreamRemoteUrl'', js_nullable (repo_upstreamRemoteUrl r)),
      (''githubCredentialSecretId'', js_nullable (repo_githubCredentialSecretId r)),
      (''favorite'', JBool (repo_favorite r)), (''tags'', JArr (map JStr (repo_tags r))),
      (''createdAt'', JStr (repo_createdAt r)), (''updatedAt'', JStr (repo_updatedAt r))]"

definition kind_js :: "project_node_kind \<Rightarrow> js" where
  "kind_js k = JStr (case k of ProjectKind \<Rightarrow> ''project'' | GroupKind \<Rightarrow> ''group'')"

definition node_js :: "project_node \<Rightarrow> js" where
  "node_js n = JObj
     [(''id'', JStr (node_id n)), (''kind'', kind_js (node_kind n)),
      (''parentId'', js_nullable (node_parentId n)), (''name'', JStr (node_name n)),
      (''description'', JStr (node_description n)), (''path'', JStr (node_path n)),
      (''githubCredentialSecretId'', js_nullable (node_githubCredentialSecretId n)),
      (''tags'', JArr (map JStr (node_tags n))),
      (''repositories'', JArr (map repository_js (node_repositories n))),
      (''createdAt'', JStr (node_createdAt n)), (''updatedAt'', JStr (node_updatedAt n))]"

definition registry_js :: "project_registry \<Rightarrow> js" where
  "registry_js r = JObj
     [(''version'', JInt (reg_version r)), (''workspaceId'', JStr (reg_workspaceId r)),
      (''nodes'', JArr (map node_js (reg_nodes r))), (''updatedAt'', JStr (reg_updatedAt r))]"

section \<open>Parsing records\<close>

definition createEmptyProjectRegistry :: "string \<Rightarrow> string \<Rightarrow> project_registry" where
  "createEmptyProjectRegistry workspaceId now =
     \<lparr>reg_version = WORKDUCK_PROJECT_REGISTRY_VERSION, reg_workspaceId = workspaceId,
      reg_nodes = [], reg_updatedAt = now\<rparr>"

definition normalizeProjectNodeKind :: "js \<Rightarrow> project_node_kind option" where
  "normalizeProjectNodeKind value =
     (if value = JStr ''project'' then Some ProjectKind
      else if value = JStr ''group'' then Some GroupKind else None)"

text \<open>\<open>text || null\<close>\<close>

definition non_empty :: "string \<Rightarrow> string option" where
  "non_empty s = (if s = [] then None else Some s)"

definition parseRepositoryLinkRecord :: "url_parser \<Rightarrow> js \<Rightarrow> repository_link option" where
  "parseRepositoryLinkRecord U value =
     (if \<not> isObjectRecord value then None
      else (let i = normalizeRecordId (js_prop value ''id'');
          name = normalizeRepositoryName (readTrimmedString (js_prop value ''name''));
          path = normalizeRepositoryPath (readTrimmedString (js_prop value ''path''));
          remoteUrl = normalizeRepositoryRemoteUrl U (readTrimmedString (js_prop value ''remoteUrl''));
          upstreamRemoteUrl =
            normalizeRepositoryRemoteUrl U (readTrimmedString (js_prop value ''upstreamRemoteUrl''));
          githubCredentialSecretId = normalizeRecordId (js_prop value ''githubCredentialSecretId'');
          favorite = (js_prop value ''favorite'' = JBool True);
          tags = normalizeProjectTags (readStringArray (js_prop value ''tags''));
          createdAt = readTrimmedString (js_prop value ''createdAt'');
          updatedAt = readTrimmedString (js_prop value ''updatedAt'')
        in case i of
             None \<Rightarrow> None
           | Some ident \<Rightarrow>
               if name = [] \<or> (path = [] \<and> remoteUrl = []) then None
               else Some \<lparr>repo_id = ident, repo_name = name, repo_path = non_empty path,
                 repo_remoteUrl = non_empty remoteUrl,
                 repo_upstreamRemoteUrl = non_empty upstreamRemoteUrl,
                 repo_githubCredentialSecretId = githubCredentialSecretId,
                 repo_favorite = favorite, repo_tags = tags,
                 repo_createdAt = (if createdAt = [] then updatedAt else createdAt),
                 repo_updatedAt = (if updatedAt = [] then createdAt else updatedAt)\<rparr>))"

definition parseProjectNodeRecord :: "url_parser \<Rightarrow> js \<Rightarrow> project_node option" where
  "parseProjectNodeRecord U value =
     (if \<not> isObjectRecord value then None
      else (let i = normalizeRecordId (js_prop value ''id'');
          k = normalizeProjectNodeKind (js_prop value ''kind'');
          parentId = normalizeRecordId (js_prop value ''parentId'');
          name = normalizeProjectName (readTrimmedString (js_prop value ''name''));
          description = normalizeProjectDescription (readTrimmedString (js_prop value ''description''));
          path = normalizeProjectPath (readTrimmedString (js_prop value ''path''));
          githubCredentialSecretId = normalizeRecordId (js_prop value ''githubCredentialSecretId'');
          tags = normalizeProjectTags (readStringArray (js_prop value ''tags''));
          repositories =
            List.map_filter (parseRepositoryLinkRecord U) (js_elements (js_prop value ''repositories''));
          createdAt = readTrimmedString (js_prop value ''createdAt'');
          updatedAt = readTrimmedString (js_prop value ''updatedAt'')
        in case (i, k) of
             (Some ident, Some kind) \<Rightarrow>
               if name = [] then None
               else Some \<lparr>node_id = ident, node_kind = kind,
                 node_parentId = (if kind = ProjectKind then None else parentId),
                 node_name = name, node_description = description, node_path = path,
                 node_githubCredentialSecretId = githubCredentialSecretId,
                 node_tags = tags, node_repositories = repositories,
                 node_createdAt = (if createdAt = [] then updatedAt else createdAt),
                 node_updatedAt = (if updatedAt = [] then createdAt else updatedAt)\<rparr>
           | _ \<Rightarrow> None))"

section \<open>Unique repositories\<close>

definition repository_path_key :: "repository_link \<Rightarrow> string option" where
  "repository_path_key r = map_option createRepositoryPathKey (repo_path r)"

definition repository_url_key :: "url_parser \<Rightarrow> repository_link \<Rightarrow> string option" where
  "repository_url_key U r = map_option (createRepositoryRemoteUrlKey U) (repo_remoteUrl r)"

definition clean_repository :: "url_parser \<Rightarrow> repository_link \<Rightarrow> repository_link" where
  "clean_repository U r = r\<lparr>
     repo_upstreamRemoteUrl := (case repo_upstreamRemoteUrl r of
        None \<Rightarrow> None | Some u \<Rightarrow> non_empty (normalizeRepositoryRemoteUrl U u)),
     repo_githubCredentialSecretId := normalizeRecordId (js_nullable (repo_githubCredentialSecretId r)),
     repo_tags := normalizeProjectTags (repo_tags r)\<rparr>"

text \<open>The loop of \<open>filterUniqueRepositories\<close>; the two sets are shared by all nodes of a registry.\<close>

fun filterUniqueRepositories ::
  "url_parser \<Rightarrow> repository_link list \<Rightarrow> string set \<Rightarrow> string set \<Rightarrow>
   repository_link list \<times> string set \<times> string set" where
  "filterUniqueRepositories U [] seenPaths seenUrls = ([], seenPaths, seenUrls)"
| "filterUniqueRepositories U (r # rs) seenPaths seenUrls =
     (let pathKey = repository_path_key r;
          urlKey = repository_url_key U r
      in if (\<exists>k \<in> set_option pathKey. k \<in> seenPaths) \<or> (\<exists>k \<in> set_option urlKey. k \<in> seenUrls)
         then filterUniqueRepositories U rs seenPaths seenUrls
         else (let (kept, ps, us) =
                 filterUniqueRepositories U rs (set_option pathKey \<union> seenPaths) (set_option urlKey \<union> seenUrls)
               in (clean_repository U r # kept, ps, us)))"

section \<open>The hierarchy\<close>

text \<open>The variables of \<open>normalizeProjectNodes\<close> that survive an iteration.\<close>

record norm_state =
  ns_nodes :: "project_node list"
  ns_ids :: "string set"
  ns_repoPaths :: "string set"
  ns_repoUrls :: "string set"
  ns_nodePaths :: "string set"
  ns_rootNames :: "string set"
  ns_pathById :: "string \<rightharpoonup> string"
  ns_childNames :: "string \<rightharpoonup> string set"

definition norm_init :: norm_state where
  "norm_init = \<lparr>ns_nodes = [], ns_ids = {}, ns_repoPaths = {}, ns_repoUrls = {}, ns_nodePaths = {},
     ns_rootNames = {}, ns_pathById = Map.empty, ns_childNames = Map.empty\<rparr>"

text \<open>The path a node gets: its own when it is usable, else one made from its parent and its name.\<close>

definition effective_path :: "string option \<Rightarrow> project_node \<Rightarrow> string" where
  "effective_path parentPath node =
     (let p = normalizeProjectPath (node_path node) in
      if p = [] then createDefaultProjectPath parentPath (node_name node) else p)"

text \<open>The record pushed for an accepted node, with the repositories that are new.\<close>

definition accepted_node :: "project_node \<Rightarrow> string \<Rightarrow> repository_link list \<Rightarrow> project_node" where
  "accepted_node node path repositories = node\<lparr>
     node_description := normalizeProjectDescription (node_description node),
     node_path := path,
     node_githubCredentialSecretId := normalizeRecordId (js_nullable (node_githubCredentialSecretId node)),
     node_tags := normalizeProjectTags (node_tags node),
     node_repositories := repositories\<rparr>"

definition accept :: "url_parser \<Rightarrow> norm_state \<Rightarrow> project_node \<Rightarrow> string \<Rightarrow> norm_state" where
  "accept U \<sigma> node path =
     (let (kept, ps, us) = filterUniqueRepositories U (node_repositories node) (ns_repoPaths \<sigma>) (ns_repoUrls \<sigma>)
      in \<sigma>\<lparr>ns_nodes := ns_nodes \<sigma> @ [accepted_node node path kept],
           ns_ids := insert (node_id node) (ns_ids \<sigma>),
           ns_repoPaths := ps, ns_repoUrls := us,
           ns_nodePaths := insert (createProjectPathKey path) (ns_nodePaths \<sigma>)\<rparr>)"

text \<open>The first loop: root projects, in order. \<open>pathByNodeId\<close> is built from the accepted roots.\<close>

definition visit_root :: "url_parser \<Rightarrow> project_node \<Rightarrow> norm_state \<Rightarrow> norm_state" where
  "visit_root U node \<sigma> =
     (if node_id node \<in> ns_ids \<sigma> \<or> node_kind node \<noteq> ProjectKind \<or> node_parentId node \<noteq> None then \<sigma>
      else (let nameKey = createNameKey (node_name node);
                path = effective_path None node;
                pathKey = createProjectPathKey path
            in if nameKey \<in> ns_rootNames \<sigma> \<or> pathKey \<in> ns_nodePaths \<sigma> then \<sigma>
               else (accept U \<sigma> node path)\<lparr>ns_rootNames := insert nameKey (ns_rootNames \<sigma>),
                      ns_pathById := (ns_pathById \<sigma>)(node_id node \<mapsto> path)\<rparr>))"

definition root_pass :: "url_parser \<Rightarrow> project_node list \<Rightarrow> norm_state" where
  "root_pass U nodes = fold (visit_root U) nodes norm_init"

definition groupIndexesByParentId :: "project_node list \<Rightarrow> (string \<rightharpoonup> nat list)" where
  "groupIndexesByParentId nodes =
     fold (\<lambda>index m. let node = nodes ! index in
        (case (node_kind node, node_parentId node) of
           (GroupKind, Some p) \<Rightarrow> m(p \<mapsto> (case m p of None \<Rightarrow> [] | Some ixs \<Rightarrow> ixs) @ [index])
         | _ \<Rightarrow> m))
       [0..<length nodes] Map.empty"

definition child_indexes :: "project_node list \<Rightarrow> string \<Rightarrow> nat list" where
  "child_indexes nodes p = (case groupIndexesByParentId nodes p of None \<Rightarrow> [] | Some ixs \<Rightarrow> ixs)"

text \<open>One iteration of the second loop for a popped group: \<open>None\<close> for each \<open>continue\<close>.\<close>

definition visit_group :: "url_parser \<Rightarrow> project_node \<Rightarrow> norm_state \<Rightarrow> norm_state option" where
  "visit_group U node \<sigma> =
     (case node_parentId node of
        None \<Rightarrow> None
      | Some p \<Rightarrow>
          if node_id node \<in> ns_ids \<sigma> then None
          else (case ns_pathById \<sigma> p of
             None \<Rightarrow> None
           | Some parentPath \<Rightarrow>
              (let nameKey = createNameKey (node_name node);
                   path = effective_path (Some parentPath) node;
                   pathKey = createProjectPathKey path;
                   siblingNames = (case ns_childNames \<sigma> p of None \<Rightarrow> {} | Some s \<Rightarrow> s)
               in if nameKey \<in> siblingNames \<or> pathKey \<in> ns_nodePaths \<sigma> then None
                  else Some ((accept U \<sigma> node path)\<lparr>
                         ns_childNames := (ns_childNames \<sigma>)(p \<mapsto> insert nameKey siblingNames),
                         ns_pathById := (ns_pathById \<sigma>)(node_id node \<mapsto> path)\<rparr>))))"

text \<open>Children behind the current index run in this pass, the others in the next one.\<close>

definition schedule_children :: "nat \<Rightarrow> nat list \<Rightarrow> nat list \<Rightarrow> nat list \<Rightarrow> nat list \<times> nat list" where
  "schedule_children index children pending next_pass =
     fold (\<lambda>c (p, q). if c > index then (pushScheduledNode p c, q) else (p, pushScheduledNode q c))
       children (pending, next_pass)"

definition remaining :: "project_node list \<Rightarrow> norm_state \<Rightarrow> nat" where
  "remaining nodes \<sigma> = card {i. i < length nodes \<and> node_id (nodes ! i) \<notin> ns_ids \<sigma>}"

lemma accept_ids [simp]: "ns_ids (accept U \<sigma> node path) = insert (node_id node) (ns_ids \<sigma>)"
  by (simp add: accept_def split: prod.splits)

lemma visit_group_ids:
  "visit_group U node \<sigma> = Some \<sigma>' \<Longrightarrow> ns_ids \<sigma>' = insert (node_id node) (ns_ids \<sigma>) \<and> node_id node \<notin> ns_ids \<sigma>"
  by (auto simp: visit_group_def Let_def split: option.splits if_splits)

lemma remaining_decreases:
  assumes "visit_group U (nodes ! i) \<sigma> = Some \<sigma>'" "i < length nodes"
  shows "remaining nodes \<sigma>' < remaining nodes \<sigma>"
  unfolding remaining_def
proof (rule psubset_card_mono)
  show "finite {i. i < length nodes \<and> node_id (nodes ! i) \<notin> ns_ids \<sigma>}" by simp
  show "{i. i < length nodes \<and> node_id (nodes ! i) \<notin> ns_ids \<sigma>'}
          \<subset> {i. i < length nodes \<and> node_id (nodes ! i) \<notin> ns_ids \<sigma>}"
    using visit_group_ids [OF assms(1)] assms(2) by auto
qed

lemma length_popScheduledNode:
  assumes "popScheduledNode q = Some (x, q')"
  shows "length q = Suc (length q')"
proof -
  have q: "q \<noteq> []" and q': "q' = (if butlast q \<noteq> [] then sift_down (butlast q) 0 (last q) else butlast q)"
    using assms by (auto simp only: popScheduledNode_def Let_def split: list.splits)
  from q' have "length q' = length (butlast q)" by (metis length_sift_down)
  with q show ?thesis by simp
qed

text \<open>
  One iteration of the second loop; \<open>None\<close> when both queues are empty. Every scheduled index is an
  index of \<open>nodes\<close> (lemma \<open>sched_inv_step\<close>), so the test against the length never fails.
\<close>

type_synonym traversal = "norm_state \<times> nat list \<times> nat list"

definition loop_step :: "url_parser \<Rightarrow> project_node list \<Rightarrow> traversal \<Rightarrow> traversal option" where
  "loop_step U nodes t =
     (case t of (\<sigma>, pending, next_pass) \<Rightarrow>
        if pending = [] \<and> next_pass = [] then None
        else (let (pendingIndexes, nextPassIndexes) =
                    (if pending = [] then (next_pass, []) else (pending, next_pass))
              in case popScheduledNode pendingIndexes of
                   None \<Rightarrow> None
                 | Some (index, rest) \<Rightarrow>
                     Some (case (if index < length nodes then visit_group U (nodes ! index) \<sigma> else None) of
                        None \<Rightarrow> (\<sigma>, rest, nextPassIndexes)
                      | Some \<sigma>' \<Rightarrow>
                          (\<sigma>', schedule_children index (child_indexes nodes (node_id (nodes ! index)))
                                rest nextPassIndexes))))"

fun traversal_size :: "project_node list \<Rightarrow> traversal \<Rightarrow> nat" where
  "traversal_size nodes (\<sigma>, p, q) = length p + length q"

lemma loop_step_decreases:
  assumes "loop_step U nodes t = Some t'"
  shows "remaining nodes (fst t') < remaining nodes (fst t) \<or>
         fst t' = fst t \<and> traversal_size nodes t' < traversal_size nodes t"
proof -
  obtain \<sigma> p q where t: "t = (\<sigma>, p, q)" by (cases t)
  define a where "a = (if p = [] then q else p)"
  define b where "b = (if p = [] then [] else q)"
  from assms t obtain i rest where pop: "popScheduledNode a = Some (i, rest)"
    and t': "t' = (case (if i < length nodes then visit_group U (nodes ! i) \<sigma> else None) of
        None \<Rightarrow> (\<sigma>, rest, b)
      | Some \<sigma>' \<Rightarrow> (\<sigma>', schedule_children i (child_indexes nodes (node_id (nodes ! i))) rest b))"
    by (auto simp: loop_step_def a_def b_def split: if_splits option.splits)
  have "length p + length q = length a + length b" by (simp add: a_def b_def)
  with pop t t' show ?thesis
    by (auto split: option.splits if_splits dest: length_popScheduledNode remaining_decreases)
qed

text \<open>
  The loop stops because an accepted group uses up an identifier and every other iteration shortens
  the two queues.
\<close>

function normalize_loop :: "url_parser \<Rightarrow> project_node list \<Rightarrow> traversal \<Rightarrow> norm_state" where
  "normalize_loop U nodes t =
     (case loop_step U nodes t of None \<Rightarrow> fst t | Some t' \<Rightarrow> normalize_loop U nodes t')"
  by pat_completeness auto
termination
  by (relation "measures [\<lambda>(U, nodes, t). remaining nodes (fst t), \<lambda>(U, nodes, t). traversal_size nodes t]")
    (auto dest: loop_step_decreases)

declare normalize_loop.simps [simp del]

definition normalizeProjectNodes :: "url_parser \<Rightarrow> project_node list \<Rightarrow> project_node list" where
  "normalizeProjectNodes U nodes =
     (let \<sigma> = root_pass U nodes;
          pending = fold (\<lambda>root q. fold (\<lambda>c q. pushScheduledNode q c) (child_indexes nodes (node_id root)) q)
                      (ns_nodes \<sigma>) []
      in ns_nodes (normalize_loop U nodes (\<sigma>, pending, [])))"

section \<open>Registries\<close>

definition EPOCH_ISO :: string where "EPOCH_ISO = ''1970-01-01T00:00:00.000Z''"

text \<open>\<open>now\<close> is the current time in ISO form; only an empty registry made from an unusable value carries it.\<close>

definition normalizeProjectRegistry :: "url_parser \<Rightarrow> string \<Rightarrow> js \<Rightarrow> string \<Rightarrow> project_registry" where
  "normalizeProjectRegistry U now value workspaceId =
     (if \<not> isObjectRecord value \<or> js_prop value ''version'' \<noteq> JInt WORKDUCK_PROJECT_REGISTRY_VERSION
      then createEmptyProjectRegistry workspaceId now
      else (let candidateNodes = List.map_filter (parseProjectNodeRecord U) (js_elements (js_prop value ''nodes''));
                nodes = normalizeProjectNodes U candidateNodes;
                updatedAt = readTrimmedString (js_prop value ''updatedAt'')
            in \<lparr>reg_version = WORKDUCK_PROJECT_REGISTRY_VERSION, reg_workspaceId = workspaceId,
                reg_nodes = nodes, reg_updatedAt = (if updatedAt = [] then EPOCH_ISO else updatedAt)\<rparr>))"

text \<open>The text is given as the outcome of \<open>JSON.parse\<close>: \<open>None\<close> when it throws.\<close>

definition parseProjectRegistry ::
  "url_parser \<Rightarrow> (string \<Rightarrow> js option) \<Rightarrow> string \<Rightarrow> string option \<Rightarrow> string \<Rightarrow> project_registry" where
  "parseProjectRegistry U json_parse now serializedRegistry workspaceId =
     (case serializedRegistry of
        None \<Rightarrow> createEmptyProjectRegistry workspaceId now
      | Some text \<Rightarrow>
          (case json_parse text of
             None \<Rightarrow> createEmptyProjectRegistry workspaceId now
           | Some v \<Rightarrow> normalizeProjectRegistry U now v workspaceId))"

definition readProjectRegistryVersion :: "js \<Rightarrow> int option" where
  "readProjectRegistryVersion value = (case value of JInt n \<Rightarrow> Some n | _ \<Rightarrow> None)"

text \<open>\<open>nodesById.get(id)?.repositories.length\<close>; a later node with the same identifier would win.\<close>

definition kept_repository_count :: "project_node list \<Rightarrow> string \<Rightarrow> nat option" where
  "kept_repository_count nodes i =
     map_option (\<lambda>n. length (node_repositories n)) (map_of (rev (map (\<lambda>n. (node_id n, n)) nodes)) i)"

definition stored_node_lost :: "project_node list \<Rightarrow> js \<Rightarrow> bool" where
  "stored_node_lost nodes raw =
     (\<not> isObjectRecord raw \<or>
      (case js_prop raw ''id'' of
         JStr i \<Rightarrow>
           (case js_prop raw ''repositories'' of
              JUndefined \<Rightarrow> False
            | JArr rs \<Rightarrow> kept_repository_count nodes (js_trim i) \<noteq> Some (length rs)
            | _ \<Rightarrow> True)
       | _ \<Rightarrow> True))"

definition normalizeStoredProjectRegistry ::
  "url_parser \<Rightarrow> string \<Rightarrow> js \<Rightarrow> string \<Rightarrow> project_registry_parse_error + project_registry" where
  "normalizeStoredProjectRegistry U now value workspaceId =
     (if \<not> isObjectRecord value then Inl project_registry_json_invalid
      else if readProjectRegistryVersion (js_prop value ''version'') = Some WORKDUCK_PROJECT_REGISTRY_VERSION then
        (case js_prop value ''nodes'' of
           JArr raw \<Rightarrow>
             (let registry = normalizeProjectRegistry U now value workspaceId in
              if length (reg_nodes registry) \<noteq> length raw then Inl project_registry_json_invalid
              else if \<exists>node \<in> set raw. stored_node_lost (reg_nodes registry) node
              then Inl project_registry_json_invalid
              else Inr registry)
         | _ \<Rightarrow> Inl project_registry_json_invalid)
      else Inl project_registry_version_unsupported)"

definition parseStoredProjectRegistry ::
  "url_parser \<Rightarrow> (string \<Rightarrow> js option) \<Rightarrow> string \<Rightarrow> string \<Rightarrow> string \<Rightarrow>
   project_registry_parse_error + project_registry" where
  "parseStoredProjectRegistry U json_parse now serializedRegistry workspaceId =
     (case json_parse serializedRegistry of
        None \<Rightarrow> Inl project_registry_json_invalid
      | Some v \<Rightarrow> normalizeStoredProjectRegistry U now v workspaceId)"

text \<open>The value that \<open>serializeProjectRegistry\<close> hands to \<open>JSON.stringify\<close>.\<close>

definition serializeProjectRegistry ::
  "url_parser \<Rightarrow> (js \<Rightarrow> string) \<Rightarrow> string \<Rightarrow> project_registry \<Rightarrow> string" where
  "serializeProjectRegistry U json_stringify now registry =
     json_stringify (registry_js (normalizeProjectRegistry U now (registry_js registry) (reg_workspaceId registry)))"

end
