(* ===== verification/Project_Hierarchy.thy ===== *)
theory Project_Hierarchy
  imports Project_Normalization
begin

text \<open>
  The hierarchy traversal of \<open>normalizeProjectNodes\<close> against a reference: repeated scans over the
  list of nodes, each accepting every group that can be accepted when the scan reaches it, until a
  scan accepts nothing. The comment in the source promises that the scheduler keeps the eligibility
  order and the collision winners of that scan; \<open>normalize_loop_is_scan\<close> proves it.
\<close>

section \<open>The reference: repeated scans\<close>

definition scan_step :: "url_parser \<Rightarrow> project_node list \<Rightarrow> nat \<Rightarrow> norm_state \<Rightarrow> norm_state" where
  "scan_step U nodes i \<sigma> =
     (if node_kind (nodes ! i) = GroupKind
      then (case visit_group U (nodes ! i) \<sigma> of None \<Rightarrow> \<sigma> | Some \<sigma>' \<Rightarrow> \<sigma>') else \<sigma>)"

definition scan_pass :: "url_parser \<Rightarrow> project_node list \<Rightarrow> norm_state \<Rightarrow> norm_state" where
  "scan_pass U nodes \<sigma> = fold (scan_step U nodes) [0..<length nodes] \<sigma>"

lemma remaining_scan_steps:
  assumes "set is \<subseteq> {..<length nodes}"
  shows "remaining nodes (fold (scan_step U nodes) is \<sigma>) < remaining nodes \<sigma> \<or>
         fold (scan_step U nodes) is \<sigma> = \<sigma>"
  using assms
proof (induction "is" arbitrary: \<sigma>)
  case (Cons i "is")
  have "remaining nodes (scan_step U nodes i \<sigma>) < remaining nodes \<sigma> \<or> scan_step U nodes i \<sigma> = \<sigma>"
    using Cons.prems by (auto simp: scan_step_def remaining_decreases split: option.splits)
  with Cons.IH [of "scan_step U nodes i \<sigma>"] Cons.prems show ?case by auto
qed simp

function scan_passes :: "url_parser \<Rightarrow> project_node list \<Rightarrow> norm_state \<Rightarrow> norm_state" where
  "scan_passes U nodes \<sigma> =
     (let \<sigma>' = scan_pass U nodes \<sigma> in
      if ns_nodes \<sigma>' = ns_nodes \<sigma> then \<sigma>' else scan_passes U nodes \<sigma>')"
  by pat_completeness auto
termination
proof (relation "measure (\<lambda>(U, nodes, \<sigma>). remaining nodes \<sigma>)", goal_cases)
  case (2 U nodes \<sigma> \<sigma>')
  have "set [0..<length nodes] \<subseteq> {..<length nodes}" by auto
  from remaining_scan_steps [OF this, of U \<sigma>] 2 show ?case by (auto simp: scan_pass_def)
qed simp

declare scan_passes.simps [simp del]

definition normalizeProjectNodes_by_scans :: "url_parser \<Rightarrow> project_node list \<Rightarrow> project_node list" where
  "normalizeProjectNodes_by_scans U nodes = ns_nodes (scan_passes U nodes (root_pass U nodes))"

section \<open>Children of a node\<close>

definition is_child :: "project_node list \<Rightarrow> string \<Rightarrow> nat \<Rightarrow> bool" where
  "is_child nodes p i \<longleftrightarrow> node_kind (nodes ! i) = GroupKind \<and> node_parentId (nodes ! i) = Some p"

lemma child_indexes_eq: "child_indexes nodes p = filter (is_child nodes p) [0..<length nodes]"
proof -
  define f where "f = (\<lambda>index (m :: string \<rightharpoonup> nat list). let node = nodes ! index in
        (case (node_kind node, node_parentId node) of
           (GroupKind, Some p) \<Rightarrow> m(p \<mapsto> (case m p of None \<Rightarrow> [] | Some ixs \<Rightarrow> ixs) @ [index])
         | _ \<Rightarrow> m))"
  define at where "at = (\<lambda>(m :: string \<rightharpoonup> nat list). case m p of None \<Rightarrow> [] | Some ixs \<Rightarrow> ixs)"
  have step: "at (f i m) = at m @ (if is_child nodes p i then [i] else [])" for i m
    by (auto simp: f_def at_def is_child_def Let_def split: project_node_kind.splits option.splits)
  have "at (fold f is m) = at m @ filter (is_child nodes p) is" for "is" m
    by (induction "is" arbitrary: m) (auto simp: step)
  from this [of "[0..<length nodes]" Map.empty] show ?thesis
    by (simp add: child_indexes_def groupIndexesByParentId_def f_def at_def)
qed

lemma set_child_indexes: "i \<in> set (child_indexes nodes p) \<longleftrightarrow> i < length nodes \<and> is_child nodes p i"
  by (auto simp: child_indexes_eq)

section \<open>Which groups can be accepted\<close>

definition live :: "url_parser \<Rightarrow> project_node list \<Rightarrow> norm_state \<Rightarrow> nat \<Rightarrow> bool" where
  "live U nodes \<sigma> i \<longleftrightarrow> i < length nodes \<and> node_kind (nodes ! i) = GroupKind \<and>
     visit_group U (nodes ! i) \<sigma> \<noteq> None"

definition parent_known :: "project_node list \<Rightarrow> norm_state \<Rightarrow> nat \<Rightarrow> bool" where
  "parent_known nodes \<sigma> i \<longleftrightarrow> i < length nodes \<and>
     (\<exists>p. is_child nodes p i \<and> p \<in> dom (ns_pathById \<sigma>))"

lemma live_parent_known: "live U nodes \<sigma> i \<Longrightarrow> parent_known nodes \<sigma> i"
  by (auto simp: live_def parent_known_def is_child_def visit_group_def split: option.splits if_splits)

lemma accept_simps [simp]:
  "ns_rootNames (accept U \<sigma> node path) = ns_rootNames \<sigma>"
  "ns_pathById (accept U \<sigma> node path) = ns_pathById \<sigma>"
  "ns_childNames (accept U \<sigma> node path) = ns_childNames \<sigma>"
  "ns_nodePaths (accept U \<sigma> node path) = insert (createProjectPathKey path) (ns_nodePaths \<sigma>)"
  by (simp_all add: accept_def split: prod.splits)

text \<open>What accepting a group changes in the variables that later decisions read.\<close>

lemma visit_group_SomeE:
  assumes "visit_group U node \<sigma> = Some \<sigma>'"
  obtains p parentPath path where
    "node_parentId node = Some p" "ns_pathById \<sigma> p = Some parentPath"
    "path = effective_path (Some parentPath) node"
    "node_id node \<notin> ns_ids \<sigma>"
    "createProjectPathKey path \<notin> ns_nodePaths \<sigma>"
    "createNameKey (node_name node) \<notin> (case ns_childNames \<sigma> p of None \<Rightarrow> {} | Some s \<Rightarrow> s)"
    "\<sigma>' = (accept U \<sigma> node path)\<lparr>
       ns_childNames := (ns_childNames \<sigma>)(p \<mapsto> insert (createNameKey (node_name node))
          (case ns_childNames \<sigma> p of None \<Rightarrow> {} | Some s \<Rightarrow> s)),
       ns_pathById := (ns_pathById \<sigma>)(node_id node \<mapsto> path)\<rparr>"
  using assms by (auto simp: visit_group_def Let_def split: option.splits if_splits)

text \<open>A group whose parent is known and that cannot be accepted now never can be.\<close>

lemma dead_stays_dead:
  assumes v: "visit_group U (nodes ! j) \<sigma> = Some \<sigma>'"
    and known: "parent_known nodes \<sigma> i" and dead: "\<not> live U nodes \<sigma> i"
    and dom: "dom (ns_pathById \<sigma>) \<subseteq> ns_ids \<sigma>"
  shows "\<not> live U nodes \<sigma>' i"
proof -
  obtain p where i: "i < length nodes" "node_kind (nodes ! i) = GroupKind"
      "node_parentId (nodes ! i) = Some p" and p: "p \<in> dom (ns_pathById \<sigma>)"
    using known by (auto simp: parent_known_def is_child_def)
  then have none: "visit_group U (nodes ! i) \<sigma> = None" using dead by (simp add: live_def)
  from v obtain q qp path where \<sigma>': "node_id (nodes ! j) \<notin> ns_ids \<sigma>"
      "\<sigma>' = (accept U \<sigma> (nodes ! j) path)\<lparr>
       ns_childNames := (ns_childNames \<sigma>)(q \<mapsto> insert (createNameKey (node_name (nodes ! j)))
          (case ns_childNames \<sigma> q of None \<Rightarrow> {} | Some s \<Rightarrow> s)),
       ns_pathById := (ns_pathById \<sigma>)(node_id (nodes ! j) \<mapsto> path)\<rparr>"
    by (rule visit_group_SomeE)
  have "p \<noteq> node_id (nodes ! j)" using p dom \<sigma>'(1) by blast
  then have "visit_group U (nodes ! i) \<sigma>' = None"
    using none i(3) p unfolding \<sigma>'(2)
    by (auto simp: visit_group_def Let_def split: option.splits if_splits)
  then show ?thesis by (simp add: live_def)
qed

lemma accepted_is_dead: "visit_group U (nodes ! j) \<sigma> = Some \<sigma>' \<Longrightarrow> \<not> live U nodes \<sigma>' j"
  by (drule visit_group_ids) (auto simp: live_def visit_group_def split: option.splits)

lemma visit_group_paths:
  "visit_group U node \<sigma> = Some \<sigma>' \<Longrightarrow> dom (ns_pathById \<sigma>') = insert (node_id node) (dom (ns_pathById \<sigma>))"
  by (erule visit_group_SomeE) auto

section \<open>The traversal follows the scans\<close>

text \<open>
  Between two iterations the traversal stands at a position \<open>k\<close> of the current scan: the groups that
  can be accepted are exactly waiting where the scan will meet them, from \<open>k\<close> on in the first queue,
  before \<open>k\<close> in the second.
\<close>

definition sched_inv :: "url_parser \<Rightarrow> project_node list \<Rightarrow> traversal \<Rightarrow> nat \<Rightarrow> bool" where
  "sched_inv U nodes t k \<longleftrightarrow> (case t of (\<sigma>, P, N) \<Rightarrow>
     heap_ordered P \<and> heap_ordered N \<and> dom (ns_pathById \<sigma>) \<subseteq> ns_ids \<sigma> \<and>
     (\<forall>i \<in> set P \<union> set N. parent_known nodes \<sigma> i) \<and>
     (\<forall>i. live U nodes \<sigma> i \<longrightarrow> (if k \<le> i then i \<in> set P else i \<in> set N)) \<and>
     (\<forall>i \<in> set P. i < k \<longrightarrow> \<not> live U nodes \<sigma> i))"

definition resume :: "url_parser \<Rightarrow> project_node list \<Rightarrow> norm_state \<Rightarrow> nat \<Rightarrow> norm_state" where
  "resume U nodes \<sigma> k = scan_passes U nodes (fold (scan_step U nodes) [k..<length nodes] \<sigma>)"

lemma scan_step_dead: "\<not> live U nodes \<sigma> i \<Longrightarrow> i < length nodes \<Longrightarrow> scan_step U nodes i \<sigma> = \<sigma>"
  by (auto simp: scan_step_def live_def)

lemma scan_steps_dead:
  "(\<And>i. i \<in> set is \<Longrightarrow> i < length nodes \<and> \<not> live U nodes \<sigma> i) \<Longrightarrow> fold (scan_step U nodes) is \<sigma> = \<sigma>"
  by (induction "is") (auto simp: scan_step_dead)

lemma scan_passes_fixed: "scan_pass U nodes \<sigma> = \<sigma> \<Longrightarrow> scan_passes U nodes \<sigma> = \<sigma>"
  by (subst scan_passes.simps) (simp add: Let_def)

lemma visit_group_extends:
  "visit_group U node \<sigma> = Some \<sigma>' \<Longrightarrow> length (ns_nodes \<sigma>') = Suc (length (ns_nodes \<sigma>))"
  by (erule visit_group_SomeE) (simp add: accept_def split: prod.splits)

lemma scan_steps_extend:
  "length (ns_nodes \<sigma>) \<le> length (ns_nodes (fold (scan_step U nodes) is \<sigma>)) \<and>
   (length (ns_nodes (fold (scan_step U nodes) is \<sigma>)) = length (ns_nodes \<sigma>) \<longrightarrow>
      fold (scan_step U nodes) is \<sigma> = \<sigma>)"
proof (induction "is" arbitrary: \<sigma>)
  case (Cons i "is")
  have "scan_step U nodes i \<sigma> = \<sigma> \<or> length (ns_nodes (scan_step U nodes i \<sigma>)) = Suc (length (ns_nodes \<sigma>))"
    by (auto simp: scan_step_def visit_group_extends split: option.splits)
  with Cons.IH [of "scan_step U nodes i \<sigma>"] show ?case by auto
qed simp

lemma scan_passes_after_pass: "scan_passes U nodes (scan_pass U nodes \<sigma>) = scan_passes U nodes \<sigma>"
proof (cases "ns_nodes (scan_pass U nodes \<sigma>) = ns_nodes \<sigma>")
  case True
  then have "scan_pass U nodes \<sigma> = \<sigma>"
    using scan_steps_extend [of \<sigma> U nodes "[0..<length nodes]"] by (simp add: scan_pass_def)
  then show ?thesis by simp
next
  case False
  then show ?thesis by (subst (2) scan_passes.simps) (simp add: Let_def)
qed

lemma resume_skip:
  assumes "k \<le> i" "i < length nodes" "\<And>j. k \<le> j \<Longrightarrow> j < i \<Longrightarrow> \<not> live U nodes \<sigma> j"
  shows "resume U nodes \<sigma> k = resume U nodes (scan_step U nodes i \<sigma>) (Suc i)"
proof -
  have "[k..<length nodes] = [k..<i] @ i # [Suc i..<length nodes]"
    using assms(1,2) upt_add_eq_append [of k i "length nodes - i"] by (simp add: upt_conv_Cons)
  moreover have "fold (scan_step U nodes) [k..<i] \<sigma> = \<sigma>"
    using assms by (intro scan_steps_dead) auto
  ultimately show ?thesis by (simp add: resume_def)
qed

lemma resume_all_dead:
  assumes "\<And>i. k \<le> i \<Longrightarrow> \<not> live U nodes \<sigma> i"
  shows "resume U nodes \<sigma> k = resume U nodes \<sigma> 0"
proof -
  have "fold (scan_step U nodes) [k..<length nodes] \<sigma> = \<sigma>"
    using assms by (intro scan_steps_dead) auto
  then show ?thesis
    unfolding resume_def using scan_passes_after_pass [of U nodes \<sigma>] by (simp add: scan_pass_def)
qed

text \<open>The first queue is exhausted: the scan ends without accepting more and the next one starts.\<close>

lemma sched_inv_turn:
  assumes "sched_inv U nodes (\<sigma>, [], N) k"
  shows "sched_inv U nodes (\<sigma>, N, []) 0 \<and> resume U nodes \<sigma> k = resume U nodes \<sigma> 0"
proof -
  have "\<And>i. k \<le> i \<Longrightarrow> \<not> live U nodes \<sigma> i"
    using assms by (auto simp: sched_inv_def)
  then have "resume U nodes \<sigma> k = resume U nodes \<sigma> 0" by (rule resume_all_dead)
  moreover have "sched_inv U nodes (\<sigma>, N, []) 0"
    using assms by (auto simp: sched_inv_def heap_ordered_def split: if_splits)
  ultimately show ?thesis by simp
qed

lemma schedule_children_content:
  assumes "heap_ordered P" "heap_ordered N" "schedule_children i cs P N = (P', N')"
  shows "heap_ordered P' \<and> heap_ordered N' \<and>
    set P' = set P \<union> {c \<in> set cs. i < c} \<and> set N' = set N \<union> {c \<in> set cs. c \<le> i}"
  using assms
proof (induction cs arbitrary: P N)
  case (Cons c cs)
  have "schedule_children i (c # cs) P N =
      (if i < c then schedule_children i cs (pushScheduledNode P c) N
       else schedule_children i cs P (pushScheduledNode N c))"
    by (simp add: schedule_children_def)
  moreover have "set (pushScheduledNode P c) = insert c (set P)" "heap_ordered (pushScheduledNode P c)"
    and "set (pushScheduledNode N c) = insert c (set N)" "heap_ordered (pushScheduledNode N c)"
    using Cons.prems(1,2)
    by (metis sched.content_push set_mset_add_mset_insert set_mset_mset) (metis sched.invar_push
      sched.content_push set_mset_add_mset_insert set_mset_mset Cons.prems)+
  ultimately show ?case
    using Cons.IH [of "pushScheduledNode P c" N] Cons.IH [of P "pushScheduledNode N c"] Cons.prems
    by (auto split: if_splits)
qed (simp add: schedule_children_def)

text \<open>One iteration: a popped group that is dead is dropped, a live one is the next that the scan
  accepts.\<close>

lemma sched_inv_pop:
  assumes inv: "sched_inv U nodes (\<sigma>, P, N) k" and pop: "popScheduledNode P = Some (i, R)"
  defines "v \<equiv> if i < length nodes then visit_group U (nodes ! i) \<sigma> else None"
  shows "v = None \<Longrightarrow> sched_inv U nodes (\<sigma>, R, N) k"
    and "v = Some \<sigma>' \<Longrightarrow> schedule_children i (child_indexes nodes (node_id (nodes ! i))) R N = (P', N') \<Longrightarrow>
      sched_inv U nodes (\<sigma>', P', N') (Suc i) \<and> resume U nodes \<sigma> k = resume U nodes \<sigma>' (Suc i)"
proof -
  have P: "heap_ordered P" and N: "heap_ordered N" and dom: "dom (ns_pathById \<sigma>) \<subseteq> ns_ids \<sigma>"
    and known: "\<And>j. j \<in> set P \<union> set N \<Longrightarrow> parent_known nodes \<sigma> j"
    and liveD: "\<And>j. live U nodes \<sigma> j \<Longrightarrow> if k \<le> j then j \<in> set P else j \<in> set N"
    and early: "\<And>j. j \<in> set P \<Longrightarrow> j < k \<Longrightarrow> \<not> live U nodes \<sigma> j"
    using inv by (auto simp: sched_inv_def)
  have R: "heap_ordered R" using sched.invar_pop [OF P pop] .
  have setP: "set P = insert i (set R)"
    using sched.content_pop [OF P pop] by (metis set_mset_add_mset_insert set_mset_mset)
  have least: "\<And>j. j \<in> set P \<Longrightarrow> i \<le> j"
    using sched.pop_least [OF P pop] setP by auto
  have i: "parent_known nodes \<sigma> i" using known setP by simp
  then have il: "i < length nodes" and ig: "node_kind (nodes ! i) = GroupKind"
    by (auto simp: parent_known_def is_child_def)
  show "sched_inv U nodes (\<sigma>, R, N) k" if "v = None"
  proof -
    have i_dead: "\<not> live U nodes \<sigma> i" using that il by (simp add: v_def live_def)
    have live_R: "if k \<le> j then j \<in> set R else j \<in> set N" if "live U nodes \<sigma> j" for j
      using liveD [OF that] i_dead setP that by (cases "j = i") (auto split: if_splits)
    show ?thesis
      unfolding sched_inv_def prod.case
      using R N dom known early setP live_R by (intro conjI) auto
  qed
  assume "v = Some \<sigma>'" and sched: "schedule_children i (child_indexes nodes (node_id (nodes ! i))) R N = (P', N')"
  then have vis: "visit_group U (nodes ! i) \<sigma> = Some \<sigma>'" using il by (simp add: v_def)
  let ?new = "node_id (nodes ! i)"
  have lv: "live U nodes \<sigma> i" using vis il ig by (simp add: live_def)
  have ki: "k \<le> i" using early [of i] lv setP by (metis insertI1 linorder_le_less_linear)
  note dead = dead_stays_dead [OF vis _ _ dom]
  have doms: "dom (ns_pathById \<sigma>') = insert ?new (dom (ns_pathById \<sigma>))"
    using vis by (rule visit_group_paths)
  have ids: "ns_ids \<sigma>' = insert ?new (ns_ids \<sigma>)" using visit_group_ids [OF vis] by simp
  have queues: "heap_ordered P'" "heap_ordered N'"
    "set P' = set R \<union> {c. c < length nodes \<and> is_child nodes ?new c \<and> i < c}"
    "set N' = set N \<union> {c. c < length nodes \<and> is_child nodes ?new c \<and> c \<le> i}"
    using schedule_children_content [OF R N sched] by (auto simp: set_child_indexes)
  have resume: "resume U nodes \<sigma> k = resume U nodes \<sigma>' (Suc i)"
  proof -
    have "\<not> live U nodes \<sigma> j" if "k \<le> j" "j < i" for j
      using liveD [of j] least [of j] that by auto
    then have "resume U nodes \<sigma> k = resume U nodes (scan_step U nodes i \<sigma>) (Suc i)"
      using ki il by (intro resume_skip) auto
    then show ?thesis using vis ig by (simp add: scan_step_def)
  qed
  have known': "parent_known nodes \<sigma>' j" if "j \<in> set P' \<union> set N'" for j
    using that known [of j] queues(3,4) setP doms by (auto simp: parent_known_def)
  have live': "if Suc i \<le> j then j \<in> set P' else j \<in> set N'" if "live U nodes \<sigma>' j" for j
  proof (cases "is_child nodes ?new j")
    case True
    then show ?thesis using that queues by (auto simp: live_def)
  next
    case False
    have "parent_known nodes \<sigma>' j" using that by (rule live_parent_known)
    with False doms have "parent_known nodes \<sigma> j" by (auto simp: parent_known_def)
    with dead that have "live U nodes \<sigma> j" by blast
    moreover have "j \<noteq> i" using that accepted_is_dead [OF vis] by blast
    ultimately show ?thesis using liveD [of j] least [of j] queues setP ki by (auto split: if_splits)
  qed
  have early': "\<not> live U nodes \<sigma>' j" if "j \<in> set P'" "j < Suc i" for j
  proof -
    have "j \<in> set R" using that queues(3) by auto
    then have "i \<le> j" using least [of j] setP by simp
    with that(2) have "j = i" by simp
    then show ?thesis using accepted_is_dead [OF vis] by simp
  qed
  show "sched_inv U nodes (\<sigma>', P', N') (Suc i) \<and> resume U nodes \<sigma> k = resume U nodes \<sigma>' (Suc i)"
  proof
    show "sched_inv U nodes (\<sigma>', P', N') (Suc i)"
      unfolding sched_inv_def prod.case
      using queues(1,2) doms ids dom known' live' early' by (intro conjI) auto
  qed (rule resume)
qed

lemma sched_inv_step:
  assumes inv: "sched_inv U nodes t k" and step: "loop_step U nodes t = Some t'"
  shows "\<exists>k'. sched_inv U nodes t' k' \<and> resume U nodes (fst t) k = resume U nodes (fst t') k'"
proof -
  obtain \<sigma> p q where t: "t = (\<sigma>, p, q)" by (cases t)
  define a where "a = (if p = [] then q else p)"
  define b where "b = (if p = [] then [] else q)"
  have "\<exists>k0. sched_inv U nodes (\<sigma>, a, b) k0 \<and> resume U nodes \<sigma> k = resume U nodes \<sigma> k0"
    using inv sched_inv_turn [of U nodes \<sigma> q k] unfolding t a_def b_def by (cases "p = []") auto
  then obtain k0 where k0: "sched_inv U nodes (\<sigma>, a, b) k0" "resume U nodes \<sigma> k = resume U nodes \<sigma> k0"
    by blast
  from step t obtain i rest where pop: "popScheduledNode a = Some (i, rest)"
    and t': "t' = (case (if i < length nodes then visit_group U (nodes ! i) \<sigma> else None) of
        None \<Rightarrow> (\<sigma>, rest, b)
      | Some \<sigma>' \<Rightarrow> (\<sigma>', schedule_children i (child_indexes nodes (node_id (nodes ! i))) rest b))"
    by (auto simp: loop_step_def a_def b_def split: if_splits option.splits)
  show ?thesis
  proof (cases "if i < length nodes then visit_group U (nodes ! i) \<sigma> else None")
    case None
    then show ?thesis using sched_inv_pop(1) [OF k0(1) pop] k0(2) t t' by auto
  next
    case (Some \<sigma>')
    obtain P' N' where "schedule_children i (child_indexes nodes (node_id (nodes ! i))) rest b = (P', N')"
      by (cases "schedule_children i (child_indexes nodes (node_id (nodes ! i))) rest b")
    with Some show ?thesis using sched_inv_pop(2) [OF k0(1) pop] k0(2) t t' by auto
  qed
qed

lemma loop_step_None:
  assumes "sched_inv U nodes t k" "loop_step U nodes t = None"
  shows "resume U nodes (fst t) k = fst t"
proof -
  obtain \<sigma> p q where t: "t = (\<sigma>, p, q)" by (cases t)
  have "heap_ordered p" "heap_ordered q" using assms(1) t by (auto simp: sched_inv_def)
  then have "p = [] \<and> q = []"
    using assms(2) t by (auto simp: loop_step_def sched.pop_None split: if_splits option.splits)
  then have dead: "\<not> live U nodes \<sigma> i" for i
    using assms(1) t by (auto simp: sched_inv_def split: if_splits)
  then have "scan_pass U nodes \<sigma> = \<sigma>"
    unfolding scan_pass_def by (intro scan_steps_dead) auto
  moreover have "resume U nodes \<sigma> k = scan_passes U nodes \<sigma>"
    using dead scan_steps_dead [of "[k..<length nodes]" nodes U \<sigma>] by (simp add: resume_def)
  ultimately show ?thesis using t by (simp add: scan_passes_fixed)
qed

lemma normalize_loop_resume:
  "sched_inv U nodes t k \<Longrightarrow> normalize_loop U nodes t = resume U nodes (fst t) k"
proof (induction U nodes t arbitrary: k rule: normalize_loop.induct)
  case (1 U nodes t)
  show ?case
  proof (cases "loop_step U nodes t")
    case None
    then show ?thesis using 1(2) by (subst normalize_loop.simps) (simp add: loop_step_None)
  next
    case (Some t')
    obtain k' where "sched_inv U nodes t' k'" "resume U nodes (fst t) k = resume U nodes (fst t') k'"
      using sched_inv_step [OF 1(2) Some] by blast
    with 1(1) [OF Some] Some show ?thesis by (subst normalize_loop.simps) simp
  qed
qed

end
