(* ===== verification/Project_Invariant.thy ===== *)
theory Project_Invariant
  imports Project_Hierarchy
begin

text \<open>
  What a canonical list of project nodes satisfies (\<open>wf_nodes\<close>), that \<open>normalizeProjectNodes\<close> only
  returns such lists, and that it keeps every group it can keep.
\<close>

section \<open>Well-formed lists of nodes\<close>

definition all_repositories :: "project_node list \<Rightarrow> repository_link list" where
  "all_repositories nodes = concat (map node_repositories nodes)"

definition path_keys :: "repository_link list \<Rightarrow> string list" where
  "path_keys rs = List.map_filter repository_path_key rs"

definition url_keys :: "url_parser \<Rightarrow> repository_link list \<Rightarrow> string list" where
  "url_keys U rs = List.map_filter (repository_url_key U) rs"

definition sibling_key :: "project_node \<Rightarrow> string option \<times> string" where
  "sibling_key n = (node_parentId n, createNameKey (node_name n))"

definition node_path_key :: "project_node \<Rightarrow> string" where
  "node_path_key n = createProjectPathKey (node_path n)"

definition kind_ok :: "project_node \<Rightarrow> bool" where
  "kind_ok n \<longleftrightarrow> (node_kind n = ProjectKind \<longleftrightarrow> node_parentId n = None)"

text \<open>Every parent is listed before its children: no orphan and no cycle.\<close>

fun parents_first :: "string set \<Rightarrow> project_node list \<Rightarrow> bool" where
  "parents_first seen [] = True"
| "parents_first seen (n # ns) =
     ((\<forall>p \<in> set_option (node_parentId n). p \<in> seen) \<and> parents_first (insert (node_id n) seen) ns)"

definition unique_repositories :: "url_parser \<Rightarrow> repository_link list \<Rightarrow> bool" where
  "unique_repositories U rs \<longleftrightarrow> distinct (path_keys rs) \<and> distinct (url_keys U rs)"

definition wf_nodes :: "url_parser \<Rightarrow> project_node list \<Rightarrow> bool" where
  "wf_nodes U nodes \<longleftrightarrow>
     distinct (map node_id nodes) \<and> distinct (map node_path_key nodes) \<and>
     distinct (map sibling_key nodes) \<and> unique_repositories U (all_repositories nodes) \<and>
     list_all kind_ok nodes \<and> parents_first {} nodes"

definition wf_registry :: "url_parser \<Rightarrow> project_registry \<Rightarrow> bool" where
  "wf_registry U r \<longleftrightarrow> wf_nodes U (reg_nodes r)"

lemma map_filter_Nil [simp]: "List.map_filter f [] = []"
  by (simp add: List.map_filter_def)

lemma map_filter_Cons: "List.map_filter f (x # xs) = (case f x of None \<Rightarrow> [] | Some y \<Rightarrow> [y]) @ List.map_filter f xs"
  by (simp add: List.map_filter_def split: option.splits)

lemma map_filter_append [simp]: "List.map_filter f (xs @ ys) = List.map_filter f xs @ List.map_filter f ys"
  by (simp add: List.map_filter_def)

lemma set_map_filter: "y \<in> set (List.map_filter f xs) \<longleftrightarrow> (\<exists>x \<in> set xs. f x = Some y)"
  by (induction xs) (auto simp: map_filter_Cons split: option.splits)

lemma map_filter_cong: "(\<And>x. x \<in> set xs \<Longrightarrow> f x = g x) \<Longrightarrow> List.map_filter f xs = List.map_filter g xs"
  by (induction xs) (auto simp: map_filter_Cons split: option.splits)

lemma all_repositories_simps [simp]:
  "all_repositories [] = []"
  "all_repositories (n # ns) = node_repositories n @ all_repositories ns"
  "all_repositories (ns @ ms) = all_repositories ns @ all_repositories ms"
  by (simp_all add: all_repositories_def)

lemma keys_append [simp]:
  "path_keys (rs @ ss) = path_keys rs @ path_keys ss"
  "url_keys U (rs @ ss) = url_keys U rs @ url_keys U ss"
  "path_keys [] = []" "url_keys U [] = []"
  by (simp_all add: path_keys_def url_keys_def)

lemma parents_first_append:
  "parents_first S (ns @ ms) \<longleftrightarrow> parents_first S ns \<and> parents_first (S \<union> node_id ` set ns) ms"
  by (induction S ns rule: parents_first.induct) auto

lemma parents_first_mono: "parents_first S ns \<Longrightarrow> S \<subseteq> T \<Longrightarrow> parents_first T ns"
proof (induction S ns arbitrary: T rule: parents_first.induct)
  case (2 S n ns)
  have "parents_first (insert (node_id n) S) ns" using "2.prems"(1) by simp
  then have "parents_first (insert (node_id n) T) ns"
    by (rule "2.IH") (rule insert_mono [OF "2.prems"(2)])
  then show ?case using "2.prems" by auto
qed simp

lemma parents_first_parent:
  "parents_first S ns \<Longrightarrow> n \<in> set ns \<Longrightarrow> node_parentId n = Some p \<Longrightarrow> p \<in> S \<union> node_id ` set ns"
  by (induction S ns rule: parents_first.induct) auto

section \<open>Repositories\<close>

lemma clean_repository_keys [simp]:
  "repository_path_key (clean_repository U r) = repository_path_key r"
  "repository_url_key U (clean_repository U r) = repository_url_key U r"
  "repo_id (clean_repository U r) = repo_id r"
  by (simp_all add: clean_repository_def repository_path_key_def repository_url_key_def)

lemma filterUniqueRepositories_keys:
  "filterUniqueRepositories U rs ps us = (kept, ps', us') \<Longrightarrow>
     ps' = ps \<union> set (path_keys kept) \<and> us' = us \<union> set (url_keys U kept) \<and>
     distinct (path_keys kept) \<and> distinct (url_keys U kept) \<and>
     set (path_keys kept) \<inter> ps = {} \<and> set (url_keys U kept) \<inter> us = {}"
proof (induction U rs ps us arbitrary: kept ps' us' rule: filterUniqueRepositories.induct)
  case (2 U r rs ps us)
  show ?case
  proof (cases "(\<exists>k \<in> set_option (repository_path_key r). k \<in> ps) \<or> (\<exists>k \<in> set_option (repository_url_key U r). k \<in> us)")
    case True
    with 2(3) 2(1) show ?thesis by (simp add: Let_def)
  next
    case False
    obtain kept0 where eq: "filterUniqueRepositories U rs (set_option (repository_path_key r) \<union> ps)
        (set_option (repository_url_key U r) \<union> us) = (kept0, ps', us')" "kept = clean_repository U r # kept0"
      using 2(3) False by (auto simp: Let_def split: prod.splits)
    from 2(2) [OF refl refl False eq(1)] False eq(2) show ?thesis
      by (auto simp: path_keys_def url_keys_def map_filter_Cons split: option.splits)
  qed
qed simp

text \<open>A repository is dropped only when its path or its remote URL is taken.\<close>

lemma filterUniqueRepositories_complete:
  "filterUniqueRepositories U rs ps us = (kept, ps', us') \<Longrightarrow> r \<in> set rs \<Longrightarrow>
     clean_repository U r \<in> set kept \<or>
     (\<exists>k \<in> set_option (repository_path_key r). k \<in> ps') \<or> (\<exists>k \<in> set_option (repository_url_key U r). k \<in> us')"
proof (induction U rs ps us arbitrary: kept ps' us' rule: filterUniqueRepositories.induct)
  case (2 U x rs ps us)
  show ?case
  proof (cases "(\<exists>k \<in> set_option (repository_path_key x). k \<in> ps) \<or> (\<exists>k \<in> set_option (repository_url_key U x). k \<in> us)")
    case True
    then have rest: "filterUniqueRepositories U rs ps us = (kept, ps', us')"
      using 2(3) by (simp add: Let_def)
    with filterUniqueRepositories_keys [OF rest] True 2(1) [OF refl refl True rest] 2(4) show ?thesis
      by auto
  next
    case False
    obtain kept0 where eq: "filterUniqueRepositories U rs (set_option (repository_path_key x) \<union> ps)
        (set_option (repository_url_key U x) \<union> us) = (kept0, ps', us')" "kept = clean_repository U x # kept0"
      using 2(3) False by (auto simp: Let_def split: prod.splits)
    from 2(2) [OF refl refl False eq(1)] eq(2) 2(4) show ?thesis by auto
  qed
qed simp

section \<open>The traversal builds a well-formed list\<close>

text \<open>The sets the traversal carries describe the nodes it has accepted.\<close>

definition norm_inv :: "url_parser \<Rightarrow> norm_state \<Rightarrow> bool" where
  "norm_inv U \<sigma> \<longleftrightarrow> wf_nodes U (ns_nodes \<sigma>) \<and>
     ns_ids \<sigma> = node_id ` set (ns_nodes \<sigma>) \<and>
     ns_nodePaths \<sigma> = node_path_key ` set (ns_nodes \<sigma>) \<and>
     ns_repoPaths \<sigma> = set (path_keys (all_repositories (ns_nodes \<sigma>))) \<and>
     ns_repoUrls \<sigma> = set (url_keys U (all_repositories (ns_nodes \<sigma>))) \<and>
     ns_rootNames \<sigma> = {k. (None, k) \<in> sibling_key ` set (ns_nodes \<sigma>)} \<and>
     dom (ns_pathById \<sigma>) = ns_ids \<sigma> \<and>
     (\<forall>m \<in> set (ns_nodes \<sigma>). ns_pathById \<sigma> (node_id m) = Some (node_path m)) \<and>
     (\<forall>p. (case ns_childNames \<sigma> p of None \<Rightarrow> {} | Some s \<Rightarrow> s) = {k. (Some p, k) \<in> sibling_key ` set (ns_nodes \<sigma>)})"

lemma accepted_node_simps [simp]:
  "node_id (accepted_node n path rs) = node_id n"
  "node_kind (accepted_node n path rs) = node_kind n"
  "node_parentId (accepted_node n path rs) = node_parentId n"
  "node_name (accepted_node n path rs) = node_name n"
  "node_path (accepted_node n path rs) = path"
  "node_repositories (accepted_node n path rs) = rs"
  "sibling_key (accepted_node n path rs) = sibling_key n"
  "kind_ok (accepted_node n path rs) = kind_ok n"
  "node_path_key (accepted_node n path rs) = createProjectPathKey path"
  by (simp_all add: accepted_node_def sibling_key_def kind_ok_def node_path_key_def)

lemma wf_nodes_snoc:
  "wf_nodes U (ns @ [n]) \<longleftrightarrow> wf_nodes U ns \<and> node_id n \<notin> node_id ` set ns \<and>
     node_path_key n \<notin> node_path_key ` set ns \<and> sibling_key n \<notin> sibling_key ` set ns \<and>
     kind_ok n \<and> (\<forall>p \<in> set_option (node_parentId n). p \<in> node_id ` set ns) \<and>
     unique_repositories U (node_repositories n) \<and>
     set (path_keys (all_repositories ns)) \<inter> set (path_keys (node_repositories n)) = {} \<and>
     set (url_keys U (all_repositories ns)) \<inter> set (url_keys U (node_repositories n)) = {}"
  by (auto simp: wf_nodes_def unique_repositories_def parents_first_append)

lemma acceptE:
  obtains kept where "ns_nodes (accept U \<sigma> n path) = ns_nodes \<sigma> @ [accepted_node n path kept]"
    "ns_repoPaths (accept U \<sigma> n path) = ns_repoPaths \<sigma> \<union> set (path_keys kept)"
    "ns_repoUrls (accept U \<sigma> n path) = ns_repoUrls \<sigma> \<union> set (url_keys U kept)"
    "unique_repositories U kept"
    "set (path_keys kept) \<inter> ns_repoPaths \<sigma> = {}" "set (url_keys U kept) \<inter> ns_repoUrls \<sigma> = {}"
proof -
  obtain kept ps us where f: "filterUniqueRepositories U (node_repositories n) (ns_repoPaths \<sigma>) (ns_repoUrls \<sigma>) = (kept, ps, us)"
    by (cases "filterUniqueRepositories U (node_repositories n) (ns_repoPaths \<sigma>) (ns_repoUrls \<sigma>)")
  from filterUniqueRepositories_keys [OF this] show thesis
    by (intro that [of kept]) (auto simp: accept_def f unique_repositories_def)
qed

lemma norm_inv_init: "norm_inv U norm_init"
  by (simp add: norm_inv_def norm_init_def wf_nodes_def unique_repositories_def)

text \<open>One acceptance, whichever loop makes it.\<close>

lemma norm_inv_accept:
  assumes inv: "norm_inv U \<sigma>" and "node_id n \<notin> ns_ids \<sigma>" and "createProjectPathKey path \<notin> ns_nodePaths \<sigma>"
    and "sibling_key n \<notin> sibling_key ` set (ns_nodes \<sigma>)" and "kind_ok n"
    and "\<forall>p \<in> set_option (node_parentId n). p \<in> ns_ids \<sigma>"
  shows "wf_nodes U (ns_nodes (accept U \<sigma> n path)) \<and>
    ns_ids (accept U \<sigma> n path) = node_id ` set (ns_nodes (accept U \<sigma> n path)) \<and>
    ns_nodePaths (accept U \<sigma> n path) = node_path_key ` set (ns_nodes (accept U \<sigma> n path)) \<and>
    ns_repoPaths (accept U \<sigma> n path) = set (path_keys (all_repositories (ns_nodes (accept U \<sigma> n path)))) \<and>
    ns_repoUrls (accept U \<sigma> n path) = set (url_keys U (all_repositories (ns_nodes (accept U \<sigma> n path)))) \<and>
    sibling_key ` set (ns_nodes (accept U \<sigma> n path)) = insert (sibling_key n) (sibling_key ` set (ns_nodes \<sigma>)) \<and>
    (\<forall>m \<in> set (ns_nodes (accept U \<sigma> n path)).
       ((ns_pathById \<sigma>)(node_id n \<mapsto> path)) (node_id m) = Some (node_path m))"
proof (rule acceptE [of U \<sigma> n path])
  fix kept
  assume "ns_nodes (accept U \<sigma> n path) = ns_nodes \<sigma> @ [accepted_node n path kept]"
    "ns_repoPaths (accept U \<sigma> n path) = ns_repoPaths \<sigma> \<union> set (path_keys kept)"
    "ns_repoUrls (accept U \<sigma> n path) = ns_repoUrls \<sigma> \<union> set (url_keys U kept)"
    "unique_repositories U kept"
    "set (path_keys kept) \<inter> ns_repoPaths \<sigma> = {}" "set (url_keys U kept) \<inter> ns_repoUrls \<sigma> = {}"
  moreover have "node_id m \<noteq> node_id n" if "m \<in> set (ns_nodes \<sigma>)" for m
    using assms(1,2) that unfolding norm_inv_def by (metis imageI)
  ultimately show ?thesis using assms by (auto simp: norm_inv_def wf_nodes_snoc)
qed

lemma norm_inv_visit_root:
  assumes inv: "norm_inv U \<sigma>"
  shows "norm_inv U (visit_root U n \<sigma>)"
proof (cases "visit_root U n \<sigma> = \<sigma>")
  case False
  let ?path = "effective_path None n"
  from False have n: "node_id n \<notin> ns_ids \<sigma>" "node_kind n = ProjectKind" "node_parentId n = None"
      "createNameKey (node_name n) \<notin> ns_rootNames \<sigma>" "createProjectPathKey ?path \<notin> ns_nodePaths \<sigma>"
    and eq: "visit_root U n \<sigma> = (accept U \<sigma> n ?path)\<lparr>
      ns_rootNames := insert (createNameKey (node_name n)) (ns_rootNames \<sigma>),
      ns_pathById := (ns_pathById \<sigma>)(node_id n \<mapsto> ?path)\<rparr>"
    by (auto simp: visit_root_def Let_def split: if_splits)
  have "norm_inv U ((accept U \<sigma> n ?path)\<lparr>
      ns_rootNames := insert (createNameKey (node_name n)) (ns_rootNames \<sigma>),
      ns_pathById := (ns_pathById \<sigma>)(node_id n \<mapsto> ?path)\<rparr>)"
    using norm_inv_accept [OF inv n(1) n(5)] inv n
    by (auto simp: norm_inv_def kind_ok_def sibling_key_def)
  then show ?thesis by (simp only: eq)
qed (simp add: inv)

lemma norm_inv_visit_group:
  assumes inv: "norm_inv U \<sigma>" and kind: "node_kind n = GroupKind" and v: "visit_group U n \<sigma> = Some \<sigma>'"
  shows "norm_inv U \<sigma>'"
  using v
proof (rule visit_group_SomeE)
  fix p parentPath path
  let ?sib = "case ns_childNames \<sigma> p of None \<Rightarrow> {} | Some s \<Rightarrow> s"
  assume n: "node_parentId n = Some p" "ns_pathById \<sigma> p = Some parentPath" "node_id n \<notin> ns_ids \<sigma>"
    "createProjectPathKey path \<notin> ns_nodePaths \<sigma>" "createNameKey (node_name n) \<notin> ?sib"
    and eq: "\<sigma>' = (accept U \<sigma> n path)\<lparr>ns_childNames := (ns_childNames \<sigma>)(p \<mapsto> insert (createNameKey (node_name n)) ?sib),
       ns_pathById := (ns_pathById \<sigma>)(node_id n \<mapsto> path)\<rparr>"
  have sib: "?sib = {k. (Some p, k) \<in> sibling_key ` set (ns_nodes \<sigma>)}" using inv by (simp add: norm_inv_def)
  have "p \<in> ns_ids \<sigma>" using inv n(2) by (auto simp: norm_inv_def)
  with n kind sib have acc: "sibling_key n \<notin> sibling_key ` set (ns_nodes \<sigma>)" "kind_ok n"
    "\<forall>p \<in> set_option (node_parentId n). p \<in> ns_ids \<sigma>"
    by (auto simp: sibling_key_def kind_ok_def)
  note facts = norm_inv_accept [OF inv n(3,4) acc]
  have "\<forall>q. (case ((ns_childNames \<sigma>)(p \<mapsto> insert (createNameKey (node_name n)) ?sib)) q of None \<Rightarrow> {} | Some s \<Rightarrow> s)
      = {k. (Some q, k) \<in> insert (sibling_key n) (sibling_key ` set (ns_nodes \<sigma>))}"
  proof
    fix q
    show "(case ((ns_childNames \<sigma>)(p \<mapsto> insert (createNameKey (node_name n)) ?sib)) q of None \<Rightarrow> {} | Some s \<Rightarrow> s)
      = {k. (Some q, k) \<in> insert (sibling_key n) (sibling_key ` set (ns_nodes \<sigma>))}"
      using inv n(1) sib unfolding norm_inv_def by (cases "q = p") (auto simp: sibling_key_def)
  qed
  with facts inv n(1) show ?thesis
    unfolding norm_inv_def eq by (auto simp: sibling_key_def)
qed

lemma norm_inv_root_pass: "norm_inv U (root_pass U nodes)"
proof -
  have "norm_inv U \<sigma> \<Longrightarrow> norm_inv U (fold (visit_root U) ns \<sigma>)" for ns \<sigma>
    by (induction ns arbitrary: \<sigma>) (auto simp: norm_inv_visit_root)
  then show ?thesis by (simp add: root_pass_def norm_inv_init)
qed

lemma norm_inv_scan_step: "norm_inv U \<sigma> \<Longrightarrow> norm_inv U (scan_step U nodes i \<sigma>)"
  by (auto simp: scan_step_def norm_inv_visit_group split: option.splits)

lemma norm_inv_scan_pass: "norm_inv U \<sigma> \<Longrightarrow> norm_inv U (scan_pass U nodes \<sigma>)"
proof -
  have "norm_inv U \<sigma> \<Longrightarrow> norm_inv U (fold (scan_step U nodes) is \<sigma>)" for "is" \<sigma>
    by (induction "is" arbitrary: \<sigma>) (auto simp: norm_inv_scan_step)
  then show "norm_inv U \<sigma> \<Longrightarrow> ?thesis" by (simp add: scan_pass_def)
qed

lemma norm_inv_scan_passes: "norm_inv U \<sigma> \<Longrightarrow> norm_inv U (scan_passes U nodes \<sigma>)"
proof (induction U nodes \<sigma> rule: scan_passes.induct)
  case (1 U nodes \<sigma>)
  then show ?case
    by (subst scan_passes.simps) (auto simp: Let_def norm_inv_scan_pass)
qed

section \<open>Results of the canonicalisation\<close>

lemma fold_push_children:
  "heap_ordered q \<Longrightarrow>
   heap_ordered (fold (\<lambda>root q. fold (\<lambda>c q. pushScheduledNode q c) (cs root) q) roots q) \<and>
   set (fold (\<lambda>root q. fold (\<lambda>c q. pushScheduledNode q c) (cs root) q) roots q)
     = set q \<union> (\<Union>root \<in> set roots. set (cs root))"
proof (induction roots arbitrary: q)
  case (Cons r roots)
  let ?q = "fold (\<lambda>c q. pushScheduledNode q c) (cs r) q"
  have "heap_ordered ?q" using Cons.prems by (rule sched.invar_fold_push)
  moreover have "set ?q = set (cs r) \<union> set q"
    using sched.content_fold_push [OF Cons.prems] by (metis set_mset_mset set_mset_union)
  ultimately show ?case using Cons.IH [of ?q] by auto
qed simp

lemma sched_inv_start:
  fixes nodes :: "project_node list"
  assumes inv: "norm_inv U \<sigma>"
  defines "P \<equiv> fold (\<lambda>root q. fold (\<lambda>c q. pushScheduledNode q c) (child_indexes nodes (node_id root)) q)
                      (ns_nodes \<sigma>) []"
  shows "sched_inv U nodes (\<sigma>, P, []) 0"
proof -
  have P: "heap_ordered P" "set P = (\<Union>root \<in> set (ns_nodes \<sigma>). set (child_indexes nodes (node_id root)))"
    using fold_push_children [of "[]" "\<lambda>root. child_indexes nodes (node_id root)" "ns_nodes \<sigma>"]
    by (simp_all add: P_def heap_ordered_def)
  have doms: "dom (ns_pathById \<sigma>) = ns_ids \<sigma>" "ns_ids \<sigma> = node_id ` set (ns_nodes \<sigma>)"
    using inv by (simp_all add: norm_inv_def)
  have known: "i \<in> set P \<longleftrightarrow> parent_known nodes \<sigma> i" for i
    using P(2) doms by (auto simp: set_child_indexes parent_known_def)
  show ?thesis
    unfolding sched_inv_def prod.case
    using P(1) doms known live_parent_known by (auto simp: heap_ordered_def)
qed

text \<open>The scheduled traversal computes exactly what the repeated scans compute.\<close>

lemma normalizeProjectNodes_eq:
  "normalizeProjectNodes U nodes = ns_nodes (scan_passes U nodes (root_pass U nodes))"
proof -
  let ?\<sigma> = "root_pass U nodes"
  have "resume U nodes ?\<sigma> 0 = scan_passes U nodes ?\<sigma>"
    using scan_passes_after_pass [of U nodes ?\<sigma>] by (simp add: resume_def scan_pass_def)
  with normalize_loop_resume [OF sched_inv_start [OF norm_inv_root_pass, of U nodes nodes]]
  show ?thesis by (simp add: normalizeProjectNodes_def Let_def)
qed

lemma norm_inv_result: "norm_inv U (scan_passes U nodes (root_pass U nodes))"
  by (intro norm_inv_scan_passes norm_inv_root_pass)

lemma wf_normalizeProjectNodes: "wf_nodes U (normalizeProjectNodes U nodes)"
  using norm_inv_result [of U nodes] by (simp add: normalizeProjectNodes_eq norm_inv_def)

lemma wf_nodes_Nil [simp]: "wf_nodes U []"
  by (simp add: wf_nodes_def unique_repositories_def)

lemma wf_normalizeProjectRegistry: "wf_registry U (normalizeProjectRegistry U now v ws)"
  by (simp add: wf_registry_def normalizeProjectRegistry_def createEmptyProjectRegistry_def Let_def
      wf_normalizeProjectNodes)

lemma workspaceId_normalizeProjectRegistry [simp]:
  "reg_workspaceId (normalizeProjectRegistry U now v ws) = ws"
  by (simp add: normalizeProjectRegistry_def createEmptyProjectRegistry_def Let_def)

subsection \<open>What is dropped\<close>

lemma scan_passes_final: "scan_pass U nodes (scan_passes U nodes \<sigma>) = scan_passes U nodes \<sigma>"
proof (induction U nodes \<sigma> rule: scan_passes.induct)
  case (1 U nodes \<sigma>)
  show ?case
  proof (cases "ns_nodes (scan_pass U nodes \<sigma>) = ns_nodes \<sigma>")
    case True
    then have "scan_pass U nodes \<sigma> = \<sigma>"
      using scan_steps_extend [of \<sigma> U nodes "[0..<length nodes]"] by (simp add: scan_pass_def)
    then show ?thesis by (simp add: scan_passes_fixed)
  next
    case False
    then have "scan_passes U nodes \<sigma> = scan_passes U nodes (scan_pass U nodes \<sigma>)"
      by (simp add: scan_passes_after_pass)
    with 1 [OF refl False] show ?thesis by simp
  qed
qed

lemma scan_steps_fixed_dead:
  assumes "fold (scan_step U nodes) is \<sigma> = \<sigma>" "i \<in> set is" "i < length nodes"
  shows "\<not> live U nodes \<sigma> i"
  using assms
proof (induction "is" arbitrary: \<sigma>)
  case (Cons j "is")
  let ?\<sigma>' = "scan_step U nodes j \<sigma>"
  have keep: "?\<sigma>' = \<sigma>"
  proof (rule ccontr)
    assume "?\<sigma>' \<noteq> \<sigma>"
    then have "length (ns_nodes ?\<sigma>') = Suc (length (ns_nodes \<sigma>))"
      by (auto simp: scan_step_def visit_group_extends split: option.splits if_splits)
    with scan_steps_extend [of ?\<sigma>' U nodes "is"] Cons.prems(1) show False by simp
  qed
  show ?case
  proof (cases "i = j")
    case True
    have "length (ns_nodes \<sigma>') \<noteq> length (ns_nodes \<sigma>)" if "visit_group U (nodes ! j) \<sigma> = Some \<sigma>'" for \<sigma>'
      using visit_group_extends [OF that] by simp
    with keep True show ?thesis by (auto simp: live_def scan_step_def split: option.splits)
  next
    case False
    with Cons keep show ?thesis by auto
  qed
qed simp

lemma final_dead:
  assumes "i < length nodes"
  shows "\<not> live U nodes (scan_passes U nodes \<sigma>) i"
  using scan_steps_fixed_dead [of U nodes "[0..<length nodes]" "scan_passes U nodes \<sigma>" i]
    scan_passes_final [of U nodes \<sigma>] assms by (simp add: scan_pass_def)

text \<open>
  A group of the input whose parent is kept is dropped only for a reason: its identifier is taken, a
  kept sibling has its name, or a kept node has its path.
\<close>

lemma dropped_group_collides:
  assumes n: "n \<in> set nodes" "node_kind n = GroupKind" "node_parentId n = Some p"
    and parent: "p \<in> node_id ` set (normalizeProjectNodes U nodes)"
  shows "node_id n \<in> node_id ` set (normalizeProjectNodes U nodes) \<or>
    sibling_key n \<in> sibling_key ` set (normalizeProjectNodes U nodes) \<or>
    (\<exists>parent \<in> set (normalizeProjectNodes U nodes). node_id parent = p \<and>
       createProjectPathKey (effective_path (Some (node_path parent)) n)
         \<in> node_path_key ` set (normalizeProjectNodes U nodes))"
proof -
  let ?\<sigma> = "scan_passes U nodes (root_pass U nodes)"
  have inv: "norm_inv U ?\<sigma>" by (rule norm_inv_result)
  obtain i where i: "i < length nodes" "n = nodes ! i" using n(1) by (metis in_set_conv_nth)
  then have v: "visit_group U n ?\<sigma> = None" using final_dead [of i nodes U "root_pass U nodes"] n(2)
    by (simp add: live_def)
  obtain m where m: "m \<in> set (ns_nodes ?\<sigma>)" "node_id m = p"
    using parent by (auto simp: normalizeProjectNodes_eq)
  then have pp: "ns_pathById ?\<sigma> p = Some (node_path m)" using inv by (auto simp: norm_inv_def)
  have sib: "(case ns_childNames ?\<sigma> p of None \<Rightarrow> {} | Some s \<Rightarrow> s) = {k. (Some p, k) \<in> sibling_key ` set (ns_nodes ?\<sigma>)}"
    and ids: "ns_ids ?\<sigma> = node_id ` set (ns_nodes ?\<sigma>)"
    and paths: "ns_nodePaths ?\<sigma> = node_path_key ` set (ns_nodes ?\<sigma>)"
    using inv by (simp_all add: norm_inv_def)
  have "node_id n \<in> ns_ids ?\<sigma> \<or>
      createNameKey (node_name n) \<in> (case ns_childNames ?\<sigma> p of None \<Rightarrow> {} | Some s \<Rightarrow> s) \<or>
      createProjectPathKey (effective_path (Some (node_path m)) n) \<in> ns_nodePaths ?\<sigma>"
    using v n(3) pp by (auto simp: visit_group_def Let_def split: if_splits)
  then show ?thesis
    unfolding normalizeProjectNodes_eq sib ids paths using n(3) m by (auto simp: sibling_key_def)
qed

end
