(* ===== verification/Project_Registry.thy ===== *)
theory Project_Registry
  imports Project_Invariant
begin

text \<open>
  The mutations of \<open>src/lib/projects/project-registry.ts\<close>. Each one first canonicalises the registry
  it is given and answers with the canonical registry and an error, or with the changed registry.
  \<open>now\<close> is \<open>now.toISOString()\<close>, also used where the canonicalisation reads the clock (which only a
  registry of another version makes it do); \<open>fresh\<close> is the identifier \<open>crypto.randomUUID()\<close> returns.
\<close>

section \<open>Inputs\<close>

text \<open>An optional or nullable field is an option; the code treats \<open>undefined\<close> and \<open>null\<close> alike.\<close>

record project_node_input =
  ni_kind :: project_node_kind
  ni_parentId :: "string option"
  ni_name :: string
  ni_description :: "string option"
  ni_path :: string
  ni_githubCredentialSecretId :: "string option"
  ni_tags :: "string list option"

record repository_link_input =
  ri_nodeId :: string
  ri_name :: string
  ri_path :: "string option"
  ri_remoteUrl :: "string option"
  ri_upstreamRemoteUrl :: "string option"
  ri_githubCredentialSecretId :: "string option"
  ri_tags :: "string list option"

record remote_url_backfill_input =
  bi_repositoryId :: string
  bi_remoteUrl :: "string option"
  bi_upstreamRemoteUrl :: "string option"

text \<open>\<open>value ?? ''\<close> and \<open>value ?? []\<close>\<close>

definition or_empty :: "'a list option \<Rightarrow> 'a list" where
  "or_empty x = (case x of None \<Rightarrow> [] | Some v \<Rightarrow> v)"

section \<open>Shared steps\<close>

definition normalized :: "url_parser \<Rightarrow> string \<Rightarrow> project_registry \<Rightarrow> project_registry" where
  "normalized U now registry =
     normalizeProjectRegistry U now (registry_js registry) (reg_workspaceId registry)"

definition find_node :: "project_node list \<Rightarrow> string \<Rightarrow> project_node option" where
  "find_node nodes i = List.find (\<lambda>n. node_id n = i) nodes"

definition update_node :: "string \<Rightarrow> (project_node \<Rightarrow> project_node) \<Rightarrow> project_node list \<Rightarrow> project_node list" where
  "update_node i f nodes = map (\<lambda>n. if node_id n = i then f n else n) nodes"

definition update_repository ::
  "string \<Rightarrow> (repository_link \<Rightarrow> repository_link) \<Rightarrow> repository_link list \<Rightarrow> repository_link list" where
  "update_repository i f rs = map (\<lambda>r. if repo_id r = i then f r else r) rs"

definition has_repository :: "project_node \<Rightarrow> string \<Rightarrow> bool" where
  "has_repository n i = (\<exists>r \<in> set (node_repositories n). repo_id r = i)"

definition hasSiblingWithName :: "project_node list \<Rightarrow> string option \<Rightarrow> string \<Rightarrow> string option \<Rightarrow> bool" where
  "hasSiblingWithName nodes parentId name ignoreNodeId =
     (\<exists>n \<in> set nodes. Some (node_id n) \<noteq> ignoreNodeId \<and> node_parentId n = parentId \<and>
        createNameKey (node_name n) = createNameKey name)"

definition hasNodeWithPath :: "project_node list \<Rightarrow> string \<Rightarrow> string option \<Rightarrow> bool" where
  "hasNodeWithPath nodes path ignoreNodeId =
     (\<exists>n \<in> set nodes. Some (node_id n) \<noteq> ignoreNodeId \<and>
        createProjectPathKey (node_path n) = createProjectPathKey path)"

text \<open>Whether some group holds a repository with this path key, or this URL key, other than \<open>ignored\<close>.\<close>

definition group_path_taken :: "project_node list \<Rightarrow> string \<Rightarrow> string option \<Rightarrow> bool" where
  "group_path_taken nodes key ignored =
     (\<exists>n \<in> set nodes. node_kind n = GroupKind \<and>
        (\<exists>r \<in> set (node_repositories n). Some (repo_id r) \<noteq> ignored \<and> repository_path_key r = Some key))"

definition group_url_taken :: "url_parser \<Rightarrow> project_node list \<Rightarrow> string \<Rightarrow> string option \<Rightarrow> bool" where
  "group_url_taken U nodes key ignored =
     (\<exists>n \<in> set nodes. node_kind n = GroupKind \<and>
        (\<exists>r \<in> set (node_repositories n). Some (repo_id r) \<noteq> ignored \<and> repository_url_key U r = Some key))"

section \<open>Adding\<close>

definition addProjectNode ::
  "url_parser \<Rightarrow> string \<Rightarrow> string \<Rightarrow> project_registry \<Rightarrow> project_node_input \<Rightarrow> project_mutation" where
  "addProjectNode U now fresh registry input =
     (let reg = normalized U now registry;
          name = normalizeProjectName (ni_name input);
          description = normalizeProjectDescription (or_empty (ni_description input));
          path = normalizeProjectPath (ni_path input);
          credential = normalizeRecordId (js_nullable (ni_githubCredentialSecretId input));
          tags = normalizeProjectTags (or_empty (ni_tags input));
          parentId = (if ni_kind input = ProjectKind then None
                      else normalizeRecordId (js_nullable (ni_parentId input)));
          parent_error =
            (if ni_kind input = GroupKind then
               (case parentId of
                  None \<Rightarrow> Some project_parent_not_found
                | Some p \<Rightarrow>
                    (case find_node (reg_nodes reg) p of
                       None \<Rightarrow> Some project_parent_not_found
                     | Some parent \<Rightarrow>
                         if node_kind parent \<noteq> ProjectKind \<and> node_kind parent \<noteq> GroupKind
                         then Some project_parent_invalid else None))
             else None)
      in if name = [] then Err reg project_name_required
         else if path = [] then Err reg project_path_required
         else (case parent_error of
             Some e \<Rightarrow> Err reg e
           | None \<Rightarrow>
               if hasSiblingWithName (reg_nodes reg) parentId name None then Err reg project_name_duplicate
               else if hasNodeWithPath (reg_nodes reg) path None then Err reg project_path_duplicate
               else Ok (reg\<lparr>
                 reg_nodes := reg_nodes reg @
                   [\<lparr>node_id = fresh, node_kind = ni_kind input, node_parentId = parentId, node_name = name,
                     node_description = description, node_path = path,
                     node_githubCredentialSecretId = credential, node_tags = tags, node_repositories = [],
                     node_createdAt = now, node_updatedAt = now\<rparr>],
                 reg_updatedAt := now\<rparr>)))"

definition addProjectRepositoryLink ::
  "url_parser \<Rightarrow> string \<Rightarrow> string \<Rightarrow> project_registry \<Rightarrow> repository_link_input \<Rightarrow> project_mutation" where
  "addProjectRepositoryLink U now fresh registry input =
     (let reg = normalized U now registry;
          name = normalizeRepositoryName (ri_name input);
          path = normalizeRepositoryPath (or_empty (ri_path input));
          remoteUrl = normalizeRepositoryRemoteUrl U (or_empty (ri_remoteUrl input));
          upstreamRemoteUrl = normalizeRepositoryRemoteUrl U (or_empty (ri_upstreamRemoteUrl input));
          credential = normalizeRecordId (js_nullable (ri_githubCredentialSecretId input));
          tags = normalizeProjectTags (or_empty (ri_tags input))
      in case find_node (reg_nodes reg) (ri_nodeId input) of
           None \<Rightarrow> Err reg project_node_not_found
         | Some targetNode \<Rightarrow>
             if node_kind targetNode \<noteq> GroupKind then Err reg project_repository_target_invalid
             else if name = [] then Err reg project_repository_name_required
             else if path = [] \<and> remoteUrl = [] then Err reg project_repository_source_required
             else if js_trim (or_empty (ri_remoteUrl input)) \<noteq> [] \<and> remoteUrl = []
             then Err reg project_repository_remote_url_invalid
             else if js_trim (or_empty (ri_upstreamRemoteUrl input)) \<noteq> [] \<and> upstreamRemoteUrl = []
             then Err reg project_repository_remote_url_invalid
             else if path \<noteq> [] \<and> group_path_taken (reg_nodes reg) (createRepositoryPathKey path) None
             then Err reg project_repository_path_duplicate
             else if remoteUrl \<noteq> [] \<and> group_url_taken U (reg_nodes reg) (createRepositoryRemoteUrlKey U remoteUrl) None
             then Err reg project_repository_remote_url_duplicate
             else (let nextRepository =
                     \<lparr>repo_id = fresh, repo_name = name, repo_path = non_empty path,
                      repo_remoteUrl = non_empty remoteUrl,
                      repo_upstreamRemoteUrl = non_empty upstreamRemoteUrl,
                      repo_githubCredentialSecretId = credential, repo_favorite = False, repo_tags = tags,
                      repo_createdAt = now, repo_updatedAt = now\<rparr>
                   in Ok (reg\<lparr>
                     reg_nodes := update_node (node_id targetNode)
                       (\<lambda>n. n\<lparr>node_repositories := node_repositories n @ [nextRepository],
                              node_updatedAt := now\<rparr>) (reg_nodes reg),
                     reg_updatedAt := now\<rparr>)))"

section \<open>Changing a node\<close>

definition setProjectNodeTags ::
  "url_parser \<Rightarrow> string \<Rightarrow> project_registry \<Rightarrow> string \<Rightarrow> string list \<Rightarrow> project_mutation" where
  "setProjectNodeTags U now registry nodeId input_tags =
     (let reg = normalized U now registry in
      case find_node (reg_nodes reg) nodeId of
        None \<Rightarrow> Err reg project_node_not_found
      | Some targetNode \<Rightarrow>
          (let tags = normalizeProjectTags input_tags in
           Ok (reg\<lparr>reg_nodes := update_node (node_id targetNode)
                   (\<lambda>n. n\<lparr>node_tags := tags, node_updatedAt := now\<rparr>) (reg_nodes reg),
                 reg_updatedAt := now\<rparr>)))"

definition setProjectNodeDescription ::
  "url_parser \<Rightarrow> string \<Rightarrow> project_registry \<Rightarrow> string \<Rightarrow> string \<Rightarrow> project_mutation" where
  "setProjectNodeDescription U now registry nodeId input_description =
     (let reg = normalized U now registry in
      case find_node (reg_nodes reg) nodeId of
        None \<Rightarrow> Err reg project_node_not_found
      | Some targetNode \<Rightarrow>
          (let description = normalizeProjectDescription input_description in
           Ok (reg\<lparr>reg_nodes := update_node (node_id targetNode)
                   (\<lambda>n. n\<lparr>node_description := description, node_updatedAt := now\<rparr>) (reg_nodes reg),
                 reg_updatedAt := now\<rparr>)))"

definition setProjectNodeName ::
  "url_parser \<Rightarrow> string \<Rightarrow> project_registry \<Rightarrow> string \<Rightarrow> string \<Rightarrow> project_mutation" where
  "setProjectNodeName U now registry nodeId input_name =
     (let reg = normalized U now registry in
      case find_node (reg_nodes reg) nodeId of
        None \<Rightarrow> Err reg project_node_not_found
      | Some targetNode \<Rightarrow>
          (let name = normalizeProjectName input_name in
           if name = [] then Err reg project_name_required
           else if hasSiblingWithName (reg_nodes reg) (node_parentId targetNode) name (Some (node_id targetNode))
           then Err reg project_name_duplicate
           else Ok (reg\<lparr>reg_nodes := update_node (node_id targetNode)
                   (\<lambda>n. n\<lparr>node_name := name, node_updatedAt := now\<rparr>) (reg_nodes reg),
                 reg_updatedAt := now\<rparr>)))"

definition setProjectNodePath ::
  "url_parser \<Rightarrow> string \<Rightarrow> project_registry \<Rightarrow> string \<Rightarrow> string \<Rightarrow> project_mutation" where
  "setProjectNodePath U now registry nodeId input_path =
     (let reg = normalized U now registry in
      case find_node (reg_nodes reg) nodeId of
        None \<Rightarrow> Err reg project_node_not_found
      | Some targetNode \<Rightarrow>
          (let path = normalizeProjectPath input_path in
           if path = [] then Err reg project_path_required
           else if hasNodeWithPath (reg_nodes reg) path (Some (node_id targetNode))
           then Err reg project_path_duplicate
           else Ok (reg\<lparr>reg_nodes := update_node (node_id targetNode)
                   (\<lambda>n. n\<lparr>node_path := path, node_updatedAt := now\<rparr>) (reg_nodes reg),
                 reg_updatedAt := now\<rparr>)))"

definition setProjectNodeGithubCredential ::
  "url_parser \<Rightarrow> string \<Rightarrow> project_registry \<Rightarrow> string \<Rightarrow> string option \<Rightarrow> project_mutation" where
  "setProjectNodeGithubCredential U now registry nodeId secretId =
     (let reg = normalized U now registry in
      case find_node (reg_nodes reg) nodeId of
        None \<Rightarrow> Err reg project_node_not_found
      | Some targetNode \<Rightarrow>
          (let credential = normalizeRecordId (js_nullable secretId) in
           Ok (reg\<lparr>reg_nodes := update_node (node_id targetNode)
                   (\<lambda>n. n\<lparr>node_githubCredentialSecretId := credential, node_updatedAt := now\<rparr>) (reg_nodes reg),
                 reg_updatedAt := now\<rparr>)))"

section \<open>Changing a repository\<close>

text \<open>The change shared by the repository setters: the target group's matching repositories.\<close>

definition with_repository ::
  "string \<Rightarrow> project_registry \<Rightarrow> string \<Rightarrow> string \<Rightarrow> (repository_link \<Rightarrow> repository_link) \<Rightarrow> project_registry" where
  "with_repository now reg nodeId repositoryId f =
     reg\<lparr>reg_nodes := update_node nodeId
           (\<lambda>n. n\<lparr>node_repositories := update_repository repositoryId f (node_repositories n),
                  node_updatedAt := now\<rparr>) (reg_nodes reg),
         reg_updatedAt := now\<rparr>"

definition setProjectRepositoryTags ::
  "url_parser \<Rightarrow> string \<Rightarrow> project_registry \<Rightarrow> string \<Rightarrow> string \<Rightarrow> string list \<Rightarrow> project_mutation" where
  "setProjectRepositoryTags U now registry nodeId repositoryId input_tags =
     (let reg = normalized U now registry in
      case find_node (reg_nodes reg) nodeId of
        None \<Rightarrow> Err reg project_node_not_found
      | Some targetNode \<Rightarrow>
          if node_kind targetNode \<noteq> GroupKind then Err reg project_repository_target_invalid
          else if \<not> has_repository targetNode repositoryId then Err reg project_repository_not_found
          else (let tags = normalizeProjectTags input_tags in
            Ok (with_repository now reg (node_id targetNode) repositoryId
                 (\<lambda>r. r\<lparr>repo_tags := tags, repo_updatedAt := now\<rparr>))))"

definition setProjectRepositoryFavorite ::
  "url_parser \<Rightarrow> string \<Rightarrow> project_registry \<Rightarrow> string \<Rightarrow> string \<Rightarrow> bool \<Rightarrow> project_mutation" where
  "setProjectRepositoryFavorite U now registry nodeId repositoryId favorite =
     (let reg = normalized U now registry in
      case find_node (reg_nodes reg) nodeId of
        None \<Rightarrow> Err reg project_node_not_found
      | Some targetNode \<Rightarrow>
          if node_kind targetNode \<noteq> GroupKind then Err reg project_repository_target_invalid
          else if \<not> has_repository targetNode repositoryId then Err reg project_repository_not_found
          else Ok (with_repository now reg (node_id targetNode) repositoryId
                 (\<lambda>r. r\<lparr>repo_favorite := favorite, repo_updatedAt := now\<rparr>)))"

definition setProjectRepositoryLocalPath ::
  "url_parser \<Rightarrow> string \<Rightarrow> project_registry \<Rightarrow> string \<Rightarrow> string \<Rightarrow> string \<Rightarrow> project_mutation" where
  "setProjectRepositoryLocalPath U now registry nodeId repositoryId input_path =
     (let reg = normalized U now registry;
          path = normalizeRepositoryPath input_path
      in case find_node (reg_nodes reg) nodeId of
        None \<Rightarrow> Err reg project_node_not_found
      | Some targetNode \<Rightarrow>
          if node_kind targetNode \<noteq> GroupKind then Err reg project_repository_target_invalid
          else if \<not> has_repository targetNode repositoryId then Err reg project_repository_not_found
          else if path = [] then Err reg project_repository_path_required
          else if group_path_taken (reg_nodes reg) (createRepositoryPathKey path) (Some repositoryId)
          then Err reg project_repository_path_duplicate
          else Ok (with_repository now reg (node_id targetNode) repositoryId
                 (\<lambda>r. r\<lparr>repo_path := Some path, repo_updatedAt := now\<rparr>)))"

definition setProjectRepositoryRemoteUrl ::
  "url_parser \<Rightarrow> string \<Rightarrow> project_registry \<Rightarrow> string \<Rightarrow> string \<Rightarrow> string option \<Rightarrow> project_mutation" where
  "setProjectRepositoryRemoteUrl U now registry nodeId repositoryId input_url =
     (let reg = normalized U now registry;
          remoteUrl = normalizeRepositoryRemoteUrl U (or_empty input_url)
      in case find_node (reg_nodes reg) nodeId of
        None \<Rightarrow> Err reg project_node_not_found
      | Some targetNode \<Rightarrow>
          if node_kind targetNode \<noteq> GroupKind then Err reg project_repository_target_invalid
          else (case List.find (\<lambda>r. repo_id r = repositoryId) (node_repositories targetNode) of
             None \<Rightarrow> Err reg project_repository_not_found
           | Some targetRepository \<Rightarrow>
              if js_trim (or_empty input_url) \<noteq> [] \<and> remoteUrl = []
              then Err reg project_repository_remote_url_invalid
              else if remoteUrl = [] \<and> repo_path targetRepository = None
              then Err reg project_repository_source_required
              else if remoteUrl \<noteq> [] \<and>
                      group_url_taken U (reg_nodes reg) (createRepositoryRemoteUrlKey U remoteUrl) (Some repositoryId)
              then Err reg project_repository_remote_url_duplicate
              else Ok (with_repository now reg (node_id targetNode) repositoryId
                     (\<lambda>r. r\<lparr>repo_remoteUrl := non_empty remoteUrl,
                            repo_upstreamRemoteUrl :=
                              (if remoteUrl = [] then None else repo_upstreamRemoteUrl r),
                            repo_updatedAt := now\<rparr>))))"

definition setProjectRepositoryGithubCredential ::
  "url_parser \<Rightarrow> string \<Rightarrow> project_registry \<Rightarrow> string \<Rightarrow> string \<Rightarrow> string option \<Rightarrow> project_mutation" where
  "setProjectRepositoryGithubCredential U now registry nodeId repositoryId secretId =
     (let reg = normalized U now registry in
      case find_node (reg_nodes reg) nodeId of
        None \<Rightarrow> Err reg project_node_not_found
      | Some targetNode \<Rightarrow>
          if node_kind targetNode \<noteq> GroupKind then Err reg project_repository_target_invalid
          else if \<not> has_repository targetNode repositoryId then Err reg project_repository_not_found
          else (let credential = normalizeRecordId (js_nullable secretId) in
            Ok (with_repository now reg (node_id targetNode) repositoryId
                 (\<lambda>r. r\<lparr>repo_githubCredentialSecretId := credential, repo_updatedAt := now\<rparr>))))"

definition removeProjectRepositoryLink ::
  "url_parser \<Rightarrow> string \<Rightarrow> project_registry \<Rightarrow> string \<Rightarrow> string \<Rightarrow> project_mutation" where
  "removeProjectRepositoryLink U now registry nodeId repositoryId =
     (let reg = normalized U now registry in
      case find_node (reg_nodes reg) nodeId of
        None \<Rightarrow> Err reg project_node_not_found
      | Some targetNode \<Rightarrow>
          if node_kind targetNode \<noteq> GroupKind then Err reg project_repository_target_invalid
          else if \<not> has_repository targetNode repositoryId then Err reg project_repository_not_found
          else Ok (reg\<lparr>
            reg_nodes := update_node (node_id targetNode)
              (\<lambda>n. n\<lparr>node_repositories := filter (\<lambda>r. repo_id r \<noteq> repositoryId) (node_repositories n),
                     node_updatedAt := now\<rparr>) (reg_nodes reg),
            reg_updatedAt := now\<rparr>))"

section \<open>Backfilling remote URLs\<close>

text \<open>\<open>new Map(inputs.map(...))\<close>: a later input for the same repository replaces an earlier one.\<close>

definition backfill_inputs ::
  "url_parser \<Rightarrow> remote_url_backfill_input list \<Rightarrow> (string \<rightharpoonup> string \<times> string)" where
  "backfill_inputs U inputs =
     map_of (rev (map (\<lambda>i. (bi_repositoryId i,
        (normalizeRepositoryRemoteUrl U (or_empty (bi_remoteUrl i)),
         normalizeRepositoryRemoteUrl U (or_empty (bi_upstreamRemoteUrl i))))) inputs))"

text \<open>The keys of the remote URLs that groups hold before the change.\<close>

definition group_url_keys :: "url_parser \<Rightarrow> project_node list \<Rightarrow> string set" where
  "group_url_keys U nodes =
     set (url_keys U (all_repositories (filter (\<lambda>n. node_kind n = GroupKind) nodes)))"

text \<open>The inner \<open>map\<close>: the kept URLs travel along, the flag says whether this node changed.\<close>

fun backfill_repositories ::
  "url_parser \<Rightarrow> string \<Rightarrow> (string \<rightharpoonup> string \<times> string) \<Rightarrow> repository_link list \<Rightarrow> string set \<Rightarrow>
   repository_link list \<times> string set \<times> bool" where
  "backfill_repositories U now input [] seen = ([], seen, False)"
| "backfill_repositories U now input (r # rs) seen =
     (let keep = (let (rs', seen', c) = backfill_repositories U now input rs seen in (r # rs', seen', c)) in
      if repo_remoteUrl r \<noteq> None then keep
      else (case input (repo_id r) of
          None \<Rightarrow> keep
        | Some (url, upstream) \<Rightarrow>
            if url = [] then keep
            else (let key = createRepositoryRemoteUrlKey U url in
              if key \<in> seen then keep
              else (let (rs', seen', c) = backfill_repositories U now input rs (insert key seen) in
                (r\<lparr>repo_remoteUrl := Some url,
                   repo_upstreamRemoteUrl := (case repo_upstreamRemoteUrl r of
                      Some u \<Rightarrow> Some u | None \<Rightarrow> non_empty upstream),
                   repo_updatedAt := now\<rparr> # rs', seen', True)))))"

fun backfill_nodes ::
  "url_parser \<Rightarrow> string \<Rightarrow> (string \<rightharpoonup> string \<times> string) \<Rightarrow> project_node list \<Rightarrow> string set \<Rightarrow>
   project_node list \<times> bool" where
  "backfill_nodes U now input [] seen = ([], False)"
| "backfill_nodes U now input (n # ns) seen =
     (if node_kind n \<noteq> GroupKind
      then (let (ns', c) = backfill_nodes U now input ns seen in (n # ns', c))
      else (let (rs, seen', nodeChanged) = backfill_repositories U now input (node_repositories n) seen;
                (ns', c) = backfill_nodes U now input ns seen'
            in ((if nodeChanged then n\<lparr>node_repositories := rs, node_updatedAt := now\<rparr> else n) # ns',
                nodeChanged \<or> c)))"

definition backfillProjectRepositoryRemoteUrls ::
  "url_parser \<Rightarrow> string \<Rightarrow> project_registry \<Rightarrow> remote_url_backfill_input list \<Rightarrow> project_registry \<times> bool" where
  "backfillProjectRepositoryRemoteUrls U now registry inputs =
     (let reg = normalized U now registry in
      if inputs = [] then (reg, False)
      else (let (nodes, changed) =
                  backfill_nodes U now (backfill_inputs U inputs) (reg_nodes reg) (group_url_keys U (reg_nodes reg))
            in (if changed then reg\<lparr>reg_nodes := nodes, reg_updatedAt := now\<rparr> else reg, changed)))"

section \<open>Removing a subtree\<close>

text \<open>One round of the \<open>while (changed)\<close> loop of \<open>collectProjectNodeSubtreeIds\<close>.\<close>

definition subtree_round :: "project_node list \<Rightarrow> string set \<Rightarrow> string set" where
  "subtree_round nodes ids =
     fold (\<lambda>n ids. if (\<exists>p \<in> set_option (node_parentId n). p \<in> ids) \<and> node_id n \<notin> ids
                   then insert (node_id n) ids else ids) nodes ids"

lemma subtree_round_bounds: "ids \<subseteq> subtree_round nodes ids \<and> subtree_round nodes ids \<subseteq> ids \<union> node_id ` set nodes"
proof -
  have "ids \<subseteq> fold (\<lambda>n ids. if (\<exists>p \<in> set_option (node_parentId n). p \<in> ids) \<and> node_id n \<notin> ids
                   then insert (node_id n) ids else ids) ns ids \<and>
        fold (\<lambda>n ids. if (\<exists>p \<in> set_option (node_parentId n). p \<in> ids) \<and> node_id n \<notin> ids
                   then insert (node_id n) ids else ids) ns ids \<subseteq> ids \<union> node_id ` set ns" for ns
  proof (induction ns arbitrary: ids)
    case (Cons n ns)
    let ?i = "if (\<exists>p \<in> set_option (node_parentId n). p \<in> ids) \<and> node_id n \<notin> ids then insert (node_id n) ids else ids"
    have "ids \<subseteq> ?i" "?i \<subseteq> ids \<union> {node_id n}" by auto
    with Cons.IH [of ?i] show ?case by (simp only: fold_simps list.set image_insert o_apply) blast
  qed simp
  then show ?thesis by (simp add: subtree_round_def)
qed

function subtree_loop :: "project_node list \<Rightarrow> string set \<Rightarrow> string set" where
  "subtree_loop nodes ids =
     (let ids' = subtree_round nodes ids in if ids' = ids then ids else subtree_loop nodes ids')"
  by pat_completeness auto
termination
proof (relation "measure (\<lambda>(nodes, ids). card (node_id ` set nodes - ids))", goal_cases)
  case (2 nodes ids ids')
  then have "node_id ` set nodes - ids' \<subset> node_id ` set nodes - ids"
    using subtree_round_bounds [of ids nodes] by blast
  then show ?case by (simp add: psubset_card_mono)
qed simp

declare subtree_loop.simps [simp del]

definition collectProjectNodeSubtreeIds :: "project_node list \<Rightarrow> string \<Rightarrow> string set" where
  "collectProjectNodeSubtreeIds nodes rootNodeId = subtree_loop nodes {rootNodeId}"

definition removeProjectNode :: "url_parser \<Rightarrow> string \<Rightarrow> project_registry \<Rightarrow> string \<Rightarrow> project_mutation" where
  "removeProjectNode U now registry nodeId =
     (let reg = normalized U now registry in
      case find_node (reg_nodes reg) nodeId of
        None \<Rightarrow> Err reg project_node_not_found
      | Some targetNode \<Rightarrow>
          (let nodeIdsToRemove = collectProjectNodeSubtreeIds (reg_nodes reg) (node_id targetNode) in
           Ok (reg\<lparr>reg_nodes := filter (\<lambda>n. node_id n \<notin> nodeIdsToRemove) (reg_nodes reg),
                 reg_updatedAt := now\<rparr>)))"

section \<open>Rows of the project tree\<close>

record project_tree_row =
  row_node :: project_node
  row_depth :: nat

definition groupProjectNodesByParentId :: "project_node list \<Rightarrow> (string \<rightharpoonup> project_node list)" where
  "groupProjectNodesByParentId nodes =
     fold (\<lambda>n m. case node_parentId n of
             None \<Rightarrow> m
           | Some p \<Rightarrow> m(p \<mapsto> (case m p of None \<Rightarrow> [] | Some ns \<Rightarrow> ns) @ [n])) nodes Map.empty"

definition children_of :: "project_node list \<Rightarrow> string \<Rightarrow> project_node list" where
  "children_of nodes i = (case groupProjectNodesByParentId nodes i of None \<Rightarrow> [] | Some ns \<Rightarrow> ns)"

lemma children_of_eq: "children_of nodes i = filter (\<lambda>n. node_parentId n = Some i) nodes"
proof -
  define f where "f = (\<lambda>n (m :: string \<rightharpoonup> project_node list). case node_parentId n of
             None \<Rightarrow> m
           | Some p \<Rightarrow> m(p \<mapsto> (case m p of None \<Rightarrow> [] | Some ns \<Rightarrow> ns) @ [n]))"
  define at where "at = (\<lambda>(m :: string \<rightharpoonup> project_node list). case m i of None \<Rightarrow> [] | Some ns \<Rightarrow> ns)"
  have step: "at (f n m) = at m @ (if node_parentId n = Some i then [n] else [])" for n m
    by (auto simp: f_def at_def split: option.splits)
  have "at (fold f ns m) = at m @ filter (\<lambda>n. node_parentId n = Some i) ns" for ns m
    by (induction ns arbitrary: m) (auto simp: step)
  from this [of nodes Map.empty] show ?thesis
    by (simp add: children_of_def groupProjectNodesByParentId_def f_def at_def)
qed

text \<open>
  The stack \<open>pendingRows\<close> with its top first: pushing the children from the last to the first leaves
  them in order on top.
\<close>

function tree_rows_loop ::
  "project_node list \<Rightarrow> project_tree_row list \<Rightarrow> string set \<Rightarrow> project_tree_row list" where
  "tree_rows_loop nodes [] visited = []"
| "tree_rows_loop nodes (row # stack) visited =
     (if node_id (row_node row) \<in> visited then tree_rows_loop nodes stack visited
      else row # tree_rows_loop nodes
             (map (\<lambda>c. \<lparr>row_node = c, row_depth = row_depth row + 1\<rparr>) (children_of nodes (node_id (row_node row)))
               @ stack)
             (insert (node_id (row_node row)) visited))"
  by pat_completeness auto
termination
proof (relation "measures [\<lambda>(nodes, stack, visited).
      card ((node_id ` set nodes \<union> (node_id \<circ> row_node) ` set stack) - visited),
      \<lambda>(nodes, stack, visited). length stack]", goal_cases)
  case (2 nodes row stack visited)
  have "(node_id ` set nodes \<union> (node_id \<circ> row_node) ` set stack) - visited
     \<subseteq> (node_id ` set nodes \<union> (node_id \<circ> row_node) ` set (row # stack)) - visited" by auto
  then have "card ((node_id ` set nodes \<union> (node_id \<circ> row_node) ` set stack) - visited)
     \<le> card ((node_id ` set nodes \<union> (node_id \<circ> row_node) ` set (row # stack)) - visited)"
    by (intro card_mono) auto
  then show ?case by auto
next
  case (3 nodes row stack visited)
  let ?i = "node_id (row_node row)"
  let ?stack = "map (\<lambda>c. \<lparr>row_node = c, row_depth = row_depth row + 1\<rparr>) (children_of nodes ?i) @ stack"
  have "(node_id ` set nodes \<union> (node_id \<circ> row_node) ` set ?stack) - insert ?i visited
     \<subset> (node_id ` set nodes \<union> (node_id \<circ> row_node) ` set (row # stack)) - visited"
    using 3 by (auto simp: children_of_eq)
  then show ?case by (auto intro!: psubset_card_mono)
qed simp

definition createProjectTreeRows :: "project_node list \<Rightarrow> project_tree_row list" where
  "createProjectTreeRows nodes =
     tree_rows_loop nodes
       (map (\<lambda>n. \<lparr>row_node = n, row_depth = 0\<rparr>)
         (filter (\<lambda>n. node_kind n = ProjectKind \<and> node_parentId n = None) nodes)) {}"

end
