(* ===== verification/Project_Canonical.thy ===== *)
theory Project_Canonical
  imports Project_Registry
begin

text \<open>
  Canonical registries: every field is what its normaliser would make of it. On a well-formed
  canonical list the canonicalisation loses nothing; it only lists the projects before the groups.
\<close>

section \<open>Fields that are already normal\<close>

definition stable_id :: "string \<Rightarrow> bool" where
  "stable_id s \<longleftrightarrow> s \<noteq> [] \<and> trimmed s"

definition stable_ref :: "string option \<Rightarrow> bool" where
  "stable_ref x \<longleftrightarrow> (\<forall>s \<in> set_option x. stable_id s)"

text \<open>An absent time stamp is copied from the other one.\<close>

definition stable_times :: "string \<Rightarrow> string \<Rightarrow> bool" where
  "stable_times c u \<longleftrightarrow> trimmed c \<and> trimmed u \<and> (c = [] \<longleftrightarrow> u = [])"

definition stable_name :: "string \<Rightarrow> bool" where
  "stable_name s \<longleftrightarrow> s \<noteq> [] \<and> normalizeProjectName s = s \<and> trimmed s"

definition stable_url :: "url_parser \<Rightarrow> string option \<Rightarrow> bool" where
  "stable_url U x \<longleftrightarrow> (\<forall>s \<in> set_option x. s \<noteq> [] \<and> normalizeRepositoryRemoteUrl U s = s)"

definition stable_repository :: "url_parser \<Rightarrow> repository_link \<Rightarrow> bool" where
  "stable_repository U r \<longleftrightarrow>
     stable_id (repo_id r) \<and>
     repo_name r \<noteq> [] \<and> trimmed (repo_name r) \<and> normalizeRepositoryName (repo_name r) = repo_name r \<and>
     (\<forall>p \<in> set_option (repo_path r). p \<noteq> [] \<and> trimmed p \<and> normalizeRepositoryPath p = p) \<and>
     stable_url U (repo_remoteUrl r) \<and> stable_url U (repo_upstreamRemoteUrl r) \<and>
     \<not> (repo_path r = None \<and> repo_remoteUrl r = None) \<and>
     stable_ref (repo_githubCredentialSecretId r) \<and>
     normalizeProjectTags (repo_tags r) = repo_tags r \<and>
     stable_times (repo_createdAt r) (repo_updatedAt r)"

definition stable_node :: "url_parser \<Rightarrow> project_node \<Rightarrow> bool" where
  "stable_node U n \<longleftrightarrow>
     stable_id (node_id n) \<and> kind_ok n \<and> stable_ref (node_parentId n) \<and> stable_name (node_name n) \<and>
     trimmed (node_description n) \<and> normalizeProjectDescription (node_description n) = node_description n \<and>
     node_path n \<noteq> [] \<and> trimmed (node_path n) \<and> normalizeProjectPath (node_path n) = node_path n \<and>
     stable_ref (node_githubCredentialSecretId n) \<and>
     normalizeProjectTags (node_tags n) = node_tags n \<and>
     list_all (stable_repository U) (node_repositories n) \<and>
     stable_times (node_createdAt n) (node_updatedAt n)"

definition canonical_nodes :: "url_parser \<Rightarrow> project_node list \<Rightarrow> bool" where
  "canonical_nodes U nodes \<longleftrightarrow> wf_nodes U nodes \<and> list_all (stable_node U) nodes"

definition canonical_registry :: "url_parser \<Rightarrow> project_registry \<Rightarrow> bool" where
  "canonical_registry U r \<longleftrightarrow>
     reg_version r = WORKDUCK_PROJECT_REGISTRY_VERSION \<and> stable_id (reg_updatedAt r) \<and>
     canonical_nodes U (reg_nodes r)"

text \<open>Roots first, groups behind them, each in their order.\<close>

definition roots_first :: "project_node list \<Rightarrow> project_node list" where
  "roots_first nodes = filter (\<lambda>n. node_kind n = ProjectKind) nodes @ filter (\<lambda>n. node_kind n = GroupKind) nodes"

section \<open>Parsing a canonical record gives it back\<close>

lemma normalizeRecordId_str: "stable_id s \<Longrightarrow> normalizeRecordId (JStr s) = Some s"
  by (simp add: normalizeRecordId_def stable_id_def js_trim_trimmed)

lemma normalizeRecordId_nullable: "stable_ref x \<Longrightarrow> normalizeRecordId (js_nullable x) = x"
  by (cases x) (auto simp: normalizeRecordId_def stable_ref_def stable_id_def js_nullable_def
      js_trim_trimmed)

lemma readTrimmed_str: "trimmed s \<Longrightarrow> readTrimmedString (JStr s) = s"
  by (simp add: js_trim_trimmed)

lemma normalizeRepositoryRemoteUrl_trim: "normalizeRepositoryRemoteUrl U (js_trim s) = normalizeRepositoryRemoteUrl U s"
  by (simp add: normalizeRepositoryRemoteUrl_def)

lemma normalizeRepositoryRemoteUrl_nil [simp]: "normalizeRepositoryRemoteUrl U [] = []"
  by (simp add: normalizeRepositoryRemoteUrl_def js_slice0_def isValidRepositoryRemoteUrl_def)

lemma normalizeRepositoryPath_nil [simp]: "normalizeRepositoryPath [] = []"
  by (simp add: normalizeRepositoryPath_def normalizeWorkspacePathForStorage_def
      removeWindowsVerbatimPathPrefix_def js_starts_with_def WINDOWS_VERBATIM_UNC_PATH_PREFIX_def
      WINDOWS_VERBATIM_PATH_PREFIX_def js_slice0_def)

lemma url_of_nullable:
  "stable_url U x \<Longrightarrow> non_empty (normalizeRepositoryRemoteUrl U (readTrimmedString (js_nullable x))) = x"
  by (cases x) (auto simp: stable_url_def js_nullable_def normalizeRepositoryRemoteUrl_trim non_empty_def)

lemma path_of_nullable:
  "(\<forall>p \<in> set_option x. p \<noteq> [] \<and> trimmed p \<and> normalizeRepositoryPath p = p) \<Longrightarrow>
   non_empty (normalizeRepositoryPath (readTrimmedString (js_nullable x))) = x"
  by (cases x) (auto simp: js_nullable_def js_trim_trimmed non_empty_def)

lemma non_empty_None: "non_empty s = None \<longleftrightarrow> s = []"
  by (simp add: non_empty_def)

lemma parse_stable_repository:
  assumes "stable_repository U r"
  shows "parseRepositoryLinkRecord U (repository_js r) = Some r"
proof -
  let ?p = "normalizeRepositoryPath (readTrimmedString (js_nullable (repo_path r)))"
  let ?u = "normalizeRepositoryRemoteUrl U (readTrimmedString (js_nullable (repo_remoteUrl r)))"
  let ?v = "normalizeRepositoryRemoteUrl U (readTrimmedString (js_nullable (repo_upstreamRemoteUrl r)))"
  note a = assms [unfolded stable_repository_def]
  have p: "non_empty ?p = repo_path r" and u: "non_empty ?u = repo_remoteUrl r"
    and v: "non_empty ?v = repo_upstreamRemoteUrl r"
    using a by (simp_all add: url_of_nullable path_of_nullable)
  then have src: "\<not> (?p = [] \<and> ?u = [])" using a by (metis non_empty_None)
  have st: "stable_times (repo_createdAt r) (repo_updatedAt r)" using a by blast
  have times: "(if repo_createdAt r = [] then repo_updatedAt r else repo_createdAt r) = repo_createdAt r"
    "(if repo_updatedAt r = [] then repo_createdAt r else repo_updatedAt r) = repo_updatedAt r"
    "trimmed (repo_createdAt r)" "trimmed (repo_updatedAt r)"
    using st by (auto simp: stable_times_def)
  have props: "js_prop (repository_js r) ''id'' = JStr (repo_id r)"
    "js_prop (repository_js r) ''name'' = JStr (repo_name r)"
    "js_prop (repository_js r) ''path'' = js_nullable (repo_path r)"
    "js_prop (repository_js r) ''remoteUrl'' = js_nullable (repo_remoteUrl r)"
    "js_prop (repository_js r) ''upstreamRemoteUrl'' = js_nullable (repo_upstreamRemoteUrl r)"
    "js_prop (repository_js r) ''githubCredentialSecretId'' = js_nullable (repo_githubCredentialSecretId r)"
    "js_prop (repository_js r) ''favorite'' = JBool (repo_favorite r)"
    "js_prop (repository_js r) ''tags'' = JArr (map JStr (repo_tags r))"
    "js_prop (repository_js r) ''createdAt'' = JStr (repo_createdAt r)"
    "js_prop (repository_js r) ''updatedAt'' = JStr (repo_updatedAt r)"
    "isObjectRecord (repository_js r)"
    by (simp_all add: repository_js_def js_prop_def)
  have fields: "normalizeRecordId (JStr (repo_id r)) = Some (repo_id r)"
    "normalizeRepositoryName (readTrimmedString (JStr (repo_name r))) = repo_name r"
    "normalizeRecordId (js_nullable (repo_githubCredentialSecretId r)) = repo_githubCredentialSecretId r"
    "normalizeProjectTags (readStringArray (JArr (map JStr (repo_tags r)))) = repo_tags r"
    "readTrimmedString (JStr (repo_createdAt r)) = repo_createdAt r"
    "readTrimmedString (JStr (repo_updatedAt r)) = repo_updatedAt r"
    using a times by (simp_all add: normalizeRecordId_str normalizeRecordId_nullable js_trim_trimmed)
  have "\<not> (repo_name r = [] \<or> (?p = [] \<and> ?u = []))" using a src by blast
  then show ?thesis
    unfolding parseRepositoryLinkRecord_def props Let_def fields p u v times(1,2)
    using props(11) by simp
qed

lemma parse_stable_repositories:
  "list_all (stable_repository U) rs \<Longrightarrow> List.map_filter (parseRepositoryLinkRecord U) (map repository_js rs) = rs"
  by (induction rs) (auto simp: map_filter_Cons parse_stable_repository)

lemma parse_stable_node:
  assumes "stable_node U n"
  shows "parseProjectNodeRecord U (node_js n) = Some n"
proof -
  note a = assms [unfolded stable_node_def]
  have props: "js_prop (node_js n) ''id'' = JStr (node_id n)"
    "js_prop (node_js n) ''kind'' = kind_js (node_kind n)"
    "js_prop (node_js n) ''parentId'' = js_nullable (node_parentId n)"
    "js_prop (node_js n) ''name'' = JStr (node_name n)"
    "js_prop (node_js n) ''description'' = JStr (node_description n)"
    "js_prop (node_js n) ''path'' = JStr (node_path n)"
    "js_prop (node_js n) ''githubCredentialSecretId'' = js_nullable (node_githubCredentialSecretId n)"
    "js_prop (node_js n) ''tags'' = JArr (map JStr (node_tags n))"
    "js_prop (node_js n) ''repositories'' = JArr (map repository_js (node_repositories n))"
    "js_prop (node_js n) ''createdAt'' = JStr (node_createdAt n)"
    "js_prop (node_js n) ''updatedAt'' = JStr (node_updatedAt n)"
    "isObjectRecord (node_js n)"
    by (simp_all add: node_js_def js_prop_def)
  have kind: "normalizeProjectNodeKind (kind_js (node_kind n)) = Some (node_kind n)"
    by (cases "node_kind n") (simp_all add: kind_js_def normalizeProjectNodeKind_def)
  have parent: "(if node_kind n = ProjectKind then None else node_parentId n) = node_parentId n"
    using a by (auto simp: kind_ok_def)
  show ?thesis
    unfolding parseProjectNodeRecord_def props Let_def kind
    using a parent props(12)
    by (auto intro!: project_node.equality simp: normalizeRecordId_str normalizeRecordId_nullable
        js_trim_trimmed stable_times_def stable_name_def parse_stable_repositories)
qed

lemma parse_stable_nodes:
  "list_all (stable_node U) ns \<Longrightarrow> List.map_filter (parseProjectNodeRecord U) (map node_js ns) = ns"
  by (induction ns) (auto simp: map_filter_Cons parse_stable_node)

section \<open>Accepting a canonical node changes nothing in it\<close>

lemma clean_stable_repository: "stable_repository U r \<Longrightarrow> clean_repository U r = r"
  by (cases "repo_upstreamRemoteUrl r")
    (auto simp: stable_repository_def clean_repository_def normalizeRecordId_nullable stable_url_def non_empty_def)

lemma filterUnique_all:
  "list_all (stable_repository U) rs \<Longrightarrow> unique_repositories U rs \<Longrightarrow>
   set (path_keys rs) \<inter> ps = {} \<Longrightarrow> set (url_keys U rs) \<inter> us = {} \<Longrightarrow>
   fst (filterUniqueRepositories U rs ps us) = rs"
proof (induction U rs ps us rule: filterUniqueRepositories.induct)
  case (2 U r rs ps us)
  have new: "\<not> ((\<exists>k \<in> set_option (repository_path_key r). k \<in> ps) \<or> (\<exists>k \<in> set_option (repository_url_key U r). k \<in> us))"
    using 2 by (auto simp: path_keys_def url_keys_def map_filter_Cons split: option.splits)
  have "fst (filterUniqueRepositories U rs (set_option (repository_path_key r) \<union> ps)
        (set_option (repository_url_key U r) \<union> us)) = rs"
    using 2(3-) by (intro 2(2) [OF refl refl new])
      (auto simp: unique_repositories_def path_keys_def url_keys_def map_filter_Cons split: option.splits)
  then show ?case using new 2(3) by (simp add: Let_def clean_stable_repository split_def)
qed simp

lemma accepted_stable_node:
  "stable_node U n \<Longrightarrow> accepted_node n (node_path n) (node_repositories n) = n"
  by (simp add: stable_node_def accepted_node_def normalizeRecordId_nullable)

lemma effective_path_stable: "stable_node U n \<Longrightarrow> effective_path pp n = node_path n"
  by (simp add: stable_node_def effective_path_def Let_def)

lemma ns_nodes_accept_stable:
  assumes "stable_node U n" "norm_inv U \<sigma>" "unique_repositories U (all_repositories (ns_nodes \<sigma>) @ node_repositories n)"
  shows "ns_nodes (accept U \<sigma> n (node_path n)) = ns_nodes \<sigma> @ [n]"
proof -
  have "fst (filterUniqueRepositories U (node_repositories n) (ns_repoPaths \<sigma>) (ns_repoUrls \<sigma>)) = node_repositories n"
    using assms by (intro filterUnique_all) (auto simp: stable_node_def unique_repositories_def norm_inv_def)
  then show ?thesis using assms(1)
    by (simp add: accept_def accepted_stable_node split_def Let_def)
qed

lemma keys_mono:
  assumes "set rs \<subseteq> set ss"
  shows "set (path_keys rs) \<subseteq> set (path_keys ss)" and "set (url_keys U rs) \<subseteq> set (url_keys U ss)"
  using assms unfolding path_keys_def url_keys_def subset_iff set_map_filter by blast+

text \<open>
  Every part of a well-formed list can be followed by any other of its nodes: what acceptance asks
  for holds.
\<close>

lemma wf_nodes_addable:
  assumes wf: "wf_nodes U nodes" and n: "n \<in> set nodes" and part: "set ms \<subseteq> set nodes" "n \<notin> set ms" "distinct ms"
  shows "node_id n \<notin> node_id ` set ms" and "node_path_key n \<notin> node_path_key ` set ms"
    and "sibling_key n \<notin> sibling_key ` set ms"
    and "unique_repositories U (all_repositories ms) \<Longrightarrow> unique_repositories U (all_repositories ms @ node_repositories n)"
proof -
  have d: "distinct (map node_id nodes)" "distinct (map node_path_key nodes)" "distinct (map sibling_key nodes)"
    and u: "unique_repositories U (all_repositories nodes)"
    using wf by (simp_all add: wf_nodes_def)
  show "node_id n \<notin> node_id ` set ms" "node_path_key n \<notin> node_path_key ` set ms"
    "sibling_key n \<notin> sibling_key ` set ms"
    using d n part by (auto dest: distinct_map_eq)
  obtain xs ys where nodes: "nodes = xs @ n # ys" using n by (metis split_list)
  have "distinct nodes" using d(1) by (simp add: distinct_map)
  then have "set ms \<subseteq> set xs \<union> set ys" using part nodes by auto
  then have "set (all_repositories ms) \<subseteq> set (all_repositories (xs @ ys))"
    by (auto simp: all_repositories_def)
  from keys_mono [OF this]
  have "set (path_keys (all_repositories ms)) \<subseteq> set (path_keys (all_repositories xs)) \<union> set (path_keys (all_repositories ys))"
    and "set (url_keys U (all_repositories ms)) \<subseteq> set (url_keys U (all_repositories xs)) \<union> set (url_keys U (all_repositories ys))"
    by simp_all
  then show "unique_repositories U (all_repositories ms @ node_repositories n)"
    if "unique_repositories U (all_repositories ms)"
    using u that unfolding nodes by (auto simp: unique_repositories_def)
qed

section \<open>Canonical lists are kept\<close>

lemma visit_root_stable:
  assumes "norm_inv U \<sigma>" "stable_node U n" "node_kind n = ProjectKind"
    and "node_id n \<notin> node_id ` set (ns_nodes \<sigma>)" "node_path_key n \<notin> node_path_key ` set (ns_nodes \<sigma>)"
    and "sibling_key n \<notin> sibling_key ` set (ns_nodes \<sigma>)"
    and "unique_repositories U (all_repositories (ns_nodes \<sigma>) @ node_repositories n)"
  shows "ns_nodes (visit_root U n \<sigma>) = ns_nodes \<sigma> @ [n]"
proof -
  have "node_parentId n = None" using assms(2,3) by (simp add: stable_node_def kind_ok_def)
  with assms ns_nodes_accept_stable [OF assms(2,1,7)] show ?thesis
    by (auto simp: visit_root_def Let_def effective_path_stable norm_inv_def sibling_key_def node_path_key_def)
qed

lemma visit_group_stable:
  assumes inv: "norm_inv U \<sigma>" and "stable_node U n" "node_kind n = GroupKind"
    and "node_id n \<notin> node_id ` set (ns_nodes \<sigma>)" "node_path_key n \<notin> node_path_key ` set (ns_nodes \<sigma>)"
    and "sibling_key n \<notin> sibling_key ` set (ns_nodes \<sigma>)"
    and "unique_repositories U (all_repositories (ns_nodes \<sigma>) @ node_repositories n)"
    and parent: "\<forall>p \<in> set_option (node_parentId n). p \<in> node_id ` set (ns_nodes \<sigma>)"
  shows "\<exists>\<sigma>'. visit_group U n \<sigma> = Some \<sigma>' \<and> ns_nodes \<sigma>' = ns_nodes \<sigma> @ [n]"
proof -
  obtain p where p: "node_parentId n = Some p"
    using assms(2,3) by (auto simp: stable_node_def kind_ok_def)
  then obtain pp where pp: "ns_pathById \<sigma> p = Some pp" using parent inv by (auto simp: norm_inv_def)
  have sib: "(case ns_childNames \<sigma> p of None \<Rightarrow> {} | Some s \<Rightarrow> s) = {k. (Some p, k) \<in> sibling_key ` set (ns_nodes \<sigma>)}"
    and ids: "ns_ids \<sigma> = node_id ` set (ns_nodes \<sigma>)" and paths: "ns_nodePaths \<sigma> = node_path_key ` set (ns_nodes \<sigma>)"
    using inv by (simp_all add: norm_inv_def)
  have "createNameKey (node_name n) \<notin> (case ns_childNames \<sigma> p of None \<Rightarrow> {} | Some s \<Rightarrow> s)"
    using assms(6) p by (simp add: sib sibling_key_def)
  with assms p pp ids paths ns_nodes_accept_stable [OF assms(2) inv assms(7)] show ?thesis
    by (simp add: visit_group_def Let_def effective_path_stable node_path_key_def)
qed

lemma root_pass_canonical:
  assumes "canonical_nodes U nodes"
  shows "ns_nodes (root_pass U nodes) = filter (\<lambda>n. node_kind n = ProjectKind) nodes"
proof -
  have wf: "wf_nodes U nodes" and st: "\<And>n. n \<in> set nodes \<Longrightarrow> stable_node U n"
    using assms by (auto simp: canonical_nodes_def list_all_iff)
  have dist: "distinct nodes" using wf by (simp add: wf_nodes_def distinct_map)
  have "xs @ ys = nodes \<Longrightarrow>
      norm_inv U (fold (visit_root U) xs norm_init) \<and>
      ns_nodes (fold (visit_root U) xs norm_init) = filter (\<lambda>n. node_kind n = ProjectKind) xs" for xs ys
  proof (induction xs arbitrary: ys rule: rev_induct)
    case Nil
    show ?case using norm_inv_init by (simp add: norm_init_def)
  next
    case (snoc n xs)
    let ?\<sigma> = "fold (visit_root U) xs norm_init"
    have IH: "norm_inv U ?\<sigma>" "ns_nodes ?\<sigma> = filter (\<lambda>n. node_kind n = ProjectKind) xs"
      using snoc.IH [of "n # ys"] snoc.prems by auto
    have n: "n \<in> set nodes" using snoc.prems by auto
    have part: "set (ns_nodes ?\<sigma>) \<subseteq> set nodes" "n \<notin> set (ns_nodes ?\<sigma>)" "distinct (ns_nodes ?\<sigma>)"
      using IH(2) snoc.prems dist by auto
    have uniq: "unique_repositories U (all_repositories (ns_nodes ?\<sigma>))"
      using IH(1) by (simp add: norm_inv_def wf_nodes_def)
    note add = wf_nodes_addable [OF wf n part]
    show ?case
    proof (cases "node_kind n = ProjectKind")
      case True
      have "ns_nodes (visit_root U n ?\<sigma>) = ns_nodes ?\<sigma> @ [n]"
        using visit_root_stable [OF IH(1) st [OF n] True add(1-3) add(4) [OF uniq]] .
      then show ?thesis using IH True by (simp add: norm_inv_visit_root)
    next
      case False
      then have "visit_root U n ?\<sigma> = ?\<sigma>" by (simp add: visit_root_def)
      then show ?thesis using IH False by simp
    qed
  qed
  from this [of nodes "[]"] show ?thesis by (simp add: root_pass_def)
qed

lemma scan_pass_canonical:
  assumes "canonical_nodes U nodes"
  shows "ns_nodes (scan_pass U nodes (root_pass U nodes)) = roots_first nodes"
proof -
  have wf: "wf_nodes U nodes" and st: "\<And>n. n \<in> set nodes \<Longrightarrow> stable_node U n"
    using assms by (auto simp: canonical_nodes_def list_all_iff)
  have dist: "distinct nodes" using wf by (simp add: wf_nodes_def distinct_map)
  let ?roots = "filter (\<lambda>n. node_kind n = ProjectKind) nodes"
  let ?st = "\<lambda>k. fold (scan_step U nodes) [0..<k] (root_pass U nodes)"
  have "k \<le> length nodes \<Longrightarrow> norm_inv U (?st k) \<and>
      ns_nodes (?st k) = ?roots @ filter (\<lambda>n. node_kind n = GroupKind) (take k nodes)" for k
  proof (induction k)
    case 0
    then show ?case using assms by (simp add: root_pass_canonical norm_inv_root_pass)
  next
    case (Suc k)
    let ?\<sigma> = "?st k" and ?n = "nodes ! k"
    have k: "k < length nodes" using Suc.prems by simp
    have IH: "norm_inv U ?\<sigma>" "ns_nodes ?\<sigma> = ?roots @ filter (\<lambda>n. node_kind n = GroupKind) (take k nodes)"
      using Suc by auto
    have step: "?st (Suc k) = scan_step U nodes k ?\<sigma>" by simp
    have take: "take (Suc k) nodes = take k nodes @ [?n]" using k by (simp add: take_Suc_conv_app_nth)
    show ?case
    proof (cases "node_kind ?n = GroupKind")
      case True
      have n: "?n \<in> set nodes" using k by simp
      have fresh: "?n \<notin> set (take k nodes)"
        using dist k by (auto simp: in_set_conv_nth nth_eq_iff_index_eq)
      have part: "set (ns_nodes ?\<sigma>) \<subseteq> set nodes" "?n \<notin> set (ns_nodes ?\<sigma>)" "distinct (ns_nodes ?\<sigma>)"
        using IH(2) fresh True dist by (auto dest: in_set_takeD)
      have uniq: "unique_repositories U (all_repositories (ns_nodes ?\<sigma>))"
        using IH(1) by (simp add: norm_inv_def wf_nodes_def)
      note add = wf_nodes_addable [OF wf n part]
      have "parents_first {} (take k nodes @ ?n # drop (Suc k) nodes)"
        using wf k by (simp add: wf_nodes_def id_take_nth_drop [symmetric])
      then have par: "\<forall>p \<in> set_option (node_parentId ?n). p \<in> node_id ` set (take k nodes)"
        by (simp add: parents_first_append)
      have "set (take k nodes) \<subseteq> set (ns_nodes ?\<sigma>)"
      proof
        fix m assume "m \<in> set (take k nodes)"
        then show "m \<in> set (ns_nodes ?\<sigma>)" using IH(2) by (cases "node_kind m") (auto dest: in_set_takeD)
      qed
      with par have parent: "\<forall>p \<in> set_option (node_parentId ?n). p \<in> node_id ` set (ns_nodes ?\<sigma>)" by blast
      obtain \<sigma>' where v: "visit_group U ?n ?\<sigma> = Some \<sigma>'" "ns_nodes \<sigma>' = ns_nodes ?\<sigma> @ [?n]"
        using visit_group_stable [OF IH(1) st [OF n] True add(1-3) add(4) [OF uniq] parent] by blast
      then have "?st (Suc k) = \<sigma>'" using True step by (simp add: scan_step_def)
      then show ?thesis
        using v IH True take norm_inv_visit_group [OF IH(1) True v(1)] by simp
    next
      case False
      then have "?st (Suc k) = ?\<sigma>" using step by (simp add: scan_step_def)
      then show ?thesis using IH False take by simp
    qed
  qed
  from this [of "length nodes"] show ?thesis by (simp add: scan_pass_def roots_first_def)
qed

lemma normalizeProjectNodes_canonical:
  assumes "canonical_nodes U nodes"
  shows "normalizeProjectNodes U nodes = roots_first nodes"
proof -
  let ?\<sigma> = "scan_pass U nodes (root_pass U nodes)"
  have inv: "norm_inv U ?\<sigma>" by (intro norm_inv_scan_pass norm_inv_root_pass)
  have "ns_ids ?\<sigma> = node_id ` set nodes"
    using inv scan_pass_canonical [OF assms] project_node_kind.exhaust
    by (auto simp: norm_inv_def roots_first_def)
  then have "visit_group U (nodes ! i) ?\<sigma> = None" if "i < length nodes" for i
    using that by (auto simp: visit_group_def split: option.splits)
  then have "scan_pass U nodes ?\<sigma> = ?\<sigma>"
    unfolding scan_pass_def [of U nodes ?\<sigma>] by (intro scan_steps_dead) (auto simp: live_def)
  then have "scan_passes U nodes (root_pass U nodes) = ?\<sigma>"
    using scan_passes_after_pass [of U nodes "root_pass U nodes"] scan_passes_fixed by metis
  then show ?thesis using scan_pass_canonical [OF assms] by (simp add: normalizeProjectNodes_eq)
qed

lemma normalized_canonical:
  assumes "canonical_registry U r"
  shows "normalized U now r = r\<lparr>reg_nodes := roots_first (reg_nodes r)\<rparr>"
proof -
  have props: "isObjectRecord (registry_js r)" "js_prop (registry_js r) ''version'' = JInt (reg_version r)"
    "js_prop (registry_js r) ''nodes'' = JArr (map node_js (reg_nodes r))"
    "js_prop (registry_js r) ''updatedAt'' = JStr (reg_updatedAt r)"
    by (simp_all add: registry_js_def js_prop_def)
  note a = assms [unfolded canonical_registry_def canonical_nodes_def]
  have "normalizeProjectNodes U (reg_nodes r) = roots_first (reg_nodes r)"
    using a by (intro normalizeProjectNodes_canonical) (simp add: canonical_nodes_def)
  then show ?thesis
    unfolding normalized_def normalizeProjectRegistry_def props Let_def
    using a props(1) by (simp add: parse_stable_nodes js_trim_trimmed stable_id_def)
qed

lemma roots_first_perm: "mset (roots_first nodes) = mset nodes"
proof -
  have "filter (\<lambda>n. node_kind n = GroupKind) nodes = filter (\<lambda>n. \<not> node_kind n = ProjectKind) nodes"
    by (rule filter_cong) (auto simp: project_node_kind.exhaust intro: project_node_kind.exhaust)
  then show ?thesis by (simp add: roots_first_def)
qed

end
