(* ===== verification/Project_Mutations.thy ===== *)
theory Project_Mutations
  imports Project_Canonical
begin

text \<open>
  What the mutations of \<open>project-registry.ts\<close> keep: a successful mutation of a well-formed registry is
  well formed, a refused one answers with the canonical registry.
\<close>

section \<open>Registries the mutations themselves build\<close>

text \<open>
  Only groups hold repositories and no two repositories share an identifier, which is neither empty
  nor padded with blanks. The mutations keep both;
  the canonicalisation does not establish either for a stored registry.
\<close>

definition groups_only :: "project_node list \<Rightarrow> bool" where
  "groups_only nodes \<longleftrightarrow> (\<forall>n \<in> set nodes. node_kind n = ProjectKind \<longrightarrow> node_repositories n = [])"

definition ids_ok :: "string list \<Rightarrow> bool" where
  "ids_ok is \<longleftrightarrow> distinct is \<and> list_all stable_id is"

lemma subseq_set: "subseq xs ys \<Longrightarrow> set xs \<subseteq> set ys"
  by (induction rule: list_emb.induct) auto

lemma ids_ok_subseq: "subseq is js \<Longrightarrow> ids_ok js \<Longrightarrow> ids_ok is"
  by (induction rule: list_emb.induct) (auto simp: ids_ok_def dest: list_emb_set)

definition strict_nodes :: "url_parser \<Rightarrow> project_node list \<Rightarrow> bool" where
  "strict_nodes U nodes \<longleftrightarrow>
     wf_nodes U nodes \<and> groups_only nodes \<and> ids_ok (map repo_id (all_repositories nodes))"

section \<open>Updating one node\<close>

lemma find_node_Some: "find_node nodes i = Some n \<longleftrightarrow> (\<exists>xs ys. nodes = xs @ n # ys \<and> node_id n = i \<and> i \<notin> node_id ` set xs)"
proof
  assume "find_node nodes i = Some n"
  then obtain k where k: "k < length nodes" "nodes ! k = n" "node_id n = i" "\<forall>j<k. node_id (nodes ! j) \<noteq> i"
    by (auto simp: find_node_def find_Some_iff)
  have "nodes = take k nodes @ n # drop (Suc k) nodes" using k id_take_nth_drop by metis
  moreover have "i \<notin> node_id ` set (take k nodes)"
  proof
    assume "i \<in> node_id ` set (take k nodes)"
    then obtain j where "j < k" "node_id (nodes ! j) = i" by (auto simp: in_set_conv_nth)
    with k(4) show False by blast
  qed
  ultimately show "\<exists>xs ys. nodes = xs @ n # ys \<and> node_id n = i \<and> i \<notin> node_id ` set xs" using k by blast
next
  assume "\<exists>xs ys. nodes = xs @ n # ys \<and> node_id n = i \<and> i \<notin> node_id ` set xs"
  then obtain xs ys where "nodes = xs @ n # ys" "node_id n = i" "i \<notin> node_id ` set xs" by blast
  then show "find_node nodes i = Some n"
    by (induction xs arbitrary: nodes) (auto simp: find_node_def)
qed

lemma find_node_set: "find_node nodes i = Some n \<Longrightarrow> n \<in> set nodes \<and> node_id n = i"
  by (auto simp: find_node_Some)

lemma update_node_split:
  "distinct (map node_id (xs @ n # ys)) \<Longrightarrow> update_node (node_id n) f (xs @ n # ys) = xs @ f n # ys"
  by (auto simp: update_node_def image_iff intro!: map_idI)

text \<open>A node is found with the rest of the list around it.\<close>

lemma found_split:
  assumes "wf_nodes U nodes" "find_node nodes i = Some n"
  obtains xs ys where "nodes = xs @ n # ys" "node_id n = i"
    "\<And>f. update_node (node_id n) f nodes = xs @ f n # ys"
proof -
  from assms(2) obtain xs ys where s: "nodes = xs @ n # ys" "node_id n = i" by (auto simp: find_node_Some)
  have "update_node (node_id n) f nodes = xs @ f n # ys" for f
    using assms(1) unfolding s(1) by (intro update_node_split) (simp add: wf_nodes_def)
  then show ?thesis using that s by blast
qed

lemma parents_first_cong:
  "node_id m = node_id n \<Longrightarrow> node_parentId m = node_parentId n \<Longrightarrow>
   parents_first S (xs @ m # ys) \<longleftrightarrow> parents_first S (xs @ n # ys)"
  by (simp add: parents_first_append)

text \<open>A node in its place: what its replacement has to satisfy.\<close>

lemma wf_nodes_replace:
  assumes wf: "wf_nodes U (xs @ n # ys)"
    and same: "node_id m = node_id n" "node_parentId m = node_parentId n" "node_kind m = node_kind n"
    and path: "node_path_key m \<notin> node_path_key ` (set xs \<union> set ys)"
    and name: "sibling_key m \<notin> sibling_key ` (set xs \<union> set ys)"
    and repos: "unique_repositories U (all_repositories (xs @ m # ys))"
  shows "wf_nodes U (xs @ m # ys)"
  using wf path name repos same parents_first_cong [OF same(1,2), of "{}" xs ys]
  by (simp add: wf_nodes_def kind_ok_def image_Un)

lemma wf_nodes_same_keys:
  assumes wf: "wf_nodes U (xs @ n # ys)"
    and same: "node_id m = node_id n" "node_parentId m = node_parentId n" "node_kind m = node_kind n"
    and keys: "node_path_key m = node_path_key n" "sibling_key m = sibling_key n"
    and repos: "unique_repositories U (all_repositories (xs @ m # ys))"
  shows "wf_nodes U (xs @ m # ys)"
  by (rule wf_nodes_replace [OF wf same _ _ repos]) (use wf keys in \<open>auto simp: wf_nodes_def\<close>)

section \<open>Repositories in their place\<close>

lemma distinct_subseq: "subseq xs ys \<Longrightarrow> distinct ys \<Longrightarrow> distinct xs"
  by (induction rule: list_emb.induct) (auto dest: list_emb_set)

lemma unique_repositories_subseq:
  "subseq rs ss \<Longrightarrow> unique_repositories U ss \<Longrightarrow> unique_repositories U rs"
proof -
  have "subseq rs ss \<Longrightarrow> subseq (List.map_filter f rs) (List.map_filter f ss)" for f :: "repository_link \<Rightarrow> 'b option"
    by (induction rule: list_emb.induct)
       (auto simp: map_filter_Cons intro: list_emb_append2 list_emb_append_mono split: option.splits)
  then show "subseq rs ss \<Longrightarrow> unique_repositories U ss \<Longrightarrow> unique_repositories U rs"
    unfolding unique_repositories_def path_keys_def url_keys_def by (blast intro: distinct_subseq)
qed

text \<open>One repository more, or another one in the place of one.\<close>

lemma unique_repositories_put:
  assumes "unique_repositories U (rs @ ss)"
    and "\<forall>k \<in> set_option (repository_path_key r). k \<notin> set (path_keys (rs @ ss))"
    and "\<forall>k \<in> set_option (repository_url_key U r). k \<notin> set (url_keys U (rs @ ss))"
  shows "unique_repositories U (rs @ r # ss)"
  using assms
  by (cases "repository_path_key r"; cases "repository_url_key U r")
     (auto simp: unique_repositories_def path_keys_def url_keys_def map_filter_Cons)

lemma unique_repositories_drop: "unique_repositories U (rs @ r # ss) \<Longrightarrow> unique_repositories U (rs @ ss)"
  by (erule unique_repositories_subseq [rotated]) (intro list_emb_append_mono, auto)

lemma unique_repositories_same:
  "repository_path_key r' = repository_path_key r \<Longrightarrow> repository_url_key U r' = repository_url_key U r \<Longrightarrow>
   unique_repositories U (rs @ r' # ss) = unique_repositories U (rs @ r # ss)"
  by (simp add: unique_repositories_def path_keys_def url_keys_def map_filter_Cons)

lemma unique_repositories_update:
  assumes "\<And>r. repository_path_key (f r) = repository_path_key r"
    and "\<And>r. repository_url_key U (f r) = repository_url_key U r"
  shows "unique_repositories U (rs @ update_repository i f ss @ ts) = unique_repositories U (rs @ ss @ ts)"
proof -
  have "path_keys (update_repository i f ss) = path_keys ss" "url_keys U (update_repository i f ss) = url_keys U ss"
    using assms by (induction ss)
      (auto simp: update_repository_def path_keys_def url_keys_def map_filter_Cons split: option.splits)
  then show ?thesis by (simp add: unique_repositories_def)
qed

text \<open>Where only groups hold repositories, the code's search through the groups finds every key.\<close>

lemma groups_only_all: "groups_only nodes \<Longrightarrow> r \<in> set (all_repositories nodes) \<longleftrightarrow>
   (\<exists>n \<in> set nodes. node_kind n = GroupKind \<and> r \<in> set (node_repositories n))"
proof -
  assume g: "groups_only nodes"
  have "node_kind n = GroupKind" if "n \<in> set nodes" "r \<in> set (node_repositories n)" for n
    using g that by (cases "node_kind n") (auto simp: groups_only_def)
  then show ?thesis by (auto simp: all_repositories_def)
qed

lemma group_path_free:
  assumes "groups_only nodes" "\<not> group_path_taken nodes key ignored" "r \<in> set (all_repositories nodes)"
    "Some (repo_id r) \<noteq> ignored"
  shows "repository_path_key r \<noteq> Some key"
  using assms by (auto simp: group_path_taken_def groups_only_all)

lemma group_url_free:
  assumes "groups_only nodes" "\<not> group_url_taken U nodes key ignored" "r \<in> set (all_repositories nodes)"
    "Some (repo_id r) \<noteq> ignored"
  shows "repository_url_key U r \<noteq> Some key"
  using assms by (auto simp: group_url_taken_def groups_only_all)

section \<open>Well-formedness is kept\<close>

lemma wf_normalized: "wf_nodes U (reg_nodes (normalized U now reg))"
  using wf_normalizeProjectRegistry by (simp add: normalized_def wf_registry_def)

text \<open>A mutation of one node: every node but \<open>n\<close> stays.\<close>

lemma wf_update_plain:
  assumes "wf_nodes U nodes" "find_node nodes i = Some n"
    and "node_id (f n) = node_id n" "node_parentId (f n) = node_parentId n" "node_kind (f n) = node_kind n"
      "node_path_key (f n) = node_path_key n" "sibling_key (f n) = sibling_key n"
    and "\<And>rs ss. unique_repositories U (rs @ node_repositories n @ ss) \<Longrightarrow>
      unique_repositories U (rs @ node_repositories (f n) @ ss)"
  shows "wf_nodes U (update_node (node_id n) f nodes)"
proof -
  obtain xs ys where s: "nodes = xs @ n # ys" "\<And>f. update_node (node_id n) f nodes = xs @ f n # ys"
    using found_split [OF assms(1,2)] by metis
  have "unique_repositories U (all_repositories xs @ node_repositories n @ all_repositories ys)"
    using assms(1) s(1) by (simp add: wf_nodes_def)
  then have "unique_repositories U (all_repositories (xs @ f n # ys))" using assms(8) by simp
  then have "wf_nodes U (xs @ f n # ys)"
    by (intro wf_nodes_same_keys [OF _ assms(3-7)]) (use assms(1) s(1) in simp)
  then show ?thesis by (simp add: s(2))
qed

lemma keys_of_fields [simp]:
  "node_path_key (n\<lparr>node_updatedAt := t\<rparr>) = node_path_key n"
  "node_path_key (n\<lparr>node_tags := ts\<rparr>) = node_path_key n"
  "node_path_key (n\<lparr>node_description := d\<rparr>) = node_path_key n"
  "node_path_key (n\<lparr>node_githubCredentialSecretId := c\<rparr>) = node_path_key n"
  "node_path_key (n\<lparr>node_repositories := rs\<rparr>) = node_path_key n"
  "node_path_key (n\<lparr>node_name := a\<rparr>) = node_path_key n"
  "sibling_key (n\<lparr>node_updatedAt := t\<rparr>) = sibling_key n"
  "sibling_key (n\<lparr>node_tags := ts\<rparr>) = sibling_key n"
  "sibling_key (n\<lparr>node_description := d\<rparr>) = sibling_key n"
  "sibling_key (n\<lparr>node_githubCredentialSecretId := c\<rparr>) = sibling_key n"
  "sibling_key (n\<lparr>node_repositories := rs\<rparr>) = sibling_key n"
  "sibling_key (n\<lparr>node_path := p\<rparr>) = sibling_key n"
  by (simp_all add: node_path_key_def sibling_key_def)

lemma repository_keys_of_fields [simp]:
  "repository_path_key (r\<lparr>repo_updatedAt := t\<rparr>) = repository_path_key r"
  "repository_path_key (r\<lparr>repo_tags := ts\<rparr>) = repository_path_key r"
  "repository_path_key (r\<lparr>repo_favorite := b\<rparr>) = repository_path_key r"
  "repository_path_key (r\<lparr>repo_githubCredentialSecretId := c\<rparr>) = repository_path_key r"
  "repository_path_key (r\<lparr>repo_remoteUrl := u\<rparr>) = repository_path_key r"
  "repository_path_key (r\<lparr>repo_upstreamRemoteUrl := u\<rparr>) = repository_path_key r"
  "repository_url_key U (r\<lparr>repo_updatedAt := t\<rparr>) = repository_url_key U r"
  "repository_url_key U (r\<lparr>repo_tags := ts\<rparr>) = repository_url_key U r"
  "repository_url_key U (r\<lparr>repo_favorite := b\<rparr>) = repository_url_key U r"
  "repository_url_key U (r\<lparr>repo_githubCredentialSecretId := c\<rparr>) = repository_url_key U r"
  "repository_url_key U (r\<lparr>repo_path := p\<rparr>) = repository_url_key U r"
  "repository_url_key U (r\<lparr>repo_upstreamRemoteUrl := u\<rparr>) = repository_url_key U r"
  by (simp_all add: repository_path_key_def repository_url_key_def)

lemma wf_update_name:
  assumes "wf_nodes U nodes" "find_node nodes i = Some n"
    and "\<not> hasSiblingWithName nodes (node_parentId n) name (Some (node_id n))"
  shows "wf_nodes U (update_node (node_id n) (\<lambda>n. n\<lparr>node_name := name, node_updatedAt := now\<rparr>) nodes)"
proof -
  obtain xs ys where s: "nodes = xs @ n # ys" "\<And>f. update_node (node_id n) f nodes = xs @ f n # ys"
    using found_split [OF assms(1,2)] by metis
  have ids: "node_id m \<noteq> node_id n" if "m \<in> set xs \<union> set ys" for m
    using assms(1) that unfolding s(1) by (auto simp: wf_nodes_def image_iff)
  have "wf_nodes U (xs @ n\<lparr>node_name := name, node_updatedAt := now\<rparr> # ys)"
  proof (rule wf_nodes_replace)
    show "wf_nodes U (xs @ n # ys)" using assms(1) s(1) by simp
    show "node_path_key (n\<lparr>node_name := name, node_updatedAt := now\<rparr>) \<notin> node_path_key ` (set xs \<union> set ys)"
      using assms(1) unfolding s(1) by (auto simp: wf_nodes_def)
    show "sibling_key (n\<lparr>node_name := name, node_updatedAt := now\<rparr>) \<notin> sibling_key ` (set xs \<union> set ys)"
    proof
      assume "sibling_key (n\<lparr>node_name := name, node_updatedAt := now\<rparr>) \<in> sibling_key ` (set xs \<union> set ys)"
      then obtain m where "m \<in> set xs \<union> set ys" "sibling_key m = (node_parentId n, createNameKey name)"
        by (force simp: sibling_key_def)
      then show False
        using assms(3) ids [of m] s(1) by (auto simp: hasSiblingWithName_def sibling_key_def)
    qed
    show "unique_repositories U (all_repositories (xs @ n\<lparr>node_name := name, node_updatedAt := now\<rparr> # ys))"
      using assms(1) unfolding s(1) by (simp add: wf_nodes_def)
  qed simp_all
  then show ?thesis by (simp add: s(2))
qed

lemma wf_update_path:
  assumes "wf_nodes U nodes" "find_node nodes i = Some n"
    and "\<not> hasNodeWithPath nodes path (Some (node_id n))"
  shows "wf_nodes U (update_node (node_id n) (\<lambda>n. n\<lparr>node_path := path, node_updatedAt := now\<rparr>) nodes)"
proof -
  obtain xs ys where s: "nodes = xs @ n # ys" "\<And>f. update_node (node_id n) f nodes = xs @ f n # ys"
    using found_split [OF assms(1,2)] by metis
  have ids: "node_id m \<noteq> node_id n" if "m \<in> set xs \<union> set ys" for m
    using assms(1) that unfolding s(1) by (auto simp: wf_nodes_def image_iff)
  have "wf_nodes U (xs @ n\<lparr>node_path := path, node_updatedAt := now\<rparr> # ys)"
  proof (rule wf_nodes_replace)
    show "wf_nodes U (xs @ n # ys)" using assms(1) s(1) by simp
    show "sibling_key (n\<lparr>node_path := path, node_updatedAt := now\<rparr>) \<notin> sibling_key ` (set xs \<union> set ys)"
      using assms(1) unfolding s(1) by (auto simp: wf_nodes_def)
    show "node_path_key (n\<lparr>node_path := path, node_updatedAt := now\<rparr>) \<notin> node_path_key ` (set xs \<union> set ys)"
    proof
      assume "node_path_key (n\<lparr>node_path := path, node_updatedAt := now\<rparr>) \<in> node_path_key ` (set xs \<union> set ys)"
      then obtain m where "m \<in> set xs \<union> set ys" "node_path_key m = createProjectPathKey path"
        by (force simp: node_path_key_def)
      then show False
        using assms(3) ids [of m] s(1) by (auto simp: hasNodeWithPath_def node_path_key_def)
    qed
    show "unique_repositories U (all_repositories (xs @ n\<lparr>node_path := path, node_updatedAt := now\<rparr> # ys))"
      using assms(1) unfolding s(1) by (simp add: wf_nodes_def)
  qed simp_all
  then show ?thesis by (simp add: s(2))
qed

section \<open>Removing a node with everything below it\<close>

definition child_rel :: "project_node list \<Rightarrow> (string \<times> string) set" where
  "child_rel nodes = {(p, node_id n) | p n. n \<in> set nodes \<and> node_parentId n = Some p}"

definition child_closed :: "project_node list \<Rightarrow> string set \<Rightarrow> bool" where
  "child_closed nodes D \<longleftrightarrow> (\<forall>n \<in> set nodes. (\<exists>p \<in> set_option (node_parentId n). p \<in> D) \<longrightarrow> node_id n \<in> D)"

lemma subtree_round_sound: "child_closed nodes D \<Longrightarrow> ids \<subseteq> D \<Longrightarrow> subtree_round nodes ids \<subseteq> D"
proof -
  have "child_closed ns D \<Longrightarrow> ids \<subseteq> D \<Longrightarrow>
      fold (\<lambda>n ids. if (\<exists>p \<in> set_option (node_parentId n). p \<in> ids) \<and> node_id n \<notin> ids
                   then insert (node_id n) ids else ids) ns ids \<subseteq> D" for ns
  proof (induction ns arbitrary: ids)
    case (Cons n ns)
    let ?i = "if (\<exists>p \<in> set_option (node_parentId n). p \<in> ids) \<and> node_id n \<notin> ids then insert (node_id n) ids else ids"
    have "?i \<subseteq> D" using Cons.prems by (auto simp: child_closed_def)
    moreover have "child_closed ns D" using Cons.prems by (simp add: child_closed_def)
    ultimately show ?case using Cons.IH [of ?i] by (simp only: fold_simps o_apply)
  qed simp
  then show "child_closed nodes D \<Longrightarrow> ids \<subseteq> D \<Longrightarrow> subtree_round nodes ids \<subseteq> D"
    by (simp only: subtree_round_def)
qed

lemma subtree_round_adds:
  assumes "n \<in> set nodes" "node_parentId n = Some p" "p \<in> ids"
  shows "node_id n \<in> subtree_round nodes ids"
proof -
  obtain xs ys where s: "nodes = xs @ n # ys" using assms(1) split_list by metis
  let ?a = "subtree_round xs ids"
  have "p \<in> ?a" using assms(3) subtree_round_bounds [of ids xs] by blast
  then have "node_id n \<in> subtree_round [n] ?a" using assms(2) by (auto simp: subtree_round_def)
  moreover have "subtree_round nodes ids = subtree_round ys (subtree_round [n] ?a)"
    unfolding s by (simp add: subtree_round_def)
  ultimately show ?thesis using subtree_round_bounds [of "subtree_round [n] ?a" ys] by auto
qed

lemma subtree_loop_closed: "child_closed nodes (subtree_loop nodes ids) \<and> ids \<subseteq> subtree_loop nodes ids"
proof (induction nodes ids rule: subtree_loop.induct)
  case (1 nodes ids)
  let ?i = "subtree_round nodes ids"
  show ?case
  proof (cases "?i = ids")
    case True
    then have "child_closed nodes ids"
      using subtree_round_adds [of _ nodes _ ids] by (auto simp: child_closed_def elem_set)
    then show ?thesis using True by (simp add: subtree_loop.simps [of nodes ids] Let_def)
  next
    case False
    with 1 have "child_closed nodes (subtree_loop nodes ?i) \<and> ?i \<subseteq> subtree_loop nodes ?i" by simp
    moreover have "ids \<subseteq> ?i" using subtree_round_bounds by blast
    moreover have "subtree_loop nodes ids = subtree_loop nodes ?i"
      using False by (simp add: subtree_loop.simps [of nodes ids] Let_def)
    ultimately show ?thesis by auto
  qed
qed

lemma subtree_loop_least: "child_closed nodes D \<Longrightarrow> ids \<subseteq> D \<Longrightarrow> subtree_loop nodes ids \<subseteq> D"
proof (induction nodes ids rule: subtree_loop.induct)
  case (1 nodes ids)
  then show ?case
    using subtree_round_sound [OF "1.prems"] by (simp add: subtree_loop.simps [of nodes ids] Let_def)
qed

lemma subtree_ids_eq: "collectProjectNodeSubtreeIds nodes i = (child_rel nodes)\<^sup>* `` {i}"
proof
  have "child_closed nodes ((child_rel nodes)\<^sup>* `` {i})"
    by (auto simp: child_closed_def child_rel_def elem_set intro: rtrancl_into_rtrancl)
  then show "collectProjectNodeSubtreeIds nodes i \<subseteq> (child_rel nodes)\<^sup>* `` {i}"
    unfolding collectProjectNodeSubtreeIds_def by (rule subtree_loop_least) simp
  have closed: "child_closed nodes (collectProjectNodeSubtreeIds nodes i)" "i \<in> collectProjectNodeSubtreeIds nodes i"
    using subtree_loop_closed [of nodes "{i}"] by (simp_all add: collectProjectNodeSubtreeIds_def)
  show "(child_rel nodes)\<^sup>* `` {i} \<subseteq> collectProjectNodeSubtreeIds nodes i"
  proof
    fix j assume "j \<in> (child_rel nodes)\<^sup>* `` {i}"
    then have "(i, j) \<in> (child_rel nodes)\<^sup>*" by simp
    then show "j \<in> collectProjectNodeSubtreeIds nodes i"
    proof (induction rule: rtrancl_induct)
      case (step y z)
      then show ?case using closed(1) by (auto simp: child_closed_def child_rel_def)
    qed (rule closed(2))
  qed
qed

lemma subtree_ids_closed: "child_closed nodes (collectProjectNodeSubtreeIds nodes i)"
  using subtree_loop_closed by (simp add: collectProjectNodeSubtreeIds_def)

lemma parents_first_filter:
  "parents_first S ns \<Longrightarrow> child_closed ns D \<Longrightarrow> parents_first (S - D) (filter (\<lambda>n. node_id n \<notin> D) ns)"
proof (induction S ns rule: parents_first.induct)
  case (2 S n ns)
  have IH: "parents_first (insert (node_id n) S - D) (filter (\<lambda>n. node_id n \<notin> D) ns)"
    using 2 by (simp add: child_closed_def)
  show ?case
  proof (cases "node_id n \<in> D")
    case True
    then show ?thesis using IH by simp
  next
    case False
    moreover have "p \<in> S - D" if "p \<in> set_option (node_parentId n)" for p
      using "2.prems" that False by (auto simp: child_closed_def)
    ultimately show ?thesis using IH by (simp add: insert_Diff_if)
  qed
qed simp

lemma all_repositories_filter: "subseq (all_repositories (filter P ns)) (all_repositories ns)"
  by (induction ns) (auto simp: list_emb_append2 list_emb_append_mono)

lemma wf_nodes_remove:
  assumes wf: "wf_nodes U nodes" and D: "child_closed nodes D"
  shows "wf_nodes U (filter (\<lambda>n. node_id n \<notin> D) nodes)"
proof -
  let ?f = "filter (\<lambda>n. node_id n \<notin> D) nodes"
  have "unique_repositories U (all_repositories ?f)"
    using unique_repositories_subseq [OF all_repositories_filter] wf by (simp add: wf_nodes_def)
  moreover have "parents_first {} ?f"
    using parents_first_filter [of "{}" nodes D] wf D by (simp add: wf_nodes_def)
  ultimately show ?thesis using wf by (auto simp: wf_nodes_def distinct_map_filter list_all_iff)
qed

lemma strict_nodes_remove:
  assumes "strict_nodes U nodes" "child_closed nodes D"
  shows "strict_nodes U (filter (\<lambda>n. node_id n \<notin> D) nodes)"
  using assms wf_nodes_remove [of U nodes D]
    ids_ok_subseq [OF subseq_map [OF all_repositories_filter [of "\<lambda>n. node_id n \<notin> D" nodes]], of repo_id]
  by (auto simp: strict_nodes_def groups_only_def)

section \<open>Adding\<close>

lemma wf_nodes_add:
  assumes wf: "wf_nodes U nodes" and "node_id n \<notin> node_id ` set nodes"
    and "\<not> hasSiblingWithName nodes (node_parentId n) (node_name n) None"
    and "\<not> hasNodeWithPath nodes (node_path n) None"
    and "kind_ok n" "\<forall>p \<in> set_option (node_parentId n). p \<in> node_id ` set nodes" "node_repositories n = []"
  shows "wf_nodes U (nodes @ [n])"
  using assms by (auto simp: wf_nodes_snoc hasSiblingWithName_def hasNodeWithPath_def sibling_key_def
      node_path_key_def unique_repositories_def)

text \<open>A group's repository in its place in the whole list.\<close>

lemma all_repositories_update:
  assumes "wf_nodes U nodes" "find_node nodes i = Some n"
  obtains A B where "all_repositories nodes = A @ node_repositories n @ B"
    "\<And>f. all_repositories (update_node (node_id n) f nodes) = A @ node_repositories (f n) @ B"
proof -
  obtain xs ys where s: "nodes = xs @ n # ys" "\<And>f. update_node (node_id n) f nodes = xs @ f n # ys"
    using found_split [OF assms] by metis
  show ?thesis by (rule that [of "all_repositories xs" "all_repositories ys"]) (simp_all add: s(1), simp add: s(2) [unfolded s(1)])
qed

text \<open>Replacing the repositories of a group by others without a conflict.\<close>

lemma wf_update_repositories:
  assumes wf: "wf_nodes U nodes" and f: "find_node nodes i = Some n"
    and uniq: "unique_repositories U (all_repositories
      (update_node (node_id n) (\<lambda>n. n\<lparr>node_repositories := g (node_repositories n), node_updatedAt := now\<rparr>) nodes))"
  shows "wf_nodes U (update_node (node_id n)
    (\<lambda>n. n\<lparr>node_repositories := g (node_repositories n), node_updatedAt := now\<rparr>) nodes)"
proof -
  obtain xs ys where s: "nodes = xs @ n # ys" "\<And>f. update_node (node_id n) f nodes = xs @ f n # ys"
    using found_split [OF wf f] by metis
  have "wf_nodes U (xs @ n\<lparr>node_repositories := g (node_repositories n), node_updatedAt := now\<rparr> # ys)"
    by (rule wf_nodes_same_keys [of U xs n ys]) (use wf uniq s in simp_all)
  then show ?thesis by (simp add: s(2))
qed

text \<open>The same for strict lists: the group still holds what it holds under fresh or old identifiers.\<close>

lemma strict_update_repositories:
  assumes st: "strict_nodes U nodes" and f: "find_node nodes i = Some n" "node_kind n = GroupKind"
    and uniq: "unique_repositories U (all_repositories
      (update_node (node_id n) (\<lambda>n. n\<lparr>node_repositories := g (node_repositories n), node_updatedAt := now\<rparr>) nodes))"
    and ids: "ids_ok (map repo_id (all_repositories
      (update_node (node_id n) (\<lambda>n. n\<lparr>node_repositories := g (node_repositories n), node_updatedAt := now\<rparr>) nodes)))"
  shows "strict_nodes U (update_node (node_id n)
    (\<lambda>n. n\<lparr>node_repositories := g (node_repositories n), node_updatedAt := now\<rparr>) nodes)"
proof -
  have wf: "wf_nodes U nodes" using st by (simp add: strict_nodes_def)
  obtain xs ys where s: "nodes = xs @ n # ys" "\<And>f. update_node (node_id n) f nodes = xs @ f n # ys"
    using found_split [OF wf f(1)] by metis
  have "groups_only (xs @ n\<lparr>node_repositories := g (node_repositories n), node_updatedAt := now\<rparr> # ys)"
    using st f(2) unfolding s(1) by (auto simp: strict_nodes_def groups_only_def)
  then show ?thesis
    using wf_update_repositories [OF wf f(1) uniq] ids by (simp add: strict_nodes_def s(2))
qed

lemma map_repo_id_update [simp]: "(\<And>r. repo_id (f r) = repo_id r) \<Longrightarrow> map repo_id (update_repository i f rs) = map repo_id rs"
  by (simp add: update_repository_def)

text \<open>A change of one repository, found by its identifier.\<close>

lemma update_repository_split:
  assumes "distinct (map repo_id (A @ rs @ B))" "r \<in> set rs"
  obtains as bs where "rs = as @ r # bs" "\<And>f. update_repository (repo_id r) f rs = as @ f r # bs"
    "\<And>x. x \<in> set (A @ as) \<union> set (bs @ B) \<Longrightarrow> repo_id x \<noteq> repo_id r"
proof -
  obtain as bs where s: "rs = as @ r # bs" using assms(2) split_list by metis
  have "update_repository (repo_id r) f rs = as @ f r # bs" for f
    using assms(1) unfolding s by (auto simp: update_repository_def image_iff intro!: map_idI)
  moreover have "repo_id x \<noteq> repo_id r" if "x \<in> set (A @ as) \<union> set (bs @ B)" for x
    using assms(1) that unfolding s by (auto simp: image_iff)
  ultimately show ?thesis using that s by blast
qed

lemma strict_update_plain:
  assumes st: "strict_nodes U nodes" and f: "find_node nodes i = Some n"
    and wf: "wf_nodes U (update_node (node_id n) g nodes)"
    and g: "node_kind (g n) = node_kind n" "node_repositories (g n) = node_repositories n"
  shows "strict_nodes U (update_node (node_id n) g nodes)"
proof -
  have w: "wf_nodes U nodes" using st by (simp add: strict_nodes_def)
  obtain xs ys where s: "nodes = xs @ n # ys" "\<And>f. update_node (node_id n) f nodes = xs @ f n # ys"
    using found_split [OF w f(1)] by metis
  have "groups_only (xs @ g n # ys)" using st g unfolding s(1) by (auto simp: strict_nodes_def groups_only_def)
  moreover have "ids_ok (map repo_id (all_repositories (xs @ g n # ys)))"
    using st g unfolding s(1) by (simp add: strict_nodes_def)
  ultimately show ?thesis using wf by (simp add: strict_nodes_def s(2))
qed

lemma strict_nodes_add:
  assumes "strict_nodes U nodes" "wf_nodes U (nodes @ [n])" "node_repositories n = []"
  shows "strict_nodes U (nodes @ [n])"
  using assms by (auto simp: strict_nodes_def groups_only_def)

lemma strict_add_repository:
  assumes st: "strict_nodes U nodes" and f: "find_node nodes i = Some n" "node_kind n = GroupKind"
    and path: "\<And>k. repository_path_key r = Some k \<Longrightarrow> \<not> group_path_taken nodes k None"
    and url: "\<And>k. repository_url_key U r = Some k \<Longrightarrow> \<not> group_url_taken U nodes k None"
    and fresh: "repo_id r \<notin> repo_id ` set (all_repositories nodes)" "stable_id (repo_id r)"
  shows "strict_nodes U (update_node (node_id n)
    (\<lambda>n. n\<lparr>node_repositories := node_repositories n @ [r], node_updatedAt := now\<rparr>) nodes)"
proof -
  have wf: "wf_nodes U nodes" and go: "groups_only nodes" using st by (simp_all add: strict_nodes_def)
  obtain A B where s: "all_repositories nodes = A @ node_repositories n @ B"
    "\<And>f. all_repositories (update_node (node_id n) f nodes) = A @ node_repositories (f n) @ B"
    using all_repositories_update [OF wf f(1)] by metis
  have "unique_repositories U ((A @ node_repositories n) @ r # B)"
  proof (rule unique_repositories_put)
    show "unique_repositories U ((A @ node_repositories n) @ B)"
      using wf s(1) by (simp add: wf_nodes_def)
    show "\<forall>k \<in> set_option (repository_path_key r). k \<notin> set (path_keys ((A @ node_repositories n) @ B))"
      using path group_path_free [OF go] s(1) by (fastforce simp: path_keys_def set_map_filter elem_set)
    show "\<forall>k \<in> set_option (repository_url_key U r). k \<notin> set (url_keys U ((A @ node_repositories n) @ B))"
      using url group_url_free [OF go] s(1) by (fastforce simp: url_keys_def set_map_filter elem_set)
  qed
  then show ?thesis
    using st fresh by (intro strict_update_repositories [OF st f]) (auto simp: s strict_nodes_def ids_ok_def)
qed

lemma strict_update_repository:
  assumes st: "strict_nodes U nodes" and f: "find_node nodes i = Some n" "node_kind n = GroupKind"
    and r: "r \<in> set (node_repositories n)" "repo_id r = j" and g: "\<And>r. repo_id (g r) = repo_id r"
    and path: "\<And>k. repository_path_key (g r) = Some k \<Longrightarrow>
      repository_path_key r = Some k \<or> \<not> group_path_taken nodes k (Some j)"
    and url: "\<And>k. repository_url_key U (g r) = Some k \<Longrightarrow>
      repository_url_key U r = Some k \<or> \<not> group_url_taken U nodes k (Some j)"
  shows "strict_nodes U (reg_nodes (with_repository now (reg\<lparr>reg_nodes := nodes\<rparr>) (node_id n) j g))"
proof -
  have wf: "wf_nodes U nodes" and go: "groups_only nodes" using st by (simp_all add: strict_nodes_def)
  obtain A B where s: "all_repositories nodes = A @ node_repositories n @ B"
    "\<And>f. all_repositories (update_node (node_id n) f nodes) = A @ node_repositories (f n) @ B"
    using all_repositories_update [OF wf f(1)] by metis
  have dist: "ids_ok (map repo_id (A @ node_repositories n @ B))"
    using st s(1) by (simp add: strict_nodes_def)
  obtain as bs where t: "node_repositories n = as @ r # bs"
    "\<And>f. update_repository j f (node_repositories n) = as @ f r # bs"
    "\<And>x. x \<in> set (A @ as) \<union> set (bs @ B) \<Longrightarrow> repo_id x \<noteq> j"
    using update_repository_split [OF _ r(1), of A B] dist r(2) unfolding ids_ok_def by metis
  have old: "unique_repositories U ((A @ as) @ r # bs @ B)" using wf s(1) t(1) by (simp add: wf_nodes_def)
  have mem: "x \<in> set (all_repositories nodes)" if "x \<in> set ((A @ as) @ bs @ B)" for x
    using that unfolding s(1) t(1) by auto
  have "unique_repositories U ((A @ as) @ g r # bs @ B)"
  proof (rule unique_repositories_put)
    show "unique_repositories U ((A @ as) @ bs @ B)" by (rule unique_repositories_drop [OF old])
    show "\<forall>k \<in> set_option (repository_path_key (g r)). k \<notin> set (path_keys ((A @ as) @ bs @ B))"
    proof
      fix k assume "k \<in> set_option (repository_path_key (g r))"
      then consider "repository_path_key r = Some k" | "\<not> group_path_taken nodes k (Some j)"
        using path by (auto simp: elem_set)
      then show "k \<notin> set (path_keys ((A @ as) @ bs @ B))"
      proof cases
        case 1
        then show ?thesis using old by (auto simp: unique_repositories_def path_keys_def map_filter_Cons)
      next
        case 2
        have "repository_path_key x \<noteq> Some k" if "x \<in> set ((A @ as) @ bs @ B)" for x
          using group_path_free [OF go 2 mem [OF that]] t(3) [of x] that by auto
        then show ?thesis unfolding path_keys_def set_map_filter by blast
      qed
    qed
    show "\<forall>k \<in> set_option (repository_url_key U (g r)). k \<notin> set (url_keys U ((A @ as) @ bs @ B))"
    proof
      fix k assume "k \<in> set_option (repository_url_key U (g r))"
      then consider "repository_url_key U r = Some k" | "\<not> group_url_taken U nodes k (Some j)"
        using url by (auto simp: elem_set)
      then show "k \<notin> set (url_keys U ((A @ as) @ bs @ B))"
      proof cases
        case 1
        then show ?thesis using old by (auto simp: unique_repositories_def url_keys_def map_filter_Cons)
      next
        case 2
        have "repository_url_key U x \<noteq> Some k" if "x \<in> set ((A @ as) @ bs @ B)" for x
          using group_url_free [OF go 2 mem [OF that]] t(3) [of x] that by auto
        then show ?thesis unfolding url_keys_def set_map_filter by blast
      qed
    qed
  qed
  then have "strict_nodes U (update_node (node_id n)
      (\<lambda>n. n\<lparr>node_repositories := update_repository j g (node_repositories n), node_updatedAt := now\<rparr>) nodes)"
    using dist [unfolded t(1)] g by (intro strict_update_repositories [OF st f]) (simp_all add: s t(2))
  then show ?thesis by (simp add: with_repository_def)
qed

section \<open>Removing repositories and backfilling their URLs\<close>

lemma wf_remove_repository:
  assumes wf: "wf_nodes U nodes" and f: "find_node nodes i = Some n"
  shows "wf_nodes U (update_node (node_id n)
    (\<lambda>n. n\<lparr>node_repositories := filter P (node_repositories n), node_updatedAt := now\<rparr>) nodes)"
proof -
  have "subseq (A @ filter P rs @ B) (A @ rs @ B)" for A rs B
    by (intro list_emb_append_mono subseq_filter_left) auto
  then show ?thesis
    by (intro wf_update_plain [OF wf f]) (auto intro: unique_repositories_subseq)
qed

lemma strict_remove_repository:
  assumes st: "strict_nodes U nodes" and f: "find_node nodes i = Some n" "node_kind n = GroupKind"
  shows "strict_nodes U (update_node (node_id n)
    (\<lambda>n. n\<lparr>node_repositories := filter P (node_repositories n), node_updatedAt := now\<rparr>) nodes)"
proof -
  have wf: "wf_nodes U nodes" using st by (simp add: strict_nodes_def)
  obtain A B where s: "all_repositories nodes = A @ node_repositories n @ B"
    "\<And>f. all_repositories (update_node (node_id n) f nodes) = A @ node_repositories (f n) @ B"
    using all_repositories_update [OF wf f(1)] by metis
  have sub: "subseq (A @ filter P (node_repositories n) @ B) (A @ node_repositories n @ B)"
    by (intro list_emb_append_mono subseq_filter_left) auto
  have "ids_ok (map repo_id (A @ filter P (node_repositories n) @ B))"
    by (rule ids_ok_subseq [OF subseq_map [OF sub]]) (use st s(1) in \<open>simp add: strict_nodes_def\<close>)
  moreover have "unique_repositories U (A @ filter P (node_repositories n) @ B)"
    by (rule unique_repositories_subseq [OF sub]) (use wf s(1) in \<open>simp add: wf_nodes_def\<close>)
  ultimately show ?thesis by (intro strict_update_repositories [OF st f]) (simp_all add: s(2))
qed

text \<open>What backfilling may do to a repository: give it a URL when it has none.\<close>

definition backfilled :: "string \<Rightarrow> repository_link \<Rightarrow> repository_link \<Rightarrow> bool" where
  "backfilled now r' r \<longleftrightarrow> r' = r \<or> (repo_remoteUrl r = None \<and> (\<exists>url up. url \<noteq> [] \<and>
     (repo_upstreamRemoteUrl r \<noteq> None \<longrightarrow> up = repo_upstreamRemoteUrl r) \<and>
     r' = r\<lparr>repo_remoteUrl := Some url, repo_upstreamRemoteUrl := up, repo_updatedAt := now\<rparr>))"

definition backfilled_node :: "string \<Rightarrow> project_node \<Rightarrow> project_node \<Rightarrow> bool" where
  "backfilled_node now n' n \<longleftrightarrow> n' = n \<or> (node_kind n = GroupKind \<and> (\<exists>rs.
     list_all2 (backfilled now) rs (node_repositories n) \<and>
     n' = n\<lparr>node_repositories := rs, node_updatedAt := now\<rparr>))"

lemma backfilled_refl [simp]: "backfilled now r r" "backfilled_node now n n"
  by (simp_all add: backfilled_def backfilled_node_def)

lemma backfill_repositories_spec:
  "backfill_repositories U now input rs seen = (rs', seen', c) \<Longrightarrow>
     list_all2 (backfilled now) rs' rs \<and> (c \<longleftrightarrow> rs' \<noteq> rs) \<and>
     (\<exists>new. mset (url_keys U rs') = mset (url_keys U rs) + mset new \<and> distinct new \<and>
        set new \<inter> seen = {} \<and> seen' = seen \<union> set new)"
proof (induction U now input rs seen arbitrary: rs' seen' c rule: backfill_repositories.induct)
  case (1 U now input seen)
  then show ?case by (auto intro: exI [of _ "[]"])
next
  case (2 U now input r rs seen)
  show ?case
  proof (cases "\<exists>url up. repo_remoteUrl r = None \<and> input (repo_id r) = Some (url, up) \<and> url \<noteq> [] \<and>
      createRepositoryRemoteUrlKey U url \<notin> seen")
    case False
    have "\<exists>rs0. backfill_repositories U now input rs seen = (rs0, seen', c) \<and> rs' = r # rs0"
      using "2.prems" False by (auto simp: Let_def split: if_splits option.splits prod.splits)
    then obtain rs0 where e: "backfill_repositories U now input rs seen = (rs0, seen', c)" "rs' = r # rs0"
      by blast
    have "list_all2 (backfilled now) rs0 rs \<and> (c \<longleftrightarrow> rs0 \<noteq> rs) \<and>
     (\<exists>new. mset (url_keys U rs0) = mset (url_keys U rs) + mset new \<and> distinct new \<and>
        set new \<inter> seen = {} \<and> seen' = seen \<union> set new)"
      by (rule "2.IH"(1) [OF e(1)])
    then have h: "list_all2 (backfilled now) rs0 rs" "c \<longleftrightarrow> rs0 \<noteq> rs" and
      "\<exists>new. mset (url_keys U rs0) = mset (url_keys U rs) + mset new \<and> distinct new \<and>
        set new \<inter> seen = {} \<and> seen' = seen \<union> set new" by blast+
    then obtain new where new: "mset (url_keys U rs0) = mset (url_keys U rs) + mset new" "distinct new"
        "set new \<inter> seen = {}" "seen' = seen \<union> set new" by blast
    have "mset (url_keys U rs') = mset (url_keys U (r # rs)) + mset new"
      using new(1) by (simp add: e(2) url_keys_def map_filter_Cons split: option.split)
    then show ?thesis using h new by (auto simp: e(2))
  next
    case True
    then obtain url up where t: "repo_remoteUrl r = None" "input (repo_id r) = Some (url, up)" "url \<noteq> []"
      "createRepositoryRemoteUrlKey U url \<notin> seen" by blast
    let ?key = "createRepositoryRemoteUrlKey U url"
    let ?r = "r\<lparr>repo_remoteUrl := Some url, repo_upstreamRemoteUrl := (case repo_upstreamRemoteUrl r of
                      Some u \<Rightarrow> Some u | None \<Rightarrow> non_empty up), repo_updatedAt := now\<rparr>"
    obtain rs0 c0 where e: "backfill_repositories U now input rs (insert ?key seen) = (rs0, seen', c0)"
      "rs' = ?r # rs0" "c"
      using "2.prems" t by (auto simp: Let_def split: prod.splits)
    have IH: "list_all2 (backfilled now) rs0 rs \<and> (c0 \<longleftrightarrow> rs0 \<noteq> rs) \<and>
     (\<exists>new. mset (url_keys U rs0) = mset (url_keys U rs) + mset new \<and> distinct new \<and>
        set new \<inter> insert ?key seen = {} \<and> seen' = insert ?key seen \<union> set new)"
      by (rule "2.IH"(2) [OF refl _ t(2) refl t(3) refl t(4) e(1)]) (simp add: t(1))
    then obtain new where new: "mset (url_keys U rs0) = mset (url_keys U rs) + mset new" "distinct new"
      "set new \<inter> insert ?key seen = {}" "seen' = insert ?key seen \<union> set new" by blast
    have b: "backfilled now ?r r"
      unfolding backfilled_def using t(1,3) by (cases "repo_upstreamRemoteUrl r") auto
    have ne: "?r \<noteq> r"
    proof
      assume "?r = r"
      then have "repo_remoteUrl ?r = repo_remoteUrl r" by (rule arg_cong)
      then show False using t(1) by simp
    qed
    have "mset (url_keys U rs') = mset (url_keys U (r # rs)) + mset (?key # new)"
      using new(1) t(1) by (simp add: e(2) url_keys_def map_filter_Cons repository_url_key_def)
    moreover have "distinct (?key # new)" "set (?key # new) \<inter> seen = {}" "seen' = seen \<union> set (?key # new)"
      using new t(4) by auto
    ultimately have keys: "\<exists>new. mset (url_keys U rs') = mset (url_keys U (r # rs)) + mset new \<and>
        distinct new \<and> set new \<inter> seen = {} \<and> seen' = seen \<union> set new" by blast
    have "list_all2 (backfilled now) rs' (r # rs)" using IH b by (simp add: e(2))
    moreover have "rs' \<noteq> r # rs" using ne by (simp add: e(2))
    ultimately show ?thesis using keys e(3) by blast
  qed
qed

lemma backfill_nodes_spec:
  "backfill_nodes U now input ns seen = (ns', c) \<Longrightarrow>
     list_all2 (backfilled_node now) ns' ns \<and> (c \<longleftrightarrow> ns' \<noteq> ns) \<and>
     (\<exists>new. mset (url_keys U (all_repositories ns')) = mset (url_keys U (all_repositories ns)) + mset new \<and>
        distinct new \<and> set new \<inter> seen = {})"
proof (induction U now input ns seen arbitrary: ns' c rule: backfill_nodes.induct)
  case (1 U now input seen)
  then show ?case by (auto intro: exI [of _ "[]"])
next
  case (2 U now input n ns seen)
  show ?case
  proof (cases "node_kind n = GroupKind")
    case False
    then obtain ns0 where e: "backfill_nodes U now input ns seen = (ns0, c)" "ns' = n # ns0"
      using "2.prems" by (auto split: prod.splits)
    show ?thesis using "2.IH"(1) [OF False e(1)] by (auto simp: e(2))
  next
    case True
    obtain rs seen' b where r: "backfill_repositories U now input (node_repositories n) seen = (rs, seen', b)"
      by (metis prod_cases3)
    obtain ns0 c0 where e: "backfill_nodes U now input ns seen' = (ns0, c0)" by (metis surj_pair)
    let ?n = "n\<lparr>node_repositories := rs, node_updatedAt := now\<rparr>"
    have out: "ns' = (if b then ?n else n) # ns0" "c = (b \<or> c0)" using "2.prems" True r e by auto
    from backfill_repositories_spec [OF r] obtain new1 where
      s: "list_all2 (backfilled now) rs (node_repositories n)" "b \<longleftrightarrow> rs \<noteq> node_repositories n"
      "mset (url_keys U rs) = mset (url_keys U (node_repositories n)) + mset new1" "distinct new1"
      "set new1 \<inter> seen = {}" "seen' = seen \<union> set new1" by blast
    have IH: "list_all2 (backfilled_node now) ns0 ns \<and> (c0 \<longleftrightarrow> ns0 \<noteq> ns) \<and>
     (\<exists>new. mset (url_keys U (all_repositories ns0)) = mset (url_keys U (all_repositories ns)) + mset new \<and>
        distinct new \<and> set new \<inter> seen' = {})"
      by (rule "2.IH"(2) [OF _ r [symmetric] refl refl e]) (use True in simp)
    then obtain new2 where t: "mset (url_keys U (all_repositories ns0)) = mset (url_keys U (all_repositories ns)) + mset new2"
      "distinct new2" "set new2 \<inter> seen' = {}" by blast
    let ?m = "if b then ?n else n"
    have reps: "node_repositories ?m = rs" using s(2) by simp
    have ne: "?m = n \<longleftrightarrow> \<not> b"
    proof (cases b)
      case True
      have "?n \<noteq> n"
      proof
        assume "?n = n"
        then have "node_repositories ?n = node_repositories n" by (rule arg_cong)
        then show False using s(2) True by simp
      qed
      then show ?thesis using True by simp
    qed simp
    have "mset (url_keys U (all_repositories ns')) = mset (url_keys U (all_repositories (n # ns))) + mset (new1 @ new2)"
      using s(3) t(1) reps by (simp add: out(1))
    moreover have "distinct (new1 @ new2)" "set (new1 @ new2) \<inter> seen = {}" using s t by auto
    ultimately have keys: "\<exists>new. mset (url_keys U (all_repositories ns')) =
        mset (url_keys U (all_repositories (n # ns))) + mset new \<and> distinct new \<and> set new \<inter> seen = {}" by blast
    have "backfilled_node now ?m n" using s(1) True by (auto simp: backfilled_node_def)
    moreover have "list_all2 (backfilled_node now) ns0 ns" "c0 \<longleftrightarrow> ns0 \<noteq> ns" using IH by blast+
    moreover have "ns' = ?m # ns0" by (rule out(1))
    ultimately have "list_all2 (backfilled_node now) ns' (n # ns)" "c \<longleftrightarrow> ns' \<noteq> n # ns"
      using ne unfolding out(2) by auto
    then show ?thesis using keys by blast
  qed
qed

lemma backfilled_fields:
  "backfilled now r' r \<Longrightarrow> repo_id r' = repo_id r \<and> repository_path_key r' = repository_path_key r"
  by (auto simp: backfilled_def repository_path_key_def)

lemma backfilled_lists:
  "list_all2 (backfilled now) rs' rs \<Longrightarrow> map repo_id rs' = map repo_id rs \<and> path_keys rs' = path_keys rs"
proof (induction rule: list_all2_induct)
  case (Cons r' rs' r rs)
  then show ?case using backfilled_fields [OF Cons.hyps(1)] by (cases "repository_path_key r") (simp_all add: path_keys_def map_filter_Cons)
qed simp

lemma backfilled_node_fields:
  "backfilled_node now n' n \<Longrightarrow> node_id n' = node_id n \<and> node_kind n' = node_kind n \<and>
     node_parentId n' = node_parentId n \<and> node_path_key n' = node_path_key n \<and> sibling_key n' = sibling_key n \<and>
     map repo_id (node_repositories n') = map repo_id (node_repositories n) \<and>
     path_keys (node_repositories n') = path_keys (node_repositories n) \<and>
     (node_kind n = ProjectKind \<longrightarrow> node_repositories n' = node_repositories n)"
  using backfilled_lists by (auto simp: backfilled_node_def)

lemma backfilled_nodes:
  "list_all2 (backfilled_node now) ns' ns \<Longrightarrow>
     map node_id ns' = map node_id ns \<and> map node_path_key ns' = map node_path_key ns \<and>
     map sibling_key ns' = map sibling_key ns \<and> (list_all kind_ok ns' \<longleftrightarrow> list_all kind_ok ns) \<and>
     (parents_first S ns' \<longleftrightarrow> parents_first S ns) \<and> (groups_only ns' \<longleftrightarrow> groups_only ns) \<and>
     map repo_id (all_repositories ns') = map repo_id (all_repositories ns) \<and>
     path_keys (all_repositories ns') = path_keys (all_repositories ns)"
proof (induction arbitrary: S rule: list_all2_induct)
  case (Cons n' ns' n ns)
  note f = backfilled_node_fields [OF Cons.hyps(1)]
  have "groups_only (n' # ns') \<longleftrightarrow> groups_only (n # ns)"
    using f conjunct1 [OF conjunct2 [OF conjunct2 [OF conjunct2 [OF conjunct2 [OF conjunct2 [OF Cons.IH]]]]]]
    unfolding groups_only_def by (auto dest: map_is_Nil_conv [THEN iffD1])
  then show ?case using f Cons.IH by (simp add: kind_ok_def)
qed simp

lemma group_url_keys_all:
  "groups_only nodes \<Longrightarrow> group_url_keys U nodes = set (url_keys U (all_repositories nodes))"
  unfolding group_url_keys_def
proof (induction nodes)
  case (Cons n nodes)
  then have "groups_only nodes" "node_kind n = ProjectKind \<longrightarrow> node_repositories n = []"
    by (auto simp: groups_only_def)
  with Cons.IH show ?case by (cases "node_kind n") auto
qed simp

lemma strict_backfill:
  assumes st: "strict_nodes U nodes"
    and b: "backfill_nodes U now input nodes (group_url_keys U nodes) = (nodes', c)"
  shows "strict_nodes U nodes'"
proof -
  from backfill_nodes_spec [OF b] obtain new where
    n: "list_all2 (backfilled_node now) nodes' nodes"
      "mset (url_keys U (all_repositories nodes')) = mset (url_keys U (all_repositories nodes)) + mset new"
      "distinct new" "set new \<inter> group_url_keys U nodes = {}" by blast
  note f = backfilled_nodes [OF n(1), of "{}"]
  have "groups_only nodes" "distinct (url_keys U (all_repositories nodes))"
    using st by (simp_all add: strict_nodes_def wf_nodes_def unique_repositories_def)
  then have "distinct (url_keys U (all_repositories nodes) @ new)"
    using n(3,4) by (auto simp: group_url_keys_all)
  moreover have "mset (url_keys U (all_repositories nodes')) = mset (url_keys U (all_repositories nodes) @ new)"
    using n(2) by simp
  ultimately have "distinct (url_keys U (all_repositories nodes'))" by (metis mset_eq_imp_distinct_iff)
  then show ?thesis using f st by (simp add: strict_nodes_def wf_nodes_def unique_repositories_def)
qed

section \<open>Canonicalising keeps strict lists strict\<close>

definition drawn_from :: "project_node list \<Rightarrow> project_node list \<Rightarrow> bool" where
  "drawn_from nodes ms \<longleftrightarrow> (\<forall>m \<in> set ms. \<exists>n \<in> set nodes. node_id m = node_id n \<and> node_kind m = node_kind n \<and>
     subseq (map repo_id (node_repositories m)) (map repo_id (node_repositories n)) \<and>
     repo_path ` set (node_repositories m) \<subseteq> repo_path ` set (node_repositories n))"

lemma filterUniqueRepositories_subseq:
  "filterUniqueRepositories U rs ps us = (kept, ps', us') \<Longrightarrow> subseq (map repo_id kept) (map repo_id rs)"
proof (induction U rs ps us arbitrary: kept ps' us' rule: filterUniqueRepositories.induct)
  case (2 U r rs ps us)
  show ?case
  proof (cases "(\<exists>k \<in> set_option (repository_path_key r). k \<in> ps) \<or> (\<exists>k \<in> set_option (repository_url_key U r). k \<in> us)")
    case True
    then have "filterUniqueRepositories U rs ps us = (kept, ps', us')" using 2(3) by (simp add: Let_def)
    from 2(1) [OF refl refl True this] show ?thesis by auto
  next
    case False
    obtain kept0 where eq: "filterUniqueRepositories U rs (set_option (repository_path_key r) \<union> ps)
        (set_option (repository_url_key U r) \<union> us) = (kept0, ps', us')" "kept = clean_repository U r # kept0"
      using 2(3) False by (auto simp: Let_def split: prod.splits)
    from 2(2) [OF refl refl False eq(1)] eq(2) show ?thesis by simp
  qed
qed simp

lemma filterUniqueRepositories_paths:
  "filterUniqueRepositories U rs ps us = (kept, ps', us') \<Longrightarrow> repo_path ` set kept \<subseteq> repo_path ` set rs"
proof (induction U rs ps us arbitrary: kept ps' us' rule: filterUniqueRepositories.induct)
  case (2 U r rs ps us)
  show ?case
  proof (cases "(\<exists>k \<in> set_option (repository_path_key r). k \<in> ps) \<or> (\<exists>k \<in> set_option (repository_url_key U r). k \<in> us)")
    case True
    then have "filterUniqueRepositories U rs ps us = (kept, ps', us')" using 2(3) by (simp add: Let_def)
    from 2(1) [OF refl refl True this] show ?thesis by auto
  next
    case False
    obtain kept0 where eq: "filterUniqueRepositories U rs (set_option (repository_path_key r) \<union> ps)
        (set_option (repository_url_key U r) \<union> us) = (kept0, ps', us')" "kept = clean_repository U r # kept0"
      using 2(3) False by (auto simp: Let_def split: prod.splits)
    from 2(2) [OF refl refl False eq(1)] eq(2) show ?thesis by (auto simp: clean_repository_def)
  qed
qed simp

lemma drawn_from_accept:
  assumes "drawn_from nodes (ns_nodes \<sigma>)" "n \<in> set nodes"
  shows "drawn_from nodes (ns_nodes (accept U \<sigma> n path))"
proof -
  obtain kept ps us where k: "filterUniqueRepositories U (node_repositories n) (ns_repoPaths \<sigma>) (ns_repoUrls \<sigma>) = (kept, ps, us)"
    by (metis prod_cases3)
  show ?thesis using assms filterUniqueRepositories_subseq [OF k] filterUniqueRepositories_paths [OF k]
    by (auto simp: drawn_from_def accept_def accepted_node_def k)
qed

lemma drawn_from_root:
  "drawn_from nodes (ns_nodes \<sigma>) \<Longrightarrow> n \<in> set nodes \<Longrightarrow> drawn_from nodes (ns_nodes (visit_root U n \<sigma>))"
  using drawn_from_accept by (auto simp: visit_root_def Let_def)

lemma drawn_from_step:
  assumes "drawn_from nodes (ns_nodes \<sigma>)" "i < length nodes"
  shows "drawn_from nodes (ns_nodes (scan_step U nodes i \<sigma>))"
proof -
  have "drawn_from nodes (ns_nodes \<sigma>')" if "visit_group U (nodes ! i) \<sigma> = Some \<sigma>'" for \<sigma>'
    using that drawn_from_accept [OF assms(1) nth_mem [OF assms(2)], of U]
    by (auto simp: visit_group_def Let_def split: option.splits if_splits)
  then show ?thesis using assms(1) by (auto simp: scan_step_def split: option.splits)
qed

lemma drawn_from_pass:
  assumes "drawn_from nodes (ns_nodes \<sigma>)" shows "drawn_from nodes (ns_nodes (scan_pass U nodes \<sigma>))"
proof -
  have "drawn_from nodes (ns_nodes \<sigma>) \<Longrightarrow> \<forall>i \<in> set is. i < length nodes \<Longrightarrow>
      drawn_from nodes (ns_nodes (fold (scan_step U nodes) is \<sigma>))" for "is" \<sigma>
    by (induction "is" arbitrary: \<sigma>) (auto simp: drawn_from_step)
  from this [OF assms] show ?thesis by (simp add: scan_pass_def)
qed

lemma drawn_from_passes: "drawn_from nodes (ns_nodes \<sigma>) \<Longrightarrow> drawn_from nodes (ns_nodes (scan_passes U nodes \<sigma>))"
proof (induction U nodes \<sigma> rule: scan_passes.induct)
  case (1 U nodes \<sigma>)
  then show ?case
    using drawn_from_pass [OF "1.prems", of U] by (subst scan_passes.simps) (simp add: Let_def)
qed

lemma drawn_from_normalizeProjectNodes: "drawn_from nodes (normalizeProjectNodes U nodes)"
proof -
  have "drawn_from nodes (ns_nodes \<sigma>) \<Longrightarrow> set ns \<subseteq> set nodes \<Longrightarrow>
      drawn_from nodes (ns_nodes (fold (visit_root U) ns \<sigma>))" for ns \<sigma>
    by (induction ns arbitrary: \<sigma>) (auto simp: drawn_from_root)
  from this [of norm_init nodes] have "drawn_from nodes (ns_nodes (root_pass U nodes))"
    by (simp add: root_pass_def norm_init_def drawn_from_def)
  then show ?thesis by (simp add: normalizeProjectNodes_eq drawn_from_passes)
qed

lemma ids_disjoint:
  "distinct (map repo_id (all_repositories nodes)) \<Longrightarrow> n \<in> set nodes \<Longrightarrow> m \<in> set nodes \<Longrightarrow> n \<noteq> m \<Longrightarrow>
   repo_id ` set (node_repositories n) \<inter> repo_id ` set (node_repositories m) = {}"
proof (induction nodes)
  case (Cons k nodes)
  have "repo_id ` set (node_repositories l) \<subseteq> repo_id ` set (all_repositories nodes)" if "l \<in> set nodes" for l
    using that by (auto simp: all_repositories_def)
  then show ?case using Cons by (auto simp: disjoint_iff)
qed simp

lemma drawn_from_ids:
  assumes P: "ids_ok (map repo_id (all_repositories nodes))" and d: "drawn_from nodes ms"
    and ids: "distinct (map node_id ms)"
  shows "ids_ok (map repo_id (all_repositories ms))"
  using d ids
proof (induction ms)
  case (Cons m ms)
  have IH: "ids_ok (map repo_id (all_repositories ms))" using Cons by (simp add: drawn_from_def)
  obtain n where n: "n \<in> set nodes" "node_id m = node_id n"
    "subseq (map repo_id (node_repositories m)) (map repo_id (node_repositories n))"
    using Cons.prems(1) by (auto simp: drawn_from_def)
  have subn: "ids_ok (map repo_id (node_repositories n))"
    using P n(1) split_list [OF n(1)] by (auto simp: ids_ok_def)
  have own: "ids_ok (map repo_id (node_repositories m))" by (rule ids_ok_subseq [OF n(3) subn])
  have "repo_id ` set (node_repositories m) \<inter> repo_id ` set (node_repositories k) = {}" if "k \<in> set ms" for k
  proof -
    have "k \<in> set (m # ms)" using that by simp
    then obtain n' where n': "n' \<in> set nodes" "node_id k = node_id n'"
      "subseq (map repo_id (node_repositories k)) (map repo_id (node_repositories n'))"
      using Cons.prems(1) [unfolded drawn_from_def, rule_format] by blast
    have "node_id m \<noteq> node_id k" using Cons.prems(2) that by force
    then have "n \<noteq> n'" using n(2) n'(2) by auto
    then have "repo_id ` set (node_repositories n) \<inter> repo_id ` set (node_repositories n') = {}"
      using ids_disjoint [of nodes n n'] P n n' by (simp add: ids_ok_def)
    moreover have "repo_id ` set (node_repositories m) \<subseteq> repo_id ` set (node_repositories n)"
      "repo_id ` set (node_repositories k) \<subseteq> repo_id ` set (node_repositories n')"
      using subseq_set [OF n(3)] subseq_set [OF n'(3)] by simp_all
    ultimately show ?thesis by blast
  qed
  then have "repo_id ` set (node_repositories m) \<inter> repo_id ` set (all_repositories ms) = {}"
    by (auto simp: all_repositories_def)
  with IH own show ?case by (simp add: ids_ok_def)
qed (simp add: ids_ok_def)

lemma parsed_repository_id:
  "(case i of None \<Rightarrow> None | Some ident \<Rightarrow> if b then None else
      Some \<lparr>repo_id = ident, repo_name = a1, repo_path = a2, repo_remoteUrl = a3, repo_upstreamRemoteUrl = a4,
        repo_githubCredentialSecretId = a5, repo_favorite = a6, repo_tags = a7, repo_createdAt = a8,
        repo_updatedAt = a9\<rparr>) = Some r \<Longrightarrow> i = Some (repo_id r)"
  by (auto split: option.splits if_splits)

lemma parseRepositoryLinkRecord_id:
  assumes "parseRepositoryLinkRecord U v = Some r" shows "normalizeRecordId (js_prop v ''id'') = Some (repo_id r)"
proof (cases "isObjectRecord v")
  case True
  then have "(\<not> isObjectRecord v) = False" by simp
  show ?thesis
    using assms unfolding parseRepositoryLinkRecord_def Let_def \<open>(\<not> isObjectRecord v) = False\<close> if_False
    by (rule parsed_repository_id)
qed (use assms in \<open>simp add: parseRepositoryLinkRecord_def\<close>)

lemma parse_repository_id:
  assumes "parseRepositoryLinkRecord U (repository_js r) = Some r'" "stable_id (repo_id r)"
  shows "repo_id r' = repo_id r"
proof -
  have p: "js_prop (repository_js r) ''id'' = JStr (repo_id r)" by (simp add: repository_js_def js_prop_def)
  have "Some (repo_id r') = Some (repo_id r)"
    using parseRepositoryLinkRecord_id [OF assms(1)] unfolding p normalizeRecordId_str [OF assms(2)] by (rule sym)
  then show ?thesis by (rule option.inject [THEN iffD1])
qed

lemma parse_repositories_ids:
  "list_all stable_id (map repo_id rs) \<Longrightarrow>
   subseq (map repo_id (List.map_filter (parseRepositoryLinkRecord U) (map repository_js rs))) (map repo_id rs)"
proof (induction rs)
  case (Cons r rs)
  then have IH: "subseq (map repo_id (List.map_filter (parseRepositoryLinkRecord U) (map repository_js rs)))
      (map repo_id rs)" and r: "stable_id (repo_id r)" by simp_all
  show ?case
  proof (cases "parseRepositoryLinkRecord U (repository_js r)")
    case None
    then show ?thesis using IH by (simp add: map_filter_Cons list_emb_Cons)
  next
    case (Some r')
    then show ?thesis using IH parse_repository_id [OF Some r] by (simp add: map_filter_Cons)
  qed
qed simp

lemma normalizeProjectNodeKind_js [simp]: "normalizeProjectNodeKind (kind_js k) = Some k"
  by (cases k) (simp_all add: normalizeProjectNodeKind_def kind_js_def)

lemma parse_node_shape:
  assumes "parseProjectNodeRecord U (node_js n) = Some m"
  shows "node_kind m = node_kind n \<and>
    node_repositories m = List.map_filter (parseRepositoryLinkRecord U) (map repository_js (node_repositories n))"
proof -
  have p: "js_prop (node_js n) ''kind'' = kind_js (node_kind n)"
    "js_elements (js_prop (node_js n) ''repositories'') = map repository_js (node_repositories n)"
    by (simp_all add: node_js_def js_prop_def js_elements_def)
  show ?thesis
    using assms unfolding parseProjectNodeRecord_def p normalizeProjectNodeKind_js Let_def
    by (auto split: if_splits option.splits)
qed

lemma parse_nodes_strict:
  "groups_only ns \<Longrightarrow> list_all stable_id (map repo_id (all_repositories ns)) \<Longrightarrow>
   groups_only (List.map_filter (parseProjectNodeRecord U) (map node_js ns)) \<and>
   subseq (map repo_id (all_repositories (List.map_filter (parseProjectNodeRecord U) (map node_js ns))))
     (map repo_id (all_repositories ns))"
proof (induction ns)
  case (Cons n ns)
  have IH: "groups_only (List.map_filter (parseProjectNodeRecord U) (map node_js ns)) \<and>
   subseq (map repo_id (all_repositories (List.map_filter (parseProjectNodeRecord U) (map node_js ns))))
     (map repo_id (all_repositories ns))"
    using Cons by (simp add: groups_only_def)
  show ?case
  proof (cases "parseProjectNodeRecord U (node_js n)")
    case None
    then show ?thesis using IH by (simp add: map_filter_Cons list_emb_append2)
  next
    case (Some m)
    note m = parse_node_shape [OF Some]
    have "subseq (map repo_id (node_repositories m)) (map repo_id (node_repositories n))"
      using Cons.prems(2) parse_repositories_ids m by simp
    moreover have "groups_only (m # List.map_filter (parseProjectNodeRecord U) (map node_js ns))"
      using IH Cons.prems(1) m by (auto simp: groups_only_def)
    ultimately show ?thesis using IH Some by (simp add: map_filter_Cons list_emb_append_mono)
  qed
qed (simp add: groups_only_def)

lemma groups_only_drawn: "groups_only nodes \<Longrightarrow> drawn_from nodes ms \<Longrightarrow> groups_only ms"
  unfolding groups_only_def drawn_from_def
proof (intro ballI impI)
  fix m assume "\<forall>n\<in>set nodes. node_kind n = ProjectKind \<longrightarrow> node_repositories n = []" and
    "\<forall>m\<in>set ms. \<exists>n\<in>set nodes. node_id m = node_id n \<and> node_kind m = node_kind n \<and>
       subseq (map repo_id (node_repositories m)) (map repo_id (node_repositories n)) \<and>
       repo_path ` set (node_repositories m) \<subseteq> repo_path ` set (node_repositories n)"
    and m: "m \<in> set ms" "node_kind m = ProjectKind"
  then obtain n where n: "n \<in> set nodes" "node_kind n = ProjectKind"
    "subseq (map repo_id (node_repositories m)) (map repo_id (node_repositories n))" by fastforce
  then have "node_repositories n = []" using \<open>\<forall>n\<in>set nodes. _ n\<close> by blast
  then show "node_repositories m = []" using subseq_set [OF n(3)] by simp
qed

lemma normalized_nodes:
  "reg_nodes (normalized U now reg) =
     normalizeProjectNodes U (List.map_filter (parseProjectNodeRecord U) (map node_js (reg_nodes reg))) \<or>
   reg_nodes (normalized U now reg) = []"
  by (simp add: normalized_def normalizeProjectRegistry_def createEmptyProjectRegistry_def Let_def
      registry_js_def js_prop_def)

lemma strict_normalized:
  assumes "strict_nodes U (reg_nodes reg)"
  shows "strict_nodes U (reg_nodes (normalized U now reg))"
proof -
  let ?P = "List.map_filter (parseProjectNodeRecord U) (map node_js (reg_nodes reg))"
  have st: "groups_only (reg_nodes reg)" "ids_ok (map repo_id (all_repositories (reg_nodes reg)))"
    using assms by (simp_all add: strict_nodes_def)
  have P: "groups_only ?P" "subseq (map repo_id (all_repositories ?P)) (map repo_id (all_repositories (reg_nodes reg)))"
    using parse_nodes_strict [OF st(1)] st(2) by (simp_all add: ids_ok_def)
  have d: "drawn_from ?P (normalizeProjectNodes U ?P)" by (rule drawn_from_normalizeProjectNodes)
  have "distinct (map node_id (normalizeProjectNodes U ?P))"
    using wf_normalizeProjectNodes by (simp add: wf_nodes_def)
  from drawn_from_ids [OF ids_ok_subseq [OF P(2) st(2)] d this] groups_only_drawn [OF P(1) d]
  have "strict_nodes U (normalizeProjectNodes U ?P)" by (simp add: strict_nodes_def wf_normalizeProjectNodes)
  moreover have "reg_nodes (normalized U now reg) = normalizeProjectNodes U ?P \<or> reg_nodes (normalized U now reg) = []"
    by (rule normalized_nodes)
  moreover have "strict_nodes U []" by (simp add: strict_nodes_def groups_only_def ids_ok_def)
  ultimately show ?thesis by auto
qed

text \<open>Canonicalising invents no identifier.\<close>

lemma normalized_ids:
  assumes "list_all stable_id (map repo_id (all_repositories (reg_nodes reg)))" "groups_only (reg_nodes reg)"
  shows "repo_id ` set (all_repositories (reg_nodes (normalized U now reg)))
    \<subseteq> repo_id ` set (all_repositories (reg_nodes reg))"
proof -
  let ?P = "List.map_filter (parseProjectNodeRecord U) (map node_js (reg_nodes reg))"
  have P: "subseq (map repo_id (all_repositories ?P)) (map repo_id (all_repositories (reg_nodes reg)))"
    using parse_nodes_strict [OF assms(2,1)] by blast
  have "repo_id ` set (all_repositories (normalizeProjectNodes U ?P)) \<subseteq> repo_id ` set (all_repositories ?P)"
  proof
    fix i assume "i \<in> repo_id ` set (all_repositories (normalizeProjectNodes U ?P))"
    then obtain m where m: "m \<in> set (normalizeProjectNodes U ?P)" "i \<in> set (map repo_id (node_repositories m))"
      by (auto simp: all_repositories_def)
    then obtain n where n: "n \<in> set ?P" "subseq (map repo_id (node_repositories m)) (map repo_id (node_repositories n))"
      using drawn_from_normalizeProjectNodes [of ?P U] by (auto simp: drawn_from_def)
    then obtain r where "r \<in> set (node_repositories n)" "i = repo_id r" using subseq_set [OF n(2)] m(2) by auto
    moreover have "set (node_repositories n) \<subseteq> set (all_repositories ?P)"
      using n(1) unfolding all_repositories_def set_concat set_map by blast
    ultimately show "i \<in> repo_id ` set (all_repositories ?P)" by blast
  qed
  moreover have "repo_id ` set (all_repositories ?P) \<subseteq> repo_id ` set (all_repositories (reg_nodes reg))"
    using subseq_set [OF P] by simp
  moreover have "reg_nodes (normalized U now reg) = normalizeProjectNodes U ?P \<or> reg_nodes (normalized U now reg) = []"
    by (rule normalized_nodes)
  ultimately show ?thesis by (elim disjE) auto
qed

end
