(* ===== verification/Registry_Contract.thy ===== *)
theory Registry_Contract
  imports Prelude
begin

text \<open>
  The contract the registries of the application share: every mutation canonicalises the registry it is
  given, answers a refusal with the canonical registry, and keeps the registry's invariant when the
  identifiers it draws are fresh. Clients run sequences of mutations over such a registry.
\<close>

text \<open>A sequence of mutations, each applied to the registry the previous one answered with.\<close>

fun run_ops :: "('op \<Rightarrow> 'r \<Rightarrow> ('r, 'e) mutation) \<Rightarrow> 'op list \<Rightarrow> 'r \<Rightarrow> 'r" where
  "run_ops step [] r = r"
| "run_ops step (op # ops) r = run_ops step ops (result_registry (step op r))"

text \<open>
  Every operation draws identifiers that are fresh in the canonical form of the registry it meets. An
  operation carries its time stamp, so that the canonical form may depend on it.
\<close>

fun fresh_along ::
  "('op \<Rightarrow> 'r \<Rightarrow> 'r) \<Rightarrow> ('op \<Rightarrow> 'r \<Rightarrow> ('r, 'e) mutation) \<Rightarrow> ('op \<Rightarrow> 'r \<Rightarrow> bool) \<Rightarrow> 'op list \<Rightarrow> 'r \<Rightarrow> bool" where
  "fresh_along norm step fresh [] r = True"
| "fresh_along norm step fresh (op # ops) r =
     (fresh op (norm op r) \<and> fresh_along norm step fresh ops (result_registry (step op r)))"

locale guarded_registry =
  fixes norm :: "'op \<Rightarrow> 'r \<Rightarrow> 'r"
    and step :: "'op \<Rightarrow> 'r \<Rightarrow> ('r, 'e) mutation"
    and fresh :: "'op \<Rightarrow> 'r \<Rightarrow> bool"
    and inv :: "'r \<Rightarrow> bool"
  assumes norm_keeps: "inv r \<Longrightarrow> inv (norm op r)"
    and success_keeps: "inv (norm op r) \<Longrightarrow> fresh op (norm op r) \<Longrightarrow> step op r = Ok r' \<Longrightarrow> inv r'"
    and refusal_canonical: "step op r = Err r' e \<Longrightarrow> r' = norm op r"
begin

lemma step_keeps: "inv r \<Longrightarrow> fresh op (norm op r) \<Longrightarrow> inv (result_registry (step op r))"
  by (cases "step op r") (auto dest: success_keeps [OF norm_keeps] refusal_canonical simp: norm_keeps)

lemma run_keeps: "inv r \<Longrightarrow> fresh_along norm step fresh ops r \<Longrightarrow> inv (run_ops step ops r)"
  by (induction ops arbitrary: r) (auto simp: step_keeps)

text \<open>A run of refusals leaves the registry canonical and nothing else.\<close>

lemma run_refused:
  "(\<And>op r. op \<in> set ops \<Longrightarrow> \<not> is_ok (step op r)) \<Longrightarrow> run_ops step ops r = fold norm ops r"
proof (induction ops arbitrary: r)
  case (Cons op ops)
  have "result_registry (step op r) = norm op r"
    using Cons.prems [of op r] by (cases "step op r") (auto dest: refusal_canonical)
  then show ?case using Cons by simp
qed simp

end

text \<open>
  A registry whose canonical form always has the invariant: a mutation repairs whatever it is given.
\<close>

locale healing_registry = guarded_registry +
  assumes norm_heals: "inv (norm op r)"
begin

lemma step_heals: "fresh op (norm op r) \<Longrightarrow> inv (result_registry (step op r))"
  by (cases "step op r") (auto dest: success_keeps [OF norm_heals] refusal_canonical simp: norm_heals)

lemma run_heals: "fresh_along norm step fresh ops r \<Longrightarrow> ops \<noteq> [] \<Longrightarrow> inv (run_ops step ops r)"
  by (cases ops) (auto simp: step_heals intro!: run_keeps)

end

end
