(* ===== verification/Project_Operations.thy ===== *)
theory Project_Operations
  imports Project_Mutations Registry_Contract
begin

text \<open>
  The mutations of \<open>project-registry.ts\<close> as one operation type: every operation answers a refusal with
  the canonical registry, and keeps strict registries strict when its fresh identifiers are new.
\<close>

datatype project_op =
    AddNode string project_node_input
  | AddRepository string repository_link_input
  | SetNodeTags string "string list"
  | SetNodeDescription string string
  | SetNodeName string string
  | SetNodePath string string
  | SetNodeCredential string "string option"
  | SetRepositoryTags string string "string list"
  | SetRepositoryFavorite string string bool
  | SetRepositoryLocalPath string string string
  | SetRepositoryRemoteUrl string string "string option"
  | SetRepositoryCredential string string "string option"
  | RemoveRepository string string
  | RemoveNode string
  | BackfillUrls "remote_url_backfill_input list"

fun apply_project_op :: "url_parser \<Rightarrow> string \<Rightarrow> project_op \<Rightarrow> project_registry \<Rightarrow> project_mutation" where
  "apply_project_op U now (AddNode fresh i) reg = addProjectNode U now fresh reg i"
| "apply_project_op U now (AddRepository fresh i) reg = addProjectRepositoryLink U now fresh reg i"
| "apply_project_op U now (SetNodeTags n ts) reg = setProjectNodeTags U now reg n ts"
| "apply_project_op U now (SetNodeDescription n d) reg = setProjectNodeDescription U now reg n d"
| "apply_project_op U now (SetNodeName n s) reg = setProjectNodeName U now reg n s"
| "apply_project_op U now (SetNodePath n p) reg = setProjectNodePath U now reg n p"
| "apply_project_op U now (SetNodeCredential n c) reg = setProjectNodeGithubCredential U now reg n c"
| "apply_project_op U now (SetRepositoryTags n r ts) reg = setProjectRepositoryTags U now reg n r ts"
| "apply_project_op U now (SetRepositoryFavorite n r b) reg = setProjectRepositoryFavorite U now reg n r b"
| "apply_project_op U now (SetRepositoryLocalPath n r p) reg = setProjectRepositoryLocalPath U now reg n r p"
| "apply_project_op U now (SetRepositoryRemoteUrl n r u) reg = setProjectRepositoryRemoteUrl U now reg n r u"
| "apply_project_op U now (SetRepositoryCredential n r c) reg = setProjectRepositoryGithubCredential U now reg n r c"
| "apply_project_op U now (RemoveRepository n r) reg = removeProjectRepositoryLink U now reg n r"
| "apply_project_op U now (RemoveNode n) reg = removeProjectNode U now reg n"
| "apply_project_op U now (BackfillUrls is) reg = Ok (fst (backfillProjectRepositoryRemoteUrls U now reg is))"

text \<open>What a random identifier has to be: well formed and not in use.\<close>

fun fresh_for :: "project_op \<Rightarrow> project_registry \<Rightarrow> bool" where
  "fresh_for (AddNode fresh i) reg \<longleftrightarrow> fresh \<notin> node_id ` set (reg_nodes reg)"
| "fresh_for (AddRepository fresh i) reg \<longleftrightarrow>
     stable_id fresh \<and> fresh \<notin> repo_id ` set (all_repositories (reg_nodes reg))"
| "fresh_for _ reg \<longleftrightarrow> True"

section \<open>Refusals\<close>

lemma refused_canonical: "apply_project_op U now op reg = Err r e \<Longrightarrow> r = normalized U now reg"
  by (cases op)
    (auto simp: addProjectNode_def addProjectRepositoryLink_def setProjectNodeTags_def setProjectNodeDescription_def
      setProjectNodeName_def setProjectNodePath_def setProjectNodeGithubCredential_def setProjectRepositoryTags_def
      setProjectRepositoryFavorite_def setProjectRepositoryLocalPath_def setProjectRepositoryRemoteUrl_def
      setProjectRepositoryGithubCredential_def removeProjectRepositoryLink_def removeProjectNode_def Let_def
      split: option.splits if_splits)

section \<open>Successes\<close>

lemma wf_addProjectNode:
  assumes "fresh \<notin> node_id ` set (reg_nodes (normalized U now reg))" "addProjectNode U now fresh reg i = Ok r"
  shows "\<exists>n. reg_nodes r = reg_nodes (normalized U now reg) @ [n] \<and> node_repositories n = [] \<and>
    wf_nodes U (reg_nodes r)"
proof -
  let ?reg = "normalized U now reg"
  have wf: "wf_nodes U (reg_nodes ?reg)" by (rule wf_normalized)
  have kinds: "node_kind n = ProjectKind \<or> node_kind n = GroupKind" for n by (cases "node_kind n") auto
  have found: "find_node (reg_nodes ?reg) p = Some n \<Longrightarrow> p \<in> node_id ` set (reg_nodes ?reg)" for p n
    by (auto dest: find_node_set)
  from assms obtain n where n: "reg_nodes r = reg_nodes ?reg @ [n]" "node_id n = fresh" "node_repositories n = []"
    "node_parentId n = (if ni_kind i = ProjectKind then None else normalizeRecordId (js_nullable (ni_parentId i)))"
    "\<not> hasSiblingWithName (reg_nodes ?reg) (node_parentId n) (node_name n) None"
    "\<not> hasNodeWithPath (reg_nodes ?reg) (node_path n) None" "kind_ok n"
    "\<forall>p \<in> set_option (node_parentId n). p \<in> node_id ` set (reg_nodes ?reg)"
    unfolding addProjectNode_def Let_def
    by (cases "ni_kind i") (auto simp: kind_ok_def split: option.splits if_splits dest: found)
  then have "wf_nodes U (reg_nodes ?reg @ [n])" using assms(1) by (intro wf_nodes_add [OF wf]) simp_all
  then show ?thesis using n by auto
qed

lemma strict_addProjectNode:
  assumes "strict_nodes U (reg_nodes (normalized U now reg))"
    "fresh \<notin> node_id ` set (reg_nodes (normalized U now reg))" "addProjectNode U now fresh reg i = Ok r"
  shows "strict_nodes U (reg_nodes r)"
  using wf_addProjectNode [OF assms(2,3)] strict_nodes_add [OF assms(1)] by auto

text \<open>The link that \<open>addProjectRepositoryLink\<close> builds, and what it has checked when it succeeds.\<close>

definition new_repository :: "url_parser \<Rightarrow> string \<Rightarrow> string \<Rightarrow> repository_link_input \<Rightarrow> repository_link" where
  "new_repository U now fresh i =
     \<lparr>repo_id = fresh, repo_name = normalizeRepositoryName (ri_name i),
      repo_path = non_empty (normalizeRepositoryPath (or_empty (ri_path i))),
      repo_remoteUrl = non_empty (normalizeRepositoryRemoteUrl U (or_empty (ri_remoteUrl i))),
      repo_upstreamRemoteUrl = non_empty (normalizeRepositoryRemoteUrl U (or_empty (ri_upstreamRemoteUrl i))),
      repo_githubCredentialSecretId = normalizeRecordId (js_nullable (ri_githubCredentialSecretId i)),
      repo_favorite = False, repo_tags = normalizeProjectTags (or_empty (ri_tags i)),
      repo_createdAt = now, repo_updatedAt = now\<rparr>"

lemma addProjectRepositoryLink_Ok:
  assumes "addProjectRepositoryLink U now fresh reg i = Ok r"
  obtains n where "find_node (reg_nodes (normalized U now reg)) (ri_nodeId i) = Some n" "node_kind n = GroupKind"
    "\<And>k. repository_path_key (new_repository U now fresh i) = Some k \<Longrightarrow>
       \<not> group_path_taken (reg_nodes (normalized U now reg)) k None"
    "\<And>k. repository_url_key U (new_repository U now fresh i) = Some k \<Longrightarrow>
       \<not> group_url_taken U (reg_nodes (normalized U now reg)) k None"
    "reg_nodes r = update_node (node_id n)
      (\<lambda>n. n\<lparr>node_repositories := node_repositories n @ [new_repository U now fresh i], node_updatedAt := now\<rparr>)
      (reg_nodes (normalized U now reg))"
proof -
  let ?path = "normalizeRepositoryPath (or_empty (ri_path i))"
  let ?url = "normalizeRepositoryRemoteUrl U (or_empty (ri_remoteUrl i))"
  from assms obtain n where n: "find_node (reg_nodes (normalized U now reg)) (ri_nodeId i) = Some n"
      "node_kind n = GroupKind"
    and free: "?path \<noteq> [] \<longrightarrow> \<not> group_path_taken (reg_nodes (normalized U now reg)) (createRepositoryPathKey ?path) None"
      "?url \<noteq> [] \<longrightarrow> \<not> group_url_taken U (reg_nodes (normalized U now reg)) (createRepositoryRemoteUrlKey U ?url) None"
    and r: "reg_nodes r = update_node (node_id n)
      (\<lambda>n. n\<lparr>node_repositories := node_repositories n @ [new_repository U now fresh i], node_updatedAt := now\<rparr>)
      (reg_nodes (normalized U now reg))"
    unfolding addProjectRepositoryLink_def Let_def new_repository_def [symmetric]
    by (auto split: option.split_asm if_split_asm)
  show ?thesis
    by (rule that [OF n _ _ r])
      (use free in \<open>auto simp: repository_path_key_def repository_url_key_def new_repository_def non_empty_def split: if_splits\<close>)
qed

lemma strict_addProjectRepositoryLink:
  assumes st: "strict_nodes U (reg_nodes (normalized U now reg))"
    and fresh: "stable_id fresh" "fresh \<notin> repo_id ` set (all_repositories (reg_nodes (normalized U now reg)))"
    and ok: "addProjectRepositoryLink U now fresh reg i = Ok r"
  shows "strict_nodes U (reg_nodes r)"
proof -
  have x: "repo_id (new_repository U now fresh i) = fresh" by (simp add: new_repository_def)
  show ?thesis
    by (rule addProjectRepositoryLink_Ok [OF ok])
       (use fresh in \<open>auto simp: x intro!: strict_add_repository [OF st]\<close>)
qed

text \<open>The setters of a node, with their common shape.\<close>

lemma strict_node_setter:
  assumes st: "strict_nodes U (reg_nodes (normalized U now reg))"
    and f: "find_node (reg_nodes (normalized U now reg)) i = Some n"
    and g: "\<And>n. node_id (g n) = node_id n" "\<And>n. node_parentId (g n) = node_parentId n"
      "\<And>n. node_kind (g n) = node_kind n" "\<And>n. node_path_key (g n) = node_path_key n"
      "\<And>n. sibling_key (g n) = sibling_key n" "\<And>n. node_repositories (g n) = node_repositories n"
  shows "strict_nodes U (update_node (node_id n) g (reg_nodes (normalized U now reg)))"
proof -
  have "wf_nodes U (update_node (node_id n) g (reg_nodes (normalized U now reg)))"
    by (rule wf_update_plain [OF wf_normalized f]) (simp_all add: g)
  then show ?thesis by (rule strict_update_plain [OF st f]) (simp_all add: g)
qed

lemma strict_setProjectNodeTags:
  assumes "strict_nodes U (reg_nodes (normalized U now reg))" "setProjectNodeTags U now reg i ts = Ok r"
  shows "strict_nodes U (reg_nodes r)"
  using assms by (auto simp: setProjectNodeTags_def Let_def intro!: strict_node_setter split: option.splits)

lemma strict_setProjectNodeDescription:
  assumes "strict_nodes U (reg_nodes (normalized U now reg))" "setProjectNodeDescription U now reg i d = Ok r"
  shows "strict_nodes U (reg_nodes r)"
  using assms by (auto simp: setProjectNodeDescription_def Let_def intro!: strict_node_setter split: option.splits)

lemma strict_setProjectNodeGithubCredential:
  assumes "strict_nodes U (reg_nodes (normalized U now reg))" "setProjectNodeGithubCredential U now reg i c = Ok r"
  shows "strict_nodes U (reg_nodes r)"
  using assms by (auto simp: setProjectNodeGithubCredential_def Let_def intro!: strict_node_setter split: option.splits)

lemma strict_setProjectNodeName:
  assumes st: "strict_nodes U (reg_nodes (normalized U now reg))" and ok: "setProjectNodeName U now reg i s = Ok r"
  shows "strict_nodes U (reg_nodes r)"
proof -
  from ok obtain n where n: "find_node (reg_nodes (normalized U now reg)) i = Some n"
    "\<not> hasSiblingWithName (reg_nodes (normalized U now reg)) (node_parentId n) (normalizeProjectName s) (Some (node_id n))"
    "reg_nodes r = update_node (node_id n) (\<lambda>n. n\<lparr>node_name := normalizeProjectName s, node_updatedAt := now\<rparr>)
       (reg_nodes (normalized U now reg))"
    by (auto simp: setProjectNodeName_def Let_def split: option.splits if_splits)
  show ?thesis unfolding n(3)
    by (rule strict_update_plain [OF st n(1) wf_update_name [OF wf_normalized n(1,2)]]) simp_all
qed

lemma strict_setProjectNodePath:
  assumes st: "strict_nodes U (reg_nodes (normalized U now reg))" and ok: "setProjectNodePath U now reg i s = Ok r"
  shows "strict_nodes U (reg_nodes r)"
proof -
  from ok obtain n where n: "find_node (reg_nodes (normalized U now reg)) i = Some n"
    "\<not> hasNodeWithPath (reg_nodes (normalized U now reg)) (normalizeProjectPath s) (Some (node_id n))"
    "reg_nodes r = update_node (node_id n) (\<lambda>n. n\<lparr>node_path := normalizeProjectPath s, node_updatedAt := now\<rparr>)
       (reg_nodes (normalized U now reg))"
    by (auto simp: setProjectNodePath_def Let_def split: option.splits if_splits)
  show ?thesis unfolding n(3)
    by (rule strict_update_plain [OF st n(1) wf_update_path [OF wf_normalized n(1,2)]]) simp_all
qed

text \<open>The setters of a repository.\<close>

lemma strict_with_repository:
  assumes st: "strict_nodes U (reg_nodes reg)"
    and n: "find_node (reg_nodes reg) i = Some n" "node_kind n = GroupKind" "has_repository n j"
    and g: "\<And>r. repo_id (g r) = repo_id r" "\<And>r. repository_path_key (g r) = repository_path_key r"
      "\<And>r. repository_url_key U (g r) = repository_url_key U r"
  shows "strict_nodes U (reg_nodes (with_repository now reg (node_id n) j g))"
proof -
  obtain r where r: "r \<in> set (node_repositories n)" "repo_id r = j" using n(3) by (auto simp: has_repository_def)
  have "strict_nodes U (reg_nodes (with_repository now (reg\<lparr>reg_nodes := reg_nodes reg\<rparr>) (node_id n) j g))"
    by (rule strict_update_repository [OF st n(1,2) r g(1)]) (simp_all add: g)
  then show ?thesis by simp
qed

lemma strict_setProjectRepositoryTags:
  assumes "strict_nodes U (reg_nodes (normalized U now reg))" "setProjectRepositoryTags U now reg i j ts = Ok r"
  shows "strict_nodes U (reg_nodes r)"
  using assms by (auto simp: setProjectRepositoryTags_def Let_def intro!: strict_with_repository
      split: option.splits if_splits)

lemma strict_setProjectRepositoryFavorite:
  assumes "strict_nodes U (reg_nodes (normalized U now reg))" "setProjectRepositoryFavorite U now reg i j b = Ok r"
  shows "strict_nodes U (reg_nodes r)"
  using assms by (auto simp: setProjectRepositoryFavorite_def Let_def intro!: strict_with_repository
      split: option.splits if_splits)

lemma strict_setProjectRepositoryGithubCredential:
  assumes "strict_nodes U (reg_nodes (normalized U now reg))" "setProjectRepositoryGithubCredential U now reg i j c = Ok r"
  shows "strict_nodes U (reg_nodes r)"
  using assms by (auto simp: setProjectRepositoryGithubCredential_def Let_def intro!: strict_with_repository
      split: option.splits if_splits)

lemma strict_setProjectRepositoryLocalPath:
  assumes st: "strict_nodes U (reg_nodes (normalized U now reg))"
    and ok: "setProjectRepositoryLocalPath U now reg i j p = Ok r"
  shows "strict_nodes U (reg_nodes r)"
proof -
  let ?reg = "normalized U now reg"
  let ?g = "\<lambda>r. r\<lparr>repo_path := Some (normalizeRepositoryPath p), repo_updatedAt := now\<rparr>"
  from ok obtain n where n: "find_node (reg_nodes ?reg) i = Some n" "node_kind n = GroupKind" "has_repository n j"
    and free: "\<not> group_path_taken (reg_nodes ?reg) (createRepositoryPathKey (normalizeRepositoryPath p)) (Some j)"
    and r: "r = with_repository now ?reg (node_id n) j ?g"
    by (auto simp: setProjectRepositoryLocalPath_def Let_def split: option.splits if_splits)
  obtain x where x: "x \<in> set (node_repositories n)" "repo_id x = j" using n(3) by (auto simp: has_repository_def)
  have "strict_nodes U (reg_nodes (with_repository now (?reg\<lparr>reg_nodes := reg_nodes ?reg\<rparr>) (node_id n) j ?g))"
    by (rule strict_update_repository [OF st n(1,2) x]) (use free in \<open>simp_all add: repository_path_key_def\<close>)
  then show ?thesis by (simp add: r)
qed

lemma strict_setProjectRepositoryRemoteUrl:
  assumes st: "strict_nodes U (reg_nodes (normalized U now reg))"
    and ok: "setProjectRepositoryRemoteUrl U now reg i j u = Ok r"
  shows "strict_nodes U (reg_nodes r)"
proof -
  let ?reg = "normalized U now reg"
  let ?url = "normalizeRepositoryRemoteUrl U (or_empty u)"
  let ?g = "\<lambda>r. r\<lparr>repo_remoteUrl := non_empty ?url,
              repo_upstreamRemoteUrl := (if ?url = [] then None else repo_upstreamRemoteUrl r), repo_updatedAt := now\<rparr>"
  from ok obtain n x where n: "find_node (reg_nodes ?reg) i = Some n" "node_kind n = GroupKind"
    and x: "List.find (\<lambda>r. repo_id r = j) (node_repositories n) = Some x"
    and free: "?url \<noteq> [] \<longrightarrow> \<not> group_url_taken U (reg_nodes ?reg) (createRepositoryRemoteUrlKey U ?url) (Some j)"
    and r: "r = with_repository now ?reg (node_id n) j ?g"
    unfolding setProjectRepositoryRemoteUrl_def Let_def by (auto split: option.split_asm if_split_asm)
  have x: "x \<in> set (node_repositories n)" "repo_id x = j" using x by (auto simp: find_Some_iff)
  have "strict_nodes U (reg_nodes (with_repository now (?reg\<lparr>reg_nodes := reg_nodes ?reg\<rparr>) (node_id n) j ?g))"
    by (rule strict_update_repository [OF st n x])
       (use free in \<open>auto simp: repository_url_key_def repository_path_key_def non_empty_def split: if_splits\<close>)
  then show ?thesis by (simp add: r)
qed

lemma strict_removeProjectRepositoryLink:
  assumes "strict_nodes U (reg_nodes (normalized U now reg))" "removeProjectRepositoryLink U now reg i j = Ok r"
  shows "strict_nodes U (reg_nodes r)"
  using assms by (auto simp: removeProjectRepositoryLink_def Let_def intro!: strict_remove_repository
      split: option.splits if_splits)

lemma removeProjectNode_Ok:
  assumes "removeProjectNode U now reg i = Ok r"
  shows "i \<in> node_id ` set (reg_nodes (normalized U now reg)) \<and>
    reg_nodes r = filter (\<lambda>n. node_id n \<notin> (child_rel (reg_nodes (normalized U now reg)))\<^sup>* `` {i})
      (reg_nodes (normalized U now reg))"
  using assms by (auto simp: removeProjectNode_def Let_def subtree_ids_eq split: option.splits dest!: find_node_set)

lemma strict_removeProjectNode:
  assumes "strict_nodes U (reg_nodes (normalized U now reg))" "removeProjectNode U now reg i = Ok r"
  shows "strict_nodes U (reg_nodes r)"
  using removeProjectNode_Ok [OF assms(2)] strict_nodes_remove [OF assms(1) subtree_ids_closed [of _ i]]
  by (simp add: subtree_ids_eq)

lemma strict_backfillProjectRepositoryRemoteUrls:
  assumes st: "strict_nodes U (reg_nodes (normalized U now reg))"
    and b: "backfillProjectRepositoryRemoteUrls U now reg inputs = (r, c)"
  shows "strict_nodes U (reg_nodes r)"
proof (cases "inputs = []")
  case False
  obtain nodes' c' where n: "backfill_nodes U now (backfill_inputs U inputs) (reg_nodes (normalized U now reg))
      (group_url_keys U (reg_nodes (normalized U now reg))) = (nodes', c')" by (metis surj_pair)
  then have "r = (if c then (normalized U now reg)\<lparr>reg_nodes := nodes', reg_updatedAt := now\<rparr> else normalized U now reg)"
    using b False by (auto simp: backfillProjectRepositoryRemoteUrls_def Let_def)
  then show ?thesis using strict_backfill [OF st n] st by simp
qed (use assms in \<open>auto simp: backfillProjectRepositoryRemoteUrls_def\<close>)

lemmas strict_operations =
  strict_addProjectNode strict_addProjectRepositoryLink strict_setProjectNodeTags
  strict_setProjectNodeDescription strict_setProjectNodeName strict_setProjectNodePath
  strict_setProjectNodeGithubCredential strict_setProjectRepositoryTags strict_setProjectRepositoryFavorite
  strict_setProjectRepositoryLocalPath strict_setProjectRepositoryRemoteUrl
  strict_setProjectRepositoryGithubCredential strict_removeProjectRepositoryLink strict_removeProjectNode

lemma strict_apply:
  assumes st: "strict_nodes U (reg_nodes (normalized U now reg))" and fresh: "fresh_for op (normalized U now reg)"
    and ok: "apply_project_op U now op reg = Ok r"
  shows "strict_nodes U (reg_nodes r)"
proof (cases op)
  case (BackfillUrls inputs)
  then show ?thesis using ok strict_backfillProjectRepositoryRemoteUrls [OF st, of inputs]
    by (metis apply_project_op.simps(15) mutation.inject(1) prod.collapse)
qed (use ok fresh in \<open>auto intro: strict_operations [OF st]\<close>)

text \<open>An operation together with its time stamp.\<close>

fun project_step :: "url_parser \<Rightarrow> string \<times> project_op \<Rightarrow> project_registry \<Rightarrow> project_mutation" where
  "project_step U (now, op) reg = apply_project_op U now op reg"

fun project_norm :: "url_parser \<Rightarrow> string \<times> project_op \<Rightarrow> project_registry \<Rightarrow> project_registry" where
  "project_norm U (now, op) reg = normalized U now reg"

fun project_fresh :: "string \<times> project_op \<Rightarrow> project_registry \<Rightarrow> bool" where
  "project_fresh (now, op) reg = fresh_for op reg"

interpretation projects: guarded_registry "project_norm U" "project_step U" project_fresh
    "\<lambda>reg. strict_nodes U (reg_nodes reg)" for U
proof unfold_locales
  fix r r' :: project_registry and op :: "string \<times> project_op" and e :: project_registry_error
  obtain now o' where op: "op = (now, o')" by (cases op)
  show "strict_nodes U (reg_nodes (project_norm U op r))" if "strict_nodes U (reg_nodes r)"
    using strict_normalized [OF that] by (simp add: op)
  show "strict_nodes U (reg_nodes r')" if "strict_nodes U (reg_nodes (project_norm U op r))"
    "project_fresh op (project_norm U op r)" "project_step U op r = Ok r'"
    using strict_apply that by (simp add: op)
  show "r' = project_norm U op r" if "project_step U op r = Err r' e"
    using refused_canonical that by (simp add: op)
qed

lemma strict_empty: "strict_nodes U (reg_nodes (createEmptyProjectRegistry ws now))"
  by (simp add: strict_nodes_def groups_only_def ids_ok_def createEmptyProjectRegistry_def)

end
