(* ===== verification/Project_Stored.thy ===== *)
theory Project_Stored
  imports Project_Mutations
begin

text \<open>
  Reading a stored registry (\<open>normalizeStoredProjectRegistry\<close>, \<open>parseStoredProjectRegistry\<close>): it is accepted
  only when the canonicalisation drops nothing; and a canonical registry survives being written and read.
\<close>

lemma list_eq_of_subset:
  assumes "distinct ms" "set ms \<subseteq> set ns" "length ms = length ns"
  shows "distinct ns \<and> set ns = set ms"
proof -
  have "length ns = card (set ms)" using assms by (simp add: distinct_card)
  also have "\<dots> \<le> card (set ns)" using assms(2) by (simp add: card_mono)
  finally have "card (set ns) = length ns" using card_length [of ns] by simp
  then have "distinct ns" by (simp add: card_distinct)
  moreover have "set ms = set ns"
    using assms(1,2) \<open>card (set ns) = length ns\<close> assms(3) by (intro card_subset_eq) (simp_all add: distinct_card)
  ultimately show ?thesis by simp
qed

lemma length_map_filter: "length (List.map_filter f xs) \<le> length xs"
  by (induction xs) (auto simp: map_filter_Cons split: option.splits)

lemma map_filter_full: "length (List.map_filter f xs) = length xs \<Longrightarrow> x \<in> set xs \<Longrightarrow> \<exists>y. f x = Some y"
proof (induction xs)
  case (Cons a xs)
  have "length (List.map_filter f xs) \<le> length xs" by (rule length_map_filter)
  then show ?case using Cons by (auto simp: map_filter_Cons split: option.splits)
qed simp

lemma kept_repository_count_eq:
  assumes "distinct (map node_id nodes)" "m \<in> set nodes"
  shows "kept_repository_count nodes (node_id m) = Some (length (node_repositories m))"
proof -
  have "map_of (rev (map (\<lambda>n. (node_id n, n)) nodes)) (node_id m) = Some m"
    using assms by (intro map_of_is_SomeI) (auto simp: rev_map [symmetric] o_def)
  then show ?thesis by (simp add: kept_repository_count_def)
qed

text \<open>The parsed node has the identifier and at most the repositories of the stored one.\<close>

lemma parseProjectNodeRecord_fields:
  assumes "parseProjectNodeRecord U x = Some n"
  shows "normalizeRecordId (js_prop x ''id'') = Some (node_id n) \<and>
    node_repositories n = List.map_filter (parseRepositoryLinkRecord U) (js_elements (js_prop x ''repositories''))"
proof (cases "isObjectRecord x")
  case True
  then have "(\<not> isObjectRecord x) = False" by simp
  show ?thesis
    using assms unfolding parseProjectNodeRecord_def Let_def \<open>(\<not> isObjectRecord x) = False\<close> if_False
    by (auto split: option.split_asm if_split_asm)
qed (use assms in \<open>simp add: parseProjectNodeRecord_def\<close>)

text \<open>Every node and every repository of an accepted document is in the registry.\<close>

definition kept_node :: "url_parser \<Rightarrow> project_node list \<Rightarrow> js \<Rightarrow> bool" where
  "kept_node U nodes x \<longleftrightarrow> (\<exists>n. parseProjectNodeRecord U x = Some n \<and>
     (\<exists>m \<in> set nodes. node_id m = node_id n \<and> node_kind m = node_kind n \<and>
        map repo_id (node_repositories m) = map repo_id (node_repositories n) \<and>
        length (node_repositories n) = length (js_elements (js_prop x ''repositories''))))"

lemma stored_accepted:
  assumes "normalizeStoredProjectRegistry U now v ws = Inr reg"
  shows "\<exists>raw. js_prop v ''nodes'' = JArr raw \<and> reg = normalizeProjectRegistry U now v ws \<and>
    length (reg_nodes reg) = length raw \<and> (\<forall>x \<in> set raw. \<not> stored_node_lost (reg_nodes reg) x) \<and>
    isObjectRecord v \<and> js_prop v ''version'' = JInt WORKDUCK_PROJECT_REGISTRY_VERSION"
  using assms unfolding normalizeStoredProjectRegistry_def Let_def
  by (auto simp: readProjectRegistryVersion_def split: if_split_asm js.split_asm)

lemma stored_keeps_everything:
  assumes acc: "normalizeStoredProjectRegistry U now v ws = Inr reg" and x: "x \<in> set (js_elements (js_prop v ''nodes''))"
  shows "kept_node U (reg_nodes reg) x"
proof -
  obtain raw where raw: "js_prop v ''nodes'' = JArr raw" and reg: "reg = normalizeProjectRegistry U now v ws"
    and len: "length (reg_nodes reg) = length raw" and losts: "\<forall>x \<in> set raw. \<not> stored_node_lost (reg_nodes reg) x"
    and v: "isObjectRecord v" "js_prop v ''version'' = JInt WORKDUCK_PROJECT_REGISTRY_VERSION"
    using stored_accepted [OF acc] by blast
  let ?P = "List.map_filter (parseProjectNodeRecord U) raw"
  have nodes: "reg_nodes reg = normalizeProjectNodes U ?P"
    using v raw by (simp add: reg normalizeProjectRegistry_def Let_def)
  have dist: "distinct (map node_id (reg_nodes reg))"
    using wf_normalizeProjectNodes [of U ?P] by (simp add: nodes wf_nodes_def)
  have drawn: "drawn_from ?P (reg_nodes reg)" unfolding nodes by (rule drawn_from_normalizeProjectNodes)
  then have sub: "set (map node_id (reg_nodes reg)) \<subseteq> set (map node_id ?P)" by (force simp: drawn_from_def)
  have "length (reg_nodes reg) \<le> length ?P"
  proof -
    have "length (reg_nodes reg) = card (set (map node_id (reg_nodes reg)))"
      using distinct_card [OF dist] by simp
    also have "\<dots> \<le> card (set (map node_id ?P))" by (rule card_mono [OF _ sub]) simp
    also have "\<dots> \<le> length ?P" using card_length [of "map node_id ?P"] by simp
    finally show ?thesis .
  qed
  then have full: "length ?P = length raw" using len length_map_filter [of "parseProjectNodeRecord U" raw] by simp
  have "length (map node_id (reg_nodes reg)) = length (map node_id ?P)" using full len by simp
  note ids = list_eq_of_subset [OF dist sub this]
  have x: "x \<in> set raw" using x raw by simp
  have lost: "\<not> stored_node_lost (reg_nodes reg) x" using losts x by blast
  obtain n where n: "parseProjectNodeRecord U x = Some n" using map_filter_full [OF full x] by blast
  have nP: "n \<in> set ?P" using n x by (auto simp: set_map_filter)
  then have "node_id n \<in> set (map node_id (reg_nodes reg))" using ids by (metis image_eqI set_map)
  then obtain m where m: "m \<in> set (reg_nodes reg)" "node_id m = node_id n" by auto
  obtain n' where n': "n' \<in> set ?P" "node_id m = node_id n'" "node_kind m = node_kind n'"
    "subseq (map repo_id (node_repositories m)) (map repo_id (node_repositories n'))"
    using drawn m(1) unfolding drawn_from_def by blast
  have "n' = n" using ids nP n'(1,2) m(2) distinct_map_eq [of node_id ?P n' n] by simp
  note n' = n'(3,4) [unfolded \<open>n' = n\<close>]
  note f = parseProjectNodeRecord_fields [OF n]
  have le: "length (node_repositories n) \<le> length (js_elements (js_prop x ''repositories''))"
    using f length_map_filter by simp
  obtain i where i: "js_prop x ''id'' = JStr i" "js_trim i = node_id n"
    using lost f by (auto simp: stored_node_lost_def normalizeRecordId_def Let_def split: js.split_asm if_split_asm)
  have "length (node_repositories m) = length (js_elements (js_prop x ''repositories'')) \<or>
        js_elements (js_prop x ''repositories'') = []"
    using lost kept_repository_count_eq [OF dist m(1)] i m(2)
    by (auto simp: stored_node_lost_def js_elements_def split: js.split_asm if_split_asm)
  moreover have "length (node_repositories m) \<le> length (node_repositories n)"
    using list_emb_length [OF n'(2)] by simp
  ultimately have "length (node_repositories m) = length (node_repositories n)"
    "length (node_repositories n) = length (js_elements (js_prop x ''repositories''))" using le by auto
  moreover from this have "map repo_id (node_repositories m) = map repo_id (node_repositories n)"
    using n'(2) by (intro subseq_same_length) simp_all
  ultimately show ?thesis unfolding kept_node_def using n m n'(1) by auto
qed

section \<open>Writing and reading a canonical registry\<close>

lemma roots_first_canonical:
  assumes "canonical_nodes U nodes" shows "canonical_nodes U (roots_first nodes)"
proof -
  have "wf_nodes U (roots_first nodes)"
    using wf_normalizeProjectNodes [of U nodes] normalizeProjectNodes_canonical [OF assms] by simp
  moreover have "set (roots_first nodes) = set nodes" using roots_first_perm by (metis set_mset_mset)
  ultimately show ?thesis using assms by (simp add: canonical_nodes_def list_all_iff)
qed

lemma roots_first_idem [simp]: "roots_first (roots_first nodes) = roots_first nodes"
  by (auto simp: roots_first_def filter_empty_conv)

lemma canonical_normalized:
  assumes "canonical_registry U r" shows "canonical_registry U (normalized U now r)"
  using assms roots_first_canonical by (simp add: normalized_canonical canonical_registry_def)

text \<open>The stored form of a canonical registry is accepted and read back, roots first.\<close>

lemma stored_canonical:
  assumes can: "canonical_registry U r" and ws: "reg_workspaceId r = ws"
  shows "normalizeStoredProjectRegistry U now (registry_js r) ws = Inr (normalized U now r)"
proof -
  have props: "isObjectRecord (registry_js r)" "js_prop (registry_js r) ''version'' = JInt WORKDUCK_PROJECT_REGISTRY_VERSION"
    "js_prop (registry_js r) ''nodes'' = JArr (map node_js (reg_nodes r))"
    using can by (simp_all add: registry_js_def js_prop_def canonical_registry_def)
  have reg: "normalizeProjectRegistry U now (registry_js r) ws = normalized U now r"
    by (simp add: normalized_def ws)
  have nodes: "reg_nodes (normalized U now r) = roots_first (reg_nodes r)" by (simp add: normalized_canonical [OF can])
  have set: "set (roots_first (reg_nodes r)) = set (reg_nodes r)" "length (roots_first (reg_nodes r)) = length (reg_nodes r)"
    using roots_first_perm [of "reg_nodes r"] by (metis set_mset_mset, metis size_mset)
  have dist: "distinct (map node_id (roots_first (reg_nodes r)))"
    using wf_normalized [of U now r] by (simp add: nodes wf_nodes_def)
  have "\<not> stored_node_lost (roots_first (reg_nodes r)) (node_js n)" if n: "n \<in> set (reg_nodes r)" for n
  proof -
    have p: "isObjectRecord (node_js n)" "js_prop (node_js n) ''id'' = JStr (node_id n)"
      "js_prop (node_js n) ''repositories'' = JArr (map repository_js (node_repositories n))"
      by (simp_all add: node_js_def js_prop_def)
    have "stable_node U n" using can n by (simp add: canonical_registry_def canonical_nodes_def list_all_iff)
    then have "trimmed (node_id n)" by (simp add: stable_node_def stable_id_def)
    moreover have "kept_repository_count (roots_first (reg_nodes r)) (node_id n) = Some (length (node_repositories n))"
      by (rule kept_repository_count_eq [OF dist]) (simp add: set n)
    ultimately show ?thesis by (simp add: stored_node_lost_def p js_trim_trimmed)
  qed
  then show ?thesis
    unfolding normalizeStoredProjectRegistry_def props js.case reg Let_def nodes
    by (simp add: props(1) set readProjectRegistryVersion_def)
qed

lemma stored_roundtrip:
  assumes can: "canonical_registry U r"
    and json: "json_parse (json_stringify (registry_js (normalized U now r))) = Some (registry_js (normalized U now r))"
  shows "parseStoredProjectRegistry U json_parse now' (serializeProjectRegistry U json_stringify now r) (reg_workspaceId r)
    = Inr (r\<lparr>reg_nodes := roots_first (reg_nodes r)\<rparr>)"
proof -
  let ?n = "normalized U now r"
  have n: "?n = r\<lparr>reg_nodes := roots_first (reg_nodes r)\<rparr>" by (rule normalized_canonical [OF can])
  have "serializeProjectRegistry U json_stringify now r = json_stringify (registry_js ?n)"
    by (simp add: serializeProjectRegistry_def normalized_def)
  then have "parseStoredProjectRegistry U json_parse now' (serializeProjectRegistry U json_stringify now r) (reg_workspaceId r)
      = normalizeStoredProjectRegistry U now' (registry_js ?n) (reg_workspaceId r)"
    by (simp add: parseStoredProjectRegistry_def json)
  also have "\<dots> = Inr (normalized U now' ?n)"
    by (rule stored_canonical [OF canonical_normalized [OF can]]) (simp add: n)
  also have "normalized U now' ?n = ?n\<lparr>reg_nodes := roots_first (reg_nodes ?n)\<rparr>"
    by (rule normalized_canonical [OF canonical_normalized [OF can]])
  finally show ?thesis by (simp add: n)
qed

text \<open>
  The rows of the project tree (\<open>createProjectTreeRows\<close>): over a canonical list every node has exactly one
  row, below the row of its parent and one level deeper.
\<close>

abbreviation row_id :: "project_tree_row \<Rightarrow> string" where
  "row_id row \<equiv> node_id (row_node row)"

definition row_under :: "project_tree_row set \<Rightarrow> project_tree_row \<Rightarrow> bool" where
  "row_under seen row \<longleftrightarrow>
     (node_parentId (row_node row) = None \<and> row_depth row = 0) \<or>
     (\<exists>q \<in> seen. node_parentId (row_node row) = Some (row_id q) \<and> row_depth row = row_depth q + 1)"

text \<open>Every row is a root row or comes after the row of its parent, one level deeper.\<close>

fun rows_nested :: "project_tree_row set \<Rightarrow> project_tree_row list \<Rightarrow> bool" where
  "rows_nested seen [] = True"
| "rows_nested seen (row # rows) = (row_under seen row \<and> rows_nested (insert row seen) rows)"

lemma row_under_mono: "row_under A row \<Longrightarrow> A \<subseteq> B \<Longrightarrow> row_under B row"
  by (auto simp: row_under_def)

lemma tree_rows_ids:
  "distinct (map row_id (tree_rows_loop nodes stack visited)) \<and>
   row_id ` set (tree_rows_loop nodes stack visited) \<inter> visited = {}"
proof (induction nodes stack visited rule: tree_rows_loop.induct)
  case (2 nodes row stack visited)
  show ?case
  proof (cases "row_id row \<in> visited")
    case True
    then show ?thesis using "2.IH"(1) by simp
  next
    case False
    then show ?thesis using "2.IH"(2) [OF False] by auto
  qed
qed simp

lemma tree_rows_nodes:
  "row_node ` set stack \<subseteq> set nodes \<Longrightarrow> row_node ` set (tree_rows_loop nodes stack visited) \<subseteq> set nodes"
proof (induction nodes stack visited rule: tree_rows_loop.induct)
  case (2 nodes row stack visited)
  show ?case
  proof (cases "row_id row \<in> visited")
    case True
    then show ?thesis using "2.IH"(1) "2.prems" by simp
  next
    case False
    let ?stack = "map (\<lambda>c. \<lparr>row_node = c, row_depth = row_depth row + 1\<rparr>) (children_of nodes (row_id row)) @ stack"
    have "row_node ` set ?stack \<subseteq> set nodes" using "2.prems" by (auto simp: children_of_eq)
    then show ?thesis using "2.IH"(2) [OF False] False "2.prems" by simp
  qed
qed simp

text \<open>Everything on the stack and every child of an emitted row is emitted, unless it was before.\<close>

lemma tree_rows_complete:
  "row_id ` set stack \<subseteq> row_id ` set (tree_rows_loop nodes stack visited) \<union> visited \<and>
   (\<forall>n \<in> set nodes. \<forall>p. node_parentId n = Some p \<longrightarrow> p \<in> row_id ` set (tree_rows_loop nodes stack visited) \<longrightarrow>
      node_id n \<in> row_id ` set (tree_rows_loop nodes stack visited) \<union> visited)"
proof (induction nodes stack visited rule: tree_rows_loop.induct)
  case (2 nodes row stack visited)
  show ?case
  proof (cases "row_id row \<in> visited")
    case True
    then show ?thesis using "2.IH"(1) by simp
  next
    case False
    let ?children = "map (\<lambda>c. \<lparr>row_node = c, row_depth = row_depth row + 1\<rparr>) (children_of nodes (row_id row))"
    let ?rows = "tree_rows_loop nodes (?children @ stack) (insert (row_id row) visited)"
    have rows: "tree_rows_loop nodes (row # stack) visited = row # ?rows" using False by simp
    note IH = "2.IH"(2) [OF False]
    have kids: "node_id n \<in> row_id ` set ?children" if "n \<in> set nodes" "node_parentId n = Some (row_id row)" for n
      using that by (force simp: children_of_eq)
    have stack: "row_id ` set ?children \<union> row_id ` set stack \<subseteq> row_id ` set ?rows \<union> insert (row_id row) visited"
      using IH by (simp add: image_Un)
    have "node_id n \<in> row_id ` set (row # ?rows) \<union> visited"
      if n: "n \<in> set nodes" "node_parentId n = Some p" "p \<in> row_id ` set (row # ?rows)" for n p
    proof (cases "p = row_id row")
      case True
      then show ?thesis using kids [OF n(1)] n(2) stack by auto
    next
      case False
      then have "p \<in> row_id ` set ?rows" using n(3) by auto
      then show ?thesis using IH n(1,2) by auto
    qed
    moreover have "row_id ` set (row # stack) \<subseteq> row_id ` set (row # ?rows) \<union> visited" using stack by auto
    ultimately show ?thesis unfolding rows by blast
  qed
qed simp

lemma tree_rows_nested:
  "\<forall>row \<in> set stack. row_under seen row \<Longrightarrow> rows_nested seen (tree_rows_loop nodes stack visited)"
proof (induction nodes stack visited arbitrary: seen rule: tree_rows_loop.induct)
  case (2 nodes row stack visited)
  show ?case
  proof (cases "row_id row \<in> visited")
    case True
    then show ?thesis using "2.IH"(1) "2.prems" by simp
  next
    case False
    let ?stack = "map (\<lambda>c. \<lparr>row_node = c, row_depth = row_depth row + 1\<rparr>) (children_of nodes (row_id row)) @ stack"
    have "\<forall>r \<in> set ?stack. row_under (insert row seen) r"
      using "2.prems" by (auto simp: children_of_eq row_under_def)
    then show ?thesis using "2.IH"(2) [OF False] False "2.prems" by simp
  qed
qed simp

lemma parents_first_covers:
  "parents_first S ns \<Longrightarrow> S \<subseteq> R \<Longrightarrow> (\<And>n. n \<in> set ns \<Longrightarrow> node_parentId n = None \<Longrightarrow> node_id n \<in> R) \<Longrightarrow>
   (\<And>n p. n \<in> set ns \<Longrightarrow> node_parentId n = Some p \<Longrightarrow> p \<in> R \<Longrightarrow> node_id n \<in> R) \<Longrightarrow> node_id ` set ns \<subseteq> R"
proof (induction S ns rule: parents_first.induct)
  case (2 S n ns)
  have n: "node_id n \<in> R"
  proof (cases "node_parentId n")
    case (Some p)
    then show ?thesis using 2 by auto
  qed (use "2.prems"(3) in simp)
  have "node_id ` set ns \<subseteq> R"
    by (rule "2.IH") (use 2 n in \<open>auto simp only: parents_first.simps insert_subset set_simps intro: list.set_intros\<close>)
  then show ?case using n by simp
qed simp

lemma tree_rows_cover:
  assumes wf: "wf_nodes U nodes"
  shows "mset (map row_node (createProjectTreeRows nodes)) = mset nodes"
proof -
  let ?roots = "map (\<lambda>n. \<lparr>row_node = n, row_depth = 0\<rparr>)
    (filter (\<lambda>n. node_kind n = ProjectKind \<and> node_parentId n = None) nodes)"
  let ?rows = "tree_rows_loop nodes ?roots {}"
  have w: "parents_first {} nodes" "list_all kind_ok nodes" "distinct (map node_id nodes)"
    using wf by (simp_all add: wf_nodes_def)
  have "node_id ` set nodes \<subseteq> row_id ` set ?rows"
  proof (rule parents_first_covers [OF w(1)])
    fix n assume n: "n \<in> set nodes" "node_parentId n = None"
    then have "n \<in> row_node ` set ?roots" using w(2) by (force simp: kind_ok_def list_all_iff)
    then have "node_id n \<in> row_id ` set ?roots" by blast
    then show "node_id n \<in> row_id ` set ?rows" using tree_rows_complete [of ?roots nodes "{}"] by blast
  next
    fix n p assume "n \<in> set nodes" "node_parentId n = Some p" "p \<in> row_id ` set ?rows"
    then show "node_id n \<in> row_id ` set ?rows" using tree_rows_complete [of ?roots nodes "{}"] by blast
  qed simp
  moreover have sub: "row_node ` set ?rows \<subseteq> set nodes" by (rule tree_rows_nodes) auto
  ultimately have "row_node ` set ?rows = set nodes"
    using w(3) by (auto simp: distinct_map inj_on_def) blast
  moreover have "distinct (map row_node ?rows)"
    using tree_rows_ids [of nodes ?roots "{}"] distinct_map [of node_id "map row_node ?rows"] by (simp add: o_def)
  moreover have "distinct nodes" using w(3) by (simp add: distinct_map)
  ultimately have "mset (map row_node ?rows) = mset nodes"
    by (intro set_eq_iff_mset_eq_distinct [THEN iffD1]) simp_all
  then show ?thesis by (simp add: createProjectTreeRows_def)
qed

lemma tree_rows_order: "rows_nested {} (createProjectTreeRows nodes)"
  unfolding createProjectTreeRows_def by (rule tree_rows_nested) (auto simp: row_under_def)

lemma tree_rows_distinct: "distinct (map row_id (createProjectTreeRows nodes))"
  unfolding createProjectTreeRows_def using tree_rows_ids by blast

end
