(* ===== verification/Project_Properties.thy ===== *)
theory Project_Properties
  imports Project_Operations Project_Stored Project_Text
begin

text \<open>
  The properties of the project registry, each with a concrete instance where it has hypotheses. The
  sample values below are the data of these instances.
\<close>

section \<open>Sample data\<close>

text \<open>A URL parser that accepts nothing: remote URLs of the form \<open>user@host:path\<close> need no parser.\<close>

definition no_urls :: url_parser where
  "no_urls s = None"

definition sample_project :: project_node_input where
  "sample_project = \<lparr>ni_kind = ProjectKind, ni_parentId = None, ni_name = ''Duck'', ni_description = None,
     ni_path = ''projects/duck'', ni_githubCredentialSecretId = None, ni_tags = Some [''core'']\<rparr>"

definition sample_group :: project_node_input where
  "sample_group = \<lparr>ni_kind = GroupKind, ni_parentId = Some ''p'', ni_name = ''Apps'', ni_description = None,
     ni_path = ''projects/duck/apps'', ni_githubCredentialSecretId = None, ni_tags = None\<rparr>"

definition sample_link :: repository_link_input where
  "sample_link = \<lparr>ri_nodeId = ''g'', ri_name = ''app'', ri_path = Some ''C:/app'', ri_remoteUrl = None,
     ri_upstreamRemoteUrl = None, ri_githubCredentialSecretId = None, ri_tags = None\<rparr>"


definition sample_ops :: "(string \<times> project_op) list" where
  "sample_ops = [(''t1'', AddNode ''p'' sample_project), (''t2'', AddNode ''g'' sample_group),
     (''t3'', AddRepository ''r'' sample_link), (''t4'', AddNode ''x'' sample_group)]"

definition sample_empty :: project_registry where
  "sample_empty = createEmptyProjectRegistry ''w'' ''t0''"

text \<open>The registry that the sample operations lead to (the last one is refused: its name is taken).\<close>

definition sample_repository :: repository_link where
  "sample_repository = \<lparr>repo_id = ''r'', repo_name = ''app'', repo_path = Some ''C:/app'', repo_remoteUrl = None,
     repo_upstreamRemoteUrl = None, repo_githubCredentialSecretId = None, repo_favorite = False, repo_tags = [],
     repo_createdAt = ''t3'', repo_updatedAt = ''t3''\<rparr>"

definition sample_nodes :: "project_node list" where
  "sample_nodes =
    [\<lparr>node_id = ''p'', node_kind = ProjectKind, node_parentId = None, node_name = ''Duck'', node_description = [],
      node_path = ''projects/duck'', node_githubCredentialSecretId = None, node_tags = [''core''],
      node_repositories = [], node_createdAt = ''t1'', node_updatedAt = ''t1''\<rparr>,
     \<lparr>node_id = ''g'', node_kind = GroupKind, node_parentId = Some ''p'', node_name = ''Apps'', node_description = [],
      node_path = ''projects/duck/apps'', node_githubCredentialSecretId = None, node_tags = [],
      node_repositories = [sample_repository], node_createdAt = ''t2'', node_updatedAt = ''t3''\<rparr>]"

definition sample_registry :: project_registry where
  "sample_registry = \<lparr>reg_version = 1, reg_workspaceId = ''w'', reg_nodes = sample_nodes, reg_updatedAt = ''t3''\<rparr>"

section \<open>Sequences of mutations\<close>

text \<open>
  C1: Starting from an empty registry, any sequence of the fifteen mutations, refused or not, leads to a
  registry in which identifiers, node paths, sibling names, repository paths and repository URLs are
  unique, every group hangs below an earlier node, only groups hold repositories and repository
  identifiers are well formed, as long as \<open>crypto.randomUUID()\<close> returns identifiers not in use.
\<close>

theorem project_operations_keep_registry:
  assumes "fresh_along (project_norm U) (project_step U) project_fresh ops (createEmptyProjectRegistry ws now)"
  shows "strict_nodes U (reg_nodes (run_ops (project_step U) ops (createEmptyProjectRegistry ws now)))"
  by (rule projects.run_keeps [OF strict_empty assms])

lemma project_operations_keep_registry_witness:
  "run_ops (project_step no_urls) sample_ops sample_empty = sample_registry \<and>
   strict_nodes no_urls (reg_nodes (run_ops (project_step no_urls) sample_ops sample_empty))"
proof
  show "run_ops (project_step no_urls) sample_ops sample_empty = sample_registry" by code_simp
  have "fresh_along (project_norm no_urls) (project_step no_urls) project_fresh sample_ops sample_empty"
    by code_simp
  then show "strict_nodes no_urls (reg_nodes (run_ops (project_step no_urls) sample_ops sample_empty))"
    unfolding sample_empty_def by (rule project_operations_keep_registry)
qed

text \<open>
  C35: A refused mutation changes nothing: it answers with the canonical form of the registry it was given.
\<close>

theorem refused_mutation_changes_nothing:
  assumes "apply_project_op U now op reg = Err r e"
  shows "r = normalized U now reg"
  using assms by (rule refused_canonical)

lemma refused_mutation_changes_nothing_witness:
  "sample_registry = normalized no_urls ''t'' sample_registry"
proof -
  have "apply_project_op no_urls ''t'' (SetNodeName ''g'' '' '') sample_registry
      = Err sample_registry project_name_required" by code_simp
  then show ?thesis by (rule refused_mutation_changes_nothing)
qed

section \<open>The canonical form\<close>

text \<open>
  Whatever value is read, the canonical registry made of it is well formed: unique identifiers, node
  paths, sibling names, repository paths and repository URLs, and every parent before its children.
\<close>

theorem normalized_registry_well_formed: "wf_registry U (normalizeProjectRegistry U now v ws)"
  by (rule wf_normalizeProjectRegistry)

text \<open>
  C28: The traversal with its priority queue of child indexes accepts the same nodes, in the same order, as
  repeated scans of the whole list that accept every group whose parent is known, until a scan accepts none.
\<close>

theorem scheduled_traversal_is_repeated_scan:
  "normalizeProjectNodes U nodes = normalizeProjectNodes_by_scans U nodes"
  by (simp add: normalizeProjectNodes_eq normalizeProjectNodes_by_scans_def)

text \<open>A canonical registry is its own canonical form, up to the root projects moving to the front.\<close>

theorem canonical_registry_is_fixed:
  assumes "canonical_registry U r"
  shows "normalized U now r = r\<lparr>reg_nodes := roots_first (reg_nodes r)\<rparr>"
  using assms by (rule normalized_canonical)

lemma canonical_registry_is_fixed_witness:
  "normalized no_urls ''t'' sample_registry = sample_registry\<lparr>reg_nodes := roots_first (reg_nodes sample_registry)\<rparr>"
proof -
  have "canonical_registry no_urls sample_registry" by code_simp
  then show ?thesis by (rule canonical_registry_is_fixed)
qed

text \<open>
  A group whose parent is kept is only dropped because its identifier is taken, a kept sibling has its
  name, or a kept node has its path.
\<close>

theorem group_dropped_only_on_collision:
  assumes "n \<in> set nodes" "node_kind n = GroupKind" "node_parentId n = Some p"
    "p \<in> node_id ` set (normalizeProjectNodes U nodes)"
  shows "node_id n \<in> node_id ` set (normalizeProjectNodes U nodes) \<or>
    sibling_key n \<in> sibling_key ` set (normalizeProjectNodes U nodes) \<or>
    (\<exists>parent \<in> set (normalizeProjectNodes U nodes). node_id parent = p \<and>
       createProjectPathKey (effective_path (Some (node_path parent)) n)
         \<in> node_path_key ` set (normalizeProjectNodes U nodes))"
  using assms by (rule dropped_group_collides)

lemma group_dropped_only_on_collision_witness:
  "node_id (sample_nodes ! 1) \<in> node_id ` set (normalizeProjectNodes no_urls sample_nodes) \<or>
    sibling_key (sample_nodes ! 1) \<in> sibling_key ` set (normalizeProjectNodes no_urls sample_nodes) \<or>
    (\<exists>parent \<in> set (normalizeProjectNodes no_urls sample_nodes). node_id parent = ''p'' \<and>
       createProjectPathKey (effective_path (Some (node_path parent)) (sample_nodes ! 1))
         \<in> node_path_key ` set (normalizeProjectNodes no_urls sample_nodes))"
proof (rule group_dropped_only_on_collision)
  show "''p'' \<in> node_id ` set (normalizeProjectNodes no_urls sample_nodes)" by code_simp
qed (simp_all add: sample_nodes_def)

section \<open>Removing, backfilling and listing\<close>

text \<open>
  Removing a node removes exactly the node and everything below it in the parent relation, keeps the
  other nodes in order, and leaves no node without its parent.
\<close>

theorem remove_node_removes_subtree:
  assumes "removeProjectNode U now reg i = Ok r"
  shows "reg_nodes r = filter (\<lambda>n. node_id n \<notin> (child_rel (reg_nodes (normalized U now reg)))\<^sup>* `` {i})
      (reg_nodes (normalized U now reg)) \<and> wf_nodes U (reg_nodes r)"
  using removeProjectNode_Ok [OF assms] wf_nodes_remove [OF wf_normalized subtree_ids_closed [of _ i]]
  by (simp add: subtree_ids_eq)

lemma remove_node_removes_subtree_witness:
  "[] = filter (\<lambda>n. node_id n \<notin> (child_rel (reg_nodes (normalized no_urls ''t'' sample_registry)))\<^sup>* `` {''p''})
      (reg_nodes (normalized no_urls ''t'' sample_registry)) \<and> wf_nodes no_urls []"
proof -
  let ?r = "sample_registry\<lparr>reg_nodes := [], reg_updatedAt := ''t''\<rparr>"
  have "removeProjectNode no_urls ''t'' sample_registry ''p'' = Ok ?r" by code_simp
  from remove_node_removes_subtree [OF this] show ?thesis by simp
qed



text \<open>
  The tree rows of a well-formed list hold every node exactly once; the root projects have depth 0, and
  every other node comes after the row of its parent and lies one level deeper.
\<close>

theorem tree_rows_show_every_node:
  assumes "wf_nodes U nodes"
  shows "mset (map row_node (createProjectTreeRows nodes)) = mset nodes \<and>
    rows_nested {} (createProjectTreeRows nodes)"
  using tree_rows_cover [OF assms] tree_rows_order by blast

lemma tree_rows_show_every_node_witness:
  "map row_depth (createProjectTreeRows sample_nodes) = [0, 1] \<and>
   mset (map row_node (createProjectTreeRows sample_nodes)) = mset sample_nodes"
proof
  show "map row_depth (createProjectTreeRows sample_nodes) = [0, 1]" by code_simp
  have "wf_nodes no_urls sample_nodes" by code_simp
  from tree_rows_show_every_node [OF this]
  show "mset (map row_node (createProjectTreeRows sample_nodes)) = mset sample_nodes" by blast
qed

section \<open>Storage\<close>

text \<open>
  C29: A stored registry is accepted only if reading it loses nothing: every stored node is a node of the
  registry with the same kind and all the repositories of the stored array.
\<close>

theorem accepted_registry_loses_nothing:
  assumes "normalizeStoredProjectRegistry U now v ws = Inr reg" "x \<in> set (js_elements (js_prop v ''nodes''))"
  shows "kept_node U (reg_nodes reg) x"
  using assms by (rule stored_keeps_everything)

lemma accepted_registry_loses_nothing_witness: "kept_node no_urls (reg_nodes sample_registry) (node_js (sample_nodes ! 1))"
proof (rule accepted_registry_loses_nothing)
  show "normalizeStoredProjectRegistry no_urls ''t'' (registry_js sample_registry) ''w'' = Inr sample_registry"
    by code_simp
  show "node_js (sample_nodes ! 1) \<in> set (js_elements (js_prop (registry_js sample_registry) ''nodes''))"
    by (simp add: registry_js_def js_prop_def sample_registry_def sample_nodes_def)
qed

text \<open>
  C33: Writing a canonical registry and reading it again gives it back, with its root projects at the front,
  where \<open>JSON.parse\<close> undoes \<open>JSON.stringify\<close> on the written value.
\<close>

theorem stored_registry_roundtrip:
  assumes "canonical_registry U r"
    and "json_parse (json_stringify (registry_js (normalized U now r))) = Some (registry_js (normalized U now r))"
  shows "parseStoredProjectRegistry U json_parse now' (serializeProjectRegistry U json_stringify now r)
      (reg_workspaceId r) = Inr (r\<lparr>reg_nodes := roots_first (reg_nodes r)\<rparr>)"
  using assms by (rule stored_roundtrip)

lemma stored_registry_roundtrip_witness:
  "parseStoredProjectRegistry no_urls (\<lambda>s. if s = ''text'' then Some (registry_js sample_registry) else None) ''t''
     (serializeProjectRegistry no_urls (\<lambda>v. if v = registry_js sample_registry then ''text'' else []) ''t'' sample_registry)
     (reg_workspaceId sample_registry) = Inr (sample_registry\<lparr>reg_nodes := roots_first (reg_nodes sample_registry)\<rparr>)"
proof (rule stored_registry_roundtrip)
  show "canonical_registry no_urls sample_registry" by code_simp
  have n: "normalized no_urls ''t'' sample_registry = sample_registry" by code_simp
  show "(if (if registry_js (normalized no_urls ''t'' sample_registry) = registry_js sample_registry then ''text'' else []) = ''text''
      then Some (registry_js sample_registry) else None) = Some (registry_js (normalized no_urls ''t'' sample_registry))"
    by (simp add: n)
qed

section \<open>Text\<close>

text \<open>
  C37: Normalised tags are at most twelve, none empty, none longer than 32 characters, none with white space
  or a leading \<open>#\<close>, no two equal up to case; and normalising them again changes nothing.
\<close>

theorem normalized_tags: "tag_list (normalizeProjectTags vs) \<and> normalizeProjectTags (normalizeProjectTags vs) = normalizeProjectTags vs"
  using tag_list_normalizeProjectTags normalizeProjectTags_id by blast

text \<open>
  A normalised remote URL is empty or a valid URL of at most 2048 characters without white space, and
  normalising it again changes nothing.
\<close>

theorem normalized_remote_url:
  "(normalizeRepositoryRemoteUrl U v = [] \<or> isValidRepositoryRemoteUrl U (normalizeRepositoryRemoteUrl U v)) \<and>
   normalizeRepositoryRemoteUrl U (normalizeRepositoryRemoteUrl U v) = normalizeRepositoryRemoteUrl U v"
  using normalizeRepositoryRemoteUrl_cases normalizeRepositoryRemoteUrl_idem by blast

text \<open>
  Popping the traversal's priority queue gives its least index, removes that index once and leaves a
  heap.
\<close>

theorem pop_gives_least_index:
  assumes "heap_ordered h" "popScheduledNode h = Some (x, h')"
  shows "mset h = add_mset x (mset h') \<and> heap_ordered h' \<and> (\<forall>y \<in># mset h'. x \<le> y)"
  using popScheduledNode_correct [OF assms] sched.pop_least [OF assms] by blast

lemma pop_gives_least_index_witness: "mset [1, 4, 2, 5 :: nat] = add_mset 1 (mset [2, 4, 5]) \<and> heap_ordered [2, 4, 5]"
proof -
  have "heap_ordered [1, 4, 2, 5]" "popScheduledNode [1, 4, 2, 5] = Some (1, [2, 4, 5])" by code_simp+
  from pop_gives_least_index [OF this] show ?thesis by blast
qed

section \<open>Defects the model shows\<close>

definition long_name :: string where
  "long_name = replicate 79 CHR ''a''"

definition long_project :: "string \<Rightarrow> string \<Rightarrow> project_node_input" where
  "long_project name path = \<lparr>ni_kind = ProjectKind, ni_parentId = None, ni_name = name, ni_description = None,
     ni_path = path, ni_githubCredentialSecretId = None, ni_tags = None\<rparr>"

text \<open>
  A name is cut to 80 characters after it was trimmed, so it can end in a blank; the next reading trims
  it. Two root projects that were both accepted then have the same name, and the second one is dropped.
\<close>

theorem truncated_name_loses_project:
  "let reg = run_ops (project_step no_urls)
       [(''t1'', AddNode ''a'' (long_project long_name ''projects/a'')),
        (''t2'', AddNode ''b'' (long_project (long_name @ '' b'') ''projects/b''))] sample_empty
   in map node_id (reg_nodes reg) = [''a'', ''b''] \<and>
      map node_id (reg_nodes (normalized no_urls ''t3'' reg)) = [''a''] \<and>
      normalizeStoredProjectRegistry no_urls ''t3'' (registry_js reg) ''w'' = Inl project_registry_json_invalid"
  by code_simp

text \<open>
  The default path of a project named \<open>..\<close> is \<open>projects/..\<close>, which the path normaliser itself rejects.
\<close>

theorem default_path_can_be_rejected:
  "createDefaultProjectPath None ''..'' = ''projects/..'' \<and>
   normalizeProjectPath (createDefaultProjectPath None ''..'') = []"
  by code_simp

end
