(* ===== verification/Core_Domain.thy ===== *)
theory Core_Domain
  imports Prelude
begin

text \<open>
  The shared vocabulary of \<open>packages/core/src/index.ts\<close>: each closed list of names with its union type
  as a datatype, the names of its values and its type guard, and the records of the domain. A reference
  of a given kind is an \<open>entity_ref\<close>; optional fields are options.
\<close>

section \<open>The contract of a closed vocabulary\<close>

text \<open>The listed names are the names of the values, and no two values share a name.\<close>

locale closed_vocabulary =
  fixes name :: "'a \<Rightarrow> string"
    and names :: "string list"
  assumes names_complete: "set names = range name"
    and name_inject: "name v = name w \<Longrightarrow> v = w"
begin

lemma name_eq_iff: "name v = name w \<longleftrightarrow> v = w"
  by (auto dest: name_inject)

lemma listed_iff: "s \<in> set names \<longleftrightarrow> (\<exists>!v. name v = s)"
  using name_inject by (auto simp: names_complete)

lemma name_listed: "name v \<in> set names"
  by (simp add: names_complete)

end

lemma closed_vocabularyI:
  assumes "names = map name vs" "\<And>v. v \<in> set vs" "\<And>v w. name v = name w \<Longrightarrow> v = w"
  shows "closed_vocabulary name names"
  by unfold_locales (use assms in auto)

section \<open>Closed vocabularies\<close>

datatype entity_kind =
    KProject | KRepo | KProjectFolder | KProjectRepoPlacement | KArtifact | KCatalogArtifact |
    KService | KAgentBrief | KRun | KShellRun | KGate | KQueueWorkOrder | KQueueResultReport |
    KQueueProposal

definition workduckEntityKinds :: "string list" where
  "workduckEntityKinds =
    [''project'', ''repo'', ''project-folder'', ''project-repo-placement'', ''artifact'',
     ''catalog-artifact'', ''service'', ''agent-brief'', ''run'', ''shell-run'', ''gate'',
     ''queue-work-order'', ''queue-result-report'', ''queue-proposal'']"

fun kind_name :: "entity_kind \<Rightarrow> string" where
  "kind_name KProject = ''project''"
| "kind_name KRepo = ''repo''"
| "kind_name KProjectFolder = ''project-folder''"
| "kind_name KProjectRepoPlacement = ''project-repo-placement''"
| "kind_name KArtifact = ''artifact''"
| "kind_name KCatalogArtifact = ''catalog-artifact''"
| "kind_name KService = ''service''"
| "kind_name KAgentBrief = ''agent-brief''"
| "kind_name KRun = ''run''"
| "kind_name KShellRun = ''shell-run''"
| "kind_name KGate = ''gate''"
| "kind_name KQueueWorkOrder = ''queue-work-order''"
| "kind_name KQueueResultReport = ''queue-result-report''"
| "kind_name KQueueProposal = ''queue-proposal''"

definition isWorkduckEntityKind :: "string \<Rightarrow> bool" where
  "isWorkduckEntityKind value = (value \<in> set workduckEntityKinds)"

interpretation entity_kinds: closed_vocabulary kind_name workduckEntityKinds
proof (rule closed_vocabularyI)
  show "workduckEntityKinds = map kind_name
    [KProject, KRepo, KProjectFolder, KProjectRepoPlacement, KArtifact, KCatalogArtifact, KService,
     KAgentBrief, KRun, KShellRun, KGate, KQueueWorkOrder, KQueueResultReport, KQueueProposal]"
    by (simp add: workduckEntityKinds_def)
  show "v \<in> set [KProject, KRepo, KProjectFolder, KProjectRepoPlacement, KArtifact, KCatalogArtifact, KService,
     KAgentBrief, KRun, KShellRun, KGate, KQueueWorkOrder, KQueueResultReport, KQueueProposal]" for v
    by (cases v) simp_all
  show "kind_name v = kind_name w \<Longrightarrow> v = w" for v w by (cases v; cases w) simp_all
qed

datatype record_status =
    StatusReserved | StatusActive | StatusArchived

definition workduckRecordStatuses :: "string list" where
  "workduckRecordStatuses =
    [''reserved'', ''active'', ''archived'']"

fun status_name :: "record_status \<Rightarrow> string" where
  "status_name StatusReserved = ''reserved''"
| "status_name StatusActive = ''active''"
| "status_name StatusArchived = ''archived''"

definition isWorkduckRecordStatus :: "string \<Rightarrow> bool" where
  "isWorkduckRecordStatus value = (value \<in> set workduckRecordStatuses)"

interpretation record_statuss: closed_vocabulary status_name workduckRecordStatuses
proof (rule closed_vocabularyI)
  show "workduckRecordStatuses = map status_name
    [StatusReserved, StatusActive, StatusArchived]"
    by (simp add: workduckRecordStatuses_def)
  show "v \<in> set [StatusReserved, StatusActive, StatusArchived]" for v
    by (cases v) simp_all
  show "status_name v = status_name w \<Longrightarrow> v = w" for v w by (cases v; cases w) simp_all
qed

datatype repo_kind =
    RepoGit | RepoFolder

definition workduckRepoKinds :: "string list" where
  "workduckRepoKinds =
    [''git'', ''folder'']"

fun repo_kind_name :: "repo_kind \<Rightarrow> string" where
  "repo_kind_name RepoGit = ''git''"
| "repo_kind_name RepoFolder = ''folder''"

definition isWorkduckRepoKind :: "string \<Rightarrow> bool" where
  "isWorkduckRepoKind value = (value \<in> set workduckRepoKinds)"

interpretation repo_kinds: closed_vocabulary repo_kind_name workduckRepoKinds
proof (rule closed_vocabularyI)
  show "workduckRepoKinds = map repo_kind_name
    [RepoGit, RepoFolder]"
    by (simp add: workduckRepoKinds_def)
  show "v \<in> set [RepoGit, RepoFolder]" for v
    by (cases v) simp_all
  show "repo_kind_name v = repo_kind_name w \<Longrightarrow> v = w" for v w by (cases v; cases w) simp_all
qed

datatype catalog_artifact_kind =
    CatalogRepositories | CatalogServices | CatalogDatastores | CatalogExternalProviders |
    CatalogCostBudgets | CatalogSloTiers | CatalogSplitTriggers | CatalogStackDecisions |
    CatalogServiceTemplate

definition workduckCatalogArtifactKinds :: "string list" where
  "workduckCatalogArtifactKinds =
    [''repositories'', ''services'', ''datastores'', ''external-providers'', ''cost-budgets'',
     ''slo-tiers'', ''split-triggers'', ''stack-decisions'', ''service-template'']"

fun catalog_kind_name :: "catalog_artifact_kind \<Rightarrow> string" where
  "catalog_kind_name CatalogRepositories = ''repositories''"
| "catalog_kind_name CatalogServices = ''services''"
| "catalog_kind_name CatalogDatastores = ''datastores''"
| "catalog_kind_name CatalogExternalProviders = ''external-providers''"
| "catalog_kind_name CatalogCostBudgets = ''cost-budgets''"
| "catalog_kind_name CatalogSloTiers = ''slo-tiers''"
| "catalog_kind_name CatalogSplitTriggers = ''split-triggers''"
| "catalog_kind_name CatalogStackDecisions = ''stack-decisions''"
| "catalog_kind_name CatalogServiceTemplate = ''service-template''"

definition isWorkduckCatalogArtifactKind :: "string \<Rightarrow> bool" where
  "isWorkduckCatalogArtifactKind value = (value \<in> set workduckCatalogArtifactKinds)"

interpretation catalog_artifact_kinds: closed_vocabulary catalog_kind_name workduckCatalogArtifactKinds
proof (rule closed_vocabularyI)
  show "workduckCatalogArtifactKinds = map catalog_kind_name
    [CatalogRepositories, CatalogServices, CatalogDatastores, CatalogExternalProviders,
     CatalogCostBudgets, CatalogSloTiers, CatalogSplitTriggers, CatalogStackDecisions,
     CatalogServiceTemplate]"
    by (simp add: workduckCatalogArtifactKinds_def)
  show "v \<in> set [CatalogRepositories, CatalogServices, CatalogDatastores, CatalogExternalProviders,
     CatalogCostBudgets, CatalogSloTiers, CatalogSplitTriggers, CatalogStackDecisions,
     CatalogServiceTemplate]" for v
    by (cases v) simp_all
  show "catalog_kind_name v = catalog_kind_name w \<Longrightarrow> v = w" for v w by (cases v; cases w) simp_all
qed

datatype risk_level =
    RiskLow | RiskMedium | RiskHigh | RiskCritical

definition workduckRiskLevels :: "string list" where
  "workduckRiskLevels =
    [''low'', ''medium'', ''high'', ''critical'']"

fun risk_name :: "risk_level \<Rightarrow> string" where
  "risk_name RiskLow = ''low''"
| "risk_name RiskMedium = ''medium''"
| "risk_name RiskHigh = ''high''"
| "risk_name RiskCritical = ''critical''"

definition isWorkduckRiskLevel :: "string \<Rightarrow> bool" where
  "isWorkduckRiskLevel value = (value \<in> set workduckRiskLevels)"

interpretation risk_levels: closed_vocabulary risk_name workduckRiskLevels
proof (rule closed_vocabularyI)
  show "workduckRiskLevels = map risk_name
    [RiskLow, RiskMedium, RiskHigh, RiskCritical]"
    by (simp add: workduckRiskLevels_def)
  show "v \<in> set [RiskLow, RiskMedium, RiskHigh, RiskCritical]" for v
    by (cases v) simp_all
  show "risk_name v = risk_name w \<Longrightarrow> v = w" for v w by (cases v; cases w) simp_all
qed

datatype service_level =
    ServiceCritical | ServiceHigh | ServiceMedium | ServiceLow | ServiceLab

definition workduckServiceLevels :: "string list" where
  "workduckServiceLevels =
    [''critical'', ''high'', ''medium'', ''low'', ''lab'']"

fun service_level_name :: "service_level \<Rightarrow> string" where
  "service_level_name ServiceCritical = ''critical''"
| "service_level_name ServiceHigh = ''high''"
| "service_level_name ServiceMedium = ''medium''"
| "service_level_name ServiceLow = ''low''"
| "service_level_name ServiceLab = ''lab''"

definition isWorkduckServiceLevel :: "string \<Rightarrow> bool" where
  "isWorkduckServiceLevel value = (value \<in> set workduckServiceLevels)"

interpretation service_levels: closed_vocabulary service_level_name workduckServiceLevels
proof (rule closed_vocabularyI)
  show "workduckServiceLevels = map service_level_name
    [ServiceCritical, ServiceHigh, ServiceMedium, ServiceLow, ServiceLab]"
    by (simp add: workduckServiceLevels_def)
  show "v \<in> set [ServiceCritical, ServiceHigh, ServiceMedium, ServiceLow, ServiceLab]" for v
    by (cases v) simp_all
  show "service_level_name v = service_level_name w \<Longrightarrow> v = w" for v w by (cases v; cases w) simp_all
qed

datatype queue_item_kind =
    ItemWorkOrder | ItemResultReport | ItemProposal

definition workduckQueueItemKinds :: "string list" where
  "workduckQueueItemKinds =
    [''work-order'', ''result-report'', ''proposal'']"

fun queue_item_name :: "queue_item_kind \<Rightarrow> string" where
  "queue_item_name ItemWorkOrder = ''work-order''"
| "queue_item_name ItemResultReport = ''result-report''"
| "queue_item_name ItemProposal = ''proposal''"

definition isWorkduckQueueItemKind :: "string \<Rightarrow> bool" where
  "isWorkduckQueueItemKind value = (value \<in> set workduckQueueItemKinds)"

interpretation queue_item_kinds: closed_vocabulary queue_item_name workduckQueueItemKinds
proof (rule closed_vocabularyI)
  show "workduckQueueItemKinds = map queue_item_name
    [ItemWorkOrder, ItemResultReport, ItemProposal]"
    by (simp add: workduckQueueItemKinds_def)
  show "v \<in> set [ItemWorkOrder, ItemResultReport, ItemProposal]" for v
    by (cases v) simp_all
  show "queue_item_name v = queue_item_name w \<Longrightarrow> v = w" for v w by (cases v; cases w) simp_all
qed

datatype review_decision =
    DecisionPending | DecisionApproved | DecisionNeedsWork | DecisionRollback

definition workduckQueueReviewDecisions :: "string list" where
  "workduckQueueReviewDecisions =
    [''pending'', ''approved'', ''needs-work'', ''rollback'']"

fun decision_name :: "review_decision \<Rightarrow> string" where
  "decision_name DecisionPending = ''pending''"
| "decision_name DecisionApproved = ''approved''"
| "decision_name DecisionNeedsWork = ''needs-work''"
| "decision_name DecisionRollback = ''rollback''"

definition isWorkduckQueueReviewDecision :: "string \<Rightarrow> bool" where
  "isWorkduckQueueReviewDecision value = (value \<in> set workduckQueueReviewDecisions)"

interpretation review_decisions: closed_vocabulary decision_name workduckQueueReviewDecisions
proof (rule closed_vocabularyI)
  show "workduckQueueReviewDecisions = map decision_name
    [DecisionPending, DecisionApproved, DecisionNeedsWork, DecisionRollback]"
    by (simp add: workduckQueueReviewDecisions_def)
  show "v \<in> set [DecisionPending, DecisionApproved, DecisionNeedsWork, DecisionRollback]" for v
    by (cases v) simp_all
  show "decision_name v = decision_name w \<Longrightarrow> v = w" for v w by (cases v; cases w) simp_all
qed

datatype work_priority =
    PriorityLow | PriorityNormal | PriorityHigh | PriorityUrgent

definition workduckQueueWorkPriorities :: "string list" where
  "workduckQueueWorkPriorities =
    [''low'', ''normal'', ''high'', ''urgent'']"

fun priority_name :: "work_priority \<Rightarrow> string" where
  "priority_name PriorityLow = ''low''"
| "priority_name PriorityNormal = ''normal''"
| "priority_name PriorityHigh = ''high''"
| "priority_name PriorityUrgent = ''urgent''"

interpretation work_prioritys: closed_vocabulary priority_name workduckQueueWorkPriorities
proof (rule closed_vocabularyI)
  show "workduckQueueWorkPriorities = map priority_name
    [PriorityLow, PriorityNormal, PriorityHigh, PriorityUrgent]"
    by (simp add: workduckQueueWorkPriorities_def)
  show "v \<in> set [PriorityLow, PriorityNormal, PriorityHigh, PriorityUrgent]" for v
    by (cases v) simp_all
  show "priority_name v = priority_name w \<Longrightarrow> v = w" for v w by (cases v; cases w) simp_all
qed

datatype task_kind =
    TaskInstruction | TaskDirectMessage | TaskVote

definition workduckQueueTaskKinds :: "string list" where
  "workduckQueueTaskKinds =
    [''instruction'', ''direct-message'', ''vote'']"

fun task_kind_name :: "task_kind \<Rightarrow> string" where
  "task_kind_name TaskInstruction = ''instruction''"
| "task_kind_name TaskDirectMessage = ''direct-message''"
| "task_kind_name TaskVote = ''vote''"

interpretation task_kinds: closed_vocabulary task_kind_name workduckQueueTaskKinds
proof (rule closed_vocabularyI)
  show "workduckQueueTaskKinds = map task_kind_name
    [TaskInstruction, TaskDirectMessage, TaskVote]"
    by (simp add: workduckQueueTaskKinds_def)
  show "v \<in> set [TaskInstruction, TaskDirectMessage, TaskVote]" for v
    by (cases v) simp_all
  show "task_kind_name v = task_kind_name w \<Longrightarrow> v = w" for v w by (cases v; cases w) simp_all
qed

datatype response_language =
    LangAuto | LangKo | LangEn | LangEs | LangFr | LangZh | LangHi

definition workduckQueueResponseLanguages :: "string list" where
  "workduckQueueResponseLanguages =
    [''auto'', ''ko'', ''en'', ''es'', ''fr'', ''zh'', ''hi'']"

fun language_name :: "response_language \<Rightarrow> string" where
  "language_name LangAuto = ''auto''"
| "language_name LangKo = ''ko''"
| "language_name LangEn = ''en''"
| "language_name LangEs = ''es''"
| "language_name LangFr = ''fr''"
| "language_name LangZh = ''zh''"
| "language_name LangHi = ''hi''"

interpretation response_languages: closed_vocabulary language_name workduckQueueResponseLanguages
proof (rule closed_vocabularyI)
  show "workduckQueueResponseLanguages = map language_name
    [LangAuto, LangKo, LangEn, LangEs, LangFr, LangZh, LangHi]"
    by (simp add: workduckQueueResponseLanguages_def)
  show "v \<in> set [LangAuto, LangKo, LangEn, LangEs, LangFr, LangZh, LangHi]" for v
    by (cases v) simp_all
  show "language_name v = language_name w \<Longrightarrow> v = w" for v w by (cases v; cases w) simp_all
qed

datatype approval_state =
    ApprovalPending | ApprovalApproved | ApprovalRejected

definition workduckShellRunApprovalStates :: "string list" where
  "workduckShellRunApprovalStates =
    [''pending'', ''approved'', ''rejected'']"

fun approval_name :: "approval_state \<Rightarrow> string" where
  "approval_name ApprovalPending = ''pending''"
| "approval_name ApprovalApproved = ''approved''"
| "approval_name ApprovalRejected = ''rejected''"

definition isWorkduckShellRunApprovalState :: "string \<Rightarrow> bool" where
  "isWorkduckShellRunApprovalState value = (value \<in> set workduckShellRunApprovalStates)"

interpretation approval_states: closed_vocabulary approval_name workduckShellRunApprovalStates
proof (rule closed_vocabularyI)
  show "workduckShellRunApprovalStates = map approval_name
    [ApprovalPending, ApprovalApproved, ApprovalRejected]"
    by (simp add: workduckShellRunApprovalStates_def)
  show "v \<in> set [ApprovalPending, ApprovalApproved, ApprovalRejected]" for v
    by (cases v) simp_all
  show "approval_name v = approval_name w \<Longrightarrow> v = w" for v w by (cases v; cases w) simp_all
qed

datatype shell_run_state =
    ShellBlocked | ShellReady | ShellRunning | ShellSucceeded | ShellFailed

definition workduckShellRunStates :: "string list" where
  "workduckShellRunStates =
    [''blocked'', ''ready'', ''running'', ''succeeded'', ''failed'']"

fun shell_state_name :: "shell_run_state \<Rightarrow> string" where
  "shell_state_name ShellBlocked = ''blocked''"
| "shell_state_name ShellReady = ''ready''"
| "shell_state_name ShellRunning = ''running''"
| "shell_state_name ShellSucceeded = ''succeeded''"
| "shell_state_name ShellFailed = ''failed''"

definition isWorkduckShellRunState :: "string \<Rightarrow> bool" where
  "isWorkduckShellRunState value = (value \<in> set workduckShellRunStates)"

interpretation shell_run_states: closed_vocabulary shell_state_name workduckShellRunStates
proof (rule closed_vocabularyI)
  show "workduckShellRunStates = map shell_state_name
    [ShellBlocked, ShellReady, ShellRunning, ShellSucceeded, ShellFailed]"
    by (simp add: workduckShellRunStates_def)
  show "v \<in> set [ShellBlocked, ShellReady, ShellRunning, ShellSucceeded, ShellFailed]" for v
    by (cases v) simp_all
  show "shell_state_name v = shell_state_name w \<Longrightarrow> v = w" for v w by (cases v; cases w) simp_all
qed

datatype blocker_code =
    BlockerMissingCommand | BlockerMissingCwd | BlockerApprovalPending | BlockerApprovalRejected

definition workduckShellRunBlockerCodes :: "string list" where
  "workduckShellRunBlockerCodes =
    [''missing-command'', ''missing-cwd'', ''approval-pending'', ''approval-rejected'']"

fun blocker_name :: "blocker_code \<Rightarrow> string" where
  "blocker_name BlockerMissingCommand = ''missing-command''"
| "blocker_name BlockerMissingCwd = ''missing-cwd''"
| "blocker_name BlockerApprovalPending = ''approval-pending''"
| "blocker_name BlockerApprovalRejected = ''approval-rejected''"

definition isWorkduckShellRunBlockerCode :: "string \<Rightarrow> bool" where
  "isWorkduckShellRunBlockerCode value = (value \<in> set workduckShellRunBlockerCodes)"

interpretation blocker_codes: closed_vocabulary blocker_name workduckShellRunBlockerCodes
proof (rule closed_vocabularyI)
  show "workduckShellRunBlockerCodes = map blocker_name
    [BlockerMissingCommand, BlockerMissingCwd, BlockerApprovalPending, BlockerApprovalRejected]"
    by (simp add: workduckShellRunBlockerCodes_def)
  show "v \<in> set [BlockerMissingCommand, BlockerMissingCwd, BlockerApprovalPending, BlockerApprovalRejected]" for v
    by (cases v) simp_all
  show "blocker_name v = blocker_name w \<Longrightarrow> v = w" for v w by (cases v; cases w) simp_all
qed

section \<open>Entities\<close>

record entity_ref =
  ref_id :: string
  ref_kind :: entity_kind
  ref_label :: string

record compliance_scope =
  scope_pii :: bool
  scope_payment :: bool
  scope_crypto :: bool
  scope_aiUserData :: bool
  scope_pci :: bool

record workduck_project =
  wp_ref :: entity_ref
  wp_status :: record_status
  wp_description :: "string option"

record workduck_repo =
  wr_ref :: entity_ref
  wr_status :: record_status
  wr_kind :: repo_kind
  wr_localPath :: string
  wr_remoteUrl :: "string option"
  wr_defaultBranch :: "string option"

record workduck_project_folder =
  wf_ref :: entity_ref
  wf_project :: entity_ref
  wf_path :: string
  wf_parent :: "entity_ref option"

record workduck_placement =
  pl_ref :: entity_ref
  pl_project :: entity_ref
  pl_folder :: entity_ref
  pl_repo :: entity_ref
  pl_path :: string

record workduck_artifact =
  wa_ref :: entity_ref
  wa_status :: record_status
  wa_project :: "entity_ref option"
  wa_sourcePath :: "string option"

record workduck_catalog_artifact =
  ca_ref :: entity_ref
  ca_status :: record_status
  ca_catalogKind :: catalog_artifact_kind
  ca_project :: "entity_ref option"
  ca_sourcePath :: "string option"

record workduck_service =
  sv_ref :: entity_ref
  sv_status :: record_status
  sv_project :: "entity_ref option"
  sv_repo :: "entity_ref option"
  sv_runtime :: "string option"
  sv_framework :: "string option"
  sv_dataClasses :: "string list"
  sv_datastores :: "string list"
  sv_queues :: "string list"
  sv_externalDependencies :: "string list"
  sv_riskLevel :: "risk_level option"
  sv_serviceLevel :: "service_level option"
  sv_complianceScope :: compliance_scope

record workduck_agent_brief =
  ab_ref :: entity_ref
  ab_status :: record_status
  ab_project :: entity_ref
  ab_artifactRefs :: "entity_ref list"
  ab_catalogArtifactRefs :: "entity_ref list"

record workduck_run =
  run_ref :: entity_ref
  run_status :: record_status
  run_project :: entity_ref
  run_repoRefs :: "entity_ref list"
  run_artifactRefs :: "entity_ref list"
  run_gateRefs :: "entity_ref list"
  run_brief :: "entity_ref option"

record shell_run_approval =
  ap_state :: approval_state
  ap_approvedBy :: "string option"
  ap_approvedAt :: "string option"
  ap_reason :: "string option"

record workduck_shell_run =
  sr_ref :: entity_ref
  sr_status :: record_status
  sr_run :: entity_ref
  sr_command :: string
  sr_cwd :: string
  sr_approval :: shell_run_approval
  sr_state :: shell_run_state
  sr_blockers :: "blocker_code list"
  sr_outputTail :: "string option"
  sr_diffSummary :: "string option"
  sr_exitCode :: "js_number option"
  sr_startedAt :: "string option"
  sr_finishedAt :: "string option"

record workduck_gate =
  gate_ref :: entity_ref
  gate_status :: record_status
  gate_project :: "entity_ref option"
  gate_riskLevel :: "risk_level option"

end
