(* ===== verification/Schemas.thy ===== *)
theory Schemas
  imports Core_Domain
begin

text \<open>
  The JSON Schemas of \<open>packages/schemas/src/index.ts\<close>, keyword by keyword, and the meaning that JSON
  Schema 2020-12 gives to the keywords they use.
\<close>

section \<open>Schema identifiers\<close>

datatype schema_id =
    IdAgentBrief
  | IdArtifact
  | IdCatalogArtifact
  | IdEntityRef
  | IdGate
  | IdProject
  | IdProjectFolder
  | IdProjectRepoPlacement
  | IdQueueProposal
  | IdQueueResultReport
  | IdQueueWorkOrder
  | IdRepo
  | IdRun
  | IdService
  | IdShellRun

fun workduckSchemaIds :: "schema_id \<Rightarrow> string" where
  "workduckSchemaIds IdAgentBrief = ''urn:workduck:schema:agent-brief:v1''"
| "workduckSchemaIds IdArtifact = ''urn:workduck:schema:artifact:v1''"
| "workduckSchemaIds IdCatalogArtifact = ''urn:workduck:schema:catalog-artifact:v1''"
| "workduckSchemaIds IdEntityRef = ''urn:workduck:schema:entity-ref:v1''"
| "workduckSchemaIds IdGate = ''urn:workduck:schema:gate:v1''"
| "workduckSchemaIds IdProject = ''urn:workduck:schema:project:v1''"
| "workduckSchemaIds IdProjectFolder = ''urn:workduck:schema:project-folder:v1''"
| "workduckSchemaIds IdProjectRepoPlacement = ''urn:workduck:schema:project-repo-placement:v1''"
| "workduckSchemaIds IdQueueProposal = ''urn:workduck:schema:queue-proposal:v1''"
| "workduckSchemaIds IdQueueResultReport = ''urn:workduck:schema:queue-result-report:v1''"
| "workduckSchemaIds IdQueueWorkOrder = ''urn:workduck:schema:queue-work-order:v1''"
| "workduckSchemaIds IdRepo = ''urn:workduck:schema:repo:v1''"
| "workduckSchemaIds IdRun = ''urn:workduck:schema:run:v1''"
| "workduckSchemaIds IdService = ''urn:workduck:schema:service:v1''"
| "workduckSchemaIds IdShellRun = ''urn:workduck:schema:shell-run:v1''"

interpretation schema_ids: closed_vocabulary workduckSchemaIds "map workduckSchemaIds
    [IdAgentBrief, IdArtifact, IdCatalogArtifact, IdEntityRef, IdGate,
     IdProject, IdProjectFolder, IdProjectRepoPlacement, IdQueueProposal,
     IdQueueResultReport, IdQueueWorkOrder, IdRepo, IdRun, IdService, IdShellRun]"
proof (rule closed_vocabularyI [OF refl])
  show "v \<in> set [IdAgentBrief, IdArtifact, IdCatalogArtifact, IdEntityRef, IdGate,
     IdProject, IdProjectFolder, IdProjectRepoPlacement, IdQueueProposal,
     IdQueueResultReport, IdQueueWorkOrder, IdRepo, IdRun, IdService, IdShellRun]" for v
    by (cases v) simp_all
  show "workduckSchemaIds v = workduckSchemaIds w \<Longrightarrow> v = w" for v w by (cases v; cases w) simp_all
qed

definition workduckJsonSchemaDraft :: string where
  "workduckJsonSchemaDraft = ''https://json-schema.org/draft/2020-12/schema''"

section \<open>Schemas as lists of keywords\<close>

datatype js_schema = Schema "js_keyword list"
  and js_keyword =
    Draft string
  | Id schema_id
  | Title string
  | Ref schema_id
  | Type "string list"
  | Enum "string list"
  | MinLength nat
  | Items js_schema
  | Properties "(string \<times> js_schema) list"
  | Required "string list"
  | AdditionalProperties bool

fun schema_keywords :: "js_schema \<Rightarrow> js_keyword list" where
  "schema_keywords (Schema ks) = ks"

text \<open>The property names that a schema declares.\<close>

definition declared :: "js_keyword list \<Rightarrow> string list" where
  "declared ks = concat (map (\<lambda>k. case k of Properties ps \<Rightarrow> map fst ps | _ \<Rightarrow> []) ks)"

section \<open>The published schemas\<close>

definition entityRefReference :: js_schema where
  "entityRefReference = Schema [Ref IdEntityRef]"

definition nonEmptyString :: js_schema where
  "nonEmptyString = Schema [Type [''string''], MinLength 1]"

definition stringArray :: js_schema where
  "stringArray = Schema [Type [''array''], Items nonEmptyString]"

definition recordStatus :: js_schema where
  "recordStatus = Schema [Type [''string''], Enum workduckRecordStatuses]"

definition riskLevel :: js_schema where
  "riskLevel = Schema [Type [''string''], Enum workduckRiskLevels]"

definition workduckEntityRefSchema :: js_schema where
  "workduckEntityRefSchema = Schema [Draft workduckJsonSchemaDraft, Id IdEntityRef, Title ''Workduck entity reference'',
      Type [''object''], AdditionalProperties False, Required [''id'', ''kind'', ''label''],
      Properties [
      (''id'', Schema [Type [''string''], MinLength 1]),
      (''kind'', Schema [Type [''string''], Enum workduckEntityKinds]),
      (''label'', Schema [Type [''string''], MinLength 1])]]"

definition workduckProjectSchema :: js_schema where
  "workduckProjectSchema = Schema [Draft workduckJsonSchemaDraft, Id IdProject, Title ''Workduck project'',
      Type [''object''], AdditionalProperties False, Required [''ref'', ''status''],
      Properties [
      (''ref'', entityRefReference),
      (''status'', recordStatus),
      (''description'', nonEmptyString)]]"

definition workduckRepoSchema :: js_schema where
  "workduckRepoSchema = Schema [Draft workduckJsonSchemaDraft, Id IdRepo, Title ''Workduck repo'', Type [''object''],
      AdditionalProperties False, Required [''ref'', ''status'', ''kind'', ''localPath''],
      Properties [
      (''ref'', entityRefReference),
      (''status'', recordStatus),
      (''kind'', Schema [Type [''string''], Enum workduckRepoKinds]),
      (''localPath'', nonEmptyString),
      (''remoteUrl'', nonEmptyString),
      (''defaultBranch'', nonEmptyString)]]"

definition workduckProjectFolderSchema :: js_schema where
  "workduckProjectFolderSchema = Schema [Draft workduckJsonSchemaDraft, Id IdProjectFolder, Title ''Workduck project folder'',
      Type [''object''], AdditionalProperties False,
      Required [''ref'', ''project'', ''path''], Properties [
      (''ref'', entityRefReference),
      (''project'', entityRefReference),
      (''path'', nonEmptyString),
      (''parent'', entityRefReference)]]"

definition workduckProjectRepoPlacementSchema :: js_schema where
  "workduckProjectRepoPlacementSchema = Schema [Draft workduckJsonSchemaDraft, Id IdProjectRepoPlacement,
      Title ''Workduck project repo placement'', Type [''object''],
      AdditionalProperties False,
      Required [''ref'', ''project'', ''folder'', ''repo'', ''path''], Properties [
      (''ref'', entityRefReference),
      (''project'', entityRefReference),
      (''folder'', entityRefReference),
      (''repo'', entityRefReference),
      (''path'', nonEmptyString)]]"

definition workduckArtifactSchema :: js_schema where
  "workduckArtifactSchema = Schema [Draft workduckJsonSchemaDraft, Id IdArtifact, Title ''Workduck artifact'',
      Type [''object''], AdditionalProperties False, Required [''ref'', ''status''],
      Properties [
      (''ref'', entityRefReference),
      (''status'', recordStatus),
      (''project'', entityRefReference),
      (''sourcePath'', nonEmptyString)]]"

definition workduckCatalogArtifactSchema :: js_schema where
  "workduckCatalogArtifactSchema = Schema [Draft workduckJsonSchemaDraft, Id IdCatalogArtifact,
      Title ''Workduck catalog artifact'', Type [''object''], AdditionalProperties False,
      Required [''ref'', ''status'', ''catalogKind''], Properties [
      (''ref'', entityRefReference),
      (''status'', recordStatus),
      (''catalogKind'', Schema [Type [''string''], Enum workduckCatalogArtifactKinds]),
      (''project'', entityRefReference),
      (''sourcePath'', nonEmptyString)]]"

definition workduckServiceSchema :: js_schema where
  "workduckServiceSchema = Schema [Draft workduckJsonSchemaDraft, Id IdService, Title ''Workduck service'',
      Type [''object''], AdditionalProperties False,
      Required [''ref'', ''status'', ''dataClasses'', ''datastores'', ''queues'', ''externalDependencies'', ''complianceScope''],
      Properties [
      (''ref'', entityRefReference),
      (''status'', recordStatus),
      (''project'', entityRefReference),
      (''repo'', entityRefReference),
      (''runtime'', nonEmptyString),
      (''framework'', nonEmptyString),
      (''dataClasses'', stringArray),
      (''datastores'', stringArray),
      (''queues'', stringArray),
      (''externalDependencies'', stringArray),
      (''riskLevel'', riskLevel),
      (''serviceLevel'', Schema [Type [''string''], Enum workduckServiceLevels]),
      (''complianceScope'', Schema [Type [''object''], AdditionalProperties False,
          Required [''pii'', ''payment'', ''crypto'', ''aiUserData'', ''pci''], Properties [
          (''pii'', Schema [Type [''boolean'']]),
          (''payment'', Schema [Type [''boolean'']]),
          (''crypto'', Schema [Type [''boolean'']]),
          (''aiUserData'', Schema [Type [''boolean'']]),
          (''pci'', Schema [Type [''boolean'']])]])]]"

definition workduckAgentBriefSchema :: js_schema where
  "workduckAgentBriefSchema = Schema [Draft workduckJsonSchemaDraft, Id IdAgentBrief, Title ''Workduck agent brief'',
      Type [''object''], AdditionalProperties False,
      Required [''ref'', ''status'', ''project'', ''artifactRefs'', ''catalogArtifactRefs''],
      Properties [
      (''ref'', entityRefReference),
      (''status'', recordStatus),
      (''project'', entityRefReference),
      (''artifactRefs'', Schema [Type [''array''], Items entityRefReference]),
      (''catalogArtifactRefs'', Schema [Type [''array''], Items entityRefReference])]]"

definition workduckRunSchema :: js_schema where
  "workduckRunSchema = Schema [Draft workduckJsonSchemaDraft, Id IdRun, Title ''Workduck run'', Type [''object''],
      AdditionalProperties False,
      Required [''ref'', ''status'', ''project'', ''repoRefs'', ''artifactRefs'', ''gateRefs''],
      Properties [
      (''ref'', entityRefReference),
      (''status'', recordStatus),
      (''project'', entityRefReference),
      (''repoRefs'', Schema [Type [''array''], Items entityRefReference]),
      (''artifactRefs'', Schema [Type [''array''], Items entityRefReference]),
      (''gateRefs'', Schema [Type [''array''], Items entityRefReference]),
      (''brief'', entityRefReference)]]"

definition workduckGateSchema :: js_schema where
  "workduckGateSchema = Schema [Draft workduckJsonSchemaDraft, Id IdGate, Title ''Workduck gate'', Type [''object''],
      AdditionalProperties False, Required [''ref'', ''status''], Properties [
      (''ref'', entityRefReference),
      (''status'', recordStatus),
      (''project'', entityRefReference),
      (''riskLevel'', riskLevel)]]"

definition workduckShellRunSchema :: js_schema where
  "workduckShellRunSchema = Schema [Draft workduckJsonSchemaDraft, Id IdShellRun, Title ''Workduck shell run'',
      Type [''object''], AdditionalProperties False,
      Required [''ref'', ''status'', ''run'', ''command'', ''cwd'', ''approval'', ''state'', ''blockers''],
      Properties [
      (''ref'', entityRefReference),
      (''status'', recordStatus),
      (''run'', entityRefReference),
      (''command'', Schema [Type [''string''], MinLength 1]),
      (''cwd'', Schema [Type [''string''], MinLength 1]),
      (''approval'', Schema [Type [''object''], AdditionalProperties False, Required [''state''], Properties [
          (''state'', Schema [Type [''string''], Enum workduckShellRunApprovalStates]),
          (''approvedBy'', nonEmptyString),
          (''approvedAt'', nonEmptyString),
          (''reason'', nonEmptyString)]]),
      (''state'', Schema [Type [''string''], Enum workduckShellRunStates]),
      (''blockers'', Schema [Type [''array''],
          Items (Schema [Type [''string''], Enum workduckShellRunBlockerCodes])]),
      (''outputTail'', Schema [Type [''string'']]),
      (''diffSummary'', Schema [Type [''string'']]),
      (''exitCode'', Schema [Type [''integer'']]),
      (''startedAt'', nonEmptyString),
      (''finishedAt'', nonEmptyString)]]"

definition workduckQueueResultReportSchema :: js_schema where
  "workduckQueueResultReportSchema = Schema [Draft workduckJsonSchemaDraft, Id IdQueueResultReport,
      Title ''Workduck queue result report'', Type [''object''], AdditionalProperties False,
      Required [''schemaVersion'', ''ref'', ''status'', ''createdAt'', ''tasks''], Properties [
      (''schemaVersion'', Schema [Type [''string''], Enum [''workduck.queue-result-report/v1'']]),
      (''ref'', entityRefReference),
      (''status'', recordStatus),
      (''createdAt'', nonEmptyString),
      (''agentName'', nonEmptyString),
      (''tasks'', Schema [Type [''array''], Items (Schema [Type [''object''], AdditionalProperties False,
            Required [''id'', ''title'', ''summary'', ''filesChanged'', ''verification'', ''risks''],
            Properties [
            (''id'', nonEmptyString),
            (''title'', nonEmptyString),
            (''summary'', nonEmptyString),
            (''filesChanged'', stringArray),
            (''verification'', stringArray),
            (''risks'', stringArray),
            (''responseLanguage'', Schema [Type [''string''], Enum workduckQueueResponseLanguages])]])])]]"

definition workduckQueueWorkOrderSchema :: js_schema where
  "workduckQueueWorkOrderSchema = Schema [Draft workduckJsonSchemaDraft, Id IdQueueWorkOrder,
      Title ''Workduck queue work order'', Type [''object''], AdditionalProperties False,
      Required [''schemaVersion'', ''ref'', ''status'', ''createdAt'', ''tasks''], Properties [
      (''schemaVersion'', Schema [Type [''string''], Enum [''workduck.queue-work-order/v1'']]),
      (''ref'', entityRefReference),
      (''status'', recordStatus),
      (''createdAt'', nonEmptyString),
      (''agentName'', nonEmptyString),
      (''sourceReport'', entityRefReference),
      (''tasks'', Schema [Type [''array''],
          Items (Schema [Type [''object''], AdditionalProperties False, Required [''id'', ''title'', ''body''],
            Properties [
            (''id'', nonEmptyString),
            (''kind'', Schema [Type [''string''], Enum workduckQueueTaskKinds]),
            (''title'', nonEmptyString),
            (''body'', nonEmptyString),
            (''priority'', Schema [Type [''string''], Enum workduckQueueWorkPriorities]),
            (''responseLanguage'', Schema [Type [''string''], Enum workduckQueueResponseLanguages]),
            (''projectIds'', stringArray),
            (''skillIds'', stringArray),
            (''agentIds'', stringArray),
            (''referenceIds'', stringArray),
            (''sourceReportTaskId'', nonEmptyString),
            (''decision'', Schema [Type [''string''], Enum workduckQueueReviewDecisions])]])])]]"

definition workduckQueueProposalSchema :: js_schema where
  "workduckQueueProposalSchema = Schema [Draft workduckJsonSchemaDraft, Id IdQueueProposal, Title ''Workduck queue proposal'',
      Type [''object''], AdditionalProperties False,
      Required [''schemaVersion'', ''ref'', ''status'', ''createdAt'', ''question'', ''summary'', ''options'', ''recommendation'', ''nextWorkOrders''],
      Properties [
      (''schemaVersion'', Schema [Type [''string''], Enum [''workduck.queue-proposal/v1'']]),
      (''ref'', entityRefReference),
      (''status'', recordStatus),
      (''createdAt'', nonEmptyString),
      (''agentName'', nonEmptyString),
      (''question'', nonEmptyString),
      (''summary'', nonEmptyString),
      (''options'', Schema [Type [''array''], Items (Schema [Type [''object''], AdditionalProperties False,
            Required [''id'', ''name'', ''summary'', ''strengths'', ''risks''], Properties [
            (''id'', nonEmptyString),
            (''name'', nonEmptyString),
            (''summary'', nonEmptyString),
            (''strengths'', stringArray),
            (''risks'', stringArray)]])]),
      (''recommendation'', Schema [Type [''object'', ''null''], AdditionalProperties False,
          Required [''optionId'', ''reason''], Properties [
          (''optionId'', nonEmptyString),
          (''reason'', nonEmptyString)]]),
      (''nextWorkOrders'', Schema [Type [''array''],
          Items (Schema [Type [''object''], AdditionalProperties False, Required [''id'', ''title'', ''body''],
            Properties [
            (''id'', nonEmptyString),
            (''kind'', Schema [Type [''string''], Enum workduckQueueTaskKinds]),
            (''title'', nonEmptyString),
            (''body'', nonEmptyString),
            (''priority'', Schema [Type [''string''], Enum workduckQueueWorkPriorities]),
            (''responseLanguage'', Schema [Type [''string''], Enum workduckQueueResponseLanguages]),
            (''projectIds'', stringArray),
            (''skillIds'', stringArray),
            (''agentIds'', stringArray),
            (''referenceIds'', stringArray),
            (''sourceReportTaskId'', nonEmptyString),
            (''decision'', Schema [Type [''string''], Enum workduckQueueReviewDecisions])]])])]]"

definition workduckSchemas :: "(string \<times> js_schema) list" where
  "workduckSchemas =
    [(workduckSchemaIds IdAgentBrief, workduckAgentBriefSchema),
     (workduckSchemaIds IdArtifact, workduckArtifactSchema),
     (workduckSchemaIds IdCatalogArtifact, workduckCatalogArtifactSchema),
     (workduckSchemaIds IdEntityRef, workduckEntityRefSchema),
     (workduckSchemaIds IdGate, workduckGateSchema),
     (workduckSchemaIds IdProject, workduckProjectSchema),
     (workduckSchemaIds IdProjectFolder, workduckProjectFolderSchema),
     (workduckSchemaIds IdProjectRepoPlacement, workduckProjectRepoPlacementSchema),
     (workduckSchemaIds IdQueueProposal, workduckQueueProposalSchema),
     (workduckSchemaIds IdQueueResultReport, workduckQueueResultReportSchema),
     (workduckSchemaIds IdQueueWorkOrder, workduckQueueWorkOrderSchema),
     (workduckSchemaIds IdRepo, workduckRepoSchema),
     (workduckSchemaIds IdRun, workduckRunSchema),
     (workduckSchemaIds IdService, workduckServiceSchema),
     (workduckSchemaIds IdShellRun, workduckShellRunSchema)]"

section \<open>What a schema accepts\<close>

text \<open>The JSON Schema name of the type of a value; a number without fraction is also an integer.\<close>

definition type_matches :: "string \<Rightarrow> js \<Rightarrow> bool" where
  "type_matches t v =
     (case v of
        JNull \<Rightarrow> t = ''null''
      | JBool b \<Rightarrow> t = ''boolean''
      | JInt n \<Rightarrow> t = ''integer'' \<or> t = ''number''
      | JNonInt _ \<Rightarrow> t = ''number''
      | JStr s \<Rightarrow> t = ''string''
      | JArr vs \<Rightarrow> t = ''array''
      | JObj ps \<Rightarrow> t = ''object''
      | _ \<Rightarrow> False)"

definition js_keys :: "js \<Rightarrow> string list" where
  "js_keys v = (case v of JObj ps \<Rightarrow> map fst ps | _ \<Rightarrow> [])"

text \<open>
  \<open>accepts R s v\<close>: the value satisfies every keyword; \<open>R\<close> is the verdict of the schema a reference names.
  A keyword for another type of value than the one at hand holds.
\<close>

function accepts :: "(schema_id \<Rightarrow> js \<Rightarrow> bool) \<Rightarrow> js_schema \<Rightarrow> js \<Rightarrow> bool"
  and keyword_accepts :: "(schema_id \<Rightarrow> js \<Rightarrow> bool) \<Rightarrow> string list \<Rightarrow> js_keyword \<Rightarrow> js \<Rightarrow> bool" where
  "accepts R (Schema ks) v = (\<forall>k \<in> set ks. keyword_accepts R (declared ks) k v)"
| "keyword_accepts R ds (Draft s) v = True"
| "keyword_accepts R ds (Id i) v = True"
| "keyword_accepts R ds (Title s) v = True"
| "keyword_accepts R ds (Ref i) v = R i v"
| "keyword_accepts R ds (Type ts) v = (\<exists>t \<in> set ts. type_matches t v)"
| "keyword_accepts R ds (Enum names) v = (\<exists>n \<in> set names. v = JStr n)"
| "keyword_accepts R ds (MinLength n) v = (case v of JStr s \<Rightarrow> n \<le> length s | _ \<Rightarrow> True)"
| "keyword_accepts R ds (Items s) v = (\<forall>x \<in> set (js_elements v). accepts R s x)"
| "keyword_accepts R ds (Properties ps) v =
     (\<forall>p \<in> set ps. fst p \<in> set (js_keys v) \<longrightarrow> accepts R (snd p) (js_prop v (fst p)))"
| "keyword_accepts R ds (Required names) v = (case v of JObj _ \<Rightarrow> set names \<subseteq> set (js_keys v) | _ \<Rightarrow> True)"
| "keyword_accepts R ds (AdditionalProperties b) v = (b \<or> set (js_keys v) \<subseteq> set ds)"
  by pat_completeness auto
termination
proof (relation "measure (\<lambda>x. case x of Inl (R, s, v) \<Rightarrow> size s | Inr (R, ds, k, v) \<Rightarrow> size k)", goal_cases)
  case (2 R ks v k)
  then show ?case by (simp add: less_Suc_eq_le size_list_estimation')
next
  case (4 R ds ps v p)
  have "size (snd p) \<le> size_prod (\<lambda>_. 0) size p" by (cases p) simp
  also have "\<dots> \<le> size_list (size_prod (\<lambda>_. 0) size) ps" using 4(1) by (rule size_list_estimation') simp
  finally show ?case by simp
qed simp_all

declare accepts.simps(1) [simp]

text \<open>References resolve to the schema of entity references, the only schema a reference names.\<close>

definition resolve :: "schema_id \<Rightarrow> js \<Rightarrow> bool" where
  "resolve i v = (i = IdEntityRef \<and> accepts (\<lambda>_ _. False) workduckEntityRefSchema v)"

definition valid_for :: "js_schema \<Rightarrow> js \<Rightarrow> bool" where
  "valid_for s v = accepts resolve s v"

definition closed_object_schema :: "js_schema \<Rightarrow> bool" where
  "closed_object_schema s \<longleftrightarrow>
     Type [''object''] \<in> set (schema_keywords s) \<and> AdditionalProperties False \<in> set (schema_keywords s) \<and>
     (\<forall>k \<in> set (schema_keywords s). case k of Required ns \<Rightarrow> set ns \<subseteq> set (declared (schema_keywords s)) | _ \<Rightarrow> True) \<and>
     distinct (declared (schema_keywords s))"

lemma closed_object_schema_accepts:
  assumes "closed_object_schema s" "accepts R s v"
  shows "isObjectRecord v \<and> set (js_keys v) \<subseteq> set (declared (schema_keywords s))"
proof -
  obtain ks where s: "s = Schema ks" by (cases s)
  have "keyword_accepts R (declared ks) (Type [''object'']) v"
    "keyword_accepts R (declared ks) (AdditionalProperties False) v"
    using assms by (auto simp: s closed_object_schema_def simp del: keyword_accepts.simps)
  then show ?thesis by (auto simp: s type_matches_def isObjectRecord_def split: js.splits)
qed

lemma published_schemas_closed: "list_all closed_object_schema (map snd workduckSchemas)"
  by code_simp

section \<open>Looking up a schema identifier\<close>

text \<open>
  The \<open>in\<close> operator also finds the properties that every object inherits from \<open>Object.prototype\<close>.
\<close>

definition OBJECT_PROTOTYPE_PROPERTIES :: "string list" where
  "OBJECT_PROTOTYPE_PROPERTIES =
    [''constructor'', ''__defineGetter__'', ''__defineSetter__'', ''hasOwnProperty'', ''__lookupGetter__'',
     ''__lookupSetter__'', ''isPrototypeOf'', ''propertyIsEnumerable'', ''toString'', ''valueOf'', ''__proto__'',
     ''toLocaleString'']"

definition js_in :: "string \<Rightarrow> (string \<times> 'a) list \<Rightarrow> bool" where
  "js_in name table \<longleftrightarrow> name \<in> fst ` set table \<or> name \<in> set OBJECT_PROTOTYPE_PROPERTIES"

definition isWorkduckSchemaId :: "string \<Rightarrow> bool" where
  "isWorkduckSchemaId value = js_in value workduckSchemas"

lemma schema_table_keys: "fst ` set workduckSchemas = range workduckSchemaIds"
proof -
  let ?ids = "[IdAgentBrief, IdArtifact, IdCatalogArtifact, IdEntityRef, IdGate, IdProject, IdProjectFolder,
     IdProjectRepoPlacement, IdQueueProposal, IdQueueResultReport, IdQueueWorkOrder, IdRepo, IdRun, IdService, IdShellRun]"
  have "v \<in> set ?ids" for v by (cases v) simp_all
  then have "range workduckSchemaIds = set (map workduckSchemaIds ?ids)" unfolding set_map by blast
  moreover have "map fst workduckSchemas = map workduckSchemaIds ?ids" by (simp add: workduckSchemas_def)
  ultimately show ?thesis by (metis set_map)
qed

end
