(* ===== verification/Prompts.thy ===== *)
theory Prompts
  imports Schemas
begin

text \<open>
  The prompt compiler of \<open>packages/prompts/src/index.ts\<close>: Markdown documents from titled sections, and the
  brief of an agent run.
\<close>

abbreviation newline :: char where "newline \<equiv> CHR 0x0A"

definition promptBlockSeparator :: string where
  "promptBlockSeparator = [newline, newline]"

datatype prompt_role = RoleArtifact | RoleConstraint | RoleContext | RoleGate | RoleInstruction | RoleOutput

fun prompt_role_name :: "prompt_role \<Rightarrow> string" where
  "prompt_role_name RoleArtifact = ''artifact''"
| "prompt_role_name RoleConstraint = ''constraint''"
| "prompt_role_name RoleContext = ''context''"
| "prompt_role_name RoleGate = ''gate''"
| "prompt_role_name RoleInstruction = ''instruction''"
| "prompt_role_name RoleOutput = ''output''"

text \<open>\<open>string | readonly string[]\<close>\<close>

datatype prompt_body = BodyText string | BodyItems "string list"

record prompt_section =
  ps_title :: string
  ps_body :: prompt_body
  ps_role :: "prompt_role option"

record prompt_document =
  pd_title :: string
  pd_sections :: "prompt_section list"

datatype artifact_role = ArtifactCandidate | ArtifactOutput | ArtifactSource

fun artifact_role_name :: "artifact_role \<Rightarrow> string" where
  "artifact_role_name ArtifactCandidate = ''candidate''"
| "artifact_role_name ArtifactOutput = ''output''"
| "artifact_role_name ArtifactSource = ''source''"

record brief_artifact =
  ba_ref :: entity_ref
  ba_role :: artifact_role
  ba_schemaId :: "schema_id option"

record brief_input =
  bf_title :: string
  bf_project :: entity_ref
  bf_artifacts :: "brief_artifact list"
  bf_gates :: "entity_ref list"
  bf_brief :: "entity_ref option"
  bf_instructions :: "string list option"

section \<open>Formatting\<close>

definition formatEntityRef :: "entity_ref \<Rightarrow> string" where
  "formatEntityRef ref = kind_name (ref_kind ref) @ '':'' @ ref_id ref @ '' - '' @ ref_label ref"

definition formatPromptHeading :: "string \<Rightarrow> nat \<Rightarrow> string" where
  "formatPromptHeading value level = replicate level CHR ''#'' @ '' '' @ js_trim value"

definition formatPromptBody :: "prompt_body \<Rightarrow> string" where
  "formatPromptBody body =
     (case body of
        BodyText s \<Rightarrow> js_trim s
      | BodyItems items \<Rightarrow>
          js_join [newline] (filter (\<lambda>item. item \<noteq> ''- '') (map (\<lambda>item. ''- '' @ js_trim item) items)))"

definition compilePromptSection :: "prompt_section \<Rightarrow> string" where
  "compilePromptSection section =
     (let title = (case ps_role section of
            None \<Rightarrow> ps_title section
          | Some r \<Rightarrow> ps_title section @ '' ('' @ prompt_role_name r @ '')'');
          body = formatPromptBody (ps_body section)
      in if body = [] then [] else js_join [newline] [formatPromptHeading title 2, body])"

definition compilePromptDocument :: "prompt_document \<Rightarrow> string" where
  "compilePromptDocument doc =
     js_join promptBlockSeparator
       (filter (\<lambda>block. block \<noteq> [])
         (formatPromptHeading (pd_title doc) 1 # map compilePromptSection (pd_sections doc))) @ [newline]"

section \<open>Briefs\<close>

definition formatAgentBriefArtifact :: "brief_artifact \<Rightarrow> string" where
  "formatAgentBriefArtifact artifact =
     (let schemaSuffix = (case ba_schemaId artifact of
            None \<Rightarrow> []
          | Some i \<Rightarrow> '' [schema: '' @ workduckSchemaIds i @ '']'')
      in artifact_role_name (ba_role artifact) @ '': '' @ formatEntityRef (ba_ref artifact) @ schemaSuffix)"

definition optionalListSection :: "string \<Rightarrow> prompt_role \<Rightarrow> string list option \<Rightarrow> prompt_section list" where
  "optionalListSection title r items =
     (let body = (case items of None \<Rightarrow> [] | Some is \<Rightarrow> filter (\<lambda>item. js_trim item \<noteq> []) is) in
      if body = [] then [] else [\<lparr>ps_title = title, ps_body = BodyItems body, ps_role = Some r\<rparr>])"

definition optionalSection :: "'a option \<Rightarrow> ('a \<Rightarrow> prompt_section) \<Rightarrow> prompt_section list" where
  "optionalSection value build = (case value of None \<Rightarrow> [] | Some v \<Rightarrow> [build v])"

definition buildAgentBriefSections :: "brief_input \<Rightarrow> prompt_section list" where
  "buildAgentBriefSections input =
     [\<lparr>ps_title = ''Project'', ps_body = BodyText (formatEntityRef (bf_project input)), ps_role = Some RoleContext\<rparr>]
     @ optionalSection (bf_brief input) (\<lambda>brief.
         \<lparr>ps_title = ''Agent Brief'', ps_body = BodyText (formatEntityRef brief), ps_role = Some RoleContext\<rparr>)
     @ optionalListSection ''Instructions'' RoleInstruction (bf_instructions input)
     @ optionalListSection ''Artifacts'' RoleArtifact (Some (map formatAgentBriefArtifact (bf_artifacts input)))
     @ optionalListSection ''Gates'' RoleGate (Some (map formatEntityRef (bf_gates input)))"

definition compileAgentBriefPrompt :: "brief_input \<Rightarrow> string" where
  "compileAgentBriefPrompt input =
     compilePromptDocument \<lparr>pd_title = bf_title input, pd_sections = buildAgentBriefSections input\<rparr>"

section \<open>Documents end with one newline\<close>

definition ends_in_text :: "string \<Rightarrow> bool" where
  "ends_in_text s \<longleftrightarrow> s \<noteq> [] \<and> last s \<noteq> newline"

lemma ws_newline: "js_ws newline"
  by (simp add: js_ws_def)

lemma trim_ends: "js_trim s \<noteq> [] \<Longrightarrow> ends_in_text (js_trim s)"
  using trimmed_js_trim [of s] ws_newline by (auto simp: trimmed_def ends_in_text_def)

lemma ends_in_text_append: "ends_in_text t \<Longrightarrow> ends_in_text (s @ t)"
  by (auto simp: ends_in_text_def)

lemma ends_in_text_Cons: "ends_in_text t \<Longrightarrow> ends_in_text (c # t)"
  using ends_in_text_append [of t "[c]"] by simp

lemma join_ends: "xs \<noteq> [] \<Longrightarrow> ends_in_text (last xs) \<Longrightarrow> ends_in_text (js_join sep xs)"
proof (induction sep xs rule: js_join.induct)
  case (3 sep x y ys)
  then have "ends_in_text (js_join sep (y # ys))" by simp
  then have "ends_in_text ((x @ sep) @ js_join sep (y # ys))" by (rule ends_in_text_append)
  then show ?case by simp
qed simp_all

lemma heading_ends: "ends_in_text (formatPromptHeading t n)"
proof (cases "js_trim t = []")
  case True
  then show ?thesis by (simp add: formatPromptHeading_def ends_in_text_def)
next
  case False
  then show ?thesis unfolding formatPromptHeading_def by (intro ends_in_text_append trim_ends)
qed

lemma body_ends: "formatPromptBody b \<noteq> [] \<Longrightarrow> ends_in_text (formatPromptBody b)"
proof (cases b)
  case (BodyItems items)
  let ?is = "filter (\<lambda>item. item \<noteq> ''- '') (map (\<lambda>item. ''- '' @ js_trim item) items)"
  assume "formatPromptBody b \<noteq> []"
  then have "?is \<noteq> []" using BodyItems by (auto simp: formatPromptBody_def)
  then have "last ?is \<in> set ?is" by (rule last_in_set)
  then obtain i where "last ?is = ''- '' @ js_trim i" "js_trim i \<noteq> []" by auto
  then have "ends_in_text (last ?is)" using ends_in_text_append [OF trim_ends] by metis
  then show ?thesis using join_ends [OF \<open>?is \<noteq> []\<close>] BodyItems by (simp add: formatPromptBody_def)
qed (simp add: formatPromptBody_def trim_ends)

lemma section_ends: "compilePromptSection s \<noteq> [] \<Longrightarrow> ends_in_text (compilePromptSection s)"
  unfolding compilePromptSection_def Let_def
  by (auto simp: body_ends intro!: ends_in_text_append ends_in_text_Cons split: if_splits)

text \<open>The blocks of a document, each a heading or a section that is not empty.\<close>

definition prompt_blocks :: "prompt_document \<Rightarrow> string list" where
  "prompt_blocks doc = filter (\<lambda>b. b \<noteq> [])
     (formatPromptHeading (pd_title doc) 1 # map compilePromptSection (pd_sections doc))"

lemma document_ends: "ends_in_text (js_join promptBlockSeparator (prompt_blocks doc))"
proof (rule join_ends)
  have "formatPromptHeading (pd_title doc) 1 \<noteq> []" using heading_ends by (auto simp: ends_in_text_def)
  then show ne: "prompt_blocks doc \<noteq> []" by (simp add: prompt_blocks_def)
  have "last (prompt_blocks doc) \<in> set (prompt_blocks doc)" by (rule last_in_set [OF ne])
  then show "ends_in_text (last (prompt_blocks doc))"
    using heading_ends section_ends by (auto simp: prompt_blocks_def)
qed

lemma compilePromptDocument_newline:
  "\<exists>body. compilePromptDocument doc = body @ [newline] \<and> ends_in_text body"
  using document_ends by (auto simp: compilePromptDocument_def prompt_blocks_def)

end
