(* ===== verification/Workbench_Engine.thy ===== *)
theory Workbench_Engine
  imports Prompts
begin

text \<open>
  The deterministic part of agent runs, \<open>packages/workbench-engine/src/index.ts\<close>: run plans and briefs, the
  evaluation of gates, the records of shell runs and the inventory of a project.
\<close>

section \<open>Inputs and results\<close>

datatype gate_check_state = CheckPassed | CheckWarning | CheckFailed

datatype evaluation_state = EvalPending | EvalPassed | EvalBlocked

definition UNLABELED_FAILED_GATE_CHECK_LABEL :: string where
  "UNLABELED_FAILED_GATE_CHECK_LABEL = ''Failed check''"

text \<open>A check as it is given and, in the same shape, as it is kept.\<close>

record gate_check =
  gc_label :: string
  gc_state :: gate_check_state
  gc_details :: "string option"

record gate_evaluation_input =
  gi_gate :: entity_ref
  gi_checks :: "gate_check list option"
  gi_riskLevel :: "risk_level option"
  gi_status :: "record_status option"

record gate_evaluation =
  ge_gate :: workduck_gate
  ge_state :: evaluation_state
  ge_checks :: "gate_check list"

record run_plan_input =
  rp_project :: entity_ref
  rp_artifacts :: "brief_artifact list"
  rp_gates :: "entity_ref list"
  rp_brief :: "entity_ref option"

record run_brief_input = run_plan_input +
  rb_title :: string
  rb_instructions :: "string list option"

record run_loop_input = run_brief_input +
  rl_run :: entity_ref
  rl_repoRefs :: "entity_ref list option"
  rl_runStatus :: "record_status option"
  rl_gateEvaluations :: "gate_evaluation_input list option"

record shell_run_input =
  si_ref :: entity_ref
  si_run :: entity_ref
  si_command :: string
  si_cwd :: string
  si_approval :: shell_run_approval
  si_status :: "record_status option"
  si_outputTail :: "string option"
  si_diffSummary :: "string option"
  si_exitCode :: "js_number option"
  si_startedAt :: "string option"
  si_finishedAt :: "string option"

record run_plan_summary =
  pn_project :: entity_ref
  pn_entityRefs :: "entity_ref list"
  pn_schemaIds :: "schema_id list"
  pn_gateRefs :: "entity_ref list"
  pn_brief :: "entity_ref option"

record run_loop =
  lp_briefMarkdown :: string
  lp_plan :: run_plan_summary
  lp_run :: workduck_run
  lp_gateEvaluations :: "gate_evaluation list"
  lp_state :: evaluation_state

record inventory_input =
  iv_project :: entity_ref
  iv_repos :: "workduck_repo list"
  iv_folders :: "workduck_project_folder list"
  iv_placements :: "workduck_placement list"
  iv_services :: "workduck_service list"
  iv_catalogArtifacts :: "workduck_catalog_artifact list"

record folder_repo_group =
  fg_folder :: workduck_project_folder
  fg_repos :: "workduck_repo list"

record inventory_summary =
  is_project :: entity_ref
  is_repoRefs :: "entity_ref list"
  is_activeRepoRefs :: "entity_ref list"
  is_reservedRepoRefs :: "entity_ref list"
  is_folderRefs :: "entity_ref list"
  is_serviceRefs :: "entity_ref list"
  is_catalogArtifactRefs :: "entity_ref list"
  is_entityRefs :: "entity_ref list"

section \<open>References\<close>

definition createEntityRefKey :: "entity_ref \<Rightarrow> string" where
  "createEntityRefKey ref = kind_name (ref_kind ref) @ '':'' @ ref_id ref"

text \<open>The loop with the set of keys seen so far is \<open>uniq_by\<close>.\<close>

definition collectUniqueEntityRefs :: "entity_ref list \<Rightarrow> entity_ref list" where
  "collectUniqueEntityRefs refs = uniq_by createEntityRefKey {} refs"

definition collectUniqueTypedEntityRefs :: "entity_ref list \<Rightarrow> entity_ref list" where
  "collectUniqueTypedEntityRefs refs = uniq_by createEntityRefKey {} refs"

fun schema_ids_from :: "schema_id set \<Rightarrow> brief_artifact list \<Rightarrow> schema_id list" where
  "schema_ids_from seen [] = []"
| "schema_ids_from seen (artifact # artifacts) =
     (case ba_schemaId artifact of
        None \<Rightarrow> schema_ids_from seen artifacts
      | Some i \<Rightarrow>
          if i \<in> seen then schema_ids_from seen artifacts
          else i # schema_ids_from (insert i seen) artifacts)"

definition collectArtifactSchemaIds :: "brief_artifact list \<Rightarrow> schema_id list" where
  "collectArtifactSchemaIds artifacts = schema_ids_from {} artifacts"

section \<open>Optional text\<close>

definition normalizeOptionalText :: "string option \<Rightarrow> string option" where
  "normalizeOptionalText value =
     (case value of None \<Rightarrow> None | Some s \<Rightarrow> if js_trim s = [] then None else Some (js_trim s))"

section \<open>Gates\<close>

definition normalizeGateChecks :: "gate_check list \<Rightarrow> gate_check list" where
  "normalizeGateChecks checks =
     filter (\<lambda>check. gc_label check \<noteq> [])
       (map (\<lambda>check.
          let label = js_trim (gc_label check) in
          \<lparr>gc_label = (if label \<noteq> [] \<or> gc_state check \<noteq> CheckFailed then label
                       else UNLABELED_FAILED_GATE_CHECK_LABEL),
           gc_state = gc_state check,
           gc_details = normalizeOptionalText (gc_details check)\<rparr>) checks)"

definition evaluateGateState :: "gate_check list \<Rightarrow> evaluation_state" where
  "evaluateGateState checks =
     (if checks = [] then EvalPending
      else if \<exists>check \<in> set checks. gc_state check = CheckFailed then EvalBlocked
      else if \<forall>check \<in> set checks. gc_state check = CheckPassed then EvalPassed
      else EvalPending)"

text \<open>\<open>new Map(evaluations.map(...))\<close>: the last evaluation of a gate counts.\<close>

definition evaluation_of :: "gate_evaluation_input list option \<Rightarrow> entity_ref \<Rightarrow> gate_evaluation_input option" where
  "evaluation_of evaluations gate =
     map_of (rev (map (\<lambda>e. (createEntityRefKey (gi_gate e), e)) (case evaluations of None \<Rightarrow> [] | Some es \<Rightarrow> es)))
       (createEntityRefKey gate)"

definition buildGateEvaluations :: "run_loop_input \<Rightarrow> gate_evaluation list" where
  "buildGateEvaluations input =
     map (\<lambda>gate.
       let evaluation = evaluation_of (rl_gateEvaluations input) gate;
           checks = normalizeGateChecks
             (case evaluation of None \<Rightarrow> [] | Some e \<Rightarrow> (case gi_checks e of None \<Rightarrow> [] | Some cs \<Rightarrow> cs))
       in \<lparr>ge_gate = \<lparr>gate_ref = gate,
                      gate_status = (case Option.bind evaluation gi_status of None \<Rightarrow> StatusActive | Some s \<Rightarrow> s),
                      gate_project = Some (rp_project input),
                      gate_riskLevel = Option.bind evaluation gi_riskLevel\<rparr>,
           ge_state = evaluateGateState checks, ge_checks = checks\<rparr>)
     (collectUniqueTypedEntityRefs (rp_gates input))"

definition evaluateRunLoopState :: "gate_evaluation list \<Rightarrow> evaluation_state" where
  "evaluateRunLoopState evaluations =
     (if evaluations = [] then EvalPending
      else if \<exists>e \<in> set evaluations. ge_state e = EvalBlocked then EvalBlocked
      else if \<forall>e \<in> set evaluations. ge_state e = EvalPassed then EvalPassed
      else EvalPending)"

section \<open>Runs\<close>

definition compileWorkbenchRunBrief :: "'a run_brief_input_scheme \<Rightarrow> string" where
  "compileWorkbenchRunBrief input =
     compileAgentBriefPrompt
       \<lparr>bf_title = rb_title input, bf_project = rp_project input, bf_artifacts = rp_artifacts input,
        bf_gates = rp_gates input, bf_brief = rp_brief input, bf_instructions = rb_instructions input\<rparr>"

definition summarizeWorkbenchRunPlan :: "'a run_plan_input_scheme \<Rightarrow> run_plan_summary" where
  "summarizeWorkbenchRunPlan input =
     \<lparr>pn_project = rp_project input,
      pn_entityRefs = collectUniqueEntityRefs
        (rp_project input # (case rp_brief input of None \<Rightarrow> [] | Some b \<Rightarrow> [b])
         @ map ba_ref (rp_artifacts input) @ rp_gates input),
      pn_schemaIds = collectArtifactSchemaIds (rp_artifacts input),
      pn_gateRefs = collectUniqueTypedEntityRefs (rp_gates input),
      pn_brief = rp_brief input\<rparr>"

definition buildLocalRun :: "run_loop_input \<Rightarrow> workduck_run" where
  "buildLocalRun input =
     \<lparr>run_ref = rl_run input,
      run_status = (case rl_runStatus input of None \<Rightarrow> StatusActive | Some s \<Rightarrow> s),
      run_project = rp_project input,
      run_repoRefs = collectUniqueTypedEntityRefs (case rl_repoRefs input of None \<Rightarrow> [] | Some rs \<Rightarrow> rs),
      run_artifactRefs = collectUniqueTypedEntityRefs (map ba_ref (rp_artifacts input)),
      run_gateRefs = rp_gates input,
      run_brief = rp_brief input\<rparr>"

definition createWorkbenchLocalRunLoop :: "run_loop_input \<Rightarrow> run_loop" where
  "createWorkbenchLocalRunLoop input =
     (let gateEvaluations = buildGateEvaluations input in
      \<lparr>lp_briefMarkdown = compileWorkbenchRunBrief input, lp_plan = summarizeWorkbenchRunPlan input,
       lp_run = buildLocalRun input, lp_gateEvaluations = gateEvaluations,
       lp_state = evaluateRunLoopState gateEvaluations\<rparr>)"

section \<open>Shell runs\<close>

definition normalizeShellRunApproval :: "shell_run_approval \<Rightarrow> shell_run_approval" where
  "normalizeShellRunApproval approval =
     \<lparr>ap_state = ap_state approval, ap_approvedBy = normalizeOptionalText (ap_approvedBy approval),
      ap_approvedAt = normalizeOptionalText (ap_approvedAt approval),
      ap_reason = normalizeOptionalText (ap_reason approval)\<rparr>"

definition collectShellRunBlockers :: "string \<Rightarrow> string \<Rightarrow> shell_run_approval \<Rightarrow> blocker_code list" where
  "collectShellRunBlockers command cwd approval =
     (if command = [] then [BlockerMissingCommand] else [])
     @ (if cwd = [] then [BlockerMissingCwd] else [])
     @ (if ap_state approval = ApprovalPending then [BlockerApprovalPending] else [])
     @ (if ap_state approval = ApprovalRejected then [BlockerApprovalRejected] else [])"

definition determineShellRunState ::
  "blocker_code list \<Rightarrow> string option \<Rightarrow> string option \<Rightarrow> js_number option \<Rightarrow> shell_run_state" where
  "determineShellRunState blockers startedAt finishedAt exitCode =
     (if blockers \<noteq> [] then ShellBlocked
      else (case exitCode of
         Some c \<Rightarrow> if c = Inl 0 then ShellSucceeded else ShellFailed
       | None \<Rightarrow>
           if finishedAt \<noteq> None then ShellFailed
           else if startedAt \<noteq> None then ShellRunning
           else ShellReady))"

definition createWorkbenchLocalShellRun :: "shell_run_input \<Rightarrow> workduck_shell_run" where
  "createWorkbenchLocalShellRun input =
     (let command = js_trim (si_command input);
          cwd = js_trim (si_cwd input);
          outputTail = normalizeOptionalText (si_outputTail input);
          diffSummary = normalizeOptionalText (si_diffSummary input);
          startedAt = normalizeOptionalText (si_startedAt input);
          finishedAt = normalizeOptionalText (si_finishedAt input);
          blockers = collectShellRunBlockers command cwd (si_approval input);
          state = determineShellRunState blockers startedAt finishedAt (si_exitCode input)
      in \<lparr>sr_ref = si_ref input,
          sr_status = (case si_status input of None \<Rightarrow> StatusActive | Some s \<Rightarrow> s),
          sr_run = si_run input, sr_command = command, sr_cwd = cwd,
          sr_approval = normalizeShellRunApproval (si_approval input),
          sr_state = state, sr_blockers = blockers, sr_outputTail = outputTail,
          sr_diffSummary = diffSummary, sr_exitCode = si_exitCode input,
          sr_startedAt = startedAt, sr_finishedAt = finishedAt\<rparr>)"

section \<open>Project inventory\<close>

definition collectProjectRepos ::
  "entity_ref \<Rightarrow> workduck_repo list \<Rightarrow> workduck_placement list \<Rightarrow> workduck_repo list" where
  "collectProjectRepos project repos placements =
     (let placedRepoKeys = set (map (\<lambda>p. createEntityRefKey (pl_repo p))
            (filter (\<lambda>p. ref_id (pl_project p) = ref_id project) placements))
      in filter (\<lambda>repo. createEntityRefKey (wr_ref repo) \<in> placedRepoKeys) repos)"

definition placementsByFolderId ::
  "entity_ref \<Rightarrow> workduck_placement list \<Rightarrow> (string \<rightharpoonup> workduck_placement list)" where
  "placementsByFolderId project placements =
     fold (\<lambda>p m. if ref_id (pl_project p) \<noteq> ref_id project then m
                 else (case m (ref_id (pl_folder p)) of
                    None \<Rightarrow> m(ref_id (pl_folder p) \<mapsto> [p])
                  | Some ps \<Rightarrow> m(ref_id (pl_folder p) \<mapsto> ps @ [p]))) placements Map.empty"

definition groupProjectReposByFolder ::
  "entity_ref \<Rightarrow> workduck_repo list \<Rightarrow> workduck_project_folder list \<Rightarrow> workduck_placement list \<Rightarrow>
   folder_repo_group list" where
  "groupProjectReposByFolder project repos folders placements =
     (let repoByKey = map_of (rev (map (\<lambda>repo. (createEntityRefKey (wr_ref repo), repo)) repos));
          byFolder = placementsByFolderId project placements
      in map (\<lambda>folder. \<lparr>fg_folder = folder,
                fg_repos = List.map_filter (\<lambda>p. repoByKey (createEntityRefKey (pl_repo p)))
                  (case byFolder (ref_id (wf_ref folder)) of None \<Rightarrow> [] | Some ps \<Rightarrow> ps)\<rparr>)
           (filter (\<lambda>folder. ref_id (wf_project folder) = ref_id project) folders))"

definition summarizeProjectInventory :: "inventory_input \<Rightarrow> inventory_summary" where
  "summarizeProjectInventory input =
     (let project = iv_project input;
          repos = collectProjectRepos project (iv_repos input) (iv_placements input);
          repoKeys = set (map (\<lambda>repo. createEntityRefKey (wr_ref repo)) repos);
          placements = filter (\<lambda>p. ref_id (pl_project p) = ref_id project) (iv_placements input);
          services = filter (\<lambda>s. map_option ref_id (sv_project s) = Some (ref_id project) \<or>
            (\<exists>r \<in> set_option (sv_repo s). createEntityRefKey r \<in> repoKeys)) (iv_services input);
          catalogArtifacts = filter (\<lambda>a. map_option ref_id (ca_project a) = Some (ref_id project))
            (iv_catalogArtifacts input);
          folderRefs = map wf_ref (filter (\<lambda>f. ref_id (wf_project f) = ref_id project) (iv_folders input));
          serviceRefs = map sv_ref services;
          catalogArtifactRefs = map ca_ref catalogArtifacts;
          repoRefs = map wr_ref repos
      in \<lparr>is_project = project, is_repoRefs = repoRefs,
          is_activeRepoRefs = map wr_ref (filter (\<lambda>r. wr_status r = StatusActive) repos),
          is_reservedRepoRefs = map wr_ref (filter (\<lambda>r. wr_status r = StatusReserved) repos),
          is_folderRefs = folderRefs, is_serviceRefs = serviceRefs,
          is_catalogArtifactRefs = catalogArtifactRefs,
          is_entityRefs = collectUniqueEntityRefs
            (project # repoRefs @ folderRefs @ map pl_ref placements @ serviceRefs @ catalogArtifactRefs)\<rparr>)"

end
