(* ===== verification/Engine_Properties.thy ===== *)
theory Engine_Properties
  imports Workbench_Engine
begin

text \<open>
  Properties of the packages: the closed vocabularies, the published schemas, prompts, gates, shell runs and
  the inventory; and that the records the engine creates satisfy the schemas.
\<close>

section \<open>Keys of references\<close>

lemma kind_name_no_colon: "CHR '':'' \<notin> set (kind_name k)"
  by (cases k) simp_all

lemma takeWhile_key: "CHR '':'' \<notin> set s \<Longrightarrow> takeWhile (\<lambda>c. c \<noteq> CHR '':'') (s @ CHR '':'' # t) = s"
  by (induction s) auto

lemma createEntityRefKey_inject:
  "createEntityRefKey a = createEntityRefKey b \<longleftrightarrow> ref_kind a = ref_kind b \<and> ref_id a = ref_id b"
proof
  assume eq: "createEntityRefKey a = createEntityRefKey b"
  then have "takeWhile (\<lambda>c. c \<noteq> CHR '':'') (createEntityRefKey a) = takeWhile (\<lambda>c. c \<noteq> CHR '':'') (createEntityRefKey b)"
    by simp
  then have "kind_name (ref_kind a) = kind_name (ref_kind b)"
    by (simp add: createEntityRefKey_def takeWhile_key kind_name_no_colon)
  with eq show "ref_kind a = ref_kind b \<and> ref_id a = ref_id b"
    by (simp add: createEntityRefKey_def entity_kinds.name_eq_iff)
qed (simp add: createEntityRefKey_def)

section \<open>Gates\<close>

lemma evaluateGateState_blocked:
  "evaluateGateState cs = EvalBlocked \<longleftrightarrow> (\<exists>c \<in> set cs. gc_state c = CheckFailed)"
  by (auto simp: evaluateGateState_def)

lemma failed_check_kept:
  "(\<exists>c \<in> set (normalizeGateChecks cs). gc_state c = CheckFailed) \<longleftrightarrow> (\<exists>c \<in> set cs. gc_state c = CheckFailed)"
  by (fastforce simp: normalizeGateChecks_def Let_def UNLABELED_FAILED_GATE_CHECK_LABEL_def)

text \<open>The checks that were given for a gate: those of the last evaluation with its key.\<close>

definition given_checks :: "run_loop_input \<Rightarrow> entity_ref \<Rightarrow> gate_check list" where
  "given_checks input gate =
     (case evaluation_of (rl_gateEvaluations input) gate of
        None \<Rightarrow> [] | Some e \<Rightarrow> (case gi_checks e of None \<Rightarrow> [] | Some cs \<Rightarrow> cs))"

lemma given_checks_key: "createEntityRefKey g = createEntityRefKey h \<Longrightarrow> given_checks input g = given_checks input h"
  by (simp add: given_checks_def evaluation_of_def)

lemma ball_unique_refs:
  assumes "\<And>g h. createEntityRefKey g = createEntityRefKey h \<Longrightarrow> P g = P h"
  shows "(\<forall>g \<in> set (collectUniqueTypedEntityRefs gs). P g) \<longleftrightarrow> (\<forall>g \<in> set gs. P g)"
proof
  assume all: "\<forall>g \<in> set (collectUniqueTypedEntityRefs gs). P g"
  show "\<forall>g \<in> set gs. P g"
  proof
    fix g assume "g \<in> set gs"
    then have "createEntityRefKey g \<in> createEntityRefKey ` set (collectUniqueTypedEntityRefs gs)"
      by (simp add: collectUniqueTypedEntityRefs_def uniq_by_keys)
    then obtain h where h: "h \<in> set (collectUniqueTypedEntityRefs gs)" "createEntityRefKey g = createEntityRefKey h"
      by blast
    then show "P g" using all assms [OF h(2)] by simp
  qed
qed (use uniq_by_subset [of createEntityRefKey "{}" gs] in \<open>auto simp: collectUniqueTypedEntityRefs_def\<close>)

lemma bex_unique_refs:
  assumes "\<And>g h. createEntityRefKey g = createEntityRefKey h \<Longrightarrow> P g = P h"
  shows "(\<exists>g \<in> set (collectUniqueTypedEntityRefs gs). P g) \<longleftrightarrow> (\<exists>g \<in> set gs. P g)"
  using ball_unique_refs [of "\<lambda>g. \<not> P g" gs] assms by blast

lemma unique_refs_nil: "collectUniqueTypedEntityRefs gs = [] \<longleftrightarrow> gs = []"
proof -
  have "createEntityRefKey ` set (collectUniqueTypedEntityRefs gs) = createEntityRefKey ` set gs"
    by (simp add: collectUniqueTypedEntityRefs_def uniq_by_keys)
  then show ?thesis by (metis image_is_empty set_empty)
qed

lemma loop_state:
  "lp_state (createWorkbenchLocalRunLoop input) =
     evaluateRunLoopState (buildGateEvaluations input)"
  by (simp add: createWorkbenchLocalRunLoop_def Let_def)

lemma gate_states:
  "map ge_state (buildGateEvaluations input) =
     map (\<lambda>g. evaluateGateState (normalizeGateChecks (given_checks input g)))
       (collectUniqueTypedEntityRefs (rp_gates input))"
  by (simp add: buildGateEvaluations_def given_checks_def Let_def)

lemma evaluateRunLoopState_blocked:
  "evaluateRunLoopState es = EvalBlocked \<longleftrightarrow> EvalBlocked \<in> set (map ge_state es)"
  by (force simp: evaluateRunLoopState_def)

lemma evaluateRunLoopState_passed:
  "evaluateRunLoopState es = EvalPassed \<longleftrightarrow> map ge_state es \<noteq> [] \<and> (\<forall>s \<in> set (map ge_state es). s = EvalPassed)"
  by (auto simp: evaluateRunLoopState_def)

lemma mem_image: "y \<in> f ` S \<longleftrightarrow> (\<exists>x \<in> S. f x = y)"
  by blast

lemma loop_blocked:
  "lp_state (createWorkbenchLocalRunLoop input) = EvalBlocked \<longleftrightarrow>
     (\<exists>g \<in> set (rp_gates input). \<exists>c \<in> set (given_checks input g). gc_state c = CheckFailed)"
proof -
  have "EvalBlocked \<in> set (map ge_state (buildGateEvaluations input)) \<longleftrightarrow>
      (\<exists>g \<in> set (collectUniqueTypedEntityRefs (rp_gates input)). \<exists>c \<in> set (given_checks input g). gc_state c = CheckFailed)"
    unfolding gate_states set_map mem_image evaluateGateState_blocked failed_check_kept ..
  also have "\<dots> \<longleftrightarrow> (\<exists>g \<in> set (rp_gates input). \<exists>c \<in> set (given_checks input g). gc_state c = CheckFailed)"
    by (rule bex_unique_refs, drule given_checks_key [where input = input], simp)
  finally show ?thesis unfolding loop_state evaluateRunLoopState_blocked .
qed

text \<open>The labelled checks: those that survive normalisation when none has failed.\<close>

definition labelled :: "gate_check \<Rightarrow> bool" where
  "labelled c \<longleftrightarrow> js_trim (gc_label c) \<noteq> []"

lemma evaluateGateState_passed:
  "evaluateGateState (normalizeGateChecks cs) = EvalPassed \<longleftrightarrow>
     (\<exists>c \<in> set cs. labelled c) \<and> (\<forall>c \<in> set cs. gc_state c \<noteq> CheckFailed) \<and>
     (\<forall>c \<in> set cs. labelled c \<longrightarrow> gc_state c = CheckPassed)"
proof (cases "\<exists>c \<in> set cs. gc_state c = CheckFailed")
  case True
  then have "evaluateGateState (normalizeGateChecks cs) = EvalBlocked"
    by (simp add: evaluateGateState_blocked failed_check_kept)
  then show ?thesis using True by auto
next
  case False
  then have n: "normalizeGateChecks cs = map (\<lambda>c. \<lparr>gc_label = js_trim (gc_label c), gc_state = gc_state c,
      gc_details = normalizeOptionalText (gc_details c)\<rparr>) (filter labelled cs)"
  proof (induction cs)
    case (Cons c cs)
    then have IH: "normalizeGateChecks cs = map (\<lambda>c. \<lparr>gc_label = js_trim (gc_label c), gc_state = gc_state c,
      gc_details = normalizeOptionalText (gc_details c)\<rparr>) (filter labelled cs)" by simp
    show ?case using Cons.prems IH by (simp add: normalizeGateChecks_def Let_def labelled_def [abs_def])
  qed (simp add: normalizeGateChecks_def)
  show ?thesis
    unfolding n evaluateGateState_def using False by (auto simp: filter_empty_conv)
qed

lemma loop_passed:
  "lp_state (createWorkbenchLocalRunLoop input) = EvalPassed \<longleftrightarrow>
     rp_gates input \<noteq> [] \<and>
     (\<forall>g \<in> set (rp_gates input). evaluateGateState (normalizeGateChecks (given_checks input g)) = EvalPassed)"
proof -
  let ?P = "\<lambda>g. evaluateGateState (normalizeGateChecks (given_checks input g)) = EvalPassed"
  have "(\<forall>s \<in> set (map ge_state (buildGateEvaluations input)). s = EvalPassed) \<longleftrightarrow>
      (\<forall>g \<in> set (collectUniqueTypedEntityRefs (rp_gates input)). ?P g)"
    unfolding gate_states by simp
  also have "\<dots> \<longleftrightarrow> (\<forall>g \<in> set (rp_gates input). ?P g)"
    by (rule ball_unique_refs, drule given_checks_key [where input = input], simp)
  finally have all: "(\<forall>s \<in> set (map ge_state (buildGateEvaluations input)). s = EvalPassed) \<longleftrightarrow>
      (\<forall>g \<in> set (rp_gates input). ?P g)" .
  have "map ge_state (buildGateEvaluations input) = [] \<longleftrightarrow> rp_gates input = []"
    unfolding gate_states by (simp add: unique_refs_nil)
  with all show ?thesis unfolding loop_state evaluateRunLoopState_passed by blast
qed

section \<open>Records as JSON values\<close>

text \<open>An optional property is absent when its field is.\<close>

definition js_opt :: "string \<Rightarrow> ('a \<Rightarrow> js) \<Rightarrow> 'a option \<Rightarrow> (string \<times> js) list" where
  "js_opt name f x = (case x of None \<Rightarrow> [] | Some v \<Rightarrow> [(name, f v)])"

definition entity_ref_js :: "entity_ref \<Rightarrow> js" where
  "entity_ref_js r = JObj [(''id'', JStr (ref_id r)), (''kind'', JStr (kind_name (ref_kind r))), (''label'', JStr (ref_label r))]"

definition approval_js :: "shell_run_approval \<Rightarrow> js" where
  "approval_js a = JObj ((''state'', JStr (approval_name (ap_state a))) # js_opt ''approvedBy'' JStr (ap_approvedBy a)
     @ js_opt ''approvedAt'' JStr (ap_approvedAt a) @ js_opt ''reason'' JStr (ap_reason a))"

definition shell_run_js :: "workduck_shell_run \<Rightarrow> js" where
  "shell_run_js r = JObj
     ([(''ref'', entity_ref_js (sr_ref r)), (''status'', JStr (status_name (sr_status r))),
       (''run'', entity_ref_js (sr_run r)), (''command'', JStr (sr_command r)), (''cwd'', JStr (sr_cwd r)),
       (''approval'', approval_js (sr_approval r)), (''state'', JStr (shell_state_name (sr_state r))),
       (''blockers'', JArr (map (\<lambda>b. JStr (blocker_name b)) (sr_blockers r)))]
      @ js_opt ''outputTail'' JStr (sr_outputTail r) @ js_opt ''diffSummary'' JStr (sr_diffSummary r)
      @ js_opt ''exitCode'' number_js (sr_exitCode r) @ js_opt ''startedAt'' JStr (sr_startedAt r)
      @ js_opt ''finishedAt'' JStr (sr_finishedAt r))"

definition run_js :: "workduck_run \<Rightarrow> js" where
  "run_js r = JObj
     ([(''ref'', entity_ref_js (run_ref r)), (''status'', JStr (status_name (run_status r))),
       (''project'', entity_ref_js (run_project r)),
       (''repoRefs'', JArr (map entity_ref_js (run_repoRefs r))),
       (''artifactRefs'', JArr (map entity_ref_js (run_artifactRefs r))),
       (''gateRefs'', JArr (map entity_ref_js (run_gateRefs r)))]
      @ js_opt ''brief'' entity_ref_js (run_brief r))"

definition gate_js :: "workduck_gate \<Rightarrow> js" where
  "gate_js g = JObj
     ([(''ref'', entity_ref_js (gate_ref g)), (''status'', JStr (status_name (gate_status g)))]
      @ js_opt ''project'' entity_ref_js (gate_project g)
      @ js_opt ''riskLevel'' (\<lambda>r. JStr (risk_name r)) (gate_riskLevel g))"

definition ref_ok :: "entity_ref \<Rightarrow> bool" where
  "ref_ok r \<longleftrightarrow> ref_id r \<noteq> [] \<and> ref_label r \<noteq> []"

lemma js_opt_simps [simp]: "js_opt n f None = []" "js_opt n f (Some v) = [(n, f v)]"
  by (simp_all add: js_opt_def)

lemmas valid_simps = valid_for_def resolve_def declared_def type_matches_def js_keys_def js_prop_def
  js_elements_def nonEmptyString_def recordStatus_def riskLevel_def entityRefReference_def

lemma enum_kind [simp]: "kind_name k \<in> set workduckEntityKinds" by (rule entity_kinds.name_listed)
lemma enum_status [simp]: "status_name k \<in> set workduckRecordStatuses" by (rule record_statuss.name_listed)
lemma enum_approval [simp]: "approval_name k \<in> set workduckShellRunApprovalStates" by (rule approval_states.name_listed)
lemma enum_shell [simp]: "shell_state_name k \<in> set workduckShellRunStates" by (rule shell_run_states.name_listed)
lemma enum_blocker [simp]: "blocker_name k \<in> set workduckShellRunBlockerCodes" by (rule blocker_codes.name_listed)
lemma enum_risk [simp]: "risk_name k \<in> set workduckRiskLevels" by (rule risk_levels.name_listed)

lemma entity_ref_valid: "valid_for entityRefReference (entity_ref_js r) \<longleftrightarrow> ref_ok r"
  by (simp add: valid_simps workduckEntityRefSchema_def entity_ref_js_def ref_ok_def) (auto simp: Suc_le_eq)

lemma entity_ref_accepts: "accepts resolve entityRefReference (entity_ref_js r) \<longleftrightarrow> ref_ok r"
  using entity_ref_valid by (simp add: valid_for_def)

lemma status_accepts: "accepts resolve recordStatus (JStr (status_name k))"
  by (simp add: valid_simps)

lemma nonEmpty_accepts: "accepts resolve nonEmptyString (JStr s) \<longleftrightarrow> s \<noteq> []"
  by (simp add: valid_simps) (auto simp: Suc_le_eq)

text \<open>Reading an object literal with optional properties.\<close>

lemma object_keys [simp]:
  "k \<in> set (js_keys (JObj [])) \<longleftrightarrow> False"
  "k \<in> set (js_keys (JObj (p # ps))) \<longleftrightarrow> k = fst p \<or> k \<in> set (js_keys (JObj ps))"
  "k \<in> set (js_keys (JObj (js_opt n f x @ ps))) \<longleftrightarrow> (x \<noteq> None \<and> k = n) \<or> k \<in> set (js_keys (JObj ps))"
  "k \<in> set (js_keys (JObj (js_opt n f x))) \<longleftrightarrow> x \<noteq> None \<and> k = n"
  by (cases x; auto simp: js_keys_def)+

lemma object_keys_subset [simp]:
  "set (js_keys (JObj [])) \<subseteq> D"
  "set (js_keys (JObj (p # ps))) \<subseteq> D \<longleftrightarrow> fst p \<in> D \<and> set (js_keys (JObj ps)) \<subseteq> D"
  "set (js_keys (JObj (js_opt n f x @ ps))) \<subseteq> D \<longleftrightarrow> (x \<noteq> None \<longrightarrow> n \<in> D) \<and> set (js_keys (JObj ps)) \<subseteq> D"
  "set (js_keys (JObj (js_opt n f x))) \<subseteq> D \<longleftrightarrow> (x \<noteq> None \<longrightarrow> n \<in> D)"
  by (cases x; auto simp: js_keys_def)+

lemma object_props [simp]:
  "js_prop (JObj (p # ps)) k = (if k = fst p then snd p else js_prop (JObj ps) k)"
  "js_prop (JObj (js_opt n f x @ ps)) k = (if x \<noteq> None \<and> k = n then f (the x) else js_prop (JObj ps) k)"
  "js_prop (JObj (js_opt n f x)) k = (if x \<noteq> None \<and> k = n then f (the x) else JUndefined)"
  by (cases x; auto simp: js_prop_def)+

lemma accepts_typed_enum: "accepts R (Schema [Type [''string''], Enum names]) (JStr s) \<longleftrightarrow> s \<in> set names"
  by (simp add: type_matches_def)

lemma accepts_nonempty: "accepts R (Schema [Type [''string''], MinLength 1]) (JStr s) \<longleftrightarrow> s \<noteq> []"
  by (auto simp: type_matches_def Suc_le_eq)

lemma accepts_type: "accepts R (Schema [Type ts]) v \<longleftrightarrow> (\<exists>t \<in> set ts. type_matches t v)"
  by simp

lemma accepts_array: "accepts R (Schema [Type [''array''], Items s]) (JArr vs) \<longleftrightarrow> (\<forall>v \<in> set vs. accepts R s v)"
  by (simp add: type_matches_def js_elements_def)

lemma accepts_object:
  "accepts R (Schema (Draft d # Id i # Title t # Type [''object''] # AdditionalProperties False # Required ns # [Properties ps])) (JObj vs) \<longleftrightarrow>
     set (js_keys (JObj vs)) \<subseteq> set (map fst ps) \<and> set ns \<subseteq> set (js_keys (JObj vs)) \<and>
     (\<forall>p \<in> set ps. fst p \<in> set (js_keys (JObj vs)) \<longrightarrow> accepts R (snd p) (js_prop (JObj vs) (fst p)))"
  "accepts R (Schema (Type [''object''] # AdditionalProperties False # Required ns # [Properties ps])) (JObj vs) \<longleftrightarrow>
     set (js_keys (JObj vs)) \<subseteq> set (map fst ps) \<and> set ns \<subseteq> set (js_keys (JObj vs)) \<and>
     (\<forall>p \<in> set ps. fst p \<in> set (js_keys (JObj vs)) \<longrightarrow> accepts R (snd p) (js_prop (JObj vs) (fst p)))"
  by (auto simp: type_matches_def declared_def)

lemmas schema_simps = accepts_typed_enum accepts_nonempty accepts_array accepts_object entity_ref_accepts
  status_accepts nonEmpty_accepts

text \<open>Optional texts are absent or not empty.\<close>

definition text_ok :: "string option \<Rightarrow> bool" where
  "text_ok x \<longleftrightarrow> x \<noteq> Some []"

lemma text_ok_normalizeOptionalText [simp]: "text_ok (normalizeOptionalText x)"
  by (auto simp: text_ok_def normalizeOptionalText_def split: option.splits)

lemma text_ok_the: "text_ok x \<Longrightarrow> x \<noteq> None \<Longrightarrow> the x \<noteq> []"
  by (auto simp: text_ok_def)

lemma approval_valid:
  assumes "text_ok (ap_approvedBy a)" "text_ok (ap_approvedAt a)" "text_ok (ap_reason a)"
  shows "accepts R (Schema [Type [''object''], AdditionalProperties False, Required [''state''],
      Properties [(''state'', Schema [Type [''string''], Enum workduckShellRunApprovalStates]),
        (''approvedBy'', nonEmptyString), (''approvedAt'', nonEmptyString), (''reason'', nonEmptyString)]]) (approval_js a)"
  using assms unfolding approval_js_def accepts_object nonEmptyString_def
  by (simp add: accepts_typed_enum accepts_nonempty text_ok_the del: accepts.simps One_nat_def)

lemma shell_run_valid:
  assumes "text_ok (ap_approvedBy (sr_approval r))"
    "text_ok (ap_approvedAt (sr_approval r))" "text_ok (ap_reason (sr_approval r))"
    "text_ok (sr_startedAt r)" "text_ok (sr_finishedAt r)"
  shows "valid_for workduckShellRunSchema (shell_run_js r) \<longleftrightarrow> ref_ok (sr_ref r) \<and> ref_ok (sr_run r) \<and>
    sr_command r \<noteq> [] \<and> sr_cwd r \<noteq> [] \<and> (\<forall>c \<in> set_option (sr_exitCode r). isl c)"
  using assms unfolding valid_for_def workduckShellRunSchema_def shell_run_js_def accepts_object
  by (simp add: schema_simps approval_valid text_ok_the del: accepts.simps One_nat_def)
     (auto simp: type_matches_def number_js_def split: sum.splits)

lemma run_valid:
  assumes "ref_ok (run_ref r)" "ref_ok (run_project r)" "list_all ref_ok (run_repoRefs r)"
    "list_all ref_ok (run_artifactRefs r)" "list_all ref_ok (run_gateRefs r)" "\<forall>b \<in> set_option (run_brief r). ref_ok b"
  shows "valid_for workduckRunSchema (run_js r)"
  using assms unfolding valid_for_def workduckRunSchema_def run_js_def accepts_object
  by (simp add: schema_simps list_all_iff del: accepts.simps One_nat_def)

lemma gate_valid:
  assumes "ref_ok (gate_ref g)" "\<forall>p \<in> set_option (gate_project g). ref_ok p"
  shows "valid_for workduckGateSchema (gate_js g)"
  using assms unfolding valid_for_def workduckGateSchema_def gate_js_def accepts_object riskLevel_def
  by (simp add: schema_simps del: accepts.simps One_nat_def)

lemma uniq_refs_all: "list_all P gs \<Longrightarrow> list_all P (collectUniqueTypedEntityRefs gs)"
  using uniq_by_subset [of createEntityRefKey "{}" gs]
  by (auto simp: list_all_iff collectUniqueTypedEntityRefs_def)

text \<open>The references of an input are well formed.\<close>

definition input_refs_ok :: "run_loop_input \<Rightarrow> bool" where
  "input_refs_ok input \<longleftrightarrow> ref_ok (rl_run input) \<and> ref_ok (rp_project input) \<and>
     list_all ref_ok (case rl_repoRefs input of None \<Rightarrow> [] | Some rs \<Rightarrow> rs) \<and>
     list_all ref_ok (map ba_ref (rp_artifacts input)) \<and> list_all ref_ok (rp_gates input) \<and>
     (\<forall>b \<in> set_option (rp_brief input). ref_ok b)"

lemma loop_run_valid:
  "input_refs_ok input \<Longrightarrow> valid_for workduckRunSchema (run_js (lp_run (createWorkbenchLocalRunLoop input)))"
  by (rule run_valid)
     (simp_all add: input_refs_ok_def createWorkbenchLocalRunLoop_def Let_def buildLocalRun_def uniq_refs_all)

lemma loop_gates_valid:
  assumes "input_refs_ok input" "e \<in> set (lp_gateEvaluations (createWorkbenchLocalRunLoop input))"
  shows "valid_for workduckGateSchema (gate_js (ge_gate e))"
proof -
  obtain g where g: "g \<in> set (collectUniqueTypedEntityRefs (rp_gates input))" "gate_ref (ge_gate e) = g"
    "gate_project (ge_gate e) = Some (rp_project input)"
    using assms(2) by (auto simp: createWorkbenchLocalRunLoop_def buildGateEvaluations_def Let_def)
  have "list_all ref_ok (collectUniqueTypedEntityRefs (rp_gates input))"
    using assms(1) by (intro uniq_refs_all) (simp add: input_refs_ok_def)
  then show ?thesis using g assms(1) by (intro gate_valid) (auto simp: list_all_iff input_refs_ok_def)
qed

section \<open>Shell runs\<close>

lemma shell_run_blockers:
  "sr_blockers (createWorkbenchLocalShellRun i) = [] \<longleftrightarrow>
     js_trim (si_command i) \<noteq> [] \<and> js_trim (si_cwd i) \<noteq> [] \<and> ap_state (si_approval i) = ApprovalApproved"
  by (cases "ap_state (si_approval i)")
     (auto simp: createWorkbenchLocalShellRun_def Let_def collectShellRunBlockers_def)

lemma shell_run_state_blocked:
  "sr_state (createWorkbenchLocalShellRun i) = ShellBlocked \<longleftrightarrow> sr_blockers (createWorkbenchLocalShellRun i) \<noteq> []"
  by (auto simp: createWorkbenchLocalShellRun_def Let_def determineShellRunState_def split: option.splits)

section \<open>Inventory\<close>

lemma placementsByFolderId_eq:
  "(case placementsByFolderId project ps f of None \<Rightarrow> [] | Some qs \<Rightarrow> qs) =
     filter (\<lambda>p. ref_id (pl_project p) = ref_id project \<and> ref_id (pl_folder p) = f) ps"
proof -
  define step where "step = (\<lambda>p (m :: string \<rightharpoonup> workduck_placement list).
    if ref_id (pl_project p) \<noteq> ref_id project then m
    else (case m (ref_id (pl_folder p)) of
       None \<Rightarrow> m(ref_id (pl_folder p) \<mapsto> [p]) | Some ps \<Rightarrow> m(ref_id (pl_folder p) \<mapsto> ps @ [p])))"
  define at where "at = (\<lambda>m :: string \<rightharpoonup> workduck_placement list. case m f of None \<Rightarrow> [] | Some qs \<Rightarrow> qs)"
  have one: "at (step p m) = at m @ (if ref_id (pl_project p) = ref_id project \<and> ref_id (pl_folder p) = f then [p] else [])" for p m
    by (auto simp: step_def at_def split: option.splits)
  have "at (fold step ps m) = at m @ filter (\<lambda>p. ref_id (pl_project p) = ref_id project \<and> ref_id (pl_folder p) = f) ps" for m
    by (induction ps arbitrary: m) (auto simp: one)
  from this [of Map.empty] show ?thesis by (simp add: placementsByFolderId_def step_def at_def)
qed

lemma map_of_rev_key: "map_of (rev (map (\<lambda>x. (k x, x)) xs)) i = Some y \<Longrightarrow> y \<in> set xs \<and> k y = i"
  by (drule map_of_SomeD) auto

lemma grouped_repo_placed:
  assumes "g \<in> set (groupProjectReposByFolder project repos folders placements)" "r \<in> set (fg_repos g)"
  shows "r \<in> set (collectProjectRepos project repos placements)"
proof -
  obtain f where "fg_repos g = List.map_filter
      (\<lambda>p. map_of (rev (map (\<lambda>repo. (createEntityRefKey (wr_ref repo), repo)) repos)) (createEntityRefKey (pl_repo p)))
      (case placementsByFolderId project placements f of None \<Rightarrow> [] | Some ps \<Rightarrow> ps)"
    using assms(1) by (auto simp: groupProjectReposByFolder_def Let_def)
  then obtain p where p: "p \<in> set placements" "ref_id (pl_project p) = ref_id project"
    "map_of (rev (map (\<lambda>repo. (createEntityRefKey (wr_ref repo), repo)) repos)) (createEntityRefKey (pl_repo p)) = Some r"
    using assms(2) unfolding placementsByFolderId_eq by (auto simp: List.map_filter_def)
  from map_of_rev_key [of "\<lambda>r. createEntityRefKey (wr_ref r)", OF p(3)] p(1,2)
  show ?thesis by (auto simp: collectProjectRepos_def Let_def)
qed

lemma placed_repo_grouped:
  assumes "distinct (map (\<lambda>r. createEntityRefKey (wr_ref r)) repos)" "r \<in> set repos" "p \<in> set placements"
    "ref_id (pl_project p) = ref_id project" "createEntityRefKey (pl_repo p) = createEntityRefKey (wr_ref r)"
    "f \<in> set folders" "ref_id (wf_project f) = ref_id project" "ref_id (wf_ref f) = ref_id (pl_folder p)"
  shows "\<exists>g \<in> set (groupProjectReposByFolder project repos folders placements). fg_folder g = f \<and> r \<in> set (fg_repos g)"
proof -
  let ?m = "map_of (rev (map (\<lambda>repo. (createEntityRefKey (wr_ref repo), repo)) repos))"
  have "?m (createEntityRefKey (pl_repo p)) = Some r"
    unfolding assms(5) using assms(1,2) by (intro map_of_is_SomeI) (auto simp: rev_map [symmetric] o_def)
  moreover have "p \<in> set (case placementsByFolderId project placements (ref_id (wf_ref f)) of None \<Rightarrow> [] | Some ps \<Rightarrow> ps)"
    unfolding placementsByFolderId_eq using assms by simp
  ultimately have "r \<in> set (List.map_filter (\<lambda>p. ?m (createEntityRefKey (pl_repo p)))
      (case placementsByFolderId project placements (ref_id (wf_ref f)) of None \<Rightarrow> [] | Some ps \<Rightarrow> ps))"
    unfolding List.map_filter_def by force
  then show ?thesis using assms(6,7) by (force simp: groupProjectReposByFolder_def Let_def)
qed

end
