(* ===== verification/Agents.thy ===== *)
theory Agents
  imports Engine_Properties
begin

text \<open>
  The export adapters of \<open>packages/agents/src/index.ts\<close>: brief exports for the supported hosts and the
  \<open>AGENTS.md\<close> document of a local run.
\<close>

section \<open>Profiles\<close>

datatype export_target = TargetClaudeCode | TargetCodex | TargetCursor | TargetOpencode

datatype adapter_kind = HostAdapter export_target | GenericMarkdown

datatype adapter_capability = CapBriefMarkdown | CapAgentsMd | CapShellRunRecords

datatype execution_boundary = ExportOnly

fun target_name :: "export_target \<Rightarrow> string" where
  "target_name TargetClaudeCode = ''claude-code''"
| "target_name TargetCodex = ''codex''"
| "target_name TargetCursor = ''cursor''"
| "target_name TargetOpencode = ''opencode''"

fun adapter_kind_name :: "adapter_kind \<Rightarrow> string" where
  "adapter_kind_name (HostAdapter t) = target_name t"
| "adapter_kind_name GenericMarkdown = ''generic-markdown''"

definition agentBriefPromptExportTargets :: "export_target list" where
  "agentBriefPromptExportTargets = [TargetClaudeCode, TargetCodex, TargetCursor, TargetOpencode]"

record export_profile =
  xp_target :: export_target
  xp_label :: string
  xp_filename :: string

record adapter_profile =
  ad_kind :: adapter_kind
  ad_label :: string
  ad_executionBoundary :: execution_boundary
  ad_capabilities :: "adapter_capability list"
  ad_briefExportTarget :: "export_target option"
  ad_briefFilename :: "string option"

fun agentBriefPromptExportProfiles :: "export_target \<Rightarrow> export_profile" where
  "agentBriefPromptExportProfiles TargetClaudeCode =
     \<lparr>xp_target = TargetClaudeCode, xp_label = ''Claude Code'', xp_filename = ''claude-code-brief.md''\<rparr>"
| "agentBriefPromptExportProfiles TargetCodex =
     \<lparr>xp_target = TargetCodex, xp_label = ''Codex'', xp_filename = ''codex-brief.md''\<rparr>"
| "agentBriefPromptExportProfiles TargetCursor =
     \<lparr>xp_target = TargetCursor, xp_label = ''Cursor'', xp_filename = ''cursor-brief.md''\<rparr>"
| "agentBriefPromptExportProfiles TargetOpencode =
     \<lparr>xp_target = TargetOpencode, xp_label = ''OpenCode'', xp_filename = ''opencode-brief.md''\<rparr>"

definition agentAdapterKinds :: "adapter_kind list" where
  "agentAdapterKinds = [HostAdapter TargetClaudeCode, HostAdapter TargetCodex, HostAdapter TargetCursor,
     HostAdapter TargetOpencode, GenericMarkdown]"

definition getAgentBriefPromptExportProfile :: "export_target \<Rightarrow> export_profile" where
  "getAgentBriefPromptExportProfile target = agentBriefPromptExportProfiles target"

definition createBriefAgentAdapterProfile :: "export_target \<Rightarrow> adapter_capability list \<Rightarrow> adapter_profile" where
  "createBriefAgentAdapterProfile target extraCapabilities =
     (let profile = getAgentBriefPromptExportProfile target in
      \<lparr>ad_kind = HostAdapter target, ad_label = xp_label profile, ad_executionBoundary = ExportOnly,
       ad_capabilities = CapBriefMarkdown # extraCapabilities,
       ad_briefExportTarget = Some (xp_target profile), ad_briefFilename = Some (xp_filename profile)\<rparr>)"

fun agentAdapterProfiles :: "adapter_kind \<Rightarrow> adapter_profile" where
  "agentAdapterProfiles (HostAdapter t) = createBriefAgentAdapterProfile t [CapAgentsMd, CapShellRunRecords]"
| "agentAdapterProfiles GenericMarkdown =
     \<lparr>ad_kind = GenericMarkdown, ad_label = ''Generic Markdown'', ad_executionBoundary = ExportOnly,
      ad_capabilities = [CapBriefMarkdown], ad_briefExportTarget = None, ad_briefFilename = None\<rparr>"

definition getAgentAdapterProfile :: "adapter_kind \<Rightarrow> adapter_profile" where
  "getAgentAdapterProfile k = agentAdapterProfiles k"

definition listAgentAdapterProfiles :: "adapter_profile list" where
  "listAgentAdapterProfiles = map getAgentAdapterProfile agentAdapterKinds"

definition isAgentAdapterKind :: "string \<Rightarrow> bool" where
  "isAgentAdapterKind value = (value \<in> set (map adapter_kind_name agentAdapterKinds))"

section \<open>Brief exports\<close>

record brief_export =
  bx_target :: export_target
  bx_label :: string
  bx_filename :: string
  bx_content :: string

definition compileAgentBriefPromptExport :: "brief_input \<Rightarrow> export_target \<Rightarrow> brief_export" where
  "compileAgentBriefPromptExport input target =
     (let profile = getAgentBriefPromptExportProfile target in
      \<lparr>bx_target = xp_target profile, bx_label = xp_label profile, bx_filename = xp_filename profile,
       bx_content = compileAgentBriefPrompt input\<rparr>)"

definition compileAgentBriefPromptExports :: "brief_input \<Rightarrow> export_target list option \<Rightarrow> brief_export list" where
  "compileAgentBriefPromptExports input targets =
     map (compileAgentBriefPromptExport input)
       (case targets of None \<Rightarrow> agentBriefPromptExportTargets | Some ts \<Rightarrow> ts)"

section \<open>\<open>AGENTS.md\<close>\<close>

fun evaluation_state_name :: "evaluation_state \<Rightarrow> string" where
  "evaluation_state_name EvalPending = ''pending''"
| "evaluation_state_name EvalPassed = ''passed''"
| "evaluation_state_name EvalBlocked = ''blocked''"

fun check_state_name :: "gate_check_state \<Rightarrow> string" where
  "check_state_name CheckPassed = ''passed''"
| "check_state_name CheckWarning = ''warning''"
| "check_state_name CheckFailed = ''failed''"

record agents_markdown_input = run_loop_input +
  am_documentTitle :: "string option"
  am_workingRules :: "string list option"

definition formatMarkdownList :: "string list \<Rightarrow> string" where
  "formatMarkdownList items = js_join [newline] (map (\<lambda>item. ''- '' @ item) items)"

definition formatOptionalRefs :: "string \<Rightarrow> entity_ref list \<Rightarrow> string list" where
  "formatOptionalRefs label refs =
     (if refs = [] then [] else [label @ '': '' @ js_join '', '' (map formatEntityRef refs)])"

definition compileRunSection :: "run_loop \<Rightarrow> string" where
  "compileRunSection runLoop =
     js_join [newline]
       [''## Run'',
        formatMarkdownList
          ([''Project: '' @ formatEntityRef (run_project (lp_run runLoop)),
            ''Run: '' @ formatEntityRef (run_ref (lp_run runLoop)),
            ''Run status: '' @ status_name (run_status (lp_run runLoop)),
            ''Gate state: '' @ evaluation_state_name (lp_state runLoop)]
           @ formatOptionalRefs ''Repositories'' (run_repoRefs (lp_run runLoop))
           @ formatOptionalRefs ''Artifacts'' (run_artifactRefs (lp_run runLoop)))]"

text \<open>The lines that match \<open>/^#{1,6}(?:\s|$)/u\<close>, with their number of hash marks.\<close>

definition heading_level :: "string \<Rightarrow> nat option" where
  "heading_level line =
     (let h = length (takeWhile ((=) CHR ''#'') line);
          rest = drop h line
      in if 1 \<le> h \<and> h \<le> 6 \<and> (rest = [] \<or> js_ws (hd rest)) then Some h else None)"

definition shiftMarkdownHeadings :: "string \<Rightarrow> nat \<Rightarrow> string" where
  "shiftMarkdownHeadings markdown levels =
     (let prefix = replicate levels CHR ''#'' in
      js_join [newline]
        (map (\<lambda>line. if heading_level line \<noteq> None then prefix @ line else line)
          (js_split newline markdown)))"

definition compileBriefSection :: "string \<Rightarrow> string" where
  "compileBriefSection briefMarkdown =
     (let body = shiftMarkdownHeadings (js_trim briefMarkdown) 2 in
      if body = [] then [] else js_join [newline, newline] [''## Agent Brief'', body])"

definition compileGateSection :: "gate_evaluation list \<Rightarrow> string" where
  "compileGateSection evaluations =
     (if evaluations = [] then []
      else js_join [newline]
        [''## Gates'',
         js_join [newline]
           (map (\<lambda>e. js_join [newline]
              ((''- '' @ evaluation_state_name (ge_state e) @ '': '' @ formatEntityRef (gate_ref (ge_gate e)))
               # map (\<lambda>c. ''  - '' @ check_state_name (gc_state c) @ '': '' @ gc_label c @
                       (case gc_details c of None \<Rightarrow> [] | Some d \<Rightarrow> '' - '' @ d)) (ge_checks e))) evaluations)])"

definition BASE_WORKING_RULES :: "string list" where
  "BASE_WORKING_RULES =
     [''Use the local brief, run, artifacts, and gates as the source of truth for this run.'',
      ''Treat blocked gates as blockers until the caller supplies new local evidence.'',
      ''Do not claim file changes, command execution, or external agent work unless the caller provides verified evidence.'',
      ''Follow the nearest repository instructions and configured verification contract before reporting completion.'']"

definition compileWorkingRulesSection :: "string list option \<Rightarrow> string" where
  "compileWorkingRulesSection workingRules =
     (let rules = filter (\<lambda>rule. rule \<noteq> [])
            (map js_trim (BASE_WORKING_RULES @ (case workingRules of None \<Rightarrow> [] | Some rs \<Rightarrow> rs)))
      in js_join [newline] [''## Working Rules'', formatMarkdownList rules])"

definition compileAgentsMarkdownFromLoop :: "agents_markdown_input \<Rightarrow> run_loop \<Rightarrow> string" where
  "compileAgentsMarkdownFromLoop input runLoop =
     (let title = (case normalizeOptionalText (am_documentTitle input) of None \<Rightarrow> ''AGENTS.md'' | Some t \<Rightarrow> t) in
      js_join [newline, newline]
        (filter (\<lambda>section. section \<noteq> [])
          [''# '' @ title, compileRunSection runLoop, compileBriefSection (lp_briefMarkdown runLoop),
           compileGateSection (lp_gateEvaluations runLoop), compileWorkingRulesSection (am_workingRules input)])
      @ [newline])"

definition compileAgentsMarkdown :: "agents_markdown_input \<Rightarrow> string" where
  "compileAgentsMarkdown input =
     compileAgentsMarkdownFromLoop input (createWorkbenchLocalRunLoop (run_loop_input.truncate input))"

record agents_markdown_file =
  amf_content :: string
  amf_runLoop :: run_loop

definition compileAgentsMarkdownFile :: "agents_markdown_input \<Rightarrow> agents_markdown_file" where
  "compileAgentsMarkdownFile input =
     (let runLoop = createWorkbenchLocalRunLoop (run_loop_input.truncate input) in
      \<lparr>amf_content = compileAgentsMarkdownFromLoop input runLoop, amf_runLoop = runLoop\<rparr>)"

section \<open>Shifted headings\<close>

lemma takeWhile_hashes: "takeWhile ((=) CHR ''#'') (replicate n CHR ''#'' @ l) = replicate n CHR ''#'' @ takeWhile ((=) CHR ''#'') l"
  by (induction n) auto

lemma heading_level_shift:
  "heading_level l \<noteq> None \<Longrightarrow> heading_level (replicate n CHR ''#'' @ l) = Some h \<Longrightarrow> n < h"
  by (auto simp: heading_level_def Let_def takeWhile_hashes split: if_splits)

lemma js_split_newline: "w \<in> set (js_split newline s) \<Longrightarrow> newline \<notin> set w"
  by (rule js_split_no_sep)

lemma shifted_lines:
  "js_split newline (shiftMarkdownHeadings md n) =
     map (\<lambda>l. if heading_level l \<noteq> None then replicate n CHR ''#'' @ l else l) (js_split newline md)"
  unfolding shiftMarkdownHeadings_def Let_def
  by (rule js_split_join) (auto dest: js_split_newline)

lemma shifted_levels:
  assumes "l \<in> set (js_split newline (shiftMarkdownHeadings md n))" "heading_level l = Some h"
  shows "n < h"
proof -
  obtain k where k: "l = (if heading_level k \<noteq> None then replicate n CHR ''#'' @ k else k)"
    using assms(1) unfolding shifted_lines set_map by blast
  then show ?thesis using assms(2) heading_level_shift [of k n h] by (auto split: if_splits)
qed

end
