(* ===== verification/Package_Properties.thy ===== *)
theory Package_Properties
  imports Agents
begin

text \<open>The properties of the packages under \<open>packages/\<close>, with sample data for their instances.\<close>

section \<open>Sample data\<close>

definition sample_ref :: "entity_kind \<Rightarrow> string \<Rightarrow> entity_ref" where
  "sample_ref k i = \<lparr>ref_id = i, ref_kind = k, ref_label = ''label''\<rparr>"

definition sample_checks :: "gate_check list" where
  "sample_checks = [\<lparr>gc_label = ''tests'', gc_state = CheckPassed, gc_details = None\<rparr>,
     \<lparr>gc_label = '' '', gc_state = CheckFailed, gc_details = None\<rparr>]"

definition sample_input :: run_loop_input where
  "sample_input = \<lparr>rp_project = sample_ref KProject ''p'', rp_artifacts = [], rp_gates = [sample_ref KGate ''g''],
     rp_brief = None, rb_title = ''Run'', rb_instructions = None, rl_run = sample_ref KRun ''r'', rl_repoRefs = None,
     rl_runStatus = None, rl_gateEvaluations = Some [\<lparr>gi_gate = sample_ref KGate ''g'', gi_checks = Some sample_checks,
       gi_riskLevel = Some RiskLow, gi_status = None\<rparr>]\<rparr>"

definition sample_shell :: "string \<Rightarrow> shell_run_input" where
  "sample_shell command = \<lparr>si_ref = sample_ref KShellRun ''s'', si_run = sample_ref KRun ''r'', si_command = command,
     si_cwd = ''/w'', si_approval = \<lparr>ap_state = ApprovalApproved, ap_approvedBy = Some ''me'', ap_approvedAt = None,
     ap_reason = None\<rparr>, si_status = None, si_outputTail = None, si_diffSummary = None, si_exitCode = Some (Inl 0),
     si_startedAt = None, si_finishedAt = None\<rparr>"

definition sample_repo :: workduck_repo where
  "sample_repo = \<lparr>wr_ref = sample_ref KRepo ''repo'', wr_status = StatusActive, wr_kind = RepoGit, wr_localPath = ''/r'',
     wr_remoteUrl = None, wr_defaultBranch = None\<rparr>"

definition sample_folder :: workduck_project_folder where
  "sample_folder = \<lparr>wf_ref = sample_ref KProjectFolder ''f'', wf_project = sample_ref KProject ''p'', wf_path = ''/f'', wf_parent = None\<rparr>"

definition sample_placement :: workduck_placement where
  "sample_placement = \<lparr>pl_ref = sample_ref KProjectRepoPlacement ''pl'', pl_project = sample_ref KProject ''p'',
     pl_folder = sample_ref KProjectFolder ''f'', pl_repo = sample_ref KRepo ''repo'', pl_path = ''/r''\<rparr>"

section \<open>Vocabulary and schemas\<close>

text \<open>
  Every type guard of the core package accepts a string exactly when it is the name of one, and only
  one, value of its union type.
\<close>

theorem guards_accept_exactly_their_union:
  "(isWorkduckEntityKind s \<longleftrightarrow> (\<exists>!k. kind_name k = s)) \<and> (isWorkduckRecordStatus s \<longleftrightarrow> (\<exists>!k. status_name k = s)) \<and>
   (isWorkduckRepoKind s \<longleftrightarrow> (\<exists>!k. repo_kind_name k = s)) \<and>
   (isWorkduckCatalogArtifactKind s \<longleftrightarrow> (\<exists>!k. catalog_kind_name k = s)) \<and>
   (isWorkduckRiskLevel s \<longleftrightarrow> (\<exists>!k. risk_name k = s)) \<and> (isWorkduckServiceLevel s \<longleftrightarrow> (\<exists>!k. service_level_name k = s)) \<and>
   (isWorkduckQueueItemKind s \<longleftrightarrow> (\<exists>!k. queue_item_name k = s)) \<and>
   (isWorkduckQueueReviewDecision s \<longleftrightarrow> (\<exists>!k. decision_name k = s)) \<and>
   (isWorkduckShellRunApprovalState s \<longleftrightarrow> (\<exists>!k. approval_name k = s)) \<and>
   (isWorkduckShellRunState s \<longleftrightarrow> (\<exists>!k. shell_state_name k = s)) \<and>
   (isWorkduckShellRunBlockerCode s \<longleftrightarrow> (\<exists>!k. blocker_name k = s))"
  unfolding isWorkduckEntityKind_def isWorkduckRecordStatus_def isWorkduckRepoKind_def
    isWorkduckCatalogArtifactKind_def isWorkduckRiskLevel_def isWorkduckServiceLevel_def
    isWorkduckQueueItemKind_def isWorkduckQueueReviewDecision_def isWorkduckShellRunApprovalState_def
    isWorkduckShellRunState_def isWorkduckShellRunBlockerCode_def
  by (simp only: entity_kinds.listed_iff record_statuss.listed_iff repo_kinds.listed_iff
      catalog_artifact_kinds.listed_iff risk_levels.listed_iff service_levels.listed_iff
      queue_item_kinds.listed_iff review_decisions.listed_iff approval_states.listed_iff
      shell_run_states.listed_iff blocker_codes.listed_iff simp_thms)

text \<open>
  What a published schema accepts is an object, and each of its properties is declared by the schema.
\<close>

theorem published_schemas_reject_undeclared_properties:
  assumes "(i, s) \<in> set workduckSchemas" "valid_for s v"
  shows "isObjectRecord v \<and> set (js_keys v) \<subseteq> set (declared (schema_keywords s))"
proof -
  have "closed_object_schema s" using published_schemas_closed assms(1) by (auto simp: list_all_iff)
  then show ?thesis using assms(2) unfolding valid_for_def by (rule closed_object_schema_accepts)
qed

lemma published_schemas_reject_undeclared_properties_witness:
  "set (js_keys (entity_ref_js (sample_ref KRun ''r''))) \<subseteq> set (declared (schema_keywords workduckEntityRefSchema))"
proof -
  have "valid_for workduckEntityRefSchema (entity_ref_js (sample_ref KRun ''r''))" by code_simp
  moreover have "(workduckSchemaIds IdEntityRef, workduckEntityRefSchema) \<in> set workduckSchemas"
    by (simp add: workduckSchemas_def)
  ultimately show ?thesis using published_schemas_reject_undeclared_properties by blast
qed

text \<open>
  The guard for schema identifiers uses the \<open>in\<close> operator and so also accepts the names every object
  inherits, such as \<open>toString\<close>; it accepts every identifier and nothing but these names.
\<close>

theorem schema_id_guard_accepts_inherited_names:
  "(isWorkduckSchemaId s \<longleftrightarrow> s \<in> range workduckSchemaIds \<or> s \<in> set OBJECT_PROTOTYPE_PROPERTIES) \<and>
   isWorkduckSchemaId ''toString'' \<and> ''toString'' \<notin> range workduckSchemaIds"
proof -
  have "workduckSchemaIds i \<noteq> ''toString''" for i by (cases i) simp_all
  then have "''toString'' \<notin> range workduckSchemaIds" by (metis imageE)
  moreover have "''toString'' \<in> set OBJECT_PROTOTYPE_PROPERTIES" by (simp add: OBJECT_PROTOTYPE_PROPERTIES_def)
  ultimately show ?thesis by (simp only: isWorkduckSchemaId_def js_in_def schema_table_keys) blast
qed

section \<open>Prompts\<close>

text \<open>
  A compiled prompt document, and so every brief, ends with exactly one newline: the text before it is
  not empty and does not end in one.
\<close>

theorem prompt_ends_with_one_newline:
  "\<exists>body. compilePromptDocument doc = body @ [newline] \<and> body \<noteq> [] \<and> last body \<noteq> newline"
  using compilePromptDocument_newline [of doc] by (simp add: ends_in_text_def)

section \<open>Gates and runs\<close>



text \<open>
  C40: The run record and the gate records of a run loop satisfy the published schemas when the references
  of the input are well formed.
\<close>

theorem run_loop_records_satisfy_schemas:
  assumes "input_refs_ok input"
  shows "valid_for workduckRunSchema (run_js (lp_run (createWorkbenchLocalRunLoop input))) \<and>
    (\<forall>e \<in> set (lp_gateEvaluations (createWorkbenchLocalRunLoop input)). valid_for workduckGateSchema (gate_js (ge_gate e)))"
  using loop_run_valid [OF assms] loop_gates_valid [OF assms] by blast

lemma run_loop_records_satisfy_schemas_witness:
  "valid_for workduckRunSchema (run_js (lp_run (createWorkbenchLocalRunLoop sample_input)))"
proof -
  have "input_refs_ok sample_input" by code_simp
  then show ?thesis using run_loop_records_satisfy_schemas by blast
qed

text \<open>
  C39: A shell run is blocked exactly when its command or its directory is blank or it is not approved; and its
  record satisfies the published schema exactly when neither is blank, its reference and the reference of
  its run have an identifier and a label, and the exit code, if there is one, is an integer. So the record
  of a run blocked for a missing command is one the schema rejects.
\<close>

theorem shell_run_blocked_and_valid:
  "(sr_state (createWorkbenchLocalShellRun i) = ShellBlocked \<longleftrightarrow>
      js_trim (si_command i) = [] \<or> js_trim (si_cwd i) = [] \<or> ap_state (si_approval i) \<noteq> ApprovalApproved) \<and>
    (valid_for workduckShellRunSchema (shell_run_js (createWorkbenchLocalShellRun i)) \<longleftrightarrow>
      js_trim (si_command i) \<noteq> [] \<and> js_trim (si_cwd i) \<noteq> [] \<and> ref_ok (si_ref i) \<and> ref_ok (si_run i) \<and>
      (\<forall>c \<in> set_option (si_exitCode i). isl c))"
proof -
  have "valid_for workduckShellRunSchema (shell_run_js (createWorkbenchLocalShellRun i)) \<longleftrightarrow>
      ref_ok (sr_ref (createWorkbenchLocalShellRun i)) \<and> ref_ok (sr_run (createWorkbenchLocalShellRun i)) \<and>
      sr_command (createWorkbenchLocalShellRun i) \<noteq> [] \<and> sr_cwd (createWorkbenchLocalShellRun i) \<noteq> [] \<and>
      (\<forall>c \<in> set_option (sr_exitCode (createWorkbenchLocalShellRun i)). isl c)"
    by (rule shell_run_valid)
       (simp_all add: createWorkbenchLocalShellRun_def Let_def normalizeShellRunApproval_def)
  then show ?thesis
    unfolding shell_run_state_blocked shell_run_blockers
    by (auto simp: createWorkbenchLocalShellRun_def Let_def)
qed

lemma shell_run_blocked_and_valid_witness:
  "\<not> valid_for workduckShellRunSchema (shell_run_js (createWorkbenchLocalShellRun (sample_shell '' ''))) \<and>
   valid_for workduckShellRunSchema (shell_run_js (createWorkbenchLocalShellRun (sample_shell ''ls''))) \<and>
   \<not> valid_for workduckShellRunSchema (shell_run_js (createWorkbenchLocalShellRun
      (sample_shell ''ls'' \<lparr>si_exitCode := Some (Inr (Fraction 1))\<rparr>)))"
proof -
  have "ref_ok (si_ref (sample_shell c)) \<and> ref_ok (si_run (sample_shell c))" for c
    by (simp add: sample_shell_def sample_ref_def ref_ok_def)
  moreover have "js_trim (si_command (sample_shell '' '')) = []" "js_trim (si_command (sample_shell ''ls'')) \<noteq> []"
    "js_trim (si_cwd (sample_shell ''ls'')) \<noteq> []" "si_exitCode (sample_shell ''ls'') = Some (Inl 0)" by code_simp+
  ultimately show ?thesis by (simp add: shell_run_blocked_and_valid)
qed

section \<open>References and inventory\<close>

text \<open>
  Two references have the same key exactly when they agree in kind and identifier; the entity
  references of an inventory name no entity twice and include the project and every collected repository.
\<close>

theorem inventory_names_entities_once:
  "(createEntityRefKey a = createEntityRefKey b \<longleftrightarrow> ref_kind a = ref_kind b \<and> ref_id a = ref_id b) \<and>
   distinct (map createEntityRefKey (is_entityRefs (summarizeProjectInventory input))) \<and>
   createEntityRefKey ` ({iv_project input} \<union> set (is_repoRefs (summarizeProjectInventory input)))
     \<subseteq> createEntityRefKey ` set (is_entityRefs (summarizeProjectInventory input))"
  unfolding createEntityRefKey_inject
  by (simp add: summarizeProjectInventory_def Let_def collectUniqueEntityRefs_def uniq_by_keys distinct_uniq_by)
     blast

text \<open>
  Where repositories have distinct keys, a repository of the inventory stands in the group of every
  folder of the project it is placed in, and every repository in a group is a repository of the project.
\<close>

theorem placed_repositories_are_grouped:
  assumes "distinct (map (\<lambda>r. createEntityRefKey (wr_ref r)) repos)" "r \<in> set repos" "p \<in> set placements"
    "ref_id (pl_project p) = ref_id project" "createEntityRefKey (pl_repo p) = createEntityRefKey (wr_ref r)"
    "f \<in> set folders" "ref_id (wf_project f) = ref_id project" "ref_id (wf_ref f) = ref_id (pl_folder p)"
  shows "(\<exists>g \<in> set (groupProjectReposByFolder project repos folders placements). fg_folder g = f \<and> r \<in> set (fg_repos g)) \<and>
    (\<forall>g \<in> set (groupProjectReposByFolder project repos folders placements).
       set (fg_repos g) \<subseteq> set (collectProjectRepos project repos placements))"
  using placed_repo_grouped [OF assms] grouped_repo_placed by blast

lemma placed_repositories_are_grouped_witness:
  "\<exists>g \<in> set (groupProjectReposByFolder (sample_ref KProject ''p'') [sample_repo] [sample_folder] [sample_placement]).
     fg_folder g = sample_folder \<and> sample_repo \<in> set (fg_repos g)"
proof (rule conjunct1 [OF placed_repositories_are_grouped])
  show "createEntityRefKey (pl_repo sample_placement) = createEntityRefKey (wr_ref sample_repo)" by code_simp
qed (simp_all add: sample_placement_def sample_folder_def sample_ref_def)

section \<open>Exports\<close>

text \<open>
  Shifting the headings of a brief by n keeps its lines, prefixes the heading lines only, and leaves no
  heading of level n or less.
\<close>

theorem shifted_brief_headings:
  "js_split newline (shiftMarkdownHeadings md n) =
     map (\<lambda>l. if heading_level l \<noteq> None then replicate n CHR ''#'' @ l else l) (js_split newline md) \<and>
   (\<forall>l \<in> set (js_split newline (shiftMarkdownHeadings md n)). \<forall>h \<in> set_option (heading_level l). n < h)"
proof (intro conjI ballI)
  fix l h assume "l \<in> set (js_split newline (shiftMarkdownHeadings md n))" "h \<in> set_option (heading_level l)"
  then show "n < h" by (intro shifted_levels) (simp_all add: elem_set)
qed (rule shifted_lines)

lemma shifted_brief_headings_witness:
  "js_split newline (shiftMarkdownHeadings ''# a'' 2) = [''### a''] \<and> 2 < the (heading_level ''### a'')"
proof -
  have eq: "js_split newline (shiftMarkdownHeadings ''# a'' 2) = [''### a'']" by code_simp
  moreover have "heading_level ''### a'' \<noteq> None" by code_simp
  ultimately show ?thesis using shifted_brief_headings [where md = "''# a''" and n = 2] by auto
qed

end
