(* ===== verification/Workspace_Registry.thy ===== *)
theory Workspace_Registry
  imports Project_Text Registry_Contract
begin

text \<open>
  The workspace registry of \<open>src/lib/workspaces/workspace-registry.ts\<close>: its records, the parser that
  makes a registry of any value, the lossless reader of a stored registry, and the mutations.
  \<open>JSON.parse\<close>, \<open>JSON.stringify\<close>, the clock and the generated identifier are arguments.
\<close>

section \<open>Records\<close>

definition WORKSPACE_NAME_MAX_LENGTH :: nat where "WORKSPACE_NAME_MAX_LENGTH = 80"
definition WORKSPACE_PATH_MAX_LENGTH :: nat where "WORKSPACE_PATH_MAX_LENGTH = 1024"
definition WORKSPACE_PASSWORD_HASH_MAX_LENGTH :: nat where "WORKSPACE_PASSWORD_HASH_MAX_LENGTH = 512"

lemmas workspace_limits =
  WORKSPACE_NAME_MAX_LENGTH_def WORKSPACE_PATH_MAX_LENGTH_def WORKSPACE_PASSWORD_HASH_MAX_LENGTH_def

datatype workspace_registry_error =
    workspace_name_required
  | workspace_path_required
  | workspace_path_too_long
  | workspace_path_duplicate
  | workspace_password_hash_invalid
  | workspace_not_found

text \<open>The field \<open>kind\<close> of a lock is always \<open>'password'\<close>.\<close>

record workspace_lock =
  lk_passwordHash :: string
  lk_createdAt :: string
  lk_updatedAt :: string

record workspace_record =
  ws_id :: string
  ws_name :: string
  ws_path :: string
  ws_lock :: "workspace_lock option"
  ws_createdAt :: string
  ws_updatedAt :: string

record workspace_registry =
  wr_activeWorkspaceId :: "string option"
  wr_workspaces :: "workspace_record list"

record workspace_input =
  wi_name :: string
  wi_path :: string
  wi_passwordHash :: "string option"

datatype workspace_add_result =
    AddOk workspace_registry workspace_record
  | AddErr workspace_registry workspace_registry_error

datatype stored_workspace_error =
    workspace_registry_json_invalid
  | workspace_registry_version_unsupported

section \<open>Field normalisation\<close>

definition normalizeWorkspaceName :: "string \<Rightarrow> string" where
  "normalizeWorkspaceName value = js_slice0 WORKSPACE_NAME_MAX_LENGTH (js_collapse_ws '' '' (js_trim value))"

definition normalizeWorkspacePath :: "string \<Rightarrow> string" where
  "normalizeWorkspacePath value = js_slice0 WORKSPACE_PATH_MAX_LENGTH (normalizeWorkspacePathForStorage value)"

definition normalizePasswordHash :: "string option \<Rightarrow> string option" where
  "normalizePasswordHash value =
     map_option (\<lambda>h. js_slice0 WORKSPACE_PASSWORD_HASH_MAX_LENGTH (js_trim h)) value"

definition getWorkspacePathKey :: "string \<Rightarrow> string" where
  "getWorkspacePathKey path = js_lower (js_replace_char backslash slash (normalizeWorkspacePath path))"

section \<open>Parsing\<close>

definition createEmptyWorkspaceRegistry :: workspace_registry where
  "createEmptyWorkspaceRegistry = \<lparr>wr_activeWorkspaceId = None, wr_workspaces = []\<rparr>"

definition parseWorkspaceLock :: "js \<Rightarrow> workspace_lock option" where
  "parseWorkspaceLock value =
     (if \<not> isObjectRecord value then None
      else if js_prop value ''kind'' \<noteq> JStr ''password'' then None
      else (let passwordHash = normalizePasswordHash (Some (readTrimmedString (js_prop value ''passwordHash'')));
                createdAt = readTrimmedString (js_prop value ''createdAt'');
                updatedAt = readTrimmedString (js_prop value ''updatedAt'')
            in (case passwordHash of
                  None \<Rightarrow> None
                | Some h \<Rightarrow>
                    if h = [] then None
                    else Some \<lparr>lk_passwordHash = h,
                               lk_createdAt = (if createdAt = [] then updatedAt else createdAt),
                               lk_updatedAt = (if updatedAt = [] then createdAt else updatedAt)\<rparr>)))"

definition parseWorkspaceRecord :: "js \<Rightarrow> workspace_record option" where
  "parseWorkspaceRecord value =
     (if \<not> isObjectRecord value then None
      else (let i = readTrimmedString (js_prop value ''id'');
                name = normalizeWorkspaceName (readTrimmedString (js_prop value ''name''));
                path = normalizeWorkspacePath (readTrimmedString (js_prop value ''path''));
                lock = parseWorkspaceLock (js_prop value ''lock'');
                createdAt = readTrimmedString (js_prop value ''createdAt'');
                updatedAt = readTrimmedString (js_prop value ''updatedAt'')
            in if i = [] \<or> name = [] \<or> path = [] then None
               else Some \<lparr>ws_id = i, ws_name = name, ws_path = path, ws_lock = lock,
                          ws_createdAt = (if createdAt = [] then updatedAt else createdAt),
                          ws_updatedAt = (if updatedAt = [] then createdAt else updatedAt)\<rparr>))"

text \<open>The loop of \<open>normalizeWorkspaceRegistry\<close> over the raw workspaces, with the sets it keeps.\<close>

fun collect_workspaces :: "string set \<Rightarrow> string set \<Rightarrow> js list \<Rightarrow> workspace_record list" where
  "collect_workspaces seenIds seenPaths [] = []"
| "collect_workspaces seenIds seenPaths (raw # raws) =
     (case parseWorkspaceRecord raw of
        None \<Rightarrow> collect_workspaces seenIds seenPaths raws
      | Some w \<Rightarrow>
          (let pathKey = getWorkspacePathKey (ws_path w) in
           if ws_id w \<in> seenIds \<or> pathKey \<in> seenPaths then collect_workspaces seenIds seenPaths raws
           else w # collect_workspaces (insert (ws_id w) seenIds) (insert pathKey seenPaths) raws))"

text \<open>\<open>workspaces[0]?.id ?? null\<close>\<close>

definition first_workspace_id :: "workspace_record list \<Rightarrow> string option" where
  "first_workspace_id ws = (case ws of [] \<Rightarrow> None | w # _ \<Rightarrow> Some (ws_id w))"

definition normalizeWorkspaceRegistry :: "js \<Rightarrow> workspace_registry" where
  "normalizeWorkspaceRegistry value =
     (if \<not> isObjectRecord value then createEmptyWorkspaceRegistry
      else (let workspaces = collect_workspaces {} {} (js_elements (js_prop value ''workspaces''));
                activeWorkspaceId =
                  (case js_prop value ''activeWorkspaceId'' of
                     JStr a \<Rightarrow> if \<exists>w \<in> set workspaces. ws_id w = a then Some a
                               else first_workspace_id workspaces
                   | _ \<Rightarrow> first_workspace_id workspaces)
            in \<lparr>wr_activeWorkspaceId = activeWorkspaceId, wr_workspaces = workspaces\<rparr>))"

definition parseWorkspaceRegistry :: "(string \<Rightarrow> js option) \<Rightarrow> string option \<Rightarrow> workspace_registry" where
  "parseWorkspaceRegistry json_parse serializedRegistry =
     (case serializedRegistry of
        None \<Rightarrow> createEmptyWorkspaceRegistry
      | Some text \<Rightarrow>
          (case json_parse text of
             None \<Rightarrow> createEmptyWorkspaceRegistry
           | Some v \<Rightarrow> normalizeWorkspaceRegistry v))"

text \<open>The checks \<open>normalizeStoredWorkspaceRegistry\<close> makes on a raw workspace and the one kept for it.\<close>

definition stored_workspace_damaged :: "js \<Rightarrow> workspace_record \<Rightarrow> bool" where
  "stored_workspace_damaged raw w =
     (\<not> isObjectRecord raw \<or>
      (js_prop raw ''lock'' \<notin> {JNull, JUndefined} \<and> ws_lock w = None) \<or>
      length (js_collapse_ws '' '' (readTrimmedString (js_prop raw ''name''))) > WORKSPACE_NAME_MAX_LENGTH \<or>
      length (normalizeWorkspacePathForStorage (readTrimmedString (js_prop raw ''path''))) > WORKSPACE_PATH_MAX_LENGTH \<or>
      (isObjectRecord (js_prop raw ''lock'') \<and>
       length (readTrimmedString (js_prop (js_prop raw ''lock'') ''passwordHash'')) > WORKSPACE_PASSWORD_HASH_MAX_LENGTH))"

definition normalizeStoredWorkspaceRegistry :: "js \<Rightarrow> stored_workspace_error + workspace_registry" where
  "normalizeStoredWorkspaceRegistry value =
     (if \<not> isObjectRecord value \<or> \<not> js_is_array (js_prop value ''workspaces'')
      then Inl workspace_registry_json_invalid
      else if js_prop value ''version'' \<noteq> JUndefined \<and> js_prop value ''version'' \<noteq> JInt 1
      then Inl workspace_registry_version_unsupported
      else (let registry = normalizeWorkspaceRegistry value;
                raws = js_elements (js_prop value ''workspaces'')
            in if length (wr_workspaces registry) \<noteq> length raws then Inl workspace_registry_json_invalid
               else if \<exists>(raw, w) \<in> set (zip raws (wr_workspaces registry)). stored_workspace_damaged raw w
               then Inl workspace_registry_json_invalid
               else Inr registry))"

definition parseStoredWorkspaceRegistry ::
  "(string \<Rightarrow> js option) \<Rightarrow> string option \<Rightarrow> stored_workspace_error + workspace_registry" where
  "parseStoredWorkspaceRegistry json_parse serializedRegistry =
     (case serializedRegistry of
        None \<Rightarrow> Inr createEmptyWorkspaceRegistry
      | Some text \<Rightarrow>
          (case json_parse text of
             None \<Rightarrow> Inl workspace_registry_json_invalid
           | Some v \<Rightarrow> normalizeStoredWorkspaceRegistry v))"

section \<open>Records as values\<close>

text \<open>Every mutation hands its registry to \<open>normalizeWorkspaceRegistry\<close>, which reads it as a value.\<close>

definition lock_js :: "workspace_lock \<Rightarrow> js" where
  "lock_js l = JObj [(''kind'', JStr ''password''), (''passwordHash'', JStr (lk_passwordHash l)),
     (''createdAt'', JStr (lk_createdAt l)), (''updatedAt'', JStr (lk_updatedAt l))]"

definition workspace_js :: "workspace_record \<Rightarrow> js" where
  "workspace_js w = JObj [(''id'', JStr (ws_id w)), (''name'', JStr (ws_name w)), (''path'', JStr (ws_path w)),
     (''lock'', case ws_lock w of None \<Rightarrow> JNull | Some l \<Rightarrow> lock_js l),
     (''createdAt'', JStr (ws_createdAt w)), (''updatedAt'', JStr (ws_updatedAt w))]"

definition workspace_registry_js :: "workspace_registry \<Rightarrow> js" where
  "workspace_registry_js r = JObj [(''activeWorkspaceId'', js_nullable (wr_activeWorkspaceId r)),
     (''workspaces'', JArr (map workspace_js (wr_workspaces r)))]"

abbreviation canonical_workspaces :: "workspace_registry \<Rightarrow> workspace_registry" where
  "canonical_workspaces r \<equiv> normalizeWorkspaceRegistry (workspace_registry_js r)"

definition serializeWorkspaceRegistry :: "(js \<Rightarrow> string) \<Rightarrow> workspace_registry \<Rightarrow> string" where
  "serializeWorkspaceRegistry json_stringify registry =
     json_stringify (workspace_registry_js (canonical_workspaces registry))"

section \<open>Mutations\<close>

definition addWorkspace ::
  "workspace_registry \<Rightarrow> workspace_input \<Rightarrow> string \<Rightarrow> string \<Rightarrow> workspace_add_result" where
  "addWorkspace registry input now createdId =
     (let normalizedRegistry = canonical_workspaces registry;
          name = normalizeWorkspaceName (wi_name input);
          path = normalizeWorkspacePathForStorage (wi_path input);
          passwordHash = normalizePasswordHash (wi_passwordHash input)
      in if name = [] then AddErr normalizedRegistry workspace_name_required
         else if path = [] then AddErr normalizedRegistry workspace_path_required
         else if length path > WORKSPACE_PATH_MAX_LENGTH then AddErr normalizedRegistry workspace_path_too_long
         else if (case wi_passwordHash input of None \<Rightarrow> False
                  | Some h \<Rightarrow> length (js_trim h) > WORKSPACE_PASSWORD_HASH_MAX_LENGTH)
         then AddErr normalizedRegistry workspace_password_hash_invalid
         else if passwordHash = Some [] then AddErr normalizedRegistry workspace_password_hash_invalid
         else if \<exists>w \<in> set (wr_workspaces normalizedRegistry).
                   getWorkspacePathKey (ws_path w) = getWorkspacePathKey path
         then AddErr normalizedRegistry workspace_path_duplicate
         else (let workspace = \<lparr>ws_id = createdId, ws_name = name, ws_path = path,
                     ws_lock = map_option (\<lambda>h. \<lparr>lk_passwordHash = h, lk_createdAt = now, lk_updatedAt = now\<rparr>)
                                 passwordHash,
                     ws_createdAt = now, ws_updatedAt = now\<rparr>
               in AddOk \<lparr>wr_activeWorkspaceId = Some (ws_id workspace),
                         wr_workspaces = wr_workspaces normalizedRegistry @ [workspace]\<rparr> workspace))"

type_synonym workspace_mutation = "(workspace_registry, workspace_registry_error) mutation"

definition switchWorkspace :: "workspace_registry \<Rightarrow> string \<Rightarrow> workspace_mutation" where
  "switchWorkspace registry workspaceId =
     (let normalizedRegistry = canonical_workspaces registry in
      if \<not> (\<exists>w \<in> set (wr_workspaces normalizedRegistry). ws_id w = workspaceId)
      then Err normalizedRegistry workspace_not_found
      else Ok (normalizedRegistry\<lparr>wr_activeWorkspaceId := Some workspaceId\<rparr>))"

definition removeWorkspace :: "workspace_registry \<Rightarrow> string \<Rightarrow> workspace_mutation" where
  "removeWorkspace registry workspaceId =
     (let normalizedRegistry = canonical_workspaces registry in
      if \<not> (\<exists>w \<in> set (wr_workspaces normalizedRegistry). ws_id w = workspaceId)
      then Err normalizedRegistry workspace_not_found
      else (let workspaces = filter (\<lambda>w. ws_id w \<noteq> workspaceId) (wr_workspaces normalizedRegistry) in
            Ok \<lparr>wr_activeWorkspaceId =
                   (if wr_activeWorkspaceId normalizedRegistry = Some workspaceId
                    then first_workspace_id workspaces
                    else wr_activeWorkspaceId normalizedRegistry),
                wr_workspaces = workspaces\<rparr>))"

definition updateWorkspacePath :: "workspace_registry \<Rightarrow> string \<Rightarrow> string \<Rightarrow> string \<Rightarrow> workspace_mutation" where
  "updateWorkspacePath registry workspaceId nextPath now =
     (let normalizedRegistry = canonical_workspaces registry;
          path = normalizeWorkspacePathForStorage nextPath
      in if path = [] then Err normalizedRegistry workspace_path_required
         else if length path > WORKSPACE_PATH_MAX_LENGTH then Err normalizedRegistry workspace_path_too_long
         else (case List.find (\<lambda>w. ws_id w = workspaceId) (wr_workspaces normalizedRegistry) of
                 None \<Rightarrow> Err normalizedRegistry workspace_not_found
               | Some _ \<Rightarrow>
                   (let pathKey = getWorkspacePathKey path in
                    if \<exists>w \<in> set (wr_workspaces normalizedRegistry).
                         ws_id w \<noteq> workspaceId \<and> getWorkspacePathKey (ws_path w) = pathKey
                    then Err normalizedRegistry workspace_path_duplicate
                    else Ok (normalizedRegistry\<lparr>wr_workspaces :=
                           map (\<lambda>w. if ws_id w = workspaceId then w\<lparr>ws_path := path, ws_updatedAt := now\<rparr> else w)
                             (wr_workspaces normalizedRegistry)\<rparr>))))"

definition getActiveWorkspace :: "workspace_registry \<Rightarrow> workspace_record option" where
  "getActiveWorkspace registry =
     (let normalizedRegistry = canonical_workspaces registry in
      List.find (\<lambda>w. Some (ws_id w) = wr_activeWorkspaceId normalizedRegistry) (wr_workspaces normalizedRegistry))"

end
