(* ===== verification/Workspace_Operations.thy ===== *)
theory Workspace_Operations
  imports Workspace_Registry
begin

text \<open>
  What the workspace registry keeps. \<open>wf_workspaces\<close> is the invariant that the parser establishes for
  every value and every mutation preserves; \<open>strict_workspaces\<close> adds that the records are in the form in
  which reading them again changes no identifier, path or lock. The registry contract is interpreted
  with both.
\<close>

section \<open>The invariant\<close>

definition lock_ok :: "workspace_lock \<Rightarrow> bool" where
  "lock_ok l \<longleftrightarrow> lk_passwordHash l \<noteq> [] \<and> length (lk_passwordHash l) \<le> WORKSPACE_PASSWORD_HASH_MAX_LENGTH"

definition workspace_ok :: "workspace_record \<Rightarrow> bool" where
  "workspace_ok w \<longleftrightarrow>
     ws_id w \<noteq> [] \<and> ws_name w \<noteq> [] \<and> length (ws_name w) \<le> WORKSPACE_NAME_MAX_LENGTH \<and>
     ws_path w \<noteq> [] \<and> length (ws_path w) \<le> WORKSPACE_PATH_MAX_LENGTH \<and>
     (\<forall>l. ws_lock w = Some l \<longrightarrow> lock_ok l)"

definition wf_list :: "workspace_record list \<Rightarrow> bool" where
  "wf_list ws \<longleftrightarrow> distinct (map ws_id ws) \<and> distinct (map (\<lambda>w. getWorkspacePathKey (ws_path w)) ws) \<and>
     (\<forall>w \<in> set ws. workspace_ok w)"

definition wf_workspaces :: "workspace_registry \<Rightarrow> bool" where
  "wf_workspaces r \<longleftrightarrow> wf_list (wr_workspaces r) \<and>
     (case wr_activeWorkspaceId r of
        None \<Rightarrow> wr_workspaces r = []
      | Some a \<Rightarrow> a \<in> ws_id ` set (wr_workspaces r))"

subsection \<open>Parsed records\<close>

lemma parsed_lock_ok: "parseWorkspaceLock v = Some l \<Longrightarrow> lock_ok l"
  by (auto simp: parseWorkspaceLock_def lock_ok_def normalizePasswordHash_def Let_def js_slice0_def split: if_splits)

lemma parsed_workspace_ok: "parseWorkspaceRecord v = Some w \<Longrightarrow> workspace_ok w"
  by (auto simp: parseWorkspaceRecord_def workspace_ok_def normalizeWorkspaceName_def normalizeWorkspacePath_def
      js_slice0_def Let_def parsed_lock_ok split: if_splits)

text \<open>The loop is the parser followed by the removal of repeated identifiers and paths.\<close>

lemma collect_workspaces_fresh:
  "w \<in> set (collect_workspaces I P raws) \<Longrightarrow> ws_id w \<notin> I \<and> getWorkspacePathKey (ws_path w) \<notin> P"
  by (induction I P raws rule: collect_workspaces.induct) (auto simp: Let_def split: option.splits if_splits)

lemma wf_collect_workspaces: "wf_list (collect_workspaces I P raws)"
  by (induction I P raws rule: collect_workspaces.induct)
    (auto simp: Let_def wf_list_def parsed_workspace_ok split: option.splits dest: collect_workspaces_fresh)

lemma first_workspace_id_cases:
  "(case first_workspace_id ws of None \<Rightarrow> ws = [] | Some a \<Rightarrow> a \<in> ws_id ` set ws)"
  by (cases ws) (auto simp: first_workspace_id_def)

lemma wf_normalizeWorkspaceRegistry: "wf_workspaces (normalizeWorkspaceRegistry v)"
proof (cases "isObjectRecord v")
  case True
  then show ?thesis
    using first_workspace_id_cases [of "collect_workspaces {} {} (js_elements (js_prop v ''workspaces''))"]
    by (auto simp: normalizeWorkspaceRegistry_def wf_workspaces_def wf_collect_workspaces Let_def
        split: js.split option.splits)
qed (simp add: normalizeWorkspaceRegistry_def createEmptyWorkspaceRegistry_def wf_workspaces_def wf_list_def)

section \<open>Operations\<close>

datatype workspace_op =
    AddWorkspace workspace_input string
  | SwitchWorkspace string
  | RemoveWorkspace string
  | UpdateWorkspacePath string string

fun add_mutation :: "workspace_add_result \<Rightarrow> workspace_mutation" where
  "add_mutation (AddOk r w) = Ok r"
| "add_mutation (AddErr r e) = Err r e"

fun apply_workspace_op :: "string \<times> workspace_op \<Rightarrow> workspace_registry \<Rightarrow> workspace_mutation" where
  "apply_workspace_op (now, AddWorkspace input i) r = add_mutation (addWorkspace r input now i)"
| "apply_workspace_op (now, SwitchWorkspace i) r = switchWorkspace r i"
| "apply_workspace_op (now, RemoveWorkspace i) r = removeWorkspace r i"
| "apply_workspace_op (now, UpdateWorkspacePath i p) r = updateWorkspacePath r i p now"

fun workspace_fresh :: "string \<times> workspace_op \<Rightarrow> workspace_registry \<Rightarrow> bool" where
  "workspace_fresh (now, AddWorkspace input i) r \<longleftrightarrow> i \<noteq> [] \<and> i \<notin> ws_id ` set (wr_workspaces r)"
| "workspace_fresh (now, _) r \<longleftrightarrow> True"

lemma add_mutation_simps:
  "add_mutation x = Ok r \<longleftrightarrow> (\<exists>w. x = AddOk r w)"
  "add_mutation x = Err r e \<longleftrightarrow> x = AddErr r e"
  by (cases x; auto)+

text \<open>What a successful mutation has checked.\<close>

lemma addWorkspace_OkD:
  assumes "addWorkspace r input now i = AddOk r' w"
  shows "w = \<lparr>ws_id = i, ws_name = normalizeWorkspaceName (wi_name input),
             ws_path = normalizeWorkspacePathForStorage (wi_path input),
             ws_lock = map_option (\<lambda>h. \<lparr>lk_passwordHash = js_trim h, lk_createdAt = now, lk_updatedAt = now\<rparr>)
                         (wi_passwordHash input), ws_createdAt = now, ws_updatedAt = now\<rparr>"
    and "r' = \<lparr>wr_activeWorkspaceId = Some i, wr_workspaces = wr_workspaces (canonical_workspaces r) @ [w]\<rparr>"
    and "ws_name w \<noteq> []" "ws_path w \<noteq> []" "length (ws_path w) \<le> WORKSPACE_PATH_MAX_LENGTH"
    and "\<forall>h. wi_passwordHash input = Some h \<longrightarrow> js_trim h \<noteq> [] \<and> length (js_trim h) \<le> WORKSPACE_PASSWORD_HASH_MAX_LENGTH"
    and "getWorkspacePathKey (ws_path w) \<notin> (\<lambda>w. getWorkspacePathKey (ws_path w)) ` set (wr_workspaces (canonical_workspaces r))"
  using assms
  by (auto simp: addWorkspace_def Let_def normalizePasswordHash_def js_slice0_def not_less
      split: if_splits option.splits)

lemma addWorkspace_ErrD: "addWorkspace r input now i = AddErr r' e \<Longrightarrow> r' = canonical_workspaces r"
  by (auto simp: addWorkspace_def Let_def split: if_splits)

lemma workspace_refused: "apply_workspace_op op r = Err r' e \<Longrightarrow> r' = canonical_workspaces r"
  by (induction op r rule: apply_workspace_op.induct)
    (auto simp: add_mutation_simps switchWorkspace_def removeWorkspace_def updateWorkspacePath_def Let_def
      dest: addWorkspace_ErrD split: if_splits option.splits)

subsection \<open>Success keeps the invariant\<close>

lemma wf_list_snoc:
  "wf_list (ws @ [w]) \<longleftrightarrow> wf_list ws \<and> workspace_ok w \<and> ws_id w \<notin> ws_id ` set ws \<and>
     getWorkspacePathKey (ws_path w) \<notin> (\<lambda>w. getWorkspacePathKey (ws_path w)) ` set ws"
  by (auto simp: wf_list_def)

lemma wf_list_filter: "wf_list ws \<Longrightarrow> wf_list (filter P ws)"
  by (auto simp: wf_list_def intro: distinct_map_filter)

lemma wf_add:
  assumes "addWorkspace r input now i = AddOk r' w" and "i \<noteq> []"
    and "i \<notin> ws_id ` set (wr_workspaces (canonical_workspaces r))"
  shows "wf_workspaces r'"
proof -
  note ok = addWorkspace_OkD [OF assms(1)]
  have "workspace_ok w"
    using assms(2) ok(3-6) by (auto simp: workspace_ok_def ok(1) normalizeWorkspaceName_def js_slice0_def lock_ok_def)
  moreover have "wf_list (wr_workspaces (canonical_workspaces r))"
    using wf_normalizeWorkspaceRegistry by (simp add: wf_workspaces_def)
  ultimately have "wf_list (wr_workspaces (canonical_workspaces r) @ [w])"
    unfolding wf_list_snoc using assms(3) ok(7) by (simp add: ok(1))
  then show ?thesis by (simp add: ok(2) wf_workspaces_def) (simp add: ok(1))
qed

lemma wf_switch: "switchWorkspace r i = Ok r' \<Longrightarrow> wf_workspaces r'"
  using wf_normalizeWorkspaceRegistry [of "workspace_registry_js r"]
  by (auto simp: switchWorkspace_def wf_workspaces_def Let_def split: if_splits)

lemma wf_remove:
  assumes "removeWorkspace r i = Ok r'"
  shows "wf_workspaces r'"
proof -
  let ?n = "canonical_workspaces r"
  let ?ws = "filter (\<lambda>w. ws_id w \<noteq> i) (wr_workspaces ?n)"
  have wf: "wf_workspaces ?n" by (rule wf_normalizeWorkspaceRegistry)
  have r': "r' = \<lparr>wr_activeWorkspaceId = (if wr_activeWorkspaceId ?n = Some i then first_workspace_id ?ws
      else wr_activeWorkspaceId ?n), wr_workspaces = ?ws\<rparr>"
    using assms by (auto simp: removeWorkspace_def Let_def split: if_splits)
  have "wf_list ?ws" using wf by (simp add: wf_workspaces_def wf_list_filter)
  then show ?thesis
    using wf first_workspace_id_cases [of ?ws]
    by (auto simp: r' wf_workspaces_def split: option.splits)
qed

lemma wf_update:
  assumes "updateWorkspacePath r i p now = Ok r'"
  shows "wf_workspaces r'"
proof -
  let ?n = "canonical_workspaces r"
  let ?p = "normalizeWorkspacePathForStorage p"
  let ?f = "\<lambda>w. if ws_id w = i then w\<lparr>ws_path := ?p, ws_updatedAt := now\<rparr> else w"
  have wf: "wf_workspaces ?n" by (rule wf_normalizeWorkspaceRegistry)
  have r': "r' = ?n\<lparr>wr_workspaces := map ?f (wr_workspaces ?n)\<rparr>"
    and p: "?p \<noteq> []" "length ?p \<le> WORKSPACE_PATH_MAX_LENGTH"
    and free: "\<And>w. w \<in> set (wr_workspaces ?n) \<Longrightarrow> ws_id w \<noteq> i \<Longrightarrow> getWorkspacePathKey (ws_path w) \<noteq> getWorkspacePathKey ?p"
    using assms by (auto simp: updateWorkspacePath_def Let_def split: if_splits option.splits)
  have ids: "map ws_id (map ?f ws) = map ws_id ws" for ws by simp
  have "distinct (map (\<lambda>w. getWorkspacePathKey (ws_path w)) (map ?f (wr_workspaces ?n)))"
    using wf free by (intro distinct_map_rekey) (auto simp: wf_workspaces_def wf_list_def)
  then have "wf_list (map ?f (wr_workspaces ?n))"
    using wf p unfolding wf_list_def ids wf_workspaces_def
    by (auto simp: workspace_ok_def simp del: map_map)
  moreover have "ws_id ` set (map ?f (wr_workspaces ?n)) = ws_id ` set (wr_workspaces ?n)"
    using ids by (metis list.set_map)
  ultimately show ?thesis using wf by (auto simp: r' wf_workspaces_def split: option.splits)
qed

lemma workspace_success:
  assumes "apply_workspace_op op r = Ok r'" and "workspace_fresh op (canonical_workspaces r)"
  shows "wf_workspaces r'"
proof -
  obtain now o' where op: "op = (now, o')" by (cases op)
  show ?thesis
    using assms unfolding op
    by (cases o') (auto simp: add_mutation_simps intro: wf_add wf_switch wf_remove wf_update)
qed

interpretation workspaces: guarded_registry "\<lambda>op. canonical_workspaces" apply_workspace_op workspace_fresh wf_workspaces
proof unfold_locales
  fix r r' :: workspace_registry and op :: "string \<times> workspace_op" and e :: workspace_registry_error
  show "wf_workspaces (canonical_workspaces r)" by (rule wf_normalizeWorkspaceRegistry)
  show "wf_workspaces r'" if "workspace_fresh op (canonical_workspaces r)" "apply_workspace_op op r = Ok r'"
    using workspace_success that by blast
  show "r' = canonical_workspaces r" if "apply_workspace_op op r = Err r' e"
    using workspace_refused that by blast
qed

section \<open>Records that reading again leaves in place\<close>

text \<open>
  Reading a registry again cuts and trims its fields once more. A path may still begin with a
  verbatim prefix after one was removed, and a name cut to its limit may end in a blank. For records
  with a path that is read as itself only the end of the name can change.
\<close>

definition lock_stable :: "workspace_lock \<Rightarrow> bool" where
  "lock_stable l \<longleftrightarrow> trimmed (lk_passwordHash l) \<and> trimmed (lk_createdAt l) \<and> trimmed (lk_updatedAt l) \<and>
     (lk_createdAt l = [] \<longleftrightarrow> lk_updatedAt l = [])"

definition workspace_stable :: "workspace_record \<Rightarrow> bool" where
  "workspace_stable w \<longleftrightarrow> trimmed (ws_id w) \<and> \<not> js_ws (hd (ws_name w)) \<and>
     normalizeWorkspacePath (ws_path w) = ws_path w \<and> trimmed (ws_createdAt w) \<and> trimmed (ws_updatedAt w) \<and>
     ws_createdAt w \<noteq> [] \<and> ws_updatedAt w \<noteq> [] \<and> (\<forall>l. ws_lock w = Some l \<longrightarrow> lock_stable l)"

definition strict_workspaces :: "workspace_registry \<Rightarrow> bool" where
  "strict_workspaces r \<longleftrightarrow> wf_workspaces r \<and> (\<forall>w \<in> set (wr_workspaces r). workspace_stable w)"

definition renormalized :: "workspace_record \<Rightarrow> workspace_record" where
  "renormalized w = w\<lparr>ws_name := normalizeWorkspaceName (ws_name w)\<rparr>"

lemma renormalized_simps [simp]:
  "ws_id (renormalized w) = ws_id w" "ws_path (renormalized w) = ws_path w"
  "ws_lock (renormalized w) = ws_lock w" "ws_name (renormalized w) = normalizeWorkspaceName (ws_name w)"
  "ws_createdAt (renormalized w) = ws_createdAt w" "ws_updatedAt (renormalized w) = ws_updatedAt w"
  by (simp_all add: renormalized_def)

lemma normalizeWorkspaceName_trim [simp]: "normalizeWorkspaceName (js_trim s) = normalizeWorkspaceName s"
  by (simp add: normalizeWorkspaceName_def)

lemma normalizeWorkspacePath_trim [simp]: "normalizeWorkspacePath (js_trim s) = normalizeWorkspacePath s"
  by (simp add: normalizeWorkspacePath_def normalizeWorkspacePathForStorage_def)

lemma normalized_name_hd:
  assumes "js_trim s \<noteq> []"
  shows "normalizeWorkspaceName s \<noteq> [] \<and> \<not> js_ws (hd (normalizeWorkspaceName s))"
proof -
  have "\<not> js_ws (hd (js_trim s))" using assms trimmed_js_trim [of s] by (simp add: trimmed_def)
  then have "js_collapse_ws '' '' (js_trim s) \<noteq> []" "\<not> js_ws (hd (js_collapse_ws '' '' (js_trim s)))"
    using collapse_from_hd [OF assms, of False "'' ''"] by (simp_all add: js_collapse_ws_def js_replace_runs_def)
  then show ?thesis by (simp add: normalizeWorkspaceName_def js_slice0_def WORKSPACE_NAME_MAX_LENGTH_def hd_take)
qed

lemma normalized_name_nil [simp]: "normalizeWorkspaceName s = [] \<longleftrightarrow> js_trim s = []"
  using normalized_name_hd [of s] by (cases "js_trim s = []")
    (simp_all add: normalizeWorkspaceName_def js_slice0_def js_collapse_ws_def js_replace_runs_def)

lemma length_normalizeWorkspaceName: "length (normalizeWorkspaceName s) \<le> WORKSPACE_NAME_MAX_LENGTH"
  by (simp add: normalizeWorkspaceName_def js_slice0_def)

lemma trim_nonblank: "s \<noteq> [] \<Longrightarrow> \<not> js_ws (hd s) \<Longrightarrow> js_trim s \<noteq> []"
  by (metis dropWhile_all_not js_trim_def js_trim_start_def trim_end_hd)

lemma parse_stable_lock:
  "lock_ok l \<Longrightarrow> lock_stable l \<Longrightarrow> parseWorkspaceLock (lock_js l) = Some l"
  by (cases l) (auto simp: parseWorkspaceLock_def lock_js_def js_prop_def Let_def normalizePasswordHash_def
      js_slice0_def lock_stable_def lock_ok_def js_trim_trimmed)

lemma parse_null_lock [simp]: "parseWorkspaceLock JNull = None"
  by (simp add: parseWorkspaceLock_def isObjectRecord_def)

lemma parse_stable_workspace:
  assumes "workspace_ok w" "workspace_stable w"
  shows "parseWorkspaceRecord (workspace_js w) = Some (renormalized w)"
proof -
  have "js_trim (ws_name w) \<noteq> []"
    using assms by (simp add: workspace_ok_def workspace_stable_def trim_nonblank)
  moreover have "parseWorkspaceLock (case ws_lock w of None \<Rightarrow> JNull | Some l \<Rightarrow> lock_js l) = ws_lock w"
    using assms by (cases "ws_lock w")
      (simp_all add: parse_stable_lock workspace_ok_def workspace_stable_def)
  ultimately show ?thesis
    using assms by (cases w)
      (auto simp: parseWorkspaceRecord_def workspace_js_def js_prop_def Let_def renormalized_def
        workspace_ok_def workspace_stable_def js_trim_trimmed)
qed

lemma collect_stable_workspaces:
  assumes "wf_list ws" "\<forall>w \<in> set ws. workspace_stable w" "ws_id ` set ws \<inter> I = {}"
    "(\<lambda>w. getWorkspacePathKey (ws_path w)) ` set ws \<inter> P = {}"
  shows "collect_workspaces I P (map workspace_js ws) = map renormalized ws"
  using assms
proof (induction ws arbitrary: I P)
  case (Cons w ws)
  have "collect_workspaces (insert (ws_id w) I) (insert (getWorkspacePathKey (ws_path w)) P) (map workspace_js ws) =
    map renormalized ws"
    using Cons.prems by (intro Cons.IH) (auto simp: wf_list_def)
  moreover have "parseWorkspaceRecord (workspace_js w) = Some (renormalized w)"
    using Cons.prems by (intro parse_stable_workspace) (auto simp: wf_list_def)
  ultimately show ?case using Cons.prems by (simp add: Let_def)
qed simp

lemma canonical_strict:
  assumes "strict_workspaces r"
  shows "canonical_workspaces r = r\<lparr>wr_workspaces := map renormalized (wr_workspaces r)\<rparr>"
proof -
  have c: "collect_workspaces {} {} (map workspace_js (wr_workspaces r)) = map renormalized (wr_workspaces r)"
    using assms by (intro collect_stable_workspaces) (auto simp: strict_workspaces_def wf_workspaces_def)
  show ?thesis
  proof (cases "wr_activeWorkspaceId r")
    case None
    then have "wr_workspaces r = []" using assms by (simp add: strict_workspaces_def wf_workspaces_def)
    with None show ?thesis
      by (cases r) (simp add: normalizeWorkspaceRegistry_def workspace_registry_js_def js_prop_def js_nullable_def
          first_workspace_id_def)
  next
    case (Some a)
    then have "\<exists>w \<in> set (wr_workspaces r). ws_id w = a"
      using assms by (auto simp: strict_workspaces_def wf_workspaces_def)
    with Some c show ?thesis
      by (cases r) (auto simp: normalizeWorkspaceRegistry_def workspace_registry_js_def js_prop_def js_nullable_def Let_def)
  qed
qed

lemma renormalized_stable: "workspace_ok w \<Longrightarrow> workspace_stable w \<Longrightarrow> workspace_stable (renormalized w)"
  by (auto simp: workspace_stable_def workspace_ok_def normalized_name_hd trim_nonblank)

lemma strict_canonical:
  assumes "strict_workspaces r"
  shows "strict_workspaces (canonical_workspaces r)"
  using assms wf_normalizeWorkspaceRegistry [of "workspace_registry_js r"]
  by (auto simp: strict_workspaces_def canonical_strict wf_workspaces_def wf_list_def intro: renormalized_stable)

subsection \<open>Operations on strict registries\<close>

text \<open>The texts an operation brings in are in the form in which reading leaves them.\<close>

fun strict_fresh :: "string \<times> workspace_op \<Rightarrow> workspace_registry \<Rightarrow> bool" where
  "strict_fresh (now, AddWorkspace input i) r \<longleftrightarrow>
     trimmed now \<and> now \<noteq> [] \<and> trimmed i \<and> i \<noteq> [] \<and> i \<notin> ws_id ` set (wr_workspaces r) \<and>
     normalizeWorkspacePath (normalizeWorkspacePathForStorage (wi_path input)) =
       normalizeWorkspacePathForStorage (wi_path input)"
| "strict_fresh (now, UpdateWorkspacePath i p) r \<longleftrightarrow>
     trimmed now \<and> now \<noteq> [] \<and>
     normalizeWorkspacePath (normalizeWorkspacePathForStorage p) = normalizeWorkspacePathForStorage p"
| "strict_fresh (now, _) r \<longleftrightarrow> True"

lemma strict_fresh_fresh: "strict_fresh op r \<Longrightarrow> workspace_fresh op r"
  by (induction op r rule: strict_fresh.induct) auto

lemma added_stable:
  assumes "addWorkspace r input now i = AddOk r' w" and "strict_fresh (now, AddWorkspace input i) n"
  shows "workspace_stable w"
  using assms(2) addWorkspace_OkD(3) [OF assms(1)] normalized_name_hd [of "wi_name input"]
  by (auto simp: addWorkspace_OkD(1) [OF assms(1)] workspace_stable_def lock_stable_def)

lemma strict_success:
  assumes st: "strict_workspaces (canonical_workspaces r)"
    and fr: "strict_fresh op (canonical_workspaces r)" and ok: "apply_workspace_op op r = Ok r'"
  shows "strict_workspaces r'"
proof -
  have "wf_workspaces r'" using workspace_success [OF ok strict_fresh_fresh [OF fr]] .
  moreover have "workspace_stable w" if w: "w \<in> set (wr_workspaces r')" for w
  proof -
    have old: "\<And>w. w \<in> set (wr_workspaces (canonical_workspaces r)) \<Longrightarrow> workspace_stable w"
      using st by (simp add: strict_workspaces_def)
    obtain now o' where op: "op = (now, o')" by (cases op)
    show ?thesis
    proof (cases o')
      case (AddWorkspace input i)
      then obtain v where add: "addWorkspace r input now i = AddOk r' v" using ok op by (auto simp: add_mutation_simps)
      show ?thesis
        using w old added_stable [OF add] fr op AddWorkspace by (auto simp: addWorkspace_OkD(2) [OF add])
    next
      case (SwitchWorkspace i)
      then show ?thesis using w old ok op by (auto simp: switchWorkspace_def Let_def split: if_splits)
    next
      case (RemoveWorkspace i)
      then show ?thesis using w old ok op by (auto simp: removeWorkspace_def Let_def split: if_splits)
    next
      case (UpdateWorkspacePath i p)
      then show ?thesis
        using w old ok op fr
        by (auto simp: updateWorkspacePath_def Let_def workspace_stable_def split: if_splits option.splits)
    qed
  qed
  ultimately show ?thesis by (simp add: strict_workspaces_def)
qed

interpretation strict_workspaces: guarded_registry "\<lambda>op. canonical_workspaces" apply_workspace_op strict_fresh strict_workspaces
  by unfold_locales (auto intro: strict_canonical strict_success dest: workspace_refused)

subsection \<open>Locks stay\<close>

text \<open>The lock of each registered workspace.\<close>

definition locks_of :: "workspace_registry \<Rightarrow> string \<rightharpoonup> workspace_lock option" where
  "locks_of r = map_of (map (\<lambda>w. (ws_id w, ws_lock w)) (wr_workspaces r))"

lemma locks_canonical: "strict_workspaces r \<Longrightarrow> locks_of (canonical_workspaces r) = locks_of r"
  by (simp add: locks_of_def canonical_strict comp_def)

lemma locks_filter:
  "i \<noteq> j \<Longrightarrow> map_of (map (\<lambda>w. (ws_id w, ws_lock w)) (filter (\<lambda>w. ws_id w \<noteq> j) ws)) i =
     map_of (map (\<lambda>w. (ws_id w, ws_lock w)) ws) i"
  by (induction ws) auto

lemma locks_update:
  "map_of (map (\<lambda>w. (ws_id w, ws_lock w)) (map (\<lambda>w. if ws_id w = j then w\<lparr>ws_path := q, ws_updatedAt := t\<rparr> else w) ws)) =
     map_of (map (\<lambda>w. (ws_id w, ws_lock w)) (ws :: workspace_record list))"
  by (induction ws) auto

lemma locks_step:
  assumes st: "strict_workspaces r" and keep: "snd op \<noteq> RemoveWorkspace i" and l: "locks_of r i = Some l"
  shows "locks_of (result_registry (apply_workspace_op op r)) i = Some l"
proof -
  obtain now o' where op: "op = (now, o')" by (cases op)
  have l': "locks_of (canonical_workspaces r) i = Some l" using l locks_canonical [OF st] by simp
  show ?thesis
  proof (cases "apply_workspace_op op r")
    case (Err r' e)
    then show ?thesis using workspace_refused l' by auto
  next
    case ok: (Ok r')
    show ?thesis
    proof (cases o')
      case (AddWorkspace input j)
      then obtain v where "addWorkspace r input now j = AddOk r' v" using ok op by (auto simp: add_mutation_simps)
      from addWorkspace_OkD(2) [OF this] show ?thesis using l' ok by (simp add: locks_of_def)
    next
      case (SwitchWorkspace j)
      then show ?thesis using l' ok op by (auto simp: switchWorkspace_def Let_def locks_of_def split: if_splits)
    next
      case (RemoveWorkspace j)
      then show ?thesis
        using l' ok op keep by (auto simp: removeWorkspace_def Let_def locks_of_def locks_filter split: if_splits)
    next
      case (UpdateWorkspacePath j p)
      then show ?thesis
        using l' ok op
        by (auto simp: updateWorkspacePath_def Let_def locks_of_def locks_update simp del: map_map
            split: if_splits option.splits)
    qed
  qed
qed

lemma locks_run:
  assumes "strict_workspaces r" "fresh_along (\<lambda>op. canonical_workspaces) apply_workspace_op strict_fresh ops r"
    and "\<forall>op \<in> set ops. snd op \<noteq> RemoveWorkspace i" and "locks_of r i = Some l"
  shows "locks_of (run_ops apply_workspace_op ops r) i = Some l"
  using assms
proof (induction ops arbitrary: r)
  case (Cons op ops)
  have "strict_workspaces (result_registry (apply_workspace_op op r))"
    using strict_workspaces.step_keeps Cons.prems by simp
  moreover have "locks_of (result_registry (apply_workspace_op op r)) i = Some l"
    using locks_step Cons.prems by simp
  ultimately show ?case using Cons by simp
qed simp

section \<open>The stored registry\<close>

lemma collect_workspaces_length: "length (collect_workspaces I P raws) \<le> length raws"
  by (induction raws arbitrary: I P) (auto simp: Let_def le_SucI split: option.splits)

text \<open>When the loop keeps as many records as it was given, it has parsed and kept every one of them.\<close>

lemma collect_workspaces_all:
  "length (collect_workspaces I P raws) = length raws \<Longrightarrow>
   map Some (collect_workspaces I P raws) = map parseWorkspaceRecord raws"
proof (induction I P raws rule: collect_workspaces.induct)
  case (2 I P raw raws)
  then show ?case
    using collect_workspaces_length [of I P raws]
    by (auto simp: Let_def split: option.splits if_splits)
qed simp

lemma stored_registry_accepts:
  assumes "normalizeStoredWorkspaceRegistry value = Inr r"
  shows "\<exists>raws. js_prop value ''workspaces'' = JArr raws \<and> map Some (wr_workspaces r) = map parseWorkspaceRecord raws \<and>
    (\<forall>(raw, w) \<in> set (zip raws (wr_workspaces r)). \<not> stored_workspace_damaged raw w) \<and>
    r = normalizeWorkspaceRegistry value"
proof -
  have arr: "js_is_array (js_prop value ''workspaces'')" and rec: "isObjectRecord value"
    and len: "length (wr_workspaces (normalizeWorkspaceRegistry value)) = length (js_elements (js_prop value ''workspaces''))"
    and ok: "\<forall>(raw, w) \<in> set (zip (js_elements (js_prop value ''workspaces'')) (wr_workspaces r)). \<not> stored_workspace_damaged raw w"
    and r: "r = normalizeWorkspaceRegistry value"
    using assms by (auto simp: normalizeStoredWorkspaceRegistry_def Let_def split: if_splits)
  from arr obtain raws where raws: "js_prop value ''workspaces'' = JArr raws"
    by (auto simp: js_is_array_def split: js.splits)
  have "wr_workspaces r = collect_workspaces {} {} raws"
    using rec raws r by (simp add: normalizeWorkspaceRegistry_def Let_def)
  with collect_workspaces_all [of "{}" "{}" raws] len raws r ok show ?thesis by auto
qed

text \<open>The texts of a record that is not damaged are kept whole.\<close>

lemma parsed_lock_hash:
  "parseWorkspaceLock v = Some l \<Longrightarrow>
   lk_passwordHash l = js_slice0 WORKSPACE_PASSWORD_HASH_MAX_LENGTH (readTrimmedString (js_prop v ''passwordHash'')) \<and>
   isObjectRecord v"
  by (cases "js_prop v ''passwordHash''")
    (auto simp: parseWorkspaceLock_def normalizePasswordHash_def Let_def readTrimmedString_def split: if_splits)

lemma undamaged_complete:
  assumes "parseWorkspaceRecord raw = Some w" and "\<not> stored_workspace_damaged raw w"
  shows "ws_name w = js_collapse_ws '' '' (readTrimmedString (js_prop raw ''name'')) \<and>
    ws_path w = normalizeWorkspacePathForStorage (readTrimmedString (js_prop raw ''path'')) \<and>
    (js_prop raw ''lock'' \<notin> {JNull, JUndefined} \<longrightarrow>
       (\<exists>l. ws_lock w = Some l \<and>
          lk_passwordHash l = readTrimmedString (js_prop (js_prop raw ''lock'') ''passwordHash'')))"
proof (intro conjI impI)
  show "ws_name w = js_collapse_ws '' '' (readTrimmedString (js_prop raw ''name''))"
    using assms by (auto simp: parseWorkspaceRecord_def stored_workspace_damaged_def normalizeWorkspaceName_def
        js_slice0_def js_trim_trimmed Let_def split: if_splits)
  show "ws_path w = normalizeWorkspacePathForStorage (readTrimmedString (js_prop raw ''path''))"
    using assms by (auto simp: parseWorkspaceRecord_def stored_workspace_damaged_def normalizeWorkspacePath_def
        js_slice0_def Let_def split: if_splits)
  assume "js_prop raw ''lock'' \<notin> {JNull, JUndefined}"
  then obtain l where l: "ws_lock w = Some l" using assms(2) by (auto simp: stored_workspace_damaged_def)
  then have "parseWorkspaceLock (js_prop raw ''lock'') = Some l"
    using assms(1) by (auto simp: parseWorkspaceRecord_def Let_def split: if_splits)
  with parsed_lock_hash [OF this] l assms(2)
  show "\<exists>l. ws_lock w = Some l \<and> lk_passwordHash l = readTrimmedString (js_prop (js_prop raw ''lock'') ''passwordHash'')"
    by (auto simp: stored_workspace_damaged_def js_slice0_def)
qed

end
