(* ===== verification/Workspace_Unlock.thy ===== *)
theory Workspace_Unlock
  imports Workspace_Registry "HOL-Library.AList"
begin

text \<open>
  Unlock sessions of \<open>src/lib/workspaces/workspace-unlock.ts\<close> and the password client of
  \<open>src/lib/workspaces/workspace-password.ts\<close>, in the renderer (\<open>window\<close> is defined).

  The two module-level maps and the attempts in local storage are the fields of \<open>unlock_state\<close>. A text
  in local storage stands for the value \<open>JSON.parse\<close> makes of it, \<open>JUndefined\<close> when it throws. The
  asynchronous \<open>unlockWorkspace\<close> is cut at its only \<open>await\<close>: \<open>begin_unlock\<close> runs up to it,
  \<open>finish_unlock\<close> runs from it to the end, with what the verification answered, and \<open>abort_unlock\<close> is
  the listener on the caller's signal. A \<open>Symbol\<close> is the next number never used before.
  \<open>JSON\<close> objects are read by their own names; a workspace identifier is not the name of a member of
  \<open>Object.prototype\<close>. \<open>Number\<close> of a text, an array or an object is the argument \<open>N\<close>.
\<close>

section \<open>The password client\<close>

definition WORKSPACE_PASSWORD_MIN_LENGTH :: nat where "WORKSPACE_PASSWORD_MIN_LENGTH = 8"

datatype password_error =
    workspace_password_required
  | workspace_password_too_short
  | workspace_password_hash_failed
  | workspace_password_invalid_hash
  | workspace_password_unavailable

definition password_errors :: "(string \<times> password_error) list" where
  "password_errors =
     [(''workspace-password-required'', workspace_password_required),
      (''workspace-password-too-short'', workspace_password_too_short),
      (''workspace-password-hash-failed'', workspace_password_hash_failed),
      (''workspace-password-invalid-hash'', workspace_password_invalid_hash),
      (''workspace-password-unavailable'', workspace_password_unavailable)]"

text \<open>\<open>isWorkspacePasswordError\<close>, with the member of the union it has recognised.\<close>

definition isWorkspacePasswordError :: "js \<Rightarrow> password_error option" where
  "isWorkspacePasswordError value = (case value of JStr s \<Rightarrow> map_of password_errors s | _ \<Rightarrow> None)"

text \<open>What the native command does: there is no command interface, the command fails, or it answers
  with \<open>ok\<close>, the payload field and \<open>error\<close>.\<close>

datatype native_reply = NativeUnavailable | NativeThrows | NativeReply bool js js

definition createWorkspacePasswordHash :: "string \<Rightarrow> native_reply \<Rightarrow> password_error + string" where
  "createWorkspacePasswordHash password reply =
     (if password = [] then Inl workspace_password_required
      else if length password < WORKSPACE_PASSWORD_MIN_LENGTH then Inl workspace_password_too_short
      else (case reply of
              NativeUnavailable \<Rightarrow> Inl workspace_password_unavailable
            | NativeThrows \<Rightarrow> Inl workspace_password_hash_failed
            | NativeReply okay payload err \<Rightarrow>
                (case (okay, payload) of
                   (True, JStr h) \<Rightarrow> Inr h
                 | _ \<Rightarrow> Inl (case isWorkspacePasswordError err of Some e \<Rightarrow> e
                            | None \<Rightarrow> workspace_password_hash_failed))))"

definition verifyWorkspacePassword :: "string \<Rightarrow> native_reply \<Rightarrow> password_error + bool" where
  "verifyWorkspacePassword password reply =
     (if password = [] then Inl workspace_password_required
      else (case reply of
              NativeUnavailable \<Rightarrow> Inl workspace_password_unavailable
            | NativeThrows \<Rightarrow> Inl workspace_password_invalid_hash
            | NativeReply okay payload err \<Rightarrow>
                (case (okay, payload) of
                   (True, JBool m) \<Rightarrow> Inr m
                 | _ \<Rightarrow> Inl (case isWorkspacePasswordError err of Some e \<Rightarrow> e
                            | None \<Rightarrow> workspace_password_invalid_hash))))"

section \<open>Numbers\<close>

definition js_Number :: "(js \<Rightarrow> js_number) \<Rightarrow> js \<Rightarrow> js_number" where
  "js_Number N v = (case v of
     JInt n \<Rightarrow> Inl n | JNonInt x \<Rightarrow> Inr x | JNull \<Rightarrow> Inl 0 | JUndefined \<Rightarrow> Inr NotANumber
   | JBool b \<Rightarrow> Inl (if b then 1 else 0) | _ \<Rightarrow> N v)"

text \<open>\<open>x > t\<close> for an integer \<open>t\<close>.\<close>

definition number_exceeds :: "js_number \<Rightarrow> int \<Rightarrow> bool" where
  "number_exceeds x t = (case x of
     Inl n \<Rightarrow> n > t | Inr (Fraction n) \<Rightarrow> n \<ge> t | Inr PosInfinity \<Rightarrow> True | _ \<Rightarrow> False)"

text \<open>\<open>Math.max(1, Math.ceil((x - t) / 1000))\<close> for an \<open>x\<close> that exceeds \<open>t\<close>.\<close>

definition seconds_until :: "js_number \<Rightarrow> int \<Rightarrow> js_number" where
  "seconds_until x t = (case x of
     Inl n \<Rightarrow> Inl (max 1 (- ((t - n) div 1000)))
   | Inr (Fraction n) \<Rightarrow> Inl (max 1 ((n - t) div 1000 + 1))
   | Inr y \<Rightarrow> Inr y)"

text \<open>A number as \<open>JSON.stringify\<close> writes it: the infinite ones and NaN become null.\<close>

definition number_json :: "js_number \<Rightarrow> js" where
  "number_json x = (case x of Inl n \<Rightarrow> JInt n | Inr (Fraction n) \<Rightarrow> JNonInt (Fraction n) | _ \<Rightarrow> JNull)"

section \<open>State\<close>

definition WORKSPACE_UNLOCK_MAX_ATTEMPTS :: int where "WORKSPACE_UNLOCK_MAX_ATTEMPTS = 3"
definition WORKSPACE_UNLOCK_COOLDOWN_MS :: int where "WORKSPACE_UNLOCK_COOLDOWN_MS = 30000"

datatype unlock_error =
    workspace_unlock_password_required
  | workspace_unlock_rate_limited
  | workspace_unlock_invalid_password
  | workspace_unlock_unavailable
  | workspace_unlock_cancelled
  | workspace_unlock_invalid_hash

text \<open>\<open>Refused error attemptsRemaining lockedUntil\<close>\<close>

datatype unlock_result = Unlocked | Refused unlock_error int "js_number option"

record unlock_lockout =
  lo_failedAttempts :: int
  lo_attemptsRemaining :: int
  lo_isLocked :: bool
  lo_lockedUntil :: "js_number option"
  lo_secondsRemaining :: js_number

record unlock_attempts =
  at_failedAttempts :: int
  at_lockedUntil :: "js_number option"

record unlock_session =
  se_password :: "string option"
  se_lastActiveAt :: int

text \<open>
  \<open>us_sessions\<close> is \<open>unlockedWorkspaceSessions\<close> in insertion order, \<open>us_pending\<close> is
  \<open>pendingWorkspaceVerifications\<close>, \<open>us_stored\<close> the attempts in local storage (\<open>None\<close>: no item),
  \<open>us_writable\<close> whether \<open>setItem\<close> succeeds, \<open>us_notified\<close> the number of change events dispatched,
  \<open>us_symbols\<close> the number of symbols made.
\<close>

record unlock_state =
  us_sessions :: "(string \<times> unlock_session) list"
  us_pending :: "string \<rightharpoonup> nat"
  us_stored :: "js option"
  us_writable :: bool
  us_notified :: nat
  us_symbols :: nat

definition dispatchWorkspaceUnlockChanged :: "unlock_state \<Rightarrow> unlock_state" where
  "dispatchWorkspaceUnlockChanged st = st\<lparr>us_notified := us_notified st + 1\<rparr>"

section \<open>Sessions\<close>

definition workspaceRequiresUnlock :: "workspace_record option \<Rightarrow> bool" where
  "workspaceRequiresUnlock workspace = (case workspace of None \<Rightarrow> False | Some w \<Rightarrow> ws_lock w \<noteq> None)"

definition isWorkspaceUnlocked :: "unlock_state \<Rightarrow> workspace_record option \<Rightarrow> bool" where
  "isWorkspaceUnlocked st workspace =
     (if \<not> workspaceRequiresUnlock workspace then True
      else (case workspace of None \<Rightarrow> False | Some w \<Rightarrow> map_of (us_sessions st) (ws_id w) \<noteq> None))"

definition markWorkspaceUnlocked :: "unlock_state \<Rightarrow> string \<Rightarrow> string option \<Rightarrow> int \<Rightarrow> unlock_state" where
  "markWorkspaceUnlocked st workspaceId password dateNow =
     dispatchWorkspaceUnlockChanged
       (st\<lparr>us_pending := (us_pending st)(workspaceId := None),
           us_sessions := AList.update workspaceId \<lparr>se_password = password, se_lastActiveAt = dateNow\<rparr> (us_sessions st)\<rparr>)"

definition markWorkspaceLocked :: "unlock_state \<Rightarrow> string \<Rightarrow> unlock_state" where
  "markWorkspaceLocked st workspaceId =
     dispatchWorkspaceUnlockChanged
       (st\<lparr>us_pending := (us_pending st)(workspaceId := None),
           us_sessions := AList.delete workspaceId (us_sessions st)\<rparr>)"

definition readWorkspaceUnlockPasswordSession :: "unlock_state \<Rightarrow> string \<Rightarrow> string option" where
  "readWorkspaceUnlockPasswordSession st workspaceId =
     (case map_of (us_sessions st) workspaceId of None \<Rightarrow> None | Some s \<Rightarrow> se_password s)"

definition touchWorkspaceUnlockSessions :: "unlock_state \<Rightarrow> int \<Rightarrow> unlock_state" where
  "touchWorkspaceUnlockSessions st nowMs =
     st\<lparr>us_sessions := map (\<lambda>(i, s). (i, s\<lparr>se_lastActiveAt := nowMs\<rparr>)) (us_sessions st)\<rparr>"

text \<open>\<open>idleTimeoutMs\<close> as a number: one that is not finite or not positive never makes a session idle.\<close>

definition readIdleWorkspaceSessionIds :: "unlock_state \<Rightarrow> js_number \<Rightarrow> int \<Rightarrow> string list" where
  "readIdleWorkspaceSessionIds st idleTimeoutMs nowMs =
     (case finite_floor idleTimeoutMs of
        None \<Rightarrow> []
      | Some _ \<Rightarrow>
          if \<not> number_exceeds idleTimeoutMs 0 then []
          else concat (map (\<lambda>(i, s).
                 if \<not> number_exceeds idleTimeoutMs (nowMs - se_lastActiveAt s) then [i] else [])
                 (us_sessions st)))"

section \<open>Attempts\<close>

definition parseWorkspaceUnlockAttemptRecord :: "(js \<Rightarrow> js_number) \<Rightarrow> js \<Rightarrow> unlock_attempts option" where
  "parseWorkspaceUnlockAttemptRecord N value =
     (if \<not> isObjectRecord value then None
      else (let lockedUntil = (case js_prop value ''lockedUntil'' of
                                 JInt n \<Rightarrow> Some (Inl n) | JNonInt x \<Rightarrow> Some (Inr x) | _ \<Rightarrow> None)
            in (case finite_floor (js_Number N (js_prop value ''failedAttempts'')) of
                  None \<Rightarrow> None
                | Some n \<Rightarrow> Some \<lparr>at_failedAttempts = min WORKSPACE_UNLOCK_MAX_ATTEMPTS (max 0 n),
                                 at_lockedUntil = lockedUntil\<rparr>)))"

definition readWorkspaceUnlockAttempts :: "(js \<Rightarrow> js_number) \<Rightarrow> unlock_state \<Rightarrow> (string \<times> unlock_attempts) list" where
  "readWorkspaceUnlockAttempts N st =
     (case (case us_stored st of None \<Rightarrow> JObj [] | Some v \<Rightarrow> v) of
        JObj ps \<Rightarrow> concat (map (\<lambda>(i, raw). case parseWorkspaceUnlockAttemptRecord N raw of
                     None \<Rightarrow> [] | Some r \<Rightarrow> [(i, r)]) ps)
      | _ \<Rightarrow> [])"

definition attempts_js :: "(string \<times> unlock_attempts) list \<Rightarrow> js" where
  "attempts_js attempts = JObj (map (\<lambda>(i, r). (i, JObj
     [(''failedAttempts'', JInt (at_failedAttempts r)),
      (''lockedUntil'', case at_lockedUntil r of None \<Rightarrow> JNull | Some x \<Rightarrow> number_json x)])) attempts)"

definition writeWorkspaceUnlockAttempts :: "unlock_state \<Rightarrow> (string \<times> unlock_attempts) list \<Rightarrow> unlock_state" where
  "writeWorkspaceUnlockAttempts st attempts =
     (if us_writable st then st\<lparr>us_stored := Some (attempts_js attempts)\<rparr> else st)"

text \<open>The record of a workspace, or no failure and no cooldown.\<close>

definition attempts_for :: "(js \<Rightarrow> js_number) \<Rightarrow> unlock_state \<Rightarrow> string \<Rightarrow> unlock_attempts" where
  "attempts_for N st workspaceId =
     (case map_of (readWorkspaceUnlockAttempts N st) workspaceId of
        None \<Rightarrow> \<lparr>at_failedAttempts = 0, at_lockedUntil = None\<rparr>
      | Some r \<Rightarrow> r)"

definition getWorkspaceUnlockLockout :: "(js \<Rightarrow> js_number) \<Rightarrow> unlock_state \<Rightarrow> string \<Rightarrow> int \<Rightarrow> unlock_lockout" where
  "getWorkspaceUnlockLockout N st workspaceId nowMs =
     (let attempts = attempts_for N st workspaceId;
          lockedUntil = at_lockedUntil attempts;
          isLocked = (case lockedUntil of None \<Rightarrow> False | Some x \<Rightarrow> number_exceeds x nowMs);
          failedAttempts = (if isLocked then WORKSPACE_UNLOCK_MAX_ATTEMPTS else at_failedAttempts attempts)
      in \<lparr>lo_failedAttempts = failedAttempts,
          lo_attemptsRemaining = max 0 (WORKSPACE_UNLOCK_MAX_ATTEMPTS - failedAttempts),
          lo_isLocked = isLocked,
          lo_lockedUntil = (if isLocked then lockedUntil else None),
          lo_secondsRemaining =
            (case lockedUntil of Some x \<Rightarrow> if isLocked then seconds_until x nowMs else Inl 0 | None \<Rightarrow> Inl 0)\<rparr>)"

definition recordWorkspaceUnlockFailure ::
  "(js \<Rightarrow> js_number) \<Rightarrow> unlock_state \<Rightarrow> string \<Rightarrow> int \<Rightarrow> unlock_state \<times> unlock_result" where
  "recordWorkspaceUnlockFailure N st workspaceId nowMs =
     (let attemptsByWorkspace = readWorkspaceUnlockAttempts N st;
          currentRecord = attempts_for N st workspaceId;
          failedAttempts = at_failedAttempts currentRecord + 1;
          shouldLock = (failedAttempts \<ge> WORKSPACE_UNLOCK_MAX_ATTEMPTS);
          nextRecord = \<lparr>at_failedAttempts = (if shouldLock then WORKSPACE_UNLOCK_MAX_ATTEMPTS else failedAttempts),
                        at_lockedUntil = (if shouldLock then Some (Inl (nowMs + WORKSPACE_UNLOCK_COOLDOWN_MS)) else None)\<rparr>
      in (writeWorkspaceUnlockAttempts st (AList.update workspaceId nextRecord attemptsByWorkspace),
          Refused (if shouldLock then workspace_unlock_rate_limited else workspace_unlock_invalid_password)
            (max 0 (WORKSPACE_UNLOCK_MAX_ATTEMPTS - at_failedAttempts nextRecord)) (at_lockedUntil nextRecord)))"

definition clearWorkspaceUnlockAttempt :: "(js \<Rightarrow> js_number) \<Rightarrow> unlock_state \<Rightarrow> string \<Rightarrow> unlock_state" where
  "clearWorkspaceUnlockAttempt N st workspaceId =
     (let attemptsByWorkspace = readWorkspaceUnlockAttempts N st in
      if map_of attemptsByWorkspace workspaceId = None then st
      else writeWorkspaceUnlockAttempts st (AList.delete workspaceId attemptsByWorkspace))"

fun mapPasswordErrorToUnlockError :: "password_error \<Rightarrow> unlock_error" where
  "mapPasswordErrorToUnlockError workspace_password_required = workspace_unlock_password_required"
| "mapPasswordErrorToUnlockError workspace_password_unavailable = workspace_unlock_unavailable"
| "mapPasswordErrorToUnlockError workspace_password_hash_failed = workspace_unlock_unavailable"
| "mapPasswordErrorToUnlockError _ = workspace_unlock_invalid_hash"

section \<open>Unlocking\<close>

text \<open>A call of \<open>unlockWorkspace\<close> that waits for its verification: its arguments, its symbol and the
  lockout it has read.\<close>

record unlock_call =
  uc_workspace :: workspace_record
  uc_password :: string
  uc_nowMs :: int
  uc_attempt :: nat
  uc_lockout :: unlock_lockout

definition cancelled :: "(js \<Rightarrow> js_number) \<Rightarrow> unlock_state \<Rightarrow> string \<Rightarrow> int \<Rightarrow> unlock_result" where
  "cancelled N st workspaceId nowMs =
     (let current = getWorkspaceUnlockLockout N st workspaceId nowMs in
      Refused workspace_unlock_cancelled (lo_attemptsRemaining current) (lo_lockedUntil current))"

definition begin_unlock ::
  "(js \<Rightarrow> js_number) \<Rightarrow> unlock_state \<Rightarrow> workspace_record \<Rightarrow> string \<Rightarrow> int \<Rightarrow> bool \<Rightarrow> int \<Rightarrow>
   unlock_state \<times> (unlock_result + unlock_call)" where
  "begin_unlock N st workspace password nowMs aborted dateNow =
     (if aborted then (st, Inl (cancelled N st (ws_id workspace) nowMs))
      else if \<not> workspaceRequiresUnlock (Some workspace)
      then (markWorkspaceUnlocked st (ws_id workspace) None dateNow, Inl Unlocked)
      else (let lockout = getWorkspaceUnlockLockout N st (ws_id workspace) nowMs in
            if lo_isLocked lockout
            then (st, Inl (Refused workspace_unlock_rate_limited 0 (lo_lockedUntil lockout)))
            else if password = []
            then (st, Inl (Refused workspace_unlock_password_required (lo_attemptsRemaining lockout) None))
            else (let attempt = us_symbols st in
                  (st\<lparr>us_symbols := attempt + 1, us_pending := (us_pending st)(ws_id workspace \<mapsto> attempt)\<rparr>,
                   Inr \<lparr>uc_workspace = workspace, uc_password = password, uc_nowMs = nowMs,
                        uc_attempt = attempt, uc_lockout = lockout\<rparr>))))"

abbreviation uc_id :: "unlock_call \<Rightarrow> string" where
  "uc_id c \<equiv> ws_id (uc_workspace c)"

text \<open>The listener on the signal; the \<open>finally\<close> block does the same.\<close>

definition abort_unlock :: "unlock_state \<Rightarrow> unlock_call \<Rightarrow> unlock_state" where
  "abort_unlock st c =
     (if us_pending st (uc_id c) = Some (uc_attempt c)
      then st\<lparr>us_pending := (us_pending st)(uc_id c := None)\<rparr> else st)"

text \<open>The \<open>try\<close> block after the \<open>await\<close>; \<open>finish_unlock\<close> adds the \<open>finally\<close> block.\<close>

definition conclude_unlock ::
  "(js \<Rightarrow> js_number) \<Rightarrow> unlock_state \<Rightarrow> unlock_call \<Rightarrow> bool \<Rightarrow> int \<Rightarrow> password_error + bool \<Rightarrow>
   unlock_state \<times> unlock_result" where
  "conclude_unlock N st c aborted dateNow verification =
     (if aborted \<or> us_pending st (uc_id c) \<noteq> Some (uc_attempt c)
      then (st, cancelled N st (uc_id c) (uc_nowMs c))
      else (case verification of
              Inl e \<Rightarrow> (st, Refused (mapPasswordErrorToUnlockError e) (lo_attemptsRemaining (uc_lockout c)) None)
            | Inr matched \<Rightarrow>
                if matched
                then (markWorkspaceUnlocked (clearWorkspaceUnlockAttempt N st (uc_id c)) (uc_id c)
                        (Some (uc_password c)) dateNow, Unlocked)
                else recordWorkspaceUnlockFailure N st (uc_id c) (uc_nowMs c)))"

definition finish_unlock ::
  "(js \<Rightarrow> js_number) \<Rightarrow> unlock_state \<Rightarrow> unlock_call \<Rightarrow> bool \<Rightarrow> int \<Rightarrow> password_error + bool \<Rightarrow>
   unlock_state \<times> unlock_result" where
  "finish_unlock N st c aborted dateNow verification =
     (let (st', result) = conclude_unlock N st c aborted dateNow verification in (abort_unlock st' c, result))"

end
