(* ===== verification/Unlock_System.thy ===== *)
theory Unlock_System
  imports Workspace_Unlock
begin

text \<open>
  The unlock module as a system: calls of \<open>unlockWorkspace\<close> overlap, the caller's signals abort them,
  workspaces are locked and trusted in between, other windows change the stored attempts. Each event
  carries what was observed of it. An abstract lock (which workspaces are open, which verification is
  the current one) specifies it; the system refines that specification.
\<close>

section \<open>The specification\<close>

record lock_spec =
  sp_open :: "string set"
  sp_current :: "string \<rightharpoonup> nat"
  sp_used :: "nat set"

datatype spec_event =
    SBegin string nat
  | SPass string nat
  | SStop string nat
  | SLock string
  | STrust string
  | SSkip

inductive spec_step :: "lock_spec \<Rightarrow> spec_event \<Rightarrow> lock_spec \<Rightarrow> bool" where
  "n \<notin> sp_used s \<Longrightarrow>
   spec_step s (SBegin i n) (s\<lparr>sp_current := (sp_current s)(i \<mapsto> n), sp_used := insert n (sp_used s)\<rparr>)"
| "sp_current s i = Some n \<Longrightarrow>
   spec_step s (SPass i n) (s\<lparr>sp_open := insert i (sp_open s), sp_current := (sp_current s)(i := None)\<rparr>)"
| "spec_step s (SStop i n)
     (if sp_current s i = Some n then s\<lparr>sp_current := (sp_current s)(i := None)\<rparr> else s)"
| "spec_step s (SLock i) (s\<lparr>sp_open := sp_open s - {i}, sp_current := (sp_current s)(i := None)\<rparr>)"
| "spec_step s (STrust i) (s\<lparr>sp_open := insert i (sp_open s), sp_current := (sp_current s)(i := None)\<rparr>)"
| "spec_step s SSkip s"

inductive_simps spec_step_simps:
  "spec_step s (SBegin i n) s'" "spec_step s (SPass i n) s'" "spec_step s (SStop i n) s'"
  "spec_step s (SLock i) s'" "spec_step s (STrust i) s'" "spec_step s SSkip s'"

inductive spec_run :: "lock_spec \<Rightarrow> spec_event list \<Rightarrow> lock_spec \<Rightarrow> bool" where
  spec_nil: "spec_run s [] s"
| spec_snoc: "spec_run s evs s' \<Longrightarrow> spec_step s' e s'' \<Longrightarrow> spec_run s (evs @ [e]) s''"

inductive_cases spec_run_nilE: "spec_run s [] s'"

text \<open>A closed workspace without a current verification is opened only by trust, or by the passing of a
  verification that was begun since.\<close>

lemma spec_opened_since:
  assumes "spec_run s evs s'" and "i \<notin> sp_open s" and "sp_current s i = None"
  shows "(i \<in> sp_open s' \<longrightarrow> STrust i \<in> set evs \<or> (\<exists>n. SBegin i n \<in> set evs \<and> SPass i n \<in> set evs)) \<and>
    (\<forall>n. sp_current s' i = Some n \<longrightarrow> SBegin i n \<in> set evs)"
  using assms
proof (induction rule: spec_run.induct)
  case (spec_snoc s evs s' e s'')
  then show ?case
    by (cases e) (auto simp: spec_step_simps split: if_splits)
qed simp

text \<open>A verification that was stopped, or that was overtaken by another one, never passes.\<close>

lemma spec_used_mono: "spec_run s evs s' \<Longrightarrow> sp_used s \<subseteq> sp_used s'"
proof (induction rule: spec_run.induct)
  case (spec_snoc s evs s' e s'')
  then show ?case by (cases e) (auto simp: spec_step_simps split: if_splits)
qed simp

lemma spec_stopped_never_passes:
  assumes "spec_run s evs s'" and "n \<in> sp_used s" and "sp_current s i \<noteq> Some n"
  shows "sp_current s' i \<noteq> Some n \<and> SPass i n \<notin> set evs"
  using assms
proof (induction rule: spec_run.induct)
  case (spec_snoc s evs s' e s'')
  then show ?case
    using spec_used_mono [OF spec_snoc.hyps(1)]
    by (cases e) (auto simp: spec_step_simps split: if_splits)
qed simp

section \<open>The system\<close>

text \<open>The calls that wait for their verification, and the symbols of those whose signal has fired.\<close>

record unlock_system =
  sy_state :: unlock_state
  sy_calls :: "unlock_call list"
  sy_aborted :: "nat set"

datatype unlock_event =
    Answered workspace_record unlock_result   \<comment> \<open>\<open>unlockWorkspace\<close> returned without a verification\<close>
  | Began unlock_call
  | Aborted unlock_call
  | Finished unlock_call native_reply unlock_result
  | Locked string
  | Trusted string "string option"
  | Touched int
  | StorageChanged "js option" bool

text \<open>
  \<open>good p h\<close>: the native verifier accepts the password \<open>p\<close> for the hash \<open>h\<close>; it is the only thing
  assumed of it that it reports a match for no other pair.
\<close>

definition call_hash :: "unlock_call \<Rightarrow> string" where
  "call_hash c = (case ws_lock (uc_workspace c) of None \<Rightarrow> [] | Some l \<Rightarrow> lk_passwordHash l)"

inductive unlock_step ::
  "(js \<Rightarrow> js_number) \<Rightarrow> (string \<Rightarrow> string \<Rightarrow> bool) \<Rightarrow> unlock_system \<Rightarrow> unlock_event \<Rightarrow> unlock_system \<Rightarrow> bool"
  for N good where
  answered: "begin_unlock N (sy_state s) w p now aborted clock = (st, Inl res) \<Longrightarrow>
     unlock_step N good s (Answered w res) (s\<lparr>sy_state := st\<rparr>)"
| began: "begin_unlock N (sy_state s) w p now aborted clock = (st, Inr c) \<Longrightarrow>
     unlock_step N good s (Began c) (s\<lparr>sy_state := st, sy_calls := c # sy_calls s\<rparr>)"
| aborted: "c \<in> set (sy_calls s) \<Longrightarrow>
     unlock_step N good s (Aborted c)
       (s\<lparr>sy_state := abort_unlock (sy_state s) c, sy_aborted := insert (uc_attempt c) (sy_aborted s)\<rparr>)"
| finished: "c \<in> set (sy_calls s) \<Longrightarrow>
     (verifyWorkspacePassword (uc_password c) reply = Inr True \<Longrightarrow> good (uc_password c) (call_hash c)) \<Longrightarrow>
     finish_unlock N (sy_state s) c (uc_attempt c \<in> sy_aborted s) clock
       (verifyWorkspacePassword (uc_password c) reply) = (st, res) \<Longrightarrow>
     unlock_step N good s (Finished c reply res) (s\<lparr>sy_state := st, sy_calls := removeAll c (sy_calls s)\<rparr>)"
| locked: "unlock_step N good s (Locked i) (s\<lparr>sy_state := markWorkspaceLocked (sy_state s) i\<rparr>)"
| trusted: "unlock_step N good s (Trusted i p) (s\<lparr>sy_state := markWorkspaceUnlocked (sy_state s) i p clock\<rparr>)"
| touched: "unlock_step N good s (Touched now) (s\<lparr>sy_state := touchWorkspaceUnlockSessions (sy_state s) now\<rparr>)"
| storage: "unlock_step N good s (StorageChanged v writable)
     (s\<lparr>sy_state := (sy_state s)\<lparr>us_stored := v, us_writable := writable\<rparr>\<rparr>)"

inductive_cases unlock_stepE: "unlock_step N good s e s'"

inductive unlock_run ::
  "(js \<Rightarrow> js_number) \<Rightarrow> (string \<Rightarrow> string \<Rightarrow> bool) \<Rightarrow> unlock_system \<Rightarrow> unlock_event list \<Rightarrow> unlock_system \<Rightarrow> bool"
  for N good where
  run_nil: "unlock_run N good s [] s"
| run_snoc: "unlock_run N good s evs s' \<Longrightarrow> unlock_step N good s' e s'' \<Longrightarrow> unlock_run N good s (evs @ [e]) s''"

text \<open>The module when it has been loaded, with whatever is in local storage.\<close>

definition initial_unlock :: "js option \<Rightarrow> bool \<Rightarrow> unlock_system" where
  "initial_unlock v writable =
     \<lparr>sy_state = \<lparr>us_sessions = [], us_pending = Map.empty, us_stored = v, us_writable = writable,
                  us_notified = 0, us_symbols = 0\<rparr>, sy_calls = [], sy_aborted = {}\<rparr>"

section \<open>What the operations do to sessions and verifications\<close>

named_theorems unlock_fields \<open>fields of the unlock state after an operation\<close>

lemma dispatch_fields [unlock_fields]:
  "us_sessions (dispatchWorkspaceUnlockChanged st) = us_sessions st"
  "us_pending (dispatchWorkspaceUnlockChanged st) = us_pending st"
  "us_stored (dispatchWorkspaceUnlockChanged st) = us_stored st"
  "us_writable (dispatchWorkspaceUnlockChanged st) = us_writable st"
  "us_symbols (dispatchWorkspaceUnlockChanged st) = us_symbols st"
  by (simp_all add: dispatchWorkspaceUnlockChanged_def)

lemma unlocked_fields [unlock_fields]:
  "us_sessions (markWorkspaceUnlocked st i p t) = AList.update i \<lparr>se_password = p, se_lastActiveAt = t\<rparr> (us_sessions st)"
  "us_pending (markWorkspaceUnlocked st i p t) = (us_pending st)(i := None)"
  "us_stored (markWorkspaceUnlocked st i p t) = us_stored st"
  "us_writable (markWorkspaceUnlocked st i p t) = us_writable st"
  "us_symbols (markWorkspaceUnlocked st i p t) = us_symbols st"
  by (simp_all add: markWorkspaceUnlocked_def unlock_fields)

lemma locked_fields [unlock_fields]:
  "us_sessions (markWorkspaceLocked st i) = AList.delete i (us_sessions st)"
  "us_pending (markWorkspaceLocked st i) = (us_pending st)(i := None)"
  "us_stored (markWorkspaceLocked st i) = us_stored st"
  "us_writable (markWorkspaceLocked st i) = us_writable st"
  "us_symbols (markWorkspaceLocked st i) = us_symbols st"
  by (simp_all add: markWorkspaceLocked_def unlock_fields)

lemma touched_fields [unlock_fields]:
  "us_pending (touchWorkspaceUnlockSessions st t) = us_pending st"
  "us_stored (touchWorkspaceUnlockSessions st t) = us_stored st"
  "us_writable (touchWorkspaceUnlockSessions st t) = us_writable st"
  "us_symbols (touchWorkspaceUnlockSessions st t) = us_symbols st"
  by (simp_all add: touchWorkspaceUnlockSessions_def)

lemma written_fields [unlock_fields]:
  "us_sessions (writeWorkspaceUnlockAttempts st as) = us_sessions st"
  "us_pending (writeWorkspaceUnlockAttempts st as) = us_pending st"
  "us_writable (writeWorkspaceUnlockAttempts st as) = us_writable st"
  "us_symbols (writeWorkspaceUnlockAttempts st as) = us_symbols st"
  by (simp_all add: writeWorkspaceUnlockAttempts_def)

lemma cleared_fields [unlock_fields]:
  "us_sessions (clearWorkspaceUnlockAttempt N st i) = us_sessions st"
  "us_pending (clearWorkspaceUnlockAttempt N st i) = us_pending st"
  "us_writable (clearWorkspaceUnlockAttempt N st i) = us_writable st"
  "us_symbols (clearWorkspaceUnlockAttempt N st i) = us_symbols st"
  by (simp_all add: clearWorkspaceUnlockAttempt_def Let_def unlock_fields)

lemma failure_fields [unlock_fields]:
  "us_sessions (fst (recordWorkspaceUnlockFailure N st i t)) = us_sessions st"
  "us_pending (fst (recordWorkspaceUnlockFailure N st i t)) = us_pending st"
  "us_writable (fst (recordWorkspaceUnlockFailure N st i t)) = us_writable st"
  "us_symbols (fst (recordWorkspaceUnlockFailure N st i t)) = us_symbols st"
  by (simp_all add: recordWorkspaceUnlockFailure_def Let_def unlock_fields)

lemma aborted_fields [unlock_fields]:
  "us_sessions (abort_unlock st c) = us_sessions st"
  "us_pending (abort_unlock st c) =
     (us_pending st)(uc_id c := if us_pending st (uc_id c) = Some (uc_attempt c) then None else us_pending st (uc_id c))"
  "us_stored (abort_unlock st c) = us_stored st"
  "us_writable (abort_unlock st c) = us_writable st"
  "us_symbols (abort_unlock st c) = us_symbols st"
  by (auto simp: abort_unlock_def)

definition open_workspaces :: "unlock_state \<Rightarrow> string set" where
  "open_workspaces st = set (map fst (us_sessions st))"

lemma open_session: "i \<in> open_workspaces st \<longleftrightarrow> map_of (us_sessions st) i \<noteq> None"
  by (auto simp: open_workspaces_def map_of_eq_None_iff)

lemma open_fields [unlock_fields]:
  "open_workspaces (markWorkspaceUnlocked st i p t) = insert i (open_workspaces st)"
  "open_workspaces (markWorkspaceLocked st i) = open_workspaces st - {i}"
  "open_workspaces (touchWorkspaceUnlockSessions st t) = open_workspaces st"
  "open_workspaces (abort_unlock st c) = open_workspaces st"
  by (auto simp: open_workspaces_def unlock_fields update_keys delete_keys touchWorkspaceUnlockSessions_def
      comp_def case_prod_unfold simp del: set_map)

text \<open>How a call ends: it passes, and then it was the current verification and a match was reported; or
  nothing is opened and it is no longer the current one.\<close>

lemma finish_cases:
  assumes "finish_unlock N st c ab clock v = (st', res)"
  obtains
    (pass) "res = Unlocked" "\<not> ab" "us_pending st (uc_id c) = Some (uc_attempt c)" "v = Inr True"
      "st' = markWorkspaceUnlocked (clearWorkspaceUnlockAttempt N st (uc_id c)) (uc_id c) (Some (uc_password c)) clock"
  | (wrong) "\<not> ab" "us_pending st (uc_id c) = Some (uc_attempt c)" "v = Inr False"
      "st' = abort_unlock (fst (recordWorkspaceUnlockFailure N st (uc_id c) (uc_nowMs c))) c"
      "res = snd (recordWorkspaceUnlockFailure N st (uc_id c) (uc_nowMs c))"
  | (error) e where "\<not> ab" "us_pending st (uc_id c) = Some (uc_attempt c)" "v = Inl e"
      "st' = abort_unlock st c"
      "res = Refused (mapPasswordErrorToUnlockError e) (lo_attemptsRemaining (uc_lockout c)) None"
  | (cancelled) "ab \<or> us_pending st (uc_id c) \<noteq> Some (uc_attempt c)" "st' = abort_unlock st c"
      "res = cancelled N st (uc_id c) (uc_nowMs c)"
proof (cases "ab \<or> us_pending st (uc_id c) \<noteq> Some (uc_attempt c)")
  case True
  then show ?thesis using cancelled assms by (auto simp: finish_unlock_def conclude_unlock_def)
next
  case False
  show ?thesis
  proof (cases v)
    case (Inl e)
    then show ?thesis using error [of e] False assms by (auto simp: finish_unlock_def conclude_unlock_def)
  next
    case (Inr m)
    show ?thesis
    proof (cases m)
      case True
      then show ?thesis
        using pass False assms Inr by (auto simp: finish_unlock_def conclude_unlock_def abort_unlock_def unlock_fields)
    next
      case m: False
      then show ?thesis
        using wrong False assms Inr by (auto simp: finish_unlock_def conclude_unlock_def split: prod.splits)
    qed
  qed
qed

lemma failure_refused: "\<exists>e n l. snd (recordWorkspaceUnlockFailure N st i t) = Refused e n l"
  by (simp add: recordWorkspaceUnlockFailure_def Let_def)

lemma begin_cases:
  assumes "begin_unlock N st w p now ab clock = (st', out)"
  obtains
    (free) "ws_lock w = None" "out = Inl Unlocked" "st' = markWorkspaceUnlocked st (ws_id w) None clock"
  | (refused) e n l where "out = Inl (Refused e n l)" "st' = st"
  | (waits) c where "out = Inr c" "ws_lock w \<noteq> None" "uc_workspace c = w" "uc_password c = p" "uc_nowMs c = now"
      "uc_attempt c = us_symbols st" "p \<noteq> []" "\<not> lo_isLocked (getWorkspaceUnlockLockout N st (ws_id w) now)"
      "st' = st\<lparr>us_symbols := us_symbols st + 1, us_pending := (us_pending st)(ws_id w \<mapsto> us_symbols st)\<rparr>"
proof (cases "ab")
  case True
  then show ?thesis using refused assms by (auto simp: begin_unlock_def cancelled_def Let_def)
next
  case ab: False
  show ?thesis
  proof (cases "ws_lock w = None")
    case True
    then show ?thesis using free assms ab by (auto simp: begin_unlock_def workspaceRequiresUnlock_def)
  next
    case lock: False
    let ?lo = "getWorkspaceUnlockLockout N st (ws_id w) now"
    show ?thesis
    proof (cases "lo_isLocked ?lo \<or> p = []")
      case True
      then show ?thesis
        using refused assms ab lock
        by (cases "lo_isLocked ?lo") (auto simp: begin_unlock_def workspaceRequiresUnlock_def Let_def)
    next
      case False
      then show ?thesis
        using waits [of "\<lparr>uc_workspace = w, uc_password = p, uc_nowMs = now, uc_attempt = us_symbols st, uc_lockout = ?lo\<rparr>"]
          assms ab lock
        by (auto simp: begin_unlock_def workspaceRequiresUnlock_def Let_def)
    qed
  qed
qed

section \<open>Refinement\<close>

definition abstract_lock :: "unlock_system \<Rightarrow> lock_spec" where
  "abstract_lock s = \<lparr>sp_open = open_workspaces (sy_state s), sp_current = us_pending (sy_state s),
     sp_used = {n. n < us_symbols (sy_state s)}\<rparr>"

fun abstract_event :: "unlock_event \<Rightarrow> spec_event" where
  "abstract_event (Answered w res) = (if res = Unlocked then STrust (ws_id w) else SSkip)"
| "abstract_event (Began c) = SBegin (uc_id c) (uc_attempt c)"
| "abstract_event (Aborted c) = SStop (uc_id c) (uc_attempt c)"
| "abstract_event (Finished c reply res) =
     (if res = Unlocked then SPass (uc_id c) (uc_attempt c) else SStop (uc_id c) (uc_attempt c))"
| "abstract_event (Locked i) = SLock i"
| "abstract_event (Trusted i p) = STrust i"
| "abstract_event _ = SSkip"

lemma open_workspaces_cong: "us_sessions a = us_sessions b \<Longrightarrow> open_workspaces a = open_workspaces b"
  by (simp add: open_workspaces_def)

lemma open_other_fields [unlock_fields]:
  "open_workspaces (st\<lparr>us_symbols := n, us_pending := q\<rparr>) = open_workspaces st"
  "open_workspaces (st\<lparr>us_stored := v, us_writable := b\<rparr>) = open_workspaces st"
  by (simp_all add: open_workspaces_def)

lemma finish_refines:
  assumes "finish_unlock N st c ab clock v = (st', res)"
  shows "us_symbols st' = us_symbols st \<and>
    (if res = Unlocked
     then us_pending st (uc_id c) = Some (uc_attempt c) \<and> open_workspaces st' = insert (uc_id c) (open_workspaces st) \<and>
          us_pending st' = (us_pending st)(uc_id c := None)
     else open_workspaces st' = open_workspaces st \<and>
          us_pending st' = (if us_pending st (uc_id c) = Some (uc_attempt c)
                            then (us_pending st)(uc_id c := None) else us_pending st))"
  using assms
proof (cases rule: finish_cases)
  case pass
  then show ?thesis
    by (simp add: unlock_fields open_workspaces_cong [of "clearWorkspaceUnlockAttempt N st (uc_id c)" st])
next
  case wrong
  then show ?thesis
    using failure_refused [of N st "uc_id c" "uc_nowMs c"]
    by (auto simp: unlock_fields open_workspaces_cong [of "fst (recordWorkspaceUnlockFailure N st (uc_id c) (uc_nowMs c))" st])
qed (auto simp: unlock_fields cancelled_def Let_def)

lemma step_refines:
  assumes "unlock_step N good s e s'"
  shows "spec_step (abstract_lock s) (abstract_event e) (abstract_lock s')"
  using assms
proof (cases rule: unlock_step.cases)
  case (answered w p now ab clock st res)
  from answered(3) show ?thesis
    by (cases rule: begin_cases) (auto simp: answered abstract_lock_def spec_step_simps unlock_fields)
next
  case (began w p now ab clock st c)
  from began(3) show ?thesis
    by (cases rule: begin_cases) (auto simp: began abstract_lock_def spec_step_simps unlock_fields)
next
  case (finished c reply clock st res)
  show ?thesis
    using finish_refines [OF finished(5)] by (auto simp: finished abstract_lock_def spec_step_simps)
qed (auto simp: abstract_lock_def spec_step_simps unlock_fields)

lemma run_refines: "unlock_run N good s evs s' \<Longrightarrow> spec_run (abstract_lock s) (map abstract_event evs) (abstract_lock s')"
proof (induction rule: unlock_run.induct)
  case run_nil
  show ?case by (simp add: spec_nil)
next
  case run_snoc
  then show ?case using step_refines spec_snoc by fastforce
qed

section \<open>Runs\<close>

lemma run_nil_iff [simp]: "unlock_run N good s [] s' \<longleftrightarrow> s' = s"
  by (auto intro: run_nil elim: unlock_run.cases)

lemma run_snoc_iff [simp]:
  "unlock_run N good s (xs @ [e]) s' \<longleftrightarrow> (\<exists>m. unlock_run N good s xs m \<and> unlock_step N good m e s')"
  by (auto intro: run_snoc elim: unlock_run.cases)

lemma run_single [simp]: "unlock_run N good s [e] s' \<longleftrightarrow> unlock_step N good s e s'"
  using run_snoc_iff [of N good s "[]" e s'] by simp

lemma run_append: "unlock_run N good s (a @ b) s' \<longleftrightarrow> (\<exists>m. unlock_run N good s a m \<and> unlock_run N good m b s')"
proof (induction b arbitrary: s' rule: rev_induct)
  case (snoc e b)
  show ?case unfolding append_assoc [symmetric] run_snoc_iff using snoc.IH by blast
qed simp

lemma run_Cons: "unlock_run N good s (e # b) s' \<longleftrightarrow> (\<exists>m. unlock_step N good s e m \<and> unlock_run N good m b s')"
  using run_append [of N good s "[e]" b s'] by simp

text \<open>Every call that waits was begun, and no two calls ever begun have the same symbol.\<close>

definition calls_known :: "unlock_event list \<Rightarrow> unlock_system \<Rightarrow> bool" where
  "calls_known evs s \<longleftrightarrow>
     (\<forall>c \<in> set (sy_calls s). Began c \<in> set evs) \<and>
     (\<forall>c reply res. Finished c reply res \<in> set evs \<or> Aborted c \<in> set evs \<longrightarrow> Began c \<in> set evs) \<and>
     (\<forall>c. Began c \<in> set evs \<longrightarrow> uc_attempt c < us_symbols (sy_state s)) \<and>
     (\<forall>c c'. Began c \<in> set evs \<longrightarrow> Began c' \<in> set evs \<longrightarrow> uc_attempt c = uc_attempt c' \<longrightarrow> c = c')"

lemma calls_known_step:
  assumes "calls_known evs s" and "unlock_step N good s e s'"
  shows "calls_known (evs @ [e]) s'"
  using assms(2,1)
proof (cases rule: unlock_step.cases)
  case (answered w p now ab clock st res)
  from answered(3) have "us_symbols st = us_symbols (sy_state s)"
    by (cases rule: begin_cases) (auto simp: unlock_fields)
  with answered assms(1) show ?thesis by (auto simp: calls_known_def)
next
  case (began w p now ab clock st c)
  from began(3) have "us_symbols st = us_symbols (sy_state s) + 1" "uc_attempt c = us_symbols (sy_state s)"
    by (cases rule: begin_cases; simp)+
  with began assms(1) show ?thesis by (fastforce simp: calls_known_def)
next
  case (finished c reply clock st res)
  have "us_symbols st = us_symbols (sy_state s)" using finish_refines [OF finished(5)] by simp
  with finished assms(1) show ?thesis by (auto simp: calls_known_def)
qed (auto simp: calls_known_def unlock_fields)

lemma calls_known_run: "unlock_run N good s evs s' \<Longrightarrow> calls_known pre s \<Longrightarrow> calls_known (pre @ evs) s'"
proof (induction rule: unlock_run.induct)
  case (run_snoc s evs s' e s'')
  then show ?case using calls_known_step [of "pre @ evs" s'] by simp
qed simp

lemma calls_known_initial: "calls_known [] (initial_unlock v b)"
  by (simp add: calls_known_def initial_unlock_def)

end
