(* ===== verification/Unlock_Lockout.thy ===== *)
theory Unlock_Lockout
  imports Unlock_System
begin

text \<open>
  Stale verifications and the cooldown: a verification that is no longer the current one is cancelled;
  what a write to the stored attempts is read back as; while a workspace is locked out no password is
  evaluated for it, however the calls overlap.
\<close>

section \<open>Stale verifications\<close>

lemma finished_not_current:
  assumes "unlock_step N good s (Finished c reply res) s'" and "us_pending (sy_state s) (uc_id c) \<noteq> Some (uc_attempt c)"
  shows "\<exists>n l. res = Refused workspace_unlock_cancelled n l"
  using assms by (auto elim!: unlock_stepE simp: finish_unlock_def conclude_unlock_def cancelled_def Let_def)

lemma stopped_stays_stopped:
  assumes "unlock_run N good s evs s'" and "uc_attempt c < us_symbols (sy_state s)"
    and "us_pending (sy_state s) (uc_id c) \<noteq> Some (uc_attempt c)" and "Finished c reply res \<in> set evs"
  shows "\<exists>n l. res = Refused workspace_unlock_cancelled n l"
proof -
  obtain xs ys where "evs = (xs @ [Finished c reply res]) @ ys"
    using assms(4) by (metis append.assoc append_Cons append_Nil split_list)
  then obtain m m' where m: "unlock_run N good s xs m" and st: "unlock_step N good m (Finished c reply res) m'"
    using assms(1) by (auto simp only: run_append run_snoc_iff run_single)
  have "sp_current (abstract_lock m) (uc_id c) \<noteq> Some (uc_attempt c)"
    using spec_stopped_never_passes [OF run_refines [OF m]] assms(2,3) by (simp add: abstract_lock_def)
  then show ?thesis using finished_not_current [OF st] by (simp add: abstract_lock_def)
qed

text \<open>The events after which an earlier verification of the workspace is stale.\<close>

fun supersedes :: "unlock_event \<Rightarrow> unlock_call \<Rightarrow> bool" where
  "supersedes (Aborted c') c \<longleftrightarrow> c' = c"
| "supersedes (Began c') c \<longleftrightarrow> uc_id c' = uc_id c"
| "supersedes (Locked i) c \<longleftrightarrow> i = uc_id c"
| "supersedes (Trusted i p) c \<longleftrightarrow> i = uc_id c"
| "supersedes _ c \<longleftrightarrow> False"

lemma superseded_not_current:
  assumes "unlock_step N good s e s'" and "supersedes e c" and "uc_attempt c < us_symbols (sy_state s)"
  shows "us_pending (sy_state s') (uc_id c) \<noteq> Some (uc_attempt c) \<and> uc_attempt c < us_symbols (sy_state s')"
  using assms(1,2)
proof (cases rule: unlock_step.cases)
  case (began w p now ab clock st c')
  from began(3) have "us_symbols st = us_symbols (sy_state s) + 1 \<and> uc_workspace c' = w \<and>
      us_pending st = (us_pending (sy_state s))(ws_id w \<mapsto> us_symbols (sy_state s))"
    by (cases rule: begin_cases) auto
  then show ?thesis using began assms by auto
qed (use assms(3) in \<open>auto simp: unlock_fields\<close>)

lemma superseded_is_cancelled:
  assumes run: "unlock_run N good (initial_unlock v b) (evs0 @ e # evs1) s"
    and "Began c \<in> set evs0" and "supersedes e c" and "Finished c reply res \<in> set evs1"
  shows "\<exists>n l. res = Refused workspace_unlock_cancelled n l"
proof -
  obtain m m' where m: "unlock_run N good (initial_unlock v b) evs0 m" "unlock_step N good m e m'"
    "unlock_run N good m' evs1 s" using run by (auto simp: run_append run_Cons)
  have "uc_attempt c < us_symbols (sy_state m)"
    using calls_known_run [OF m(1) calls_known_initial] assms(2) by (simp add: calls_known_def)
  with superseded_not_current [OF m(2) assms(3)] stopped_stays_stopped [OF m(3)] assms(4)
  show ?thesis by blast
qed

section \<open>Opened sessions\<close>

lemma finished_unlocked:
  assumes "unlock_step N good s (Finished c reply Unlocked) s'"
  shows "verifyWorkspacePassword (uc_password c) reply = Inr True \<and> good (uc_password c) (call_hash c)"
  using assms
proof (cases rule: unlock_step.cases)
  case (finished clock st)
  from finished(4) have "verifyWorkspacePassword (uc_password c) reply = Inr True"
    using failure_refused [of N "sy_state s" "uc_id c" "uc_nowMs c"]
    by (cases rule: finish_cases) (auto simp: cancelled_def Let_def)
  with finished show ?thesis by simp
qed

lemma run_event:
  assumes "unlock_run N good s evs s'" and "e \<in> set evs"
  shows "\<exists>m m'. unlock_step N good m e m'"
  using assms by (induction rule: unlock_run.induct) auto

lemma answered_unlocked:
  "unlock_step N good s (Answered w Unlocked) s' \<Longrightarrow> ws_lock w = None"
  by (auto elim!: unlock_stepE begin_cases)

lemma began_locked: "unlock_step N good s (Began c) s' \<Longrightarrow> ws_lock (uc_workspace c) \<noteq> None \<and> uc_password c \<noteq> []"
  by (auto elim!: unlock_stepE begin_cases)

lemma opened_since_lock:
  assumes run: "unlock_run N good (initial_unlock v b) (evs0 @ Locked i # evs) s"
    and opened: "i \<in> open_workspaces (sy_state s)"
  shows "(\<exists>p. Trusted i p \<in> set evs) \<or> (\<exists>w. Answered w Unlocked \<in> set evs \<and> ws_id w = i \<and> ws_lock w = None) \<or>
    (\<exists>c reply. Began c \<in> set evs \<and> Finished c reply Unlocked \<in> set evs \<and> uc_id c = i \<and>
       ws_lock (uc_workspace c) \<noteq> None \<and> good (uc_password c) (call_hash c))"
proof -
  obtain m m' where m: "unlock_run N good (initial_unlock v b) (evs0 @ [Locked i]) m'" "unlock_step N good m (Locked i) m'"
    "unlock_run N good m' evs s" using run by (auto simp: run_append run_Cons)
  have "i \<notin> sp_open (abstract_lock m')" "sp_current (abstract_lock m') i = None" "i \<in> sp_open (abstract_lock s)"
    using m(2) opened by (auto elim!: unlock_stepE simp: abstract_lock_def unlock_fields)
  then have "STrust i \<in> abstract_event ` set evs \<or>
      (\<exists>n. SBegin i n \<in> abstract_event ` set evs \<and> SPass i n \<in> abstract_event ` set evs)"
    using spec_opened_since [OF run_refines [OF m(3)]] by auto
  then show ?thesis
  proof
    assume "STrust i \<in> abstract_event ` set evs"
    then obtain e where e: "e \<in> set evs" "abstract_event e = STrust i" by auto
    have "(\<exists>p. e = Trusted i p) \<or> (\<exists>w. e = Answered w Unlocked \<and> ws_id w = i)"
      using e(2) by (cases e) (auto split: if_splits)
    with e(1) run_event [OF m(3) e(1)] show ?thesis by (metis answered_unlocked)
  next
    assume "\<exists>n. SBegin i n \<in> abstract_event ` set evs \<and> SPass i n \<in> abstract_event ` set evs"
    then obtain n e e' where e: "e \<in> set evs" "abstract_event e = SBegin i n"
      and e': "e' \<in> set evs" "abstract_event e' = SPass i n" by (metis imageE)
    obtain c where c: "e = Began c" "uc_id c = i" "uc_attempt c = n" using e(2) by (cases e) (auto split: if_splits)
    obtain c' reply where c': "e' = Finished c' reply Unlocked" "uc_id c' = i" "uc_attempt c' = n"
      using e'(2) by (cases e') (auto split: if_splits)
    have known: "calls_known ((evs0 @ [Locked i]) @ evs) s"
      using calls_known_run [OF run calls_known_initial] by simp
    then have "Began c' \<in> set ((evs0 @ [Locked i]) @ evs)" using e'(1) c'(1) by (force simp: calls_known_def)
    moreover have "Began c \<in> set ((evs0 @ [Locked i]) @ evs)" using e(1) c(1) by simp
    ultimately have "c' = c" using known c c' unfolding calls_known_def by blast
    with e e' c c' run_event [OF m(3) e(1)] run_event [OF m(3) e'(1)] show ?thesis
      by (metis finished_unlocked began_locked)
  qed
qed

section \<open>Stored attempts read back\<close>

definition attempts_bounded :: "unlock_attempts \<Rightarrow> bool" where
  "attempts_bounded r \<longleftrightarrow> 0 \<le> at_failedAttempts r \<and> at_failedAttempts r \<le> WORKSPACE_UNLOCK_MAX_ATTEMPTS"

text \<open>A cooldown without a finite end does not survive being written.\<close>

definition json_attempts :: "unlock_attempts \<Rightarrow> unlock_attempts" where
  "json_attempts r = r\<lparr>at_lockedUntil := (case at_lockedUntil r of
     Some x \<Rightarrow> if finite_floor x = None then None else Some x | None \<Rightarrow> None)\<rparr>"

lemma parsed_attempts_bounded: "parseWorkspaceUnlockAttemptRecord N v = Some r \<Longrightarrow> attempts_bounded r"
  by (auto simp: parseWorkspaceUnlockAttemptRecord_def attempts_bounded_def WORKSPACE_UNLOCK_MAX_ATTEMPTS_def Let_def
      split: if_splits option.splits)

lemma read_attempts_bounded: "(i, r) \<in> set (readWorkspaceUnlockAttempts N st) \<Longrightarrow> attempts_bounded r"
  by (auto simp: readWorkspaceUnlockAttempts_def parsed_attempts_bounded split: option.splits js.splits)

lemma attempts_for_bounded: "attempts_bounded (attempts_for N st i)"
  by (auto simp: attempts_for_def attempts_bounded_def WORKSPACE_UNLOCK_MAX_ATTEMPTS_def
      dest!: map_of_SomeD read_attempts_bounded split: option.splits)

lemma parse_written_attempts:
  "attempts_bounded r \<Longrightarrow>
   parseWorkspaceUnlockAttemptRecord N (JObj [(''failedAttempts'', JInt (at_failedAttempts r)),
      (''lockedUntil'', case at_lockedUntil r of None \<Rightarrow> JNull | Some x \<Rightarrow> number_json x)]) = Some (json_attempts r)"
  by (cases r; cases "at_lockedUntil r")
    (auto simp: parseWorkspaceUnlockAttemptRecord_def json_attempts_def attempts_bounded_def js_prop_def js_Number_def
      finite_floor_def number_json_def Let_def split: sum.splits js_nonint.splits)

lemma read_written_attempts:
  assumes "\<forall>(i, r) \<in> set as. attempts_bounded r" and "us_writable st"
  shows "readWorkspaceUnlockAttempts N (writeWorkspaceUnlockAttempts st as) = map (\<lambda>(i, r). (i, json_attempts r)) as"
  using assms
  by (induction as) (auto simp: readWorkspaceUnlockAttempts_def writeWorkspaceUnlockAttempts_def attempts_js_def
      parse_written_attempts)

lemma read_cong: "us_stored a = us_stored b \<Longrightarrow> attempts_for N a i = attempts_for N b i"
  by (simp add: attempts_for_def readWorkspaceUnlockAttempts_def)

lemma map_of_map_snd: "map_of (map (\<lambda>(i, r). (i, f r)) xs) k = map_option f (map_of xs k)"
  by (induction xs) auto

lemma attempts_for_written:
  assumes "\<forall>(i, r) \<in> set as. attempts_bounded r" and "us_writable st"
  shows "attempts_for N (writeWorkspaceUnlockAttempts st as) i =
    (case map_of as i of None \<Rightarrow> \<lparr>at_failedAttempts = 0, at_lockedUntil = None\<rparr> | Some r \<Rightarrow> json_attempts r)"
  using read_written_attempts [OF assms, of N] by (auto simp: attempts_for_def map_of_map_snd split: option.splits)

lemma update_bounded:
  "\<forall>(i, r) \<in> set as. attempts_bounded r \<Longrightarrow> attempts_bounded r' \<Longrightarrow> \<forall>(i, r) \<in> set (AList.update j r' as). attempts_bounded r"
  by (induction as) auto

lemma delete_bounded:
  "\<forall>(i, r) \<in> set as. attempts_bounded r \<Longrightarrow> \<forall>(i, r) \<in> set (AList.delete j as). attempts_bounded r"
  by (auto simp: AList.delete_eq)

lemma json_attempts_finite:
  "(\<And>x. at_lockedUntil r = Some x \<Longrightarrow> finite_floor x \<noteq> None) \<Longrightarrow> json_attempts r = r"
  by (cases r) (auto simp: json_attempts_def split: option.splits)

lemma read_all_bounded: "\<forall>(i, r) \<in> set (readWorkspaceUnlockAttempts N st). attempts_bounded r"
  using read_attempts_bounded by fast

lemma attempts_for_updated:
  assumes "us_writable st" "attempts_bounded r" "\<And>x. at_lockedUntil r = Some x \<Longrightarrow> finite_floor x \<noteq> None"
  shows "attempts_for N (writeWorkspaceUnlockAttempts st (AList.update i r (readWorkspaceUnlockAttempts N st))) i = r"
  using attempts_for_written [OF update_bounded [OF read_all_bounded assms(2)] assms(1)] json_attempts_finite [OF assms(3)]
  by (simp add: update_conv')

lemma attempts_after_failure:
  assumes "us_writable st"
  shows "attempts_for N (fst (recordWorkspaceUnlockFailure N st i t)) i =
    (let n = at_failedAttempts (attempts_for N st i) + 1 in
     if n \<ge> WORKSPACE_UNLOCK_MAX_ATTEMPTS
     then \<lparr>at_failedAttempts = WORKSPACE_UNLOCK_MAX_ATTEMPTS, at_lockedUntil = Some (Inl (t + WORKSPACE_UNLOCK_COOLDOWN_MS))\<rparr>
     else \<lparr>at_failedAttempts = n, at_lockedUntil = None\<rparr>)"
proof -
  define r where "r = (let n = at_failedAttempts (attempts_for N st i) + 1 in
     if n \<ge> WORKSPACE_UNLOCK_MAX_ATTEMPTS
     then \<lparr>at_failedAttempts = WORKSPACE_UNLOCK_MAX_ATTEMPTS, at_lockedUntil = Some (Inl (t + WORKSPACE_UNLOCK_COOLDOWN_MS))\<rparr>
     else \<lparr>at_failedAttempts = n, at_lockedUntil = None\<rparr>)"
  have "attempts_bounded r" "\<And>x. at_lockedUntil r = Some x \<Longrightarrow> finite_floor x \<noteq> None"
    using attempts_for_bounded [of N st i]
    by (auto simp: r_def Let_def attempts_bounded_def WORKSPACE_UNLOCK_MAX_ATTEMPTS_def finite_floor_def split: if_splits)
  moreover have "fst (recordWorkspaceUnlockFailure N st i t) =
      writeWorkspaceUnlockAttempts st (AList.update i r (readWorkspaceUnlockAttempts N st))"
    by (simp add: recordWorkspaceUnlockFailure_def Let_def r_def)
  ultimately show ?thesis using attempts_for_updated [OF assms] by (simp add: r_def)
qed

lemma attempts_of_others:
  assumes "i \<noteq> j" and "\<And>x. at_lockedUntil (attempts_for N st i) = Some x \<Longrightarrow> finite_floor x \<noteq> None"
  shows "attempts_for N (fst (recordWorkspaceUnlockFailure N st j t)) i = attempts_for N st i"
    and "attempts_for N (clearWorkspaceUnlockAttempt N st j) i = attempts_for N st i"
proof -
  note b = read_all_bounded [of N st]
  have keep: "attempts_for N (writeWorkspaceUnlockAttempts st as) i = attempts_for N st i"
    if "map_of as i = map_of (readWorkspaceUnlockAttempts N st) i" "\<forall>(i, r) \<in> set as. attempts_bounded r" for as
  proof (cases "us_writable st")
    case True
    then show ?thesis
      using attempts_for_written [OF that(2) True, of N i] that(1) assms(2)
      by (auto simp: attempts_for_def intro: json_attempts_finite split: option.splits)
  qed (simp add: writeWorkspaceUnlockAttempts_def)
  show "attempts_for N (fst (recordWorkspaceUnlockFailure N st j t)) i = attempts_for N st i"
    unfolding recordWorkspaceUnlockFailure_def Let_def fst_conv
    using assms(1) attempts_for_bounded [of N st j]
    by (intro keep update_bounded [OF b])
      (auto simp: update_conv' attempts_bounded_def WORKSPACE_UNLOCK_MAX_ATTEMPTS_def)
  show "attempts_for N (clearWorkspaceUnlockAttempt N st j) i = attempts_for N st i"
    using assms(1) keep [OF _ delete_bounded [OF b], of j]
    by (simp add: clearWorkspaceUnlockAttempt_def Let_def)
qed

section \<open>The cooldown\<close>

lemma lockout_bounds:
  "0 \<le> lo_failedAttempts (getWorkspaceUnlockLockout N st i t) \<and>
   lo_attemptsRemaining (getWorkspaceUnlockLockout N st i t) =
     WORKSPACE_UNLOCK_MAX_ATTEMPTS - lo_failedAttempts (getWorkspaceUnlockLockout N st i t) \<and>
   0 \<le> lo_attemptsRemaining (getWorkspaceUnlockLockout N st i t)"
  using attempts_for_bounded [of N st i]
  by (auto simp: getWorkspaceUnlockLockout_def Let_def attempts_bounded_def WORKSPACE_UNLOCK_MAX_ATTEMPTS_def)

text \<open>The workspace \<open>i\<close> is locked out until \<open>L\<close> and no verification for it is current.\<close>

definition locked_out :: "(js \<Rightarrow> js_number) \<Rightarrow> string \<Rightarrow> int \<Rightarrow> unlock_state \<Rightarrow> bool" where
  "locked_out N i L st \<longleftrightarrow> us_pending st i = None \<and>
     (\<exists>x. at_lockedUntil (attempts_for N st i) = Some x \<and> finite_floor x \<noteq> None \<and> (\<forall>t < L. number_exceeds x t))"

lemma locked_out_isLocked:
  "locked_out N i L st \<Longrightarrow> t < L \<Longrightarrow> lo_isLocked (getWorkspaceUnlockLockout N st i t)"
  by (auto simp: locked_out_def getWorkspaceUnlockLockout_def Let_def)

lemma locked_out_cong:
  "locked_out N i L st \<Longrightarrow> us_pending st' i = us_pending st i \<Longrightarrow> attempts_for N st' i = attempts_for N st i \<Longrightarrow>
   locked_out N i L st'"
  by (simp add: locked_out_def)

lemma locked_out_keep:
  "locked_out N i L st \<Longrightarrow> us_pending st' i \<in> {None, us_pending st i} \<Longrightarrow> us_stored st' = us_stored st \<Longrightarrow>
   locked_out N i L st'"
  using read_cong [of st' st N i] by (auto simp: locked_out_def)

text \<open>What an event may do while the cooldown lasts: no call for \<open>i\<close> starts a verification before \<open>L\<close>.\<close>

fun within_cooldown :: "string \<Rightarrow> int \<Rightarrow> unlock_event \<Rightarrow> bool" where
  "within_cooldown i L (Began c) \<longleftrightarrow> uc_id c = i \<longrightarrow> uc_nowMs c < L"
| "within_cooldown i L (StorageChanged v b) \<longleftrightarrow> False"
| "within_cooldown i L _ \<longleftrightarrow> True"

lemma locked_out_step:
  assumes "unlock_step N good s e s'" and lo: "locked_out N i L (sy_state s)" and w: "within_cooldown i L e"
  shows "locked_out N i L (sy_state s') \<and> (\<forall>c. e = Began c \<longrightarrow> uc_id c \<noteq> i) \<and>
    (\<forall>c reply res. e = Finished c reply res \<longrightarrow> uc_id c = i \<longrightarrow> (\<exists>n l. res = Refused workspace_unlock_cancelled n l))"
  using assms(1)
proof (cases rule: unlock_step.cases)
  case (answered w p now ab clock st res)
  from answered(3) show ?thesis
    by (cases rule: begin_cases)
      (use answered lo in \<open>auto intro!: locked_out_keep [OF lo] simp: unlock_fields split: if_splits\<close>)
next
  case (began w' p now ab clock st c)
  from began(3) show ?thesis
  proof (cases rule: begin_cases)
    case (waits c')
    have "uc_id c \<noteq> i"
    proof
      assume "uc_id c = i"
      then have "uc_nowMs c < L" using w began by simp
      with \<open>uc_id c = i\<close> show False using waits lo locked_out_isLocked by auto
    qed
    moreover have "locked_out N i L st"
      using waits \<open>uc_id c \<noteq> i\<close> by (auto intro!: locked_out_keep [OF lo])
    ultimately show ?thesis using began by auto
  qed (use began in auto)
next
  case (aborted c)
  then show ?thesis by (auto intro!: locked_out_keep [OF lo] simp: unlock_fields split: if_splits)
next
  case (finished c reply clock st res)
  let ?st = "sy_state s"
  have fin: "\<And>x. at_lockedUntil (attempts_for N ?st i) = Some x \<Longrightarrow> finite_floor x \<noteq> None"
    using lo by (auto simp: locked_out_def)
  have none: "us_pending ?st i = None" using lo by (simp add: locked_out_def)
  have att: "attempts_for N st i = attempts_for N ?st i" and pend: "us_pending st i = None"
    if "uc_id c \<noteq> i \<or> (\<exists>n l. res = Refused workspace_unlock_cancelled n l)"
  proof -
    show "us_pending st i = None" using finish_refines [OF finished(5)] none by (auto split: if_splits)
    from finished(5) show "attempts_for N st i = attempts_for N ?st i"
    proof (cases rule: finish_cases)
      case pass
      with that have "uc_id c \<noteq> i" by auto
      with pass show ?thesis using attempts_of_others(2) [of i "uc_id c" N ?st] fin
        by (simp add: read_cong [of "markWorkspaceUnlocked _ _ _ _"] unlock_fields)
    next
      case wrong
      with that have "uc_id c \<noteq> i" by (auto simp: recordWorkspaceUnlockFailure_def Let_def split: if_splits)
      with wrong show ?thesis using attempts_of_others(1) [of i "uc_id c" N ?st "uc_nowMs c"] fin
        by (simp add: read_cong [of "abort_unlock _ _"] unlock_fields)
    qed (auto intro!: read_cong simp: unlock_fields)
  qed
  have canc: "\<exists>n l. res = Refused workspace_unlock_cancelled n l" if "uc_id c = i"
    using finished_not_current [of N good s c reply res s'] assms(1) finished none that by simp
  have "locked_out N i L st"
    using att pend canc lo none by (cases "uc_id c = i") (auto intro: locked_out_cong)
  then show ?thesis using finished canc by auto
qed (use w in \<open>auto intro!: locked_out_keep [OF lo] simp: unlock_fields split: if_splits\<close>)

lemma locked_out_run:
  assumes "unlock_run N good s evs s'" and "locked_out N i L (sy_state s)" and "\<forall>e \<in> set evs. within_cooldown i L e"
  shows "locked_out N i L (sy_state s') \<and> (\<forall>c. Began c \<in> set evs \<longrightarrow> uc_id c \<noteq> i) \<and>
    (\<forall>c reply res. Finished c reply res \<in> set evs \<longrightarrow> uc_id c = i \<longrightarrow> (\<exists>n l. res = Refused workspace_unlock_cancelled n l))"
  using assms
proof (induction rule: unlock_run.induct)
  case (run_snoc s evs s' e s'')
  then have "locked_out N i L (sy_state s')" by simp
  from locked_out_step [OF run_snoc.hyps(2) this, of ] run_snoc show ?case by auto
qed simp

text \<open>The third wrong answer starts the cooldown.\<close>

lemma third_failure_locks_out:
  assumes "us_writable st" and "at_failedAttempts (attempts_for N st (uc_id c)) \<ge> 2"
    and "finish_unlock N st c ab clock (Inr False) = (st', res)"
    and "\<not> ab" "us_pending st (uc_id c) = Some (uc_attempt c)"
  shows "locked_out N (uc_id c) (uc_nowMs c + WORKSPACE_UNLOCK_COOLDOWN_MS) st' \<and>
    res = Refused workspace_unlock_rate_limited 0 (Some (Inl (uc_nowMs c + WORKSPACE_UNLOCK_COOLDOWN_MS)))"
  using assms(3)
proof (cases rule: finish_cases)
  case wrong
  then show ?thesis
    using attempts_after_failure [OF assms(1), of N "uc_id c" "uc_nowMs c"] assms(2,5)
    by (auto simp: locked_out_def unlock_fields read_cong [of "abort_unlock _ _"] Let_def finite_floor_def
        number_exceeds_def WORKSPACE_UNLOCK_MAX_ATTEMPTS_def recordWorkspaceUnlockFailure_def)
qed (use assms in auto)

text \<open>
  When local storage refuses the write, the wrong answer is not counted: the third one is still answered as
  rate limited until the end of a cooldown, but nothing is locked, and the next call is verified.
\<close>

lemma unstored_failure_locks_nothing:
  assumes "\<not> us_writable st" and "finish_unlock N st c False clock (Inr False) = (st', res)"
  shows "us_stored st' = us_stored st \<and> getWorkspaceUnlockLockout N st' i t = getWorkspaceUnlockLockout N st i t"
proof -
  have "us_stored st' = us_stored st"
    using assms(2)
    by (cases rule: finish_cases)
      (use assms(1) in \<open>auto simp: recordWorkspaceUnlockFailure_def writeWorkspaceUnlockAttempts_def unlock_fields Let_def split: if_splits\<close>)
  then show ?thesis using read_cong [of st' st N] by (simp add: getWorkspaceUnlockLockout_def attempts_for_def)
qed

section \<open>A call that nothing interrupts\<close>

definition try_unlock ::
  "(js \<Rightarrow> js_number) \<Rightarrow> unlock_state \<Rightarrow> workspace_record \<Rightarrow> string \<Rightarrow> int \<Rightarrow> native_reply \<Rightarrow> unlock_state \<times> unlock_result" where
  "try_unlock N st w p t reply =
     (case begin_unlock N st w p t False t of
        (st', Inl res) \<Rightarrow> (st', res)
      | (st', Inr c) \<Rightarrow> finish_unlock N st' c False t (verifyWorkspacePassword p reply))"

subsection \<open>Steps with their successor written out\<close>

lemma step_began:
  "snd (begin_unlock N (sy_state s) w p now ab clock) = Inr c \<Longrightarrow>
   unlock_step N good s (Began c)
     (s\<lparr>sy_state := fst (begin_unlock N (sy_state s) w p now ab clock), sy_calls := c # sy_calls s\<rparr>)"
  by (metis began prod.collapse)

lemma step_finished:
  assumes "c \<in> set (sy_calls s)"
    and "verifyWorkspacePassword (uc_password c) reply = Inr True \<Longrightarrow> good (uc_password c) (call_hash c)"
    and "snd (finish_unlock N (sy_state s) c (uc_attempt c \<in> sy_aborted s) clock
       (verifyWorkspacePassword (uc_password c) reply)) = res"
  shows "unlock_step N good s (Finished c reply res)
     (s\<lparr>sy_state := fst (finish_unlock N (sy_state s) c (uc_attempt c \<in> sy_aborted s) clock
          (verifyWorkspacePassword (uc_password c) reply)), sy_calls := removeAll c (sy_calls s)\<rparr>)"
  using assms by (metis finished prod.collapse)

subsection \<open>Wrong and right passwords\<close>

lemma lockout_cong: "us_stored a = us_stored b \<Longrightarrow> getWorkspaceUnlockLockout N a i t = getWorkspaceUnlockLockout N b i t"
  by (simp add: getWorkspaceUnlockLockout_def read_cong [of a b])

lemma try_unlock_open:
  assumes "ws_lock w \<noteq> None" "p \<noteq> []" "\<not> lo_isLocked (getWorkspaceUnlockLockout N st (ws_id w) t)"
  shows "\<exists>c. try_unlock N st w p t reply =
      finish_unlock N (st\<lparr>us_symbols := us_symbols st + 1, us_pending := (us_pending st)(ws_id w \<mapsto> us_symbols st)\<rparr>)
        c False t (verifyWorkspacePassword p reply) \<and> uc_workspace c = w \<and> uc_password c = p \<and> uc_nowMs c = t \<and>
      uc_attempt c = us_symbols st"
  using assms
  by (intro exI [of _ "\<lparr>uc_workspace = w, uc_password = p, uc_nowMs = t, uc_attempt = us_symbols st,
      uc_lockout = getWorkspaceUnlockLockout N st (ws_id w) t\<rparr>"])
    (simp add: try_unlock_def begin_unlock_def workspaceRequiresUnlock_def Let_def)

lemma try_unlock_locked_out:
  assumes "ws_lock w \<noteq> None" "at_lockedUntil (attempts_for N st (ws_id w)) = Some (Inl u)" "t < u"
  shows "try_unlock N st w p t reply = (st, Refused workspace_unlock_rate_limited 0 (Some (Inl u)))"
  using assms
  by (simp add: try_unlock_def begin_unlock_def workspaceRequiresUnlock_def Let_def getWorkspaceUnlockLockout_def
      number_exceeds_def)

definition after_failure :: "unlock_attempts \<Rightarrow> int \<Rightarrow> unlock_attempts" where
  "after_failure r t = (let n = at_failedAttempts r + 1 in
     if n \<ge> WORKSPACE_UNLOCK_MAX_ATTEMPTS
     then \<lparr>at_failedAttempts = WORKSPACE_UNLOCK_MAX_ATTEMPTS, at_lockedUntil = Some (Inl (t + WORKSPACE_UNLOCK_COOLDOWN_MS))\<rparr>
     else \<lparr>at_failedAttempts = n, at_lockedUntil = None\<rparr>)"

lemma try_wrong:
  assumes "ws_lock w \<noteq> None" "p \<noteq> []" "\<not> lo_isLocked (getWorkspaceUnlockLockout N st (ws_id w) t)" "us_writable st"
    and "reply = NativeReply True (JBool False) err"
  shows "attempts_for N (fst (try_unlock N st w p t reply)) (ws_id w) = after_failure (attempts_for N st (ws_id w)) t"
    and "us_writable (fst (try_unlock N st w p t reply))"
    and "snd (try_unlock N st w p t reply) =
      (let r = after_failure (attempts_for N st (ws_id w)) t in
       Refused (if at_lockedUntil r = None then workspace_unlock_invalid_password else workspace_unlock_rate_limited)
         (WORKSPACE_UNLOCK_MAX_ATTEMPTS - at_failedAttempts r) (at_lockedUntil r))"
proof -
  define st1 where "st1 = st\<lparr>us_symbols := us_symbols st + 1, us_pending := (us_pending st)(ws_id w \<mapsto> us_symbols st)\<rparr>"
  obtain c where tried: "try_unlock N st w p t reply = finish_unlock N st1 c False t (Inr False)"
    and c: "uc_workspace c = w" "uc_nowMs c = t" "uc_attempt c = us_symbols st"
    unfolding st1_def using try_unlock_open [OF assms(1-3), of reply] assms(2,5) by (auto simp: verifyWorkspacePassword_def)
  have wr: "us_writable st1" using assms(4) by (simp add: st1_def)
  have same: "attempts_for N st1 (ws_id w) = attempts_for N st (ws_id w)" by (rule read_cong) (simp add: st1_def)
  have fin: "finish_unlock N st1 c False t (Inr False) =
      (abort_unlock (fst (recordWorkspaceUnlockFailure N st1 (ws_id w) t)) c, snd (recordWorkspaceUnlockFailure N st1 (ws_id w) t))"
    by (simp add: finish_unlock_def conclude_unlock_def c st1_def split: prod.split)
  show "attempts_for N (fst (try_unlock N st w p t reply)) (ws_id w) = after_failure (attempts_for N st (ws_id w)) t"
    using attempts_after_failure [OF wr, of N "ws_id w" t]
    unfolding tried fin fst_conv read_cong [OF aborted_fields(3)] same after_failure_def .
  show "us_writable (fst (try_unlock N st w p t reply))"
    unfolding tried fin fst_conv unlock_fields using wr .
  show "snd (try_unlock N st w p t reply) =
      (let r = after_failure (attempts_for N st (ws_id w)) t in
       Refused (if at_lockedUntil r = None then workspace_unlock_invalid_password else workspace_unlock_rate_limited)
         (WORKSPACE_UNLOCK_MAX_ATTEMPTS - at_failedAttempts r) (at_lockedUntil r))"
    using attempts_for_bounded [of N st "ws_id w"] unfolding tried fin snd_conv
    by (auto simp: recordWorkspaceUnlockFailure_def same after_failure_def Let_def attempts_bounded_def)
qed

lemma try_right:
  assumes "ws_lock w \<noteq> None" "p \<noteq> []" "\<not> lo_isLocked (getWorkspaceUnlockLockout N st (ws_id w) t)"
    and "reply = NativeReply True (JBool True) err"
  shows "snd (try_unlock N st w p t reply) = Unlocked \<and>
    readWorkspaceUnlockPasswordSession (fst (try_unlock N st w p t reply)) (ws_id w) = Some p \<and>
    isWorkspaceUnlocked (fst (try_unlock N st w p t reply)) (Some w)"
proof -
  obtain c where "try_unlock N st w p t reply =
      finish_unlock N (st\<lparr>us_symbols := us_symbols st + 1, us_pending := (us_pending st)(ws_id w \<mapsto> us_symbols st)\<rparr>)
        c False t (Inr True)"
    and c: "uc_workspace c = w" "uc_password c = p" "uc_attempt c = us_symbols st"
    using try_unlock_open [OF assms(1-3), of reply] assms(2,4) by (auto simp: verifyWorkspacePassword_def)
  then show ?thesis
    by (auto simp: finish_unlock_def conclude_unlock_def c unlock_fields readWorkspaceUnlockPasswordSession_def
        isWorkspaceUnlocked_def workspaceRequiresUnlock_def update_conv' abort_unlock_def)
qed

lemma not_locked_without_cooldown:
  "at_lockedUntil (attempts_for N st i) = None \<Longrightarrow> \<not> lo_isLocked (getWorkspaceUnlockLockout N st i t)"
  by (simp add: getWorkspaceUnlockLockout_def Let_def)

lemma not_locked_after_cooldown:
  "at_lockedUntil (attempts_for N st i) = Some (Inl u) \<Longrightarrow> u \<le> t \<Longrightarrow> \<not> lo_isLocked (getWorkspaceUnlockLockout N st i t)"
  by (simp add: getWorkspaceUnlockLockout_def Let_def number_exceeds_def)

end
