(* ===== verification/Workspace_Properties.thy ===== *)
theory Workspace_Properties
  imports Workspace_Operations Unlock_Lockout
begin

text \<open>The properties of the workspace registry and of the unlock sessions, each with an instance.\<close>

section \<open>Example workspaces\<close>

definition demo_workspace :: workspace_record where
  "demo_workspace = \<lparr>ws_id = ''w1'', ws_name = ''Main'', ws_path = ''/a'',
     ws_lock = Some \<lparr>lk_passwordHash = ''h'', lk_createdAt = ''t'', lk_updatedAt = ''t''\<rparr>,
     ws_createdAt = ''t'', ws_updatedAt = ''t''\<rparr>"

definition demo_registry :: workspace_registry where
  "demo_registry = \<lparr>wr_activeWorkspaceId = Some ''w1'', wr_workspaces = [demo_workspace]\<rparr>"

definition demo_ops :: "(string \<times> workspace_op) list" where
  "demo_ops =
     [(''t2'', AddWorkspace \<lparr>wi_name = '' B  c '', wi_path = '' /b '', wi_passwordHash = Some ''k''\<rparr> ''w2''),
      (''t3'', UpdateWorkspacePath ''w1'' ''/c''), (''t4'', UpdateWorkspacePath ''w1'' ''/B''),
      (''t5'', SwitchWorkspace ''w1''), (''t6'', RemoveWorkspace ''w2'')]"

definition demo_call :: "string \<Rightarrow> int \<Rightarrow> nat \<Rightarrow> unlock_call" where
  "demo_call p t n = \<lparr>uc_workspace = demo_workspace, uc_password = p, uc_nowMs = t, uc_attempt = n,
     uc_lockout = \<lparr>lo_failedAttempts = 0, lo_attemptsRemaining = 3, lo_isLocked = False, lo_lockedUntil = None,
                   lo_secondsRemaining = Inl 0\<rparr>\<rparr>"

abbreviation (input) no_number :: "js \<Rightarrow> js_number" where
  "no_number \<equiv> \<lambda>_. Inr NotANumber"

abbreviation (input) demo_good :: "string \<Rightarrow> string \<Rightarrow> bool" where
  "demo_good \<equiv> \<lambda>p h. p = ''pw'' \<and> h = ''h''"

section \<open>The registry\<close>

text \<open>
  Whatever value the workspace registry is made of, any sequence of mutations that draw fresh
  identifiers leaves a registry whose workspaces have distinct identifiers and distinct path keys, fields
  within their limits and no empty password hash, and whose active workspace is one of them; it has no
  active workspace only when it is empty.
\<close>

theorem workspace_operations_keep_registry:
  assumes "fresh_along (\<lambda>op. canonical_workspaces) apply_workspace_op workspace_fresh ops (normalizeWorkspaceRegistry v)"
  shows "wf_workspaces (run_ops apply_workspace_op ops (normalizeWorkspaceRegistry v))"
  using workspaces.run_keeps [OF wf_normalizeWorkspaceRegistry assms] .

theorem workspace_operations_keep_registry_witness:
  "length (wr_workspaces (run_ops apply_workspace_op demo_ops (normalizeWorkspaceRegistry (workspace_registry_js demo_registry)))) = 1 \<and>
   wf_workspaces (run_ops apply_workspace_op demo_ops (normalizeWorkspaceRegistry (workspace_registry_js demo_registry)))"
proof (rule conjI)
  show "length (wr_workspaces (run_ops apply_workspace_op demo_ops
      (normalizeWorkspaceRegistry (workspace_registry_js demo_registry)))) = 1" by code_simp
  show "wf_workspaces (run_ops apply_workspace_op demo_ops (normalizeWorkspaceRegistry (workspace_registry_js demo_registry)))"
    by (rule workspace_operations_keep_registry) code_simp
qed



text \<open>
  C31: A stored workspace registry that is accepted is complete: there is one workspace for every
  stored record, in order, parsed from it; its name and its path are the whole stored texts, and a
  record stored with any lock has a lock, with the whole stored hash.
\<close>

theorem accepted_workspaces_complete:
  assumes "normalizeStoredWorkspaceRegistry value = Inr r"
  shows "\<exists>raws. js_prop value ''workspaces'' = JArr raws \<and>
    map Some (wr_workspaces r) = map parseWorkspaceRecord raws \<and>
    (\<forall>(raw, w) \<in> set (zip raws (wr_workspaces r)).
       ws_name w = js_collapse_ws '' '' (readTrimmedString (js_prop raw ''name'')) \<and>
       ws_path w = normalizeWorkspacePathForStorage (readTrimmedString (js_prop raw ''path'')) \<and>
       (js_prop raw ''lock'' \<notin> {JNull, JUndefined} \<longrightarrow>
          (\<exists>l. ws_lock w = Some l \<and>
             lk_passwordHash l = readTrimmedString (js_prop (js_prop raw ''lock'') ''passwordHash''))))"
proof -
  obtain raws where raws: "js_prop value ''workspaces'' = JArr raws" "map Some (wr_workspaces r) = map parseWorkspaceRecord raws"
    "\<forall>(raw, w) \<in> set (zip raws (wr_workspaces r)). \<not> stored_workspace_damaged raw w"
    using stored_registry_accepts [OF assms] by blast
  have parsed: "parseWorkspaceRecord raw = Some w" if "(raw, w) \<in> set (zip raws (wr_workspaces r))" for raw w
    using that raws(2) by (metis (no_types, lifting) in_set_zip length_map nth_map fst_conv snd_conv)
  show ?thesis using raws parsed undamaged_complete by blast
qed

theorem accepted_workspaces_complete_witness:
  "map Some [demo_workspace] = map parseWorkspaceRecord [workspace_js demo_workspace] \<and>
   normalizeStoredWorkspaceRegistry (workspace_registry_js demo_registry) = Inr demo_registry"
proof (rule conjI)
  show ok: "normalizeStoredWorkspaceRegistry (workspace_registry_js demo_registry) = Inr demo_registry" by code_simp
  show "map Some [demo_workspace] = map parseWorkspaceRecord [workspace_js demo_workspace]"
    using accepted_workspaces_complete [OF ok]
    by (auto simp: demo_registry_def workspace_registry_js_def js_prop_def)
qed

section \<open>Unlock sessions\<close>

text \<open>
  C7: After a workspace was locked it is open only if it was trusted by the caller since, or it has no
  lock, or a verification begun since the locking has passed, for a password that the native verifier
  accepts for the hash of its lock. Whatever calls were under way when it was locked cannot open it.
\<close>

theorem open_only_after_new_verification:
  assumes "unlock_run N good (initial_unlock v b) (evs0 @ Locked (ws_id w) # evs) s"
    and "ws_lock w \<noteq> None" and "isWorkspaceUnlocked (sy_state s) (Some w)"
  shows "(\<exists>p. Trusted (ws_id w) p \<in> set evs) \<or>
    (\<exists>w'. Answered w' Unlocked \<in> set evs \<and> ws_id w' = ws_id w \<and> ws_lock w' = None) \<or>
    (\<exists>c reply. Began c \<in> set evs \<and> Finished c reply Unlocked \<in> set evs \<and> uc_id c = ws_id w \<and>
       ws_lock (uc_workspace c) \<noteq> None \<and> good (uc_password c) (call_hash c))"
  using opened_since_lock [OF assms(1)] assms(2,3)
  by (simp add: isWorkspaceUnlocked_def workspaceRequiresUnlock_def open_session)

definition demo_s0 :: unlock_system where
  "demo_s0 = (initial_unlock None True)\<lparr>sy_state := markWorkspaceLocked (sy_state (initial_unlock None True)) ''w1''\<rparr>"

definition demo_s1 :: unlock_system where
  "demo_s1 = demo_s0\<lparr>sy_state := fst (begin_unlock no_number (sy_state demo_s0) demo_workspace ''pw'' 5 False 5),
     sy_calls := demo_call ''pw'' 5 0 # sy_calls demo_s0\<rparr>"

definition demo_s2 :: unlock_system where
  "demo_s2 = demo_s1\<lparr>sy_state := fst (finish_unlock no_number (sy_state demo_s1) (demo_call ''pw'' 5 0)
       (uc_attempt (demo_call ''pw'' 5 0) \<in> sy_aborted demo_s1) 7
       (verifyWorkspacePassword (uc_password (demo_call ''pw'' 5 0)) (NativeReply True (JBool True) JNull))),
     sy_calls := removeAll (demo_call ''pw'' 5 0) (sy_calls demo_s1)\<rparr>"

lemma demo_locked: "unlock_step no_number demo_good (initial_unlock None True) (Locked ''w1'') demo_s0"
  unfolding demo_s0_def by (rule locked)

lemma demo_began: "unlock_step no_number demo_good demo_s0 (Began (demo_call ''pw'' 5 0)) demo_s1"
  unfolding demo_s1_def by (rule step_began) code_simp

lemma demo_finished:
  "unlock_step no_number demo_good demo_s1 (Finished (demo_call ''pw'' 5 0) (NativeReply True (JBool True) JNull) Unlocked) demo_s2"
  unfolding demo_s2_def by (rule step_finished) (code_simp, code_simp, code_simp)

lemma demo_run:
  "unlock_run no_number demo_good (initial_unlock None True)
     ([] @ Locked (ws_id demo_workspace) # [Began (demo_call ''pw'' 5 0),
        Finished (demo_call ''pw'' 5 0) (NativeReply True (JBool True) JNull) Unlocked]) demo_s2"
  using demo_locked demo_began demo_finished by (auto simp: run_Cons demo_workspace_def)

theorem open_only_after_new_verification_witness:
  "isWorkspaceUnlocked (sy_state demo_s2) (Some demo_workspace) \<and>
   (\<exists>c reply. Began c \<in> set [Began (demo_call ''pw'' 5 0),
        Finished (demo_call ''pw'' 5 0) (NativeReply True (JBool True) JNull) Unlocked] \<and>
      uc_id c = ''w1'' \<and> demo_good (uc_password c) (call_hash c))"
proof (rule conjI)
  show opened: "isWorkspaceUnlocked (sy_state demo_s2) (Some demo_workspace)" by code_simp
  show "\<exists>c reply. Began c \<in> set [Began (demo_call ''pw'' 5 0),
        Finished (demo_call ''pw'' 5 0) (NativeReply True (JBool True) JNull) Unlocked] \<and>
      uc_id c = ''w1'' \<and> demo_good (uc_password c) (call_hash c)"
    using open_only_after_new_verification [OF demo_run _ opened]
    by (auto simp: demo_workspace_def)
qed

text \<open>
  C26: The module refines a lock that only knows which workspaces are open and which verification is the
  current one: a verification passes only while it is the current one, beginning another one, stopping
  it, locking and trusting end it. Every run of the module, with overlapping calls, aborts, locks and
  changes of the stored attempts, is a run of that lock on the same events.
\<close>

theorem unlock_refines_lock:
  assumes "unlock_run N good s evs s'"
  shows "spec_run (abstract_lock s) (map abstract_event evs) (abstract_lock s')"
  using assms by (rule run_refines)

theorem unlock_refines_lock_witness:
  "sp_open (abstract_lock demo_s2) = {''w1''} \<and>
   spec_run (abstract_lock (initial_unlock None True)) [SLock ''w1'', SBegin ''w1'' 0, SPass ''w1'' 0] (abstract_lock demo_s2)"
proof (rule conjI)
  have "open_workspaces (sy_state demo_s2) = {''w1''}" by code_simp
  then show "sp_open (abstract_lock demo_s2) = {''w1''}" by (simp add: abstract_lock_def)
  show "spec_run (abstract_lock (initial_unlock None True)) [SLock ''w1'', SBegin ''w1'' 0, SPass ''w1'' 0] (abstract_lock demo_s2)"
    using unlock_refines_lock [OF demo_run] by (simp add: demo_workspace_def demo_call_def)
qed

text \<open>
  A verification that was under way when its call was aborted, when another call for the workspace
  began one, or when the workspace was locked or trusted, is answered as cancelled, whatever the native
  verifier reports.
\<close>

theorem stale_verification_is_cancelled:
  assumes "unlock_run N good (initial_unlock v b) (evs0 @ e # evs1) s" and "Began c \<in> set evs0"
    and "supersedes e c" and "Finished c reply res \<in> set evs1"
  shows "\<exists>n l. res = Refused workspace_unlock_cancelled n l"
  using assms by (rule superseded_is_cancelled)

definition demo_t1 :: unlock_system where
  "demo_t1 = demo_s1\<lparr>sy_state := fst (begin_unlock no_number (sy_state demo_s1) demo_workspace ''no'' 6 False 6),
     sy_calls := demo_call ''no'' 6 1 # sy_calls demo_s1\<rparr>"

definition demo_t2 :: unlock_system where
  "demo_t2 = demo_t1\<lparr>sy_state := fst (finish_unlock no_number (sy_state demo_t1) (demo_call ''pw'' 5 0)
       (uc_attempt (demo_call ''pw'' 5 0) \<in> sy_aborted demo_t1) 7
       (verifyWorkspacePassword (uc_password (demo_call ''pw'' 5 0)) (NativeReply True (JBool True) JNull))),
     sy_calls := removeAll (demo_call ''pw'' 5 0) (sy_calls demo_t1)\<rparr>"

theorem stale_verification_is_cancelled_witness:
  "unlock_run no_number demo_good (initial_unlock None True)
     ([Locked ''w1'', Began (demo_call ''pw'' 5 0)] @ Began (demo_call ''no'' 6 1) #
      [Finished (demo_call ''pw'' 5 0) (NativeReply True (JBool True) JNull) (Refused workspace_unlock_cancelled 3 None)]) demo_t2 \<and>
   (\<exists>n l. Refused workspace_unlock_cancelled 3 None = Refused workspace_unlock_cancelled n l)"
proof -
  have "unlock_step no_number demo_good demo_s1 (Began (demo_call ''no'' 6 1)) demo_t1"
    unfolding demo_t1_def by (rule step_began) code_simp
  moreover have "unlock_step no_number demo_good demo_t1 (Finished (demo_call ''pw'' 5 0) (NativeReply True (JBool True) JNull)
      (Refused workspace_unlock_cancelled 3 None)) demo_t2"
    unfolding demo_t2_def by (rule step_finished) (code_simp, code_simp, code_simp)
  ultimately have run: "unlock_run no_number demo_good (initial_unlock None True)
     ([Locked ''w1'', Began (demo_call ''pw'' 5 0)] @ Began (demo_call ''no'' 6 1) #
      [Finished (demo_call ''pw'' 5 0) (NativeReply True (JBool True) JNull) (Refused workspace_unlock_cancelled 3 None)]) demo_t2"
    using demo_locked demo_began by (auto simp: run_Cons)
  then show ?thesis
    using stale_verification_is_cancelled [OF run, of "demo_call ''pw'' 5 0" "NativeReply True (JBool True) JNull"]
    by (simp add: demo_call_def)
qed

text \<open>
  C25: A wrong answer for a workspace with at least two stored failures locks it out for thirty seconds
  from the time of that call, provided that local storage accepts the write of the attempts and that the
  call is still the current one (neither aborted, nor overtaken by another call, nor ended by a lock).
  Until then no password is evaluated for it: as long as the stored attempts are not changed from
  outside, no call made before the end of the cooldown begins a verification, every answer to an earlier
  call is a cancellation, and the cooldown stays, whatever other calls, aborts and locks come in between.
  (When the write fails, the failure is swallowed and nothing is locked: \<open>unstored_failure_locks_nothing\<close>.)
\<close>

theorem no_password_is_evaluated_in_cooldown:
  assumes "unlock_step N good s (Finished c reply res) s'"
    and "us_writable (sy_state s)" and "at_failedAttempts (attempts_for N (sy_state s) (uc_id c)) \<ge> 2"
    and "verifyWorkspacePassword (uc_password c) reply = Inr False"
    and "uc_attempt c \<notin> sy_aborted s" and "us_pending (sy_state s) (uc_id c) = Some (uc_attempt c)"
    and "unlock_run N good s' evs s''"
    and "\<forall>e \<in> set evs. within_cooldown (uc_id c) (uc_nowMs c + WORKSPACE_UNLOCK_COOLDOWN_MS) e"
  shows "res = Refused workspace_unlock_rate_limited 0 (Some (Inl (uc_nowMs c + WORKSPACE_UNLOCK_COOLDOWN_MS))) \<and>
    (\<forall>c'. Began c' \<in> set evs \<longrightarrow> uc_id c' \<noteq> uc_id c) \<and>
    (\<forall>c' reply' res'. Finished c' reply' res' \<in> set evs \<longrightarrow> uc_id c' = uc_id c \<longrightarrow>
      (\<exists>n l. res' = Refused workspace_unlock_cancelled n l)) \<and>
    (\<forall>t < uc_nowMs c + WORKSPACE_UNLOCK_COOLDOWN_MS. lo_isLocked (getWorkspaceUnlockLockout N (sy_state s'') (uc_id c) t))"
proof -
  have "locked_out N (uc_id c) (uc_nowMs c + WORKSPACE_UNLOCK_COOLDOWN_MS) (sy_state s') \<and>
      res = Refused workspace_unlock_rate_limited 0 (Some (Inl (uc_nowMs c + WORKSPACE_UNLOCK_COOLDOWN_MS)))"
    using assms(1)
  proof (cases rule: unlock_step.cases)
    case (finished clock st)
    then show ?thesis using third_failure_locks_out [OF assms(2,3)] assms(4-6) by auto
  qed
  with locked_out_run [OF assms(7) _ assms(8)] locked_out_isLocked show ?thesis by blast
qed

text \<open>
  Two failures are stored. A call with the right password is overtaken by one with a wrong password, which
  is answered first. Then the earlier call is answered, the right password is tried again, and a touch comes.
\<close>

definition demo_attempts :: js where
  "demo_attempts = JObj [(''w1'', JObj [(''failedAttempts'', JInt 2), (''lockedUntil'', JNull)]), (''x'', JNull)]"

definition demo_late :: "string \<Rightarrow> int \<Rightarrow> nat \<Rightarrow> unlock_call" where
  "demo_late p t n = (demo_call p t n)
     \<lparr>uc_lockout := \<lparr>lo_failedAttempts = 2, lo_attemptsRemaining = 1, lo_isLocked = False, lo_lockedUntil = None,
                   lo_secondsRemaining = Inl 0\<rparr>\<rparr>"

definition demo_begin :: "unlock_system \<Rightarrow> unlock_call \<Rightarrow> unlock_system" where
  "demo_begin s c = s\<lparr>sy_state := fst (begin_unlock no_number (sy_state s) demo_workspace (uc_password c) (uc_nowMs c) False (uc_nowMs c)),
     sy_calls := c # sy_calls s\<rparr>"

definition demo_finish :: "unlock_system \<Rightarrow> unlock_call \<Rightarrow> bool \<Rightarrow> unlock_system" where
  "demo_finish s c verified = s\<lparr>sy_state := fst (finish_unlock no_number (sy_state s) c (uc_attempt c \<in> sy_aborted s) 150
       (verifyWorkspacePassword (uc_password c) (NativeReply True (JBool verified) JNull))),
     sy_calls := removeAll c (sy_calls s)\<rparr>"

definition demo_l1 :: unlock_system where
  "demo_l1 = demo_begin (demo_begin (initial_unlock (Some demo_attempts) True) (demo_late ''pw'' 90 0)) (demo_late ''no'' 100 1)"

definition demo_l2 :: unlock_system where
  "demo_l2 = demo_finish demo_l1 (demo_late ''no'' 100 1) False"

definition demo_l3 :: unlock_system where
  "demo_l3 = demo_finish demo_l2 (demo_late ''pw'' 90 0) True"

definition demo_l4 :: unlock_system where
  "demo_l4 = demo_l3\<lparr>sy_state := touchWorkspaceUnlockSessions (sy_state demo_l3) 20001\<rparr>"

definition demo_cooldown :: "unlock_event list" where
  "demo_cooldown =
     [Finished (demo_late ''pw'' 90 0) (NativeReply True (JBool True) JNull) (Refused workspace_unlock_cancelled 0 (Some (Inl 30100))),
      Answered demo_workspace (Refused workspace_unlock_rate_limited 0 (Some (Inl 30100))),
      Touched 20001]"

lemma demo_third:
  "unlock_step no_number demo_good demo_l1 (Finished (demo_late ''no'' 100 1) (NativeReply True (JBool False) JNull)
     (Refused workspace_unlock_rate_limited 0 (Some (Inl 30100)))) demo_l2"
  unfolding demo_l2_def demo_finish_def by (rule step_finished) (code_simp, code_simp, code_simp)

lemma demo_cooldown_run: "unlock_run no_number demo_good demo_l2 demo_cooldown demo_l4"
proof -
  have 1: "unlock_step no_number demo_good demo_l2 (hd demo_cooldown) demo_l3"
    unfolding demo_l3_def demo_finish_def demo_cooldown_def list.sel
    by (rule step_finished) (code_simp, code_simp, code_simp)
  have "begin_unlock no_number (sy_state demo_l3) demo_workspace ''pw'' 20000 False 20000 =
      (sy_state demo_l3, Inl (Refused workspace_unlock_rate_limited 0 (Some (Inl 30100))))"
  proof -
    have "ws_id demo_workspace = ''w1''" "workspaceRequiresUnlock (Some demo_workspace)"
      "lo_isLocked (getWorkspaceUnlockLockout no_number (sy_state demo_l3) ''w1'' 20000)"
      "lo_lockedUntil (getWorkspaceUnlockLockout no_number (sy_state demo_l3) ''w1'' 20000) = Some (Inl 30100)"
      by code_simp+
    then show ?thesis by (simp add: begin_unlock_def Let_def)
  qed
  from answered [OF this]
  have 2: "unlock_step no_number demo_good demo_l3 (demo_cooldown ! 1) demo_l3" by (simp add: demo_cooldown_def)
  have 3: "unlock_step no_number demo_good demo_l3 (demo_cooldown ! 2) demo_l4"
    unfolding demo_l4_def demo_cooldown_def by (simp add: touched)
  from 1 2 3 show ?thesis by (auto simp: demo_cooldown_def run_Cons)
qed

theorem no_password_is_evaluated_in_cooldown_witness:
  "unlock_run no_number demo_good demo_l2 demo_cooldown demo_l4 \<and>
   (\<exists>n l. Refused workspace_unlock_cancelled 0 (Some (Inl 30100)) = Refused workspace_unlock_cancelled n l) \<and>
   lo_isLocked (getWorkspaceUnlockLockout no_number (sy_state demo_l4) ''w1'' 30099) \<and>
   \<not> lo_isLocked (getWorkspaceUnlockLockout no_number (sy_state demo_l4) ''w1'' 30100)"
proof -
  let ?c = "demo_late ''no'' 100 1"
  have facts: "us_writable (sy_state demo_l1)" "at_failedAttempts (attempts_for no_number (sy_state demo_l1) (uc_id ?c)) \<ge> 2"
    "verifyWorkspacePassword (uc_password ?c) (NativeReply True (JBool False) JNull) = Inr False"
    "uc_attempt ?c \<notin> sy_aborted demo_l1" "us_pending (sy_state demo_l1) (uc_id ?c) = Some (uc_attempt ?c)"
    by code_simp+
  have "\<forall>e \<in> set demo_cooldown. within_cooldown (uc_id ?c) (uc_nowMs ?c + WORKSPACE_UNLOCK_COOLDOWN_MS) e"
    by (simp add: demo_cooldown_def)
  note run = no_password_is_evaluated_in_cooldown [OF demo_third facts demo_cooldown_run this]
  have c: "uc_id (demo_late p t n) = ''w1'' \<and> uc_nowMs (demo_late p t n) = t" for p t n
    by (simp add: demo_late_def demo_call_def demo_workspace_def)
  have "lo_isLocked (getWorkspaceUnlockLockout no_number (sy_state demo_l4) ''w1'' 30099)"
    using run by (simp add: c WORKSPACE_UNLOCK_COOLDOWN_MS_def)
  moreover have "\<not> lo_isLocked (getWorkspaceUnlockLockout no_number (sy_state demo_l4) ''w1'' 30100)" by code_simp
  moreover have "Finished (demo_late ''pw'' 90 0) (NativeReply True (JBool True) JNull) (Refused workspace_unlock_cancelled 0 (Some (Inl 30100)))
      \<in> set demo_cooldown" by (simp add: demo_cooldown_def)
  then have "\<exists>n l. Refused workspace_unlock_cancelled 0 (Some (Inl 30100)) = Refused workspace_unlock_cancelled n l"
    using run c by blast
  ultimately show ?thesis using demo_cooldown_run by blast
qed

text \<open>
  Three wrong passwords in a row, each given to a call of its own, are answered with two, one and no
  remaining attempts. The third starts the cooldown: calls before its end are answered as rate limited
  and change nothing. After its end the right password opens the workspace, with a session that holds
  the password, and a single wrong one starts the next cooldown.
\<close>

theorem three_wrong_passwords:
  assumes "ws_lock w \<noteq> None" and "us_writable st"
    and "attempts_for N st (ws_id w) = \<lparr>at_failedAttempts = 0, at_lockedUntil = None\<rparr>"
    and "p1 \<noteq> []" "p2 \<noteq> []" "p3 \<noteq> []" and "wrong = NativeReply True (JBool False) JNull"
    and "try_unlock N st w p1 t1 wrong = (st1, r1)" "try_unlock N st1 w p2 t2 wrong = (st2, r2)"
      "try_unlock N st2 w p3 t3 wrong = (st3, r3)"
  shows "r1 = Refused workspace_unlock_invalid_password 2 None \<and>
    r2 = Refused workspace_unlock_invalid_password 1 None \<and>
    r3 = Refused workspace_unlock_rate_limited 0 (Some (Inl (t3 + 30000))) \<and>
    (\<forall>p t reply. t < t3 + 30000 \<longrightarrow>
       try_unlock N st3 w p t reply = (st3, Refused workspace_unlock_rate_limited 0 (Some (Inl (t3 + 30000))))) \<and>
    (\<forall>p t. p \<noteq> [] \<longrightarrow> t3 + 30000 \<le> t \<longrightarrow>
       snd (try_unlock N st3 w p t (NativeReply True (JBool True) JNull)) = Unlocked \<and>
       readWorkspaceUnlockPasswordSession (fst (try_unlock N st3 w p t (NativeReply True (JBool True) JNull))) (ws_id w) = Some p \<and>
       snd (try_unlock N st3 w p t wrong) = Refused workspace_unlock_rate_limited 0 (Some (Inl (t + 30000))))"
proof -
  note limits = after_failure_def Let_def WORKSPACE_UNLOCK_MAX_ATTEMPTS_def WORKSPACE_UNLOCK_COOLDOWN_MS_def
  have n1: "\<not> lo_isLocked (getWorkspaceUnlockLockout N st (ws_id w) t1)"
    using assms(3) by (intro not_locked_without_cooldown) simp
  note w1 = try_wrong [OF assms(1,4) n1 assms(2,7), unfolded assms(3,8) fst_conv snd_conv]
  then have a1: "attempts_for N st1 (ws_id w) = \<lparr>at_failedAttempts = 1, at_lockedUntil = None\<rparr>" by (simp add: limits)
  have n2: "\<not> lo_isLocked (getWorkspaceUnlockLockout N st1 (ws_id w) t2)"
    using a1 by (intro not_locked_without_cooldown) simp
  note w2 = try_wrong [OF assms(1,5) n2 w1(2) assms(7), unfolded a1 assms(9) fst_conv snd_conv]
  then have a2: "attempts_for N st2 (ws_id w) = \<lparr>at_failedAttempts = 2, at_lockedUntil = None\<rparr>" by (simp add: limits)
  have n3: "\<not> lo_isLocked (getWorkspaceUnlockLockout N st2 (ws_id w) t3)"
    using a2 by (intro not_locked_without_cooldown) simp
  note w3 = try_wrong [OF assms(1,6) n3 w2(2) assms(7), unfolded a2 assms(10) fst_conv snd_conv]
  then have a3: "attempts_for N st3 (ws_id w) = \<lparr>at_failedAttempts = 3, at_lockedUntil = Some (Inl (t3 + 30000))\<rparr>"
    by (simp add: limits)
  have "snd (try_unlock N st3 w p t (NativeReply True (JBool True) JNull)) = Unlocked \<and>
      readWorkspaceUnlockPasswordSession (fst (try_unlock N st3 w p t (NativeReply True (JBool True) JNull))) (ws_id w) = Some p \<and>
      snd (try_unlock N st3 w p t wrong) = Refused workspace_unlock_rate_limited 0 (Some (Inl (t + 30000)))"
    if "p \<noteq> []" "t3 + 30000 \<le> t" for p t
  proof -
    have n: "\<not> lo_isLocked (getWorkspaceUnlockLockout N st3 (ws_id w) t)"
      using a3 that(2) by (intro not_locked_after_cooldown) simp_all
    show ?thesis
      using try_right [OF assms(1) that(1) n refl] try_wrong(3) [OF assms(1) that(1) n w3(2) assms(7)]
      by (simp add: a3 limits)
  qed
  moreover have "try_unlock N st3 w p t reply = (st3, Refused workspace_unlock_rate_limited 0 (Some (Inl (t3 + 30000))))"
    if "t < t3 + 30000" for p t reply
    using that by (intro try_unlock_locked_out [OF assms(1)]) (simp_all add: a3)
  moreover have "r1 = Refused workspace_unlock_invalid_password 2 None" "r2 = Refused workspace_unlock_invalid_password 1 None"
    "r3 = Refused workspace_unlock_rate_limited 0 (Some (Inl (t3 + 30000)))"
    using w1(3) w2(3) w3(3) by (simp_all add: limits)
  ultimately show ?thesis by blast
qed

definition demo_try :: "unlock_state \<Rightarrow> int \<Rightarrow> unlock_state \<times> unlock_result" where
  "demo_try st t = try_unlock no_number st demo_workspace ''no'' t (NativeReply True (JBool False) JNull)"

theorem three_wrong_passwords_witness:
  "snd (demo_try (fst (demo_try (fst (demo_try (sy_state (initial_unlock None True)) 1)) 2)) 3) =
     Refused workspace_unlock_rate_limited 0 (Some (Inl 30003))"
proof -
  let ?s0 = "sy_state (initial_unlock None True)"
  let ?s1 = "fst (demo_try ?s0 1)" let ?s2 = "fst (demo_try ?s1 2)"
  have start: "ws_lock demo_workspace \<noteq> None" "us_writable ?s0"
    "attempts_for no_number ?s0 (ws_id demo_workspace) = \<lparr>at_failedAttempts = 0, at_lockedUntil = None\<rparr>"
    "''no'' \<noteq> []" "''no'' \<noteq> []" "''no'' \<noteq> []"
    by code_simp+
  from three_wrong_passwords [OF start refl, of 1 ?s1 "snd (demo_try ?s0 1)" 2 ?s2 "snd (demo_try ?s1 2)" 3
      "fst (demo_try ?s2 3)" "snd (demo_try ?s2 3)"]
  show ?thesis by (simp add: demo_try_def)
qed

end
