(* ===== verification/Repository_Tasks.thy ===== *)
theory Repository_Tasks
  imports Project_Text Project_Normalization "HOL-Library.List_Lexorder" "HOL-Library.Char_ord"
begin

text \<open>
  Repository tasks: the records of task runs that the native side reports and their normalisation
  (\<open>src/lib/projects/project-repository-task.ts\<close>), with the sharing of reads that are under way, and the
  assignment of records to repositories (\<open>src/lib/projects/project-repository-task-runs.ts\<close>).
\<close>

section \<open>Records\<close>

datatype repository_task =
    OpenTerminal | InstallDependencies | UpdateDependencies | StartDevServer | Preview | Build

datatype task_run_state = RunRunning | RunSucceeded | RunFailed | RunStopped

record task_run_record =
  tr_id :: string
  tr_task :: repository_task
  tr_repositoryPath :: string
  tr_command :: string
  tr_state :: task_run_state
  tr_exitCode :: "js_number option"
  tr_startedAt :: string
  tr_finishedAt :: "string option"
  tr_outputTail :: "string option"
  tr_recordPath :: string

text \<open>The errors are the texts of the source.\<close>

definition project_repository_task_errors :: "string list" where
  "project_repository_task_errors =
     [''project-repository-task-unavailable'',
      ''project-repository-task-workspace-required'',
      ''project-repository-task-workspace-not-absolute'',
      ''project-repository-task-workspace-not-found'',
      ''project-repository-task-workspace-not-directory'',
      ''project-repository-task-workspace-unreadable'',
      ''project-repository-task-path-required'',
      ''project-repository-task-path-not-absolute'',
      ''project-repository-task-path-not-found'',
      ''project-repository-task-path-not-directory'',
      ''project-repository-task-path-outside-workspace'',
      ''project-repository-task-path-unreadable'',
      ''project-repository-task-invalid'',
      ''project-repository-task-command-unavailable'',
      ''project-repository-task-terminal-unavailable'',
      ''project-repository-task-terminal-unsupported-platform'',
      ''project-repository-task-launch-failed'',
      ''project-repository-task-record-write-failed'',
      ''project-repository-task-record-read-failed'']"

definition isProjectRepositoryTaskError :: "js \<Rightarrow> bool" where
  "isProjectRepositoryTaskError value = (case value of JStr s \<Rightarrow> s \<in> set project_repository_task_errors | _ \<Rightarrow> False)"

text \<open>A recognised error, or the given one.\<close>

definition task_error_or :: "string \<Rightarrow> js \<Rightarrow> string" where
  "task_error_or fallback value =
     (case value of JStr s \<Rightarrow> if isProjectRepositoryTaskError value then s else fallback | _ \<Rightarrow> fallback)"

definition isProjectRepositoryTask :: "js \<Rightarrow> repository_task option" where
  "isProjectRepositoryTask value = (case value of
     JStr s \<Rightarrow> map_of [(''open-terminal'', OpenTerminal), (''install-dependencies'', InstallDependencies),
                      (''update-dependencies'', UpdateDependencies), (''start-dev-server'', StartDevServer),
                      (''preview'', Preview), (''build'', Build)] s
   | _ \<Rightarrow> None)"

definition isProjectRepositoryTaskRunState :: "js \<Rightarrow> task_run_state option" where
  "isProjectRepositoryTaskRunState value = (case value of
     JStr s \<Rightarrow> map_of [(''running'', RunRunning), (''succeeded'', RunSucceeded), (''failed'', RunFailed),
                      (''stopped'', RunStopped)] s
   | _ \<Rightarrow> None)"

definition normalizeTaskCommand :: "js \<Rightarrow> string option" where
  "normalizeTaskCommand value =
     (case value of
        JStr s \<Rightarrow> (let command = js_trim s in if command \<noteq> [] then Some command else None)
      | _ \<Rightarrow> None)"

definition js_string :: "js \<Rightarrow> string option" where
  "js_string v = (case v of JStr s \<Rightarrow> Some s | _ \<Rightarrow> None)"

definition js_number_of :: "js \<Rightarrow> js_number option" where
  "js_number_of v = (case v of JInt n \<Rightarrow> Some (Inl n) | JNonInt x \<Rightarrow> Some (Inr x) | _ \<Rightarrow> None)"

definition normalizeTaskRunRecord :: "js \<Rightarrow> task_run_record option" where
  "normalizeTaskRunRecord value =
     (case (js_string (js_prop value ''id''), isProjectRepositoryTask (js_prop value ''task''),
            js_string (js_prop value ''repositoryPath''), js_string (js_prop value ''command''),
            isProjectRepositoryTaskRunState (js_prop value ''state''), js_string (js_prop value ''startedAt''),
            js_string (js_prop value ''recordPath'')) of
        (Some i, Some task, Some repositoryPath, Some command, Some state, Some startedAt, Some recordPath) \<Rightarrow>
          Some \<lparr>tr_id = i, tr_task = task,
                tr_repositoryPath = normalizeWorkspacePathForStorage repositoryPath,
                tr_command = command, tr_state = state,
                tr_exitCode = js_number_of (js_prop value ''exitCode''),
                tr_startedAt = startedAt,
                tr_finishedAt = js_string (js_prop value ''finishedAt''),
                tr_outputTail = (case js_prop value ''outputTail'' of
                   JStr s \<Rightarrow> if js_trim s \<noteq> [] then Some s else None | _ \<Rightarrow> None),
                tr_recordPath = normalizeWorkspacePathForStorage recordPath\<rparr>
      | _ \<Rightarrow> None)"

section \<open>Running a task and reading its records\<close>

text \<open>The native side: no command interface, a command that fails, or a response object.\<close>

datatype native_response = NoNative | NativeFails | NativeResponds js

text \<open>\<open>RunStarted command runRecord\<close>; the event of the changed run is dispatched with the record.\<close>

datatype task_result = TaskStarted "string option" "task_run_record option" | TaskRefused string

definition runProjectRepositoryTask :: "native_response \<Rightarrow> task_result" where
  "runProjectRepositoryTask reply =
     (case reply of
        NoNative \<Rightarrow> TaskRefused ''project-repository-task-unavailable''
      | NativeFails \<Rightarrow> TaskRefused ''project-repository-task-launch-failed''
      | NativeResponds response \<Rightarrow>
          if \<not> js_truthy (js_prop response ''ok'')
          then TaskRefused (task_error_or ''project-repository-task-launch-failed'' (js_prop response ''error''))
          else TaskStarted (normalizeTaskCommand (js_prop response ''command''))
                 (normalizeTaskRunRecord (js_prop response ''runRecord'')))"

text \<open>The change events the call dispatches: the workspace path and the record.\<close>

definition task_run_changed :: "string \<Rightarrow> task_result \<Rightarrow> (string \<times> task_run_record) list" where
  "task_run_changed workspacePath result =
     (case result of TaskStarted _ (Some r) \<Rightarrow> [(normalizeWorkspacePathForStorage workspacePath, r)] | _ \<Rightarrow> [])"

text \<open>A result of reading: the records, and the error of a read that failed.\<close>

record run_records_result =
  rr_records :: "task_run_record list"
  rr_error :: "string option"

definition readProjectRepositoryTaskRunRecordsFromNative :: "native_response \<Rightarrow> run_records_result" where
  "readProjectRepositoryTaskRunRecordsFromNative reply =
     (case reply of
        NoNative \<Rightarrow> \<lparr>rr_records = [], rr_error = None\<rparr>
      | NativeFails \<Rightarrow> \<lparr>rr_records = [], rr_error = Some ''project-repository-task-record-read-failed''\<rparr>
      | NativeResponds response \<Rightarrow>
          \<lparr>rr_records = List.map_filter normalizeTaskRunRecord (js_elements (js_prop response ''records'')),
           rr_error = (if js_truthy (js_prop response ''ok'') then None
                       else Some (task_error_or ''project-repository-task-record-read-failed''
                              (js_prop response ''error'')))\<rparr>)"

text \<open>
  \<open>readProjectRepositoryTaskRunRecords\<close> shares a read that is under way: the query is the workspace
  path with the sorted distinct run identifiers, a promise is a number, \<open>read_records\<close> is the call,
  with the new promise it would make, and \<open>settle_read\<close> is the \<open>finally\<close> handler of a promise.
\<close>

type_synonym read_query = "string \<times> string list option"

definition read_query_of :: "string \<Rightarrow> string list option \<Rightarrow> read_query" where
  "read_query_of workspacePath runIds =
     (normalizeWorkspacePathForStorage workspacePath, map_option (\<lambda>ids. sort (remdups ids)) runIds)"

definition readProjectRepositoryTaskRunRecords ::
  "(read_query \<rightharpoonup> nat) \<Rightarrow> string \<Rightarrow> string list option \<Rightarrow> nat \<Rightarrow> (read_query \<rightharpoonup> nat) \<times> nat" where
  "readProjectRepositoryTaskRunRecords reads workspacePath runIds nextRead =
     (let query = read_query_of workspacePath runIds in
      case reads query of
        Some activeRead \<Rightarrow> (reads, activeRead)
      | None \<Rightarrow> (reads(query \<mapsto> nextRead), nextRead))"

definition settle_read :: "(read_query \<rightharpoonup> nat) \<Rightarrow> read_query \<Rightarrow> nat \<Rightarrow> (read_query \<rightharpoonup> nat)" where
  "settle_read reads query nextRead = (if reads query = Some nextRead then reads(query := None) else reads)"

section \<open>Records of repositories\<close>

definition is_ascii_letter :: "char \<Rightarrow> bool" where
  "is_ascii_letter c = (let n = (of_char c :: nat) in (65 \<le> n \<and> n \<le> 90) \<or> (97 \<le> n \<and> n \<le> 122))"

text \<open>The test \<open>/^(?:[a-z]:[\\/]|\\\\|\/\/)/iu\<close>: a drive, or two equal separators.\<close>

fun is_windows_path :: "string \<Rightarrow> bool" where
  "is_windows_path (a # b # s) \<longleftrightarrow>
     (is_ascii_letter a \<and> b = CHR '':'' \<and> s \<noteq> [] \<and> (hd s = backslash \<or> hd s = slash)) \<or>
     (a = backslash \<and> b = backslash) \<or> (a = slash \<and> b = slash)"
| "is_windows_path _ \<longleftrightarrow> False"

definition strip_trailing_slashes :: "string \<Rightarrow> string" where
  "strip_trailing_slashes s = rev (dropWhile ((=) slash) (rev s))"

definition createRepositoryTaskRunPathKey :: "string \<Rightarrow> string" where
  "createRepositoryTaskRunPathKey path =
     (let normalized = normalizeWorkspacePathForStorage path in
      if is_windows_path normalized
      then js_lower (strip_trailing_slashes (js_replace_char backslash slash normalized))
      else (let stripped = strip_trailing_slashes normalized in
            if stripped \<noteq> [] then stripped
            else if js_starts_with normalized [slash] then [slash] else []))"

text \<open>A later repository with the same key replaces an earlier one in the map.\<close>

definition repository_of_path :: "repository_link list \<Rightarrow> string \<Rightarrow> string option" where
  "repository_of_path repositories key =
     map_of (rev (List.map_filter (\<lambda>r. map_option (\<lambda>p. (createRepositoryTaskRunPathKey p, repo_id r)) (repo_path r))
                    repositories)) key"

fun map_latest_runs :: "repository_link list \<Rightarrow> task_run_record list \<Rightarrow> (string \<rightharpoonup> task_run_record) \<Rightarrow> (string \<rightharpoonup> task_run_record)" where
  "map_latest_runs repositories [] nextRecords = nextRecords"
| "map_latest_runs repositories (r # rs) nextRecords =
     (case repository_of_path repositories (createRepositoryTaskRunPathKey (tr_repositoryPath r)) of
        None \<Rightarrow> map_latest_runs repositories rs nextRecords
      | Some i \<Rightarrow>
          if nextRecords i \<noteq> None then map_latest_runs repositories rs nextRecords
          else map_latest_runs repositories rs (nextRecords(i \<mapsto> r)))"

definition mapLatestTaskRunsByRepositoryId ::
  "repository_link list \<Rightarrow> task_run_record list \<Rightarrow> (string \<rightharpoonup> task_run_record)" where
  "mapLatestTaskRunsByRepositoryId repositories records = map_latest_runs repositories records Map.empty"

text \<open>
  Repository batches (\<open>src/lib/projects/project-repository-batch.ts\<close>): a bounded number of workers takes
  the items in order, and a task run is polled until it ends. A worker runs from one \<open>await\<close> to the next
  without interruption; the promises of \<open>execute\<close> settle in any order. \<open>onProgress\<close> is the log of the
  calls made to it; it does not throw.
\<close>

section \<open>Outcomes\<close>

definition PROJECT_REPOSITORY_BATCH_DEFAULT_CONCURRENCY :: int where "PROJECT_REPOSITORY_BATCH_DEFAULT_CONCURRENCY = 3"
definition PROJECT_REPOSITORY_BATCH_MAX_CONCURRENCY :: int where "PROJECT_REPOSITORY_BATCH_MAX_CONCURRENCY = 6"
definition PROJECT_REPOSITORY_BATCH_TASK_POLL_INTERVAL_MS :: int where
  "PROJECT_REPOSITORY_BATCH_TASK_POLL_INTERVAL_MS = 1500"
definition PROJECT_REPOSITORY_BATCH_TASK_MAX_ATTEMPTS :: int where
  "PROJECT_REPOSITORY_BATCH_TASK_MAX_ATTEMPTS = 4800"

datatype batch_outcome_state = BatchSucceeded | BatchFailed | BatchSkipped

record batch_outcome =
  bo_state :: batch_outcome_state
  bo_error :: "string option"

definition createProjectRepositoryBatchSuccess :: batch_outcome where
  "createProjectRepositoryBatchSuccess = \<lparr>bo_state = BatchSucceeded, bo_error = None\<rparr>"

definition createProjectRepositoryBatchFailure :: "string \<Rightarrow> batch_outcome" where
  "createProjectRepositoryBatchFailure err = \<lparr>bo_state = BatchFailed, bo_error = Some err\<rparr>"

definition createProjectRepositoryBatchSkip :: "string \<Rightarrow> batch_outcome" where
  "createProjectRepositoryBatchSkip err = \<lparr>bo_state = BatchSkipped, bo_error = Some err\<rparr>"

definition project_repository_batch_own_errors :: "string list" where
  "project_repository_batch_own_errors =
     [''project-repository-batch-action-unavailable'',
      ''project-repository-batch-operation-failed'',
      ''project-repository-batch-operation-not-started'',
      ''project-repository-batch-repository-busy'',
      ''project-repository-batch-repository-path-missing'',
      ''project-repository-batch-task-failed'',
      ''project-repository-batch-task-stopped'',
      ''project-repository-batch-task-timeout'',
      ''project-repository-batch-unexpected-failure'',
      ''project-repository-batch-workspace-unavailable'']"

definition isProjectRepositoryBatchOwnError :: "string \<Rightarrow> bool" where
  "isProjectRepositoryBatchOwnError value = (value \<in> set project_repository_batch_own_errors)"

abbreviation unexpected_failure :: batch_outcome where
  "unexpected_failure \<equiv> createProjectRepositoryBatchFailure ''project-repository-batch-unexpected-failure''"

definition batch_outcome_states :: "(string \<times> batch_outcome_state) list" where
  "batch_outcome_states = [(''succeeded'', BatchSucceeded), (''failed'', BatchFailed), (''skipped'', BatchSkipped)]"

text \<open>The outcome is whatever \<open>execute\<close> resolved to.\<close>

definition normalizeProjectRepositoryBatchOutcome :: "js \<Rightarrow> batch_outcome" where
  "normalizeProjectRepositoryBatchOutcome outcome =
     (case (case js_prop outcome ''state'' of JStr s \<Rightarrow> map_of batch_outcome_states s | _ \<Rightarrow> None) of
        None \<Rightarrow> unexpected_failure
      | Some state \<Rightarrow>
          \<lparr>bo_state = state,
           bo_error = (case js_prop outcome ''error'' of JStr e \<Rightarrow> if e \<noteq> [] then Some e else None | _ \<Rightarrow> None)\<rparr>)"

definition normalizeProjectRepositoryBatchConcurrency :: "js_number \<Rightarrow> int" where
  "normalizeProjectRepositoryBatchConcurrency value =
     (case finite_trunc value of
        None \<Rightarrow> PROJECT_REPOSITORY_BATCH_DEFAULT_CONCURRENCY
      | Some n \<Rightarrow> min PROJECT_REPOSITORY_BATCH_MAX_CONCURRENCY (max 1 n))"

definition normalizeNonNegativeInteger :: "js_number option \<Rightarrow> int \<Rightarrow> int" where
  "normalizeNonNegativeInteger value fallback =
     (case value of None \<Rightarrow> fallback
      | Some x \<Rightarrow> (case finite_trunc x of None \<Rightarrow> fallback | Some n \<Rightarrow> max 0 n))"

definition normalizePositiveInteger :: "js_number option \<Rightarrow> int \<Rightarrow> int" where
  "normalizePositiveInteger value fallback =
     (case value of None \<Rightarrow> fallback
      | Some x \<Rightarrow> (case finite_trunc x of None \<Rightarrow> fallback | Some n \<Rightarrow> max 1 n))"

section \<open>The workers\<close>

text \<open>
  \<open>ba_next\<close> and \<open>ba_outcomes\<close> are the shared variables, \<open>ba_progress\<close> the calls of \<open>onProgress\<close> (no
  outcome: running), \<open>ba_workers\<close> the workers: \<open>Some i\<close> waits for \<open>execute\<close> on the item \<open>i\<close>, \<open>None\<close> has
  returned. An item is \<open>None\<close> when the list has \<open>undefined\<close> there.
\<close>

record batch =
  ba_next :: nat
  ba_outcomes :: "batch_outcome option list"
  ba_progress :: "(nat \<times> batch_outcome option) list"
  ba_workers :: "nat option list"

definition takeNextIndex :: "'a option list \<Rightarrow> batch \<Rightarrow> batch \<times> nat option" where
  "takeNextIndex items b =
     (if ba_next b \<ge> length items then (b, None) else (b\<lparr>ba_next := ba_next b + 1\<rparr>, Some (ba_next b)))"

text \<open>The loop of a worker, up to its next \<open>await\<close> or its return.\<close>

function worker_loop :: "'a option list \<Rightarrow> batch \<Rightarrow> batch \<times> nat option" where
  "worker_loop items b =
     (case takeNextIndex items b of
        (b', None) \<Rightarrow> (b', None)
      | (b', Some index) \<Rightarrow>
          (case items ! index of
             None \<Rightarrow> worker_loop items (b'\<lparr>ba_outcomes := (ba_outcomes b')[index := Some unexpected_failure]\<rparr>)
           | Some item \<Rightarrow> (b'\<lparr>ba_progress := ba_progress b' @ [(index, None)]\<rparr>, Some index)))"
  by pat_completeness auto
termination
  by (relation "measure (\<lambda>(items, b). length items - ba_next b)") (auto simp: takeNextIndex_def split: if_splits)

declare worker_loop.simps [simp del]

text \<open>\<open>Array.from({ length: concurrency }, () => worker())\<close>\<close>

primrec start_workers :: "'a option list \<Rightarrow> nat \<Rightarrow> batch \<Rightarrow> batch" where
  "start_workers items 0 b = b"
| "start_workers items (Suc n) b =
     (let (b', w) = worker_loop items b in start_workers items n (b'\<lparr>ba_workers := ba_workers b' @ [w]\<rparr>))"

definition batch_concurrency :: "'a option list \<Rightarrow> js_number \<Rightarrow> nat" where
  "batch_concurrency items concurrency =
     nat (min (normalizeProjectRepositoryBatchConcurrency concurrency) (int (length items)))"

definition start_batch :: "'a option list \<Rightarrow> js_number \<Rightarrow> batch" where
  "start_batch items concurrency =
     start_workers items (batch_concurrency items concurrency)
       \<lparr>ba_next = 0, ba_outcomes = replicate (length items) None, ba_progress = [], ba_workers = []\<rparr>"

text \<open>The promise of \<open>execute\<close> is rejected (\<open>None\<close>) or resolves to a value.\<close>

definition execute_outcome :: "js option \<Rightarrow> batch_outcome" where
  "execute_outcome settled =
     (case settled of None \<Rightarrow> unexpected_failure | Some v \<Rightarrow> normalizeProjectRepositoryBatchOutcome v)"

text \<open>The worker \<open>k\<close> continues with the outcome of its item.\<close>

definition continue_worker :: "'a option list \<Rightarrow> nat \<Rightarrow> js option \<Rightarrow> batch \<Rightarrow> batch" where
  "continue_worker items k settled b =
     (case ba_workers b ! k of
        None \<Rightarrow> b
      | Some index \<Rightarrow>
          (let outcome = execute_outcome settled;
               (b', w) = worker_loop items
                 (b\<lparr>ba_outcomes := (ba_outcomes b)[index := Some outcome],
                    ba_progress := ba_progress b @ [(index, Some outcome)]\<rparr>)
           in b'\<lparr>ba_workers := (ba_workers b')[k := w]\<rparr>))"

text \<open>What \<open>runBoundedProjectRepositoryBatch\<close> resolves to once every worker has returned.\<close>

definition batch_result :: "batch \<Rightarrow> batch_outcome list option" where
  "batch_result b =
     (if \<forall>w \<in> set (ba_workers b). w = None
      then Some (map (\<lambda>o'. case o' of None \<Rightarrow> unexpected_failure | Some x \<Rightarrow> x) (ba_outcomes b))
      else None)"

text \<open>The promises settle in some order: worker after worker, each with what its promise settled to.\<close>

inductive batch_step :: "'a option list \<Rightarrow> (nat \<Rightarrow> js option) \<Rightarrow> batch \<Rightarrow> nat \<Rightarrow> batch \<Rightarrow> bool" for items settles where
  "k < length (ba_workers b) \<Longrightarrow> ba_workers b ! k = Some i \<Longrightarrow>
   batch_step items settles b i (continue_worker items k (settles i) b)"

inductive_cases batch_stepE: "batch_step items settles b i b'"

inductive batch_run :: "'a option list \<Rightarrow> (nat \<Rightarrow> js option) \<Rightarrow> batch \<Rightarrow> nat list \<Rightarrow> batch \<Rightarrow> bool" for items settles where
  batch_nil: "batch_run items settles b [] b"
| batch_snoc: "batch_run items settles b is b' \<Longrightarrow> batch_step items settles b' i b'' \<Longrightarrow> batch_run items settles b (is @ [i]) b''"

section \<open>Waiting for a task run\<close>

text \<open>
  The answers of the successive reads are the stream \<open>reads\<close>; the result comes with the number of reads
  and of sleeps of the loop.
\<close>

function poll_loop :: "string \<Rightarrow> (nat \<Rightarrow> run_records_result) \<Rightarrow> nat \<Rightarrow> nat \<Rightarrow> nat \<Rightarrow> batch_outcome \<times> nat \<times> nat" where
  "poll_loop runRecordId reads maxAttempts attempt sleeps =
     (if attempt < maxAttempts then
        (case rr_error (reads attempt) of
           Some e \<Rightarrow> (createProjectRepositoryBatchFailure e, attempt + 1, sleeps)
         | None \<Rightarrow>
             (case map_option tr_state (List.find (\<lambda>r. tr_id r = runRecordId) (rr_records (reads attempt))) of
                Some RunSucceeded \<Rightarrow> (createProjectRepositoryBatchSuccess, attempt + 1, sleeps)
              | Some RunFailed \<Rightarrow>
                  (createProjectRepositoryBatchFailure ''project-repository-batch-task-failed'', attempt + 1, sleeps)
              | Some RunStopped \<Rightarrow>
                  (createProjectRepositoryBatchFailure ''project-repository-batch-task-stopped'', attempt + 1, sleeps)
              | _ \<Rightarrow> poll_loop runRecordId reads maxAttempts (attempt + 1)
                       (if attempt + 1 < maxAttempts then sleeps + 1 else sleeps)))
      else (createProjectRepositoryBatchFailure ''project-repository-batch-task-timeout'', attempt, sleeps))"
  by pat_completeness auto
termination by (relation "measure (\<lambda>(i, reads, m, a, s). m - a)") auto

declare poll_loop.simps [simp del]

definition waitForProjectRepositoryTaskRun ::
  "string \<Rightarrow> (nat \<Rightarrow> run_records_result) \<Rightarrow> js_number option \<Rightarrow> batch_outcome \<times> nat \<times> nat" where
  "waitForProjectRepositoryTaskRun runRecordId reads maxAttempts =
     poll_loop runRecordId reads
       (nat (normalizePositiveInteger maxAttempts PROJECT_REPOSITORY_BATCH_TASK_MAX_ATTEMPTS)) 0 0"

end
