(* ===== verification/Batch_Laws.thy ===== *)
theory Batch_Laws
  imports Repository_Tasks
begin

text \<open>
  The invariant of a running batch: every index below the next one is waited for by one worker, or has
  its outcome; and what follows for the order of the calls and for the end of the batch.
\<close>

section \<open>Invariant\<close>

abbreviation defined_items :: "'a option list \<Rightarrow> nat \<Rightarrow> nat list" where
  "defined_items items n \<equiv> filter (\<lambda>i. items ! i \<noteq> None) [0..<n]"

definition outcomes_of :: "'a option list \<Rightarrow> (nat \<Rightarrow> js option) \<Rightarrow> nat list \<Rightarrow> nat \<Rightarrow> batch_outcome option list" where
  "outcomes_of items settles is n =
     map (\<lambda>i. if i \<in> set is then Some (execute_outcome (settles i))
              else if i < n \<and> items ! i = None then Some unexpected_failure else None) [0..<length items]"

text \<open>\<open>W\<close> are the indices waited for, \<open>is\<close> the settled ones in the order of their settling.\<close>

definition core_inv :: "'a option list \<Rightarrow> (nat \<Rightarrow> js option) \<Rightarrow> batch \<Rightarrow> nat set \<Rightarrow> nat list \<Rightarrow> bool" where
  "core_inv items settles b W is \<longleftrightarrow>
     ba_next b \<le> length items \<and> W \<inter> set is = {} \<and> distinct is \<and>
     W \<union> set is = set (defined_items items (ba_next b)) \<and>
     ba_outcomes b = outcomes_of items settles is (ba_next b) \<and>
     map fst (filter (\<lambda>p. snd p = None) (ba_progress b)) = defined_items items (ba_next b) \<and>
     filter (\<lambda>p. snd p \<noteq> None) (ba_progress b) = map (\<lambda>i. (i, Some (execute_outcome (settles i)))) is"

lemma core_inv_skip:
  assumes "core_inv items settles b W is" "ba_next b < length items" "items ! ba_next b = None"
  shows "core_inv items settles (b\<lparr>ba_next := ba_next b + 1, ba_outcomes := (ba_outcomes b)[ba_next b := Some unexpected_failure]\<rparr>) W is"
proof -
  have "ba_next b \<notin> set is" using assms by (auto simp: core_inv_def)
  then have "(outcomes_of items settles is (ba_next b))[ba_next b := Some unexpected_failure] =
      outcomes_of items settles is (Suc (ba_next b))"
    using assms(2,3) by (intro nth_equalityI) (auto simp: outcomes_of_def nth_list_update less_Suc_eq)
  then show ?thesis using assms by (auto simp: core_inv_def)
qed

lemma core_inv_take:
  assumes "core_inv items settles b W is" "ba_next b < length items" "items ! ba_next b \<noteq> None"
  shows "core_inv items settles (b\<lparr>ba_next := ba_next b + 1, ba_progress := ba_progress b @ [(ba_next b, None)]\<rparr>)
    (insert (ba_next b) W) is \<and> ba_next b \<notin> W"
proof -
  have "ba_next b \<notin> set is" "ba_next b \<notin> W" using assms by (auto simp: core_inv_def)
  moreover have "outcomes_of items settles is (ba_next b) = outcomes_of items settles is (Suc (ba_next b))"
    using assms(2,3) by (auto simp: outcomes_of_def less_Suc_eq)
  ultimately show ?thesis using assms by (auto simp: core_inv_def)
qed

lemma worker_loop_inv:
  assumes "core_inv items settles b W is" "worker_loop items b = (b', w)"
  shows "core_inv items settles b' (W \<union> set_option w) is \<and> ba_workers b' = ba_workers b \<and>
    (w = None \<longrightarrow> ba_next b' = length items) \<and> set_option w \<inter> W = {}"
  using assms
proof (induction items b rule: worker_loop.induct)
  case (1 items b)
  show ?case
  proof (cases "ba_next b < length items")
    case False
    then show ?thesis using 1(2,3)
      by (subst (asm) worker_loop.simps) (auto simp: takeNextIndex_def core_inv_def)
  next
    case True
    note take = takeNextIndex_def [of items b, simplified]
    show ?thesis
    proof (cases "items ! ba_next b")
      case None
      then show ?thesis
        using 1(1) [of "b\<lparr>ba_next := ba_next b + 1\<rparr>" "Some (ba_next b)" "ba_next b"] core_inv_skip [OF 1(2) True] 1(3) True
        by (subst (asm) (2) worker_loop.simps) (simp add: takeNextIndex_def)
    next
      case (Some item)
      then have "b' = b\<lparr>ba_next := ba_next b + 1, ba_progress := ba_progress b @ [(ba_next b, None)]\<rparr>" "w = Some (ba_next b)"
        using 1(3) True by (subst (asm) worker_loop.simps, auto simp: takeNextIndex_def)+
      then show ?thesis using core_inv_take [OF 1(2) True] Some by simp
    qed
  qed
qed

section \<open>The whole batch\<close>

text \<open>No two workers wait for the same item.\<close>

definition somes_distinct :: "'b option list \<Rightarrow> bool" where
  "somes_distinct xs \<longleftrightarrow> (\<forall>k l i. k < length xs \<longrightarrow> l < length xs \<longrightarrow> xs ! k = Some i \<longrightarrow> xs ! l = Some i \<longrightarrow> k = l)"

definition somes :: "'b option list \<Rightarrow> 'b set" where
  "somes xs = {i. Some i \<in> set xs}"

lemma somes_nth: "i \<in> somes xs \<longleftrightarrow> (\<exists>k < length xs. xs ! k = Some i)"
  by (auto simp: somes_def in_set_conv_nth)

lemma somes_snoc: "somes (xs @ [w]) = somes xs \<union> set_option w"
  by (auto simp: somes_def)

lemma somes_distinct_snoc:
  assumes "somes_distinct xs" "set_option w \<inter> somes xs = {}"
  shows "somes_distinct (xs @ [w])"
  using assms by (auto simp: somes_distinct_def somes_nth nth_append less_Suc_eq)

lemma somes_update:
  assumes "somes_distinct xs" "k < length xs" "xs ! k = Some i"
  shows "somes (xs[k := w]) = (somes xs - {i}) \<union> set_option w"
proof (rule set_eqI)
  fix j
  have only: "xs ! l = Some i \<Longrightarrow> l < length xs \<Longrightarrow> l = k" for l using assms unfolding somes_distinct_def by blast
  show "j \<in> somes (xs[k := w]) \<longleftrightarrow> j \<in> (somes xs - {i}) \<union> set_option w"
  proof
    assume "j \<in> somes (xs[k := w])"
    then obtain l where l: "l < length xs" "xs[k := w] ! l = Some j" by (auto simp: somes_nth)
    then show "j \<in> (somes xs - {i}) \<union> set_option w"
      using only [of l] assms(2) by (cases "l = k") (auto simp: somes_nth)
  next
    assume "j \<in> (somes xs - {i}) \<union> set_option w"
    then consider "w = Some j" | l where "l < length xs" "xs ! l = Some j" "j \<noteq> i" by (auto simp: somes_nth)
    then show "j \<in> somes (xs[k := w])"
    proof cases
      case 1
      then have "xs[k := w] ! k = Some j" using assms(2) by simp
      then show ?thesis using assms(2) by (auto simp: somes_nth simp del: nth_list_update_eq)
    next
      case (2 l)
      then have "xs[k := w] ! l = Some j" using assms(3) by (cases "l = k") auto
      then show ?thesis using 2(1) by (auto simp: somes_nth simp del: nth_list_update_neq nth_list_update_eq)
    qed
  qed
qed

lemma somes_distinct_update:
  assumes "somes_distinct xs" "k < length xs" "xs ! k = Some i" "set_option w \<inter> (somes xs - {i}) = {}"
  shows "somes_distinct (xs[k := w])"
  unfolding somes_distinct_def
proof (intro allI impI)
  fix l m j
  assume lm: "l < length (xs[k := w])" "m < length (xs[k := w])" "xs[k := w] ! l = Some j" "xs[k := w] ! m = Some j"
  have only: "xs ! n = Some i \<Longrightarrow> n < length xs \<Longrightarrow> n = k" for n using assms(1-3) unfolding somes_distinct_def by blast
  have new: "xs ! n \<noteq> Some j" if "n < length xs" "n \<noteq> k" "w = Some j" for n
    using that assms(4) only [of n] by (auto simp: somes_nth)
  have old: "xs ! l = Some j \<Longrightarrow> xs ! m = Some j \<Longrightarrow> l = m" using assms(1) lm(1,2) by (simp add: somes_distinct_def)
  show "l = m"
    using lm new [of l] new [of m] old assms(2) by (cases "l = k"; cases "m = k") simp_all
qed

definition waiting :: "batch \<Rightarrow> nat set" where
  "waiting b = somes (ba_workers b)"

definition batch_inv :: "'a option list \<Rightarrow> (nat \<Rightarrow> js option) \<Rightarrow> batch \<Rightarrow> nat list \<Rightarrow> bool" where
  "batch_inv items settles b is \<longleftrightarrow>
     core_inv items settles b (waiting b) is \<and>
     somes_distinct (ba_workers b) \<and>
     (None \<in> set (ba_workers b) \<longrightarrow> ba_next b = length items)"

lemma start_workers_inv:
  assumes "batch_inv items settles b is"
  shows "batch_inv items settles (start_workers items n b) is \<and>
    length (ba_workers (start_workers items n b)) = length (ba_workers b) + n"
  using assms
proof (induction n arbitrary: b)
  case (Suc n)
  obtain b' w where wl: "worker_loop items b = (b', w)" by (cases "worker_loop items b")
  note inv = worker_loop_inv [OF _ wl, of settles "waiting b" "is"]
  let ?b = "b'\<lparr>ba_workers := ba_workers b' @ [w]\<rparr>"
  have core: "core_inv items settles b' (waiting b \<union> set_option w) is" "ba_workers b' = ba_workers b"
    "w = None \<Longrightarrow> ba_next b' = length items" "set_option w \<inter> waiting b = {}"
    using inv Suc.prems by (auto simp: batch_inv_def)
  have "ba_next b' = length items" if "None \<in> set (ba_workers b)"
  proof -
    have "ba_next b = length items" using that Suc.prems by (simp add: batch_inv_def)
    then have "worker_loop items b = (b, None)" by (subst worker_loop.simps) (simp add: takeNextIndex_def)
    with wl \<open>ba_next b = length items\<close> show ?thesis by simp
  qed
  moreover have "waiting ?b = waiting b \<union> set_option w" using core(2) by (simp add: waiting_def somes_snoc)
  moreover have "core_inv items settles ?b X is = core_inv items settles b' X is" for X by (simp add: core_inv_def)
  moreover have "somes_distinct (ba_workers ?b)"
    using somes_distinct_snoc [of "ba_workers b" w] core(2,4) Suc.prems by (simp add: batch_inv_def waiting_def)
  ultimately have "batch_inv items settles ?b is"
    using core by (auto simp: batch_inv_def)
  then show ?case using Suc.IH [of ?b] core(2) by (simp add: wl)
qed simp

lemma start_batch_inv:
  "batch_inv items settles (start_batch items c) [] \<and>
   length (ba_workers (start_batch items c)) = batch_concurrency items c"
proof -
  have "map (\<lambda>i. None) [0..<length items] = replicate (length items) (None :: batch_outcome option)"
    by (simp add: map_replicate_const)
  then have "batch_inv items settles \<lparr>ba_next = 0, ba_outcomes = replicate (length items) None, ba_progress = [], ba_workers = []\<rparr> []"
    by (simp add: batch_inv_def core_inv_def waiting_def somes_def somes_distinct_def outcomes_of_def)
  from start_workers_inv [OF this] show ?thesis by (simp add: start_batch_def)
qed

lemma core_inv_settle:
  assumes "core_inv items settles b W is" "i \<in> W"
  shows "core_inv items settles (b\<lparr>ba_outcomes := (ba_outcomes b)[i := Some (execute_outcome (settles i))],
    ba_progress := ba_progress b @ [(i, Some (execute_outcome (settles i)))]\<rparr>) (W - {i}) (is @ [i])"
proof -
  have "i \<notin> set is" "i \<in> set (defined_items items (ba_next b))" "ba_next b \<le> length items"
    using assms unfolding core_inv_def by blast+
  then have i: "i < length items" "i \<notin> set is" "i \<in> set (defined_items items (ba_next b))" by auto
  have "(outcomes_of items settles is (ba_next b))[i := Some (execute_outcome (settles i))] =
      outcomes_of items settles (is @ [i]) (ba_next b)"
    using i by (intro nth_equalityI) (auto simp: outcomes_of_def nth_list_update)
  then show ?thesis using assms i by (auto simp: core_inv_def)
qed

lemma continue_worker_inv:
  assumes inv: "batch_inv items settles b is" and k: "k < length (ba_workers b)" "ba_workers b ! k = Some i"
  shows "batch_inv items settles (continue_worker items k (settles i) b) (is @ [i]) \<and>
    length (ba_workers (continue_worker items k (settles i) b)) = length (ba_workers b)"
proof -
  define c where "c = b\<lparr>ba_outcomes := (ba_outcomes b)[i := Some (execute_outcome (settles i))],
    ba_progress := ba_progress b @ [(i, Some (execute_outcome (settles i)))]\<rparr>"
  obtain b' w where wl: "worker_loop items c = (b', w)" by (cases "worker_loop items c")
  have dist: "somes_distinct (ba_workers b)" using inv by (simp add: batch_inv_def)
  have "i \<in> waiting b" using k by (auto simp: waiting_def somes_nth)
  then have "core_inv items settles c (waiting b - {i}) (is @ [i])"
    unfolding c_def using inv by (intro core_inv_settle) (auto simp: batch_inv_def)
  note core = worker_loop_inv [OF this wl]
  have ws: "ba_workers b' = ba_workers b" using core by (simp add: c_def)
  have cont: "continue_worker items k (settles i) b = b'\<lparr>ba_workers := (ba_workers b)[k := w]\<rparr>"
    using wl ws k(2) by (simp add: continue_worker_def c_def Let_def)
  have waits: "waiting (b'\<lparr>ba_workers := (ba_workers b)[k := w]\<rparr>) = (waiting b - {i}) \<union> set_option w"
    using somes_update [OF dist k] by (simp add: waiting_def)
  have inj: "somes_distinct ((ba_workers b)[k := w])"
    using somes_distinct_update [OF dist k] core by (simp add: waiting_def)
  have last: "ba_next b' = length items" if "None \<in> set ((ba_workers b)[k := w])"
  proof (cases "w = None")
    case False
    then have "None \<in> set (ba_workers b)" using that set_update_subset_insert by fastforce
    then have "ba_next c = length items" using inv by (simp add: batch_inv_def c_def)
    then have "worker_loop items c = (c, None)" by (subst worker_loop.simps) (simp add: takeNextIndex_def)
    with wl False show ?thesis by simp
  qed (use core in simp)
  have same: "core_inv items settles (b'\<lparr>ba_workers := (ba_workers b)[k := w]\<rparr>) X (is @ [i]) = core_inv items settles b' X (is @ [i])" for X
    by (simp add: core_inv_def)
  show ?thesis
    unfolding cont batch_inv_def waits same using core inj last by simp
qed

lemma batch_run_inv:
  assumes "batch_run items settles (start_batch items c) is b"
  shows "batch_inv items settles b is \<and> length (ba_workers b) = batch_concurrency items c"
  using assms
proof (induction "start_batch items c" "is" b rule: batch_run.induct)
  case batch_nil
  show ?case by (rule start_batch_inv)
next
  case (batch_snoc "is" b' i b'')
  from batch_snoc(3) obtain k where k: "k < length (ba_workers b')" "ba_workers b' ! k = Some i"
    "b'' = continue_worker items k (settles i) b'" by (auto elim: batch_stepE)
  from continue_worker_inv [OF _ k(1,2), of items settles "is"] batch_snoc(2) k(3) show ?case by simp
qed

section \<open>Concurrency\<close>

lemma concurrency_bounds:
  "1 \<le> normalizeProjectRepositoryBatchConcurrency c" "normalizeProjectRepositoryBatchConcurrency c \<le> 6"
  by (auto simp: normalizeProjectRepositoryBatchConcurrency_def PROJECT_REPOSITORY_BATCH_DEFAULT_CONCURRENCY_def
      PROJECT_REPOSITORY_BATCH_MAX_CONCURRENCY_def split: option.splits)

lemma card_waiting: "finite (waiting b) \<and> card (waiting b) \<le> length (ba_workers b)"
proof -
  have sub: "waiting b \<subseteq> the ` set (ba_workers b)" by (force simp: waiting_def somes_def)
  have "card (waiting b) \<le> card (the ` set (ba_workers b))" by (rule card_mono [OF _ sub]) simp
  also have "\<dots> \<le> length (ba_workers b)" using card_image_le [of "set (ba_workers b)" the] card_length le_trans by blast
  finally show ?thesis using sub finite_subset by blast
qed

section \<open>The end of the batch\<close>

lemma batch_settled:
  assumes inv: "batch_inv items settles b is" and len: "length (ba_workers b) = batch_concurrency items c"
  shows "length is \<le> length (defined_items items (length items)) \<and>
    (batch_result b = None \<longleftrightarrow> length is < length (defined_items items (length items))) \<and>
    (batch_result b \<noteq> None \<longrightarrow> batch_result b =
       Some (map (\<lambda>i. if items ! i = None then unexpected_failure else execute_outcome (settles i)) [0..<length items]))"
proof -
  have core: "core_inv items settles b (waiting b) is" and next_end: "None \<in> set (ba_workers b) \<Longrightarrow> ba_next b = length items"
    using inv by (simp_all add: batch_inv_def)
  have part: "waiting b \<union> set is = set (defined_items items (ba_next b))" "waiting b \<inter> set is = {}" "distinct is"
    "ba_next b \<le> length items" using core unfolding core_inv_def by blast+
  have sub: "set (defined_items items (ba_next b)) \<subseteq> set (defined_items items (length items))" using part(4) by auto
  have all: "card (set (defined_items items (length items))) = length (defined_items items (length items))"
    by (intro distinct_card) simp
  have is_sub: "set is \<subseteq> set (defined_items items (length items))" using part(1) sub by blast
  have card_is: "card (set is) = length is" using part(3) by (rule distinct_card)
  have le: "length is \<le> length (defined_items items (length items))"
    using card_mono [OF _ is_sub] all card_is by simp
  have none: "batch_result b = None \<longleftrightarrow> waiting b \<noteq> {}"
    by (auto simp: batch_result_def waiting_def somes_def)
  have done_next: "ba_next b = length items" if "waiting b = {}"
  proof (cases "items = []")
    case False
    then have "ba_workers b \<noteq> []" using len concurrency_bounds [of c] by (auto simp: batch_concurrency_def min_def split: if_splits)
    then have "None \<in> set (ba_workers b)" using that by (cases "ba_workers b"; cases "hd (ba_workers b)") (auto simp: waiting_def somes_def)
    then show ?thesis by (rule next_end)
  qed (use part(4) in simp)
  have eq: "waiting b = {} \<longleftrightarrow> length is = length (defined_items items (length items))"
  proof
    assume e: "waiting b = {}"
    then have "set is = set (defined_items items (length items))" using part(1) done_next by simp
    then show "length is = length (defined_items items (length items))" using all card_is by simp
  next
    assume "length is = length (defined_items items (length items))"
    then have "set is = set (defined_items items (length items))"
      using card_subset_eq [OF _ is_sub] all card_is by simp
    then show "waiting b = {}" using part(1,2) sub by blast
  qed
  have "batch_result b = Some (map (\<lambda>i. if items ! i = None then unexpected_failure else execute_outcome (settles i)) [0..<length items])"
    if "batch_result b \<noteq> None"
  proof -
    have w: "waiting b = {}" using that none by simp
    then have s: "set is = set (defined_items items (length items))" "ba_next b = length items"
      using part(1) done_next by simp_all
    have "ba_outcomes b = outcomes_of items settles is (length items)" using core s(2) by (simp add: core_inv_def)
    then show ?thesis
      using that s(1) by (auto simp: batch_result_def outcomes_of_def comp_def split: if_splits)
  qed
  with le eq none show ?thesis by linarith
qed

lemma batch_progress:
  assumes "batch_result b = None"
  shows "\<exists>i b'. batch_step items settles b i b'"
proof -
  obtain i where "Some i \<in> set (ba_workers b)" using assms by (auto simp: batch_result_def split: if_splits)
  then obtain k where "k < length (ba_workers b)" "ba_workers b ! k = Some i" by (metis in_set_conv_nth)
  then show ?thesis by (blast intro: batch_step.intros)
qed

section \<open>Polling\<close>

text \<open>What a read decides: the outcome of the wait, or nothing.\<close>

definition read_decides :: "string \<Rightarrow> run_records_result \<Rightarrow> batch_outcome option" where
  "read_decides i r =
     (case rr_error r of
        Some e \<Rightarrow> Some (createProjectRepositoryBatchFailure e)
      | None \<Rightarrow>
          (case List.find (\<lambda>r. tr_id r = i) (rr_records r) of
             None \<Rightarrow> None
           | Some run \<Rightarrow>
               (case tr_state run of
                  RunRunning \<Rightarrow> None
                | RunSucceeded \<Rightarrow> Some createProjectRepositoryBatchSuccess
                | RunFailed \<Rightarrow> Some (createProjectRepositoryBatchFailure ''project-repository-batch-task-failed'')
                | RunStopped \<Rightarrow> Some (createProjectRepositoryBatchFailure ''project-repository-batch-task-stopped''))))"

lemma poll_loop_decides:
  assumes "attempt \<le> n" "n < maxAttempts" "read_decides i (reads n) = Some out"
    and "\<And>k. attempt \<le> k \<Longrightarrow> k < n \<Longrightarrow> read_decides i (reads k) = None"
  shows "poll_loop i reads maxAttempts attempt sleeps = (out, n + 1, sleeps + (n - attempt))"
  using assms
proof (induction "n - attempt" arbitrary: attempt sleeps)
  case 0
  then have "attempt = n" by simp
  with 0 show ?case
    by (subst poll_loop.simps) (auto simp: read_decides_def split: option.splits task_run_state.splits)
next
  case (Suc m)
  then have "read_decides i (reads attempt) = None" "attempt < maxAttempts" "attempt + 1 < maxAttempts" by auto
  then have "poll_loop i reads maxAttempts attempt sleeps = poll_loop i reads maxAttempts (attempt + 1) (sleeps + 1)"
    by (subst poll_loop.simps) (auto simp: read_decides_def split: option.splits task_run_state.splits)
  also have "\<dots> = (out, n + 1, sleeps + 1 + (n - (attempt + 1)))" using Suc by (intro Suc.hyps(1)) auto
  finally show ?case using Suc.hyps(2) by simp
qed

lemma poll_loop_times_out:
  assumes "attempt \<le> maxAttempts" "\<And>k. attempt \<le> k \<Longrightarrow> k < maxAttempts \<Longrightarrow> read_decides i (reads k) = None"
  shows "poll_loop i reads maxAttempts attempt sleeps =
    (createProjectRepositoryBatchFailure ''project-repository-batch-task-timeout'', maxAttempts, sleeps + (maxAttempts - attempt - 1))"
  using assms
proof (induction "maxAttempts - attempt" arbitrary: attempt sleeps)
  case 0
  then show ?case by (subst poll_loop.simps) auto
next
  case (Suc m)
  then have "read_decides i (reads attempt) = None" "attempt < maxAttempts" by auto
  then have "poll_loop i reads maxAttempts attempt sleeps =
      poll_loop i reads maxAttempts (attempt + 1) (if attempt + 1 < maxAttempts then sleeps + 1 else sleeps)"
    by (subst poll_loop.simps) (auto simp: read_decides_def split: option.splits task_run_state.splits)
  also have "\<dots> = (createProjectRepositoryBatchFailure ''project-repository-batch-task-timeout'', maxAttempts,
      (if attempt + 1 < maxAttempts then sleeps + 1 else sleeps) + (maxAttempts - (attempt + 1) - 1))"
    using Suc by (intro Suc.hyps(1)) auto
  finally show ?case using \<open>attempt < maxAttempts\<close> by auto
qed

end
