(* ===== verification/Repository_Properties.thy ===== *)
theory Repository_Properties
  imports Batch_Laws
begin

text \<open>The properties of repository batches, of waiting for a task run, and of the run records, each with
  an instance where it has hypotheses.\<close>

section \<open>Batches\<close>

text \<open>
  While a batch runs, at most the normalised concurrency, never more than six, of its items are
  executing. \<open>execute\<close> is called for the items in their order, exactly once for each, and every
  progress report of an end carries the outcome of what \<open>execute\<close> settled to; the items started and not
  yet settled are the ones the workers wait for.
\<close>

theorem batch_runs_items_in_order:
  assumes "batch_run items settles (start_batch items c) is b"
  shows "int (card (waiting b)) \<le> normalizeProjectRepositoryBatchConcurrency c \<and> card (waiting b) \<le> 6 \<and>
    map fst (filter (\<lambda>p. snd p = None) (ba_progress b)) = filter (\<lambda>i. items ! i \<noteq> None) [0..<ba_next b] \<and>
    filter (\<lambda>p. snd p \<noteq> None) (ba_progress b) = map (\<lambda>i. (i, Some (execute_outcome (settles i)))) is \<and>
    distinct is \<and> waiting b = set (filter (\<lambda>i. items ! i \<noteq> None) [0..<ba_next b]) - set is"
proof -
  have inv: "core_inv items settles b (waiting b) is" and len: "length (ba_workers b) = batch_concurrency items c"
    using batch_run_inv [OF assms] by (simp_all add: batch_inv_def)
  have "int (card (waiting b)) \<le> normalizeProjectRepositoryBatchConcurrency c"
    using card_waiting [of b] len concurrency_bounds(1) [of c]
    by (auto simp: batch_concurrency_def min_def split: if_splits)
  moreover from this have "card (waiting b) \<le> 6" using concurrency_bounds(2) [of c] by linarith
  moreover have "waiting b = set (filter (\<lambda>i. items ! i \<noteq> None) [0..<ba_next b]) - set is"
    using inv unfolding core_inv_def by blast
  ultimately show ?thesis using inv unfolding core_inv_def by blast
qed

definition demo_items :: "string option list" where
  "demo_items = [Some ''a'', None, Some ''b'', Some ''c'']"

definition demo_settles :: "nat \<Rightarrow> js option" where
  "demo_settles i = (if i = 0 then None
     else if i = 2 then Some (JObj [(''state'', JStr ''succeeded''), (''error'', JNull)])
     else Some (JObj [(''state'', JStr ''skipped''), (''error'', JStr ''busy'')]))"

definition demo_batch :: batch where
  "demo_batch = continue_worker demo_items 1 (demo_settles 2) (start_batch demo_items (Inl 2))"

lemma demo_batch_run: "batch_run demo_items demo_settles (start_batch demo_items (Inl 2)) ([] @ [2]) demo_batch"
proof (rule batch_snoc [OF batch_nil])
  have "1 < length (ba_workers (start_batch demo_items (Inl 2)))" "ba_workers (start_batch demo_items (Inl 2)) ! 1 = Some 2"
    by code_simp+
  then show "batch_step demo_items demo_settles (start_batch demo_items (Inl 2)) 2 demo_batch"
    unfolding demo_batch_def by (rule batch_step.intros)
qed

theorem batch_runs_items_in_order_witness:
  "card (waiting demo_batch) \<le> 6 \<and> map fst (filter (\<lambda>p. snd p = None) (ba_progress demo_batch)) = [0, 2, 3]"
proof (rule conjI)
  show "card (waiting demo_batch) \<le> 6" using batch_runs_items_in_order [OF demo_batch_run] by blast
  show "map fst (filter (\<lambda>p. snd p = None) (ba_progress demo_batch)) = [0, 2, 3]" by code_simp
qed

text \<open>
  C32: A batch never gets stuck and always ends: as long as fewer promises have settled than there are
  items to execute it has no result and a worker waits for one of them, and no run settles more. When
  as many have settled, the batch resolves, and its result does not depend on the order in which they
  settled: it holds, in the order of the items, the normalised outcome of each.
\<close>

theorem batch_always_ends:
  assumes "batch_run items settles (start_batch items c) is b"
  shows "length is \<le> length (filter (\<lambda>x. x \<noteq> None) items) \<and>
    (if length is = length (filter (\<lambda>x. x \<noteq> None) items)
     then batch_result b = Some (map (\<lambda>i. if items ! i = None then unexpected_failure else execute_outcome (settles i))
            [0..<length items])
     else batch_result b = None \<and> (\<exists>i b'. batch_step items settles b i b'))"
proof -
  have "length (filter (\<lambda>x. x \<noteq> None) items) = length (filter (\<lambda>x. x \<noteq> None) (map ((!) items) [0..<length items]))"
    by (simp only: map_nth)
  also have "\<dots> = length (filter (\<lambda>i. items ! i \<noteq> None) [0..<length items])"
    unfolding filter_map length_map comp_def ..
  finally have count: "length (filter (\<lambda>x. x \<noteq> None) items) = length (filter (\<lambda>i. items ! i \<noteq> None) [0..<length items])" .
  have inv: "batch_inv items settles b is" "length (ba_workers b) = batch_concurrency items c"
    using batch_run_inv [OF assms] by blast+
  from batch_settled [OF inv] batch_progress [of b items settles] show ?thesis unfolding count by auto
qed

theorem batch_always_ends_witness:
  "batch_result demo_batch = None \<and> length (ba_workers demo_batch) = 2"
proof (rule conjI)
  show "batch_result demo_batch = None"
    using batch_always_ends [OF demo_batch_run] by (simp add: demo_items_def)
  show "length (ba_workers demo_batch) = 2" by code_simp
qed

section \<open>Waiting\<close>

text \<open>
  C36: Waiting for a task run ends after at most the normalised number of reads, which is at least one
  and 4800 when it is not given, with one sleep between two reads: the first read that fails or shows
  the run ended decides the outcome, and when none of them does the outcome is a timeout.
\<close>

theorem wait_for_task_run_ends:
  assumes m_def: "m = nat (normalizePositiveInteger maxAttempts 4800)"
  shows "1 \<le> m \<and>
    ((\<exists>n out. n < m \<and> read_decides runId (reads n) = Some out \<and> (\<forall>k < n. read_decides runId (reads k) = None) \<and>
        waitForProjectRepositoryTaskRun runId reads maxAttempts = (out, n + 1, n)) \<or>
     ((\<forall>k < m. read_decides runId (reads k) = None) \<and>
        waitForProjectRepositoryTaskRun runId reads maxAttempts =
          (createProjectRepositoryBatchFailure ''project-repository-batch-task-timeout'', m, m - 1)))"
proof -
  have wait: "waitForProjectRepositoryTaskRun runId reads maxAttempts = poll_loop runId reads m 0 0"
    by (simp add: waitForProjectRepositoryTaskRun_def m_def PROJECT_REPOSITORY_BATCH_TASK_MAX_ATTEMPTS_def)
  have "1 \<le> m" by (auto simp: m_def normalizePositiveInteger_def split: option.splits)
  moreover consider (decided) n where "n < m" "read_decides runId (reads n) \<noteq> None" "\<forall>k < n. read_decides runId (reads k) = None"
    | (open_end) "\<forall>k < m. read_decides runId (reads k) = None"
    using exists_least_iff [of "\<lambda>n. n < m \<and> read_decides runId (reads n) \<noteq> None"] by fastforce
  then have "(\<exists>n out. n < m \<and> read_decides runId (reads n) = Some out \<and> (\<forall>k < n. read_decides runId (reads k) = None) \<and>
        waitForProjectRepositoryTaskRun runId reads maxAttempts = (out, n + 1, n)) \<or>
     ((\<forall>k < m. read_decides runId (reads k) = None) \<and>
        waitForProjectRepositoryTaskRun runId reads maxAttempts =
          (createProjectRepositoryBatchFailure ''project-repository-batch-task-timeout'', m, m - 1))"
  proof cases
    case (decided n)
    then obtain out where out: "read_decides runId (reads n) = Some out" by blast
    from poll_loop_decides [where attempt = 0 and sleeps = 0, OF _ decided(1), of runId reads out] decided out
    show ?thesis by (auto simp: wait)
  next
    case open_end
    then show ?thesis using poll_loop_times_out [of 0 m runId reads 0] by (simp add: wait)
  qed
  ultimately show ?thesis by blast
qed

definition demo_reads :: "nat \<Rightarrow> run_records_result" where
  "demo_reads n = \<lparr>rr_records = [\<lparr>tr_id = ''r'', tr_task = Build, tr_repositoryPath = ''/a'', tr_command = ''make'',
     tr_state = (if n < 2 then RunRunning else RunStopped), tr_exitCode = None, tr_startedAt = ''t'',
     tr_finishedAt = None, tr_outputTail = None, tr_recordPath = ''/r''\<rparr>], rr_error = None\<rparr>"

theorem wait_for_task_run_ends_witness:
  "waitForProjectRepositoryTaskRun ''r'' demo_reads (Some (Inl 5)) =
     (createProjectRepositoryBatchFailure ''project-repository-batch-task-stopped'', 3, 2) \<and>
   1 \<le> nat (normalizePositiveInteger (Some (Inl 5)) 4800)"
proof (rule conjI)
  show "waitForProjectRepositoryTaskRun ''r'' demo_reads (Some (Inl 5)) =
     (createProjectRepositoryBatchFailure ''project-repository-batch-task-stopped'', 3, 2)" by code_simp
  show "1 \<le> nat (normalizePositiveInteger (Some (Inl 5)) 4800)"
    using wait_for_task_run_ends [OF refl, of "Some (Inl 5)" "''r''" demo_reads] by blast
qed

section \<open>Run records\<close>

lemma map_latest_runs_find:
  "map_latest_runs repositories records m i =
     (case m i of Some r \<Rightarrow> Some r
      | None \<Rightarrow> List.find (\<lambda>r. repository_of_path repositories (createRepositoryTaskRunPathKey (tr_repositoryPath r)) = Some i) records)"
  by (induction records arbitrary: m) (auto split: option.splits)

text \<open>
  The run shown for a repository is the first reported record whose path belongs to it, and there
  is none when no record does: a record is never shown for another repository, whatever its identifier.
\<close>

theorem latest_run_of_repository:
  "mapLatestTaskRunsByRepositoryId repositories records i =
     List.find (\<lambda>r. repository_of_path repositories (createRepositoryTaskRunPathKey (tr_repositoryPath r)) = Some i) records"
  by (simp add: mapLatestTaskRunsByRepositoryId_def map_latest_runs_find)

end
