(* ===== verification/App_State.thy ===== *)
theory App_State
  imports Prelude "HOL-Library.List_Lexorder" "HOL-Library.Char_ord"
begin

text \<open>
  Application state (\<open>src/lib/app-state/app-state-storage.ts\<close>): settings are cached in memory, an accepted
  edit is written to a journal in local storage and flushed to SQLite later. The module-level variables
  and local storage are the fields of \<open>app_state\<close>. An asynchronous function is cut at its \<open>await\<close>s: the
  parts between are the definitions \<open>begin_\<close>, \<open>settle_\<close> and so on below. A part that throws ends with
  \<open>False\<close> and the state it has reached.

  The text of a journal entry stands for the value \<open>JSON.parse\<close> makes of it, \<open>JUndefined\<close> when it throws;
  \<open>P text\<close> tells whether a setting text is a JSON object. Access to a storage name can fail: \<open>ap_readable\<close>,
  \<open>ap_writable\<close> and \<open>ap_removable\<close> say which names can be read, written and removed at the moment.
\<close>

section \<open>Keys and records\<close>

datatype app_key = KeyAppearance | KeySync | KeySystem | KeyWorkspaces

fun key_name :: "app_key \<Rightarrow> string" where
  "key_name KeyAppearance = ''appearance-settings''"
| "key_name KeySync = ''sync-settings''"
| "key_name KeySystem = ''system-settings''"
| "key_name KeyWorkspaces = ''workspace-registry''"

definition WORKDUCK_APP_STATE_KEYS :: "app_key list" where
  "WORKDUCK_APP_STATE_KEYS = [KeyAppearance, KeySync, KeySystem, KeyWorkspaces]"

definition WORKDUCK_APP_STATE_PENDING_STORAGE_KEY_PREFIX :: string where
  "WORKDUCK_APP_STATE_PENDING_STORAGE_KEY_PREFIX = ''workduck.appState.pending.v1''"

definition createPendingStorageKey :: "app_key \<Rightarrow> string" where
  "createPendingStorageKey key = WORKDUCK_APP_STATE_PENDING_STORAGE_KEY_PREFIX @ ''.'' @ key_name key"

instantiation app_key :: enum
begin

definition enum_app_key :: "app_key list" where "enum_app_key = WORKDUCK_APP_STATE_KEYS"

definition enum_all_app_key :: "(app_key \<Rightarrow> bool) \<Rightarrow> bool" where
  "enum_all_app_key f = list_all f WORKDUCK_APP_STATE_KEYS"

definition enum_ex_app_key :: "(app_key \<Rightarrow> bool) \<Rightarrow> bool" where
  "enum_ex_app_key f = list_ex f WORKDUCK_APP_STATE_KEYS"

instance
proof
  show u: "(UNIV :: app_key set) = set enum_class.enum"
    using app_key.exhaust by (auto simp: enum_app_key_def WORKDUCK_APP_STATE_KEYS_def)
  show "distinct (enum_class.enum :: app_key list)"
    by (simp add: enum_app_key_def WORKDUCK_APP_STATE_KEYS_def)
  fix f :: "app_key \<Rightarrow> bool"
  show "enum_class.enum_all f = Ball UNIV f" "enum_class.enum_ex f = Bex UNIV f"
    unfolding u by (simp_all add: enum_all_app_key_def enum_ex_app_key_def enum_app_key_def list_all_iff list_ex_iff)
qed

end

record pending_write =
  pw_valueJson :: string
  pw_updatedAt :: string

text \<open>\<open>normalizeLegacyValue\<close> may throw.\<close>

record app_seed =
  sd_key :: app_key
  sd_legacyStorageKey :: string
  sd_valueJson :: string
  sd_normalizeLegacyValue :: "(string option \<Rightarrow> string option) option"
  sd_validateValueJson :: "(string \<Rightarrow> bool) option"

datatype app_storage_error =
    app_state_storage_unavailable
  | app_state_read_failed
  | app_state_write_failed

datatype app_backend = Uninitialized | BrowserBackend | Sqlite | NativeUnavailable

text \<open>
  The states between two parts of an initialisation and of a flush. \<open>InitReading\<close> waits for the native
  records, with the pending writes it has read; \<open>InitWriting\<close> waits for the native write of its records;
  both carry the resolved values. \<open>Flushing\<close> waits for the native write of its records.
\<close>

datatype app_init =
    NoInit
  | InitReading "app_seed list" "app_key \<rightharpoonup> pending_write" "(app_key \<times> string) list"
  | InitWriting "app_seed list" "app_key \<rightharpoonup> pending_write" "(app_key \<times> string) list"

datatype app_flush = NoFlush | Flushing "app_key \<rightharpoonup> pending_write"

record app_state =
  ap_cached :: "app_key \<rightharpoonup> string"
  ap_versions :: "app_key \<Rightarrow> nat"
  ap_refreshSequences :: "app_key \<Rightarrow> nat"
  ap_deferred :: "app_key set"
  ap_epoch :: nat
  ap_legacyKeys :: "app_key \<rightharpoonup> string"
  ap_validators :: "app_key \<rightharpoonup> (string \<Rightarrow> bool)"
  ap_transactions :: "app_key set"
  ap_backend :: app_backend
  ap_error :: "app_storage_error option"
  ap_flush :: app_flush
  ap_init :: app_init
  ap_published :: "(app_key \<times> string) list"
  ap_native :: bool
  ap_available :: bool
  ap_journal :: "app_key \<rightharpoonup> js"
  ap_legacy :: "string \<rightharpoonup> string"
  ap_readable :: "string \<Rightarrow> bool"
  ap_writable :: "string \<Rightarrow> bool"
  ap_removable :: "string \<Rightarrow> bool"

text \<open>\<open>Accepted valueJson\<close> or \<open>Failed valueJson error\<close>\<close>

datatype app_write_result = Accepted string | Failed string app_storage_error

section \<open>Cache\<close>

definition cacheAppStateValue :: "app_state \<Rightarrow> app_key \<Rightarrow> string \<Rightarrow> app_state" where
  "cacheAppStateValue st key valueJson =
     st\<lparr>ap_cached := (ap_cached st)(key \<mapsto> valueJson), ap_versions := (ap_versions st)(key := ap_versions st key + 1)\<rparr>"

definition publishAppStateValue :: "app_state \<Rightarrow> app_key \<Rightarrow> string \<Rightarrow> app_state" where
  "publishAppStateValue st key valueJson =
     (cacheAppStateValue st key valueJson)\<lparr>ap_published := ap_published st @ [(key, valueJson)]\<rparr>"

definition rejects :: "(string \<Rightarrow> bool) option \<Rightarrow> string \<Rightarrow> bool" where
  "rejects validator valueJson = (case validator of None \<Rightarrow> False | Some f \<Rightarrow> \<not> f valueJson)"

text \<open>\<open>retryDeferredRefreshes\<close>: the refresh it queues runs later.\<close>

definition retryDeferredRefreshes :: "app_state \<Rightarrow> app_state" where
  "retryDeferredRefreshes st = st\<lparr>ap_deferred := {}\<rparr>"

section \<open>The journal\<close>

definition parsePendingWrite :: "(string \<Rightarrow> bool) \<Rightarrow> js \<Rightarrow> pending_write option" where
  "parsePendingWrite P value =
     (case (js_prop value ''valueJson'', js_prop value ''updatedAt'') of
        (JStr v, JStr t) \<Rightarrow>
          if \<not> isObjectRecord value \<or> \<not> P v \<or> js_trim t = [] then None
          else Some \<lparr>pw_valueJson = v, pw_updatedAt = js_trim t\<rparr>
      | _ \<Rightarrow> None)"

text \<open>\<open>None\<close> when it throws.\<close>

definition readPendingWrite :: "(string \<Rightarrow> bool) \<Rightarrow> app_state \<Rightarrow> app_key \<Rightarrow> pending_write option option" where
  "readPendingWrite P st key =
     (if \<not> ap_readable st (createPendingStorageKey key) then None
      else (case ap_journal st key of
              None \<Rightarrow> Some None
            | Some v \<Rightarrow> (case parsePendingWrite P v of None \<Rightarrow> None | Some p \<Rightarrow> Some (Some p))))"

definition readPendingWrites :: "(string \<Rightarrow> bool) \<Rightarrow> app_state \<Rightarrow> bool \<Rightarrow> (app_key \<rightharpoonup> pending_write) option" where
  "readPendingWrites P st storage =
     (if \<not> storage then Some Map.empty
      else if \<exists>key \<in> set WORKDUCK_APP_STATE_KEYS. readPendingWrite P st key = None then None
      else Some (\<lambda>key. case readPendingWrite P st key of Some p \<Rightarrow> p | None \<Rightarrow> None))"

definition pending_js :: "pending_write \<Rightarrow> js" where
  "pending_js p = JObj [(''valueJson'', JStr (pw_valueJson p)), (''updatedAt'', JStr (pw_updatedAt p))]"

definition writePendingWrite :: "app_state \<Rightarrow> app_key \<Rightarrow> pending_write \<Rightarrow> app_state \<times> bool" where
  "writePendingWrite st key p =
     (if ap_writable st (createPendingStorageKey key)
      then (st\<lparr>ap_journal := (ap_journal st)(key \<mapsto> pending_js p)\<rparr>, True) else (st, False))"

definition hasRecords :: "(app_key \<rightharpoonup> 'a) \<Rightarrow> bool" where
  "hasRecords records = (\<exists>key \<in> set WORKDUCK_APP_STATE_KEYS. records key \<noteq> None)"

text \<open>A loop over the keys whose body may throw.\<close>

fun for_keys :: "(app_key \<Rightarrow> app_state \<Rightarrow> app_state \<times> bool) \<Rightarrow> app_key list \<Rightarrow> app_state \<Rightarrow> app_state \<times> bool" where
  "for_keys f [] st = (st, True)"
| "for_keys f (key # keys) st =
     (case f key st of (st', True) \<Rightarrow> for_keys f keys st' | (st', False) \<Rightarrow> (st', False))"

definition remove_flushed_key ::
  "(string \<Rightarrow> bool) \<Rightarrow> (app_key \<rightharpoonup> pending_write) \<Rightarrow> app_key \<Rightarrow> app_state \<Rightarrow> app_state \<times> bool" where
  "remove_flushed_key P flushedRecords key st =
     (case flushedRecords key of
        None \<Rightarrow> (st, True)
      | Some flushedRecord \<Rightarrow>
          (case readPendingWrite P st key of
             None \<Rightarrow> (st, False)
           | Some currentRecord \<Rightarrow>
               if currentRecord \<noteq> Some flushedRecord then (st, True)
               else if ap_removable st (createPendingStorageKey key)
               then (st\<lparr>ap_journal := (ap_journal st)(key := None)\<rparr>, True)
               else (st, False)))"

definition removeFlushedPendingWrites ::
  "(string \<Rightarrow> bool) \<Rightarrow> bool \<Rightarrow> (app_key \<rightharpoonup> pending_write) \<Rightarrow> app_state \<Rightarrow> app_state \<times> bool" where
  "removeFlushedPendingWrites P storage flushedRecords st =
     (if \<not> storage then (st, True) else for_keys (remove_flushed_key P flushedRecords) WORKDUCK_APP_STATE_KEYS st)"

definition remove_legacy :: "string \<Rightarrow> app_state \<Rightarrow> app_state" where
  "remove_legacy name st = (if ap_removable st name then st\<lparr>ap_legacy := (ap_legacy st)(name := None)\<rparr> else st)"

definition removeLegacyValues :: "bool \<Rightarrow> app_seed list \<Rightarrow> app_state \<Rightarrow> app_state" where
  "removeLegacyValues storage seeds st =
     (if \<not> storage then st else fold (\<lambda>seed. remove_legacy (sd_legacyStorageKey seed)) seeds st)"

definition removeLegacyValuesForRecords :: "(app_key \<rightharpoonup> pending_write) \<Rightarrow> app_state \<Rightarrow> app_state" where
  "removeLegacyValuesForRecords records st =
     fold (\<lambda>key st. if records key = None then st
                    else (case ap_legacyKeys st key of None \<Rightarrow> st | Some name \<Rightarrow> remove_legacy name st))
       WORKDUCK_APP_STATE_KEYS st"

section \<open>Native responses\<close>

text \<open>\<open>None\<close> when it throws.\<close>

definition parseNativeReadResponse :: "(string \<Rightarrow> bool) \<Rightarrow> js \<Rightarrow> (app_key \<rightharpoonup> string) option" where
  "parseNativeReadResponse P response =
     (let records = js_prop response ''records'' in
      if \<not> js_truthy (js_prop response ''ok'') \<or> \<not> isObjectRecord records then None
      else if \<exists>key \<in> set WORKDUCK_APP_STATE_KEYS.
                (case js_prop records (key_name key) of JUndefined \<Rightarrow> False | JStr v \<Rightarrow> \<not> P v | _ \<Rightarrow> True)
      then None
      else Some (\<lambda>key. case js_prop records (key_name key) of JStr v \<Rightarrow> Some v | _ \<Rightarrow> None))"

definition parseNativeWriteResponse ::
  "(string \<Rightarrow> bool) \<Rightarrow> js \<Rightarrow> (app_key \<rightharpoonup> pending_write) \<Rightarrow> (app_key \<rightharpoonup> string) option" where
  "parseNativeWriteResponse P response requested =
     (if js_prop response ''ok'' \<noteq> JBool True then None
      else (case js_prop response ''supersededRecords'' of
              JUndefined \<Rightarrow> Some Map.empty
            | JObj ps \<Rightarrow>
                if \<exists>(name, value) \<in> set ps.
                     \<not> (\<exists>key \<in> set WORKDUCK_APP_STATE_KEYS. key_name key = name \<and> requested key \<noteq> None) \<or>
                     (case value of JStr v \<Rightarrow> \<not> P v | _ \<Rightarrow> True)
                then None
                else Some (\<lambda>key. case map_of ps (key_name key) of Some (JStr v) \<Rightarrow> Some v | _ \<Rightarrow> None)
            | _ \<Rightarrow> None))"

definition reconcile_key ::
  "(string \<Rightarrow> bool) \<Rightarrow> bool \<Rightarrow> (app_key \<rightharpoonup> pending_write) \<Rightarrow> (app_key \<rightharpoonup> string) \<Rightarrow> bool \<Rightarrow> app_key \<Rightarrow> app_state \<Rightarrow>
   app_state \<times> bool" where
  "reconcile_key P storage requested superseded notify key st =
     (case requested key of
        None \<Rightarrow> (st, True)
      | Some request \<Rightarrow>
          (case (if storage then readPendingWrite P st key else Some None) of
             None \<Rightarrow> (st, False)
           | Some current \<Rightarrow>
               if (case current of
                     None \<Rightarrow> ap_cached st key \<noteq> Some (pw_valueJson request)
                   | Some c \<Rightarrow> c \<noteq> request)
               then (st, True)
               else (let valueJson = (case superseded key of Some v \<Rightarrow> v | None \<Rightarrow> pw_valueJson request) in
                     if ap_cached st key = Some valueJson then (st, True)
                     else ((if notify then publishAppStateValue else cacheAppStateValue) st key valueJson, True))))"

definition reconcileCommittedRecords ::
  "(string \<Rightarrow> bool) \<Rightarrow> bool \<Rightarrow> (app_key \<rightharpoonup> pending_write) \<Rightarrow> (app_key \<rightharpoonup> string) \<Rightarrow> bool \<Rightarrow> app_state \<Rightarrow>
   app_state \<times> bool" where
  "reconcileCommittedRecords P storage requested superseded notify st =
     for_keys (reconcile_key P storage requested superseded notify) WORKDUCK_APP_STATE_KEYS st"

section \<open>Flushing\<close>

text \<open>Every part ends with the new state and, when the flush has ended, its result.\<close>

definition end_flush :: "app_state \<Rightarrow> bool \<Rightarrow> app_state \<times> bool option" where
  "end_flush st result = (retryDeferredRefreshes (st\<lparr>ap_flush := NoFlush\<rparr>), Some result)"

text \<open>An iteration of the loop, up to the native write.\<close>

definition flush_iteration :: "(string \<Rightarrow> bool) \<Rightarrow> app_state \<Rightarrow> app_state \<times> bool option" where
  "flush_iteration P st =
     (case readPendingWrites P st True of
        None \<Rightarrow> end_flush st False
      | Some pendingWrites \<Rightarrow>
          if \<not> hasRecords pendingWrites then end_flush st True
          else if \<exists>key \<in> set WORKDUCK_APP_STATE_KEYS.
                    (case pendingWrites key of None \<Rightarrow> False
                     | Some pending \<Rightarrow> rejects (ap_validators st key) (pw_valueJson pending))
          then end_flush st False
          else (st\<lparr>ap_flush := Flushing pendingWrites\<rparr>, None))"

text \<open>A call joins the flush that is under way.\<close>

definition flushWorkduckAppStateWrites :: "(string \<Rightarrow> bool) \<Rightarrow> app_state \<Rightarrow> app_state \<times> bool option" where
  "flushWorkduckAppStateWrites P st =
     (if ap_flush st \<noteq> NoFlush then (st, None)
      else if ap_backend st \<noteq> Sqlite \<or> \<not> ap_available st \<or> \<not> ap_native st then end_flush st False
      else flush_iteration P st)"

text \<open>The native write has answered, or failed (\<open>None\<close>).\<close>

definition settle_flush :: "(string \<Rightarrow> bool) \<Rightarrow> app_state \<Rightarrow> js option \<Rightarrow> app_state \<times> bool option" where
  "settle_flush P st reply =
     (case (ap_flush st, reply) of
        (NoFlush, _) \<Rightarrow> (st, None)
      | (Flushing pendingWrites, None) \<Rightarrow> end_flush st False
      | (Flushing pendingWrites, Some response) \<Rightarrow>
          (case parseNativeWriteResponse P response pendingWrites of
             None \<Rightarrow> end_flush st False
           | Some superseded \<Rightarrow>
               if \<exists>key \<in> set WORKDUCK_APP_STATE_KEYS.
                    (case superseded key of None \<Rightarrow> False | Some v \<Rightarrow> rejects (ap_validators st key) v)
               then end_flush st False
               else (case reconcileCommittedRecords P True pendingWrites superseded True st of
                       (st1, False) \<Rightarrow> end_flush st1 False
                     | (st1, True) \<Rightarrow>
                         (case removeFlushedPendingWrites P True pendingWrites st1 of
                            (st2, False) \<Rightarrow> end_flush st2 False
                          | (st2, True) \<Rightarrow>
                              flush_iteration P
                                ((removeLegacyValuesForRecords pendingWrites st2)\<lparr>ap_backend := Sqlite, ap_error := None\<rparr>)))))"

section \<open>Reading and writing\<close>

definition readWorkduckAppStateValue ::
  "app_state \<Rightarrow> app_key \<Rightarrow> string \<Rightarrow> app_state \<times> string option \<times> app_storage_error option" where
  "readWorkduckAppStateValue st key legacyStorageKey =
     (let st' = st\<lparr>ap_legacyKeys := (ap_legacyKeys st)(key \<mapsto> legacyStorageKey)\<rparr> in
      if ap_backend st = BrowserBackend \<or> ap_backend st = Uninitialized \<and> \<not> ap_native st
      then (if \<not> ap_available st then (st', ap_cached st key, Some app_state_storage_unavailable)
            else if ap_readable st legacyStorageKey then (st', ap_legacy st legacyStorageKey, None)
            else (st', ap_cached st key, Some app_state_read_failed))
      else if ap_backend st = Sqlite \<and> ap_error st = None then (st', ap_cached st key, None)
      else (st', ap_cached st key,
            Some (case ap_error st of Some e \<Rightarrow> e | None \<Rightarrow> app_state_read_failed)))"

definition writeBrowserValue :: "app_state \<Rightarrow> string \<Rightarrow> string \<Rightarrow> app_state \<times> bool" where
  "writeBrowserValue st name valueJson =
     (if ap_available st \<and> ap_writable st name
      then (st\<lparr>ap_legacy := (ap_legacy st)(name \<mapsto> valueJson)\<rparr>, True) else (st, False))"

text \<open>\<open>now\<close> is the current time in ISO form. The flush that an accepted write queues is a call of its own.\<close>

definition writeWorkduckAppStateValue ::
  "(string \<Rightarrow> bool) \<Rightarrow> app_state \<Rightarrow> app_key \<Rightarrow> string \<Rightarrow> string \<Rightarrow> string \<Rightarrow> app_state \<times> app_write_result" where
  "writeWorkduckAppStateValue P st0 key legacyStorageKey valueJson now =
     (let st = st0\<lparr>ap_legacyKeys := (ap_legacyKeys st0)(key \<mapsto> legacyStorageKey)\<rparr> in
      if key \<in> ap_transactions st \<or> \<not> P valueJson \<or> rejects (ap_validators st key) valueJson
      then (st, Failed valueJson app_state_write_failed)
      else if \<not> ap_native st \<or> ap_backend st = BrowserBackend
      then (case writeBrowserValue st legacyStorageKey valueJson of
              (st', False) \<Rightarrow> (st', Failed valueJson app_state_storage_unavailable)
            | (st', True) \<Rightarrow> (cacheAppStateValue st' key valueJson, Accepted valueJson))
      else if ap_backend st \<noteq> Sqlite
      then (st, Failed valueJson (case ap_error st of Some e \<Rightarrow> e | None \<Rightarrow> app_state_read_failed))
      else if \<not> ap_available st then (st, Failed valueJson app_state_storage_unavailable)
      else (case readPendingWrite P st key of
              None \<Rightarrow> (st, Failed valueJson app_state_write_failed)
            | Some current \<Rightarrow>
                if (case current of None \<Rightarrow> False | Some c \<Rightarrow> rejects (ap_validators st key) (pw_valueJson c))
                then (st, Failed valueJson app_state_write_failed)
                else (case writePendingWrite st key \<lparr>pw_valueJson = valueJson, pw_updatedAt = now\<rparr> of
                        (st', False) \<Rightarrow> (st', Failed valueJson app_state_write_failed)
                      | (st', True) \<Rightarrow> (cacheAppStateValue st' key valueJson, Accepted valueJson))))"

section \<open>Transactions\<close>

text \<open>
  \<open>commitWorkduckAppStateValueWithNativeTransaction\<close>: \<open>begin_transaction\<close> takes the key and calls for a
  flush; after its result, \<open>transaction_expects\<close> is the snapshot that \<open>commit\<close> is given;
  \<open>end_transaction\<close> follows the answer of \<open>commit\<close> (or a flush that failed).
\<close>

definition begin_transaction :: "(string \<Rightarrow> bool) \<Rightarrow> app_state \<Rightarrow> app_key \<Rightarrow> string \<Rightarrow> app_state \<times> bool" where
  "begin_transaction P st key valueJson =
     (if ap_backend st \<noteq> Sqlite \<or> ap_error st \<noteq> None \<or> \<not> ap_native st \<or> key \<in> ap_transactions st \<or> \<not> P valueJson
      then (st, False)
      else (st\<lparr>ap_transactions := insert key (ap_transactions st)\<rparr>, True))"

definition transaction_expects :: "app_state \<Rightarrow> app_key \<Rightarrow> string option" where
  "transaction_expects st key = ap_cached st key"

definition end_transaction ::
  "app_state \<Rightarrow> app_key \<Rightarrow> string \<Rightarrow> string \<Rightarrow> bool \<Rightarrow> app_state \<times> app_write_result" where
  "end_transaction st key legacyStorageKey valueJson committed =
     (let st' = (if committed
                 then (cacheAppStateValue st key valueJson)\<lparr>ap_legacyKeys := (ap_legacyKeys st)(key \<mapsto> legacyStorageKey)\<rparr>
                 else st)
      in (retryDeferredRefreshes (st'\<lparr>ap_transactions := ap_transactions st' - {key}\<rparr>),
          if committed then Accepted valueJson else Failed valueJson app_state_write_failed))"

end
