(* ===== verification/App_Init.thy ===== *)
theory App_Init
  imports App_State
begin

text \<open>
  The rest of \<open>src/lib/app-state/app-state-storage.ts\<close>: initialisation from the journal, the native records
  and the legacy values, the refresh of cached values, and the storage event of another window. The
  native store of \<open>src-tauri/src/app_state_store.rs\<close> is modelled at the end.
\<close>

section \<open>Initialisation\<close>

definition register_seed :: "(string \<Rightarrow> bool) \<Rightarrow> app_seed \<Rightarrow> app_state \<Rightarrow> app_state" where
  "register_seed P seed st =
     (let st' = st\<lparr>ap_legacyKeys := (ap_legacyKeys st)(sd_key seed \<mapsto> sd_legacyStorageKey seed),
                   ap_validators := (ap_validators st)(sd_key seed := sd_validateValueJson seed)\<rparr>
      in if P (sd_valueJson seed) then cacheAppStateValue st' (sd_key seed) (sd_valueJson seed) else st')"

definition registerSeeds :: "(string \<Rightarrow> bool) \<Rightarrow> app_seed list \<Rightarrow> app_state \<Rightarrow> app_state" where
  "registerSeeds P seeds st = fold (register_seed P) seeds st"

text \<open>\<open>resolved\<close> is the map \<open>resolvedValues\<close>, in insertion order.\<close>

fun set_resolved :: "app_key \<Rightarrow> string \<Rightarrow> (app_key \<times> string) list \<Rightarrow> (app_key \<times> string) list" where
  "set_resolved key v [] = [(key, v)]"
| "set_resolved key v ((k, w) # rest) = (if k = key then (k, v) # rest else (k, w) # set_resolved key v rest)"

definition failInitialization :: "app_state \<Rightarrow> app_storage_error \<Rightarrow> (app_key \<times> string) list \<Rightarrow> app_state" where
  "failInitialization st err fallbackValues =
     (fold (\<lambda>(key, v) st. cacheAppStateValue st key v) fallbackValues st)
       \<lparr>ap_backend := NativeUnavailable, ap_error := Some err, ap_init := NoInit\<rparr>"

text \<open>\<open>None\<close> when it throws; \<open>window\<close> is defined.\<close>

definition resolveSeedFallback :: "app_state \<Rightarrow> bool \<Rightarrow> app_seed \<Rightarrow> string option" where
  "resolveSeedFallback st storage seed =
     (case sd_normalizeLegacyValue seed of
        None \<Rightarrow> Some (sd_valueJson seed)
      | Some normalizeLegacy \<Rightarrow>
          if \<not> storage then None
          else if \<not> ap_readable st (sd_legacyStorageKey seed) then None
          else normalizeLegacy (ap_legacy st (sd_legacyStorageKey seed)))"

definition readBrowserValue :: "app_state \<Rightarrow> bool \<Rightarrow> string \<Rightarrow> string option" where
  "readBrowserValue st storage name = (if storage \<and> ap_readable st name then ap_legacy st name else None)"

text \<open>Without a native side: every seed is cached from local storage.\<close>

fun init_browser_seeds :: "app_seed list \<Rightarrow> app_state \<Rightarrow> app_state \<times> bool" where
  "init_browser_seeds [] st = (st, True)"
| "init_browser_seeds (seed # seeds) st =
     (case (case sd_normalizeLegacyValue seed of
              None \<Rightarrow> Some (case readBrowserValue st (ap_available st) (sd_legacyStorageKey seed) of
                              Some v \<Rightarrow> v | None \<Rightarrow> sd_valueJson seed)
            | Some _ \<Rightarrow> resolveSeedFallback st (ap_available st) seed) of
        None \<Rightarrow> (st, False)
      | Some v \<Rightarrow>
          if rejects (sd_validateValueJson seed) v then (st, False)
          else init_browser_seeds seeds (cacheAppStateValue st (sd_key seed) v))"

text \<open>\<open>[...cachedValues]\<close> in the order of the keys.\<close>

definition cached_list :: "app_state \<Rightarrow> (app_key \<times> string) list" where
  "cached_list st = List.map_filter (\<lambda>key. map_option (\<lambda>v. (key, v)) (ap_cached st key)) WORKDUCK_APP_STATE_KEYS"

definition begin_init :: "(string \<Rightarrow> bool) \<Rightarrow> app_seed list \<Rightarrow> app_state \<Rightarrow> app_state" where
  "begin_init P seeds st0 =
     (let st = registerSeeds P seeds (st0\<lparr>ap_epoch := ap_epoch st0 + 1\<rparr>) in
      if \<not> ap_native st then
        (case init_browser_seeds seeds st of
           (st', True) \<Rightarrow> st'\<lparr>ap_backend := BrowserBackend, ap_error := None\<rparr>
         | (st', False) \<Rightarrow> failInitialization st' app_state_read_failed (cached_list st'))
      else
        (let resolved = fold (\<lambda>seed. set_resolved (sd_key seed) (sd_valueJson seed)) seeds [] in
         (case readPendingWrites P st (ap_available st) of
            None \<Rightarrow> failInitialization st app_state_read_failed resolved
          | Some pendingWrites \<Rightarrow>
              st\<lparr>ap_init := InitReading seeds pendingWrites
                   (fold (\<lambda>seed. set_resolved (sd_key seed)
                      (case pendingWrites (sd_key seed) of Some p \<Rightarrow> pw_valueJson p | None \<Rightarrow> sd_valueJson seed))
                      seeds resolved)\<rparr>)))"

text \<open>The loop over the seeds after the native records have been read; the flag is \<open>False\<close> when it threw.\<close>

fun resolve_seeds ::
  "(app_key \<rightharpoonup> pending_write) \<Rightarrow> (app_key \<rightharpoonup> string) \<Rightarrow> string \<Rightarrow> app_seed list \<Rightarrow>
   app_state \<times> (app_key \<times> string) list \<times> (app_key \<rightharpoonup> pending_write) \<Rightarrow>
   (app_state \<times> (app_key \<times> string) list \<times> (app_key \<rightharpoonup> pending_write)) \<times> bool" where
  "resolve_seeds pendingWrites nativeRecords now [] acc = (acc, True)"
| "resolve_seeds pendingWrites nativeRecords now (seed # seeds) (st, resolved, toWrite) =
     (let key = sd_key seed in
      if (case nativeRecords key of None \<Rightarrow> False | Some v \<Rightarrow> rejects (sd_validateValueJson seed) v)
      then ((st, resolved, toWrite), False)
      else (case (case pendingWrites key of
                    Some p \<Rightarrow> Some (pw_valueJson p)
                  | None \<Rightarrow> (case nativeRecords key of
                              Some v \<Rightarrow> Some v
                            | None \<Rightarrow> resolveSeedFallback st (ap_available st) seed)) of
              None \<Rightarrow> ((st, resolved, toWrite), False)
            | Some valueJson \<Rightarrow>
                if rejects (sd_validateValueJson seed) valueJson then ((st, resolved, toWrite), False)
                else resolve_seeds pendingWrites nativeRecords now seeds
                       (cacheAppStateValue st key valueJson, set_resolved key valueJson resolved,
                        (case pendingWrites key of
                           Some p \<Rightarrow> toWrite(key \<mapsto> p)
                         | None \<Rightarrow>
                             (if nativeRecords key = None
                              then toWrite(key \<mapsto> \<lparr>pw_valueJson = valueJson, pw_updatedAt = now\<rparr>)
                              else toWrite)))))"

definition finish_init :: "app_seed list \<Rightarrow> app_state \<Rightarrow> app_state" where
  "finish_init seeds st =
     (removeLegacyValues (ap_available st) seeds st)\<lparr>ap_backend := Sqlite, ap_error := None, ap_init := NoInit\<rparr>"

text \<open>The native read has answered, or failed.\<close>

definition settle_init_read :: "(string \<Rightarrow> bool) \<Rightarrow> string \<Rightarrow> js option \<Rightarrow> app_state \<Rightarrow> app_state" where
  "settle_init_read P now reply st =
     (case ap_init st of
        InitReading seeds pendingWrites resolved \<Rightarrow>
          (case (case reply of None \<Rightarrow> None | Some response \<Rightarrow> parseNativeReadResponse P response) of
             None \<Rightarrow> failInitialization st app_state_read_failed resolved
           | Some nativeRecords \<Rightarrow>
               (case resolve_seeds pendingWrites nativeRecords now seeds (st, resolved, Map.empty) of
                  ((st', resolved', toWrite), False) \<Rightarrow> failInitialization st' app_state_read_failed resolved'
                | ((st', resolved', toWrite), True) \<Rightarrow>
                    if hasRecords toWrite then st'\<lparr>ap_init := InitWriting seeds toWrite resolved'\<rparr>
                    else finish_init seeds st'))
      | _ \<Rightarrow> st)"

text \<open>The native write has answered, or failed.\<close>

definition settle_init_write :: "(string \<Rightarrow> bool) \<Rightarrow> js option \<Rightarrow> app_state \<Rightarrow> app_state" where
  "settle_init_write P reply st =
     (case ap_init st of
        InitWriting seeds toWrite resolved \<Rightarrow>
          (case (case reply of None \<Rightarrow> None | Some response \<Rightarrow> parseNativeWriteResponse P response toWrite) of
             None \<Rightarrow> failInitialization st app_state_write_failed resolved
           | Some superseded \<Rightarrow>
               if \<exists>seed \<in> set seeds. (case superseded (sd_key seed) of
                     None \<Rightarrow> False | Some v \<Rightarrow> rejects (sd_validateValueJson seed) v)
               then failInitialization st app_state_write_failed resolved
               else (case reconcileCommittedRecords P (ap_available st) toWrite superseded False st of
                       (st1, False) \<Rightarrow> failInitialization st1 app_state_write_failed resolved
                     | (st1, True) \<Rightarrow>
                         (case removeFlushedPendingWrites P (ap_available st) toWrite st1 of
                            (st2, False) \<Rightarrow> failInitialization st2 app_state_write_failed resolved
                          | (st2, True) \<Rightarrow> finish_init seeds st2)))
      | _ \<Rightarrow> st)"

section \<open>Refreshing\<close>

text \<open>
  \<open>refreshWorkduckAppStateValues\<close>: \<open>begin_refresh\<close> gives the keys it asks for, each with its sequence
  number and cache version, or the result; \<open>settle_refresh\<close> takes the native answer.
\<close>

type_synonym refresh_request = "(app_key \<times> nat \<times> nat) list"

fun request_refresh :: "app_key list \<Rightarrow> app_state \<Rightarrow> app_state \<times> refresh_request" where
  "request_refresh [] st = (st, [])"
| "request_refresh (key # keys) st =
     (let (st', requested) = request_refresh keys
            (st\<lparr>ap_refreshSequences := (ap_refreshSequences st)(key := ap_refreshSequences st key + 1)\<rparr>)
      in (st', (key, ap_refreshSequences st key + 1, ap_versions st key) # requested))"

text \<open>The filter: \<open>None\<close> when reading the journal threw.\<close>

fun filter_refresh :: "refresh_request \<Rightarrow> app_state \<Rightarrow> app_state \<times> refresh_request option" where
  "filter_refresh [] st = (st, Some [])"
| "filter_refresh ((key, s) # rest) st =
     (if ap_cached st key = None then filter_refresh rest st
      else if key \<notin> ap_transactions st \<and> \<not> ap_readable st (createPendingStorageKey key) then (st, None)
      else if key \<in> ap_transactions st \<or> ap_journal st key \<noteq> None
      then filter_refresh rest (st\<lparr>ap_deferred := insert key (ap_deferred st)\<rparr>)
      else (case filter_refresh rest (st\<lparr>ap_deferred := ap_deferred st - {key}\<rparr>) of
              (st', None) \<Rightarrow> (st', None)
            | (st', Some kept) \<Rightarrow> (st', Some ((key, s) # kept))))"

definition begin_refresh :: "app_key list \<Rightarrow> app_state \<Rightarrow> app_state \<times> (bool + refresh_request)" where
  "begin_refresh keys st =
     (if ap_backend st \<noteq> Sqlite \<or> ap_error st \<noteq> None \<or> \<not> ap_native st \<or> \<not> ap_available st then (st, Inl False)
      else (let (st1, requested) = request_refresh (remdups keys) st in
            (case filter_refresh requested st1 of
               (st2, None) \<Rightarrow> (st2, Inl False)
             | (st2, Some []) \<Rightarrow> (st2, Inl True)
             | (st2, Some kept) \<Rightarrow> (st2, Inr kept))))"

fun apply_refresh :: "(app_key \<rightharpoonup> string) \<Rightarrow> app_key set \<Rightarrow> refresh_request \<Rightarrow> app_state \<Rightarrow> app_state" where
  "apply_refresh records pendingKeys [] st = st"
| "apply_refresh records pendingKeys ((key, sequence, version) # rest) st =
     (if key \<in> ap_transactions st \<or> key \<in> pendingKeys
      then apply_refresh records pendingKeys rest (st\<lparr>ap_deferred := insert key (ap_deferred st)\<rparr>)
      else if ap_refreshSequences st key \<noteq> sequence \<or> ap_versions st key \<noteq> version
      then apply_refresh records pendingKeys rest st
      else (case records key of
              None \<Rightarrow> apply_refresh records pendingKeys rest st
            | Some valueJson \<Rightarrow>
                apply_refresh records pendingKeys rest
                  (if ap_cached st key \<noteq> Some valueJson then publishAppStateValue st key valueJson else st)))"

definition settle_refresh ::
  "(string \<Rightarrow> bool) \<Rightarrow> nat \<Rightarrow> refresh_request \<Rightarrow> js option \<Rightarrow> app_state \<Rightarrow> app_state \<times> bool" where
  "settle_refresh P epoch requested reply st =
     (case (case reply of None \<Rightarrow> None | Some response \<Rightarrow> parseNativeReadResponse P response) of
        None \<Rightarrow> (st, False)
      | Some records \<Rightarrow>
          if \<exists>(key, s) \<in> set requested. records key = None then (st, False)
          else if epoch \<noteq> ap_epoch st \<or> ap_backend st \<noteq> Sqlite \<or> ap_error st \<noteq> None then (st, False)
          else if \<exists>(key, s) \<in> set requested. \<not> ap_readable st (createPendingStorageKey key) then (st, False)
          else (apply_refresh records {key. ap_journal st key \<noteq> None} requested st, True))"

section \<open>Storage events\<close>

text \<open>Another window has written the journal entry \<open>newValue\<close> of the subscribed key.\<close>

definition handleStorage :: "(string \<Rightarrow> bool) \<Rightarrow> app_key \<Rightarrow> js \<Rightarrow> app_state \<Rightarrow> app_state" where
  "handleStorage P key newValue st =
     (if key \<in> ap_transactions st then st
      else (case parsePendingWrite P newValue of
              None \<Rightarrow> st
            | Some pendingWrite \<Rightarrow>
                if ap_cached st key = Some (pw_valueJson pendingWrite) then st
                else (case (if ap_available st then readPendingWrite P st key else Some None) of
                        Some (Some current) \<Rightarrow>
                          if current \<noteq> pendingWrite then st
                          else publishAppStateValue st key (pw_valueJson pendingWrite)
                      | _ \<Rightarrow> st)))"

section \<open>The native store\<close>

text \<open>
  SQLite rows: the value and its time stamp. \<open>Q text\<close> tells whether \<open>serde_json\<close> reads an object in the
  text; white space as \<open>str::trim\<close> removes it; texts are compared by their bytes, as on Latin-1 by their
  characters.
\<close>

type_synonym app_rows = "app_key \<rightharpoonup> string \<times> string"

definition APP_STATE_VALUE_MAX_BYTES :: nat where "APP_STATE_VALUE_MAX_BYTES = 5 * 1024 * 1024"

definition rust_ws :: "char \<Rightarrow> bool" where
  "rust_ws c = (js_ws c \<or> (of_char c :: nat) = 133)"

definition rust_trim :: "string \<Rightarrow> string" where
  "rust_trim s = rev (dropWhile rust_ws (rev (dropWhile rust_ws s)))"

lemma rust_trim_idem: "rust_trim (rust_trim x) = rust_trim x"
proof (cases "dropWhile rust_ws x")
  case (Cons c u)
  then have c: "\<not> rust_ws c" by (metis hd_dropWhile list.sel(1) list.distinct(1))
  define w where "w = dropWhile rust_ws (rev (c # u))"
  have w: "dropWhile rust_ws w = w" unfolding w_def by (induction "rev (c # u)") simp_all
  have "rev w = c # rev (dropWhile rust_ws (rev u))" using c by (simp add: w_def dropWhile_append)
  then have "dropWhile rust_ws (rev w) = rev w" using c by simp
  moreover have "rust_trim x = rev w" by (simp add: rust_trim_def Cons w_def)
  ultimately show ?thesis using w by (simp add: rust_trim_def)
qed (simp add: rust_trim_def del: dropWhile_eq_Nil_conv)

definition utf8_length :: "string \<Rightarrow> nat" where
  "utf8_length s = sum_list (map (\<lambda>c. if (of_char c :: nat) < 128 then 1 else 2) s)"

definition validate_value_json :: "(string \<Rightarrow> bool) \<Rightarrow> string \<Rightarrow> string option" where
  "validate_value_json Q value_json =
     (let v = rust_trim value_json in
      if utf8_length v > APP_STATE_VALUE_MAX_BYTES \<or> \<not> Q v then None else Some v)"

definition is_sortable_utc_timestamp :: "string \<Rightarrow> bool" where
  "is_sortable_utc_timestamp value \<longleftrightarrow>
     length value = 24 \<and> value ! 4 = CHR ''-'' \<and> value ! 7 = CHR ''-'' \<and> value ! 10 = CHR ''T'' \<and>
     value ! 13 = CHR '':'' \<and> value ! 16 = CHR '':'' \<and> value ! 19 = CHR ''.'' \<and> value ! 23 = CHR ''Z'' \<and>
     (\<forall>i < 24. i \<in> {4, 7, 10, 13, 16, 19, 23} \<or> (48 \<le> (of_char (value ! i) :: nat) \<and> (of_char (value ! i) :: nat) \<le> 57))"

text \<open>The keys come from \<open>app_key\<close>, so that no key is invalid.\<close>

datatype app_store_error = ValueJsonInvalid | UpdatedAtRequired | AppStateConflict

fun store_error_name :: "app_store_error \<Rightarrow> string" where
  "store_error_name ValueJsonInvalid = ''app-state-json-invalid''"
| "store_error_name UpdatedAtRequired = ''app-state-updated-at-required''"
| "store_error_name AppStateConflict = ''app-state-conflict''"

definition record_error :: "(string \<Rightarrow> bool) \<Rightarrow> pending_write \<Rightarrow> app_store_error option" where
  "record_error Q r =
     (if validate_value_json Q (pw_valueJson r) = None then Some ValueJsonInvalid
      else if \<not> is_sortable_utc_timestamp (rust_trim (pw_updatedAt r)) then Some UpdatedAtRequired
      else None)"

text \<open>The records in the order of their keys; the first invalid one is the error.\<close>

definition validate_records ::
  "(string \<Rightarrow> bool) \<Rightarrow> (app_key \<rightharpoonup> pending_write) \<Rightarrow> app_store_error + (app_key \<rightharpoonup> pending_write)" where
  "validate_records Q records =
     (case List.map_filter (\<lambda>key. case records key of None \<Rightarrow> None | Some r \<Rightarrow> record_error Q r) WORKDUCK_APP_STATE_KEYS of
        e # _ \<Rightarrow> Inl e
      | [] \<Rightarrow> Inr (\<lambda>key. map_option (\<lambda>r. \<lparr>pw_valueJson = rust_trim (pw_valueJson r),
                                         pw_updatedAt = rust_trim (pw_updatedAt r)\<rparr>) (records key)))"

definition row_kept :: "app_rows \<Rightarrow> app_key \<Rightarrow> pending_write \<Rightarrow> bool" where
  "row_kept rows key r = (case rows key of None \<Rightarrow> False | Some (v, t) \<Rightarrow> \<not> pw_updatedAt r \<ge> t)"

text \<open>The rows after the transaction and the superseded records.\<close>

definition write_records_to_connection ::
  "(string \<Rightarrow> bool) \<Rightarrow> app_rows \<Rightarrow> (app_key \<rightharpoonup> pending_write) \<Rightarrow>
   app_store_error + (app_rows \<times> (string \<times> js) list)" where
  "write_records_to_connection Q rows records =
     (case validate_records Q records of
        Inl e \<Rightarrow> Inl e
      | Inr rs \<Rightarrow>
          if \<exists>key \<in> set WORKDUCK_APP_STATE_KEYS.
               (case rs key of None \<Rightarrow> False
                | Some r \<Rightarrow> row_kept rows key r \<and> validate_value_json Q (fst (the (rows key))) = None)
          then Inl ValueJsonInvalid
          else Inr
            (\<lambda>key. case rs key of
                     None \<Rightarrow> rows key
                   | Some r \<Rightarrow> if row_kept rows key r then rows key else Some (pw_valueJson r, pw_updatedAt r),
             List.map_filter (\<lambda>key. case rs key of
                     None \<Rightarrow> None
                   | Some r \<Rightarrow> if row_kept rows key r then Some (key_name key, JStr (fst (the (rows key)))) else None)
               WORKDUCK_APP_STATE_KEYS))"

text \<open>The response object; an empty list of superseded records is omitted.\<close>

definition write_app_state_records :: "(string \<Rightarrow> bool) \<Rightarrow> app_rows \<Rightarrow> (app_key \<rightharpoonup> pending_write) \<Rightarrow> app_rows \<times> js" where
  "write_app_state_records Q rows records =
     (case write_records_to_connection Q rows records of
        Inl e \<Rightarrow> (rows, JObj [(''ok'', JBool False), (''error'', JStr (store_error_name e))])
      | Inr (rows', []) \<Rightarrow> (rows', JObj [(''ok'', JBool True)])
      | Inr (rows', superseded) \<Rightarrow>
          (rows', JObj [(''ok'', JBool True), (''supersededRecords'', JObj superseded)]))"

definition read_app_state_records :: "app_rows \<Rightarrow> app_key list \<Rightarrow> js" where
  "read_app_state_records rows keys =
     JObj [(''ok'', JBool True),
           (''records'', JObj (List.map_filter (\<lambda>key. map_option (\<lambda>(v, t). (key_name key, JStr v)) (rows key)) keys))]"

definition compare_and_write_record ::
  "(string \<Rightarrow> bool) \<Rightarrow> app_rows \<Rightarrow> app_key \<Rightarrow> string option \<Rightarrow> pending_write \<Rightarrow> app_rows \<times> js" where
  "compare_and_write_record Q rows key expected_value_json record =
     (case validate_records Q [key \<mapsto> record] of
        Inl e \<Rightarrow> (rows, JObj [(''ok'', JBool False), (''error'', JStr (store_error_name e))])
      | Inr rs \<Rightarrow>
          (let r = the (rs key) in
           if expected_value_json \<noteq> None \<and> validate_value_json Q (the expected_value_json) = None
           then (rows, JObj [(''ok'', JBool False), (''error'', JStr (store_error_name ValueJsonInvalid))])
           else if map_option fst (rows key) \<noteq> expected_value_json \<or> row_kept rows key r
           then (rows, JObj [(''ok'', JBool False), (''error'', JStr (store_error_name AppStateConflict))])
           else (rows(key \<mapsto> (pw_valueJson r, pw_updatedAt r)), JObj [(''ok'', JBool True)])))"

end
