(* ===== verification/App_System.thy ===== *)
theory App_System
  imports App_Init
begin

text \<open>
  The renderer's application state and the native store as one system: edits, flushes, initialisations,
  refreshes and transactions overlap, native calls fail before or after they have committed, access to
  local storage fails, other processes commit newer rows, and the renderer crashes and starts again.
  Local storage and the rows survive a crash; the variables do not.
\<close>

section \<open>The system\<close>

text \<open>The answers of native writes that have been carried out and not yet been received.\<close>

record app_system =
  as_app :: app_state
  as_rows :: app_rows
  as_flushReply :: "js option"
  as_initReply :: "js option"

datatype app_event =
    Wrote app_key string string app_write_result bool   \<comment> \<open>key, text, time, result, journalled\<close>
  | FlushCalled
  | FlushStored
  | FlushSettled "bool option"
  | FlushRejected "bool option"
  | InitBegan
  | InitRead
  | InitStored
  | InitSettled
  | InitRejected
  | TransactionBegan app_key
  | TransactionEnded app_key app_write_result
  | Refreshed
  | StorageNotified app_key
  | RowCommitted app_key string string
  | EnvironmentChanged
  | Crashed

text \<open>The module after a start, over the local storage that is there.\<close>

definition fresh_app :: "app_state \<Rightarrow> app_state" where
  "fresh_app st = st\<lparr>ap_cached := Map.empty, ap_versions := (\<lambda>_. 0), ap_refreshSequences := (\<lambda>_. 0), ap_deferred := {},
     ap_epoch := 0, ap_legacyKeys := Map.empty, ap_validators := Map.empty, ap_transactions := {},
     ap_backend := Uninitialized, ap_error := None, ap_flush := NoFlush, ap_init := NoInit, ap_published := []\<rparr>"

inductive app_step ::
  "(string \<Rightarrow> bool) \<Rightarrow> (string \<Rightarrow> bool) \<Rightarrow> app_system \<Rightarrow> app_event \<Rightarrow> app_system \<Rightarrow> bool"
  for P Q where
  wrote: "is_sortable_utc_timestamp now \<Longrightarrow>
     writeWorkduckAppStateValue P (as_app s) key name v now = (st, res) \<Longrightarrow>
     app_step P Q s (Wrote key v now res (ap_native (as_app s) \<and> ap_backend (as_app s) = Sqlite)) (s\<lparr>as_app := st\<rparr>)"
| flush_called: "flushWorkduckAppStateWrites P (as_app s) = (st, res) \<Longrightarrow>
     app_step P Q s FlushCalled
       (s\<lparr>as_app := st, as_flushReply := (if ap_flush (as_app s) = NoFlush then None else as_flushReply s)\<rparr>)"
| flush_stored: "ap_flush (as_app s) = Flushing records \<Longrightarrow> as_flushReply s = None \<Longrightarrow>
     write_app_state_records Q (as_rows s) records = (rows, response) \<Longrightarrow>
     app_step P Q s FlushStored (s\<lparr>as_rows := rows, as_flushReply := Some response\<rparr>)"
| flush_settled: "as_flushReply s = Some response \<Longrightarrow> settle_flush P (as_app s) (Some response) = (st, res) \<Longrightarrow>
     app_step P Q s (FlushSettled res) (s\<lparr>as_app := st, as_flushReply := None\<rparr>)"
| flush_rejected: "settle_flush P (as_app s) None = (st, res) \<Longrightarrow>
     app_step P Q s (FlushRejected res) (s\<lparr>as_app := st, as_flushReply := None\<rparr>)"
| init_began: "ap_init (as_app s) = NoInit \<Longrightarrow>
     app_step P Q s InitBegan (s\<lparr>as_app := begin_init P seeds (as_app s), as_initReply := None\<rparr>)"
| init_read: "app_step P Q s InitRead (s\<lparr>as_app := settle_init_read P now reply (as_app s),
       as_initReply := (case ap_init (as_app s) of InitReading _ _ _ \<Rightarrow> None | _ \<Rightarrow> as_initReply s)\<rparr>)"
| init_stored: "ap_init (as_app s) = InitWriting seeds records resolved \<Longrightarrow> as_initReply s = None \<Longrightarrow>
     write_app_state_records Q (as_rows s) records = (rows, response) \<Longrightarrow>
     app_step P Q s InitStored (s\<lparr>as_rows := rows, as_initReply := Some response\<rparr>)"
| init_settled: "as_initReply s = Some response \<Longrightarrow>
     app_step P Q s InitSettled (s\<lparr>as_app := settle_init_write P (Some response) (as_app s), as_initReply := None\<rparr>)"
| init_rejected: "app_step P Q s InitRejected (s\<lparr>as_app := settle_init_write P None (as_app s), as_initReply := None\<rparr>)"
| transaction_began: "begin_transaction P (as_app s) key v = (st, True) \<Longrightarrow>
     app_step P Q s (TransactionBegan key) (s\<lparr>as_app := st\<rparr>)"
| transaction_ended: "end_transaction (as_app s) key name v committed = (st, res) \<Longrightarrow>
     app_step P Q s (TransactionEnded key res) (s\<lparr>as_app := st\<rparr>)"
| refresh_began: "begin_refresh keys (as_app s) = (st, out) \<Longrightarrow> app_step P Q s Refreshed (s\<lparr>as_app := st\<rparr>)"
| refresh_settled: "settle_refresh P epoch requested reply (as_app s) = (st, res) \<Longrightarrow>
     app_step P Q s Refreshed (s\<lparr>as_app := st\<rparr>)"
| storage_notified: "app_step P Q s (StorageNotified key) (s\<lparr>as_app := handleStorage P key newValue (as_app s)\<rparr>)"
| row_committed: "(\<And>v' t'. as_rows s key = Some (v', t') \<Longrightarrow> t' \<le> t) \<Longrightarrow>
     app_step P Q s (RowCommitted key v t) (s\<lparr>as_rows := (as_rows s)(key \<mapsto> (v, t))\<rparr>)"
| environment_changed:
    "app_step P Q s EnvironmentChanged (s\<lparr>as_app := (as_app s)\<lparr>ap_native := native, ap_available := available,
       ap_readable := readable, ap_writable := writable, ap_removable := removable\<rparr>\<rparr>)"
| crashed: "app_step P Q s Crashed \<lparr>as_app = fresh_app (as_app s), as_rows = as_rows s, as_flushReply = None, as_initReply = None\<rparr>"

inductive app_run ::
  "(string \<Rightarrow> bool) \<Rightarrow> (string \<Rightarrow> bool) \<Rightarrow> app_system \<Rightarrow> app_event list \<Rightarrow> app_system \<Rightarrow> bool"
  for P Q where
  app_nil: "app_run P Q s [] s"
| app_snoc: "app_run P Q s evs s' \<Longrightarrow> app_step P Q s' e s'' \<Longrightarrow> app_run P Q s (evs @ [e]) s''"

text \<open>A start of the renderer over any local storage and any rows.\<close>

definition started :: "app_system \<Rightarrow> bool" where
  "started s \<longleftrightarrow> fresh_app (as_app s) = as_app s \<and> as_flushReply s = None \<and> as_initReply s = None"

inductive_cases app_stepE: "app_step P Q s e s'"

section \<open>What the parts change\<close>

text \<open>The journal and the states of the flush and of the initialisation; most parts keep all three.\<close>

definition app_core :: "app_state \<Rightarrow> (app_key \<rightharpoonup> js) \<times> app_flush \<times> app_init" where
  "app_core st = (ap_journal st, ap_flush st, ap_init st)"

named_theorems core_simps \<open>the core after a part\<close>

lemma cache_core [core_simps]:
  "app_core (cacheAppStateValue st k v) = app_core st" "app_core (publishAppStateValue st k v) = app_core st"
  "app_core (retryDeferredRefreshes st) = app_core st"
  by (simp_all add: cacheAppStateValue_def publishAppStateValue_def retryDeferredRefreshes_def app_core_def)

lemma end_flush_core [core_simps]: "app_core (fst (end_flush st b)) = (ap_journal st, NoFlush, ap_init st)"
  by (simp add: end_flush_def retryDeferredRefreshes_def app_core_def)

lemma legacy_core [core_simps]:
  "app_core (remove_legacy name st) = app_core st"
  "app_core (removeLegacyValues b seeds st) = app_core st"
  "app_core (removeLegacyValuesForRecords records st) = app_core st"
proof -
  show r: "app_core (remove_legacy name st) = app_core st" for name st by (simp add: remove_legacy_def app_core_def)
  have "app_core (fold (\<lambda>seed. remove_legacy (sd_legacyStorageKey seed)) seeds st) = app_core st" for st
    by (induction seeds arbitrary: st) (simp_all add: r)
  then show "app_core (removeLegacyValues b seeds st) = app_core st" by (simp add: removeLegacyValues_def)
  have "app_core (fold (\<lambda>key st. if records key = None then st
      else (case ap_legacyKeys st key of None \<Rightarrow> st | Some name \<Rightarrow> remove_legacy name st)) keys st) = app_core st" for keys st
    by (induction keys arbitrary: st) (simp_all add: r split: option.split)
  then show "app_core (removeLegacyValuesForRecords records st) = app_core st"
    by (simp add: removeLegacyValuesForRecords_def)
qed

lemma for_keys_core:
  assumes "\<And>k st. app_core (fst (f k st)) = app_core st"
  shows "app_core (fst (for_keys f keys st)) = app_core st"
proof (induction keys arbitrary: st)
  case (Cons k keys)
  then show ?case using assms [of k st] by (auto split: prod.split bool.split)
qed simp

lemma reconcile_core [core_simps]:
  "app_core (fst (reconcileCommittedRecords P b req sps n st)) = app_core st"
  unfolding reconcileCommittedRecords_def
  by (rule for_keys_core) (auto simp: reconcile_key_def Let_def core_simps split: option.split)

lemma fail_core [core_simps]: "app_core (failInitialization st e vs) = (ap_journal st, ap_flush st, NoInit)"
proof -
  have "app_core (fold (\<lambda>(key, v) st. cacheAppStateValue st key v) vs st) = app_core st"
    by (induction vs arbitrary: st) (auto simp: core_simps)
  then show ?thesis by (simp add: failInitialization_def app_core_def)
qed

lemma finish_init_core [core_simps]: "app_core (finish_init seeds st) = (ap_journal st, ap_flush st, NoInit)"
  using legacy_core(2) [of "ap_available st" seeds st] by (simp add: finish_init_def app_core_def)

lemma begin_init_core:
  "ap_journal (begin_init P seeds st) = ap_journal st \<and> ap_flush (begin_init P seeds st) = ap_flush st"
proof -
  have r: "app_core (registerSeeds P seeds st) = app_core st" for st
    unfolding registerSeeds_def
    by (induction seeds arbitrary: st) (auto simp: register_seed_def Let_def core_simps, auto simp: app_core_def)
  define st1 where "st1 = registerSeeds P seeds (st\<lparr>ap_epoch := ap_epoch st + 1\<rparr>)"
  have st1: "app_core st1 = app_core st" using r [of "st\<lparr>ap_epoch := ap_epoch st + 1\<rparr>"] by (simp add: st1_def app_core_def)
  have b: "app_core (fst (init_browser_seeds seeds st)) = app_core st" for st
    by (induction seeds st rule: init_browser_seeds.induct) (auto simp: core_simps split: option.splits)
  obtain st2 ok where st2: "init_browser_seeds seeds st1 = (st2, ok)" by (cases "init_browser_seeds seeds st1")
  have "app_core st2 = app_core st" using b [of st1] st1 by (simp add: st2)
  then show ?thesis
    using st1 fail_core unfolding begin_init_def Let_def st1_def [symmetric] st2
    by (auto simp: app_core_def split: bool.split option.split)
qed

lemma resolve_seeds_core:
  "app_core (fst (fst (resolve_seeds pend natv now seeds acc))) = app_core (fst acc)"
  by (induction pend natv now seeds acc rule: resolve_seeds.induct)
    (auto simp: Let_def core_simps split: option.splits)

lemma init_read_core:
  "ap_journal (settle_init_read P now reply st) = ap_journal st \<and> ap_flush (settle_init_read P now reply st) = ap_flush st"
proof (cases "ap_init st")
  case (InitReading seeds pend resolved)
  show ?thesis
  proof (cases "case reply of None \<Rightarrow> None | Some response \<Rightarrow> parseNativeReadResponse P response")
    case None
    then show ?thesis using fail_core [of st] by (simp add: settle_init_read_def InitReading app_core_def)
  next
    case (Some records)
    obtain st' res wr ok where r: "resolve_seeds pend records now seeds (st, resolved, Map.empty) = ((st', res, wr), ok)"
      by (metis surj_pair)
    have "app_core st' = app_core st"
      using resolve_seeds_core [of pend records now seeds "(st, resolved, Map.empty)"] by (simp add: r)
    then show ?thesis
      using fail_core [of st'] finish_init_core [of seeds st']
      by (simp add: settle_init_read_def InitReading Some r app_core_def split: bool.split)
  qed
qed (simp_all add: settle_init_read_def)

lemma transaction_core [core_simps]:
  "app_core (fst (begin_transaction P st k v)) = app_core st"
  "app_core (fst (end_transaction st k n v b)) = app_core st"
  by (simp_all add: begin_transaction_def end_transaction_def Let_def retryDeferredRefreshes_def cacheAppStateValue_def
      app_core_def)

lemma request_refresh_core: "app_core (fst (request_refresh keys st)) = app_core st"
  by (induction keys arbitrary: st) (simp_all add: Let_def case_prod_unfold, simp add: app_core_def)

lemma filter_refresh_core: "app_core (fst (filter_refresh rs st)) = app_core st"
  by (induction rs st rule: filter_refresh.induct)
    (simp_all add: case_prod_unfold app_core_def split: option.split)

lemma apply_refresh_core: "app_core (apply_refresh records ks rs st) = app_core st"
  by (induction records ks rs st rule: apply_refresh.induct)
    (simp_all add: cacheAppStateValue_def publishAppStateValue_def app_core_def split: option.split)

lemma refresh_core [core_simps]:
  "app_core (fst (begin_refresh keys st)) = app_core st"
  "app_core (fst (settle_refresh P e r reply st)) = app_core st"
proof -
  obtain st1 req where q: "request_refresh (remdups keys) st = (st1, req)" by (cases "request_refresh (remdups keys) st")
  obtain st2 out where f: "filter_refresh req st1 = (st2, out)" by (cases "filter_refresh req st1")
  have "app_core st2 = app_core st"
    using request_refresh_core [of "remdups keys" st] filter_refresh_core [of req st1] by (simp add: q f)
  then show "app_core (fst (begin_refresh keys st)) = app_core st"
    by (simp add: begin_refresh_def Let_def q f split: option.split list.split)
  show "app_core (fst (settle_refresh P e r reply st)) = app_core st"
    by (simp add: settle_refresh_def apply_refresh_core split: option.split)
qed

lemma storage_core [core_simps]: "app_core (handleStorage P key v st) = app_core st"
  by (auto simp: handleStorage_def core_simps split: option.split)

text \<open>The parts that end or continue a flush keep the journal and the initialisation.\<close>

lemma iteration_core:
  "ap_journal (fst (flush_iteration P st)) = ap_journal st \<and> ap_init (fst (flush_iteration P st)) = ap_init st"
  using end_flush_core [of st] by (auto simp: flush_iteration_def app_core_def split: option.split)

lemma flush_call_core:
  "ap_journal (fst (flushWorkduckAppStateWrites P st)) = ap_journal st \<and>
   ap_init (fst (flushWorkduckAppStateWrites P st)) = ap_init st \<and>
   (ap_flush st \<noteq> NoFlush \<longrightarrow> ap_flush (fst (flushWorkduckAppStateWrites P st)) = ap_flush st)"
  using iteration_core [of P st] end_flush_core [of st] by (auto simp: flushWorkduckAppStateWrites_def app_core_def)

end
