(* ===== verification/App_Durability.thy ===== *)
theory App_Durability
  imports App_System
begin

text \<open>
  No accepted edit is lost: until the native store holds a row that is at least as new, the edit stands
  in the journal, across failures, newer rows of other processes and crashes. And a flush that succeeds
  leaves the journal empty and the cache equal to what is stored.
\<close>

section \<open>Time stamps\<close>

lemma sortable_digit:
  assumes "is_sortable_utc_timestamp t"
  shows "t \<noteq> [] \<and> \<not> rust_ws (hd t) \<and> \<not> rust_ws (last t)"
proof -
  have all: "\<forall>i<24. i \<in> {4, 7, 10, 13, 16, 19, 23} \<or> 48 \<le> (of_char (t ! i) :: nat) \<and> (of_char (t ! i) :: nat) \<le> 57"
    and len: "length t = 24" and z: "t ! 23 = CHR ''Z''"
    using assms by (auto simp: is_sortable_utc_timestamp_def)
  from all [rule_format, of 0] have d: "48 \<le> (of_char (t ! 0) :: nat)" "(of_char (t ! 0) :: nat) \<le> 57" by simp_all
  have "t \<noteq> []" using len by auto
  then have "hd t = t ! 0" "last t = t ! 23" using len by (simp_all add: hd_conv_nth last_conv_nth)
  then show ?thesis using len z d by (auto simp: rust_ws_def js_ws_def Let_def)
qed

lemma sortable_trims: "is_sortable_utc_timestamp t \<Longrightarrow> rust_trim t = t \<and> js_trim t = t \<and> t \<noteq> []"
proof -
  assume "is_sortable_utc_timestamp t"
  note d = sortable_digit [OF this]
  then have "dropWhile rust_ws t = t" "dropWhile rust_ws (rev t) = rev t" by (auto simp: dropWhile_all_not hd_rev)
  moreover have "trimmed t" using d by (auto simp: trimmed_def rust_ws_def)
  ultimately show ?thesis using d by (simp add: rust_trim_def js_trim_trimmed)
qed

section \<open>The native store\<close>

lemma all_keys [simp]: "key \<in> set WORKDUCK_APP_STATE_KEYS"
  by (cases key) (simp_all add: WORKDUCK_APP_STATE_KEYS_def)

text \<open>The store holds a row for the key that is at least as new.\<close>

definition stored_since :: "app_rows \<Rightarrow> app_key \<Rightarrow> pending_write \<Rightarrow> bool" where
  "stored_since rows key p \<longleftrightarrow> (\<exists>v t. rows key = Some (v, t) \<and> pw_updatedAt p \<le> t)"

definition response_ok :: "js \<Rightarrow> bool" where
  "response_ok response \<longleftrightarrow> js_prop response ''ok'' = JBool True"

lemma validated_records:
  "validate_records Q records = Inr rs \<Longrightarrow>
   rs = (\<lambda>key. map_option (\<lambda>r. \<lparr>pw_valueJson = rust_trim (pw_valueJson r), pw_updatedAt = rust_trim (pw_updatedAt r)\<rparr>)
     (records key))"
  by (cases "List.map_filter (\<lambda>key. case records key of None \<Rightarrow> None | Some r \<Rightarrow> record_error Q r) WORKDUCK_APP_STATE_KEYS")
    (simp_all add: validate_records_def)

lemma native_write_rows:
  assumes "write_app_state_records Q rows records = (rows', response)"
  shows "(stored_since rows key p \<longrightarrow> stored_since rows' key p) \<and>
    (response_ok response \<and> records key = Some p \<and> is_sortable_utc_timestamp (pw_updatedAt p) \<longrightarrow> stored_since rows' key p)"
proof (cases "write_records_to_connection Q rows records")
  case (Inl e)
  then show ?thesis using assms by (auto simp: write_app_state_records_def response_ok_def js_prop_def)
next
  case (Inr out)
  obtain rows1 sups where out: "out = (rows1, sups)" by (cases out)
  then have rows1: "rows' = rows1" using assms Inr by (cases sups) (auto simp: write_app_state_records_def)
  obtain rs where rs: "validate_records Q records = Inr rs"
    using Inr by (auto simp: write_records_to_connection_def split: sum.splits)
  then have r: "rs key = map_option (\<lambda>r. \<lparr>pw_valueJson = rust_trim (pw_valueJson r), pw_updatedAt = rust_trim (pw_updatedAt r)\<rparr>) (records key)"
    using validated_records [OF rs] by simp
  have rows': "rows' key = (case rs key of None \<Rightarrow> rows key
      | Some r \<Rightarrow> if row_kept rows key r then rows key else Some (pw_valueJson r, pw_updatedAt r))"
    using Inr rs rows1 out by (auto simp: write_records_to_connection_def split: if_splits)
  show ?thesis
  proof (intro conjI impI)
    assume "stored_since rows key p"
    then show "stored_since rows' key p"
      by (auto simp: stored_since_def rows' row_kept_def split: option.splits)
  next
    assume a: "response_ok response \<and> records key = Some p \<and> is_sortable_utc_timestamp (pw_updatedAt p)"
    then have "rs key = Some \<lparr>pw_valueJson = rust_trim (pw_valueJson p), pw_updatedAt = pw_updatedAt p\<rparr>"
      using sortable_trims by (simp add: r)
    then show "stored_since rows' key p"
      by (cases "rows key") (auto simp: stored_since_def rows' row_kept_def)
  qed
qed

section \<open>What a flush removes\<close>

text \<open>An entry is removed only when it is the record that was written.\<close>

definition removes_only :: "(string \<Rightarrow> bool) \<Rightarrow> (app_key \<rightharpoonup> pending_write) \<Rightarrow> (app_key \<rightharpoonup> js) \<Rightarrow> (app_key \<rightharpoonup> js) \<Rightarrow> bool" where
  "removes_only P records j j' \<longleftrightarrow>
     (\<forall>key. j' key = j key \<or> (j' key = None \<and> (\<exists>v p. j key = Some v \<and> parsePendingWrite P v = Some p \<and> records key = Some p)))"

lemma removes_only_refl [simp]: "removes_only P records j j"
  by (simp add: removes_only_def)

lemma removes_only_trans: "removes_only P records j j' \<Longrightarrow> removes_only P records j' j'' \<Longrightarrow> removes_only P records j j''"
  unfolding removes_only_def by metis

lemma remove_key_removes_only:
  "removes_only P records (ap_journal st) (ap_journal (fst (remove_flushed_key P records key st)))"
  by (auto simp: remove_flushed_key_def removes_only_def readPendingWrite_def split: option.splits if_splits)

lemma remove_flushed_removes_only:
  "removes_only P records (ap_journal st) (ap_journal (fst (removeFlushedPendingWrites P b records st)))"
proof -
  have "removes_only P records (ap_journal st) (ap_journal (fst (for_keys (remove_flushed_key P records) keys st)))" for keys
  proof (induction keys arbitrary: st)
    case (Cons k keys)
    show ?case
      using remove_key_removes_only [of P records st k] Cons.IH [of "fst (remove_flushed_key P records k st)"]
      by (cases "remove_flushed_key P records k st") (auto intro: removes_only_trans split: bool.split)
  qed simp
  then show ?thesis by (simp add: removeFlushedPendingWrites_def)
qed

lemma remove_flushed_keeps:
  "ap_flush (fst (removeFlushedPendingWrites P b records st)) = ap_flush st \<and>
   ap_init (fst (removeFlushedPendingWrites P b records st)) = ap_init st"
proof -
  have "ap_flush (fst (for_keys (remove_flushed_key P records) keys st)) = ap_flush st \<and>
    ap_init (fst (for_keys (remove_flushed_key P records) keys st)) = ap_init st" for keys
  proof (induction keys arbitrary: st)
    case (Cons k keys)
    have "ap_flush (fst (remove_flushed_key P records k st)) = ap_flush st \<and>
        ap_init (fst (remove_flushed_key P records k st)) = ap_init st"
      by (auto simp: remove_flushed_key_def split: option.split)
    then show ?case using Cons.IH [of "fst (remove_flushed_key P records k st)"]
      by (cases "remove_flushed_key P records k st") (auto split: bool.split)
  qed simp
  then show ?thesis by (simp add: removeFlushedPendingWrites_def)
qed

lemma parsed_write_ok: "parseNativeWriteResponse P response records = Some sps \<Longrightarrow> response_ok response"
  by (auto simp: parseNativeWriteResponse_def response_ok_def split: if_splits)

lemma settle_flush_journal:
  assumes "settle_flush P st reply = (st', res)"
  shows "ap_init st' = ap_init st \<and>
    (ap_journal st' = ap_journal st \<or>
     (\<exists>records response. ap_flush st = Flushing records \<and> reply = Some response \<and> response_ok response \<and>
        removes_only P records (ap_journal st) (ap_journal st')))"
proof (cases "\<exists>records response sps. ap_flush st = Flushing records \<and> reply = Some response \<and>
    parseNativeWriteResponse P response records = Some sps \<and>
    \<not> (\<exists>key. case sps key of None \<Rightarrow> False | Some v \<Rightarrow> rejects (ap_validators st key) v)")
  case False
  then have "settle_flush P st reply = (st, None) \<or> settle_flush P st reply = end_flush st False"
    by (auto simp: settle_flush_def split: app_flush.splits option.splits if_splits)
  then have "app_core st' = app_core st \<or> app_core st' = (ap_journal st, NoFlush, ap_init st)"
    using assms end_flush_core [of st False] by (metis fst_conv)
  then show ?thesis by (auto simp: app_core_def)
next
  case True
  then obtain records response sps where f: "ap_flush st = Flushing records" "reply = Some response"
    "parseNativeWriteResponse P response records = Some sps"
    "\<not> (\<exists>key. case sps key of None \<Rightarrow> False | Some v \<Rightarrow> rejects (ap_validators st key) v)" by blast
  obtain st1 ok1 where r1: "reconcileCommittedRecords P True records sps True st = (st1, ok1)" by fastforce
  obtain st2 ok2 where r2: "removeFlushedPendingWrites P True records st1 = (st2, ok2)" by fastforce
  have c1: "ap_journal st1 = ap_journal st" "ap_init st1 = ap_init st"
    using reconcile_core [of P True records sps True st] by (simp_all add: r1 app_core_def)
  have c2: "removes_only P records (ap_journal st) (ap_journal st2)" "ap_init st2 = ap_init st"
    using remove_flushed_removes_only [of P records st1 True] remove_flushed_keeps [of P True records st1] c1 by (simp_all add: r2)
  have "ap_init st' = ap_init st \<and> removes_only P records (ap_journal st) (ap_journal st')"
  proof (cases "ok1 \<and> ok2")
    case True
    then have "st' = fst (flush_iteration P ((removeLegacyValuesForRecords records st2)\<lparr>ap_backend := Sqlite, ap_error := None\<rparr>))"
      using assms f r1 r2 by (simp add: settle_flush_def)
    then show ?thesis
      using iteration_core [of P "(removeLegacyValuesForRecords records st2)\<lparr>ap_backend := Sqlite, ap_error := None\<rparr>"]
        legacy_core(3) [of records st2] c2 by (simp add: app_core_def)
  next
    case False
    then have "st' = fst (end_flush (if ok1 then st2 else st1) False)"
      using assms f r1 r2 by (auto simp: settle_flush_def)
    then show ?thesis
      using end_flush_core [of "if ok1 then st2 else st1" False] c1 c2 by (auto simp: app_core_def split: if_splits)
  qed
  with f parsed_write_ok show ?thesis by blast
qed

lemma settle_init_journal:
  assumes "settle_init_write P reply st = st'"
  shows "ap_flush st' = ap_flush st \<and>
    (ap_journal st' = ap_journal st \<or>
     (\<exists>seeds records resolved response. ap_init st = InitWriting seeds records resolved \<and> reply = Some response \<and>
        response_ok response \<and> removes_only P records (ap_journal st) (ap_journal st')))"
proof (cases "\<exists>seeds records resolved response sps. ap_init st = InitWriting seeds records resolved \<and> reply = Some response \<and>
    parseNativeWriteResponse P response records = Some sps \<and>
    \<not> (\<exists>seed \<in> set seeds. case sps (sd_key seed) of None \<Rightarrow> False | Some v \<Rightarrow> rejects (sd_validateValueJson seed) v)")
  case False
  then have "st' = st \<or> (\<exists>e vs. st' = failInitialization st e vs)"
    using assms by (auto simp: settle_init_write_def split: app_init.splits option.splits if_splits)
  then show ?thesis using fail_core [of st] by (auto simp: app_core_def)
next
  case True
  then obtain seeds records resolved response sps where f: "ap_init st = InitWriting seeds records resolved" "reply = Some response"
    "parseNativeWriteResponse P response records = Some sps"
    "\<not> (\<exists>seed \<in> set seeds. case sps (sd_key seed) of None \<Rightarrow> False | Some v \<Rightarrow> rejects (sd_validateValueJson seed) v)" by blast
  obtain st1 ok1 where r1: "reconcileCommittedRecords P (ap_available st) records sps False st = (st1, ok1)" by fastforce
  obtain st2 ok2 where r2: "removeFlushedPendingWrites P (ap_available st) records st1 = (st2, ok2)" by fastforce
  have c1: "ap_journal st1 = ap_journal st" "ap_flush st1 = ap_flush st"
    using reconcile_core [of P "ap_available st" records sps False st] by (simp_all add: r1 app_core_def)
  have c2: "removes_only P records (ap_journal st) (ap_journal st2)" "ap_flush st2 = ap_flush st"
    using remove_flushed_removes_only [of P records st1 "ap_available st"] remove_flushed_keeps [of P "ap_available st" records st1] c1
    by (simp_all add: r2)
  have "st' = (if ok1 \<and> ok2 then finish_init seeds st2
      else failInitialization (if ok1 then st2 else st1) app_state_write_failed resolved)"
    using assms f r1 r2 by (auto simp: settle_init_write_def)
  then have "ap_flush st' = ap_flush st \<and> removes_only P records (ap_journal st) (ap_journal st')"
    using finish_init_core [of seeds st2] fail_core [of "if ok1 then st2 else st1" app_state_write_failed resolved] c1 c2
    by (auto simp: app_core_def split: if_splits)
  with f parsed_write_ok show ?thesis by blast
qed

section \<open>The invariant\<close>

text \<open>The last accepted edit of a key that went to the journal.\<close>

fun last_journaled :: "app_event list \<Rightarrow> app_key \<rightharpoonup> pending_write" where
  "last_journaled [] = Map.empty"
| "last_journaled (Wrote key v now (Accepted w) True # evs) =
     (\<lambda>k. case last_journaled evs k of Some p \<Rightarrow> Some p
          | None \<Rightarrow> if k = key then Some \<lparr>pw_valueJson = v, pw_updatedAt = now\<rparr> else None)"
| "last_journaled (e # evs) = last_journaled evs"

definition journaled_by :: "app_event \<Rightarrow> (app_key \<rightharpoonup> pending_write) \<Rightarrow> (app_key \<rightharpoonup> pending_write)" where
  "journaled_by e m = (case e of
      Wrote key v now (Accepted w) True \<Rightarrow> m(key \<mapsto> \<lparr>pw_valueJson = v, pw_updatedAt = now\<rparr>)
    | _ \<Rightarrow> m)"

lemma last_journaled_snoc: "last_journaled (evs @ [e]) = journaled_by e (last_journaled evs)"
proof (induction evs rule: last_journaled.induct)
  case 1
  show ?case by (cases e) (auto simp: journaled_by_def split: app_write_result.split bool.split)
qed (auto simp: journaled_by_def fun_eq_iff split: app_event.split app_write_result.split bool.split option.split)

text \<open>An edit is durable when it stands in the journal or the native store has it.\<close>

definition durable :: "app_system \<Rightarrow> app_key \<Rightarrow> pending_write \<Rightarrow> bool" where
  "durable s key p \<longleftrightarrow> ap_journal (as_app s) key = Some (pending_js p) \<or> stored_since (as_rows s) key p"

definition acknowledged :: "app_rows \<Rightarrow> (app_key \<rightharpoonup> pending_write) \<Rightarrow> js option \<Rightarrow> bool" where
  "acknowledged rows records reply \<longleftrightarrow>
     (\<forall>response key p. reply = Some response \<and> response_ok response \<and> records key = Some p \<and>
        is_sortable_utc_timestamp (pw_updatedAt p) \<longrightarrow> stored_since rows key p)"

definition replies_hold :: "app_system \<Rightarrow> bool" where
  "replies_hold s \<longleftrightarrow>
     (\<forall>records. ap_flush (as_app s) = Flushing records \<longrightarrow> acknowledged (as_rows s) records (as_flushReply s)) \<and>
     (\<forall>seeds records resolved. ap_init (as_app s) = InitWriting seeds records resolved \<longrightarrow>
        acknowledged (as_rows s) records (as_initReply s))"

lemma acknowledged_none [simp]: "acknowledged rows records None"
  by (simp add: acknowledged_def)

lemma acknowledged_mono:
  "acknowledged rows records reply \<Longrightarrow> (\<And>key p. stored_since rows key p \<Longrightarrow> stored_since rows' key p) \<Longrightarrow>
   acknowledged rows' records reply"
  unfolding acknowledged_def by blast

lemma acknowledged_write:
  "write_app_state_records Q rows records = (rows', response) \<Longrightarrow> acknowledged rows' records (Some response)"
  using native_write_rows [of Q rows records rows' response] unfolding acknowledged_def by blast

text \<open>A part that changes none of the three keeps what the replies say.\<close>

lemma replies_core:
  "replies_hold s \<Longrightarrow> app_core st = app_core (as_app s) \<Longrightarrow> replies_hold (s\<lparr>as_app := st\<rparr>)"
  by (simp add: replies_hold_def app_core_def)

lemma replies_rows:
  "replies_hold s \<Longrightarrow> (\<And>key p. stored_since (as_rows s) key p \<Longrightarrow> stored_since rows key p) \<Longrightarrow>
   replies_hold (s\<lparr>as_rows := rows\<rparr>)"
  by (auto simp: replies_hold_def intro: acknowledged_mono)

lemma write_core:
  assumes "writeWorkduckAppStateValue P st key name v now = (st', res)"
  shows "ap_flush st' = ap_flush st \<and> ap_init st' = ap_init st \<and>
    ap_journal st' = (if res = Accepted v \<and> ap_native st \<and> ap_backend st = Sqlite
                      then (ap_journal st)(key \<mapsto> pending_js \<lparr>pw_valueJson = v, pw_updatedAt = now\<rparr>) else ap_journal st) \<and>
    (res = Accepted v \<or> (\<exists>e. res = Failed v e)) \<and> (res = Accepted v \<longrightarrow> P v)"
  using assms
  by (auto simp: writeWorkduckAppStateValue_def Let_def writeBrowserValue_def writePendingWrite_def cacheAppStateValue_def
      split: if_splits option.splits prod.splits bool.splits)

lemma parse_pending_js:
  "P v \<Longrightarrow> is_sortable_utc_timestamp t \<Longrightarrow>
   parsePendingWrite P (pending_js \<lparr>pw_valueJson = v, pw_updatedAt = t\<rparr>) = Some \<lparr>pw_valueJson = v, pw_updatedAt = t\<rparr>"
  using sortable_trims [of t] by (simp add: parsePendingWrite_def pending_js_def js_prop_def isObjectRecord_def)

definition edits_kept :: "(string \<Rightarrow> bool) \<Rightarrow> (app_key \<rightharpoonup> pending_write) \<Rightarrow> app_system \<Rightarrow> bool" where
  "edits_kept P m s \<longleftrightarrow>
     (\<forall>key p. m key = Some p \<longrightarrow> P (pw_valueJson p) \<and> is_sortable_utc_timestamp (pw_updatedAt p) \<and> durable s key p)"

lemma edits_kept_journal:
  assumes "edits_kept P m s" and "ap_journal (as_app s') = ap_journal (as_app s)"
    and "\<And>key p. stored_since (as_rows s) key p \<Longrightarrow> stored_since (as_rows s') key p"
  shows "edits_kept P m s'"
  using assms unfolding edits_kept_def durable_def by metis

text \<open>Removing the records that have been acknowledged loses no edit.\<close>

lemma edits_kept_removes:
  assumes "edits_kept P m s" and "removes_only P records (ap_journal (as_app s)) (ap_journal (as_app s'))"
    and "acknowledged (as_rows s) records (Some response)" and "response_ok response" and "as_rows s' = as_rows s"
  shows "edits_kept P m s'"
  unfolding edits_kept_def
proof (intro allI impI)
  fix key p
  assume m: "m key = Some p"
  then have p: "P (pw_valueJson p)" "is_sortable_utc_timestamp (pw_updatedAt p)" "durable s key p"
    using assms(1) unfolding edits_kept_def by blast+
  have parse: "parsePendingWrite P (pending_js p) = Some p"
    using parse_pending_js [of P "pw_valueJson p" "pw_updatedAt p"] p by (cases p) simp
  have "durable s' key p"
  proof (cases "ap_journal (as_app s) key = Some (pending_js p)")
    case True
    then have "ap_journal (as_app s') key = Some (pending_js p) \<or> records key = Some p"
      using assms(2) parse unfolding removes_only_def by (metis option.inject)
    then show ?thesis using assms(3-5) p unfolding durable_def acknowledged_def by auto
  next
    case False
    then show ?thesis using p assms(5) unfolding durable_def by auto
  qed
  with p show "P (pw_valueJson p) \<and> is_sortable_utc_timestamp (pw_updatedAt p) \<and> durable s' key p" by simp
qed

lemma journaled_by_other:
  "(\<And>key v now w. e \<noteq> Wrote key v now (Accepted w) True) \<Longrightarrow> journaled_by e m = m"
  by (auto simp: journaled_by_def split: app_event.split app_write_result.split bool.split)

definition sound :: "(string \<Rightarrow> bool) \<Rightarrow> (app_key \<rightharpoonup> pending_write) \<Rightarrow> app_system \<Rightarrow> bool" where
  "sound P m s \<longleftrightarrow> edits_kept P m s \<and> replies_hold s"

lemma sound_core:
  assumes "sound P m s" and "app_core st = app_core (as_app s)"
  shows "sound P m (s\<lparr>as_app := st\<rparr>)"
proof -
  have "edits_kept P m (s\<lparr>as_app := st\<rparr>)"
    using assms by - (rule edits_kept_journal [of P m s]; auto simp: sound_def app_core_def)
  then show ?thesis using assms replies_core by (simp add: sound_def)
qed

lemma sound_flush:
  assumes "sound P m s" and "settle_flush P (as_app s) reply = (st, res)"
    and "\<And>response. reply = Some response \<Longrightarrow> as_flushReply s = Some response"
  shows "sound P m (s\<lparr>as_app := st, as_flushReply := None\<rparr>)"
proof -
  note j = settle_flush_journal [OF assms(2)]
  have "replies_hold (s\<lparr>as_app := st, as_flushReply := None\<rparr>)"
    using assms(1) j by (simp add: sound_def replies_hold_def)
  moreover have "edits_kept P m (s\<lparr>as_app := st, as_flushReply := None\<rparr>)"
  proof (cases "ap_journal st = ap_journal (as_app s)")
    case True
    then show ?thesis using assms(1)
      by - (rule edits_kept_journal [of P m s]; (auto simp: sound_def)?)
  next
    case False
    then obtain records response where r: "ap_flush (as_app s) = Flushing records" "reply = Some response"
      "response_ok response" "removes_only P records (ap_journal (as_app s)) (ap_journal st)" using j by blast
    then have "acknowledged (as_rows s) records (Some response)"
      using assms(1,3) by (simp add: sound_def replies_hold_def)
    then show ?thesis
      using assms(1) r by - (rule edits_kept_removes [of P m s records _ response]; (auto simp: sound_def)?)
  qed
  ultimately show ?thesis by (simp add: sound_def)
qed

lemma sound_init:
  assumes "sound P m s"
    and "\<And>response. reply = Some response \<Longrightarrow> as_initReply s = Some response"
  shows "sound P m (s\<lparr>as_app := settle_init_write P reply (as_app s), as_initReply := None\<rparr>)"
proof -
  define st where "st = settle_init_write P reply (as_app s)"
  note j = settle_init_journal [OF st_def [symmetric]]
  have "replies_hold (s\<lparr>as_app := st, as_initReply := None\<rparr>)"
    using assms(1) j by (simp add: sound_def replies_hold_def)
  moreover have "edits_kept P m (s\<lparr>as_app := st, as_initReply := None\<rparr>)"
  proof (cases "ap_journal st = ap_journal (as_app s)")
    case True
    then show ?thesis using assms(1)
      by - (rule edits_kept_journal [of P m s]; (auto simp: sound_def)?)
  next
    case False
    then obtain seeds records resolved response where r: "ap_init (as_app s) = InitWriting seeds records resolved"
      "reply = Some response" "response_ok response"
      "removes_only P records (ap_journal (as_app s)) (ap_journal st)" using j by blast
    then have "acknowledged (as_rows s) records (Some response)"
      using assms by (simp add: sound_def replies_hold_def)
    then show ?thesis
      using assms(1) r by - (rule edits_kept_removes [of P m s records _ response]; (auto simp: sound_def)?)
  qed
  ultimately show ?thesis by (simp add: sound_def st_def)
qed

lemma sound_rows:
  assumes "sound P m s" and "\<And>key p. stored_since (as_rows s) key p \<Longrightarrow> stored_since rows key p"
  shows "sound P m (s\<lparr>as_rows := rows\<rparr>)"
  using assms replies_rows [of s rows] edits_kept_journal [of P m s "s\<lparr>as_rows := rows\<rparr>"] by (simp add: sound_def)

lemma stored_since_newer:
  "(\<And>v' t'. rows key = Some (v', t') \<Longrightarrow> t' \<le> t) \<Longrightarrow> stored_since rows k p \<Longrightarrow> stored_since (rows(key \<mapsto> (v, t))) k p"
  by (fastforce simp: stored_since_def)

lemma sound_write:
  assumes "sound P m s" and "is_sortable_utc_timestamp now"
    and "writeWorkduckAppStateValue P (as_app s) key name v now = (st, res)"
  shows "sound P (journaled_by (Wrote key v now res (ap_native (as_app s) \<and> ap_backend (as_app s) = Sqlite)) m)
           (s\<lparr>as_app := st\<rparr>)"
proof -
  note w = write_core [OF assms(3)]
  let ?journalled = "ap_native (as_app s) \<and> ap_backend (as_app s) = Sqlite"
  show ?thesis
  proof (cases "res = Accepted v \<and> ?journalled")
    case True
    then have j: "journaled_by (Wrote key v now res ?journalled) m = m(key \<mapsto> \<lparr>pw_valueJson = v, pw_updatedAt = now\<rparr>)"
      by (simp add: journaled_by_def)
    have "ap_journal st = (ap_journal (as_app s))(key \<mapsto> pending_js \<lparr>pw_valueJson = v, pw_updatedAt = now\<rparr>)" "P v"
      using w True by auto
    then have "edits_kept P (m(key \<mapsto> \<lparr>pw_valueJson = v, pw_updatedAt = now\<rparr>)) (s\<lparr>as_app := st\<rparr>)"
      using assms(1,2) by (auto simp: sound_def edits_kept_def durable_def)
    moreover have "replies_hold (s\<lparr>as_app := st\<rparr>)" using assms(1) w by (simp add: sound_def replies_hold_def)
    ultimately show ?thesis unfolding j by (simp add: sound_def)
  next
    case False
    then have "journaled_by (Wrote key v now res ?journalled) m = m" "app_core st = app_core (as_app s)"
      using w by (auto simp: journaled_by_def app_core_def split: app_write_result.split bool.split)
    then show ?thesis using sound_core [OF assms(1), of st] by simp
  qed
qed

lemma sound_app:
  assumes "sound P m s" and "ap_journal st = ap_journal (as_app s)"
    and "replies_hold (s\<lparr>as_app := st, as_flushReply := f, as_initReply := i\<rparr>)"
  shows "sound P m (s\<lparr>as_app := st, as_flushReply := f, as_initReply := i\<rparr>)"
  using assms edits_kept_journal [of P m s "s\<lparr>as_app := st, as_flushReply := f, as_initReply := i\<rparr>"]
  by (simp add: sound_def)

lemma init_read_other: "(\<And>a b c. ap_init st \<noteq> InitReading a b c) \<Longrightarrow> settle_init_read P now reply st = st"
  by (simp add: settle_init_read_def split: app_init.split)

lemma sound_flush_call:
  assumes "sound P m s" and "flushWorkduckAppStateWrites P (as_app s) = (st, res)"
  shows "sound P m (s\<lparr>as_app := st, as_flushReply := (if ap_flush (as_app s) = NoFlush then None else as_flushReply s)\<rparr>)"
proof -
  have "sound P m (s\<lparr>as_app := st, as_flushReply := (if ap_flush (as_app s) = NoFlush then None else as_flushReply s),
      as_initReply := as_initReply s\<rparr>)"
    using assms flush_call_core [of P "as_app s"] by (intro sound_app) (auto simp: sound_def replies_hold_def)
  then show ?thesis by simp
qed

lemma sound_init_begin:
  assumes "sound P m s"
  shows "sound P m (s\<lparr>as_app := begin_init P seeds (as_app s), as_initReply := None\<rparr>)"
proof -
  have "sound P m (s\<lparr>as_app := begin_init P seeds (as_app s), as_flushReply := as_flushReply s, as_initReply := None\<rparr>)"
    using assms begin_init_core [of P seeds "as_app s"] by (intro sound_app) (auto simp: sound_def replies_hold_def)
  then show ?thesis by simp
qed

lemma sound_init_read:
  assumes "sound P m s"
  shows "sound P m (s\<lparr>as_app := settle_init_read P now reply (as_app s),
    as_initReply := (case ap_init (as_app s) of InitReading _ _ _ \<Rightarrow> None | _ \<Rightarrow> as_initReply s)\<rparr>)"
proof (cases "\<exists>a b c. ap_init (as_app s) = InitReading a b c")
  case True
  then obtain a b c where "ap_init (as_app s) = InitReading a b c" by blast
  moreover have "sound P m (s\<lparr>as_app := settle_init_read P now reply (as_app s), as_flushReply := as_flushReply s,
      as_initReply := None\<rparr>)"
    using assms init_read_core [of P now reply "as_app s"] by (intro sound_app) (auto simp: sound_def replies_hold_def)
  ultimately show ?thesis by simp
next
  case False
  then have "settle_init_read P now reply (as_app s) = as_app s"
    "(case ap_init (as_app s) of InitReading _ _ _ \<Rightarrow> None | _ \<Rightarrow> as_initReply s) = as_initReply s"
    by (auto intro!: init_read_other split: app_init.split)
  then show ?thesis using assms by simp
qed

lemma sound_flush_stored:
  assumes "sound P m s" and "ap_flush (as_app s) = Flushing records"
    and "write_app_state_records Q (as_rows s) records = (rows, response)"
  shows "sound P m (s\<lparr>as_rows := rows, as_flushReply := Some response\<rparr>)"
proof -
  have "sound P m (s\<lparr>as_rows := rows\<rparr>)" using assms(1,3) native_write_rows by (blast intro: sound_rows)
  then show ?thesis using assms(2) acknowledged_write [OF assms(3)]
    by (simp add: sound_def edits_kept_def durable_def replies_hold_def)
qed

lemma sound_init_stored:
  assumes "sound P m s" and "ap_init (as_app s) = InitWriting seeds records resolved"
    and "write_app_state_records Q (as_rows s) records = (rows, response)"
  shows "sound P m (s\<lparr>as_rows := rows, as_initReply := Some response\<rparr>)"
proof -
  have "sound P m (s\<lparr>as_rows := rows\<rparr>)" using assms(1,3) native_write_rows by (blast intro: sound_rows)
  then show ?thesis using assms(2) acknowledged_write [OF assms(3)]
    by (simp add: sound_def edits_kept_def durable_def replies_hold_def)
qed

lemma sound_crash:
  "sound P m s \<Longrightarrow>
   sound P m \<lparr>as_app = fresh_app (as_app s), as_rows = as_rows s, as_flushReply = None, as_initReply = None\<rparr>"
  by (simp add: sound_def edits_kept_def durable_def replies_hold_def fresh_app_def)

lemma app_step_sound:
  assumes "app_step P Q s e s'" and "sound P m s"
  shows "sound P (journaled_by e m) s'"
  using assms(1)
proof cases
  case (wrote now key name v st res)
  then show ?thesis using sound_write [OF assms(2), of now key name v st res] by simp
next
  case (flush_settled response st res)
  then show ?thesis using sound_flush [OF assms(2), of "Some response" st res] by (simp add: journaled_by_other)
next
  case (flush_rejected st res)
  then show ?thesis using sound_flush [OF assms(2), of None st res] by (simp add: journaled_by_other)
next
  case (transaction_began key v st)
  then have "app_core st = app_core (as_app s)" using transaction_core(1) [of P "as_app s" key v] by simp
  then show ?thesis using transaction_began sound_core [OF assms(2)] by (simp add: journaled_by_other)
next
  case (transaction_ended key name v committed st res)
  then have "app_core st = app_core (as_app s)" using transaction_core(2) [of "as_app s" key name v committed] by simp
  then show ?thesis using transaction_ended sound_core [OF assms(2)] by (simp add: journaled_by_other)
next
  case (refresh_began keys st out)
  then have "app_core st = app_core (as_app s)" using refresh_core(1) [of keys "as_app s"] by simp
  then show ?thesis using refresh_began sound_core [OF assms(2)] by (simp add: journaled_by_other)
next
  case (refresh_settled epoch requested reply st res)
  then have "app_core st = app_core (as_app s)" using refresh_core(2) [of P epoch requested reply "as_app s"] by simp
  then show ?thesis using refresh_settled sound_core [OF assms(2)] by (simp add: journaled_by_other)
next
  case (storage_notified key newValue)
  then show ?thesis using sound_core [OF assms(2)] by (simp add: journaled_by_other core_simps)
next
  case (row_committed key t v)
  then show ?thesis using sound_rows [OF assms(2)] stored_since_newer by (simp add: journaled_by_other)
next
  case environment_changed
  then show ?thesis using sound_core [OF assms(2)] by (simp add: journaled_by_other app_core_def)
next
  case init_rejected
  then show ?thesis using sound_init [OF assms(2), of None] by (simp add: journaled_by_other)
qed (simp_all add: assms(2) journaled_by_other sound_flush_call sound_flush_stored sound_init_begin sound_init_read
      sound_init_stored sound_init sound_crash)

theorem app_run_sound:
  assumes "app_run P Q s0 evs s" and "started s0"
  shows "sound P (last_journaled evs) s"
  using assms
proof (induction rule: app_run.induct)
  case (app_nil s)
  then have "ap_flush (as_app s) = NoFlush" "ap_init (as_app s) = NoInit"
    by (auto simp: started_def fresh_app_def dest: arg_cong [of _ _ ap_flush] arg_cong [of _ _ ap_init])
  then show ?case by (simp add: sound_def edits_kept_def replies_hold_def)
next
  case (app_snoc s evs s' e s'')
  then show ?case using app_step_sound by (simp add: last_journaled_snoc)
qed

section \<open>A flush that succeeds\<close>

lemma key_name_inj [simp]: "key_name a = key_name b \<longleftrightarrow> a = b"
  by (cases a; cases b) simp_all

text \<open>What the native store superseded.\<close>

definition superseded_by :: "app_rows \<Rightarrow> (app_key \<rightharpoonup> pending_write) \<Rightarrow> app_key \<rightharpoonup> string" where
  "superseded_by rows records key =
     (case records key of None \<Rightarrow> None
      | Some r \<Rightarrow> if row_kept rows key \<lparr>pw_valueJson = rust_trim (pw_valueJson r), pw_updatedAt = rust_trim (pw_updatedAt r)\<rparr>
                  then Some (fst (the (rows key))) else None)"

lemma map_of_keys:
  "map_of (List.map_filter (\<lambda>key. map_option (\<lambda>v. (key_name key, JStr v)) (h key)) keys) (key_name k) =
   (if k \<in> set keys then map_option JStr (h k) else None)"
  by (induction keys) (auto simp: List.map_filter_simps split: option.split)

lemma set_of_keys:
  "(name, w) \<in> set (List.map_filter (\<lambda>key. map_option (\<lambda>v. (key_name key, JStr v)) (h key)) keys) \<Longrightarrow>
   \<exists>k v. k \<in> set keys \<and> name = key_name k \<and> w = JStr v \<and> h k = Some v"
  by (induction keys) (auto simp: List.map_filter_simps split: option.splits)

definition superseded_list :: "app_rows \<Rightarrow> (app_key \<rightharpoonup> pending_write) \<Rightarrow> (string \<times> js) list" where
  "superseded_list rows records =
     List.map_filter (\<lambda>key. map_option (\<lambda>v. (key_name key, JStr v)) (superseded_by rows records key)) WORKDUCK_APP_STATE_KEYS"

lemma superseded_list_of:
  "map_of (superseded_list rows records) (key_name key) = map_option JStr (superseded_by rows records key)"
  by (simp add: superseded_list_def map_of_keys)

lemma superseded_listD:
  "(name, w) \<in> set (superseded_list rows records) \<Longrightarrow>
   \<exists>key v. name = key_name key \<and> w = JStr v \<and> superseded_by rows records key = Some v \<and> records key \<noteq> None"
  unfolding superseded_list_def by (drule set_of_keys) (auto simp: superseded_by_def split: option.splits)

text \<open>An accepted write: what is answered, and what is stored.\<close>

lemma native_write_answer:
  assumes "write_app_state_records Q rows records = (rows', response)" and "response_ok response"
  shows "response = JObj ((''ok'', JBool True) #
      (if superseded_list rows records = [] then [] else [(''supersededRecords'', JObj (superseded_list rows records))]))"
    and "records key = Some r \<Longrightarrow> \<exists>v t. rows' key = Some (v, t) \<and>
      (superseded_by rows records key = Some v \<or> superseded_by rows records key = None \<and> v = rust_trim (pw_valueJson r))"
proof -
  obtain rows1 sups where c: "write_records_to_connection Q rows records = Inr (rows1, sups)"
    using assms(1,2) by (auto simp: write_app_state_records_def response_ok_def js_prop_def split: sum.splits)
  obtain rs where rs: "validate_records Q records = Inr rs"
    using c by (auto simp: write_records_to_connection_def split: sum.splits)
  have r: "rs = (\<lambda>key. map_option (\<lambda>r. \<lparr>pw_valueJson = rust_trim (pw_valueJson r), pw_updatedAt = rust_trim (pw_updatedAt r)\<rparr>)
      (records key))"
    using validated_records [OF rs] by simp
  have h: "(case rs key of None \<Rightarrow> None
      | Some r \<Rightarrow> if row_kept rows key r then Some (key_name key, JStr (fst (the (rows key)))) else None) =
      map_option (\<lambda>v. (key_name key, JStr v)) (superseded_by rows records key)" for key
    by (simp add: r superseded_by_def split: option.split)
  have sups: "sups = superseded_list rows records"
    using c by (simp add: write_records_to_connection_def rs h superseded_list_def split: if_splits)
  have rows1: "rows1 key = (case rs key of None \<Rightarrow> rows key
      | Some r \<Rightarrow> if row_kept rows key r then rows key else Some (pw_valueJson r, pw_updatedAt r))" for key
    using c by (auto simp: write_records_to_connection_def rs split: if_splits)
  have rows': "rows' = rows1" using assms(1) c by (cases sups) (auto simp: write_app_state_records_def)
  show "response = JObj ((''ok'', JBool True) #
      (if superseded_list rows records = [] then [] else [(''supersededRecords'', JObj (superseded_list rows records))]))"
    using assms(1) c by (cases sups) (auto simp: write_app_state_records_def simp flip: sups)
  show "\<exists>v t. rows' key = Some (v, t) \<and>
      (superseded_by rows records key = Some v \<or> superseded_by rows records key = None \<and> v = rust_trim (pw_valueJson r))"
    if "records key = Some r"
    using that by (auto simp: rows' rows1 r superseded_by_def row_kept_def split: option.splits if_splits)
qed

text \<open>The answer is accepted exactly when every superseding value can be parsed.\<close>

lemma native_answer_read:
  assumes "response = JObj ((''ok'', JBool True) #
      (if superseded_list rows records = [] then [] else [(''supersededRecords'', JObj (superseded_list rows records))]))"
  shows "parseNativeWriteResponse P response records =
    (if \<forall>key v. superseded_by rows records key = Some v \<longrightarrow> P v then Some (superseded_by rows records) else None)"
proof -
  let ?l = "superseded_list rows records"
  have bad: "(\<exists>(name, value) \<in> set ?l. \<not> (\<exists>key \<in> set WORKDUCK_APP_STATE_KEYS. key_name key = name \<and> records key \<noteq> None) \<or>
      (case value of JStr v \<Rightarrow> \<not> P v | _ \<Rightarrow> True)) \<longleftrightarrow> \<not> (\<forall>key v. superseded_by rows records key = Some v \<longrightarrow> P v)" (is "?L \<longleftrightarrow> ?R")
  proof
    assume ?L
    then show ?R using all_keys by (fastforce dest!: superseded_listD)
  next
    assume ?R
    then obtain key v where "superseded_by rows records key = Some v" "\<not> P v" by blast
    moreover then have "(key_name key, JStr v) \<in> set ?l" by (intro map_of_SomeD) (simp add: superseded_list_of)
    ultimately show ?L by force
  qed
  have p: "(\<lambda>key. case map_of ?l (key_name key) of Some (JStr v) \<Rightarrow> Some v | _ \<Rightarrow> None) = superseded_by rows records"
    by (rule ext) (simp add: superseded_list_of split: option.split)
  show ?thesis
  proof (cases "?l = []")
    case True
    then have "superseded_by rows records = Map.empty" using p by auto
    with True show ?thesis by (simp add: assms parseNativeWriteResponse_def js_prop_def)
  next
    case False
    have "parseNativeWriteResponse P response records =
        (if ?L then None else Some (\<lambda>key. case map_of ?l (key_name key) of Some (JStr v) \<Rightarrow> Some v | _ \<Rightarrow> None))"
      using False by (simp add: assms parseNativeWriteResponse_def js_prop_def)
    then show ?thesis unfolding bad p by simp
  qed
qed

text \<open>Every access that a flush needs is possible.\<close>

definition accessible :: "app_state \<Rightarrow> bool" where
  "accessible st \<longleftrightarrow>
     (\<forall>key \<in> set WORKDUCK_APP_STATE_KEYS.
        ap_readable st (createPendingStorageKey key) \<and> ap_removable st (createPendingStorageKey key))"

text \<open>The records are what the journal holds.\<close>

definition journal_is :: "(string \<Rightarrow> bool) \<Rightarrow> app_state \<Rightarrow> (app_key \<rightharpoonup> pending_write) \<Rightarrow> bool" where
  "journal_is P st records \<longleftrightarrow> (\<forall>key. readPendingWrite P st key = Some (records key))"

lemma reconcile_all:
  assumes "journal_is P st records" and "distinct keys"
  shows "\<exists>st'. for_keys (reconcile_key P True records sps b) keys st = (st', True) \<and>
    journal_is P st' records \<and> app_core st' = app_core st \<and> ap_readable st' = ap_readable st \<and>
    ap_removable st' = ap_removable st \<and> ap_validators st' = ap_validators st \<and>
    (\<forall>key. ap_cached st' key =
       (case records key of Some r \<Rightarrow> if key \<in> set keys then Some (case sps key of Some v \<Rightarrow> v | None \<Rightarrow> pw_valueJson r)
                                     else ap_cached st key
        | None \<Rightarrow> ap_cached st key))"
  using assms
proof (induction keys arbitrary: st)
  case Nil
  then show ?case by (simp split: option.split)
next
  case (Cons k keys)
  have k: "readPendingWrite P st k = Some (records k)" using Cons.prems by (simp add: journal_is_def)
  define st1 where "st1 = fst (reconcile_key P True records sps b k st)"
  have r: "reconcile_key P True records sps b k st = (st1, True)"
    unfolding st1_def by (simp add: reconcile_key_def k Let_def split: option.split)
  have same: "app_core st1 = app_core st \<and> ap_readable st1 = ap_readable st \<and> ap_removable st1 = ap_removable st \<and>
      ap_validators st1 = ap_validators st"
    unfolding st1_def
    by (simp add: reconcile_key_def k Let_def publishAppStateValue_def cacheAppStateValue_def app_core_def split: option.split)
  then have "readPendingWrite P st1 key = readPendingWrite P st key" for key by (simp add: readPendingWrite_def app_core_def)
  then have "journal_is P st1 records" using Cons.prems by (simp add: journal_is_def)
  moreover have "ap_cached st1 = (case records k of Some r \<Rightarrow> (ap_cached st)(k \<mapsto> (case sps k of Some v \<Rightarrow> v | None \<Rightarrow> pw_valueJson r))
      | None \<Rightarrow> ap_cached st)"
    unfolding st1_def
    by (auto simp: reconcile_key_def k Let_def publishAppStateValue_def cacheAppStateValue_def fun_eq_iff split: option.split)
  ultimately show ?case using Cons.IH [of st1] Cons.prems same by (auto simp: r split: option.splits)
qed

lemma remove_all:
  assumes "journal_is P st records" and "\<forall>key \<in> set keys. ap_removable st (createPendingStorageKey key)" and "distinct keys"
  shows "\<exists>st'. for_keys (remove_flushed_key P records) keys st = (st', True) \<and>
    (\<forall>key. ap_journal st' key = (if key \<in> set keys then None else ap_journal st key)) \<and>
    ap_readable st' = ap_readable st \<and> ap_cached st' = ap_cached st"
  using assms
proof (induction keys arbitrary: st records)
  case Nil
  then show ?case by simp
next
  case (Cons k keys)
  have k: "readPendingWrite P st k = Some (records k)" using Cons.prems by (simp add: journal_is_def)
  define st1 where "st1 = fst (remove_flushed_key P records k st)"
  have r: "remove_flushed_key P records k st = (st1, True)"
    unfolding st1_def using Cons.prems by (simp add: remove_flushed_key_def k split: option.split)
  have "ap_journal st k = None" if "records k = None"
    using k that by (auto simp: readPendingWrite_def split: if_splits option.splits)
  then have st1: "st1 = st\<lparr>ap_journal := (ap_journal st)(k := None)\<rparr>"
    unfolding st1_def using Cons.prems by (auto simp: remove_flushed_key_def k fun_upd_idem split: option.split)
  define rs where "rs = records(k := None)"
  have "for_keys (remove_flushed_key P records) keys st1 = for_keys (remove_flushed_key P rs) keys st1"
  proof -
    have "set keys \<subseteq> - {k} \<Longrightarrow> for_keys (remove_flushed_key P records) keys s =
        for_keys (remove_flushed_key P rs) keys s" for s
      by (induction keys arbitrary: s) (auto simp: rs_def remove_flushed_key_def split: prod.split bool.split)
    then show ?thesis using Cons.prems by auto
  qed
  moreover have "journal_is P st1 rs"
    using Cons.prems by (auto simp: rs_def journal_is_def readPendingWrite_def st1 split: if_splits)
  moreover have "\<forall>key \<in> set keys. ap_removable st1 (createPendingStorageKey key)" "distinct keys"
    using Cons.prems by (simp_all add: st1)
  ultimately obtain st' where st': "for_keys (remove_flushed_key P records) keys st1 = (st', True)"
    "\<forall>key. ap_journal st' key = (if key \<in> set keys then None else ap_journal st1 key)"
    "ap_readable st' = ap_readable st1" "ap_cached st' = ap_cached st1"
    using Cons.IH [OF \<open>journal_is P st1 rs\<close>] by auto
  have "for_keys (remove_flushed_key P records) (k # keys) st = (st', True)" using st'(1) by (simp add: r)
  moreover have "\<forall>key. ap_journal st' key = (if key \<in> set (k # keys) then None else ap_journal st key)"
    using st'(2) by (simp add: st1)
  ultimately show ?case using st'(3,4) by (intro exI [of _ st']) (simp add: st1)
qed

lemma legacy_keeps:
  "ap_cached (removeLegacyValuesForRecords records st) = ap_cached st \<and>
   ap_readable (removeLegacyValuesForRecords records st) = ap_readable st"
proof -
  have "ap_cached (fold (\<lambda>key st. if records key = None then st
      else (case ap_legacyKeys st key of None \<Rightarrow> st | Some name \<Rightarrow> remove_legacy name st)) keys st) = ap_cached st \<and>
    ap_readable (fold (\<lambda>key st. if records key = None then st
      else (case ap_legacyKeys st key of None \<Rightarrow> st | Some name \<Rightarrow> remove_legacy name st)) keys st) = ap_readable st" for keys
    by (induction keys arbitrary: st) (simp_all add: remove_legacy_def split: option.split)
  then show ?thesis by (simp add: removeLegacyValuesForRecords_def)
qed

lemma flush_starts:
  assumes "flushWorkduckAppStateWrites P st = (st1, None)" and "ap_flush st = NoFlush"
  shows "\<exists>records. st1 = st\<lparr>ap_flush := Flushing records\<rparr> \<and> journal_is P st records"
proof -
  have i: "flush_iteration P st = (st1, None)"
    using assms by (auto simp: flushWorkduckAppStateWrites_def end_flush_def split: if_splits)
  then obtain records where "readPendingWrites P st True = Some records" "st1 = st\<lparr>ap_flush := Flushing records\<rparr>"
    by (auto simp: flush_iteration_def end_flush_def split: option.splits if_splits)
  moreover then have "journal_is P st records"
    by (auto simp: readPendingWrites_def journal_is_def split: if_splits option.split)
  ultimately show ?thesis by blast
qed

text \<open>Every value that superseded one of the records is readable and accepted by the validator of its key.\<close>

definition usable_superseded :: "(string \<Rightarrow> bool) \<Rightarrow> app_state \<Rightarrow> app_rows \<Rightarrow> (app_key \<rightharpoonup> pending_write) \<Rightarrow> bool" where
  "usable_superseded P st rows records \<longleftrightarrow>
     (\<forall>key v. superseded_by rows records key = Some v \<longrightarrow> P v \<and> \<not> rejects (ap_validators st key) v)"

text \<open>
  A flush that reaches the native store, which accepts the records, ends with \<open>True\<close>, the journal empty,
  and every flushed key caching what the store now holds, up to white space around it, if what superseded
  is usable. Otherwise it fails, and journal and cache stay as they are.
\<close>

lemma flush_stores_everything:
  assumes "ap_flush st = NoFlush" and "flushWorkduckAppStateWrites P st = (st1, None)"
    and "ap_flush st1 = Flushing records"
    and "write_app_state_records Q rows records = (rows', response)" and "response_ok response"
    and "accessible st" and "usable_superseded P st rows records"
  shows "\<exists>st2. settle_flush P st1 (Some response) = (st2, Some True) \<and> ap_journal st2 = Map.empty \<and>
    (\<forall>key r. records key = Some r \<longrightarrow>
       (\<exists>v t c. rows' key = Some (v, t) \<and> ap_cached st2 key = Some c \<and> rust_trim c = rust_trim v))"
proof -
  have s: "st1 = st\<lparr>ap_flush := Flushing records\<rparr>" "journal_is P st records"
    using flush_starts [OF assms(2,1)] assms(3) by auto
  define sps where "sps = superseded_by rows records"
  have p: "parseNativeWriteResponse P response records = Some sps"
    using native_answer_read [OF native_write_answer(1) [OF assms(4,5)], of P] assms(7) by (auto simp: usable_superseded_def sps_def)
  have n: "\<exists>v t. rows' key = Some (v, t) \<and> (sps key = Some v \<or> sps key = None \<and> v = rust_trim (pw_valueJson r))"
    if "records key = Some r" for key r using native_write_answer(2) [OF assms(4,5) that] by (simp add: sps_def)
  have v: "\<not> rejects (ap_validators st key) w" if "sps key = Some w" for key w
    using that assms(7) by (auto simp: sps_def usable_superseded_def)
  have "readPendingWrite P st1 key = readPendingWrite P st key" for key by (simp add: readPendingWrite_def s(1))
  then have j1: "journal_is P st1 records" using s(2) by (simp add: journal_is_def)
  have d: "distinct WORKDUCK_APP_STATE_KEYS" by (simp add: WORKDUCK_APP_STATE_KEYS_def)
  obtain st2 where r: "reconcileCommittedRecords P True records sps True st1 = (st2, True)" "journal_is P st2 records"
    "ap_readable st2 = ap_readable st1" "ap_removable st2 = ap_removable st1"
    and c: "\<And>key r. records key = Some r \<Longrightarrow> ap_cached st2 key = Some (case sps key of Some v \<Rightarrow> v | None \<Rightarrow> pw_valueJson r)"
    using reconcile_all [OF j1 d, of sps True] by (auto simp: reconcileCommittedRecords_def)
  have "\<forall>key \<in> set WORKDUCK_APP_STATE_KEYS. ap_removable st2 (createPendingStorageKey key)"
    using assms(6) r(4) s by (simp add: accessible_def)
  then obtain st3 where m: "removeFlushedPendingWrites P True records st2 = (st3, True)" "\<And>key. ap_journal st3 key = None"
    "ap_readable st3 = ap_readable st2" "ap_cached st3 = ap_cached st2"
    using remove_all [OF r(2) _ d] by (auto simp: removeFlushedPendingWrites_def)
  define st4 where "st4 = (removeLegacyValuesForRecords records st3)\<lparr>ap_backend := Sqlite, ap_error := None\<rparr>"
  have k: "ap_journal st4 = Map.empty" "ap_readable st4 = ap_readable st" "ap_cached st4 = ap_cached st2"
    using legacy_core(3) [of records st3] legacy_keeps [of records st3] m r s
    by (simp_all add: st4_def app_core_def fun_eq_iff)
  have "flush_iteration P st4 = end_flush st4 True"
  proof -
    have "readPendingWrite P st4 key = Some None" for key
      using assms(6) k by (simp add: accessible_def readPendingWrite_def)
    then have "readPendingWrites P st4 True = Some Map.empty" by (auto simp: readPendingWrites_def)
    then show ?thesis by (simp add: flush_iteration_def hasRecords_def)
  qed
  moreover have "settle_flush P st1 (Some response) = flush_iteration P st4"
    using v by (auto simp: settle_flush_def s(1) p r(1) [unfolded s(1)] m(1) st4_def split: option.split)
  ultimately have e: "settle_flush P st1 (Some response) = (retryDeferredRefreshes (st4\<lparr>ap_flush := NoFlush\<rparr>), Some True)"
    by (simp add: end_flush_def)
  have t: "rust_trim (rust_trim x) = rust_trim x" for x by (rule rust_trim_idem)
  have "\<exists>w t u. rows' key = Some (w, t) \<and> ap_cached st4 key = Some u \<and> rust_trim u = rust_trim w" if "records key = Some q" for key q
  proof -
    obtain w t where w: "rows' key = Some (w, t)" "sps key = Some w \<or> sps key = None \<and> w = rust_trim (pw_valueJson q)"
      using n [OF \<open>records key = Some q\<close>] by blast
    then show ?thesis using c [OF that] k(3) by (auto simp: t)
  qed
  then show ?thesis using k(1) unfolding e by (simp add: retryDeferredRefreshes_def) blast
qed

lemma flush_refuses_unusable:
  assumes "ap_flush st = NoFlush" and "flushWorkduckAppStateWrites P st = (st1, None)"
    and "ap_flush st1 = Flushing records"
    and "write_app_state_records Q rows records = (rows', response)" and "response_ok response"
    and "\<not> usable_superseded P st rows records"
  shows "\<exists>st2. settle_flush P st1 (Some response) = (st2, Some False) \<and> ap_journal st2 = ap_journal st \<and> ap_cached st2 = ap_cached st"
proof -
  have s: "st1 = st\<lparr>ap_flush := Flushing records\<rparr>" using flush_starts [OF assms(2,1)] assms(3) by auto
  have "settle_flush P st1 (Some response) = end_flush st1 False"
  proof (cases "\<forall>key v. superseded_by rows records key = Some v \<longrightarrow> P v")
    case True
    then obtain key v where "superseded_by rows records key = Some v" "rejects (ap_validators st key) v"
      using assms(6) by (auto simp: usable_superseded_def)
    then have "\<exists>key \<in> set WORKDUCK_APP_STATE_KEYS.
        (case superseded_by rows records key of None \<Rightarrow> False | Some v \<Rightarrow> rejects (ap_validators st1 key) v)"
      by (intro bexI [of _ key]) (simp_all add: s)
    moreover have "parseNativeWriteResponse P response records = Some (superseded_by rows records)"
      using native_answer_read [OF native_write_answer(1) [OF assms(4,5)], of P] True by simp
    ultimately show ?thesis by (simp add: settle_flush_def assms(3))
  next
    case False
    then have "parseNativeWriteResponse P response records = None"
      using native_answer_read [OF native_write_answer(1) [OF assms(4,5)], of P] by auto
    then show ?thesis by (simp add: settle_flush_def assms(3))
  qed
  then show ?thesis by (simp add: end_flush_def retryDeferredRefreshes_def s)
qed

end
