(* ===== verification/App_Properties.thy ===== *)
theory App_Properties
  imports App_Durability
begin

text \<open>The claims about application state, with their witnesses.\<close>

section \<open>No accepted edit is lost\<close>

text \<open>
  C2: However edits, flushes, initialisations, refreshes, transactions, storage events, failures of the
  native store and of local storage, newer rows of other processes and crashes are interleaved, the last
  edit of a setting that was accepted while the native store was in use either still stands in the journal
  or the native store holds a row for the setting that is at least as new.
\<close>

theorem accepted_edits_survive:
  assumes "app_run P Q s0 evs s" and "started s0" and "last_journaled evs key = Some p"
  shows "ap_journal (as_app s) key = Some (pending_js p) \<or>
    (\<exists>v t. as_rows s key = Some (v, t) \<and> pw_updatedAt p \<le> t)"
  using app_run_sound [OF assms(1,2)] assms(3) by (auto simp: sound_def edits_kept_def durable_def stored_since_def)

definition wit_app :: app_state where
  "wit_app = \<lparr>ap_cached = Map.empty, ap_versions = (\<lambda>_. 0), ap_refreshSequences = (\<lambda>_. 0), ap_deferred = {},
     ap_epoch = 0, ap_legacyKeys = Map.empty, ap_validators = Map.empty, ap_transactions = {},
     ap_backend = Uninitialized, ap_error = None, ap_flush = NoFlush, ap_init = NoInit, ap_published = [],
     ap_native = True, ap_available = True, ap_journal = Map.empty, ap_legacy = Map.empty,
     ap_readable = (\<lambda>_. True), ap_writable = (\<lambda>_. True), ap_removable = (\<lambda>_. True)\<rparr>"

definition wit_system :: app_system where
  "wit_system = \<lparr>as_app = wit_app, as_rows = Map.empty, as_flushReply = None, as_initReply = None\<rparr>"

definition wit_time :: string where "wit_time = ''2024-05-01T10:00:00.000Z''"

definition wit_ready :: app_system where
  "wit_ready = (let s = wit_system\<lparr>as_app := begin_init (\<lambda>_. True) [] wit_app, as_initReply := None\<rparr> in
     s\<lparr>as_app := settle_init_read (\<lambda>_. True) wit_time (Some (read_app_state_records Map.empty [])) (as_app s),
       as_initReply := None\<rparr>)"

definition wit_edit :: "app_state \<times> app_write_result" where
  "wit_edit = writeWorkduckAppStateValue (\<lambda>_. True) (as_app wit_ready) KeySync ''sync'' ''{}'' wit_time"

lemma wit_started: "started wit_system"
  by (simp add: started_def wit_system_def wit_app_def fresh_app_def)

lemma wit_init: "ap_init (begin_init (\<lambda>_. True) [] wit_app) = InitReading [] Map.empty []"
  by (simp add: begin_init_def registerSeeds_def wit_app_def readPendingWrites_def readPendingWrite_def)

lemma wit_run_ready: "app_run (\<lambda>_. True) (\<lambda>_. True) wit_system [InitBegan, InitRead] wit_ready"
proof -
  define s where "s = wit_system\<lparr>as_app := begin_init (\<lambda>_. True) [] wit_app, as_initReply := None\<rparr>"
  have s: "app_step (\<lambda>_. True) (\<lambda>_. True) wit_system InitBegan s"
    using init_began [of wit_system "\<lambda>_. True" "\<lambda>_. True" "[]"] by (simp add: s_def wit_system_def wit_app_def)
  have "app_step (\<lambda>_. True) (\<lambda>_. True) s InitRead wit_ready"
    using init_read [of "\<lambda>_. True" "\<lambda>_. True" s wit_time "Some (read_app_state_records Map.empty [])"]
    by (simp add: wit_ready_def s_def wit_init)
  then show ?thesis using app_snoc [OF app_snoc [OF app_nil s]] by simp
qed

lemma wit_accepted: "snd wit_edit = Accepted ''{}'' \<and> ap_native (as_app wit_ready) \<and> ap_backend (as_app wit_ready) = Sqlite"
  by code_simp

theorem accepted_edits_survive_witness:
  "\<exists>s. app_run (\<lambda>_. True) (\<lambda>_. True) wit_system
         [InitBegan, InitRead, Wrote KeySync ''{}'' wit_time (Accepted ''{}'') True, Crashed] s \<and>
       \<not> (ap_journal (as_app s) KeySync = None \<and> as_rows s KeySync = None)"
proof -
  obtain st where st: "wit_edit = (st, Accepted ''{}'')" using wit_accepted by (metis prod.collapse)
  have "is_sortable_utc_timestamp wit_time" by code_simp
  then have w: "app_step (\<lambda>_. True) (\<lambda>_. True) wit_ready (Wrote KeySync ''{}'' wit_time (Accepted ''{}'') True)
      (wit_ready\<lparr>as_app := st\<rparr>)"
    using wrote [of wit_time "\<lambda>_. True" wit_ready KeySync "''sync''" "''{}''" st "Accepted ''{}''" "\<lambda>_. True"]
      st wit_accepted by (simp add: wit_edit_def)
  define s where "s = \<lparr>as_app = fresh_app st, as_rows = as_rows wit_ready, as_flushReply = None, as_initReply = None\<rparr>"
  have "app_step (\<lambda>_. True) (\<lambda>_. True) (wit_ready\<lparr>as_app := st\<rparr>) Crashed s"
    using crashed [of "\<lambda>_. True" "\<lambda>_. True" "wit_ready\<lparr>as_app := st\<rparr>"] by (simp add: s_def)
  then have run: "app_run (\<lambda>_. True) (\<lambda>_. True) wit_system
      [InitBegan, InitRead, Wrote KeySync ''{}'' wit_time (Accepted ''{}'') True, Crashed] s"
    using app_snoc [OF app_snoc [OF wit_run_ready w]] by simp
  then show ?thesis using accepted_edits_survive [OF run wit_started, of KeySync] by (intro exI [of _ s]) auto
qed

section \<open>A flush that succeeds\<close>

text \<open>
  C30: When a flush finds records in the journal, the native store accepts them, nothing is written in
  between and local storage can be accessed, then the flush ends with \<open>True\<close> exactly when every value that
  the store kept because it was newer than the record of its key is readable JSON and accepted by the
  validator of that key. In this case the journal is empty, and for every setting of the flush the cache
  holds what the native store holds, up to white space around it. Otherwise the flush ends with \<open>False\<close>,
  and the journal and all cached values, the edits included, are kept as they were.
\<close>

theorem successful_flush_stores_everything:
  assumes "ap_flush st = NoFlush" and "flushWorkduckAppStateWrites P st = (st1, None)"
    and "ap_flush st1 = Flushing records"
    and "write_app_state_records Q rows records = (rows', response)" and "response_ok response"
    and "accessible st"
  shows "\<exists>st2 done. settle_flush P st1 (Some response) = (st2, Some done) \<and>
    done = (\<forall>key v. superseded_by rows records key = Some v \<longrightarrow> P v \<and> \<not> rejects (ap_validators st key) v) \<and>
    (if done then ap_journal st2 = Map.empty \<and>
       (\<forall>key r. records key = Some r \<longrightarrow>
          (\<exists>v t c. rows' key = Some (v, t) \<and> ap_cached st2 key = Some c \<and> rust_trim c = rust_trim v))
     else ap_journal st2 = ap_journal st \<and> ap_cached st2 = ap_cached st)"
  using flush_stores_everything [OF assms] flush_refuses_unusable [OF assms(1-5)]
  by (cases "usable_superseded P st rows records") (fastforce simp: usable_superseded_def)+

definition wit_edited :: app_state where
  "wit_edited = wit_app\<lparr>ap_backend := Sqlite,
     ap_journal := [KeySync \<mapsto> pending_js \<lparr>pw_valueJson = ''{}'', pw_updatedAt = wit_time\<rparr>]\<rparr>"

definition wit_records :: "app_key \<rightharpoonup> pending_write" where
  "wit_records = [KeySync \<mapsto> \<lparr>pw_valueJson = ''{}'', pw_updatedAt = wit_time\<rparr>]"

text \<open>The store holds a newer value of the same setting.\<close>

definition wit_rows :: "string \<Rightarrow> app_rows" where
  "wit_rows v = [KeySync \<mapsto> (v, ''2024-05-01T11:00:00.000Z'')]"

definition wit_object :: "string \<Rightarrow> bool" where
  "wit_object v \<longleftrightarrow> v \<noteq> ''[]''"

lemma wit_time: "is_sortable_utc_timestamp wit_time"
  by code_simp

lemma wit_journal: "readPendingWrite wit_object wit_edited key = Some (wit_records key)"
  using parse_pending_js [of wit_object "''{}''" wit_time] wit_time
  by (simp add: readPendingWrite_def wit_edited_def wit_app_def wit_records_def wit_object_def)

lemma wit_flush:
  "flushWorkduckAppStateWrites wit_object wit_edited = (wit_edited\<lparr>ap_flush := Flushing wit_records\<rparr>, None)"
proof -
  have "readPendingWrites wit_object wit_edited True = Some wit_records"
    by (auto simp: readPendingWrites_def wit_journal)
  moreover have "hasRecords wit_records" by code_simp
  ultimately show ?thesis
    by (simp add: flushWorkduckAppStateWrites_def flush_iteration_def)
      (auto simp: wit_edited_def wit_app_def rejects_def split: option.split)
qed

lemma wit_response:
  assumes "validate_value_json (\<lambda>_. True) v \<noteq> None"
  shows "response_ok (snd (write_app_state_records (\<lambda>_. True) (wit_rows v) wit_records))"
proof -
  have t: "rust_trim ''{}'' = ''{}''" and "utf8_length ''{}'' = 2" by code_simp+
  then have "validate_value_json (\<lambda>_. True) ''{}'' = Some ''{}''"
    by (simp add: validate_value_json_def APP_STATE_VALUE_MAX_BYTES_def)
  moreover have "rust_trim wit_time = wit_time" using sortable_trims [OF wit_time] by simp
  ultimately have "validate_records (\<lambda>_. True) wit_records = Inr wit_records"
    using wit_time t
    by (simp add: validate_records_def record_error_def wit_records_def fun_eq_iff WORKDUCK_APP_STATE_KEYS_def List.map_filter_simps)
  then show ?thesis using assms
    by (auto simp: write_app_state_records_def write_records_to_connection_def wit_records_def wit_rows_def
        WORKDUCK_APP_STATE_KEYS_def List.map_filter_simps response_ok_def js_prop_def)
qed

lemma wit_superseded: "superseded_by (wit_rows v) wit_records key = (if key = KeySync then Some v else None)"
proof -
  have "rust_trim wit_time = wit_time" using sortable_trims [OF wit_time] by simp
  moreover have "\<not> wit_time \<ge> ''2024-05-01T11:00:00.000Z''" by code_simp
  ultimately show ?thesis by (simp add: superseded_by_def wit_records_def row_kept_def wit_rows_def)
qed

theorem successful_flush_stores_everything_witness:
  "(\<exists>st2. settle_flush wit_object (wit_edited\<lparr>ap_flush := Flushing wit_records\<rparr>)
       (Some (snd (write_app_state_records (\<lambda>_. True) (wit_rows ''{1}'') wit_records))) = (st2, Some True) \<and>
     ap_journal st2 = Map.empty \<and> (\<exists>c. ap_cached st2 KeySync = Some c)) \<and>
   (\<exists>st2. settle_flush wit_object (wit_edited\<lparr>ap_flush := Flushing wit_records\<rparr>)
       (Some (snd (write_app_state_records (\<lambda>_. True) (wit_rows ''[]'') wit_records))) = (st2, Some False) \<and>
     ap_journal st2 = ap_journal wit_edited \<and> ap_cached st2 = ap_cached wit_edited)"
proof -
  have f: "ap_flush wit_edited = NoFlush" by (simp add: wit_edited_def wit_app_def)
  have r: "ap_flush (wit_edited\<lparr>ap_flush := Flushing wit_records\<rparr>) = Flushing wit_records" by simp
  have a: "accessible wit_edited" by (simp add: accessible_def wit_edited_def wit_app_def)
  have n: "\<not> rejects (ap_validators wit_edited key) v" for key v by (simp add: wit_edited_def wit_app_def rejects_def)
  have k: "\<exists>r. wit_records KeySync = Some r" by (simp add: wit_records_def)
  have q: "validate_value_json (\<lambda>_. True) ''{1}'' \<noteq> None" "validate_value_json (\<lambda>_. True) ''[]'' \<noteq> None"
  proof -
    have "rust_trim ''{1}'' = ''{1}''" "utf8_length ''{1}'' = 3" "rust_trim ''[]'' = ''[]''" "utf8_length ''[]'' = 2"
      by code_simp+
    then show "validate_value_json (\<lambda>_. True) ''{1}'' \<noteq> None" "validate_value_json (\<lambda>_. True) ''[]'' \<noteq> None"
      by (simp_all add: validate_value_json_def APP_STATE_VALUE_MAX_BYTES_def)
  qed
  note run = successful_flush_stores_everything [OF f wit_flush r prod.collapse [symmetric] wit_response a]
  have d1: "\<forall>key v. superseded_by (wit_rows ''{1}'') wit_records key = Some v \<longrightarrow> wit_object v \<and> \<not> rejects (ap_validators wit_edited key) v"
    by (simp add: wit_superseded n wit_object_def)
  have d2: "\<not> (\<forall>key v. superseded_by (wit_rows ''[]'') wit_records key = Some v \<longrightarrow> wit_object v \<and> \<not> rejects (ap_validators wit_edited key) v)"
    by (simp add: wit_superseded n wit_object_def)
  have stored: "\<exists>st2. f = (st2, Some True) \<and> A st2"
    if "X" "\<exists>st2 b. f = (st2, Some b) \<and> b = X \<and> (if b then A st2 else B st2)"
    for f :: "app_state \<times> bool option" and X A B using that by auto
  have failed: "\<exists>st2. f = (st2, Some False) \<and> B st2"
    if "\<not> X" "\<exists>st2 b. f = (st2, Some b) \<and> b = X \<and> (if b then A st2 else B st2)"
    for f :: "app_state \<times> bool option" and X A B using that by auto
  show ?thesis
  proof (rule conjI)
    show "\<exists>st2. settle_flush wit_object (wit_edited\<lparr>ap_flush := Flushing wit_records\<rparr>)
        (Some (snd (write_app_state_records (\<lambda>_. True) (wit_rows ''{1}'') wit_records))) = (st2, Some True) \<and>
        ap_journal st2 = Map.empty \<and> (\<exists>c. ap_cached st2 KeySync = Some c)"
      by (rule exE [OF stored [OF d1 run [OF q(1)]]]) (use k in blast)
    show "\<exists>st2. settle_flush wit_object (wit_edited\<lparr>ap_flush := Flushing wit_records\<rparr>)
        (Some (snd (write_app_state_records (\<lambda>_. True) (wit_rows ''[]'') wit_records))) = (st2, Some False) \<and>
        ap_journal st2 = ap_journal wit_edited \<and> ap_cached st2 = ap_cached wit_edited"
      by (rule failed [OF d2 run [OF q(2)]])
  qed
qed

end
