(* ===== verification/Named_Records.thy ===== *)
theory Named_Records
  imports Registry_Contract "HOL-Library.Multiset"
begin

text \<open>
  Registries of named records: the secrets of a vault, terminal sessions, references, agents and personas
  are all lists whose records have an identifier and a name, both without repetition, kept in the order
  of a comparison of the names. Their files repeat the same loop, the same insertion and the same sort;
  these are modelled once here, and what they preserve is proved once.
\<close>

section \<open>Sorting\<close>

text \<open>
  \<open>[...xs].sort(cmp)\<close>: a stable sort. The comparisons are \<open>localeCompare\<close>, which is an argument;
  the standard gives the result for a consistent comparison only, and then it is this one.
\<close>

fun insert_by :: "('a \<Rightarrow> 'a \<Rightarrow> int) \<Rightarrow> 'a \<Rightarrow> 'a list \<Rightarrow> 'a list" where
  "insert_by cmp x [] = [x]"
| "insert_by cmp x (y # ys) = (if cmp x y \<le> 0 then x # y # ys else y # insert_by cmp x ys)"

definition js_sort :: "('a \<Rightarrow> 'a \<Rightarrow> int) \<Rightarrow> 'a list \<Rightarrow> 'a list" where
  "js_sort cmp xs = foldr (insert_by cmp) xs []"

lemma mset_insert_by [simp]: "mset (insert_by cmp x xs) = add_mset x (mset xs)"
  by (induction xs) auto

lemma mset_js_sort [simp]: "mset (js_sort cmp xs) = mset xs"
  by (induction xs) (simp_all add: js_sort_def)

lemma set_js_sort [simp]: "set (js_sort cmp xs) = set xs"
  using mset_js_sort [of cmp xs] by (metis mset_eq_setD)

lemma length_js_sort [simp]: "length (js_sort cmp xs) = length xs"
  using mset_js_sort [of cmp xs] by (metis size_mset)

lemma distinct_map_js_sort [simp]: "distinct (map f (js_sort cmp xs)) \<longleftrightarrow> distinct (map f xs)"
  by (metis mset_js_sort mset_map mset_eq_imp_distinct_iff)

text \<open>A comparison the sort can rely on: transitive, and total in the sense of its sign.\<close>

definition consistent :: "('a \<Rightarrow> 'a \<Rightarrow> int) \<Rightarrow> bool" where
  "consistent cmp \<longleftrightarrow> (\<forall>x y. cmp x y \<le> 0 \<or> cmp y x \<le> 0) \<and> (\<forall>x y z. cmp x y \<le> 0 \<and> cmp y z \<le> 0 \<longrightarrow> cmp x z \<le> 0)"

lemma consistent_trans: "consistent cmp \<Longrightarrow> cmp x y \<le> 0 \<Longrightarrow> cmp y z \<le> 0 \<Longrightarrow> cmp x z \<le> 0"
  unfolding consistent_def by blast

lemma consistent_total: "consistent cmp \<Longrightarrow> \<not> cmp x y \<le> 0 \<Longrightarrow> cmp y x \<le> 0"
  unfolding consistent_def by blast

lemma consistent_via: "consistent cmp \<Longrightarrow> consistent (\<lambda>x y. cmp (f x) (f y))"
  unfolding consistent_def by blast

lemma set_insert_by [simp]: "set (insert_by cmp x xs) = insert x (set xs)"
  by (induction xs) auto

lemma sorted_insert_by:
  "consistent cmp \<Longrightarrow> sorted_wrt (\<lambda>x y. cmp x y \<le> 0) xs \<Longrightarrow> sorted_wrt (\<lambda>x y. cmp x y \<le> 0) (insert_by cmp x xs)"
proof (induction xs)
  case (Cons y ys)
  show ?case
  proof (cases "cmp x y \<le> 0")
    case True
    then have "\<forall>z \<in> set ys. cmp x z \<le> 0" using Cons.prems(2) consistent_trans [OF Cons.prems(1) True] by simp
    then show ?thesis using Cons.prems True by simp
  next
    case False
    then have "cmp y x \<le> 0" using consistent_total [OF Cons.prems(1)] by blast
    then show ?thesis using Cons False by simp
  qed
qed simp

lemma sorted_js_sort: "consistent cmp \<Longrightarrow> sorted_wrt (\<lambda>x y. cmp x y \<le> 0) (js_sort cmp xs)"
  by (induction xs) (simp_all add: js_sort_def sorted_insert_by)

lemma insert_by_least: "\<forall>y \<in> set xs. cmp x y \<le> 0 \<Longrightarrow> insert_by cmp x xs = x # xs"
  by (cases xs) simp_all

lemma js_sort_sorted: "sorted_wrt (\<lambda>x y. cmp x y \<le> 0) xs \<Longrightarrow> js_sort cmp xs = xs"
  by (induction xs) (simp_all add: js_sort_def insert_by_least)

lemma js_sort_idem: "consistent cmp \<Longrightarrow> js_sort cmp (js_sort cmp xs) = js_sort cmp xs"
  by (simp add: js_sort_sorted sorted_js_sort)

section \<open>The loop of the normalisation\<close>

text \<open>A raw record that does not parse, or repeats an identifier or a name, is skipped.\<close>

fun collect_named ::
  "(js \<Rightarrow> 'r option) \<Rightarrow> ('r \<Rightarrow> string) \<Rightarrow> ('r \<Rightarrow> string) \<Rightarrow> string set \<Rightarrow> string set \<Rightarrow> js list \<Rightarrow> 'r list" where
  "collect_named parse ident key seenIds seenNames [] = []"
| "collect_named parse ident key seenIds seenNames (raw # raws) =
     (case parse raw of
        None \<Rightarrow> collect_named parse ident key seenIds seenNames raws
      | Some r \<Rightarrow>
          if ident r \<in> seenIds \<or> key r \<in> seenNames then collect_named parse ident key seenIds seenNames raws
          else r # collect_named parse ident key (insert (ident r) seenIds) (insert (key r) seenNames) raws)"

text \<open>\<open>matching === undefined ? [...records, next] : records.map(...)\<close>\<close>

definition put_named :: "('r \<Rightarrow> string) \<Rightarrow> 'r option \<Rightarrow> 'r \<Rightarrow> 'r list \<Rightarrow> 'r list" where
  "put_named ident matching next records =
     (case matching of
        None \<Rightarrow> records @ [next]
      | Some _ \<Rightarrow> map (\<lambda>r. if ident r = ident next then next else r) records)"

section \<open>What they preserve\<close>

text \<open>No identifier and no name is repeated, and every record is in order.\<close>

definition named_ok :: "('r \<Rightarrow> string) \<Rightarrow> ('r \<Rightarrow> string) \<Rightarrow> ('r \<Rightarrow> bool) \<Rightarrow> 'r list \<Rightarrow> bool" where
  "named_ok ident key good rs \<longleftrightarrow> distinct (map ident rs) \<and> distinct (map key rs) \<and> (\<forall>r \<in> set rs. good r)"

named_theorems named_intros \<open>what keeps a list of named records in order\<close>

lemma named_ok_Nil [simp]: "named_ok ident key good []"
  by (simp add: named_ok_def)

lemma collect_named_fresh:
  "ident ` set (collect_named parse ident key I N raws) \<inter> I = {} \<and>
   key ` set (collect_named parse ident key I N raws) \<inter> N = {}"
  by (induction parse ident key I N raws rule: collect_named.induct) (auto split: option.split)

lemma named_ok_collect [named_intros]:
  assumes "\<And>raw r. parse raw = Some r \<Longrightarrow> good r"
  shows "named_ok ident key good (collect_named parse ident key I N raws)"
proof (induction raws arbitrary: I N)
  case (Cons raw raws)
  show ?case
  proof (cases "parse raw")
    case (Some r)
    then show ?thesis
      using Cons assms collect_named_fresh [of ident parse key "insert (ident r) I" "insert (key r) N" raws]
      by (auto simp: named_ok_def)
  qed (use Cons in simp)
qed simp

lemma named_ok_sort [named_intros]: "named_ok ident key good rs \<Longrightarrow> named_ok ident key good (js_sort cmp rs)"
  by (simp add: named_ok_def)

lemma named_ok_filter [named_intros]: "named_ok ident key good rs \<Longrightarrow> named_ok ident key good (filter P rs)"
  by (simp add: named_ok_def distinct_map_filter)

lemma named_ok_map [named_intros]:
  "named_ok ident key good rs \<Longrightarrow> (\<And>r. ident (f r) = ident r \<and> key (f r) = key r) \<Longrightarrow> (\<And>r. good r \<Longrightarrow> good (f r)) \<Longrightarrow>
   named_ok ident key good (map f rs)"
  by (auto simp: named_ok_def o_def)

text \<open>Without a matching record the identifier is free; the name is free in any case.\<close>

lemma named_ok_put [named_intros]:
  assumes "named_ok ident key good rs" and "good next"
    and "matching = None \<Longrightarrow> ident next \<notin> ident ` set rs"
    and "\<And>r. r \<in> set rs \<Longrightarrow> ident r \<noteq> ident next \<Longrightarrow> key r \<noteq> key next"
  shows "named_ok ident key good (put_named ident matching next rs)"
proof (cases matching)
  case None
  then have "ident next \<notin> ident ` set rs" "key next \<notin> key ` set rs" using assms(3,4) by (auto simp: image_iff) metis
  then show ?thesis using assms(1,2) None by (auto simp: put_named_def named_ok_def)
next
  case (Some m)
  let ?g = "\<lambda>r. if ident r = ident next then next else r"
  have "map ident (map ?g rs) = map ident rs" by simp
  moreover have "distinct (map key (map ?g rs))"
    using assms(1,4) by (intro distinct_map_rekey) (auto simp: named_ok_def)
  ultimately show ?thesis using assms(1,2) Some by (auto simp: put_named_def named_ok_def simp del: map_map)
qed

text \<open>Reading back the records a registry was given.\<close>

lemma collect_named_all:
  assumes "named_ok ident key good rs" and "\<And>r. r \<in> set rs \<Longrightarrow> parse (enc r) = Some (f r)"
    and "\<And>r. r \<in> set rs \<Longrightarrow> ident (f r) = ident r \<and> key (f r) = key r"
    and "ident ` set rs \<inter> I = {}" and "key ` set rs \<inter> N = {}"
  shows "collect_named parse ident key I N (map enc rs) = map f rs"
  using assms
proof (induction rs arbitrary: I N)
  case (Cons r rs)
  have "collect_named parse ident key (insert (ident r) I) (insert (key r) N) (map enc rs) = map f rs"
    using Cons.prems by (intro Cons.IH) (auto simp: named_ok_def)
  then show ?case using Cons.prems(2-5) by simp
qed simp

section \<open>Names\<close>

text \<open>\<open>value.trim().replace(/\s+/g, ' ').slice(0, n)\<close>\<close>

definition record_name :: "nat \<Rightarrow> string \<Rightarrow> string" where
  "record_name n value = js_slice0 n (js_collapse_ws '' '' (js_trim value))"

text \<open>The form of a name after one normalisation: it may end in one blank where it was cut.\<close>

definition named_text :: "nat \<Rightarrow> string \<Rightarrow> bool" where
  "named_text n t \<longleftrightarrow> t \<noteq> [] \<and> \<not> js_ws (hd t) \<and> collapsed t \<and> length t \<le> n"

lemma record_name_trim [simp]: "record_name n (js_trim s) = record_name n s"
  by (simp add: record_name_def)

lemma record_name_text: "js_trim s \<noteq> [] \<Longrightarrow> 0 < n \<Longrightarrow> named_text n (record_name n s)"
proof -
  assume s: "js_trim s \<noteq> []" and n: "0 < n"
  have "\<not> js_ws (hd (js_trim s))" using s trimmed_js_trim [of s] by (simp add: trimmed_def)
  then have "js_collapse_ws '' '' (js_trim s) \<noteq> []" "\<not> js_ws (hd (js_collapse_ws '' '' (js_trim s)))"
    using collapse_from_hd [OF s, of False "'' ''"] by (simp_all add: js_collapse_ws_def js_replace_runs_def)
  then show ?thesis using n by (simp add: named_text_def record_name_def js_slice0_def hd_take collapsed_from_take)
qed

lemma record_name_nil [simp]: "0 < n \<Longrightarrow> record_name n s = [] \<longleftrightarrow> js_trim s = []"
  using record_name_text [of s n] by (cases "js_trim s = []")
    (simp_all add: named_text_def, simp add: record_name_def js_slice0_def js_collapse_ws_def js_replace_runs_def)

lemma trim_end_prefix: "\<exists>k. js_trim_end s = take k s"
proof -
  have "rev s = takeWhile js_ws (rev s) @ dropWhile js_ws (rev s)" by simp
  then have "s = js_trim_end s @ rev (takeWhile js_ws (rev s))"
    unfolding js_trim_end_def by (metis rev_append rev_rev_ident)
  then have "js_trim_end s = take (length (js_trim_end s)) s" by (metis append_eq_conv_conj)
  then show ?thesis by blast
qed

text \<open>A second normalisation only drops that blank, and a third changes nothing.\<close>

lemma trimmed_name:
  assumes "named_text n t"
  shows "named_text n (js_trim t) \<and> record_name n t = js_trim t"
proof -
  have start: "js_trim_start t = t" using assms by (cases t) (simp_all add: named_text_def js_trim_start_def)
  then obtain k where k: "js_trim t = take k t" using trim_end_prefix [of t] by (auto simp: js_trim_def)
  have hd: "js_trim t \<noteq> [] \<and> hd (js_trim t) = hd t"
    using assms trim_end_hd [of t] start by (simp add: named_text_def js_trim_def)
  have c: "collapsed (js_trim t)" "length (js_trim t) \<le> n"
    using assms k by (simp_all add: named_text_def collapsed_from_take min_def)
  then have "record_name n t = js_trim t" by (simp add: record_name_def js_slice0_def js_collapse_collapsed)
  with hd c assms show ?thesis by (simp add: named_text_def)
qed

lemma record_name_again: "named_text n t \<Longrightarrow> record_name n (record_name n t) = record_name n t"
  by (metis trimmed_name record_name_trim)

section \<open>Time stamps\<close>

text \<open>
  Reading fills in the one of the two stamps that is missing; changing a record without stamps leaves it
  without a creation time.
\<close>

definition stamps_ok :: "string \<Rightarrow> string \<Rightarrow> bool" where
  "stamps_ok createdAt updatedAt \<longleftrightarrow> trimmed createdAt \<and> trimmed updatedAt \<and> (updatedAt = [] \<longrightarrow> createdAt = [])"

lemma stamps_read [simp]:
  "trimmed c \<Longrightarrow> trimmed u \<Longrightarrow> stamps_ok (if c = [] then u else c) (if u = [] then c else u)"
  by (simp add: stamps_ok_def)

lemma stamps_touched: "stamps_ok c u \<Longrightarrow> now \<noteq> [] \<Longrightarrow> trimmed now \<Longrightarrow> stamps_ok c now"
  by (simp add: stamps_ok_def)

lemma stamps_new: "trimmed now \<Longrightarrow> stamps_ok now now"
  by (simp add: stamps_ok_def)

section \<open>Identifiers\<close>

definition ident_ok :: "string \<Rightarrow> bool" where
  "ident_ok i \<longleftrightarrow> i \<noteq> [] \<and> trimmed i"

section \<open>Insertion by an optional identifier\<close>

text \<open>The record that an input with an identifier means, and the record that takes its place.\<close>

definition matching_named :: "('r \<Rightarrow> string) \<Rightarrow> string option \<Rightarrow> 'r list \<Rightarrow> 'r option" where
  "matching_named ident i records =
     (case i of None \<Rightarrow> None | Some i \<Rightarrow> List.find (\<lambda>r. ident r = i) records)"

lemma matching_named_Some: "matching_named ident i rs = Some m \<Longrightarrow> m \<in> set rs \<and> i = Some (ident m)"
  by (auto simp: matching_named_def find_Some_iff split: option.splits)

lemma named_ok_upsert:
  assumes "named_ok ident key good rs" and "good next" and "i = None \<or> matching_named ident i rs \<noteq> None"
    and "\<not> (\<exists>r \<in> set rs. Some (ident r) \<noteq> i \<and> key r = key next)"
    and "ident next = (case i of Some j \<Rightarrow> j | None \<Rightarrow> newId)" and "newId \<notin> ident ` set rs"
  shows "named_ok ident key good (js_sort cmp (put_named ident (matching_named ident i rs) next rs))"
proof (rule named_ok_sort, rule named_ok_put [OF assms(1,2)])
  show "ident next \<notin> ident ` set rs" if "matching_named ident i rs = None"
    using that assms(3,5,6) by auto
  show "key r \<noteq> key next" if "r \<in> set rs" "ident r \<noteq> ident next" for r
    using that assms(4,5) by (cases i) auto
qed

text \<open>The creation time of the next record.\<close>

lemma next_stamps:
  assumes "named_ok ident key good rs" and "\<And>r. good r \<Longrightarrow> stamps_ok (created r) (updated r)"
    and "now \<noteq> []" and "trimmed now"
  shows "stamps_ok (case matching_named ident i rs of Some m \<Rightarrow> created m | None \<Rightarrow> now) now"
proof (cases "matching_named ident i rs")
  case (Some m)
  then have "good m" using matching_named_Some [OF Some] assms(1) by (auto simp: named_ok_def)
  then show ?thesis using Some stamps_touched [OF assms(2) assms(3,4)] by simp
qed (use assms stamps_new in simp)

end
