(* ===== verification/Environment_Vault.thy ===== *)
theory Environment_Vault
  imports Named_Records Project_Text
begin

text \<open>
  The vault of environment secrets (\<open>src/lib/environment/environment-vault.ts\<close>) and the shape of an
  encrypted envelope (\<open>secret-vault-crypto.ts\<close>). The comparison of names is \<open>cmp\<close>; the clock and the
  generated identifier are arguments.
\<close>

section \<open>Records\<close>

definition ENVIRONMENT_VAULT_VERSION :: int where "ENVIRONMENT_VAULT_VERSION = 1"
definition ENVIRONMENT_SECRET_NAME_MAX_LENGTH :: nat where "ENVIRONMENT_SECRET_NAME_MAX_LENGTH = 120"
definition ENVIRONMENT_SECRET_VALUE_MAX_LENGTH :: nat where "ENVIRONMENT_SECRET_VALUE_MAX_LENGTH = 16384"
definition ENVIRONMENT_SECRET_TAGS_MAX_COUNT :: nat where "ENVIRONMENT_SECRET_TAGS_MAX_COUNT = 8"

definition ENVIRONMENT_SECRET_NATIVE_REFERENCE_PREFIX :: string where
  "ENVIRONMENT_SECRET_NATIVE_REFERENCE_PREFIX = ''workduck-secret-ref:v2:''"

lemmas vault_limits = ENVIRONMENT_SECRET_NAME_MAX_LENGTH_def ENVIRONMENT_SECRET_VALUE_MAX_LENGTH_def
  ENVIRONMENT_SECRET_TAGS_MAX_COUNT_def

text \<open>Identifier and label of each option.\<close>

definition environmentSecretKindOptions :: "(string \<times> string) list" where
  "environmentSecretKindOptions =
     [(''api-key'', ''API key''), (''token'', ''Token''), (''ssh-key'', ''SSH key''), (''account'', ''Account''),
      (''password'', ''Password''), (''other'', ''Other'')]"

definition environmentSecretTagOptions :: "(string \<times> string) list" where
  "environmentSecretTagOptions =
     [(''llm'', ''LLM''), (''github'', ''GitHub''), (''gitlab'', ''GitLab''), (''openai'', ''OpenAI''),
      (''anthropic'', ''Anthropic''), (''openrouter'', ''OpenRouter''), (''umans'', ''Umans''), (''cloud'', ''Cloud''),
      (''database'', ''Database''), (''auth'', ''Auth''), (''sync'', ''Sync''), (''deployment'', ''Deployment''),
      (''monitoring'', ''Monitoring''), (''payment'', ''Payment''), (''storage'', ''Storage'')]"

datatype environment_vault_error =
    environment_secret_name_required
  | environment_secret_kind_required
  | environment_secret_tag_required
  | environment_secret_name_duplicate
  | environment_secret_value_required
  | environment_secret_not_found
  | environment_vault_invalid

record secret_record =
  se_id :: string
  se_name :: string
  se_kind :: string
  se_tags :: "string list"
  se_value :: string
  se_valueLength :: "int option"
  se_createdAt :: string
  se_updatedAt :: string

record environment_vault =
  ev_workspaceId :: string
  ev_secrets :: "secret_record list"
  ev_updatedAt :: string
  ev_nativeManaged :: bool

record secret_input =
  si_id :: "string option"
  si_name :: string
  si_kind :: string
  si_tags :: "string list"
  si_value :: string

section \<open>Fields\<close>

definition normalizeSecretName :: "string \<Rightarrow> string" where
  "normalizeSecretName value = record_name ENVIRONMENT_SECRET_NAME_MAX_LENGTH value"

definition normalizeSecretValue :: "string \<Rightarrow> string" where
  "normalizeSecretValue value = js_slice0 ENVIRONMENT_SECRET_VALUE_MAX_LENGTH value"

definition js_as_number :: "js \<Rightarrow> js_number option" where
  "js_as_number value = (case value of JInt n \<Rightarrow> Some (Inl n) | JNonInt x \<Rightarrow> Some (Inr x) | _ \<Rightarrow> None)"

definition normalizeOptionalSecretValueLength :: "js \<Rightarrow> int option" where
  "normalizeOptionalSecretValueLength value =
     (case js_as_number value of
        None \<Rightarrow> None
      | Some x \<Rightarrow> map_option (\<lambda>n. min (int ENVIRONMENT_SECRET_VALUE_MAX_LENGTH) (max 0 n)) (finite_floor x))"

definition isEnvironmentSecretKind :: "js \<Rightarrow> bool" where
  "isEnvironmentSecretKind value \<longleftrightarrow> (\<exists>option \<in> set environmentSecretKindOptions. JStr (fst option) = value)"

definition normalizeSecretKind :: "js \<Rightarrow> string" where
  "normalizeSecretKind value =
     (if isEnvironmentSecretKind value then (case value of JStr s \<Rightarrow> s | _ \<Rightarrow> []) else ''api-key'')"

fun secret_tags_from :: "string list \<Rightarrow> js list \<Rightarrow> string list" where
  "secret_tags_from tags [] = tags"
| "secret_tags_from tags (item # items) =
     (case item of
        JStr tag \<Rightarrow>
          if tag \<notin> fst ` set environmentSecretTagOptions then secret_tags_from tags items
          else (let tags' = (if tag \<in> set tags then tags else tags @ [tag]) in
                if length tags' \<ge> ENVIRONMENT_SECRET_TAGS_MAX_COUNT then tags' else secret_tags_from tags' items)
      | _ \<Rightarrow> secret_tags_from tags items)"

definition normalizeSecretTags :: "js \<Rightarrow> string list" where
  "normalizeSecretTags value = secret_tags_from [] (js_elements value)"

definition createSecretNameKey :: "string \<Rightarrow> string" where
  "createSecretNameKey name = js_lower (normalizeSecretName name)"

definition readRawString :: "js \<Rightarrow> string" where
  "readRawString value = (case value of JStr s \<Rightarrow> s | _ \<Rightarrow> [])"

definition isEnvironmentSecretNativeReference :: "string \<Rightarrow> bool" where
  "isEnvironmentSecretNativeReference value = js_starts_with ENVIRONMENT_SECRET_NATIVE_REFERENCE_PREFIX value"

text \<open>The number of bullets a masked value of the given length shows.\<close>

definition createMaskedSecretValueForLength :: "js_number \<Rightarrow> nat" where
  "createMaskedSecretValueForLength valueLength =
     (case valueLength of
        Inl n \<Rightarrow> if n \<le> 0 then 0 else nat (min 12 (max 6 n))
      | Inr (Fraction n) \<Rightarrow> if n < 0 then 0 else nat (min 12 (max 6 n))
      | Inr PosInfinity \<Rightarrow> 12
      | Inr NegInfinity \<Rightarrow> 0
      | Inr NotANumber \<Rightarrow> 0)"

definition createMaskedSecretValue :: "string \<Rightarrow> nat" where
  "createMaskedSecretValue value = createMaskedSecretValueForLength (Inl (int (length value)))"

section \<open>Parsing\<close>

definition parseSecretRecord :: "js \<Rightarrow> secret_record option" where
  "parseSecretRecord value =
     (if \<not> isObjectRecord value then None
      else (let name = normalizeSecretName (readTrimmedString (js_prop value ''name''));
                secretValue = normalizeSecretValue (readRawString (js_prop value ''value''));
                createdAt = readTrimmedString (js_prop value ''createdAt'');
                updatedAt = readTrimmedString (js_prop value ''updatedAt'')
            in (case normalizeRecordId (js_prop value ''id'') of
                  None \<Rightarrow> None
                | Some i \<Rightarrow>
                    if name = [] \<or> secretValue = [] then None
                    else Some \<lparr>se_id = i, se_name = name, se_kind = normalizeSecretKind (js_prop value ''kind''),
                               se_tags = normalizeSecretTags (js_prop value ''tags''), se_value = secretValue,
                               se_valueLength = normalizeOptionalSecretValueLength (js_prop value ''valueLength''),
                               se_createdAt = (if createdAt = [] then updatedAt else createdAt),
                               se_updatedAt = (if updatedAt = [] then createdAt else updatedAt)\<rparr>)))"

definition secret_key :: "secret_record \<Rightarrow> string" where
  "secret_key secret = createSecretNameKey (se_name secret)"

definition sortEnvironmentSecrets :: "(string \<Rightarrow> string \<Rightarrow> int) \<Rightarrow> secret_record list \<Rightarrow> secret_record list" where
  "sortEnvironmentSecrets cmp secrets = js_sort (\<lambda>left right. cmp (se_name left) (se_name right)) secrets"

definition normalizeEnvironmentVault ::
  "(string \<Rightarrow> string \<Rightarrow> int) \<Rightarrow> js \<Rightarrow> string \<Rightarrow> environment_vault option" where
  "normalizeEnvironmentVault cmp value workspaceId =
     (if \<not> isObjectRecord value \<or> js_prop value ''version'' \<noteq> JInt ENVIRONMENT_VAULT_VERSION then None
      else if js_prop value ''workspaceId'' \<noteq> JStr workspaceId then None
      else Some
        \<lparr>ev_workspaceId = workspaceId,
         ev_secrets = sortEnvironmentSecrets cmp
           (collect_named parseSecretRecord se_id secret_key {} {} (js_elements (js_prop value ''secrets''))),
         ev_updatedAt = readTrimmedString (js_prop value ''updatedAt''),
         ev_nativeManaged = (js_prop value ''nativeManaged'' = JBool True)\<rparr>)"

definition parseEnvironmentVault ::
  "(string \<Rightarrow> string \<Rightarrow> int) \<Rightarrow> (string \<Rightarrow> js option) \<Rightarrow> string \<Rightarrow> string \<Rightarrow> environment_vault option" where
  "parseEnvironmentVault cmp json_parse serializedVault workspaceId =
     (case json_parse serializedVault of None \<Rightarrow> None | Some v \<Rightarrow> normalizeEnvironmentVault cmp v workspaceId)"

definition createEmptyEnvironmentVault :: "string \<Rightarrow> string \<Rightarrow> environment_vault" where
  "createEmptyEnvironmentVault workspaceId now =
     \<lparr>ev_workspaceId = workspaceId, ev_secrets = [], ev_updatedAt = now, ev_nativeManaged = False\<rparr>"

text \<open>A vault as a value; an optional field that is absent is left out.\<close>

definition secret_js :: "secret_record \<Rightarrow> js" where
  "secret_js s = JObj ([(''id'', JStr (se_id s)), (''name'', JStr (se_name s)), (''kind'', JStr (se_kind s)),
      (''tags'', JArr (map JStr (se_tags s))), (''value'', JStr (se_value s))] @
      (case se_valueLength s of None \<Rightarrow> [] | Some n \<Rightarrow> [(''valueLength'', JInt n)]) @
      [(''createdAt'', JStr (se_createdAt s)), (''updatedAt'', JStr (se_updatedAt s))])"

definition vault_js :: "environment_vault \<Rightarrow> js" where
  "vault_js v = JObj ([(''version'', JInt ENVIRONMENT_VAULT_VERSION), (''workspaceId'', JStr (ev_workspaceId v)),
      (''secrets'', JArr (map secret_js (ev_secrets v))), (''updatedAt'', JStr (ev_updatedAt v))] @
      (if ev_nativeManaged v then [(''nativeManaged'', JBool True)] else []))"

text \<open>\<open>normalizeEnvironmentVault(vault, vault.workspaceId) ?? vault\<close>\<close>

definition normalized_vault :: "(string \<Rightarrow> string \<Rightarrow> int) \<Rightarrow> environment_vault \<Rightarrow> environment_vault" where
  "normalized_vault cmp vault =
     (case normalizeEnvironmentVault cmp (vault_js vault) (ev_workspaceId vault) of Some v \<Rightarrow> v | None \<Rightarrow> vault)"

definition serializeEnvironmentVault ::
  "(string \<Rightarrow> string \<Rightarrow> int) \<Rightarrow> (js \<Rightarrow> string) \<Rightarrow> environment_vault \<Rightarrow> string" where
  "serializeEnvironmentVault cmp stringify vault = stringify (vault_js (normalized_vault cmp vault))"

section \<open>Mutations\<close>

definition upsertEnvironmentSecret ::
  "(string \<Rightarrow> string \<Rightarrow> int) \<Rightarrow> environment_vault \<Rightarrow> secret_input \<Rightarrow> string \<Rightarrow> string \<Rightarrow>
   (environment_vault, environment_vault_error) mutation" where
  "upsertEnvironmentSecret cmp vault input newId timestamp =
     (let v = normalized_vault cmp vault;
          name = normalizeSecretName (si_name input);
          val = normalizeSecretValue (si_value input);
          tags = normalizeSecretTags (JArr (map JStr (si_tags input)));
          secretId = normalizeRecordId (js_nullable (si_id input));
          matching = (case secretId of None \<Rightarrow> None | Some i \<Rightarrow> List.find (\<lambda>s. se_id s = i) (ev_secrets v))
      in if name = [] then Err v environment_secret_name_required
         else if val = [] then Err v environment_secret_value_required
         else if \<not> isEnvironmentSecretKind (JStr (si_kind input)) then Err v environment_secret_kind_required
         else if tags = [] then Err v environment_secret_tag_required
         else if \<exists>s \<in> set (ev_secrets v). Some (se_id s) \<noteq> secretId \<and> secret_key s = createSecretNameKey name
         then Err v environment_secret_name_duplicate
         else if secretId \<noteq> None \<and> matching = None then Err v environment_secret_not_found
         else Ok \<lparr>ev_workspaceId = ev_workspaceId v,
                  ev_secrets = sortEnvironmentSecrets cmp
                    (put_named se_id matching
                       \<lparr>se_id = (case secretId of Some i \<Rightarrow> i | None \<Rightarrow> newId), se_name = name,
                        se_kind = si_kind input, se_tags = tags, se_value = val, se_valueLength = None,
                        se_createdAt = (case matching of Some m \<Rightarrow> se_createdAt m | None \<Rightarrow> timestamp),
                        se_updatedAt = timestamp\<rparr>
                       (ev_secrets v)),
                  ev_updatedAt = timestamp, ev_nativeManaged = False\<rparr>)"

definition removeEnvironmentSecret ::
  "(string \<Rightarrow> string \<Rightarrow> int) \<Rightarrow> environment_vault \<Rightarrow> string \<Rightarrow> string \<Rightarrow>
   (environment_vault, environment_vault_error) mutation" where
  "removeEnvironmentSecret cmp vault secretId timestamp =
     (let v = normalized_vault cmp vault in
      if \<not> (\<exists>s \<in> set (ev_secrets v). se_id s = secretId) then Err v environment_secret_not_found
      else Ok \<lparr>ev_workspaceId = ev_workspaceId v, ev_secrets = filter (\<lambda>s. se_id s \<noteq> secretId) (ev_secrets v),
               ev_updatedAt = timestamp, ev_nativeManaged = False\<rparr>)"

section \<open>Envelopes\<close>

definition is_js_number :: "js \<Rightarrow> bool" where
  "is_js_number value \<longleftrightarrow> js_as_number value \<noteq> None"

definition is_js_string :: "js \<Rightarrow> bool" where
  "is_js_string value \<longleftrightarrow> (case value of JStr _ \<Rightarrow> True | _ \<Rightarrow> False)"

definition isSecretVaultEnvelope :: "js \<Rightarrow> bool" where
  "isSecretVaultEnvelope value =
     (let kdf = js_prop value ''kdf''; cipher = js_prop value ''cipher'' in
      isObjectRecord value \<and> isObjectRecord kdf \<and> isObjectRecord cipher \<and>
      js_prop value ''format'' = JStr ''workduck.secret-vault'' \<and> js_prop value ''version'' = JInt 1 \<and>
      js_prop kdf ''algorithm'' = JStr ''argon2id'' \<and> js_prop kdf ''version'' = JInt 19 \<and>
      is_js_number (js_prop kdf ''memoryKiB'') \<and> is_js_number (js_prop kdf ''iterations'') \<and>
      is_js_number (js_prop kdf ''parallelism'') \<and> is_js_string (js_prop kdf ''salt'') \<and>
      js_prop cipher ''algorithm'' = JStr ''xchacha20poly1305'' \<and> is_js_string (js_prop cipher ''nonce'') \<and>
      is_js_string (js_prop value ''ciphertext''))"

text \<open>
  What the mutations of a vault preserve: every vault they answer with is in order, whatever vault they
  were given, and normalising a vault in order loses no secret.
\<close>

section \<open>Secrets in order\<close>

definition tags_ok :: "string list \<Rightarrow> bool" where
  "tags_ok tags \<longleftrightarrow> distinct tags \<and> set tags \<subseteq> fst ` set environmentSecretTagOptions \<and>
     length tags \<le> ENVIRONMENT_SECRET_TAGS_MAX_COUNT"

definition secret_ok :: "secret_record \<Rightarrow> bool" where
  "secret_ok s \<longleftrightarrow>
     ident_ok (se_id s) \<and> named_text ENVIRONMENT_SECRET_NAME_MAX_LENGTH (se_name s) \<and>
     se_kind s \<in> fst ` set environmentSecretKindOptions \<and> tags_ok (se_tags s) \<and>
     se_value s \<noteq> [] \<and> length (se_value s) \<le> ENVIRONMENT_SECRET_VALUE_MAX_LENGTH \<and>
     (case se_valueLength s of None \<Rightarrow> True | Some n \<Rightarrow> 0 \<le> n \<and> n \<le> int ENVIRONMENT_SECRET_VALUE_MAX_LENGTH) \<and>
     stamps_ok (se_createdAt s) (se_updatedAt s)"

definition vault_ok :: "environment_vault \<Rightarrow> bool" where
  "vault_ok v \<longleftrightarrow> named_ok se_id secret_key secret_ok (ev_secrets v)"

lemma normalizeRecordId_SomeD: "normalizeRecordId v = Some i \<Longrightarrow> ident_ok i"
  by (auto simp: ident_ok_def normalizeRecordId_def Let_def split: if_splits)

lemma secret_tags_ok: "tags_ok tags \<Longrightarrow> length tags < ENVIRONMENT_SECRET_TAGS_MAX_COUNT \<Longrightarrow> tags_ok (secret_tags_from tags items)"
  by (induction tags items rule: secret_tags_from.induct)
    (auto simp: tags_ok_def Let_def split: js.split if_splits)

lemma tags_ok_normalized [simp]: "tags_ok (normalizeSecretTags v)"
  unfolding normalizeSecretTags_def by (rule secret_tags_ok) (simp_all add: tags_ok_def vault_limits)

lemma kind_ok_normalized [simp]: "normalizeSecretKind v \<in> fst ` set environmentSecretKindOptions"
proof (cases "isEnvironmentSecretKind v")
  case True
  then obtain option where "option \<in> set environmentSecretKindOptions" "v = JStr (fst option)"
    by (auto simp: isEnvironmentSecretKind_def)
  then show ?thesis using True by (simp add: normalizeSecretKind_def)
next
  case False
  have "''api-key'' \<in> fst ` set environmentSecretKindOptions" by (simp add: environmentSecretKindOptions_def)
  then show ?thesis using False by (simp add: normalizeSecretKind_def)
qed

lemma secret_name_text:
  "normalizeSecretName s \<noteq> [] \<Longrightarrow> named_text ENVIRONMENT_SECRET_NAME_MAX_LENGTH (normalizeSecretName s)"
  unfolding normalizeSecretName_def by (rule record_name_text) (simp_all add: vault_limits)

lemma value_length_bounds:
  "normalizeOptionalSecretValueLength v = Some n \<Longrightarrow> 0 \<le> n \<and> n \<le> int ENVIRONMENT_SECRET_VALUE_MAX_LENGTH"
  by (auto simp: normalizeOptionalSecretValueLength_def split: option.splits)

lemma parsed_secret_ok: "parseSecretRecord v = Some s \<Longrightarrow> secret_ok s"
  by (auto simp: parseSecretRecord_def Let_def secret_ok_def stamps_ok_def normalizeSecretValue_def js_slice0_def
      dest: normalizeRecordId_SomeD value_length_bounds intro: secret_name_text split: if_splits option.splits)

lemma normalized_secrets_ok: "normalizeEnvironmentVault cmp value w = Some v \<Longrightarrow> vault_ok v"
  by (auto simp: normalizeEnvironmentVault_def vault_ok_def sortEnvironmentSecrets_def split: if_splits
      intro!: named_intros parsed_secret_ok)

lemma vault_js_props [simp]:
  "js_prop (vault_js v) ''version'' = JInt ENVIRONMENT_VAULT_VERSION"
  "js_prop (vault_js v) ''workspaceId'' = JStr (ev_workspaceId v)"
  "js_prop (vault_js v) ''secrets'' = JArr (map secret_js (ev_secrets v))"
  "js_prop (vault_js v) ''updatedAt'' = JStr (ev_updatedAt v)"
  "js_prop (vault_js v) ''nativeManaged'' = (if ev_nativeManaged v then JBool True else JUndefined)"
  "isObjectRecord (vault_js v)"
  by (simp_all add: vault_js_def js_prop_def)

lemma normalized_vault_eq:
  "normalized_vault cmp v =
     \<lparr>ev_workspaceId = ev_workspaceId v,
      ev_secrets = sortEnvironmentSecrets cmp
        (collect_named parseSecretRecord se_id secret_key {} {} (map secret_js (ev_secrets v))),
      ev_updatedAt = js_trim (ev_updatedAt v), ev_nativeManaged = ev_nativeManaged v\<rparr>"
  by (simp add: normalized_vault_def normalizeEnvironmentVault_def)

lemma normalized_vault_ok [simp]: "vault_ok (normalized_vault cmp v)"
  by (simp add: normalized_vault_eq vault_ok_def sortEnvironmentSecrets_def named_intros parsed_secret_ok)

section \<open>Mutations\<close>

datatype vault_op =
    UpsertSecret secret_input string string   \<comment> \<open>input, generated identifier, time\<close>
  | RemoveSecret string string

fun apply_vault_op :: "(string \<Rightarrow> string \<Rightarrow> int) \<Rightarrow> vault_op \<Rightarrow> environment_vault \<Rightarrow> (environment_vault, environment_vault_error) mutation" where
  "apply_vault_op cmp (UpsertSecret input newId now) v = upsertEnvironmentSecret cmp v input newId now"
| "apply_vault_op cmp (RemoveSecret secretId now) v = removeEnvironmentSecret cmp v secretId now"

text \<open>The generated identifier is one of its kind, and the clock gives a time stamp.\<close>

fun vault_fresh :: "vault_op \<Rightarrow> environment_vault \<Rightarrow> bool" where
  "vault_fresh (UpsertSecret input newId now) v \<longleftrightarrow>
     ident_ok newId \<and> newId \<notin> se_id ` set (ev_secrets v) \<and> now \<noteq> [] \<and> trimmed now"
| "vault_fresh (RemoveSecret secretId now) v \<longleftrightarrow> True"

lemma upsert_ok:
  assumes "upsertEnvironmentSecret cmp vault input newId now = Ok v'"
    and "ident_ok newId" "newId \<notin> se_id ` set (ev_secrets (normalized_vault cmp vault))"
    and "now \<noteq> []" "trimmed now"
  shows "vault_ok v'"
proof -
  define v where "v = normalized_vault cmp vault"
  define secretId where "secretId = normalizeRecordId (js_nullable (si_id input))"
  define matching where "matching = (case secretId of None \<Rightarrow> None | Some i \<Rightarrow> List.find (\<lambda>s. se_id s = i) (ev_secrets v))"
  define next_secret where "next_secret = \<lparr>se_id = (case secretId of Some i \<Rightarrow> i | None \<Rightarrow> newId),
    se_name = normalizeSecretName (si_name input), se_kind = si_kind input,
    se_tags = normalizeSecretTags (JArr (map JStr (si_tags input))), se_value = normalizeSecretValue (si_value input),
    se_valueLength = None, se_createdAt = (case matching of Some m \<Rightarrow> se_createdAt m | None \<Rightarrow> now), se_updatedAt = now\<rparr>"
  have ok: "normalizeSecretName (si_name input) \<noteq> []" "normalizeSecretValue (si_value input) \<noteq> []"
    "isEnvironmentSecretKind (JStr (si_kind input))"
    "\<And>s. s \<in> set (ev_secrets v) \<Longrightarrow> Some (se_id s) \<noteq> secretId \<Longrightarrow> secret_key s \<noteq> createSecretNameKey (normalizeSecretName (si_name input))"
    "secretId = None \<or> matching \<noteq> None"
    and v': "ev_secrets v' = sortEnvironmentSecrets cmp (put_named se_id matching next_secret (ev_secrets v))"
    using assms(1) unfolding upsertEnvironmentSecret_def Let_def v_def [symmetric] secretId_def [symmetric]
      matching_def [symmetric] next_secret_def [symmetric]
    by (auto split: if_splits)
  have v: "named_ok se_id secret_key secret_ok (ev_secrets v)"
    using normalized_vault_ok [of cmp vault] by (simp add: v_def vault_ok_def)
  have found: "m \<in> set (ev_secrets v) \<and> secretId = Some (se_id m)" if "matching = Some m" for m
    using that by (auto simp: matching_def find_Some_iff split: option.splits)
  have good: "secret_ok next_secret"
  proof -
    have "stamps_ok (se_createdAt next_secret) now"
      using v found assms(4,5)
      by (cases matching) (auto simp: next_secret_def named_ok_def secret_ok_def intro: stamps_new stamps_touched)
    moreover have "ident_ok (se_id next_secret)"
      using assms(2) by (auto simp: next_secret_def secretId_def dest: normalizeRecordId_SomeD split: option.split)
    ultimately show ?thesis
      using ok(1-3) secret_name_text
      by (auto simp: secret_ok_def next_secret_def normalizeSecretValue_def js_slice0_def isEnvironmentSecretKind_def
          intro: rev_image_eqI)
  qed
  have "named_ok se_id secret_key secret_ok (put_named se_id matching next_secret (ev_secrets v))"
  proof (rule named_ok_put [OF v good])
    show "se_id next_secret \<notin> se_id ` set (ev_secrets v)" if "matching = None"
      using that ok(5) assms(3) by (simp add: next_secret_def v_def)
    show "secret_key s \<noteq> secret_key next_secret" if "s \<in> set (ev_secrets v)" "se_id s \<noteq> se_id next_secret" for s
      using that ok(4) [of s] by (cases secretId) (auto simp: next_secret_def secret_key_def)
  qed
  then show ?thesis using v' by (simp add: vault_ok_def sortEnvironmentSecrets_def named_intros)
qed

lemma remove_ok: "removeEnvironmentSecret cmp vault secretId now = Ok v' \<Longrightarrow> vault_ok v'"
  using normalized_vault_ok [of cmp vault]
  by (auto simp: removeEnvironmentSecret_def Let_def vault_ok_def intro: named_intros split: if_splits)

lemma vault_op_ok: "apply_vault_op cmp op v = Ok v' \<Longrightarrow> vault_fresh op (normalized_vault cmp v) \<Longrightarrow> vault_ok v'"
  by (cases op) (auto intro: upsert_ok remove_ok)

lemma vault_op_refused: "apply_vault_op cmp op v = Err v' e \<Longrightarrow> v' = normalized_vault cmp v"
  by (cases op) (auto simp: upsertEnvironmentSecret_def removeEnvironmentSecret_def Let_def split: if_splits)

interpretation vaults: healing_registry "\<lambda>op. normalized_vault cmp" "apply_vault_op cmp" vault_fresh vault_ok for cmp
  by unfold_locales (auto dest: vault_op_ok vault_op_refused)

section \<open>Reading back\<close>

text \<open>What a normalisation makes of a secret in order.\<close>

definition reread_secret :: "secret_record \<Rightarrow> secret_record" where
  "reread_secret s = s\<lparr>se_name := js_trim (se_name s),
     se_createdAt := (if se_createdAt s = [] then se_updatedAt s else se_createdAt s)\<rparr>"

lemma secret_tags_all:
  "tags_ok (tags @ items) \<Longrightarrow> secret_tags_from tags (map JStr items) = tags @ items"
proof (induction items arbitrary: tags)
  case (Cons item items)
  have "secret_tags_from (tags @ [item]) (map JStr items) = tags @ item # items"
    using Cons.IH [of "tags @ [item]"] Cons.prems by simp
  moreover have "items = []" if "length tags + 1 \<ge> ENVIRONMENT_SECRET_TAGS_MAX_COUNT"
    using that Cons.prems by (cases items) (auto simp: tags_ok_def)
  ultimately show ?case using Cons.prems by (auto simp: tags_ok_def Let_def)
qed simp

lemma tags_read [simp]: "tags_ok tags \<Longrightarrow> normalizeSecretTags (JArr (map JStr tags)) = tags"
  using secret_tags_all [of "[]" tags] by (simp add: normalizeSecretTags_def)

lemma kind_read [simp]: "k \<in> fst ` set environmentSecretKindOptions \<Longrightarrow> normalizeSecretKind (JStr k) = k"
  by (auto simp: normalizeSecretKind_def isEnvironmentSecretKind_def)

lemma id_read [simp]: "ident_ok i \<Longrightarrow> normalizeRecordId (JStr i) = Some i"
  by (simp add: ident_ok_def normalizeRecordId_def js_trim_trimmed)

lemma length_read [simp]:
  "normalizeOptionalSecretValueLength JUndefined = None"
  "0 \<le> n \<Longrightarrow> n \<le> int ENVIRONMENT_SECRET_VALUE_MAX_LENGTH \<Longrightarrow> normalizeOptionalSecretValueLength (JInt n) = Some n"
  by (simp_all add: normalizeOptionalSecretValueLength_def js_as_number_def finite_floor_def)

lemma parse_secret: "secret_ok s \<Longrightarrow> parseSecretRecord (secret_js s) = Some (reread_secret s)"
proof -
  assume s: "secret_ok s"
  have name: "normalizeSecretName (se_name s) = js_trim (se_name s)" "js_trim (se_name s) \<noteq> []"
    using s trimmed_name [of ENVIRONMENT_SECRET_NAME_MAX_LENGTH "se_name s"]
    by (auto simp: secret_ok_def normalizeSecretName_def named_text_def)
  have "normalizeSecretName (js_trim (se_name s)) = js_trim (se_name s)"
    using name by (simp add: normalizeSecretName_def)
  then show ?thesis
    using s name(2)
    by (cases s; cases "se_valueLength s")
      (auto simp: parseSecretRecord_def secret_js_def js_prop_def Let_def reread_secret_def secret_ok_def stamps_ok_def
        js_trim_trimmed normalizeSecretValue_def js_slice0_def readRawString_def)
qed

lemma reread_key: "secret_ok s \<Longrightarrow> secret_key (reread_secret s) = secret_key s"
  using trimmed_name [of ENVIRONMENT_SECRET_NAME_MAX_LENGTH "se_name s"]
  by (simp add: secret_key_def createSecretNameKey_def normalizeSecretName_def reread_secret_def secret_ok_def)

lemma normalized_vault_secrets:
  assumes "vault_ok v"
  shows "ev_secrets (normalized_vault cmp v) = sortEnvironmentSecrets cmp (map reread_secret (ev_secrets v))"
proof -
  have "collect_named parseSecretRecord se_id secret_key {} {} (map secret_js (ev_secrets v)) = map reread_secret (ev_secrets v)"
    using assms
    by (intro collect_named_all [where good = secret_ok])
      (auto simp: vault_ok_def named_ok_def reread_key parse_secret, auto simp: reread_secret_def)
  then show ?thesis by (simp add: normalized_vault_eq)
qed

lemma reread_again: "secret_ok s \<Longrightarrow> reread_secret (reread_secret s) = reread_secret s"
  by (simp add: reread_secret_def)

theorem normalized_vault_settles:
  assumes "vault_ok v" and "consistent cmp"
  shows "normalized_vault cmp (normalized_vault cmp v) = normalized_vault cmp v"
proof -
  define n where "n = normalized_vault cmp v"
  have n: "vault_ok n" by (simp add: n_def)
  have secrets: "ev_secrets n = sortEnvironmentSecrets cmp (map reread_secret (ev_secrets v))"
    using normalized_vault_secrets [OF assms(1)] by (simp add: n_def)
  have "reread_secret s = s" if "s \<in> set (ev_secrets n)" for s
    using that assms(1) reread_again by (auto simp: secrets sortEnvironmentSecrets_def vault_ok_def named_ok_def)
  then have "map reread_secret (ev_secrets n) = ev_secrets n" by (simp add: map_idI)
  then have "ev_secrets (normalized_vault cmp n) = ev_secrets n"
    using normalized_vault_secrets [OF n] assms(2)
    by (simp add: secrets sortEnvironmentSecrets_def js_sort_idem consistent_via)
  then show ?thesis
    by (intro environment_vault.equality) (simp_all add: n_def normalized_vault_eq)
qed

end
