(* ===== verification/Vault_Session.thy ===== *)
theory Vault_Session
  imports Environment_Vault Workspace_Unlock
begin

text \<open>
  The sessions of the native secret vault as the renderer sees them
  (\<open>src/lib/environment/environment-vault-session.ts\<close>). The module-level maps are the fields of
  \<open>vault_sessions\<close>. A lifetime object and a set of subscribers are shared by reference: they are numbers,
  with their contents in \<open>vs_closing\<close> and \<open>vs_sets\<close>. A callback is a number too, and its calls are logged.

  Every command has two \<open>await\<close>s, that of \<open>invokeVaultCommand\<close> and that of its caller, and is cut into
  \<open>begin_command\<close>, \<open>receive_response\<close> and \<open>finish_command\<close>; a close is cut into \<open>begin_close\<close> and
  \<open>end_close\<close>. The answers of the native side are arguments. They are JSON values, so that
  \<open>JSON.parse(JSON.stringify(v))\<close> is \<open>v\<close>, and throws for the missing ones.
\<close>

section \<open>Errors and answers\<close>

datatype vault_session_error =
    SessionVaultError environment_vault_error
  | session_workspace_required
  | session_password_required
  | session_decrypt_failed
  | session_invalid
  | session_locked
  | session_store_failed
  | session_unavailable

definition vault_session_errors :: "(string \<times> vault_session_error) list" where
  "vault_session_errors =
     [(''environment-secret-name-required'', SessionVaultError environment_secret_name_required),
      (''environment-secret-kind-required'', SessionVaultError environment_secret_kind_required),
      (''environment-secret-tag-required'', SessionVaultError environment_secret_tag_required),
      (''environment-secret-name-duplicate'', SessionVaultError environment_secret_name_duplicate),
      (''environment-secret-value-required'', SessionVaultError environment_secret_value_required),
      (''environment-secret-not-found'', SessionVaultError environment_secret_not_found),
      (''environment-vault-invalid'', SessionVaultError environment_vault_invalid),
      (''environment-vault-session-workspace-required'', session_workspace_required),
      (''environment-vault-session-password-required'', session_password_required),
      (''environment-vault-session-decrypt-failed'', session_decrypt_failed),
      (''environment-vault-session-invalid'', session_invalid),
      (''environment-vault-session-locked'', session_locked),
      (''environment-vault-session-store-failed'', session_store_failed),
      (''environment-vault-session-unavailable'', session_unavailable)]"

definition normalizeEnvironmentVaultSessionError :: "js \<Rightarrow> vault_session_error" where
  "normalizeEnvironmentVaultSessionError value =
     (case value of
        JStr name \<Rightarrow> (case map_of vault_session_errors name of Some e \<Rightarrow> e | None \<Rightarrow> session_store_failed)
      | _ \<Rightarrow> session_store_failed)"

text \<open>What comes of a call to the native side: there is none, the promise rejects, or it answers.\<close>

datatype vault_reply = NoNative | NativeFailed | NativeAnswer js

text \<open>The commands: opening and refreshing, creating and changing, reading a secret.\<close>

datatype vault_command = ReadVault | MutateVault | ReadSecret

datatype vault_answer =
    VaultRead environment_vault
  | VaultStored environment_vault js
  | SecretValue string
  | VaultRefused vault_session_error

section \<open>State\<close>

record vault_sessions =
  vs_vaults :: "string \<rightharpoonup> environment_vault"
  vs_lifetimes :: "string \<rightharpoonup> nat"
  vs_closing :: "nat \<Rightarrow> int"
  vs_subscribers :: "string \<rightharpoonup> nat"
  vs_sets :: "nat \<Rightarrow> nat list"
  vs_objects :: nat   \<comment> \<open>the next number for an object\<close>
  vs_called :: "(nat \<times> environment_vault option) list"

definition readEnvironmentVaultSession :: "vault_sessions \<Rightarrow> string \<Rightarrow> environment_vault option" where
  "readEnvironmentVaultSession st workspaceId = vs_vaults st workspaceId"

definition isNativeManagedVault :: "environment_vault \<Rightarrow> string \<Rightarrow> bool" where
  "isNativeManagedVault vault workspaceId \<longleftrightarrow>
     ev_workspaceId vault = workspaceId \<and> ev_nativeManaged vault \<and>
     (\<forall>secret \<in> set (ev_secrets vault). isEnvironmentSecretNativeReference (se_value secret) \<and> se_valueLength secret \<noteq> None)"

definition parseNativeManagedVault ::
  "(string \<Rightarrow> string \<Rightarrow> int) \<Rightarrow> js \<Rightarrow> string \<Rightarrow> environment_vault option" where
  "parseNativeManagedVault cmp value workspaceId =
     (case normalizeEnvironmentVault cmp value workspaceId of
        None \<Rightarrow> None
      | Some vault \<Rightarrow> if isNativeManagedVault vault workspaceId then Some vault else None)"

definition notifyEnvironmentVaultSessionSubscribers :: "vault_sessions \<Rightarrow> string \<Rightarrow> vault_sessions" where
  "notifyEnvironmentVaultSessionSubscribers st workspaceId =
     (case vs_subscribers st workspaceId of
        None \<Rightarrow> st
      | Some subscribers \<Rightarrow>
          st\<lparr>vs_called := vs_called st @
               map (\<lambda>callback. (callback, readEnvironmentVaultSession st workspaceId)) (vs_sets st subscribers)\<rparr>)"

definition setEnvironmentVaultSession :: "vault_sessions \<Rightarrow> environment_vault \<Rightarrow> vault_sessions" where
  "setEnvironmentVaultSession st vault =
     (if \<not> isNativeManagedVault vault (ev_workspaceId vault) then st
      else notifyEnvironmentVaultSessionSubscribers
             (st\<lparr>vs_vaults := (vs_vaults st)(ev_workspaceId vault \<mapsto> vault)\<rparr>) (ev_workspaceId vault))"

definition clearLocalEnvironmentVaultSession :: "vault_sessions \<Rightarrow> string \<Rightarrow> vault_sessions" where
  "clearLocalEnvironmentVaultSession st workspaceId =
     (if vs_vaults st workspaceId = None then st
      else notifyEnvironmentVaultSessionSubscribers (st\<lparr>vs_vaults := (vs_vaults st)(workspaceId := None)\<rparr>) workspaceId)"

section \<open>Subscriptions\<close>

text \<open>The set is what the returned function holds.\<close>

definition subscribeEnvironmentVaultSession :: "vault_sessions \<Rightarrow> string \<Rightarrow> nat \<Rightarrow> vault_sessions \<times> nat" where
  "subscribeEnvironmentVaultSession st workspaceId callback =
     (let fresh = (vs_subscribers st workspaceId = None);
          subscribers = (case vs_subscribers st workspaceId of Some i \<Rightarrow> i | None \<Rightarrow> vs_objects st);
          members = (if fresh then [] else vs_sets st subscribers)
      in (st\<lparr>vs_subscribers := (vs_subscribers st)(workspaceId \<mapsto> subscribers),
             vs_sets := (vs_sets st)(subscribers := (if callback \<in> set members then members else members @ [callback])),
             vs_objects := (if fresh then vs_objects st + 1 else vs_objects st)\<rparr>, subscribers))"

definition unsubscribe_session :: "vault_sessions \<Rightarrow> string \<Rightarrow> nat \<Rightarrow> nat \<Rightarrow> vault_sessions" where
  "unsubscribe_session st workspaceId callback subscribers =
     (let members = removeAll callback (vs_sets st subscribers);
          st' = st\<lparr>vs_sets := (vs_sets st)(subscribers := members)\<rparr>
      in if members = [] then st'\<lparr>vs_subscribers := (vs_subscribers st')(workspaceId := None)\<rparr> else st')"

section \<open>Closing\<close>

definition begin_close :: "vault_sessions \<Rightarrow> string \<Rightarrow> vault_sessions" where
  "begin_close st workspaceId =
     (let previous = (case vs_lifetimes st workspaceId of None \<Rightarrow> 0 | Some l \<Rightarrow> vs_closing st l);
          l = vs_objects st
      in clearLocalEnvironmentVaultSession
           (st\<lparr>vs_lifetimes := (vs_lifetimes st)(workspaceId \<mapsto> l), vs_closing := (vs_closing st)(l := previous + 1),
               vs_objects := vs_objects st + 1\<rparr>) workspaceId)"

text \<open>The result of the close: \<open>None\<close> when it succeeded.\<close>

definition close_outcome :: "vault_reply \<Rightarrow> vault_session_error option" where
  "close_outcome reply =
     (case reply of
        NoNative \<Rightarrow> Some session_unavailable
      | NativeFailed \<Rightarrow> Some session_store_failed
      | NativeAnswer response \<Rightarrow>
          if js_truthy (js_prop response ''ok'') then None
          else Some (normalizeEnvironmentVaultSessionError (js_prop response ''error'')))"

definition end_close :: "vault_sessions \<Rightarrow> string \<Rightarrow> vault_sessions" where
  "end_close st workspaceId =
     (case vs_lifetimes st workspaceId of
        None \<Rightarrow> st
      | Some l \<Rightarrow> st\<lparr>vs_closing := (vs_closing st)(l := vs_closing st l - 1)\<rparr>)"

text \<open>The rest of \<open>lockWorkspaceEnvironmentVaultSession\<close> after its close.\<close>

definition conclude_lock :: "unlock_state \<Rightarrow> string \<Rightarrow> vault_session_error option \<Rightarrow> unlock_state \<times> bool" where
  "conclude_lock us workspaceId outcome =
     (if outcome \<noteq> None \<and> outcome \<noteq> Some session_unavailable then (us, False)
      else (markWorkspaceLocked us workspaceId, True))"

text \<open>The closes that \<open>lockIdleWorkspaceEnvironmentVaultSessions\<close> starts, and its result.\<close>

definition begin_idle_locks :: "unlock_state \<Rightarrow> js_number \<Rightarrow> int \<Rightarrow> vault_sessions \<Rightarrow> vault_sessions \<times> string list" where
  "begin_idle_locks us idleTimeoutMs nowMs st =
     (let ids = readIdleWorkspaceSessionIds us idleTimeoutMs nowMs in (fold (\<lambda>w st. begin_close st w) ids st, ids))"

definition idle_locked :: "(string \<times> bool) list \<Rightarrow> string list" where
  "idle_locked results = concat (map (\<lambda>(workspaceId, locked). if locked then [workspaceId] else []) results)"

section \<open>Commands\<close>

definition is_current :: "vault_sessions \<Rightarrow> string \<Rightarrow> nat \<Rightarrow> bool" where
  "is_current st workspaceId lifetime \<longleftrightarrow> vs_lifetimes st workspaceId = Some lifetime \<and> vs_closing st lifetime = 0"

text \<open>The lifetime the command belongs to, once it is sent.\<close>

definition begin_command :: "vault_sessions \<Rightarrow> bool \<Rightarrow> string \<Rightarrow> vault_sessions \<times> (vault_session_error + nat)" where
  "begin_command st native workspaceId =
     (if \<not> native then (st, Inl session_unavailable)
      else (let (st', lifetime) =
              (case vs_lifetimes st workspaceId of
                 Some l \<Rightarrow> (st, l)
               | None \<Rightarrow> (st\<lparr>vs_lifetimes := (vs_lifetimes st)(workspaceId \<mapsto> vs_objects st),
                            vs_closing := (vs_closing st)(vs_objects st := 0), vs_objects := vs_objects st + 1\<rparr>,
                         vs_objects st))
            in if \<not> is_current st' workspaceId lifetime then (st', Inl session_locked) else (st', Inr lifetime)))"

text \<open>The native side has answered, or failed (\<open>None\<close>).\<close>

definition receive_response :: "vault_sessions \<Rightarrow> string \<Rightarrow> nat \<Rightarrow> js option \<Rightarrow> vault_session_error + js" where
  "receive_response st workspaceId lifetime reply =
     (case reply of
        None \<Rightarrow> Inl session_store_failed
      | Some response \<Rightarrow>
          if \<not> is_current st workspaceId lifetime then Inl session_locked
          else if js_truthy (js_prop response ''ok'') then Inr response
          else Inl (normalizeEnvironmentVaultSessionError (js_prop response ''error'')))"

text \<open>
  The ends of the commands: \<open>openEnvironmentVaultSession\<close> and \<open>refreshEnvironmentVaultSession\<close> take
  the vault of the response, \<open>invokeVaultMutation\<close> (creating a vault, changing and removing a secret) also
  its envelope, and \<open>readEnvironmentVaultSessionSecretValue\<close> the value.
\<close>

definition finish_read ::
  "(string \<Rightarrow> string \<Rightarrow> int) \<Rightarrow> vault_sessions \<Rightarrow> string \<Rightarrow> nat \<Rightarrow> js \<Rightarrow> vault_sessions \<times> vault_answer" where
  "finish_read cmp st workspaceId lifetime response =
     (if \<not> is_current st workspaceId lifetime then (st, VaultRefused session_locked)
      else (case parseNativeManagedVault cmp (js_prop response ''vault'') workspaceId of
              None \<Rightarrow> (st, VaultRefused session_invalid)
            | Some vault \<Rightarrow> (setEnvironmentVaultSession st vault, VaultRead vault)))"

definition finish_mutation ::
  "(string \<Rightarrow> string \<Rightarrow> int) \<Rightarrow> vault_sessions \<Rightarrow> string \<Rightarrow> nat \<Rightarrow> js \<Rightarrow> vault_sessions \<times> vault_answer" where
  "finish_mutation cmp st workspaceId lifetime response =
     (if \<not> is_current st workspaceId lifetime then (st, VaultRefused session_locked)
      else (case parseNativeManagedVault cmp (js_prop response ''vault'') workspaceId of
              None \<Rightarrow> (st, VaultRefused session_invalid)
            | Some vault \<Rightarrow>
                if \<not> isSecretVaultEnvelope (js_prop response ''envelope'') then (st, VaultRefused session_invalid)
                else (setEnvironmentVaultSession st vault, VaultStored vault (js_prop response ''envelope''))))"

definition finish_secret_value :: "vault_sessions \<Rightarrow> string \<Rightarrow> nat \<Rightarrow> js \<Rightarrow> vault_sessions \<times> vault_answer" where
  "finish_secret_value st workspaceId lifetime response =
     (if \<not> is_current st workspaceId lifetime then (st, VaultRefused session_locked)
      else (case js_prop response ''value'' of
              JStr value \<Rightarrow> (st, SecretValue value)
            | _ \<Rightarrow> (st, VaultRefused session_invalid)))"

definition finish_command ::
  "(string \<Rightarrow> string \<Rightarrow> int) \<Rightarrow> vault_sessions \<Rightarrow> string \<Rightarrow> vault_command \<Rightarrow> nat \<Rightarrow> js \<Rightarrow> vault_sessions \<times> vault_answer" where
  "finish_command cmp st workspaceId command lifetime response =
     (case command of
        ReadVault \<Rightarrow> finish_read cmp st workspaceId lifetime response
      | MutateVault \<Rightarrow> finish_mutation cmp st workspaceId lifetime response
      | ReadSecret \<Rightarrow> finish_secret_value st workspaceId lifetime response)"

lemmas finish_defs = finish_command_def finish_read_def finish_mutation_def finish_secret_value_def

end
