(* ===== verification/Vault_System.thy ===== *)
theory Vault_System
  imports Vault_Session Environment_Vault
begin

text \<open>
  The vault sessions as a system: commands and closes overlap, the native side answers or fails in any
  order, workspaces are unlocked and used in between. Each event carries what was observed of it. A
  trace-state invariant relates the lifetime objects to the closes and requests of the trace.
\<close>

section \<open>The system\<close>

text \<open>A command waits for the native side, or its caller waits to be resumed with the response.\<close>

datatype vault_call =
    Waiting string vault_command nat
  | Received string vault_command nat js
  | Settled

text \<open>A close that is under way, and whether it is part of a lock.\<close>

record vault_system =
  vy_sessions :: vault_sessions
  vy_unlock :: unlock_state
  vy_calls :: "nat \<rightharpoonup> vault_call"
  vy_closes :: "nat \<rightharpoonup> string \<times> bool"

datatype vault_event =
    Asked nat string
  | Declined string vault_session_error
  | Responded nat
  | Answered nat string vault_answer
  | CloseBegan nat string
  | CloseEnded nat string vault_reply bool   \<comment> \<open>the answer, lock published\<close>
  | SubscriptionsChanged
  | UnlockedByUser string
  | Touched

inductive vault_step :: "(string \<Rightarrow> string \<Rightarrow> int) \<Rightarrow> vault_system \<Rightarrow> vault_event \<Rightarrow> vault_system \<Rightarrow> bool"
  for cmp where
  asked: "vy_calls s c = None \<Longrightarrow> begin_command (vy_sessions s) native w = (st, Inr l) \<Longrightarrow>
     vault_step cmp s (Asked c w) (s\<lparr>vy_sessions := st, vy_calls := (vy_calls s)(c \<mapsto> Waiting w cmd l)\<rparr>)"
| declined: "begin_command (vy_sessions s) native w = (st, Inl e) \<Longrightarrow>
     vault_step cmp s (Declined w e) (s\<lparr>vy_sessions := st\<rparr>)"
| responded: "vy_calls s c = Some (Waiting w cmd l) \<Longrightarrow> receive_response (vy_sessions s) w l reply = Inr r \<Longrightarrow>
     vault_step cmp s (Responded c) (s\<lparr>vy_calls := (vy_calls s)(c \<mapsto> Received w cmd l r)\<rparr>)"
| failed: "vy_calls s c = Some (Waiting w cmd l) \<Longrightarrow> receive_response (vy_sessions s) w l reply = Inl e \<Longrightarrow>
     vault_step cmp s (Answered c w (VaultRefused e)) (s\<lparr>vy_calls := (vy_calls s)(c \<mapsto> Settled)\<rparr>)"
| finished: "vy_calls s c = Some (Received w cmd l r) \<Longrightarrow> finish_command cmp (vy_sessions s) w cmd l r = (st, a) \<Longrightarrow>
     vault_step cmp s (Answered c w a) (s\<lparr>vy_sessions := st, vy_calls := (vy_calls s)(c \<mapsto> Settled)\<rparr>)"
| close_began: "vy_closes s k = None \<Longrightarrow>
     vault_step cmp s (CloseBegan k w)
       (s\<lparr>vy_sessions := begin_close (vy_sessions s) w, vy_closes := (vy_closes s)(k \<mapsto> (w, lock))\<rparr>)"
| close_ended: "vy_closes s k = Some (w, lock) \<Longrightarrow>
     (us, published) = (if lock then conclude_lock (vy_unlock s) w (close_outcome reply) else (vy_unlock s, False)) \<Longrightarrow>
     vault_step cmp s (CloseEnded k w reply published)
       (s\<lparr>vy_sessions := end_close (vy_sessions s) w, vy_unlock := us, vy_closes := (vy_closes s)(k := None)\<rparr>)"
| subscribed: "subscribeEnvironmentVaultSession (vy_sessions s) w callback = (st, i) \<Longrightarrow>
     vault_step cmp s SubscriptionsChanged (s\<lparr>vy_sessions := st\<rparr>)"
| unsubscribed: "vault_step cmp s SubscriptionsChanged
     (s\<lparr>vy_sessions := unsubscribe_session (vy_sessions s) w callback i\<rparr>)"
| unlocked_by_user: "vault_step cmp s (UnlockedByUser w)
     (s\<lparr>vy_unlock := markWorkspaceUnlocked (vy_unlock s) w password now\<rparr>)"
| touched: "vault_step cmp s Touched (s\<lparr>vy_unlock := touchWorkspaceUnlockSessions (vy_unlock s) now\<rparr>)"

inductive vault_run :: "(string \<Rightarrow> string \<Rightarrow> int) \<Rightarrow> vault_system \<Rightarrow> vault_event list \<Rightarrow> vault_system \<Rightarrow> bool"
  for cmp where
  vault_nil: "vault_run cmp s [] s"
| vault_snoc: "vault_run cmp s evs s' \<Longrightarrow> vault_step cmp s' e s'' \<Longrightarrow> vault_run cmp s (evs @ [e]) s''"

text \<open>The module after its start.\<close>

definition vault_started :: "vault_system \<Rightarrow> bool" where
  "vault_started s \<longleftrightarrow>
     vs_vaults (vy_sessions s) = Map.empty \<and> vs_lifetimes (vy_sessions s) = Map.empty \<and>
     vy_calls s = Map.empty \<and> vy_closes s = Map.empty"

section \<open>What a trace says of a workspace\<close>

text \<open>The closes that have begun and not ended.\<close>

fun close_change :: "string \<Rightarrow> vault_event \<Rightarrow> int" where
  "close_change w (CloseBegan k w') = (if w' = w then 1 else 0)"
| "close_change w (CloseEnded k w' reply published) = (if w' = w then -1 else 0)"
| "close_change w _ = 0"

definition outstanding :: "vault_event list \<Rightarrow> string \<Rightarrow> int" where
  "outstanding evs w = sum_list (map (close_change w) evs)"

fun begins_close :: "string \<Rightarrow> vault_event \<Rightarrow> bool" where
  "begins_close w (CloseBegan k w') \<longleftrightarrow> w' = w"
| "begins_close w _ \<longleftrightarrow> False"

text \<open>The request was made when no close was under way, and no close has begun since.\<close>

definition valid_request :: "vault_event list \<Rightarrow> nat \<Rightarrow> string \<Rightarrow> bool" where
  "valid_request evs c w \<longleftrightarrow>
     (\<exists>before since. evs = before @ Asked c w # since \<and> outstanding before w = 0 \<and> (\<forall>e \<in> set since. \<not> begins_close w e))"

text \<open>A request made after all closes has been answered with this vault.\<close>

fun answer_vault :: "vault_answer \<Rightarrow> environment_vault option" where
  "answer_vault (VaultRead v) = Some v"
| "answer_vault (VaultStored v envelope) = Some v"
| "answer_vault _ = None"

definition vault_from_request :: "vault_event list \<Rightarrow> string \<Rightarrow> environment_vault \<Rightarrow> bool" where
  "vault_from_request evs w v \<longleftrightarrow>
     (\<exists>before since c a. evs = before @ Asked c w # since \<and> outstanding before w = 0 \<and>
        (\<forall>e \<in> set since. \<not> begins_close w e) \<and> Answered c w a \<in> set since \<and> answer_vault a = Some v)"

lemma outstanding_snoc [simp]: "outstanding (evs @ [e]) w = outstanding evs w + close_change w e"
  by (simp add: outstanding_def)

lemma outstanding_Nil [simp]: "outstanding [] w = 0"
  by (simp add: outstanding_def)

lemma valid_request_snoc: "valid_request evs c w \<Longrightarrow> \<not> begins_close w e \<Longrightarrow> valid_request (evs @ [e]) c w"
proof -
  assume "valid_request evs c w" and e: "\<not> begins_close w e"
  then obtain before since where "evs = before @ Asked c w # since" "outstanding before w = 0"
    "\<forall>e \<in> set since. \<not> begins_close w e"
    unfolding valid_request_def by blast
  with e show ?thesis unfolding valid_request_def by (intro exI [of _ before] exI [of _ "since @ [e]"]) auto
qed

lemma valid_request_new: "outstanding evs w = 0 \<Longrightarrow> valid_request (evs @ [Asked c w]) c w"
  unfolding valid_request_def by (intro exI [of _ evs] exI [of _ "[]"]) simp

lemma vault_from_request_snoc: "vault_from_request evs w v \<Longrightarrow> \<not> begins_close w e \<Longrightarrow> vault_from_request (evs @ [e]) w v"
proof -
  assume "vault_from_request evs w v" and e: "\<not> begins_close w e"
  then obtain before since c a where "evs = before @ Asked c w # since" "outstanding before w = 0"
    "\<forall>e \<in> set since. \<not> begins_close w e" "Answered c w a \<in> set since" "answer_vault a = Some v"
    unfolding vault_from_request_def by blast
  with e show ?thesis unfolding vault_from_request_def
    by (intro exI [of _ before] exI [of _ "since @ [e]"] exI [of _ c] exI [of _ a]) auto
qed

lemma vault_from_answer:
  assumes "valid_request evs c w" and "answer_vault a = Some v"
  shows "vault_from_request (evs @ [Answered c w a]) w v"
proof -
  obtain before since where "evs = before @ Asked c w # since" "outstanding before w = 0"
    "\<forall>e \<in> set since. \<not> begins_close w e"
    using assms(1) unfolding valid_request_def by blast
  with assms(2) show ?thesis unfolding vault_from_request_def
    by (intro exI [of _ before] exI [of _ "since @ [Answered c w a]"] exI [of _ c] exI [of _ a]) auto
qed

section \<open>What the parts change\<close>

named_theorems session_fields \<open>the fields after a part\<close>

lemma notify_fields [session_fields]:
  "vs_vaults (notifyEnvironmentVaultSessionSubscribers st w) = vs_vaults st"
  "vs_lifetimes (notifyEnvironmentVaultSessionSubscribers st w) = vs_lifetimes st"
  "vs_closing (notifyEnvironmentVaultSessionSubscribers st w) = vs_closing st"
  "vs_objects (notifyEnvironmentVaultSessionSubscribers st w) = vs_objects st"
  by (simp_all add: notifyEnvironmentVaultSessionSubscribers_def split: option.split)

lemma clear_fields [session_fields]:
  "vs_vaults (clearLocalEnvironmentVaultSession st w) = (vs_vaults st)(w := None)"
  "vs_lifetimes (clearLocalEnvironmentVaultSession st w) = vs_lifetimes st"
  "vs_closing (clearLocalEnvironmentVaultSession st w) = vs_closing st"
  "vs_objects (clearLocalEnvironmentVaultSession st w) = vs_objects st"
  by (auto simp: clearLocalEnvironmentVaultSession_def session_fields)

lemma begin_close_fields [session_fields]:
  "vs_vaults (begin_close st w) = (vs_vaults st)(w := None)"
  "vs_lifetimes (begin_close st w) = (vs_lifetimes st)(w \<mapsto> vs_objects st)"
  "vs_closing (begin_close st w) =
     (vs_closing st)(vs_objects st := (case vs_lifetimes st w of None \<Rightarrow> 0 | Some l \<Rightarrow> vs_closing st l) + 1)"
  "vs_objects (begin_close st w) = vs_objects st + 1"
  by (simp_all add: begin_close_def Let_def session_fields)

lemma end_close_fields [session_fields]:
  "vs_vaults (end_close st w) = vs_vaults st" "vs_lifetimes (end_close st w) = vs_lifetimes st"
  "vs_objects (end_close st w) = vs_objects st"
  by (simp_all add: end_close_def split: option.split)

lemma set_fields [session_fields]:
  "vs_lifetimes (setEnvironmentVaultSession st v) = vs_lifetimes st"
  "vs_closing (setEnvironmentVaultSession st v) = vs_closing st"
  "vs_objects (setEnvironmentVaultSession st v) = vs_objects st"
  "vs_vaults (setEnvironmentVaultSession st v) =
     (if isNativeManagedVault v (ev_workspaceId v) then (vs_vaults st)(ev_workspaceId v \<mapsto> v) else vs_vaults st)"
  by (simp_all add: setEnvironmentVaultSession_def session_fields)

lemma subscription_fields [session_fields]:
  "vs_vaults (unsubscribe_session st w callback i) = vs_vaults st"
  "vs_lifetimes (unsubscribe_session st w callback i) = vs_lifetimes st"
  "vs_closing (unsubscribe_session st w callback i) = vs_closing st"
  "vs_objects (unsubscribe_session st w callback i) = vs_objects st"
  "vs_vaults (fst (subscribeEnvironmentVaultSession st w callback)) = vs_vaults st"
  "vs_lifetimes (fst (subscribeEnvironmentVaultSession st w callback)) = vs_lifetimes st"
  "vs_closing (fst (subscribeEnvironmentVaultSession st w callback)) = vs_closing st"
  "vs_objects st \<le> vs_objects (fst (subscribeEnvironmentVaultSession st w callback))"
  by (simp_all add: unsubscribe_session_def subscribeEnvironmentVaultSession_def Let_def)

lemma begin_command_cases:
  assumes "begin_command st native w = (st', out)"
  shows "vs_vaults st' = vs_vaults st \<and>
    (st' = st \<or> (vs_lifetimes st w = None \<and> vs_lifetimes st' = (vs_lifetimes st)(w \<mapsto> vs_objects st) \<and>
       vs_closing st' = (vs_closing st)(vs_objects st := 0) \<and> vs_objects st' = vs_objects st + 1)) \<and>
    (\<forall>l. out = Inr l \<longrightarrow> is_current st' w l)"
  using assms by (auto simp: begin_command_def split: if_splits option.splits)

lemma finish_command_cases:
  assumes "finish_command cmp st w cmd l r = (st', a)"
  shows "(st' = st \<and> answer_vault a = None) \<or>
    (\<exists>v. st' = setEnvironmentVaultSession st v \<and> answer_vault a = Some v \<and> isNativeManagedVault v w \<and> is_current st w l)"
  using assms
  by (auto simp: finish_defs parseNativeManagedVault_def split: if_splits vault_command.splits option.splits js.splits)

lemma finish_command_current:
  "finish_command cmp st w cmd l r = (st', a) \<Longrightarrow> (\<And>e. a \<noteq> VaultRefused e) \<Longrightarrow> is_current st w l"
  by (auto simp: finish_defs split: if_splits vault_command.splits option.splits js.splits)

section \<open>The invariant\<close>

text \<open>The lifetime of a workspace counts the closes of the trace, and no two workspaces share one.\<close>

definition closing_count :: "vault_sessions \<Rightarrow> string \<Rightarrow> int" where
  "closing_count st w = (case vs_lifetimes st w of None \<Rightarrow> 0 | Some l \<Rightarrow> vs_closing st l)"

definition lifetimes_ok :: "vault_event list \<Rightarrow> vault_sessions \<Rightarrow> bool" where
  "lifetimes_ok evs st \<longleftrightarrow>
     (\<forall>w. closing_count st w = outstanding evs w) \<and>
     (\<forall>w l. vs_lifetimes st w = Some l \<longrightarrow> l < vs_objects st) \<and>
     (\<forall>w w' l. vs_lifetimes st w = Some l \<and> vs_lifetimes st w' = Some l \<longrightarrow> w = w')"

text \<open>A command with the lifetime of its workspace is one of the requests that count.\<close>

fun call_lifetime :: "vault_call \<Rightarrow> (string \<times> nat) option" where
  "call_lifetime (Waiting w cmd l) = Some (w, l)"
| "call_lifetime (Received w cmd l r) = Some (w, l)"
| "call_lifetime Settled = None"

definition calls_ok :: "vault_event list \<Rightarrow> vault_sessions \<Rightarrow> (nat \<rightharpoonup> vault_call) \<Rightarrow> bool" where
  "calls_ok evs st calls \<longleftrightarrow>
     (\<forall>c call w l. calls c = Some call \<and> call_lifetime call = Some (w, l) \<longrightarrow>
        l < vs_objects st \<and> (vs_lifetimes st w = Some l \<longrightarrow> valid_request evs c w))"

definition vaults_ok :: "vault_event list \<Rightarrow> vault_sessions \<Rightarrow> bool" where
  "vaults_ok evs st \<longleftrightarrow>
     (\<forall>w v. vs_vaults st w = Some v \<longrightarrow>
        outstanding evs w = 0 \<and> isNativeManagedVault v w \<and> vault_from_request evs w v)"

text \<open>The closes under way are the outstanding ones of the trace.\<close>

definition pending_closes :: "(nat \<rightharpoonup> string \<times> bool) \<Rightarrow> string \<Rightarrow> nat set" where
  "pending_closes closes w = {k. map_option fst (closes k) = Some w}"

definition closes_ok :: "vault_event list \<Rightarrow> (nat \<rightharpoonup> string \<times> bool) \<Rightarrow> bool" where
  "closes_ok evs closes \<longleftrightarrow>
     finite (dom closes) \<and> (\<forall>w. outstanding evs w = int (card (pending_closes closes w)))"

definition system_ok :: "vault_event list \<Rightarrow> vault_system \<Rightarrow> bool" where
  "system_ok evs s \<longleftrightarrow> lifetimes_ok evs (vy_sessions s) \<and> calls_ok evs (vy_sessions s) (vy_calls s) \<and>
     vaults_ok evs (vy_sessions s) \<and> closes_ok evs (vy_closes s)"

lemma current_outstanding: "lifetimes_ok evs st \<Longrightarrow> is_current st w l \<Longrightarrow> outstanding evs w = 0"
  by (auto simp: lifetimes_ok_def is_current_def closing_count_def dest!: spec [of _ w])

text \<open>An event that neither begins nor ends a close keeps what the trace says.\<close>

lemma vaults_ok_snoc: "vaults_ok evs st \<Longrightarrow> (\<And>w. close_change w e = 0 \<and> \<not> begins_close w e) \<Longrightarrow> vaults_ok (evs @ [e]) st"
  by (auto simp: vaults_ok_def intro: vault_from_request_snoc)

lemma calls_ok_snoc: "calls_ok evs st calls \<Longrightarrow> (\<And>w. \<not> begins_close w e) \<Longrightarrow> calls_ok (evs @ [e]) st calls"
  by (auto simp: calls_ok_def intro: valid_request_snoc)

lemma lifetimes_ok_snoc: "lifetimes_ok evs st \<Longrightarrow> (\<And>w. close_change w e = 0) \<Longrightarrow> lifetimes_ok (evs @ [e]) st"
  by (simp add: lifetimes_ok_def)

lemma closes_ok_snoc: "closes_ok evs closes \<Longrightarrow> (\<And>w. close_change w e = 0) \<Longrightarrow> closes_ok (evs @ [e]) closes"
  by (simp add: closes_ok_def)

lemmas trace_snoc = vaults_ok_snoc calls_ok_snoc lifetimes_ok_snoc closes_ok_snoc

lemma pending_finite: "finite (dom closes) \<Longrightarrow> finite (pending_closes closes w)"
  by (rule finite_subset [of _ "dom closes"]) (auto simp: pending_closes_def)

lemma pending_begin:
  "closes k = None \<Longrightarrow> pending_closes (closes(k \<mapsto> (w, b))) v = (if v = w then insert k (pending_closes closes v) else pending_closes closes v)"
  by (auto simp: pending_closes_def)

lemma pending_end:
  "closes k = Some (w, b) \<Longrightarrow> pending_closes (closes(k := None)) v = (if v = w then pending_closes closes v - {k} else pending_closes closes v)"
  by (auto simp: pending_closes_def)

lemma closes_ok_begin:
  "closes_ok evs closes \<Longrightarrow> closes k = None \<Longrightarrow> closes_ok (evs @ [CloseBegan k w]) (closes(k \<mapsto> (w, b)))"
  by (auto simp: closes_ok_def pending_begin pending_finite card_insert_if) (simp add: pending_closes_def)

lemma pending_outstanding: "closes_ok evs closes \<Longrightarrow> closes k = Some (w, b) \<Longrightarrow> 0 < outstanding evs w"
proof -
  assume c: "closes_ok evs closes" and k: "closes k = Some (w, b)"
  then have "k \<in> pending_closes closes w" "finite (pending_closes closes w)"
    by (simp add: pending_closes_def, simp add: closes_ok_def pending_finite)
  then have "0 < card (pending_closes closes w)" by (auto simp: card_gt_0_iff)
  then show ?thesis using c by (simp add: closes_ok_def)
qed

lemma closes_ok_end:
  assumes "closes_ok evs closes" and "closes k = Some (w, b)"
  shows "closes_ok (evs @ [CloseEnded k w out p]) (closes(k := None))"
proof -
  have "k \<in> pending_closes closes w" "finite (pending_closes closes w)"
    using assms by (simp add: pending_closes_def, simp add: closes_ok_def pending_finite)
  then have "int (card (pending_closes closes w - {k})) = int (card (pending_closes closes w)) - 1"
    by (metis One_nat_def card_Suc_Diff1 add_diff_cancel_left' of_nat_Suc)
  then show ?thesis using assms by (auto simp: closes_ok_def pending_end)
qed

end
