(* ===== verification/Vault_Laws.thy ===== *)
theory Vault_Laws
  imports Vault_System App_Init
begin

text \<open>
  The invariant of the vault sessions, kept by every step, and what follows: a vault is visible, and a
  command is answered, only for a request made after every close of its workspace had ended; and a lock
  is published only after the native side has revoked the session.
\<close>

section \<open>The parts keep the invariant\<close>

lemma lifetime_below: "lifetimes_ok evs st \<Longrightarrow> vs_lifetimes st v = Some l \<Longrightarrow> l < vs_objects st"
  unfolding lifetimes_ok_def by blast

lemma calls_ok_cong:
  "calls_ok evs st calls \<Longrightarrow> vs_lifetimes st' = vs_lifetimes st \<Longrightarrow> vs_objects st \<le> vs_objects st' \<Longrightarrow> calls_ok evs st' calls"
  unfolding calls_ok_def by (metis order.strict_trans2)

lemma lifetimes_ok_cong:
  "lifetimes_ok evs st \<Longrightarrow> vs_lifetimes st' = vs_lifetimes st \<Longrightarrow> vs_closing st' = vs_closing st \<Longrightarrow>
   vs_objects st \<le> vs_objects st' \<Longrightarrow> lifetimes_ok evs st'"
  unfolding lifetimes_ok_def closing_count_def by (metis order.strict_trans2)

text \<open>A workspace that gets a new lifetime object.\<close>

lemma new_lifetime:
  assumes "lifetimes_ok evs st" and "calls_ok evs st calls"
    and "vs_lifetimes st' = (vs_lifetimes st)(w \<mapsto> vs_objects st)" "vs_objects st' = vs_objects st + 1"
    and "\<And>v. closing_count st' v = closing_count st v + close_change v e"
    and "\<And>v. v \<noteq> w \<Longrightarrow> \<not> begins_close v e"
  shows "lifetimes_ok (evs @ [e]) st' \<and> calls_ok (evs @ [e]) st' calls"
proof
  note below = lifetime_below [OF assms(1)]
  have inj: "v = v'" if "vs_lifetimes st' v = Some l" "vs_lifetimes st' v' = Some l" for v v' l
    using that assms(1) below [of v l] below [of v' l]
    by (auto simp: assms(3) lifetimes_ok_def split: if_splits)
  show "lifetimes_ok (evs @ [e]) st'"
    unfolding lifetimes_ok_def
  proof (intro conjI allI impI)
    show "closing_count st' v = outstanding (evs @ [e]) v" for v
      using assms(1,5) by (simp add: lifetimes_ok_def)
    show "l < vs_objects st'" if "vs_lifetimes st' v = Some l" for v l
      using that below [of v l] by (auto simp: assms(3,4) split: if_splits)
    show "v = v'" if "vs_lifetimes st' v = Some l \<and> vs_lifetimes st' v' = Some l" for v v' l
      using that inj by blast
  qed
  show "calls_ok (evs @ [e]) st' calls"
    unfolding calls_ok_def
  proof (intro allI impI, elim conjE)
    fix c call v l
    assume "calls c = Some call" "call_lifetime call = Some (v, l)"
    then have "l < vs_objects st" "vs_lifetimes st v = Some l \<longrightarrow> valid_request evs c v"
      using assms(2) unfolding calls_ok_def by blast+
    then show "l < vs_objects st' \<and> (vs_lifetimes st' v = Some l \<longrightarrow> valid_request (evs @ [e]) c v)"
      using assms(6) [of v] by (auto simp: assms(3,4) intro: valid_request_snoc split: if_splits)
  qed
qed

lemma begin_close_ok:
  assumes "lifetimes_ok evs st" and "calls_ok evs st calls" and "vaults_ok evs st"
  shows "lifetimes_ok (evs @ [CloseBegan k w]) (begin_close st w) \<and>
    calls_ok (evs @ [CloseBegan k w]) (begin_close st w) calls \<and> vaults_ok (evs @ [CloseBegan k w]) (begin_close st w)"
proof -
  have "closing_count (begin_close st w) v = closing_count st v + close_change v (CloseBegan k w)" for v
    using lifetime_below [OF assms(1), of v] by (auto simp: closing_count_def session_fields split: option.split)
  then have "lifetimes_ok (evs @ [CloseBegan k w]) (begin_close st w) \<and> calls_ok (evs @ [CloseBegan k w]) (begin_close st w) calls"
    using assms(1,2) by (intro new_lifetime [where w = w]) (auto simp: session_fields)
  moreover have "vaults_ok (evs @ [CloseBegan k w]) (begin_close st w)"
    using assms(3) by (auto simp: vaults_ok_def session_fields intro: vault_from_request_snoc split: if_splits)
  ultimately show ?thesis by blast
qed

lemma end_close_ok:
  assumes "lifetimes_ok evs st" and "calls_ok evs st calls" and "vaults_ok evs st" and "0 < outstanding evs w"
  shows "lifetimes_ok (evs @ [CloseEnded k w out p]) (end_close st w) \<and>
    calls_ok (evs @ [CloseEnded k w out p]) (end_close st w) calls \<and> vaults_ok (evs @ [CloseEnded k w out p]) (end_close st w)"
proof -
  have "closing_count st w = outstanding evs w" using assms(1) by (simp add: lifetimes_ok_def)
  then obtain l where l: "vs_lifetimes st w = Some l" using assms(4) by (cases "vs_lifetimes st w") (auto simp: closing_count_def)
  have "closing_count (end_close st w) v = closing_count st v + close_change v (CloseEnded k w out p)" for v
  proof (cases "v = w")
    case False
    then have "vs_lifetimes st v \<noteq> Some l" using assms(1) l unfolding lifetimes_ok_def by blast
    then show ?thesis using False l by (simp add: closing_count_def end_close_def split: option.split)
  qed (simp add: closing_count_def end_close_def l)
  then have "lifetimes_ok (evs @ [CloseEnded k w out p]) (end_close st w)"
    using assms(1) by (auto simp: lifetimes_ok_def session_fields)
  moreover have "calls_ok (evs @ [CloseEnded k w out p]) (end_close st w) calls"
    by (rule calls_ok_cong [OF calls_ok_snoc [OF assms(2)]]) (simp_all add: session_fields)
  moreover have "vaults_ok (evs @ [CloseEnded k w out p]) (end_close st w)"
  proof -
    have "vs_vaults st w = None" using assms(3,4) unfolding vaults_ok_def by (cases "vs_vaults st w") fastforce+
    then show ?thesis using assms(3) by (auto simp: vaults_ok_def session_fields intro: vault_from_request_snoc)
  qed
  ultimately show ?thesis by blast
qed

lemma begin_command_ok:
  assumes "begin_command st native w = (st', out)" and "lifetimes_ok evs st" and "calls_ok evs st calls" and "vaults_ok evs st"
    and "\<And>v. close_change v e = 0 \<and> \<not> begins_close v e"
  shows "lifetimes_ok (evs @ [e]) st' \<and> calls_ok (evs @ [e]) st' calls \<and> vaults_ok (evs @ [e]) st'"
proof (cases "st' = st")
  case False
  then have f: "vs_lifetimes st w = None" "vs_lifetimes st' = (vs_lifetimes st)(w \<mapsto> vs_objects st)"
    "vs_closing st' = (vs_closing st)(vs_objects st := 0)" "vs_objects st' = vs_objects st + 1" "vs_vaults st' = vs_vaults st"
    using begin_command_cases [OF assms(1)] by auto
  have "closing_count st' v = closing_count st v + close_change v e" for v
    using f(1) lifetime_below [OF assms(2), of v] assms(5) by (auto simp: closing_count_def f(2,3) split: option.split)
  then have "lifetimes_ok (evs @ [e]) st' \<and> calls_ok (evs @ [e]) st' calls"
    using assms(2,3,5) f by (intro new_lifetime [where w = w]) auto
  moreover have "vaults_ok (evs @ [e]) st'" using vaults_ok_snoc [OF assms(4,5)] by (simp add: vaults_ok_def f)
  ultimately show ?thesis by blast
qed (use assms in \<open>simp add: trace_snoc\<close>)

lemma calls_ok_update:
  "calls_ok evs st calls \<Longrightarrow>
   (\<And>w l. call_lifetime call = Some (w, l) \<Longrightarrow> l < vs_objects st \<and> (vs_lifetimes st w = Some l \<longrightarrow> valid_request evs c w)) \<Longrightarrow>
   calls_ok evs st (calls(c \<mapsto> call))"
  unfolding calls_ok_def by (metis fun_upd_apply option.inject)

lemma calls_ok_known:
  "calls_ok evs st calls \<Longrightarrow> calls c = Some call \<Longrightarrow> call_lifetime call = Some (w, l) \<Longrightarrow>
   l < vs_objects st \<and> (vs_lifetimes st w = Some l \<longrightarrow> valid_request evs c w)"
  unfolding calls_ok_def by blast

lemma set_vault_ok:
  assumes "lifetimes_ok evs st" and "calls_ok evs st calls" and "vaults_ok evs st"
    and "isNativeManagedVault v w" and "is_current st w l" and "valid_request evs c w" and "answer_vault a = Some v"
  shows "lifetimes_ok (evs @ [Answered c w a]) (setEnvironmentVaultSession st v) \<and>
    calls_ok (evs @ [Answered c w a]) (setEnvironmentVaultSession st v) calls \<and>
    vaults_ok (evs @ [Answered c w a]) (setEnvironmentVaultSession st v)"
proof -
  have w: "ev_workspaceId v = w" using assms(4) by (simp add: isNativeManagedVault_def)
  have "lifetimes_ok (evs @ [Answered c w a]) (setEnvironmentVaultSession st v)"
    by (rule lifetimes_ok_cong [OF lifetimes_ok_snoc [OF assms(1)]]) (simp_all add: session_fields)
  moreover have "calls_ok (evs @ [Answered c w a]) (setEnvironmentVaultSession st v) calls"
    by (rule calls_ok_cong [OF calls_ok_snoc [OF assms(2)]]) (simp_all add: session_fields)
  moreover have "vaults_ok (evs @ [Answered c w a]) (setEnvironmentVaultSession st v)"
    using vaults_ok_snoc [OF assms(3), of "Answered c w a"] assms(4) current_outstanding [OF assms(1,5)]
      vault_from_answer [OF assms(6,7)]
    by (auto simp: vaults_ok_def session_fields w split: if_splits)
  ultimately show ?thesis by blast
qed

section \<open>Every step keeps it\<close>

text \<open>A step that touches neither lifetimes nor vaults.\<close>

lemma system_ok_cong:
  assumes "system_ok evs s" and "\<And>v. close_change v e = 0 \<and> \<not> begins_close v e"
    and "vs_lifetimes (vy_sessions s') = vs_lifetimes (vy_sessions s)" "vs_closing (vy_sessions s') = vs_closing (vy_sessions s)"
    and "vs_objects (vy_sessions s) \<le> vs_objects (vy_sessions s')" "vs_vaults (vy_sessions s') = vs_vaults (vy_sessions s)"
    and "vy_calls s' = vy_calls s" "vy_closes s' = vy_closes s"
  shows "system_ok (evs @ [e]) s'"
proof -
  have "lifetimes_ok (evs @ [e]) (vy_sessions s')"
    using assms(1-5) by (intro lifetimes_ok_cong [OF lifetimes_ok_snoc]) (auto simp: system_ok_def)
  moreover have "calls_ok (evs @ [e]) (vy_sessions s') (vy_calls s')"
    using assms by (intro calls_ok_cong [OF calls_ok_snoc]) (auto simp: system_ok_def)
  moreover have "vaults_ok (evs @ [e]) (vy_sessions s')"
    using vaults_ok_snoc [of evs "vy_sessions s" e] assms by (simp add: vaults_ok_def system_ok_def)
  moreover have "closes_ok (evs @ [e]) (vy_closes s')"
    using assms by (simp add: system_ok_def closes_ok_snoc)
  ultimately show ?thesis by (simp add: system_ok_def)
qed

lemma vault_step_ok:
  assumes "vault_step cmp s e s'" and "system_ok evs s"
  shows "system_ok (evs @ [e]) s'"
  using assms(1)
proof cases
  case (asked c native w st l cmd)
  have ok: "lifetimes_ok (evs @ [e]) st \<and> calls_ok (evs @ [e]) st (vy_calls s) \<and> vaults_ok (evs @ [e]) st"
    using asked assms(2) by (intro begin_command_ok) (auto simp: system_ok_def)
  have cur: "is_current st w l" using begin_command_cases asked(4) by blast
  then have "outstanding (evs @ [e]) w = 0" using ok current_outstanding by blast
  then have "valid_request (evs @ [e]) c w" unfolding asked(1) by (intro valid_request_new) simp
  moreover have "l < vs_objects st" using cur ok lifetime_below by (auto simp: is_current_def)
  ultimately have "calls_ok (evs @ [e]) st ((vy_calls s)(c \<mapsto> Waiting w cmd l))"
    using ok by (intro calls_ok_update) auto
  then show ?thesis using ok asked assms(2) by (simp add: system_ok_def closes_ok_snoc)
next
  case (declined native w st err)
  have "lifetimes_ok (evs @ [e]) st \<and> calls_ok (evs @ [e]) st (vy_calls s) \<and> vaults_ok (evs @ [e]) st"
    using declined assms(2) by (intro begin_command_ok) (auto simp: system_ok_def)
  then show ?thesis using declined assms(2) by (simp add: system_ok_def closes_ok_snoc)
next
  case (responded c w cmd l reply r)
  then show ?thesis
    using assms(2) calls_ok_known [of evs "vy_sessions s" "vy_calls s" c "Waiting w cmd l" w l]
    by (auto simp: system_ok_def intro!: trace_snoc calls_ok_update valid_request_snoc)
next
  case (failed c w cmd l reply err)
  then show ?thesis using assms(2) by (auto simp: system_ok_def intro!: trace_snoc calls_ok_update)
next
  case (finished c w cmd l r st a)
  have known: "l < vs_objects (vy_sessions s)" "vs_lifetimes (vy_sessions s) w = Some l \<Longrightarrow> valid_request evs c w"
    using assms(2) finished(3) calls_ok_known [of evs "vy_sessions s" "vy_calls s" c] by (auto simp: system_ok_def)
  from finish_command_cases [OF finished(4)] show ?thesis
  proof (elim disjE exE conjE)
    assume "st = vy_sessions s"
    then show ?thesis using assms(2) finished by (auto simp: system_ok_def intro!: trace_snoc calls_ok_update)
  next
    fix v assume v: "st = setEnvironmentVaultSession (vy_sessions s) v" "answer_vault a = Some v"
      "isNativeManagedVault v w" "is_current (vy_sessions s) w l"
    then have "lifetimes_ok (evs @ [e]) st \<and> calls_ok (evs @ [e]) st (vy_calls s) \<and> vaults_ok (evs @ [e]) st"
      unfolding finished(1) v(1) using assms(2) known
      by (intro set_vault_ok [where l = l]) (auto simp: system_ok_def is_current_def)
    then show ?thesis using assms(2) finished(1,2) by (auto simp: system_ok_def closes_ok_snoc intro!: calls_ok_update)
  qed
next
  case (close_began k w lock)
  then show ?thesis
    using assms(2) begin_close_ok [of evs "vy_sessions s" "vy_calls s" k w] by (simp add: system_ok_def closes_ok_begin)
next
  case (close_ended k w lock us published reply)
  then have "0 < outstanding evs w" using assms(2) pending_outstanding by (auto simp: system_ok_def)
  then show ?thesis
    using close_ended assms(2) end_close_ok [of evs "vy_sessions s" "vy_calls s" w k reply published]
    by (simp add: system_ok_def closes_ok_end)
next
  case (subscribed w callback st i)
  have st: "st = fst (subscribeEnvironmentVaultSession (vy_sessions s) w callback)" using subscribed(3) by (metis fst_conv)
  show ?thesis
    unfolding subscribed(1,2) st by (rule system_ok_cong [OF assms(2)]) (simp_all add: session_fields)
qed (auto intro!: system_ok_cong [OF assms(2)] simp: session_fields)

lemma vault_run_ok:
  assumes "vault_run cmp s0 evs s" and "vault_started s0"
  shows "system_ok evs s"
  using assms
proof (induction rule: vault_run.induct)
  case (vault_nil s)
  then show ?case
    by (simp add: vault_started_def system_ok_def lifetimes_ok_def calls_ok_def vaults_ok_def closes_ok_def
        closing_count_def pending_closes_def)
next
  case (vault_snoc s evs s' e s'')
  then show ?case using vault_step_ok by blast
qed

inductive_cases vault_run_snocE: "vault_run cmp s (evs @ [e]) s'"

inductive_cases vault_step_answeredE: "vault_step cmp s (Answered c w a) s'"

text \<open>An answer other than a refusal is to a request that counts.\<close>

lemma answered_request:
  assumes "vault_run cmp s0 (evs @ [Answered c w a]) s" and "vault_started s0" and "\<And>e. a \<noteq> VaultRefused e"
  shows "valid_request evs c w"
proof -
  obtain s' where s': "vault_run cmp s0 evs s'" "vault_step cmp s' (Answered c w a) s"
    using assms(1) by (auto elim: vault_run_snocE)
  have ok: "system_ok evs s'" using vault_run_ok [OF s'(1) assms(2)] .
  obtain cmd l r st where f: "vy_calls s' c = Some (Received w cmd l r)"
    "finish_command cmp (vy_sessions s') w cmd l r = (st, a)"
    using s'(2) by (rule vault_step_answeredE) (use assms(3) in auto)
  then have "vs_lifetimes (vy_sessions s') w = Some l"
    using finish_command_current assms(3) by (metis is_current_def)
  then show ?thesis
    using ok f calls_ok_known [of evs "vy_sessions s'" "vy_calls s'" c] by (auto simp: system_ok_def)
qed

section \<open>Locking\<close>

text \<open>
  The password of an unlocked workspace is forgotten only by a lock whose close the native side has
  accepted, or that met no native side.
\<close>

lemma session_password_step:
  assumes "vault_step cmp s e s'" and "map_of (us_sessions (vy_unlock s)) w \<noteq> None"
    and "map_of (us_sessions (vy_unlock s')) w = None"
  shows "\<exists>k reply. e = CloseEnded k w reply True \<and> (close_outcome reply = None \<or> close_outcome reply = Some session_unavailable)"
  using assms(1)
proof cases
  case (close_ended k w' lock us published reply)
  then show ?thesis
    using assms(2,3)
    by (cases "w' = w")
      (auto simp: conclude_lock_def markWorkspaceLocked_def dispatchWorkspaceUnlockChanged_def delete_conv' split: if_splits)
qed (use assms(2,3) in \<open>auto simp: markWorkspaceUnlocked_def dispatchWorkspaceUnlockChanged_def
      touchWorkspaceUnlockSessions_def map_of_map update_conv' split: if_splits\<close>)

lemma session_password_run:
  assumes "vault_run cmp s evs s'" and "map_of (us_sessions (vy_unlock s)) w \<noteq> None"
    and "map_of (us_sessions (vy_unlock s')) w = None"
  shows "\<exists>k reply. CloseEnded k w reply True \<in> set evs \<and>
    (close_outcome reply = None \<or> close_outcome reply = Some session_unavailable)"
  using assms
proof (induction rule: vault_run.induct)
  case (vault_snoc s evs s' e s'')
  show ?case
  proof (cases "map_of (us_sessions (vy_unlock s')) w = None")
    case False
    then show ?thesis using session_password_step [OF vault_snoc.hyps(2)] vault_snoc.prems(2) by fastforce
  qed (use vault_snoc in fastforce)
qed simp

section \<open>The native close\<close>

text \<open>
  The command \<open>close_environment_vault_session\<close> of \<open>src-tauri/src/secret_vault_session.rs\<close> on the native
  sessions: the lock of the sessions may be poisoned. Its answer never says that there is no native side.
\<close>

definition ENVIRONMENT_SECRET_ID_MAX_LENGTH :: nat where
  "ENVIRONMENT_SECRET_ID_MAX_LENGTH = 200"

definition workspace_id_is_valid :: "string \<Rightarrow> bool" where
  "workspace_id_is_valid value \<longleftrightarrow> value \<noteq> [] \<and> utf8_length value \<le> ENVIRONMENT_SECRET_ID_MAX_LENGTH \<and> CHR 0x00 \<notin> set value"

definition close_environment_vault_session :: "(string \<rightharpoonup> 'a) \<Rightarrow> bool \<Rightarrow> string \<Rightarrow> (string \<rightharpoonup> 'a) \<times> js" where
  "close_environment_vault_session sessions poisoned workspaceId =
     (let workspace_id = rust_trim workspaceId;
          failed = (\<lambda>error. JObj [(''ok'', JBool False), (''error'', JStr error)])
      in if \<not> workspace_id_is_valid workspace_id then (sessions, failed ''environment-vault-session-workspace-required'')
         else if poisoned then (sessions, failed ''environment-vault-session-store-failed'')
         else (sessions(workspace_id := None), JObj [(''ok'', JBool True)]))"

text \<open>
  A close that met the native side, whose sessions were then \<open>sessions\<close>: the call failed as a whole, or the
  command ran and answered.
\<close>

definition native_close :: "(string \<rightharpoonup> 'a) \<Rightarrow> bool \<Rightarrow> string \<Rightarrow> vault_reply \<Rightarrow> bool" where
  "native_close sessions poisoned workspaceId reply \<longleftrightarrow> reply = NativeFailed \<or>
     reply = NativeAnswer (snd (close_environment_vault_session sessions poisoned workspaceId))"

lemma native_close_published:
  assumes "native_close sessions poisoned w reply" "close_outcome reply = None \<or> close_outcome reply = Some session_unavailable"
  shows "reply = NativeAnswer (JObj [(''ok'', JBool True)]) \<and>
    close_environment_vault_session sessions poisoned w = (sessions(rust_trim w := None), JObj [(''ok'', JBool True)])"
  using assms by (auto simp: native_close_def close_outcome_def close_environment_vault_session_def Let_def js_prop_def
      js_truthy_def normalizeEnvironmentVaultSessionError_def vault_session_errors_def split: if_split_asm)

text \<open>Without a native side nothing is revoked, and the lock is published all the same.\<close>

lemma lock_without_native_side:
  "conclude_lock us w (close_outcome NoNative) = (markWorkspaceLocked us w, True)"
  by (simp add: conclude_lock_def close_outcome_def)

section \<open>Subscriptions\<close>

text \<open>
  Calling the function that \<open>subscribeEnvironmentVaultSession\<close> returned a second time, after a new
  subscriber has come, silences that subscriber: the emptied set deletes the entry of the new one.
\<close>

lemma second_unsubscribe_silences_others:
  assumes "vs_subscribers st w = None" and "vs_sets st (vs_objects st) = []"
  shows "\<exists>st1 i st2 j. subscribeEnvironmentVaultSession st w 0 = (st1, i) \<and>
    subscribeEnvironmentVaultSession (unsubscribe_session st1 w 0 i) w 1 = (st2, j) \<and>
    1 \<in> set (vs_sets st2 j) \<and> vs_subscribers st2 w = Some j \<and>
    vs_subscribers (unsubscribe_session st2 w 0 i) w = None"
  using assms by (simp add: subscribeEnvironmentVaultSession_def unsubscribe_session_def Let_def)

end
