(* ===== verification/Vault_Properties.thy ===== *)
theory Vault_Properties
  imports Vault_Laws
begin

text \<open>The claims about secrets: the vault itself and its native sessions, with their witnesses.\<close>

section \<open>Sessions\<close>

text \<open>
  C8: However commands, closes, locks, unlocks, subscriptions and the native side's answers and failures
  are interleaved, a vault that can be seen for a workspace holds only opaque native references of that
  workspace, no close of the workspace is under way, and the vault is the answer to a request that was
  made when none was under way and since which none has begun.
\<close>

theorem visible_vault_is_current:
  assumes "vault_run cmp s0 evs s" and "vault_started s0"
    and "readEnvironmentVaultSession (vy_sessions s) w = Some v"
  shows "isNativeManagedVault v w \<and> outstanding evs w = 0 \<and> vault_from_request evs w v"
  using vault_run_ok [OF assms(1,2)] assms(3)
  by (simp add: system_ok_def vaults_ok_def readEnvironmentVaultSession_def)

definition wit_vault_js :: js where
  "wit_vault_js = JObj [(''version'', JInt 1), (''workspaceId'', JStr ''w''), (''secrets'', JArr []),
     (''updatedAt'', JStr ''t''), (''nativeManaged'', JBool True)]"

definition wit_vault :: environment_vault where
  "wit_vault = \<lparr>ev_workspaceId = ''w'', ev_secrets = [], ev_updatedAt = ''t'', ev_nativeManaged = True\<rparr>"

definition wit_response :: js where
  "wit_response = JObj [(''ok'', JBool True), (''vault'', wit_vault_js)]"

definition wit_sessions :: vault_sessions where
  "wit_sessions = \<lparr>vs_vaults = Map.empty, vs_lifetimes = Map.empty, vs_closing = (\<lambda>_. 0), vs_subscribers = Map.empty,
     vs_sets = (\<lambda>_. []), vs_objects = 0, vs_called = []\<rparr>"

definition wit_unlock :: unlock_state where
  "wit_unlock = \<lparr>us_sessions = [(''w'', \<lparr>se_password = Some ''p'', se_lastActiveAt = 0\<rparr>)], us_pending = Map.empty,
     us_stored = None, us_writable = True, us_notified = 0, us_symbols = 0\<rparr>"

definition wit_vault_system :: vault_system where
  "wit_vault_system = \<lparr>vy_sessions = wit_sessions, vy_unlock = wit_unlock, vy_calls = Map.empty, vy_closes = Map.empty\<rparr>"

definition wit_asked :: vault_sessions where
  "wit_asked = wit_sessions\<lparr>vs_lifetimes := [''w'' \<mapsto> 0], vs_closing := (\<lambda>_. 0)(0 := 0), vs_objects := 1\<rparr>"

definition wit_answered :: vault_system where
  "wit_answered = wit_vault_system\<lparr>vy_sessions := setEnvironmentVaultSession wit_asked wit_vault, vy_calls := [0 \<mapsto> Settled]\<rparr>"

lemma wit_vault_started: "vault_started wit_vault_system"
  by (simp add: vault_started_def wit_vault_system_def wit_sessions_def)

lemma wit_begin: "begin_command wit_sessions True ''w'' = (wit_asked, Inr 0)"
  by (simp add: begin_command_def wit_asked_def wit_sessions_def is_current_def)

lemma wit_receive: "receive_response wit_asked ''w'' 0 (Some wit_response) = Inr wit_response"
  by (simp add: receive_response_def wit_asked_def is_current_def wit_response_def js_prop_def js_truthy_def)

lemma wit_parse: "parseNativeManagedVault (\<lambda>_ _. 0) wit_vault_js ''w'' = Some wit_vault"
  by code_simp

lemma wit_finish:
  "finish_command (\<lambda>_ _. 0) wit_asked ''w'' ReadVault 0 wit_response = (setEnvironmentVaultSession wit_asked wit_vault, VaultRead wit_vault)"
  using wit_parse by (simp add: finish_defs wit_asked_def is_current_def wit_response_def js_prop_def)

lemma wit_run:
  "vault_run (\<lambda>_ _. 0) wit_vault_system [Asked 0 ''w'', Responded 0, Answered 0 ''w'' (VaultRead wit_vault)] wit_answered"
proof -
  define s1 where "s1 = wit_vault_system\<lparr>vy_sessions := wit_asked, vy_calls := [0 \<mapsto> Waiting ''w'' ReadVault 0]\<rparr>"
  define s2 where "s2 = wit_vault_system\<lparr>vy_sessions := wit_asked, vy_calls := [0 \<mapsto> Received ''w'' ReadVault 0 wit_response]\<rparr>"
  have 1: "vault_step (\<lambda>_ _. 0) wit_vault_system (Asked 0 ''w'') s1"
    using asked [of wit_vault_system 0 True "''w''" wit_asked 0 "\<lambda>_ _. 0" ReadVault] wit_begin
    by (simp add: s1_def wit_vault_system_def)
  have 2: "vault_step (\<lambda>_ _. 0) s1 (Responded 0) s2"
    using responded [of s1 0 "''w''" ReadVault 0 "Some wit_response" wit_response "\<lambda>_ _. 0"] wit_receive
    by (simp add: s1_def s2_def)
  have 3: "vault_step (\<lambda>_ _. 0) s2 (Answered 0 ''w'' (VaultRead wit_vault)) wit_answered"
    using finished [of s2 0 "''w''" ReadVault 0 wit_response "\<lambda>_ _. 0"] wit_finish
    by (simp add: s2_def wit_answered_def)
  show ?thesis using vault_snoc [OF vault_snoc [OF vault_snoc [OF vault_nil 1] 2] 3] by simp
qed

lemma wit_visible: "readEnvironmentVaultSession (vy_sessions wit_answered) ''w'' = Some wit_vault"
  by (simp add: wit_answered_def readEnvironmentVaultSession_def session_fields isNativeManagedVault_def wit_vault_def)

theorem visible_vault_is_current_witness:
  "isNativeManagedVault wit_vault ''w'' \<and>
   vault_from_request [Asked 0 ''w'', Responded 0, Answered 0 ''w'' (VaultRead wit_vault)] ''w'' wit_vault"
  using visible_vault_is_current [OF wit_run wit_vault_started wit_visible] by blast

text \<open>
  C9: In every such run, a command gets an answer other than a refusal only if it was sent when no close
  of its workspace was under way, and none has begun since: what the native side answers to an earlier
  request, also one that overlapped a close which has ended by now, reaches nobody.
\<close>

theorem late_answers_are_refused:
  assumes "vault_run cmp s0 (evs @ [Answered c w a]) s" and "vault_started s0" and "\<And>e. a \<noteq> VaultRefused e"
  shows "valid_request evs c w"
  by (rule answered_request [OF assms])

theorem late_answers_are_refused_witness: "valid_request [Asked 0 ''w'', Responded 0] 0 ''w''"
proof -
  have "vault_run (\<lambda>_ _. 0) wit_vault_system ([Asked 0 ''w'', Responded 0] @ [Answered 0 ''w'' (VaultRead wit_vault)]) wit_answered"
    using wit_run by simp
  then show ?thesis by (rule late_answers_are_refused [OF _ wit_vault_started]) simp
qed

text \<open>
  C10: In the desktop application, where every close meets the native side, a workspace that was unlocked
  becomes locked in a run of commands, closes and locks only by a lock whose close was carried out: the native command answered with
  success, and when it did so it removed the native session of the workspace. (In a browser there is no
  native session to remove, and the lock is published without any answer.)
\<close>

theorem lock_is_published_after_revocation:
  assumes "vault_run cmp s evs s'" and "isWorkspaceUnlocked (vy_unlock s) (Some workspace)"
    and "\<not> isWorkspaceUnlocked (vy_unlock s') (Some workspace)"
    and "\<And>i k w reply published. i < length evs \<Longrightarrow> evs ! i = CloseEnded k w reply published \<Longrightarrow>
      native_close (sessions i) (poisoned i) w reply"
  shows "\<exists>i < length evs. \<exists>k.
    evs ! i = CloseEnded k (ws_id workspace) (NativeAnswer (JObj [(''ok'', JBool True)])) True \<and>
    close_environment_vault_session (sessions i) (poisoned i) (ws_id workspace) =
      ((sessions i)(rust_trim (ws_id workspace) := None), JObj [(''ok'', JBool True)])"
proof -
  obtain k reply where k: "CloseEnded k (ws_id workspace) reply True \<in> set evs"
    "close_outcome reply = None \<or> close_outcome reply = Some session_unavailable"
    using session_password_run [OF assms(1), of "ws_id workspace"] assms(2,3)
    by (fastforce simp: isWorkspaceUnlocked_def split: if_splits)
  then obtain i where i: "i < length evs" "evs ! i = CloseEnded k (ws_id workspace) reply True"
    by (auto simp: in_set_conv_nth)
  show ?thesis using native_close_published [OF assms(4) [OF i] k(2)] i by blast
qed

definition wit_locked :: workspace_record where
  "wit_locked = \<lparr>ws_id = ''w'', ws_name = ''W'', ws_path = ''/w'',
     ws_lock = Some \<lparr>lk_passwordHash = ''h'', lk_createdAt = ''t'', lk_updatedAt = ''t''\<rparr>,
     ws_createdAt = ''t'', ws_updatedAt = ''t''\<rparr>"

definition wit_closed :: vault_system where
  "wit_closed = wit_vault_system\<lparr>vy_sessions := end_close (begin_close wit_sessions ''w'') ''w'',
     vy_unlock := markWorkspaceLocked wit_unlock ''w''\<rparr>"

definition wit_accepted_close :: vault_reply where
  "wit_accepted_close = NativeAnswer (JObj [(''ok'', JBool True)])"

lemma wit_close_run: "vault_run cmp wit_vault_system [CloseBegan 0 ''w'', CloseEnded 0 ''w'' wit_accepted_close True] wit_closed"
proof -
  have reply: "close_outcome wit_accepted_close = None"
    by (simp add: wit_accepted_close_def close_outcome_def js_prop_def js_truthy_def)
  define s1 where "s1 = wit_vault_system\<lparr>vy_sessions := begin_close wit_sessions ''w'', vy_closes := [0 \<mapsto> (''w'', True)]\<rparr>"
  have 1: "vault_step cmp wit_vault_system (CloseBegan 0 ''w'') s1"
    using close_began [of wit_vault_system 0 cmp "''w''" True] by (simp add: s1_def wit_vault_system_def)
  have 2: "vault_step cmp s1 (CloseEnded 0 ''w'' wit_accepted_close True) wit_closed"
    using close_ended [of s1 0 "''w''" True "markWorkspaceLocked wit_unlock ''w''" True wit_accepted_close cmp] reply
    by (simp add: s1_def wit_closed_def wit_vault_system_def conclude_lock_def)
  show ?thesis using vault_snoc [OF vault_snoc [OF vault_nil 1] 2] by simp
qed

theorem lock_is_published_after_revocation_witness:
  "\<exists>i < length [CloseBegan 0 ''w'', CloseEnded 0 ''w'' wit_accepted_close True]. \<exists>k.
     [CloseBegan 0 ''w'', CloseEnded 0 ''w'' wit_accepted_close True] ! i =
       CloseEnded k ''w'' (NativeAnswer (JObj [(''ok'', JBool True)])) True \<and>
     close_environment_vault_session [''w'' \<mapsto> ''session''] False ''w'' =
       ([''w'' \<mapsto> ''session''](rust_trim ''w'' := None), JObj [(''ok'', JBool True)])"
proof -
  have "isWorkspaceUnlocked (vy_unlock wit_vault_system) (Some wit_locked)" by code_simp
  moreover have "\<not> isWorkspaceUnlocked (vy_unlock wit_closed) (Some wit_locked)" by code_simp
  moreover have "snd (close_environment_vault_session [''w'' \<mapsto> ''session''] False ''w'') = JObj [(''ok'', JBool True)]"
    by code_simp
  then have "native_close [''w'' \<mapsto> ''session''] False w reply"
    if "i < length [CloseBegan 0 ''w'', CloseEnded 0 ''w'' wit_accepted_close True]"
      "[CloseBegan 0 ''w'', CloseEnded 0 ''w'' wit_accepted_close True] ! i = CloseEnded k w reply published"
    for i k w reply published
    using that by (cases i) (auto simp: native_close_def wit_accepted_close_def)
  moreover have "ws_id wit_locked = ''w''" by (simp add: wit_locked_def)
  ultimately show ?thesis
    using lock_is_published_after_revocation [OF wit_close_run, of wit_locked "\<lambda>_. [''w'' \<mapsto> ''session'']" "\<lambda>_. False"]
    by simp
qed

section \<open>The vault\<close>

text \<open>
  Whatever vault they are given, insertions and removals of secrets leave one in which every secret is
  well formed and no identifier and no name (by its key) occurs twice, also when they are refused, as long
  as the generated identifiers are new.
\<close>

theorem vault_mutations_repair:
  assumes "fresh_along (\<lambda>op. normalized_vault cmp) (apply_vault_op cmp) vault_fresh ops vault" and "ops \<noteq> []"
  shows "vault_ok (run_ops (apply_vault_op cmp) ops vault)"
  by (rule vaults.run_heals [OF assms])

definition wit_vault_ops :: "vault_op list" where
  "wit_vault_ops =
     [UpsertSecret \<lparr>si_id = None, si_name = ''KEY'', si_kind = ''api-key'', si_tags = [''llm''], si_value = ''v''\<rparr> ''b'' ''t'',
      RemoveSecret ''c'' ''t'']"

lemma wit_new_id: "ev_secrets (normalized_vault (\<lambda>_ _. 0) wit_vault) = []"
  by code_simp

lemma wit_vault_fresh:
  "fresh_along (\<lambda>op. normalized_vault (\<lambda>_ _. 0)) (apply_vault_op (\<lambda>_ _. 0)) vault_fresh wit_vault_ops wit_vault"
  using wit_new_id by (simp add: wit_vault_ops_def ident_ok_def trimmed_def js_ws_def del: apply_vault_op.simps)

theorem vault_mutations_repair_witness:
  "vault_ok (run_ops (apply_vault_op (\<lambda>_ _. 0)) wit_vault_ops wit_vault) \<and>
   is_ok (apply_vault_op (\<lambda>_ _. 0) (hd wit_vault_ops) wit_vault)"
proof
  show "vault_ok (run_ops (apply_vault_op (\<lambda>_ _. 0)) wit_vault_ops wit_vault)"
    by (rule vault_mutations_repair [OF wit_vault_fresh]) (simp add: wit_vault_ops_def)
  show "is_ok (apply_vault_op (\<lambda>_ _. 0) (hd wit_vault_ops) wit_vault)" by code_simp
qed

text \<open>
  C24: Reading back the secrets of a well-formed vault, in which no identifier and no name (by its key)
  occurs twice, loses none and changes only blanks at the ends of names and missing creation times, as long
  as names are compared consistently (the comparison that sorts them is total and transitive);
  normalising the vault a second time changes nothing.
\<close>

theorem vault_reading_settles:
  assumes "vault_ok vault" and "consistent cmp"
  shows "mset (ev_secrets (normalized_vault cmp vault)) = image_mset reread_secret (mset (ev_secrets vault)) \<and>
    normalized_vault cmp (normalized_vault cmp vault) = normalized_vault cmp vault"
  using normalized_vault_secrets [OF assms(1), of cmp] normalized_vault_settles [OF assms]
  by (simp add: sortEnvironmentSecrets_def)

text \<open>Two secrets: a name that was cut after a blank, and a secret without creation time.\<close>

definition wit_long_name :: string where
  "wit_long_name = replicate 119 (CHR ''K'') @ '' ''"

definition wit_full_vault :: environment_vault where
  "wit_full_vault = \<lparr>ev_workspaceId = ''w'',
     ev_secrets =
       [\<lparr>se_id = ''a'', se_name = wit_long_name, se_kind = ''api-key'', se_tags = [''llm''], se_value = ''v1'',
         se_valueLength = Some 2, se_createdAt = ''t0'', se_updatedAt = ''t''\<rparr>,
        \<lparr>se_id = ''b'', se_name = ''B'', se_kind = ''api-key'', se_tags = [], se_value = ''v2'',
         se_valueLength = None, se_createdAt = [], se_updatedAt = ''t1''\<rparr>],
     ev_updatedAt = ''t'', ev_nativeManaged = True\<rparr>"

definition by_length :: "string \<Rightarrow> string \<Rightarrow> int" where
  "by_length x y = int (length x) - int (length y)"

lemma wit_full_vault: "vault_ok wit_full_vault"
proof -
  have "distinct (map se_id (ev_secrets wit_full_vault))" "distinct (map secret_key (ev_secrets wit_full_vault))"
    "\<forall>s \<in> set (ev_secrets wit_full_vault). secret_ok s"
    by code_simp+
  then show ?thesis by (simp add: vault_ok_def named_ok_def)
qed

theorem vault_reading_settles_witness:
  "mset (ev_secrets (normalized_vault by_length wit_full_vault)) =
     {#\<lparr>se_id = ''a'', se_name = replicate 119 (CHR ''K''), se_kind = ''api-key'', se_tags = [''llm''], se_value = ''v1'',
        se_valueLength = Some 2, se_createdAt = ''t0'', se_updatedAt = ''t''\<rparr>,
       \<lparr>se_id = ''b'', se_name = ''B'', se_kind = ''api-key'', se_tags = [], se_value = ''v2'',
        se_valueLength = None, se_createdAt = ''t1'', se_updatedAt = ''t1''\<rparr>#} \<and>
   normalized_vault by_length (normalized_vault by_length wit_full_vault) = normalized_vault by_length wit_full_vault"
proof -
  have "consistent by_length" by (auto simp: consistent_def by_length_def)
  note run = vault_reading_settles [OF wit_full_vault this]
  moreover have "js_trim wit_long_name = replicate 119 (CHR ''K'')" "js_trim ''B'' = ''B''" by code_simp+
  then have "image_mset reread_secret (mset (ev_secrets wit_full_vault)) =
     {#\<lparr>se_id = ''a'', se_name = replicate 119 (CHR ''K''), se_kind = ''api-key'', se_tags = [''llm''], se_value = ''v1'',
        se_valueLength = Some 2, se_createdAt = ''t0'', se_updatedAt = ''t''\<rparr>,
       \<lparr>se_id = ''b'', se_name = ''B'', se_kind = ''api-key'', se_tags = [], se_value = ''v2'',
        se_valueLength = None, se_createdAt = ''t1'', se_updatedAt = ''t1''\<rparr>#}"
    by (simp add: wit_full_vault_def reread_secret_def)
  ultimately show ?thesis by simp
qed

end
