(* ===== verification/Js_Objects.thy ===== *)
theory Js_Objects
  imports Prelude "HOL-Library.AList"
begin

text \<open>
  Operations on the values of \<open>JSON.parse\<close> that are shared by the files that check and rewrite stored
  documents without giving them a type of their own.
\<close>

text \<open>\<open>typeof value === 'object' && value !== null\<close>, on a value of \<open>JSON.parse\<close>.\<close>

definition is_record :: "js \<Rightarrow> bool" where
  "is_record v = (case v of JObj _ \<Rightarrow> True | JArr _ \<Rightarrow> True | _ \<Rightarrow> False)"

definition is_string :: "js \<Rightarrow> bool" where
  "is_string v = (case v of JStr _ \<Rightarrow> True | _ \<Rightarrow> False)"

definition is_number :: "js \<Rightarrow> bool" where
  "is_number v = (case v of JInt _ \<Rightarrow> True | JNonInt _ \<Rightarrow> True | _ \<Rightarrow> False)"

definition is_boolean :: "js \<Rightarrow> bool" where
  "is_boolean v = (case v of JBool _ \<Rightarrow> True | _ \<Rightarrow> False)"

text \<open>\<open>Array.isArray(v) && v.every(P)\<close>\<close>

definition is_array_of :: "(js \<Rightarrow> bool) \<Rightarrow> js \<Rightarrow> bool" where
  "is_array_of P v = (case v of JArr vs \<Rightarrow> list_all P vs | _ \<Rightarrow> False)"

definition isStringArray :: "js \<Rightarrow> bool" where
  "isStringArray v = is_array_of is_string v"

text \<open>\<open>v === undefined || P(v)\<close>\<close>

definition is_optional :: "(js \<Rightarrow> bool) \<Rightarrow> js \<Rightarrow> bool" where
  "is_optional P v \<longleftrightarrow> v = JUndefined \<or> P v"

text \<open>Decimal digits, as in a template literal.\<close>

fun js_digits :: "nat \<Rightarrow> string" where
  "js_digits n = (if n < 10 then [char_of (48 + n)] else js_digits (n div 10) @ [char_of (48 + n mod 10)])"

declare js_digits.simps [simp del]

lemma js_digits_value: "foldl (\<lambda>v c. 10 * v + (of_char c - 48)) 0 (js_digits n) = n"
proof (induction n rule: js_digits.induct)
  case (1 n)
  have "n mod 10 < 208" by (rule less_trans [of _ 10]) simp_all
  then show ?case
    using 1 by (subst js_digits.simps) (auto simp: of_char_of take_bit_eq_mod)
qed

lemma js_digits_inj: "js_digits m = js_digits n \<Longrightarrow> m = n"
  by (metis js_digits_value)

text \<open>\<open>{ ...v }\<close>: an array becomes an object with its indices as names.\<close>

definition spread :: "js \<Rightarrow> (string \<times> js) list" where
  "spread v = (case v of JObj ps \<Rightarrow> ps | JArr vs \<Rightarrow> zip (map js_digits [0..<length vs]) vs | _ \<Rightarrow> [])"

text \<open>\<open>{ ...v, name: w }\<close> and the deletion of names.\<close>

definition js_set :: "string \<Rightarrow> js \<Rightarrow> js \<Rightarrow> js" where
  "js_set name w v = JObj (AList.update name w (spread v))"

definition js_without :: "string list \<Rightarrow> js \<Rightarrow> js" where
  "js_without names v = JObj (filter (\<lambda>p. fst p \<notin> set names) (spread v))"

text \<open>\<open>{ ...v, ...ps }\<close> and \<open>...(b ? ps : {})\<close>.\<close>

definition js_set_all :: "(string \<times> js) list \<Rightarrow> js \<Rightarrow> js" where
  "js_set_all ps v = JObj (fold (\<lambda>p. AList.update (fst p) (snd p)) ps (spread v))"

definition fields_when :: "bool \<Rightarrow> (string \<times> js) list \<Rightarrow> (string \<times> js) list" where
  "fields_when b ps = (if b then ps else [])"

definition js_strings :: "string list \<Rightarrow> js" where
  "js_strings xs = JArr (map JStr xs)"

section \<open>Lemmas\<close>

lemma is_record_iff: "is_record v \<longleftrightarrow> (\<exists>ps. v = JObj ps) \<or> (\<exists>vs. v = JArr vs)"
  by (auto simp: is_record_def split: js.splits)

lemma is_record_obj [simp]: "is_record (JObj ps)" "is_record (js_set n w v)" "is_record (js_without ns v)" "is_record (js_set_all qs v)"
  by (simp_all add: is_record_def js_set_def js_without_def js_set_all_def)

lemma is_string_iff: "is_string v \<longleftrightarrow> (\<exists>s. v = JStr s)"
  by (auto simp: is_string_def split: js.splits)

lemma is_string_str [simp]: "is_string (JStr s)"
  by (simp add: is_string_def)

lemma is_array_of_arr [simp]: "is_array_of P (JArr vs) = list_all P vs"
  by (simp add: is_array_of_def)

lemma isStringArray_strings [simp]: "isStringArray (js_strings xs)"
  by (simp add: isStringArray_def js_strings_def list_all_iff)

lemma is_optional_undefined [simp]: "is_optional P JUndefined"
  by (simp add: is_optional_def)

lemma js_prop_obj: "js_prop (JObj ps) k = (case map_of ps k of None \<Rightarrow> JUndefined | Some w \<Rightarrow> w)"
  by (simp add: js_prop_def)

lemma prop_arr [simp]: "js_prop (JArr vs) k = JUndefined"
  by (simp add: js_prop_def)

lemma js_prop_set [simp]: "js_prop (js_set n w (JObj ps)) k = (if k = n then w else js_prop (JObj ps) k)"
  by (simp add: js_set_def js_prop_obj spread_def update_conv')

lemma map_of_filter_keys: "map_of (filter (\<lambda>p. fst p \<notin> A) ps) k = (if k \<in> A then None else map_of ps k)"
  by (induction ps) auto

lemma js_prop_without [simp]: "js_prop (js_without ns (JObj ps)) k = (if k \<in> set ns then JUndefined else js_prop (JObj ps) k)"
  by (simp add: js_without_def js_prop_obj spread_def map_of_filter_keys)

lemma map_of_fold_update:
  "map_of (fold (\<lambda>p. AList.update (fst p) (snd p)) qs ps) k = (case map_of (rev qs) k of None \<Rightarrow> map_of ps k | Some w \<Rightarrow> Some w)"
  by (induction qs arbitrary: ps) (auto simp: update_conv' map_add_def split: option.splits)

lemma js_prop_set_all:
  "js_prop (js_set_all qs (JObj ps)) k = (case map_of (rev qs) k of None \<Rightarrow> js_prop (JObj ps) k | Some w \<Rightarrow> w)"
  by (simp add: js_set_all_def js_prop_obj spread_def map_of_fold_update split: option.split)

text \<open>
  What the code relies on of \<open>JSON.parse\<close>, \<open>JSON.stringify\<close> and \<open>serde_json\<close>: the values a text denotes are
  JSON values, and the text of a JSON value denotes that value. A codec with these two properties shows
  that they can hold; it is not the JSON syntax.
\<close>

section \<open>JSON values\<close>

fun json_value :: "js \<Rightarrow> bool" where
  "json_value JUndefined \<longleftrightarrow> False"
| "json_value JExotic \<longleftrightarrow> False"
| "json_value (JNonInt (Fraction _)) \<longleftrightarrow> True"
| "json_value (JNonInt _) \<longleftrightarrow> False"
| "json_value (JArr vs) \<longleftrightarrow> list_all json_value vs"
| "json_value (JObj ps) \<longleftrightarrow> distinct (map fst ps) \<and> list_all (\<lambda>p. json_value (snd p)) ps"
| "json_value _ \<longleftrightarrow> True"

definition faithful_json :: "(string \<Rightarrow> js option) \<Rightarrow> (js \<Rightarrow> string) \<Rightarrow> bool" where
  "faithful_json parse render \<longleftrightarrow>
     (\<forall>v. json_value v \<longrightarrow> parse (render v) = Some v) \<and> (\<forall>s v. parse s = Some v \<longrightarrow> json_value v)"

lemma nullable_json [simp]: "json_value (js_nullable x)"
  by (cases x) (simp_all add: js_nullable_def)

lemma faithful_parse: "faithful_json parse render \<Longrightarrow> json_value v \<Longrightarrow> parse (render v) = Some v"
  by (simp add: faithful_json_def)

lemma faithful_value: "faithful_json parse render \<Longrightarrow> parse s = Some v \<Longrightarrow> json_value v"
  by (simp add: faithful_json_def)

section \<open>A codec\<close>

fun put_str :: "string \<Rightarrow> string" where
  "put_str [] = ''.''"
| "put_str (c # cs) = CHR ''c'' # c # put_str cs"

fun take_str :: "string \<Rightarrow> (string \<times> string) option" where
  "take_str (t # c # cs) =
     (if t = CHR ''c'' then (case take_str cs of None \<Rightarrow> None | Some (s, rest) \<Rightarrow> Some (c # s, rest))
      else if t = CHR ''.'' then Some ([], c # cs) else None)"
| "take_str [t] = (if t = CHR ''.'' then Some ([], []) else None)"
| "take_str [] = None"

definition put_int :: "int \<Rightarrow> string" where
  "put_int n = (if n < 0 then ''-'' else ''+'') @ put_str (replicate (nat (abs n)) CHR ''i'')"

fun take_int :: "string \<Rightarrow> (int \<times> string) option" where
  "take_int (sign # cs) =
     (case take_str cs of None \<Rightarrow> None
      | Some (s, rest) \<Rightarrow> Some (if sign = CHR ''-'' then - int (length s) else int (length s), rest))"
| "take_int [] = None"

fun put_js :: "js \<Rightarrow> string" and put_list :: "js list \<Rightarrow> string" and put_fields :: "(string \<times> js) list \<Rightarrow> string" where
  "put_js JNull = ''n''"
| "put_js (JBool b) = (if b then ''t'' else ''f'')"
| "put_js (JInt n) = CHR ''I'' # put_int n"
| "put_js (JNonInt x) = (case x of Fraction n \<Rightarrow> CHR ''F'' # put_int n | _ \<Rightarrow> ''?'')"
| "put_js (JStr s) = CHR ''S'' # put_str s"
| "put_js (JArr vs) = CHR ''A'' # put_list vs"
| "put_js (JObj ps) = CHR ''O'' # put_fields ps"
| "put_js JUndefined = ''?''"
| "put_js JExotic = ''?''"
| "put_list [] = ''.''"
| "put_list (v # vs) = CHR '','' # put_js v @ put_list vs"
| "put_fields [] = ''.''"
| "put_fields (p # ps) = CHR '','' # put_str (fst p) @ put_js (snd p) @ put_fields ps"

text \<open>The first argument bounds the depth of the recursion; the length of the text is enough.\<close>

fun take_js :: "nat \<Rightarrow> string \<Rightarrow> (js \<times> string) option"
  and take_list :: "nat \<Rightarrow> string \<Rightarrow> (js list \<times> string) option"
  and take_fields :: "nat \<Rightarrow> string \<Rightarrow> ((string \<times> js) list \<times> string) option" where
  "take_js (Suc k) (t # cs) =
     (if t = CHR ''n'' then Some (JNull, cs)
      else if t = CHR ''t'' then Some (JBool True, cs)
      else if t = CHR ''f'' then Some (JBool False, cs)
      else if t = CHR ''I'' then map_option (apfst JInt) (take_int cs)
      else if t = CHR ''F'' then map_option (apfst (\<lambda>n. JNonInt (Fraction n))) (take_int cs)
      else if t = CHR ''S'' then map_option (apfst JStr) (take_str cs)
      else if t = CHR ''A'' then map_option (apfst JArr) (take_list k cs)
      else if t = CHR ''O'' then map_option (apfst JObj) (take_fields k cs)
      else None)"
| "take_js _ _ = None"
| "take_list (Suc k) (t # cs) =
     (if t = CHR ''.'' then Some ([], cs)
      else (case take_js k cs of None \<Rightarrow> None
            | Some (v, rest) \<Rightarrow> map_option (apfst (Cons v)) (take_list k rest)))"
| "take_list _ _ = None"
| "take_fields (Suc k) (t # cs) =
     (if t = CHR ''.'' then Some ([], cs)
      else (case take_str cs of None \<Rightarrow> None
            | Some (name, cs') \<Rightarrow>
                (case take_js k cs' of None \<Rightarrow> None
                 | Some (v, rest) \<Rightarrow> map_option (apfst (Cons (name, v))) (take_fields k rest))))"
| "take_fields _ _ = None"

definition codec_parse :: "string \<Rightarrow> js option" where
  "codec_parse s =
     (case take_js (length s) s of Some (v, []) \<Rightarrow> if json_value v then Some v else None | _ \<Rightarrow> None)"

lemma take_put_str [simp]: "take_str (put_str s @ rest) = Some (s, rest)"
proof (induction s)
  case Nil
  then show ?case by (cases rest) simp_all
qed simp

lemma take_put_int [simp]: "take_int (put_int n @ rest) = Some (n, rest)"
  by (simp add: put_int_def)

lemma put_nonempty: "0 < length (put_str s)"
  by (cases s) simp_all

lemma take_put:
  "json_value v \<Longrightarrow> length (put_js v) \<le> k \<Longrightarrow> take_js k (put_js v @ rest) = Some (v, rest)"
  "list_all json_value vs \<Longrightarrow> length (put_list vs) \<le> k \<Longrightarrow> take_list k (put_list vs @ rest) = Some (vs, rest)"
  "list_all (\<lambda>p. json_value (snd p)) ps \<Longrightarrow> length (put_fields ps) \<le> k \<Longrightarrow>
   take_fields k (put_fields ps @ rest) = Some (ps, rest)"
proof (induction v and vs and ps arbitrary: k rest and k rest and k rest rule: put_js_put_list_put_fields.induct)
  case (4 x)
  then show ?case by (cases k; cases x) (simp_all)
next
  case (13 p ps)
  then obtain j where k: "k = Suc j" by (cases k) simp_all
  have "length (put_js (snd p)) \<le> j" "length (put_fields ps) \<le> j" using 13 k by simp_all
  then show ?case using 13 k by simp
next
  case (11 v vs)
  then obtain j where k: "k = Suc j" by (cases k) simp_all
  have "length (put_js v) \<le> j" "length (put_list vs) \<le> j" using 11 k by simp_all
  then show ?case using 11 k by simp
qed (case_tac [!] k, auto split: if_splits)

lemma codec_faithful: "faithful_json codec_parse put_js"
proof -
  have "codec_parse (put_js v) = Some v" if "json_value v" for v
    using take_put(1) [OF that, of "length (put_js v)" "[]"] that by (simp add: codec_parse_def)
  then show ?thesis by (auto simp: faithful_json_def codec_parse_def split: option.splits list.splits if_splits)
qed

end
