(* ===== verification/Queue_Voting.thy ===== *)
theory Queue_Voting
  imports Js_Objects
begin

text \<open>
  Votes in the work queue (\<open>src/lib/queue/queue-voting.ts\<close>): the options and criteria of a vote are
  typed as lines of text, and the ballots of the answers are counted. A field \<open>description\<close> that is left
  out is \<open>None\<close>. The regular expressions that split a line are written out on text without repeated
  blanks, which is all they meet; on Latin-1 their classes hold a colon, and no Hangul.
\<close>

section \<open>Data\<close>

definition queueTaskKinds :: "string list" where
  "queueTaskKinds = [''instruction'', ''direct-message'', ''vote'']"

datatype vote_parse_status = BallotParsed | BallotInvalidChoice | BallotUnparsed

record vote_option =
  vo_id :: string
  vo_label :: string
  vo_description :: "string option"

record vote_spec =   \<comment> \<open>\<open>responseKind\<close> is always \<open>single-choice\<close>\<close>
  vp_question :: string
  vp_options :: "vote_option list"
  vp_criteria :: "string list"

record vote_ballot =
  vb_choiceId :: string
  vb_reason :: string
  vb_risks :: "string list"
  vb_parseStatus :: vote_parse_status

record vote_result =
  vr_question :: string
  vr_options :: "vote_option list"
  vr_ballot :: vote_ballot

record vote_aggregate =
  va_optionCounts :: "(vote_option \<times> nat) list"
  va_invalidCount :: nat
  va_totalParsedCount :: nat
  va_winnerIds :: "string list"

section \<open>Text\<close>

definition normalizeInlineText :: "string \<Rightarrow> string" where
  "normalizeInlineText value = js_collapse_ws '' '' (js_trim value)"

text \<open>\<open>value.split(/\r?\n/u)\<close>\<close>

fun drop_cr :: "string list \<Rightarrow> string list" where
  "drop_cr (line # next # rest) =
     (if line \<noteq> [] \<and> last line = CHR 0x0D then butlast line else line) # drop_cr (next # rest)"
| "drop_cr lines = lines"

definition split_lines :: "string \<Rightarrow> string list" where
  "split_lines value = drop_cr (js_split (CHR 0x0A) value)"

text \<open>\<open>/^(.+?)\s+-\s+(.+)$/u\<close> on text without repeated blanks: the first \<open>" - "\<close> after the first character.\<close>

fun split_dash :: "string \<Rightarrow> (string \<times> string) option" where
  "split_dash [] = None"
| "split_dash (c # cs) =
     (if take 3 cs = '' - '' \<and> drop 3 cs \<noteq> [] then Some ([c], drop 3 cs)
      else (case split_dash cs of None \<Rightarrow> None | Some (a, b) \<Rightarrow> Some (c # a, b)))"

definition splitOptionDescription :: "string \<Rightarrow> string \<times> string" where
  "splitOptionDescription value =
     (case split_dash value of
        None \<Rightarrow> (value, [])
      | Some (label, description) \<Rightarrow> (normalizeInlineText label, normalizeInlineText description))"

text \<open>\<open>/^([^:]+)[:]\s*(.+)$/u\<close> on trimmed text: what stands before and after the first colon.\<close>

definition split_colon :: "string \<Rightarrow> (string \<times> string) option" where
  "split_colon value =
     (let hint = takeWhile (\<lambda>c. c \<noteq> CHR '':'') value;
          rest = js_trim_start (drop (length hint + 1) value)
      in if hint = [] \<or> length hint = length value \<or> rest = [] then None else Some (hint, rest))"

text \<open>The hint for the identifier, the label and the description.\<close>

definition parseVoteOptionLine :: "string \<Rightarrow> string \<times> string \<times> string" where
  "parseVoteOptionLine value =
     (case split_colon value of
        Some (hint, rest) \<Rightarrow> (normalizeInlineText hint, splitOptionDescription (normalizeInlineText rest))
      | None \<Rightarrow> ([], splitOptionDescription value))"

definition option_id_char :: "char \<Rightarrow> bool" where
  "option_id_char c = (let n = (of_char c :: nat) in
     (97 \<le> n \<and> n \<le> 122) \<or> (48 \<le> n \<and> n \<le> 57) \<or> c = CHR ''_'' \<or> c = CHR ''-'')"

definition createVoteOptionId :: "string \<Rightarrow> string" where
  "createVoteOptionId value =
     (let normalized = js_slice0 40 (js_strip (CHR ''-'')
            (filter option_id_char (js_collapse_ws ''-'' (js_lower (js_trim value)))))
      in if normalized = [] then ''option'' else normalized)"

section \<open>Options\<close>

text \<open>The loop ends: the candidates are different, so at most one per used identifier is skipped.\<close>

definition option_candidate :: "string \<Rightarrow> nat \<Rightarrow> string" where
  "option_candidate baseId index = baseId @ ''-'' @ js_digits index"

lemma option_candidate_inj: "inj (option_candidate baseId)"
  by (rule injI) (auto simp: option_candidate_def dest: js_digits_inj)

definition candidates_left :: "string \<Rightarrow> string list \<Rightarrow> nat \<Rightarrow> nat" where
  "candidates_left baseId usedIds index = card (set usedIds \<inter> option_candidate baseId ` {index..})"

lemma candidates_left_next:
  assumes "option_candidate baseId index \<in> set usedIds"
  shows "candidates_left baseId usedIds (index + 1) < candidates_left baseId usedIds index"
proof -
  have "option_candidate baseId index \<notin> option_candidate baseId ` {index + 1..}"
    using option_candidate_inj [of baseId] by (auto dest: injD)
  moreover have "option_candidate baseId ` {index + 1..} \<subseteq> option_candidate baseId ` {index..}" by auto
  ultimately have "set usedIds \<inter> option_candidate baseId ` {index + 1..} \<subset> set usedIds \<inter> option_candidate baseId ` {index..}"
    using assms by blast
  then show ?thesis unfolding candidates_left_def by (intro psubset_card_mono) auto
qed

function dedupe_from :: "string \<Rightarrow> string list \<Rightarrow> nat \<Rightarrow> string" where
  "dedupe_from baseId usedIds index =
     (if option_candidate baseId index \<in> set usedIds then dedupe_from baseId usedIds (index + 1)
      else option_candidate baseId index)"
  by pat_completeness auto
termination
  by (relation "measure (\<lambda>(baseId, usedIds, index). candidates_left baseId usedIds index)")
    (use candidates_left_next in auto)

declare dedupe_from.simps [simp del]

definition dedupeVoteOptionId :: "string \<Rightarrow> string list \<Rightarrow> string" where
  "dedupeVoteOptionId baseId usedIds =
     (let candidate = (if baseId \<noteq> [] then baseId else ''option'')
      in if candidate \<in> set usedIds then dedupe_from baseId usedIds 2 else candidate)"

fun vote_options_from :: "vote_option list \<Rightarrow> string list \<Rightarrow> vote_option list" where
  "vote_options_from options [] = options"
| "vote_options_from options (line # lines) =
     (let normalizedLine = normalizeInlineText line
      in if normalizedLine = [] then vote_options_from options lines
         else (case parseVoteOptionLine normalizedLine of
                 (idHint, label, description) \<Rightarrow>
                   vote_options_from
                     (options @ [\<lparr>vo_id = dedupeVoteOptionId
                           (createVoteOptionId (if idHint \<noteq> [] then idHint else label)) (map vo_id options),
                        vo_label = label,
                        vo_description = (if description \<noteq> [] then Some description else None)\<rparr>])
                     lines))"

definition normalizeVoteOptionsFromText :: "string \<Rightarrow> vote_option list" where
  "normalizeVoteOptionsFromText value = vote_options_from [] (split_lines value)"

fun criteria_from :: "string list \<Rightarrow> string list \<Rightarrow> string list" where
  "criteria_from criteria [] = criteria"
| "criteria_from criteria (line # lines) =
     (let criterion = normalizeInlineText line
      in if criterion = [] \<or> criterion \<in> set criteria then criteria_from criteria lines
         else criteria_from (criteria @ [criterion]) lines)"

definition normalizeVoteCriteriaFromText :: "string \<Rightarrow> string list" where
  "normalizeVoteCriteriaFromText value = criteria_from [] (split_lines value)"

definition createVoteSpec :: "string \<Rightarrow> string \<Rightarrow> string \<Rightarrow> vote_spec option" where
  "createVoteSpec questionInput optionsText criteriaText =
     (let question = normalizeInlineText questionInput;
          options = normalizeVoteOptionsFromText optionsText
      in if question = [] \<or> length options < 2 then None
         else Some \<lparr>vp_question = question, vp_options = options,
                    vp_criteria = normalizeVoteCriteriaFromText criteriaText\<rparr>)"

text \<open>What the editor shows of a vote.\<close>

definition formatVoteOptionsInput :: "vote_spec option \<Rightarrow> string" where
  "formatVoteOptionsInput spec =
     (case spec of
        None \<Rightarrow> []
      | Some s \<Rightarrow> js_join [CHR 0x0A]
          (map (\<lambda>option. vo_id option @ '': '' @ vo_label option @
             (case vo_description option of None \<Rightarrow> [] | Some d \<Rightarrow> if d = [] then [] else '' - '' @ d)) (vp_options s)))"

definition formatVoteCriteriaInput :: "vote_spec option \<Rightarrow> string" where
  "formatVoteCriteriaInput spec = (case spec of None \<Rightarrow> [] | Some s \<Rightarrow> js_join [CHR 0x0A] (vp_criteria s))"

section \<open>Counting\<close>

text \<open>The ballots: \<open>counts\<close> and \<open>invalidCount\<close> of the loop.\<close>

fun count_ballots :: "vote_result option list \<Rightarrow> (string \<rightharpoonup> nat) \<Rightarrow> nat \<Rightarrow> (string \<rightharpoonup> nat) \<times> nat" where
  "count_ballots [] counts invalidCount = (counts, invalidCount)"
| "count_ballots (vote # results) counts invalidCount =
     (case vote of
        None \<Rightarrow> count_ballots results counts invalidCount
      | Some v \<Rightarrow>
          if vb_parseStatus (vr_ballot v) \<noteq> BallotParsed then count_ballots results counts (invalidCount + 1)
          else (let choiceId = vb_choiceId (vr_ballot v);
                    count = (case counts choiceId of None \<Rightarrow> 0 | Some n \<Rightarrow> n)
                in count_ballots results (counts(choiceId \<mapsto> count + 1)) invalidCount))"

definition createVoteAggregate :: "vote_result option list \<Rightarrow> vote_aggregate option" where
  "createVoteAggregate results =
     (case List.find (\<lambda>vote. vote \<noteq> None) results of
        Some (Some firstVote) \<Rightarrow>
          (let (counts, invalidCount) = count_ballots results Map.empty 0;
               optionCounts = map (\<lambda>option. (option, case counts (vo_id option) of None \<Rightarrow> 0 | Some n \<Rightarrow> n)) (vr_options firstVote);
               highestCount = foldl max 0 (map snd optionCounts)
           in Some \<lparr>va_optionCounts = optionCounts, va_invalidCount = invalidCount,
                    va_totalParsedCount = foldl (+) 0 (map snd optionCounts),
                    va_winnerIds = (if highestCount = 0 then []
                      else map (\<lambda>entry. vo_id (fst entry)) (filter (\<lambda>entry. snd entry = highestCount) optionCounts))\<rparr>)
      | _ \<Rightarrow> None)"

section \<open>Identifiers\<close>

lemma dedupe_from_new: "dedupe_from baseId usedIds index \<notin> set usedIds"
proof (induction baseId usedIds index rule: dedupe_from.induct)
  case (1 baseId usedIds index)
  then show ?case by (subst dedupe_from.simps) auto
qed

lemma dedupe_new: "dedupeVoteOptionId baseId usedIds \<notin> set usedIds"
  by (simp add: dedupeVoteOptionId_def Let_def dedupe_from_new)

lemma option_ids_distinct:
  "distinct (map vo_id options) \<Longrightarrow> distinct (map vo_id (vote_options_from options lines))"
proof (induction options lines rule: vote_options_from.induct)
  case (2 options line lines)
  obtain idHint label description where p: "parseVoteOptionLine (normalizeInlineText line) = (idHint, label, description)"
    by (metis prod_cases3)
  show ?case using 2 dedupe_new [of _ "map vo_id options"] p by (simp add: Let_def)
qed simp

lemma id_nonempty: "baseId \<noteq> [] \<Longrightarrow> dedupeVoteOptionId baseId usedIds \<noteq> []"
proof -
  have "dedupe_from baseId usedIds i \<noteq> []" for i
    by (induction baseId usedIds i rule: dedupe_from.induct) (subst dedupe_from.simps, simp add: option_candidate_def)
  then show "baseId \<noteq> [] \<Longrightarrow> dedupeVoteOptionId baseId usedIds \<noteq> []" by (simp add: dedupeVoteOptionId_def)
qed

end
