(* ===== verification/Voting_Laws.thy ===== *)
theory Voting_Laws
  imports Queue_Voting
begin

text \<open>
  What the options of a vote satisfy, that the editor's text gives them back, and what the count of the
  ballots says.
\<close>

section \<open>Inline text\<close>

text \<open>Text that \<open>normalizeInlineText\<close> leaves alone.\<close>

definition inline_text :: "string \<Rightarrow> bool" where
  "inline_text s \<longleftrightarrow> trimmed s \<and> collapsed s"

lemma inline_normalized [simp]: "inline_text (normalizeInlineText s)"
  by (simp add: inline_text_def normalizeInlineText_def trimmed_collapse)

lemma normalize_inline [simp]: "inline_text s \<Longrightarrow> normalizeInlineText s = s"
  by (simp add: inline_text_def normalizeInlineText_def js_trim_trimmed js_collapse_collapsed)

lemma collapsed_append_blank:
  "collapsed_from b (s @ CHR '' '' # t) \<longleftrightarrow> collapsed_from b (s @ ['' ''!0]) \<and> collapsed_from True t"
  by (induction b s rule: collapsed_from.induct) auto

lemma collapsed_no_control: "collapsed_from b s \<Longrightarrow> c \<in> set s \<Longrightarrow> js_ws c \<Longrightarrow> c = CHR '' ''"
  by (induction b s rule: collapsed_from.induct) (auto split: if_splits)

lemma collapsed_True_False: "collapsed_from True s \<Longrightarrow> collapsed s"
  by (cases s) auto

lemma collapsed_before_blank: "collapsed_from b (s @ [CHR '' '']) \<Longrightarrow> s \<noteq> [] \<Longrightarrow> \<not> js_ws (last s) \<and> collapsed_from b s"
  by (induction b s rule: collapsed_from.induct) (auto split: if_splits)

lemma collapsed_True_hd: "collapsed_from True s \<Longrightarrow> s \<noteq> [] \<Longrightarrow> \<not> js_ws (hd s)"
  by (cases s) (auto split: if_splits)

text \<open>A text cut at a blank.\<close>

lemma inline_cut:
  assumes "inline_text (a @ CHR '' '' # b)" and "a \<noteq> []"
  shows "inline_text a \<and> inline_text b \<and> b \<noteq> []"
proof -
  have c: "collapsed_from False (a @ [CHR '' ''])" "collapsed_from True b"
    using assms(1) collapsed_append_blank [of False a b] by (simp_all add: inline_text_def)
  have h: "\<not> js_ws (hd a)" using assms by (auto simp: inline_text_def trimmed_def)
  have b: "b \<noteq> []" using assms(1) by (auto simp: inline_text_def trimmed_def)
  then have "\<not> js_ws (last b)" using assms(1) by (auto simp: inline_text_def trimmed_def)
  then show ?thesis
    using collapsed_before_blank [OF c(1) assms(2)] collapsed_True_hd [OF c(2) b] c(2) h b
    by (simp add: inline_text_def trimmed_def collapsed_True_False)
qed

section \<open>Splitting a line\<close>

lemma split_dash_Some: "split_dash v = Some (a, b) \<Longrightarrow> v = a @ '' - '' @ b \<and> a \<noteq> [] \<and> b \<noteq> []"
proof (induction v arbitrary: a)
  case (Cons c cs)
  show ?case
  proof (cases "take 3 cs = '' - '' \<and> drop 3 cs \<noteq> []")
    case True
    then show ?thesis using Cons.prems append_take_drop_id [of 3 cs] by auto
  next
    case False
    then show ?thesis using Cons by (auto split: option.splits)
  qed
qed simp

text \<open>Label and description make up the text again.\<close>

lemma split_description:
  assumes "inline_text v" and "splitOptionDescription v = (label, description)"
  shows "v = label @ (if description = [] then [] else '' - '' @ description) \<and>
    inline_text label \<and> inline_text description \<and> (v \<noteq> [] \<longrightarrow> label \<noteq> [])"
proof (cases "split_dash v")
  case (Some p)
  then obtain a b where p: "split_dash v = Some (a, b)" by (cases p) auto
  then have v: "v = a @ CHR '' '' # (CHR ''-'' # CHR '' '' # b)" "a \<noteq> []" "b \<noteq> []" using split_dash_Some [OF p] by auto
  have 1: "inline_text a" "inline_text ([CHR ''-''] @ CHR '' '' # b)" using inline_cut [of a] assms(1) v by auto
  have 2: "inline_text b" using inline_cut [OF 1(2)] by simp
  show ?thesis using assms(2) p v 1 2 by (auto simp: splitOptionDescription_def)
qed (use assms in \<open>auto simp: splitOptionDescription_def inline_text_def\<close>)

lemma split_colon_Some:
  "split_colon v = Some (hint, rest) \<Longrightarrow> hint \<noteq> [] \<and> CHR '':'' \<notin> set hint \<and> rest \<noteq> []"
  by (auto simp: split_colon_def Let_def split: if_splits dest: set_takeWhileD)

lemma split_colon_format:
  assumes "hint \<noteq> []" and "CHR '':'' \<notin> set hint" and "inline_text v" and "v \<noteq> []"
  shows "split_colon (hint @ '': '' @ v) = Some (hint, v)"
proof -
  have t: "takeWhile (\<lambda>c. c \<noteq> CHR '':'') (hint @ CHR '':'' # CHR '' '' # v) = hint"
    using assms(2) by (subst takeWhile_append2) auto
  have "\<not> js_ws (hd v)" using assms by (auto simp: inline_text_def trimmed_def)
  then have "js_trim_start (CHR '' '' # v) = v" using assms(4) by (cases v) (auto simp: js_trim_start_def)
  then show ?thesis using assms by (simp add: split_colon_def t Let_def)
qed

section \<open>Identifiers of options\<close>

text \<open>An identifier as it comes out when it is not cut.\<close>

definition id_shape :: "string \<Rightarrow> bool" where
  "id_shape i \<longleftrightarrow> i \<noteq> [] \<and> list_all option_id_char i \<and> hd i \<noteq> CHR ''-'' \<and> last i \<noteq> CHR ''-''"

lemma id_char_plain: "option_id_char c \<Longrightarrow> \<not> js_ws c \<and> js_lower_char c = c \<and> c \<noteq> CHR '':''"
  by (auto simp: option_id_char_def js_ws_def js_lower_char_def Let_def)

lemma no_ws_trimmed: "list_all (\<lambda>c. \<not> js_ws c) s \<Longrightarrow> trimmed s"
  by (cases s rule: rev_cases) (auto simp: trimmed_def list_all_iff hd_append)

lemma no_ws_collapse: "list_all (\<lambda>c. \<not> js_ws c) s \<Longrightarrow> js_collapse_ws r s = s"
proof -
  have "list_all (\<lambda>c. \<not> js_ws c) s \<Longrightarrow> js_runs_from js_ws b r s = s" for b
    by (induction s arbitrary: b) auto
  then show "list_all (\<lambda>c. \<not> js_ws c) s \<Longrightarrow> js_collapse_ws r s = s" by (simp add: js_collapse_ws_def js_replace_runs_def)
qed

lemma js_strip_shape:
  "js_strip c s = [] \<or> (hd (js_strip c s) \<noteq> c \<and> last (js_strip c s) \<noteq> c \<and> set (js_strip c s) \<subseteq> set s)"
proof -
  define d where "d = dropWhile ((=) c) s"
  have strip: "js_strip c s = rev (dropWhile ((=) c) (rev d))" by (simp add: js_strip_def d_def)
  show ?thesis
  proof (cases "js_strip c s = []")
    case False
    then have ne: "dropWhile ((=) c) (rev d) \<noteq> []" by (simp add: strip)
    have l: "last (js_strip c s) \<noteq> c" using hd_dropWhile [OF ne] by (simp add: strip last_rev)
    obtain t where t: "rev d = t @ dropWhile ((=) c) (rev d)" by (metis takeWhile_dropWhile_id)
    then have d': "d = js_strip c s @ rev t" by (metis rev_append rev_rev_ident strip)
    then have "hd (js_strip c s) = hd d" "d \<noteq> []" using False by (metis hd_append2, auto)
    then have "hd (js_strip c s) \<noteq> c" using hd_dropWhile [of "(=) c" s] by (simp add: d_def)
    moreover have "set (js_strip c s) \<subseteq> set s" using d' set_dropWhileD [of _ "(=) c" s] by (auto simp: d_def)
    ultimately show ?thesis using l by blast
  qed simp
qed

lemma js_strip_id: "s = [] \<or> hd s \<noteq> c \<and> last s \<noteq> c \<Longrightarrow> js_strip c s = s"
proof (elim disjE)
  assume h: "hd s \<noteq> c \<and> last s \<noteq> c"
  then have "dropWhile ((=) c) s = s" by (auto simp: dropWhile_all_not)
  moreover have "dropWhile ((=) c) (rev s) = rev s" using h by (auto simp: dropWhile_all_not hd_rev)
  ultimately show ?thesis by (simp add: js_strip_def)
qed (simp add: js_strip_def)

lemma id_shape_stable: "id_shape i \<Longrightarrow> length i \<le> 40 \<Longrightarrow> createVoteOptionId i = i"
proof -
  assume i: "id_shape i" "length i \<le> 40"
  have plain: "list_all (\<lambda>c. \<not> js_ws c) i" using i(1) id_char_plain by (auto simp: id_shape_def list_all_iff)
  have "js_lower i = i" using i(1) id_char_plain by (auto simp: id_shape_def list_all_iff js_lower_def intro: map_idI)
  moreover have "filter option_id_char i = i" using i(1) by (simp add: id_shape_def list_all_iff)
  moreover have "js_strip (CHR ''-'') i = i" using i(1) by (intro js_strip_id) (simp add: id_shape_def)
  ultimately show ?thesis
    using i plain
    by (simp add: createVoteOptionId_def js_trim_trimmed no_ws_trimmed no_ws_collapse js_slice0_def id_shape_def)
qed

lemma base_id_shape: "length (createVoteOptionId v) < 40 \<Longrightarrow> id_shape (createVoteOptionId v)"
proof -
  assume short: "length (createVoteOptionId v) < 40"
  define f where "f = filter option_id_char (js_collapse_ws ''-'' (js_lower (js_trim v)))"
  define n where "n = js_strip (CHR ''-'') f"
  have id: "createVoteOptionId v = (if take 40 n = [] then ''option'' else take 40 n)"
    by (simp add: createVoteOptionId_def n_def f_def js_slice0_def Let_def)
  show ?thesis
  proof (cases "n = []")
    case True
    then show ?thesis by (simp add: id id_shape_def option_id_char_def)
  next
    case False
    then have n: "take 40 n = n" using short by (simp add: id)
    have shape: "hd n \<noteq> CHR ''-'' \<and> last n \<noteq> CHR ''-'' \<and> set n \<subseteq> set f"
      using js_strip_shape [of "CHR ''-''" f] False by (simp add: n_def)
    then have "list_all option_id_char n" by (auto simp: list_all_iff f_def)
    then show ?thesis using shape False by (simp add: id n id_shape_def)
  qed
qed

lemma digits_id: "list_all option_id_char (js_digits n) \<and> js_digits n \<noteq> [] \<and> last (js_digits n) \<noteq> CHR ''-''"
proof (induction n rule: js_digits.induct)
  case (1 n)
  have d: "option_id_char (char_of (48 + d)) \<and> char_of (48 + d) \<noteq> CHR ''-''" if "d < 10" for d :: nat
  proof -
    have v: "(of_char (char_of (48 + d) :: char) :: nat) = 48 + d" using that by (simp add: of_char_of take_bit_eq_mod)
    moreover have "(of_char (CHR ''-'') :: nat) = 45" by simp
    moreover have "48 + d \<noteq> (45 :: nat)" by simp
    ultimately have "char_of (48 + d) \<noteq> CHR ''-''" by metis
    then show ?thesis using that v by (simp add: option_id_char_def Let_def)
  qed
  show ?case using 1 d by (subst (1 2 3) js_digits.simps) auto
qed

lemma candidate_shape: "id_shape baseId \<Longrightarrow> id_shape (option_candidate baseId index)"
  using digits_id [of index] by (auto simp: id_shape_def option_candidate_def option_id_char_def)

lemma dedupe_cases: "baseId \<noteq> [] \<Longrightarrow> dedupeVoteOptionId baseId used = baseId \<or> (\<exists>k. dedupeVoteOptionId baseId used = option_candidate baseId k)"
proof -
  have "\<exists>k. dedupe_from baseId used i = option_candidate baseId k" for i
    by (induction baseId used i rule: dedupe_from.induct) (subst dedupe_from.simps, auto)
  then show "baseId \<noteq> [] \<Longrightarrow> dedupeVoteOptionId baseId used = baseId \<or> (\<exists>k. dedupeVoteOptionId baseId used = option_candidate baseId k)"
    by (simp add: dedupeVoteOptionId_def)
qed

text \<open>An option is well formed when its label is; its identifier is stable when it has not been cut.\<close>

definition option_text :: "vote_option \<Rightarrow> string" where
  "option_text option = vo_label option @ (case vo_description option of None \<Rightarrow> [] | Some d \<Rightarrow> '' - '' @ d)"

definition description_text :: "vote_option \<Rightarrow> string" where
  "description_text option = (case vo_description option of None \<Rightarrow> [] | Some d \<Rightarrow> d)"

definition vote_option_ok :: "vote_option \<Rightarrow> bool" where
  "vote_option_ok option \<longleftrightarrow> vo_id option \<noteq> [] \<and> vo_label option \<noteq> [] \<and>
     inline_text (option_text option) \<and>
     splitOptionDescription (option_text option) = (vo_label option, description_text option) \<and>
     (\<forall>d. vo_description option = Some d \<longrightarrow> d \<noteq> []) \<and>
     (length (vo_id option) < 40 \<longrightarrow> id_shape (vo_id option))"

lemma createVoteOptionId_nonempty: "createVoteOptionId v \<noteq> []"
  by (simp add: createVoteOptionId_def Let_def)

lemma parsed_option_ok:
  assumes "parseVoteOptionLine line = (idHint, label, description)" and "inline_text line" and "line \<noteq> []"
  shows "vote_option_ok \<lparr>vo_id = dedupeVoteOptionId (createVoteOptionId h) used, vo_label = label,
    vo_description = (if description \<noteq> [] then Some description else None)\<rparr>"
proof -
  define i where "i = dedupeVoteOptionId (createVoteOptionId h) used"
  obtain v where v: "inline_text v" "v \<noteq> []" "splitOptionDescription v = (label, description)"
  proof (cases "split_colon line")
    case (Some p)
    then obtain hint rest where p: "split_colon line = Some (hint, rest)" by (cases p) auto
    have "normalizeInlineText rest \<noteq> []"
    proof -
      have r: "rest \<noteq> []" "\<not> js_ws (hd rest)"
        using p hd_dropWhile [of js_ws] by (auto simp: split_colon_def Let_def js_trim_start_def split: if_splits)
      then have "js_trim rest \<noteq> []" using trim_end_hd [of rest] by (cases rest) (auto simp: js_trim_def js_trim_start_def)
      then have "js_trim rest \<noteq> [] \<and> \<not> js_ws (hd (js_trim rest))" using trimmed_js_trim [of rest] by (auto simp: trimmed_def)
      then show ?thesis using collapse_from_hd by (auto simp: normalizeInlineText_def js_collapse_ws_def js_replace_runs_def)
    qed
    then show thesis using p assms(1) that [of "normalizeInlineText rest"] by (simp add: parseVoteOptionLine_def)
  next
    case None
    then show thesis using assms that [of line] by (simp add: parseVoteOptionLine_def)
  qed
  have s: "v = label @ (if description = [] then [] else '' - '' @ description)" "label \<noteq> []"
    using split_description [OF v(1,3)] v(2) by auto
  have "id_shape i" if "length i < 40"
  proof -
    have c: "i = createVoteOptionId h \<or> (\<exists>k. i = option_candidate (createVoteOptionId h) k)"
      using dedupe_cases [OF createVoteOptionId_nonempty] by (simp add: i_def)
    then have "length (createVoteOptionId h) < 40" using that by (auto simp: option_candidate_def)
    then show ?thesis using c base_id_shape candidate_shape by metis
  qed
  moreover have "i \<noteq> []" using id_nonempty createVoteOptionId_nonempty by (simp add: i_def)
  ultimately show ?thesis using v s unfolding i_def [symmetric]
    by (auto simp: vote_option_ok_def option_text_def description_text_def)
qed

lemma options_ok: "list_all vote_option_ok options \<Longrightarrow> list_all vote_option_ok (vote_options_from options lines)"
proof (induction options lines rule: vote_options_from.induct)
  case (2 options line lines)
  obtain idHint label description where p: "parseVoteOptionLine (normalizeInlineText line) = (idHint, label, description)"
    by (metis prod_cases3)
  show ?case
    using 2 p parsed_option_ok [OF p inline_normalized] by (simp add: Let_def)
qed simp

section \<open>Editing\<close>

definition option_line :: "vote_option \<Rightarrow> string" where
  "option_line option = vo_id option @ '': '' @ vo_label option @
     (case vo_description option of None \<Rightarrow> [] | Some d \<Rightarrow> if d = [] then [] else '' - '' @ d)"

lemma id_shape_no_colon: "id_shape i \<Longrightarrow> CHR '':'' \<notin> set i \<and> inline_text i"
proof -
  assume i: "id_shape i"
  have "list_all (\<lambda>c. \<not> js_ws c) i" using i id_char_plain by (auto simp: id_shape_def list_all_iff)
  then have "trimmed i \<and> collapsed i"
    using no_ws_trimmed no_ws_collapse [of i "'' ''"] collapsed_js_collapse [of i] by metis
  then show ?thesis using i id_char_plain by (auto simp: id_shape_def list_all_iff inline_text_def)
qed

lemma parse_option_line:
  assumes "vote_option_ok option" and "length (vo_id option) < 40"
  shows "parseVoteOptionLine (option_line option) =
    (vo_id option, vo_label option, description_text option)"
proof -
  define v where "v = option_text option"
  have v: "inline_text v" "v \<noteq> []" "splitOptionDescription v = (vo_label option, description_text option)"
    using assms(1) by (auto simp: vote_option_ok_def v_def option_text_def)
  have shape: "id_shape (vo_id option)" using assms by (simp add: vote_option_ok_def)
  have line: "option_line option = vo_id option @ '': '' @ v"
    using assms(1) by (auto simp: option_line_def option_text_def v_def vote_option_ok_def split: option.split)
  show ?thesis
    using split_colon_format [OF _ _ v(1,2), of "vo_id option"] id_shape_no_colon [OF shape] shape v(1,3)
    by (simp add: parseVoteOptionLine_def line id_shape_def)
qed

lemma no_ws_collapsed_blank: "list_all (\<lambda>c. \<not> js_ws c) s \<Longrightarrow> s \<noteq> [] \<Longrightarrow> collapsed_from b (s @ [CHR '' ''])"
proof (induction s arbitrary: b)
  case (Cons c s)
  then show ?case by (cases "s = []") auto
qed simp

lemma option_line_inline:
  assumes "vote_option_ok option" and "length (vo_id option) < 40"
  shows "inline_text (option_line option) \<and> option_line option \<noteq> []"
proof -
  have shape: "id_shape (vo_id option)" using assms by (simp add: vote_option_ok_def)
  have v: "inline_text (option_text option)" "option_text option \<noteq> []" using assms(1) by (auto simp: vote_option_ok_def option_text_def)
  have line: "option_line option = (vo_id option @ '':'') @ CHR '' '' # option_text option"
    using assms(1) by (auto simp: option_line_def option_text_def vote_option_ok_def split: option.split)
  have plain: "list_all (\<lambda>c. \<not> js_ws c) (vo_id option @ '':'')"
    using shape id_char_plain by (auto simp: id_shape_def list_all_iff js_ws_def)
  have "collapsed_from True (option_text option)"
    using v by (cases "option_text option") (auto simp: inline_text_def trimmed_def)
  then have "collapsed (option_line option)"
    unfolding line using no_ws_collapsed_blank [OF plain, of False] by (subst collapsed_append_blank) simp
  moreover have "trimmed (option_line option)"
    using plain v by (auto simp: line trimmed_def inline_text_def hd_append list_all_iff id_shape_def)
  ultimately show ?thesis by (simp add: inline_text_def line)
qed

lemma inline_no_break: "inline_text s \<Longrightarrow> CHR 0x0A \<notin> set s \<and> (s \<noteq> [] \<longrightarrow> last s \<noteq> CHR 0x0D)"
proof -
  assume s: "inline_text s"
  have "js_ws (CHR 0x0A)" "js_ws (CHR 0x0D)" by (simp_all add: js_ws_def)
  then show ?thesis using s collapsed_no_control [of False s] by (fastforce simp: inline_text_def trimmed_def)
qed

lemma drop_cr_id: "\<forall>line \<in> set lines. line \<noteq> [] \<longrightarrow> last line \<noteq> CHR 0x0D \<Longrightarrow> drop_cr lines = lines"
  by (induction lines rule: drop_cr.induct) auto

lemma split_joined_lines:
  assumes "lines \<noteq> []" and "\<forall>line \<in> set lines. inline_text line"
  shows "split_lines (js_join [CHR 0x0A] lines) = lines"
proof -
  have "js_split (CHR 0x0A) (js_join [CHR 0x0A] lines) = lines"
    using assms inline_no_break by (intro js_split_join) auto
  then show ?thesis using assms(2) inline_no_break by (simp add: split_lines_def drop_cr_id)
qed

text \<open>The lines of stable options with new identifiers give these options.\<close>

lemma options_reread:
  assumes "list_all vote_option_ok (options @ added)" and "\<forall>option \<in> set added. length (vo_id option) < 40"
    and "distinct (map vo_id (options @ added))"
  shows "vote_options_from options (map option_line added) = options @ added"
  using assms
proof (induction added arbitrary: options)
  case (Cons option added)
  have ok: "vote_option_ok option" "length (vo_id option) < 40" using Cons.prems by simp_all
  have shape: "id_shape (vo_id option)" using ok by (simp add: vote_option_ok_def)
  have id: "createVoteOptionId (vo_id option) = vo_id option" using id_shape_stable [OF shape] ok(2) by simp
  have kept: "dedupeVoteOptionId (vo_id option) (map vo_id options) = vo_id option"
    using Cons.prems(3) shape by (auto simp: dedupeVoteOptionId_def id_shape_def)
  have "\<lparr>vo_id = vo_id option, vo_label = vo_label option,
      vo_description = (if description_text option \<noteq> [] then Some (description_text option) else None)\<rparr> = option"
    using ok(1) by (cases option; cases "vo_description option") (auto simp: vote_option_ok_def description_text_def)
  then have "vote_options_from options (map option_line (option # added)) = vote_options_from (options @ [option]) (map option_line added)"
    using option_line_inline [OF ok] parse_option_line [OF ok] shape by (simp add: id kept id_shape_def)
  then show ?case using Cons.IH [of "options @ [option]"] Cons.prems by simp
qed simp

section \<open>Counting\<close>

definition chooses :: "string \<Rightarrow> vote_result \<Rightarrow> bool" where
  "chooses i v \<longleftrightarrow> vb_parseStatus (vr_ballot v) = BallotParsed \<and> vb_choiceId (vr_ballot v) = i"

definition votes_for :: "vote_result option list \<Rightarrow> string \<Rightarrow> nat" where
  "votes_for results i = length (filter (\<lambda>vote. \<exists>v. vote = Some v \<and> chooses i v) results)"

definition unreadable_votes :: "vote_result option list \<Rightarrow> nat" where
  "unreadable_votes results =
     length (filter (\<lambda>vote. \<exists>v. vote = Some v \<and> vb_parseStatus (vr_ballot v) \<noteq> BallotParsed) results)"

definition count_of :: "(string \<rightharpoonup> nat) \<Rightarrow> string \<Rightarrow> nat" where
  "count_of counts i = (case counts i of None \<Rightarrow> 0 | Some n \<Rightarrow> n)"

lemma count_ballots_step:
  "count_ballots (Some v # results) counts n =
     (if vb_parseStatus (vr_ballot v) \<noteq> BallotParsed then count_ballots results counts (n + 1)
      else count_ballots results (counts(vb_choiceId (vr_ballot v) \<mapsto> count_of counts (vb_choiceId (vr_ballot v)) + 1)) n)"
  by (simp add: count_of_def Let_def)

lemma votes_step:
  "votes_for (None # results) i = votes_for results i" "unreadable_votes (None # results) = unreadable_votes results"
  "votes_for (Some v # results) i = (if chooses i v then 1 else 0) + votes_for results i"
  "unreadable_votes (Some v # results) =
     (if vb_parseStatus (vr_ballot v) \<noteq> BallotParsed then 1 else 0) + unreadable_votes results"
  by (simp_all add: votes_for_def unreadable_votes_def)

lemma count_of_update: "count_of (counts(c \<mapsto> n)) i = (if i = c then n else count_of counts i)"
  by (simp add: count_of_def)

lemma count_ballots_counts:
  "count_ballots results counts n = (counts', n') \<Longrightarrow>
   count_of counts' i = count_of counts i + votes_for results i \<and> n' = n + unreadable_votes results"
proof (induction results arbitrary: counts n)
  case (Cons vote results)
  show ?case
  proof (cases vote)
    case (Some v)
    show ?thesis
    proof (cases "vb_parseStatus (vr_ballot v) = BallotParsed")
      case True
      then have "count_ballots results
          (counts(vb_choiceId (vr_ballot v) \<mapsto> count_of counts (vb_choiceId (vr_ballot v)) + 1)) n = (counts', n')"
        using Cons.prems by (simp add: Some count_ballots_step del: count_ballots.simps)
      from Cons.IH [OF this] show ?thesis
        using True by (auto simp: Some votes_step chooses_def count_of_def)
    next
      case False
      then show ?thesis
        using Cons.IH [of counts "n + 1"] Cons.prems
        by (simp add: Some count_ballots_step votes_step chooses_def del: count_ballots.simps)
    qed
  qed (use Cons in \<open>auto simp: votes_step\<close>)
qed (simp add: votes_for_def unreadable_votes_def)

lemma foldl_max: "foldl max (m :: nat) xs = Max (insert m (set xs))"
proof -
  have "(\<lambda>x s. max s x) = (max :: nat \<Rightarrow> nat \<Rightarrow> nat)" by (intro ext) (rule max.commute)
  then show ?thesis using Max.set_eq_fold [of m xs] by (simp add: foldl_conv_fold)
qed

lemma foldl_max_le: "(m :: nat) \<le> foldl max m xs \<and> (\<forall>x \<in> set xs. x \<le> foldl max m xs) \<and> (foldl max m xs = m \<or> foldl max m xs \<in> set xs)"
proof -
  have "foldl max m xs \<in> insert m (set xs)" unfolding foldl_max by (rule Max_in) auto
  moreover have "x \<le> foldl max m xs" if "x \<in> insert m (set xs)" for x unfolding foldl_max using that by (intro Max_ge) auto
  ultimately show ?thesis by auto
qed

lemma foldl_add_sum: "foldl (+) m xs = m + sum_list (xs :: nat list)"
  by (induction xs arbitrary: m) auto

lemma aggregate_votes:
  assumes "createVoteAggregate results = Some a"
  shows "\<exists>first. List.find (\<lambda>vote. vote \<noteq> None) results = Some (Some first) \<and>
    va_optionCounts a = map (\<lambda>option. (option, votes_for results (vo_id option))) (vr_options first) \<and>
    va_invalidCount a = unreadable_votes results \<and>
    va_totalParsedCount a = sum_list (map snd (va_optionCounts a)) \<and>
    (\<forall>i. i \<in> set (va_winnerIds a) \<longleftrightarrow>
       0 < votes_for results i \<and> i \<in> vo_id ` set (vr_options first) \<and>
       (\<forall>option \<in> set (vr_options first). votes_for results (vo_id option) \<le> votes_for results i))"
proof -
  obtain first where first: "List.find (\<lambda>vote. vote \<noteq> None) results = Some (Some first)"
    using assms by (auto simp: createVoteAggregate_def split: option.splits)
  obtain counts n where c: "count_ballots results Map.empty 0 = (counts, n)" by fastforce
  have counts: "(case counts i of None \<Rightarrow> 0 | Some n \<Rightarrow> n) = votes_for results i" for i
    using count_ballots_counts [OF c, of i] by (simp add: count_of_def)
  define highest where "highest = foldl max 0 (map (\<lambda>option. votes_for results (vo_id option)) (vr_options first))"
  have a: "va_optionCounts a = map (\<lambda>option. (option, votes_for results (vo_id option))) (vr_options first)"
    "va_invalidCount a = unreadable_votes results" "va_totalParsedCount a = sum_list (map snd (va_optionCounts a))"
    "va_winnerIds a = (if highest = 0 then []
       else map vo_id (filter (\<lambda>option. votes_for results (vo_id option) = highest) (vr_options first)))"
    using assms first c count_ballots_counts [OF c]
    by (auto simp: createVoteAggregate_def Let_def counts foldl_add_sum highest_def comp_def filter_map)
  have h: "\<forall>option \<in> set (vr_options first). votes_for results (vo_id option) \<le> highest"
    "highest = 0 \<or> (\<exists>option \<in> set (vr_options first). votes_for results (vo_id option) = highest)"
    using foldl_max_le [of 0 "map (\<lambda>option. votes_for results (vo_id option)) (vr_options first)"]
    by (auto simp: highest_def)
  have "i \<in> set (va_winnerIds a) \<longleftrightarrow>
      0 < votes_for results i \<and> i \<in> vo_id ` set (vr_options first) \<and>
      (\<forall>option \<in> set (vr_options first). votes_for results (vo_id option) \<le> votes_for results i)" for i
  proof (cases "highest = 0")
    case True
    then show ?thesis using h by (auto simp: a(4))
  next
    case False
    then show ?thesis using h by (auto simp: a(4) intro: antisym)
  qed
  then show ?thesis using a first by (intro exI [of _ first]) auto
qed

end
