(* ===== verification/Queue_Parsers.thy ===== *)
theory Queue_Parsers
  imports Queue_Voting
begin

text \<open>
  The documents of the work queue as they are read: the guards of
  \<open>src/lib/queue/domain/queue-artifact-parsers.ts\<close> and the summaries of
  \<open>src/lib/queue/domain/queue-artifact-readers.ts\<close>. A document stays the value that \<open>JSON.parse\<close> gave
  (an argument), also when it is accepted; unions of literals are lists of names.
\<close>

section \<open>Vocabulary\<close>

definition queueWorkPriorities :: "string list" where
  "queueWorkPriorities = [''low'', ''normal'', ''high'', ''urgent'']"

definition queueResponseLanguages :: "string list" where
  "queueResponseLanguages = [''auto'', ''ko'', ''en'', ''es'', ''fr'', ''zh'', ''hi'']"

definition queueResponseFormats :: "string list" where
  "queueResponseFormats =
     [''general'', ''pros-cons'', ''feature-proposal'', ''execution-plan'', ''code-review'', ''risk-assessment'',
      ''comparison-table'', ''decision-memo'', ''bug-analysis'', ''writing-draft'', ''revision-draft'']"

definition queueArtifactStatuses :: "string list" where
  "queueArtifactStatuses = [''reserved'', ''active'', ''running'', ''failed'', ''archived'']"

definition one_of :: "string list \<Rightarrow> js \<Rightarrow> bool" where
  "one_of names value = (case value of JStr s \<Rightarrow> s \<in> set names | _ \<Rightarrow> False)"

definition isQueueArtifactStatus :: "js \<Rightarrow> bool" where
  "isQueueArtifactStatus value = one_of queueArtifactStatuses value"

definition isQueueWorkPriority :: "js \<Rightarrow> bool" where
  "isQueueWorkPriority value = one_of queueWorkPriorities value"

definition isQueueResponseLanguage :: "js \<Rightarrow> bool" where
  "isQueueResponseLanguage value = one_of queueResponseLanguages value"

definition isQueueResponseFormat :: "js \<Rightarrow> bool" where
  "isQueueResponseFormat value = one_of queueResponseFormats value"

definition isQueueTaskKind :: "js \<Rightarrow> bool" where
  "isQueueTaskKind value = one_of queueTaskKinds value"

section \<open>Guards\<close>

definition isEntityRef :: "js \<Rightarrow> string \<Rightarrow> bool" where
  "isEntityRef value kind \<longleftrightarrow>
     is_record value \<and> is_string (js_prop value ''id'') \<and> js_prop value ''kind'' = JStr kind \<and>
     is_string (js_prop value ''label'')"

definition isQueueStructuredResponse :: "js \<Rightarrow> bool" where
  "isQueueStructuredResponse value \<longleftrightarrow>
     is_record value \<and> is_string (js_prop value ''summary'') \<and> isStringArray (js_prop value ''strengths'') \<and>
     isStringArray (js_prop value ''recommendations'') \<and> isStringArray (js_prop value ''cautions'')"

definition isQueueExecutionAttempt :: "js \<Rightarrow> bool" where
  "isQueueExecutionAttempt value \<longleftrightarrow>
     is_record value \<and> is_number (js_prop value ''attempt'') \<and> is_string (js_prop value ''code'') \<and>
     is_string (js_prop value ''message'') \<and> is_boolean (js_prop value ''retryable'')"

definition isQueueTaskEvaluation :: "js \<Rightarrow> bool" where
  "isQueueTaskEvaluation value \<longleftrightarrow>
     is_record value \<and> is_string (js_prop value ''agentId'') \<and> is_string (js_prop value ''evaluationKey'') \<and>
     is_string (js_prop value ''evaluatedAt'')"

definition isQueueVoteOption :: "js \<Rightarrow> bool" where
  "isQueueVoteOption value \<longleftrightarrow>
     is_record value \<and> is_string (js_prop value ''id'') \<and> is_string (js_prop value ''label'') \<and>
     (js_prop value ''description'' = JUndefined \<or> js_prop value ''description'' = JNull \<or>
      is_string (js_prop value ''description''))"

definition isQueueVoteBallot :: "js \<Rightarrow> bool" where
  "isQueueVoteBallot value \<longleftrightarrow>
     is_record value \<and> is_string (js_prop value ''choiceId'') \<and> is_string (js_prop value ''reason'') \<and>
     isStringArray (js_prop value ''risks'') \<and>
     one_of [''parsed'', ''invalid-choice'', ''unparsed''] (js_prop value ''parseStatus'')"

definition isQueueVoteSpec :: "js \<Rightarrow> bool" where
  "isQueueVoteSpec value \<longleftrightarrow>
     is_record value \<and> is_string (js_prop value ''question'') \<and>
     is_array_of isQueueVoteOption (js_prop value ''options'') \<and> isStringArray (js_prop value ''criteria'') \<and>
     js_prop value ''responseKind'' = JStr ''single-choice''"

definition isQueueVoteResult :: "js \<Rightarrow> bool" where
  "isQueueVoteResult value \<longleftrightarrow>
     is_record value \<and> is_string (js_prop value ''question'') \<and>
     is_array_of isQueueVoteOption (js_prop value ''options'') \<and> isQueueVoteBallot (js_prop value ''ballot'')"

definition isQueueResultReportTask :: "js \<Rightarrow> bool" where
  "isQueueResultReportTask value \<longleftrightarrow>
     is_record value \<and> is_string (js_prop value ''id'') \<and> is_string (js_prop value ''title'') \<and>
     is_string (js_prop value ''summary'') \<and>
     is_optional isQueueStructuredResponse (js_prop value ''structuredResponse'') \<and>
     isStringArray (js_prop value ''filesChanged'') \<and> isStringArray (js_prop value ''verification'') \<and>
     isStringArray (js_prop value ''risks'') \<and>
     is_optional (is_array_of isQueueExecutionAttempt) (js_prop value ''executionAttempts'') \<and>
     is_optional (is_array_of isQueueTaskEvaluation) (js_prop value ''evaluations'') \<and>
     is_optional isQueueResponseLanguage (js_prop value ''responseLanguage'') \<and>
     is_optional isQueueResponseFormat (js_prop value ''responseFormat'') \<and>
     is_optional isQueueVoteResult (js_prop value ''vote'')"

definition isQueueWorkOrderTask :: "js \<Rightarrow> bool" where
  "isQueueWorkOrderTask value \<longleftrightarrow>
     is_record value \<and> is_string (js_prop value ''id'') \<and> is_optional isQueueTaskKind (js_prop value ''kind'') \<and>
     is_string (js_prop value ''title'') \<and> is_string (js_prop value ''body'') \<and>
     is_optional isQueueWorkPriority (js_prop value ''priority'') \<and>
     is_optional isQueueResponseLanguage (js_prop value ''responseLanguage'') \<and>
     is_optional isQueueResponseFormat (js_prop value ''responseFormat'') \<and>
     is_optional isStringArray (js_prop value ''projectIds'') \<and>
     is_optional isStringArray (js_prop value ''repositoryIds'') \<and>
     is_optional isStringArray (js_prop value ''skillIds'') \<and>
     is_optional isStringArray (js_prop value ''agentIds'') \<and>
     is_optional isStringArray (js_prop value ''referenceIds'') \<and>
     is_optional isQueueVoteSpec (js_prop value ''vote'') \<and>
     (js_prop value ''kind'' \<noteq> JStr ''vote'' \<or> js_prop value ''vote'' \<noteq> JUndefined) \<and>
     is_optional is_string (js_prop value ''sourceReportTaskId'') \<and>
     is_optional (one_of [''needs-work'', ''rollback'']) (js_prop value ''decision'')"

definition isQueueProposalOption :: "js \<Rightarrow> bool" where
  "isQueueProposalOption value \<longleftrightarrow>
     is_record value \<and> is_string (js_prop value ''id'') \<and> is_string (js_prop value ''name'') \<and>
     is_string (js_prop value ''summary'') \<and> isStringArray (js_prop value ''strengths'') \<and>
     isStringArray (js_prop value ''risks'')"

definition isQueueProposalRecommendation :: "js \<Rightarrow> bool" where
  "isQueueProposalRecommendation value \<longleftrightarrow>
     is_record value \<and> is_string (js_prop value ''optionId'') \<and> is_string (js_prop value ''reason'')"

definition isQueueResultReport :: "js \<Rightarrow> bool" where
  "isQueueResultReport value \<longleftrightarrow>
     is_record value \<and> js_prop value ''schemaVersion'' = JStr ''workduck.queue-result-report/v1'' \<and>
     isEntityRef (js_prop value ''ref'') ''queue-result-report'' \<and>
     isQueueArtifactStatus (js_prop value ''status'') \<and> is_string (js_prop value ''createdAt'') \<and>
     is_optional is_string (js_prop value ''agentName'') \<and>
     is_optional (\<lambda>r. isEntityRef r ''queue-work-order'') (js_prop value ''sourceWorkOrder'') \<and>
     is_array_of isQueueResultReportTask (js_prop value ''tasks'')"

definition isQueueWorkOrder :: "js \<Rightarrow> bool" where
  "isQueueWorkOrder value \<longleftrightarrow>
     is_record value \<and> js_prop value ''schemaVersion'' = JStr ''workduck.queue-work-order/v1'' \<and>
     isEntityRef (js_prop value ''ref'') ''queue-work-order'' \<and>
     isQueueArtifactStatus (js_prop value ''status'') \<and> is_string (js_prop value ''createdAt'') \<and>
     is_optional is_string (js_prop value ''agentName'') \<and>
     is_optional (\<lambda>r. isEntityRef r ''queue-result-report'') (js_prop value ''sourceReport'') \<and>
     is_array_of isQueueWorkOrderTask (js_prop value ''tasks'')"

definition isQueueProposal :: "js \<Rightarrow> bool" where
  "isQueueProposal value \<longleftrightarrow>
     is_record value \<and> js_prop value ''schemaVersion'' = JStr ''workduck.queue-proposal/v1'' \<and>
     isEntityRef (js_prop value ''ref'') ''queue-proposal'' \<and>
     isQueueArtifactStatus (js_prop value ''status'') \<and> is_string (js_prop value ''createdAt'') \<and>
     is_optional is_string (js_prop value ''agentName'') \<and>
     is_string (js_prop value ''question'') \<and> is_string (js_prop value ''summary'') \<and>
     is_array_of isQueueProposalOption (js_prop value ''options'') \<and>
     (js_prop value ''recommendation'' = JNull \<or> isQueueProposalRecommendation (js_prop value ''recommendation'')) \<and>
     is_array_of isQueueWorkOrderTask (js_prop value ''nextWorkOrders'')"

section \<open>Parsing\<close>

text \<open>Work orders of older versions hold \<open>null\<close> where a field is left out now.\<close>

definition nullableLegacyWorkOrderTaskKeys :: "string list" where
  "nullableLegacyWorkOrderTaskKeys =
     [''kind'', ''priority'', ''responseLanguage'', ''responseFormat'', ''projectIds'', ''repositoryIds'', ''skillIds'',
      ''agentIds'', ''referenceIds'', ''vote'', ''sourceReportTaskId'', ''decision'']"

definition normalizeQueueWorkOrderTaskForParsing :: "js \<Rightarrow> js" where
  "normalizeQueueWorkOrderTaskForParsing value =
     (if \<not> is_record value then value
      else fold (\<lambda>key normalized. if js_prop normalized key = JNull then js_without [key] normalized else normalized)
             nullableLegacyWorkOrderTaskKeys (JObj (spread value)))"

definition normalizeQueueWorkOrderForParsing :: "js \<Rightarrow> js" where
  "normalizeQueueWorkOrderForParsing value =
     (if \<not> is_record value \<or> \<not> js_is_array (js_prop value ''tasks'') then value
      else js_set ''tasks'' (JArr (map normalizeQueueWorkOrderTaskForParsing (js_elements (js_prop value ''tasks'')))) value)"

definition parseQueueResultReport :: "(string \<Rightarrow> js option) \<Rightarrow> string \<Rightarrow> string + js" where
  "parseQueueResultReport json_parse content =
     (case json_parse content of
        None \<Rightarrow> Inl ''Report JSON could not be parsed.''
      | Some parsed \<Rightarrow>
          if \<not> isQueueResultReport parsed then Inl ''Report JSON does not match workduck.queue-result-report/v1.''
          else Inr parsed)"

definition parseQueueWorkOrder :: "(string \<Rightarrow> js option) \<Rightarrow> string \<Rightarrow> string + js" where
  "parseQueueWorkOrder json_parse content =
     (case json_parse content of
        None \<Rightarrow> Inl ''Work-order JSON could not be parsed.''
      | Some parsed \<Rightarrow>
          (let normalized = normalizeQueueWorkOrderForParsing parsed
           in if \<not> isQueueWorkOrder normalized then Inl ''Work-order JSON does not match workduck.queue-work-order/v1.''
              else Inr normalized))"

definition parseQueueProposal :: "(string \<Rightarrow> js option) \<Rightarrow> string \<Rightarrow> string + js" where
  "parseQueueProposal json_parse content =
     (case json_parse content of
        None \<Rightarrow> Inl ''Proposal JSON could not be parsed.''
      | Some parsed \<Rightarrow>
          if \<not> isQueueProposal parsed then Inl ''Proposal JSON does not match workduck.queue-proposal/v1.''
          else Inr parsed)"

section \<open>Summaries\<close>

definition readQueueArtifactExecutionStateFromRecord :: "js \<Rightarrow> string option" where
  "readQueueArtifactExecutionStateFromRecord parsed =
     (let status = js_prop parsed ''status'' in
      if status = JStr ''archived'' then Some ''completed''
      else if status = JStr ''running'' then Some ''running''
      else if status = JStr ''failed'' then Some ''failed''
      else (let version = js_prop parsed ''schemaVersion'' in
            if version = JStr ''workduck.queue-result-report/v1'' then Some ''completed''
            else if version = JStr ''workduck.queue-work-order/v1'' \<or> version = JStr ''workduck.queue-proposal/v1''
            then Some ''pending''
            else None))"

definition readQueueArtifactAgentNameFromRecord :: "js \<Rightarrow> string" where
  "readQueueArtifactAgentNameFromRecord parsed =
     (let directAgentName = readTrimmedString (js_prop parsed ''agentName'') in
      if directAgentName \<noteq> [] then directAgentName
      else if is_record (js_prop parsed ''agent'') then readTrimmedString (js_prop (js_prop parsed ''agent'') ''name'')
      else [])"

definition readQueueArtifactCreatedAtFromRecord :: "js \<Rightarrow> string" where
  "readQueueArtifactCreatedAtFromRecord parsed = readTrimmedString (js_prop parsed ''createdAt'')"

definition record_text :: "js \<Rightarrow> string \<Rightarrow> string \<Rightarrow> string" where
  "record_text parsed name field =
     (if is_record (js_prop parsed name) then readTrimmedString (js_prop (js_prop parsed name) field) else [])"

definition readQueueArtifactTitleFromRecord :: "js \<Rightarrow> string" where
  "readQueueArtifactTitleFromRecord parsed = record_text parsed ''ref'' ''label''"

definition readQueueArtifactIdFromRecord :: "js \<Rightarrow> string" where
  "readQueueArtifactIdFromRecord parsed = record_text parsed ''ref'' ''id''"

definition readQueueArtifactSourceReportIdFromRecord :: "js \<Rightarrow> string" where
  "readQueueArtifactSourceReportIdFromRecord parsed = record_text parsed ''sourceReport'' ''id''"

definition readQueueArtifactSkillIdsFromRecord :: "js \<Rightarrow> string list" where
  "readQueueArtifactSkillIdsFromRecord parsed =
     concat (map (\<lambda>task. if is_record task then readStringArray (js_prop task ''skillIds'') else [])
       (js_elements (js_prop parsed ''tasks'')))"

definition normalizeQueueWorkPriority :: "js \<Rightarrow> string" where
  "normalizeQueueWorkPriority value = (case value of JStr s \<Rightarrow> if isQueueWorkPriority value then s else ''normal'' | _ \<Rightarrow> ''normal'')"

definition readHighestQueueWorkPriorityFromTasks :: "js \<Rightarrow> string option" where
  "readHighestQueueWorkPriorityFromTasks value =
     (let priorities = map (\<lambda>task. normalizeQueueWorkPriority (js_prop task ''priority'')) (filter is_record (js_elements value)) in
      if ''urgent'' \<in> set priorities then Some ''urgent''
      else if ''high'' \<in> set priorities then Some ''high''
      else if ''normal'' \<in> set priorities then Some ''normal''
      else if ''low'' \<in> set priorities then Some ''low''
      else None)"

record queue_artifact_summary =
  qs_artifactId :: string
  qs_agentName :: string
  qs_createdAt :: string
  qs_title :: string
  qs_priority :: "string option"
  qs_executionState :: "string option"
  qs_sourceReportId :: string
  qs_sourceWorkOrderId :: string
  qs_skillIds :: "string list"

text \<open>A reader of a text: it parses, and reads the record if it is one.\<close>

definition read_artifact :: "(js \<Rightarrow> 'a) \<Rightarrow> 'a \<Rightarrow> (string \<Rightarrow> js option) \<Rightarrow> string \<Rightarrow> 'a" where
  "read_artifact read_record fallback json_parse content =
     (case json_parse content of
        None \<Rightarrow> fallback
      | Some parsed \<Rightarrow> if is_record parsed then read_record parsed else fallback)"

definition readQueueArtifactSummary :: "(string \<Rightarrow> js option) \<Rightarrow> string \<Rightarrow> queue_artifact_summary option" where
  "readQueueArtifactSummary = read_artifact (\<lambda>parsed. Some
     \<lparr>qs_artifactId = readQueueArtifactIdFromRecord parsed,
      qs_agentName = readQueueArtifactAgentNameFromRecord parsed,
      qs_createdAt = readQueueArtifactCreatedAtFromRecord parsed,
      qs_title = readQueueArtifactTitleFromRecord parsed,
      qs_priority = readHighestQueueWorkPriorityFromTasks (js_prop parsed ''tasks''),
      qs_executionState = readQueueArtifactExecutionStateFromRecord parsed,
      qs_sourceReportId = readQueueArtifactSourceReportIdFromRecord parsed,
      qs_sourceWorkOrderId =
        (if js_prop parsed ''schemaVersion'' = JStr ''workduck.queue-result-report/v1'' \<and>
            is_record (js_prop parsed ''sourceWorkOrder'') \<and>
            js_prop (js_prop parsed ''sourceWorkOrder'') ''kind'' = JStr ''queue-work-order''
         then readTrimmedString (js_prop (js_prop parsed ''sourceWorkOrder'') ''id'') else []),
      qs_skillIds = readQueueArtifactSkillIdsFromRecord parsed\<rparr>) None"

definition readQueueWorkPriorityLabel :: "(string \<Rightarrow> js option) \<Rightarrow> string \<Rightarrow> string option" where
  "readQueueWorkPriorityLabel =
     read_artifact (\<lambda>parsed. readHighestQueueWorkPriorityFromTasks (js_prop parsed ''tasks'')) None"

definition readQueueArtifactExecutionState :: "(string \<Rightarrow> js option) \<Rightarrow> string \<Rightarrow> string option" where
  "readQueueArtifactExecutionState = read_artifact readQueueArtifactExecutionStateFromRecord None"

definition readQueueArtifactAgentName :: "(string \<Rightarrow> js option) \<Rightarrow> string \<Rightarrow> string" where
  "readQueueArtifactAgentName = read_artifact readQueueArtifactAgentNameFromRecord []"

definition readQueueArtifactCreatedAt :: "(string \<Rightarrow> js option) \<Rightarrow> string \<Rightarrow> string" where
  "readQueueArtifactCreatedAt = read_artifact readQueueArtifactCreatedAtFromRecord []"

definition readQueueArtifactTitle :: "(string \<Rightarrow> js option) \<Rightarrow> string \<Rightarrow> string" where
  "readQueueArtifactTitle = read_artifact readQueueArtifactTitleFromRecord []"

definition readQueueArtifactId :: "(string \<Rightarrow> js option) \<Rightarrow> string \<Rightarrow> string" where
  "readQueueArtifactId = read_artifact readQueueArtifactIdFromRecord []"

definition readQueueArtifactSourceReportId :: "(string \<Rightarrow> js option) \<Rightarrow> string \<Rightarrow> string" where
  "readQueueArtifactSourceReportId = read_artifact readQueueArtifactSourceReportIdFromRecord []"

definition readQueueArtifactSkillIds :: "(string \<Rightarrow> js option) \<Rightarrow> string \<Rightarrow> string list" where
  "readQueueArtifactSkillIds = read_artifact readQueueArtifactSkillIdsFromRecord []"

end
