(* ===== verification/Queue_Artifacts.thy ===== *)
theory Queue_Artifacts
  imports Queue_Parsers
begin

text \<open>
  The documents of the work queue as they are made and changed (\<open>src/lib/queue/queue-artifacts.ts\<close>).
  Identifiers and the time come as arguments. The Korean wordings, which are not in Latin-1, are given by
  an argument \<open>ko\<close>: \<open>KoLine\<close> stands for the wording at the place of an English one.
\<close>

section \<open>Normalisation\<close>

definition normalizeQueueText :: "string \<Rightarrow> string" where
  "normalizeQueueText value = js_collapse_ws '' '' (js_trim value)"

definition normalizeQueueResponseLanguage :: "js \<Rightarrow> string" where
  "normalizeQueueResponseLanguage value =
     (case value of JStr s \<Rightarrow> if isQueueResponseLanguage value then s else ''auto'' | _ \<Rightarrow> ''auto'')"

definition normalizeQueueResponseFormat :: "js \<Rightarrow> string" where
  "normalizeQueueResponseFormat value =
     (case value of JStr s \<Rightarrow> if isQueueResponseFormat value then s else ''general'' | _ \<Rightarrow> ''general'')"

definition normalizeQueueTaskKind :: "js \<Rightarrow> string" where
  "normalizeQueueTaskKind value =
     (case value of JStr s \<Rightarrow> if isQueueTaskKind value then s else ''instruction'' | _ \<Rightarrow> ''instruction'')"

fun record_ids_from :: "string list \<Rightarrow> js list \<Rightarrow> string list" where
  "record_ids_from ids [] = ids"
| "record_ids_from ids (item # items) =
     (case item of
        JStr s \<Rightarrow> (let id = normalizeQueueText s in
          if id = [] \<or> id \<in> set ids then record_ids_from ids items else record_ids_from (ids @ [id]) items)
      | _ \<Rightarrow> record_ids_from ids items)"

definition normalizeQueueRecordIds :: "js \<Rightarrow> string list" where
  "normalizeQueueRecordIds value = record_ids_from [] (js_elements value)"

section \<open>Manual work orders\<close>

text \<open>The inputs of the editor; a field that is left out is \<open>undefined\<close>, and \<open>vote\<close> may be \<open>null\<close>.\<close>

record manual_input =
  mi_title :: string
  mi_body :: string
  mi_priority :: js
  mi_skillIds :: js
  mi_agentIds :: js
  mi_referenceIds :: js
  mi_projectIds :: js
  mi_repositoryIds :: js
  mi_kind :: js
  mi_vote :: js
  mi_responseLanguage :: js
  mi_responseFormat :: js

definition id_fields :: "string \<Rightarrow> js \<Rightarrow> (string \<times> js) list" where
  "id_fields name value =
     (let ids = normalizeQueueRecordIds value in fields_when (ids \<noteq> []) [(name, js_strings ids)])"

text \<open>The fields that creating and updating a task share, in their order.\<close>

definition task_fields :: "manual_input \<Rightarrow> js \<Rightarrow> (string \<times> js) list" where
  "task_fields i vote =
     (let kind = normalizeQueueTaskKind (mi_kind i) in
      fields_when (kind \<noteq> ''instruction'') [(''kind'', JStr kind)] @
      [(''title'', JStr (normalizeQueueText (mi_title i))), (''body'', JStr (normalizeQueueText (mi_body i))),
       (''priority'', JStr (normalizeQueueWorkPriority (mi_priority i))),
       (''responseLanguage'', JStr (normalizeQueueResponseLanguage (mi_responseLanguage i)))] @
      fields_when (kind = ''instruction'') [(''responseFormat'', JStr (normalizeQueueResponseFormat (mi_responseFormat i)))] @
      id_fields ''projectIds'' (mi_projectIds i) @ id_fields ''repositoryIds'' (mi_repositoryIds i) @
      id_fields ''skillIds'' (mi_skillIds i) @ id_fields ''agentIds'' (mi_agentIds i) @
      id_fields ''referenceIds'' (mi_referenceIds i) @
      fields_when (vote \<noteq> JNull) [(''vote'', vote)])"

definition createManualQueueWorkOrder :: "manual_input \<Rightarrow> string \<Rightarrow> string \<Rightarrow> string \<Rightarrow> js" where
  "createManualQueueWorkOrder i orderId taskId now =
     (let vote = (if normalizeQueueTaskKind (mi_kind i) = ''vote'' then mi_vote i else JNull)
      in JObj
        [(''schemaVersion'', JStr ''workduck.queue-work-order/v1''),
         (''ref'', JObj [(''id'', JStr orderId), (''kind'', JStr ''queue-work-order''),
            (''label'', JStr (normalizeQueueText (mi_title i)))]),
         (''status'', JStr ''active''), (''createdAt'', JStr now),
         (''tasks'', JArr [JObj ((''id'', JStr taskId) # task_fields i vote)])])"

text \<open>The fields of a task that an update takes away before it sets its own.\<close>

definition reassigned_names :: "string list" where
  "reassigned_names = [''skillIds'', ''agentIds'', ''referenceIds'', ''projectIds'', ''repositoryIds'', ''kind'', ''vote'',
     ''responseLanguage'', ''responseFormat'']"

definition updateQueueWorkOrderTask :: "js \<Rightarrow> string \<Rightarrow> manual_input \<Rightarrow> js" where
  "updateQueueWorkOrderTask workOrder taskId i =
     (let vote = (if normalizeQueueTaskKind (mi_kind i) = ''vote''
                  then (if mi_vote i = JUndefined then JNull else mi_vote i) else JNull);
          old = js_elements (js_prop workOrder ''tasks'');
          tasks = map (\<lambda>task.
            if js_prop task ''id'' \<noteq> JStr taskId then task
            else js_set_all (task_fields i vote)
                   (js_without reassigned_names task)) old;
          ref = (if length old = 1 then js_set ''label'' (JStr (normalizeQueueText (mi_title i))) (js_prop workOrder ''ref'')
                 else js_prop workOrder ''ref'')
      in js_set_all [(''ref'', ref), (''tasks'', JArr tasks)] workOrder)"

section \<open>Execution states\<close>

definition archiveQueueWorkOrder :: "js \<Rightarrow> js" where
  "archiveQueueWorkOrder workOrder = js_set ''status'' (JStr ''archived'') workOrder"

definition startQueueWorkOrderExecution :: "js \<Rightarrow> js" where
  "startQueueWorkOrderExecution workOrder = js_set ''status'' (JStr ''running'') workOrder"

definition failQueueWorkOrderExecution :: "js \<Rightarrow> js" where
  "failQueueWorkOrderExecution workOrder = js_set ''status'' (JStr ''failed'') workOrder"

section \<open>Evaluations of a report\<close>

text \<open>A string field of a typed value.\<close>

definition text_of :: "js \<Rightarrow> string" where
  "text_of v = (case v of JStr s \<Rightarrow> s | _ \<Rightarrow> [])"

definition createQueueReportTaskEvaluationKey :: "js \<Rightarrow> js \<Rightarrow> string" where
  "createQueueReportTaskEvaluationKey report task =
     ''queue-report:'' @ text_of (js_prop (js_prop report ''ref'') ''id'') @ '':'' @ text_of (js_prop task ''id'')"

definition hasQueueReportTaskEvaluation :: "js \<Rightarrow> string \<Rightarrow> bool" where
  "hasQueueReportTaskEvaluation task agentId =
     list_ex (\<lambda>evaluation. js_prop evaluation ''agentId'' = JStr agentId) (js_elements (js_prop task ''evaluations''))"

definition record_evaluation :: "js \<Rightarrow> string \<Rightarrow> string \<Rightarrow> string \<Rightarrow> js \<Rightarrow> js" where
  "record_evaluation report taskId agentId now task =
     (if js_prop task ''id'' \<noteq> JStr taskId \<or> hasQueueReportTaskEvaluation task agentId then task
      else js_set ''evaluations''
        (JArr (js_elements (js_prop task ''evaluations'') @
           [JObj [(''agentId'', JStr agentId), (''evaluationKey'', JStr (createQueueReportTaskEvaluationKey report task)),
              (''evaluatedAt'', JStr now)]])) task)"

definition recordQueueReportTaskEvaluation :: "js \<Rightarrow> string \<Rightarrow> string \<Rightarrow> string \<Rightarrow> js" where
  "recordQueueReportTaskEvaluation report taskId agentId now =
     js_set ''tasks'' (JArr (map (record_evaluation report taskId agentId now) (js_elements (js_prop report ''tasks'')))) report"

definition serializeQueueArtifact :: "(js \<Rightarrow> string) \<Rightarrow> js \<Rightarrow> string" where
  "serializeQueueArtifact stringify artifact = stringify artifact @ [CHR 0x0A]"

section \<open>Follow-ups of a review\<close>

datatype ko_phrase =
    KoLine string
  | KoFollowUpLabel string
  | KoEvaluationTitle string
  | KoDefaultBody string string   \<comment> \<open>title, decision\<close>

record report_review =
  rv_taskId :: string
  rv_decision :: string
  rv_comment :: string

definition createDefaultReportReviews :: "js \<Rightarrow> report_review list" where
  "createDefaultReportReviews report =
     map (\<lambda>task. \<lparr>rv_taskId = text_of (js_prop task ''id''), rv_decision = ''pending'', rv_comment = []\<rparr>)
       (js_elements (js_prop report ''tasks''))"

text \<open>The Hangul syllables and letters that are looked for.\<close>

definition containsKoreanText :: "string \<Rightarrow> bool" where
  "containsKoreanText value = list_ex (\<lambda>c. let n = (of_char c :: nat) in
     (0xAC00 \<le> n \<and> n \<le> 0xD7A3) \<or> (0x3131 \<le> n \<and> n \<le> 0x314E) \<or> (0x314F \<le> n \<and> n \<le> 0x3163)) value"

definition getExplicitFollowUpLanguage :: "js \<Rightarrow> string option" where
  "getExplicitFollowUpLanguage language =
     (if language = JStr ''ko'' then Some ''ko'' else if language = JStr ''en'' then Some ''en'' else None)"

text \<open>A report task or a review that is not there has empty texts.\<close>

definition getFollowUpTaskLanguage :: "js option \<Rightarrow> report_review option \<Rightarrow> string" where
  "getFollowUpTaskLanguage reportTask review =
     (case getExplicitFollowUpLanguage (case reportTask of None \<Rightarrow> JUndefined | Some t \<Rightarrow> js_prop t ''responseLanguage'') of
        Some language \<Rightarrow> language
      | None \<Rightarrow>
          (let texts = (case reportTask of
                 None \<Rightarrow> [[], [], [], []]
               | Some t \<Rightarrow> [text_of (js_prop t ''title''), text_of (js_prop t ''summary''),
                   js_join '' '' (readStringArray (js_prop t ''verification'')),
                   js_join '' '' (readStringArray (js_prop t ''risks''))])
               @ [case review of None \<Rightarrow> [] | Some r \<Rightarrow> rv_comment r]
           in if containsKoreanText (js_join '' '' texts) then ''ko'' else ''en''))"

definition getFollowUpResponseLanguage :: "js option \<Rightarrow> string \<Rightarrow> string" where
  "getFollowUpResponseLanguage reportTask fallbackLanguage =
     (let language = normalizeQueueResponseLanguage (case reportTask of None \<Rightarrow> JUndefined | Some t \<Rightarrow> js_prop t ''responseLanguage'')
      in if language = ''auto'' then fallbackLanguage else language)"

definition say :: "(ko_phrase \<Rightarrow> string) \<Rightarrow> string \<Rightarrow> string \<Rightarrow> string" where
  "say ko language english = (if language = ''ko'' then ko (KoLine english) else english)"

definition getFollowUpDecisionLabel :: "(ko_phrase \<Rightarrow> string) \<Rightarrow> string \<Rightarrow> string \<Rightarrow> string" where
  "getFollowUpDecisionLabel ko decision language =
     say ko language (if decision = ''rollback'' then ''Rollback'' else ''Needs work'')"

definition createDefaultFollowUpTaskBody :: "(ko_phrase \<Rightarrow> string) \<Rightarrow> string \<Rightarrow> string \<Rightarrow> string \<Rightarrow> string" where
  "createDefaultFollowUpTaskBody ko decisionLabel title language =
     (if language = ''ko'' then ko (KoDefaultBody title decisionLabel)
      else decisionLabel @ '' requested for '' @ title @ ''.'')"

text \<open>\<open>new Map(tasks.map(task => [task.id, task]))\<close>: a later task with the same identifier wins.\<close>

definition createQueueReportTaskIndex :: "js list \<Rightarrow> string \<Rightarrow> js option" where
  "createQueueReportTaskIndex reportTasks taskId =
     List.find (\<lambda>task. js_prop task ''id'' = JStr taskId) (rev reportTasks)"

definition selected_review :: "report_review \<Rightarrow> bool" where
  "selected_review review \<longleftrightarrow> rv_decision review = ''needs-work'' \<or> rv_decision review = ''rollback''"

definition getFollowUpWorkOrderLanguage :: "js list \<Rightarrow> report_review list \<Rightarrow> string" where
  "getFollowUpWorkOrderLanguage reportTasks reviews =
     (let firstSelectedReview = List.find selected_review reviews
      in getFollowUpTaskLanguage
           (case firstSelectedReview of None \<Rightarrow> None | Some r \<Rightarrow> createQueueReportTaskIndex reportTasks (rv_taskId r))
           firstSelectedReview)"

definition follow_up_task :: "(ko_phrase \<Rightarrow> string) \<Rightarrow> js list \<Rightarrow> report_review \<Rightarrow> string \<Rightarrow> js" where
  "follow_up_task ko reportTasks review taskId =
     (let reportTask = createQueueReportTaskIndex reportTasks (rv_taskId review);
          title = (case reportTask of Some t \<Rightarrow> text_of (js_prop t ''title'') | None \<Rightarrow> rv_taskId review);
          decision = (if rv_decision review = ''rollback'' then ''rollback'' else ''needs-work'');
          language = getFollowUpTaskLanguage reportTask (Some review);
          decisionLabel = getFollowUpDecisionLabel ko decision language;
          comment = js_trim (rv_comment review)
      in JObj [(''id'', JStr taskId), (''title'', JStr (decisionLabel @ '': '' @ title)),
           (''body'', JStr (if comment \<noteq> [] then comment else createDefaultFollowUpTaskBody ko decisionLabel title language)),
           (''priority'', JStr ''normal''),
           (''responseLanguage'', JStr (getFollowUpResponseLanguage reportTask language)),
           (''sourceReportTaskId'', JStr (rv_taskId review)), (''decision'', JStr decision)])"

text \<open>The identifiers of the tasks come in the order in which they are drawn.\<close>

definition createQueueWorkOrderFromReportReview ::
  "(ko_phrase \<Rightarrow> string) \<Rightarrow> js \<Rightarrow> report_review list \<Rightarrow> string \<Rightarrow> (nat \<Rightarrow> string) \<Rightarrow> string \<Rightarrow> js" where
  "createQueueWorkOrderFromReportReview ko report reviews orderId taskIds now =
     (let reportTasks = js_elements (js_prop report ''tasks'');
          selected = filter selected_review reviews;
          label = text_of (js_prop (js_prop report ''ref'') ''label'')
      in JObj
        [(''schemaVersion'', JStr ''workduck.queue-work-order/v1''),
         (''ref'', JObj [(''id'', JStr orderId), (''kind'', JStr ''queue-work-order''),
            (''label'', JStr (if getFollowUpWorkOrderLanguage reportTasks reviews = ''ko'' then ko (KoFollowUpLabel label)
                              else ''Review follow-up for '' @ label))]),
         (''status'', JStr ''active''), (''createdAt'', JStr now), (''sourceReport'', js_prop report ''ref''),
         (''tasks'', JArr (map (\<lambda>(n, review). follow_up_task ko reportTasks review (taskIds n)) (enumerate 0 selected)))])"

text \<open>
  The work order that asks for the evaluation of a report (the second half of
  \<open>src/lib/queue/queue-artifacts.ts\<close>): which answers are left out of the scoring, and the text of the
  order. The Korean markers of a failed answer do not occur in Latin-1 text and are left out.
\<close>

section \<open>Answers that are not scored\<close>

datatype skip_reason = ResponseFailed | FormatViolation | ToolCallTranscript

definition reportEvaluationResponseFailureMarkers :: "string list" where
  "reportEvaluationResponseFailureMarkers =
     [''response was not received'', ''response failed'', ''no response'', ''nonresponse'']"

definition reportEvaluationFormatViolationMarkers :: "string list" where
  "reportEvaluationFormatViolationMarkers =
     [''structured response could not be parsed'', ''response format violation'', ''did not follow the requested format'',
      ''malformed response'']"

definition reportEvaluationToolCallMarkers :: "string list" where
  "reportEvaluationToolCallMarkers =
     [''<tool_call'', ''<tool_calls_section'', ''functions.bash'', ''tool-call token'', ''tool call token'',
      [CHR 0x60, CHR 0x60, CHR 0x60] @ ''bash'', [CHR 0x60, CHR 0x60, CHR 0x60] @ ''sh'']"

text \<open>\<open>s.includes(t)\<close>\<close>

fun js_includes_text :: "string \<Rightarrow> string \<Rightarrow> bool" where
  "js_includes_text [] t \<longleftrightarrow> t = []"
| "js_includes_text (c # cs) t \<longleftrightarrow> prefix t (c # cs) \<or> js_includes_text cs t"

definition includesAnyEvaluationMarker :: "string \<Rightarrow> string list \<Rightarrow> bool" where
  "includesAnyEvaluationMarker value markers =
     (let normalized = js_lower value in list_ex (\<lambda>marker. js_includes_text normalized (js_lower marker)) markers)"

definition getReportEvaluationSkipReason :: "js \<Rightarrow> skip_reason option" where
  "getReportEvaluationSkipReason task =
     (let summary = js_trim (text_of (js_prop task ''summary''));
          verificationText = js_join [CHR 0x0A] (readStringArray (js_prop task ''verification''));
          riskText = js_join [CHR 0x0A] (readStringArray (js_prop task ''risks''));
          combinedText = js_join [CHR 0x0A] [summary, verificationText, riskText]
      in if summary = [] \<or> includesAnyEvaluationMarker combinedText reportEvaluationResponseFailureMarkers
         then Some ResponseFailed
         else if includesAnyEvaluationMarker combinedText reportEvaluationToolCallMarkers then Some ToolCallTranscript
         else if includesAnyEvaluationMarker combinedText reportEvaluationFormatViolationMarkers then Some FormatViolation
         else None)"

definition getReportEvaluationSkipReasonLabel :: "(ko_phrase \<Rightarrow> string) \<Rightarrow> skip_reason \<Rightarrow> string \<Rightarrow> string" where
  "getReportEvaluationSkipReasonLabel ko reason language =
     say ko language
       (case reason of
          ResponseFailed \<Rightarrow> ''nonresponse or response failure''
        | FormatViolation \<Rightarrow> ''requested response format violation''
        | ToolCallTranscript \<Rightarrow> ''tool-call token response'')"

definition createReportEvaluationTargets :: "js \<Rightarrow> js list" where
  "createReportEvaluationTargets report =
     filter (\<lambda>task. getReportEvaluationSkipReason task = None) (js_elements (js_prop report ''tasks''))"

section \<open>The text of the order\<close>

definition getReportTaskAgentName :: "js \<Rightarrow> string" where
  "getReportTaskAgentName task =
     (let title = text_of (js_prop task ''title'');
          name = js_trim (hd (js_split (CHR '':'') title))
      in if name \<noteq> [] then name else title)"

definition summarizeReportTaskForEvaluation :: "string \<Rightarrow> string" where
  "summarizeReportTaskForEvaluation summary =
     (let normalized = js_trim (js_collapse_ws '' '' summary)
      in if length normalized \<le> 280 then normalized else js_trim_end (js_slice0 277 normalized) @ ''...'')"

definition createReportEvaluationTargetSummary :: "(ko_phrase \<Rightarrow> string) \<Rightarrow> js \<Rightarrow> nat \<Rightarrow> string \<Rightarrow> string" where
  "createReportEvaluationTargetSummary ko task index language =
     (let vote = js_prop task ''vote'';
          ballot = js_prop vote ''ballot''
      in js_join [CHR 0x0A]
        ([js_digits (index + 1) @ ''. '' @ getReportTaskAgentName task,
          say ko language ''   Response ID: '' @ text_of (js_prop task ''id''),
          say ko language ''   Task: '' @ text_of (js_prop task ''title''),
          say ko language ''   Response summary: '' @ summarizeReportTaskForEvaluation (text_of (js_prop task ''summary''))] @
         (if vote \<noteq> JUndefined \<and> js_prop ballot ''parseStatus'' = JStr ''parsed''
          then [say ko language ''   Vote choice: '' @ text_of (js_prop ballot ''choiceId'')] else [])))"

definition createSkippedReportEvaluationTargetSummaries :: "(ko_phrase \<Rightarrow> string) \<Rightarrow> js \<Rightarrow> string \<Rightarrow> string list" where
  "createSkippedReportEvaluationTargetSummaries ko report language =
     (let skippedTargets = concat (map (\<lambda>task. case getReportEvaluationSkipReason task of None \<Rightarrow> [] | Some reason \<Rightarrow> [(task, reason)])
            (js_elements (js_prop report ''tasks'')))
      in if skippedTargets = [] then []
         else [[], say ko language ''Excluded from scoring:''] @
           map (\<lambda>(task, reason). ''- '' @ getReportTaskAgentName task @ '': '' @ getReportEvaluationSkipReasonLabel ko reason language)
             skippedTargets)"

text \<open>The value that is printed as the template of the scores.\<close>

definition evaluation_template :: "js \<Rightarrow> js \<Rightarrow> js" where
  "evaluation_template report task = JObj
     [(''reportTaskId'', js_prop task ''id''), (''agentName'', JStr (getReportTaskAgentName task)),
      (''evaluationKey'', JStr (createQueueReportTaskEvaluationKey report task)),
      (''scores'', JObj [(''problemUnderstanding'', JInt 5), (''logicalValidity'', JInt 5), (''practicalFeasibility'', JInt 5),
         (''creativeInsight'', JInt 5), (''riskDetection'', JInt 5)])]"

definition createReportEvaluationBatchJsonTemplate :: "(js \<Rightarrow> string) \<Rightarrow> js \<Rightarrow> js list \<Rightarrow> string" where
  "createReportEvaluationBatchJsonTemplate stringify report targets =
     stringify (JObj [(''evaluations'', JArr (map (evaluation_template report) targets))])"

definition quoteQueueCliArgument :: "string \<Rightarrow> string" where
  "quoteQueueCliArgument value =
     [CHR 0x22] @ concat (map (\<lambda>c. if c = CHR 0x22 then [CHR 0x5C, CHR 0x22] else [c]) value) @ [CHR 0x22]"

definition getEvaluationDelegationLanguage :: "js \<Rightarrow> string" where
  "getEvaluationDelegationLanguage report =
     (let tasks = js_elements (js_prop report ''tasks'') in
      case List.find (\<lambda>language. language \<noteq> None) (map (\<lambda>task. getExplicitFollowUpLanguage (js_prop task ''responseLanguage'')) tasks) of
        Some (Some language) \<Rightarrow> language
      | _ \<Rightarrow>
          if containsKoreanText (js_join '' '' (text_of (js_prop (js_prop report ''ref'') ''label'') #
               concat (map (\<lambda>task. [text_of (js_prop task ''title''), text_of (js_prop task ''summary''),
                 js_join '' '' (readStringArray (js_prop task ''verification'')),
                 js_join '' '' (readStringArray (js_prop task ''risks''))]) tasks)))
          then ''ko'' else ''en'')"

definition getEvaluationDelegationResponseLanguage :: "js \<Rightarrow> string \<Rightarrow> string" where
  "getEvaluationDelegationResponseLanguage report fallbackLanguage =
     (case List.find (\<lambda>language. language \<noteq> ''auto'')
             (map (\<lambda>task. normalizeQueueResponseLanguage (js_prop task ''responseLanguage'')) (js_elements (js_prop report ''tasks''))) of
        Some language \<Rightarrow> language
      | None \<Rightarrow> fallbackLanguage)"

definition createReportEvaluationDelegationBody ::
  "(ko_phrase \<Rightarrow> string) \<Rightarrow> (js \<Rightarrow> string) \<Rightarrow> js \<Rightarrow> string \<Rightarrow> string option \<Rightarrow> string \<Rightarrow> string" where
  "createReportEvaluationDelegationBody ko stringify report workspacePath reportPath language =
     (let reportLocation = (case reportPath of Some p \<Rightarrow> p | None \<Rightarrow> text_of (js_prop (js_prop report ''ref'') ''id''));
          targets = createReportEvaluationTargets report;
          batchCommand = js_join '' '' [''workduck'', ''agent'', ''evaluate-batch'', ''--workspace'',
            quoteQueueCliArgument workspacePath, ''--input'', ''<evaluation-json-path>'']
      in js_join [CHR 0x0A]
        ([say ko language ''This task is for Codex.'',
          say ko language ''Evaluate every agent response in the result report with 1-9 scores, then save the scores to the agent evaluation summary.'',
          [],
          say ko language ''Result report: '' @ reportLocation,
          say ko language ''Workspace: '' @ workspacePath,
          [],
          say ko language ''Criteria:'',
          say ko language ''- Problem understanding'',
          say ko language ''- Logical validity'',
          say ko language ''- Practical feasibility'',
          say ko language ''- Creative insight'',
          say ko language ''- Risk detection'',
          [],
          say ko language ''Scoring exclusion rules:'',
          say ko language ''- Do not assign 1-point scores to nonresponses, response failures, format violations, or responses that only contain tool-call tokens.'',
          say ko language ''- Excluded targets must stay out of the JSON below.'',
          [],
          say ko language ''Targets:''] @
         map (\<lambda>(n, task). createReportEvaluationTargetSummary ko task n language) (enumerate 0 targets) @
         createSkippedReportEvaluationTargetSummaries ko report language @
         [[],
          say ko language ''After choosing scores, save this JSON to a file and run the command below.'',
          [],
          createReportEvaluationBatchJsonTemplate stringify report targets,
          [],
          batchCommand]))"

definition createQueueWorkOrderForReportEvaluation ::
  "(ko_phrase \<Rightarrow> string) \<Rightarrow> (js \<Rightarrow> string) \<Rightarrow> js \<Rightarrow> string \<Rightarrow> string option \<Rightarrow> string \<Rightarrow> string \<Rightarrow> string \<Rightarrow> string \<Rightarrow> js" where
  "createQueueWorkOrderForReportEvaluation ko stringify report workspacePath reportPath evaluatorSkillId orderId taskId now =
     (let language = getEvaluationDelegationLanguage report;
          label = text_of (js_prop (js_prop report ''ref'') ''label'');
          title = (if language = ''ko'' then ko (KoEvaluationTitle label) else ''Evaluation delegation for '' @ label)
      in JObj
        [(''schemaVersion'', JStr ''workduck.queue-work-order/v1''),
         (''ref'', JObj [(''id'', JStr orderId), (''kind'', JStr ''queue-work-order''), (''label'', JStr title)]),
         (''status'', JStr ''active''), (''createdAt'', JStr now), (''sourceReport'', js_prop report ''ref''),
         (''tasks'', JArr [JObj [(''id'', JStr taskId), (''title'', JStr title),
            (''body'', JStr (createReportEvaluationDelegationBody ko stringify report workspacePath reportPath language)),
            (''priority'', JStr ''normal''),
            (''responseLanguage'', JStr (getEvaluationDelegationResponseLanguage report language)),
            (''skillIds'', js_strings [evaluatorSkillId])]])])"

end
