(* ===== verification/Queue_Laws.thy ===== *)
theory Queue_Laws
  imports Queue_Artifacts
begin

text \<open>
  What the operations on queue documents guarantee: the orders they make and change are orders the parser
  accepts, and reading a stored order twice is reading it once.
\<close>

named_theorems queue_names \<open>the vocabularies, unfolded\<close>

declare queueWorkPriorities_def [queue_names] queueResponseLanguages_def [queue_names] queueResponseFormats_def [queue_names]
  queueArtifactStatuses_def [queue_names] queueTaskKinds_def [queue_names]

section \<open>Vocabulary\<close>

lemma one_of_str [simp]: "one_of names (JStr s) \<longleftrightarrow> s \<in> set names"
  by (simp add: one_of_def)

lemma one_of_undefined [simp]: "\<not> one_of names JUndefined"
  by (simp add: one_of_def)

lemma normalized_names [simp]:
  "normalizeQueueWorkPriority v \<in> set queueWorkPriorities"
  "normalizeQueueResponseLanguage v \<in> set queueResponseLanguages"
  "normalizeQueueResponseFormat v \<in> set queueResponseFormats"
  "normalizeQueueTaskKind v \<in> set queueTaskKinds"
  by (auto simp: normalizeQueueWorkPriority_def normalizeQueueResponseLanguage_def normalizeQueueResponseFormat_def
      normalizeQueueTaskKind_def isQueueWorkPriority_def isQueueResponseLanguage_def isQueueResponseFormat_def
      isQueueTaskKind_def queue_names split: js.split)

section \<open>Fields\<close>

lemma map_of_append_case: "map_of (xs @ ys) k = (case map_of xs k of None \<Rightarrow> map_of ys k | Some w \<Rightarrow> Some w)"
  by (simp add: map_add_def split: option.split)

lemma map_of_fields_when: "map_of (fields_when b ps) k = (if b then map_of ps k else None)"
  by (simp add: fields_when_def)

lemma map_of_id_fields:
  "map_of (id_fields name v) k =
     (if k = name \<and> normalizeQueueRecordIds v \<noteq> [] then Some (js_strings (normalizeQueueRecordIds v)) else None)"
  by (simp add: id_fields_def Let_def map_of_fields_when)

text \<open>The fields that a task gets, by name.\<close>

definition task_field :: "manual_input \<Rightarrow> js \<Rightarrow> string \<Rightarrow> js option" where
  "task_field i vote k = map_of (task_fields i vote) k"

lemma task_field_cases:
  "task_field i vote ''id'' = None" "task_field i vote ''sourceReportTaskId'' = None" "task_field i vote ''decision'' = None"
  "task_field i vote ''title'' = Some (JStr (normalizeQueueText (mi_title i)))"
  "task_field i vote ''body'' = Some (JStr (normalizeQueueText (mi_body i)))"
  "task_field i vote ''priority'' = Some (JStr (normalizeQueueWorkPriority (mi_priority i)))"
  "task_field i vote ''responseLanguage'' = Some (JStr (normalizeQueueResponseLanguage (mi_responseLanguage i)))"
  "task_field i vote ''kind'' = (if normalizeQueueTaskKind (mi_kind i) \<noteq> ''instruction'' then Some (JStr (normalizeQueueTaskKind (mi_kind i))) else None)"
  "task_field i vote ''responseFormat'' = (if normalizeQueueTaskKind (mi_kind i) = ''instruction'' then Some (JStr (normalizeQueueResponseFormat (mi_responseFormat i))) else None)"
  "task_field i vote ''vote'' = (if vote \<noteq> JNull then Some vote else None)"
  by (simp_all add: task_field_def task_fields_def Let_def map_of_append_case map_of_fields_when map_of_id_fields
      del: map_of_append split: option.split)

lemma task_field_ids:
  "task_field i vote ''projectIds'' = map_of (id_fields ''projectIds'' (mi_projectIds i)) ''projectIds''"
  "task_field i vote ''repositoryIds'' = map_of (id_fields ''repositoryIds'' (mi_repositoryIds i)) ''repositoryIds''"
  "task_field i vote ''skillIds'' = map_of (id_fields ''skillIds'' (mi_skillIds i)) ''skillIds''"
  "task_field i vote ''agentIds'' = map_of (id_fields ''agentIds'' (mi_agentIds i)) ''agentIds''"
  "task_field i vote ''referenceIds'' = map_of (id_fields ''referenceIds'' (mi_referenceIds i)) ''referenceIds''"
  by (simp_all add: task_field_def task_fields_def Let_def map_of_append_case map_of_fields_when map_of_id_fields
      del: map_of_append split: option.split)

lemma id_fields_optional:
  "is_optional isStringArray (case map_of (id_fields name v) name of None \<Rightarrow> JUndefined | Some w \<Rightarrow> w)"
  "(case map_of (id_fields name v) name of None \<Rightarrow> JUndefined | Some w \<Rightarrow> w) \<noteq> JNull"
  by (simp_all add: map_of_id_fields is_optional_def) (simp add: js_strings_def)

text \<open>A vote as the editor passes it on: it is there for a vote, and only then.\<close>

definition vote_given :: "manual_input \<Rightarrow> js \<Rightarrow> bool" where
  "vote_given i vote \<longleftrightarrow>
     (if normalizeQueueTaskKind (mi_kind i) = ''vote'' then isQueueVoteSpec vote else vote = JNull)"

lemma vote_spec_value: "isQueueVoteSpec v \<Longrightarrow> v \<noteq> JNull \<and> v \<noteq> JUndefined"
  by (auto simp: isQueueVoteSpec_def is_record_def)

section \<open>Tasks\<close>

text \<open>A task that has these fields, and otherwise fields that the guard accepts.\<close>

lemma task_accepted:
  assumes "is_record task" and "is_string (js_prop task ''id'')"
    and "is_optional is_string (js_prop task ''sourceReportTaskId'')"
    and "is_optional (one_of [''needs-work'', ''rollback'']) (js_prop task ''decision'')"
    and "\<And>k. k \<in> {''kind'', ''title'', ''body'', ''priority'', ''responseLanguage'', ''responseFormat'', ''projectIds'',
        ''repositoryIds'', ''skillIds'', ''agentIds'', ''referenceIds'', ''vote''} \<Longrightarrow>
      js_prop task k = (case task_field i vote k of None \<Rightarrow> JUndefined | Some w \<Rightarrow> w)"
    and "vote_given i vote"
  shows "isQueueWorkOrderTask task"
proof -
  have ids: "is_optional isStringArray (js_prop task ''projectIds'')" "is_optional isStringArray (js_prop task ''repositoryIds'')"
    "is_optional isStringArray (js_prop task ''skillIds'')" "is_optional isStringArray (js_prop task ''agentIds'')"
    "is_optional isStringArray (js_prop task ''referenceIds'')"
    by (simp_all only: assms(5) insert_iff simp_thms task_field_ids id_fields_optional)
  have kind: "is_optional isQueueTaskKind (js_prop task ''kind'')"
    "js_prop task ''kind'' = JStr ''vote'' \<longleftrightarrow> normalizeQueueTaskKind (mi_kind i) = ''vote''"
    by (simp_all add: assms(5) task_field_cases is_optional_def isQueueTaskKind_def)
  have vote: "is_optional isQueueVoteSpec (js_prop task ''vote'') \<and>
      (js_prop task ''kind'' \<noteq> JStr ''vote'' \<or> js_prop task ''vote'' \<noteq> JUndefined)"
    using assms(6) kind(2) vote_spec_value [of vote]
    by (auto simp: assms(5) task_field_cases vote_given_def is_optional_def split: if_splits)
  have "is_string (js_prop task ''title'')" "is_string (js_prop task ''body'')"
    "is_optional isQueueWorkPriority (js_prop task ''priority'')"
    "is_optional isQueueResponseLanguage (js_prop task ''responseLanguage'')"
    "is_optional isQueueResponseFormat (js_prop task ''responseFormat'')"
    by (simp_all add: assms(5) task_field_cases is_optional_def isQueueWorkPriority_def isQueueResponseLanguage_def isQueueResponseFormat_def)
  then show ?thesis
    unfolding isQueueWorkOrderTask_def using assms(1-4) ids kind(1) vote by (intro conjI) simp_all
qed

lemma manual_task_prop:
  "js_prop (JObj ((''id'', JStr t) # task_fields i vote)) k =
     (if k = ''id'' then JStr t else (case task_field i vote k of None \<Rightarrow> JUndefined | Some w \<Rightarrow> w))"
  by (simp add: task_field_def js_prop_obj)

lemma manual_task_accepted:
  "vote_given i vote \<Longrightarrow> isQueueWorkOrderTask (JObj ((''id'', JStr t) # task_fields i vote))"
  by (rule task_accepted [of _ i vote]) (auto simp: manual_task_prop task_field_cases)

definition manual_vote :: "manual_input \<Rightarrow> js" where
  "manual_vote i = (if normalizeQueueTaskKind (mi_kind i) = ''vote'' then mi_vote i else JNull)"

lemma manual_order_accepted:
  assumes "vote_given i (manual_vote i)"
  shows "isQueueWorkOrder (createManualQueueWorkOrder i orderId taskId now)"
proof -
  have "createManualQueueWorkOrder i orderId taskId now = JObj
      [(''schemaVersion'', JStr ''workduck.queue-work-order/v1''),
       (''ref'', JObj [(''id'', JStr orderId), (''kind'', JStr ''queue-work-order''),
          (''label'', JStr (normalizeQueueText (mi_title i)))]),
       (''status'', JStr ''active''), (''createdAt'', JStr now),
       (''tasks'', JArr [JObj ((''id'', JStr taskId) # task_fields i (manual_vote i))])]"
    by (simp add: createManualQueueWorkOrder_def manual_vote_def)
  then show ?thesis
    using manual_task_accepted [OF assms, of taskId]
    by (simp add: isQueueWorkOrder_def isEntityRef_def isQueueArtifactStatus_def queue_names js_prop_obj)
qed

section \<open>Reading stored orders\<close>

lemma update_known: "map_of ps k = Some v \<Longrightarrow> AList.update k v ps = ps"
  by (induction ps) auto

lemma legacy_fold:
  "js_prop (fold (\<lambda>key n. if js_prop n key = JNull then js_without [key] n else n) keys (JObj ps)) k =
     (if k \<in> set keys \<and> js_prop (JObj ps) k = JNull then JUndefined else js_prop (JObj ps) k) \<and>
   (\<exists>qs. fold (\<lambda>key n. if js_prop n key = JNull then js_without [key] n else n) keys (JObj ps) = JObj qs)"
proof (induction keys arbitrary: ps)
  case (Cons key keys)
  define qs where "qs = (if js_prop (JObj ps) key = JNull then filter (\<lambda>p. fst p \<notin> {key}) ps else ps)"
  have "(if js_prop (JObj ps) key = JNull then js_without [key] (JObj ps) else JObj ps) = JObj qs"
    by (simp add: qs_def js_without_def spread_def)
  moreover have "js_prop (JObj qs) j = (if j = key \<and> js_prop (JObj ps) j = JNull then JUndefined else js_prop (JObj ps) j)" for j
    using map_of_filter_keys [of "{key}" ps j] by (auto simp: qs_def js_prop_obj)
  ultimately show ?case using Cons.IH [of qs] by (auto)
qed simp

lemma normalized_task_prop:
  "is_record task \<Longrightarrow> js_prop (normalizeQueueWorkOrderTaskForParsing task) k =
     (if k \<in> set nullableLegacyWorkOrderTaskKeys \<and> js_prop (JObj (spread task)) k = JNull then JUndefined
      else js_prop (JObj (spread task)) k)"
  by (simp add: normalizeQueueWorkOrderTaskForParsing_def legacy_fold)

lemma legacy_fold_id:
  "(\<And>k. k \<in> set keys \<Longrightarrow> js_prop v k \<noteq> JNull) \<Longrightarrow>
   fold (\<lambda>key n. if js_prop n key = JNull then js_without [key] n else n) keys v = v"
  by (induction keys) auto

lemma normalized_task_again:
  "normalizeQueueWorkOrderTaskForParsing (normalizeQueueWorkOrderTaskForParsing task) = normalizeQueueWorkOrderTaskForParsing task"
proof (cases "is_record task")
  case True
  define n where "n = normalizeQueueWorkOrderTaskForParsing task"
  obtain qs where qs: "n = JObj qs"
    using legacy_fold [of nullableLegacyWorkOrderTaskKeys "spread task"] True
    by (auto simp: n_def normalizeQueueWorkOrderTaskForParsing_def)
  have "js_prop n k \<noteq> JNull" if "k \<in> set nullableLegacyWorkOrderTaskKeys" for k
    using normalized_task_prop [OF True, of k] that by (auto simp: n_def)
  then have "normalizeQueueWorkOrderTaskForParsing n = n"
    using legacy_fold_id [of nullableLegacyWorkOrderTaskKeys n]
    by (simp add: normalizeQueueWorkOrderTaskForParsing_def qs spread_def)
  then show ?thesis by (simp add: n_def)
qed (simp add: normalizeQueueWorkOrderTaskForParsing_def)

lemma normalized_order_again:
  "normalizeQueueWorkOrderForParsing (normalizeQueueWorkOrderForParsing v) = normalizeQueueWorkOrderForParsing v"
proof (cases "is_record v \<and> js_is_array (js_prop v ''tasks'')")
  case True
  then obtain ps vs where v: "v = JObj ps" "map_of ps ''tasks'' = Some (JArr vs)"
    by (auto simp: is_record_iff js_is_array_def js_prop_obj split: js.splits option.splits)
  define ns where "ns = map normalizeQueueWorkOrderTaskForParsing vs"
  have n: "normalizeQueueWorkOrderForParsing v = JObj (AList.update ''tasks'' (JArr ns) ps)"
    using v by (simp add: normalizeQueueWorkOrderForParsing_def js_set_def spread_def ns_def js_prop_obj)
  have m: "map_of (AList.update ''tasks'' (JArr ns) ps) ''tasks'' = Some (JArr ns)" by (simp add: update_conv')
  show ?thesis
    unfolding n using update_known [OF m]
    by (simp add: normalizeQueueWorkOrderForParsing_def m js_set_def spread_def js_prop_obj)
      (simp add: ns_def comp_def normalized_task_again)
qed (auto simp: normalizeQueueWorkOrderForParsing_def)

lemma normalized_order_id:
  assumes "js_prop (JObj ps) ''tasks'' = JArr vs"
    and "\<And>task k. task \<in> set vs \<Longrightarrow> k \<in> set nullableLegacyWorkOrderTaskKeys \<Longrightarrow> js_prop task k \<noteq> JNull"
    and "\<And>task. task \<in> set vs \<Longrightarrow> \<exists>qs. task = JObj qs"
  shows "normalizeQueueWorkOrderForParsing (JObj ps) = JObj ps"
proof -
  have "normalizeQueueWorkOrderTaskForParsing task = task" if "task \<in> set vs" for task
  proof -
    obtain qs where "task = JObj qs" using assms(3) [OF \<open>task \<in> set vs\<close>] by blast
    then show ?thesis
      using legacy_fold_id [of nullableLegacyWorkOrderTaskKeys task] assms(2) [OF that]
      by (simp add: normalizeQueueWorkOrderTaskForParsing_def spread_def)
  qed
  then have "map normalizeQueueWorkOrderTaskForParsing vs = vs" by (simp add: map_idI)
  moreover have "map_of ps ''tasks'' = Some (JArr vs)" using assms(1) by (simp add: js_prop_obj split: option.splits)
  ultimately show ?thesis
    by (simp add: normalizeQueueWorkOrderForParsing_def js_set_def spread_def update_known assms(1))
qed

end
