(* ===== verification/Queue_Changes.thy ===== *)
theory Queue_Changes
  imports Queue_Laws Schemas
begin

text \<open>
  Changing accepted queue documents: the results are accepted, and what is not meant is left alone.
\<close>

section \<open>Work orders\<close>

lemma accepted_obj:
  "isQueueWorkOrder w \<Longrightarrow> \<exists>ps. w = JObj ps" "isQueueWorkOrderTask t \<Longrightarrow> \<exists>ps. t = JObj ps"
  "isQueueResultReport r \<Longrightarrow> \<exists>ps. r = JObj ps" "isQueueResultReportTask u \<Longrightarrow> \<exists>ps. u = JObj ps"
  "isEntityRef e kind \<Longrightarrow> \<exists>ps. e = JObj ps"
  by (auto simp: isQueueWorkOrder_def isQueueWorkOrderTask_def isQueueResultReport_def isQueueResultReportTask_def
      isEntityRef_def is_record_iff is_string_iff)

lemma accepted_tasks:
  "isQueueWorkOrder w \<Longrightarrow> \<exists>ts. js_prop w ''tasks'' = JArr ts \<and> (\<forall>t \<in> set ts. isQueueWorkOrderTask t)"
  "isQueueResultReport r \<Longrightarrow> \<exists>ts. js_prop r ''tasks'' = JArr ts \<and> (\<forall>t \<in> set ts. isQueueResultReportTask t)"
  by (auto simp: isQueueWorkOrder_def isQueueResultReport_def is_array_of_def list_all_iff split: js.splits)

lemma status_kept:
  assumes "isQueueWorkOrder w" and "s \<in> set queueArtifactStatuses"
  shows "isQueueWorkOrder (js_set ''status'' (JStr s) w)"
proof -
  obtain ps where "w = JObj ps" using accepted_obj(1) [OF assms(1)] by blast
  then show ?thesis using assms by (simp add: isQueueWorkOrder_def isQueueArtifactStatus_def)
qed

lemma status_read:
  "js_prop (js_set ''status'' (JStr s) (JObj ps)) ''status'' = JStr s"
  by simp

text \<open>What an update makes of a task that it is meant for.\<close>

definition edited_task :: "manual_input \<Rightarrow> js \<Rightarrow> js \<Rightarrow> js" where
  "edited_task i vote task = js_set_all (task_fields i vote) (js_without reassigned_names task)"

definition edited_vote :: "manual_input \<Rightarrow> js" where
  "edited_vote i = (if normalizeQueueTaskKind (mi_kind i) = ''vote''
     then (if mi_vote i = JUndefined then JNull else mi_vote i) else JNull)"

lemma distinct_id_fields: "distinct (map fst (id_fields name v)) \<and> set (map fst (id_fields name v)) \<subseteq> {name}"
  by (simp add: id_fields_def Let_def fields_when_def)

lemma distinct_task_fields: "distinct (map fst (task_fields i vote))"
  by (simp add: task_fields_def id_fields_def Let_def fields_when_def)

lemma map_of_rev_distinct: "distinct (map fst ps) \<Longrightarrow> map_of (rev ps) k = map_of ps k"
proof (induction ps)
  case (Cons p ps)
  then have "map_of ps (fst p) = None" by (auto simp: map_of_eq_None_iff)
  then show ?case using Cons by (cases p) (auto simp: map_of_append_case simp del: map_of_append split: option.split)
qed simp

lemma edited_task_prop:
  "js_prop (edited_task i vote (JObj ps)) k = (case task_field i vote k of
     Some w \<Rightarrow> w | None \<Rightarrow> if k \<in> set reassigned_names then JUndefined else js_prop (JObj ps) k)"
proof -
  obtain qs where qs: "js_without reassigned_names (JObj ps) = JObj qs" by (simp add: js_without_def)
  have "js_prop (JObj qs) k = (if k \<in> set reassigned_names then JUndefined else js_prop (JObj ps) k)"
    unfolding qs [symmetric] by simp
  then show ?thesis
    by (simp add: edited_task_def qs js_prop_set_all map_of_rev_distinct [OF distinct_task_fields] task_field_def split: option.split)
qed

lemma edited_task_accepted:
  assumes "isQueueWorkOrderTask task" and "vote_given i vote"
  shows "isQueueWorkOrderTask (edited_task i vote task) \<and> js_prop (edited_task i vote task) ''id'' = js_prop task ''id''"
proof -
  obtain ps where ps: "task = JObj ps" using accepted_obj(2) [OF assms(1)] by blast
  have kept: "js_prop (edited_task i vote task) ''id'' = js_prop task ''id''"
    "js_prop (edited_task i vote task) ''sourceReportTaskId'' = js_prop task ''sourceReportTaskId''"
    "js_prop (edited_task i vote task) ''decision'' = js_prop task ''decision''"
    by (simp_all add: ps edited_task_prop task_field_cases reassigned_names_def)
  have "is_record (edited_task i vote task)" by (simp add: edited_task_def)
  moreover have "is_string (js_prop task ''id'')" "is_optional is_string (js_prop task ''sourceReportTaskId'')"
    "is_optional (one_of [''needs-work'', ''rollback'']) (js_prop task ''decision'')"
    using assms(1) by (simp_all add: isQueueWorkOrderTask_def)
  moreover have "js_prop (edited_task i vote task) k = (case task_field i vote k of None \<Rightarrow> JUndefined | Some w \<Rightarrow> w)"
    if "k \<in> {''kind'', ''title'', ''body'', ''priority'', ''responseLanguage'', ''responseFormat'', ''projectIds'',
        ''repositoryIds'', ''skillIds'', ''agentIds'', ''referenceIds'', ''vote''}" for k
    using that unfolding insert_iff empty_iff
    by (elim disjE) (simp_all add: ps edited_task_prop task_field_cases task_field_ids map_of_id_fields reassigned_names_def)
  ultimately show ?thesis using kept by (intro conjI task_accepted [OF _ _ _ _ _ assms(2)]) simp_all
qed

lemma update_order:
  assumes "isQueueWorkOrder w" and "vote_given i (edited_vote i)"
  shows "isQueueWorkOrder (updateQueueWorkOrderTask w taskId i) \<and>
    js_elements (js_prop (updateQueueWorkOrderTask w taskId i) ''tasks'') =
      map (\<lambda>task. if js_prop task ''id'' \<noteq> JStr taskId then task else edited_task i (edited_vote i) task)
        (js_elements (js_prop w ''tasks'')) \<and>
    js_prop (js_prop (updateQueueWorkOrderTask w taskId i) ''ref'') ''id'' = js_prop (js_prop w ''ref'') ''id''"
proof -
  obtain ps where ps: "w = JObj ps" using accepted_obj(1) [OF assms(1)] by blast
  obtain ts where ts: "js_prop w ''tasks'' = JArr ts" "\<forall>t \<in> set ts. isQueueWorkOrderTask t"
    using accepted_tasks(1) [OF assms(1)] by blast
  obtain rs where rs: "js_prop w ''ref'' = JObj rs" "isEntityRef (JObj rs) ''queue-work-order''"
    using assms(1) accepted_obj(5) by (metis isQueueWorkOrder_def)
  define ref where "ref = (if length ts = 1 then js_set ''label'' (JStr (normalizeQueueText (mi_title i))) (JObj rs) else JObj rs)"
  define tasks where "tasks = map (\<lambda>task. if js_prop task ''id'' \<noteq> JStr taskId then task else edited_task i (edited_vote i) task) ts"
  have u: "updateQueueWorkOrderTask w taskId i = js_set_all [(''ref'', ref), (''tasks'', JArr tasks)] (JObj ps)"
    using ts(1) rs(1)
    unfolding ps updateQueueWorkOrderTask_def edited_vote_def [symmetric] edited_task_def [symmetric] Let_def ref_def tasks_def
    by simp
  have r: "isEntityRef ref ''queue-work-order''" "js_prop ref ''id'' = js_prop (JObj rs) ''id''"
    using rs(2) by (auto simp: ref_def isEntityRef_def)
  have t: "\<forall>t \<in> set tasks. isQueueWorkOrderTask t"
    using ts(2) edited_task_accepted [OF _ assms(2)] by (auto simp: tasks_def)
  show ?thesis
    using assms(1) r t ts(1) rs(1) unfolding u
    by (simp add: ps js_prop_set_all isQueueWorkOrder_def list_all_iff) (simp add: tasks_def)
qed

section \<open>Evaluations\<close>

lemma evaluation_recorded:
  assumes "isQueueResultReportTask task" and "js_prop task ''id'' = JStr taskId"
  shows "hasQueueReportTaskEvaluation (record_evaluation report taskId agentId now task) agentId"
proof (cases "hasQueueReportTaskEvaluation task agentId")
  case False
  obtain ps where "task = JObj ps" using accepted_obj(4) [OF assms(1)] by blast
  then show ?thesis using assms(2) False
    by (simp add: record_evaluation_def hasQueueReportTaskEvaluation_def) (simp add: js_prop_obj)
qed (simp add: record_evaluation_def)

lemma evaluation_accepted:
  assumes "isQueueResultReportTask task"
  shows "isQueueResultReportTask (record_evaluation report taskId agentId now task) \<and>
    js_prop (record_evaluation report taskId agentId now task) ''id'' = js_prop task ''id''"
proof -
  obtain ps where ps: "task = JObj ps" using accepted_obj(4) [OF assms] by blast
  have "list_all isQueueTaskEvaluation (js_elements (js_prop task ''evaluations''))"
    using assms
    by (auto simp: isQueueResultReportTask_def is_optional_def is_array_of_def js_elements_def split: js.splits)
  moreover define new where "new = JObj [(''agentId'', JStr agentId),
     (''evaluationKey'', JStr (createQueueReportTaskEvaluationKey report task)), (''evaluatedAt'', JStr now)]"
  moreover have "isQueueTaskEvaluation new" by (simp add: new_def isQueueTaskEvaluation_def js_prop_obj)
  ultimately have "is_optional (is_array_of isQueueTaskEvaluation) (JArr (js_elements (js_prop task ''evaluations'') @ [new]))"
    by (simp add: is_optional_def)
  then show ?thesis
    using assms unfolding new_def ps isQueueResultReportTask_def by (simp add: record_evaluation_def)
qed

lemma record_report:
  assumes "isQueueResultReport r"
  shows "js_elements (js_prop (recordQueueReportTaskEvaluation r taskId agentId now) ''tasks'') =
      map (record_evaluation r taskId agentId now) (js_elements (js_prop r ''tasks'')) \<and>
    isQueueResultReport (recordQueueReportTaskEvaluation r taskId agentId now)"
proof -
  obtain ps where ps: "r = JObj ps" using accepted_obj(3) [OF assms] by blast
  obtain ts where ts: "js_prop r ''tasks'' = JArr ts" "\<forall>t \<in> set ts. isQueueResultReportTask t"
    using accepted_tasks(2) [OF assms] by blast
  have "list_all isQueueResultReportTask (map (record_evaluation r taskId agentId now) ts)"
    using ts(2) evaluation_accepted by (auto simp: list_all_iff)
  then show ?thesis using assms ts(1)
    by (simp add: recordQueueReportTaskEvaluation_def ps isQueueResultReport_def list_all_iff)
qed

lemma update_update: "AList.update k v (AList.update k v' ps) = AList.update k v ps"
  by (induction ps) auto

text \<open>An evaluation by the same agent, later: nothing changes.\<close>

lemma record_again:
  assumes "isQueueResultReport r"
  shows "recordQueueReportTaskEvaluation (recordQueueReportTaskEvaluation r taskId agentId now) taskId agentId later =
    recordQueueReportTaskEvaluation r taskId agentId now"
proof -
  obtain ps where ps: "r = JObj ps" using accepted_obj(3) [OF assms] by blast
  obtain ts where ts: "js_prop r ''tasks'' = JArr ts" "\<forall>t \<in> set ts. isQueueResultReportTask t"
    using accepted_tasks(2) [OF assms] by blast
  define r1 where "r1 = recordQueueReportTaskEvaluation r taskId agentId now"
  have tasks: "js_elements (js_prop r1 ''tasks'') = map (record_evaluation r taskId agentId now) ts"
    using record_report [OF assms] ts(1) by (simp add: r1_def)
  have "record_evaluation r1 taskId agentId later (record_evaluation r taskId agentId now t) = record_evaluation r taskId agentId now t"
    if "t \<in> set ts" for t
    using that ts(2) evaluation_recorded [of t taskId r agentId now] evaluation_accepted [of t r taskId agentId now]
    by (cases "js_prop t ''id'' = JStr taskId") (auto simp: record_evaluation_def)
  then have "map (record_evaluation r1 taskId agentId later) (map (record_evaluation r taskId agentId now) ts) =
      map (record_evaluation r taskId agentId now) ts" by simp
  then have "recordQueueReportTaskEvaluation r1 taskId agentId later = js_set ''tasks'' (JArr (map (record_evaluation r taskId agentId now) ts)) r1"
    by (simp add: recordQueueReportTaskEvaluation_def tasks del: map_map)
  also have "\<dots> = r1"
    using ts(1) by (simp add: r1_def recordQueueReportTaskEvaluation_def ps js_set_def spread_def update_update)
  finally show ?thesis by (simp add: r1_def)
qed

section \<open>Orders made from a report\<close>

lemma follow_up_language: "getFollowUpTaskLanguage t r \<in> set queueResponseLanguages"
  by (auto simp: getFollowUpTaskLanguage_def getExplicitFollowUpLanguage_def Let_def queue_names split: option.split)

lemma follow_up_response_language: "l \<in> set queueResponseLanguages \<Longrightarrow> getFollowUpResponseLanguage t l \<in> set queueResponseLanguages"
  by (simp add: getFollowUpResponseLanguage_def Let_def)

lemma follow_up_accepted: "isQueueWorkOrderTask (follow_up_task ko tasks review taskId)"
  using follow_up_response_language [OF follow_up_language]
  by (simp add: follow_up_task_def Let_def isQueueWorkOrderTask_def js_prop_obj is_optional_def isQueueWorkPriority_def
      isQueueResponseLanguage_def) (simp add: queue_names)

lemma delegation_language:
  "getEvaluationDelegationLanguage r \<in> set queueResponseLanguages"
  "l \<in> set queueResponseLanguages \<Longrightarrow> getEvaluationDelegationResponseLanguage r l \<in> set queueResponseLanguages"
proof -
  have "language \<in> {''ko'', ''en''}"
    if "List.find (\<lambda>language. language \<noteq> None) (map (\<lambda>task. getExplicitFollowUpLanguage (js_prop task ''responseLanguage'')) ts) = Some (Some language)" for ts language
    using find_Some_props [OF that] by (auto simp: getExplicitFollowUpLanguage_def split: if_splits)
  then show "getEvaluationDelegationLanguage r \<in> set queueResponseLanguages"
    by (fastforce simp: getEvaluationDelegationLanguage_def Let_def queue_names split: option.split)
  show "l \<in> set queueResponseLanguages \<Longrightarrow> getEvaluationDelegationResponseLanguage r l \<in> set queueResponseLanguages"
    by (auto simp: getEvaluationDelegationResponseLanguage_def dest!: find_Some_props split: option.split)
qed

lemma report_ref: "isQueueResultReport r \<Longrightarrow> isEntityRef (js_prop r ''ref'') ''queue-result-report''"
  by (simp add: isQueueResultReport_def)

lemma order_accepted:
  assumes "list_all isQueueWorkOrderTask ts" and "isEntityRef ref ''queue-result-report''"
  shows "isQueueWorkOrder (JObj [(''schemaVersion'', JStr ''workduck.queue-work-order/v1''),
    (''ref'', JObj [(''id'', JStr i), (''kind'', JStr ''queue-work-order''), (''label'', JStr l)]),
    (''status'', JStr ''active''), (''createdAt'', JStr now), (''sourceReport'', ref), (''tasks'', JArr ts)])"
  using assms by (simp add: isQueueWorkOrder_def js_prop_obj isEntityRef_def [of "JObj _"] isQueueArtifactStatus_def is_optional_def)
    (simp add: queue_names)

lemma review_order_accepted:
  "isQueueResultReport r \<Longrightarrow> isQueueWorkOrder (createQueueWorkOrderFromReportReview ko r reviews orderId taskIds now)"
  unfolding createQueueWorkOrderFromReportReview_def Let_def
  by (rule order_accepted [OF _ report_ref]) (auto simp: list_all_iff follow_up_accepted)

lemma delegation_accepted:
  assumes "isQueueResultReport r"
  shows "isQueueWorkOrder (createQueueWorkOrderForReportEvaluation ko stringify r workspacePath reportPath skill orderId taskId now)"
proof -
  have "isQueueWorkOrderTask (JObj [(''id'', JStr taskId), (''title'', JStr t), (''body'', JStr b), (''priority'', JStr ''normal''),
      (''responseLanguage'', JStr (getEvaluationDelegationResponseLanguage r (getEvaluationDelegationLanguage r))),
      (''skillIds'', js_strings [skill])])" for t b
    using delegation_language(2) [OF delegation_language(1)]
    by (simp add: isQueueWorkOrderTask_def js_prop_obj is_optional_def isQueueWorkPriority_def isQueueResponseLanguage_def)
      (simp add: queue_names)
  then show ?thesis
    unfolding createQueueWorkOrderForReportEvaluation_def Let_def
    by (intro order_accepted report_ref [OF assms]) simp
qed

text \<open>
  The work orders of the editor against the schema that is published for them
  (\<open>packages/schemas/src/index.ts\<close>).
\<close>

lemma key_iff: "k \<in> set (js_keys (JObj ps)) \<longleftrightarrow> map_of ps k \<noteq> None"
  by (simp add: js_keys_def map_of_eq_None_iff)

lemma record_ids_nonempty: "[] \<notin> set ids \<Longrightarrow> [] \<notin> set (record_ids_from ids items)"
  by (induction ids items rule: record_ids_from.induct) (auto simp: Let_def split: js.split)

lemma record_ids_distinct: "distinct ids \<Longrightarrow> distinct (record_ids_from ids items)"
  by (induction ids items rule: record_ids_from.induct) (auto simp: Let_def split: js.split)

lemma ids_valid [simp]: "accepts R stringArray (js_strings (normalizeQueueRecordIds v))"
proof -
  have "[] \<notin> set (normalizeQueueRecordIds v)" by (simp add: normalizeQueueRecordIds_def record_ids_nonempty)
  then show ?thesis
    by (auto simp: stringArray_def nonEmptyString_def js_strings_def type_matches_def) (metis length_greater_0_conv Suc_leI)
qed

lemma string_valid [simp]: "accepts R nonEmptyString (JStr s) \<longleftrightarrow> s \<noteq> []"
  by (simp add: nonEmptyString_def type_matches_def) (metis Suc_le_eq length_greater_0_conv)

lemma enum_valid [simp]: "accepts R (Schema [Type [''string''], Enum names]) (JStr s) \<longleftrightarrow> s \<in> set names"
  by (simp add: type_matches_def)

text \<open>The schema of a task.\<close>

definition order_task_properties :: "(string \<times> js_schema) list" where
  "order_task_properties =
           [(''id'', nonEmptyString),
            (''kind'', Schema [Type [''string''], Enum workduckQueueTaskKinds]),
            (''title'', nonEmptyString),
            (''body'', nonEmptyString),
            (''priority'', Schema [Type [''string''], Enum workduckQueueWorkPriorities]),
            (''responseLanguage'', Schema [Type [''string''], Enum workduckQueueResponseLanguages]),
            (''projectIds'', stringArray),
            (''skillIds'', stringArray),
            (''agentIds'', stringArray),
            (''referenceIds'', stringArray),
            (''sourceReportTaskId'', nonEmptyString),
            (''decision'', Schema [Type [''string''], Enum workduckQueueReviewDecisions])]"

definition order_task_schema :: js_schema where
  "order_task_schema = Schema [Type [''object''], AdditionalProperties False, Required [''id'', ''title'', ''body''],
     Properties order_task_properties]"

lemma object_schema_accepts:
  "accepts R (Schema [Type [''object''], AdditionalProperties False, Required names, Properties ps]) v \<longleftrightarrow>
     type_matches ''object'' v \<and> set (js_keys v) \<subseteq> set (map fst ps) \<and> keyword_accepts R [] (Required names) v \<and>
     (\<forall>p \<in> set ps. fst p \<in> set (js_keys v) \<longrightarrow> accepts R (snd p) (js_prop v (fst p)))"
  by (simp add: declared_def)

lemma id_field_keys: "fst ` set (id_fields name v) = (if normalizeQueueRecordIds v = [] then {} else {name})"
  by (simp add: id_fields_def Let_def fields_when_def)

lemma task_keys:
  "set (js_keys (JObj ((''id'', JStr t) # task_fields i JNull))) =
     {''id'', ''title'', ''body'', ''priority'', ''responseLanguage''} \<union>
     (if normalizeQueueTaskKind (mi_kind i) = ''instruction'' then {''responseFormat''} else {''kind''}) \<union>
     (if normalizeQueueRecordIds (mi_projectIds i) = [] then {} else {''projectIds''}) \<union>
     (if normalizeQueueRecordIds (mi_repositoryIds i) = [] then {} else {''repositoryIds''}) \<union>
     (if normalizeQueueRecordIds (mi_skillIds i) = [] then {} else {''skillIds''}) \<union>
     (if normalizeQueueRecordIds (mi_agentIds i) = [] then {} else {''agentIds''}) \<union>
     (if normalizeQueueRecordIds (mi_referenceIds i) = [] then {} else {''referenceIds''})"
  by (auto simp: js_keys_def task_fields_def Let_def id_field_keys fields_when_def image_Un)

lemma same_names:
  "workduckQueueTaskKinds = queueTaskKinds" "workduckQueueWorkPriorities = queueWorkPriorities"
  "workduckQueueResponseLanguages = queueResponseLanguages"
  by (simp_all add: workduckQueueTaskKinds_def workduckQueueWorkPriorities_def workduckQueueResponseLanguages_def queue_names)

lemma manual_task_schema:
  assumes "normalizeQueueTaskKind (mi_kind i) \<noteq> ''vote''"
  shows "accepts R order_task_schema (JObj ((''id'', JStr t) # task_fields i JNull)) \<longleftrightarrow>
    normalizeQueueTaskKind (mi_kind i) = ''direct-message'' \<and> normalizeQueueRecordIds (mi_repositoryIds i) = [] \<and>
    t \<noteq> [] \<and> normalizeQueueText (mi_title i) \<noteq> [] \<and> normalizeQueueText (mi_body i) \<noteq> []"
proof -
  define task where "task = JObj ((''id'', JStr t) # task_fields i JNull)"
  have kind: "normalizeQueueTaskKind (mi_kind i) = ''instruction'' \<or> normalizeQueueTaskKind (mi_kind i) = ''direct-message''"
    using normalized_names(4) [of "mi_kind i"] assms by (auto simp: queueTaskKinds_def)
  have pr: "js_prop task k = (if k = ''id'' then JStr t else (case task_field i JNull k of None \<Rightarrow> JUndefined | Some w \<Rightarrow> w))" for k
    by (simp add: task_def manual_task_prop)
  have obj: "type_matches ''object'' task" by (simp add: task_def type_matches_def)
  have req: "keyword_accepts R ds (Required ns) task \<longleftrightarrow> set ns \<subseteq> set (js_keys task)" for ds ns by (simp add: task_def)
  have keys: "set (js_keys task) \<subseteq> set (map fst order_task_properties) \<longleftrightarrow>
    normalizeQueueTaskKind (mi_kind i) = ''direct-message'' \<and> normalizeQueueRecordIds (mi_repositoryIds i) = []"
    using kind unfolding task_def task_keys by (auto simp: order_task_properties_def)
  have props: "(\<forall>p \<in> set order_task_properties. fst p \<in> set (js_keys task) \<longrightarrow> accepts R (snd p) (js_prop task (fst p))) \<longleftrightarrow>
      t \<noteq> [] \<and> normalizeQueueText (mi_title i) \<noteq> [] \<and> normalizeQueueText (mi_body i) \<noteq> []"
    using kind
    by (auto simp: order_task_properties_def pr task_keys [of t i, folded task_def] task_field_cases task_field_ids
        map_of_id_fields same_names simp del: accepts.simps)
  have "keyword_accepts R ds (Required [''id'', ''title'', ''body'']) task" for ds
    unfolding req task_keys [of t i, folded task_def] by simp
  then show ?thesis
    unfolding task_def [symmetric] order_task_schema_def object_schema_accepts keys props using obj by blast
qed

text \<open>The whole order.\<close>

lemma order_schema:
  "valid_for workduckQueueWorkOrderSchema (createManualQueueWorkOrder i orderId taskId now) \<longleftrightarrow>
     orderId \<noteq> [] \<and> normalizeQueueText (mi_title i) \<noteq> [] \<and> now \<noteq> [] \<and>
     accepts resolve order_task_schema (JObj ((''id'', JStr taskId) # task_fields i (manual_vote i)))"
proof -
  define task where "task = JObj ((''id'', JStr taskId) # task_fields i (manual_vote i))"
  define order where "order = createManualQueueWorkOrder i orderId taskId now"
  have order: "order = JObj
      [(''schemaVersion'', JStr ''workduck.queue-work-order/v1''),
       (''ref'', JObj [(''id'', JStr orderId), (''kind'', JStr ''queue-work-order''),
          (''label'', JStr (normalizeQueueText (mi_title i)))]),
       (''status'', JStr ''active''), (''createdAt'', JStr now), (''tasks'', JArr [task])]"
    by (simp add: order_def createManualQueueWorkOrder_def manual_vote_def task_def)
  have ref: "resolve IdEntityRef (JObj [(''id'', JStr orderId), (''kind'', JStr ''queue-work-order''), (''label'', JStr l)]) \<longleftrightarrow>
      orderId \<noteq> [] \<and> l \<noteq> []" for l
    by (simp add: resolve_def workduckEntityRefSchema_def declared_def type_matches_def js_keys_def js_prop_obj workduckEntityKinds_def)
      (metis Suc_le_eq length_greater_0_conv)
  show ?thesis
    unfolding order_def [symmetric] task_def [symmetric] valid_for_def workduckQueueWorkOrderSchema_def
      order_task_properties_def [symmetric] order_task_schema_def [symmetric]
    by (simp add: order js_keys_def js_prop_obj declared_def type_matches_def ref entityRefReference_def
        recordStatus_def workduckRecordStatuses_def)
qed

end
