(* ===== verification/Queue_Properties.thy ===== *)
theory Queue_Properties
  imports Voting_Laws Queue_Changes
begin

text \<open>The claims about the work queue, with their witnesses.\<close>

section \<open>Votes\<close>

text \<open>
  Whatever text is typed, the options of a vote have different identifiers, and none has an empty
  identifier, label or description.
\<close>

theorem vote_options_are_identified:
  "distinct (map vo_id (normalizeVoteOptionsFromText text)) \<and>
   list_all (\<lambda>option. vo_id option \<noteq> [] \<and> vo_label option \<noteq> [] \<and> vo_description option \<noteq> Some [])
     (normalizeVoteOptionsFromText text)"
  using option_ids_distinct [of "[]"] options_ok [of "[]"]
  by (auto simp: normalizeVoteOptionsFromText_def vote_option_ok_def list_all_iff)


definition wit_vote :: vote_spec where
  "wit_vote = \<lparr>vp_question = ''Q'', vp_options = normalizeVoteOptionsFromText (''a: First - one'' @ [CHR 0x0A] @ ''Second''), vp_criteria = []\<rparr>"



text \<open>
  With a longer name the identifier is cut to 40 characters, which may leave a dash at its end; the next
  save strips it, and the option has another identifier.
\<close>

definition long_option :: string where
  "long_option = ''the first option of the two has a title that goes on''"

lemma cut_option_id_changes:
  "map vo_id (normalizeVoteOptionsFromText long_option) = [''the-first-option-of-the-two-has-a-title-''] \<and>
   map vo_id (normalizeVoteOptionsFromText
     (formatVoteOptionsInput (Some (wit_vote\<lparr>vp_options := normalizeVoteOptionsFromText long_option\<rparr>)))) =
   [''the-first-option-of-the-two-has-a-title'']"
  by code_simp

text \<open>
  C14: The count of a vote has, for every option of the first result that is a vote, the number of readable
  ballots for its identifier, the number of unreadable ballots, the sum of these counts, and as winners
  exactly the identifiers of options with the most ballots, if there is any ballot for an option.
\<close>

theorem vote_count_is_correct:
  assumes "createVoteAggregate results = Some a"
  shows "\<exists>first. List.find (\<lambda>vote. vote \<noteq> None) results = Some (Some first) \<and>
    va_optionCounts a = map (\<lambda>option. (option, votes_for results (vo_id option))) (vr_options first) \<and>
    va_invalidCount a = unreadable_votes results \<and>
    va_totalParsedCount a = sum_list (map snd (va_optionCounts a)) \<and>
    (\<forall>i. i \<in> set (va_winnerIds a) \<longleftrightarrow>
       0 < votes_for results i \<and> i \<in> vo_id ` set (vr_options first) \<and>
       Max ((\<lambda>option. votes_for results (vo_id option)) ` set (vr_options first)) = votes_for results i)"
proof -
  obtain first where first: "List.find (\<lambda>vote. vote \<noteq> None) results = Some (Some first)"
    "va_optionCounts a = map (\<lambda>option. (option, votes_for results (vo_id option))) (vr_options first)"
    "va_invalidCount a = unreadable_votes results" "va_totalParsedCount a = sum_list (map snd (va_optionCounts a))"
    "\<forall>i. i \<in> set (va_winnerIds a) \<longleftrightarrow>
       0 < votes_for results i \<and> i \<in> vo_id ` set (vr_options first) \<and>
       (\<forall>option \<in> set (vr_options first). votes_for results (vo_id option) \<le> votes_for results i)"
    using aggregate_votes [OF assms] by blast
  have "(\<forall>option \<in> set (vr_options first). votes_for results (vo_id option) \<le> votes_for results i) \<longleftrightarrow>
      Max ((\<lambda>option. votes_for results (vo_id option)) ` set (vr_options first)) = votes_for results i"
    if "i \<in> vo_id ` set (vr_options first)" for i
    using that by (subst Max_eq_iff) auto
  then show ?thesis using first by (intro exI [of _ first]) blast
qed

definition wit_ballot :: "string \<Rightarrow> vote_result" where
  "wit_ballot i = \<lparr>vr_question = ''Q'', vr_options = vp_options wit_vote,
     vr_ballot = \<lparr>vb_choiceId = i, vb_reason = [], vb_risks = [], vb_parseStatus = BallotParsed\<rparr>\<rparr>"

definition wit_votes :: "vote_result option list" where
  "wit_votes = [None, Some (wit_ballot ''a''), Some (wit_ballot ''second''), Some (wit_ballot ''a'')]"

lemma wit_count: "map_option va_winnerIds (createVoteAggregate wit_votes) = Some [''a'']"
  by code_simp

theorem vote_count_is_correct_witness:
  "0 < votes_for wit_votes ''a'' \<and>
   map_option va_optionCounts (createVoteAggregate wit_votes) =
     Some (map (\<lambda>option. (option, votes_for wit_votes (vo_id option))) (vp_options wit_vote))"
proof -
  obtain a where a: "createVoteAggregate wit_votes = Some a" "va_winnerIds a = [''a'']" using wit_count by blast
  then have "''a'' \<in> set (va_winnerIds a)" by simp
  moreover have "List.find (\<lambda>vote. vote \<noteq> None) wit_votes = Some (Some (wit_ballot ''a''))" by (simp add: wit_votes_def)
  moreover have "vr_options (wit_ballot ''a'') = vp_options wit_vote" by (simp add: wit_ballot_def)
  ultimately show ?thesis using vote_count_is_correct [OF a(1)] a(1) by auto
qed

section \<open>Work orders\<close>

text \<open>
  C11: Every work order that the program makes or changes is one that its parser accepts: one typed by hand,
  one that is edited, archived, started or failed, the follow-up of a review, and the request to evaluate
  a report. Of the editor it is needed that it passes on a vote for a task that is a vote.
\<close>

theorem orders_stay_readable:
  assumes "isQueueWorkOrder order" and "isQueueResultReport report"
    and "vote_given i (manual_vote i)" and "vote_given i (edited_vote i)"
  shows "isQueueWorkOrder (createManualQueueWorkOrder i orderId taskId now) \<and>
    isQueueWorkOrder (updateQueueWorkOrderTask order taskId i) \<and>
    isQueueWorkOrder (archiveQueueWorkOrder order) \<and> isQueueWorkOrder (startQueueWorkOrderExecution order) \<and>
    isQueueWorkOrder (failQueueWorkOrderExecution order) \<and>
    isQueueWorkOrder (createQueueWorkOrderFromReportReview ko report reviews orderId taskIds now) \<and>
    isQueueWorkOrder (createQueueWorkOrderForReportEvaluation ko stringify report workspacePath reportPath skill orderId taskId now)"
  using manual_order_accepted [OF assms(3)] update_order [OF assms(1,4)] status_kept [OF assms(1)]
    review_order_accepted [OF assms(2)] delegation_accepted [OF assms(2)]
  by (simp add: archiveQueueWorkOrder_def startQueueWorkOrderExecution_def failQueueWorkOrderExecution_def queueArtifactStatuses_def)

definition wit_input :: manual_input where
  "wit_input = \<lparr>mi_title = ''Do'', mi_body = ''it'', mi_priority = JStr ''high'', mi_skillIds = JArr [JStr ''s''],
     mi_agentIds = JUndefined, mi_referenceIds = JUndefined, mi_projectIds = JUndefined, mi_repositoryIds = JUndefined,
     mi_kind = JStr ''direct-message'', mi_vote = JUndefined, mi_responseLanguage = JUndefined, mi_responseFormat = JUndefined\<rparr>"

definition wit_report :: js where
  "wit_report = JObj [(''schemaVersion'', JStr ''workduck.queue-result-report/v1''),
     (''ref'', JObj [(''id'', JStr ''r''), (''kind'', JStr ''queue-result-report''), (''label'', JStr ''R'')]),
     (''status'', JStr ''active''), (''createdAt'', JStr ''t''),
     (''tasks'', JArr [JObj [(''id'', JStr ''t1''), (''title'', JStr ''A: T''), (''summary'', JStr ''ok''),
        (''filesChanged'', JArr []), (''verification'', JArr []), (''risks'', JArr [])]])]"

definition wit_order :: js where
  "wit_order = createManualQueueWorkOrder wit_input ''o'' ''t'' ''n''"

lemma wit_queue_accepted: "isQueueWorkOrder wit_order" "isQueueResultReport wit_report"
  by code_simp+

lemma wit_vote_given: "vote_given wit_input (manual_vote wit_input)" "vote_given wit_input (edited_vote wit_input)"
  by code_simp+

theorem orders_stay_readable_witness:
  "isQueueWorkOrder (createQueueWorkOrderFromReportReview (\<lambda>_. []) wit_report
     [\<lparr>rv_taskId = ''t1'', rv_decision = ''rollback'', rv_comment = []\<rparr>] ''o'' (\<lambda>_. ''t'') ''n'')"
  using orders_stay_readable [OF wit_queue_accepted wit_vote_given] by blast

text \<open>
  A work order that is made as a vote, without passing on a vote, is not.
\<close>

lemma vote_without_spec_unreadable:
  assumes "normalizeQueueTaskKind (mi_kind i) = ''vote''" and "mi_vote i = JUndefined"
  shows "\<not> isQueueWorkOrder (createManualQueueWorkOrder i orderId taskId now)"
proof -
  have "task_field i JUndefined ''kind'' = Some (JStr ''vote'')" "task_field i JUndefined ''vote'' = Some JUndefined"
    using assms(1) by (simp_all add: task_field_cases)
  then have "\<not> isQueueWorkOrderTask (JObj ((''id'', JStr taskId) # task_fields i JUndefined))"
    using manual_task_prop [of taskId i JUndefined] by (simp add: isQueueWorkOrderTask_def)
  then show ?thesis using assms
    by (simp add: createManualQueueWorkOrder_def isQueueWorkOrder_def js_prop_obj [of "_ # _"])
qed

text \<open>
  An edit changes the tasks with the given identifier, keeps these identifiers, the other tasks, the
  order of the tasks and the identity of the work order.
\<close>

theorem edit_changes_only_the_task:
  assumes "isQueueWorkOrder order" and "vote_given i (edited_vote i)"
  shows "map (\<lambda>task. js_prop task ''id'') (js_elements (js_prop (updateQueueWorkOrderTask order taskId i) ''tasks'')) =
      map (\<lambda>task. js_prop task ''id'') (js_elements (js_prop order ''tasks'')) \<and>
    filter (\<lambda>task. js_prop task ''id'' \<noteq> JStr taskId) (js_elements (js_prop (updateQueueWorkOrderTask order taskId i) ''tasks'')) =
      filter (\<lambda>task. js_prop task ''id'' \<noteq> JStr taskId) (js_elements (js_prop order ''tasks'')) \<and>
    js_prop (js_prop (updateQueueWorkOrderTask order taskId i) ''ref'') ''id'' = js_prop (js_prop order ''ref'') ''id''"
proof -
  obtain ts where ts: "js_prop order ''tasks'' = JArr ts" "\<forall>t \<in> set ts. isQueueWorkOrderTask t"
    using accepted_tasks(1) [OF assms(1)] by blast
  define change where "change = (\<lambda>task. if js_prop task ''id'' \<noteq> JStr taskId then task else edited_task i (edited_vote i) task)"
  have u: "js_elements (js_prop (updateQueueWorkOrderTask order taskId i) ''tasks'') = map change ts"
    using update_order [OF assms, of taskId] ts(1) by (simp add: change_def)
  have ids: "js_prop (change t) ''id'' = js_prop t ''id''" if "t \<in> set ts" for t
    using that ts(2) edited_task_accepted [OF _ assms(2)] by (simp add: change_def)
  have "filter (\<lambda>task. js_prop task ''id'' \<noteq> JStr taskId) (map change us) = filter (\<lambda>task. js_prop task ''id'' \<noteq> JStr taskId) us"
    if "set us \<subseteq> set ts" for us
    using that
  proof (induction us)
    case (Cons t us)
    then show ?case using ids [of t] by (cases "js_prop t ''id'' = JStr taskId") (auto simp: change_def)
  qed simp
  moreover have "map (\<lambda>task. js_prop task ''id'') (map change ts) = map (\<lambda>task. js_prop task ''id'') ts" using ids by simp
  ultimately show ?thesis unfolding u using ts(1) update_order [OF assms, of taskId] by simp
qed

theorem edit_changes_only_the_task_witness:
  "map (\<lambda>task. js_prop task ''id'') (js_elements (js_prop (updateQueueWorkOrderTask wit_order ''t'' wit_input) ''tasks'')) = [JStr ''t'']"
proof -
  have "map (\<lambda>task. js_prop task ''id'') (js_elements (js_prop wit_order ''tasks'')) = [JStr ''t'']" by code_simp
  then show ?thesis using edit_changes_only_the_task [OF wit_queue_accepted(1) wit_vote_given(2), of "''t''"] by simp
qed

text \<open>
  C12: A work order typed by hand, where the editor passes on a vote for a task that is a vote, is read back as
  it was once it is stored; and whatever a stored order is read as is read the same way when it is stored
  again: the repair of missing fields is done once. Of JSON it is needed that parsing the written text,
  with its final newline, gives back the value.
\<close>

theorem stored_order_is_read_back:
  assumes "vote_given i (manual_vote i)"
    and "order = createManualQueueWorkOrder i orderId taskId now"
    and "json_parse (serializeQueueArtifact stringify order) = Some order"
    and "parseQueueWorkOrder json_parse content = Inr read"
    and "json_parse (serializeQueueArtifact stringify read) = Some read"
  shows "parseQueueWorkOrder json_parse (serializeQueueArtifact stringify order) = Inr order \<and>
    parseQueueWorkOrder json_parse (serializeQueueArtifact stringify read) = Inr read"
proof
  define task where "task = JObj ((''id'', JStr taskId) # task_fields i (manual_vote i))"
  obtain ps where ps: "order = JObj ps" "js_prop order ''tasks'' = JArr [task]"
    by (simp add: assms(2) createManualQueueWorkOrder_def task_def manual_vote_def js_prop_obj)
  have vote: "manual_vote i \<noteq> JNull \<longrightarrow> isQueueVoteSpec (manual_vote i)"
    using assms(1) by (auto simp: vote_given_def manual_vote_def split: if_splits)
  have "js_prop task k \<noteq> JNull" if "k \<in> set nullableLegacyWorkOrderTaskKeys" for k
  proof -
    have "task_field i (manual_vote i) ''sourceReportTaskId'' = None \<and> task_field i (manual_vote i) ''decision'' = None"
      by (simp add: task_field_cases)
    then have "(case task_field i (manual_vote i) k of None \<Rightarrow> JUndefined | Some w \<Rightarrow> w) \<noteq> JNull"
      using that unfolding nullableLegacyWorkOrderTaskKeys_def list.set insert_iff empty_iff
      by (elim disjE) (simp_all add: task_field_cases task_field_ids id_fields_optional)
    then show ?thesis by (simp add: task_def manual_task_prop)
  qed
  then have "normalizeQueueWorkOrderForParsing order = order"
    unfolding ps(1) using ps(2) by (intro normalized_order_id [where vs = "[task]"]) (auto simp: ps(1) task_def)
  then show "parseQueueWorkOrder json_parse (serializeQueueArtifact stringify order) = Inr order"
    using assms(3) manual_order_accepted [OF assms(1)] by (simp add: parseQueueWorkOrder_def assms(2))
  obtain parsed where "read = normalizeQueueWorkOrderForParsing parsed" "isQueueWorkOrder read"
    using assms(4) by (auto simp: parseQueueWorkOrder_def Let_def split: option.splits if_splits)
  then show "parseQueueWorkOrder json_parse (serializeQueueArtifact stringify read) = Inr read"
    using assms(5) by (simp add: parseQueueWorkOrder_def normalized_order_again)
qed

definition wit_parse :: "string \<Rightarrow> js option" where
  "wit_parse s = codec_parse (butlast s)"

text \<open>The work order as an earlier version stored it: with \<open>null\<close> for a field that has no value.\<close>

definition wit_stored :: js where
  "wit_stored = js_set ''tasks'' (JArr (map (js_set ''sourceReportTaskId'' JNull) (js_elements (js_prop wit_order ''tasks'')))) wit_order"

theorem stored_order_is_read_back_witness:
  "parseQueueWorkOrder wit_parse (serializeQueueArtifact put_js wit_order) = Inr wit_order \<and> wit_stored \<noteq> wit_order"
proof -
  have stored_back: "wit_parse (serializeQueueArtifact put_js v) = Some v" if j: "json_value v" for v
    using faithful_parse [OF codec_faithful j] by (simp add: wit_parse_def serializeQueueArtifact_def)
  have vals: "json_value wit_order" "json_value wit_stored" "wit_stored \<noteq> wit_order"
    "normalizeQueueWorkOrderForParsing wit_stored = wit_order" by code_simp+
  have "parseQueueWorkOrder wit_parse (serializeQueueArtifact put_js wit_stored) = Inr wit_order"
    using stored_back [OF vals(2)] vals(4) wit_queue_accepted(1) by (simp add: parseQueueWorkOrder_def)
  from stored_order_is_read_back [OF wit_vote_given(1) wit_order_def stored_back [OF vals(1)] this stored_back [OF vals(1)]]
  show ?thesis using vals(3) by blast
qed

text \<open>
  A work order typed by hand that is no vote satisfies the schema published for work orders exactly
  when it is a direct message without repositories, with a title and a body: the field
  \<open>responseFormat\<close> of every instruction and the field \<open>repositoryIds\<close> are not in the schema, which allows no
  others.
\<close>

theorem manual_order_meets_schema:
  assumes "normalizeQueueTaskKind (mi_kind i) \<noteq> ''vote''" and "orderId \<noteq> []" and "taskId \<noteq> []" and "now \<noteq> []"
  shows "valid_for workduckQueueWorkOrderSchema (createManualQueueWorkOrder i orderId taskId now) \<longleftrightarrow>
    normalizeQueueTaskKind (mi_kind i) = ''direct-message'' \<and> normalizeQueueRecordIds (mi_repositoryIds i) = [] \<and>
    normalizeQueueText (mi_title i) \<noteq> [] \<and> normalizeQueueText (mi_body i) \<noteq> []"
proof -
  have "manual_vote i = JNull" using assms(1) by (simp add: manual_vote_def)
  then show ?thesis using assms(2-4) manual_task_schema [OF assms(1)] by (auto simp: order_schema)
qed

theorem manual_order_meets_schema_witness:
  "valid_for workduckQueueWorkOrderSchema wit_order \<and>
   \<not> valid_for workduckQueueWorkOrderSchema (createManualQueueWorkOrder (wit_input\<lparr>mi_kind := JUndefined\<rparr>) ''o'' ''t'' ''n'')"
proof -
  have "normalizeQueueTaskKind (mi_kind wit_input) = ''direct-message''" "normalizeQueueRecordIds (mi_repositoryIds wit_input) = []"
    "normalizeQueueText (mi_title wit_input) \<noteq> []" "normalizeQueueText (mi_body wit_input) \<noteq> []"
    "normalizeQueueTaskKind (mi_kind (wit_input\<lparr>mi_kind := JUndefined\<rparr>)) = ''instruction''"
    by code_simp+
  then show ?thesis
    using manual_order_meets_schema [of wit_input "''o''" "''t''" "''n''"]
      manual_order_meets_schema [of "wit_input\<lparr>mi_kind := JUndefined\<rparr>" "''o''" "''t''" "''n''"]
    by (simp add: wit_order_def)
qed

section \<open>Reports\<close>

text \<open>
  Recording the evaluation of an answer by an agent leaves a report that the parser accepts, in which
  every answer with that identifier is evaluated by the agent; the other answers are as before, and
  recording it again, at any time, changes nothing.
\<close>

theorem evaluation_is_recorded_once:
  assumes "isQueueResultReport report"
    and "recorded = recordQueueReportTaskEvaluation report taskId agentId now"
  shows "isQueueResultReport recorded \<and>
    list_all (\<lambda>task. js_prop task ''id'' \<noteq> JStr taskId \<or> hasQueueReportTaskEvaluation task agentId)
      (js_elements (js_prop recorded ''tasks'')) \<and>
    filter (\<lambda>task. js_prop task ''id'' \<noteq> JStr taskId) (js_elements (js_prop recorded ''tasks'')) =
      filter (\<lambda>task. js_prop task ''id'' \<noteq> JStr taskId) (js_elements (js_prop report ''tasks'')) \<and>
    recordQueueReportTaskEvaluation recorded taskId agentId later = recorded"
proof -
  obtain ts where ts: "js_prop report ''tasks'' = JArr ts" "\<forall>t \<in> set ts. isQueueResultReportTask t"
    using accepted_tasks(2) [OF assms(1)] by blast
  have tasks: "js_elements (js_prop recorded ''tasks'') = map (record_evaluation report taskId agentId now) ts"
    using record_report [OF assms(1)] ts(1) by (simp add: assms(2))
  have ids: "js_prop (record_evaluation report taskId agentId now t) ''id'' = js_prop t ''id''" if "t \<in> set ts" for t
    using evaluation_accepted that ts(2) by blast
  have "list_all (\<lambda>task. js_prop task ''id'' \<noteq> JStr taskId \<or> hasQueueReportTaskEvaluation task agentId)
      (js_elements (js_prop recorded ''tasks''))"
    using ids evaluation_recorded ts(2) unfolding tasks by (auto simp: list_all_iff)
  moreover have "filter (\<lambda>task. js_prop task ''id'' \<noteq> JStr taskId) (map (record_evaluation report taskId agentId now) us) =
      filter (\<lambda>task. js_prop task ''id'' \<noteq> JStr taskId) us" if "set us \<subseteq> set ts" for us
    using that
  proof (induction us)
    case (Cons t us)
    then show ?case using ids [of t] by (cases "js_prop t ''id'' = JStr taskId") (auto simp: record_evaluation_def)
  qed simp
  ultimately show ?thesis
    using record_report [OF assms(1)] record_again [OF assms(1)] ts(1) tasks by (simp add: assms(2))
qed

theorem evaluation_is_recorded_once_witness:
  "isQueueResultReport (recordQueueReportTaskEvaluation wit_report ''t1'' ''a'' ''n'') \<and>
   recordQueueReportTaskEvaluation (recordQueueReportTaskEvaluation wit_report ''t1'' ''a'' ''n'') ''t1'' ''a'' ''m'' =
     recordQueueReportTaskEvaluation wit_report ''t1'' ''a'' ''n''"
  using evaluation_is_recorded_once [OF wit_queue_accepted(2) refl] by blast

end
