(* ===== verification/Agent_Evaluation.thy ===== *)
theory Agent_Evaluation
  imports Named_Records Project_Text
begin

text \<open>
  The evaluation of agents (\<open>src/lib/agents/agent-evaluation.ts\<close>). Counts are integers and sums of
  scores are numbers; adding a whole score to a number with a fraction keeps the fraction, rounding of
  doubles aside. \<open>Number.parseFloat\<close> is an argument. The text of the delegation prompt is not modelled.
\<close>

section \<open>Criteria and summaries\<close>

definition AGENT_EVALUATION_SCORE_MIN :: int where "AGENT_EVALUATION_SCORE_MIN = 1"

definition AGENT_EVALUATION_SCORE_MAX :: int where "AGENT_EVALUATION_SCORE_MAX = 9"

datatype evaluation_criterion =
    ProblemUnderstanding | LogicalValidity | PracticalFeasibility | CreativeInsight | RiskDetection

fun criterion_name :: "evaluation_criterion \<Rightarrow> string" where
  "criterion_name ProblemUnderstanding = ''problemUnderstanding''"
| "criterion_name LogicalValidity = ''logicalValidity''"
| "criterion_name PracticalFeasibility = ''practicalFeasibility''"
| "criterion_name CreativeInsight = ''creativeInsight''"
| "criterion_name RiskDetection = ''riskDetection''"

definition agentEvaluationCriteriaDefinitions :: "evaluation_criterion list" where
  "agentEvaluationCriteriaDefinitions =
     [ProblemUnderstanding, LogicalValidity, PracticalFeasibility, CreativeInsight, RiskDetection]"

record criterion_aggregate =
  ca_count :: int
  ca_scoreSum :: js_number

record evaluation_summary =
  es_totalCount :: int
  es_criteria :: "evaluation_criterion \<Rightarrow> criterion_aggregate"

type_synonym evaluation_scores = "evaluation_criterion \<Rightarrow> js"

definition createEmptyAgentEvaluationSummary :: evaluation_summary where
  "createEmptyAgentEvaluationSummary =
     \<lparr>es_totalCount = 0, es_criteria = (\<lambda>_. \<lparr>ca_count = 0, ca_scoreSum = Inl 0\<rparr>)\<rparr>"

section \<open>Numbers\<close>

text \<open>\<open>Number.parseInt(text, 10)\<close> of a trimmed text.\<close>

definition is_digit :: "char \<Rightarrow> bool" where
  "is_digit c = (let n = (of_char c :: nat) in 48 \<le> n \<and> n \<le> 57)"

definition digits_value :: "string \<Rightarrow> int" where
  "digits_value s = foldl (\<lambda>v c. 10 * v + (of_char c - 48)) 0 s"

definition js_parse_int :: "string \<Rightarrow> js_number" where
  "js_parse_int s =
     (let negative = (case s of c # _ \<Rightarrow> c = CHR ''-'' | [] \<Rightarrow> False);
          rest = (case s of c # cs \<Rightarrow> if c = CHR ''-'' \<or> c = CHR ''+'' then cs else s | [] \<Rightarrow> []);
          digits = takeWhile is_digit rest
      in if digits = [] then Inr NotANumber
         else Inl (if negative then - digits_value digits else digits_value digits))"

text \<open>\<open>typeof value === 'number' ? value : Number.parseInt(readTrimmedString(value), 10)\<close>\<close>

definition number_or_text :: "(string \<Rightarrow> js_number) \<Rightarrow> js \<Rightarrow> js_number" where
  "number_or_text parse value =
     (case value of JInt n \<Rightarrow> Inl n | JNonInt x \<Rightarrow> Inr x | _ \<Rightarrow> parse (readTrimmedString value))"

definition normalizeCount :: "js \<Rightarrow> int" where
  "normalizeCount value =
     (case finite_trunc (number_or_text js_parse_int value) of None \<Rightarrow> 0 | Some n \<Rightarrow> max 0 n)"

definition normalizeScore :: "js \<Rightarrow> int" where
  "normalizeScore value =
     (case finite_trunc (number_or_text js_parse_int value) of
        None \<Rightarrow> (AGENT_EVALUATION_SCORE_MIN + AGENT_EVALUATION_SCORE_MAX + 1) div 2
      | Some n \<Rightarrow> min (max AGENT_EVALUATION_SCORE_MIN n) AGENT_EVALUATION_SCORE_MAX)"

text \<open>\<open>Math.min(Math.max(0, x), n)\<close> for a finite number.\<close>

definition clamp_number :: "js_number \<Rightarrow> int \<Rightarrow> js_number" where
  "clamp_number x n =
     (case x of
        Inl k \<Rightarrow> Inl (min (max 0 k) n)
      | Inr (Fraction k) \<Rightarrow> if k < 0 then Inl (min 0 n) else if n \<le> k then Inl n else Inr (Fraction k)
      | _ \<Rightarrow> Inl 0)"

definition normalizeScoreSum :: "(string \<Rightarrow> js_number) \<Rightarrow> js \<Rightarrow> int \<Rightarrow> js_number" where
  "normalizeScoreSum parse_float value counted =
     (let numericValue = number_or_text parse_float value in
      if finite_floor numericValue = None \<or> counted = 0 then Inl 0
      else clamp_number numericValue (counted * AGENT_EVALUATION_SCORE_MAX))"

definition add_score :: "js_number \<Rightarrow> int \<Rightarrow> js_number" where
  "add_score x n = (case x of Inl k \<Rightarrow> Inl (k + n) | Inr (Fraction k) \<Rightarrow> Inr (Fraction (k + n)) | Inr y \<Rightarrow> Inr y)"

section \<open>Operations\<close>

definition normalizeTotalCount :: "js \<Rightarrow> (evaluation_criterion \<Rightarrow> criterion_aggregate) \<Rightarrow> int" where
  "normalizeTotalCount value criteria =
     max (normalizeCount value) (foldl max 0 (map (\<lambda>d. ca_count (criteria d)) agentEvaluationCriteriaDefinitions))"

definition object_or_empty :: "js \<Rightarrow> js" where
  "object_or_empty value = (if isObjectRecord value then value else JObj [])"

definition normalizeAgentEvaluationSummary :: "(string \<Rightarrow> js_number) \<Rightarrow> js \<Rightarrow> evaluation_summary" where
  "normalizeAgentEvaluationSummary parse_float value =
     (let input = object_or_empty value;
          rawCriteria = object_or_empty (js_prop input ''criteria'');
          criteria = (\<lambda>d. let rawCriterion = object_or_empty (js_prop rawCriteria (criterion_name d));
                              counted = normalizeCount (js_prop rawCriterion ''count'')
                          in \<lparr>ca_count = counted, ca_scoreSum = normalizeScoreSum parse_float (js_prop rawCriterion ''scoreSum'') counted\<rparr>)
      in \<lparr>es_totalCount = normalizeTotalCount (js_prop input ''totalCount'') criteria, es_criteria = criteria\<rparr>)"

definition summary_js :: "evaluation_summary \<Rightarrow> js" where
  "summary_js s = JObj [(''totalCount'', JInt (es_totalCount s)),
     (''criteria'', JObj (map (\<lambda>d. (criterion_name d,
        JObj [(''count'', JInt (ca_count (es_criteria s d))), (''scoreSum'', number_js (ca_scoreSum (es_criteria s d)))]))
       agentEvaluationCriteriaDefinitions))]"

definition addAgentEvaluationScores :: "(string \<Rightarrow> js_number) \<Rightarrow> evaluation_summary \<Rightarrow> evaluation_scores \<Rightarrow> evaluation_summary" where
  "addAgentEvaluationScores parse_float summary scores =
     (let normalized = normalizeAgentEvaluationSummary parse_float (summary_js summary)
      in \<lparr>es_totalCount = es_totalCount normalized + 1,
          es_criteria = (\<lambda>d. \<lparr>ca_count = ca_count (es_criteria normalized d) + 1,
             ca_scoreSum = add_score (ca_scoreSum (es_criteria normalized d)) (normalizeScore (scores d))\<rparr>)\<rparr>)"

definition hasAgentEvaluations :: "evaluation_summary \<Rightarrow> bool" where
  "hasAgentEvaluations summary = list_ex (\<lambda>d. ca_count (es_criteria summary d) > 0) agentEvaluationCriteriaDefinitions"

text \<open>An average, as its numerator and its denominator.\<close>

definition getAgentEvaluationAverage :: "evaluation_summary \<Rightarrow> evaluation_criterion \<Rightarrow> (js_number \<times> int) option" where
  "getAgentEvaluationAverage summary criterionId =
     (let criterion = es_criteria summary criterionId in
      if ca_count criterion = 0 then None else Some (ca_scoreSum criterion, ca_count criterion))"

definition createDefaultAgentEvaluationScores :: "evaluation_criterion \<Rightarrow> int" where
  "createDefaultAgentEvaluationScores = (\<lambda>_. 5)"

definition normalizeAgentEvaluationScores :: "js \<Rightarrow> evaluation_criterion \<Rightarrow> int" where
  "normalizeAgentEvaluationScores value =
     (let input = object_or_empty value
      in (\<lambda>d. let raw = js_prop input (criterion_name d)
              in normalizeScore (if raw = JUndefined \<or> raw = JNull then JInt (createDefaultAgentEvaluationScores d) else raw)))"

definition normalizeAgentEvaluationScore :: "js \<Rightarrow> int" where
  "normalizeAgentEvaluationScore value = normalizeScore value"

section \<open>Bounds\<close>

lemma score_bounds: "1 \<le> normalizeScore v \<and> normalizeScore v \<le> 9"
  by (auto simp: normalizeScore_def AGENT_EVALUATION_SCORE_MIN_def AGENT_EVALUATION_SCORE_MAX_def split: option.split)

text \<open>A sum of scores of \<open>n\<close> evaluations lies between 0 and \<open>9 n\<close>.\<close>

fun sum_within :: "js_number \<Rightarrow> int \<Rightarrow> bool" where
  "sum_within (Inl k) n \<longleftrightarrow> 0 \<le> k \<and> k \<le> 9 * n"
| "sum_within (Inr (Fraction k)) n \<longleftrightarrow> 0 \<le> k \<and> k < 9 * n"
| "sum_within _ n \<longleftrightarrow> False"

definition summary_ok :: "evaluation_summary \<Rightarrow> bool" where
  "summary_ok s \<longleftrightarrow>
     (\<forall>d. 0 \<le> ca_count (es_criteria s d) \<and> ca_count (es_criteria s d) \<le> es_totalCount s \<and>
        sum_within (ca_scoreSum (es_criteria s d)) (ca_count (es_criteria s d)))"

lemma all_criteria: "d \<in> set agentEvaluationCriteriaDefinitions"
  by (cases d) (simp_all add: agentEvaluationCriteriaDefinitions_def)

lemma foldl_max_bounds: "(m :: int) \<le> foldl max m xs \<and> (\<forall>x \<in> set xs. x \<le> foldl max m xs)"
proof (induction xs arbitrary: m)
  case (Cons x xs)
  have "max m x \<le> foldl max (max m x) xs" "\<forall>y \<in> set xs. y \<le> foldl max (max m x) xs" using Cons by blast+
  then show ?case by auto
qed simp

lemma foldl_max_least: "(m :: int) \<le> b \<Longrightarrow> \<forall>x \<in> set xs. x \<le> b \<Longrightarrow> foldl max m xs \<le> b"
  by (induction xs arbitrary: m) auto

lemma count_nonneg: "0 \<le> normalizeCount v"
  by (simp add: normalizeCount_def split: option.split)

lemma score_sum_within: "0 \<le> counted \<Longrightarrow> sum_within (normalizeScoreSum parse_float v counted) counted"
  by (auto simp: normalizeScoreSum_def clamp_number_def AGENT_EVALUATION_SCORE_MAX_def finite_floor_def Let_def
      split: sum.splits js_nonint.splits)

lemma normalized_summary_ok [simp]: "summary_ok (normalizeAgentEvaluationSummary parse_float v)"
proof -
  define criteria where "criteria = es_criteria (normalizeAgentEvaluationSummary parse_float v)"
  have "0 \<le> ca_count (criteria d) \<and> sum_within (ca_scoreSum (criteria d)) (ca_count (criteria d))" for d
    by (simp add: criteria_def normalizeAgentEvaluationSummary_def Let_def count_nonneg score_sum_within)
  moreover obtain w where "es_totalCount (normalizeAgentEvaluationSummary parse_float v) = normalizeTotalCount w criteria"
    by (simp add: criteria_def normalizeAgentEvaluationSummary_def Let_def)
  moreover have "ca_count (criteria d) \<le> normalizeTotalCount w criteria" for d w
    using foldl_max_bounds [of 0 "map (\<lambda>d. ca_count (criteria d)) agentEvaluationCriteriaDefinitions"] all_criteria [of d]
    by (auto simp: normalizeTotalCount_def max_def)
  ultimately show ?thesis by (simp add: summary_ok_def criteria_def)
qed

lemma criterion_name_inj: "criterion_name c = criterion_name d \<longleftrightarrow> c = d"
  by (cases c; cases d) simp_all

lemma map_of_criteria:
  "map_of (map (\<lambda>d. (criterion_name d, f d)) agentEvaluationCriteriaDefinitions) (criterion_name c) = Some (f c)"
  by (cases c) (simp_all add: agentEvaluationCriteriaDefinitions_def)

lemma normalize_summary_id:
  assumes "summary_ok s"
  shows "normalizeAgentEvaluationSummary parse_float (summary_js s) = s"
proof -
  have counted: "normalizeCount (JInt n) = max 0 n" for n
    by (simp add: normalizeCount_def number_or_text_def finite_trunc_def)
  have sum: "normalizeScoreSum parse_float (number_js x) n = x" if "sum_within x n" "0 \<le> n" for x n
    using that
    by (cases "(x, n)" rule: sum_within.cases)
      (auto simp: normalizeScoreSum_def number_js_def number_or_text_def clamp_number_def finite_floor_def AGENT_EVALUATION_SCORE_MAX_def)
  have crit: "es_criteria (normalizeAgentEvaluationSummary parse_float (summary_js s)) = es_criteria s"
  proof
    fix d
    show "es_criteria (normalizeAgentEvaluationSummary parse_float (summary_js s)) d = es_criteria s d"
      using assms sum [of "ca_scoreSum (es_criteria s d)" "ca_count (es_criteria s d)"]
      by (simp add: normalizeAgentEvaluationSummary_def summary_js_def object_or_empty_def js_prop_def Let_def map_of_criteria counted summary_ok_def)
  qed
  have "foldl max 0 (map (\<lambda>d. ca_count (es_criteria s d)) agentEvaluationCriteriaDefinitions) \<le> es_totalCount s"
  proof (rule foldl_max_least)
    show "0 \<le> es_totalCount s" using assms unfolding summary_ok_def by (meson order_trans)
  qed (use assms in \<open>auto simp: summary_ok_def\<close>)
  moreover have "0 \<le> es_totalCount s" using assms unfolding summary_ok_def by (meson order_trans)
  moreover have "es_totalCount (normalizeAgentEvaluationSummary parse_float (summary_js s)) =
      normalizeTotalCount (JInt (es_totalCount s)) (es_criteria (normalizeAgentEvaluationSummary parse_float (summary_js s)))"
    by (simp add: normalizeAgentEvaluationSummary_def Let_def) (simp add: object_or_empty_def summary_js_def js_prop_def)
  ultimately have "es_totalCount (normalizeAgentEvaluationSummary parse_float (summary_js s)) = es_totalCount s"
    by (simp add: crit normalizeTotalCount_def counted)
  then show ?thesis using crit by (intro evaluation_summary.equality) simp_all
qed

lemma empty_summary_ok [simp]: "summary_ok createEmptyAgentEvaluationSummary"
  by (simp add: summary_ok_def createEmptyAgentEvaluationSummary_def)

lemma add_score_within: "sum_within x n \<Longrightarrow> 1 \<le> k \<Longrightarrow> k \<le> 9 \<Longrightarrow> sum_within (add_score x k) (n + 1)"
  by (cases "(x, n)" rule: sum_within.cases) (auto simp: add_score_def)

lemma added_summary_ok [simp]: "summary_ok (addAgentEvaluationScores parse_float s scores)"
  using normalized_summary_ok [of parse_float "summary_js s"] score_bounds
  by (auto simp: summary_ok_def addAgentEvaluationScores_def Let_def intro: add_score_within)

end
