(* ===== verification/Agent_Registry.thy ===== *)
theory Agent_Registry
  imports Agent_Evaluation
begin

text \<open>
  The agents of a workspace (\<open>src/lib/agents/agent-registry.ts\<close>): who they are, how they run, and what
  their answers were given. Every operation, as a mutation; \<open>Ok\<close> also where the source answers with the
  registry alone.
\<close>

section \<open>Records\<close>

definition AGENT_REGISTRY_VERSION :: int where "AGENT_REGISTRY_VERSION = 6"

definition SUPPORTED_AGENT_REGISTRY_VERSIONS :: "int list" where
  "SUPPORTED_AGENT_REGISTRY_VERSIONS = [1, 2, 3, 4, 5, AGENT_REGISTRY_VERSION]"

definition AGENT_NAME_MAX_LENGTH :: nat where "AGENT_NAME_MAX_LENGTH = 120"

definition AGENT_MODEL_ID_MAX_LENGTH :: nat where "AGENT_MODEL_ID_MAX_LENGTH = 160"

definition MAX_SAFE_INTEGER :: int where "MAX_SAFE_INTEGER = 9007199254740991"

datatype agent_error =
    agent_name_required
  | agent_auth_required
  | agent_name_duplicate
  | agent_not_found
  | agent_registry_invalid

record agent_record =
  ag_id :: string
  ag_name :: string
  ag_environmentSecretId :: "string option"
  ag_personaId :: "string option"
  ag_executionProvider :: string
  ag_modelId :: "string option"
  ag_evaluationSummary :: evaluation_summary
  ag_evaluationKeys :: "string list"
  ag_evaluationResetAt :: "string option"
  ag_createdAt :: string
  ag_updatedAt :: string

record agent_registry =
  gr_revision :: int
  gr_workspaceId :: string
  gr_agents :: "agent_record list"
  gr_updatedAt :: string

record agent_input =
  ai_id :: "string option"
  ai_name :: string
  ai_environmentSecretId :: "string option"
  ai_personaId :: "string option"
  ai_executionProvider :: "string option"
  ai_modelId :: "string option"

definition createEmptyAgentRegistry :: "string \<Rightarrow> string \<Rightarrow> agent_registry" where
  "createEmptyAgentRegistry workspaceId now =
     \<lparr>gr_revision = 0, gr_workspaceId = workspaceId, gr_agents = [], gr_updatedAt = now\<rparr>"

section \<open>Parsing\<close>

definition normalizeAgentName :: "string \<Rightarrow> string" where
  "normalizeAgentName value = record_name AGENT_NAME_MAX_LENGTH value"

definition createAgentNameKey :: "string \<Rightarrow> string" where
  "createAgentNameKey name = js_lower (normalizeAgentName name)"

definition agent_key :: "agent_record \<Rightarrow> string" where
  "agent_key agent = createAgentNameKey (ag_name agent)"

definition executionProviders :: "string list" where
  "executionProviders = [''auto'', ''deepseek'', ''openai'', ''openrouter'', ''umans'']"

definition normalizeAgentExecutionProvider :: "js \<Rightarrow> string" where
  "normalizeAgentExecutionProvider value =
     (let provider = js_lower (readTrimmedString value) in if provider \<in> set executionProviders then provider else ''auto'')"

definition normalizeAgentModelId :: "js \<Rightarrow> string option" where
  "normalizeAgentModelId value =
     (let modelId = record_name AGENT_MODEL_ID_MAX_LENGTH (readTrimmedString value) in if modelId = [] then None else Some modelId)"

definition normalizeOptionalTimestamp :: "js \<Rightarrow> string option" where
  "normalizeOptionalTimestamp value = (let timestamp = readTrimmedString value in if timestamp = [] then None else Some timestamp)"

fun evaluation_keys_from :: "string list \<Rightarrow> js list \<Rightarrow> string list" where
  "evaluation_keys_from keys [] = keys"
| "evaluation_keys_from keys (item # items) =
     (case normalizeRecordId item of
        None \<Rightarrow> evaluation_keys_from keys items
      | Some key \<Rightarrow> evaluation_keys_from (if key \<in> set keys then keys else keys @ [key]) items)"

definition normalizeEvaluationKeys :: "js \<Rightarrow> string list" where
  "normalizeEvaluationKeys value = evaluation_keys_from [] (js_elements value)"

definition normalizeRegistryRevision :: "js \<Rightarrow> int" where
  "normalizeRegistryRevision value = (case value of JInt n \<Rightarrow> if 0 \<le> n \<and> n \<le> MAX_SAFE_INTEGER then n else 0 | _ \<Rightarrow> 0)"

definition isSupportedAgentRegistryVersion :: "js \<Rightarrow> bool" where
  "isSupportedAgentRegistryVersion version = list_ex (\<lambda>supported. version = JInt supported) SUPPORTED_AGENT_REGISTRY_VERSIONS"

definition parseAgentRecord :: "(string \<Rightarrow> js_number) \<Rightarrow> js \<Rightarrow> agent_record option" where
  "parseAgentRecord parse_float value =
     (if \<not> isObjectRecord value then None
      else (let name = normalizeAgentName (readTrimmedString (js_prop value ''name''));
                createdAt = readTrimmedString (js_prop value ''createdAt'');
                updatedAt = readTrimmedString (js_prop value ''updatedAt'')
            in (case normalizeRecordId (js_prop value ''id'') of
                  None \<Rightarrow> None
                | Some i \<Rightarrow>
                    if name = [] then None
                    else Some \<lparr>ag_id = i, ag_name = name,
                      ag_environmentSecretId = normalizeRecordId (js_prop value ''environmentSecretId''),
                      ag_personaId = normalizeRecordId (js_prop value ''personaId''),
                      ag_executionProvider = normalizeAgentExecutionProvider (js_prop value ''executionProvider''),
                      ag_modelId = normalizeAgentModelId (js_prop value ''modelId''),
                      ag_evaluationSummary = normalizeAgentEvaluationSummary parse_float (js_prop value ''evaluationSummary''),
                      ag_evaluationKeys = normalizeEvaluationKeys (js_prop value ''evaluationKeys''),
                      ag_evaluationResetAt = normalizeOptionalTimestamp (js_prop value ''evaluationResetAt''),
                      ag_createdAt = (if createdAt = [] then updatedAt else createdAt),
                      ag_updatedAt = (if updatedAt = [] then createdAt else updatedAt)\<rparr>)))"

definition sortAgents :: "(string \<Rightarrow> string \<Rightarrow> int) \<Rightarrow> agent_record list \<Rightarrow> agent_record list" where
  "sortAgents cmp agents = js_sort (\<lambda>left right. cmp (ag_name left) (ag_name right)) agents"

definition normalizeAgentRegistry ::
  "(string \<Rightarrow> string \<Rightarrow> int) \<Rightarrow> (string \<Rightarrow> js_number) \<Rightarrow> js \<Rightarrow> string \<Rightarrow> agent_registry option" where
  "normalizeAgentRegistry cmp parse_float value workspaceId =
     (if \<not> isObjectRecord value \<or> \<not> isSupportedAgentRegistryVersion (js_prop value ''version'') then None
      else if js_prop value ''workspaceId'' \<noteq> JStr workspaceId then None
      else Some
        \<lparr>gr_revision = normalizeRegistryRevision (js_prop value ''revision''),
         gr_workspaceId = workspaceId,
         gr_agents = sortAgents cmp
           (collect_named (parseAgentRecord parse_float) ag_id agent_key {} {} (js_elements (js_prop value ''agents''))),
         gr_updatedAt = readTrimmedString (js_prop value ''updatedAt'')\<rparr>)"

definition parseAgentRegistry ::
  "(string \<Rightarrow> string \<Rightarrow> int) \<Rightarrow> (string \<Rightarrow> js_number) \<Rightarrow> (string \<Rightarrow> js option) \<Rightarrow> string \<Rightarrow> string \<Rightarrow> agent_registry option" where
  "parseAgentRegistry cmp parse_float json_parse serializedRegistry workspaceId =
     (case json_parse serializedRegistry of None \<Rightarrow> None | Some v \<Rightarrow> normalizeAgentRegistry cmp parse_float v workspaceId)"

text \<open>A registry as a value.\<close>

definition agent_js :: "agent_record \<Rightarrow> js" where
  "agent_js a = JObj [(''id'', JStr (ag_id a)), (''name'', JStr (ag_name a)),
     (''environmentSecretId'', js_nullable (ag_environmentSecretId a)), (''personaId'', js_nullable (ag_personaId a)),
     (''executionProvider'', JStr (ag_executionProvider a)), (''modelId'', js_nullable (ag_modelId a)),
     (''evaluationSummary'', summary_js (ag_evaluationSummary a)),
     (''evaluationKeys'', JArr (map JStr (ag_evaluationKeys a))),
     (''evaluationResetAt'', js_nullable (ag_evaluationResetAt a)),
     (''createdAt'', JStr (ag_createdAt a)), (''updatedAt'', JStr (ag_updatedAt a))]"

definition agent_registry_js :: "agent_registry \<Rightarrow> js" where
  "agent_registry_js r = JObj [(''version'', JInt AGENT_REGISTRY_VERSION), (''revision'', JInt (gr_revision r)),
     (''workspaceId'', JStr (gr_workspaceId r)), (''agents'', JArr (map agent_js (gr_agents r))),
     (''updatedAt'', JStr (gr_updatedAt r))]"

text \<open>\<open>normalizeAgentRegistry(registry, registry.workspaceId) ?? registry\<close>\<close>

definition normalized_agents :: "(string \<Rightarrow> string \<Rightarrow> int) \<Rightarrow> (string \<Rightarrow> js_number) \<Rightarrow> agent_registry \<Rightarrow> agent_registry" where
  "normalized_agents cmp parse_float registry =
     (case normalizeAgentRegistry cmp parse_float (agent_registry_js registry) (gr_workspaceId registry) of
        Some r \<Rightarrow> r | None \<Rightarrow> registry)"

definition serializeAgentRegistry ::
  "(string \<Rightarrow> string \<Rightarrow> int) \<Rightarrow> (string \<Rightarrow> js_number) \<Rightarrow> (js \<Rightarrow> string) \<Rightarrow> agent_registry \<Rightarrow> string" where
  "serializeAgentRegistry cmp parse_float stringify registry = stringify (agent_registry_js (normalized_agents cmp parse_float registry))"

section \<open>Mutations\<close>

definition upsertAgent ::
  "(string \<Rightarrow> string \<Rightarrow> int) \<Rightarrow> (string \<Rightarrow> js_number) \<Rightarrow> agent_registry \<Rightarrow> agent_input \<Rightarrow> string \<Rightarrow> string \<Rightarrow>
   (agent_registry, agent_error) mutation" where
  "upsertAgent cmp parse_float registry input newId timestamp =
     (let r = normalized_agents cmp parse_float registry;
          name = normalizeAgentName (ai_name input);
          environmentSecretId = normalizeRecordId (js_nullable (ai_environmentSecretId input));
          agentId = normalizeRecordId (js_nullable (ai_id input));
          matching = matching_named ag_id agentId (gr_agents r)
      in if name = [] then Err r agent_name_required
         else if environmentSecretId = None then Err r agent_auth_required
         else if \<exists>a \<in> set (gr_agents r). Some (ag_id a) \<noteq> agentId \<and> agent_key a = createAgentNameKey name
         then Err r agent_name_duplicate
         else if agentId \<noteq> None \<and> matching = None then Err r agent_not_found
         else Ok (r\<lparr>gr_agents := sortAgents cmp
                     (put_named ag_id matching
                        \<lparr>ag_id = (case agentId of Some i \<Rightarrow> i | None \<Rightarrow> newId), ag_name = name,
                         ag_environmentSecretId = environmentSecretId,
                         ag_personaId = normalizeRecordId (js_nullable (ai_personaId input)),
                         ag_executionProvider = normalizeAgentExecutionProvider (js_nullable (ai_executionProvider input)),
                         ag_modelId = normalizeAgentModelId (js_nullable (ai_modelId input)),
                         ag_evaluationSummary = (case matching of Some m \<Rightarrow> ag_evaluationSummary m | None \<Rightarrow> createEmptyAgentEvaluationSummary),
                         ag_evaluationKeys = (case matching of Some m \<Rightarrow> ag_evaluationKeys m | None \<Rightarrow> []),
                         ag_evaluationResetAt = (case matching of Some m \<Rightarrow> ag_evaluationResetAt m | None \<Rightarrow> None),
                         ag_createdAt = (case matching of Some m \<Rightarrow> ag_createdAt m | None \<Rightarrow> timestamp),
                         ag_updatedAt = timestamp\<rparr>
                        (gr_agents r)),
                   gr_updatedAt := timestamp\<rparr>))"

definition removeAgent ::
  "(string \<Rightarrow> string \<Rightarrow> int) \<Rightarrow> (string \<Rightarrow> js_number) \<Rightarrow> agent_registry \<Rightarrow> string \<Rightarrow> string \<Rightarrow> (agent_registry, agent_error) mutation" where
  "removeAgent cmp parse_float registry agentId timestamp =
     (let r = normalized_agents cmp parse_float registry in
      if \<not> (\<exists>a \<in> set (gr_agents r). ag_id a = agentId) then Err r agent_not_found
      else Ok (r\<lparr>gr_agents := filter (\<lambda>a. ag_id a \<noteq> agentId) (gr_agents r), gr_updatedAt := timestamp\<rparr>))"

definition assignPersonaToAgents ::
  "(string \<Rightarrow> string \<Rightarrow> int) \<Rightarrow> (string \<Rightarrow> js_number) \<Rightarrow> agent_registry \<Rightarrow> string list \<Rightarrow> string \<Rightarrow> string \<Rightarrow> agent_registry" where
  "assignPersonaToAgents cmp parse_float registry agentIds personaId timestamp =
     (let r = normalized_agents cmp parse_float registry;
          targetAgentIds = set (concat (map (\<lambda>i. case normalizeRecordId (JStr i) of None \<Rightarrow> [] | Some j \<Rightarrow> [j]) agentIds));
          normalizedPersonaId = normalizeRecordId (JStr personaId);
          changes = (\<lambda>a. ag_id a \<in> targetAgentIds \<and> ag_personaId a = None)
      in if targetAgentIds = {} \<or> normalizedPersonaId = None then r
         else if \<not> (\<exists>a \<in> set (gr_agents r). changes a) then r
         else r\<lparr>gr_agents := sortAgents cmp
                  (map (\<lambda>a. if changes a then a\<lparr>ag_personaId := normalizedPersonaId, ag_updatedAt := timestamp\<rparr> else a) (gr_agents r)),
                gr_updatedAt := timestamp\<rparr>)"

definition clearPersonaFromAgents ::
  "(string \<Rightarrow> string \<Rightarrow> int) \<Rightarrow> (string \<Rightarrow> js_number) \<Rightarrow> agent_registry \<Rightarrow> string \<Rightarrow> string \<Rightarrow> agent_registry" where
  "clearPersonaFromAgents cmp parse_float registry personaId timestamp =
     (let r = normalized_agents cmp parse_float registry;
          normalizedPersonaId = normalizeRecordId (JStr personaId)
      in if normalizedPersonaId = None then r
         else if \<not> (\<exists>a \<in> set (gr_agents r). ag_personaId a = normalizedPersonaId) then r
         else r\<lparr>gr_agents := sortAgents cmp
                  (map (\<lambda>a. if ag_personaId a = normalizedPersonaId then a\<lparr>ag_personaId := None, ag_updatedAt := timestamp\<rparr> else a)
                     (gr_agents r)),
                gr_updatedAt := timestamp\<rparr>)"

text \<open>The agent an evaluation is for, when there is one.\<close>

definition evaluated_agent :: "agent_registry \<Rightarrow> string \<Rightarrow> agent_record option" where
  "evaluated_agent r agentId = matching_named ag_id (normalizeRecordId (JStr agentId)) (gr_agents r)"

definition change_agent :: "(string \<Rightarrow> string \<Rightarrow> int) \<Rightarrow> agent_registry \<Rightarrow> string \<Rightarrow> (agent_record \<Rightarrow> agent_record) \<Rightarrow> string \<Rightarrow> agent_registry" where
  "change_agent cmp r i change timestamp =
     r\<lparr>gr_agents := sortAgents cmp (map (\<lambda>a. if ag_id a = i then (change a)\<lparr>ag_updatedAt := timestamp\<rparr> else a) (gr_agents r)),
       gr_updatedAt := timestamp\<rparr>"

definition recordAgentEvaluation ::
  "(string \<Rightarrow> string \<Rightarrow> int) \<Rightarrow> (string \<Rightarrow> js_number) \<Rightarrow> agent_registry \<Rightarrow> string \<Rightarrow> evaluation_scores \<Rightarrow> string \<Rightarrow>
   (agent_registry, agent_error) mutation" where
  "recordAgentEvaluation cmp parse_float registry agentId scores timestamp =
     (let r = normalized_agents cmp parse_float registry in
      case evaluated_agent r agentId of
        None \<Rightarrow> Err r agent_not_found
      | Some m \<Rightarrow> Ok (change_agent cmp r (ag_id m)
          (\<lambda>a. a\<lparr>ag_evaluationSummary := addAgentEvaluationScores parse_float (ag_evaluationSummary a) scores\<rparr>) timestamp))"

text \<open>Whether the evaluation was applied, and the registry.\<close>

definition recordAgentEvaluationOnce ::
  "(string \<Rightarrow> string \<Rightarrow> int) \<Rightarrow> (string \<Rightarrow> js_number) \<Rightarrow> agent_registry \<Rightarrow> string \<Rightarrow> string \<Rightarrow> evaluation_scores \<Rightarrow> string \<Rightarrow>
   bool \<times> (agent_registry, agent_error) mutation" where
  "recordAgentEvaluationOnce cmp parse_float registry agentId evaluationKey scores timestamp =
     (let r = normalized_agents cmp parse_float registry in
      case (evaluated_agent r agentId, normalizeRecordId (JStr evaluationKey)) of
        (Some m, Some key) \<Rightarrow>
          if key \<in> set (ag_evaluationKeys m) then (False, Ok r)
          else (True, Ok (change_agent cmp r (ag_id m)
            (\<lambda>a. a\<lparr>ag_evaluationSummary := addAgentEvaluationScores parse_float (ag_evaluationSummary a) scores,
                   ag_evaluationKeys := ag_evaluationKeys a @ [key]\<rparr>) timestamp))
      | _ \<Rightarrow> (False, Err r agent_not_found))"

definition resetAgentEvaluation ::
  "(string \<Rightarrow> string \<Rightarrow> int) \<Rightarrow> (string \<Rightarrow> js_number) \<Rightarrow> agent_registry \<Rightarrow> string \<Rightarrow> string \<Rightarrow> (agent_registry, agent_error) mutation" where
  "resetAgentEvaluation cmp parse_float registry agentId timestamp =
     (let r = normalized_agents cmp parse_float registry in
      case evaluated_agent r agentId of
        None \<Rightarrow> Err r agent_not_found
      | Some m \<Rightarrow> Ok (change_agent cmp r (ag_id m)
          (\<lambda>a. a\<lparr>ag_evaluationSummary := createEmptyAgentEvaluationSummary, ag_evaluationKeys := [],
                 ag_evaluationResetAt := Some timestamp\<rparr>) timestamp))"

end
