(* ===== verification/Terminal_Registry.thy ===== *)
theory Terminal_Registry
  imports Named_Records Project_Text
begin

text \<open>
  The terminal sessions of a workspace (\<open>src/lib/terminals/terminal-registry.ts\<close>), and that its mutations
  repair whatever registry they are given.
\<close>

section \<open>Records\<close>

definition TERMINAL_REGISTRY_VERSION :: int where "TERMINAL_REGISTRY_VERSION = 1"

definition TERMINAL_SESSION_NAME_MAX_LENGTH :: nat where "TERMINAL_SESSION_NAME_MAX_LENGTH = 120"

datatype terminal_error =
    terminal_session_name_required
  | terminal_session_name_duplicate
  | terminal_kind_required
  | terminal_session_not_found
  | terminal_registry_invalid

record terminal_session =
  ts_id :: string
  ts_name :: string
  ts_terminalId :: string
  ts_createdAt :: string
  ts_updatedAt :: string

record terminal_registry =
  tr_workspaceId :: string
  tr_sessions :: "terminal_session list"
  tr_updatedAt :: string

record terminal_input =
  ti_id :: "string option"
  ti_name :: string
  ti_terminalId :: string

definition createEmptyTerminalRegistry :: "string \<Rightarrow> string \<Rightarrow> terminal_registry" where
  "createEmptyTerminalRegistry workspaceId now = \<lparr>tr_workspaceId = workspaceId, tr_sessions = [], tr_updatedAt = now\<rparr>"

section \<open>Parsing\<close>

definition normalizeTerminalSessionName :: "string \<Rightarrow> string" where
  "normalizeTerminalSessionName value = record_name TERMINAL_SESSION_NAME_MAX_LENGTH value"

definition createTerminalSessionNameKey :: "string \<Rightarrow> string" where
  "createTerminalSessionNameKey name = js_lower (normalizeTerminalSessionName name)"

definition session_key :: "terminal_session \<Rightarrow> string" where
  "session_key session = createTerminalSessionNameKey (ts_name session)"

definition parseTerminalSessionRecord :: "js \<Rightarrow> terminal_session option" where
  "parseTerminalSessionRecord value =
     (if \<not> isObjectRecord value then None
      else (let name = normalizeTerminalSessionName (readTrimmedString (js_prop value ''name''));
                terminalId = readTrimmedString (js_prop value ''terminalId'');
                createdAt = readTrimmedString (js_prop value ''createdAt'');
                updatedAt = readTrimmedString (js_prop value ''updatedAt'')
            in (case normalizeRecordId (js_prop value ''id'') of
                  None \<Rightarrow> None
                | Some i \<Rightarrow>
                    if name = [] \<or> terminalId = [] then None
                    else Some \<lparr>ts_id = i, ts_name = name, ts_terminalId = terminalId,
                               ts_createdAt = (if createdAt = [] then updatedAt else createdAt),
                               ts_updatedAt = (if updatedAt = [] then createdAt else updatedAt)\<rparr>)))"

definition sortTerminalSessions :: "(string \<Rightarrow> string \<Rightarrow> int) \<Rightarrow> terminal_session list \<Rightarrow> terminal_session list" where
  "sortTerminalSessions cmp sessions = js_sort (\<lambda>left right. cmp (ts_name left) (ts_name right)) sessions"

definition normalizeTerminalRegistry ::
  "(string \<Rightarrow> string \<Rightarrow> int) \<Rightarrow> js \<Rightarrow> string \<Rightarrow> terminal_registry option" where
  "normalizeTerminalRegistry cmp value workspaceId =
     (if \<not> isObjectRecord value \<or> js_prop value ''version'' \<noteq> JInt TERMINAL_REGISTRY_VERSION then None
      else if js_prop value ''workspaceId'' \<noteq> JStr workspaceId then None
      else Some
        \<lparr>tr_workspaceId = workspaceId,
         tr_sessions = sortTerminalSessions cmp
           (collect_named parseTerminalSessionRecord ts_id session_key {} {} (js_elements (js_prop value ''sessions''))),
         tr_updatedAt = readTrimmedString (js_prop value ''updatedAt'')\<rparr>)"

definition parseTerminalRegistry ::
  "(string \<Rightarrow> string \<Rightarrow> int) \<Rightarrow> (string \<Rightarrow> js option) \<Rightarrow> string \<Rightarrow> string \<Rightarrow> terminal_registry option" where
  "parseTerminalRegistry cmp json_parse serializedRegistry workspaceId =
     (case json_parse serializedRegistry of None \<Rightarrow> None | Some v \<Rightarrow> normalizeTerminalRegistry cmp v workspaceId)"

text \<open>A registry as a value.\<close>

definition terminal_session_js :: "terminal_session \<Rightarrow> js" where
  "terminal_session_js s = JObj [(''id'', JStr (ts_id s)), (''name'', JStr (ts_name s)), (''terminalId'', JStr (ts_terminalId s)),
     (''createdAt'', JStr (ts_createdAt s)), (''updatedAt'', JStr (ts_updatedAt s))]"

definition terminal_registry_js :: "terminal_registry \<Rightarrow> js" where
  "terminal_registry_js r = JObj [(''version'', JInt TERMINAL_REGISTRY_VERSION), (''workspaceId'', JStr (tr_workspaceId r)),
     (''sessions'', JArr (map terminal_session_js (tr_sessions r))), (''updatedAt'', JStr (tr_updatedAt r))]"

text \<open>\<open>normalizeTerminalRegistry(registry, registry.workspaceId) ?? registry\<close>\<close>

definition normalized_terminals :: "(string \<Rightarrow> string \<Rightarrow> int) \<Rightarrow> terminal_registry \<Rightarrow> terminal_registry" where
  "normalized_terminals cmp registry =
     (case normalizeTerminalRegistry cmp (terminal_registry_js registry) (tr_workspaceId registry) of Some r \<Rightarrow> r | None \<Rightarrow> registry)"

definition serializeTerminalRegistry ::
  "(string \<Rightarrow> string \<Rightarrow> int) \<Rightarrow> (js \<Rightarrow> string) \<Rightarrow> terminal_registry \<Rightarrow> string" where
  "serializeTerminalRegistry cmp stringify registry = stringify (terminal_registry_js (normalized_terminals cmp registry))"

section \<open>Mutations\<close>

definition upsertTerminalSession ::
  "(string \<Rightarrow> string \<Rightarrow> int) \<Rightarrow> terminal_registry \<Rightarrow> terminal_input \<Rightarrow> string \<Rightarrow> string \<Rightarrow>
   (terminal_registry, terminal_error) mutation" where
  "upsertTerminalSession cmp registry input newId timestamp =
     (let r = normalized_terminals cmp registry;
          name = normalizeTerminalSessionName (ti_name input);
          terminalId = js_trim (ti_terminalId input);
          sessionId = normalizeRecordId (js_nullable (ti_id input));
          matching = matching_named ts_id sessionId (tr_sessions r)
      in if name = [] then Err r terminal_session_name_required
         else if terminalId = [] then Err r terminal_kind_required
         else if \<exists>s \<in> set (tr_sessions r). Some (ts_id s) \<noteq> sessionId \<and> session_key s = createTerminalSessionNameKey name
         then Err r terminal_session_name_duplicate
         else if sessionId \<noteq> None \<and> matching = None then Err r terminal_session_not_found
         else Ok (r\<lparr>tr_sessions := sortTerminalSessions cmp
                     (put_named ts_id matching
                        \<lparr>ts_id = (case sessionId of Some i \<Rightarrow> i | None \<Rightarrow> newId), ts_name = name, ts_terminalId = terminalId,
                         ts_createdAt = (case matching of Some m \<Rightarrow> ts_createdAt m | None \<Rightarrow> timestamp),
                         ts_updatedAt = timestamp\<rparr>
                        (tr_sessions r)),
                   tr_updatedAt := timestamp\<rparr>))"

definition removeTerminalSession ::
  "(string \<Rightarrow> string \<Rightarrow> int) \<Rightarrow> terminal_registry \<Rightarrow> string \<Rightarrow> string \<Rightarrow> (terminal_registry, terminal_error) mutation" where
  "removeTerminalSession cmp registry sessionId timestamp =
     (let r = normalized_terminals cmp registry in
      if \<not> (\<exists>s \<in> set (tr_sessions r). ts_id s = sessionId) then Err r terminal_session_not_found
      else Ok (r\<lparr>tr_sessions := filter (\<lambda>s. ts_id s \<noteq> sessionId) (tr_sessions r), tr_updatedAt := timestamp\<rparr>))"

section \<open>What the mutations keep\<close>

definition session_ok :: "terminal_session \<Rightarrow> bool" where
  "session_ok s \<longleftrightarrow> ident_ok (ts_id s) \<and> named_text TERMINAL_SESSION_NAME_MAX_LENGTH (ts_name s) \<and>
     ident_ok (ts_terminalId s) \<and> stamps_ok (ts_createdAt s) (ts_updatedAt s)"

definition terminals_ok :: "terminal_registry \<Rightarrow> bool" where
  "terminals_ok r \<longleftrightarrow> named_ok ts_id session_key session_ok (tr_sessions r)"

lemma read_ident [simp]: "normalizeRecordId v = Some i \<Longrightarrow> ident_ok i"
  by (auto simp: ident_ok_def normalizeRecordId_def Let_def split: if_splits)

lemma trimmed_ident [simp]: "s \<noteq> [] \<Longrightarrow> trimmed s \<Longrightarrow> ident_ok s"
  by (simp add: ident_ok_def)

lemma session_name_text:
  "normalizeTerminalSessionName s \<noteq> [] \<Longrightarrow> named_text TERMINAL_SESSION_NAME_MAX_LENGTH (normalizeTerminalSessionName s)"
  unfolding normalizeTerminalSessionName_def by (rule record_name_text) (simp_all add: TERMINAL_SESSION_NAME_MAX_LENGTH_def)

lemma parsed_session_ok: "parseTerminalSessionRecord v = Some s \<Longrightarrow> session_ok s"
  by (auto simp: parseTerminalSessionRecord_def Let_def session_ok_def stamps_ok_def
      intro: session_name_text split: if_splits option.splits)

lemma terminal_js_props [simp]:
  "js_prop (terminal_registry_js r) ''version'' = JInt TERMINAL_REGISTRY_VERSION"
  "js_prop (terminal_registry_js r) ''workspaceId'' = JStr (tr_workspaceId r)"
  "js_prop (terminal_registry_js r) ''sessions'' = JArr (map terminal_session_js (tr_sessions r))"
  "js_prop (terminal_registry_js r) ''updatedAt'' = JStr (tr_updatedAt r)"
  "isObjectRecord (terminal_registry_js r)"
  by (simp_all add: terminal_registry_js_def js_prop_def)

lemma normalized_terminals_ok [simp]: "terminals_ok (normalized_terminals cmp r)"
  by (simp add: normalized_terminals_def normalizeTerminalRegistry_def terminals_ok_def sortTerminalSessions_def
      named_intros parsed_session_ok)

datatype terminal_op = UpsertSession terminal_input string string | RemoveSession string string

fun apply_terminal_op :: "(string \<Rightarrow> string \<Rightarrow> int) \<Rightarrow> terminal_op \<Rightarrow> terminal_registry \<Rightarrow> (terminal_registry, terminal_error) mutation" where
  "apply_terminal_op cmp (UpsertSession input newId now) r = upsertTerminalSession cmp r input newId now"
| "apply_terminal_op cmp (RemoveSession sessionId now) r = removeTerminalSession cmp r sessionId now"

fun terminal_fresh :: "terminal_op \<Rightarrow> terminal_registry \<Rightarrow> bool" where
  "terminal_fresh (UpsertSession input newId now) r \<longleftrightarrow>
     ident_ok newId \<and> newId \<notin> ts_id ` set (tr_sessions r) \<and> now \<noteq> [] \<and> trimmed now"
| "terminal_fresh (RemoveSession sessionId now) r \<longleftrightarrow> True"

lemma upsert_session_ok:
  assumes "upsertTerminalSession cmp registry input newId now = Ok r'"
    and "terminal_fresh (UpsertSession input newId now) (normalized_terminals cmp registry)"
  shows "terminals_ok r'"
proof -
  define r where "r = normalized_terminals cmp registry"
  define i where "i = normalizeRecordId (js_nullable (ti_id input))"
  define next_session where "next_session = \<lparr>ts_id = (case i of Some i \<Rightarrow> i | None \<Rightarrow> newId),
    ts_name = normalizeTerminalSessionName (ti_name input), ts_terminalId = js_trim (ti_terminalId input),
    ts_createdAt = (case matching_named ts_id i (tr_sessions r) of Some m \<Rightarrow> ts_createdAt m | None \<Rightarrow> now), ts_updatedAt = now\<rparr>"
  have r: "named_ok ts_id session_key session_ok (tr_sessions r)"
    using normalized_terminals_ok [of cmp registry] by (simp add: r_def terminals_ok_def)
  have ok: "normalizeTerminalSessionName (ti_name input) \<noteq> []" "js_trim (ti_terminalId input) \<noteq> []"
    "\<not> (\<exists>s \<in> set (tr_sessions r). Some (ts_id s) \<noteq> i \<and> session_key s = createTerminalSessionNameKey (normalizeTerminalSessionName (ti_name input)))"
    "i = None \<or> matching_named ts_id i (tr_sessions r) \<noteq> None"
    and r': "tr_sessions r' = sortTerminalSessions cmp (put_named ts_id (matching_named ts_id i (tr_sessions r)) next_session (tr_sessions r))"
    using assms(1) unfolding upsertTerminalSession_def Let_def r_def [symmetric] i_def [symmetric] next_session_def [symmetric]
    by (auto split: if_splits)
  have "stamps_ok (ts_createdAt next_session) now"
    using assms(2) next_stamps [OF r, of ts_createdAt ts_updatedAt now i] by (simp add: next_session_def session_ok_def)
  moreover have "ident_ok (ts_id next_session)"
    using assms(2) by (auto simp: next_session_def i_def split: option.split)
  ultimately have "session_ok next_session"
    using ok(1,2) session_name_text by (simp add: session_ok_def next_session_def)
  then show ?thesis
    unfolding terminals_ok_def r' sortTerminalSessions_def
    using r ok(3,4) assms(2)
    by (intro named_ok_upsert [where newId = newId]) (simp_all add: next_session_def session_key_def r_def)
qed

lemma terminal_op_ok: "apply_terminal_op cmp op r = Ok r' \<Longrightarrow> terminal_fresh op (normalized_terminals cmp r) \<Longrightarrow> terminals_ok r'"
  using normalized_terminals_ok [of cmp r]
  by (cases op) (auto simp: removeTerminalSession_def Let_def terminals_ok_def
      intro: upsert_session_ok [unfolded terminals_ok_def] named_ok_filter split: if_splits)

lemma terminal_op_refused: "apply_terminal_op cmp op r = Err r' e \<Longrightarrow> r' = normalized_terminals cmp r"
  by (cases op) (auto simp: upsertTerminalSession_def removeTerminalSession_def Let_def split: if_splits)

interpretation terminals: healing_registry "\<lambda>op. normalized_terminals cmp" "apply_terminal_op cmp" terminal_fresh terminals_ok for cmp
  by unfold_locales (auto dest: terminal_op_ok terminal_op_refused)

section \<open>Reading back\<close>

definition reread_session :: "terminal_session \<Rightarrow> terminal_session" where
  "reread_session s = s\<lparr>ts_name := js_trim (ts_name s),
     ts_createdAt := (if ts_createdAt s = [] then ts_updatedAt s else ts_createdAt s)\<rparr>"

lemma ident_read [simp]: "ident_ok i \<Longrightarrow> normalizeRecordId (JStr i) = Some i"
  by (simp add: ident_ok_def normalizeRecordId_def js_trim_trimmed)

lemma session_name_again:
  "session_ok s \<Longrightarrow> normalizeTerminalSessionName (js_trim (ts_name s)) = js_trim (ts_name s) \<and> js_trim (ts_name s) \<noteq> [] \<and>
   session_key (reread_session s) = session_key s"
  using trimmed_name [of TERMINAL_SESSION_NAME_MAX_LENGTH "ts_name s"]
  by (simp add: session_ok_def normalizeTerminalSessionName_def session_key_def createTerminalSessionNameKey_def reread_session_def named_text_def)

lemma parse_session: "session_ok s \<Longrightarrow> parseTerminalSessionRecord (terminal_session_js s) = Some (reread_session s)"
  using session_name_again [of s]
  by (cases s) (auto simp: parseTerminalSessionRecord_def terminal_session_js_def js_prop_def Let_def reread_session_def
      session_ok_def stamps_ok_def ident_ok_def normalizeRecordId_def js_trim_trimmed)

lemma normalized_terminals_sessions:
  assumes "terminals_ok r"
  shows "tr_sessions (normalized_terminals cmp r) = sortTerminalSessions cmp (map reread_session (tr_sessions r))"
proof -
  have "collect_named parseTerminalSessionRecord ts_id session_key {} {} (map terminal_session_js (tr_sessions r)) =
      map reread_session (tr_sessions r)"
    using assms session_name_again
    by (intro collect_named_all [where good = session_ok])
      (auto simp: terminals_ok_def named_ok_def parse_session, auto simp: reread_session_def)
  then show ?thesis by (simp add: normalized_terminals_def normalizeTerminalRegistry_def)
qed

end
