(* ===== verification/Agent_Laws.thy ===== *)
theory Agent_Laws
  imports Agent_Registry Terminal_Registry
begin

text \<open>
  What the operations on agents keep, and that reading a stored registry loses no agent and no evaluation.
\<close>

section \<open>Agents in order\<close>

definition agent_ok :: "agent_record \<Rightarrow> bool" where
  "agent_ok a \<longleftrightarrow> ident_ok (ag_id a) \<and> named_text AGENT_NAME_MAX_LENGTH (ag_name a) \<and>
     (\<forall>s. ag_environmentSecretId a = Some s \<longrightarrow> ident_ok s) \<and> (\<forall>p. ag_personaId a = Some p \<longrightarrow> ident_ok p) \<and>
     ag_executionProvider a \<in> set executionProviders \<and>
     (\<forall>m. ag_modelId a = Some m \<longrightarrow> named_text AGENT_MODEL_ID_MAX_LENGTH m) \<and>
     summary_ok (ag_evaluationSummary a) \<and>
     distinct (ag_evaluationKeys a) \<and> (\<forall>k \<in> set (ag_evaluationKeys a). ident_ok k) \<and>
     (\<forall>t. ag_evaluationResetAt a = Some t \<longrightarrow> ident_ok t) \<and> stamps_ok (ag_createdAt a) (ag_updatedAt a)"

definition agents_ok :: "agent_registry \<Rightarrow> bool" where
  "agents_ok r \<longleftrightarrow> named_ok ag_id agent_key agent_ok (gr_agents r)"

lemma agent_name_text: "normalizeAgentName s \<noteq> [] \<Longrightarrow> named_text AGENT_NAME_MAX_LENGTH (normalizeAgentName s)"
  unfolding normalizeAgentName_def by (rule record_name_text) (simp_all add: AGENT_NAME_MAX_LENGTH_def)

lemma provider_known [simp]: "normalizeAgentExecutionProvider v \<in> set executionProviders"
  by (simp add: normalizeAgentExecutionProvider_def executionProviders_def Let_def)

lemma model_text: "normalizeAgentModelId v = Some m \<Longrightarrow> named_text AGENT_MODEL_ID_MAX_LENGTH m"
  using record_name_text [of "readTrimmedString v" AGENT_MODEL_ID_MAX_LENGTH]
  by (auto simp: normalizeAgentModelId_def Let_def AGENT_MODEL_ID_MAX_LENGTH_def split: if_splits)

lemma timestamp_ident: "normalizeOptionalTimestamp v = Some t \<Longrightarrow> ident_ok t"
  by (auto simp: normalizeOptionalTimestamp_def Let_def ident_ok_def split: if_splits)

lemma keys_ok:
  assumes "distinct keys \<and> Ball (set keys) ident_ok"
  shows "distinct (evaluation_keys_from keys items) \<and> Ball (set (evaluation_keys_from keys items)) ident_ok"
  using assms
proof (induction items arbitrary: keys)
  case (Cons item items)
  show ?case
  proof (cases "normalizeRecordId item")
    case (Some k)
    define next_keys where "next_keys = (if k \<in> set keys then keys else keys @ [k])"
    have "ident_ok k" using Some by (rule read_ident)
    then have next_ok: "distinct next_keys \<and> Ball (set next_keys) ident_ok"
      using Cons.prems unfolding next_keys_def by (cases "k \<in> set keys") auto
    have "evaluation_keys_from keys (item # items) = evaluation_keys_from next_keys items"
      by (simp add: Some next_keys_def)
    then show ?thesis unfolding \<open>evaluation_keys_from keys (item # items) = _\<close> by (intro Cons.IH next_ok)
  next
    case None
    then have "evaluation_keys_from keys (item # items) = evaluation_keys_from keys items" by simp
    then show ?thesis unfolding \<open>evaluation_keys_from keys (item # items) = _\<close> by (intro Cons.IH Cons.prems)
  qed
next
  case Nil
  then show ?case unfolding evaluation_keys_from.simps(1) .
qed

lemma keys_normalized_ok:
  "distinct (normalizeEvaluationKeys v) \<and> (\<forall>k \<in> set (normalizeEvaluationKeys v). ident_ok k)"
  unfolding normalizeEvaluationKeys_def by (rule keys_ok) simp_all

lemma parsed_agent_ok:
  assumes "parseAgentRecord parse_float v = Some a"
  shows "agent_ok a"
proof -
  obtain i where i: "normalizeRecordId (js_prop v ''id'') = Some i"
    and name: "normalizeAgentName (readTrimmedString (js_prop v ''name'')) \<noteq> []"
    using assms by (simp add: parseAgentRecord_def Let_def split: if_splits option.splits)
  then have a: "ag_id a = i" "ag_name a = normalizeAgentName (readTrimmedString (js_prop v ''name''))"
    "ag_environmentSecretId a = normalizeRecordId (js_prop v ''environmentSecretId'')"
    "ag_personaId a = normalizeRecordId (js_prop v ''personaId'')"
    "ag_executionProvider a = normalizeAgentExecutionProvider (js_prop v ''executionProvider'')"
    "ag_modelId a = normalizeAgentModelId (js_prop v ''modelId'')"
    "ag_evaluationSummary a = normalizeAgentEvaluationSummary parse_float (js_prop v ''evaluationSummary'')"
    "ag_evaluationKeys a = normalizeEvaluationKeys (js_prop v ''evaluationKeys'')"
    "ag_evaluationResetAt a = normalizeOptionalTimestamp (js_prop v ''evaluationResetAt'')"
    and stamps: "stamps_ok (ag_createdAt a) (ag_updatedAt a)"
    using assms by (auto simp: parseAgentRecord_def Let_def stamps_ok_def split: if_splits)
  show ?thesis
    unfolding agent_ok_def a
    using stamps keys_normalized_ok agent_name_text [OF name] read_ident [OF i] by (auto intro: model_text timestamp_ident)
qed

lemma agent_js_props [simp]:
  "js_prop (agent_registry_js r) ''version'' = JInt AGENT_REGISTRY_VERSION"
  "js_prop (agent_registry_js r) ''revision'' = JInt (gr_revision r)"
  "js_prop (agent_registry_js r) ''workspaceId'' = JStr (gr_workspaceId r)"
  "js_prop (agent_registry_js r) ''agents'' = JArr (map agent_js (gr_agents r))"
  "js_prop (agent_registry_js r) ''updatedAt'' = JStr (gr_updatedAt r)"
  "isObjectRecord (agent_registry_js r)"
  by (simp_all add: agent_registry_js_def js_prop_def)

lemma current_version [simp]: "isSupportedAgentRegistryVersion (JInt AGENT_REGISTRY_VERSION)"
  by (simp add: isSupportedAgentRegistryVersion_def SUPPORTED_AGENT_REGISTRY_VERSIONS_def)

lemma normalized_agents_eq:
  "normalized_agents cmp parse_float r =
     \<lparr>gr_revision = normalizeRegistryRevision (JInt (gr_revision r)), gr_workspaceId = gr_workspaceId r,
      gr_agents = sortAgents cmp
        (collect_named (parseAgentRecord parse_float) ag_id agent_key {} {} (map agent_js (gr_agents r))),
      gr_updatedAt = js_trim (gr_updatedAt r)\<rparr>"
  by (simp add: normalized_agents_def normalizeAgentRegistry_def)

lemma normalized_agents_ok [simp]: "agents_ok (normalized_agents cmp parse_float r)"
  by (simp add: normalized_agents_eq agents_ok_def sortAgents_def named_intros parsed_agent_ok)

section \<open>Mutations\<close>

datatype agent_op =
    UpsertAgent agent_input string
  | RemoveAgent string
  | AssignPersona "string list" string
  | ClearPersona string
  | RecordEvaluation string evaluation_scores
  | RecordEvaluationOnce string string evaluation_scores
  | ResetEvaluation string

type_synonym timed_agent_op = "agent_op \<times> string"   \<comment> \<open>with the time\<close>

fun apply_agent_op ::
  "(string \<Rightarrow> string \<Rightarrow> int) \<Rightarrow> (string \<Rightarrow> js_number) \<Rightarrow> timed_agent_op \<Rightarrow> agent_registry \<Rightarrow> (agent_registry, agent_error) mutation" where
  "apply_agent_op cmp pf (UpsertAgent input newId, now) r = upsertAgent cmp pf r input newId now"
| "apply_agent_op cmp pf (RemoveAgent i, now) r = removeAgent cmp pf r i now"
| "apply_agent_op cmp pf (AssignPersona ids p, now) r = Ok (assignPersonaToAgents cmp pf r ids p now)"
| "apply_agent_op cmp pf (ClearPersona p, now) r = Ok (clearPersonaFromAgents cmp pf r p now)"
| "apply_agent_op cmp pf (RecordEvaluation i scores, now) r = recordAgentEvaluation cmp pf r i scores now"
| "apply_agent_op cmp pf (RecordEvaluationOnce i key scores, now) r = snd (recordAgentEvaluationOnce cmp pf r i key scores now)"
| "apply_agent_op cmp pf (ResetEvaluation i, now) r = resetAgentEvaluation cmp pf r i now"

fun agent_fresh :: "timed_agent_op \<Rightarrow> agent_registry \<Rightarrow> bool" where
  "agent_fresh (op, now) r \<longleftrightarrow> now \<noteq> [] \<and> trimmed now \<and>
     (case op of UpsertAgent input newId \<Rightarrow> ident_ok newId \<and> newId \<notin> ag_id ` set (gr_agents r) | _ \<Rightarrow> True)"

lemma upsert_agent_ok:
  assumes "upsertAgent cmp pf registry input newId now = Ok r'"
    and "agent_fresh (UpsertAgent input newId, now) (normalized_agents cmp pf registry)"
  shows "agents_ok r'"
proof -
  define r where "r = normalized_agents cmp pf registry"
  define i where "i = normalizeRecordId (js_nullable (ai_id input))"
  define m where "m = matching_named ag_id i (gr_agents r)"
  define next_agent where "next_agent = \<lparr>ag_id = (case i of Some i \<Rightarrow> i | None \<Rightarrow> newId),
    ag_name = normalizeAgentName (ai_name input),
    ag_environmentSecretId = normalizeRecordId (js_nullable (ai_environmentSecretId input)),
    ag_personaId = normalizeRecordId (js_nullable (ai_personaId input)),
    ag_executionProvider = normalizeAgentExecutionProvider (js_nullable (ai_executionProvider input)),
    ag_modelId = normalizeAgentModelId (js_nullable (ai_modelId input)),
    ag_evaluationSummary = (case m of Some m \<Rightarrow> ag_evaluationSummary m | None \<Rightarrow> createEmptyAgentEvaluationSummary),
    ag_evaluationKeys = (case m of Some m \<Rightarrow> ag_evaluationKeys m | None \<Rightarrow> []),
    ag_evaluationResetAt = (case m of Some m \<Rightarrow> ag_evaluationResetAt m | None \<Rightarrow> None),
    ag_createdAt = (case m of Some m \<Rightarrow> ag_createdAt m | None \<Rightarrow> now), ag_updatedAt = now\<rparr>"
  have r: "named_ok ag_id agent_key agent_ok (gr_agents r)"
    using normalized_agents_ok [of cmp pf registry] by (simp add: r_def agents_ok_def)
  have ok: "normalizeAgentName (ai_name input) \<noteq> []"
    "\<not> (\<exists>a \<in> set (gr_agents r). Some (ag_id a) \<noteq> i \<and> agent_key a = createAgentNameKey (normalizeAgentName (ai_name input)))"
    "i = None \<or> m \<noteq> None"
    and r': "gr_agents r' = sortAgents cmp (put_named ag_id m next_agent (gr_agents r))"
    using assms(1) unfolding upsertAgent_def Let_def r_def [symmetric] i_def [symmetric] m_def [symmetric] next_agent_def [symmetric]
    by (auto split: if_splits)
  have old: "agent_ok a" if "m = Some a" for a
    using matching_named_Some [of ag_id i "gr_agents r" a] that r by (auto simp: m_def named_ok_def)
  have "stamps_ok (ag_createdAt next_agent) now"
    using assms(2) next_stamps [OF r, of ag_createdAt ag_updatedAt now i] by (simp add: next_agent_def agent_ok_def m_def)
  moreover have "ident_ok (ag_id next_agent)"
    using assms(2) by (auto simp: next_agent_def i_def split: option.split)
  ultimately have "agent_ok next_agent"
    using ok(1) agent_name_text old by (cases m) (auto simp: agent_ok_def next_agent_def intro: model_text)
  then show ?thesis
    unfolding agents_ok_def r' sortAgents_def m_def
    using r ok(2,3) assms(2)
    by (intro named_ok_upsert [where newId = newId]) (simp_all add: next_agent_def agent_key_def r_def m_def)
qed

lemma agents_ok_change:
  fixes f :: "agent_record \<Rightarrow> agent_record"
  assumes "named_ok ag_id agent_key agent_ok (gr_agents r)"
    and "\<And>a. agent_ok a \<Longrightarrow> agent_ok (f a)" and "\<And>a. ag_id (f a) = ag_id a \<and> ag_name (f a) = ag_name a"
  shows "agents_ok (r\<lparr>gr_agents := sortAgents cmp (map f (gr_agents r)), gr_updatedAt := now\<rparr>)"
  using assms by (auto simp: agents_ok_def sortAgents_def agent_key_def intro!: named_ok_sort named_ok_map)

lemma change_agent_ok:
  fixes change :: "agent_record \<Rightarrow> agent_record"
  assumes "agents_ok r" and "now \<noteq> []" and "trimmed now"
    and "\<And>a. agent_ok a \<Longrightarrow> agent_ok (change a)" and "\<And>a. ag_id (change a) = ag_id a \<and> ag_name (change a) = ag_name a"
  shows "agents_ok (change_agent cmp r i change now)"
  unfolding change_agent_def
proof (rule agents_ok_change)
  show "named_ok ag_id agent_key agent_ok (gr_agents r)" using assms(1) by (simp add: agents_ok_def)
  show "agent_ok (if ag_id a = i then (change a)\<lparr>ag_updatedAt := now\<rparr> else a)" if "agent_ok a" for a
    using assms(2,3) assms(4) [OF that] that by (auto simp: agent_ok_def intro: stamps_touched)
qed (use assms(5) in simp)

lemma persona_change_ok:
  fixes P :: "agent_record \<Rightarrow> bool" and r :: agent_registry
  assumes "agents_ok r" and "now \<noteq> []" and "trimmed now" and "\<And>s. p = Some s \<Longrightarrow> ident_ok s"
  shows "agents_ok (r\<lparr>gr_agents := sortAgents cmp (map (\<lambda>a :: agent_record. if P a then a\<lparr>ag_personaId := p, ag_updatedAt := now\<rparr> else a) (gr_agents r)),
    gr_updatedAt := now\<rparr>)"
proof (rule agents_ok_change)
  show "named_ok ag_id agent_key agent_ok (gr_agents r)" using assms(1) by (simp add: agents_ok_def)
  show "agent_ok (if P a then a\<lparr>ag_personaId := p, ag_updatedAt := now\<rparr> else a)" if "agent_ok a" for a :: agent_record
    using that assms(2-4) by (auto simp: agent_ok_def intro: stamps_touched)
qed simp

lemma agent_op_ok:
  assumes "apply_agent_op cmp pf op r = Ok r'" and "agent_fresh op (normalized_agents cmp pf r)"
  shows "agents_ok r'"
proof -
  obtain op' now where op: "op = (op', now)" by (cases op) auto
  have now: "now \<noteq> []" "trimmed now" using assms(2) op by simp_all
  have r: "agents_ok (normalized_agents cmp pf r)" by simp
  show ?thesis
  proof (cases op')
    case (UpsertAgent input newId)
    then show ?thesis using assms op by (auto intro: upsert_agent_ok)
  next
    case (RemoveAgent i)
    then show ?thesis using assms(1) op r
      by (auto simp: removeAgent_def Let_def agents_ok_def intro: named_ok_filter split: if_splits)
  next
    case (AssignPersona ids p)
    then show ?thesis using assms(1) op now r
      by (auto simp: assignPersonaToAgents_def Let_def intro!: persona_change_ok)
  next
    case (ClearPersona p)
    then show ?thesis using assms(1) op now r
      by (auto simp: clearPersonaFromAgents_def Let_def intro!: persona_change_ok)
  next
    case (RecordEvaluation i scores)
    then show ?thesis using assms(1) op now r
      by (auto simp: recordAgentEvaluation_def Let_def agent_ok_def intro!: change_agent_ok split: option.splits)
  next
    case (RecordEvaluationOnce i key scores)
    define n where "n = normalized_agents cmp pf r"
    consider "r' = n" | m k where "k \<notin> set (ag_evaluationKeys m)" "normalizeRecordId (JStr key) = Some k" "evaluated_agent n i = Some m"
        "r' = change_agent cmp n (ag_id m) (\<lambda>a. a\<lparr>ag_evaluationSummary := addAgentEvaluationScores pf (ag_evaluationSummary a) scores,
          ag_evaluationKeys := ag_evaluationKeys a @ [k]\<rparr>) now"
      using assms(1) op RecordEvaluationOnce
      by (auto simp: recordAgentEvaluationOnce_def Let_def n_def [symmetric] split: option.splits if_splits)
    then show ?thesis
    proof cases
      case 1
      then show ?thesis using r by (simp add: n_def)
    next
      case 2
      have m: "m \<in> set (gr_agents n)" using 2(3) by (auto simp: evaluated_agent_def dest: matching_named_Some)
      have "named_ok ag_id agent_key agent_ok (gr_agents n)" using r by (simp add: agents_ok_def n_def)
      define f where "f = (\<lambda>a :: agent_record. if ag_id a = ag_id m then a\<lparr>ag_evaluationSummary := addAgentEvaluationScores pf (ag_evaluationSummary a) scores,
          ag_evaluationKeys := ag_evaluationKeys a @ [k], ag_updatedAt := now\<rparr> else a)"
      have good: "agent_ok (f a)" if "a \<in> set (gr_agents n)" for a
      proof -
        have "a = m" if "ag_id a = ag_id m"
          using that m \<open>a \<in> _\<close> \<open>named_ok ag_id agent_key agent_ok (gr_agents n)\<close> distinct_map_eq by (fastforce simp: named_ok_def)
        moreover have "agent_ok a" using that \<open>named_ok ag_id agent_key agent_ok (gr_agents n)\<close> by (simp add: named_ok_def)
        ultimately show ?thesis using 2(1,2) now
          by (auto simp: f_def agent_ok_def intro: stamps_touched)
      qed
      have "named_ok ag_id agent_key agent_ok (map f (gr_agents n))"
      proof -
        have "map ag_id (map f (gr_agents n)) = map ag_id (gr_agents n)"
          "map agent_key (map f (gr_agents n)) = map agent_key (gr_agents n)"
          by (simp_all add: f_def agent_key_def)
        then show ?thesis using \<open>named_ok ag_id agent_key agent_ok (gr_agents n)\<close> good
          unfolding named_ok_def by (simp del: map_map)
      qed
      moreover have "gr_agents r' = sortAgents cmp (map f (gr_agents n))"
        using 2(4) by (simp add: change_agent_def f_def if_distrib [of "\<lambda>a. a\<lparr>ag_updatedAt := now\<rparr>"] cong: if_cong)
      ultimately show ?thesis by (simp add: agents_ok_def sortAgents_def named_ok_sort)
    qed
  next
    case (ResetEvaluation i)
    then show ?thesis using assms(1) op now r
      by (auto simp: resetAgentEvaluation_def Let_def agent_ok_def intro!: change_agent_ok split: option.splits)
  qed
qed

lemma agent_op_refused: "apply_agent_op cmp pf op r = Err r' e \<Longrightarrow> r' = normalized_agents cmp pf r"
  by (cases "(cmp, pf, op, r)" rule: apply_agent_op.cases)
    (auto simp: upsertAgent_def removeAgent_def recordAgentEvaluation_def recordAgentEvaluationOnce_def
      resetAgentEvaluation_def Let_def split: if_splits option.splits)

interpretation agents: healing_registry "\<lambda>op. normalized_agents cmp pf" "apply_agent_op cmp pf" agent_fresh agents_ok for cmp pf
  by unfold_locales (auto dest: agent_op_ok agent_op_refused)

end
