(* ===== verification/Registry_Properties.thy ===== *)
theory Registry_Properties
  imports Agent_Laws
begin

text \<open>
  Properties of the agents and the terminal sessions of a workspace, each with an instance at a concrete
  registry.
\<close>

section \<open>Reading agents back\<close>

definition reread_agent :: "agent_record \<Rightarrow> agent_record" where
  "reread_agent a = a\<lparr>ag_name := js_trim (ag_name a), ag_modelId := map_option js_trim (ag_modelId a),
     ag_createdAt := (if ag_createdAt a = [] then ag_updatedAt a else ag_createdAt a)\<rparr>"

lemma agent_name_again:
  "agent_ok a \<Longrightarrow> normalizeAgentName (js_trim (ag_name a)) = js_trim (ag_name a) \<and> js_trim (ag_name a) \<noteq> [] \<and>
   agent_key (reread_agent a) = agent_key a"
  using trimmed_name [of AGENT_NAME_MAX_LENGTH "ag_name a"]
  by (simp add: agent_ok_def normalizeAgentName_def agent_key_def createAgentNameKey_def reread_agent_def named_text_def)

lemma model_again:
  "(\<And>m. model = Some m \<Longrightarrow> named_text AGENT_MODEL_ID_MAX_LENGTH m) \<Longrightarrow>
   normalizeAgentModelId (js_nullable model) = map_option js_trim model"
  using trimmed_name [of AGENT_MODEL_ID_MAX_LENGTH "the model"]
  by (cases model) (auto simp: normalizeAgentModelId_def js_nullable_def named_text_def AGENT_MODEL_ID_MAX_LENGTH_def Let_def)

lemma optional_ident_again: "(\<And>i. x = Some i \<Longrightarrow> ident_ok i) \<Longrightarrow> normalizeRecordId (js_nullable x) = x"
  by (cases x) (simp_all add: js_nullable_def ident_read, simp add: normalizeRecordId_def)

lemma optional_time_again: "(\<And>i. x = Some i \<Longrightarrow> ident_ok i) \<Longrightarrow> normalizeOptionalTimestamp (js_nullable x) = x"
  by (cases x) (auto simp: js_nullable_def normalizeOptionalTimestamp_def ident_ok_def js_trim_trimmed)

lemma keys_again:
  "distinct (keys @ more_keys) \<Longrightarrow> Ball (set more_keys) ident_ok \<Longrightarrow>
   evaluation_keys_from keys (map JStr more_keys) = keys @ more_keys"
proof (induction more_keys arbitrary: keys)
  case (Cons k ks)
  then have "normalizeRecordId (JStr k) = Some k" "k \<notin> set keys" by (auto intro: ident_read)
  moreover have "evaluation_keys_from (keys @ [k]) (map JStr ks) = (keys @ [k]) @ ks"
    using Cons.prems by (intro Cons.IH) auto
  ultimately show ?case by simp
qed simp

lemma provider_again: "p \<in> set executionProviders \<Longrightarrow> normalizeAgentExecutionProvider (JStr p) = p"
  by (auto simp: executionProviders_def) (code_simp+)

lemma agent_js_fields:
  "js_prop (agent_js a) ''id'' = JStr (ag_id a)" "js_prop (agent_js a) ''name'' = JStr (ag_name a)"
  "js_prop (agent_js a) ''environmentSecretId'' = js_nullable (ag_environmentSecretId a)"
  "js_prop (agent_js a) ''personaId'' = js_nullable (ag_personaId a)"
  "js_prop (agent_js a) ''executionProvider'' = JStr (ag_executionProvider a)"
  "js_prop (agent_js a) ''modelId'' = js_nullable (ag_modelId a)"
  "js_prop (agent_js a) ''evaluationSummary'' = summary_js (ag_evaluationSummary a)"
  "js_prop (agent_js a) ''evaluationKeys'' = JArr (map JStr (ag_evaluationKeys a))"
  "js_prop (agent_js a) ''evaluationResetAt'' = js_nullable (ag_evaluationResetAt a)"
  "js_prop (agent_js a) ''createdAt'' = JStr (ag_createdAt a)" "js_prop (agent_js a) ''updatedAt'' = JStr (ag_updatedAt a)"
  "isObjectRecord (agent_js a)"
  by (simp_all add: agent_js_def js_prop_def)

lemma parse_agent:
  assumes "agent_ok a"
  shows "parseAgentRecord pf (agent_js a) = Some (reread_agent a)"
proof -
  have fields: "normalizeRecordId (js_nullable (ag_environmentSecretId a)) = ag_environmentSecretId a"
    "normalizeRecordId (js_nullable (ag_personaId a)) = ag_personaId a"
    "normalizeOptionalTimestamp (js_nullable (ag_evaluationResetAt a)) = ag_evaluationResetAt a"
    "normalizeAgentModelId (js_nullable (ag_modelId a)) = map_option js_trim (ag_modelId a)"
    "normalizeAgentExecutionProvider (JStr (ag_executionProvider a)) = ag_executionProvider a"
    "normalizeAgentEvaluationSummary pf (summary_js (ag_evaluationSummary a)) = ag_evaluationSummary a"
    "normalizeEvaluationKeys (JArr (map JStr (ag_evaluationKeys a))) = ag_evaluationKeys a"
    "normalizeRecordId (JStr (ag_id a)) = Some (ag_id a)"
    using assms keys_again [of "[]" "ag_evaluationKeys a"] unfolding agent_ok_def
    by (simp_all add: optional_ident_again optional_time_again model_again provider_again normalize_summary_id
        normalizeEvaluationKeys_def)
  moreover have "trimmed (ag_createdAt a)" "trimmed (ag_updatedAt a)" "ag_updatedAt a = [] \<Longrightarrow> ag_createdAt a = []"
    using assms by (simp_all add: agent_ok_def stamps_ok_def)
  ultimately show ?thesis
    using agent_name_again [OF assms]
    by (auto simp: parseAgentRecord_def agent_js_fields Let_def reread_agent_def js_trim_trimmed intro!: agent_record.equality)
qed

lemma normalized_agents_agents:
  assumes "agents_ok r"
  shows "gr_agents (normalized_agents cmp pf r) = sortAgents cmp (map reread_agent (gr_agents r))"
proof -
  have "collect_named (parseAgentRecord pf) ag_id agent_key {} {} (map agent_js (gr_agents r)) = map reread_agent (gr_agents r)"
    using assms agent_name_again
    by (intro collect_named_all [where good = agent_ok])
      (auto simp: agents_ok_def named_ok_def parse_agent, auto simp: reread_agent_def)
  then show ?thesis by (simp add: normalized_agents_eq)
qed

section \<open>Finding an agent\<close>

lemma matching_named_member:
  "distinct (map ident rs) \<Longrightarrow> x \<in> set rs \<Longrightarrow> ident x = i \<Longrightarrow> matching_named ident (Some i) rs = Some x"
  by (induction rs) (auto simp: matching_named_def)

lemma agents_distinct: "agents_ok r \<Longrightarrow> distinct (map ag_id (gr_agents r))"
  by (simp add: agents_ok_def named_ok_def)

lemma evaluated_member:
  "agents_ok r \<Longrightarrow> evaluated_agent r i = Some a \<longleftrightarrow> a \<in> set (gr_agents r) \<and> normalizeRecordId (JStr i) = Some (ag_id a)"
  by (auto simp: evaluated_agent_def agents_distinct matching_named_member dest: matching_named_Some)

lemma evaluated_again:
  "agents_ok r \<Longrightarrow> evaluated_agent r i = Some a \<Longrightarrow> evaluated_agent (normalized_agents cmp pf r) i = Some (reread_agent a)"
  by (simp add: evaluated_member normalized_agents_agents sortAgents_def) (auto simp: reread_agent_def)

section \<open>Properties\<close>

text \<open>
  Whatever registry they are given, insertions, removals, personas and evaluations of agents leave one in
  which every agent is well formed (its counts and sums of scores within their bounds) and no identifier, no
  name (by its key) and no evaluation of one agent occurs twice, also when they are refused, as long as the
  generated identifiers are new.
\<close>

theorem agent_mutations_repair:
  assumes "fresh_along (\<lambda>op. normalized_agents cmp pf) (apply_agent_op cmp pf) agent_fresh ops registry" and "ops \<noteq> []"
  shows "agents_ok (run_ops (apply_agent_op cmp pf) ops registry)"
  by (rule agents.run_heals [OF assms])

text \<open>
  C23: An evaluation with a key counts once: it adds one evaluation to the agent it is for and nothing to the
  others, and recording the same key again, with whatever scores, is answered with the registry as it is.
\<close>

theorem evaluation_counts_once:
  assumes "recordAgentEvaluationOnce cmp pf registry i key scores now = (True, Ok r)" and "now \<noteq> [] \<and> trimmed now"
  shows "(\<exists>a b. evaluated_agent (normalized_agents cmp pf registry) i = Some a \<and> evaluated_agent r i = Some b \<and>
      es_totalCount (ag_evaluationSummary b) = es_totalCount (ag_evaluationSummary a) + 1 \<and>
      ag_evaluationKeys b = ag_evaluationKeys a @ [js_trim key] \<and>
      (\<forall>x. ag_id x \<noteq> ag_id a \<longrightarrow> (x \<in> set (gr_agents r) \<longleftrightarrow> x \<in> set (gr_agents (normalized_agents cmp pf registry))))) \<and>
    recordAgentEvaluationOnce cmp pf r i key scores' now' = (False, Ok (normalized_agents cmp pf r))"
proof -
  define n where "n = normalized_agents cmp pf registry"
  have n: "agents_ok n" by (simp add: n_def)
  obtain a k where a: "evaluated_agent n i = Some a" and k: "normalizeRecordId (JStr key) = Some k"
    and r: "r = change_agent cmp n (ag_id a)
      (\<lambda>x. x\<lparr>ag_evaluationSummary := addAgentEvaluationScores pf (ag_evaluationSummary x) scores,
             ag_evaluationKeys := ag_evaluationKeys x @ [k]\<rparr>) now"
    using assms(1) by (auto simp: recordAgentEvaluationOnce_def Let_def n_def split: option.splits if_splits)
  define b where "b = a\<lparr>ag_evaluationSummary := addAgentEvaluationScores pf (ag_evaluationSummary a) scores,
    ag_evaluationKeys := ag_evaluationKeys a @ [k], ag_updatedAt := now\<rparr>"
  have a_in: "a \<in> set (gr_agents n)" and i: "normalizeRecordId (JStr i) = Some (ag_id a)"
    using a n by (simp_all add: evaluated_member)
  have "agents_ok r"
    using agent_op_ok [of cmp pf "(RecordEvaluationOnce i key scores, now)" registry r] assms by simp
  moreover have "b \<in> set (gr_agents r)" using a_in by (force simp: r change_agent_def sortAgents_def b_def)
  ultimately have b: "evaluated_agent r i = Some b" using i by (simp add: evaluated_member b_def)
  have "recordAgentEvaluationOnce cmp pf r i key scores' now' = (False, Ok (normalized_agents cmp pf r))"
    using evaluated_again [OF \<open>agents_ok r\<close> b, of cmp pf] k
    by (simp add: recordAgentEvaluationOnce_def Let_def reread_agent_def b_def)
  moreover have "es_totalCount (ag_evaluationSummary b) = es_totalCount (ag_evaluationSummary a) + 1"
    using a_in n normalize_summary_id [of "ag_evaluationSummary a" pf]
    by (simp add: b_def addAgentEvaluationScores_def Let_def agents_ok_def named_ok_def agent_ok_def)
  moreover have "ag_evaluationKeys b = ag_evaluationKeys a @ [js_trim key]"
    using k by (simp add: b_def normalizeRecordId_def Let_def split: if_splits)
  moreover have "x \<in> set (gr_agents r) \<longleftrightarrow> x \<in> set (gr_agents n)" if "ag_id x \<noteq> ag_id a" for x
    using that by (force simp: r change_agent_def sortAgents_def)
  ultimately show ?thesis using a b unfolding n_def by blast
qed

definition wit_agent :: agent_record where
  "wit_agent = \<lparr>ag_id = ''a'', ag_name = ''A'', ag_environmentSecretId = Some ''s'', ag_personaId = None,
     ag_executionProvider = ''auto'', ag_modelId = None, ag_evaluationSummary = createEmptyAgentEvaluationSummary,
     ag_evaluationKeys = [], ag_evaluationResetAt = None, ag_createdAt = ''t'', ag_updatedAt = ''t''\<rparr>"

definition wit_agents :: agent_registry where
  "wit_agents = \<lparr>gr_revision = 0, gr_workspaceId = ''w'', gr_agents = [wit_agent], gr_updatedAt = ''t''\<rparr>"

definition no_float :: "string \<Rightarrow> js_number" where
  "no_float s = Inr NotANumber"

definition wit_scores :: evaluation_scores where
  "wit_scores = (\<lambda>_. JInt 7)"

lemma wit_agents_ok: "agents_ok wit_agents"
  by (simp add: wit_agents_def wit_agent_def agents_ok_def named_ok_def agent_ok_def ident_ok_def named_text_def
      executionProviders_def stamps_ok_def trimmed_def js_ws_def AGENT_NAME_MAX_LENGTH_def)

lemma wit_normalized:
  "gr_agents (normalized_agents (\<lambda>_ _. 0) no_float wit_agents) = [wit_agent]"
  by (simp add: normalized_agents_agents wit_agents_ok)
    (simp add: wit_agents_def wit_agent_def sortAgents_def js_sort_def reread_agent_def js_trim_trimmed trimmed_def js_ws_def)

lemma wit_ids: "normalizeRecordId (JStr ''a'') = Some ''a''" "normalizeRecordId (JStr ''k'') = Some ''k''" "normalizeRecordId (JStr ''s'') = Some ''s''"
  by code_simp+

lemma wit_keys:
  "createAgentNameKey ''A'' = ''a''" "createAgentNameKey (normalizeAgentName ''B'') = ''b''" "normalizeAgentName ''B'' = ''B''"
  "createAgentNameKey ''B'' = ''b''" "normalizeRecordId JNull = None"
  by code_simp+

lemma wit_evaluation: "fst (recordAgentEvaluationOnce (\<lambda>_ _. 0) no_float wit_agents ''a'' ''k'' wit_scores ''t'')"
  by (simp add: recordAgentEvaluationOnce_def Let_def evaluated_agent_def wit_normalized wit_ids matching_named_def)
    (simp add: wit_agent_def)

lemma evaluation_applied:
  "fst (recordAgentEvaluationOnce cmp pf registry i key scores now) \<Longrightarrow>
   recordAgentEvaluationOnce cmp pf registry i key scores now =
     (True, Ok (result_registry (snd (recordAgentEvaluationOnce cmp pf registry i key scores now))))"
  by (auto simp: recordAgentEvaluationOnce_def Let_def split: option.splits if_splits)

definition wit_evaluated :: agent_registry where
  "wit_evaluated = result_registry (snd (recordAgentEvaluationOnce (\<lambda>_ _. 0) no_float wit_agents ''a'' ''k'' wit_scores ''t''))"

theorem evaluation_counts_once_witness:
  "recordAgentEvaluationOnce (\<lambda>_ _. 0) no_float wit_evaluated ''a'' ''k'' wit_scores ''u'' =
     (False, Ok (normalized_agents (\<lambda>_ _. 0) no_float wit_evaluated))"
proof -
  have "recordAgentEvaluationOnce (\<lambda>_ _. 0) no_float wit_agents ''a'' ''k'' wit_scores ''t'' = (True, Ok wit_evaluated)"
    unfolding wit_evaluated_def by (rule evaluation_applied [OF wit_evaluation])
  moreover have "''t'' \<noteq> [] \<and> trimmed ''t''" by (simp add: trimmed_def js_ws_def)
  ultimately show ?thesis by (rule evaluation_counts_once [THEN conjunct2])
qed

definition wit_agent_ops :: "timed_agent_op list" where
  "wit_agent_ops =
     [(UpsertAgent \<lparr>ai_id = None, ai_name = ''B'', ai_environmentSecretId = Some ''s'', ai_personaId = None,
         ai_executionProvider = None, ai_modelId = None\<rparr> ''b'', ''t''),
      (RemoveAgent ''a'', ''t'')]"

lemma wit_agents_fresh:
  "fresh_along (\<lambda>op. normalized_agents (\<lambda>_ _. 0) no_float) (apply_agent_op (\<lambda>_ _. 0) no_float) agent_fresh wit_agent_ops wit_agents"
  by (simp add: wit_agent_ops_def wit_normalized ident_ok_def trimmed_def js_ws_def del: apply_agent_op.simps) (simp add: wit_agent_def)

theorem agent_mutations_repair_witness:
  "agents_ok (run_ops (apply_agent_op (\<lambda>_ _. 0) no_float) wit_agent_ops wit_agents) \<and>
   is_ok (apply_agent_op (\<lambda>_ _. 0) no_float (hd wit_agent_ops) wit_agents)"
proof
  show "agents_ok (run_ops (apply_agent_op (\<lambda>_ _. 0) no_float) wit_agent_ops wit_agents)"
    by (rule agent_mutations_repair [OF wit_agents_fresh]) (simp add: wit_agent_ops_def)
  show "is_ok (apply_agent_op (\<lambda>_ _. 0) no_float (hd wit_agent_ops) wit_agents)"
    by (simp add: wit_agent_ops_def upsertAgent_def Let_def wit_normalized wit_ids js_nullable_def agent_key_def)
      (simp add: wit_agent_def wit_keys)
qed

end
