(* ===== verification/Workspace_Files.thy ===== *)
theory Workspace_Files
  imports App_Init Js_Objects
begin

text \<open>
  The data files of a workspace on the native side (\<open>src-tauri/src/workspace_data_file.rs\<close>): allowlisted
  files in \<open>.workduck\<close>, registries written under a revision check, and the two registries that are written
  together through a journal. Every access to the file system may be the last one that succeeds: the
  command then ends with an error (or the process with it), and the files stay as they are at that point.
\<close>

section \<open>Names and errors\<close>

definition SECRETS_SYNC_FILE_NAME :: string where "SECRETS_SYNC_FILE_NAME = ''secrets.sync.json''"

definition REGISTRY_FILE_NAMES :: "string list" where
  "REGISTRY_FILE_NAMES =
     [''agents.json'', ''personas.json'', ''briefs.json'', ''brief-runs.json'', ''references.json'', ''skills.json'']"

definition WORKSPACE_DATA_FILE_MAX_BYTES :: int where "WORKSPACE_DATA_FILE_MAX_BYTES = 1048576"

definition REGISTRY_TRANSACTION_MAX_BYTES :: int where
  "REGISTRY_TRANSACTION_MAX_BYTES = 12 * WORKSPACE_DATA_FILE_MAX_BYTES + 128"

definition ALLOWED_WORKSPACE_DATA_FILES :: "string list" where
  "ALLOWED_WORKSPACE_DATA_FILES =
     [''agents.json'', ''briefs.json'', ''brief-runs.json'', ''personas.json'', ''references.json'',
      ''secrets.sync.json'', ''skills.json'', ''workspace.json'']"

datatype data_file_error =
    WorkspaceRequired | WorkspaceNotAbsolute | WorkspaceNotFound | WorkspaceNotDirectory
  | WorkspacePermissionDenied | WorkspaceUnreadable | RootInvalid | FileInvalid | FileTooLarge
  | FileReadFailed | FileWriteFailed | RevisionConflict

fun data_file_error_name :: "data_file_error \<Rightarrow> string" where
  "data_file_error_name WorkspaceRequired = ''workspace-data-workspace-required''"
| "data_file_error_name WorkspaceNotAbsolute = ''workspace-data-workspace-not-absolute''"
| "data_file_error_name WorkspaceNotFound = ''workspace-data-workspace-not-found''"
| "data_file_error_name WorkspaceNotDirectory = ''workspace-data-workspace-not-directory''"
| "data_file_error_name WorkspacePermissionDenied = ''workspace-data-workspace-permission-denied''"
| "data_file_error_name WorkspaceUnreadable = ''workspace-data-workspace-unreadable''"
| "data_file_error_name RootInvalid = ''workspace-data-root-invalid''"
| "data_file_error_name FileInvalid = ''workspace-data-file-invalid''"
| "data_file_error_name FileTooLarge = ''workspace-data-file-too-large''"
| "data_file_error_name FileReadFailed = ''workspace-data-file-read-failed''"
| "data_file_error_name FileWriteFailed = ''workspace-data-file-write-failed''"
| "data_file_error_name RevisionConflict = ''workspace-data-revision-conflict''"

section \<open>Files and accesses\<close>

text \<open>
  The files of \<open>.workduck\<close> by name, and the journal of the pair. \<open>serde_json\<close> is an argument. What the checks of paths, locks and the ignore policy answer is given with
  each command.
\<close>

record data_files =
  df_files :: "string \<Rightarrow> string option"
  df_journal :: "string option"

record json_io =
  io_parse :: "string \<Rightarrow> js option"
  io_render :: "js \<Rightarrow> string"

record file_env =
  fe_root :: "data_file_error option"   \<comment> \<open>what \<open>validate_absolute_directory_path\<close> objects to\<close>
  fe_lock :: bool   \<comment> \<open>whether the lock of the registries is acquired\<close>
  fe_path :: "bool \<Rightarrow> string \<Rightarrow> data_file_error option"   \<comment> \<open>what the checks of the path object to, with \<open>create_root\<close>\<close>
  fe_journal :: "bool \<Rightarrow> data_file_error option"   \<comment> \<open>the same for the journal\<close>
  fe_policy :: bool   \<comment> \<open>whether the ignore policy is in place\<close>
  fe_accesses :: nat   \<comment> \<open>accesses that succeed\<close>

text \<open>A computation over the files and the number of accesses left, which may end in an error.\<close>

type_synonym 'a fs = "data_files \<times> nat \<Rightarrow> (data_files \<times> nat) \<times> (data_file_error + 'a)"

definition fs_return :: "'a \<Rightarrow> 'a fs" where
  "fs_return x s = (s, Inr x)"

definition fs_fail :: "data_file_error \<Rightarrow> 'a fs" where
  "fs_fail e s = (s, Inl e)"

definition fs_then :: "'a fs \<Rightarrow> ('a \<Rightarrow> 'b fs) \<Rightarrow> 'b fs" where
  "fs_then m f s = (case m s of (s', Inl e) \<Rightarrow> (s', Inl e) | (s', Inr x) \<Rightarrow> f x s')"

definition fs_check :: "data_file_error option \<Rightarrow> unit fs" where
  "fs_check problem = (case problem of None \<Rightarrow> fs_return () | Some e \<Rightarrow> fs_fail e)"

definition fs_require :: "bool \<Rightarrow> data_file_error \<Rightarrow> unit fs" where
  "fs_require ok e = (if ok then fs_return () else fs_fail e)"

definition fs_look :: "(data_files \<Rightarrow> 'a) \<Rightarrow> 'a fs" where
  "fs_look look s = (s, Inr (look (fst s)))"

text \<open>One access that changes the files at once or fails and leaves them.\<close>

definition fs_access :: "data_file_error \<Rightarrow> (data_files \<Rightarrow> data_files) \<Rightarrow> unit fs" where
  "fs_access e change s = (case s of (files, n) \<Rightarrow> if n = 0 then ((files, 0), Inl e) else ((change files, n - 1), Inr ()))"

definition fs_error :: "(data_file_error \<Rightarrow> data_file_error) \<Rightarrow> 'a fs \<Rightarrow> 'a fs" where
  "fs_error f m s = (case m s of (s', Inl e) \<Rightarrow> (s', Inl (f e)) | (s', Inr x) \<Rightarrow> (s', Inr x))"

definition content_bytes :: "string \<Rightarrow> int" where
  "content_bytes content = int (utf8_length content)"

definition read_bounded_file :: "(data_files \<Rightarrow> string option) \<Rightarrow> int \<Rightarrow> string option fs" where
  "read_bounded_file look max_bytes =
     fs_then (fs_access FileReadFailed (\<lambda>files. files)) (\<lambda>_.
     fs_then (fs_look look) (\<lambda>content. case content of
       None \<Rightarrow> fs_return None
     | Some c \<Rightarrow> if content_bytes c > max_bytes then fs_fail FileTooLarge else fs_return (Some c)))"

text \<open>\<open>write_file_atomically\<close>\<close>

definition write_data_file :: "string \<Rightarrow> string \<Rightarrow> unit fs" where
  "write_data_file name content = fs_access FileWriteFailed (\<lambda>files. files\<lparr>df_files := (df_files files)(name \<mapsto> content)\<rparr>)"

definition write_journal :: "string \<Rightarrow> unit fs" where
  "write_journal content = fs_access FileWriteFailed (\<lambda>files. files\<lparr>df_journal := Some content\<rparr>)"

definition remove_journal :: "unit fs" where
  "remove_journal = fs_access FileWriteFailed (\<lambda>files. files\<lparr>df_journal := None\<rparr>)"

definition validate_workspace_data_file_name :: "string \<Rightarrow> string option" where
  "validate_workspace_data_file_name file_name =
     (let trimmed = rust_trim file_name in if trimmed \<in> set ALLOWED_WORKSPACE_DATA_FILES then Some trimmed else None)"

definition resolve_workspace_data_file_path :: "file_env \<Rightarrow> string \<Rightarrow> bool \<Rightarrow> string fs" where
  "resolve_workspace_data_file_path env file_name create_root =
     (case validate_workspace_data_file_name file_name of
        None \<Rightarrow> fs_fail FileInvalid
      | Some name \<Rightarrow> fs_then (fs_check (fe_path env create_root name)) (\<lambda>_. fs_return name))"

section \<open>Revisions\<close>

definition U64_MAX :: int where "U64_MAX = 18446744073709551615"

definition as_u64 :: "js \<Rightarrow> int option" where
  "as_u64 v = (case v of JInt n \<Rightarrow> if 0 \<le> n \<and> n \<le> U64_MAX then Some n else None | _ \<Rightarrow> None)"

definition revision_of_content :: "json_io \<Rightarrow> string option \<Rightarrow> data_file_error + int" where
  "revision_of_content io content =
     (case content of
        None \<Rightarrow> Inr 0
      | Some c \<Rightarrow>
          (case io_parse io c of
             Some (JObj ps) \<Rightarrow>
               (case map_of ps ''revision'' of
                  None \<Rightarrow> Inr 0
                | Some revision \<Rightarrow> (case as_u64 revision of None \<Rightarrow> Inl FileInvalid | Some n \<Rightarrow> Inr n))
           | _ \<Rightarrow> Inl FileInvalid))"

definition fs_lift :: "data_file_error + 'a \<Rightarrow> 'a fs" where
  "fs_lift r = (case r of Inl e \<Rightarrow> fs_fail e | Inr x \<Rightarrow> fs_return x)"

definition read_registry_revision :: "json_io \<Rightarrow> string \<Rightarrow> int fs" where
  "read_registry_revision io name =
     fs_then (read_bounded_file (\<lambda>files. df_files files name) WORKSPACE_DATA_FILE_MAX_BYTES)
       (\<lambda>content. fs_lift (revision_of_content io content))"

text \<open>The content that is stored: the supplied registry with the next revision.\<close>

definition prepare_registry_content :: "json_io \<Rightarrow> string \<Rightarrow> int \<Rightarrow> data_file_error + string" where
  "prepare_registry_content io content expected_revision =
     (case io_parse io content of
        Some (JObj ps) \<Rightarrow>
          (let supplied_revision = (case map_of ps ''revision'' of None \<Rightarrow> 0
                 | Some revision \<Rightarrow> (case as_u64 revision of None \<Rightarrow> 0 | Some n \<Rightarrow> n))
           in if supplied_revision \<noteq> expected_revision \<or> expected_revision + 1 > U64_MAX then Inl RevisionConflict
              else (let persisted = io_render io (JObj (AList.update ''revision'' (JInt (expected_revision + 1)) ps))
                    in if content_bytes persisted \<le> WORKSPACE_DATA_FILE_MAX_BYTES then Inr persisted else Inl FileTooLarge))
      | _ \<Rightarrow> Inl FileInvalid)"

section \<open>The journal of the pair\<close>

text \<open>\<open>serde\<close> reads the struct from an object or from the list of its fields.\<close>

definition transaction_js :: "string \<Rightarrow> string \<Rightarrow> js" where
  "transaction_js agents personas = JObj [(''agentsContent'', JStr agents), (''personasContent'', JStr personas)]"

definition transaction_of :: "js \<Rightarrow> (string \<times> string) option" where
  "transaction_of v =
     (case v of
        JObj ps \<Rightarrow>
          (case (map_of ps ''agentsContent'', map_of ps ''personasContent'') of
             (Some (JStr a), Some (JStr p)) \<Rightarrow> Some (a, p) | _ \<Rightarrow> None)
      | JArr [JStr a, JStr p] \<Rightarrow> Some (a, p)
      | _ \<Rightarrow> None)"

definition within_limit :: "string \<Rightarrow> bool" where
  "within_limit content \<longleftrightarrow> content_bytes content \<le> WORKSPACE_DATA_FILE_MAX_BYTES"

definition commit_workspace_registry_pair_under_lock :: "json_io \<Rightarrow> file_env \<Rightarrow> string \<Rightarrow> string \<Rightarrow> unit fs" where
  "commit_workspace_registry_pair_under_lock io env agents_content personas_content =
     fs_then (fs_require (within_limit agents_content \<and> within_limit personas_content) FileTooLarge) (\<lambda>_.
     fs_then (resolve_workspace_data_file_path env ''agents.json'' True) (\<lambda>agents_path.
     fs_then (resolve_workspace_data_file_path env ''personas.json'' True) (\<lambda>personas_path.
     fs_then (fs_check (fe_journal env True)) (\<lambda>_.
     fs_then (write_journal (io_render io (transaction_js agents_content personas_content))) (\<lambda>_.
     fs_then (write_data_file agents_path agents_content) (\<lambda>_.
     fs_then (write_data_file personas_path personas_content) (\<lambda>_. remove_journal)))))))"

definition recover_workspace_registry_transaction_under_lock :: "json_io \<Rightarrow> file_env \<Rightarrow> unit fs" where
  "recover_workspace_registry_transaction_under_lock io env =
     fs_then (fs_check (fe_journal env False)) (\<lambda>_.
     fs_then (read_bounded_file df_journal REGISTRY_TRANSACTION_MAX_BYTES) (\<lambda>journal. case journal of
       None \<Rightarrow> fs_return ()
     | Some content \<Rightarrow>
         fs_then (fs_lift (case io_parse io content of
             None \<Rightarrow> Inl FileInvalid
           | Some v \<Rightarrow> (case transaction_of v of None \<Rightarrow> Inl FileInvalid | Some t \<Rightarrow> Inr t))) (\<lambda>(a, p).
         fs_then (fs_require (within_limit a \<and> within_limit p) FileTooLarge) (\<lambda>_.
         fs_then (resolve_workspace_data_file_path env ''agents.json'' True) (\<lambda>agents_path.
         fs_then (resolve_workspace_data_file_path env ''personas.json'' True) (\<lambda>personas_path.
         fs_then (write_data_file agents_path a) (\<lambda>_.
         fs_then (write_data_file personas_path p) (\<lambda>_. remove_journal))))))))"

section \<open>Commands\<close>

definition read_workspace_data_file :: "json_io \<Rightarrow> file_env \<Rightarrow> string \<Rightarrow> string option fs" where
  "read_workspace_data_file io env file_name =
     fs_then (fs_check (fe_root env)) (\<lambda>_.
     fs_then (if rust_trim file_name \<in> set REGISTRY_FILE_NAMES
              then fs_error (\<lambda>_. FileReadFailed)
                     (fs_then (fs_require (fe_lock env) FileReadFailed) (\<lambda>_. recover_workspace_registry_transaction_under_lock io env))
              else fs_return ()) (\<lambda>_.
     fs_then (resolve_workspace_data_file_path env file_name False) (\<lambda>name.
     fs_then (fs_access WorkspaceUnreadable (\<lambda>files. files)) (\<lambda>_.
     fs_then (fs_look (\<lambda>files. df_files files name)) (\<lambda>metadata.
       case metadata of
         None \<Rightarrow> fs_return None
       | Some c \<Rightarrow>
           if content_bytes c > WORKSPACE_DATA_FILE_MAX_BYTES then fs_fail FileTooLarge
           else read_bounded_file (\<lambda>files. df_files files name) WORKSPACE_DATA_FILE_MAX_BYTES)))))"

definition write_workspace_data_file :: "json_io \<Rightarrow> file_env \<Rightarrow> string \<Rightarrow> string \<Rightarrow> unit fs" where
  "write_workspace_data_file io env file_name content =
     fs_then (fs_require (within_limit content) FileTooLarge) (\<lambda>_.
       case validate_workspace_data_file_name file_name of
         None \<Rightarrow> fs_fail FileInvalid
       | Some name \<Rightarrow>
           if name \<in> set REGISTRY_FILE_NAMES then fs_fail FileInvalid
           else fs_then (fs_check (fe_root env)) (\<lambda>_.
                fs_then (fs_require (name = SECRETS_SYNC_FILE_NAME \<longrightarrow> fe_policy env) FileWriteFailed) (\<lambda>_.
                fs_then (resolve_workspace_data_file_path env name True) (\<lambda>path. write_data_file path content))))"

definition write_workspace_registry_file :: "json_io \<Rightarrow> file_env \<Rightarrow> string \<Rightarrow> int \<Rightarrow> string \<Rightarrow> string fs" where
  "write_workspace_registry_file io env file_name expected_revision content =
     fs_then (fs_require (within_limit content) FileTooLarge) (\<lambda>_.
     fs_then (fs_require (rust_trim file_name \<in> set REGISTRY_FILE_NAMES) FileInvalid) (\<lambda>_.
     fs_then (fs_check (fe_root env)) (\<lambda>_.
     fs_then (fs_require (fe_lock env) FileWriteFailed) (\<lambda>_.
     fs_then (recover_workspace_registry_transaction_under_lock io env) (\<lambda>_.
     fs_then (resolve_workspace_data_file_path env (rust_trim file_name) True) (\<lambda>name.
     fs_then (read_registry_revision io name) (\<lambda>current_revision.
     fs_then (fs_require (current_revision = expected_revision) RevisionConflict) (\<lambda>_.
     fs_then (fs_lift (prepare_registry_content io content expected_revision)) (\<lambda>persisted.
     fs_then (write_data_file name persisted) (\<lambda>_. fs_return persisted))))))))))"

definition write_workspace_registry_pair ::
  "json_io \<Rightarrow> file_env \<Rightarrow> int \<Rightarrow> string \<Rightarrow> int \<Rightarrow> string \<Rightarrow> (string \<times> string) fs" where
  "write_workspace_registry_pair io env agents_expected agents_content personas_expected personas_content =
     fs_then (fs_require (within_limit agents_content \<and> within_limit personas_content) FileTooLarge) (\<lambda>_.
     fs_then (fs_check (fe_root env)) (\<lambda>_.
     fs_then (fs_require (fe_lock env) FileWriteFailed) (\<lambda>_.
     fs_then (recover_workspace_registry_transaction_under_lock io env) (\<lambda>_.
     fs_then (resolve_workspace_data_file_path env ''agents.json'' True) (\<lambda>agents_path.
     fs_then (resolve_workspace_data_file_path env ''personas.json'' True) (\<lambda>personas_path.
     fs_then (read_registry_revision io agents_path) (\<lambda>current_agents.
     fs_then (read_registry_revision io personas_path) (\<lambda>current_personas.
     fs_then (fs_require (current_agents = agents_expected \<and> current_personas = personas_expected) RevisionConflict) (\<lambda>_.
     fs_then (fs_lift (prepare_registry_content io agents_content agents_expected)) (\<lambda>agents.
     fs_then (fs_lift (prepare_registry_content io personas_content personas_expected)) (\<lambda>personas.
     fs_then (commit_workspace_registry_pair_under_lock io env agents personas) (\<lambda>_. fs_return (agents, personas)))))))))))))"

text \<open>A command with its surroundings; the number of accesses is the environment's.\<close>

definition fs_run :: "file_env \<Rightarrow> 'a fs \<Rightarrow> data_files \<Rightarrow> data_files \<times> (data_file_error + 'a)" where
  "fs_run env command files = (case command (files, fe_accesses env) of ((files', _), answer) \<Rightarrow> (files', answer))"

section \<open>Answers as values\<close>

definition failure_js :: "data_file_error \<Rightarrow> js" where
  "failure_js e = JObj [(''ok'', JBool False), (''error'', JStr (data_file_error_name e))]"

definition read_response_js :: "data_file_error + string option \<Rightarrow> js" where
  "read_response_js answer =
     (case answer of
        Inl e \<Rightarrow> failure_js e
      | Inr None \<Rightarrow> JObj [(''ok'', JBool True)]
      | Inr (Some content) \<Rightarrow> JObj [(''ok'', JBool True), (''content'', JStr content)])"

definition registry_response_js :: "data_file_error + string \<Rightarrow> js" where
  "registry_response_js answer =
     (case answer of Inl e \<Rightarrow> failure_js e | Inr content \<Rightarrow> JObj [(''ok'', JBool True), (''content'', JStr content)])"

definition pair_response_js :: "data_file_error + string \<times> string \<Rightarrow> js" where
  "pair_response_js answer =
     (case answer of
        Inl e \<Rightarrow> failure_js e
      | Inr (a, p) \<Rightarrow> JObj [(''ok'', JBool True), (''agentsContent'', JStr a), (''personasContent'', JStr p)])"

definition write_response_js :: "data_file_error + unit \<Rightarrow> js" where
  "write_response_js answer = (case answer of Inl e \<Rightarrow> failure_js e | Inr _ \<Rightarrow> JObj [(''ok'', JBool True)])"

end
