(* ===== verification/Workspace_Files_Laws.thy ===== *)
theory Workspace_Files_Laws
  imports Workspace_Files Js_Objects
begin

text \<open>
  What the native data files promise: behind the journal there is a plain store of contents by name, which
  every command reads or changes in one step, wherever it is cut off.
\<close>

section \<open>The store behind the journal\<close>

text \<open>A journal that can be read counts as written.\<close>

definition journalled :: "json_io \<Rightarrow> data_files \<Rightarrow> (string \<times> string) option" where
  "journalled io files =
     (case df_journal files of
        None \<Rightarrow> None
      | Some content \<Rightarrow> (case io_parse io content of None \<Rightarrow> None | Some v \<Rightarrow> transaction_of v))"

definition put_pair :: "string \<Rightarrow> string \<Rightarrow> (string \<Rightarrow> string option) \<Rightarrow> string \<Rightarrow> string option" where
  "put_pair a p store = store(''agents.json'' \<mapsto> a, ''personas.json'' \<mapsto> p)"

definition store_of :: "json_io \<Rightarrow> data_files \<Rightarrow> string \<Rightarrow> string option" where
  "store_of io files = (case journalled io files of None \<Rightarrow> df_files files | Some (a, p) \<Rightarrow> put_pair a p (df_files files))"

definition faithful_io :: "json_io \<Rightarrow> bool" where
  "faithful_io io \<longleftrightarrow> faithful_json (io_parse io) (io_render io)"

lemma store_no_journal [simp]: "df_journal files = None \<Longrightarrow> store_of io files = df_files files"
  by (simp add: store_of_def journalled_def)

lemma put_pair_absorbs [simp]:
  "put_pair a p (store(''agents.json'' \<mapsto> a)) = put_pair a p store"
  "put_pair a p (store(''personas.json'' \<mapsto> p)) = put_pair a p store"
  "put_pair a p (store(''agents.json'' \<mapsto> a, ''personas.json'' \<mapsto> p)) = put_pair a p store"
  "put_pair a p (put_pair a' p' store) = put_pair a p store"
  by (auto simp: put_pair_def fun_upd_twist)

section \<open>Computations\<close>

text \<open>What holds after a computation: \<open>Q\<close> of its result, or \<open>E\<close> of its error, and the files.\<close>

definition wp :: "'a fs \<Rightarrow> ('a \<Rightarrow> data_files \<times> nat \<Rightarrow> bool) \<Rightarrow> (data_file_error \<Rightarrow> data_files \<times> nat \<Rightarrow> bool) \<Rightarrow> data_files \<times> nat \<Rightarrow> bool" where
  "wp m Q E s = (case m s of (s', Inl e) \<Rightarrow> E e s' | (s', Inr x) \<Rightarrow> Q x s')"

named_theorems wp_rules \<open>weakest preconditions\<close>

lemma wp_then [wp_rules]: "wp (fs_then m f) Q E s = wp m (\<lambda>x. wp (f x) Q E) E s"
  by (simp add: wp_def fs_then_def split: prod.split sum.split)

lemma wp_value [wp_rules]:
  "wp (fs_return x) Q E s = Q x s"
  "wp (fs_fail e) Q E s = E e s"
  "wp (fs_lift r) Q E s = (case r of Inl e \<Rightarrow> E e s | Inr x \<Rightarrow> Q x s)"
  "wp (fs_error g m) Q E s = wp m Q (\<lambda>e. E (g e)) s"
  by (auto simp: wp_def fs_return_def fs_fail_def fs_lift_def fs_error_def split: prod.split sum.split)

lemma wp_return: "wp (fs_return x) Q E = Q x"
  by (rule ext) (simp add: wp_value)

lemma wp_look [wp_rules]: "wp (fs_look look) Q E s = Q (look (fst s)) s"
  by (simp add: wp_def fs_look_def)

lemma wp_unit [wp_rules]:
  "wp (fs_require ok e) Q E s = (if ok then Q () s else E e s)"
  "wp (fs_check problem) Q E s = (case problem of None \<Rightarrow> Q () s | Some e \<Rightarrow> E e s)"
  "wp (fs_access e change) Q E s = (if snd s = 0 then E e s else Q () (change (fst s), snd s - 1))"
  by (auto simp: wp_def fs_require_def fs_return_def fs_fail_def fs_check_def fs_access_def split: prod.split sum.split option.split)

lemma wp_resolve [wp_rules]:
  "wp (resolve_workspace_data_file_path env file_name create_root) Q E s =
     (case validate_workspace_data_file_name file_name of None \<Rightarrow> E FileInvalid s
      | Some name \<Rightarrow> (case fe_path env create_root name of None \<Rightarrow> Q name s | Some e \<Rightarrow> E e s))"
  by (simp add: resolve_workspace_data_file_path_def wp_rules split: option.split)

lemma wp_mono: "wp m Q E s \<Longrightarrow> (\<And>x s'. Q x s' \<Longrightarrow> Q' x s') \<Longrightarrow> (\<And>e s'. E e s' \<Longrightarrow> E' e s') \<Longrightarrow> wp m Q' E' s"
  by (cases "m s"; cases "snd (m s)") (auto simp: wp_def)

lemma wp_result: "wp m Q E s \<Longrightarrow> m s = (s', r) \<Longrightarrow> (case r of Inl e \<Rightarrow> E e s' | Inr x \<Rightarrow> Q x s')"
  by (simp add: wp_def)

text \<open>Reading leaves the files, and takes accesses away.\<close>

lemma wp_read [wp_rules]:
  "wp (read_bounded_file look max_bytes) Q E s =
     (if snd s = 0 then E FileReadFailed s
      else (case look (fst s) of
          None \<Rightarrow> Q None (fst s, snd s - 1)
        | Some c \<Rightarrow> if content_bytes c > max_bytes then E FileTooLarge (fst s, snd s - 1) else Q (Some c) (fst s, snd s - 1)))"
  by (simp add: read_bounded_file_def wp_rules split: option.split)

lemma data_names:
  "validate_workspace_data_file_name ''agents.json'' = Some ''agents.json''"
  "validate_workspace_data_file_name ''personas.json'' = Some ''personas.json''"
  by code_simp+

lemma validated_name: "validate_workspace_data_file_name n = Some name \<Longrightarrow> name = rust_trim n \<and> name \<in> set ALLOWED_WORKSPACE_DATA_FILES"
  by (auto simp: validate_workspace_data_file_name_def Let_def split: if_splits)

section \<open>Recovery and commit\<close>

text \<open>Recovery changes nothing of the store, wherever it stops; when it ends there is no journal.\<close>

lemma wp_write_pair:
  assumes "journalled io (fst s) = Some (a, p)"
  shows "wp (fs_then (write_data_file ''agents.json'' a) (\<lambda>_. fs_then (write_data_file ''personas.json'' p) (\<lambda>_. remove_journal)))
    (\<lambda>_ s'. store_of io (fst s') = put_pair a p (df_files (fst s)) \<and> df_journal (fst s') = None)
    (\<lambda>_ s'. store_of io (fst s') = put_pair a p (df_files (fst s))) s"
  using assms
  by (auto simp: wp_rules write_data_file_def remove_journal_def store_of_def journalled_def put_pair_def fun_upd_twist split: option.splits)

lemma wp_recover:
  "wp (recover_workspace_registry_transaction_under_lock io env)
     (\<lambda>_ s'. store_of io (fst s') = store_of io (fst s) \<and> df_journal (fst s') = None)
     (\<lambda>_ s'. store_of io (fst s') = store_of io (fst s)) s"
proof -
  have "wp (fs_then (write_data_file ''agents.json'' a) (\<lambda>_. fs_then (write_data_file ''personas.json'' p) (\<lambda>_. remove_journal)))
      (\<lambda>_ s'. store_of io (fst s') = store_of io files \<and> df_journal (fst s') = None)
      (\<lambda>_ s'. store_of io (fst s') = store_of io files) (files, n)"
    if "journalled io files = Some (a, p)" for files n a p
    using wp_write_pair [of io "(files, n)" a p] that by (simp add: store_of_def)
  then show ?thesis
    unfolding recover_workspace_registry_transaction_under_lock_def
    by (auto simp: wp_rules data_names journalled_def split: option.split)
qed

lemma transaction_roundtrip: "transaction_of (transaction_js a p) = Some (a, p)" "json_value (transaction_js a p)"
  by (simp_all add: transaction_of_def transaction_js_def)

lemma wp_commit:
  assumes "df_journal (fst s) = None" and "faithful_io io"
  shows "wp (commit_workspace_registry_pair_under_lock io env a p)
    (\<lambda>_ s'. store_of io (fst s') = put_pair a p (store_of io (fst s)))
    (\<lambda>_ s'. store_of io (fst s') = store_of io (fst s) \<or> store_of io (fst s') = put_pair a p (store_of io (fst s))) s"
proof -
  have parse: "io_parse io (io_render io (transaction_js a p)) = Some (transaction_js a p)"
    using assms(2) transaction_roundtrip(2) by (simp add: faithful_io_def faithful_parse)
  have "wp (fs_then (write_data_file ''agents.json'' a) (\<lambda>_. fs_then (write_data_file ''personas.json'' p) (\<lambda>_. remove_journal)))
      (\<lambda>_ s'. store_of io (fst s') = put_pair a p (df_files files))
      (\<lambda>_ s'. store_of io (fst s') = df_files files \<or> store_of io (fst s') = put_pair a p (df_files files))
      (files\<lparr>df_journal := Some (io_render io (transaction_js a p))\<rparr>, n)" for files n
    by (rule wp_mono [OF wp_write_pair [of io _ a p]]) (simp_all add: journalled_def parse transaction_roundtrip)
  then show ?thesis
    using assms(1) unfolding commit_workspace_registry_pair_under_lock_def
    by (auto simp: wp_rules data_names write_journal_def split: option.split)
qed

section \<open>Commands against the store\<close>

text \<open>A registry is replaced when the revisions agree; the content gets the next one.\<close>

definition replaces :: "json_io \<Rightarrow> string option \<Rightarrow> int \<Rightarrow> string \<Rightarrow> string \<Rightarrow> bool" where
  "replaces io current expected content persisted \<longleftrightarrow>
     revision_of_content io current = Inr expected \<and> prepare_registry_content io content expected = Inr persisted"

lemma revision_of_missing [simp]: "revision_of_content io None = Inr 0"
  by (simp add: revision_of_content_def)

lemma wp_read_revision [wp_rules]:
  "wp (read_registry_revision io name) Q E s =
     (if snd s = 0 then E FileReadFailed s
      else (case df_files (fst s) name of
          None \<Rightarrow> Q 0 (fst s, snd s - 1)
        | Some c \<Rightarrow> if content_bytes c > WORKSPACE_DATA_FILE_MAX_BYTES then E FileTooLarge (fst s, snd s - 1)
                     else (case revision_of_content io (Some c) of Inl e \<Rightarrow> E e (fst s, snd s - 1) | Inr n \<Rightarrow> Q n (fst s, snd s - 1))))"
  by (simp add: read_registry_revision_def wp_rules revision_of_missing split: option.split sum.split)

text \<open>After a recovery that ends, the store is the files.\<close>

lemma wp_recovered:
  assumes "\<And>files n. df_journal files = None \<Longrightarrow> df_files files = store_of io (fst s) \<Longrightarrow> wp m Q E (files, n)"
    and "\<And>e s'. store_of io (fst s') = store_of io (fst s) \<Longrightarrow> E e s'"
  shows "wp (fs_then (recover_workspace_registry_transaction_under_lock io env) (\<lambda>_. m)) Q E s"
  unfolding wp_then
proof (rule wp_mono [OF wp_recover])
  show "wp m Q E s'" if "store_of io (fst s') = store_of io (fst s) \<and> df_journal (fst s') = None" for s'
    using assms(1) [of "fst s'" "snd s'"] that by (metis prod.collapse store_no_journal)
qed (use assms(2) in simp)

lemma wp_write_registry:
  "wp (write_workspace_registry_file io env file_name expected content)
     (\<lambda>persisted s'. replaces io (store_of io (fst s) (rust_trim file_name)) expected content persisted \<and>
        store_of io (fst s') = (store_of io (fst s))(rust_trim file_name \<mapsto> persisted))
     (\<lambda>_ s'. store_of io (fst s') = store_of io (fst s)) s"
proof -
  define tail where "tail =
     fs_then (resolve_workspace_data_file_path env (rust_trim file_name) True) (\<lambda>name.
     fs_then (read_registry_revision io name) (\<lambda>current_revision.
     fs_then (fs_require (current_revision = expected) RevisionConflict) (\<lambda>_.
     fs_then (fs_lift (prepare_registry_content io content expected)) (\<lambda>persisted.
     fs_then (write_data_file name persisted) (\<lambda>_. fs_return persisted)))))"
  have "wp tail
      (\<lambda>persisted s'. replaces io (store_of io (fst s) (rust_trim file_name)) expected content persisted \<and>
        store_of io (fst s') = (store_of io (fst s))(rust_trim file_name \<mapsto> persisted))
      (\<lambda>_ s'. store_of io (fst s') = store_of io (fst s)) (files, n)"
    if "df_journal files = None" and "df_files files = store_of io (fst s)" for files n
    using that unfolding tail_def
    by (auto simp: wp_rules replaces_def write_data_file_def rust_trim_idem
        dest!: validated_name split: option.splits sum.splits)
  then show ?thesis
    unfolding write_workspace_registry_file_def tail_def [symmetric] wp_then [of "fs_require _ _"] wp_then [of "fs_check _"]
    by (auto simp: wp_unit intro!: wp_recovered split: option.split)
qed

definition replaces_pair :: "json_io \<Rightarrow> (string \<Rightarrow> string option) \<Rightarrow> int \<Rightarrow> string \<Rightarrow> int \<Rightarrow> string \<Rightarrow> string \<Rightarrow> string \<Rightarrow> bool" where
  "replaces_pair io store agents_expected agents_content personas_expected personas_content a p \<longleftrightarrow>
     replaces io (store ''agents.json'') agents_expected agents_content a \<and>
     replaces io (store ''personas.json'') personas_expected personas_content p"

lemma wp_write_pair_command:
  assumes "faithful_io io"
  shows "wp (write_workspace_registry_pair io env agents_expected agents_content personas_expected personas_content)
     (\<lambda>(a, p) s'. replaces_pair io (store_of io (fst s)) agents_expected agents_content personas_expected personas_content a p \<and> store_of io (fst s') = put_pair a p (store_of io (fst s)))
     (\<lambda>_ s'. store_of io (fst s') = store_of io (fst s) \<or>
        (\<exists>a p. replaces_pair io (store_of io (fst s)) agents_expected agents_content personas_expected personas_content a p \<and> store_of io (fst s') = put_pair a p (store_of io (fst s)))) s"
proof -
  define tail where "tail =
     fs_then (resolve_workspace_data_file_path env ''agents.json'' True) (\<lambda>agents_path.
     fs_then (resolve_workspace_data_file_path env ''personas.json'' True) (\<lambda>personas_path.
     fs_then (read_registry_revision io agents_path) (\<lambda>current_agents.
     fs_then (read_registry_revision io personas_path) (\<lambda>current_personas.
     fs_then (fs_require (current_agents = agents_expected \<and> current_personas = personas_expected) RevisionConflict) (\<lambda>_.
     fs_then (fs_lift (prepare_registry_content io agents_content agents_expected)) (\<lambda>agents.
     fs_then (fs_lift (prepare_registry_content io personas_content personas_expected)) (\<lambda>personas.
     fs_then (commit_workspace_registry_pair_under_lock io env agents personas) (\<lambda>_. fs_return (agents, personas)))))))))"
  define done_pair where "done_pair = (\<lambda>a p. replaces_pair io (store_of io (fst s)) agents_expected agents_content personas_expected personas_content a p)"
  define Q where "Q = (\<lambda>(a, p) (s' :: data_files \<times> nat). done_pair a p \<and> store_of io (fst s') = put_pair a p (store_of io (fst s)))"
  define E where "E = (\<lambda>(_ :: data_file_error) (s' :: data_files \<times> nat). store_of io (fst s') = store_of io (fst s) \<or>
    (\<exists>a p. done_pair a p \<and> store_of io (fst s') = put_pair a p (store_of io (fst s))))"
  have same: "E e s'" if "store_of io (fst s') = store_of io (fst s)" for e s'
    using that by (simp add: E_def)
  have commit: "wp (commit_workspace_registry_pair_under_lock io env a p) (\<lambda>_. Q (a, p)) E (files, n)"
    if "df_journal files = None" "df_files files = store_of io (fst s)" "done_pair a p" for files n a p
    by (rule wp_mono [OF wp_commit [of "(files, n)" io env a p]]) (use that assms(1) in \<open>auto simp: Q_def E_def\<close>)
  have "wp tail Q E (files, n)" if "df_journal files = None" and "df_files files = store_of io (fst s)" for files n
  proof -
    have leaf: "E e (files, k)" for e k using that by (intro same) simp
    have last: "wp (commit_workspace_registry_pair_under_lock io env a p) (\<lambda>_. Q (a, p)) E (files, k)"
      if "replaces io (df_files files ''agents.json'') agents_expected agents_content a"
        "replaces io (df_files files ''personas.json'') personas_expected personas_content p" for a p k
      using that \<open>df_files files = _\<close> by (intro commit) (simp_all add: done_pair_def replaces_pair_def \<open>df_journal files = None\<close>)
    define rest where "rest = fs_then (fs_lift (prepare_registry_content io agents_content agents_expected)) (\<lambda>agents.
      fs_then (fs_lift (prepare_registry_content io personas_content personas_expected)) (\<lambda>personas.
      fs_then (commit_workspace_registry_pair_under_lock io env agents personas) (\<lambda>_. fs_return (agents, personas))))"
    have rest: "wp rest Q E (files, k)"
      if "revision_of_content io (df_files files ''agents.json'') = Inr agents_expected"
        "revision_of_content io (df_files files ''personas.json'') = Inr personas_expected" for k
      using that last unfolding rest_def
      by (cases "prepare_registry_content io agents_content agents_expected";
          cases "prepare_registry_content io personas_content personas_expected")
        (simp_all add: wp_then wp_value wp_return leaf replaces_def)
    have personas: "wp (fs_then (read_registry_revision io ''personas.json'') (\<lambda>current_personas.
        fs_then (fs_require (n = agents_expected \<and> current_personas = personas_expected) RevisionConflict) (\<lambda>_. rest))) Q E (files, k)"
      if "revision_of_content io (df_files files ''agents.json'') = Inr n" for n k
      using that rest
      by (cases "df_files files ''personas.json''"; cases "revision_of_content io (df_files files ''personas.json'')")
        (simp_all add: wp_then wp_read_revision wp_unit leaf)
    have agents: "wp (fs_then (read_registry_revision io ''agents.json'') (\<lambda>current_agents.
        fs_then (read_registry_revision io ''personas.json'') (\<lambda>current_personas.
        fs_then (fs_require (current_agents = agents_expected \<and> current_personas = personas_expected) RevisionConflict) (\<lambda>_. rest)))) Q E (files, n)"
      unfolding wp_then [of "read_registry_revision io ''agents.json''"] wp_read_revision [of io "''agents.json''"]
      using personas
      by (cases "df_files files ''agents.json''"; cases "revision_of_content io (df_files files ''agents.json'')") (simp_all add: leaf)
    show ?thesis
      unfolding tail_def rest_def [symmetric] wp_then [of "resolve_workspace_data_file_path _ _ _"] wp_resolve data_names option.case
      using agents by (simp add: leaf split: option.split)
  qed
  then have "wp (write_workspace_registry_pair io env agents_expected agents_content personas_expected personas_content) Q E s"
    unfolding write_workspace_registry_pair_def tail_def [symmetric] wp_then [of "fs_require _ _"] wp_then [of "fs_check _"]
    by (auto simp: wp_unit same intro!: wp_recovered split: option.split)
  then show ?thesis unfolding Q_def E_def done_pair_def .
qed

lemma wp_read_file:
  "wp (read_workspace_data_file io env file_name)
     (\<lambda>content s'. store_of io (fst s') = store_of io (fst s) \<and> content = store_of io (fst s) (rust_trim file_name))
     (\<lambda>_ s'. store_of io (fst s') = store_of io (fst s)) s"
proof -
  define tail where "tail =
     fs_then (resolve_workspace_data_file_path env file_name False) (\<lambda>name.
     fs_then (fs_access WorkspaceUnreadable (\<lambda>files. files)) (\<lambda>_.
     fs_then (fs_look (\<lambda>files. df_files files name)) (\<lambda>metadata.
       case metadata of
         None \<Rightarrow> fs_return None
       | Some c \<Rightarrow>
           if content_bytes c > WORKSPACE_DATA_FILE_MAX_BYTES then fs_fail FileTooLarge
           else read_bounded_file (\<lambda>files. df_files files name) WORKSPACE_DATA_FILE_MAX_BYTES)))"
  have tail: "wp tail
      (\<lambda>content s'. store_of io (fst s') = store_of io (fst s) \<and> content = store_of io (fst s) (rust_trim file_name))
      (\<lambda>_ s'. store_of io (fst s') = store_of io (fst s)) s1"
    if "store_of io (fst s1) = store_of io (fst s)" and "df_files (fst s1) (rust_trim file_name) = store_of io (fst s) (rust_trim file_name)" for s1
    using that unfolding tail_def
    by (auto simp: wp_rules dest!: validated_name split: option.splits)
  show ?thesis
  proof (cases "rust_trim file_name \<in> set REGISTRY_FILE_NAMES")
    case True
    have "wp (recover_workspace_registry_transaction_under_lock io env)
      (\<lambda>_. wp tail (\<lambda>content s'. store_of io (fst s') = store_of io (fst s) \<and> content = store_of io (fst s) (rust_trim file_name))
        (\<lambda>_ s'. store_of io (fst s') = store_of io (fst s)))
      (\<lambda>_ s'. store_of io (fst s') = store_of io (fst s)) s"
      by (rule wp_mono [OF wp_recover]) (use tail in \<open>auto simp: prod_eq_iff\<close>)
    then show ?thesis
      using True unfolding read_workspace_data_file_def tail_def [symmetric]
      by (auto simp: wp_value wp_unit wp_then split: option.split)
  next
    case False
    then have "df_files (fst s) (rust_trim file_name) = store_of io (fst s) (rust_trim file_name)"
      by (auto simp: store_of_def put_pair_def REGISTRY_FILE_NAMES_def split: option.split)
    then show ?thesis
      using False tail [of s] unfolding read_workspace_data_file_def tail_def [symmetric]
      by (auto simp: wp_value wp_unit wp_then split: option.split)
  qed
qed

lemma store_of_other:
  "name \<notin> set REGISTRY_FILE_NAMES \<Longrightarrow>
   store_of io (files\<lparr>df_files := (df_files files)(name \<mapsto> content)\<rparr>) = (store_of io files)(name \<mapsto> content)"
  by (auto simp: store_of_def journalled_def put_pair_def REGISTRY_FILE_NAMES_def fun_eq_iff split: option.split)

lemma wp_write_file:
  "wp (write_workspace_data_file io env file_name content)
     (\<lambda>_ s'. rust_trim file_name \<notin> set REGISTRY_FILE_NAMES \<and> store_of io (fst s') = (store_of io (fst s))(rust_trim file_name \<mapsto> content))
     (\<lambda>_ s'. store_of io (fst s') = store_of io (fst s)) s"
  unfolding write_workspace_data_file_def
  by (auto simp: wp_rules rust_trim_idem write_data_file_def store_of_other dest!: validated_name split: option.split)

end
