(* ===== verification/File_Store.thy ===== *)
theory File_Store
  imports Workspace_Files_Laws
begin

text \<open>
  The native data files as an atomic store: every command, wherever it is cut off, is one step of the
  store, and the accepted writes of a registry meet strictly growing revisions.
\<close>

section \<open>Requests\<close>

datatype file_request =
    ReadData string
  | WriteData string string
  | WriteRegistry string int string
  | WritePair int string int string

datatype file_answer =
    ReadAnswer "data_file_error + string option"
  | WriteAnswer "data_file_error + unit"
  | RegistryAnswer "data_file_error + string"
  | PairAnswer "data_file_error + string \<times> string"

fun serve :: "json_io \<Rightarrow> file_env \<Rightarrow> file_request \<Rightarrow> data_files \<Rightarrow> data_files \<times> file_answer" where
  "serve io env (ReadData name) files = apsnd ReadAnswer (fs_run env (read_workspace_data_file io env name) files)"
| "serve io env (WriteData name content) files = apsnd WriteAnswer (fs_run env (write_workspace_data_file io env name content) files)"
| "serve io env (WriteRegistry name expected content) files =
     apsnd RegistryAnswer (fs_run env (write_workspace_registry_file io env name expected content) files)"
| "serve io env (WritePair ae ac pe pc) files = apsnd PairAnswer (fs_run env (write_workspace_registry_pair io env ae ac pe pc) files)"

fun serve_all :: "json_io \<Rightarrow> (file_env \<times> file_request) list \<Rightarrow> data_files \<Rightarrow> data_files \<times> (file_request \<times> file_answer) list" where
  "serve_all io [] files = (files, [])"
| "serve_all io ((env, request) # requests) files =
     (let (files1, answer) = serve io env request files;
          (files2, log) = serve_all io requests files1
      in (files2, (request, answer) # log))"

section \<open>The store\<close>

text \<open>What an answer may mean for the store. A pair whose write fails may have been written all the same.\<close>

fun store_step :: "json_io \<Rightarrow> file_request \<Rightarrow> file_answer \<Rightarrow> (string \<Rightarrow> string option) \<Rightarrow> (string \<Rightarrow> string option) \<Rightarrow> bool" where
  "store_step io (ReadData name) (ReadAnswer r) store store' \<longleftrightarrow>
     store' = store \<and> (case r of Inl _ \<Rightarrow> True | Inr content \<Rightarrow> content = store (rust_trim name))"
| "store_step io (WriteData name content) (WriteAnswer r) store store' \<longleftrightarrow>
     (case r of Inl _ \<Rightarrow> store' = store
      | Inr _ \<Rightarrow> rust_trim name \<notin> set REGISTRY_FILE_NAMES \<and> store' = store(rust_trim name \<mapsto> content))"
| "store_step io (WriteRegistry name expected content) (RegistryAnswer r) store store' \<longleftrightarrow>
     (case r of Inl _ \<Rightarrow> store' = store
      | Inr persisted \<Rightarrow> replaces io (store (rust_trim name)) expected content persisted \<and> store' = store(rust_trim name \<mapsto> persisted))"
| "store_step io (WritePair ae ac pe pc) (PairAnswer r) store store' \<longleftrightarrow>
     (case r of Inl _ \<Rightarrow> store' = store \<or> (\<exists>a p. replaces_pair io store ae ac pe pc a p \<and> store' = put_pair a p store)
      | Inr (a, p) \<Rightarrow> replaces_pair io store ae ac pe pc a p \<and> store' = put_pair a p store)"
| "store_step io _ _ store store' \<longleftrightarrow> False"

lemma wp_fs_run: "wp m Q E (files, fe_accesses env) \<Longrightarrow> fs_run env m files = (files', r) \<Longrightarrow>
   \<exists>k. case r of Inl e \<Rightarrow> E e (files', k) | Inr x \<Rightarrow> Q x (files', k)"
  by (auto simp: wp_def fs_run_def split: prod.splits sum.splits)

lemma serve_refines:
  assumes "serve io env request files = (files', answer)" and "faithful_io io"
  shows "store_step io request answer (store_of io files) (store_of io files')"
proof (cases request)
  case (ReadData name)
  then obtain r where r: "fs_run env (read_workspace_data_file io env name) files = (files', r)" "answer = ReadAnswer r"
    using assms(1) by (auto simp: apsnd_def map_prod_def split: prod.splits)
  from wp_fs_run [OF wp_read_file r(1)] show ?thesis using ReadData r(2) by (auto split: sum.splits)
next
  case (WriteData name content)
  then obtain r where r: "fs_run env (write_workspace_data_file io env name content) files = (files', r)" "answer = WriteAnswer r"
    using assms(1) by (auto simp: apsnd_def map_prod_def split: prod.splits)
  from wp_fs_run [OF wp_write_file [of io] r(1)] show ?thesis using WriteData r(2) by (auto split: sum.splits)
next
  case (WriteRegistry name expected content)
  then obtain r where r: "fs_run env (write_workspace_registry_file io env name expected content) files = (files', r)" "answer = RegistryAnswer r"
    using assms(1) by (auto simp: apsnd_def map_prod_def split: prod.splits)
  from wp_fs_run [OF wp_write_registry r(1)] show ?thesis using WriteRegistry r(2) by (auto split: sum.splits)
next
  case (WritePair ae ac pe pc)
  then obtain r where r: "fs_run env (write_workspace_registry_pair io env ae ac pe pc) files = (files', r)" "answer = PairAnswer r"
    using assms(1) by (auto simp: apsnd_def map_prod_def split: prod.splits)
  from wp_fs_run [OF wp_write_pair_command [OF assms(2)] r(1)] show ?thesis using WritePair r(2) by (auto split: sum.splits)
qed

section \<open>Revisions\<close>

lemma update_within: "list_all P ps \<Longrightarrow> P (k, v) \<Longrightarrow> list_all P (AList.update k v ps)"
  by (induction ps) auto

lemma persisted_revision:
  assumes "replaces io current expected content persisted" and "faithful_io io"
  shows "revision_of_content io (Some persisted) = Inr (expected + 1)"
proof -
  obtain ps where ps: "io_parse io content = Some (JObj ps)"
    and persisted: "persisted = io_render io (JObj (AList.update ''revision'' (JInt (expected + 1)) ps))"
    and bounds: "0 \<le> expected" "expected + 1 \<le> U64_MAX"
    using assms(1) by (auto simp: replaces_def prepare_registry_content_def as_u64_def Let_def split: option.splits js.splits if_splits)
  have "json_value (JObj ps)" using assms(2) ps by (auto simp: faithful_io_def dest: faithful_value)
  then have "json_value (JObj (AList.update ''revision'' (JInt (expected + 1)) ps))"
    by (simp add: distinct_update update_within)
  then have "io_parse io persisted = Some (JObj (AList.update ''revision'' (JInt (expected + 1)) ps))"
    using assms(2) persisted by (simp add: faithful_io_def faithful_parse)
  then show ?thesis using bounds by (simp add: revision_of_content_def update_conv' as_u64_def)
qed

text \<open>The revision that an accepted write of a registry met.\<close>

fun revisions_met :: "string \<Rightarrow> file_request \<times> file_answer \<Rightarrow> int list" where
  "revisions_met name (WriteRegistry file expected content, RegistryAnswer (Inr _)) = (if rust_trim file = name then [expected] else [])"
| "revisions_met name (WritePair ae ac pe pc, PairAnswer (Inr _)) =
     (if name = ''agents.json'' then [ae] else if name = ''personas.json'' then [pe] else [])"
| "revisions_met name _ = []"

definition accepted_revisions :: "string \<Rightarrow> (file_request \<times> file_answer) list \<Rightarrow> int list" where
  "accepted_revisions name log = concat (map (revisions_met name) log)"

lemma step_revision:
  assumes "store_step io request answer store store'" and "faithful_io io" and "name \<in> set REGISTRY_FILE_NAMES"
  shows "(revisions_met name (request, answer) = [] \<and>
      (store' name = store name \<or> (\<exists>e. revision_of_content io (store name) = Inr e \<and> revision_of_content io (store' name) = Inr (e + 1)))) \<or>
    (\<exists>e. revisions_met name (request, answer) = [e] \<and> revision_of_content io (store name) = Inr e \<and>
       revision_of_content io (store' name) = Inr (e + 1))"
proof -
  have met: "revision_of_content io current = Inr e \<and> revision_of_content io (Some persisted) = Inr (e + 1)"
    if "replaces io current e content persisted" for current e content persisted
    using persisted_revision [OF that assms(2)] that by (simp add: replaces_def)
  show ?thesis
    using assms(1,3)
    by (cases "(io, request, answer, store, store')" rule: store_step.cases)
      (auto simp: replaces_pair_def put_pair_def dest!: met split: sum.splits)
qed

lemma run_revisions:
  assumes "serve_all io requests files = (files', log)" and "faithful_io io" and "name \<in> set REGISTRY_FILE_NAMES"
  shows "sorted_wrt (<) (accepted_revisions name log) \<and>
    (accepted_revisions name log \<noteq> [] \<longrightarrow> (\<exists>n. revision_of_content io (store_of io files name) = Inr n \<and>
       (\<forall>e \<in> set (accepted_revisions name log). n \<le> e)))"
  using assms(1)
proof (induction requests arbitrary: files log)
  case Nil
  then show ?case by (simp add: accepted_revisions_def)
next
  case (Cons request requests)
  obtain env req where request: "request = (env, req)" by (cases request)
  obtain files1 answer where first: "serve io env req files = (files1, answer)" by fastforce
  obtain rest where rest: "serve_all io requests files1 = (files', rest)" and log: "log = (req, answer) # rest"
    using Cons.prems by (auto simp: request first split: prod.splits)
  note step = step_revision [OF serve_refines [OF first assms(2)] assms(2,3)]
  show ?case using step Cons.IH [OF rest] by (auto simp: log accepted_revisions_def) fastforce+
qed

section \<open>After an interruption\<close>

text \<open>
  The journal of a pair fits its limit: \<open>serde_json\<close> writes at most six bytes for a byte of a string, and
  the field names and quotes take less than 128.
\<close>

definition journal_fits :: "json_io \<Rightarrow> bool" where
  "journal_fits io \<longleftrightarrow>
     (\<forall>a p. within_limit a \<longrightarrow> within_limit p \<longrightarrow>
        content_bytes (io_render io (transaction_js a p)) \<le> REGISTRY_TRANSACTION_MAX_BYTES)"

definition undisturbed :: "file_env \<Rightarrow> bool" where
  "undisturbed env \<longleftrightarrow> fe_root env = None \<and> fe_lock env \<and> fe_path env = (\<lambda>_ _. None) \<and> fe_journal env = (\<lambda>_. None) \<and> 7 \<le> fe_accesses env"

text \<open>The journal that a command leaves is one that recovery can read.\<close>

definition journal_ok :: "json_io \<Rightarrow> data_files \<Rightarrow> bool" where
  "journal_ok io files \<longleftrightarrow>
     (\<forall>content. df_journal files = Some content \<longrightarrow> content_bytes content \<le> REGISTRY_TRANSACTION_MAX_BYTES \<and>
        (\<exists>a p. journalled io files = Some (a, p) \<and> within_limit a \<and> within_limit p))"

lemma wp_recover_ok:
  assumes "undisturbed env" and "journal_ok io files" and "5 \<le> n"
  shows "wp (recover_workspace_registry_transaction_under_lock io env)
     (\<lambda>_ s'. df_journal (fst s') = None \<and> df_files (fst s') = store_of io files \<and> n - 4 \<le> snd s') (\<lambda>_ _. False) (files, n)"
proof (cases "df_journal files")
  case None
  then show ?thesis using assms
    by (auto simp: recover_workspace_registry_transaction_under_lock_def wp_rules undisturbed_def)
next
  case (Some content)
  then obtain a p v where "content_bytes content \<le> REGISTRY_TRANSACTION_MAX_BYTES" "io_parse io content = Some v"
      "transaction_of v = Some (a, p)" "within_limit a" "within_limit p"
    using assms(2) by (auto simp: journal_ok_def journalled_def split: option.splits)
  then show ?thesis using assms(1,3) Some
    by (simp add: recover_workspace_registry_transaction_under_lock_def wp_rules undisturbed_def data_names
        write_data_file_def remove_journal_def store_of_def journalled_def put_pair_def)
qed

text \<open>What keeps journals readable.\<close>

definition keeps_journal :: "json_io \<Rightarrow> 'a fs \<Rightarrow> bool" where
  "keeps_journal io m \<longleftrightarrow> (\<forall>s. journal_ok io (fst s) \<longrightarrow> wp m (\<lambda>_ s'. journal_ok io (fst s')) (\<lambda>_ s'. journal_ok io (fst s')) s)"

named_theorems keeps_intros \<open>computations that keep the journal readable\<close>

lemma keeps_then [keeps_intros]:
  assumes "keeps_journal io m" and "\<And>x. keeps_journal io (f x)"
  shows "keeps_journal io (fs_then m f)"
  unfolding keeps_journal_def wp_then
proof (intro allI impI)
  fix s :: "data_files \<times> nat"
  assume "journal_ok io (fst s)"
  with assms(1) have "wp m (\<lambda>_ s'. journal_ok io (fst s')) (\<lambda>_ s'. journal_ok io (fst s')) s"
    unfolding keeps_journal_def by blast
  then show "wp m (\<lambda>x. wp (f x) (\<lambda>_ s'. journal_ok io (fst s')) (\<lambda>_ s'. journal_ok io (fst s'))) (\<lambda>_ s'. journal_ok io (fst s')) s"
    by (rule wp_mono) (use assms(2) [unfolded keeps_journal_def] in blast)+
qed

lemma keeps_value [keeps_intros]:
  "keeps_journal io (fs_return x)" "keeps_journal io (fs_fail e)" "keeps_journal io (fs_lift r)" "keeps_journal io (fs_look look)"
  by (auto simp: keeps_journal_def wp_value wp_look split: sum.split)

lemma keeps_unit [keeps_intros]: "keeps_journal io (fs_require ok e)" "keeps_journal io (fs_check problem)"
  by (auto simp: keeps_journal_def wp_unit split: option.split)

lemma keeps_error [keeps_intros]: "keeps_journal io m \<Longrightarrow> keeps_journal io (fs_error g m)"
  by (simp add: keeps_journal_def wp_value)

lemma keeps_access [keeps_intros]:
  "(\<And>files. journal_ok io files \<Longrightarrow> journal_ok io (change files)) \<Longrightarrow> keeps_journal io (fs_access e change)"
  by (simp add: keeps_journal_def wp_unit)

lemma keeps_option [keeps_intros]:
  "keeps_journal io m \<Longrightarrow> (\<And>x. keeps_journal io (f x)) \<Longrightarrow> keeps_journal io (case option of None \<Rightarrow> m | Some x \<Rightarrow> f x)"
  by (cases option) simp_all

lemma keeps_if [keeps_intros]: "keeps_journal io m \<Longrightarrow> keeps_journal io m' \<Longrightarrow> keeps_journal io (if b then m else m')"
  by simp

lemma keeps_pair [keeps_intros]: "(\<And>a b. keeps_journal io (f a b)) \<Longrightarrow> keeps_journal io (case t of (a, b) \<Rightarrow> f a b)"
  by (cases t) simp

lemma keeps_read [keeps_intros]: "keeps_journal io (read_bounded_file look max_bytes)"
  unfolding read_bounded_file_def by (intro keeps_intros)

lemma keeps_revision [keeps_intros]: "keeps_journal io (read_registry_revision io name)"
  unfolding read_registry_revision_def by (intro keeps_intros)

lemma keeps_resolve [keeps_intros]: "keeps_journal io (resolve_workspace_data_file_path env name create_root)"
  unfolding resolve_workspace_data_file_path_def by (intro keeps_intros)

lemma keeps_write [keeps_intros]: "keeps_journal io (write_data_file name content)" "keeps_journal io remove_journal"
  by (auto simp: keeps_journal_def wp_rules write_data_file_def remove_journal_def journal_ok_def journalled_def)

lemma keeps_write_journal:
  "faithful_io io \<Longrightarrow> journal_fits io \<Longrightarrow> within_limit a \<Longrightarrow> within_limit p \<Longrightarrow>
   keeps_journal io (write_journal (io_render io (transaction_js a p)))"
  using transaction_roundtrip
  by (auto simp: keeps_journal_def wp_rules write_journal_def journal_ok_def journalled_def journal_fits_def faithful_io_def faithful_parse)

lemma keeps_recover [keeps_intros]: "keeps_journal io (recover_workspace_registry_transaction_under_lock io env)"
  unfolding recover_workspace_registry_transaction_under_lock_def by (intro keeps_intros)

lemma keeps_commit [keeps_intros]:
  assumes "faithful_io io" and "journal_fits io"
  shows "keeps_journal io (commit_workspace_registry_pair_under_lock io env a p)"
proof (cases "within_limit a \<and> within_limit p")
  case True
  then have "keeps_journal io (write_journal (io_render io (transaction_js a p)))"
    using assms by (simp add: keeps_write_journal)
  then show ?thesis unfolding commit_workspace_registry_pair_under_lock_def by (intro keeps_intros)
next
  case False
  then show ?thesis
    unfolding commit_workspace_registry_pair_under_lock_def keeps_journal_def wp_then [of "fs_require _ _"] wp_unit by auto
qed

lemma keeps_read_command: "keeps_journal io (read_workspace_data_file io env name)"
  unfolding read_workspace_data_file_def by (intro keeps_intros)

lemma keeps_write_command: "keeps_journal io (write_workspace_data_file io env name content)"
  unfolding write_workspace_data_file_def by (intro keeps_intros)

lemma keeps_registry_command: "keeps_journal io (write_workspace_registry_file io env name expected content)"
  unfolding write_workspace_registry_file_def by (intro keeps_intros)

lemma keeps_pair_command:
  "faithful_io io \<Longrightarrow> journal_fits io \<Longrightarrow> keeps_journal io (write_workspace_registry_pair io env ae ac pe pc)"
  unfolding write_workspace_registry_pair_def by (intro keeps_intros)

lemmas keeps_commands = keeps_read_command keeps_write_command keeps_registry_command keeps_pair_command

lemma keeps_run: "keeps_journal io m \<Longrightarrow> journal_ok io files \<Longrightarrow> fs_run env m files = (files', r) \<Longrightarrow> journal_ok io files'"
  unfolding keeps_journal_def by (drule spec [of _ "(files, fe_accesses env)"], simp) (drule (1) wp_fs_run, auto split: sum.splits)

lemma serve_keeps_journal:
  "serve io env request files = (files', answer) \<Longrightarrow> faithful_io io \<Longrightarrow> journal_fits io \<Longrightarrow> journal_ok io files \<Longrightarrow> journal_ok io files'"
  by (cases request) (auto simp: apsnd_def map_prod_def split: prod.splits intro: keeps_run keeps_commands)

text \<open>A read that is not disturbed answers, whatever the commands before it left.\<close>

lemma registry_name:
  "name \<in> set REGISTRY_FILE_NAMES \<Longrightarrow> rust_trim name = name \<and> validate_workspace_data_file_name name = Some name"
proof -
  have "\<forall>name \<in> set REGISTRY_FILE_NAMES. rust_trim name = name \<and> validate_workspace_data_file_name name = Some name" by code_simp
  then show "name \<in> set REGISTRY_FILE_NAMES \<Longrightarrow> ?thesis" by blast
qed

lemma undisturbed_read:
  assumes "undisturbed env" and "journal_ok io files" and "name \<in> set REGISTRY_FILE_NAMES"
    and "\<And>content. store_of io files name = Some content \<Longrightarrow> within_limit content"
  shows "\<exists>files'. serve io env (ReadData name) files = (files', ReadAnswer (Inr (store_of io files name)))"
proof -
  have n: "7 \<le> fe_accesses env" using assms(1) by (simp add: undisturbed_def)
  define Q where "Q = wp (fs_then (resolve_workspace_data_file_path env name False) (\<lambda>name.
     fs_then (fs_access WorkspaceUnreadable (\<lambda>files. files)) (\<lambda>_.
     fs_then (fs_look (\<lambda>files. df_files files name)) (\<lambda>metadata.
       case metadata of
         None \<Rightarrow> fs_return None
       | Some c \<Rightarrow>
           if content_bytes c > WORKSPACE_DATA_FILE_MAX_BYTES then fs_fail FileTooLarge
           else read_bounded_file (\<lambda>files. df_files files name) WORKSPACE_DATA_FILE_MAX_BYTES))))
      (\<lambda>content _. content = store_of io files name) (\<lambda>_ _. False)"
    have "Q s'" if "df_files (fst s') = store_of io files" "3 \<le> snd s'" for s'
      using that assms registry_name [OF assms(3)] unfolding Q_def
      by (auto simp: wp_rules undisturbed_def within_limit_def split: option.split)
    then have "wp (recover_workspace_registry_transaction_under_lock io env) (\<lambda>_. Q) (\<lambda>_ _. False) (files, fe_accesses env)"
      using n by (intro wp_mono [OF wp_recover_ok [OF assms(1,2)]]) auto
    then have "wp (read_workspace_data_file io env name) (\<lambda>content _. content = store_of io files name) (\<lambda>_ _. False) (files, fe_accesses env)"
      using assms(1,3) registry_name [OF assms(3)] unfolding Q_def read_workspace_data_file_def
      by (simp add: undisturbed_def wp_then wp_unit wp_value)
  then show ?thesis
    using wp_fs_run by (cases "fs_run env (read_workspace_data_file io env name) files") (fastforce split: sum.splits)
qed

end
