(* ===== verification/Registry_Storage.thy ===== *)
theory Registry_Storage
  imports Agent_Registry Workspace_Files
begin

text \<open>
  Where the renderer keeps registries: the client of the native data files
  (\<open>src/lib/workspaces/workspace-data-file.ts\<close>) and the storage that agents, personas, references and skills
  share line by line (\<open>agent-registry-storage.ts\<close> and the like): the workspace's file when there is a native
  side, a record in local storage otherwise.
\<close>

section \<open>The client of the native commands\<close>

text \<open>What a call of the native side gives: there is none, it is rejected, or a value.\<close>

datatype native_reply = NoBridge | Rejected | Reply js

definition workspaceDataFileErrors :: "string list" where
  "workspaceDataFileErrors =
     [''workspace-data-workspace-required'', ''workspace-data-workspace-not-absolute'', ''workspace-data-workspace-not-found'',
      ''workspace-data-workspace-not-directory'', ''workspace-data-workspace-permission-denied'',
      ''workspace-data-workspace-unreadable'', ''workspace-data-root-invalid'', ''workspace-data-file-invalid'',
      ''workspace-data-file-too-large'', ''workspace-data-file-read-failed'', ''workspace-data-file-write-failed'',
      ''workspace-data-revision-conflict'', ''workspace-data-unavailable'']"

definition isWorkspaceDataFileError :: "js \<Rightarrow> bool" where
  "isWorkspaceDataFileError v = list_ex (\<lambda>e. v = JStr e) workspaceDataFileErrors"

text \<open>\<open>isWorkspaceDataFileError(error) ? error : fallback\<close>\<close>

definition data_file_error_or :: "string \<Rightarrow> js \<Rightarrow> string" where
  "data_file_error_or fallback v = (case v of JStr e \<Rightarrow> if isWorkspaceDataFileError v then e else fallback | _ \<Rightarrow> fallback)"

text \<open>A property of \<open>null\<close> or \<open>undefined\<close> throws, which the caller catches as a rejection.\<close>

definition replied :: "native_reply \<Rightarrow> js option" where
  "replied reply = (case reply of Reply v \<Rightarrow> if v = JNull \<or> v = JUndefined then None else Some v | _ \<Rightarrow> None)"

definition writeWorkspaceRegistryFile :: "native_reply \<Rightarrow> string + string" where
  "writeWorkspaceRegistryFile reply =
     (if reply = NoBridge then Inl ''workspace-data-unavailable''
      else (case replied reply of
          None \<Rightarrow> Inl ''workspace-data-file-write-failed''
        | Some response \<Rightarrow>
            (case (js_truthy (js_prop response ''ok''), js_prop response ''content'') of
               (True, JStr content) \<Rightarrow> Inr content
             | _ \<Rightarrow> Inl (data_file_error_or ''workspace-data-file-write-failed'' (js_prop response ''error'')))))"

definition writeWorkspaceRegistryPair :: "native_reply \<Rightarrow> string + string \<times> string" where
  "writeWorkspaceRegistryPair reply =
     (if reply = NoBridge then Inl ''workspace-data-unavailable''
      else (case replied reply of
          None \<Rightarrow> Inl ''workspace-data-file-write-failed''
        | Some response \<Rightarrow>
            (case (js_truthy (js_prop response ''ok''), js_prop response ''agentsContent'', js_prop response ''personasContent'') of
               (True, JStr agents, JStr personas) \<Rightarrow> Inr (agents, personas)
             | _ \<Rightarrow> Inl (data_file_error_or ''workspace-data-file-write-failed'' (js_prop response ''error'')))))"

definition readWorkspaceDataFile :: "native_reply \<Rightarrow> string + string option" where
  "readWorkspaceDataFile reply =
     (if reply = NoBridge then Inl ''workspace-data-unavailable''
      else (case replied reply of
          None \<Rightarrow> Inl ''workspace-data-file-read-failed''
        | Some response \<Rightarrow>
            if js_truthy (js_prop response ''ok'')
            then Inr (case js_prop response ''content'' of JStr content \<Rightarrow> Some content | _ \<Rightarrow> None)
            else Inl (data_file_error_or ''workspace-data-file-read-failed'' (js_prop response ''error''))))"

definition writeWorkspaceDataFile :: "native_reply \<Rightarrow> string + unit" where
  "writeWorkspaceDataFile reply =
     (if reply = NoBridge then Inl ''workspace-data-unavailable''
      else (case replied reply of
          None \<Rightarrow> Inl ''workspace-data-file-write-failed''
        | Some response \<Rightarrow>
            if js_truthy (js_prop response ''ok'') then Inr ()
            else Inl (data_file_error_or ''workspace-data-file-write-failed'' (js_prop response ''error''))))"

section \<open>Storage of registries\<close>

text \<open>What differs between the registries.\<close>

record 'r registry_kind =
  rk_empty :: "string \<Rightarrow> 'r"   \<comment> \<open>of a workspace, at the current time\<close>
  rk_parse :: "string \<Rightarrow> string \<Rightarrow> 'r option"
  rk_serialize :: "'r \<Rightarrow> string"
  rk_has_records :: "'r \<Rightarrow> bool"
  rk_revision :: "'r \<Rightarrow> int"
  rk_workspaceId :: "'r \<Rightarrow> string"
  rk_file :: string
  rk_storage_key :: string
  rk_read_failed :: string
  rk_write_failed :: string

text \<open>
  The browser side: local storage, whether it takes a value, and the registries announced by the event of
  the kind, latest first. \<open>bs_window\<close> is false where there is no window.
\<close>

record 'r browser_side =
  bs_window :: bool
  bs_storage :: "string \<Rightarrow> string option"
  bs_writable :: bool
  bs_announced :: "'r list"

type_synonym 'r storage_result = "'r \<times> string option"   \<comment> \<open>the registry and the error, if any\<close>

text \<open>The registries by workspace, as their texts.\<close>

definition readStorageRecord :: "(string \<Rightarrow> js option) \<Rightarrow> string \<Rightarrow> 'r browser_side \<Rightarrow> (string \<times> string) list" where
  "readStorageRecord json_parse key b =
     (if \<not> bs_window b then []
      else (case bs_storage b key of
          None \<Rightarrow> []
        | Some serialized \<Rightarrow>
            (case json_parse serialized of
               None \<Rightarrow> []
             | Some value \<Rightarrow>
                 if \<not> isObjectRecord value \<or> js_prop value ''version'' \<noteq> JInt 1 then []
                 else (case js_prop value ''registries'' of
                     JObj entries \<Rightarrow> concat (map (\<lambda>(w, r). case r of JStr text \<Rightarrow> [(w, text)] | _ \<Rightarrow> []) entries)
                   | _ \<Rightarrow> []))))"

definition storage_record_js :: "(string \<times> string) list \<Rightarrow> js" where
  "storage_record_js registries =
     JObj [(''version'', JInt 1), (''registries'', JObj (map (\<lambda>(w, text). (w, JStr text)) registries))]"

definition readLegacyRegistry :: "(string \<Rightarrow> js option) \<Rightarrow> 'r registry_kind \<Rightarrow> string \<Rightarrow> 'r browser_side \<Rightarrow> 'r" where
  "readLegacyRegistry json_parse kind workspaceId b =
     (case map_of (readStorageRecord json_parse (rk_storage_key kind) b) workspaceId of
        None \<Rightarrow> rk_empty kind workspaceId
      | Some text \<Rightarrow> (case rk_parse kind text workspaceId of None \<Rightarrow> rk_empty kind workspaceId | Some r \<Rightarrow> r))"

text \<open>\<open>None\<close> when local storage throws.\<close>

definition writeLegacyRegistry ::
  "(string \<Rightarrow> js option) \<Rightarrow> (js \<Rightarrow> string) \<Rightarrow> 'r registry_kind \<Rightarrow> 'r \<Rightarrow> 'r browser_side \<Rightarrow> 'r browser_side option" where
  "writeLegacyRegistry json_parse stringify kind registry b =
     (let storage = readStorageRecord json_parse (rk_storage_key kind) b;
          next_storage = AList.update (rk_workspaceId kind registry) (rk_serialize kind registry) storage
      in if \<not> bs_window b then Some b
         else if bs_writable b
         then Some (b\<lparr>bs_storage := (bs_storage b)(rk_storage_key kind \<mapsto> stringify (storage_record_js next_storage))\<rparr>)
         else None)"

definition notifyRegistryChanged :: "'r \<Rightarrow> 'r browser_side \<Rightarrow> 'r browser_side" where
  "notifyRegistryChanged registry b = (if bs_window b then b\<lparr>bs_announced := registry # bs_announced b\<rparr> else b)"

text \<open>
  A write: with a workspace path and a native side it is the native command
  \<open>write_workspace_registry_file\<close> with these arguments, and the rest when the reply is there.
\<close>

definition uses_files :: "bool \<Rightarrow> string \<Rightarrow> bool" where
  "uses_files available workspacePath \<longleftrightarrow> workspacePath \<noteq> [] \<and> available"

definition registry_write_request :: "'r registry_kind \<Rightarrow> 'r \<Rightarrow> string \<times> int \<times> string" where
  "registry_write_request kind registry = (rk_file kind, rk_revision kind registry, rk_serialize kind registry)"

definition finish_registry_write :: "'r registry_kind \<Rightarrow> 'r \<Rightarrow> native_reply \<Rightarrow> 'r browser_side \<Rightarrow> 'r browser_side \<times> 'r storage_result" where
  "finish_registry_write kind registry reply b =
     (case writeWorkspaceRegistryFile reply of
        Inl e \<Rightarrow> (b, registry, Some e)
      | Inr content \<Rightarrow>
          (case rk_parse kind content (rk_workspaceId kind registry) of
             None \<Rightarrow> (b, registry, Some (rk_write_failed kind))
           | Some persisted \<Rightarrow> (notifyRegistryChanged persisted b, persisted, None)))"

definition write_without_files ::
  "(string \<Rightarrow> js option) \<Rightarrow> (js \<Rightarrow> string) \<Rightarrow> 'r registry_kind \<Rightarrow> 'r \<Rightarrow> 'r browser_side \<Rightarrow> 'r browser_side \<times> 'r storage_result" where
  "write_without_files json_parse stringify kind registry b =
     (if \<not> bs_window b then (b, registry, Some (rk_write_failed kind))
      else (case writeLegacyRegistry json_parse stringify kind registry b of
          None \<Rightarrow> (b, registry, Some (rk_write_failed kind))
        | Some b' \<Rightarrow> (notifyRegistryChanged registry b', registry, None)))"

text \<open>A read of the file: either the answer, or the registry of local storage has to be written to the file.\<close>

definition finish_registry_read ::
  "'r registry_kind \<Rightarrow> string \<Rightarrow> 'r \<Rightarrow> native_reply \<Rightarrow> 'r storage_result + 'r" where
  "finish_registry_read kind workspaceId legacy reply =
     (case readWorkspaceDataFile reply of
        Inl e \<Rightarrow> Inl (legacy, Some e)
      | Inr (Some content) \<Rightarrow>
          (case rk_parse kind content workspaceId of
             None \<Rightarrow> Inl (legacy, Some (rk_read_failed kind))
           | Some registry \<Rightarrow> Inl (registry, None))
      | Inr None \<Rightarrow> if rk_has_records kind legacy then Inr legacy else Inl (rk_empty kind workspaceId, None))"

definition read_without_files :: "(string \<Rightarrow> js option) \<Rightarrow> 'r registry_kind \<Rightarrow> string \<Rightarrow> 'r browser_side \<Rightarrow> 'r storage_result" where
  "read_without_files json_parse kind workspaceId b =
     (if \<not> bs_window b then (rk_empty kind workspaceId, None) else (readLegacyRegistry json_parse kind workspaceId b, None))"

text \<open>The listeners of a subscription: the event of the kind, and a change of local storage by another window.\<close>

definition handleRegistryChanged :: "'r registry_kind \<Rightarrow> string \<Rightarrow> 'r \<Rightarrow> 'r option" where
  "handleRegistryChanged kind workspaceId announced = (if rk_workspaceId kind announced = workspaceId then Some announced else None)"

definition handleStorageChanged ::
  "(string \<Rightarrow> js option) \<Rightarrow> 'r registry_kind \<Rightarrow> string \<Rightarrow> bool \<Rightarrow> string option \<Rightarrow> 'r browser_side \<Rightarrow> 'r option" where
  "handleStorageChanged json_parse kind workspaceId of_local_storage key b =
     (if \<not> of_local_storage \<or> key \<noteq> Some (rk_storage_key kind) then None
      else Some (fst (read_without_files json_parse kind workspaceId b)))"

section \<open>Agents\<close>

definition agent_kind ::
  "(string \<Rightarrow> string \<Rightarrow> int) \<Rightarrow> (string \<Rightarrow> js_number) \<Rightarrow> (string \<Rightarrow> js option) \<Rightarrow> (js \<Rightarrow> string) \<Rightarrow> string \<Rightarrow> agent_registry registry_kind" where
  "agent_kind cmp parse_float json_parse stringify now =
     \<lparr>rk_empty = (\<lambda>workspaceId. createEmptyAgentRegistry workspaceId now),
      rk_parse = parseAgentRegistry cmp parse_float json_parse,
      rk_serialize = serializeAgentRegistry cmp parse_float stringify,
      rk_has_records = (\<lambda>r. gr_agents r \<noteq> []), rk_revision = gr_revision, rk_workspaceId = gr_workspaceId,
      rk_file = ''agents.json'', rk_storage_key = ''workduck.agentRegistries.v1'',
      rk_read_failed = ''agent-registry-storage-read-failed'', rk_write_failed = ''agent-registry-storage-write-failed''\<rparr>"

end
