(* ===== verification/File_Properties.thy ===== *)
theory File_Properties
  imports File_Store Registry_Storage Registry_Properties
begin

text \<open>
  Properties of the workspace's data files and of the registries kept in them, each with an instance at
  concrete files.
\<close>

section \<open>The native side\<close>

text \<open>
  C3: Behind the journal the native data files are an atomic store: whatever command is served and wherever
  its accesses to the file system are cut off, the store makes one step that its answer allows; a read
  changes nothing and answers what is stored, and a write of a registry that is accepted met the expected
  revision and stores the next one.
\<close>

theorem native_files_refine_store:
  assumes "serve io env request files = (files', answer)" and "faithful_io io"
  shows "store_step io request answer (store_of io files) (store_of io files')"
  by (rule serve_refines [OF assms])

text \<open>
  C5: However commands from several windows follow each other, no two accepted writes of a registry met the
  same revision: the revisions they met grow strictly, so none of them overwrites one it has not seen.
\<close>

theorem no_update_is_lost:
  assumes "serve_all io requests files = (files', log)" and "faithful_io io" and "name \<in> set REGISTRY_FILE_NAMES"
  shows "sorted_wrt (<) (accepted_revisions name log)"
  using run_revisions [OF assms] by (rule conjunct1)

text \<open>
  C4: A write of agents and personas that is cut off anywhere leaves both old or both new: the next
  undisturbed reads of both files answer, with the contents of before or with the two contents of the
  write, whatever their own accesses leave in between.
\<close>

theorem interrupted_pair_is_whole:
  assumes "serve io env (WritePair ae ac pe pc) files = (files1, answer)"
    and "faithful_io io \<and> journal_fits io \<and> journal_ok io files"
    and "undisturbed e1 \<and> undisturbed e2"
    and "\<forall>name. (case store_of io files name of None \<Rightarrow> True | Some c \<Rightarrow> within_limit c)"
  shows "\<exists>files2 files3 a p.
    serve io e1 (ReadData ''agents.json'') files1 = (files2, ReadAnswer (Inr a)) \<and>
    serve io e2 (ReadData ''personas.json'') files2 = (files3, ReadAnswer (Inr p)) \<and>
    ((a = store_of io files ''agents.json'' \<and> p = store_of io files ''personas.json'') \<or>
     (\<exists>a' p'. a = Some a' \<and> p = Some p' \<and> replaces_pair io (store_of io files) ae ac pe pc a' p'))"
proof -
  have step: "store_of io files1 = store_of io files \<or>
      (\<exists>a p. replaces_pair io (store_of io files) ae ac pe pc a p \<and> store_of io files1 = put_pair a p (store_of io files))"
  proof -
    obtain r where "answer = PairAnswer r" using assms(1) by (auto simp: apsnd_def map_prod_def split: prod.splits)
    then show ?thesis using serve_refines [OF assms(1)] assms(2) by (cases r) (simp, simp split: prod.splits, blast)
  qed
  have small: "within_limit c" if "store_of io files1 name = Some c" for name c
  proof -
    have old: "within_limit c" if "store_of io files name = Some c" for name c using assms(4) that by (metis option.simps(5))
    have new: "within_limit x" if "replaces io current e content x" for current e content x
      using that by (auto simp: replaces_def prepare_registry_content_def within_limit_def Let_def split: option.splits js.splits if_splits)
    show ?thesis using step that old new by (auto simp: replaces_pair_def put_pair_def split: if_splits)
  qed
  have ok1: "journal_ok io files1" using serve_keeps_journal assms(1,2) by blast
  obtain files2 where r1: "serve io e1 (ReadData ''agents.json'') files1 = (files2, ReadAnswer (Inr (store_of io files1 ''agents.json'')))"
    using undisturbed_read [of e1 io files1 "''agents.json''"] ok1 small assms(3) by (auto simp: REGISTRY_FILE_NAMES_def)
  have same: "store_of io files2 = store_of io files1" using serve_refines [OF r1] assms(2) by simp
  have ok2: "journal_ok io files2" using serve_keeps_journal [OF r1] assms(2) ok1 by blast
  obtain files3 where r2: "serve io e2 (ReadData ''personas.json'') files2 = (files3, ReadAnswer (Inr (store_of io files2 ''personas.json'')))"
    using undisturbed_read [of e2 io files2 "''personas.json''"] ok2 small same assms(3) by (auto simp: REGISTRY_FILE_NAMES_def)
  show ?thesis using r1 r2 step by (auto simp: same put_pair_def)
qed

section \<open>The registries in the files\<close>

lemma error_known: "isWorkspaceDataFileError (JStr (data_file_error_name e))"
  by (cases e) (simp_all add: isWorkspaceDataFileError_def workspaceDataFileErrors_def)

lemma write_answered:
  "writeWorkspaceRegistryFile (Reply (registry_response_js answer)) =
     (case answer of Inl e \<Rightarrow> Inl (data_file_error_name e) | Inr content \<Rightarrow> Inr content)"
  using error_known
  by (auto simp: writeWorkspaceRegistryFile_def replied_def registry_response_js_def failure_js_def js_prop_def js_truthy_def
      data_file_error_or_def split: sum.split)

lemma read_answered:
  "readWorkspaceDataFile (Reply (read_response_js answer)) =
     (case answer of Inl e \<Rightarrow> Inl (data_file_error_name e) | Inr content \<Rightarrow> Inr content)"
  using error_known
  by (auto simp: readWorkspaceDataFile_def replied_def read_response_js_def failure_js_def js_prop_def js_truthy_def
      data_file_error_or_def split: sum.split option.split)

lemma summary_json: "summary_ok s \<Longrightarrow> json_value (summary_js s)"
proof -
  have number: "json_value (number_js x)" if "sum_within x n" for x n
    using that by (cases "(x, n)" rule: sum_within.cases) (simp_all add: number_js_def)
  assume "summary_ok s"
  then have "json_value (number_js (ca_scoreSum (es_criteria s d)))" for d by (auto simp: summary_ok_def intro: number)
  then show ?thesis by (simp add: summary_js_def agentEvaluationCriteriaDefinitions_def)
qed

lemma agents_json: "agents_ok r \<Longrightarrow> json_value (agent_registry_js r)"
  by (auto simp: agent_registry_js_def agent_js_def agents_ok_def named_ok_def agent_ok_def list_all_iff summary_json)

lemma normalize_agents_js: "normalizeAgentRegistry cmp pf (agent_registry_js r) (gr_workspaceId r) = Some (normalized_agents cmp pf r)"
  by (simp add: normalized_agents_def normalizeAgentRegistry_def)

lemma replaced_agents:
  assumes "replaces io current revision (stringify (agent_registry_js n)) persisted" and "agents_ok n"
    and "faithful_json (io_parse io) stringify" and "faithful_io io"
  shows "io_parse io persisted = Some (agent_registry_js (n\<lparr>gr_revision := revision + 1\<rparr>)) \<and>
    (0 \<le> gr_revision n \<and> gr_revision n \<le> U64_MAX \<longrightarrow> revision = gr_revision n)"
proof -
  have content: "io_parse io (stringify (agent_registry_js n)) = Some (agent_registry_js n)"
    using assms(2,3) by (simp add: faithful_parse agents_json)
  have "persisted = io_render io (agent_registry_js (n\<lparr>gr_revision := revision + 1\<rparr>))"
    using assms(1) by (auto simp: replaces_def prepare_registry_content_def content Let_def split: if_splits)
      (simp_all add: agent_registry_js_def Let_def split: if_splits)
  moreover have "agents_ok (n\<lparr>gr_revision := revision + 1\<rparr>)" using assms(2) by (simp add: agents_ok_def)
  moreover have "0 \<le> gr_revision n \<and> gr_revision n \<le> U64_MAX \<longrightarrow> revision = gr_revision n"
    using assms(1) unfolding replaces_def prepare_registry_content_def content
    by (auto simp: agent_registry_js_def Let_def as_u64_def split: if_splits)
  ultimately show ?thesis using assms(4) by (simp add: faithful_io_def faithful_parse agents_json)
qed

text \<open>
  C6: Agents that one window has saved are what every window reads next: when the native side accepts the
  write and the client reports success, a read of the file that answers gives exactly the registry that was
  announced, which holds the agents of the written registry in normal form and its next revision; a write
  from a registry whose revision is not that of the file is refused, announces nothing and changes nothing.
\<close>

theorem saved_agents_are_read_back:
  assumes kind_def: "kind = agent_kind cmp pf (io_parse io) stringify now"
    and "registry_write_request kind registry = (file, revision, content)"
    and "serve io env (WriteRegistry file revision content) files = (files1, RegistryAnswer answer)"
    and "finish_registry_write kind registry (Reply (registry_response_js answer)) b = (b', saved, failure)"
    and "faithful_json (io_parse io) stringify" and "faithful_io io"
  shows "(failure = None \<longrightarrow>
      gr_agents saved = gr_agents (normalized_agents cmp pf (normalized_agents cmp pf registry)) \<and>
      b' = notifyRegistryChanged saved b \<and>
      (gr_revision registry < MAX_SAFE_INTEGER \<longrightarrow> gr_revision saved = gr_revision registry + 1) \<and>
      (\<forall>env' files2 found legacy. serve io env' (ReadData file) files1 = (files2, ReadAnswer (Inr found)) \<longrightarrow>
         finish_registry_read kind (gr_workspaceId registry) legacy (Reply (read_response_js (Inr found))) = Inl (saved, None))) \<and>
    (revision_of_content io (store_of io files ''agents.json'') \<noteq> Inr (gr_revision registry) \<longrightarrow>
      failure \<noteq> None \<and> b' = b \<and> store_of io files1 = store_of io files)"
proof -
  define n where "n = normalized_agents cmp pf registry"
  have request: "file = ''agents.json''" "revision = gr_revision registry" "content = stringify (agent_registry_js n)"
    using assms(2) by (simp_all add: kind_def agent_kind_def registry_write_request_def serializeAgentRegistry_def n_def)
  have n: "agents_ok n" "gr_workspaceId n = gr_workspaceId registry" by (simp add: n_def) (simp add: n_def normalized_agents_eq)
  have trim: "rust_trim ''agents.json'' = ''agents.json''" using registry_name [of "''agents.json''"] by (simp add: REGISTRY_FILE_NAMES_def)
  have step: "store_step io (WriteRegistry file revision content) (RegistryAnswer answer) (store_of io files) (store_of io files1)"
    using serve_refines assms(3,6) by blast
  show ?thesis
  proof (cases answer)
    case (Inl e)
    then have "failure \<noteq> None" "b' = b" using assms(4) by (auto simp: finish_registry_write_def write_answered)
    moreover have "store_of io files1 = store_of io files" using step Inl by simp
    ultimately show ?thesis by blast
  next
    case (Inr persisted)
    then have replaced: "replaces io (store_of io files ''agents.json'') revision content persisted"
      and stored: "store_of io files1 ''agents.json'' = Some persisted"
      using step by (simp_all add: request trim)
    have parsed: "io_parse io persisted = Some (agent_registry_js (n\<lparr>gr_revision := revision + 1\<rparr>))"
      "0 \<le> gr_revision n \<and> gr_revision n \<le> U64_MAX \<Longrightarrow> revision = gr_revision n"
      using replaced_agents replaced n(1) assms(5,6) unfolding request(3) by blast+
    define s where "s = normalized_agents cmp pf (n\<lparr>gr_revision := revision + 1\<rparr>)"
    have read: "rk_parse kind persisted (gr_workspaceId registry) = Some s"
      using normalize_agents_js [of cmp pf "n\<lparr>gr_revision := revision + 1\<rparr>"] parsed n(2)
      by (simp add: kind_def agent_kind_def parseAgentRegistry_def s_def)
    moreover have "rk_workspaceId kind registry = gr_workspaceId registry" by (simp add: kind_def agent_kind_def)
    ultimately have outcome: "failure = None" "saved = s" "b' = notifyRegistryChanged s b"
      using assms(4) Inr \<open>rk_workspaceId kind registry = _\<close> by (auto simp: finish_registry_write_def write_answered)
    have "gr_agents s = gr_agents (normalized_agents cmp pf n)" by (simp add: s_def normalized_agents_eq)
    moreover have "gr_revision s = gr_revision registry + 1" if "gr_revision registry < MAX_SAFE_INTEGER"
    proof -
      have "0 \<le> gr_revision n \<and> gr_revision n \<le> U64_MAX"
        by (simp add: n_def normalized_agents_eq normalizeRegistryRevision_def MAX_SAFE_INTEGER_def U64_MAX_def)
      then have "revision = gr_revision n" "0 \<le> revision" using parsed(2) by auto
      then show ?thesis using that by (simp add: s_def normalized_agents_eq normalizeRegistryRevision_def request(2))
    qed
    moreover have "finish_registry_read kind (gr_workspaceId registry) legacy (Reply (read_response_js (Inr found))) = Inl (saved, None)"
      if "serve io env' (ReadData file) files1 = (files2, ReadAnswer (Inr found))" for env' files2 found legacy
    proof -
      have "found = Some persisted" using serve_refines [OF that assms(6)] stored by (simp add: request(1) trim)
      then show ?thesis using read outcome by (simp add: finish_registry_read_def read_answered)
    qed
    ultimately show ?thesis using outcome replaced by (auto simp: n_def replaces_def request(2))
  qed
qed

section \<open>Instances\<close>

definition wit_io :: json_io where
  "wit_io = \<lparr>io_parse = codec_parse, io_render = put_js\<rparr>"

definition wit_env :: "nat \<Rightarrow> file_env" where
  "wit_env n = \<lparr>fe_root = None, fe_lock = True, fe_path = (\<lambda>_ _. None), fe_journal = (\<lambda>_. None), fe_policy = True, fe_accesses = n\<rparr>"

definition wit_files :: data_files where
  "wit_files = \<lparr>df_files = Map.empty, df_journal = None\<rparr>"

definition wit_content :: "int \<Rightarrow> string" where
  "wit_content n = put_js (JObj [(''revision'', JInt n)])"

lemma wit_io_faithful: "faithful_io wit_io"
  by (simp add: faithful_io_def wit_io_def codec_faithful)

lemma wit_undisturbed: "undisturbed (wit_env 7)"
  by (simp add: undisturbed_def wit_env_def)

lemma utf8_append [simp]: "utf8_length (s @ t) = utf8_length s + utf8_length t"
  by (simp add: utf8_length_def)

lemma utf8_put_str: "utf8_length (put_str s) \<le> 2 * utf8_length s + 1"
  by (induction s) (simp_all add: utf8_length_def)

lemma wit_journal_fits: "journal_fits wit_io"
proof -
  have "content_bytes (put_js (transaction_js a p)) \<le> 2 * content_bytes a + 2 * content_bytes p + 128" for a p
    using utf8_put_str [of a] utf8_put_str [of p] by (simp add: content_bytes_def transaction_js_def) (simp add: utf8_length_def)
  then show ?thesis
    by (simp add: journal_fits_def wit_io_def within_limit_def REGISTRY_TRANSACTION_MAX_BYTES_def WORKSPACE_DATA_FILE_MAX_BYTES_def) (smt (verit))
qed

definition wit_cut :: "data_files \<times> file_answer" where
  "wit_cut = serve wit_io (wit_env 6) (WritePair 0 (wit_content 0) 0 (wit_content 0)) wit_files"

lemma wit_cut: "serve wit_io (wit_env 6) (WritePair 0 (wit_content 0) 0 (wit_content 0)) wit_files = (fst wit_cut, snd wit_cut)"
  by (simp only: wit_cut_def prod.collapse)

theorem native_files_refine_store_witness:
  "store_step wit_io (WritePair 0 (wit_content 0) 0 (wit_content 0)) (snd wit_cut) (store_of wit_io wit_files) (store_of wit_io (fst wit_cut))"
  by (rule native_files_refine_store [OF wit_cut wit_io_faithful])

definition wit_requests :: "(file_env \<times> file_request) list" where
  "wit_requests = map (Pair (wit_env 7))
     [WriteRegistry ''agents.json'' 0 (wit_content 0), WriteRegistry ''agents.json'' 0 (wit_content 0),
      WriteRegistry ''agents.json'' 1 (wit_content 1)]"

theorem no_update_is_lost_witness:
  "sorted_wrt (<) (accepted_revisions ''agents.json'' (snd (serve_all wit_io wit_requests wit_files))) \<and>
   accepted_revisions ''agents.json'' (snd (serve_all wit_io wit_requests wit_files)) = [0, 1]"
proof
  show "sorted_wrt (<) (accepted_revisions ''agents.json'' (snd (serve_all wit_io wit_requests wit_files)))"
    by (rule no_update_is_lost [OF _ wit_io_faithful, where files' = "fst (serve_all wit_io wit_requests wit_files)"])
      (simp_all add: REGISTRY_FILE_NAMES_def)
  show "accepted_revisions ''agents.json'' (snd (serve_all wit_io wit_requests wit_files)) = [0, 1]" by code_simp
qed

theorem interrupted_pair_is_whole_witness:
  "\<exists>files2 files3 a p.
    serve wit_io (wit_env 7) (ReadData ''agents.json'') (fst wit_cut) = (files2, ReadAnswer (Inr a)) \<and>
    serve wit_io (wit_env 7) (ReadData ''personas.json'') files2 = (files3, ReadAnswer (Inr p)) \<and>
    ((a = store_of wit_io wit_files ''agents.json'' \<and> p = store_of wit_io wit_files ''personas.json'') \<or>
     (\<exists>a' p'. a = Some a' \<and> p = Some p' \<and> replaces_pair wit_io (store_of wit_io wit_files) 0 (wit_content 0) 0 (wit_content 0) a' p'))"
proof (rule interrupted_pair_is_whole)
  show "serve wit_io (wit_env 6) (WritePair 0 (wit_content 0) 0 (wit_content 0)) wit_files = (fst wit_cut, snd wit_cut)"
    by (rule wit_cut)
  show "faithful_io wit_io \<and> journal_fits wit_io \<and> journal_ok wit_io wit_files"
    using wit_io_faithful wit_journal_fits by (simp add: journal_ok_def wit_files_def)
  show "undisturbed (wit_env 7) \<and> undisturbed (wit_env 7)" using wit_undisturbed by simp
  show "\<forall>name. (case store_of wit_io wit_files name of None \<Rightarrow> True | Some c \<Rightarrow> within_limit c)"
    by (simp add: wit_files_def)
qed

definition wit_kind :: "agent_registry registry_kind" where
  "wit_kind = agent_kind (\<lambda>_ _. 0) no_float codec_parse put_js ''t''"

definition wit_registry :: agent_registry where
  "wit_registry = createEmptyAgentRegistry ''w'' ''t''"

definition wit_saved :: "data_files \<times> file_answer" where
  "wit_saved = serve wit_io (wit_env 7) (WriteRegistry ''agents.json'' 0 (rk_serialize wit_kind wit_registry)) wit_files"

definition wit_browser :: "agent_registry browser_side" where
  "wit_browser = \<lparr>bs_window = True, bs_storage = Map.empty, bs_writable = True, bs_announced = []\<rparr>"

lemma wit_saved_ok: "\<exists>content. snd wit_saved = RegistryAnswer (Inr content) \<and> rk_parse wit_kind content ''w'' \<noteq> None"
proof -
  have "(case snd wit_saved of RegistryAnswer (Inr content) \<Rightarrow> rk_parse wit_kind content ''w'' \<noteq> None | _ \<Rightarrow> False)" by code_simp
  then show ?thesis by (auto split: file_answer.splits sum.splits)
qed

theorem saved_agents_are_read_back_witness:
  "\<exists>answer saved. snd wit_saved = RegistryAnswer answer \<and>
     finish_registry_write wit_kind wit_registry (Reply (registry_response_js answer)) wit_browser =
       (notifyRegistryChanged saved wit_browser, saved, None) \<and> gr_revision saved = 1"
proof -
  obtain content persisted where answer: "snd wit_saved = RegistryAnswer (Inr content)" "rk_parse wit_kind content ''w'' = Some persisted"
    using wit_saved_ok by auto
  have w: "rk_workspaceId wit_kind wit_registry = ''w''"
    by (simp add: wit_kind_def agent_kind_def wit_registry_def createEmptyAgentRegistry_def)
  have finish: "finish_registry_write wit_kind wit_registry (Reply (registry_response_js (Inr content))) wit_browser =
      (notifyRegistryChanged persisted wit_browser, persisted, None)"
    by (simp add: finish_registry_write_def write_answered w answer(2))
  have "registry_write_request wit_kind wit_registry = (''agents.json'', 0, rk_serialize wit_kind wit_registry)"
    by (simp add: registry_write_request_def wit_kind_def agent_kind_def wit_registry_def createEmptyAgentRegistry_def)
  moreover have "serve wit_io (wit_env 7) (WriteRegistry ''agents.json'' 0 (rk_serialize wit_kind wit_registry)) wit_files =
      (fst wit_saved, RegistryAnswer (Inr content))"
    by (simp only: wit_saved_def [symmetric] answer(1) [symmetric] prod.collapse)
  moreover have "wit_kind = agent_kind (\<lambda>_ _. 0) no_float (io_parse wit_io) put_js ''t''" by (simp add: wit_kind_def wit_io_def)
  moreover have "faithful_json (io_parse wit_io) put_js" by (simp add: wit_io_def codec_faithful)
  ultimately have "gr_revision wit_registry < MAX_SAFE_INTEGER \<longrightarrow> gr_revision persisted = gr_revision wit_registry + 1"
    using saved_agents_are_read_back [OF _ _ _ finish _ wit_io_faithful] by blast
  then have "gr_revision persisted = 1" by (simp add: wit_registry_def createEmptyAgentRegistry_def MAX_SAFE_INTEGER_def)
  then show ?thesis using answer(1) finish by blast
qed

end
