(* ===== verification/Persona_Registry.thy ===== *)
theory Persona_Registry
  imports Agent_Registry Agent_Laws
begin

text \<open>
  The personas of a workspace (\<open>src/lib/personas/persona-registry.ts\<close>): their texts, positions and styles, and
  the evaluations of the agents that take them. The sum of two numbers is an argument, since a number with
  a fraction stands for all between two integers. Random choices are not modelled.
\<close>

section \<open>Records\<close>

definition PERSONA_REGISTRY_VERSION :: int where "PERSONA_REGISTRY_VERSION = 2"

definition PERSONA_NAME_MAX_LENGTH :: nat where "PERSONA_NAME_MAX_LENGTH = 120"

definition PERSONA_DESCRIPTION_MAX_LENGTH :: nat where "PERSONA_DESCRIPTION_MAX_LENGTH = 420"

definition PERSONA_INSTRUCTIONS_MAX_LENGTH :: nat where "PERSONA_INSTRUCTIONS_MAX_LENGTH = 8000"

definition PERSONA_SPECTRUM_MIN_LEVEL :: int where "PERSONA_SPECTRUM_MIN_LEVEL = 1"

definition PERSONA_SPECTRUM_MAX_LEVEL :: int where "PERSONA_SPECTRUM_MAX_LEVEL = 5"

definition PERSONA_SPECTRUM_DEFAULT_LEVEL :: int where "PERSONA_SPECTRUM_DEFAULT_LEVEL = 3"

definition personaSpectrumDefinitions :: "string list" where
  "personaSpectrumDefinitions =
     [''developmentApproach'', ''qualityStandard'', ''structureBias'', ''productivityStrategy'',
      ''operationPhilosophy'', ''collaborationPhilosophy'']"

definition personaSpectrumLevels :: "int list" where "personaSpectrumLevels = [1, 2, 3, 4, 5]"

definition personaStyleDefinitions :: "(string \<times> string list) list" where
  "personaStyleDefinitions =
     [(''responseLength'', [''short'', ''standard'', ''detailed'']),
      (''emotionalTone'', [''calm'', ''neutral'', ''bright'']),
      (''judgmentAttitude'', [''critical'', ''balanced'', ''supportive'']),
      (''confidenceLevel'', [''cautious'', ''realistic'', ''decisive'']),
      (''socialDistance'', [''formal'', ''comfortable'', ''friendly''])]"

datatype persona_error =
    persona_name_required
  | persona_name_duplicate
  | persona_not_found
  | persona_registry_invalid

text \<open>Positions and styles in the order of their definitions.\<close>

record persona_record =
  pe_id :: string
  pe_name :: string
  pe_description :: string
  pe_instructions :: string
  pe_spectrums :: "(string \<times> int) list"
  pe_styles :: "(string \<times> string) list"
  pe_evaluationSummary :: evaluation_summary
  pe_createdAt :: string
  pe_updatedAt :: string

record persona_registry =
  pr_revision :: int
  pr_workspaceId :: string
  pr_personas :: "persona_record list"
  pr_updatedAt :: string

record persona_input =
  pi_id :: "string option"
  pi_name :: string
  pi_description :: string
  pi_instructions :: "string option"
  pi_spectrums :: js
  pi_styles :: js

definition createEmptyPersonaRegistry :: "string \<Rightarrow> string \<Rightarrow> persona_registry" where
  "createEmptyPersonaRegistry workspaceId now =
     \<lparr>pr_revision = 0, pr_workspaceId = workspaceId, pr_personas = [], pr_updatedAt = now\<rparr>"

section \<open>Parsing\<close>

definition normalizePersonaName :: "string \<Rightarrow> string" where
  "normalizePersonaName value = record_name PERSONA_NAME_MAX_LENGTH value"

definition normalizePersonaDescription :: "string \<Rightarrow> string" where
  "normalizePersonaDescription value = record_name PERSONA_DESCRIPTION_MAX_LENGTH value"

definition normalizePersonaInstructions :: "string \<Rightarrow> string" where
  "normalizePersonaInstructions value = js_slice0 PERSONA_INSTRUCTIONS_MAX_LENGTH (js_trim value)"

definition createPersonaNameKey :: "string \<Rightarrow> string" where
  "createPersonaNameKey name = js_lower (normalizePersonaName name)"

definition persona_key :: "persona_record \<Rightarrow> string" where
  "persona_key persona = createPersonaNameKey (pe_name persona)"

definition createDefaultPersonaStyleValues :: "(string \<times> string) list" where
  "createDefaultPersonaStyleValues =
     [(''responseLength'', ''standard''), (''emotionalTone'', ''neutral''), (''judgmentAttitude'', ''balanced''),
      (''confidenceLevel'', ''realistic''), (''socialDistance'', ''comfortable'')]"

definition createDefaultPersonaSpectrumValues :: "(string \<times> int) list" where
  "createDefaultPersonaSpectrumValues = map (\<lambda>d. (d, PERSONA_SPECTRUM_DEFAULT_LEVEL)) personaSpectrumDefinitions"

definition normalizePersonaStyleValues :: "js \<Rightarrow> (string \<times> string) list" where
  "normalizePersonaStyleValues value =
     (let input = object_or_empty value
      in map (\<lambda>(style, options).
           (style, let option = readTrimmedString (js_prop input style)
                   in if option \<in> set options then option else the (map_of createDefaultPersonaStyleValues style)))
         personaStyleDefinitions)"

definition normalizePersonaSpectrumLevel :: "js \<Rightarrow> int" where
  "normalizePersonaSpectrumLevel value =
     (case finite_trunc (number_or_text js_parse_int value) of
        None \<Rightarrow> PERSONA_SPECTRUM_DEFAULT_LEVEL
      | Some n \<Rightarrow>
          if n \<in> set personaSpectrumLevels then n
          else if n < PERSONA_SPECTRUM_MIN_LEVEL then PERSONA_SPECTRUM_MIN_LEVEL else PERSONA_SPECTRUM_MAX_LEVEL)"

definition normalizePersonaSpectrumValues :: "js \<Rightarrow> (string \<times> int) list" where
  "normalizePersonaSpectrumValues value =
     (let input = object_or_empty value
      in map (\<lambda>d. (d, normalizePersonaSpectrumLevel (js_prop input d))) personaSpectrumDefinitions)"

text \<open>\<open>typeof value === 'string' ? value : ''\<close>\<close>

definition read_raw :: "js \<Rightarrow> string" where
  "read_raw v = (case v of JStr s \<Rightarrow> s | _ \<Rightarrow> [])"

definition parsePersonaRecord :: "(string \<Rightarrow> js_number) \<Rightarrow> js \<Rightarrow> persona_record option" where
  "parsePersonaRecord parse_float value =
     (if \<not> isObjectRecord value then None
      else (let name = normalizePersonaName (readTrimmedString (js_prop value ''name''));
                createdAt = readTrimmedString (js_prop value ''createdAt'');
                updatedAt = readTrimmedString (js_prop value ''updatedAt'')
            in (case normalizeRecordId (js_prop value ''id'') of
                  None \<Rightarrow> None
                | Some i \<Rightarrow>
                    if name = [] then None
                    else Some \<lparr>pe_id = i, pe_name = name,
                      pe_description = normalizePersonaDescription (readTrimmedString (js_prop value ''description'')),
                      pe_instructions = normalizePersonaInstructions (read_raw (js_prop value ''instructions'')),
                      pe_spectrums = normalizePersonaSpectrumValues (js_prop value ''spectrums''),
                      pe_styles = normalizePersonaStyleValues (js_prop value ''styles''),
                      pe_evaluationSummary = normalizeAgentEvaluationSummary parse_float (js_prop value ''evaluationSummary''),
                      pe_createdAt = (if createdAt = [] then updatedAt else createdAt),
                      pe_updatedAt = (if updatedAt = [] then createdAt else updatedAt)\<rparr>)))"

definition sortPersonas :: "(string \<Rightarrow> string \<Rightarrow> int) \<Rightarrow> persona_record list \<Rightarrow> persona_record list" where
  "sortPersonas cmp personas = js_sort (\<lambda>left right. cmp (pe_name left) (pe_name right)) personas"

definition normalizePersonaRegistry ::
  "(string \<Rightarrow> string \<Rightarrow> int) \<Rightarrow> (string \<Rightarrow> js_number) \<Rightarrow> js \<Rightarrow> string \<Rightarrow> persona_registry option" where
  "normalizePersonaRegistry cmp parse_float value workspaceId =
     (if \<not> isObjectRecord value \<or>
         (js_prop value ''version'' \<noteq> JInt PERSONA_REGISTRY_VERSION \<and> js_prop value ''version'' \<noteq> JInt 1) then None
      else if js_prop value ''workspaceId'' \<noteq> JStr workspaceId then None
      else Some
        \<lparr>pr_revision = normalizeRegistryRevision (js_prop value ''revision''),
         pr_workspaceId = workspaceId,
         pr_personas = sortPersonas cmp
           (collect_named (parsePersonaRecord parse_float) pe_id persona_key {} {} (js_elements (js_prop value ''personas''))),
         pr_updatedAt = readTrimmedString (js_prop value ''updatedAt'')\<rparr>)"

definition parsePersonaRegistry ::
  "(string \<Rightarrow> string \<Rightarrow> int) \<Rightarrow> (string \<Rightarrow> js_number) \<Rightarrow> (string \<Rightarrow> js option) \<Rightarrow> string \<Rightarrow> string \<Rightarrow> persona_registry option" where
  "parsePersonaRegistry cmp parse_float json_parse serializedRegistry workspaceId =
     (case json_parse serializedRegistry of None \<Rightarrow> None | Some v \<Rightarrow> normalizePersonaRegistry cmp parse_float v workspaceId)"

text \<open>A registry as a value.\<close>

definition persona_js :: "persona_record \<Rightarrow> js" where
  "persona_js p = JObj [(''id'', JStr (pe_id p)), (''name'', JStr (pe_name p)), (''description'', JStr (pe_description p)),
     (''instructions'', JStr (pe_instructions p)),
     (''spectrums'', JObj (map (apsnd JInt) (pe_spectrums p))), (''styles'', JObj (map (apsnd JStr) (pe_styles p))),
     (''evaluationSummary'', summary_js (pe_evaluationSummary p)),
     (''createdAt'', JStr (pe_createdAt p)), (''updatedAt'', JStr (pe_updatedAt p))]"

definition persona_registry_js :: "persona_registry \<Rightarrow> js" where
  "persona_registry_js r = JObj [(''version'', JInt PERSONA_REGISTRY_VERSION), (''revision'', JInt (pr_revision r)),
     (''workspaceId'', JStr (pr_workspaceId r)), (''personas'', JArr (map persona_js (pr_personas r))),
     (''updatedAt'', JStr (pr_updatedAt r))]"

definition normalized_personas :: "(string \<Rightarrow> string \<Rightarrow> int) \<Rightarrow> (string \<Rightarrow> js_number) \<Rightarrow> persona_registry \<Rightarrow> persona_registry" where
  "normalized_personas cmp parse_float registry =
     (case normalizePersonaRegistry cmp parse_float (persona_registry_js registry) (pr_workspaceId registry) of
        Some r \<Rightarrow> r | None \<Rightarrow> registry)"

definition serializePersonaRegistry ::
  "(string \<Rightarrow> string \<Rightarrow> int) \<Rightarrow> (string \<Rightarrow> js_number) \<Rightarrow> (js \<Rightarrow> string) \<Rightarrow> persona_registry \<Rightarrow> string" where
  "serializePersonaRegistry cmp parse_float stringify registry = stringify (persona_registry_js (normalized_personas cmp parse_float registry))"

section \<open>Mutations\<close>

definition upsertPersona ::
  "(string \<Rightarrow> string \<Rightarrow> int) \<Rightarrow> (string \<Rightarrow> js_number) \<Rightarrow> persona_registry \<Rightarrow> persona_input \<Rightarrow> string \<Rightarrow> string \<Rightarrow>
   (persona_registry, persona_error) mutation" where
  "upsertPersona cmp parse_float registry input newId timestamp =
     (let r = normalized_personas cmp parse_float registry;
          personaId = normalizeRecordId (js_nullable (pi_id input));
          matching = matching_named pe_id personaId (pr_personas r);
          name = normalizePersonaName (pi_name input);
          instructions = normalizePersonaInstructions
            (case pi_instructions input of Some t \<Rightarrow> t | None \<Rightarrow> (case matching of Some m \<Rightarrow> pe_instructions m | None \<Rightarrow> []))
      in if name = [] then Err r persona_name_required
         else if \<exists>p \<in> set (pr_personas r). Some (pe_id p) \<noteq> personaId \<and> persona_key p = createPersonaNameKey name
         then Err r persona_name_duplicate
         else if personaId \<noteq> None \<and> matching = None then Err r persona_not_found
         else Ok (r\<lparr>pr_personas := sortPersonas cmp
                     (put_named pe_id matching
                        \<lparr>pe_id = (case personaId of Some i \<Rightarrow> i | None \<Rightarrow> newId), pe_name = name,
                         pe_description = normalizePersonaDescription (pi_description input),
                         pe_instructions = instructions,
                         pe_spectrums = normalizePersonaSpectrumValues (pi_spectrums input),
                         pe_styles = normalizePersonaStyleValues (pi_styles input),
                         pe_evaluationSummary = (case matching of Some m \<Rightarrow> pe_evaluationSummary m | None \<Rightarrow> createEmptyAgentEvaluationSummary),
                         pe_createdAt = (case matching of Some m \<Rightarrow> pe_createdAt m | None \<Rightarrow> timestamp),
                         pe_updatedAt = timestamp\<rparr>
                        (pr_personas r)),
                   pr_updatedAt := timestamp\<rparr>))"

definition removePersona ::
  "(string \<Rightarrow> string \<Rightarrow> int) \<Rightarrow> (string \<Rightarrow> js_number) \<Rightarrow> persona_registry \<Rightarrow> string \<Rightarrow> string \<Rightarrow> (persona_registry, persona_error) mutation" where
  "removePersona cmp parse_float registry personaId timestamp =
     (let r = normalized_personas cmp parse_float registry in
      if \<not> (\<exists>p \<in> set (pr_personas r). pe_id p = personaId) then Err r persona_not_found
      else Ok (r\<lparr>pr_personas := filter (\<lambda>p. pe_id p \<noteq> personaId) (pr_personas r), pr_updatedAt := timestamp\<rparr>))"

section \<open>Evaluations of the agents\<close>

definition mergeAgentEvaluationSummaries ::
  "(js_number \<Rightarrow> js_number \<Rightarrow> js_number) \<Rightarrow> (string \<Rightarrow> js_number) \<Rightarrow> evaluation_summary \<Rightarrow> evaluation_summary \<Rightarrow> evaluation_summary" where
  "mergeAgentEvaluationSummaries add_sums parse_float left right =
     (let l = normalizeAgentEvaluationSummary parse_float (summary_js left);
          r = normalizeAgentEvaluationSummary parse_float (summary_js right)
      in \<lparr>es_totalCount = es_totalCount l + es_totalCount r,
          es_criteria = (\<lambda>d. \<lparr>ca_count = ca_count (es_criteria l d) + ca_count (es_criteria r d),
             ca_scoreSum = add_sums (ca_scoreSum (es_criteria l d)) (ca_scoreSum (es_criteria r d))\<rparr>)\<rparr>)"

text \<open>The map of summaries: \<open>None\<close> for a persona without agents.\<close>

fun summary_map_from ::
  "(js_number \<Rightarrow> js_number \<Rightarrow> js_number) \<Rightarrow> (string \<Rightarrow> js_number) \<Rightarrow> string set \<Rightarrow> (string \<Rightarrow> evaluation_summary option) \<Rightarrow>
   agent_record list \<Rightarrow> string \<Rightarrow> evaluation_summary option" where
  "summary_map_from add_sums parse_float personaIds summaries [] = summaries"
| "summary_map_from add_sums parse_float personaIds summaries (agent # agents) =
     (case ag_personaId agent of
        None \<Rightarrow> summary_map_from add_sums parse_float personaIds summaries agents
      | Some p \<Rightarrow>
          if p \<notin> personaIds then summary_map_from add_sums parse_float personaIds summaries agents
          else (let previous = (case summaries p of Some s \<Rightarrow> s | None \<Rightarrow> createEmptyAgentEvaluationSummary)
                in summary_map_from add_sums parse_float personaIds
                     (summaries(p \<mapsto> mergeAgentEvaluationSummaries add_sums parse_float previous (ag_evaluationSummary agent))) agents))"

definition createPersonaEvaluationSummaryMap ::
  "(js_number \<Rightarrow> js_number \<Rightarrow> js_number) \<Rightarrow> (string \<Rightarrow> js_number) \<Rightarrow> persona_record list \<Rightarrow> agent_record list \<Rightarrow> string \<Rightarrow> evaluation_summary option" where
  "createPersonaEvaluationSummaryMap add_sums parse_float personas agents =
     summary_map_from add_sums parse_float (pe_id ` set personas) Map.empty agents"

definition agentEvaluationSummariesAreEqual :: "(string \<Rightarrow> js_number) \<Rightarrow> evaluation_summary \<Rightarrow> evaluation_summary \<Rightarrow> bool" where
  "agentEvaluationSummariesAreEqual parse_float left right =
     (let l = normalizeAgentEvaluationSummary parse_float (summary_js left);
          r = normalizeAgentEvaluationSummary parse_float (summary_js right)
      in es_totalCount l = es_totalCount r \<and>
         list_all (\<lambda>d. ca_count (es_criteria l d) = ca_count (es_criteria r d) \<and>
           ca_scoreSum (es_criteria l d) = ca_scoreSum (es_criteria r d)) agentEvaluationCriteriaDefinitions)"

definition syncPersonaEvaluationSummariesFromAgents ::
  "(string \<Rightarrow> string \<Rightarrow> int) \<Rightarrow> (js_number \<Rightarrow> js_number \<Rightarrow> js_number) \<Rightarrow> (string \<Rightarrow> js_number) \<Rightarrow> persona_registry \<Rightarrow>
   agent_record list \<Rightarrow> string \<Rightarrow> persona_registry" where
  "syncPersonaEvaluationSummariesFromAgents cmp add_sums parse_float registry agents timestamp =
     (let r = normalized_personas cmp parse_float registry;
          summaries = createPersonaEvaluationSummaryMap add_sums parse_float (pr_personas r) agents;
          next_summary = (\<lambda>p. case summaries (pe_id p) of Some s \<Rightarrow> s | None \<Rightarrow> createEmptyAgentEvaluationSummary);
          changes = (\<lambda>p. \<not> agentEvaluationSummariesAreEqual parse_float (pe_evaluationSummary p) (next_summary p))
      in if \<not> (\<exists>p \<in> set (pr_personas r). changes p) then r
         else r\<lparr>pr_personas := sortPersonas cmp
                  (map (\<lambda>p. if changes p then p\<lparr>pe_evaluationSummary := next_summary p, pe_updatedAt := timestamp\<rparr> else p) (pr_personas r)),
                pr_updatedAt := timestamp\<rparr>)"

text \<open>
  What the operations on personas keep, and that the evaluations of a persona are the sums over the agents
  that take it.
\<close>

section \<open>Personas in order\<close>

definition spectrums_ok :: "(string \<times> int) list \<Rightarrow> bool" where
  "spectrums_ok ss \<longleftrightarrow> map fst ss = personaSpectrumDefinitions \<and> (\<forall>s \<in> set ss. 1 \<le> snd s \<and> snd s \<le> 5)"

definition styles_ok :: "(string \<times> string) list \<Rightarrow> bool" where
  "styles_ok ss \<longleftrightarrow> list_all2 (\<lambda>s d. fst s = fst d \<and> snd s \<in> set (snd d)) ss personaStyleDefinitions"

definition persona_ok :: "persona_record \<Rightarrow> bool" where
  "persona_ok p \<longleftrightarrow> ident_ok (pe_id p) \<and> named_text PERSONA_NAME_MAX_LENGTH (pe_name p) \<and>
     length (pe_description p) \<le> PERSONA_DESCRIPTION_MAX_LENGTH \<and> length (pe_instructions p) \<le> PERSONA_INSTRUCTIONS_MAX_LENGTH \<and>
     spectrums_ok (pe_spectrums p) \<and> styles_ok (pe_styles p) \<and> summary_ok (pe_evaluationSummary p) \<and>
     stamps_ok (pe_createdAt p) (pe_updatedAt p)"

definition personas_ok :: "persona_registry \<Rightarrow> bool" where
  "personas_ok r \<longleftrightarrow> named_ok pe_id persona_key persona_ok (pr_personas r)"

lemma persona_name_text: "normalizePersonaName s \<noteq> [] \<Longrightarrow> named_text PERSONA_NAME_MAX_LENGTH (normalizePersonaName s)"
  unfolding normalizePersonaName_def by (rule record_name_text) (simp_all add: PERSONA_NAME_MAX_LENGTH_def)

lemma persona_lengths:
  "length (normalizePersonaDescription s) \<le> PERSONA_DESCRIPTION_MAX_LENGTH"
  "length (normalizePersonaInstructions s) \<le> PERSONA_INSTRUCTIONS_MAX_LENGTH"
  by (simp_all add: normalizePersonaDescription_def normalizePersonaInstructions_def record_name_def js_slice0_def)

lemma level_bounds: "1 \<le> normalizePersonaSpectrumLevel v \<and> normalizePersonaSpectrumLevel v \<le> 5"
proof (cases "finite_trunc (number_or_text js_parse_int v)")
  case (Some n)
  then show ?thesis
    by (simp add: normalizePersonaSpectrumLevel_def personaSpectrumLevels_def PERSONA_SPECTRUM_MIN_LEVEL_def PERSONA_SPECTRUM_MAX_LEVEL_def)
qed (simp add: normalizePersonaSpectrumLevel_def PERSONA_SPECTRUM_DEFAULT_LEVEL_def)

lemma spectrums_normalized: "spectrums_ok (normalizePersonaSpectrumValues v)"
  using level_bounds by (auto simp: spectrums_ok_def normalizePersonaSpectrumValues_def o_def Let_def)

lemma default_styles: "\<forall>d \<in> set personaStyleDefinitions. the (map_of createDefaultPersonaStyleValues (fst d)) \<in> set (snd d)"
  by code_simp

lemma styles_normalized: "styles_ok (normalizePersonaStyleValues v)"
  using default_styles
  by (auto simp: styles_ok_def normalizePersonaStyleValues_def Let_def list.rel_map intro!: list.rel_refl_strong)

lemma parsed_persona_ok:
  assumes "parsePersonaRecord parse_float v = Some p"
  shows "persona_ok p"
proof -
  obtain i where i: "normalizeRecordId (js_prop v ''id'') = Some i"
    and name: "normalizePersonaName (readTrimmedString (js_prop v ''name'')) \<noteq> []"
    using assms by (simp add: parsePersonaRecord_def Let_def split: if_splits option.splits)
  then have p: "pe_id p = i" "pe_name p = normalizePersonaName (readTrimmedString (js_prop v ''name''))"
    "pe_description p = normalizePersonaDescription (readTrimmedString (js_prop v ''description''))"
    "pe_instructions p = normalizePersonaInstructions (read_raw (js_prop v ''instructions''))"
    "pe_spectrums p = normalizePersonaSpectrumValues (js_prop v ''spectrums'')"
    "pe_styles p = normalizePersonaStyleValues (js_prop v ''styles'')"
    "pe_evaluationSummary p = normalizeAgentEvaluationSummary parse_float (js_prop v ''evaluationSummary'')"
    and stamps: "stamps_ok (pe_createdAt p) (pe_updatedAt p)"
    using assms by (auto simp: parsePersonaRecord_def Let_def stamps_ok_def split: if_splits)
  show ?thesis
    unfolding persona_ok_def p
    using stamps persona_name_text [OF name] read_ident [OF i] by (simp add: persona_lengths spectrums_normalized styles_normalized)
qed

lemma persona_js_props [simp]:
  "js_prop (persona_registry_js r) ''version'' = JInt PERSONA_REGISTRY_VERSION"
  "js_prop (persona_registry_js r) ''revision'' = JInt (pr_revision r)"
  "js_prop (persona_registry_js r) ''workspaceId'' = JStr (pr_workspaceId r)"
  "js_prop (persona_registry_js r) ''personas'' = JArr (map persona_js (pr_personas r))"
  "js_prop (persona_registry_js r) ''updatedAt'' = JStr (pr_updatedAt r)"
  "isObjectRecord (persona_registry_js r)"
  by (simp_all add: persona_registry_js_def js_prop_def)

lemma normalized_personas_eq:
  "normalized_personas cmp parse_float r =
     \<lparr>pr_revision = normalizeRegistryRevision (JInt (pr_revision r)), pr_workspaceId = pr_workspaceId r,
      pr_personas = sortPersonas cmp
        (collect_named (parsePersonaRecord parse_float) pe_id persona_key {} {} (map persona_js (pr_personas r))),
      pr_updatedAt = js_trim (pr_updatedAt r)\<rparr>"
  by (simp add: normalized_personas_def normalizePersonaRegistry_def)

lemma normalized_personas_ok [simp]: "personas_ok (normalized_personas cmp parse_float r)"
  by (simp add: normalized_personas_eq personas_ok_def sortPersonas_def named_intros parsed_persona_ok)

section \<open>Sums of evaluations\<close>

text \<open>What is relied on of the sum of two numbers: exact on integers, and the bounds add up.\<close>

definition proper_sum :: "(js_number \<Rightarrow> js_number \<Rightarrow> js_number) \<Rightarrow> bool" where
  "proper_sum add_sums \<longleftrightarrow>
     (\<forall>m n. add_sums (Inl m) (Inl n) = Inl (m + n)) \<and>
     (\<forall>x y m n. sum_within x m \<longrightarrow> sum_within y n \<longrightarrow> sum_within (add_sums x y) (m + n))"

lemma merged_ok:
  assumes "proper_sum add_sums"
  shows "summary_ok (mergeAgentEvaluationSummaries add_sums pf l r)"
  using normalized_summary_ok [of pf "summary_js l"] normalized_summary_ok [of pf "summary_js r"] assms
  by (auto simp: summary_ok_def mergeAgentEvaluationSummaries_def Let_def proper_sum_def intro: add_mono)

lemma summary_map_ok:
  assumes "proper_sum add_sums" and "\<And>p s. summaries p = Some s \<Longrightarrow> summary_ok s"
  shows "summary_map_from add_sums pf ids summaries agents p = Some s \<Longrightarrow> summary_ok s"
  using assms(2)
proof (induction agents arbitrary: summaries)
  case (Cons a agents)
  show ?case
  proof (cases "\<exists>q. ag_personaId a = Some q \<and> q \<in> ids")
    case False
    then have "summary_map_from add_sums pf ids summaries (a # agents) = summary_map_from add_sums pf ids summaries agents"
      by (auto split: option.split)
    then show ?thesis using Cons by simp
  next
    case True
    then obtain q where "ag_personaId a = Some q" "q \<in> ids" by blast
    moreover define merged where "merged = mergeAgentEvaluationSummaries add_sums pf
      (case summaries q of Some s \<Rightarrow> s | None \<Rightarrow> createEmptyAgentEvaluationSummary) (ag_evaluationSummary a)"
    ultimately have run: "summary_map_from add_sums pf ids (summaries(q \<mapsto> merged)) agents p = Some s"
      using Cons.prems(1) by (simp add: Let_def del: fun_upd_apply)
    have "summary_ok t" if "(summaries(q \<mapsto> merged)) u = Some t" for u t
      using that Cons.prems(2) merged_ok [OF assms(1)] by (auto simp: merged_def split: if_splits)
    with run show ?thesis by (rule Cons.IH)
  qed
qed simp

text \<open>Totals over the agents of a persona.\<close>

definition agents_of :: "string \<Rightarrow> agent_record list \<Rightarrow> agent_record list" where
  "agents_of p agents = filter (\<lambda>a. ag_personaId a = Some p) agents"

definition totals :: "evaluation_summary \<Rightarrow> int \<times> (evaluation_criterion \<Rightarrow> int)" where
  "totals s = (es_totalCount s, \<lambda>d. ca_count (es_criteria s d))"

definition map_summary :: "(string \<Rightarrow> evaluation_summary option) \<Rightarrow> string \<Rightarrow> evaluation_summary" where
  "map_summary summaries p = (case summaries p of Some s \<Rightarrow> s | None \<Rightarrow> createEmptyAgentEvaluationSummary)"

lemma summary_map_totals:
  assumes "proper_sum add_sums" and "\<And>p s. summaries p = Some s \<Longrightarrow> summary_ok s"
    and "\<forall>a \<in> set agents. summary_ok (ag_evaluationSummary a)" and "p \<in> ids"
  shows "es_totalCount (map_summary (summary_map_from add_sums pf ids summaries agents) p) =
      es_totalCount (map_summary summaries p) + sum_list (map (\<lambda>a. es_totalCount (ag_evaluationSummary a)) (agents_of p agents)) \<and>
    ca_count (es_criteria (map_summary (summary_map_from add_sums pf ids summaries agents) p) d) =
      ca_count (es_criteria (map_summary summaries p) d) + sum_list (map (\<lambda>a. ca_count (es_criteria (ag_evaluationSummary a) d)) (agents_of p agents))"
  using assms(2,3)
proof (induction agents arbitrary: summaries)
  case Nil
  then show ?case by (simp add: agents_of_def)
next
  case (Cons a agents)
  show ?case
  proof (cases "\<exists>q. ag_personaId a = Some q \<and> q \<in> ids")
    case False
    then have "summary_map_from add_sums pf ids summaries (a # agents) = summary_map_from add_sums pf ids summaries agents"
      by (auto split: option.split)
    moreover have "agents_of p (a # agents) = agents_of p agents" using False assms(4) by (auto simp: agents_of_def)
    ultimately show ?thesis using Cons.IH [of summaries] Cons.prems by simp
  next
    case True
    then obtain q where q: "ag_personaId a = Some q" "q \<in> ids" by blast
    define merged where "merged = mergeAgentEvaluationSummaries add_sums pf (map_summary summaries q) (ag_evaluationSummary a)"
    have run: "summary_map_from add_sums pf ids summaries (a # agents) = summary_map_from add_sums pf ids (summaries(q \<mapsto> merged)) agents"
      using q by (simp add: merged_def map_summary_def Let_def)
    have ok: "summary_ok (map_summary summaries q)" using Cons.prems(1) by (auto simp: map_summary_def split: option.split)
    have m: "es_totalCount merged = es_totalCount (map_summary summaries q) + es_totalCount (ag_evaluationSummary a)"
      "ca_count (es_criteria merged d) = ca_count (es_criteria (map_summary summaries q) d) + ca_count (es_criteria (ag_evaluationSummary a) d)"
      using normalize_summary_id [OF ok, of pf] normalize_summary_id [of "ag_evaluationSummary a" pf] Cons.prems(2)
      by (simp_all add: merged_def mergeAgentEvaluationSummaries_def Let_def)
    have IH: "es_totalCount (map_summary (summary_map_from add_sums pf ids (summaries(q \<mapsto> merged)) agents) p) =
      es_totalCount (map_summary (summaries(q \<mapsto> merged)) p) + sum_list (map (\<lambda>a. es_totalCount (ag_evaluationSummary a)) (agents_of p agents)) \<and>
    ca_count (es_criteria (map_summary (summary_map_from add_sums pf ids (summaries(q \<mapsto> merged)) agents) p) d) =
      ca_count (es_criteria (map_summary (summaries(q \<mapsto> merged)) p) d) + sum_list (map (\<lambda>a. ca_count (es_criteria (ag_evaluationSummary a) d)) (agents_of p agents))"
      using Cons.prems merged_ok [OF assms(1)] by (intro Cons.IH) (auto simp: merged_def split: if_splits)
    show ?thesis
      unfolding run using IH m q by (cases "p = q") (auto simp: map_summary_def agents_of_def)
  qed
qed

section \<open>Mutations\<close>

datatype persona_op =
    UpsertPersona persona_input string
  | RemovePersona string
  | SyncPersonas "agent_record list"

type_synonym timed_persona_op = "persona_op \<times> string"   \<comment> \<open>with the time\<close>

fun apply_persona_op ::
  "(string \<Rightarrow> string \<Rightarrow> int) \<Rightarrow> (js_number \<Rightarrow> js_number \<Rightarrow> js_number) \<Rightarrow> (string \<Rightarrow> js_number) \<Rightarrow> timed_persona_op \<Rightarrow>
   persona_registry \<Rightarrow> (persona_registry, persona_error) mutation" where
  "apply_persona_op cmp add_sums pf (UpsertPersona input newId, now) r = upsertPersona cmp pf r input newId now"
| "apply_persona_op cmp add_sums pf (RemovePersona i, now) r = removePersona cmp pf r i now"
| "apply_persona_op cmp add_sums pf (SyncPersonas agents, now) r =
     Ok (syncPersonaEvaluationSummariesFromAgents cmp add_sums pf r agents now)"

fun persona_fresh :: "(js_number \<Rightarrow> js_number \<Rightarrow> js_number) \<Rightarrow> timed_persona_op \<Rightarrow> persona_registry \<Rightarrow> bool" where
  "persona_fresh add_sums (op, now) r \<longleftrightarrow> now \<noteq> [] \<and> trimmed now \<and> proper_sum add_sums \<and>
     (case op of UpsertPersona input newId \<Rightarrow> ident_ok newId \<and> newId \<notin> pe_id ` set (pr_personas r) | _ \<Rightarrow> True)"

lemma upsert_persona_ok:
  assumes "upsertPersona cmp pf registry input newId now = Ok r'"
    and "ident_ok newId" and "newId \<notin> pe_id ` set (pr_personas (normalized_personas cmp pf registry))" and now: "now \<noteq> []" "trimmed now"
  shows "personas_ok r'"
proof -
  define r where "r = normalized_personas cmp pf registry"
  define i where "i = normalizeRecordId (js_nullable (pi_id input))"
  define m where "m = matching_named pe_id i (pr_personas r)"
  define next_persona where "next_persona = \<lparr>pe_id = (case i of Some i \<Rightarrow> i | None \<Rightarrow> newId),
    pe_name = normalizePersonaName (pi_name input), pe_description = normalizePersonaDescription (pi_description input),
    pe_instructions = normalizePersonaInstructions
      (case pi_instructions input of Some t \<Rightarrow> t | None \<Rightarrow> (case m of Some m \<Rightarrow> pe_instructions m | None \<Rightarrow> [])),
    pe_spectrums = normalizePersonaSpectrumValues (pi_spectrums input), pe_styles = normalizePersonaStyleValues (pi_styles input),
    pe_evaluationSummary = (case m of Some m \<Rightarrow> pe_evaluationSummary m | None \<Rightarrow> createEmptyAgentEvaluationSummary),
    pe_createdAt = (case m of Some m \<Rightarrow> pe_createdAt m | None \<Rightarrow> now), pe_updatedAt = now\<rparr>"
  have r: "named_ok pe_id persona_key persona_ok (pr_personas r)"
    using normalized_personas_ok [of cmp pf registry] by (simp add: r_def personas_ok_def)
  have ok: "normalizePersonaName (pi_name input) \<noteq> []"
    "\<not> (\<exists>p \<in> set (pr_personas r). Some (pe_id p) \<noteq> i \<and> persona_key p = createPersonaNameKey (normalizePersonaName (pi_name input)))"
    "i = None \<or> m \<noteq> None"
    and r': "pr_personas r' = sortPersonas cmp (put_named pe_id m next_persona (pr_personas r))"
    using assms(1) unfolding upsertPersona_def Let_def r_def [symmetric] i_def [symmetric] m_def [symmetric] next_persona_def [symmetric]
    by (auto split: if_splits)
  have old: "persona_ok p" if "m = Some p" for p
    using matching_named_Some [of pe_id i "pr_personas r" p] that r by (auto simp: m_def named_ok_def)
  have "stamps_ok (pe_createdAt next_persona) now"
    using now next_stamps [OF r, of pe_createdAt pe_updatedAt now i] by (simp add: next_persona_def persona_ok_def m_def)
  moreover have "ident_ok (pe_id next_persona)"
    using assms(2) by (auto simp: next_persona_def i_def split: option.split)
  moreover have "summary_ok (pe_evaluationSummary next_persona)"
    using old by (auto simp: next_persona_def persona_ok_def split: option.split)
  ultimately have "persona_ok next_persona"
    using ok(1) by (simp add: persona_ok_def persona_name_text persona_lengths spectrums_normalized styles_normalized) (simp add: next_persona_def persona_name_text persona_lengths spectrums_normalized styles_normalized)
  then show ?thesis
    unfolding personas_ok_def r' sortPersonas_def m_def
    using r ok(2,3) assms(3)
    by (intro named_ok_upsert [where newId = newId]) (simp_all add: next_persona_def persona_key_def r_def m_def)
qed

lemma next_summary_ok:
  "proper_sum add_sums \<Longrightarrow> summary_ok (map_summary (createPersonaEvaluationSummaryMap add_sums pf personas agents) p)"
  by (auto simp: map_summary_def createPersonaEvaluationSummaryMap_def split: option.split intro: summary_map_ok)

lemma sync_personas_ok:
  assumes "now \<noteq> []" and "trimmed now" and "proper_sum add_sums"
  shows "personas_ok (syncPersonaEvaluationSummariesFromAgents cmp add_sums pf r agents now)"
proof -
  define n where "n = normalized_personas cmp pf r"
  define nxt where "nxt = (\<lambda>p :: persona_record. map_summary (createPersonaEvaluationSummaryMap add_sums pf (pr_personas n) agents) (pe_id p))"
  have n: "named_ok pe_id persona_key persona_ok (pr_personas n)"
    using normalized_personas_ok [of cmp pf r] by (simp add: n_def personas_ok_def)
  have "persona_ok (if c p then p\<lparr>pe_evaluationSummary := nxt p, pe_updatedAt := now\<rparr> else p)" if "persona_ok p" for c and p :: persona_record
    using that assms next_summary_ok by (auto simp: persona_ok_def nxt_def intro: stamps_touched)
  then have synced: "named_ok pe_id persona_key persona_ok (map (\<lambda>p. if c p then p\<lparr>pe_evaluationSummary := nxt p, pe_updatedAt := now\<rparr> else p) (pr_personas n))" for c
    using n by (intro named_ok_map) (auto simp: persona_key_def)
  then show ?thesis
    using n synced [unfolded nxt_def] unfolding syncPersonaEvaluationSummariesFromAgents_def Let_def n_def [symmetric] map_summary_def [symmetric]
    by (auto simp: personas_ok_def sortPersonas_def intro: named_ok_sort)
qed

lemma persona_op_ok:
  "apply_persona_op cmp add_sums pf op r = Ok r' \<Longrightarrow> persona_fresh add_sums op (normalized_personas cmp pf r) \<Longrightarrow> personas_ok r'"
  using normalized_personas_ok [of cmp pf r]
  by (cases "(cmp, add_sums, pf, op, r)" rule: apply_persona_op.cases)
    (auto simp: removePersona_def Let_def personas_ok_def intro: upsert_persona_ok [unfolded personas_ok_def]
      sync_personas_ok [unfolded personas_ok_def] named_ok_filter split: if_splits)

lemma persona_op_refused: "apply_persona_op cmp add_sums pf op r = Err r' e \<Longrightarrow> r' = normalized_personas cmp pf r"
  by (cases "(cmp, add_sums, pf, op, r)" rule: apply_persona_op.cases)
    (auto simp: upsertPersona_def removePersona_def Let_def split: if_splits)

interpretation personas: healing_registry "\<lambda>op. normalized_personas cmp pf" "apply_persona_op cmp add_sums pf" "persona_fresh add_sums" personas_ok
  for cmp add_sums pf
  by unfold_locales (auto dest: persona_op_ok persona_op_refused)

text \<open>After the synchronisation a persona counts what the agents that take it count.\<close>

lemma synced_summary:
  assumes "p \<in> set (pr_personas (syncPersonaEvaluationSummariesFromAgents cmp add_sums pf r agents now))" and "proper_sum add_sums"
  shows "pe_evaluationSummary p = map_summary (createPersonaEvaluationSummaryMap add_sums pf (pr_personas (normalized_personas cmp pf r)) agents) (pe_id p) \<and>
    pe_id p \<in> pe_id ` set (pr_personas (normalized_personas cmp pf r))"
proof -
  define n where "n = normalized_personas cmp pf r"
  define nxt where "nxt = map_summary (createPersonaEvaluationSummaryMap add_sums pf (pr_personas n) agents)"
  have eq: "s = t" if "agentEvaluationSummariesAreEqual pf s t" "summary_ok s" "summary_ok t" for s t
  proof -
    have "es_totalCount s = es_totalCount t" "\<And>d. es_criteria s d = es_criteria t d"
      using that all_criteria by (auto simp: agentEvaluationSummariesAreEqual_def normalize_summary_id Let_def list_all_iff)
    then show ?thesis by (intro evaluation_summary.equality) auto
  qed
  have ok: "summary_ok (pe_evaluationSummary q)" if "q \<in> set (pr_personas n)" for q
    using that normalized_personas_ok [of cmp pf r] by (simp add: n_def personas_ok_def named_ok_def persona_ok_def)
  have nxt: "summary_ok (nxt i)" for i using next_summary_ok [OF assms(2)] by (simp add: nxt_def)
  obtain q where q: "q \<in> set (pr_personas n)" "pe_id p = pe_id q"
    "pe_evaluationSummary p = (if agentEvaluationSummariesAreEqual pf (pe_evaluationSummary q) (nxt (pe_id q)) then pe_evaluationSummary q else nxt (pe_id q))"
    using assms(1) unfolding syncPersonaEvaluationSummariesFromAgents_def Let_def n_def [symmetric] map_summary_def [symmetric] nxt_def [symmetric]
    by (fastforce simp: sortPersonas_def split: if_splits)
  then show ?thesis using eq ok nxt by (auto simp: n_def nxt_def split: if_splits)
qed

end
