(* ===== verification/Reference_Registry.thy ===== *)
theory Reference_Registry
  imports Agent_Registry Agent_Laws
begin

text \<open>
  The references of a workspace (\<open>src/lib/references/reference-registry.ts\<close>): titled notes and links, kept with
  the latest change first. The URL parser is an argument: what it makes of a text, as the protocol and the
  serialised form, or nothing when it throws.
\<close>

section \<open>Records\<close>

definition REFERENCE_REGISTRY_VERSION :: int where "REFERENCE_REGISTRY_VERSION = 1"

definition REFERENCE_TITLE_MAX_LENGTH :: nat where "REFERENCE_TITLE_MAX_LENGTH = 180"

definition REFERENCE_SOURCE_URL_MAX_LENGTH :: nat where "REFERENCE_SOURCE_URL_MAX_LENGTH = 2048"

definition REFERENCE_CONTENT_MAX_LENGTH :: nat where "REFERENCE_CONTENT_MAX_LENGTH = 20000"

definition REFERENCE_TAG_MAX_LENGTH :: nat where "REFERENCE_TAG_MAX_LENGTH = 48"

definition REFERENCE_TAGS_MAX_COUNT :: nat where "REFERENCE_TAGS_MAX_COUNT = 12"

datatype reference_error =
    reference_title_required
  | reference_body_or_source_required
  | reference_source_url_invalid
  | reference_content_too_long
  | reference_tags_too_many
  | reference_tag_too_long
  | reference_title_duplicate
  | reference_not_found
  | reference_registry_invalid

record reference_record =
  rf_id :: string
  rf_title :: string
  rf_sourceUrl :: string
  rf_tags :: "string list"
  rf_projectIds :: "string list"
  rf_repositoryIds :: "string list"
  rf_content :: string
  rf_createdAt :: string
  rf_updatedAt :: string

record reference_registry =
  rr_revision :: int
  rr_workspaceId :: string
  rr_references :: "reference_record list"
  rr_updatedAt :: string

record reference_input =
  ri_id :: "string option"
  ri_title :: string
  ri_sourceUrl :: string
  ri_tags :: "string list"
  ri_projectIds :: "string list"
  ri_repositoryIds :: "string list"
  ri_content :: string

type_synonym url_parser = "string \<Rightarrow> (string \<times> string) option"   \<comment> \<open>protocol and \<open>toString()\<close>\<close>

definition createEmptyReferenceRegistry :: "string \<Rightarrow> string \<Rightarrow> reference_registry" where
  "createEmptyReferenceRegistry workspaceId now =
     \<lparr>rr_revision = 0, rr_workspaceId = workspaceId, rr_references = [], rr_updatedAt = now\<rparr>"

section \<open>Parsing\<close>

definition normalizeReferenceTitle :: "string \<Rightarrow> string" where
  "normalizeReferenceTitle value = record_name REFERENCE_TITLE_MAX_LENGTH value"

definition createReferenceTitleKey :: "string \<Rightarrow> string" where
  "createReferenceTitleKey title = js_lower (normalizeReferenceTitle title)"

definition reference_key :: "reference_record \<Rightarrow> string" where
  "reference_key reference = createReferenceTitleKey (rf_title reference)"

text \<open>\<open>/^[a-z][a-z0-9+.-]*:/i\<close>\<close>

definition scheme_letter :: "char \<Rightarrow> bool" where
  "scheme_letter c = (let n = (of_char (js_lower_char c) :: nat) in 97 \<le> n \<and> n \<le> 122)"

definition scheme_char :: "char \<Rightarrow> bool" where
  "scheme_char c \<longleftrightarrow> scheme_letter c \<or> is_digit c \<or> c \<in> {CHR ''+'', CHR ''.'', CHR ''-''}"

definition has_scheme :: "string \<Rightarrow> bool" where
  "has_scheme s = (case s of [] \<Rightarrow> False
     | c # cs \<Rightarrow> scheme_letter c \<and> (case dropWhile scheme_char cs of [] \<Rightarrow> False | d # _ \<Rightarrow> d = CHR '':''))"

definition createReferenceSourceUrlCandidates :: "string \<Rightarrow> string list" where
  "createReferenceSourceUrlCandidates sourceUrl = (if has_scheme sourceUrl then [sourceUrl] else [''https://'' @ sourceUrl])"

fun first_web_url :: "url_parser \<Rightarrow> string list \<Rightarrow> string option" where
  "first_web_url parse_url [] = None"
| "first_web_url parse_url (candidate # candidates) =
     (case parse_url candidate of
        None \<Rightarrow> first_web_url parse_url candidates
      | Some (protocol, text) \<Rightarrow>
          if protocol \<noteq> ''http:'' \<and> protocol \<noteq> ''https:'' then first_web_url parse_url candidates else Some text)"

definition normalizeReferenceSourceUrl :: "url_parser \<Rightarrow> string \<Rightarrow> string option" where
  "normalizeReferenceSourceUrl parse_url value =
     (let sourceUrl = js_slice0 REFERENCE_SOURCE_URL_MAX_LENGTH (js_trim value)
      in if sourceUrl = [] then Some [] else first_web_url parse_url (createReferenceSourceUrlCandidates sourceUrl))"

definition normalizeReferenceTagText :: "string \<Rightarrow> string" where
  "normalizeReferenceTagText value = js_collapse_ws '' '' (js_trim value)"

definition normalizeReferenceTag :: "string \<Rightarrow> string" where
  "normalizeReferenceTag value = js_slice0 REFERENCE_TAG_MAX_LENGTH (normalizeReferenceTagText value)"

fun validate_tags_from :: "string list \<Rightarrow> string set \<Rightarrow> js list \<Rightarrow> reference_error + string list" where
  "validate_tags_from tags tagKeys [] = Inr tags"
| "validate_tags_from tags tagKeys (item # items) =
     (let tag = normalizeReferenceTagText (readTrimmedString item); tagKey = js_lower tag
      in if tag = [] \<or> tagKey \<in> tagKeys then validate_tags_from tags tagKeys items
         else if length tag > REFERENCE_TAG_MAX_LENGTH then Inl reference_tag_too_long
         else if length tags \<ge> REFERENCE_TAGS_MAX_COUNT then Inl reference_tags_too_many
         else validate_tags_from (tags @ [tag]) (insert tagKey tagKeys) items)"

definition validateAndNormalizeReferenceTags :: "js \<Rightarrow> reference_error + string list" where
  "validateAndNormalizeReferenceTags value = (case value of JArr items \<Rightarrow> validate_tags_from [] {} items | _ \<Rightarrow> Inr [])"

fun reference_tags_from :: "string list \<Rightarrow> string set \<Rightarrow> js list \<Rightarrow> string list" where
  "reference_tags_from tags tagKeys [] = tags"
| "reference_tags_from tags tagKeys (item # items) =
     (let tag = normalizeReferenceTag (readTrimmedString item); tagKey = js_lower tag
      in if tag = [] \<or> tagKey \<in> tagKeys then reference_tags_from tags tagKeys items
         else if length (tags @ [tag]) \<ge> REFERENCE_TAGS_MAX_COUNT then tags @ [tag]
         else reference_tags_from (tags @ [tag]) (insert tagKey tagKeys) items)"

definition normalizeReferenceTags :: "js \<Rightarrow> string list" where
  "normalizeReferenceTags value = reference_tags_from [] {} (js_elements value)"

definition normalizeReferenceRecordIds :: "js \<Rightarrow> string list" where
  "normalizeReferenceRecordIds value = evaluation_keys_from [] (js_elements value)"

definition normalizeReferenceContent :: "string \<Rightarrow> string" where
  "normalizeReferenceContent value = js_slice0 REFERENCE_CONTENT_MAX_LENGTH (js_trim value)"

definition validateAndNormalizeReferenceContent :: "string \<Rightarrow> reference_error + string" where
  "validateAndNormalizeReferenceContent value =
     (let content = js_trim value
      in if length content > REFERENCE_CONTENT_MAX_LENGTH then Inl reference_content_too_long else Inr content)"

definition parseReferenceRecord :: "url_parser \<Rightarrow> js \<Rightarrow> reference_record option" where
  "parseReferenceRecord parse_url value =
     (if \<not> isObjectRecord value then None
      else (let title = normalizeReferenceTitle (readTrimmedString (js_prop value ''title''));
                content = normalizeReferenceContent (case js_prop value ''content'' of JStr s \<Rightarrow> s | _ \<Rightarrow> []);
                createdAt = readTrimmedString (js_prop value ''createdAt'');
                updatedAt = readTrimmedString (js_prop value ''updatedAt'')
            in (case (normalizeRecordId (js_prop value ''id''), normalizeReferenceSourceUrl parse_url (readTrimmedString (js_prop value ''sourceUrl''))) of
                  (Some i, Some sourceUrl) \<Rightarrow>
                    if title = [] \<or> (sourceUrl = [] \<and> content = []) then None
                    else Some \<lparr>rf_id = i, rf_title = title, rf_sourceUrl = sourceUrl,
                      rf_tags = normalizeReferenceTags (js_prop value ''tags''),
                      rf_projectIds = normalizeReferenceRecordIds (js_prop value ''projectIds''),
                      rf_repositoryIds = normalizeReferenceRecordIds (js_prop value ''repositoryIds''),
                      rf_content = content,
                      rf_createdAt = (if createdAt = [] then updatedAt else createdAt),
                      rf_updatedAt = (if updatedAt = [] then createdAt else updatedAt)\<rparr>
                | _ \<Rightarrow> None)))"

text \<open>Two comparisons: of time stamps, by the default locale, and of titles.\<close>

definition reference_order :: "(string \<Rightarrow> string \<Rightarrow> int) \<Rightarrow> (string \<Rightarrow> string \<Rightarrow> int) \<Rightarrow> reference_record \<Rightarrow> reference_record \<Rightarrow> int" where
  "reference_order cmp_time cmp left right =
     (let updatedAtComparison = cmp_time (rf_updatedAt right) (rf_updatedAt left)
      in if updatedAtComparison \<noteq> 0 then updatedAtComparison else cmp (rf_title left) (rf_title right))"

definition sortReferences ::
  "(string \<Rightarrow> string \<Rightarrow> int) \<Rightarrow> (string \<Rightarrow> string \<Rightarrow> int) \<Rightarrow> reference_record list \<Rightarrow> reference_record list" where
  "sortReferences cmp_time cmp references = js_sort (reference_order cmp_time cmp) references"

text \<open>A legacy revision that is missing counts as zero; any other value than a safe natural number is refused.\<close>

definition reference_revision :: "js \<Rightarrow> int option" where
  "reference_revision value =
     (case value of JUndefined \<Rightarrow> Some 0 | JInt n \<Rightarrow> if 0 \<le> n \<and> n \<le> MAX_SAFE_INTEGER then Some n else None | _ \<Rightarrow> None)"

definition normalizeReferenceRegistry ::
  "(string \<Rightarrow> string \<Rightarrow> int) \<Rightarrow> (string \<Rightarrow> string \<Rightarrow> int) \<Rightarrow> url_parser \<Rightarrow> js \<Rightarrow> string \<Rightarrow> reference_registry option" where
  "normalizeReferenceRegistry cmp_time cmp parse_url value workspaceId =
     (if \<not> isObjectRecord value \<or> js_prop value ''version'' \<noteq> JInt REFERENCE_REGISTRY_VERSION then None
      else if js_prop value ''workspaceId'' \<noteq> JStr workspaceId \<or> \<not> js_is_array (js_prop value ''references'') then None
      else (case reference_revision (js_prop value ''revision'') of
          None \<Rightarrow> None
        | Some revision \<Rightarrow> Some
            \<lparr>rr_revision = revision, rr_workspaceId = workspaceId,
             rr_references = sortReferences cmp_time cmp
               (collect_named (parseReferenceRecord parse_url) rf_id reference_key {} {} (js_elements (js_prop value ''references''))),
             rr_updatedAt = readTrimmedString (js_prop value ''updatedAt'')\<rparr>))"

definition parseReferenceRegistry ::
  "(string \<Rightarrow> string \<Rightarrow> int) \<Rightarrow> (string \<Rightarrow> string \<Rightarrow> int) \<Rightarrow> url_parser \<Rightarrow> (string \<Rightarrow> js option) \<Rightarrow> string \<Rightarrow> string \<Rightarrow> reference_registry option" where
  "parseReferenceRegistry cmp_time cmp parse_url json_parse serializedRegistry workspaceId =
     (case json_parse serializedRegistry of None \<Rightarrow> None | Some v \<Rightarrow> normalizeReferenceRegistry cmp_time cmp parse_url v workspaceId)"

text \<open>A registry as a value.\<close>

definition reference_js :: "reference_record \<Rightarrow> js" where
  "reference_js r = JObj [(''id'', JStr (rf_id r)), (''title'', JStr (rf_title r)), (''sourceUrl'', JStr (rf_sourceUrl r)),
     (''tags'', JArr (map JStr (rf_tags r))), (''projectIds'', JArr (map JStr (rf_projectIds r))),
     (''repositoryIds'', JArr (map JStr (rf_repositoryIds r))), (''content'', JStr (rf_content r)),
     (''createdAt'', JStr (rf_createdAt r)), (''updatedAt'', JStr (rf_updatedAt r))]"

definition reference_registry_js :: "reference_registry \<Rightarrow> js" where
  "reference_registry_js r = JObj [(''version'', JInt REFERENCE_REGISTRY_VERSION), (''revision'', JInt (rr_revision r)),
     (''workspaceId'', JStr (rr_workspaceId r)), (''references'', JArr (map reference_js (rr_references r))),
     (''updatedAt'', JStr (rr_updatedAt r))]"

text \<open>\<open>normalizeReferenceRegistry(registry, registry.workspaceId) ?? registry\<close>\<close>

definition normalized_references ::
  "(string \<Rightarrow> string \<Rightarrow> int) \<Rightarrow> (string \<Rightarrow> string \<Rightarrow> int) \<Rightarrow> url_parser \<Rightarrow> reference_registry \<Rightarrow> reference_registry" where
  "normalized_references cmp_time cmp parse_url registry =
     (case normalizeReferenceRegistry cmp_time cmp parse_url (reference_registry_js registry) (rr_workspaceId registry) of
        Some r \<Rightarrow> r | None \<Rightarrow> registry)"

definition serializeReferenceRegistry ::
  "(string \<Rightarrow> string \<Rightarrow> int) \<Rightarrow> (string \<Rightarrow> string \<Rightarrow> int) \<Rightarrow> url_parser \<Rightarrow> (js \<Rightarrow> string) \<Rightarrow> reference_registry \<Rightarrow> string" where
  "serializeReferenceRegistry cmp_time cmp parse_url stringify registry =
     stringify (reference_registry_js (normalized_references cmp_time cmp parse_url registry))"

section \<open>Mutations\<close>

definition upsertReference ::
  "(string \<Rightarrow> string \<Rightarrow> int) \<Rightarrow> (string \<Rightarrow> string \<Rightarrow> int) \<Rightarrow> url_parser \<Rightarrow> reference_registry \<Rightarrow> reference_input \<Rightarrow> string \<Rightarrow> string \<Rightarrow>
   (reference_registry, reference_error) mutation" where
  "upsertReference cmp_time cmp parse_url registry input newId timestamp =
     (let r = normalized_references cmp_time cmp parse_url registry;
          referenceId = normalizeRecordId (js_nullable (ri_id input));
          title = normalizeReferenceTitle (ri_title input);
          projectIds = normalizeReferenceRecordIds (JArr (map JStr (ri_projectIds input)));
          repositoryIds = normalizeReferenceRecordIds (JArr (map JStr (ri_repositoryIds input)));
          matching = matching_named rf_id referenceId (rr_references r)
      in if title = [] then Err r reference_title_required
         else (case normalizeReferenceSourceUrl parse_url (ri_sourceUrl input) of
             None \<Rightarrow> Err r reference_source_url_invalid
           | Some sourceUrl \<Rightarrow>
               (case validateAndNormalizeReferenceTags (JArr (map JStr (ri_tags input))) of
                  Inl e \<Rightarrow> Err r e
                | Inr tags \<Rightarrow>
                    (case validateAndNormalizeReferenceContent (ri_content input) of
                       Inl e \<Rightarrow> Err r e
                     | Inr content \<Rightarrow>
                         if sourceUrl = [] \<and> content = [] then Err r reference_body_or_source_required
                         else if \<exists>x \<in> set (rr_references r). Some (rf_id x) \<noteq> referenceId \<and> reference_key x = createReferenceTitleKey title
                         then Err r reference_title_duplicate
                         else if referenceId \<noteq> None \<and> matching = None then Err r reference_not_found
                         else Ok (r\<lparr>rr_references := sortReferences cmp_time cmp
                                     (put_named rf_id matching
                                        \<lparr>rf_id = (case referenceId of Some i \<Rightarrow> i | None \<Rightarrow> newId), rf_title = title,
                                         rf_sourceUrl = sourceUrl, rf_tags = tags, rf_projectIds = projectIds,
                                         rf_repositoryIds = repositoryIds, rf_content = content,
                                         rf_createdAt = (case matching of Some m \<Rightarrow> rf_createdAt m | None \<Rightarrow> timestamp),
                                         rf_updatedAt = timestamp\<rparr>
                                        (rr_references r)),
                                   rr_updatedAt := timestamp\<rparr>)))))"

definition removeReference ::
  "(string \<Rightarrow> string \<Rightarrow> int) \<Rightarrow> (string \<Rightarrow> string \<Rightarrow> int) \<Rightarrow> url_parser \<Rightarrow> reference_registry \<Rightarrow> string \<Rightarrow> string \<Rightarrow>
   (reference_registry, reference_error) mutation" where
  "removeReference cmp_time cmp parse_url registry referenceId timestamp =
     (let r = normalized_references cmp_time cmp parse_url registry in
      if \<not> (\<exists>x \<in> set (rr_references r). rf_id x = referenceId) then Err r reference_not_found
      else Ok (r\<lparr>rr_references := filter (\<lambda>x. rf_id x \<noteq> referenceId) (rr_references r), rr_updatedAt := timestamp\<rparr>))"

text \<open>
  What the operations on references keep: titles, tags and links within their bounds, and only web addresses
  as sources.
\<close>

section \<open>References in order\<close>

text \<open>What is relied on of the URL parser: the serialised form begins with the protocol.\<close>

definition proper_url :: "url_parser \<Rightarrow> bool" where
  "proper_url parse_url \<longleftrightarrow> (\<forall>c p t. parse_url c = Some (p, t) \<longrightarrow> take (length p) t = p)"

definition web_url :: "string \<Rightarrow> bool" where
  "web_url u \<longleftrightarrow> take 5 u = ''http:'' \<or> take 6 u = ''https:''"

definition tags_ok :: "string list \<Rightarrow> bool" where
  "tags_ok tags \<longleftrightarrow> length tags \<le> REFERENCE_TAGS_MAX_COUNT \<and> distinct (map js_lower tags) \<and>
     (\<forall>t \<in> set tags. t \<noteq> [] \<and> length t \<le> REFERENCE_TAG_MAX_LENGTH)"

definition reference_ok :: "reference_record \<Rightarrow> bool" where
  "reference_ok x \<longleftrightarrow> ident_ok (rf_id x) \<and> named_text REFERENCE_TITLE_MAX_LENGTH (rf_title x) \<and>
     (rf_sourceUrl x = [] \<or> web_url (rf_sourceUrl x)) \<and> (rf_sourceUrl x \<noteq> [] \<or> rf_content x \<noteq> []) \<and>
     length (rf_content x) \<le> REFERENCE_CONTENT_MAX_LENGTH \<and> tags_ok (rf_tags x) \<and>
     distinct (rf_projectIds x) \<and> Ball (set (rf_projectIds x)) ident_ok \<and>
     distinct (rf_repositoryIds x) \<and> Ball (set (rf_repositoryIds x)) ident_ok \<and>
     stamps_ok (rf_createdAt x) (rf_updatedAt x)"

definition references_ok :: "reference_registry \<Rightarrow> bool" where
  "references_ok r \<longleftrightarrow> 0 \<le> rr_revision r \<and> rr_revision r \<le> MAX_SAFE_INTEGER \<and>
     named_ok rf_id reference_key reference_ok (rr_references r)"

lemma reference_title_text:
  "normalizeReferenceTitle s \<noteq> [] \<Longrightarrow> named_text REFERENCE_TITLE_MAX_LENGTH (normalizeReferenceTitle s)"
  unfolding normalizeReferenceTitle_def by (rule record_name_text) (simp_all add: REFERENCE_TITLE_MAX_LENGTH_def)

lemma first_web_url_ok:
  assumes "proper_url parse_url"
  shows "first_web_url parse_url cs = Some u \<Longrightarrow> web_url u"
proof (induction cs)
  case (Cons c cs)
  show ?case
  proof (cases "parse_url c")
    case (Some pt)
    obtain p t where pt: "pt = (p, t)" by fastforce
    have "take (length p) t = p" using assms Some pt by (simp add: proper_url_def)
    then have "web_url t" if "p \<in> {''http:'', ''https:''}" using that by (auto simp: web_url_def eval_nat_numeral)
    then show ?thesis using Cons Some pt by (auto split: if_splits)
  qed (use Cons in simp)
qed simp

lemma source_url_ok:
  "proper_url parse_url \<Longrightarrow> normalizeReferenceSourceUrl parse_url v = Some u \<Longrightarrow> u = [] \<or> web_url u"
  by (auto simp: normalizeReferenceSourceUrl_def Let_def dest: first_web_url_ok split: if_splits)

lemma reference_tags_ok:
  assumes "length tags < REFERENCE_TAGS_MAX_COUNT" "distinct (map js_lower tags)"
    "\<forall>t \<in> set tags. t \<noteq> [] \<and> length t \<le> REFERENCE_TAG_MAX_LENGTH"
  shows "tags_ok (reference_tags_from tags (js_lower ` set tags) items)"
  using assms
proof (induction items arbitrary: tags)
  case (Cons item items)
  define tag where "tag = normalizeReferenceTag (readTrimmedString item)"
  have len: "length tag \<le> REFERENCE_TAG_MAX_LENGTH" by (simp add: tag_def normalizeReferenceTag_def js_slice0_def)
  show ?case
  proof (cases "tag = [] \<or> js_lower tag \<in> js_lower ` set tags")
    case True
    then show ?thesis using Cons by (simp add: tag_def Let_def)
  next
    case False
    then have step: "distinct (map js_lower (tags @ [tag]))"
      "\<forall>t \<in> set (tags @ [tag]). t \<noteq> [] \<and> length t \<le> REFERENCE_TAG_MAX_LENGTH"
      using Cons.prems len by auto
    show ?thesis
    proof (cases "length (tags @ [tag]) \<ge> REFERENCE_TAGS_MAX_COUNT")
      case True
      then show ?thesis using False Cons.prems step by (simp add: tag_def [symmetric] Let_def tags_ok_def)
    next
      case small: False
      then show ?thesis using Cons.IH [OF _ step] False by (simp add: tag_def [symmetric] Let_def)
    qed
  qed
qed (simp add: tags_ok_def)

lemma normalized_tags_ok: "tags_ok (normalizeReferenceTags v)"
  using reference_tags_ok [of "[]"] by (simp add: normalizeReferenceTags_def REFERENCE_TAGS_MAX_COUNT_def)

lemma validated_tags_ok:
  "validate_tags_from tags (js_lower ` set tags) items = Inr ts \<Longrightarrow> tags_ok tags \<Longrightarrow> tags_ok ts"
proof (induction items arbitrary: tags)
  case (Cons item items)
  define tag where "tag = normalizeReferenceTagText (readTrimmedString item)"
  show ?case
  proof (cases "tag = [] \<or> js_lower tag \<in> js_lower ` set tags")
    case True
    then show ?thesis using Cons by (simp add: tag_def Let_def)
  next
    case False
    then have run: "validate_tags_from (tags @ [tag]) (js_lower ` set (tags @ [tag])) items = Inr ts"
      and "tags_ok (tags @ [tag])"
      using Cons.prems by (auto simp: tag_def [symmetric] Let_def tags_ok_def split: if_splits)
    then show ?thesis by (rule Cons.IH)
  qed
qed simp

lemma ids_normalized_ok:
  "distinct (normalizeReferenceRecordIds v) \<and> Ball (set (normalizeReferenceRecordIds v)) ident_ok"
  unfolding normalizeReferenceRecordIds_def by (rule keys_ok) simp_all

lemma parsed_reference_ok:
  assumes "parseReferenceRecord parse_url v = Some x" and "proper_url parse_url"
  shows "reference_ok x"
proof -
  obtain i u where i: "normalizeRecordId (js_prop v ''id'') = Some i"
    and u: "normalizeReferenceSourceUrl parse_url (readTrimmedString (js_prop v ''sourceUrl'')) = Some u"
    and title: "normalizeReferenceTitle (readTrimmedString (js_prop v ''title'')) \<noteq> []"
    using assms(1) by (simp add: parseReferenceRecord_def Let_def split: if_splits option.splits)
  then have x: "rf_id x = i" "rf_title x = normalizeReferenceTitle (readTrimmedString (js_prop v ''title''))" "rf_sourceUrl x = u"
    "rf_tags x = normalizeReferenceTags (js_prop v ''tags'')"
    "rf_projectIds x = normalizeReferenceRecordIds (js_prop v ''projectIds'')"
    "rf_repositoryIds x = normalizeReferenceRecordIds (js_prop v ''repositoryIds'')"
    and body: "u \<noteq> [] \<or> rf_content x \<noteq> []"
    and len: "length (rf_content x) \<le> REFERENCE_CONTENT_MAX_LENGTH"
    and stamps: "stamps_ok (rf_createdAt x) (rf_updatedAt x)"
    using assms(1)
    by (auto simp: parseReferenceRecord_def Let_def stamps_ok_def normalizeReferenceContent_def js_slice0_def split: if_splits)
  show ?thesis
    unfolding reference_ok_def x
    using stamps body len reference_title_text [OF title] read_ident [OF i] source_url_ok [OF assms(2) u]
    by (simp add: normalized_tags_ok ids_normalized_ok)
qed

lemma reference_js_props [simp]:
  "js_prop (reference_registry_js r) ''version'' = JInt REFERENCE_REGISTRY_VERSION"
  "js_prop (reference_registry_js r) ''revision'' = JInt (rr_revision r)"
  "js_prop (reference_registry_js r) ''workspaceId'' = JStr (rr_workspaceId r)"
  "js_prop (reference_registry_js r) ''references'' = JArr (map reference_js (rr_references r))"
  "js_prop (reference_registry_js r) ''updatedAt'' = JStr (rr_updatedAt r)"
  "isObjectRecord (reference_registry_js r)"
  by (simp_all add: reference_registry_js_def js_prop_def)

lemma normalized_references_eq:
  "0 \<le> rr_revision r \<Longrightarrow> rr_revision r \<le> MAX_SAFE_INTEGER \<Longrightarrow> normalized_references cmp_time cmp parse_url r =
     \<lparr>rr_revision = rr_revision r, rr_workspaceId = rr_workspaceId r,
      rr_references = sortReferences cmp_time cmp
        (collect_named (parseReferenceRecord parse_url) rf_id reference_key {} {} (map reference_js (rr_references r))),
      rr_updatedAt = js_trim (rr_updatedAt r)\<rparr>"
  by (simp add: normalized_references_def normalizeReferenceRegistry_def reference_revision_def)

lemma normalized_references_ok:
  "proper_url parse_url \<Longrightarrow> 0 \<le> rr_revision r \<Longrightarrow> rr_revision r \<le> MAX_SAFE_INTEGER \<Longrightarrow>
   references_ok (normalized_references cmp_time cmp parse_url r)"
  by (simp add: normalized_references_eq references_ok_def sortReferences_def named_intros parsed_reference_ok)

section \<open>Mutations\<close>

datatype reference_op = UpsertReference reference_input string | RemoveReference string

type_synonym timed_reference_op = "reference_op \<times> string"   \<comment> \<open>with the time\<close>

fun apply_reference_op ::
  "(string \<Rightarrow> string \<Rightarrow> int) \<Rightarrow> (string \<Rightarrow> string \<Rightarrow> int) \<Rightarrow> url_parser \<Rightarrow> timed_reference_op \<Rightarrow> reference_registry \<Rightarrow>
   (reference_registry, reference_error) mutation" where
  "apply_reference_op cmp_time cmp parse_url (UpsertReference input newId, now) r = upsertReference cmp_time cmp parse_url r input newId now"
| "apply_reference_op cmp_time cmp parse_url (RemoveReference i, now) r = removeReference cmp_time cmp parse_url r i now"

fun reference_fresh :: "url_parser \<Rightarrow> timed_reference_op \<Rightarrow> reference_registry \<Rightarrow> bool" where
  "reference_fresh parse_url (op, now) r \<longleftrightarrow> now \<noteq> [] \<and> trimmed now \<and> proper_url parse_url \<and>
     (case op of UpsertReference input newId \<Rightarrow> ident_ok newId \<and> newId \<notin> rf_id ` set (rr_references r) | _ \<Rightarrow> True)"

lemma upsert_reference_ok:
  assumes "upsertReference cmp_time cmp parse_url registry input newId now = Ok r'"
    and r_ok: "references_ok (normalized_references cmp_time cmp parse_url registry)" and "proper_url parse_url"
    and "ident_ok newId" and "newId \<notin> rf_id ` set (rr_references (normalized_references cmp_time cmp parse_url registry))"
    and now: "now \<noteq> []" "trimmed now"
  shows "references_ok r'"
proof -
  define r where "r = normalized_references cmp_time cmp parse_url registry"
  define i where "i = normalizeRecordId (js_nullable (ri_id input))"
  define m where "m = matching_named rf_id i (rr_references r)"
  have r: "named_ok rf_id reference_key reference_ok (rr_references r)"
    using r_ok by (simp add: r_def references_ok_def)
  obtain u tags content where u: "normalizeReferenceSourceUrl parse_url (ri_sourceUrl input) = Some u"
    and tags: "validateAndNormalizeReferenceTags (JArr (map JStr (ri_tags input))) = Inr tags"
    and content: "validateAndNormalizeReferenceContent (ri_content input) = Inr content"
    using assms(1) by (simp add: upsertReference_def Let_def split: if_splits option.splits sum.splits)
  define x where "x = \<lparr>rf_id = (case i of Some i \<Rightarrow> i | None \<Rightarrow> newId), rf_title = normalizeReferenceTitle (ri_title input),
    rf_sourceUrl = u, rf_tags = tags, rf_projectIds = normalizeReferenceRecordIds (JArr (map JStr (ri_projectIds input))),
    rf_repositoryIds = normalizeReferenceRecordIds (JArr (map JStr (ri_repositoryIds input))), rf_content = content,
    rf_createdAt = (case m of Some m \<Rightarrow> rf_createdAt m | None \<Rightarrow> now), rf_updatedAt = now\<rparr>"
  have ok: "normalizeReferenceTitle (ri_title input) \<noteq> []" "u \<noteq> [] \<or> content \<noteq> []"
    "\<not> (\<exists>y \<in> set (rr_references r). Some (rf_id y) \<noteq> i \<and> reference_key y = createReferenceTitleKey (normalizeReferenceTitle (ri_title input)))"
    "i = None \<or> m \<noteq> None"
    and r': "r' = r\<lparr>rr_references := sortReferences cmp_time cmp (put_named rf_id m x (rr_references r)), rr_updatedAt := now\<rparr>"
    using assms(1) unfolding upsertReference_def Let_def r_def [symmetric] i_def [symmetric] m_def [symmetric] u tags content
    by (auto simp: x_def split: if_splits)
  have "stamps_ok (rf_createdAt x) now"
    using now next_stamps [OF r, of rf_createdAt rf_updatedAt now i] by (simp add: x_def reference_ok_def m_def)
  moreover have "ident_ok (rf_id x)" using assms(4) by (auto simp: x_def i_def split: option.split)
  moreover have "tags_ok tags"
    using validated_tags_ok [of "[]"] tags by (simp add: validateAndNormalizeReferenceTags_def tags_ok_def)
  moreover have "length content \<le> REFERENCE_CONTENT_MAX_LENGTH"
    using content by (auto simp: validateAndNormalizeReferenceContent_def Let_def split: if_splits)
  ultimately have "reference_ok x"
    using ok(1,2) source_url_ok [OF assms(3) u] reference_title_text ids_normalized_ok
    by (simp add: reference_ok_def) (simp add: x_def)
  then have "named_ok rf_id reference_key reference_ok (sortReferences cmp_time cmp (put_named rf_id m x (rr_references r)))"
    unfolding sortReferences_def m_def using r ok(3,4) assms(5)
    by (intro named_ok_upsert [where newId = newId]) (simp_all add: x_def reference_key_def r_def m_def)
  then show ?thesis using r_ok by (simp add: r' references_ok_def r_def)
qed

lemma remove_reference_ok:
  "removeReference cmp_time cmp parse_url r i now = Ok r' \<Longrightarrow>
   references_ok (normalized_references cmp_time cmp parse_url r) \<Longrightarrow> references_ok r'"
  by (auto simp: removeReference_def Let_def references_ok_def intro: named_ok_filter split: if_splits)

lemma reference_op_ok:
  "apply_reference_op cmp_time cmp parse_url op r = Ok r' \<Longrightarrow>
   references_ok (normalized_references cmp_time cmp parse_url r) \<Longrightarrow>
   reference_fresh parse_url op (normalized_references cmp_time cmp parse_url r) \<Longrightarrow> references_ok r'"
  by (cases "(cmp_time, cmp, parse_url, op, r)" rule: apply_reference_op.cases)
    (auto intro: upsert_reference_ok remove_reference_ok)

lemma reference_op_refused:
  "apply_reference_op cmp_time cmp parse_url op r = Err r' e \<Longrightarrow> r' = normalized_references cmp_time cmp parse_url r"
  by (cases "(cmp_time, cmp, parse_url, op, r)" rule: apply_reference_op.cases)
    (auto simp: upsertReference_def removeReference_def Let_def split: if_splits option.splits sum.splits)

text \<open>
  The registry is canonicalised only when its revision is a safe natural number: the contract keeps an
  invariant, it does not repair.
\<close>

definition references_inv :: "url_parser \<Rightarrow> reference_registry \<Rightarrow> bool" where
  "references_inv parse_url r \<longleftrightarrow> proper_url parse_url \<and> references_ok r"

interpretation references: guarded_registry "\<lambda>op. normalized_references cmp_time cmp parse_url"
    "apply_reference_op cmp_time cmp parse_url" "reference_fresh parse_url" "references_inv parse_url"
  for cmp_time cmp parse_url
proof unfold_locales
  fix r assume "references_inv parse_url r"
  then have "proper_url parse_url" "0 \<le> rr_revision r" "rr_revision r \<le> MAX_SAFE_INTEGER"
    by (simp_all add: references_inv_def references_ok_def)
  then show "references_inv parse_url (normalized_references cmp_time cmp parse_url r)"
    unfolding references_inv_def by (simp add: normalized_references_ok)
qed (auto simp: references_inv_def dest: reference_op_ok reference_op_refused)

end
