(* ===== verification/Skill_Registry.thy ===== *)
theory Skill_Registry
  imports Reference_Registry
begin

text \<open>
  The skills of a workspace (\<open>src/lib/skills/skill-registry.ts\<close> and \<open>skill-schema.ts\<close>): their instructions and
  options, and what older versions of the registry become. The catalogue of \<open>skill-defaults.ts\<close>, whose texts
  are Korean, is an argument: its skills without their time stamps.
\<close>

section \<open>Records\<close>

definition SKILL_REGISTRY_VERSION :: int where "SKILL_REGISTRY_VERSION = 3"

definition SKILL_NAME_MAX_LENGTH :: nat where "SKILL_NAME_MAX_LENGTH = 120"

definition SKILL_DESCRIPTION_MAX_LENGTH :: nat where "SKILL_DESCRIPTION_MAX_LENGTH = 420"

definition SKILL_INSTRUCTIONS_MAX_LENGTH :: nat where "SKILL_INSTRUCTIONS_MAX_LENGTH = 8000"

definition SKILL_OUTPUT_TYPES_MAX_COUNT :: nat where "SKILL_OUTPUT_TYPES_MAX_COUNT = 6"

definition SKILL_OPTION_GROUPS_MAX_COUNT :: nat where "SKILL_OPTION_GROUPS_MAX_COUNT = 8"

definition SKILL_OPTIONS_PER_GROUP_MAX_COUNT :: nat where "SKILL_OPTIONS_PER_GROUP_MAX_COUNT = 30"

definition SKILL_OPTION_LABEL_MAX_LENGTH :: nat where "SKILL_OPTION_LABEL_MAX_LENGTH = 80"

definition SKILL_OPTION_DESCRIPTION_MAX_LENGTH :: nat where "SKILL_OPTION_DESCRIPTION_MAX_LENGTH = 220"

definition DEFAULT_SKILL_TIMESTAMP :: string where "DEFAULT_SKILL_TIMESTAMP = ''2026-05-16T00:00:00.000Z''"

definition workflow_default_ids :: "string list" where
  "workflow_default_ids =
     [''workduck.skill.code-reviewer'', ''workduck.skill.commit-handoff-writer'', ''workduck.skill.tech-debt-janitor'',
      ''workduck.skill.release-note-writer'', ''workduck.skill.api-schema-architect'']"

definition workduckSkillOutputTypeOptions :: "string list" where
  "workduckSkillOutputTypeOptions =
     [''writing'', ''revision'', ''work-order'', ''proposal'', ''result-report'', ''agent-evaluation'']"

datatype skill_error =
    skill_name_required
  | skill_name_duplicate
  | skill_output_type_required
  | skill_instructions_required
  | skill_not_found
  | skill_registry_invalid

datatype selection_mode = SelectSingle | SelectMultiple

record skill_option =
  so_id :: string
  so_label :: string
  so_description :: string

record skill_option_group =
  sg_id :: string
  sg_label :: string
  sg_description :: string
  sg_selectionMode :: selection_mode
  sg_options :: "skill_option list"

record skill_record =
  sk_id :: string
  sk_name :: string
  sk_description :: string
  sk_outputTypes :: "string list"
  sk_instructions :: string
  sk_optionGroups :: "skill_option_group list"
  sk_createdAt :: string
  sk_updatedAt :: string

record skill_registry =
  sr_revision :: int
  sr_workspaceId :: string
  sr_skills :: "skill_record list"
  sr_updatedAt :: string

record skill_input =
  si_id :: "string option"
  si_name :: string
  si_description :: string
  si_outputTypes :: "string list"
  si_instructions :: string
  si_optionGroups :: "skill_option_group list option"

section \<open>Values\<close>

definition option_js :: "skill_option \<Rightarrow> js" where
  "option_js x = JObj [(''id'', JStr (so_id x)), (''label'', JStr (so_label x)), (''description'', JStr (so_description x))]"

definition option_group_js :: "skill_option_group \<Rightarrow> js" where
  "option_group_js g = JObj [(''id'', JStr (sg_id g)), (''label'', JStr (sg_label g)), (''description'', JStr (sg_description g)),
     (''selectionMode'', JStr (if sg_selectionMode g = SelectMultiple then ''multiple'' else ''single'')),
     (''options'', JArr (map option_js (sg_options g)))]"

definition skill_js :: "skill_record \<Rightarrow> js" where
  "skill_js s = JObj [(''id'', JStr (sk_id s)), (''name'', JStr (sk_name s)), (''description'', JStr (sk_description s)),
     (''outputTypes'', JArr (map JStr (sk_outputTypes s))), (''instructions'', JStr (sk_instructions s)),
     (''optionGroups'', JArr (map option_group_js (sk_optionGroups s))),
     (''createdAt'', JStr (sk_createdAt s)), (''updatedAt'', JStr (sk_updatedAt s))]"

definition skill_registry_js :: "skill_registry \<Rightarrow> js" where
  "skill_registry_js r = JObj [(''version'', JInt SKILL_REGISTRY_VERSION), (''revision'', JInt (sr_revision r)),
     (''workspaceId'', JStr (sr_workspaceId r)), (''skills'', JArr (map skill_js (sr_skills r))),
     (''updatedAt'', JStr (sr_updatedAt r))]"

section \<open>Built-in skills\<close>

definition getDefaultSkills :: "skill_record list \<Rightarrow> skill_record list" where
  "getDefaultSkills catalogue =
     map (\<lambda>s. s\<lparr>sk_createdAt := DEFAULT_SKILL_TIMESTAMP, sk_updatedAt := DEFAULT_SKILL_TIMESTAMP\<rparr>) catalogue"

definition createEmptySkillRegistry :: "skill_record list \<Rightarrow> string \<Rightarrow> string \<Rightarrow> skill_registry" where
  "createEmptySkillRegistry catalogue workspaceId now =
     \<lparr>sr_revision = 0, sr_workspaceId = workspaceId, sr_skills = getDefaultSkills catalogue, sr_updatedAt = now\<rparr>"

definition isWorkflowDefaultSkill :: "skill_record \<Rightarrow> bool" where
  "isWorkflowDefaultSkill s = (sk_id s \<in> set workflow_default_ids)"

definition isSupportedSkillRegistryVersion :: "js \<Rightarrow> bool" where
  "isSupportedSkillRegistryVersion v \<longleftrightarrow> v = JInt 1 \<or> v = JInt 2 \<or> v = JInt SKILL_REGISTRY_VERSION"

definition getDefaultSkillsForRegistryVersion :: "skill_record list \<Rightarrow> js \<Rightarrow> skill_record list" where
  "getDefaultSkillsForRegistryVersion catalogue version =
     (if version = JInt 1 then getDefaultSkills catalogue
      else if version = JInt 2 then filter isWorkflowDefaultSkill (getDefaultSkills catalogue)
      else [])"

definition skillOptionsAreEqual :: "skill_option list \<Rightarrow> skill_option list \<Rightarrow> bool" where
  "skillOptionsAreEqual left right \<longleftrightarrow> length left = length right \<and>
     list_all (\<lambda>(l, r). so_id l = so_id r \<and> so_label l = so_label r \<and> so_description l = so_description r) (zip left right)"

definition skillOptionGroupsAreEqual :: "skill_option_group list \<Rightarrow> skill_option_group list \<Rightarrow> bool" where
  "skillOptionGroupsAreEqual left right \<longleftrightarrow> length left = length right \<and>
     list_all (\<lambda>(l, r). sg_id l = sg_id r \<and> sg_label l = sg_label r \<and> sg_description l = sg_description r \<and>
       sg_selectionMode l = sg_selectionMode r \<and> skillOptionsAreEqual (sg_options l) (sg_options r)) (zip left right)"

definition isDefaultSkillRecord :: "skill_record list \<Rightarrow> skill_record \<Rightarrow> bool" where
  "isDefaultSkillRecord catalogue skill =
     (case List.find (\<lambda>d. sk_id d = sk_id skill) catalogue of
        None \<Rightarrow> False
      | Some d \<Rightarrow>
          if sk_createdAt skill = DEFAULT_SKILL_TIMESTAMP \<and> sk_updatedAt skill = DEFAULT_SKILL_TIMESTAMP then True
          else sk_name d = sk_name skill \<and> sk_description d = sk_description skill \<and> sk_instructions d = sk_instructions skill \<and>
            sk_outputTypes d = sk_outputTypes skill \<and> skillOptionGroupsAreEqual (sk_optionGroups d) (sk_optionGroups skill))"

section \<open>Parsing\<close>

definition normalizeSkillName :: "string \<Rightarrow> string" where
  "normalizeSkillName value = record_name SKILL_NAME_MAX_LENGTH value"

definition normalizeSkillDescription :: "string \<Rightarrow> string" where
  "normalizeSkillDescription value = record_name SKILL_DESCRIPTION_MAX_LENGTH value"

definition normalizeSkillInstructions :: "string \<Rightarrow> string" where
  "normalizeSkillInstructions value = js_slice0 SKILL_INSTRUCTIONS_MAX_LENGTH (js_trim value)"

definition normalizeSkillOptionLabel :: "string \<Rightarrow> string" where
  "normalizeSkillOptionLabel value = record_name SKILL_OPTION_LABEL_MAX_LENGTH value"

definition normalizeSkillOptionDescription :: "string \<Rightarrow> string" where
  "normalizeSkillOptionDescription value = record_name SKILL_OPTION_DESCRIPTION_MAX_LENGTH value"

definition createSkillNameKey :: "string \<Rightarrow> string" where
  "createSkillNameKey name = js_lower (normalizeSkillName name)"

definition skill_key :: "skill_record \<Rightarrow> string" where
  "skill_key skill = createSkillNameKey (sk_name skill)"

text \<open>The Korean letters of the pattern lie outside the modelled characters.\<close>

definition not_option_char :: "char \<Rightarrow> bool" where
  "not_option_char c = (let n = (of_char c :: nat) in \<not> (48 \<le> n \<and> n \<le> 57) \<and> \<not> (97 \<le> n \<and> n \<le> 122))"

definition createOptionRecordId :: "string \<Rightarrow> string option" where
  "createOptionRecordId label =
     (let baseId = js_slice0 48 (js_strip (CHR ''-'') (js_replace_runs not_option_char ''-'' (js_lower (js_trim label))))
      in if baseId = [] then None else Some baseId)"

text \<open>\<open>normalizeRecordId(item.id) ?? createOptionRecordId(label)\<close>\<close>

definition option_ident :: "js \<Rightarrow> string \<Rightarrow> string option" where
  "option_ident item label = (case normalizeRecordId (js_prop item ''id'') of Some i \<Rightarrow> Some i | None \<Rightarrow> createOptionRecordId label)"

fun skill_options_from :: "skill_option list \<Rightarrow> string set \<Rightarrow> js list \<Rightarrow> skill_option list" where
  "skill_options_from options seen [] = options"
| "skill_options_from options seen (item # items) =
     (let label = normalizeSkillOptionLabel (readTrimmedString (js_prop item ''label''));
          description = normalizeSkillOptionDescription (readTrimmedString (js_prop item ''description''))
      in if \<not> isObjectRecord item then skill_options_from options seen items
         else (case option_ident item label of
             None \<Rightarrow> skill_options_from options seen items
           | Some i \<Rightarrow>
               if label = [] \<or> i \<in> seen then skill_options_from options seen items
               else (let options' = options @ [\<lparr>so_id = i, so_label = label, so_description = description\<rparr>]
                     in if length options' \<ge> SKILL_OPTIONS_PER_GROUP_MAX_COUNT then options'
                        else skill_options_from options' (insert i seen) items)))"

definition normalizeSkillOptions :: "js \<Rightarrow> skill_option list" where
  "normalizeSkillOptions value = skill_options_from [] {} (js_elements value)"

fun skill_groups_from :: "skill_option_group list \<Rightarrow> string set \<Rightarrow> js list \<Rightarrow> skill_option_group list" where
  "skill_groups_from groups seen [] = groups"
| "skill_groups_from groups seen (item # items) =
     (let label = normalizeSkillOptionLabel (readTrimmedString (js_prop item ''label''));
          description = normalizeSkillOptionDescription (readTrimmedString (js_prop item ''description''));
          selectionMode = (if js_prop item ''selectionMode'' = JStr ''multiple'' then SelectMultiple else SelectSingle);
          options = normalizeSkillOptions (js_prop item ''options'')
      in if \<not> isObjectRecord item then skill_groups_from groups seen items
         else (case option_ident item label of
             None \<Rightarrow> skill_groups_from groups seen items
           | Some i \<Rightarrow>
               if label = [] \<or> options = [] \<or> i \<in> seen then skill_groups_from groups seen items
               else (let groups' = groups @ [\<lparr>sg_id = i, sg_label = label, sg_description = description,
                       sg_selectionMode = selectionMode, sg_options = options\<rparr>]
                     in if length groups' \<ge> SKILL_OPTION_GROUPS_MAX_COUNT then groups'
                        else skill_groups_from groups' (insert i seen) items)))"

definition normalizeSkillOptionGroups :: "js \<Rightarrow> skill_option_group list" where
  "normalizeSkillOptionGroups value = skill_groups_from [] {} (js_elements value)"

fun output_types_from :: "string list \<Rightarrow> js list \<Rightarrow> string list" where
  "output_types_from types [] = types"
| "output_types_from types (item # items) =
     (case item of
        JStr t \<Rightarrow>
          if t \<notin> set workduckSkillOutputTypeOptions then output_types_from types items
          else (let types' = (if t \<in> set types then types else types @ [t])
                in if length types' \<ge> SKILL_OUTPUT_TYPES_MAX_COUNT then types' else output_types_from types' items)
      | _ \<Rightarrow> output_types_from types items)"

definition normalizeSkillOutputTypes :: "js \<Rightarrow> string list" where
  "normalizeSkillOutputTypes value = output_types_from [] (js_elements value)"

definition normalizeSkillIds :: "js \<Rightarrow> string list" where
  "normalizeSkillIds value = evaluation_keys_from [] (js_elements value)"

definition getDefaultSkillOptionGroups :: "skill_record list \<Rightarrow> string option \<Rightarrow> skill_option_group list" where
  "getDefaultSkillOptionGroups catalogue skillId =
     (case skillId of
        None \<Rightarrow> []
      | Some i \<Rightarrow> (case List.find (\<lambda>d. sk_id d = i) catalogue of
            None \<Rightarrow> []
          | Some d \<Rightarrow> normalizeSkillOptionGroups (JArr (map option_group_js (sk_optionGroups d)))))"

definition parseSkillRecord :: "skill_record list \<Rightarrow> js \<Rightarrow> skill_record option" where
  "parseSkillRecord catalogue value =
     (if \<not> isObjectRecord value then None
      else (let name = normalizeSkillName (readTrimmedString (js_prop value ''name''));
                outputTypes = normalizeSkillOutputTypes (js_prop value ''outputTypes'');
                instructions = normalizeSkillInstructions (case js_prop value ''instructions'' of JStr s \<Rightarrow> s | _ \<Rightarrow> []);
                createdAt = readTrimmedString (js_prop value ''createdAt'');
                updatedAt = readTrimmedString (js_prop value ''updatedAt'')
            in (case normalizeRecordId (js_prop value ''id'') of
                  None \<Rightarrow> None
                | Some i \<Rightarrow>
                    if name = [] \<or> outputTypes = [] \<or> instructions = [] then None
                    else Some \<lparr>sk_id = i, sk_name = name,
                      sk_description = normalizeSkillDescription (readTrimmedString (js_prop value ''description'')),
                      sk_outputTypes = outputTypes, sk_instructions = instructions,
                      sk_optionGroups = (if js_is_array (js_prop value ''optionGroups'')
                        then normalizeSkillOptionGroups (js_prop value ''optionGroups'')
                        else getDefaultSkillOptionGroups catalogue (Some i)),
                      sk_createdAt = (if createdAt = [] then updatedAt else createdAt),
                      sk_updatedAt = (if updatedAt = [] then createdAt else updatedAt)\<rparr>)))"

definition sortSkills :: "(string \<Rightarrow> string \<Rightarrow> int) \<Rightarrow> skill_record list \<Rightarrow> skill_record list" where
  "sortSkills cmp skills = js_sort (\<lambda>left right. cmp (sk_name left) (sk_name right)) skills"

definition normalizeSkillRegistry ::
  "(string \<Rightarrow> string \<Rightarrow> int) \<Rightarrow> skill_record list \<Rightarrow> string \<Rightarrow> js \<Rightarrow> string \<Rightarrow> skill_registry" where
  "normalizeSkillRegistry cmp catalogue now value workspaceId =
     (if \<not> isObjectRecord value \<or> \<not> isSupportedSkillRegistryVersion (js_prop value ''version'')
      then createEmptySkillRegistry catalogue workspaceId now
      else if js_prop value ''workspaceId'' \<noteq> JStr workspaceId then createEmptySkillRegistry catalogue workspaceId now
      else
        \<lparr>sr_revision = normalizeRegistryRevision (js_prop value ''revision''),
         sr_workspaceId = workspaceId,
         sr_skills = sortSkills cmp
           (collect_named (parseSkillRecord catalogue) sk_id skill_key {} {}
              (map skill_js (getDefaultSkillsForRegistryVersion catalogue (js_prop value ''version''))
               @ js_elements (js_prop value ''skills''))),
         sr_updatedAt = readTrimmedString (js_prop value ''updatedAt'')\<rparr>)"

definition parseSkillRegistry ::
  "(string \<Rightarrow> string \<Rightarrow> int) \<Rightarrow> skill_record list \<Rightarrow> string \<Rightarrow> (string \<Rightarrow> js option) \<Rightarrow> string \<Rightarrow> string \<Rightarrow> skill_registry option" where
  "parseSkillRegistry cmp catalogue now json_parse serializedRegistry workspaceId =
     (case json_parse serializedRegistry of
        None \<Rightarrow> None
      | Some value \<Rightarrow>
          if \<not> isObjectRecord value \<or> \<not> isSupportedSkillRegistryVersion (js_prop value ''version'') \<or>
            js_prop value ''workspaceId'' \<noteq> JStr workspaceId \<or> \<not> js_is_array (js_prop value ''skills'') \<or>
            reference_revision (js_prop value ''revision'') = None
          then None
          else Some (normalizeSkillRegistry cmp catalogue now value workspaceId))"

definition normalized_skills :: "(string \<Rightarrow> string \<Rightarrow> int) \<Rightarrow> skill_record list \<Rightarrow> string \<Rightarrow> skill_registry \<Rightarrow> skill_registry" where
  "normalized_skills cmp catalogue now registry =
     normalizeSkillRegistry cmp catalogue now (skill_registry_js registry) (sr_workspaceId registry)"

definition getAllSkills :: "(string \<Rightarrow> string \<Rightarrow> int) \<Rightarrow> skill_record list \<Rightarrow> string \<Rightarrow> skill_registry \<Rightarrow> skill_record list" where
  "getAllSkills cmp catalogue now registry = sr_skills (normalized_skills cmp catalogue now registry)"

definition serializeSkillRegistry ::
  "(string \<Rightarrow> string \<Rightarrow> int) \<Rightarrow> skill_record list \<Rightarrow> string \<Rightarrow> (js \<Rightarrow> string) \<Rightarrow> skill_registry \<Rightarrow> string" where
  "serializeSkillRegistry cmp catalogue now stringify registry =
     stringify (skill_registry_js (normalized_skills cmp catalogue now registry))"

section \<open>Mutations\<close>

definition upsertSkill ::
  "(string \<Rightarrow> string \<Rightarrow> int) \<Rightarrow> skill_record list \<Rightarrow> skill_registry \<Rightarrow> skill_input \<Rightarrow> string \<Rightarrow> string \<Rightarrow>
   (skill_registry, skill_error) mutation" where
  "upsertSkill cmp catalogue registry input newId timestamp =
     (let r = normalized_skills cmp catalogue timestamp registry;
          skillId = normalizeRecordId (js_nullable (si_id input));
          name = normalizeSkillName (si_name input);
          outputTypes = normalizeSkillOutputTypes (JArr (map JStr (si_outputTypes input)));
          instructions = normalizeSkillInstructions (si_instructions input);
          optionGroups = normalizeSkillOptionGroups
            (JArr (map option_group_js (case si_optionGroups input of Some gs \<Rightarrow> gs | None \<Rightarrow> [])));
          matching = matching_named sk_id skillId (sr_skills r)
      in if name = [] then Err r skill_name_required
         else if outputTypes = [] then Err r skill_output_type_required
         else if instructions = [] then Err r skill_instructions_required
         else if \<exists>s \<in> set (sr_skills r). Some (sk_id s) \<noteq> skillId \<and> skill_key s = createSkillNameKey name
         then Err r skill_name_duplicate
         else if skillId \<noteq> None \<and> matching = None then Err r skill_not_found
         else Ok (r\<lparr>sr_skills := sortSkills cmp
                     (put_named sk_id matching
                        \<lparr>sk_id = (case skillId of Some i \<Rightarrow> i | None \<Rightarrow> newId), sk_name = name,
                         sk_description = normalizeSkillDescription (si_description input),
                         sk_outputTypes = outputTypes, sk_instructions = instructions, sk_optionGroups = optionGroups,
                         sk_createdAt = (case matching of Some m \<Rightarrow> sk_createdAt m | None \<Rightarrow> timestamp),
                         sk_updatedAt = timestamp\<rparr>
                        (sr_skills r)),
                   sr_updatedAt := timestamp\<rparr>))"

definition removeSkill ::
  "(string \<Rightarrow> string \<Rightarrow> int) \<Rightarrow> skill_record list \<Rightarrow> skill_registry \<Rightarrow> string \<Rightarrow> string \<Rightarrow> (skill_registry, skill_error) mutation" where
  "removeSkill cmp catalogue registry skillId timestamp =
     (let r = normalized_skills cmp catalogue timestamp registry in
      if \<not> (\<exists>s \<in> set (sr_skills r). sk_id s = skillId) then Err r skill_not_found
      else Ok (r\<lparr>sr_skills := filter (\<lambda>s. sk_id s \<noteq> skillId) (sr_skills r), sr_updatedAt := timestamp\<rparr>))"

end
