(* ===== verification/Library_Storage.thy ===== *)
theory Library_Storage
  imports Registry_Storage Persona_Registry Skill_Registry Terminal_Registry
begin

text \<open>
  The storage of personas, references, skills and terminal sessions: the shared storage of registries with
  the files, keys and parsers of each (\<open>src/lib/*/*-registry-storage.ts\<close>), and the write of agents and
  personas as one (\<open>src/lib/workspaces/workspace-registry-pair-storage.ts\<close>).
\<close>

section \<open>Reads and writes as a whole\<close>

text \<open>
  The replies of the native side are arguments, of the read and of the write that a read may make. A write
  that a read makes has the same workspace path, so it goes to the file as well.
\<close>

definition write_registry ::
  "(string \<Rightarrow> js option) \<Rightarrow> (js \<Rightarrow> string) \<Rightarrow> bool \<Rightarrow> 'r registry_kind \<Rightarrow> 'r \<Rightarrow> string \<Rightarrow> native_reply \<Rightarrow>
   'r browser_side \<Rightarrow> 'r browser_side \<times> 'r storage_result" where
  "write_registry json_parse stringify available kind registry workspacePath reply b =
     (if \<not> bs_window b then (b, registry, Some (rk_write_failed kind))
      else if uses_files available workspacePath then finish_registry_write kind registry reply b
      else write_without_files json_parse stringify kind registry b)"

definition read_registry ::
  "(string \<Rightarrow> js option) \<Rightarrow> (js \<Rightarrow> string) \<Rightarrow> bool \<Rightarrow> 'r registry_kind \<Rightarrow> string \<Rightarrow> string \<Rightarrow> native_reply \<Rightarrow> native_reply \<Rightarrow>
   'r browser_side \<Rightarrow> 'r browser_side \<times> 'r storage_result" where
  "read_registry json_parse stringify available kind workspaceId workspacePath read_reply write_reply b =
     (let legacy = readLegacyRegistry json_parse kind workspaceId b
      in if \<not> bs_window b then (b, rk_empty kind workspaceId, None)
         else if uses_files available workspacePath
         then (case finish_registry_read kind workspaceId legacy read_reply of
             Inl result \<Rightarrow> (b, result)
           | Inr registry \<Rightarrow> write_registry json_parse stringify available kind registry workspacePath write_reply b)
         else (b, legacy, None))"

section \<open>Kinds\<close>

definition persona_kind ::
  "(string \<Rightarrow> string \<Rightarrow> int) \<Rightarrow> (string \<Rightarrow> js_number) \<Rightarrow> (string \<Rightarrow> js option) \<Rightarrow> (js \<Rightarrow> string) \<Rightarrow> string \<Rightarrow> persona_registry registry_kind" where
  "persona_kind cmp parse_float json_parse stringify now =
     \<lparr>rk_empty = (\<lambda>workspaceId. createEmptyPersonaRegistry workspaceId now),
      rk_parse = parsePersonaRegistry cmp parse_float json_parse,
      rk_serialize = serializePersonaRegistry cmp parse_float stringify,
      rk_has_records = (\<lambda>r. pr_personas r \<noteq> []), rk_revision = pr_revision, rk_workspaceId = pr_workspaceId,
      rk_file = ''personas.json'', rk_storage_key = ''workduck.personaRegistries.v1'',
      rk_read_failed = ''persona-registry-storage-read-failed'', rk_write_failed = ''persona-registry-storage-write-failed''\<rparr>"

definition reference_kind ::
  "(string \<Rightarrow> string \<Rightarrow> int) \<Rightarrow> (string \<Rightarrow> string \<Rightarrow> int) \<Rightarrow> url_parser \<Rightarrow> (string \<Rightarrow> js option) \<Rightarrow> (js \<Rightarrow> string) \<Rightarrow> string \<Rightarrow>
   reference_registry registry_kind" where
  "reference_kind cmp_time cmp parse_url json_parse stringify now =
     \<lparr>rk_empty = (\<lambda>workspaceId. createEmptyReferenceRegistry workspaceId now),
      rk_parse = parseReferenceRegistry cmp_time cmp parse_url json_parse,
      rk_serialize = serializeReferenceRegistry cmp_time cmp parse_url stringify,
      rk_has_records = (\<lambda>r. rr_references r \<noteq> []), rk_revision = rr_revision, rk_workspaceId = rr_workspaceId,
      rk_file = ''references.json'', rk_storage_key = ''workduck.referenceRegistries.v1'',
      rk_read_failed = ''reference-registry-storage-read-failed'', rk_write_failed = ''reference-registry-storage-write-failed''\<rparr>"

definition skill_kind ::
  "(string \<Rightarrow> string \<Rightarrow> int) \<Rightarrow> skill_record list \<Rightarrow> (string \<Rightarrow> js option) \<Rightarrow> (js \<Rightarrow> string) \<Rightarrow> string \<Rightarrow> skill_registry registry_kind" where
  "skill_kind cmp catalogue json_parse stringify now =
     \<lparr>rk_empty = (\<lambda>workspaceId. createEmptySkillRegistry catalogue workspaceId now),
      rk_parse = parseSkillRegistry cmp catalogue now json_parse,
      rk_serialize = serializeSkillRegistry cmp catalogue now stringify,
      rk_has_records = (\<lambda>r. sr_skills r \<noteq> []), rk_revision = sr_revision, rk_workspaceId = sr_workspaceId,
      rk_file = ''skills.json'', rk_storage_key = ''workduck.skillRegistries.v1'',
      rk_read_failed = ''skill-registry-storage-read-failed'', rk_write_failed = ''skill-registry-storage-write-failed''\<rparr>"

section \<open>Agents\<close>

definition readAgentRegistry where
  "readAgentRegistry cmp parse_float json_parse stringify now available =
     read_registry json_parse stringify available (agent_kind cmp parse_float json_parse stringify now)"

definition writeAgentRegistry where
  "writeAgentRegistry cmp parse_float json_parse stringify now available =
     write_registry json_parse stringify available (agent_kind cmp parse_float json_parse stringify now)"

section \<open>Personas\<close>

definition readPersonaRegistry where
  "readPersonaRegistry cmp parse_float json_parse stringify now available =
     read_registry json_parse stringify available (persona_kind cmp parse_float json_parse stringify now)"

definition writePersonaRegistry where
  "writePersonaRegistry cmp parse_float json_parse stringify now available =
     write_registry json_parse stringify available (persona_kind cmp parse_float json_parse stringify now)"

definition persona_registry_changed where
  "persona_registry_changed cmp parse_float json_parse stringify now =
     handleRegistryChanged (persona_kind cmp parse_float json_parse stringify now)"

definition persona_storage_changed where
  "persona_storage_changed cmp parse_float json_parse stringify now =
     handleStorageChanged json_parse (persona_kind cmp parse_float json_parse stringify now)"

definition readLegacyPersonaRegistry where
  "readLegacyPersonaRegistry cmp parse_float json_parse stringify now =
     readLegacyRegistry json_parse (persona_kind cmp parse_float json_parse stringify now)"

definition writeLegacyPersonaRegistry where
  "writeLegacyPersonaRegistry cmp parse_float json_parse stringify now =
     writeLegacyRegistry json_parse stringify (persona_kind cmp parse_float json_parse stringify now)"

definition persona_storage_record where
  "persona_storage_record json_parse = readStorageRecord json_parse ''workduck.personaRegistries.v1''"

section \<open>References\<close>

definition readReferenceRegistry where
  "readReferenceRegistry cmp_time cmp parse_url json_parse stringify now available =
     read_registry json_parse stringify available (reference_kind cmp_time cmp parse_url json_parse stringify now)"

definition writeReferenceRegistry where
  "writeReferenceRegistry cmp_time cmp parse_url json_parse stringify now available =
     write_registry json_parse stringify available (reference_kind cmp_time cmp parse_url json_parse stringify now)"

definition reference_registry_changed where
  "reference_registry_changed cmp_time cmp parse_url json_parse stringify now =
     handleRegistryChanged (reference_kind cmp_time cmp parse_url json_parse stringify now)"

definition reference_storage_changed where
  "reference_storage_changed cmp_time cmp parse_url json_parse stringify now =
     handleStorageChanged json_parse (reference_kind cmp_time cmp parse_url json_parse stringify now)"

definition readLegacyReferenceRegistry where
  "readLegacyReferenceRegistry cmp_time cmp parse_url json_parse stringify now =
     readLegacyRegistry json_parse (reference_kind cmp_time cmp parse_url json_parse stringify now)"

definition writeLegacyReferenceRegistry where
  "writeLegacyReferenceRegistry cmp_time cmp parse_url json_parse stringify now =
     writeLegacyRegistry json_parse stringify (reference_kind cmp_time cmp parse_url json_parse stringify now)"

definition reference_storage_record where
  "reference_storage_record json_parse = readStorageRecord json_parse ''workduck.referenceRegistries.v1''"

section \<open>Skills\<close>

definition readSkillRegistry where
  "readSkillRegistry cmp catalogue json_parse stringify now available =
     read_registry json_parse stringify available (skill_kind cmp catalogue json_parse stringify now)"

definition writeSkillRegistry where
  "writeSkillRegistry cmp catalogue json_parse stringify now available =
     write_registry json_parse stringify available (skill_kind cmp catalogue json_parse stringify now)"

definition skill_registry_changed where
  "skill_registry_changed cmp catalogue json_parse stringify now =
     handleRegistryChanged (skill_kind cmp catalogue json_parse stringify now)"

definition skill_storage_changed where
  "skill_storage_changed cmp catalogue json_parse stringify now =
     handleStorageChanged json_parse (skill_kind cmp catalogue json_parse stringify now)"

definition readLegacySkillRegistry where
  "readLegacySkillRegistry cmp catalogue json_parse stringify now =
     readLegacyRegistry json_parse (skill_kind cmp catalogue json_parse stringify now)"

definition writeLegacySkillRegistry where
  "writeLegacySkillRegistry cmp catalogue json_parse stringify now =
     writeLegacyRegistry json_parse stringify (skill_kind cmp catalogue json_parse stringify now)"

definition skill_storage_record where
  "skill_storage_record json_parse = readStorageRecord json_parse ''workduck.skillRegistries.v1''"

section \<open>Terminal sessions\<close>

text \<open>Terminal sessions are kept in local storage only.\<close>

definition terminal_kind ::
  "(string \<Rightarrow> string \<Rightarrow> int) \<Rightarrow> (string \<Rightarrow> js option) \<Rightarrow> (js \<Rightarrow> string) \<Rightarrow> string \<Rightarrow> terminal_registry registry_kind" where
  "terminal_kind cmp json_parse stringify now =
     \<lparr>rk_empty = (\<lambda>workspaceId. createEmptyTerminalRegistry workspaceId now),
      rk_parse = parseTerminalRegistry cmp json_parse,
      rk_serialize = serializeTerminalRegistry cmp stringify,
      rk_has_records = (\<lambda>r. tr_sessions r \<noteq> []), rk_revision = (\<lambda>_. 0), rk_workspaceId = tr_workspaceId,
      rk_file = [], rk_storage_key = ''workduck.terminalRegistries.v1'',
      rk_read_failed = ''terminal-registry-storage-read-failed'', rk_write_failed = ''terminal-registry-storage-write-failed''\<rparr>"

definition readTerminalRegistry ::
  "(string \<Rightarrow> string \<Rightarrow> int) \<Rightarrow> (string \<Rightarrow> js option) \<Rightarrow> string \<Rightarrow> string \<Rightarrow> terminal_registry browser_side \<Rightarrow> terminal_registry storage_result" where
  "readTerminalRegistry cmp json_parse now workspaceId b =
     (let empty = createEmptyTerminalRegistry workspaceId now in
      if \<not> bs_window b then (empty, None)
      else (case map_of (readStorageRecord json_parse ''workduck.terminalRegistries.v1'' b) workspaceId of
          None \<Rightarrow> (empty, None)
        | Some serialized \<Rightarrow>
            (case parseTerminalRegistry cmp json_parse serialized workspaceId of
               None \<Rightarrow> (empty, Some ''terminal-registry-storage-read-failed'')
             | Some registry \<Rightarrow> (registry, None))))"

definition writeTerminalRegistry ::
  "(string \<Rightarrow> string \<Rightarrow> int) \<Rightarrow> (string \<Rightarrow> js option) \<Rightarrow> (js \<Rightarrow> string) \<Rightarrow> string \<Rightarrow> terminal_registry \<Rightarrow> terminal_registry browser_side \<Rightarrow>
   terminal_registry browser_side \<times> terminal_registry storage_result" where
  "writeTerminalRegistry cmp json_parse stringify now =
     write_without_files json_parse stringify (terminal_kind cmp json_parse stringify now)"

definition terminal_registry_changed where
  "terminal_registry_changed cmp json_parse stringify now = handleRegistryChanged (terminal_kind cmp json_parse stringify now)"

definition terminal_storage_changed ::
  "(string \<Rightarrow> string \<Rightarrow> int) \<Rightarrow> (string \<Rightarrow> js option) \<Rightarrow> string \<Rightarrow> string \<Rightarrow> bool \<Rightarrow> string option \<Rightarrow> terminal_registry browser_side \<Rightarrow>
   terminal_registry option" where
  "terminal_storage_changed cmp json_parse now workspaceId of_local_storage key b =
     (if \<not> of_local_storage \<or> key \<noteq> Some ''workduck.terminalRegistries.v1'' then None
      else Some (fst (readTerminalRegistry cmp json_parse now workspaceId b)))"

definition terminal_storage_record where
  "terminal_storage_record json_parse = readStorageRecord json_parse ''workduck.terminalRegistries.v1''"

section \<open>Agents and personas as one\<close>

text \<open>The browser side of both registries: one local storage, the announcements of each.\<close>

record pair_result =
  wp_agents :: agent_registry
  wp_personas :: persona_registry
  wp_error :: "string option"

definition writeWorkspaceRegistryPairStorage ::
  "(string \<Rightarrow> js option) \<Rightarrow> (js \<Rightarrow> string) \<Rightarrow> bool \<Rightarrow> agent_registry registry_kind \<Rightarrow> persona_registry registry_kind \<Rightarrow>
   agent_registry \<Rightarrow> persona_registry \<Rightarrow> string \<Rightarrow> native_reply \<Rightarrow> agent_registry browser_side \<Rightarrow> persona_registry list \<Rightarrow>
   agent_registry browser_side \<times> persona_registry list \<times> pair_result" where
  "writeWorkspaceRegistryPairStorage json_parse stringify available agentKind personaKind agents personas workspacePath reply b announced =
     (let side = (\<lambda>b announced. \<lparr>bs_window = bs_window b, bs_storage = bs_storage b, bs_writable = bs_writable b, bs_announced = announced\<rparr>)
      in if \<not> available
      then (case write_registry json_parse stringify available agentKind agents workspacePath NoBridge b of
          (b1, _, Some e) \<Rightarrow> (b1, announced, \<lparr>wp_agents = agents, wp_personas = personas, wp_error = Some e\<rparr>)
        | (b1, agents1, None) \<Rightarrow>
            (case write_registry json_parse stringify available personaKind personas workspacePath NoBridge (side b1 announced) of
               (b2, _, Some e) \<Rightarrow> (b1\<lparr>bs_storage := bs_storage b2\<rparr>, bs_announced b2, \<lparr>wp_agents = agents1, wp_personas = personas, wp_error = Some e\<rparr>)
             | (b2, personas1, None) \<Rightarrow>
                 (b1\<lparr>bs_storage := bs_storage b2\<rparr>, bs_announced b2, \<lparr>wp_agents = agents1, wp_personas = personas1, wp_error = None\<rparr>)))
      else (case writeWorkspaceRegistryPair reply of
          Inl e \<Rightarrow> (b, announced, \<lparr>wp_agents = agents, wp_personas = personas, wp_error = Some e\<rparr>)
        | Inr (agentsContent, personasContent) \<Rightarrow>
            (case (rk_parse agentKind agentsContent (rk_workspaceId agentKind agents),
                   rk_parse personaKind personasContent (rk_workspaceId personaKind personas)) of
               (Some agents1, Some personas1) \<Rightarrow>
                 (notifyRegistryChanged agents1 b, bs_announced (notifyRegistryChanged personas1 (side b announced)),
                  \<lparr>wp_agents = agents1, wp_personas = personas1, wp_error = None\<rparr>)
             | _ \<Rightarrow> (b, announced, \<lparr>wp_agents = agents, wp_personas = personas, wp_error = Some ''workspace-registry-pair-invalid''\<rparr>))))"

end
