(* ===== verification/Skill_Laws.thy ===== *)
theory Skill_Laws
  imports Skill_Registry Agent_Laws
begin

text \<open>
  What the operations on skills keep, and what becomes of the skills of an older registry.
\<close>

section \<open>Skills in order\<close>

definition skill_option_ok :: "skill_option \<Rightarrow> bool" where
  "skill_option_ok x \<longleftrightarrow> so_id x \<noteq> [] \<and> named_text SKILL_OPTION_LABEL_MAX_LENGTH (so_label x) \<and>
     length (so_description x) \<le> SKILL_OPTION_DESCRIPTION_MAX_LENGTH"

definition skill_options_ok :: "skill_option list \<Rightarrow> bool" where
  "skill_options_ok xs \<longleftrightarrow> length xs \<le> SKILL_OPTIONS_PER_GROUP_MAX_COUNT \<and> distinct (map so_id xs) \<and> list_all skill_option_ok xs"

definition skill_group_ok :: "skill_option_group \<Rightarrow> bool" where
  "skill_group_ok g \<longleftrightarrow> sg_id g \<noteq> [] \<and> named_text SKILL_OPTION_LABEL_MAX_LENGTH (sg_label g) \<and>
     length (sg_description g) \<le> SKILL_OPTION_DESCRIPTION_MAX_LENGTH \<and> sg_options g \<noteq> [] \<and> skill_options_ok (sg_options g)"

definition skill_groups_ok :: "skill_option_group list \<Rightarrow> bool" where
  "skill_groups_ok gs \<longleftrightarrow> length gs \<le> SKILL_OPTION_GROUPS_MAX_COUNT \<and> distinct (map sg_id gs) \<and> list_all skill_group_ok gs"

definition output_types_ok :: "string list \<Rightarrow> bool" where
  "output_types_ok ts \<longleftrightarrow> distinct ts \<and> set ts \<subseteq> set workduckSkillOutputTypeOptions"

definition skill_ok :: "skill_record \<Rightarrow> bool" where
  "skill_ok s \<longleftrightarrow> ident_ok (sk_id s) \<and> named_text SKILL_NAME_MAX_LENGTH (sk_name s) \<and>
     length (sk_description s) \<le> SKILL_DESCRIPTION_MAX_LENGTH \<and>
     sk_outputTypes s \<noteq> [] \<and> output_types_ok (sk_outputTypes s) \<and>
     sk_instructions s \<noteq> [] \<and> length (sk_instructions s) \<le> SKILL_INSTRUCTIONS_MAX_LENGTH \<and>
     skill_groups_ok (sk_optionGroups s) \<and> stamps_ok (sk_createdAt s) (sk_updatedAt s)"

definition skills_ok :: "skill_registry \<Rightarrow> bool" where
  "skills_ok r \<longleftrightarrow> named_ok sk_id skill_key skill_ok (sr_skills r)"

lemma skill_name_text: "normalizeSkillName s \<noteq> [] \<Longrightarrow> named_text SKILL_NAME_MAX_LENGTH (normalizeSkillName s)"
  unfolding normalizeSkillName_def by (rule record_name_text) (simp_all add: SKILL_NAME_MAX_LENGTH_def)

lemma option_label_text:
  "normalizeSkillOptionLabel s \<noteq> [] \<Longrightarrow> named_text SKILL_OPTION_LABEL_MAX_LENGTH (normalizeSkillOptionLabel s)"
  unfolding normalizeSkillOptionLabel_def by (rule record_name_text) (simp_all add: SKILL_OPTION_LABEL_MAX_LENGTH_def)

lemma skill_lengths:
  "length (normalizeSkillDescription s) \<le> SKILL_DESCRIPTION_MAX_LENGTH"
  "length (normalizeSkillInstructions s) \<le> SKILL_INSTRUCTIONS_MAX_LENGTH"
  "length (normalizeSkillOptionDescription s) \<le> SKILL_OPTION_DESCRIPTION_MAX_LENGTH"
  by (simp_all add: normalizeSkillDescription_def normalizeSkillInstructions_def normalizeSkillOptionDescription_def
      record_name_def js_slice0_def)

lemma option_ident_nonempty: "option_ident item label = Some i \<Longrightarrow> i \<noteq> []"
  by (auto simp: option_ident_def normalizeRecordId_def createOptionRecordId_def Let_def split: option.splits if_splits)

lemma output_types_from_ok: "output_types_ok ts \<Longrightarrow> output_types_ok (output_types_from ts items)"
proof (induction ts items rule: output_types_from.induct)
  case (2 ts item items)
  then show ?case by (cases item) (auto simp: Let_def output_types_ok_def)
qed simp

lemma output_types_normalized: "output_types_ok (normalizeSkillOutputTypes v)"
  unfolding normalizeSkillOutputTypes_def by (rule output_types_from_ok) (simp add: output_types_ok_def)

text \<open>
  The two loops that collect records with distinct identifiers up to a bound, seen as one: what one item gives,
  and the record it is put as.
\<close>

fun bounded_from :: "nat \<Rightarrow> (js \<Rightarrow> 'r option) \<Rightarrow> ('r \<Rightarrow> string) \<Rightarrow> 'r list \<Rightarrow> js list \<Rightarrow> 'r list" where
  "bounded_from n read ident rs [] = rs"
| "bounded_from n read ident rs (item # items) =
     (case read item of
        None \<Rightarrow> bounded_from n read ident rs items
      | Some r \<Rightarrow>
          if ident r \<in> ident ` set rs then bounded_from n read ident rs items
          else if length (rs @ [r]) \<ge> n then rs @ [r]
          else bounded_from n read ident (rs @ [r]) items)"

lemma bounded_from_ok:
  assumes "\<And>item r. read item = Some r \<Longrightarrow> good r"
  shows "length rs < n \<Longrightarrow> distinct (map ident rs) \<Longrightarrow> list_all good rs \<Longrightarrow>
    length (bounded_from n read ident rs items) \<le> n \<and> distinct (map ident (bounded_from n read ident rs items)) \<and>
    list_all good (bounded_from n read ident rs items)"
proof (induction items arbitrary: rs)
  case (Cons item items)
  show ?case
  proof (cases "read item")
    case (Some r)
    have good: "good r" using Some by (rule assms)
    show ?thesis
    proof (cases "ident r \<in> ident ` set rs \<or> length (rs @ [r]) \<ge> n")
      case True
      then show ?thesis using Some good Cons by auto
    next
      case False
      then show ?thesis using Some good Cons.IH [of "rs @ [r]"] Cons.prems by simp
    qed
  qed (use Cons in simp)
qed simp

definition read_option :: "js \<Rightarrow> skill_option option" where
  "read_option item =
     (let label = normalizeSkillOptionLabel (readTrimmedString (js_prop item ''label'')) in
      if \<not> isObjectRecord item \<or> label = [] then None
      else map_option (\<lambda>i. \<lparr>so_id = i, so_label = label,
        so_description = normalizeSkillOptionDescription (readTrimmedString (js_prop item ''description''))\<rparr>) (option_ident item label))"

definition read_group :: "js \<Rightarrow> skill_option_group option" where
  "read_group item =
     (let label = normalizeSkillOptionLabel (readTrimmedString (js_prop item ''label'')); options = normalizeSkillOptions (js_prop item ''options'') in
      if \<not> isObjectRecord item \<or> label = [] \<or> options = [] then None
      else map_option (\<lambda>i. \<lparr>sg_id = i, sg_label = label,
        sg_description = normalizeSkillOptionDescription (readTrimmedString (js_prop item ''description'')),
        sg_selectionMode = (if js_prop item ''selectionMode'' = JStr ''multiple'' then SelectMultiple else SelectSingle),
        sg_options = options\<rparr>) (option_ident item label))"

lemma skill_options_step:
  "skill_options_from options seen (item # items) =
     (case read_option item of
        None \<Rightarrow> skill_options_from options seen items
      | Some x \<Rightarrow>
          if so_id x \<in> seen then skill_options_from options seen items
          else if length (options @ [x]) \<ge> SKILL_OPTIONS_PER_GROUP_MAX_COUNT then options @ [x]
          else skill_options_from (options @ [x]) (insert (so_id x) seen) items)"
  by (simp add: read_option_def Let_def split: option.split)

lemma skill_groups_step:
  "skill_groups_from groups seen (item # items) =
     (case read_group item of
        None \<Rightarrow> skill_groups_from groups seen items
      | Some x \<Rightarrow>
          if sg_id x \<in> seen then skill_groups_from groups seen items
          else if length (groups @ [x]) \<ge> SKILL_OPTION_GROUPS_MAX_COUNT then groups @ [x]
          else skill_groups_from (groups @ [x]) (insert (sg_id x) seen) items)"
  by (simp add: read_group_def Let_def split: option.split)

lemma bounded_from_unique:
  assumes "\<And>rs seen. loop rs seen [] = rs"
    and "\<And>rs seen item items. loop rs seen (item # items) =
      (case read item of
         None \<Rightarrow> loop rs seen items
       | Some r \<Rightarrow> if ident r \<in> seen then loop rs seen items
           else if length (rs @ [r]) \<ge> n then rs @ [r] else loop (rs @ [r]) (insert (ident r) seen) items)"
  shows "loop rs (ident ` set rs) items = bounded_from n read ident rs items"
proof (induction items arbitrary: rs)
  case (Cons item items)
  have "loop (rs @ [r]) (insert (ident r) (ident ` set rs)) items = bounded_from n read ident (rs @ [r]) items" for r
    using Cons.IH [of "rs @ [r]"] by simp
  then show ?case using Cons.IH by (simp add: assms(2) split: option.split)
qed (simp add: assms(1))

lemmas skill_options_bounded = bounded_from_unique [where loop = skill_options_from and read = read_option and ident = so_id, OF skill_options_from.simps(1) skill_options_step]
lemmas skill_groups_bounded = bounded_from_unique [where loop = skill_groups_from and read = read_group and ident = sg_id, OF skill_groups_from.simps(1) skill_groups_step]

lemma read_option_ok: "read_option item = Some x \<Longrightarrow> skill_option_ok x"
  by (auto simp: read_option_def Let_def skill_option_ok_def option_label_text skill_lengths dest: option_ident_nonempty split: if_splits)

lemma options_normalized: "skill_options_ok (normalizeSkillOptions v)"
  using skill_options_bounded [of "[]"]
    bounded_from_ok [of read_option skill_option_ok "[]" SKILL_OPTIONS_PER_GROUP_MAX_COUNT so_id, OF read_option_ok]
  by (simp add: normalizeSkillOptions_def skill_options_ok_def SKILL_OPTIONS_PER_GROUP_MAX_COUNT_def)

lemma read_group_ok: "read_group item = Some g \<Longrightarrow> skill_group_ok g"
  by (auto simp: read_group_def Let_def skill_group_ok_def option_label_text skill_lengths options_normalized
      dest: option_ident_nonempty split: if_splits)

lemma groups_normalized: "skill_groups_ok (normalizeSkillOptionGroups v)"
  using skill_groups_bounded [of "[]"]
    bounded_from_ok [of read_group skill_group_ok "[]" SKILL_OPTION_GROUPS_MAX_COUNT sg_id, OF read_group_ok]
  by (simp add: normalizeSkillOptionGroups_def skill_groups_ok_def SKILL_OPTION_GROUPS_MAX_COUNT_def)

lemma default_groups_ok: "skill_groups_ok (getDefaultSkillOptionGroups catalogue i)"
  by (auto simp: getDefaultSkillOptionGroups_def groups_normalized split: option.split) (simp_all add: skill_groups_ok_def)

lemma parsed_skill_ok:
  assumes "parseSkillRecord catalogue v = Some s"
  shows "skill_ok s"
proof -
  obtain i where i: "normalizeRecordId (js_prop v ''id'') = Some i"
    and name: "normalizeSkillName (readTrimmedString (js_prop v ''name'')) \<noteq> []"
    using assms by (simp add: parseSkillRecord_def Let_def split: if_splits option.splits)
  then have s: "sk_id s = i" "sk_name s = normalizeSkillName (readTrimmedString (js_prop v ''name''))"
    "sk_description s = normalizeSkillDescription (readTrimmedString (js_prop v ''description''))"
    "sk_outputTypes s = normalizeSkillOutputTypes (js_prop v ''outputTypes'')"
    and types: "normalizeSkillOutputTypes (js_prop v ''outputTypes'') \<noteq> []"
    and body: "sk_instructions s \<noteq> []" "length (sk_instructions s) \<le> SKILL_INSTRUCTIONS_MAX_LENGTH"
    and groups: "skill_groups_ok (sk_optionGroups s)"
    and stamps: "stamps_ok (sk_createdAt s) (sk_updatedAt s)"
    using assms
    by (auto simp: parseSkillRecord_def Let_def stamps_ok_def skill_lengths groups_normalized default_groups_ok split: if_splits)
  show ?thesis
    unfolding skill_ok_def s
    using types body groups stamps skill_name_text [OF name] read_ident [OF i] by (simp add: skill_lengths output_types_normalized)
qed

lemma skill_js_props [simp]:
  "js_prop (skill_registry_js r) ''version'' = JInt SKILL_REGISTRY_VERSION"
  "js_prop (skill_registry_js r) ''revision'' = JInt (sr_revision r)"
  "js_prop (skill_registry_js r) ''workspaceId'' = JStr (sr_workspaceId r)"
  "js_prop (skill_registry_js r) ''skills'' = JArr (map skill_js (sr_skills r))"
  "js_prop (skill_registry_js r) ''updatedAt'' = JStr (sr_updatedAt r)"
  "isObjectRecord (skill_registry_js r)"
  by (simp_all add: skill_registry_js_def js_prop_def)

lemma normalized_skills_eq:
  "normalized_skills cmp catalogue now r =
     \<lparr>sr_revision = normalizeRegistryRevision (JInt (sr_revision r)), sr_workspaceId = sr_workspaceId r,
      sr_skills = sortSkills cmp (collect_named (parseSkillRecord catalogue) sk_id skill_key {} {} (map skill_js (sr_skills r))),
      sr_updatedAt = js_trim (sr_updatedAt r)\<rparr>"
  by (simp add: normalized_skills_def normalizeSkillRegistry_def isSupportedSkillRegistryVersion_def
      getDefaultSkillsForRegistryVersion_def SKILL_REGISTRY_VERSION_def)

lemma normalized_skills_ok [simp]: "skills_ok (normalized_skills cmp catalogue now r)"
  by (simp add: normalized_skills_eq skills_ok_def sortSkills_def named_intros parsed_skill_ok)

section \<open>Mutations\<close>

datatype skill_op = UpsertSkill skill_input string | RemoveSkill string

type_synonym timed_skill_op = "skill_op \<times> string"   \<comment> \<open>with the time\<close>

fun apply_skill_op ::
  "(string \<Rightarrow> string \<Rightarrow> int) \<Rightarrow> skill_record list \<Rightarrow> timed_skill_op \<Rightarrow> skill_registry \<Rightarrow> (skill_registry, skill_error) mutation" where
  "apply_skill_op cmp catalogue (UpsertSkill input newId, now) r = upsertSkill cmp catalogue r input newId now"
| "apply_skill_op cmp catalogue (RemoveSkill i, now) r = removeSkill cmp catalogue r i now"

fun skill_fresh :: "timed_skill_op \<Rightarrow> skill_registry \<Rightarrow> bool" where
  "skill_fresh (op, now) r \<longleftrightarrow> now \<noteq> [] \<and> trimmed now \<and>
     (case op of UpsertSkill input newId \<Rightarrow> ident_ok newId \<and> newId \<notin> sk_id ` set (sr_skills r) | _ \<Rightarrow> True)"

lemma upsert_skill_ok:
  assumes "upsertSkill cmp catalogue registry input newId now = Ok r'"
    and "ident_ok newId" and "newId \<notin> sk_id ` set (sr_skills (normalized_skills cmp catalogue now registry))"
    and now: "now \<noteq> []" "trimmed now"
  shows "skills_ok r'"
proof -
  define r where "r = normalized_skills cmp catalogue now registry"
  define i where "i = normalizeRecordId (js_nullable (si_id input))"
  define m where "m = matching_named sk_id i (sr_skills r)"
  define s where "s = \<lparr>sk_id = (case i of Some i \<Rightarrow> i | None \<Rightarrow> newId), sk_name = normalizeSkillName (si_name input),
    sk_description = normalizeSkillDescription (si_description input),
    sk_outputTypes = normalizeSkillOutputTypes (JArr (map JStr (si_outputTypes input))),
    sk_instructions = normalizeSkillInstructions (si_instructions input),
    sk_optionGroups = normalizeSkillOptionGroups (JArr (map option_group_js (case si_optionGroups input of Some gs \<Rightarrow> gs | None \<Rightarrow> []))),
    sk_createdAt = (case m of Some m \<Rightarrow> sk_createdAt m | None \<Rightarrow> now), sk_updatedAt = now\<rparr>"
  have r: "named_ok sk_id skill_key skill_ok (sr_skills r)"
    using normalized_skills_ok [of cmp catalogue now registry] by (simp add: r_def skills_ok_def)
  have ok: "sk_name s \<noteq> []" "sk_outputTypes s \<noteq> []" "sk_instructions s \<noteq> []"
    "\<not> (\<exists>x \<in> set (sr_skills r). Some (sk_id x) \<noteq> i \<and> skill_key x = skill_key s)" "i = None \<or> m \<noteq> None"
    and r': "r' = r\<lparr>sr_skills := sortSkills cmp (put_named sk_id m s (sr_skills r)), sr_updatedAt := now\<rparr>"
    using assms(1) unfolding upsertSkill_def Let_def r_def [symmetric] i_def [symmetric] m_def [symmetric] s_def [symmetric]
    by (auto simp: s_def skill_key_def split: if_splits)
  have "stamps_ok (sk_createdAt s) now"
    using now next_stamps [OF r, of sk_createdAt sk_updatedAt now i] by (simp add: s_def skill_ok_def m_def)
  moreover have "ident_ok (sk_id s)" using assms(2) by (auto simp: s_def i_def split: option.split)
  ultimately have "skill_ok s"
    using ok(1-3) skill_name_text
    by (simp add: skill_ok_def) (simp add: s_def skill_lengths output_types_normalized groups_normalized)
  then show ?thesis
    unfolding skills_ok_def r' sortSkills_def m_def
    using r ok(4,5) assms(3)
    by (simp, intro named_ok_upsert [where newId = newId]) (simp_all add: s_def r_def m_def)
qed

lemma skill_op_ok:
  "apply_skill_op cmp catalogue op r = Ok r' \<Longrightarrow> skill_fresh op (normalized_skills cmp catalogue (snd op) r) \<Longrightarrow> skills_ok r'"
  using normalized_skills_ok [of cmp catalogue "snd op" r]
  by (cases "(cmp, catalogue, op, r)" rule: apply_skill_op.cases)
    (auto simp: removeSkill_def Let_def skills_ok_def intro: upsert_skill_ok [unfolded skills_ok_def] named_ok_filter split: if_splits)

lemma skill_op_refused: "apply_skill_op cmp catalogue op r = Err r' e \<Longrightarrow> r' = normalized_skills cmp catalogue (snd op) r"
  by (cases "(cmp, catalogue, op, r)" rule: apply_skill_op.cases)
    (auto simp: upsertSkill_def removeSkill_def Let_def split: if_splits)

interpretation skills: healing_registry "\<lambda>op. normalized_skills cmp catalogue (snd op)" "apply_skill_op cmp catalogue" skill_fresh skills_ok
  for cmp catalogue
  by unfold_locales (auto dest: skill_op_ok skill_op_refused)

section \<open>Older registries\<close>

text \<open>What is collected first keeps its place.\<close>

lemma collect_named_first:
  assumes "\<And>raw r. raw \<in> set raws \<Longrightarrow> parse raw = Some r \<Longrightarrow> ident r \<notin> I \<and> key r \<notin> N"
    and "distinct (map ident (List.map_filter parse raws))" and "distinct (map key (List.map_filter parse raws))"
  shows "collect_named parse ident key I N (raws @ others) =
    List.map_filter parse raws @
      collect_named parse ident key (I \<union> ident ` set (List.map_filter parse raws)) (N \<union> key ` set (List.map_filter parse raws)) others"
  using assms
proof (induction raws arbitrary: I N)
  case (Cons raw raws)
  show ?case
  proof (cases "parse raw")
    case (Some r)
    have "collect_named parse ident key (insert (ident r) I) (insert (key r) N) (raws @ others) =
      List.map_filter parse raws @ collect_named parse ident key (insert (ident r) I \<union> ident ` set (List.map_filter parse raws))
        (insert (key r) N \<union> key ` set (List.map_filter parse raws)) others"
    proof (rule Cons.IH)
      fix x s assume "x \<in> set raws" "parse x = Some s"
      moreover then have "s \<in> set (List.map_filter parse raws)" by (force simp: map_filter_def)
      ultimately show "ident s \<notin> insert (ident r) I \<and> key s \<notin> insert (key r) N"
        using Cons.prems Some by (auto simp: map_filter_simps image_iff)
    qed (use Cons.prems Some in \<open>auto simp: map_filter_simps\<close>)
    then show ?thesis using Cons.prems(1) [of raw r] Some by (simp add: map_filter_simps)
  next
    case None
    have "collect_named parse ident key I N (raws @ others) =
      List.map_filter parse raws @ collect_named parse ident key (I \<union> ident ` set (List.map_filter parse raws))
        (N \<union> key ` set (List.map_filter parse raws)) others"
      by (rule Cons.IH) (use Cons.prems None in \<open>auto simp: map_filter_simps\<close>)
    then show ?thesis using None by (simp add: map_filter_simps)
  qed
qed (simp add: map_filter_simps)

lemma collected_not_seen:
  "r \<in> set (collect_named parse ident key I N raws) \<Longrightarrow> ident r \<notin> I \<and> key r \<notin> N"
  by (induction raws arbitrary: I N) (fastforce split: option.splits if_splits)+

end
