(* ===== verification/Library_Properties.thy ===== *)
theory Library_Properties
  imports Persona_Registry Reference_Registry Registry_Properties Skill_Laws
begin

text \<open>
  Properties of the personas and references of a workspace, each with an instance at a concrete registry.
\<close>

section \<open>Personas\<close>

text \<open>
  C19: After the synchronisation the evaluations of a persona are the sums over the agents that take it: as
  many evaluations, and for each criterion as many scores, as these agents have together.
\<close>

theorem persona_counts_its_agents:
  assumes "proper_sum add_sums" and "list_all (\<lambda>a. summary_ok (ag_evaluationSummary a)) agents"
    and "p \<in> set (pr_personas (syncPersonaEvaluationSummariesFromAgents cmp add_sums pf registry agents now))"
  shows "es_totalCount (pe_evaluationSummary p) = sum_list (map (\<lambda>a. es_totalCount (ag_evaluationSummary a)) (agents_of (pe_id p) agents)) \<and>
    ca_count (es_criteria (pe_evaluationSummary p) d) =
      sum_list (map (\<lambda>a. ca_count (es_criteria (ag_evaluationSummary a) d)) (agents_of (pe_id p) agents))"
proof -
  note p = synced_summary [OF assms(3,1)]
  have none: "map_summary Map.empty (pe_id p) = createEmptyAgentEvaluationSummary" by (simp add: map_summary_def)
  have "\<forall>a \<in> set agents. summary_ok (ag_evaluationSummary a)" using assms(2) by (simp add: list_all_iff)
  then show ?thesis
    using summary_map_totals [OF assms(1), of Map.empty agents "pe_id p" "pe_id ` set (pr_personas (normalized_personas cmp pf registry))" pf d] p
    by (simp add: createPersonaEvaluationSummaryMap_def none createEmptyAgentEvaluationSummary_def)
qed

text \<open>A sum that is exact on integers, and takes a fraction for the integer below it.\<close>

fun wit_sum :: "js_number \<Rightarrow> js_number \<Rightarrow> js_number" where
  "wit_sum (Inl m) (Inl n) = Inl (m + n)"
| "wit_sum (Inl m) (Inr (Fraction n)) = Inr (Fraction (m + n))"
| "wit_sum (Inr (Fraction m)) (Inl n) = Inr (Fraction (m + n))"
| "wit_sum (Inr (Fraction m)) (Inr (Fraction n)) = Inr (Fraction (m + n))"
| "wit_sum _ _ = Inr NotANumber"

lemma wit_sum_proper: "proper_sum wit_sum"
proof -
  have "sum_within x m \<longrightarrow> sum_within y n \<longrightarrow> sum_within (wit_sum x y) (m + n)" for x y m n
    by (cases "(x, y)" rule: wit_sum.cases) auto
  then show ?thesis by (simp add: proper_sum_def)
qed

definition wit_persona :: persona_record where
  "wit_persona = \<lparr>pe_id = ''p'', pe_name = ''P'', pe_description = [], pe_instructions = [],
     pe_spectrums = createDefaultPersonaSpectrumValues, pe_styles = createDefaultPersonaStyleValues,
     pe_evaluationSummary = createEmptyAgentEvaluationSummary, pe_createdAt = ''t'', pe_updatedAt = ''t''\<rparr>"

definition wit_personas :: persona_registry where
  "wit_personas = \<lparr>pr_revision = 0, pr_workspaceId = ''w'', pr_personas = [wit_persona], pr_updatedAt = ''t''\<rparr>"

definition wit_two :: evaluation_summary where
  "wit_two = \<lparr>es_totalCount = 2, es_criteria = (\<lambda>_. \<lparr>ca_count = 2, ca_scoreSum = Inl 10\<rparr>)\<rparr>"

definition wit_takers :: "agent_record list" where
  "wit_takers = [wit_agent\<lparr>ag_personaId := Some ''p'', ag_evaluationSummary := wit_two\<rparr>, wit_agent,
     wit_agent\<lparr>ag_personaId := Some ''p'', ag_evaluationSummary := wit_two\<rparr>]"

lemma wit_persona_parsed: "\<exists>x. parsePersonaRecord no_float (persona_js wit_persona) = Some x \<and> pe_id x = ''p''"
proof -
  have "normalizePersonaName ''P'' = ''P''" "normalizeRecordId (JStr ''p'') = Some ''p''" "readTrimmedString (JStr ''P'') = ''P''"
    by code_simp+
  then show ?thesis by (simp add: parsePersonaRecord_def persona_js_def js_prop_def wit_persona_def Let_def)
qed

lemma wit_personas_kept:
  "pe_id ` set (pr_personas (normalized_personas (\<lambda>_ _. 0) no_float wit_personas)) = {''p''} \<and>
   pr_personas (normalized_personas (\<lambda>_ _. 0) no_float wit_personas) \<noteq> []"
  using wit_persona_parsed
  by (auto simp: normalized_personas_eq wit_personas_def sortPersonas_def js_sort_def)

lemma sync_keeps_length:
  "length (pr_personas (syncPersonaEvaluationSummariesFromAgents cmp add_sums pf r agents now)) = length (pr_personas (normalized_personas cmp pf r))"
  by (simp add: syncPersonaEvaluationSummariesFromAgents_def Let_def sortPersonas_def)

lemma sync_keeps_personas:
  "pr_personas (normalized_personas cmp pf r) \<noteq> [] \<Longrightarrow> pr_personas (syncPersonaEvaluationSummariesFromAgents cmp add_sums pf r agents now) \<noteq> []"
  using sync_keeps_length [of cmp add_sums pf r agents now] by (metis length_0_conv)

theorem persona_counts_its_agents_witness:
  "es_totalCount (pe_evaluationSummary (hd (pr_personas (syncPersonaEvaluationSummariesFromAgents (\<lambda>_ _. 0) wit_sum no_float wit_personas wit_takers ''u'')))) = 4"
proof -
  have ok: "list_all (\<lambda>a. summary_ok (ag_evaluationSummary a)) wit_takers"
    by (simp add: wit_takers_def wit_agent_def summary_ok_def wit_two_def createEmptyAgentEvaluationSummary_def)
  define s where "s = syncPersonaEvaluationSummariesFromAgents (\<lambda>_ _. 0) wit_sum no_float wit_personas wit_takers ''u''"
  have hd: "hd (pr_personas s) \<in> set (pr_personas s)"
    unfolding s_def by (intro hd_in_set sync_keeps_personas) (simp add: wit_personas_kept)
  have "pe_id (hd (pr_personas s)) = ''p''"
    using synced_summary [OF hd [unfolded s_def] wit_sum_proper] wit_personas_kept by (simp add: s_def)
  then show ?thesis
    using persona_counts_its_agents [OF wit_sum_proper ok hd [unfolded s_def], THEN conjunct1] unfolding s_def [symmetric]
    by (simp add: agents_of_def wit_takers_def wit_agent_def wit_two_def)
qed

section \<open>References\<close>

text \<open>
  C22: Insertions and removals keep the references of a workspace in order: titles are unique, tags and links are
  within their bounds and without repetition, every reference has a source or a content, and a source is
  always a web address, also when they are refused and when the stored form held something else, as long as
  the generated identifiers are new.
\<close>

theorem reference_sources_are_web_addresses:
  assumes "fresh_along (\<lambda>op. normalized_references cmp_time cmp parse_url) (apply_reference_op cmp_time cmp parse_url)
      (reference_fresh parse_url) ops registry" and "ops \<noteq> []"
    and "0 \<le> rr_revision registry \<and> rr_revision registry \<le> MAX_SAFE_INTEGER"
  shows "references_ok (run_ops (apply_reference_op cmp_time cmp parse_url) ops registry)"
proof -
  define n where "n = normalized_references cmp_time cmp parse_url"
  obtain op rest where ops: "ops = op # rest" using assms(2) by (cases ops) auto
  have fresh: "reference_fresh parse_url op (n registry)"
    and later: "fresh_along (\<lambda>op. n) (apply_reference_op cmp_time cmp parse_url) (reference_fresh parse_url) rest
      (result_registry (apply_reference_op cmp_time cmp parse_url op registry))"
    using assms(1) by (simp_all add: ops n_def)
  have url: "proper_url parse_url" using fresh by (cases op) auto
  have "references_ok (n registry)" using url assms(3) by (simp add: n_def normalized_references_ok)
  then have "references_inv parse_url (result_registry (apply_reference_op cmp_time cmp parse_url op registry))"
    using fresh url unfolding n_def references_inv_def
    by (cases "apply_reference_op cmp_time cmp parse_url op registry") (auto dest: reference_op_ok reference_op_refused)
  then have "references_inv parse_url (run_ops (apply_reference_op cmp_time cmp parse_url) rest
      (result_registry (apply_reference_op cmp_time cmp parse_url op registry)))"
    using later unfolding n_def by (rule references.run_keeps)
  then show ?thesis by (simp add: ops references_inv_def)
qed

definition wit_parse_url :: url_parser where
  "wit_parse_url c = (if take 8 c = ''https://'' then Some (''https:'', c) else None)"

lemma wit_url_proper: "proper_url wit_parse_url"
proof -
  have "take 6 c = ''https:''" if "take 8 c = ''https://''" for c :: string
  proof -
    have "take 6 c = take 6 (take 8 c)" by simp
    then show ?thesis using that by simp
  qed
  then show ?thesis by (auto simp: proper_url_def wit_parse_url_def eval_nat_numeral)
qed

definition wit_references :: reference_registry where
  "wit_references = \<lparr>rr_revision = 0, rr_workspaceId = ''w'', rr_references = [], rr_updatedAt = ''t''\<rparr>"

definition wit_reference_ops :: "timed_reference_op list" where
  "wit_reference_ops =
     [(UpsertReference \<lparr>ri_id = None, ri_title = ''T'', ri_sourceUrl = ''a.b'', ri_tags = [''x''], ri_projectIds = [],
         ri_repositoryIds = [], ri_content = []\<rparr> ''r'', ''t'')]"

lemma wit_references_empty [simp]: "normalized_references (\<lambda>_ _. 0) (\<lambda>_ _. 0) wit_parse_url wit_references = wit_references"
  by (simp add: normalized_references_eq wit_references_def sortReferences_def js_sort_def js_trim_trimmed trimmed_def js_ws_def MAX_SAFE_INTEGER_def)

lemma wit_reference_texts:
  "normalizeReferenceTitle ''T'' = ''T''" "normalizeRecordId JNull = None" "js_trim ''a.b'' = ''a.b''" "has_scheme ''a.b'' = False"
  "validateAndNormalizeReferenceTags (JArr [JStr ''x'']) = Inr [''x'']" "js_trim [] = []"
  by code_simp+

theorem reference_sources_are_web_addresses_witness:
  "references_ok (run_ops (apply_reference_op (\<lambda>_ _. 0) (\<lambda>_ _. 0) wit_parse_url) wit_reference_ops wit_references) \<and>
   map rf_sourceUrl (rr_references (run_ops (apply_reference_op (\<lambda>_ _. 0) (\<lambda>_ _. 0) wit_parse_url) wit_reference_ops wit_references)) =
     [''https://a.b'']"
proof
  show "references_ok (run_ops (apply_reference_op (\<lambda>_ _. 0) (\<lambda>_ _. 0) wit_parse_url) wit_reference_ops wit_references)"
  proof (rule reference_sources_are_web_addresses)
    show "fresh_along (\<lambda>op. normalized_references (\<lambda>_ _. 0) (\<lambda>_ _. 0) wit_parse_url)
       (apply_reference_op (\<lambda>_ _. 0) (\<lambda>_ _. 0) wit_parse_url) (reference_fresh wit_parse_url) wit_reference_ops wit_references"
      using wit_url_proper by (simp add: wit_reference_ops_def ident_ok_def trimmed_def js_ws_def del: apply_reference_op.simps)
        (simp add: wit_references_def)
  qed (simp_all add: wit_reference_ops_def wit_references_def MAX_SAFE_INTEGER_def)
  have "normalizeReferenceSourceUrl wit_parse_url ''a.b'' = Some ''https://a.b''"
    by (simp add: normalizeReferenceSourceUrl_def wit_reference_texts js_slice0_def REFERENCE_SOURCE_URL_MAX_LENGTH_def
        createReferenceSourceUrlCandidates_def wit_parse_url_def)
  then show "map rf_sourceUrl (rr_references (run_ops (apply_reference_op (\<lambda>_ _. 0) (\<lambda>_ _. 0) wit_parse_url) wit_reference_ops wit_references)) =
     [''https://a.b'']"
    by (simp add: wit_reference_ops_def upsertReference_def Let_def js_nullable_def wit_reference_texts matching_named_def
        validateAndNormalizeReferenceContent_def put_named_def sortReferences_def js_sort_def)
      (simp add: wit_references_def)
qed

text \<open>
  An address without a scheme that fits the bound of stored sources can pass it by the scheme put before it:
  it is kept longer than the bound, and cut when the registry is read again.
\<close>

theorem long_reference_url_is_cut_on_reading:
  assumes "\<not> has_scheme s" and "js_trim s = s" and "s \<noteq> []"
    and "length s \<le> REFERENCE_SOURCE_URL_MAX_LENGTH" and "length s + 8 > REFERENCE_SOURCE_URL_MAX_LENGTH"
    and "js_trim (''https://'' @ s) = ''https://'' @ s"
    and "parse_url (''https://'' @ s) = Some (''https:'', ''https://'' @ s)"
    and "parse_url (take REFERENCE_SOURCE_URL_MAX_LENGTH (''https://'' @ s)) =
      Some (''https:'', take REFERENCE_SOURCE_URL_MAX_LENGTH (''https://'' @ s))"
  shows "normalizeReferenceSourceUrl parse_url s = Some (''https://'' @ s) \<and>
    normalizeReferenceSourceUrl parse_url (''https://'' @ s) = Some (take REFERENCE_SOURCE_URL_MAX_LENGTH (''https://'' @ s)) \<and>
    take REFERENCE_SOURCE_URL_MAX_LENGTH (''https://'' @ s) \<noteq> ''https://'' @ s"
proof -
  have "has_scheme (take REFERENCE_SOURCE_URL_MAX_LENGTH (''https://'' @ s))"
  proof -
    have "take REFERENCE_SOURCE_URL_MAX_LENGTH (''https://'' @ s) = ''https://'' @ take 2040 s"
      by (simp add: REFERENCE_SOURCE_URL_MAX_LENGTH_def)
    then show ?thesis by (simp add: has_scheme_def scheme_letter_def scheme_char_def js_lower_char_def is_digit_def Let_def)
  qed
  moreover have "take REFERENCE_SOURCE_URL_MAX_LENGTH (''https://'' @ s) \<noteq> ''https://'' @ s"
    using assms(5) by simp
  moreover have "take REFERENCE_SOURCE_URL_MAX_LENGTH (''https://'' @ s) \<noteq> []" by (simp add: REFERENCE_SOURCE_URL_MAX_LENGTH_def)
  ultimately show ?thesis
    using assms by (simp add: normalizeReferenceSourceUrl_def js_slice0_def createReferenceSourceUrlCandidates_def Let_def)
qed

lemma no_scheme_in_letters: "has_scheme (replicate n (CHR ''a'')) = False"
proof -
  have "dropWhile scheme_char (replicate m (CHR ''a'')) = []" for m
    by (simp add: scheme_char_def scheme_letter_def js_lower_char_def)
  then show ?thesis by (cases n) (simp_all add: has_scheme_def)
qed

lemma letters_trimmed: "trimmed (replicate n (CHR ''a''))" "trimmed (''https://'' @ replicate (Suc n) (CHR ''a''))"
  by (cases n) (simp_all add: trimmed_def js_ws_def last_append)

theorem long_reference_url_is_cut_on_reading_witness:
  "normalizeReferenceSourceUrl (\<lambda>c. Some (''https:'', c)) (replicate 2041 (CHR ''a'')) = Some (''https://'' @ replicate 2041 (CHR ''a''))"
proof -
  define s where "s = replicate 2041 (CHR ''a'')"
  have s: "\<not> has_scheme s" "s \<noteq> []" "length s = 2041" "trimmed s" "trimmed (''https://'' @ s)"
    using letters_trimmed(2) [of 2040] unfolding s_def
    by (simp_all add: no_scheme_in_letters letters_trimmed(1) numeral_nat del: append.simps replicate_Suc)
  have "normalizeReferenceSourceUrl (\<lambda>c. Some (''https:'', c)) s = Some (''https://'' @ s)"
    by (rule long_reference_url_is_cut_on_reading [THEN conjunct1])
      (use s in \<open>simp_all add: js_trim_trimmed REFERENCE_SOURCE_URL_MAX_LENGTH_def del: append.simps\<close>)
  then show ?thesis by (simp only: s_def)
qed

text \<open>
  Properties of the skills of a workspace, each with an instance at a concrete registry.
\<close>

text \<open>What is relied on of the catalogue: its skills, as they are read, do not repeat an identifier or a name.\<close>

definition read_defaults :: "skill_record list \<Rightarrow> js \<Rightarrow> skill_record list" where
  "read_defaults catalogue version =
     List.map_filter (parseSkillRecord catalogue) (map skill_js (getDefaultSkillsForRegistryVersion catalogue version))"

definition catalogue_ok :: "skill_record list \<Rightarrow> js \<Rightarrow> bool" where
  "catalogue_ok catalogue version \<longleftrightarrow>
     distinct (map sk_id (read_defaults catalogue version)) \<and> distinct (map skill_key (read_defaults catalogue version))"

lemma older_skills:
  assumes "catalogue_ok catalogue (js_prop value ''version'')" and "isObjectRecord value"
    and "isSupportedSkillRegistryVersion (js_prop value ''version'')" and "js_prop value ''workspaceId'' = JStr w"
  shows "sr_skills (normalizeSkillRegistry cmp catalogue now value w) = sortSkills cmp
    (read_defaults catalogue (js_prop value ''version'') @
     collect_named (parseSkillRecord catalogue) sk_id skill_key (sk_id ` set (read_defaults catalogue (js_prop value ''version'')))
       (skill_key ` set (read_defaults catalogue (js_prop value ''version''))) (js_elements (js_prop value ''skills'')))"
  using assms collect_named_first [of "map skill_js (getDefaultSkillsForRegistryVersion catalogue (js_prop value ''version''))"
      "parseSkillRecord catalogue" sk_id "{}" skill_key "{}" "js_elements (js_prop value ''skills'')"]
  by (simp add: normalizeSkillRegistry_def catalogue_ok_def read_defaults_def)

section \<open>Properties\<close>

text \<open>
  Whatever registry they are given, insertions and removals of skills leave one in which every skill has
  instructions and an output type, its option groups and options are within their bounds and not repeated,
  and no identifier and no name (by its key) occurs twice, also when they are refused, as long as the
  generated identifiers are new.
\<close>

theorem skill_mutations_repair:
  assumes "fresh_along (\<lambda>op. normalized_skills cmp catalogue (snd op)) (apply_skill_op cmp catalogue) skill_fresh ops registry"
    and "ops \<noteq> []"
  shows "skills_ok (run_ops (apply_skill_op cmp catalogue) ops registry)"
  by (rule skills.run_heals [OF assms])

text \<open>
  When an older registry is read, the built-in skills of its version take their places before the stored
  ones: each of them is there as the catalogue has it, and a stored skill with its identifier or its name,
  changed or one's own, is dropped.
\<close>

theorem older_registry_takes_defaults_first:
  assumes "catalogue_ok catalogue (js_prop value ''version'')" and "isObjectRecord value"
    and "isSupportedSkillRegistryVersion (js_prop value ''version'')" and "js_prop value ''workspaceId'' = JStr w"
    and "p \<in> set (read_defaults catalogue (js_prop value ''version''))"
  shows "p \<in> set (sr_skills (normalizeSkillRegistry cmp catalogue now value w)) \<and>
    filter (\<lambda>s. sk_id s = sk_id p \<or> skill_key s = skill_key p) (sr_skills (normalizeSkillRegistry cmp catalogue now value w)) = [p]"
proof -
  define skills where "skills = sr_skills (normalizeSkillRegistry cmp catalogue now value w)"
  have p: "p \<in> set skills" using older_skills [OF assms(1-4)] assms(5) by (simp add: skills_def sortSkills_def)
  have "named_ok sk_id skill_key skill_ok skills"
    using assms(2-4) unfolding skills_def by (simp add: normalizeSkillRegistry_def sortSkills_def named_intros parsed_skill_ok)
  then have d: "distinct (map sk_id skills)" "distinct (map skill_key skills)" by (simp_all add: named_ok_def)
  have same: "s = p" if "s \<in> set skills" "sk_id s = sk_id p \<or> skill_key s = skill_key p" for s
    using that p d distinct_map_eq by metis
  have "filter (\<lambda>s. sk_id s = sk_id p \<or> skill_key s = skill_key p) skills = filter ((=) p) skills"
    using same by (auto intro: filter_cong)
  also have "\<dots> = [p]" using p d(1) by (induction skills) (auto simp: filter_empty_conv)
  finally show ?thesis using p by (simp add: skills_def)
qed

definition wit_default_skill :: skill_record where
  "wit_default_skill = \<lparr>sk_id = ''workduck.skill.code-reviewer'', sk_name = ''Code reviewer'', sk_description = [],
     sk_outputTypes = [''revision''], sk_instructions = ''Review.'', sk_optionGroups = [], sk_createdAt = [], sk_updatedAt = []\<rparr>"

definition wit_own_skill :: skill_record where
  "wit_own_skill = \<lparr>sk_id = ''mine'', sk_name = ''code Reviewer'', sk_description = [], sk_outputTypes = [''writing''],
     sk_instructions = ''My own.'', sk_optionGroups = [], sk_createdAt = ''t'', sk_updatedAt = ''t''\<rparr>"

definition wit_old_registry :: js where
  "wit_old_registry = JObj [(''version'', JInt 2), (''workspaceId'', JStr ''w''), (''skills'', JArr [skill_js wit_own_skill])]"

definition wit_read_skill :: skill_record where
  "wit_read_skill = wit_default_skill\<lparr>sk_createdAt := DEFAULT_SKILL_TIMESTAMP, sk_updatedAt := DEFAULT_SKILL_TIMESTAMP\<rparr>"

lemma wit_skill_texts:
  "readTrimmedString (JStr ''Code reviewer'') = ''Code reviewer''" "readTrimmedString (JStr []) = []"
  "readTrimmedString (JStr DEFAULT_SKILL_TIMESTAMP) = DEFAULT_SKILL_TIMESTAMP"
  "js_trim ''Review.'' = ''Review.''" "normalizeRecordId (JStr ''workduck.skill.code-reviewer'') = Some ''workduck.skill.code-reviewer''"
  "normalizeSkillOutputTypes (JArr [JStr ''revision'']) = [''revision'']"
  "js_collapse_ws '' '' ''Code reviewer'' = ''Code reviewer''" "js_trim ''Code reviewer'' = ''Code reviewer''"
  by code_simp+

lemma wit_read_again: "parseSkillRecord c (skill_js wit_read_skill) = Some wit_read_skill"
  by (simp add: parseSkillRecord_def skill_js_def js_prop_def wit_read_skill_def wit_default_skill_def wit_skill_texts
      normalizeSkillName_def record_name_def js_slice0_def SKILL_NAME_MAX_LENGTH_def normalizeSkillInstructions_def
      SKILL_INSTRUCTIONS_MAX_LENGTH_def normalizeSkillDescription_def normalizeSkillOptionGroups_def)
    (simp_all add: DEFAULT_SKILL_TIMESTAMP_def js_trim_trimmed trimmed_def js_ws_def js_collapse_ws_def js_replace_runs_def Let_def)

lemma wit_defaults: "read_defaults [wit_default_skill] (JInt 2) = [wit_read_skill]"
proof -
  have "isWorkflowDefaultSkill (wit_default_skill\<lparr>sk_createdAt := t, sk_updatedAt := u\<rparr>)" for t u
    by (simp add: isWorkflowDefaultSkill_def wit_default_skill_def workflow_default_ids_def)
  then show ?thesis
    using wit_read_again by (simp add: read_defaults_def getDefaultSkillsForRegistryVersion_def getDefaultSkills_def map_filter_simps wit_read_skill_def)
qed

lemma wit_same_key: "skill_key wit_own_skill = skill_key wit_read_skill"
proof -
  have "js_collapse_ws '' '' ''code Reviewer'' = ''code Reviewer''" "js_trim ''code Reviewer'' = ''code Reviewer''"
    "js_lower ''Code reviewer'' = ''code reviewer''" "js_lower ''code Reviewer'' = ''code reviewer''"
    by code_simp+
  then show ?thesis
    by (simp add: skill_key_def createSkillNameKey_def normalizeSkillName_def record_name_def js_slice0_def SKILL_NAME_MAX_LENGTH_def
        wit_own_skill_def wit_read_skill_def wit_default_skill_def wit_skill_texts)
qed

theorem older_registry_takes_defaults_first_witness:
  "filter (\<lambda>s. sk_id s = sk_id wit_read_skill \<or> skill_key s = skill_key wit_own_skill)
     (sr_skills (normalizeSkillRegistry (\<lambda>_ _. 0) [wit_default_skill] ''t'' wit_old_registry ''w'')) = [wit_read_skill]"
proof -
  have v: "js_prop wit_old_registry ''version'' = JInt 2" "js_prop wit_old_registry ''workspaceId'' = JStr ''w''" "isObjectRecord wit_old_registry"
    by (simp_all add: wit_old_registry_def js_prop_def)
  show ?thesis
    unfolding wit_same_key
    by (rule older_registry_takes_defaults_first [THEN conjunct2])
      (simp_all add: v wit_defaults catalogue_ok_def isSupportedSkillRegistryVersion_def)
qed

definition wit_skills :: skill_registry where
  "wit_skills = \<lparr>sr_revision = 0, sr_workspaceId = ''w'', sr_skills = [], sr_updatedAt = ''t''\<rparr>"

definition wit_skill_ops :: "timed_skill_op list" where
  "wit_skill_ops =
     [(UpsertSkill \<lparr>si_id = None, si_name = ''Code reviewer'', si_description = [], si_outputTypes = [''revision''],
         si_instructions = ''Review.'', si_optionGroups = None\<rparr> ''n'', ''t''),
      (RemoveSkill ''x'', ''t'')]"

lemma wit_skills_empty [simp]: "sr_skills (normalized_skills cmp catalogue now wit_skills) = []"
  by (simp add: normalized_skills_eq wit_skills_def sortSkills_def js_sort_def)

theorem skill_mutations_repair_witness:
  "skills_ok (run_ops (apply_skill_op (\<lambda>_ _. 0) []) wit_skill_ops wit_skills) \<and>
   is_ok (apply_skill_op (\<lambda>_ _. 0) [] (hd wit_skill_ops) wit_skills)"
proof
  show "skills_ok (run_ops (apply_skill_op (\<lambda>_ _. 0) []) wit_skill_ops wit_skills)"
  proof (rule skill_mutations_repair)
    show "fresh_along (\<lambda>op. normalized_skills (\<lambda>_ _. 0) [] (snd op)) (apply_skill_op (\<lambda>_ _. 0) []) skill_fresh wit_skill_ops wit_skills"
      by (simp add: wit_skill_ops_def ident_ok_def trimmed_def js_ws_def del: apply_skill_op.simps)
  qed (simp add: wit_skill_ops_def)
  have "normalizeRecordId JNull = None" by code_simp
  then show "is_ok (apply_skill_op (\<lambda>_ _. 0) [] (hd wit_skill_ops) wit_skills)"
    by (simp add: wit_skill_ops_def upsertSkill_def Let_def js_nullable_def normalizeSkillName_def record_name_def js_slice0_def
        SKILL_NAME_MAX_LENGTH_def wit_skill_texts normalizeSkillInstructions_def SKILL_INSTRUCTIONS_MAX_LENGTH_def)
qed

end
