(* ===== verification/Stored_Registries.thy ===== *)
theory Stored_Registries
  imports Library_Storage Skill_Laws Library_Properties File_Properties
begin

text \<open>
  What the storage of registries promises, as one contract of all kinds: a registry written to local storage
  is what is read back, and the registries of other workspaces stay as they are.
\<close>

section \<open>The record in local storage\<close>

lemma distinct_concat_keys:
  assumes "\<And>p. map fst (f p) = [] \<or> map fst (f p) = [fst p]" and "distinct (map fst entries)"
  shows "distinct (map fst (concat (map f entries))) \<and> fst ` set (concat (map f entries)) \<subseteq> fst ` set entries"
  using assms(2)
proof (induction entries)
  case (Cons p entries)
  define tail where "tail = concat (map f entries)"
  have IH: "distinct (map fst tail)" "fst ` set tail \<subseteq> fst ` set entries" and new: "fst p \<notin> fst ` set entries"
    using Cons by (auto simp: tail_def)
  have head: "map fst (f p) = [] \<or> map fst (f p) = [fst p]" by (rule assms(1))
  have "distinct (map fst (f p @ tail)) \<and> set (map fst (f p @ tail)) \<subseteq> fst ` set (p # entries)"
    unfolding map_append using head IH new by (elim disjE) auto
  then show ?case by (simp add: tail_def del: map_append)
qed simp

lemma distinct_texts:
  "distinct (map fst entries) \<Longrightarrow> distinct (map fst (concat (map (\<lambda>(w, r). case r of JStr t \<Rightarrow> [(w, t)] | _ \<Rightarrow> []) entries)))"
  by (rule distinct_concat_keys [THEN conjunct1]) (auto split: js.splits)

lemma stored_distinct:
  assumes "faithful_json parse render"
  shows "distinct (map fst (readStorageRecord parse key b))"
proof (cases "bs_storage b key")
  case (Some text')
  show ?thesis
  proof (cases "parse text'")
    case v: (Some v)
    have json: "json_value v" using assms v by (rule faithful_value)
    show ?thesis
    proof (cases "js_prop v ''registries''")
      case (JObj entries)
      then obtain ps where "v = JObj ps" "(''registries'', JObj entries) \<in> set ps"
        by (cases v) (auto simp: js_prop_def split: option.splits dest: map_of_SomeD)
      then have "json_value (JObj entries)" using json by (force simp: list_all_iff)
      then show ?thesis using Some v JObj distinct_texts [of entries] by (simp add: readStorageRecord_def)
    qed (use Some v in \<open>simp_all add: readStorageRecord_def\<close>)
  qed (use Some in \<open>simp add: readStorageRecord_def\<close>)
qed (simp add: readStorageRecord_def)

lemma record_read_back:
  assumes "faithful_json parse render" and "distinct (map fst entries)" and "bs_window b"
    and "bs_storage b key = Some (render (storage_record_js entries))"
  shows "readStorageRecord parse key b = entries"
proof -
  have "json_value (storage_record_js entries)"
    using assms(2) by (auto simp: storage_record_js_def list_all_iff o_def case_prod_beta)
  moreover have "concat (map (\<lambda>(w, r). case r of JStr t \<Rightarrow> [(w, t)] | _ \<Rightarrow> []) (map (\<lambda>(w, t). (w, JStr t)) entries)) = entries"
    by (induction entries) auto
  ultimately show ?thesis
    using assms(1,3,4)
    by (simp add: readStorageRecord_def faithful_parse) (simp add: storage_record_js_def js_prop_def)
qed

section \<open>The contract\<close>

locale stored_registry =
  fixes json_parse :: "string \<Rightarrow> js option" and stringify :: "js \<Rightarrow> string" and kind :: "'r registry_kind"
    and storable :: "'r \<Rightarrow> bool" and again :: "'r \<Rightarrow> 'r"
  assumes json: "storable r \<Longrightarrow> faithful_json json_parse stringify"
    and read_back: "storable r \<Longrightarrow> rk_parse kind (rk_serialize kind r) (rk_workspaceId kind r) = Some (again r)"
begin

lemma local_write:
  assumes "storable r" and "write_without_files json_parse stringify kind r b = (b', saved, None)"
  shows "saved = r \<and> bs_announced b' = r # bs_announced b \<and> bs_window b' \<and> bs_window b \<and>
    readStorageRecord json_parse (rk_storage_key kind) b' =
      AList.update (rk_workspaceId kind r) (rk_serialize kind r) (readStorageRecord json_parse (rk_storage_key kind) b)"
proof -
  define next_record where "next_record = AList.update (rk_workspaceId kind r) (rk_serialize kind r) (readStorageRecord json_parse (rk_storage_key kind) b)"
  have w: "bs_window b" "saved = r"
    and b': "b' = b\<lparr>bs_storage := (bs_storage b)(rk_storage_key kind \<mapsto> stringify (storage_record_js next_record)), bs_announced := r # bs_announced b\<rparr>"
    using assms(2) unfolding write_without_files_def writeLegacyRegistry_def Let_def next_record_def [symmetric]
    by (auto simp: notifyRegistryChanged_def split: if_splits)
  have "distinct (map fst next_record)"
    unfolding next_record_def by (intro distinct_update stored_distinct [OF json [OF assms(1)]])
  then have "readStorageRecord json_parse (rk_storage_key kind) b' = next_record"
    by (rule record_read_back [OF json [OF assms(1)]]) (simp_all add: b' w(1))
  then show ?thesis using w by (simp add: b' next_record_def)
qed

lemma written_is_read:
  assumes "storable r" and "write_without_files json_parse stringify kind r b = (b', saved, None)"
  shows "read_without_files json_parse kind (rk_workspaceId kind r) b' = (again r, None)"
  using local_write [OF assms] read_back [OF assms(1)]
  by (simp add: read_without_files_def readLegacyRegistry_def update_conv')

lemma others_stay:
  assumes "storable r" and "write_without_files json_parse stringify kind r b = (b', saved, None)" and "w \<noteq> rk_workspaceId kind r"
  shows "read_without_files json_parse kind w b' = read_without_files json_parse kind w b"
  using local_write [OF assms(1,2)] assms(3) by (simp add: read_without_files_def readLegacyRegistry_def update_conv')

end

section \<open>The kinds keep it\<close>

lemma normalized_skills_js:
  "json_value (skill_registry_js (normalized_skills cmp catalogue now r))"
  by (auto simp: skill_registry_js_def skill_js_def option_group_js_def option_js_def list_all_iff)

interpretation stored_skills: stored_registry json_parse stringify "skill_kind cmp catalogue json_parse stringify now"
    "\<lambda>r. faithful_json json_parse stringify" "\<lambda>r. normalized_skills cmp catalogue now (normalized_skills cmp catalogue now r)"
  for json_parse stringify cmp catalogue now
proof unfold_locales
  fix r
  define n where "n = normalized_skills cmp catalogue now r"
  have n: "sr_workspaceId n = sr_workspaceId r" "reference_revision (JInt (sr_revision n)) \<noteq> None"
    by (simp_all add: n_def normalized_skills_eq normalizeRegistryRevision_def reference_revision_def MAX_SAFE_INTEGER_def)
  assume f: "faithful_json json_parse stringify"
  then have "json_parse (stringify (skill_registry_js n)) = Some (skill_registry_js n)"
    unfolding n_def by (rule faithful_parse) (rule normalized_skills_js)
  then show "rk_parse (skill_kind cmp catalogue json_parse stringify now) (rk_serialize (skill_kind cmp catalogue json_parse stringify now) r)
      (rk_workspaceId (skill_kind cmp catalogue json_parse stringify now) r) = Some (normalized_skills cmp catalogue now (normalized_skills cmp catalogue now r))"
    using n by (simp add: skill_kind_def serializeSkillRegistry_def parseSkillRegistry_def n_def [symmetric])
      (auto simp: isSupportedSkillRegistryVersion_def normalized_skills_def)
qed

interpretation stored_agents: stored_registry json_parse stringify "agent_kind cmp pf json_parse stringify now"
    "\<lambda>r. faithful_json json_parse stringify" "\<lambda>r. normalized_agents cmp pf (normalized_agents cmp pf r)"
  for json_parse stringify cmp pf now
proof unfold_locales
  fix r
  assume "faithful_json json_parse stringify"
  then have "json_parse (stringify (agent_registry_js (normalized_agents cmp pf r))) = Some (agent_registry_js (normalized_agents cmp pf r))"
    by (rule faithful_parse) (simp add: agents_json)
  moreover have "gr_workspaceId (normalized_agents cmp pf r) = gr_workspaceId r" by (simp add: normalized_agents_eq)
  ultimately show "rk_parse (agent_kind cmp pf json_parse stringify now) (rk_serialize (agent_kind cmp pf json_parse stringify now) r)
      (rk_workspaceId (agent_kind cmp pf json_parse stringify now) r) = Some (normalized_agents cmp pf (normalized_agents cmp pf r))"
    using normalize_agents_js [of cmp pf "normalized_agents cmp pf r"]
    by (simp add: agent_kind_def serializeAgentRegistry_def parseAgentRegistry_def)
qed

lemma pairs_json: "distinct (map fst xs) \<Longrightarrow> (\<And>x. json_value (f x)) \<Longrightarrow> json_value (JObj (map (apsnd f) xs))"
  by (auto simp: list_all_iff o_def)

lemma personas_json: "personas_ok r \<Longrightarrow> json_value (persona_registry_js r)"
proof -
  assume "personas_ok r"
  have "json_value (persona_js p)" if "persona_ok p" for p
  proof -
    have "map fst (pe_styles p) = map fst personaStyleDefinitions"
      using that by (auto simp: persona_ok_def styles_ok_def list_all2_conv_all_nth intro: nth_equalityI)
    then have "distinct (map fst (pe_styles p))" by (simp add: personaStyleDefinitions_def)
    moreover have "distinct (map fst (pe_spectrums p))" using that by (simp add: persona_ok_def spectrums_ok_def personaSpectrumDefinitions_def)
    moreover have "json_value (summary_js (pe_evaluationSummary p))" using that by (simp add: persona_ok_def summary_json)
    ultimately show ?thesis using pairs_json [of "pe_styles p" JStr] pairs_json [of "pe_spectrums p" JInt] by (simp add: persona_js_def del: map_map)
  qed
  then show ?thesis using \<open>personas_ok r\<close> by (auto simp: persona_registry_js_def personas_ok_def named_ok_def list_all_iff)
qed

interpretation stored_personas: stored_registry json_parse stringify "persona_kind cmp pf json_parse stringify now"
    "\<lambda>r. faithful_json json_parse stringify" "\<lambda>r. normalized_personas cmp pf (normalized_personas cmp pf r)"
  for json_parse stringify cmp pf now
proof unfold_locales
  fix r
  assume "faithful_json json_parse stringify"
  then have "json_parse (stringify (persona_registry_js (normalized_personas cmp pf r))) = Some (persona_registry_js (normalized_personas cmp pf r))"
    by (rule faithful_parse) (simp add: personas_json)
  moreover have "pr_workspaceId (normalized_personas cmp pf r) = pr_workspaceId r" by (simp add: normalized_personas_eq)
  moreover have "normalizePersonaRegistry cmp pf (persona_registry_js n) (pr_workspaceId n) = Some (normalized_personas cmp pf n)"
    if "n = normalized_personas cmp pf r" for n
    by (simp add: normalized_personas_def normalizePersonaRegistry_def)
  ultimately show "rk_parse (persona_kind cmp pf json_parse stringify now) (rk_serialize (persona_kind cmp pf json_parse stringify now) r)
      (rk_workspaceId (persona_kind cmp pf json_parse stringify now) r) = Some (normalized_personas cmp pf (normalized_personas cmp pf r))"
    by (simp add: persona_kind_def serializePersonaRegistry_def parsePersonaRegistry_def)
qed

interpretation stored_terminals: stored_registry json_parse stringify "terminal_kind cmp json_parse stringify now"
    "\<lambda>r. faithful_json json_parse stringify" "\<lambda>r. normalized_terminals cmp (normalized_terminals cmp r)"
  for json_parse stringify cmp now
proof unfold_locales
  fix r
  have json: "json_value (terminal_registry_js n)" for n
    by (auto simp: terminal_registry_js_def terminal_session_js_def list_all_iff)
  have norm: "normalizeTerminalRegistry cmp (terminal_registry_js n) (tr_workspaceId n) = Some (normalized_terminals cmp n)" for n
    by (simp add: normalized_terminals_def normalizeTerminalRegistry_def)
  assume "faithful_json json_parse stringify"
  then have "json_parse (stringify (terminal_registry_js (normalized_terminals cmp r))) = Some (terminal_registry_js (normalized_terminals cmp r))"
    by (rule faithful_parse) (rule json)
  moreover have "tr_workspaceId (normalized_terminals cmp r) = tr_workspaceId r" by (simp add: normalized_terminals_def normalizeTerminalRegistry_def)
  ultimately show "rk_parse (terminal_kind cmp json_parse stringify now) (rk_serialize (terminal_kind cmp json_parse stringify now) r)
      (rk_workspaceId (terminal_kind cmp json_parse stringify now) r) = Some (normalized_terminals cmp (normalized_terminals cmp r))"
    using norm [of "normalized_terminals cmp r"]
    by (simp add: terminal_kind_def serializeTerminalRegistry_def parseTerminalRegistry_def)
qed

interpretation stored_references: stored_registry json_parse stringify "reference_kind cmp_time cmp parse_url json_parse stringify now"
    "\<lambda>r. faithful_json json_parse stringify \<and> 0 \<le> rr_revision r \<and> rr_revision r \<le> MAX_SAFE_INTEGER"
    "\<lambda>r. normalized_references cmp_time cmp parse_url (normalized_references cmp_time cmp parse_url r)"
  for json_parse stringify cmp_time cmp parse_url now
proof unfold_locales
  fix r
  define n where "n = normalized_references cmp_time cmp parse_url r"
  have json: "json_value (reference_registry_js n)" by (auto simp: reference_registry_js_def reference_js_def list_all_iff)
  assume a: "faithful_json json_parse stringify \<and> 0 \<le> rr_revision r \<and> rr_revision r \<le> MAX_SAFE_INTEGER"
  then have n: "rr_workspaceId n = rr_workspaceId r" "rr_revision n = rr_revision r" by (simp_all add: n_def normalized_references_eq)
  have "json_parse (stringify (reference_registry_js n)) = Some (reference_registry_js n)" using a json by (simp add: faithful_parse)
  then have "parseReferenceRegistry cmp_time cmp parse_url json_parse (stringify (reference_registry_js n)) (rr_workspaceId r) =
      Some (normalized_references cmp_time cmp parse_url n)"
    using a n by (simp add: parseReferenceRegistry_def normalized_references_def normalizeReferenceRegistry_def reference_revision_def)
  then show "rk_parse (reference_kind cmp_time cmp parse_url json_parse stringify now)
      (rk_serialize (reference_kind cmp_time cmp parse_url json_parse stringify now) r)
      (rk_workspaceId (reference_kind cmp_time cmp parse_url json_parse stringify now) r) =
      Some (normalized_references cmp_time cmp parse_url (normalized_references cmp_time cmp parse_url r))"
    by (simp add: reference_kind_def serializeReferenceRegistry_def n_def)
qed simp

section \<open>Properties\<close>

lemma normalized_skill_ids: "sk_id ` set (sr_skills (normalized_skills cmp catalogue now r)) \<subseteq> js_trim ` sk_id ` set (sr_skills r)"
proof -
  have parsed: "sk_id s = js_trim (sk_id x)" if "parseSkillRecord catalogue (skill_js x) = Some s" for s x
    using that by (auto simp: parseSkillRecord_def skill_js_def js_prop_def normalizeRecordId_def Let_def split: if_splits)
  have "set (collect_named parse ident key I N raws) \<subseteq> {s. \<exists>raw \<in> set raws. parse raw = Some s}" for parse ident key I N raws
    by (induction raws arbitrary: I N) (auto split: option.splits if_splits)
  then show ?thesis using parsed by (fastforce simp: normalized_skills_eq sortSkills_def)
qed

text \<open>
  C21: A skill that was removed, built-in or not, stays removed: when the registry has been written to local
  storage, what is read back does not have it, and the skills of other workspaces are read as before.
\<close>

theorem removed_skill_stays_removed:
  assumes "faithful_json json_parse stringify" and "removeSkill cmp catalogue registry i now = Ok r"
    and "writeSkillRegistry cmp catalogue json_parse stringify now False r path reply b = (b', saved, None)"
  shows "\<exists>s. readSkillRegistry cmp catalogue json_parse stringify now False (sr_workspaceId registry) path reply1 reply2 b' = (b', s, None) \<and>
    i \<notin> sk_id ` set (sr_skills s) \<and>
    (\<forall>w. w \<noteq> sr_workspaceId registry \<longrightarrow>
      snd (readSkillRegistry cmp catalogue json_parse stringify now False w path reply1 reply2 b') =
      snd (readSkillRegistry cmp catalogue json_parse stringify now False w path reply1 reply2 b))"
proof -
  define kind where "kind = skill_kind cmp catalogue json_parse stringify now"
  have ws: "rk_workspaceId kind r = sr_workspaceId registry" and i: "i \<notin> sk_id ` set (sr_skills r)" and ok: "skills_ok r"
    using assms(2) normalized_skills_ok [of cmp catalogue now registry]
    by (auto simp: removeSkill_def Let_def kind_def skill_kind_def normalized_skills_eq skills_ok_def named_ok_filter split: if_splits)
  have w: "write_without_files json_parse stringify kind r b = (b', saved, None)" and window: "bs_window b"
    using assms(3) by (auto simp: writeSkillRegistry_def write_registry_def kind_def uses_files_def split: if_splits)
  have read: "readSkillRegistry cmp catalogue json_parse stringify now False w path reply1 reply2 c = (c, read_without_files json_parse kind w c)" for w c
    by (simp add: readSkillRegistry_def read_registry_def uses_files_def read_without_files_def kind_def)
  define s where "s = normalized_skills cmp catalogue now (normalized_skills cmp catalogue now r)"
  have trim: "js_trim ` sk_id ` set (sr_skills q) = sk_id ` set (sr_skills q)" if "skills_ok q" for q
    using that by (force simp: skills_ok_def named_ok_def skill_ok_def ident_ok_def js_trim_trimmed)
  have "sk_id ` set (sr_skills s) \<subseteq> sk_id ` set (sr_skills r)"
    using normalized_skill_ids [of cmp catalogue now r] normalized_skill_ids [of cmp catalogue now "normalized_skills cmp catalogue now r"]
      trim [OF ok] trim [of "normalized_skills cmp catalogue now r"] by (simp add: s_def)
  moreover have "read_without_files json_parse kind (sr_workspaceId registry) b' = (s, None)"
    using stored_skills.written_is_read [of json_parse stringify cmp catalogue now r, folded kind_def, OF assms(1) w] ws by (simp add: s_def)
  moreover have "read_without_files json_parse kind w b' = read_without_files json_parse kind w b" if "w \<noteq> sr_workspaceId registry" for w
    using stored_skills.others_stay [of json_parse stringify cmp catalogue now r, folded kind_def, OF assms(1) w] ws that by simp
  ultimately show ?thesis using i by (auto simp: read)
qed

definition wit_stored_skills :: skill_registry where
  "wit_stored_skills = \<lparr>sr_revision = 0, sr_workspaceId = ''w'', sr_skills = [wit_read_skill], sr_updatedAt = ''t''\<rparr>"

definition wit_window :: "skill_registry browser_side" where
  "wit_window = \<lparr>bs_window = True, bs_storage = Map.empty, bs_writable = True, bs_announced = []\<rparr>"

lemma wit_stored_normalized: "sr_skills (normalized_skills (\<lambda>_ _. 0) [wit_default_skill] ''t'' wit_stored_skills) = [wit_read_skill]"
  by (simp add: normalized_skills_eq wit_stored_skills_def wit_read_again sortSkills_def js_sort_def)

theorem removed_skill_stays_removed_witness:
  "\<exists>b' r s. removeSkill (\<lambda>_ _. 0) [wit_default_skill] wit_stored_skills ''workduck.skill.code-reviewer'' ''t'' = Ok r \<and>
     writeSkillRegistry (\<lambda>_ _. 0) [wit_default_skill] codec_parse put_js ''t'' False r [] NoBridge wit_window = (b', r, None) \<and>
     readSkillRegistry (\<lambda>_ _. 0) [wit_default_skill] codec_parse put_js ''t'' False ''w'' [] NoBridge NoBridge b' = (b', s, None) \<and>
     ''workduck.skill.code-reviewer'' \<notin> sk_id ` set (sr_skills s)"
proof -
  have "sk_id wit_read_skill = ''workduck.skill.code-reviewer''" by (simp add: wit_read_skill_def wit_default_skill_def)
  then obtain r where r: "removeSkill (\<lambda>_ _. 0) [wit_default_skill] wit_stored_skills ''workduck.skill.code-reviewer'' ''t'' = Ok r"
    by (simp add: removeSkill_def Let_def wit_stored_normalized)
  obtain b' where b': "writeSkillRegistry (\<lambda>_ _. 0) [wit_default_skill] codec_parse put_js ''t'' False r [] NoBridge wit_window = (b', r, None)"
    by (simp add: writeSkillRegistry_def write_registry_def uses_files_def write_without_files_def writeLegacyRegistry_def wit_window_def Let_def)
  have "sr_workspaceId wit_stored_skills = ''w''" by (simp add: wit_stored_skills_def)
  then show ?thesis
    using removed_skill_stays_removed [OF codec_faithful r b', of NoBridge NoBridge] r b' by auto
qed

end
