(* ===== verification/Brief_Registry.thy ===== *)
theory Brief_Registry
  imports Registry_Storage Agents Project_Normalization
begin

text \<open>
  The saved briefs of a workspace and their links to executions (\<open>src/lib/briefs/brief-registry.ts\<close>,
  \<open>brief-run-registry.ts\<close>) and their storage (\<open>brief-storage.ts\<close>, \<open>brief-run-storage.ts\<close>). Stored registries are
  checked as they are, and never repaired. \<open>Date.parse\<close> is an argument: the milliseconds, or nothing when the
  text is no date.
\<close>

section \<open>Briefs\<close>

definition BRIEF_TITLE_MAX_LENGTH :: nat where "BRIEF_TITLE_MAX_LENGTH = 120"

definition BRIEF_INSTRUCTIONS_MAX_LENGTH :: nat where "BRIEF_INSTRUCTIONS_MAX_LENGTH = 16000"

definition BRIEF_REGISTRY_MAX_COUNT :: nat where "BRIEF_REGISTRY_MAX_COUNT = 500"

record brief_choice =
  bc_project :: entity_ref
  bc_repository :: entity_ref
  bc_repositoryPath :: "string option"

record brief_draft = brief_choice +
  bd_id :: string
  bd_title :: string
  bd_instructions :: string

record brief_record =
  br_id :: string
  br_title :: string
  br_project :: entity_ref
  br_repository :: entity_ref
  br_repositoryPath :: "string option"
  br_instructions :: string
  br_archived :: bool
  br_createdAt :: string
  br_updatedAt :: string

record brief_registry =
  bs_revision :: int
  bs_workspaceId :: string
  bs_briefs :: "brief_record list"

type_synonym date_parser = "string \<Rightarrow> int option"

definition createEmptyBriefRegistry :: "string \<Rightarrow> brief_registry" where
  "createEmptyBriefRegistry workspaceId = \<lparr>bs_revision = 0, bs_workspaceId = workspaceId, bs_briefs = []\<rparr>"

subsection \<open>Checks of stored values\<close>

definition onlyKeys :: "js \<Rightarrow> string list \<Rightarrow> bool" where
  "onlyKeys v keys = (case v of JObj ps \<Rightarrow> list_all (\<lambda>p. fst p \<in> set keys) ps | _ \<Rightarrow> True)"

definition boundedString :: "js \<Rightarrow> nat \<Rightarrow> bool" where
  "boundedString v n = (case v of JStr s \<Rightarrow> js_trim s \<noteq> [] \<and> length s \<le> n | _ \<Rightarrow> False)"

definition validDate :: "date_parser \<Rightarrow> js \<Rightarrow> bool" where
  "validDate date_parse v = (case v of JStr s \<Rightarrow> length s \<le> 40 \<and> date_parse s \<noteq> None | _ \<Rightarrow> False)"

definition isRef :: "js \<Rightarrow> entity_kind \<Rightarrow> bool" where
  "isRef v kind \<longleftrightarrow> isObjectRecord v \<and> onlyKeys v [''kind'', ''id'', ''label''] \<and>
     js_prop v ''kind'' = JStr (kind_name kind) \<and> boundedString (js_prop v ''id'') 160 \<and> boundedString (js_prop v ''label'') 120"

definition isBriefRecord :: "date_parser \<Rightarrow> js \<Rightarrow> bool" where
  "isBriefRecord date_parse v \<longleftrightarrow> isObjectRecord v \<and>
     onlyKeys v [''id'', ''title'', ''project'', ''repository'', ''repositoryPath'', ''instructions'', ''archived'', ''createdAt'', ''updatedAt''] \<and>
     boundedString (js_prop v ''id'') 160 \<and> boundedString (js_prop v ''title'') BRIEF_TITLE_MAX_LENGTH \<and>
     isRef (js_prop v ''project'') KProject \<and> isRef (js_prop v ''repository'') KRepo \<and>
     (js_prop v ''repositoryPath'' = JNull \<or> boundedString (js_prop v ''repositoryPath'') 1024) \<and>
     boundedString (js_prop v ''instructions'') BRIEF_INSTRUCTIONS_MAX_LENGTH \<and>
     (js_prop v ''archived'' = JBool True \<or> js_prop v ''archived'' = JBool False) \<and>
     validDate date_parse (js_prop v ''createdAt'') \<and> validDate date_parse (js_prop v ''updatedAt'')"

text \<open>A checked value as a record, and a record as a value.\<close>

definition string_at :: "js \<Rightarrow> string \<Rightarrow> string" where
  "string_at v k = (case js_prop v k of JStr s \<Rightarrow> s | _ \<Rightarrow> [])"

definition ref_at :: "js \<Rightarrow> string \<Rightarrow> entity_kind \<Rightarrow> entity_ref" where
  "ref_at v k kind = \<lparr>ref_id = string_at (js_prop v k) ''id'', ref_kind = kind, ref_label = string_at (js_prop v k) ''label''\<rparr>"

definition brief_of :: "js \<Rightarrow> brief_record" where
  "brief_of v = \<lparr>br_id = string_at v ''id'', br_title = string_at v ''title'',
     br_project = ref_at v ''project'' KProject, br_repository = ref_at v ''repository'' KRepo,
     br_repositoryPath = (case js_prop v ''repositoryPath'' of JStr s \<Rightarrow> Some s | _ \<Rightarrow> None),
     br_instructions = string_at v ''instructions'', br_archived = (js_prop v ''archived'' = JBool True),
     br_createdAt = string_at v ''createdAt'', br_updatedAt = string_at v ''updatedAt''\<rparr>"

definition entity_ref_js :: "entity_ref \<Rightarrow> js" where
  "entity_ref_js r = JObj [(''kind'', JStr (kind_name (ref_kind r))), (''id'', JStr (ref_id r)), (''label'', JStr (ref_label r))]"

definition brief_js :: "brief_record \<Rightarrow> js" where
  "brief_js b = JObj [(''id'', JStr (br_id b)), (''title'', JStr (br_title b)), (''project'', entity_ref_js (br_project b)),
     (''repository'', entity_ref_js (br_repository b)), (''repositoryPath'', js_nullable (br_repositoryPath b)),
     (''instructions'', JStr (br_instructions b)), (''archived'', JBool (br_archived b)),
     (''createdAt'', JStr (br_createdAt b)), (''updatedAt'', JStr (br_updatedAt b))]"

definition brief_registry_js :: "brief_registry \<Rightarrow> js" where
  "brief_registry_js r = JObj [(''version'', JInt 1), (''revision'', JInt (bs_revision r)),
     (''workspaceId'', JStr (bs_workspaceId r)), (''briefs'', JArr (map brief_js (bs_briefs r)))]"

text \<open>\<open>Number.isSafeInteger(v) && v >= 0\<close>\<close>

definition is_revision :: "js \<Rightarrow> bool" where
  "is_revision v = (case v of JInt n \<Rightarrow> 0 \<le> n \<and> n \<le> MAX_SAFE_INTEGER | _ \<Rightarrow> False)"

definition int_at :: "js \<Rightarrow> string \<Rightarrow> int" where
  "int_at v k = (case js_prop v k of JInt n \<Rightarrow> n | _ \<Rightarrow> 0)"

definition parseBriefRegistry :: "date_parser \<Rightarrow> (string \<Rightarrow> js option) \<Rightarrow> string \<Rightarrow> string \<Rightarrow> brief_registry option" where
  "parseBriefRegistry date_parse json_parse content workspaceId =
     (case json_parse content of
        None \<Rightarrow> None
      | Some v \<Rightarrow>
          (let briefs = js_elements (js_prop v ''briefs'') in
           if \<not> isObjectRecord v \<or> \<not> onlyKeys v [''version'', ''revision'', ''workspaceId'', ''briefs''] \<or>
             js_prop v ''version'' \<noteq> JInt 1 \<or> js_prop v ''workspaceId'' \<noteq> JStr workspaceId \<or>
             \<not> is_revision (js_prop v ''revision'') \<or>
             \<not> js_is_array (js_prop v ''briefs'') \<or> length briefs > BRIEF_REGISTRY_MAX_COUNT \<or>
             \<not> list_all (isBriefRecord date_parse) briefs
           then None
           else if \<not> distinct (map (br_id \<circ> brief_of) briefs) then None
           else Some \<lparr>bs_revision = int_at v ''revision'', bs_workspaceId = workspaceId, bs_briefs = map brief_of briefs\<rparr>))"

subsection \<open>Changes\<close>

definition saveBriefDraft :: "date_parser \<Rightarrow> brief_registry \<Rightarrow> brief_draft \<Rightarrow> string \<Rightarrow> brief_registry option" where
  "saveBriefDraft date_parse registry draft now =
     (let existing = List.find (\<lambda>b. br_id b = bd_id draft) (bs_briefs registry);
          brief = \<lparr>br_id = bd_id draft, br_title = js_trim (bd_title draft), br_project = bc_project draft,
            br_repository = bc_repository draft, br_repositoryPath = bc_repositoryPath draft,
            br_instructions = js_trim (bd_instructions draft), br_archived = False,
            br_createdAt = (case existing of Some e \<Rightarrow> br_createdAt e | None \<Rightarrow> now), br_updatedAt = now\<rparr>
      in if (case existing of Some e \<Rightarrow> br_archived e | None \<Rightarrow> length (bs_briefs registry) \<ge> BRIEF_REGISTRY_MAX_COUNT) then None
         else if \<not> isBriefRecord date_parse (brief_js brief) then None
         else Some (registry\<lparr>bs_briefs :=
                (if existing \<noteq> None then map (\<lambda>item. if br_id item = br_id brief then brief else item) (bs_briefs registry)
                 else brief # bs_briefs registry)\<rparr>))"

definition setBriefArchived :: "brief_registry \<Rightarrow> string \<Rightarrow> bool \<Rightarrow> string \<Rightarrow> brief_registry" where
  "setBriefArchived registry i archived now =
     registry\<lparr>bs_briefs := map (\<lambda>b. if br_id b = i then b\<lparr>br_archived := archived, br_updatedAt := now\<rparr> else b) (bs_briefs registry)\<rparr>"

subsection \<open>Repositories to choose from\<close>

text \<open>
  The walk from a node to its project. The first argument bounds the steps; every step adds an identifier of
  the registry to the visited ones.
\<close>

fun owning_project :: "nat \<Rightarrow> (string \<rightharpoonup> project_node) \<Rightarrow> string set \<Rightarrow> project_node \<Rightarrow> project_node option" where
  "owning_project steps nodes visited project =
     (if node_kind project \<noteq> ProjectKind \<and> node_parentId project \<noteq> None \<and> node_id project \<notin> visited
      then (case (steps, nodes (the (node_parentId project))) of
          (Suc n, Some parent) \<Rightarrow> owning_project n nodes (insert (node_id project) visited) parent
        | _ \<Rightarrow> None)
      else if node_kind project \<noteq> ProjectKind then None else Some project)"

definition listBriefRepositoryChoices :: "project_registry \<Rightarrow> brief_choice list" where
  "listBriefRepositoryChoices registry =
     (let nodes = map_of (rev (map (\<lambda>node. (node_id node, node)) (reg_nodes registry)))
      in concat (map (\<lambda>node.
           case owning_project (length (reg_nodes registry)) nodes {} node of
             None \<Rightarrow> []
           | Some project \<Rightarrow> map (\<lambda>repository.
               \<lparr>bc_project = \<lparr>ref_id = node_id project, ref_kind = KProject, ref_label = node_name project\<rparr>,
                bc_repository = \<lparr>ref_id = repo_id repository, ref_kind = KRepo, ref_label = repo_name repository\<rparr>,
                bc_repositoryPath = repo_path repository\<rparr>) (node_repositories node)) (reg_nodes registry)))"

subsection \<open>Export\<close>

definition exportBriefForCodex :: "brief_record \<Rightarrow> brief_export" where
  "exportBriefForCodex brief =
     compileAgentBriefPromptExport
       \<lparr>bf_title = br_title brief, bf_project = br_project brief, bf_artifacts = [], bf_gates = [],
        bf_brief = Some \<lparr>ref_id = br_id brief, ref_kind = KAgentBrief, ref_label = br_title brief\<rparr>,
        bf_instructions = Some
          ([''Repository: '' @ ref_label (br_repository brief) @ '' (repo:'' @ ref_id (br_repository brief) @ '')'']
           @ (case br_repositoryPath brief of Some p \<Rightarrow> (if p = [] then [] else [''Repository path: '' @ p]) | None \<Rightarrow> [])
           @ [br_instructions brief])\<rparr> TargetCodex"

section \<open>Links to executions\<close>

datatype run_source_kind = FromRepositoryTask | FromQueueWorkOrder

fun source_kind_name :: "run_source_kind \<Rightarrow> string" where
  "source_kind_name FromRepositoryTask = ''repository-task''"
| "source_kind_name FromQueueWorkOrder = ''queue-work-order''"

record brief_run_link =
  bl_id :: string
  bl_brief :: brief_record
  bl_sourceKind :: run_source_kind
  bl_sourceId :: string
  bl_createdAt :: string

record brief_run_registry =
  bk_workspaceId :: string
  bk_revision :: int
  bk_links :: "brief_run_link list"

definition createEmptyBriefRunRegistry :: "string \<Rightarrow> brief_run_registry" where
  "createEmptyBriefRunRegistry workspaceId = \<lparr>bk_workspaceId = workspaceId, bk_revision = 0, bk_links = []\<rparr>"

definition isRunLink :: "date_parser \<Rightarrow> js \<Rightarrow> bool" where
  "isRunLink date_parse v \<longleftrightarrow> isObjectRecord v \<and> onlyKeys v [''id'', ''brief'', ''sourceKind'', ''sourceId'', ''createdAt''] \<and>
     boundedString (js_prop v ''id'') 160 \<and> isBriefRecord date_parse (js_prop v ''brief'') \<and>
     (js_prop v ''sourceKind'' = JStr ''repository-task'' \<or> js_prop v ''sourceKind'' = JStr ''queue-work-order'') \<and>
     boundedString (js_prop v ''sourceId'') 200 \<and> validDate date_parse (js_prop v ''createdAt'')"

definition link_of :: "js \<Rightarrow> brief_run_link" where
  "link_of v = \<lparr>bl_id = string_at v ''id'', bl_brief = brief_of (js_prop v ''brief''),
     bl_sourceKind = (if js_prop v ''sourceKind'' = JStr ''repository-task'' then FromRepositoryTask else FromQueueWorkOrder),
     bl_sourceId = string_at v ''sourceId'', bl_createdAt = string_at v ''createdAt''\<rparr>"

definition link_js :: "brief_run_link \<Rightarrow> js" where
  "link_js l = JObj [(''id'', JStr (bl_id l)), (''brief'', brief_js (bl_brief l)),
     (''sourceKind'', JStr (source_kind_name (bl_sourceKind l))), (''sourceId'', JStr (bl_sourceId l)),
     (''createdAt'', JStr (bl_createdAt l))]"

definition run_registry_js :: "brief_run_registry \<Rightarrow> js" where
  "run_registry_js r = JObj [(''version'', JInt 1), (''workspaceId'', JStr (bk_workspaceId r)),
     (''revision'', JInt (bk_revision r)), (''links'', JArr (map link_js (bk_links r)))]"

text \<open>The JSON text of an array of three strings stands for the strings.\<close>

definition linkKey :: "brief_run_link \<Rightarrow> string \<times> run_source_kind \<times> string" where
  "linkKey l = (br_id (bl_brief l), bl_sourceKind l, bl_sourceId l)"

definition parseBriefRunRegistry :: "date_parser \<Rightarrow> (string \<Rightarrow> js option) \<Rightarrow> string \<Rightarrow> string \<Rightarrow> brief_run_registry option" where
  "parseBriefRunRegistry date_parse json_parse content workspaceId =
     (case json_parse content of
        None \<Rightarrow> None
      | Some v \<Rightarrow>
          (let links = js_elements (js_prop v ''links'') in
           if \<not> isObjectRecord v \<or> js_prop v ''version'' \<noteq> JInt 1 \<or> js_prop v ''workspaceId'' \<noteq> JStr workspaceId \<or>
             \<not> onlyKeys v [''version'', ''workspaceId'', ''revision'', ''links''] \<or> \<not> is_revision (js_prop v ''revision'') \<or>
             \<not> js_is_array (js_prop v ''links'') \<or> length links > 200 \<or> \<not> list_all (isRunLink date_parse) links
           then None
           else if \<not> distinct (map (bl_id \<circ> link_of) links) \<or> \<not> distinct (map (linkKey \<circ> link_of) links) then None
           else Some \<lparr>bk_workspaceId = workspaceId, bk_revision = int_at v ''revision'', bk_links = map link_of links\<rparr>))"

definition addBriefRunLink :: "date_parser \<Rightarrow> brief_run_registry \<Rightarrow> brief_run_link \<Rightarrow> brief_run_registry option" where
  "addBriefRunLink date_parse registry link =
     (if \<not> isRunLink date_parse (link_js link) \<or> br_archived (bl_brief link) \<or> length (bk_links registry) \<ge> 200 then None
      else if \<exists>existing \<in> set (bk_links registry). bl_id existing = bl_id link \<or> linkKey existing = linkKey link then None
      else Some (registry\<lparr>bk_links := link # bk_links registry\<rparr>))"

definition removeBriefRunLink :: "brief_run_registry \<Rightarrow> string \<Rightarrow> brief_run_registry" where
  "removeBriefRunLink registry i = registry\<lparr>bk_links := filter (\<lambda>l. bl_id l \<noteq> i) (bk_links registry)\<rparr>"

section \<open>Storage\<close>

text \<open>The file, the expected revision and the content of the native write, when it is made.\<close>

definition brief_write_request ::
  "date_parser \<Rightarrow> (string \<Rightarrow> js option) \<Rightarrow> (js \<Rightarrow> string) \<Rightarrow> brief_registry \<Rightarrow> (string \<times> int \<times> string) option" where
  "brief_write_request date_parse json_parse stringify registry =
     (let content = stringify (brief_registry_js registry)
      in if parseBriefRegistry date_parse json_parse content (bs_workspaceId registry) = None then None
         else Some (''briefs.json'', bs_revision registry, content))"

definition readBriefRegistry :: "date_parser \<Rightarrow> (string \<Rightarrow> js option) \<Rightarrow> string \<Rightarrow> native_reply \<Rightarrow> string + brief_registry" where
  "readBriefRegistry date_parse json_parse workspaceId reply =
     (case readWorkspaceDataFile reply of
        Inl e \<Rightarrow> Inl e
      | Inr None \<Rightarrow> Inr (createEmptyBriefRegistry workspaceId)
      | Inr (Some content) \<Rightarrow>
          (case parseBriefRegistry date_parse json_parse content workspaceId of
             None \<Rightarrow> Inl ''brief-registry-invalid'' | Some registry \<Rightarrow> Inr registry))"

definition writeBriefRegistry ::
  "date_parser \<Rightarrow> (string \<Rightarrow> js option) \<Rightarrow> (js \<Rightarrow> string) \<Rightarrow> brief_registry \<Rightarrow> native_reply \<Rightarrow> string + brief_registry" where
  "writeBriefRegistry date_parse json_parse stringify registry reply =
     (if brief_write_request date_parse json_parse stringify registry = None then Inl ''brief-registry-invalid''
      else (case writeWorkspaceRegistryFile reply of
          Inl e \<Rightarrow> Inl e
        | Inr content \<Rightarrow>
            (case parseBriefRegistry date_parse json_parse content (bs_workspaceId registry) of
               None \<Rightarrow> Inl ''brief-registry-invalid''
             | Some persisted \<Rightarrow>
                 if bs_revision persisted \<noteq> bs_revision registry + 1 then Inl ''brief-registry-invalid'' else Inr persisted)))"

definition run_write_request ::
  "date_parser \<Rightarrow> (string \<Rightarrow> js option) \<Rightarrow> (js \<Rightarrow> string) \<Rightarrow> brief_run_registry \<Rightarrow> (string \<times> int \<times> string) option" where
  "run_write_request date_parse json_parse stringify registry =
     (let content = stringify (run_registry_js registry)
      in if parseBriefRunRegistry date_parse json_parse content (bk_workspaceId registry) = None then None
         else Some (''brief-runs.json'', bk_revision registry, content))"

definition readBriefRunRegistry :: "date_parser \<Rightarrow> (string \<Rightarrow> js option) \<Rightarrow> string \<Rightarrow> native_reply \<Rightarrow> string + brief_run_registry" where
  "readBriefRunRegistry date_parse json_parse workspaceId reply =
     (case readWorkspaceDataFile reply of
        Inl e \<Rightarrow> Inl e
      | Inr None \<Rightarrow> Inr (createEmptyBriefRunRegistry workspaceId)
      | Inr (Some content) \<Rightarrow>
          (case parseBriefRunRegistry date_parse json_parse content workspaceId of
             None \<Rightarrow> Inl ''brief-runs-invalid'' | Some registry \<Rightarrow> Inr registry))"

definition writeBriefRunRegistry ::
  "date_parser \<Rightarrow> (string \<Rightarrow> js option) \<Rightarrow> (js \<Rightarrow> string) \<Rightarrow> brief_run_registry \<Rightarrow> native_reply \<Rightarrow> string + brief_run_registry" where
  "writeBriefRunRegistry date_parse json_parse stringify registry reply =
     (if run_write_request date_parse json_parse stringify registry = None then Inl ''brief-runs-invalid''
      else (case writeWorkspaceRegistryFile reply of
          Inl e \<Rightarrow> Inl e
        | Inr content \<Rightarrow>
            (case parseBriefRunRegistry date_parse json_parse content (bk_workspaceId registry) of
               None \<Rightarrow> Inl ''brief-runs-invalid''
             | Some persisted \<Rightarrow>
                 if bk_revision persisted = bk_revision registry + 1 then Inr persisted else Inl ''brief-runs-invalid'')))"

end
