(* ===== verification/Brief_Laws.thy ===== *)
theory Brief_Laws
  imports Brief_Registry Js_Objects Registry_Contract
begin

text \<open>
  What the changes of briefs and of their links keep: the registry stays one that the strict parser accepts,
  and briefs keep their identity.
\<close>

section \<open>Values and records\<close>

lemma kind_name_inj: "kind_name a = kind_name b \<longleftrightarrow> a = b"
  by (cases a; cases b) simp_all

lemma entity_ref_js_props [simp]:
  "js_prop (entity_ref_js r) ''kind'' = JStr (kind_name (ref_kind r))" "js_prop (entity_ref_js r) ''id'' = JStr (ref_id r)"
  "js_prop (entity_ref_js r) ''label'' = JStr (ref_label r)" "isObjectRecord (entity_ref_js r)"
  "onlyKeys (entity_ref_js r) [''kind'', ''id'', ''label'']"
  by (simp_all add: entity_ref_js_def js_prop_def onlyKeys_def)

lemma brief_js_props [simp]:
  "js_prop (brief_js b) ''id'' = JStr (br_id b)" "js_prop (brief_js b) ''title'' = JStr (br_title b)"
  "js_prop (brief_js b) ''project'' = entity_ref_js (br_project b)" "js_prop (brief_js b) ''repository'' = entity_ref_js (br_repository b)"
  "js_prop (brief_js b) ''repositoryPath'' = js_nullable (br_repositoryPath b)"
  "js_prop (brief_js b) ''instructions'' = JStr (br_instructions b)" "js_prop (brief_js b) ''archived'' = JBool (br_archived b)"
  "js_prop (brief_js b) ''createdAt'' = JStr (br_createdAt b)" "js_prop (brief_js b) ''updatedAt'' = JStr (br_updatedAt b)"
  "isObjectRecord (brief_js b)"
  "onlyKeys (brief_js b) [''id'', ''title'', ''project'', ''repository'', ''repositoryPath'', ''instructions'', ''archived'', ''createdAt'', ''updatedAt'']"
  by (simp_all add: brief_js_def js_prop_def onlyKeys_def)

lemma link_js_props [simp]:
  "js_prop (link_js l) ''id'' = JStr (bl_id l)" "js_prop (link_js l) ''brief'' = brief_js (bl_brief l)"
  "js_prop (link_js l) ''sourceKind'' = JStr (source_kind_name (bl_sourceKind l))"
  "js_prop (link_js l) ''sourceId'' = JStr (bl_sourceId l)" "js_prop (link_js l) ''createdAt'' = JStr (bl_createdAt l)"
  "isObjectRecord (link_js l)" "onlyKeys (link_js l) [''id'', ''brief'', ''sourceKind'', ''sourceId'', ''createdAt'']"
  by (simp_all add: link_js_def js_prop_def onlyKeys_def)

text \<open>Every value that passes the checks is the value of its record.\<close>

lemma bounded_at: "boundedString (js_prop v k) n \<Longrightarrow> boundedString (JStr (string_at v k)) n"
  by (cases "js_prop v k") (simp_all add: boundedString_def string_at_def)

lemma date_at: "validDate d (js_prop v k) \<Longrightarrow> validDate d (JStr (string_at v k))"
  by (cases "js_prop v k") (simp_all add: validDate_def string_at_def)

lemma ref_again: "isRef (js_prop v k) kind \<Longrightarrow> isRef (entity_ref_js (ref_at v k kind)) kind"
  unfolding isRef_def by (simp add: ref_at_def bounded_at)

lemma path_at:
  assumes "js_prop v k = JNull \<or> boundedString (js_prop v k) n"
  shows "js_nullable (case js_prop v k of JStr s \<Rightarrow> Some s | _ \<Rightarrow> None) = js_prop v k"
  using assms by (cases "js_prop v k") (simp_all add: boundedString_def js_nullable_def)

lemma brief_fields:
  "br_id (brief_of v) = string_at v ''id''" "br_title (brief_of v) = string_at v ''title''"
  "br_project (brief_of v) = ref_at v ''project'' KProject" "br_repository (brief_of v) = ref_at v ''repository'' KRepo"
  "br_repositoryPath (brief_of v) = (case js_prop v ''repositoryPath'' of JStr s \<Rightarrow> Some s | _ \<Rightarrow> None)"
  "br_instructions (brief_of v) = string_at v ''instructions''" "br_archived (brief_of v) = (js_prop v ''archived'' = JBool True)"
  "br_createdAt (brief_of v) = string_at v ''createdAt''" "br_updatedAt (brief_of v) = string_at v ''updatedAt''"
  by (simp_all add: brief_of_def)

lemma brief_again:
  assumes "isBriefRecord d v"
  shows "isBriefRecord d (brief_js (brief_of v))"
proof -
  have v: "boundedString (js_prop v ''id'') 160" "boundedString (js_prop v ''title'') BRIEF_TITLE_MAX_LENGTH"
    "isRef (js_prop v ''project'') KProject" "isRef (js_prop v ''repository'') KRepo"
    "js_prop v ''repositoryPath'' = JNull \<or> boundedString (js_prop v ''repositoryPath'') 1024"
    "boundedString (js_prop v ''instructions'') BRIEF_INSTRUCTIONS_MAX_LENGTH"
    "validDate d (js_prop v ''createdAt'')" "validDate d (js_prop v ''updatedAt'')"
    using assms by (simp_all add: isBriefRecord_def)
  show ?thesis
    unfolding isBriefRecord_def brief_js_props brief_fields path_at [OF v(5)]
    using v(5) by (simp add: v bounded_at date_at ref_again)
qed

lemma link_again:
  assumes "isRunLink d v"
  shows "isRunLink d (link_js (link_of v))"
proof -
  have v: "boundedString (js_prop v ''id'') 160" "isBriefRecord d (js_prop v ''brief'')" "boundedString (js_prop v ''sourceId'') 200"
    "validDate d (js_prop v ''createdAt'')"
    using assms by (simp_all add: isRunLink_def)
  show ?thesis
    unfolding isRunLink_def link_js_props by (simp add: link_of_def v bounded_at date_at brief_again)
qed

lemma ref_of_js: "isRef (entity_ref_js r) kind \<Longrightarrow> js_prop v k = entity_ref_js r \<Longrightarrow> ref_at v k kind = r"
  by (auto simp: isRef_def ref_at_def string_at_def kind_name_inj)

lemma brief_of_js: "isBriefRecord d (brief_js b) \<Longrightarrow> brief_of (brief_js b) = b"
  by (cases "br_repositoryPath b")
    (auto simp: isBriefRecord_def brief_of_def ref_of_js string_at_def js_nullable_def intro!: brief_record.equality)

lemma link_of_js: "isRunLink d (link_js l) \<Longrightarrow> link_of (link_js l) = l"
  by (cases "bl_sourceKind l") (auto simp: isRunLink_def link_of_def string_at_def dest: brief_of_js intro!: brief_run_link.equality)

lemma entity_ref_json [simp]: "json_value (entity_ref_js r)"
  by (simp add: entity_ref_js_def)

lemma brief_json [simp]: "json_value (brief_js b)"
  by (cases "br_repositoryPath b") (simp_all add: brief_js_def js_nullable_def)

lemma link_json [simp]: "json_value (link_js l)"
  by (simp add: link_js_def)

section \<open>Registries in order\<close>

definition briefs_ok :: "date_parser \<Rightarrow> brief_registry \<Rightarrow> bool" where
  "briefs_ok d r \<longleftrightarrow> is_revision (JInt (bs_revision r)) \<and> length (bs_briefs r) \<le> BRIEF_REGISTRY_MAX_COUNT \<and>
     list_all (\<lambda>b. isBriefRecord d (brief_js b)) (bs_briefs r) \<and> distinct (map br_id (bs_briefs r))"

definition links_ok :: "date_parser \<Rightarrow> brief_run_registry \<Rightarrow> bool" where
  "links_ok d r \<longleftrightarrow> is_revision (JInt (bk_revision r)) \<and> length (bk_links r) \<le> 200 \<and>
     list_all (\<lambda>l. isRunLink d (link_js l)) (bk_links r) \<and> distinct (map bl_id (bk_links r)) \<and> distinct (map linkKey (bk_links r))"

lemma parsed_briefs_ok: "parseBriefRegistry d parse content w = Some r \<Longrightarrow> briefs_ok d r \<and> bs_workspaceId r = w"
  by (auto simp: parseBriefRegistry_def Let_def briefs_ok_def list_all_iff brief_again int_at_def is_revision_def o_def
      split: option.splits if_splits js.splits)

lemma parsed_links_ok: "parseBriefRunRegistry d parse content w = Some r \<Longrightarrow> links_ok d r \<and> bk_workspaceId r = w"
  by (auto simp: parseBriefRunRegistry_def Let_def links_ok_def list_all_iff link_again int_at_def is_revision_def o_def
      split: option.splits if_splits js.splits)

lemma briefs_read_back:
  assumes "faithful_json parse render" and "briefs_ok d r"
  shows "parseBriefRegistry d parse (render (brief_registry_js r)) (bs_workspaceId r) = Some r"
proof -
  have "json_value (brief_registry_js r)" by (auto simp: brief_registry_js_def list_all_iff)
  then have "parse (render (brief_registry_js r)) = Some (brief_registry_js r)" using assms(1) by (simp add: faithful_parse)
  moreover have "map brief_of (map brief_js (bs_briefs r)) = bs_briefs r"
    using assms(2) by (auto simp: briefs_ok_def list_all_iff intro!: map_idI brief_of_js)
  moreover from this have "map (br_id \<circ> brief_of) (map brief_js (bs_briefs r)) = map br_id (bs_briefs r)"
    by (metis map_map)
  ultimately show ?thesis
    using assms(2) unfolding parseBriefRegistry_def
    by (simp add: brief_registry_js_def js_prop_def onlyKeys_def briefs_ok_def int_at_def list_all_iff Let_def del: map_map)
qed

lemma links_read_back:
  assumes "faithful_json parse render" and "links_ok d r"
  shows "parseBriefRunRegistry d parse (render (run_registry_js r)) (bk_workspaceId r) = Some r"
proof -
  have "json_value (run_registry_js r)" by (auto simp: run_registry_js_def list_all_iff)
  then have "parse (render (run_registry_js r)) = Some (run_registry_js r)" using assms(1) by (simp add: faithful_parse)
  moreover have links: "map link_of (map link_js (bk_links r)) = bk_links r"
    using assms(2) by (auto simp: links_ok_def list_all_iff intro!: map_idI link_of_js)
  moreover have "map (bl_id \<circ> link_of) (map link_js (bk_links r)) = map bl_id (bk_links r)"
    "map (linkKey \<circ> link_of) (map link_js (bk_links r)) = map linkKey (bk_links r)"
    using links by (metis map_map)+
  ultimately show ?thesis
    using assms(2) unfolding parseBriefRunRegistry_def
    by (simp add: run_registry_js_def js_prop_def onlyKeys_def links_ok_def int_at_def list_all_iff Let_def del: map_map)
qed

section \<open>Changes\<close>

datatype brief_op = SaveDraft brief_draft | SetArchived string bool

type_synonym timed_brief_op = "brief_op \<times> string"   \<comment> \<open>with the time\<close>

fun apply_brief_op :: "date_parser \<Rightarrow> timed_brief_op \<Rightarrow> brief_registry \<Rightarrow> (brief_registry, unit) mutation" where
  "apply_brief_op d (SaveDraft draft, now) r = (case saveBriefDraft d r draft now of None \<Rightarrow> Err r () | Some r' \<Rightarrow> Ok r')"
| "apply_brief_op d (SetArchived i archived, now) r = Ok (setBriefArchived r i archived now)"

definition brief_time_ok :: "date_parser \<Rightarrow> timed_brief_op \<Rightarrow> brief_registry \<Rightarrow> bool" where
  "brief_time_ok d op r = validDate d (JStr (snd op))"

lemma map_same_ids: "(\<And>x. f (g x) = f x) \<Longrightarrow> map f (map g xs) = map f xs"
  by simp

lemma save_cases:
  assumes "saveBriefDraft d r draft now = Some r'"
  obtains (edit) e brief where "List.find (\<lambda>b. br_id b = bd_id draft) (bs_briefs r) = Some e" "br_id brief = bd_id draft"
      "br_createdAt brief = br_createdAt e" "isBriefRecord d (brief_js brief)"
      "r' = r\<lparr>bs_briefs := map (\<lambda>item. if br_id item = br_id brief then brief else item) (bs_briefs r)\<rparr>"
    | (new) brief where "List.find (\<lambda>b. br_id b = bd_id draft) (bs_briefs r) = None" "br_id brief = bd_id draft"
      "isBriefRecord d (brief_js brief)" "length (bs_briefs r) < BRIEF_REGISTRY_MAX_COUNT" "r' = r\<lparr>bs_briefs := brief # bs_briefs r\<rparr>"
proof -
  define existing where "existing = List.find (\<lambda>b. br_id b = bd_id draft) (bs_briefs r)"
  define brief where "brief = \<lparr>br_id = bd_id draft, br_title = js_trim (bd_title draft), br_project = bc_project draft,
    br_repository = bc_repository draft, br_repositoryPath = bc_repositoryPath draft,
    br_instructions = js_trim (bd_instructions draft), br_archived = False,
    br_createdAt = (case existing of Some e \<Rightarrow> br_createdAt e | None \<Rightarrow> now), br_updatedAt = now\<rparr>"
  have ok: "isBriefRecord d (brief_js brief)" "br_id brief = bd_id draft"
    and r': "r' = r\<lparr>bs_briefs := (if existing \<noteq> None then map (\<lambda>item. if br_id item = br_id brief then brief else item) (bs_briefs r)
      else brief # bs_briefs r)\<rparr>"
    and room: "existing = None \<Longrightarrow> length (bs_briefs r) < BRIEF_REGISTRY_MAX_COUNT"
    using assms unfolding saveBriefDraft_def Let_def existing_def [symmetric] brief_def [symmetric]
    by (simp_all add: brief_def split: if_splits)
  show ?thesis
  proof (cases existing)
    case None
    then show ?thesis using new [of brief] ok room r' by (simp add: existing_def)
  next
    case (Some e)
    then have "br_createdAt brief = br_createdAt e" by (simp add: brief_def)
    then show ?thesis using edit [of e brief] ok r' Some by (simp add: existing_def)
  qed
qed

lemma save_brief_ok:
  assumes "briefs_ok d r" and "saveBriefDraft d r draft now = Some r'"
  shows "briefs_ok d r' \<and> bs_workspaceId r' = bs_workspaceId r \<and> bs_revision r' = bs_revision r"
  using assms(2)
proof (cases rule: save_cases)
  case (edit e brief)
  have "map br_id (map (\<lambda>item. if br_id item = br_id brief then brief else item) (bs_briefs r)) = map br_id (bs_briefs r)"
    by (rule map_same_ids) simp
  then show ?thesis using assms(1) edit by (auto simp: briefs_ok_def list_all_iff simp del: map_map)
next
  case (new brief)
  then show ?thesis using assms(1) by (auto simp: briefs_ok_def find_None_iff)
qed

lemma archive_brief_ok:
  assumes "briefs_ok d r" and "validDate d (JStr now)"
  shows "briefs_ok d (setBriefArchived r i archived now)"
proof -
  have "map br_id (map (\<lambda>b. if br_id b = i then b\<lparr>br_archived := archived, br_updatedAt := now\<rparr> else b) (bs_briefs r)) = map br_id (bs_briefs r)"
    by (rule map_same_ids) simp
  moreover have "isBriefRecord d (brief_js (b\<lparr>br_archived := archived, br_updatedAt := now\<rparr>))" if "isBriefRecord d (brief_js b)" for b
    using that assms(2) by (cases archived) (simp_all add: isBriefRecord_def)
  ultimately show ?thesis using assms(1) by (auto simp: setBriefArchived_def briefs_ok_def list_all_iff simp del: map_map)
qed

interpretation briefs: guarded_registry "\<lambda>op r. r" "apply_brief_op d" "brief_time_ok d" "briefs_ok d" for d
proof unfold_locales
  fix r op r'
  show "briefs_ok d r \<Longrightarrow> brief_time_ok d op r \<Longrightarrow> apply_brief_op d op r = Ok r' \<Longrightarrow> briefs_ok d r'"
    by (cases "(d, op, r)" rule: apply_brief_op.cases)
      (auto simp: brief_time_ok_def archive_brief_ok dest: save_brief_ok split: option.splits)
  fix e show "apply_brief_op d op r = Err r' e \<Longrightarrow> r' = r"
    by (cases "(d, op, r)" rule: apply_brief_op.cases) (auto split: option.splits)
qed

text \<open>The identity of a brief: its identifier with its creation time.\<close>

definition brief_identity :: "brief_record \<Rightarrow> string \<times> string" where
  "brief_identity b = (br_id b, br_createdAt b)"

lemma save_keeps_identity:
  assumes "saveBriefDraft d r draft now = Some r'" and "distinct (map br_id (bs_briefs r))" and "b \<in> set (bs_briefs r)"
  shows "brief_identity b \<in> brief_identity ` set (bs_briefs r')"
  using assms(1)
proof (cases rule: save_cases)
  case (edit e brief)
  show ?thesis
  proof (cases "br_id b = bd_id draft")
    case True
    then have "e = b" using edit(1) find_key_distinct [OF assms(2,3)] by simp
    then have "brief_identity b = brief_identity brief" using edit True by (simp add: brief_identity_def)
    moreover have "brief \<in> set (bs_briefs r')" using assms(3) edit(2,5) True by force
    ultimately show ?thesis by blast
  next
    case False
    then have "b \<in> set (bs_briefs r')" using assms(3) edit(2,5) by force
    then show ?thesis by blast
  qed
next
  case (new brief)
  then show ?thesis using assms(3) by simp
qed

lemma archive_keeps_identity: "map brief_identity (bs_briefs (setBriefArchived r i archived now)) = map brief_identity (bs_briefs r)"
  by (simp add: setBriefArchived_def brief_identity_def)

lemma step_keeps_identity:
  assumes "briefs_ok d r" and "b \<in> set (bs_briefs r)"
  shows "brief_identity b \<in> brief_identity ` set (bs_briefs (result_registry (apply_brief_op d op r)))"
proof (cases "(d, op, r)" rule: apply_brief_op.cases)
  case (1 d' draft now r'')
  have "distinct (map br_id (bs_briefs r))" using assms(1) by (simp add: briefs_ok_def)
  then show ?thesis
    using 1 assms(2) save_keeps_identity [of d r draft now _ b] by (simp split: option.split)
next
  case (2 d' i archived now r'')
  have "brief_identity b \<in> set (map brief_identity (bs_briefs (setBriefArchived r i archived now)))"
    unfolding archive_keeps_identity using assms(2) by simp
  then show ?thesis using 2 by simp
qed

lemma run_keeps_identity:
  "briefs_ok d r \<Longrightarrow> fresh_along (\<lambda>op r. r) (apply_brief_op d) (brief_time_ok d) ops r \<Longrightarrow> b \<in> set (bs_briefs r) \<Longrightarrow>
   brief_identity b \<in> brief_identity ` set (bs_briefs (run_ops (apply_brief_op d) ops r))"
proof (induction ops arbitrary: r b)
  case (Cons op ops)
  define r1 where "r1 = result_registry (apply_brief_op d op r)"
  have ok: "briefs_ok d r1" unfolding r1_def using Cons.prems by (intro briefs.step_keeps) auto
  obtain b1 where b1: "b1 \<in> set (bs_briefs r1)" "brief_identity b = brief_identity b1"
    using step_keeps_identity [OF Cons.prems(1,3), of op] unfolding r1_def by blast
  have "brief_identity b1 \<in> brief_identity ` set (bs_briefs (run_ops (apply_brief_op d) ops r1))"
    by (rule Cons.IH [OF ok _ b1(1)]) (use Cons.prems in \<open>simp add: r1_def\<close>)
  then show ?case by (simp add: b1(2) r1_def)
qed simp

lemma run_keeps_workspace: "bs_workspaceId (run_ops (apply_brief_op d) ops r) = bs_workspaceId r"
proof (induction ops arbitrary: r)
  case (Cons op ops)
  have "bs_workspaceId (result_registry (apply_brief_op d op r)) = bs_workspaceId r"
    by (cases "(d, op, r)" rule: apply_brief_op.cases)
      (auto simp: saveBriefDraft_def Let_def setBriefArchived_def split: option.splits if_splits)
  then show ?case using Cons by simp
qed simp

subsection \<open>Links\<close>

datatype link_op = AddLink brief_run_link | RemoveLink string

fun apply_link_op :: "date_parser \<Rightarrow> link_op \<Rightarrow> brief_run_registry \<Rightarrow> (brief_run_registry, unit) mutation" where
  "apply_link_op d (AddLink link) r = (case addBriefRunLink d r link of None \<Rightarrow> Err r () | Some r' \<Rightarrow> Ok r')"
| "apply_link_op d (RemoveLink i) r = Ok (removeBriefRunLink r i)"

lemma distinct_map_filter_keys: "distinct (map f xs) \<Longrightarrow> distinct (map f (filter P xs))"
  by (induction xs) auto

lemma link_op_ok: "links_ok d r \<Longrightarrow> apply_link_op d op r = Ok r' \<Longrightarrow> links_ok d r' \<and> bk_workspaceId r' = bk_workspaceId r"
proof (cases op)
  case (AddLink link)
  assume a: "links_ok d r" "apply_link_op d op r = Ok r'"
  then have new: "bl_id link \<notin> bl_id ` set (bk_links r)" "linkKey link \<notin> linkKey ` set (bk_links r)"
    and r': "isRunLink d (link_js link)" "length (bk_links r) < 200" "r' = r\<lparr>bk_links := link # bk_links r\<rparr>"
    using AddLink by (force simp: addBriefRunLink_def split: if_splits option.splits)+
  then show ?thesis using a(1) by (simp add: links_ok_def)
next
  case (RemoveLink i)
  assume a: "links_ok d r" "apply_link_op d op r = Ok r'"
  then show ?thesis using RemoveLink
    by (auto simp: removeBriefRunLink_def links_ok_def list_all_iff distinct_map_filter_keys intro: order_trans [OF length_filter_le])
qed

interpretation brief_links: guarded_registry "\<lambda>op r. r" "apply_link_op d" "\<lambda>op r. True" "links_ok d" for d
proof unfold_locales
  fix op r r' e
  show "apply_link_op d op r = Err r' e \<Longrightarrow> r' = r" by (cases op) (auto split: option.splits)
qed (auto dest: link_op_ok)

section \<open>Repositories to choose from\<close>

text \<open>As many steps as there are nodes are enough for the walk to a project.\<close>

lemma more_steps:
  assumes "finite ids" and "\<And>i n. nodes i = Some n \<Longrightarrow> node_id n \<in> ids"
  shows "node_id project \<in> ids \<Longrightarrow> card (ids - visited) \<le> steps \<Longrightarrow>
    owning_project (steps + k) nodes visited project = owning_project steps nodes visited project"
proof (induction steps arbitrary: visited project)
  case 0
  then have "node_id project \<in> visited" using assms(1) by (auto simp: card_eq_0_iff)
  then show ?case by (subst (1 2) owning_project.simps) simp
next
  case (Suc steps)
  have "owning_project (steps + k) nodes (insert (node_id project) visited) parent =
      owning_project steps nodes (insert (node_id project) visited) parent"
    if "node_id project \<notin> visited" "nodes i = Some parent" for parent i
  proof (rule Suc.IH)
    have "ids - insert (node_id project) visited = (ids - visited) - {node_id project}" by auto
    then show "card (ids - insert (node_id project) visited) \<le> steps"
      using Suc.prems that(1) assms(1) by (simp add: card_Diff_singleton)
  qed (use assms(2) that in blast)
  then show ?case by (subst (1 2) owning_project.simps) (auto split: option.split)
qed

lemma enough_steps:
  assumes "node \<in> set (reg_nodes registry)"
  defines "nodes \<equiv> map_of (rev (map (\<lambda>node. (node_id node, node)) (reg_nodes registry)))"
  shows "owning_project (length (reg_nodes registry) + k) nodes {} node = owning_project (length (reg_nodes registry)) nodes {} node"
proof (rule more_steps)
  show "finite (node_id ` set (reg_nodes registry))" by simp
  show "node_id n \<in> node_id ` set (reg_nodes registry)" if "nodes i = Some n" for i n
    using that by (auto simp: nodes_def dest!: map_of_SomeD)
  show "node_id node \<in> node_id ` set (reg_nodes registry)" using assms(1) by simp
  show "card (node_id ` set (reg_nodes registry) - {}) \<le> length (reg_nodes registry)"
    using card_image_le [of "set (reg_nodes registry)" node_id] card_length [of "reg_nodes registry"] by simp
qed

end
