(* ===== verification/Brief_Evidence.thy ===== *)
theory Brief_Evidence
  imports Brief_Registry Repository_Tasks Queue_Parsers "HOL-Library.Multiset"
begin

text \<open>
  What the executions linked to a brief show (\<open>src/lib/briefs/brief-run-evidence.ts\<close>) and the gate that is derived
  from it (\<open>brief-gate.ts\<close>). Work orders and reports are the documents the queue parsers accept. The order in
  which concurrent reads of queue files end is an argument.
\<close>

section \<open>Paths\<close>

text \<open>\<open>/^[a-z]:[\\/]/iu\<close>\<close>

definition has_drive :: "string \<Rightarrow> bool" where
  "has_drive s = (case s of a # b # c # _ \<Rightarrow> is_ascii_letter a \<and> b = CHR '':'' \<and> (c = backslash \<or> c = slash) | _ \<Rightarrow> False)"

definition ends_with_slash :: "string \<Rightarrow> bool" where
  "ends_with_slash s \<longleftrightarrow> s \<noteq> [] \<and> last s = slash"

definition repositoryPathKey :: "string \<Rightarrow> string \<Rightarrow> string option" where
  "repositoryPathKey workspacePath path =
     (let workspace = normalizeWorkspacePathForStorage workspacePath;
          windows = is_windows_path workspace;
          root = createRepositoryTaskRunPathKey workspace;
          stored = normalizeWorkspacePathForStorage path;
          separated = (if windows then js_replace_char backslash slash stored else stored);
          inside = (if ends_with_slash root then root else root @ [slash]);
          normalized = (if \<not> js_starts_with separated [slash] \<and> \<not> has_drive separated then inside @ separated else separated)
      in if list_ex (\<lambda>part. part = ''..'' \<or> part = ''.'') (js_split slash normalized) then None
         else (let key = createRepositoryTaskRunPathKey normalized
               in if key = root \<or> js_starts_with key inside then Some key else None))"

section \<open>Evidence\<close>

record brief_run_evidence =
  ev_taskRuns :: "task_run_record list"
  ev_workOrders :: "js list"
  ev_reports :: "js list"
  ev_incomplete :: bool
  ev_unresolvedQueueIds :: "string list option"

text \<open>The identifier of a document, and the tasks that name a repository.\<close>

definition document_id :: "js \<Rightarrow> string" where
  "document_id v = string_at (js_prop v ''ref'') ''id''"

definition task_of_repository :: "string \<Rightarrow> js \<Rightarrow> bool" where
  "task_of_repository repositoryId task = (JStr repositoryId \<in> set (js_elements (js_prop task ''repositoryIds'')))"

definition order_tasks :: "js \<Rightarrow> js list" where
  "order_tasks order = js_elements (js_prop order ''tasks'')"

text \<open>The only element that satisfies a test.\<close>

definition only_match :: "('a \<Rightarrow> bool) \<Rightarrow> 'a list \<Rightarrow> 'a option" where
  "only_match P xs = (case filter P xs of [x] \<Rightarrow> Some x | _ \<Rightarrow> None)"

definition findLinkedTask :: "brief_run_link \<Rightarrow> string \<Rightarrow> brief_run_evidence \<Rightarrow> task_run_record option" where
  "findLinkedTask link workspacePath evidence =
     (if bl_sourceKind link \<noteq> FromRepositoryTask then None
      else (case br_repositoryPath (bl_brief link) of
          None \<Rightarrow> None
        | Some path \<Rightarrow>
            (case (repositoryPathKey workspacePath path, only_match (\<lambda>t. tr_id t = bl_sourceId link) (ev_taskRuns evidence)) of
               (Some expected, Some t) \<Rightarrow> if repositoryPathKey workspacePath (tr_repositoryPath t) = Some expected then Some t else None
             | _ \<Rightarrow> None)))"

definition unresolved :: "brief_run_link \<Rightarrow> brief_run_evidence \<Rightarrow> bool" where
  "unresolved link evidence =
     (case ev_unresolvedQueueIds evidence of None \<Rightarrow> False | Some ids \<Rightarrow> bl_sourceId link \<in> set ids)"

definition findLinkedWorkOrder :: "brief_run_link \<Rightarrow> brief_run_evidence \<Rightarrow> js option" where
  "findLinkedWorkOrder link evidence =
     (if bl_sourceKind link \<noteq> FromQueueWorkOrder \<or> unresolved link evidence then None
      else (case only_match (\<lambda>order. document_id order = bl_sourceId link) (ev_workOrders evidence) of
          None \<Rightarrow> None
        | Some order \<Rightarrow>
            if list_ex (task_of_repository (ref_id (br_repository (bl_brief link)))) (order_tasks order) then Some order else None))"

definition findLinkedReports :: "brief_run_link \<Rightarrow> brief_run_evidence \<Rightarrow> js list" where
  "findLinkedReports link evidence =
     (case findLinkedWorkOrder link evidence of
        None \<Rightarrow> []
      | Some order \<Rightarrow>
          (let taskIds = map (\<lambda>task. js_prop task ''id'')
                 (filter (\<lambda>task. task_of_repository (ref_id (br_repository (bl_brief link))) task \<and>
                    length (filter (\<lambda>other. js_prop other ''id'' = js_prop task ''id'') (order_tasks order)) = 1) (order_tasks order))
           in filter (\<lambda>report. js_elements (js_prop report ''tasks'') \<noteq> [])
                (map (\<lambda>report. js_set ''tasks''
                     (JArr (filter (\<lambda>task. js_prop task ''id'' \<in> set taskIds) (js_elements (js_prop report ''tasks'')))) report)
                   (filter (\<lambda>report. js_prop (js_prop report ''sourceWorkOrder'') ''id'' = JStr (bl_sourceId link) \<and>
                      length (filter (\<lambda>other. document_id other = document_id report) (ev_reports evidence)) = 1)
                     (ev_reports evidence)))))"

datatype run_candidate = RunCandidate run_source_kind string string   \<comment> \<open>kind, identifier, label\<close>

text \<open>The label of a task joins its name and its start by a middle dot.\<close>

fun repository_task_name :: "repository_task \<Rightarrow> string" where
  "repository_task_name OpenTerminal = ''open-terminal''"
| "repository_task_name InstallDependencies = ''install-dependencies''"
| "repository_task_name UpdateDependencies = ''update-dependencies''"
| "repository_task_name StartDevServer = ''start-dev-server''"
| "repository_task_name Preview = ''preview''"
| "repository_task_name Build = ''build''"

definition listBriefRunCandidates :: "brief_record \<Rightarrow> string \<Rightarrow> brief_run_evidence \<Rightarrow> run_candidate list" where
  "listBriefRunCandidates brief workspacePath evidence =
     (let repositoryPath = Option.bind (br_repositoryPath brief) (repositoryPathKey workspacePath);
          tasks = filter (\<lambda>task. repositoryPath \<noteq> None \<and> repositoryPathKey workspacePath (tr_repositoryPath task) = repositoryPath \<and>
            length (filter (\<lambda>other. tr_id other = tr_id task) (ev_taskRuns evidence)) = 1) (ev_taskRuns evidence);
          orders = (if ev_incomplete evidence then []
            else filter (\<lambda>order. list_ex (task_of_repository (ref_id (br_repository brief))) (order_tasks order) \<and>
              length (filter (\<lambda>other. document_id other = document_id order) (ev_workOrders evidence)) = 1) (ev_workOrders evidence))
      in map (\<lambda>task. RunCandidate FromRepositoryTask (tr_id task)
               (repository_task_name (tr_task task) @ '' '' @ [char_of (183 :: nat)] @ '' '' @ tr_startedAt task)) tasks
         @ map (\<lambda>order. RunCandidate FromQueueWorkOrder (document_id order) (string_at (js_prop order ''ref'') ''label'')) orders)"

section \<open>Loading\<close>

text \<open>What one read of a queue file gives: its kind, and the document, when the file is read and parsed.\<close>

datatype queue_file_kind = WorkOrderFile | ResultReportFile

type_synonym file_result = "queue_file_kind \<times> bool \<times> js option"   \<comment> \<open>kind, among the first 200, document\<close>

record loading =
  ld_workOrders :: "js list"
  ld_reports :: "js list"
  ld_reportIds :: "string list"   \<comment> \<open>one occurrence for each report that was read\<close>
  ld_failed :: bool

definition load_file :: "string list \<Rightarrow> file_result \<Rightarrow> loading \<Rightarrow> loading" where
  "load_file selectedQueueIds file loading =
     (case file of
        (_, _, None) \<Rightarrow> loading\<lparr>ld_failed := True\<rparr>
      | (WorkOrderFile, discovery, Some order) \<Rightarrow>
          if discovery \<or> document_id order \<in> set selectedQueueIds
          then loading\<lparr>ld_workOrders := ld_workOrders loading @ [order]\<rparr> else loading
      | (ResultReportFile, discovery, Some report) \<Rightarrow>
          (let counted = loading\<lparr>ld_reportIds := document_id report # ld_reportIds loading\<rparr> in
           if discovery \<or> (js_truthy (js_prop report ''sourceWorkOrder'') \<and>
             string_at (js_prop report ''sourceWorkOrder'') ''id'' \<in> set selectedQueueIds)
           then counted\<lparr>ld_reports := ld_reports loading @ [report]\<rparr> else counted))"

text \<open>
  The files of a workspace with what their reads give, in the order of the listing; the order in which the
  reads end; and the batch of four before which the signal was seen to be aborted, if it was.
\<close>

definition readBriefRunEvidence ::
  "(task_run_record list option) \<Rightarrow> (queue_file_kind \<times> js option) list option \<Rightarrow> (task_run_record list option) option \<Rightarrow>
   string list \<Rightarrow> string list \<Rightarrow> nat option \<Rightarrow> (file_result list \<Rightarrow> file_result list) \<Rightarrow> brief_run_evidence" where
  "readBriefRunEvidence tasks queue selectedTasks linkedTaskIds linkedQueueIds aborted completion =
     (let allFiles = (case queue of None \<Rightarrow> [] | Some fs \<Rightarrow> fs);
          numbered = map (\<lambda>(index, kind, doc). (kind, index < 200, doc)) (zip [0..<length allFiles] allFiles);
          files = (if linkedQueueIds = [] then take 200 numbered else numbered);
          batches = (case aborted of None \<Rightarrow> files | Some n \<Rightarrow> take (4 * n) files);
          loaded = fold (load_file linkedQueueIds) (completion batches)
            \<lparr>ld_workOrders = [], ld_reports = [], ld_reportIds = [], ld_failed = False\<rparr>;
          queueLookupIncomplete = (queue = None \<or> ld_failed loaded \<or> aborted \<noteq> None);
          incomplete = (tasks = None \<or> queue = None \<or> selectedTasks = Some None \<or> length allFiles > 200 \<or>
            ld_failed loaded \<or> aborted \<noteq> None)
      in \<lparr>ev_taskRuns =
            (case tasks of None \<Rightarrow> [] | Some rs \<Rightarrow> filter (\<lambda>r. tr_id r \<notin> set linkedTaskIds) rs)
            @ (case selectedTasks of Some (Some rs) \<Rightarrow> rs | _ \<Rightarrow> []),
          ev_workOrders = ld_workOrders loaded,
          ev_reports = filter (\<lambda>r. count_list (ld_reportIds loaded) (document_id r) = 1) (ld_reports loaded),
          ev_incomplete = incomplete,
          ev_unresolvedQueueIds = Some (if queueLookupIncomplete then uniq_by (\<lambda>i. i) {} linkedQueueIds else [])\<rparr>)"

section \<open>The gate\<close>

datatype brief_gate_reason =
    BuildPassed | ExecutionFailed | ExecutionStopped | GateRunning | Unverified | Missing | ReportNeedsReview | Unavailable

record brief_gate =
  bg_reason :: brief_gate_reason
  bg_state :: evaluation_state
  bg_loop :: run_loop

definition finished_in_order :: "date_parser \<Rightarrow> task_run_record \<Rightarrow> bool" where
  "finished_in_order date_parse task =
     (case (date_parse (tr_startedAt task), Option.bind (tr_finishedAt task) date_parse) of
        (Some started, Some finished) \<Rightarrow> started \<le> finished
      | _ \<Rightarrow> False)"

definition task_gate :: "date_parser \<Rightarrow> task_run_record \<Rightarrow> brief_gate_reason \<times> gate_check list" where
  "task_gate date_parse task =
     (if tr_state task = RunFailed \<or> (tr_state task = RunSucceeded \<and> tr_exitCode task \<noteq> None \<and> tr_exitCode task \<noteq> Some (Inl 0))
      then (ExecutionFailed, [\<lparr>gc_label = ''Native execution'', gc_state = CheckFailed, gc_details = None\<rparr>])
      else if tr_state task = RunStopped
      then (ExecutionStopped, [\<lparr>gc_label = ''Native execution stopped'', gc_state = CheckFailed, gc_details = None\<rparr>])
      else if tr_state task = RunRunning then (GateRunning, [])
      else if tr_task task = Build \<and> tr_exitCode task = Some (Inl 0) \<and> finished_in_order date_parse task
      then (BuildPassed, [\<lparr>gc_label = ''Native build exit code'', gc_state = CheckPassed, gc_details = Some ''exit code 0''\<rparr>])
      else (Unverified, []))"

definition order_gate :: "brief_run_link \<Rightarrow> brief_run_evidence \<Rightarrow> brief_gate_reason \<times> gate_check list" where
  "order_gate link evidence =
     (case findLinkedWorkOrder link evidence of
        None \<Rightarrow>
          (if bl_sourceKind link = FromQueueWorkOrder \<and> unresolved link evidence then Unavailable else Missing, [])
      | Some order \<Rightarrow>
          if js_prop order ''status'' = JStr ''failed''
          then (ExecutionFailed, [\<lparr>gc_label = ''Queue execution'', gc_state = CheckFailed, gc_details = None\<rparr>])
          else if js_prop order ''status'' = JStr ''running'' then (GateRunning, [])
          else (if findLinkedReports link evidence \<noteq> [] then ReportNeedsReview else Unverified, []))"

definition deriveBriefGate :: "date_parser \<Rightarrow> brief_run_link \<Rightarrow> string \<Rightarrow> brief_run_evidence \<Rightarrow> brief_gate" where
  "deriveBriefGate date_parse link workspacePath evidence =
     (let brief = bl_brief link;
          gate = \<lparr>ref_id = ''gate_'' @ bl_id link, ref_kind = KGate, ref_label = ''Execution evidence''\<rparr>;
          (reason, checks) = (case findLinkedTask link workspacePath evidence of
             Some task \<Rightarrow> task_gate date_parse task | None \<Rightarrow> order_gate link evidence);
          loop = createWorkbenchLocalRunLoop
            \<lparr>rp_project = br_project brief, rp_artifacts = [], rp_gates = [gate],
             rp_brief = Some \<lparr>ref_id = br_id brief, ref_kind = KAgentBrief, ref_label = br_title brief\<rparr>,
             rb_title = br_title brief, rb_instructions = Some [br_instructions brief],
             rl_run = \<lparr>ref_id = bl_id link, ref_kind = KRun, ref_label = br_title brief\<rparr>,
             rl_repoRefs = Some [br_repository brief], rl_runStatus = None,
             rl_gateEvaluations = Some [\<lparr>gi_gate = gate, gi_checks = Some checks, gi_riskLevel = None, gi_status = None\<rparr>]\<rparr>
      in \<lparr>bg_reason = reason, bg_state = lp_state loop, bg_loop = loop\<rparr>)"

text \<open>
  What the gate of a linked brief depends on: the one native build it is linked to, and the queue files
  whatever the order in which they are read.
\<close>

section \<open>The only match\<close>

lemma only_match_Some: "only_match P xs = Some x \<longleftrightarrow> filter P xs = [x]"
  by (auto simp: only_match_def split: list.splits)

lemma only_match_mset: "mset xs = mset ys \<Longrightarrow> only_match P xs = only_match P ys"
proof -
  assume "mset xs = mset ys"
  then have m: "mset (filter P xs) = mset (filter P ys)" by simp
  have one: "xs = [x]" if "mset xs = {#x#}" for xs :: "'a list" and x using that by (metis mset_single_iff_right)
  have "filter P xs = [x] \<longleftrightarrow> filter P ys = [x]" for x
    using m one by (metis mset_single_iff)
  then show ?thesis by (metis only_match_Some option.exhaust)
qed

section \<open>The gate\<close>

lemma single_gate:
  assumes "rp_gates input = [gate]"
    and "rl_gateEvaluations input = Some [\<lparr>gi_gate = gate, gi_checks = Some checks, gi_riskLevel = None, gi_status = None\<rparr>]"
  shows "lp_state (createWorkbenchLocalRunLoop input) = evaluateGateState (normalizeGateChecks checks)"
proof -
  have "collectUniqueTypedEntityRefs [gate] = [gate]" by (simp add: collectUniqueTypedEntityRefs_def)
  then have "map ge_state (buildGateEvaluations input) = [evaluateGateState (normalizeGateChecks checks)]"
    using assms by (simp add: buildGateEvaluations_def evaluation_of_def Let_def)
  then obtain e where e: "buildGateEvaluations input = [e]" "ge_state e = evaluateGateState (normalizeGateChecks checks)" by auto
  have "evaluateRunLoopState [e] = ge_state e" by (cases "ge_state e") (simp_all add: evaluateRunLoopState_def)
  then show ?thesis by (simp add: createWorkbenchLocalRunLoop_def Let_def e)
qed

lemma gate_state:
  "bg_state (deriveBriefGate d link ws ev) =
     evaluateGateState (normalizeGateChecks (snd (case findLinkedTask link ws ev of
       Some task \<Rightarrow> task_gate d task | None \<Rightarrow> order_gate link ev))) \<and>
   bg_reason (deriveBriefGate d link ws ev) = fst (case findLinkedTask link ws ev of
       Some task \<Rightarrow> task_gate d task | None \<Rightarrow> order_gate link ev)"
  unfolding deriveBriefGate_def Let_def case_prod_beta by (simp add: single_gate)

lemma check_kept:
  "js_trim label = label \<Longrightarrow> label \<noteq> [] \<Longrightarrow> normalizeGateChecks [\<lparr>gc_label = label, gc_state = st, gc_details = details\<rparr>] =
     [\<lparr>gc_label = label, gc_state = st, gc_details = normalizeOptionalText details\<rparr>]"
  by (simp add: normalizeGateChecks_def)

lemma gate_labels [simp]:
  "js_trim ''Native execution'' = ''Native execution''" "js_trim ''Native execution stopped'' = ''Native execution stopped''"
  "js_trim ''Native build exit code'' = ''Native build exit code''" "js_trim ''Queue execution'' = ''Queue execution''"
  by code_simp+

lemma no_checks [simp]: "evaluateGateState (normalizeGateChecks []) = EvalPending"
  by (simp add: normalizeGateChecks_def evaluateGateState_def)

lemma one_check:
  "js_trim label = label \<Longrightarrow> label \<noteq> [] \<Longrightarrow>
   evaluateGateState (normalizeGateChecks [\<lparr>gc_label = label, gc_state = st, gc_details = details\<rparr>]) =
     (case st of CheckPassed \<Rightarrow> EvalPassed | CheckFailed \<Rightarrow> EvalBlocked | CheckWarning \<Rightarrow> EvalPending)"
  by (simp add: check_kept evaluateGateState_def split: gate_check_state.split)

lemma task_gate_state:
  "evaluateGateState (normalizeGateChecks (snd (task_gate d t))) = EvalPassed \<longleftrightarrow>
     tr_task t = Build \<and> tr_state t = RunSucceeded \<and> tr_exitCode t = Some (Inl 0) \<and> finished_in_order d t"
  by (cases "tr_state t") (auto simp: task_gate_def one_check)

lemma order_gate_never_passes:
  "evaluateGateState (normalizeGateChecks (snd (order_gate link ev))) \<noteq> EvalPassed"
  by (auto simp: order_gate_def one_check split: option.split)

lemma linked_task:
  assumes "findLinkedTask link ws ev = Some t"
  shows "filter (\<lambda>r. tr_id r = bl_sourceId link) (ev_taskRuns ev) = [t] \<and>
    (\<exists>path key. br_repositoryPath (bl_brief link) = Some path \<and> repositoryPathKey ws path = Some key \<and>
       repositoryPathKey ws (tr_repositoryPath t) = Some key)"
  using assms by (auto simp: findLinkedTask_def only_match_Some split: if_splits option.splits)

section \<open>Reading in any order\<close>

fun file_orders :: "string list \<Rightarrow> file_result \<Rightarrow> js list" where
  "file_orders ids (WorkOrderFile, discovery, Some order) = (if discovery \<or> document_id order \<in> set ids then [order] else [])"
| "file_orders ids _ = []"

fun file_reports :: "string list \<Rightarrow> file_result \<Rightarrow> js list" where
  "file_reports ids (ResultReportFile, discovery, Some report) =
     (if discovery \<or> (js_truthy (js_prop report ''sourceWorkOrder'') \<and>
        string_at (js_prop report ''sourceWorkOrder'') ''id'' \<in> set ids) then [report] else [])"
| "file_reports ids _ = []"

fun file_report_ids :: "file_result \<Rightarrow> string list" where
  "file_report_ids (ResultReportFile, discovery, Some report) = [document_id report]"
| "file_report_ids _ = []"

definition unread :: "file_result \<Rightarrow> bool" where
  "unread item = (snd (snd item) = None)"

lemma load_file_eq:
  "load_file ids item l =
     \<lparr>ld_workOrders = ld_workOrders l @ file_orders ids item, ld_reports = ld_reports l @ file_reports ids item,
      ld_reportIds = file_report_ids item @ ld_reportIds l, ld_failed = (ld_failed l \<or> unread item)\<rparr>"
proof -
  obtain k disc doc where item: "item = (k, disc, doc)" by (cases item) auto
  show ?thesis by (cases k; cases doc) (auto simp: item load_file_def unread_def Let_def intro!: loading.equality)
qed

lemma load_files_eq:
  "fold (load_file ids) files l =
     \<lparr>ld_workOrders = ld_workOrders l @ concat (map (file_orders ids) files),
      ld_reports = ld_reports l @ concat (map (file_reports ids) files),
      ld_reportIds = concat (map file_report_ids (rev files)) @ ld_reportIds l,
      ld_failed = (ld_failed l \<or> list_ex unread files)\<rparr>"
  by (induction files arbitrary: l) (auto simp: load_file_eq)

lemma mset_concat_map: "mset xs = mset ys \<Longrightarrow> mset (concat (map f xs)) = mset (concat (map f ys))"
proof -
  have "mset (concat (map f zs)) = (\<Sum>x\<in>#mset zs. mset (f x))" for zs :: "'a list" by (induction zs) simp_all
  then show "mset xs = mset ys \<Longrightarrow> ?thesis" by simp
qed

lemma count_list_mset: "count_list xs x = count (mset xs) x"
  by (induction xs) simp_all

text \<open>Two pieces of evidence that differ in the order of their documents.\<close>

definition same_evidence :: "brief_run_evidence \<Rightarrow> brief_run_evidence \<Rightarrow> bool" where
  "same_evidence a b \<longleftrightarrow> ev_taskRuns a = ev_taskRuns b \<and> mset (ev_workOrders a) = mset (ev_workOrders b) \<and>
     mset (ev_reports a) = mset (ev_reports b) \<and> ev_incomplete a = ev_incomplete b \<and>
     ev_unresolvedQueueIds a = ev_unresolvedQueueIds b"

lemma loaded_same:
  fixes ids :: "string list"
  assumes "mset (c1 files) = mset files" and "mset (c2 files) = mset files"
  defines "start \<equiv> \<lparr>ld_workOrders = [], ld_reports = [], ld_reportIds = [], ld_failed = False\<rparr>"
  defines "a \<equiv> fold (load_file ids) (c1 files) start" and "b \<equiv> fold (load_file ids) (c2 files) start"
  shows "mset (ld_workOrders a) = mset (ld_workOrders b) \<and> mset (ld_reports a) = mset (ld_reports b) \<and>
    mset (ld_reportIds a) = mset (ld_reportIds b) \<and> ld_failed a = ld_failed b"
proof -
  have m: "mset (c1 files) = mset (c2 files)" using assms(1,2) by simp
  then have "set (c1 files) = set (c2 files)" by (rule mset_eq_setD)
  moreover have "mset (concat (map f (c1 files))) = mset (concat (map f (c2 files)))" for f :: "file_result \<Rightarrow> js list"
    using m by (rule mset_concat_map)
  moreover have "mset (concat (map file_report_ids (rev (c1 files)))) = mset (concat (map file_report_ids (rev (c2 files))))"
    by (rule mset_concat_map) (simp add: m)
  ultimately show ?thesis
    by (simp add: a_def b_def load_files_eq start_def list_ex_iff del: mset_concat set_concat)
qed

lemma evidence_same:
  assumes "\<forall>files. mset (c1 files) = mset files \<and> mset (c2 files) = mset files"
  shows "same_evidence (readBriefRunEvidence tasks queue selected taskIds queueIds aborted c1)
    (readBriefRunEvidence tasks queue selected taskIds queueIds aborted c2)"
proof -
  define files where "files = (case aborted of None \<Rightarrow> if queueIds = [] then take 200 (map (\<lambda>(index, kind, doc). (kind, index < 200, doc))
      (zip [0..<length (case queue of None \<Rightarrow> [] | Some fs \<Rightarrow> fs)] (case queue of None \<Rightarrow> [] | Some fs \<Rightarrow> fs)))
    else map (\<lambda>(index, kind, doc). (kind, index < 200, doc))
      (zip [0..<length (case queue of None \<Rightarrow> [] | Some fs \<Rightarrow> fs)] (case queue of None \<Rightarrow> [] | Some fs \<Rightarrow> fs))
    | Some n \<Rightarrow> take (4 * n) (if queueIds = [] then take 200 (map (\<lambda>(index, kind, doc). (kind, index < 200, doc))
      (zip [0..<length (case queue of None \<Rightarrow> [] | Some fs \<Rightarrow> fs)] (case queue of None \<Rightarrow> [] | Some fs \<Rightarrow> fs)))
    else map (\<lambda>(index, kind, doc). (kind, index < 200, doc))
      (zip [0..<length (case queue of None \<Rightarrow> [] | Some fs \<Rightarrow> fs)] (case queue of None \<Rightarrow> [] | Some fs \<Rightarrow> fs))))"
  define start where "start = \<lparr>ld_workOrders = [] :: js list, ld_reports = [], ld_reportIds = [], ld_failed = False\<rparr>"
  note same = loaded_same [of c1 files c2 queueIds, folded start_def]
  have m: "mset (c1 files) = mset files" "mset (c2 files) = mset files" using assms by simp_all
  show ?thesis
    using same [OF m] unfolding readBriefRunEvidence_def Let_def files_def [symmetric] start_def [symmetric] same_evidence_def
    by (auto simp: count_list_mset)
qed

lemma linked_same:
  assumes "same_evidence a b"
  shows "findLinkedTask link ws a = findLinkedTask link ws b" "findLinkedWorkOrder link a = findLinkedWorkOrder link b"
    "(findLinkedReports link a = []) = (findLinkedReports link b = [])"
proof -
  have e: "ev_taskRuns a = ev_taskRuns b" "mset (ev_workOrders a) = mset (ev_workOrders b)" "mset (ev_reports a) = mset (ev_reports b)"
    "ev_unresolvedQueueIds a = ev_unresolvedQueueIds b"
    using assms by (simp_all add: same_evidence_def)
  show "findLinkedTask link ws a = findLinkedTask link ws b" unfolding findLinkedTask_def e(1) ..
  show order: "findLinkedWorkOrder link a = findLinkedWorkOrder link b"
    using only_match_mset [OF e(2)] e(4) by (simp add: findLinkedWorkOrder_def unresolved_def)
  have len: "length (filter P (ev_reports a)) = length (filter P (ev_reports b))" for P
    using e(3) by (metis mset_filter size_mset)
  have "set (ev_reports a) = set (ev_reports b)" using e(3) by (rule mset_eq_setD)
  then show "(findLinkedReports link a = []) = (findLinkedReports link b = [])"
    by (cases "findLinkedWorkOrder link b") (simp_all add: findLinkedReports_def order len Let_def filter_empty_conv)
qed

lemma gate_same:
  assumes "same_evidence a b"
  shows "bg_reason (deriveBriefGate d link ws a) = bg_reason (deriveBriefGate d link ws b) \<and>
    bg_state (deriveBriefGate d link ws a) = bg_state (deriveBriefGate d link ws b)"
proof -
  have "unresolved link a = unresolved link b" using assms by (simp add: same_evidence_def unresolved_def)
  then have "order_gate link a = order_gate link b" using linked_same [OF assms, of link] by (simp add: order_gate_def split: option.split)
  then show ?thesis using linked_same(1) [OF assms, of link ws] by (simp add: gate_state split: option.split)
qed

end
