(* ===== verification/Brief_Drafts.thy ===== *)
theory Brief_Drafts
  imports Prelude
begin

text \<open>
  The drafts of the brief editor across the locking of a workspace (\<open>src/lib/briefs/brief-editor-drafts.ts\<close>): the
  store as a state machine. Saves carry a token of their own; the sets of listeners are objects that a
  subscription keeps a reference to. The scope of a workspace, its identifier and path, is the key. Listeners
  do not call the store back.
\<close>

section \<open>The store\<close>

record editor_draft =
  ed_id :: string
  ed_title :: string
  ed_repositoryId :: string
  ed_instructions :: string
  ed_baseline :: string
  ed_baseRevision :: int

datatype save_error = SaveConflict | SaveFailed

record draft_state =
  dt_draft :: "editor_draft option"
  dt_saving :: bool
  dt_error :: "save_error option"
  dt_savedBriefId :: "string option"

record draft_entry =
  de_draft :: editor_draft
  de_pending :: "nat option"
  de_error :: "save_error option"

type_synonym scope = "string \<times> string"

record save_operation =
  op_key :: scope
  op_token :: nat
  op_draft :: editor_draft

text \<open>
  The map of sets of listeners by reference, the sets, the next token and the next reference, and what was
  delivered to listeners, latest first.
\<close>

record draft_store =
  ds_entries :: "scope \<rightharpoonup> draft_entry"
  ds_listeners :: "scope \<rightharpoonup> nat"
  ds_sets :: "nat \<Rightarrow> nat list"
  ds_fresh :: nat
  ds_delivered :: "(nat \<times> draft_state) list"

definition createBriefEditorDraftStore :: draft_store where
  "createBriefEditorDraftStore =
     \<lparr>ds_entries = Map.empty, ds_listeners = Map.empty, ds_sets = (\<lambda>_. []), ds_fresh = 0, ds_delivered = []\<rparr>"

definition snapshot :: "draft_store \<Rightarrow> scope \<Rightarrow> draft_state" where
  "snapshot st key =
     (case ds_entries st key of
        None \<Rightarrow> \<lparr>dt_draft = None, dt_saving = False, dt_error = None, dt_savedBriefId = None\<rparr>
      | Some entry \<Rightarrow> \<lparr>dt_draft = Some (de_draft entry), dt_saving = (de_pending entry \<noteq> None), dt_error = de_error entry,
          dt_savedBriefId = None\<rparr>)"

definition listeners_of :: "draft_store \<Rightarrow> scope \<Rightarrow> nat list" where
  "listeners_of st key = (case ds_listeners st key of None \<Rightarrow> [] | Some s \<Rightarrow> ds_sets st s)"

definition publish_state :: "scope \<Rightarrow> draft_state \<Rightarrow> draft_store \<Rightarrow> draft_store" where
  "publish_state key state st =
     st\<lparr>ds_delivered := rev (map (\<lambda>l. (l, state)) (listeners_of st key)) @ ds_delivered st\<rparr>"

definition publish :: "scope \<Rightarrow> draft_store \<Rightarrow> draft_store" where
  "publish key st = publish_state key (snapshot st key) st"

definition save_pending :: "draft_store \<Rightarrow> scope \<Rightarrow> bool" where
  "save_pending st key = (case ds_entries st key of None \<Rightarrow> False | Some entry \<Rightarrow> de_pending entry \<noteq> None)"

definition put_draft :: "scope \<Rightarrow> editor_draft \<Rightarrow> draft_store \<Rightarrow> bool \<times> draft_store" where
  "put_draft key draft st =
     (if save_pending st key then (False, st)
      else (True, publish key (st\<lparr>ds_entries := (ds_entries st)(key \<mapsto> \<lparr>de_draft = draft, de_pending = None, de_error = None\<rparr>)\<rparr>)))"

definition discard_draft :: "scope \<Rightarrow> draft_store \<Rightarrow> bool \<times> draft_store" where
  "discard_draft key st =
     (if save_pending st key then (False, st)
      else (True, publish key (st\<lparr>ds_entries := (ds_entries st)(key := None)\<rparr>)))"

definition beginSave :: "scope \<Rightarrow> draft_store \<Rightarrow> save_operation option \<times> draft_store" where
  "beginSave key st =
     (case ds_entries st key of
        None \<Rightarrow> (None, st)
      | Some entry \<Rightarrow>
          if de_pending entry \<noteq> None then (None, st)
          else (Some \<lparr>op_key = key, op_token = ds_fresh st, op_draft = de_draft entry\<rparr>,
                publish key (st\<lparr>ds_fresh := Suc (ds_fresh st),
                  ds_entries := (ds_entries st)(key \<mapsto> entry\<lparr>de_pending := Some (ds_fresh st), de_error := None\<rparr>)\<rparr>)))"

definition finishSave :: "save_operation \<Rightarrow> save_error option \<Rightarrow> draft_store \<Rightarrow> bool \<times> draft_store" where
  "finishSave operation error st =
     (case ds_entries st (op_key operation) of
        None \<Rightarrow> (False, st)
      | Some entry \<Rightarrow>
          if de_pending entry \<noteq> Some (op_token operation) then (False, st)
          else (True,
            case error of
              None \<Rightarrow> publish_state (op_key operation)
                \<lparr>dt_draft = None, dt_saving = False, dt_error = None, dt_savedBriefId = Some (ed_id (op_draft operation))\<rparr>
                (st\<lparr>ds_entries := (ds_entries st)(op_key operation := None)\<rparr>)
            | Some e \<Rightarrow> publish (op_key operation)
                (st\<lparr>ds_entries := (ds_entries st)(op_key operation \<mapsto> entry\<lparr>de_pending := None, de_error := Some e\<rparr>)\<rparr>)))"

text \<open>A subscription: its scope, the set it was added to and its listener.\<close>

type_synonym draft_subscription = "scope \<times> nat \<times> nat"

definition subscribe_drafts :: "scope \<Rightarrow> nat \<Rightarrow> draft_store \<Rightarrow> draft_subscription \<times> draft_store" where
  "subscribe_drafts key listener st =
     (let known = ds_listeners st key;
          s = (case known of Some s \<Rightarrow> s | None \<Rightarrow> ds_fresh st);
          old = (case known of Some s \<Rightarrow> ds_sets st s | None \<Rightarrow> []);
          subscribers = (if listener \<in> set old then old else old @ [listener]);
          next_store = st\<lparr>ds_listeners := (ds_listeners st)(key \<mapsto> s), ds_sets := (ds_sets st)(s := subscribers),
            ds_fresh := (if known = None then Suc (ds_fresh st) else ds_fresh st)\<rparr>
      in ((key, s, listener), next_store\<lparr>ds_delivered := (listener, snapshot next_store key) # ds_delivered next_store\<rparr>))"

definition unsubscribe_drafts :: "draft_subscription \<Rightarrow> draft_store \<Rightarrow> draft_store" where
  "unsubscribe_drafts subscription st =
     (case subscription of (key, s, listener) \<Rightarrow>
        (let subscribers = filter (\<lambda>l. l \<noteq> listener) (ds_sets st s)
         in st\<lparr>ds_sets := (ds_sets st)(s := subscribers),
               ds_listeners := (if subscribers = [] then (ds_listeners st)(key := None) else ds_listeners st)\<rparr>))"

section \<open>Runs\<close>

datatype draft_step =
    PutDraft scope editor_draft
  | DiscardDraft scope
  | BeginSave scope
  | FinishSave save_operation "save_error option"
  | Subscribe scope nat
  | Unsubscribe draft_subscription

fun run_draft_step :: "draft_step \<Rightarrow> draft_store \<Rightarrow> draft_store" where
  "run_draft_step (PutDraft key draft) st = snd (put_draft key draft st)"
| "run_draft_step (DiscardDraft key) st = snd (discard_draft key st)"
| "run_draft_step (BeginSave key) st = snd (beginSave key st)"
| "run_draft_step (FinishSave operation error) st = snd (finishSave operation error st)"
| "run_draft_step (Subscribe key listener) st = snd (subscribe_drafts key listener st)"
| "run_draft_step (Unsubscribe subscription) st = unsubscribe_drafts subscription st"

text \<open>A step other than the end of a save.\<close>

fun ends_save :: "scope \<Rightarrow> nat \<Rightarrow> draft_step \<Rightarrow> bool" where
  "ends_save key token (FinishSave operation error) \<longleftrightarrow> op_key operation = key \<and> op_token operation = token"
| "ends_save key token _ \<longleftrightarrow> False"

section \<open>Lemmas\<close>

lemma publish_entries [simp]: "ds_entries (publish key st) = ds_entries st" "ds_entries (publish_state key s st) = ds_entries st"
  "ds_fresh (publish key st) = ds_fresh st" "ds_fresh (publish_state key s st) = ds_fresh st"
  by (simp_all add: publish_def publish_state_def)

lemma step_keeps_pending:
  assumes "ds_entries st key = Some entry" and "de_pending entry = Some token" and "\<not> ends_save key token step"
  shows "ds_entries (run_draft_step step st) key = Some entry"
proof (cases step)
  case (PutDraft k d)
  then show ?thesis using assms by (cases "k = key") (auto simp: put_draft_def save_pending_def)
next
  case (DiscardDraft k)
  then show ?thesis using assms by (cases "k = key") (auto simp: discard_draft_def save_pending_def)
next
  case (BeginSave k)
  then show ?thesis using assms by (cases "k = key") (auto simp: beginSave_def split: option.split)
next
  case (FinishSave operation e)
  then show ?thesis using assms by (cases "op_key operation = key") (auto simp: finishSave_def split: option.split)
next
  case (Subscribe k l)
  then show ?thesis using assms by (simp add: subscribe_drafts_def Let_def)
next
  case (Unsubscribe subscription)
  then show ?thesis using assms by (simp add: unsubscribe_drafts_def Let_def split: prod.split)
qed

lemma run_keeps_pending:
  "ds_entries st key = Some entry \<Longrightarrow> de_pending entry = Some token \<Longrightarrow> \<not> list_ex (ends_save key token) steps \<Longrightarrow>
   ds_entries (fold run_draft_step steps st) key = Some entry"
  by (induction steps arbitrary: st) (auto simp: step_keeps_pending)

text \<open>Tokens are new: no entry waits for one that was not drawn.\<close>

definition tokens_ok :: "draft_store \<Rightarrow> bool" where
  "tokens_ok st \<longleftrightarrow> (\<forall>key entry t. ds_entries st key = Some entry \<longrightarrow> de_pending entry = Some t \<longrightarrow> t < ds_fresh st)"

lemma tokens_empty: "tokens_ok createBriefEditorDraftStore"
  by (simp add: tokens_ok_def createBriefEditorDraftStore_def)

lemma step_fresh: "ds_fresh st \<le> ds_fresh (run_draft_step step st)"
  by (cases step)
    (auto simp: put_draft_def discard_draft_def beginSave_def finishSave_def subscribe_drafts_def unsubscribe_drafts_def Let_def
      split: option.split prod.split)

lemma step_tokens:
  assumes "tokens_ok st"
  shows "tokens_ok (run_draft_step step st)"
proof (cases step)
  case (BeginSave k)
  then show ?thesis using assms by (fastforce simp: tokens_ok_def beginSave_def split: option.split)
next
  case (Subscribe k l)
  then show ?thesis using assms by (force simp: tokens_ok_def subscribe_drafts_def Let_def)
next
  case (FinishSave operation e)
  then show ?thesis using assms by (force simp: tokens_ok_def finishSave_def split: option.split)
qed (use assms in \<open>force simp: tokens_ok_def put_draft_def discard_draft_def unsubscribe_drafts_def Let_def split: prod.split\<close>)+

end
