(* ===== verification/Brief_Properties.thy ===== *)
theory Brief_Properties
  imports Brief_Laws Brief_Evidence Brief_Drafts
begin

text \<open>
  Properties of saved briefs, their links to executions, the gates derived from these and the drafts of the
  editor, each with an instance at a concrete input.
\<close>

section \<open>Properties\<close>

text \<open>
  C16: Briefs survive their changes: from a registry that the strict parser accepts, any saves and archivings
  lead to one whose text the parser reads back as it is, so that no change can make the stored briefs
  unreadable, and every brief is still there with its identifier and its creation time.
\<close>

theorem brief_changes_stay_readable:
  assumes "faithful_json json_parse stringify" and "parseBriefRegistry date_parse json_parse content w = Some registry"
    and "fresh_along (\<lambda>op r. r) (apply_brief_op date_parse) (brief_time_ok date_parse) ops registry"
  shows "parseBriefRegistry date_parse json_parse (stringify (brief_registry_js (run_ops (apply_brief_op date_parse) ops registry))) w =
      Some (run_ops (apply_brief_op date_parse) ops registry) \<and>
    brief_identity ` set (bs_briefs registry) \<subseteq> brief_identity ` set (bs_briefs (run_ops (apply_brief_op date_parse) ops registry))"
proof -
  have r: "briefs_ok date_parse registry" "bs_workspaceId registry = w" using parsed_briefs_ok [OF assms(2)] by simp_all
  have "briefs_ok date_parse (run_ops (apply_brief_op date_parse) ops registry)" by (rule briefs.run_keeps [OF r(1) assms(3)])
  then show ?thesis
    using briefs_read_back [OF assms(1)] run_keeps_workspace [of date_parse ops registry] r
      run_keeps_identity [OF r(1) assms(3)] by (metis image_subsetI)
qed

text \<open>
  Links of briefs to executions stay unique: from a registry that the strict parser accepts, any additions
  and removals lead to one whose text is read back as it is, in which no link has the identifier of another or
  joins the same brief to the same execution.
\<close>

theorem brief_links_stay_unique:
  assumes "faithful_json json_parse stringify" and "parseBriefRunRegistry date_parse json_parse content w = Some registry"
  shows "parseBriefRunRegistry date_parse json_parse
      (stringify (run_registry_js (run_ops (apply_link_op date_parse) ops registry)))
      (bk_workspaceId (run_ops (apply_link_op date_parse) ops registry)) = Some (run_ops (apply_link_op date_parse) ops registry) \<and>
    distinct (map bl_id (bk_links (run_ops (apply_link_op date_parse) ops registry))) \<and>
    distinct (map linkKey (bk_links (run_ops (apply_link_op date_parse) ops registry)))"
proof -
  have "fresh_along (\<lambda>op r. r) (apply_link_op date_parse) (\<lambda>op r. True) ops registry"
    by (induction ops arbitrary: registry) simp_all
  then have "links_ok date_parse (run_ops (apply_link_op date_parse) ops registry)"
    using parsed_links_ok [OF assms(2)] by (intro brief_links.run_keeps) simp_all
  then show ?thesis using links_read_back [OF assms(1)] by (simp add: links_ok_def)
qed

text \<open>
  C15: The gate of a linked brief passes for one thing only: a native build that ended with exit code zero, not
  before it started, is the only run with the linked identifier, and ran in the repository of the brief inside
  the workspace. Reports and work orders never pass it.
\<close>

theorem gate_passes_only_for_its_build:
  "bg_state (deriveBriefGate date_parse link workspacePath evidence) = EvalPassed \<longleftrightarrow>
   (\<exists>t path. findLinkedTask link workspacePath evidence = Some t \<and>
     tr_task t = Build \<and> tr_state t = RunSucceeded \<and> tr_exitCode t = Some (Inl 0) \<and> finished_in_order date_parse t \<and>
     filter (\<lambda>r. tr_id r = bl_sourceId link) (ev_taskRuns evidence) = [t] \<and> br_repositoryPath (bl_brief link) = Some path \<and>
     repositoryPathKey workspacePath (tr_repositoryPath t) = repositoryPathKey workspacePath path \<and>
     repositoryPathKey workspacePath path \<noteq> None)"
proof (cases "findLinkedTask link workspacePath evidence")
  case None
  then show ?thesis using order_gate_never_passes [of link evidence] by (simp add: gate_state)
next
  case (Some t)
  then show ?thesis using linked_task [OF Some] by (auto simp: gate_state task_gate_state)
qed

text \<open>
  C18: The gate does not depend on the order in which the concurrent reads of queue files end: any two orders
  give the same reason and the same state.
\<close>

theorem gate_ignores_reading_order:
  assumes "\<forall>files. mset (order1 files) = mset files \<and> mset (order2 files) = mset files"
  shows "bg_reason (deriveBriefGate date_parse link workspacePath
      (readBriefRunEvidence tasks queue selectedTasks taskIds queueIds aborted order1)) =
    bg_reason (deriveBriefGate date_parse link workspacePath
      (readBriefRunEvidence tasks queue selectedTasks taskIds queueIds aborted order2)) \<and>
    bg_state (deriveBriefGate date_parse link workspacePath
      (readBriefRunEvidence tasks queue selectedTasks taskIds queueIds aborted order1)) =
    bg_state (deriveBriefGate date_parse link workspacePath
      (readBriefRunEvidence tasks queue selectedTasks taskIds queueIds aborted order2))"
  by (rule gate_same [OF evidence_same [OF assms]])

text \<open>
  C17: A draft that is being saved stays until its save ends, whatever is put, discarded, saved or subscribed in
  between and whatever other saves end: it is still there, marked as being saved. The end of its own save is
  accepted once, and no other for the same workspace is: it disposes of the draft when the save succeeded and
  keeps it with the error when it did not.
\<close>

theorem saving_draft_survives:
  assumes "beginSave key st = (Some operation, st1)" and "\<not> list_ex (ends_save key (op_token operation)) steps"
  shows "snapshot (fold run_draft_step steps st1) key =
      \<lparr>dt_draft = Some (op_draft operation), dt_saving = True, dt_error = None, dt_savedBriefId = None\<rparr> \<and>
    (fst (finishSave (operation\<lparr>op_token := token\<rparr>) error (fold run_draft_step steps st1)) \<longleftrightarrow> token = op_token operation) \<and>
    snapshot (snd (finishSave operation error (fold run_draft_step steps st1))) key =
      \<lparr>dt_draft = (if error = None then None else Some (op_draft operation)), dt_saving = False, dt_error = error, dt_savedBriefId = None\<rparr> \<and>
    \<not> fst (finishSave operation again (snd (finishSave operation error (fold run_draft_step steps st1))))"
proof -
  obtain old where old: "ds_entries st1 key = Some (old\<lparr>de_pending := Some (op_token operation), de_error := None\<rparr>)"
    "de_draft old = op_draft operation" and key: "op_key operation = key"
    using assms(1) by (auto simp: beginSave_def split: option.splits if_splits)
  define entry where "entry = old\<lparr>de_pending := Some (op_token operation), de_error := None\<rparr>"
  have entry: "ds_entries st1 key = Some entry" "de_pending entry = Some (op_token operation)"
    "de_draft entry = op_draft operation" "de_error entry = None" using old by (simp_all add: entry_def)
  have st2: "ds_entries (fold run_draft_step steps st1) key = Some entry"
    by (rule run_keeps_pending [OF entry(1,2) assms(2)])
  then show ?thesis using entry key by (cases error) (auto simp: snapshot_def finishSave_def)
qed

section \<open>Instances\<close>

definition wit_draft :: brief_draft where
  "wit_draft = \<lparr>bc_project = \<lparr>ref_id = ''p'', ref_kind = KProject, ref_label = ''P''\<rparr>,
     bc_repository = \<lparr>ref_id = ''r'', ref_kind = KRepo, ref_label = ''R''\<rparr>, bc_repositoryPath = None,
     bd_id = ''b'', bd_title = ''B'', bd_instructions = ''do''\<rparr>"

definition wit_date :: date_parser where
  "wit_date s = (if s = ''t'' then Some 1 else None)"

definition wit_brief_ops :: "timed_brief_op list" where
  "wit_brief_ops = [(SaveDraft wit_draft, ''t''), (SetArchived ''b'' True, ''t'')]"

lemma wit_empty_briefs: "briefs_ok d (createEmptyBriefRegistry w)"
  by (simp add: briefs_ok_def createEmptyBriefRegistry_def is_revision_def MAX_SAFE_INTEGER_def)

lemma wit_texts: "js_trim ''b'' = ''b''" "js_trim ''p'' = ''p''" "js_trim ''P'' = ''P''" "js_trim ''r'' = ''r''" "js_trim ''R'' = ''R''"
  "js_trim ''B'' = ''B''" "js_trim ''do'' = ''do''"
  by code_simp+

lemma wit_saved:
  "map br_archived (bs_briefs (run_ops (apply_brief_op wit_date) wit_brief_ops (createEmptyBriefRegistry ''w''))) = [True]"
  by (simp add: wit_brief_ops_def saveBriefDraft_def Let_def createEmptyBriefRegistry_def wit_draft_def isBriefRecord_def isRef_def
      boundedString_def validDate_def wit_date_def wit_texts js_nullable_def BRIEF_TITLE_MAX_LENGTH_def
      BRIEF_INSTRUCTIONS_MAX_LENGTH_def BRIEF_REGISTRY_MAX_COUNT_def setBriefArchived_def)

theorem brief_changes_stay_readable_witness:
  "parseBriefRegistry wit_date codec_parse
     (put_js (brief_registry_js (run_ops (apply_brief_op wit_date) wit_brief_ops (createEmptyBriefRegistry ''w'')))) ''w'' =
     Some (run_ops (apply_brief_op wit_date) wit_brief_ops (createEmptyBriefRegistry ''w'')) \<and>
   map br_archived (bs_briefs (run_ops (apply_brief_op wit_date) wit_brief_ops (createEmptyBriefRegistry ''w''))) = [True]"
proof
  have w: "bs_workspaceId (createEmptyBriefRegistry ''w'') = ''w''" by (simp add: createEmptyBriefRegistry_def)
  show "parseBriefRegistry wit_date codec_parse
     (put_js (brief_registry_js (run_ops (apply_brief_op wit_date) wit_brief_ops (createEmptyBriefRegistry ''w'')))) ''w'' =
     Some (run_ops (apply_brief_op wit_date) wit_brief_ops (createEmptyBriefRegistry ''w''))"
  proof (rule brief_changes_stay_readable [THEN conjunct1])
    show "faithful_json codec_parse put_js" by (rule codec_faithful)
    show "parseBriefRegistry wit_date codec_parse (put_js (brief_registry_js (createEmptyBriefRegistry ''w''))) ''w'' =
      Some (createEmptyBriefRegistry ''w'')"
      using briefs_read_back [OF codec_faithful wit_empty_briefs, of wit_date "''w''"] by (simp add: w)
    show "fresh_along (\<lambda>op r. r) (apply_brief_op wit_date) (brief_time_ok wit_date) wit_brief_ops (createEmptyBriefRegistry ''w'')"
      by (simp add: wit_brief_ops_def brief_time_ok_def validDate_def wit_date_def del: apply_brief_op.simps)
  qed
qed (rule wit_saved)

definition wit_brief :: brief_record where
  "wit_brief = \<lparr>br_id = ''b'', br_title = ''B'', br_project = bc_project wit_draft, br_repository = bc_repository wit_draft,
     br_repositoryPath = Some ''r'', br_instructions = ''do'', br_archived = False, br_createdAt = ''t'', br_updatedAt = ''t''\<rparr>"

definition wit_link :: brief_run_link where
  "wit_link = \<lparr>bl_id = ''l'', bl_brief = wit_brief, bl_sourceKind = FromRepositoryTask, bl_sourceId = ''x'', bl_createdAt = ''t''\<rparr>"

lemma wit_linked:
  "map bl_id (bk_links (run_ops (apply_link_op wit_date) [AddLink wit_link, AddLink wit_link] (createEmptyBriefRunRegistry ''w''))) = [''l'']"
proof -
  have "js_trim ''l'' = ''l''" "js_trim ''x'' = ''x''" by code_simp+
  then show ?thesis
    by (simp add: addBriefRunLink_def isRunLink_def isBriefRecord_def isRef_def wit_link_def wit_brief_def wit_draft_def boundedString_def
        validDate_def wit_date_def wit_texts js_nullable_def BRIEF_TITLE_MAX_LENGTH_def BRIEF_INSTRUCTIONS_MAX_LENGTH_def
        createEmptyBriefRunRegistry_def)
qed

theorem brief_links_stay_unique_witness:
  "distinct (map bl_id (bk_links (run_ops (apply_link_op wit_date) [AddLink wit_link, AddLink wit_link] (createEmptyBriefRunRegistry ''w'')))) \<and>
   map bl_id (bk_links (run_ops (apply_link_op wit_date) [AddLink wit_link, AddLink wit_link] (createEmptyBriefRunRegistry ''w''))) = [''l'']"
proof
  have "links_ok wit_date (createEmptyBriefRunRegistry ''w'')"
    by (simp add: links_ok_def createEmptyBriefRunRegistry_def is_revision_def MAX_SAFE_INTEGER_def)
  then have "parseBriefRunRegistry wit_date codec_parse (put_js (run_registry_js (createEmptyBriefRunRegistry ''w'')))
      (bk_workspaceId (createEmptyBriefRunRegistry ''w'')) = Some (createEmptyBriefRunRegistry ''w'')"
    by (rule links_read_back [OF codec_faithful])
  then show "distinct (map bl_id (bk_links (run_ops (apply_link_op wit_date) [AddLink wit_link, AddLink wit_link] (createEmptyBriefRunRegistry ''w''))))"
    using brief_links_stay_unique [OF codec_faithful] by blast
qed (rule wit_linked)

definition wit_order :: js where
  "wit_order = JObj [(''ref'', JObj [(''id'', JStr ''x'')]), (''status'', JStr ''failed''),
     (''tasks'', JArr [JObj [(''id'', JStr ''t''), (''repositoryIds'', JArr [JStr ''r''])]])]"

definition wit_queue_link :: brief_run_link where
  "wit_queue_link = wit_link\<lparr>bl_sourceKind := FromQueueWorkOrder\<rparr>"

lemma wit_order_fails:
  "bg_reason (deriveBriefGate wit_date wit_queue_link ''/w''
      (readBriefRunEvidence None (Some [(WorkOrderFile, Some wit_order), (WorkOrderFile, None)]) None [] [] None (\<lambda>files. files))) =
   ExecutionFailed"
  by (simp add: gate_state findLinkedTask_def order_gate_def findLinkedWorkOrder_def unresolved_def only_match_def wit_queue_link_def
      readBriefRunEvidence_def load_file_def Let_def wit_link_def wit_order_def document_id_def string_at_def js_prop_def order_tasks_def
      task_of_repository_def wit_brief_def wit_draft_def)

theorem gate_ignores_reading_order_witness:
  "bg_reason (deriveBriefGate wit_date wit_queue_link ''/w''
      (readBriefRunEvidence None (Some [(WorkOrderFile, Some wit_order), (WorkOrderFile, None)]) None [] [] None rev)) = ExecutionFailed"
  unfolding wit_order_fails [symmetric]
  by (rule gate_ignores_reading_order [THEN conjunct1]) simp

definition wit_editor_draft :: editor_draft where
  "wit_editor_draft = \<lparr>ed_id = ''b'', ed_title = ''B'', ed_repositoryId = ''r'', ed_instructions = ''do'', ed_baseline = [], ed_baseRevision = 0\<rparr>"

definition wit_drafts :: draft_store where
  "wit_drafts = snd (put_draft (''w'', ''/w'') wit_editor_draft createBriefEditorDraftStore)"

theorem saving_draft_survives_witness:
  "snapshot (fold run_draft_step [DiscardDraft (''w'', ''/w''), Subscribe (''w'', ''/w'') 7]
      (snd (beginSave (''w'', ''/w'') wit_drafts))) (''w'', ''/w'') =
     \<lparr>dt_draft = Some wit_editor_draft, dt_saving = True, dt_error = None, dt_savedBriefId = None\<rparr>"
proof -
  obtain operation st1 where b: "beginSave (''w'', ''/w'') wit_drafts = (Some operation, st1)" and d: "op_draft operation = wit_editor_draft"
    by (simp add: beginSave_def wit_drafts_def put_draft_def save_pending_def createBriefEditorDraftStore_def)
  show ?thesis
    using saving_draft_survives [OF b, of "[DiscardDraft (''w'', ''/w''), Subscribe (''w'', ''/w'') 7]", THEN conjunct1] b d by simp
qed

end
