(* ===== verification/Workspace_Sync.thy ===== *)
theory Workspace_Sync
  imports Workspace_Unlock Project_Normalization Js_Objects
begin

text \<open>
  The synchronisation payload of \<open>src/lib/workspaces/workspace-sync.ts\<close>: the envelope check, the snapshot
  written for every workspace with the paths of its repositories made relative, and the reader that puts
  them below the path of the workspace again. An object with workspace identifiers for names
  (\<open>projectRegistries\<close>) is a map; the clients of the native commands take the native answer as an argument.
\<close>

section \<open>Constants, errors and data\<close>

definition WORKSPACE_SYNC_FORMAT :: string where "WORKSPACE_SYNC_FORMAT = ''workduck.workspace-sync''"
definition WORKSPACE_SYNC_VERSION :: int where "WORKSPACE_SYNC_VERSION = 1"
definition WORKSPACE_SYNC_PAYLOAD_FORMAT :: string where "WORKSPACE_SYNC_PAYLOAD_FORMAT = ''workduck.sync-data''"
definition WORKSPACE_SYNC_PAYLOAD_VERSION :: int where "WORKSPACE_SYNC_PAYLOAD_VERSION = 1"

lemmas sync_constants = WORKSPACE_SYNC_FORMAT_def WORKSPACE_SYNC_VERSION_def WORKSPACE_SYNC_PAYLOAD_FORMAT_def
  WORKSPACE_SYNC_PAYLOAD_VERSION_def

datatype workspace_sync_crypto_error =
    workspace_sync_password_required
  | workspace_sync_plaintext_required
  | workspace_sync_envelope_invalid
  | workspace_sync_salt_invalid
  | workspace_sync_nonce_invalid
  | workspace_sync_ciphertext_invalid
  | workspace_sync_key_derivation_failed
  | workspace_sync_encryption_failed
  | workspace_sync_decryption_failed
  | workspace_sync_plaintext_invalid
  | workspace_sync_unavailable

datatype workspace_sync_registry_error =
    SyncCrypto workspace_sync_crypto_error
  | workspace_sync_registry_invalid

definition sync_crypto_errors :: "(string \<times> workspace_sync_crypto_error) list" where
  "sync_crypto_errors =
     [(''workspace-sync-password-required'', workspace_sync_password_required),
      (''workspace-sync-plaintext-required'', workspace_sync_plaintext_required),
      (''workspace-sync-envelope-invalid'', workspace_sync_envelope_invalid),
      (''workspace-sync-salt-invalid'', workspace_sync_salt_invalid),
      (''workspace-sync-nonce-invalid'', workspace_sync_nonce_invalid),
      (''workspace-sync-ciphertext-invalid'', workspace_sync_ciphertext_invalid),
      (''workspace-sync-key-derivation-failed'', workspace_sync_key_derivation_failed),
      (''workspace-sync-encryption-failed'', workspace_sync_encryption_failed),
      (''workspace-sync-decryption-failed'', workspace_sync_decryption_failed),
      (''workspace-sync-plaintext-invalid'', workspace_sync_plaintext_invalid),
      (''workspace-sync-unavailable'', workspace_sync_unavailable)]"

text \<open>The type guard, with the member of the union it has recognised.\<close>

definition isWorkspaceSyncCryptoError :: "js \<Rightarrow> workspace_sync_crypto_error option" where
  "isWorkspaceSyncCryptoError value = (case value of JStr s \<Rightarrow> map_of sync_crypto_errors s | _ \<Rightarrow> None)"

text \<open>The constant fields \<open>format\<close> and \<open>version\<close> are left out.\<close>

record workspace_sync_data =
  sd_workspaceRegistry :: workspace_registry
  sd_projectRegistries :: "string \<rightharpoonup> project_registry"

section \<open>The envelope\<close>

definition isWorkspaceSyncEnvelope :: "js \<Rightarrow> bool" where
  "isWorkspaceSyncEnvelope value =
     (if \<not> isObjectRecord value \<or> \<not> isObjectRecord (js_prop value ''kdf'') \<or> \<not> isObjectRecord (js_prop value ''cipher'')
      then False
      else (let kdf = js_prop value ''kdf''; cipher = js_prop value ''cipher'' in
        js_prop value ''format'' = JStr WORKSPACE_SYNC_FORMAT \<and>
        js_prop value ''version'' = JInt WORKSPACE_SYNC_VERSION \<and>
        js_prop kdf ''algorithm'' = JStr ''argon2id'' \<and>
        js_prop kdf ''version'' = JInt 19 \<and>
        is_number (js_prop kdf ''memoryKiB'') \<and>
        is_number (js_prop kdf ''iterations'') \<and>
        is_number (js_prop kdf ''parallelism'') \<and>
        is_string (js_prop kdf ''salt'') \<and>
        js_prop cipher ''algorithm'' = JStr ''xchacha20poly1305'' \<and>
        is_string (js_prop cipher ''nonce'') \<and>
        is_string (js_prop value ''ciphertext'')))"

definition parseWorkspaceSyncEnvelope :: "(string \<Rightarrow> js option) \<Rightarrow> string \<Rightarrow> js option" where
  "parseWorkspaceSyncEnvelope json_parse serializedEnvelope =
     (case json_parse serializedEnvelope of
        None \<Rightarrow> None
      | Some value \<Rightarrow> if isWorkspaceSyncEnvelope value then Some value else None)"

section \<open>Paths\<close>

text \<open>\<open>s.replace(/^\/\/\?\//u, '')\<close> and \<open>s.replace(/[...]+$/u, '')\<close>\<close>

definition drop_verbatim_slashes :: "string \<Rightarrow> string" where
  "drop_verbatim_slashes s = (if js_starts_with s ''//?/'' then drop 4 s else s)"

definition strip_end :: "(char \<Rightarrow> bool) \<Rightarrow> string \<Rightarrow> string" where
  "strip_end P s = rev (dropWhile P (rev s))"

definition createPathBoundaryValue :: "string \<Rightarrow> string" where
  "createPathBoundaryValue path =
     strip_end ((=) slash)
       (drop_verbatim_slashes (js_replace_char backslash slash (normalizeWorkspacePathForStorage path)))"

definition createPathBoundaryKey :: "string \<Rightarrow> string" where
  "createPathBoundaryKey path = js_lower (createPathBoundaryValue path)"

text \<open>\<open>null\<close> is \<open>None\<close>.\<close>

definition createWorkspaceRelativePath :: "string \<Rightarrow> string \<Rightarrow> string option" where
  "createWorkspaceRelativePath workspacePath childPath =
     (let workspacePathKey = createPathBoundaryKey workspacePath;
          childPathKey = createPathBoundaryKey childPath;
          workspacePathValue = createPathBoundaryValue workspacePath;
          childPathValue = createPathBoundaryValue childPath
      in if workspacePathKey = [] \<or> childPathKey = [] then None
         else if childPathKey = workspacePathKey then Some []
         else if \<not> js_starts_with childPathKey (workspacePathKey @ ''/'') then None
         else Some (drop (length workspacePathValue + 1) childPathValue))"

definition is_ascii_letter :: "char \<Rightarrow> bool" where
  "is_ascii_letter c = (let n = (of_char c :: nat) in (65 \<le> n \<and> n \<le> 90) \<or> (97 \<le> n \<and> n \<le> 122))"

text \<open>\<open>/^[A-Za-z]:[\\/]/u.test(path)\<close>\<close>

fun has_drive_prefix :: "string \<Rightarrow> bool" where
  "has_drive_prefix (d # c # s # _) \<longleftrightarrow> is_ascii_letter d \<and> c = CHR '':'' \<and> (s = backslash \<or> s = slash)"
| "has_drive_prefix _ \<longleftrightarrow> False"

definition readWorkspacePathSeparator :: "string \<Rightarrow> char" where
  "readWorkspacePathSeparator workspacePath =
     (if has_drive_prefix workspacePath \<or> js_includes workspacePath backslash then backslash else slash)"

definition createWorkspaceChildPath :: "string \<Rightarrow> string \<Rightarrow> string" where
  "createWorkspaceChildPath workspacePath relativePath =
     (let normalizedWorkspacePath =
            strip_end (\<lambda>c. c = backslash \<or> c = slash) (normalizeWorkspacePathForStorage workspacePath);
          normalizedRelativePath = js_strip slash (js_replace_char backslash slash (js_trim relativePath));
          pathSeparator = readWorkspacePathSeparator normalizedWorkspacePath
      in if normalizedRelativePath = [] then normalizedWorkspacePath
         else normalizedWorkspacePath @ [pathSeparator] @ js_replace_char slash pathSeparator normalizedRelativePath)"

definition readOptionalString :: "js \<Rightarrow> string option" where
  "readOptionalString value = (case value of JStr s \<Rightarrow> Some (js_trim s) | _ \<Rightarrow> None)"

definition normalizeSyncedLocalPath :: "string option \<Rightarrow> string option" where
  "normalizeSyncedLocalPath value =
     (case value of
        None \<Rightarrow> None
      | Some v \<Rightarrow>
          (let normalizedValue = js_strip slash (js_replace_char backslash slash (js_trim v)) in
           if normalizedValue = [] then Some []
           else (let segments = filter (\<lambda>w. w \<noteq> []) (js_split slash normalizedValue) in
                 if segments \<noteq> [] \<and> list_all (\<lambda>w. w \<noteq> ''.'' \<and> w \<noteq> ''..'') segments
                 then Some (js_join ''/'' segments) else None)))"

section \<open>Writing\<close>

text \<open>\<open>{ ...repository, path: null, localPath }\<close>\<close>

definition snapshot_repository :: "string \<Rightarrow> repository_link \<Rightarrow> js" where
  "snapshot_repository workspacePath r =
     js_set_all [(''path'', JNull),
       (''localPath'', case repo_path r of None \<Rightarrow> JNull
                       | Some p \<Rightarrow> js_nullable (createWorkspaceRelativePath workspacePath p))]
       (repository_js r)"

definition createProjectRegistrySyncSnapshot :: "project_registry \<Rightarrow> string \<Rightarrow> js" where
  "createProjectRegistrySyncSnapshot registry workspacePath =
     JObj [(''version'', JInt WORKDUCK_PROJECT_REGISTRY_VERSION),
           (''workspaceId'', JStr (reg_workspaceId registry)),
           (''updatedAt'', JStr (reg_updatedAt registry)),
           (''nodes'', JArr (map (\<lambda>node. js_set ''repositories''
              (JArr (map (snapshot_repository workspacePath) (node_repositories node))) (node_js node))
              (reg_nodes registry)))]"

text \<open>\<open>Object.fromEntries\<close> over the workspaces; an identifier without a registry gives \<open>undefined\<close>, which is
  normalised to the empty registry.\<close>

definition sync_snapshots ::
  "url_parser \<Rightarrow> string \<Rightarrow> workspace_record list \<Rightarrow> (string \<rightharpoonup> project_registry) \<Rightarrow> (string \<times> js) list" where
  "sync_snapshots U now workspaces projectRegistries =
     (let workspacePathById = map_of (rev (map (\<lambda>w. (ws_id w, ws_path w)) workspaces)) in
      fold (\<lambda>w. AList.update (ws_id w)
          (createProjectRegistrySyncSnapshot
            (normalizeProjectRegistry U now
               (case projectRegistries (ws_id w) of None \<Rightarrow> JUndefined | Some r \<Rightarrow> registry_js r) (ws_id w))
            (case workspacePathById (ws_id w) of None \<Rightarrow> [] | Some p \<Rightarrow> p)))
        workspaces [])"

definition workspaceSyncData_js ::
  "url_parser \<Rightarrow> string \<Rightarrow> workspace_registry \<Rightarrow> (string \<rightharpoonup> project_registry) \<Rightarrow> js" where
  "workspaceSyncData_js U now workspaceRegistry projectRegistries =
     (let normalizedWorkspaceRegistry = canonical_workspaces workspaceRegistry in
      JObj [(''format'', JStr WORKSPACE_SYNC_PAYLOAD_FORMAT),
            (''version'', JInt WORKSPACE_SYNC_PAYLOAD_VERSION),
            (''workspaceRegistry'', workspace_registry_js normalizedWorkspaceRegistry),
            (''projectRegistries'',
              JObj (sync_snapshots U now (wr_workspaces normalizedWorkspaceRegistry) projectRegistries))])"

definition serializeWorkspaceSyncData ::
  "url_parser \<Rightarrow> (js \<Rightarrow> string) \<Rightarrow> string \<Rightarrow> workspace_registry \<Rightarrow> (string \<rightharpoonup> project_registry) \<Rightarrow> string" where
  "serializeWorkspaceSyncData U json_stringify now workspaceRegistry projectRegistries =
     json_stringify (workspaceSyncData_js U now workspaceRegistry projectRegistries)"

section \<open>Reading\<close>

definition restore_repository :: "string \<Rightarrow> js \<Rightarrow> js" where
  "restore_repository workspacePath repository =
     (if \<not> isObjectRecord repository then repository
      else (let localPath = readOptionalString (js_prop repository ''localPath'');
                safeLocalPath = normalizeSyncedLocalPath localPath
            in js_set ''path'' (case safeLocalPath of None \<Rightarrow> JNull
                                | Some p \<Rightarrow> JStr (createWorkspaceChildPath workspacePath p)) repository))"

definition restore_node :: "string \<Rightarrow> js \<Rightarrow> js" where
  "restore_node workspacePath node =
     (if \<not> isObjectRecord node then node
      else js_set ''repositories''
             (case js_prop node ''repositories'' of
                JArr rs \<Rightarrow> JArr (map (restore_repository workspacePath) rs)
              | _ \<Rightarrow> JArr []) node)"

definition restoreProjectRegistrySyncSnapshot ::
  "url_parser \<Rightarrow> string \<Rightarrow> js \<Rightarrow> string \<Rightarrow> string \<Rightarrow> project_registry option" where
  "restoreProjectRegistrySyncSnapshot U now value workspaceId workspacePath =
     (if \<not> isObjectRecord value \<or>
         js_prop value ''version'' \<noteq> JInt WORKDUCK_PROJECT_REGISTRY_VERSION \<or>
         js_prop value ''workspaceId'' \<noteq> JStr workspaceId \<or>
         \<not> js_is_array (js_prop value ''nodes'')
      then None
      else (let rawNodes = js_elements (js_prop value ''nodes'') in
        if \<exists>node \<in> set rawNodes. \<not> isObjectRecord node \<or> \<not> js_is_array (js_prop node ''repositories'') then None
        else (let nodes = map (restore_node workspacePath) rawNodes in
          case normalizeStoredProjectRegistry U now
                 (js_set_all [(''version'', JInt WORKDUCK_PROJECT_REGISTRY_VERSION),
                              (''workspaceId'', JStr workspaceId), (''nodes'', JArr nodes)] value) workspaceId of
            Inr registry \<Rightarrow> Some registry
          | Inl _ \<Rightarrow> None)))"

definition normalizeSyncWorkspaceRegistry :: "js \<Rightarrow> workspace_registry option" where
  "normalizeSyncWorkspaceRegistry value =
     (case normalizeStoredWorkspaceRegistry value of Inr registry \<Rightarrow> Some registry | Inl _ \<Rightarrow> None)"

text \<open>\<open>Object.hasOwn(value, k)\<close>: parsed and spread objects hold no other names.\<close>

definition js_has_own :: "js \<Rightarrow> string \<Rightarrow> bool" where
  "js_has_own value k = (k \<in> fst ` set (spread value))"

definition isLegacyWorkspaceRegistryValue :: "js \<Rightarrow> bool" where
  "isLegacyWorkspaceRegistryValue value =
     (isObjectRecord value \<and> \<not> js_has_own value ''format'' \<and> \<not> js_has_own value ''version'' \<and>
      \<not> js_has_own value ''workspaceRegistry'' \<and> \<not> js_has_own value ''projectRegistries'' \<and>
      js_is_array (js_prop value ''workspaces''))"

text \<open>The loop over the workspaces: the entries, or \<open>None\<close> for its \<open>return null\<close>.\<close>

fun restore_snapshots ::
  "url_parser \<Rightarrow> string \<Rightarrow> js \<Rightarrow> workspace_record list \<Rightarrow> (string \<times> project_registry) list option" where
  "restore_snapshots U now snapshots [] = Some []"
| "restore_snapshots U now snapshots (w # ws) =
     (if \<not> js_has_own snapshots (ws_id w) then None
      else (case restoreProjectRegistrySyncSnapshot U now (js_prop snapshots (ws_id w)) (ws_id w) (ws_path w) of
              None \<Rightarrow> None
            | Some registry \<Rightarrow>
                (case restore_snapshots U now snapshots ws of
                   None \<Rightarrow> None
                 | Some entries \<Rightarrow> Some ((ws_id w, registry) # entries))))"

definition readWorkspaceSyncData :: "url_parser \<Rightarrow> string \<Rightarrow> js \<Rightarrow> workspace_sync_data option" where
  "readWorkspaceSyncData U now value =
     (if isLegacyWorkspaceRegistryValue value
      then map_option (\<lambda>r. \<lparr>sd_workspaceRegistry = r, sd_projectRegistries = Map.empty\<rparr>)
             (normalizeSyncWorkspaceRegistry value)
      else if \<not> isObjectRecord value \<or>
         js_prop value ''format'' \<noteq> JStr WORKSPACE_SYNC_PAYLOAD_FORMAT \<or>
         js_prop value ''version'' \<noteq> JInt WORKSPACE_SYNC_PAYLOAD_VERSION \<or>
         \<not> isObjectRecord (js_prop value ''projectRegistries'')
      then None
      else (let snapshots = js_prop value ''projectRegistries'' in
        case normalizeSyncWorkspaceRegistry (js_prop value ''workspaceRegistry'') of
          None \<Rightarrow> None
        | Some registry \<Rightarrow>
            if length (remdups (map fst (spread snapshots))) \<noteq> length (wr_workspaces registry) then None
            else map_option
              (\<lambda>entries. \<lparr>sd_workspaceRegistry = registry, sd_projectRegistries = map_of (rev entries)\<rparr>)
              (restore_snapshots U now snapshots (wr_workspaces registry))))"

definition parseWorkspaceSyncData ::
  "url_parser \<Rightarrow> (string \<Rightarrow> js option) \<Rightarrow> string \<Rightarrow> string \<Rightarrow> workspace_sync_data option" where
  "parseWorkspaceSyncData U json_parse now plaintext =
     (case json_parse plaintext of None \<Rightarrow> None | Some value \<Rightarrow> readWorkspaceSyncData U now value)"

definition parseLegacyWorkspaceRegistryPlaintext ::
  "(string \<Rightarrow> js option) \<Rightarrow> string \<Rightarrow> workspace_registry option" where
  "parseLegacyWorkspaceRegistryPlaintext json_parse plaintext =
     (case json_parse plaintext of
        None \<Rightarrow> None
      | Some value \<Rightarrow> if isLegacyWorkspaceRegistryValue value then normalizeSyncWorkspaceRegistry value else None)"

section \<open>The clients of the native commands\<close>

definition encryptWorkspaceSyncPayload :: "string \<Rightarrow> string \<Rightarrow> native_reply \<Rightarrow> workspace_sync_crypto_error + js" where
  "encryptWorkspaceSyncPayload plaintext password reply =
     (if password = [] then Inl workspace_sync_password_required
      else (case reply of
              NativeUnavailable \<Rightarrow> Inl workspace_sync_unavailable
            | NativeThrows \<Rightarrow> Inl workspace_sync_encryption_failed
            | NativeReply okay envelope err \<Rightarrow>
                if okay \<and> isWorkspaceSyncEnvelope envelope then Inr envelope
                else Inl (case isWorkspaceSyncCryptoError err of Some e \<Rightarrow> e
                          | None \<Rightarrow> workspace_sync_encryption_failed)))"

definition decryptWorkspaceSyncPayload :: "js \<Rightarrow> string \<Rightarrow> native_reply \<Rightarrow> workspace_sync_crypto_error + string" where
  "decryptWorkspaceSyncPayload envelope password reply =
     (if password = [] then Inl workspace_sync_password_required
      else (case reply of
              NativeUnavailable \<Rightarrow> Inl workspace_sync_unavailable
            | NativeThrows \<Rightarrow> Inl workspace_sync_decryption_failed
            | NativeReply okay plaintext err \<Rightarrow>
                (case (okay, plaintext) of
                   (True, JStr s) \<Rightarrow> Inr s
                 | _ \<Rightarrow> Inl (case isWorkspaceSyncCryptoError err of Some e \<Rightarrow> e
                            | None \<Rightarrow> workspace_sync_decryption_failed))))"

text \<open>The native answer to a command is a function of what the command is given.\<close>

definition encryptWorkspaceRegistryForSync ::
  "(js \<Rightarrow> string) \<Rightarrow> (string \<Rightarrow> string \<Rightarrow> native_reply) \<Rightarrow> workspace_registry \<Rightarrow> string \<Rightarrow>
   workspace_sync_crypto_error + js" where
  "encryptWorkspaceRegistryForSync json_stringify native registry password =
     (let plaintext = serializeWorkspaceRegistry json_stringify registry in
      encryptWorkspaceSyncPayload plaintext password (native password plaintext))"

definition encryptWorkspaceDataForSync ::
  "url_parser \<Rightarrow> (js \<Rightarrow> string) \<Rightarrow> string \<Rightarrow> (string \<Rightarrow> string \<Rightarrow> native_reply) \<Rightarrow> workspace_registry \<Rightarrow>
   (string \<rightharpoonup> project_registry) \<Rightarrow> string \<Rightarrow> workspace_sync_crypto_error + js" where
  "encryptWorkspaceDataForSync U json_stringify now native workspaceRegistry projectRegistries password =
     (let plaintext = serializeWorkspaceSyncData U json_stringify now workspaceRegistry projectRegistries in
      encryptWorkspaceSyncPayload plaintext password (native password plaintext))"

definition decryptWorkspaceRegistryFromSync ::
  "(string \<Rightarrow> js option) \<Rightarrow> (string \<Rightarrow> js \<Rightarrow> native_reply) \<Rightarrow> js \<Rightarrow> string \<Rightarrow>
   workspace_sync_registry_error + workspace_registry" where
  "decryptWorkspaceRegistryFromSync json_parse native envelope password =
     (case decryptWorkspaceSyncPayload envelope password (native password envelope) of
        Inl e \<Rightarrow> Inl (SyncCrypto e)
      | Inr plaintext \<Rightarrow>
          (case parseLegacyWorkspaceRegistryPlaintext json_parse plaintext of
             None \<Rightarrow> Inl workspace_sync_registry_invalid
           | Some registry \<Rightarrow> Inr registry))"

definition decryptWorkspaceDataFromSync ::
  "url_parser \<Rightarrow> (string \<Rightarrow> js option) \<Rightarrow> string \<Rightarrow> (string \<Rightarrow> js \<Rightarrow> native_reply) \<Rightarrow> js \<Rightarrow> string \<Rightarrow>
   workspace_sync_registry_error + workspace_sync_data" where
  "decryptWorkspaceDataFromSync U json_parse now native envelope password =
     (case decryptWorkspaceSyncPayload envelope password (native password envelope) of
        Inl e \<Rightarrow> Inl (SyncCrypto e)
      | Inr plaintext \<Rightarrow>
          (case parseWorkspaceSyncData U json_parse now plaintext of
             None \<Rightarrow> Inl workspace_sync_registry_invalid
           | Some data \<Rightarrow> Inr data))"

end
