(* ===== verification/Sync_Laws.thy ===== *)
theory Sync_Laws
  imports Workspace_Sync Project_Stored Workspace_Operations
begin

text \<open>
  Laws of the synchronisation payload: a path inside a workspace is made relative and put back unchanged, a
  local path that is accepted has no climbing segment, and a canonical registry survives the snapshot.
\<close>

section \<open>Values\<close>

lemma js_prop_set_record: "isObjectRecord v \<Longrightarrow> js_prop (js_set n w v) k = (if k = n then w else js_prop v k)"
  by (auto simp: isObjectRecord_iff)

lemma js_prop_set_all_record:
  "isObjectRecord v \<Longrightarrow> js_prop (js_set_all qs v) k = (case map_of (rev qs) k of None \<Rightarrow> js_prop v k | Some w \<Rightarrow> w)"
  by (auto simp: isObjectRecord_iff js_prop_set_all)

lemma isObjectRecord_set [simp]: "isObjectRecord (js_set n w v)" "isObjectRecord (js_set_all qs v)"
  by (simp_all add: js_set_def js_set_all_def)

lemma isObjectRecord_repository [simp]: "isObjectRecord (repository_js r)" "isObjectRecord (node_js n)"
  by (simp_all add: repository_js_def node_js_def)

text \<open>A repository is parsed from its own fields, a node from its fields and its parsed repositories.\<close>

lemma parseRepositoryLinkRecord_cong:
  assumes "isObjectRecord a" "isObjectRecord b" "\<And>k. k \<noteq> ''localPath'' \<Longrightarrow> js_prop a k = js_prop b k"
  shows "parseRepositoryLinkRecord U a = parseRepositoryLinkRecord U b"
  unfolding parseRepositoryLinkRecord_def using assms by simp

lemma parseProjectNodeRecord_cong:
  assumes "isObjectRecord a" "isObjectRecord b" "\<And>k. k \<noteq> ''repositories'' \<Longrightarrow> js_prop a k = js_prop b k"
    "List.map_filter (parseRepositoryLinkRecord U) (js_elements (js_prop a ''repositories'')) =
     List.map_filter (parseRepositoryLinkRecord U) (js_elements (js_prop b ''repositories''))"
  shows "parseProjectNodeRecord U a = parseProjectNodeRecord U b"
  unfolding parseProjectNodeRecord_def using assms by simp

section \<open>Path segments\<close>

definition proper_segment :: "string \<Rightarrow> bool" where
  "proper_segment s \<longleftrightarrow> s \<noteq> [] \<and> s \<noteq> ''.'' \<and> s \<noteq> ''..'' \<and> slash \<notin> set s \<and> backslash \<notin> set s"

lemma replace_char_same [simp]: "a \<notin> set s \<Longrightarrow> js_replace_char a b s = s"
  unfolding js_replace_char_def by (rule map_idI) auto

lemma replace_char_gone: "a \<noteq> b \<Longrightarrow> a \<notin> set (js_replace_char a b s)"
  by (auto simp: js_replace_char_def)

lemma replace_char_append [simp]: "js_replace_char a b (s @ t) = js_replace_char a b s @ js_replace_char a b t"
  by (simp add: js_replace_char_def)

lemma replace_char_cons [simp]: "js_replace_char a b [] = []"
  "js_replace_char a b (c # s) = (if c = a then b else c) # js_replace_char a b s"
  by (simp_all add: js_replace_char_def)

lemma replace_char_join:
  "list_all proper_segment segs \<Longrightarrow> js_replace_char slash c (js_join [slash] segs) = js_join [c] segs"
  by (induction "[slash]" segs rule: js_join.induct) (auto simp: proper_segment_def replace_char_cons)

lemma replace_back_join:
  "list_all proper_segment segs \<Longrightarrow> c = slash \<or> c = backslash \<Longrightarrow> js_replace_char backslash slash (js_join [c] segs) = js_join [slash] segs"
  by (induction "[c]" segs rule: js_join.induct) (auto simp: proper_segment_def replace_char_cons)

lemma set_join_segments: "x \<in> set (js_join [c] segs) \<Longrightarrow> x = c \<or> (\<exists>w \<in> set segs. x \<in> set w)"
  by (induction "[c]" segs rule: js_join.induct) auto

lemma join_hd: "segs \<noteq> [] \<Longrightarrow> hd segs \<noteq> [] \<Longrightarrow> js_join c segs \<noteq> [] \<and> hd (js_join c segs) = hd (hd segs)"
  by (cases "(c, segs)" rule: js_join.cases) auto

lemma join_last: "segs \<noteq> [] \<Longrightarrow> last segs \<noteq> [] \<Longrightarrow> js_join c segs \<noteq> [] \<and> last (js_join c segs) = last (last segs)"
  by (induction c segs rule: js_join.induct) auto

lemma js_strip_plain: "s = [] \<or> (hd s \<noteq> c \<and> last s \<noteq> c) \<Longrightarrow> js_strip c s = s"
proof -
  assume s: "s = [] \<or> (hd s \<noteq> c \<and> last s \<noteq> c)"
  then have "dropWhile ((=) c) s = s" "dropWhile ((=) c) (rev s) = rev s"
    unfolding dropWhile_all_not by (auto simp: hd_rev)
  then show ?thesis by (simp add: js_strip_def)
qed

lemma strip_end_id: "s = [] \<or> \<not> P (last s) \<Longrightarrow> strip_end P s = s"
proof -
  assume s: "s = [] \<or> \<not> P (last s)"
  then have "dropWhile P (rev s) = rev s" unfolding dropWhile_all_not by (auto simp: hd_rev)
  then show ?thesis by (simp add: strip_end_def)
qed

lemma strip_join:
  assumes "list_all proper_segment segs" shows "js_strip slash (js_join [slash] segs) = js_join [slash] segs"
proof (cases "segs = []")
  case False
  then have "proper_segment (hd segs)" "proper_segment (last segs)" using assms by (auto simp: list_all_iff)
  then have "hd (js_join [slash] segs) \<noteq> slash" "last (js_join [slash] segs) \<noteq> slash"
    using join_hd [OF False] join_last [OF False] unfolding proper_segment_def by (metis hd_in_set last_in_set)+
  then show ?thesis by (intro js_strip_plain) simp
qed (simp add: js_strip_plain)

lemma split_join_proper:
  "segs \<noteq> [] \<Longrightarrow> list_all proper_segment segs \<Longrightarrow> filter (\<lambda>w. w \<noteq> []) (js_split slash (js_join [slash] segs)) = segs"
  by (subst js_split_join) (auto simp: list_all_iff proper_segment_def filter_id_conv)

section \<open>A local path that is accepted\<close>

lemma synced_path_segments:
  assumes "normalizeSyncedLocalPath (Some v) = Some q"
  shows "\<exists>segs. list_all proper_segment segs \<and> q = js_join [slash] segs"
proof -
  let ?s = "js_strip slash (js_replace_char backslash slash (js_trim v))"
  let ?segs = "filter (\<lambda>w. w \<noteq> []) (js_split slash ?s)"
  have sub: "set (js_strip c s) \<subseteq> set s" for c s unfolding js_strip_def by (auto dest!: set_dropWhileD)
  have gone: "backslash \<notin> set (js_replace_char backslash slash (js_trim v))" by (rule replace_char_gone) simp
  have no: "backslash \<notin> set ?s" using gone sub by blast
  have words: "\<forall>w \<in> set (js_split c s). set w \<subseteq> set s" for c s
    by (induction c s rule: js_split.induct) (auto split: list.split_asm if_split_asm, blast+)
  show ?thesis
  proof (cases "?s = []")
    case True
    then have "q = []" using assms by (simp add: normalizeSyncedLocalPath_def)
    then show ?thesis by (intro exI [of _ "[]"]) simp
  next
    case False
    then have q: "list_all (\<lambda>w. w \<noteq> ''.'' \<and> w \<noteq> ''..'') ?segs" "q = js_join ''/'' ?segs"
      using assms by (simp_all add: normalizeSyncedLocalPath_def Let_def split: if_split_asm)
    have "list_all proper_segment ?segs"
      using q(1) no words [of slash ?s] js_split_no_sep [of _ slash ?s] unfolding list_all_iff proper_segment_def by fastforce
    with q(2) show ?thesis by blast
  qed
qed

definition child_base :: "string \<Rightarrow> string" where
  "child_base W = strip_end (\<lambda>c. c = backslash \<or> c = slash) (normalizeWorkspacePathForStorage W)"

text \<open>A path below a base, written with one separator.\<close>

definition below :: "string \<Rightarrow> char \<Rightarrow> string list \<Rightarrow> string" where
  "below base sep segs = base @ concat (map ((#) sep) segs)"

lemma below_join: "segs \<noteq> [] \<Longrightarrow> below base sep segs = base @ [sep] @ js_join [sep] segs"
proof -
  have "segs \<noteq> [] \<Longrightarrow> concat (map ((#) sep) segs) = sep # js_join [sep] segs"
    by (induction "[sep]" segs rule: js_join.induct) auto
  then show "segs \<noteq> [] \<Longrightarrow> ?thesis" by (simp add: below_def)
qed

lemma child_path_below:
  assumes "list_all proper_segment segs" "trimmed (js_join [slash] segs)"
  shows "createWorkspaceChildPath W (js_join [slash] segs) =
    below (child_base W) (readWorkspacePathSeparator (child_base W)) segs"
proof (cases "segs = []")
  case True
  then show ?thesis by (simp add: createWorkspaceChildPath_def below_def child_base_def js_replace_char_def js_strip_def)
next
  case False
  then have "js_join [slash] segs \<noteq> []" using join_hd [OF False] assms(1) by (auto simp: list_all_iff proper_segment_def)
  then show ?thesis
    using assms by (simp add: createWorkspaceChildPath_def Let_def js_trim_trimmed replace_back_join strip_join replace_char_join
        below_join [OF False] child_base_def)
qed

section \<open>Where a restored path comes from\<close>

lemma normalizeRepositoryPath_trim [simp]: "normalizeRepositoryPath (js_trim s) = normalizeRepositoryPath s"
  by (simp add: normalizeRepositoryPath_def normalizeWorkspacePathForStorage_def)

lemma parsed_repository_path:
  assumes "parseRepositoryLinkRecord U y = Some r"
  shows "isObjectRecord y \<and> repo_path r = non_empty (normalizeRepositoryPath (readTrimmedString (js_prop y ''path'')))"
proof (cases "isObjectRecord y")
  case True
  then have "(\<not> isObjectRecord y) = False" by simp
  show ?thesis
    using assms True unfolding parseRepositoryLinkRecord_def Let_def \<open>(\<not> isObjectRecord y) = False\<close> if_False
    by (auto split: option.split_asm if_split_asm)
qed (use assms in \<open>simp add: parseRepositoryLinkRecord_def\<close>)

lemma path_source:
  assumes reg: "reg = normalizeProjectRegistry U now v ws" and n: "n \<in> set (reg_nodes reg)"
    and r: "r \<in> set (node_repositories n)" and p: "repo_path r = Some p"
  shows "\<exists>x \<in> set (js_elements (js_prop v ''nodes'')). \<exists>y \<in> set (js_elements (js_prop x ''repositories'')).
    p = normalizeRepositoryPath (readTrimmedString (js_prop y ''path'')) \<and> p \<noteq> [] \<and> isObjectRecord y"
proof -
  let ?P = "List.map_filter (parseProjectNodeRecord U) (js_elements (js_prop v ''nodes''))"
  have "reg_nodes reg = normalizeProjectNodes U ?P"
    using n by (auto simp: reg normalizeProjectRegistry_def Let_def createEmptyProjectRegistry_def split: if_split_asm)
  then have "drawn_from ?P (reg_nodes reg)" by (simp add: drawn_from_normalizeProjectNodes)
  then obtain n0 where n0: "n0 \<in> set ?P" "repo_path ` set (node_repositories n) \<subseteq> repo_path ` set (node_repositories n0)"
    using n unfolding drawn_from_def by blast
  obtain x where x: "x \<in> set (js_elements (js_prop v ''nodes''))" "parseProjectNodeRecord U x = Some n0"
    using n0(1) by (auto simp: set_map_filter)
  obtain r0 where r0: "r0 \<in> set (node_repositories n0)" "repo_path r0 = Some p" using n0(2) r p by force
  then obtain y where y: "y \<in> set (js_elements (js_prop x ''repositories''))" "parseRepositoryLinkRecord U y = Some r0"
    using parseProjectNodeRecord_fields [OF x(2)] by (auto simp: set_map_filter)
  then show ?thesis using parsed_repository_path [OF y(2)] r0(2) x(1) by (auto simp: non_empty_def split: if_split_asm)
qed

section \<open>What the reader accepts\<close>

lemma restored_snapshot:
  assumes "restoreProjectRegistrySyncSnapshot U now s i W = Some reg"
  shows "isObjectRecord s \<and> js_prop s ''version'' = JInt WORKDUCK_PROJECT_REGISTRY_VERSION \<and>
    js_prop s ''workspaceId'' = JStr i \<and>
    (\<exists>raw v. js_prop s ''nodes'' = JArr raw \<and> normalizeStoredProjectRegistry U now v i = Inr reg \<and>
       js_prop v ''nodes'' = JArr (map (restore_node W) raw) \<and>
       (\<forall>x \<in> set raw. isObjectRecord x \<and> js_is_array (js_prop x ''repositories'')))"
proof -
  let ?v = "js_set_all [(''version'', JInt WORKDUCK_PROJECT_REGISTRY_VERSION), (''workspaceId'', JStr i),
    (''nodes'', JArr (map (restore_node W) (js_elements (js_prop s ''nodes''))))] s"
  have a: "isObjectRecord s" "js_prop s ''version'' = JInt WORKDUCK_PROJECT_REGISTRY_VERSION"
    "js_prop s ''workspaceId'' = JStr i" "js_is_array (js_prop s ''nodes'')"
    using assms by (auto simp: restoreProjectRegistrySyncSnapshot_def split: if_split_asm)
  have b: "\<forall>x \<in> set (js_elements (js_prop s ''nodes'')). isObjectRecord x \<and> js_is_array (js_prop x ''repositories'')"
    "normalizeStoredProjectRegistry U now ?v i = Inr reg"
    using assms a by (auto simp: restoreProjectRegistrySyncSnapshot_def Let_def split: if_split_asm sum.split_asm)
  obtain raw where raw: "js_prop s ''nodes'' = JArr raw" using a(4) by (auto simp: js_is_array_def split: js.split_asm)
  have "js_prop ?v ''nodes'' = JArr (map (restore_node W) raw)" using a(1) raw by (simp add: js_prop_set_all_record)
  then show ?thesis using a b raw by auto
qed

lemma restored_path:
  assumes "isObjectRecord y0" "js_prop (restore_repository W y0) ''path'' = JStr s"
  shows "\<exists>q. normalizeSyncedLocalPath (readOptionalString (js_prop y0 ''localPath'')) = Some q \<and> s = createWorkspaceChildPath W q"
  using assms by (auto simp: restore_repository_def Let_def js_prop_set_record split: option.split_asm)

lemma restored_repositories:
  assumes "isObjectRecord x" "js_is_array (js_prop x ''repositories'')"
  shows "js_elements (js_prop (restore_node W x) ''repositories'') = map (restore_repository W) (js_elements (js_prop x ''repositories''))"
  using assms by (auto simp: restore_node_def js_prop_set_record js_is_array_def split: js.split_asm)

lemma snapshot_paths:
  assumes rs: "restoreProjectRegistrySyncSnapshot U now s i W = Some reg" and n: "n \<in> set (reg_nodes reg)"
    and r: "r \<in> set (node_repositories n)" and p: "repo_path r = Some p"
  shows "\<exists>x \<in> set (js_elements (js_prop s ''nodes'')). \<exists>y \<in> set (js_elements (js_prop x ''repositories'')). \<exists>q.
    normalizeSyncedLocalPath (readOptionalString (js_prop y ''localPath'')) = Some q \<and>
    p = normalizeRepositoryPath (createWorkspaceChildPath W q)"
proof -
  obtain raw v where v: "js_prop s ''nodes'' = JArr raw" "normalizeStoredProjectRegistry U now v i = Inr reg"
    "js_prop v ''nodes'' = JArr (map (restore_node W) raw)"
    "\<forall>x \<in> set raw. isObjectRecord x \<and> js_is_array (js_prop x ''repositories'')" using restored_snapshot [OF rs] by blast
  have reg: "reg = normalizeProjectRegistry U now v i" using stored_accepted [OF v(2)] by blast
  obtain x y where y: "x \<in> set raw" "y \<in> set (js_elements (js_prop (restore_node W x) ''repositories''))"
    "p = normalizeRepositoryPath (readTrimmedString (js_prop y ''path''))" "p \<noteq> []" "isObjectRecord y"
    using path_source [OF reg n r p] v(3) by auto
  obtain y0 where y0: "y0 \<in> set (js_elements (js_prop x ''repositories''))" "y = restore_repository W y0"
    using y(1,2) v(4) restored_repositories by auto
  have rec: "isObjectRecord y0" using y(5) y0(2) by (auto simp: restore_repository_def split: if_split_asm)
  obtain t where t: "js_prop y ''path'' = JStr t"
    using y(3,4) by (auto simp: readTrimmedString_def normalizeRepositoryPath_def normalizeWorkspacePathForStorage_def
        removeWindowsVerbatimPathPrefix_def js_starts_with_def WINDOWS_VERBATIM_UNC_PATH_PREFIX_def
        WINDOWS_VERBATIM_PATH_PREFIX_def js_slice0_def split: js.split_asm)
  obtain q where "normalizeSyncedLocalPath (readOptionalString (js_prop y0 ''localPath'')) = Some q"
    "t = createWorkspaceChildPath W q" using restored_path [OF rec] t y0(2) by auto
  then show ?thesis using y(1,3) y0(1) t v(1) by auto
qed

lemma restored_entries:
  assumes "restore_snapshots U now snaps ws = Some entries"
  shows "map fst entries = map ws_id ws \<and>
    list_all2 (\<lambda>w e. restoreProjectRegistrySyncSnapshot U now (js_prop snaps (ws_id w)) (ws_id w) (ws_path w) = Some (snd e)) ws entries"
  using assms by (induction ws arbitrary: entries) (auto split: if_split_asm option.split_asm)

lemma entry_of:
  assumes e: "restore_snapshots U now snaps ws = Some entries" and d: "distinct (map ws_id ws)" and w: "w \<in> set ws"
  shows "\<exists>reg. map_of (rev entries) (ws_id w) = Some reg \<and>
    restoreProjectRegistrySyncSnapshot U now (js_prop snaps (ws_id w)) (ws_id w) (ws_path w) = Some reg"
proof -
  note r = restored_entries [OF e]
  obtain k where k: "k < length ws" "ws ! k = w" using w by (auto simp: in_set_conv_nth)
  then have k': "k < length entries" "fst (entries ! k) = ws_id w"
    using r by (metis length_map, metis (no_types, lifting) length_map nth_map)
  then have "(ws_id w, snd (entries ! k)) \<in> set entries" by (metis nth_mem prod.collapse)
  then have "map_of (rev entries) (ws_id w) = Some (snd (entries ! k))"
    using r d by (intro map_of_is_SomeI) (auto simp: rev_map [symmetric])
  then show ?thesis using r k list_all2_nthD [of _ ws entries k] by auto
qed

text \<open>A modern payload that is accepted has one accepted snapshot for every workspace.\<close>

lemma modern_payload:
  assumes "readWorkspaceSyncData U now v = Some d" "\<not> isLegacyWorkspaceRegistryValue v"
  shows "normalizeStoredWorkspaceRegistry (js_prop v ''workspaceRegistry'') = Inr (sd_workspaceRegistry d) \<and>
    (\<exists>entries. restore_snapshots U now (js_prop v ''projectRegistries'') (wr_workspaces (sd_workspaceRegistry d)) = Some entries \<and>
       sd_projectRegistries d = map_of (rev entries))"
  using assms unfolding readWorkspaceSyncData_def normalizeSyncWorkspaceRegistry_def
  by (auto simp: Let_def split: if_split_asm option.split_asm sum.split_asm)

lemma stored_workspaces_distinct:
  assumes "normalizeStoredWorkspaceRegistry v = Inr r" shows "distinct (map ws_id (wr_workspaces r))"
proof -
  have "r = normalizeWorkspaceRegistry v"
    using assms by (auto simp: normalizeStoredWorkspaceRegistry_def Let_def split: if_split_asm)
  then show ?thesis using wf_normalizeWorkspaceRegistry [of v] by (simp add: wf_workspaces_def wf_list_def)
qed

lemma workspace_snapshot:
  assumes r: "readWorkspaceSyncData U now v = Some d" and m: "\<not> isLegacyWorkspaceRegistryValue v"
    and w: "w \<in> set (wr_workspaces (sd_workspaceRegistry d))"
  shows "\<exists>reg. sd_projectRegistries d (ws_id w) = Some reg \<and>
    restoreProjectRegistrySyncSnapshot U now (js_prop (js_prop v ''projectRegistries'') (ws_id w)) (ws_id w) (ws_path w) = Some reg"
proof -
  note p = modern_payload [OF r m]
  obtain entries where "restore_snapshots U now (js_prop v ''projectRegistries'') (wr_workspaces (sd_workspaceRegistry d)) = Some entries"
    "sd_projectRegistries d = map_of (rev entries)" using p by blast
  then show ?thesis using entry_of [of U now _ _ entries w] stored_workspaces_distinct p w by metis
qed

section \<open>A path inside the workspace survives\<close>

text \<open>A workspace path that no reader shortens: trimmed, without a verbatim prefix or a separator at its end.\<close>

definition plain_root :: "string \<Rightarrow> bool" where
  "plain_root W \<longleftrightarrow> W \<noteq> [] \<and> \<not> js_ws (hd W) \<and> \<not> js_ws (last W) \<and> last W \<noteq> slash \<and> last W \<noteq> backslash \<and>
     \<not> prefix ''//?'' (js_replace_char backslash slash W)"

definition synced_back :: "string \<Rightarrow> string \<Rightarrow> bool" where
  "synced_back W p \<longleftrightarrow> (\<exists>l q. createWorkspaceRelativePath W p = Some l \<and>
     normalizeSyncedLocalPath (Some (js_trim l)) = Some q \<and> createWorkspaceChildPath W q = p)"

lemma not_verbatim:
  assumes "\<not> prefix ''//?/'' (js_replace_char backslash slash s)"
  shows "removeWindowsVerbatimPathPrefix s = s"
proof -
  have "prefix ''//?/'' (js_replace_char backslash slash s)" if "prefix WINDOWS_VERBATIM_PATH_PREFIX s"
    using that by (auto simp: prefix_def WINDOWS_VERBATIM_PATH_PREFIX_def)
  moreover have "prefix WINDOWS_VERBATIM_PATH_PREFIX s" if "prefix WINDOWS_VERBATIM_UNC_PATH_PREFIX s"
    using that by (auto simp: prefix_def WINDOWS_VERBATIM_PATH_PREFIX_def WINDOWS_VERBATIM_UNC_PATH_PREFIX_def)
  ultimately show ?thesis using assms by (auto simp: removeWindowsVerbatimPathPrefix_def js_starts_with_def)
qed

lemma root_value:
  assumes "plain_root W"
  shows "normalizeWorkspacePathForStorage W = W \<and> child_base W = W \<and>
    createPathBoundaryValue W = js_replace_char backslash slash W"
proof -
  have np: "\<not> prefix ''//?/'' (js_replace_char backslash slash W)"
    using assms by (auto simp: plain_root_def prefix_def)
  have st: "normalizeWorkspacePathForStorage W = W"
    using assms not_verbatim [OF np] by (simp add: normalizeWorkspacePathForStorage_def js_trim_trimmed trimmed_def plain_root_def)
  have "last (js_replace_char backslash slash W) \<noteq> slash"
    using assms by (auto simp: plain_root_def js_replace_char_def last_map)
  then show ?thesis using st np assms
    by (simp add: createPathBoundaryValue_def drop_verbatim_slashes_def js_starts_with_def strip_end_id child_base_def plain_root_def)
qed

lemma child_value:
  assumes W: "plain_root W" and segs: "segs \<noteq> []" "list_all proper_segment segs" "trimmed (js_join [slash] segs)"
    and c: "c = slash \<or> c = backslash"
  shows "createPathBoundaryValue (W @ [c] @ js_join [c] segs) =
    js_replace_char backslash slash W @ [slash] @ js_join [slash] segs"
proof -
  let ?R = "js_replace_char backslash slash W"
  have lst: "proper_segment (last segs)" using segs by (simp add: list_all_iff)
  then have l: "js_join [c] segs \<noteq> []" "last (js_join [c] segs) = last (last segs)"
    "js_join [slash] segs \<noteq> []" "last (js_join [slash] segs) = last (last segs)"
    using join_last [OF segs(1)] by (simp_all add: proper_segment_def)
  have "last (last segs) \<noteq> slash" using lst last_in_set by (fastforce simp: proper_segment_def)
  have tr: "trimmed (W @ [c] @ js_join [c] segs)"
    using W segs(3) l by (simp add: trimmed_def plain_root_def)
  have rep: "js_replace_char backslash slash (W @ [c] @ js_join [c] segs) = ?R @ [slash] @ js_join [slash] segs"
    using c by (auto simp: replace_back_join [OF segs(2)])
  have len: "length ?R = length W" by (simp add: js_replace_char_def)
  have lastR: "last ?R \<noteq> slash" "?R \<noteq> []"
    using W by (auto simp: plain_root_def js_replace_char_def last_map)
  have np: "\<not> prefix ''//?/'' (?R @ [slash] @ t)" for t
  proof
    assume pre: "prefix ''//?/'' (?R @ [slash] @ t)"
    show False
    proof (cases ?R)
      case (Cons a R1)
      note R = this
      show False
      proof (cases R1)
        case Nil
        then show False using pre lastR R by simp
      next
        case (Cons b R2)
        then show False using pre lastR R W by (cases R2) (auto simp: plain_root_def)
      qed
    qed (use lastR in simp)
  qed
  have "normalizeWorkspacePathForStorage (W @ [c] @ js_join [c] segs) = W @ [c] @ js_join [c] segs"
    unfolding normalizeWorkspacePathForStorage_def js_trim_trimmed [OF tr]
    by (rule not_verbatim) (unfold rep, rule np)
  then have "createPathBoundaryValue (W @ [c] @ js_join [c] segs) = strip_end ((=) slash) (?R @ [slash] @ js_join [slash] segs)"
    unfolding createPathBoundaryValue_def rep using np
    by (simp add: drop_verbatim_slashes_def js_starts_with_def rep [simplified])
  also have "\<dots> = ?R @ [slash] @ js_join [slash] segs"
    using l \<open>last (last segs) \<noteq> slash\<close> by (intro strip_end_id) auto
  finally show ?thesis .
qed

lemma synced_back_below:
  assumes W: "plain_root W" and segs: "list_all proper_segment segs" "trimmed (js_join [slash] segs)"
  shows "synced_back W (below W (readWorkspacePathSeparator W) segs)"
proof (cases "segs = []")
  case True
  note v = root_value [OF W]
  have "createPathBoundaryKey W \<noteq> []" using v W by (simp add: createPathBoundaryKey_def plain_root_def js_replace_char_def)
  then have "createWorkspaceRelativePath W W = Some []" by (simp add: createWorkspaceRelativePath_def)
  moreover have "normalizeSyncedLocalPath (Some (js_trim [])) = Some []" by (simp add: normalizeSyncedLocalPath_def js_strip_plain)
  moreover have "createWorkspaceChildPath W [] = W" using child_path_below [of "[]" W] v by (simp add: below_def)
  ultimately show ?thesis using True by (auto simp: synced_back_def below_def)
next
  case False
  let ?c = "readWorkspacePathSeparator W"
  let ?R = "js_replace_char backslash slash W"
  let ?q = "js_join [slash] segs"
  have c: "?c = slash \<or> ?c = backslash" by (simp add: readWorkspacePathSeparator_def)
  note v = child_value [OF W False segs c] root_value [OF W]
  have R: "?R \<noteq> []" using W by (simp add: plain_root_def js_replace_char_def)
  have rel: "createWorkspaceRelativePath W (below W ?c segs) = Some ?q"
    unfolding below_join [OF False] createWorkspaceRelativePath_def createPathBoundaryKey_def v(1) Let_def
    using v(2) R by (simp add: js_starts_with_def js_lower_def js_lower_char_def Let_def)
  have "proper_segment (hd segs)" using False segs(1) by (simp add: list_all_iff)
  then have q: "?q \<noteq> []" using join_hd [OF False] by (simp add: proper_segment_def)
  have nb: "backslash \<notin> set ?q" using segs(1) set_join_segments [of backslash slash segs]
    by (auto simp: list_all_iff proper_segment_def)
  have dots: "list_all (\<lambda>w. w \<noteq> ''.'' \<and> w \<noteq> ''..'') segs" using segs(1) by (simp add: list_all_iff proper_segment_def)
  have acc: "normalizeSyncedLocalPath (Some (js_trim ?q)) = Some ?q"
    using q dots by (simp add: normalizeSyncedLocalPath_def js_trim_trimmed [OF segs(2)] nb strip_join [OF segs(1)]
        split_join_proper [OF False segs(1)] Let_def False)
  show ?thesis unfolding synced_back_def using rel acc child_path_below [OF segs, of W] v(2) by auto
qed

section \<open>A registry survives its snapshot\<close>

definition portable_registry :: "string \<Rightarrow> project_registry \<Rightarrow> bool" where
  "portable_registry W reg \<longleftrightarrow>
     (\<forall>n \<in> set (reg_nodes reg). \<forall>r \<in> set (node_repositories n). \<forall>p \<in> set_option (repo_path r). synced_back W p)"

abbreviation snapshot_node :: "string \<Rightarrow> project_node \<Rightarrow> js" where
  "snapshot_node W n \<equiv> js_set ''repositories'' (JArr (map (snapshot_repository W) (node_repositories n))) (node_js n)"

lemma snapshot_repository_prop:
  "isObjectRecord (snapshot_repository W r)"
  "js_prop (snapshot_repository W r) k =
     (if k = ''localPath'' then (case repo_path r of None \<Rightarrow> JNull | Some p \<Rightarrow> js_nullable (createWorkspaceRelativePath W p))
      else if k = ''path'' then JNull else js_prop (repository_js r) k)"
  by (simp_all add: snapshot_repository_def js_prop_set_all_record)

lemma repository_js_path [simp]: "js_prop (repository_js r) ''path'' = js_nullable (repo_path r)"
  by (simp add: repository_js_def js_prop_def)

lemma restored_repository_same:
  assumes "\<forall>p \<in> set_option (repo_path r). synced_back W p"
  shows "parseRepositoryLinkRecord U (restore_repository W (snapshot_repository W r)) = parseRepositoryLinkRecord U (repository_js r)"
proof (rule parseRepositoryLinkRecord_cong)
  note s = snapshot_repository_prop
  let ?y = "restore_repository W (snapshot_repository W r)"
  show "isObjectRecord ?y" by (simp add: restore_repository_def s(1))
  fix k assume k: "k \<noteq> ''localPath''"
  have "js_prop ?y ''path'' = js_nullable (repo_path r)"
    using assms by (cases "repo_path r") (auto simp: restore_repository_def s js_prop_set_record Let_def
        readOptionalString_def normalizeSyncedLocalPath_def js_nullable_def synced_back_def)
  moreover have "k \<noteq> ''path'' \<Longrightarrow> js_prop ?y k = js_prop (repository_js r) k"
    using k by (simp add: restore_repository_def s js_prop_set_record Let_def)
  ultimately show "js_prop ?y k = js_prop (repository_js r) k" by (cases "k = ''path''") simp_all
qed simp

lemma map_filter_map_cong:
  "(\<And>x. x \<in> set xs \<Longrightarrow> f (g x) = f' (g' x)) \<Longrightarrow> List.map_filter f (map g xs) = List.map_filter f' (map g' xs)"
  by (induction xs) (auto simp: map_filter_Cons split: option.split)

lemma restored_node_same:
  assumes "\<forall>r \<in> set (node_repositories n). \<forall>p \<in> set_option (repo_path r). synced_back W p"
  shows "parseProjectNodeRecord U (restore_node W (snapshot_node W n)) = parseProjectNodeRecord U (node_js n)"
proof (rule parseProjectNodeRecord_cong)
  show "isObjectRecord (restore_node W (snapshot_node W n))" by (simp add: restore_node_def)
  show "js_prop (restore_node W (snapshot_node W n)) k = js_prop (node_js n) k" if "k \<noteq> ''repositories''" for k
    using that by (simp add: restore_node_def js_prop_set_record)
  have "js_elements (js_prop (restore_node W (snapshot_node W n)) ''repositories'') =
      map (\<lambda>r. restore_repository W (snapshot_repository W r)) (node_repositories n)"
    by (simp add: restore_node_def js_prop_set_record)
  moreover have "js_elements (js_prop (node_js n) ''repositories'') = map repository_js (node_repositories n)"
    by (simp add: node_js_def js_prop_def)
  ultimately show "List.map_filter (parseRepositoryLinkRecord U) (js_elements (js_prop (restore_node W (snapshot_node W n)) ''repositories'')) =
      List.map_filter (parseRepositoryLinkRecord U) (js_elements (js_prop (node_js n) ''repositories''))"
    using assms by (auto intro!: map_filter_map_cong simp: restored_repository_same)
qed simp

text \<open>The strict reader sees only the parsed nodes, their identifiers and the number of their repositories.\<close>

lemma stored_same:
  assumes v: "isObjectRecord v" "js_prop v ''version'' = js_prop v' ''version''" "js_prop v ''updatedAt'' = js_prop v' ''updatedAt''"
    "isObjectRecord v'" "js_prop v ''nodes'' = JArr (map g ns)" "js_prop v' ''nodes'' = JArr (map g' ns)"
    and g: "\<And>n. n \<in> set ns \<Longrightarrow> parseProjectNodeRecord U (g n) = parseProjectNodeRecord U (g' n) \<and>
      isObjectRecord (g n) \<and> isObjectRecord (g' n) \<and> js_prop (g n) ''id'' = js_prop (g' n) ''id'' \<and>
      (\<exists>rs rs'. js_prop (g n) ''repositories'' = JArr rs \<and> js_prop (g' n) ''repositories'' = JArr rs' \<and> length rs = length rs')"
  shows "normalizeStoredProjectRegistry U now v i = normalizeStoredProjectRegistry U now v' i"
proof -
  have m: "List.map_filter (parseProjectNodeRecord U) (map g ns) = List.map_filter (parseProjectNodeRecord U) (map g' ns)"
    using g by (intro map_filter_map_cong) blast
  have r: "normalizeProjectRegistry U now v i = normalizeProjectRegistry U now v' i"
    unfolding normalizeProjectRegistry_def using v m by simp
  have lost: "stored_node_lost nodes (g n) = stored_node_lost nodes (g' n)" if n: "n \<in> set ns" for nodes n
  proof -
    obtain rs rs' where "js_prop (g n) ''repositories'' = JArr rs" "js_prop (g' n) ''repositories'' = JArr rs'"
      "length rs = length rs'" using g [OF n] by blast
    then show ?thesis using g [OF n] by (cases "js_prop (g' n) ''id''") (simp_all add: stored_node_lost_def)
  qed
  then have ex: "(\<exists>x \<in> set (map g ns). stored_node_lost nodes x) = (\<exists>x \<in> set (map g' ns). stored_node_lost nodes x)" for nodes
    by auto
  show ?thesis unfolding normalizeStoredProjectRegistry_def v(2,5,6) js.case r Let_def ex by (simp add: v(1,4))
qed

lemma snapshot_restored:
  assumes can: "canonical_registry U r" and i: "reg_workspaceId r = i" and port: "portable_registry W r"
  shows "restoreProjectRegistrySyncSnapshot U now (createProjectRegistrySyncSnapshot r W) i W = Some (r\<lparr>reg_nodes := roots_first (reg_nodes r)\<rparr>)"
proof -
  let ?s = "createProjectRegistrySyncSnapshot r W"
  let ?v = "js_set_all [(''version'', JInt WORKDUCK_PROJECT_REGISTRY_VERSION), (''workspaceId'', JStr i),
    (''nodes'', JArr (map (restore_node W) (map (snapshot_node W) (reg_nodes r))))] ?s"
  have s: "isObjectRecord ?s" "js_prop ?s ''version'' = JInt WORKDUCK_PROJECT_REGISTRY_VERSION"
    "js_prop ?s ''workspaceId'' = JStr i" "js_prop ?s ''nodes'' = JArr (map (snapshot_node W) (reg_nodes r))"
    "js_prop ?s ''updatedAt'' = JStr (reg_updatedAt r)"
    by (simp_all add: createProjectRegistrySyncSnapshot_def js_prop_def i)
  have rv: "js_prop (registry_js r) ''version'' = JInt WORKDUCK_PROJECT_REGISTRY_VERSION"
    using can by (simp add: registry_js_def js_prop_def canonical_registry_def)
  have ru: "js_prop (registry_js r) ''updatedAt'' = JStr (reg_updatedAt r)" by (simp add: registry_js_def js_prop_def)
  have "normalizeStoredProjectRegistry U now ?v i = normalizeStoredProjectRegistry U now (registry_js r) i"
  proof (rule stored_same)
    show "js_prop ?v ''version'' = js_prop (registry_js r) ''version''"
      using rv by (simp add: js_prop_set_all_record s(1))
    show "js_prop ?v ''updatedAt'' = js_prop (registry_js r) ''updatedAt''"
      using ru by (simp add: js_prop_set_all_record s)
    show "js_prop ?v ''nodes'' = JArr (map (\<lambda>n. restore_node W (snapshot_node W n)) (reg_nodes r))"
      by (simp add: js_prop_set_all_record s(1))
    show "js_prop (registry_js r) ''nodes'' = JArr (map node_js (reg_nodes r))" by (simp add: registry_js_def js_prop_def)
    show "isObjectRecord (registry_js r)" by (simp add: registry_js_def)
    fix n assume n: "n \<in> set (reg_nodes r)"
    have "js_prop (node_js n) ''repositories'' = JArr (map repository_js (node_repositories n))" by (simp add: node_js_def js_prop_def)
    then show "parseProjectNodeRecord U (restore_node W (snapshot_node W n)) = parseProjectNodeRecord U (node_js n) \<and>
      isObjectRecord (restore_node W (snapshot_node W n)) \<and> isObjectRecord (node_js n) \<and>
      js_prop (restore_node W (snapshot_node W n)) ''id'' = js_prop (node_js n) ''id'' \<and>
      (\<exists>rs rs'. js_prop (restore_node W (snapshot_node W n)) ''repositories'' = JArr rs \<and>
         js_prop (node_js n) ''repositories'' = JArr rs' \<and> length rs = length rs')"
      using restored_node_same [of n W U] port n by (simp add: restore_node_def js_prop_set_record portable_registry_def)
  qed simp
  also have "\<dots> = Inr (r\<lparr>reg_nodes := roots_first (reg_nodes r)\<rparr>)"
    unfolding stored_canonical [OF can i] by (simp add: normalized_canonical [OF can])
  finally have "normalizeStoredProjectRegistry U now ?v i = Inr (r\<lparr>reg_nodes := roots_first (reg_nodes r)\<rparr>)" .
  then show ?thesis
    by (simp add: restoreProjectRegistrySyncSnapshot_def s Let_def js_prop_set_record o_def)
qed

section \<open>The whole payload\<close>

lemma fold_update_map:
  "distinct (map k ws) \<Longrightarrow> fst ` set ps \<inter> k ` set ws = {} \<Longrightarrow>
   fold (\<lambda>w. AList.update (k w) (f w)) ws ps = ps @ map (\<lambda>w. (k w, f w)) ws"
proof (induction ws arbitrary: ps)
  case (Cons w ws)
  have "k w \<notin> fst ` set ps \<Longrightarrow> AList.update (k w) (f w) ps = ps @ [(k w, f w)]" by (induction ps) auto
  then show ?case using Cons.prems by (subst fold_Cons, simp, subst Cons.IH) auto
qed simp

lemma sync_snapshots_map:
  assumes "distinct (map ws_id ws)"
  shows "sync_snapshots U now ws prs = map (\<lambda>w. (ws_id w, createProjectRegistrySyncSnapshot
    (normalizeProjectRegistry U now (case prs (ws_id w) of None \<Rightarrow> JUndefined | Some r \<Rightarrow> registry_js r) (ws_id w)) (ws_path w))) ws"
proof -
  have "map_of (rev (map (\<lambda>w. (ws_id w, ws_path w)) ws)) (ws_id w) = Some (ws_path w)" if "w \<in> set ws" for w
    using assms that by (intro map_of_is_SomeI) (auto simp: rev_map [symmetric] o_def)
  then show ?thesis unfolding sync_snapshots_def Let_def by (subst fold_update_map [OF assms]) auto
qed

lemma restore_snapshots_map:
  assumes "\<forall>w \<in> set ws. js_has_own snaps (ws_id w) \<and>
    restoreProjectRegistrySyncSnapshot U now (js_prop snaps (ws_id w)) (ws_id w) (ws_path w) = Some (f w)"
  shows "restore_snapshots U now snaps ws = Some (map (\<lambda>w. (ws_id w, f w)) ws)"
  using assms by (induction ws) auto

lemma stored_exact:
  assumes "normalizeStoredWorkspaceRegistry (workspace_registry_js r) = Inr r"
  shows "canonical_workspaces r = r \<and> distinct (map ws_id (wr_workspaces r))"
  using assms stored_workspaces_distinct [OF assms]
  by (auto simp: normalizeStoredWorkspaceRegistry_def Let_def split: if_split_asm)

lemma portable_normalized:
  assumes "canonical_registry U r" "portable_registry W r" shows "portable_registry W (normalized U now r)"
proof -
  have "set (roots_first (reg_nodes r)) = set (reg_nodes r)" using roots_first_perm by (metis set_mset_mset)
  then show ?thesis using assms(2) by (simp add: normalized_canonical [OF assms(1)] portable_registry_def)
qed

text \<open>What every workspace brings to the payload.\<close>

definition sync_ready :: "url_parser \<Rightarrow> (string \<rightharpoonup> project_registry) \<Rightarrow> workspace_record \<Rightarrow> bool" where
  "sync_ready U prs w \<longleftrightarrow> (\<exists>r. prs (ws_id w) = Some r \<and> canonical_registry U r \<and> reg_workspaceId r = ws_id w \<and>
     portable_registry (ws_path w) r)"

definition roots_first_registry :: "project_registry \<Rightarrow> project_registry" where
  "roots_first_registry r = r\<lparr>reg_nodes := roots_first (reg_nodes r)\<rparr>"

lemma payload_read:
  assumes exact: "normalizeStoredWorkspaceRegistry (workspace_registry_js wr) = Inr wr"
    and ready: "\<forall>w \<in> set (wr_workspaces wr). sync_ready U prs w"
  shows "readWorkspaceSyncData U now' (workspaceSyncData_js U now wr prs) = Some \<lparr>sd_workspaceRegistry = wr,
    sd_projectRegistries = (\<lambda>i. if i \<in> ws_id ` set (wr_workspaces wr) then map_option roots_first_registry (prs i) else None)\<rparr>"
proof -
  note wr = stored_exact [OF exact]
  let ?ws = "wr_workspaces wr"
  let ?snaps = "sync_snapshots U now ?ws prs"
  let ?v = "workspaceSyncData_js U now wr prs"
  have v: "?v = JObj [(''format'', JStr WORKSPACE_SYNC_PAYLOAD_FORMAT), (''version'', JInt WORKSPACE_SYNC_PAYLOAD_VERSION),
      (''workspaceRegistry'', workspace_registry_js wr), (''projectRegistries'', JObj ?snaps)]"
    by (simp add: workspaceSyncData_js_def wr)
  have keys: "map fst ?snaps = map ws_id ?ws" by (simp add: sync_snapshots_map wr)
  have each: "js_has_own (JObj ?snaps) (ws_id w) \<and>
    restoreProjectRegistrySyncSnapshot U now' (js_prop (JObj ?snaps) (ws_id w)) (ws_id w) (ws_path w) =
      Some (roots_first_registry (the (prs (ws_id w))))" if w: "w \<in> set ?ws" for w
  proof -
    obtain r where r: "prs (ws_id w) = Some r" "canonical_registry U r" "reg_workspaceId r = ws_id w"
      "portable_registry (ws_path w) r" using ready w by (auto simp: sync_ready_def)
    have n: "normalized U now r = roots_first_registry r" using normalized_canonical [OF r(2)] by (simp add: roots_first_registry_def)
    have "map_of ?snaps (ws_id w) = Some (createProjectRegistrySyncSnapshot (normalized U now r) (ws_path w))"
      using wr w r(1,3) by (intro map_of_is_SomeI) (auto simp: sync_snapshots_map o_def normalized_def intro!: image_eqI [of _ _ w])
    then have "js_prop (JObj ?snaps) (ws_id w) = createProjectRegistrySyncSnapshot (normalized U now r) (ws_path w)"
      by (simp add: js_prop_def)
    moreover have "restoreProjectRegistrySyncSnapshot U now' (createProjectRegistrySyncSnapshot (normalized U now r) (ws_path w))
        (ws_id w) (ws_path w) = Some (roots_first_registry r)"
      by (subst snapshot_restored [OF canonical_normalized [OF r(2)] _ portable_normalized [OF r(2,4)]])
        (simp_all add: n roots_first_registry_def r(3))
    moreover have "js_has_own (JObj ?snaps) (ws_id w)"
      using w keys by (simp add: js_has_own_def spread_def) (metis image_eqI image_set)
    ultimately show ?thesis by (simp add: r(1))
  qed
  let ?entries = "map (\<lambda>w. (ws_id w, roots_first_registry (the (prs (ws_id w))))) ?ws"
  have entries: "restore_snapshots U now' (JObj ?snaps) ?ws = Some ?entries"
    by (rule restore_snapshots_map) (use each in blast)
  have map: "map_of (rev ?entries) i = (if i \<in> ws_id ` set ?ws then map_option roots_first_registry (prs i) else None)" for i
  proof (cases "i \<in> ws_id ` set ?ws")
    case True
    then obtain w where w: "w \<in> set ?ws" "i = ws_id w" by auto
    obtain r where r: "prs i = Some r" using ready w by (auto simp: sync_ready_def)
    have "map_of (rev ?entries) i = Some (roots_first_registry r)"
      using wr w r by (intro map_of_is_SomeI) (auto simp: rev_map [symmetric] o_def intro!: image_eqI [of _ _ w])
    then show ?thesis using r w by auto
  next
    case False
    then have "map_of (rev ?entries) i = None" by (auto simp: map_of_eq_None_iff)
    then show ?thesis using False by simp
  qed
  have "length (remdups (map fst ?snaps)) = length ?ws" using wr by (simp add: keys distinct_remdups_id)
  moreover have "\<not> isLegacyWorkspaceRegistryValue ?v" by (simp add: v isLegacyWorkspaceRegistryValue_def js_has_own_def spread_def)
  ultimately show ?thesis
    using map unfolding readWorkspaceSyncData_def normalizeSyncWorkspaceRegistry_def
    by (simp add: v js_prop_def spread_def exact entries fun_eq_iff)
qed

text \<open>The payload is a JSON value.\<close>

lemma repository_json [simp]: "json_value (snapshot_repository W r)"
  by (simp add: snapshot_repository_def js_set_all_def repository_js_def spread_def list_all_iff split: option.split)

lemma snapshot_json: "json_value (createProjectRegistrySyncSnapshot r W)"
  by (simp add: createProjectRegistrySyncSnapshot_def js_set_def node_js_def spread_def list_all_iff kind_js_def)

lemma workspace_registry_json: "json_value (workspace_registry_js r)"
  by (simp add: workspace_registry_js_def workspace_js_def lock_js_def list_all_iff split: option.split)

lemma payload_json: "json_value (workspaceSyncData_js U now wr prs)"
proof -
  have "distinct (map ws_id (wr_workspaces (canonical_workspaces wr)))"
    using wf_normalizeWorkspaceRegistry [of "workspace_registry_js wr"] by (simp add: wf_workspaces_def wf_list_def)
  then show ?thesis
    by (simp add: workspaceSyncData_js_def Let_def workspace_registry_json sync_snapshots_map o_def list_all_iff snapshot_json)
qed

section \<open>A repository that cannot be restored\<close>

lemma lost_repository:
  assumes "repo_remoteUrl r = None" "\<forall>p. repo_path r = Some p \<longrightarrow> createWorkspaceRelativePath W p = None"
  shows "parseRepositoryLinkRecord U (restore_repository W (snapshot_repository W r)) = None"
proof -
  note s = snapshot_repository_prop
  let ?y = "restore_repository W (snapshot_repository W r)"
  have js: "js_prop (repository_js r) ''remoteUrl'' = js_nullable (repo_remoteUrl r)" by (simp add: repository_js_def js_prop_def)
  have "js_prop (snapshot_repository W r) ''localPath'' = JNull"
    using assms(2) by (cases "repo_path r") (simp_all add: s js_nullable_def)
  then have "js_prop ?y ''path'' = JNull"
    by (simp add: restore_repository_def s(1) js_prop_set_record readOptionalString_def normalizeSyncedLocalPath_def)
  moreover have "js_prop ?y ''remoteUrl'' = JNull"
    using assms(1) js by (simp add: restore_repository_def s js_prop_set_record Let_def js_nullable_def)
  moreover have "normalizeRepositoryRemoteUrl U [] = []" "normalizeRepositoryPath [] = []"
    by (simp_all add: normalizeRepositoryRemoteUrl_def isValidRepositoryRemoteUrl_def js_slice0_def normalizeRepositoryPath_def
        normalizeWorkspacePathForStorage_def removeWindowsVerbatimPathPrefix_def js_starts_with_def
        WINDOWS_VERBATIM_UNC_PATH_PREFIX_def WINDOWS_VERBATIM_PATH_PREFIX_def)
  ultimately show ?thesis by (simp add: parseRepositoryLinkRecord_def Let_def split: option.split)
qed

lemma outside_refused:
  assumes can: "canonical_registry U r" and i: "reg_workspaceId r = i" and n: "n \<in> set (reg_nodes r)"
    and q: "q \<in> set (node_repositories n)" "repo_remoteUrl q = None" "\<forall>p. repo_path q = Some p \<longrightarrow> createWorkspaceRelativePath W p = None"
  shows "restoreProjectRegistrySyncSnapshot U now (createProjectRegistrySyncSnapshot r W) i W = None"
proof (rule ccontr)
  assume "restoreProjectRegistrySyncSnapshot U now (createProjectRegistrySyncSnapshot r W) i W \<noteq> None"
  then obtain reg where reg: "restoreProjectRegistrySyncSnapshot U now (createProjectRegistrySyncSnapshot r W) i W = Some reg" by blast
  obtain raw v where v: "js_prop (createProjectRegistrySyncSnapshot r W) ''nodes'' = JArr raw"
    "normalizeStoredProjectRegistry U now v i = Inr reg" "js_prop v ''nodes'' = JArr (map (restore_node W) raw)"
    using restored_snapshot [OF reg] by blast
  have raw: "raw = map (snapshot_node W) (reg_nodes r)"
    using v(1) by (simp add: createProjectRegistrySyncSnapshot_def js_prop_def)
  let ?x = "restore_node W (snapshot_node W n)"
  have "?x \<in> set (js_elements (js_prop v ''nodes''))" using n by (simp add: v(3) raw)
  then have "kept_node U (reg_nodes reg) ?x" by (rule stored_keeps_everything [OF v(2)])
  then obtain m where m: "parseProjectNodeRecord U ?x = Some m"
    "length (node_repositories m) = length (js_elements (js_prop ?x ''repositories''))"
    unfolding kept_node_def by blast
  let ?y = "restore_repository W (snapshot_repository W q)"
  have "?y \<in> set (js_elements (js_prop ?x ''repositories''))" using q(1) by (simp add: restore_node_def js_prop_set_record)
  then obtain z where "parseRepositoryLinkRecord U ?y = Some z"
    using map_filter_full parseProjectNodeRecord_fields [OF m(1)] m(2) by metis
  then show False using lost_repository [OF q(2,3), of U] by simp
qed

end
