(* ===== verification/Sync_Properties.thy ===== *)
theory Sync_Properties
  imports Sync_Laws
begin

text \<open>The properties of the synchronisation payload, each with a concrete instance where it has hypotheses.\<close>

section \<open>Sample data\<close>

definition travel_workspace :: workspace_record where
  "travel_workspace = \<lparr>ws_id = ''w'', ws_name = ''Main'', ws_path = ''/a'', ws_lock = None, ws_createdAt = ''t'', ws_updatedAt = ''t''\<rparr>"

definition travel_workspaces :: workspace_registry where
  "travel_workspaces = \<lparr>wr_activeWorkspaceId = Some ''w'', wr_workspaces = [travel_workspace]\<rparr>"

definition travel_repository :: "string \<Rightarrow> repository_link" where
  "travel_repository p = \<lparr>repo_id = ''r'', repo_name = ''app'', repo_path = Some p, repo_remoteUrl = None,
     repo_upstreamRemoteUrl = None, repo_githubCredentialSecretId = None, repo_favorite = False, repo_tags = [],
     repo_createdAt = ''t'', repo_updatedAt = ''t''\<rparr>"

definition travel_registry :: "string \<Rightarrow> project_registry" where
  "travel_registry p = \<lparr>reg_version = 1, reg_workspaceId = ''w'', reg_nodes =
    [\<lparr>node_id = ''p'', node_kind = ProjectKind, node_parentId = None, node_name = ''D'', node_description = [],
      node_path = ''projects/d'', node_githubCredentialSecretId = None, node_tags = [],
      node_repositories = [], node_createdAt = ''t'', node_updatedAt = ''t''\<rparr>,
     \<lparr>node_id = ''g'', node_kind = GroupKind, node_parentId = Some ''p'', node_name = ''A'', node_description = [],
      node_path = ''projects/d/a'', node_githubCredentialSecretId = None, node_tags = [],
      node_repositories = [travel_repository p], node_createdAt = ''t'', node_updatedAt = ''t''\<rparr>],
    reg_updatedAt = ''t''\<rparr>"

definition no_url :: url_parser where "no_url s = None"

lemma travel_facts:
  "normalizeStoredWorkspaceRegistry (workspace_registry_js travel_workspaces) = Inr travel_workspaces"
  "canonical_registry no_url (travel_registry ''/a/b'')" "canonical_registry no_url (travel_registry ''/b'')"
  by code_simp+

section \<open>Round trip\<close>






text \<open>
  A path comes back when it is the workspace path, without a separator at its end and without a
  verbatim prefix, followed by segments that are not empty, \<open>.\<close> or \<open>..\<close>: made relative and put below the
  workspace again it is the same text.
\<close>

theorem inner_path_comes_back:
  assumes "plain_root W" "list_all proper_segment segs" "trimmed (js_join ''/'' segs)"
  shows "synced_back W (below W (readWorkspacePathSeparator W) segs)"
  using assms by (rule synced_back_below)

theorem inner_path_comes_back_witness:
  "synced_back [CHR ''C'', CHR '':'', backslash, CHR ''w''] [CHR ''C'', CHR '':'', backslash, CHR ''w'', backslash, CHR ''a'', backslash, CHR ''b'']"
proof -
  let ?W = "[CHR ''C'', CHR '':'', backslash, CHR ''w'']"
  have "synced_back ?W (below ?W (readWorkspacePathSeparator ?W) [''a'', ''b''])"
    by (rule inner_path_comes_back) code_simp+
  moreover have "below ?W (readWorkspacePathSeparator ?W) [''a'', ''b''] = ?W @ [backslash, CHR ''a'', backslash, CHR ''b'']" by code_simp
  ultimately show ?thesis by simp
qed

section \<open>Import\<close>

text \<open>No accepted local path of a payload ends in white space.\<close>

definition tidy_snapshot :: "js \<Rightarrow> bool" where
  "tidy_snapshot s \<longleftrightarrow> (\<forall>x \<in> set (js_elements (js_prop s ''nodes'')). \<forall>y \<in> set (js_elements (js_prop x ''repositories'')).
     case normalizeSyncedLocalPath (readOptionalString (js_prop y ''localPath'')) of None \<Rightarrow> True | Some q \<Rightarrow> trimmed q)"

text \<open>
  Whatever an imported payload says, the path of an imported repository is the path of its workspace
  followed by segments none of which is empty, \<open>.\<close> or \<open>..\<close>, cut to the length that a repository path may
  have, where no accepted local path begins or ends in white space.
\<close>

theorem imported_paths_stay_inside:
  assumes "readWorkspaceSyncData U now v = Some d" "\<not> isLegacyWorkspaceRegistryValue v"
    and "w \<in> set (wr_workspaces (sd_workspaceRegistry d))" "sd_projectRegistries d (ws_id w) = Some reg"
    and "n \<in> set (reg_nodes reg)" "r \<in> set (node_repositories n)" "repo_path r = Some p"
    and tidy: "tidy_snapshot (js_prop (js_prop v ''projectRegistries'') (ws_id w))"
  shows "\<exists>segs. list_all proper_segment segs \<and>
    p = normalizeRepositoryPath (below (child_base (ws_path w)) (readWorkspacePathSeparator (child_base (ws_path w))) segs)"
proof -
  let ?s = "js_prop (js_prop v ''projectRegistries'') (ws_id w)"
  have "restoreProjectRegistrySyncSnapshot U now ?s (ws_id w) (ws_path w) = Some reg"
    using workspace_snapshot [OF assms(1-3)] assms(4) by auto
  from snapshot_paths [OF this assms(5-7)] obtain x y q where
    y: "x \<in> set (js_elements (js_prop ?s ''nodes''))" "y \<in> set (js_elements (js_prop x ''repositories''))"
    and q: "normalizeSyncedLocalPath (readOptionalString (js_prop y ''localPath'')) = Some q"
    "p = normalizeRepositoryPath (createWorkspaceChildPath (ws_path w) q)" by blast
  have "trimmed q" using tidy y q(1) unfolding tidy_snapshot_def by fastforce
  moreover obtain v' where "readOptionalString (js_prop y ''localPath'') = Some v'"
    using q(1) by (auto simp: normalizeSyncedLocalPath_def split: option.split_asm)
  with q(1) obtain segs where "list_all proper_segment segs" "q = js_join [slash] segs"
    using synced_path_segments by metis
  ultimately show ?thesis using child_path_below [of segs "ws_path w"] q(2) by auto
qed

text \<open>The payload of the sample workspaces, and one whose local path is the text given.\<close>

definition travel_payload :: "string \<Rightarrow> js" where
  "travel_payload p = JObj [(''format'', JStr WORKSPACE_SYNC_PAYLOAD_FORMAT), (''version'', JInt 1),
     (''workspaceRegistry'', workspace_registry_js travel_workspaces),
     (''projectRegistries'', JObj [(''w'', JObj [(''version'', JInt 1), (''workspaceId'', JStr ''w''), (''updatedAt'', JStr ''t''),
        (''nodes'', JArr [JObj [(''id'', JStr ''p''), (''kind'', JStr ''project''), (''name'', JStr ''D''), (''path'', JStr ''projects/d''), (''repositories'', JArr [])],
          JObj [(''id'', JStr ''g''), (''kind'', JStr ''group''), (''parentId'', JStr ''p''), (''name'', JStr ''A''), (''path'', JStr ''projects/d/a''),
            (''repositories'', JArr [JObj [(''id'', JStr ''r''), (''name'', JStr ''app''), (''localPath'', JStr p)]])]])])])]"

definition imported_paths :: "workspace_sync_data option \<Rightarrow> string option list" where
  "imported_paths d = (case d of None \<Rightarrow> [] | Some d' \<Rightarrow> (case sd_projectRegistries d' ''w'' of None \<Rightarrow> []
     | Some reg \<Rightarrow> map repo_path (concat (map node_repositories (reg_nodes reg)))))"

theorem imported_paths_stay_inside_witness:
  "\<exists>segs. list_all proper_segment segs \<and> ''/a/b'' = normalizeRepositoryPath (below (child_base ''/a'') CHR ''/'' segs)"
proof -
  let ?v = "travel_payload ''b''"
  obtain d where d: "readWorkspaceSyncData no_url ''t'' ?v = Some d"
    "sd_workspaceRegistry d = travel_workspaces" "imported_paths (Some d) = [Some ''/a/b'']"
  proof -
    have "map_option sd_workspaceRegistry (readWorkspaceSyncData no_url ''t'' ?v) = Some travel_workspaces"
      "imported_paths (readWorkspaceSyncData no_url ''t'' ?v) = [Some ''/a/b'']" by code_simp+
    then show ?thesis using that by auto
  qed
  obtain reg where reg: "sd_projectRegistries d ''w'' = Some reg"
    using d(3) by (auto simp: imported_paths_def split: option.split_asm)
  then have "map repo_path (concat (map node_repositories (reg_nodes reg))) = [Some ''/a/b'']"
    using d(3) by (simp add: imported_paths_def)
  then have "Some ''/a/b'' \<in> set (map repo_path (concat (map node_repositories (reg_nodes reg))))" by simp
  then obtain n r where n: "n \<in> set (reg_nodes reg)" "r \<in> set (node_repositories n)" "repo_path r = Some ''/a/b''" by auto
  have w: "travel_workspace \<in> set (wr_workspaces (sd_workspaceRegistry d))" "sd_projectRegistries d (ws_id travel_workspace) = Some reg"
    by (simp_all add: d(2) travel_workspaces_def reg travel_workspace_def)
  have t: "tidy_snapshot (js_prop (js_prop ?v ''projectRegistries'') (ws_id travel_workspace))" "\<not> isLegacyWorkspaceRegistryValue ?v"
    "ws_path travel_workspace = ''/a''" "readWorkspacePathSeparator (child_base ''/a'') = CHR ''/''" by code_simp+
  show ?thesis using imported_paths_stay_inside [OF d(1) t(2) w n t(1)] by (simp only: t(3,4))
qed

text \<open>
  The check of the segments comes before the last trimming, so a local path whose last segment is two dots
  and a blank is accepted and leads out of the workspace.
\<close>

lemma blank_after_dots_climbs:
  "imported_paths (readWorkspaceSyncData no_url ''t'' (travel_payload ''.. /'')) = [Some ''/a/..'']"
  by code_simp

text \<open>
  An accepted payload is complete: there is one workspace for every stored record, and every workspace
  has a project registry under its identifier in which every stored node is kept with its kind and all its
  repositories.
\<close>

theorem import_keeps_everything:
  assumes "readWorkspaceSyncData U now v = Some d" "\<not> isLegacyWorkspaceRegistryValue v"
  shows "map Some (wr_workspaces (sd_workspaceRegistry d)) =
      map parseWorkspaceRecord (js_elements (js_prop (js_prop v ''workspaceRegistry'') ''workspaces'')) \<and>
    (\<forall>w \<in> set (wr_workspaces (sd_workspaceRegistry d)). \<exists>reg. sd_projectRegistries d (ws_id w) = Some reg \<and>
       (\<forall>x \<in> set (js_elements (js_prop (js_prop (js_prop v ''projectRegistries'') (ws_id w)) ''nodes'')).
          kept_node U (reg_nodes reg) (restore_node (ws_path w) x)))"
proof -
  have "map Some (wr_workspaces (sd_workspaceRegistry d)) =
      map parseWorkspaceRecord (js_elements (js_prop (js_prop v ''workspaceRegistry'') ''workspaces''))"
    using stored_registry_accepts modern_payload [OF assms] by fastforce
  moreover have "\<exists>reg. sd_projectRegistries d (ws_id w) = Some reg \<and>
       (\<forall>x \<in> set (js_elements (js_prop (js_prop (js_prop v ''projectRegistries'') (ws_id w)) ''nodes'')).
          kept_node U (reg_nodes reg) (restore_node (ws_path w) x))" if w: "w \<in> set (wr_workspaces (sd_workspaceRegistry d))" for w
  proof -
    obtain reg where reg: "sd_projectRegistries d (ws_id w) = Some reg"
      "restoreProjectRegistrySyncSnapshot U now (js_prop (js_prop v ''projectRegistries'') (ws_id w)) (ws_id w) (ws_path w) = Some reg"
      using workspace_snapshot [OF assms w] by blast
    obtain raw v' where "js_prop (js_prop (js_prop v ''projectRegistries'') (ws_id w)) ''nodes'' = JArr raw"
      "normalizeStoredProjectRegistry U now v' (ws_id w) = Inr reg" "js_prop v' ''nodes'' = JArr (map (restore_node (ws_path w)) raw)"
      using restored_snapshot [OF reg(2)] by blast
    then show ?thesis using reg(1) stored_keeps_everything by auto
  qed
  ultimately show ?thesis by blast
qed

theorem import_keeps_everything_witness:
  "map Some [travel_workspace] = map parseWorkspaceRecord [workspace_js travel_workspace]"
proof -
  have s: "map_option sd_workspaceRegistry (readWorkspaceSyncData no_url ''t'' (travel_payload ''b'')) = Some travel_workspaces"
    "\<not> isLegacyWorkspaceRegistryValue (travel_payload ''b'')"
    "js_elements (js_prop (js_prop (travel_payload ''b'') ''workspaceRegistry'') ''workspaces'') = [workspace_js travel_workspace]" by code_simp+
  then obtain d where d: "readWorkspaceSyncData no_url ''t'' (travel_payload ''b'') = Some d" "sd_workspaceRegistry d = travel_workspaces" by auto
  show ?thesis using import_keeps_everything [OF d(1) s(2)] unfolding d(2) s(3) by (simp add: travel_workspaces_def)
qed

text \<open>
  A repository without a remote URL whose path is not below its workspace can be exported but makes the
  snapshot unreadable: the import of everything is refused.
\<close>

theorem outside_repository_blocks_import:
  assumes "canonical_registry U r" "reg_workspaceId r = i" "n \<in> set (reg_nodes r)" "q \<in> set (node_repositories n)"
    "repo_remoteUrl q = None" "\<forall>p. repo_path q = Some p \<longrightarrow> createWorkspaceRelativePath W p = None"
  shows "restoreProjectRegistrySyncSnapshot U now (createProjectRegistrySyncSnapshot r W) i W = None"
  using assms by (rule outside_refused)

theorem outside_repository_blocks_import_witness:
  "restoreProjectRegistrySyncSnapshot no_url ''t'' (createProjectRegistrySyncSnapshot (travel_registry ''/b'') ''/a'') ''w'' ''/a'' = None"
proof (rule outside_repository_blocks_import [OF travel_facts(3)])
  show "reg_nodes (travel_registry ''/b'') ! 1 \<in> set (reg_nodes (travel_registry ''/b''))" by (simp add: travel_registry_def)
  show "travel_repository ''/b'' \<in> set (node_repositories (reg_nodes (travel_registry ''/b'') ! 1))" by (simp add: travel_registry_def)
  show "\<forall>p. repo_path (travel_repository ''/b'') = Some p \<longrightarrow> createWorkspaceRelativePath ''/a'' p = None"
  proof -
    have "createWorkspaceRelativePath ''/a'' ''/b'' = None" by code_simp
    then show ?thesis by (simp add: travel_repository_def)
  qed
qed (simp_all add: travel_registry_def travel_repository_def)

end
