(* ===== verification/Workspace_Clients.thy ===== *)
theory Workspace_Clients
  imports Workspace_Registry Workspace_Unlock Registry_Storage
begin

text \<open>
  The clients of native commands around workspaces: \<open>workspace-path.ts\<close>, \<open>workspace-registration-draft.ts\<close>,
  \<open>workspace-sync-file.ts\<close>, \<open>workspace-sync-git.ts\<close>, \<open>workspace-repository-setup.ts\<close> and
  \<open>workspace-path-messages.ts\<close> of \<open>src/lib/workspaces\<close>. A command is a function from what it is given to
  the native answer. Members of error unions are their texts.
\<close>

type_synonym reply = "Registry_Storage.native_reply"

text \<open>\<open>typeof v === 'string' ? v : null\<close> and \<open>v ?? d\<close>.\<close>

definition string_or_null :: "js \<Rightarrow> string option" where
  "string_or_null v = (case v of JStr s \<Rightarrow> Some s | _ \<Rightarrow> None)"

definition js_or :: "js \<Rightarrow> js \<Rightarrow> js" where
  "js_or v d = (if v = JNull \<or> v = JUndefined then d else v)"

text \<open>An error of a union, or the given default.\<close>

definition error_or :: "string list \<Rightarrow> string \<Rightarrow> js \<Rightarrow> string" where
  "error_or members d v = (case v of JStr s \<Rightarrow> if s \<in> set members then s else d | _ \<Rightarrow> d)"

section \<open>Directories\<close>

datatype dialog_answer = DialogThrows | DialogCancelled | DialogPath string | DialogPaths "string list"

definition selectWorkspacePath :: "(string option \<Rightarrow> dialog_answer) \<Rightarrow> string \<Rightarrow> string + string option" where
  "selectWorkspacePath open_dialog defaultPath =
     (let trimmedDefaultPath = normalizeWorkspacePathForStorage defaultPath in
      case open_dialog (if trimmedDefaultPath \<noteq> [] then Some trimmedDefaultPath else None) of
        DialogThrows \<Rightarrow> Inl ''workspace-path-selection-unavailable''
      | DialogPaths _ \<Rightarrow> Inl ''workspace-path-selection-failed''
      | DialogCancelled \<Rightarrow> Inr None
      | DialogPath p \<Rightarrow> Inr (Some (normalizeWorkspacePathForStorage p)))"

definition workspacePathValidationErrors :: "string list" where
  "workspacePathValidationErrors =
     [''workspace-path-required'', ''workspace-path-too-long'', ''workspace-path-not-absolute'', ''workspace-path-not-found'',
      ''workspace-path-not-directory'', ''workspace-path-permission-denied'', ''workspace-path-unreadable'',
      ''workspace-path-validation-unavailable'']"

text \<open>A path that is not a text makes \<open>trim\<close> throw, inside the \<open>try\<close>.\<close>

definition validateWorkspacePath :: "(string \<Rightarrow> reply) \<Rightarrow> string \<Rightarrow> string + string" where
  "validateWorkspacePath validate path =
     (let trimmedPath = js_trim path in
      if trimmedPath = [] then Inl ''workspace-path-required''
      else if length (normalizeWorkspacePathForStorage trimmedPath) > WORKSPACE_PATH_MAX_LENGTH then Inl ''workspace-path-too-long''
      else (case validate trimmedPath of
              NoBridge \<Rightarrow> Inl ''workspace-path-validation-unavailable''
            | Rejected \<Rightarrow> Inl ''workspace-path-unreadable''
            | Reply response \<Rightarrow>
                if response = JNull \<or> response = JUndefined then Inl ''workspace-path-unreadable''
                else if js_truthy (js_prop response ''ok'')
                then (case js_or (js_prop response ''normalizedPath'') (JStr []) of
                        JStr p \<Rightarrow>
                          (let normalizedPath = normalizeWorkspacePathForStorage p in
                           if length normalizedPath > WORKSPACE_PATH_MAX_LENGTH then Inl ''workspace-path-too-long''
                           else if normalizedPath \<noteq> [] then Inr normalizedPath
                           else Inl ''workspace-path-unreadable'')
                      | _ \<Rightarrow> Inl ''workspace-path-unreadable'')
                else Inl (error_or workspacePathValidationErrors ''workspace-path-unreadable'' (js_prop response ''error''))))"

text \<open>The selected directory that survives navigation: the module variable, before and after.\<close>

definition setWorkspaceRegistrationPath :: "string \<Rightarrow> string option" where
  "setWorkspaceRegistrationPath path =
     (let p = normalizeWorkspacePathForStorage path in if p = [] then None else Some p)"

definition takeWorkspaceRegistrationPath :: "string option \<Rightarrow> string option \<times> string option" where
  "takeWorkspaceRegistrationPath selectedPath = (None, selectedPath)"

definition suggestWorkspaceName :: "string \<Rightarrow> string" where
  "suggestWorkspaceName path =
     (let words = path_words (normalizeWorkspacePathForStorage path);
          name = (if words = [] then [] else last words)
      in if length name = 2 \<and> (let n = (of_char (hd name) :: nat) in (65 \<le> n \<and> n \<le> 90) \<or> (97 \<le> n \<and> n \<le> 122)) \<and>
            last name = CHR '':''
         then [] else name)"

definition getWorkspacePathErrorMessage :: "string \<Rightarrow> string option" where
  "getWorkspacePathErrorMessage error = map_of
     [(''workspace-path-required'', ''Workspace path is required.''),
      (''workspace-path-too-long'', ''Workspace path is too long. Choose a shorter folder path.''),
      (''workspace-path-not-absolute'', ''Workspace path must be an absolute folder path.''),
      (''workspace-path-not-found'', ''Workspace path does not exist.''),
      (''workspace-path-not-directory'', ''Workspace path must be a folder.''),
      (''workspace-path-permission-denied'', ''Workspace path is not readable.''),
      (''workspace-path-unreadable'', ''Workspace path could not be checked.''),
      (''workspace-path-validation-unavailable'', ''Workspace path can only be checked in the desktop app.''),
      (''workspace-path-selection-unavailable'', ''Workspace folder picker is unavailable.''),
      (''workspace-path-selection-failed'', ''Workspace folder could not be selected.'')] error"

section \<open>The synchronisation file\<close>

definition DEFAULT_WORKSPACE_SYNC_FILE_NAME :: string where "DEFAULT_WORKSPACE_SYNC_FILE_NAME = ''workduck-workspaces.sync.json''"
definition WORKSPACE_SYNC_FILE_NAME_MAX_LENGTH :: nat where "WORKSPACE_SYNC_FILE_NAME_MAX_LENGTH = 120"

definition workspaceSyncFileErrors :: "string list" where
  "workspaceSyncFileErrors =
     [''workspace-sync-folder-required'', ''workspace-sync-folder-not-absolute'', ''workspace-sync-folder-not-found'',
      ''workspace-sync-folder-not-directory'', ''workspace-sync-folder-permission-denied'',
      ''workspace-sync-file-name-required'', ''workspace-sync-file-name-invalid'', ''workspace-sync-content-required'',
      ''workspace-sync-file-not-found'', ''workspace-sync-file-too-large'', ''workspace-sync-file-target-invalid'',
      ''workspace-sync-file-read-failed'', ''workspace-sync-file-write-failed'', ''workspace-sync-file-unavailable'']"

definition normalizeWorkspaceSyncFileName :: "string \<Rightarrow> string" where
  "normalizeWorkspaceSyncFileName fileName = js_trim fileName"

text \<open>\<open>\p{Cc}\<close>\<close>

definition is_control :: "char \<Rightarrow> bool" where
  "is_control c = (let n = (of_char c :: nat) in n < 32 \<or> (127 \<le> n \<and> n < 160))"

definition isWorkspaceSyncFileNameUsable :: "string \<Rightarrow> bool" where
  "isWorkspaceSyncFileNameUsable fileName =
     (let n = normalizeWorkspaceSyncFileName fileName in
      n \<noteq> [] \<and> length n \<le> WORKSPACE_SYNC_FILE_NAME_MAX_LENGTH \<and> n \<noteq> ''.'' \<and> n \<noteq> ''..'' \<and>
      \<not> list_ex (\<lambda>c. c \<in> {slash, backslash, CHR ''<'', CHR ''>'', CHR '':'', CHR 0x22, CHR ''|'', CHR ''?'', CHR ''*''} \<or>
                       is_control c) n)"

definition sync_name_error :: "string \<Rightarrow> string" where
  "sync_name_error n = (if n = [] then ''workspace-sync-file-name-required'' else ''workspace-sync-file-name-invalid'')"

definition writeWorkspaceSyncFile ::
  "(string \<Rightarrow> string \<Rightarrow> string \<Rightarrow> reply) \<Rightarrow> string \<Rightarrow> string \<Rightarrow> string \<Rightarrow> string + string" where
  "writeWorkspaceSyncFile command folderPath fileName content =
     (let name = normalizeWorkspaceSyncFileName fileName in
      if \<not> isWorkspaceSyncFileNameUsable name then Inl (sync_name_error name)
      else (case command (normalizeWorkspacePathForStorage folderPath) name content of
              NoBridge \<Rightarrow> Inl ''workspace-sync-file-unavailable''
            | Rejected \<Rightarrow> Inl ''workspace-sync-file-write-failed''
            | Reply response \<Rightarrow>
                (case string_or_null (js_prop response ''normalizedPath'') of
                   Some p \<Rightarrow>
                     if js_truthy (js_prop response ''ok'') then Inr (normalizeWorkspacePathForStorage p)
                     else Inl (error_or workspaceSyncFileErrors ''workspace-sync-file-write-failed'' (js_prop response ''error''))
                 | None \<Rightarrow> Inl (error_or workspaceSyncFileErrors ''workspace-sync-file-write-failed'' (js_prop response ''error'')))))"

definition readWorkspaceSyncFile ::
  "(string \<Rightarrow> string \<Rightarrow> reply) \<Rightarrow> string \<Rightarrow> string \<Rightarrow> string + string \<times> string" where
  "readWorkspaceSyncFile command folderPath fileName =
     (let name = normalizeWorkspaceSyncFileName fileName in
      if \<not> isWorkspaceSyncFileNameUsable name then Inl (sync_name_error name)
      else (case command (normalizeWorkspacePathForStorage folderPath) name of
              NoBridge \<Rightarrow> Inl ''workspace-sync-file-unavailable''
            | Rejected \<Rightarrow> Inl ''workspace-sync-file-read-failed''
            | Reply response \<Rightarrow>
                (case (string_or_null (js_prop response ''normalizedPath''), string_or_null (js_prop response ''content'')) of
                   (Some p, Some c) \<Rightarrow>
                     if js_truthy (js_prop response ''ok'') then Inr (normalizeWorkspacePathForStorage p, c)
                     else Inl (error_or workspaceSyncFileErrors ''workspace-sync-file-read-failed'' (js_prop response ''error''))
                 | _ \<Rightarrow> Inl (error_or workspaceSyncFileErrors ''workspace-sync-file-read-failed'' (js_prop response ''error'')))))"

section \<open>The synchronisation repository\<close>

record sync_git_inspection =
  gi_normalizedPath :: string
  gi_isRepository :: bool
  gi_originUrl :: "string option"
  gi_branchName :: "string option"
  gi_aheadCount :: int
  gi_behindCount :: int
  gi_hasSyncFileChanges :: bool
  gi_hasUncommittedChanges :: bool

definition workspaceSyncGitErrors :: "string list" where
  "workspaceSyncGitErrors =
     [''workspace-sync-git-folder-required'', ''workspace-sync-git-folder-not-absolute'', ''workspace-sync-git-folder-not-found'',
      ''workspace-sync-git-folder-not-directory'', ''workspace-sync-git-folder-permission-denied'',
      ''workspace-sync-git-read-failed'', ''workspace-sync-git-unavailable'']"

definition workspaceSyncGitRunErrors :: "string list" where
  "workspaceSyncGitRunErrors = workspaceSyncGitErrors @
     [''workspace-sync-git-action-invalid'', ''workspace-sync-file-name-required'', ''workspace-sync-file-name-invalid'',
      ''workspace-sync-file-not-found'', ''workspace-sync-file-target-invalid'', ''workspace-sync-git-not-repository'',
      ''workspace-sync-git-remote-missing'', ''workspace-sync-git-branch-missing'', ''workspace-sync-git-command-unavailable'',
      ''workspace-sync-git-command-timed-out'', ''workspace-sync-git-auth-required'', ''workspace-sync-git-identity-required'',
      ''workspace-sync-git-remote-has-changes'', ''workspace-sync-git-fast-forward-required'',
      ''workspace-sync-git-trust-required'', ''workspace-sync-git-command-failed'']"

definition workspaceSyncGitRunOutcomes :: "string list" where
  "workspaceSyncGitRunOutcomes = [''fetched'', ''pulled'', ''pushed'', ''committed-and-pushed'']"

definition normalizeGitCount :: "js \<Rightarrow> int" where
  "normalizeGitCount value = (case value of JInt n \<Rightarrow> if n > 0 then n else 0 | _ \<Rightarrow> 0)"

definition inspectWorkspaceSyncGit :: "(string \<Rightarrow> string \<Rightarrow> reply) \<Rightarrow> string \<Rightarrow> string \<Rightarrow> string + sync_git_inspection" where
  "inspectWorkspaceSyncGit command folderPath fileName =
     (case command (normalizeWorkspacePathForStorage folderPath) fileName of
        NoBridge \<Rightarrow> Inl ''workspace-sync-git-unavailable''
      | Rejected \<Rightarrow> Inl ''workspace-sync-git-read-failed''
      | Reply response \<Rightarrow>
          (case (js_prop response ''normalizedPath'', js_prop response ''isRepository'') of
             (JStr p, JBool b) \<Rightarrow>
               if js_truthy (js_prop response ''ok'')
               then Inr \<lparr>gi_normalizedPath = normalizeWorkspacePathForStorage p, gi_isRepository = b,
                     gi_originUrl = string_or_null (js_prop response ''originUrl''),
                     gi_branchName = string_or_null (js_prop response ''branchName''),
                     gi_aheadCount = normalizeGitCount (js_prop response ''aheadCount''),
                     gi_behindCount = normalizeGitCount (js_prop response ''behindCount''),
                     gi_hasSyncFileChanges = (js_prop response ''hasSyncFileChanges'' = JBool True),
                     gi_hasUncommittedChanges = (js_prop response ''hasUncommittedChanges'' = JBool True)\<rparr>
               else Inl (error_or workspaceSyncGitErrors ''workspace-sync-git-read-failed'' (js_prop response ''error''))
           | _ \<Rightarrow> Inl (error_or workspaceSyncGitErrors ''workspace-sync-git-read-failed'' (js_prop response ''error''))))"

text \<open>The credential is a pair of kind and value; the result is an outcome, or an error with its phase.\<close>

definition createCredentialCommandArgs :: "(string \<times> string) option \<Rightarrow> string option \<times> string option" where
  "createCredentialCommandArgs credential =
     (case credential of None \<Rightarrow> (None, None) | Some (k, v) \<Rightarrow> (Some k, Some v))"

definition runWorkspaceSyncGit ::
  "(string \<Rightarrow> string \<Rightarrow> string \<Rightarrow> string option \<times> string option \<Rightarrow> reply) \<Rightarrow> string \<Rightarrow> string \<Rightarrow> string \<Rightarrow>
   (string \<times> string) option \<Rightarrow> (string \<times> string option) + string" where
  "runWorkspaceSyncGit command folderPath fileName action credential =
     (case command (normalizeWorkspacePathForStorage folderPath) fileName action (createCredentialCommandArgs credential) of
        NoBridge \<Rightarrow> Inl (''workspace-sync-git-unavailable'', None)
      | Rejected \<Rightarrow> Inl (''workspace-sync-git-command-failed'', None)
      | Reply response \<Rightarrow>
          (let failed = Inl (error_or workspaceSyncGitRunErrors ''workspace-sync-git-command-failed'' (js_prop response ''error''),
                             string_or_null (js_prop response ''phase''))
           in if response = JNull \<or> response = JUndefined then Inl (''workspace-sync-git-command-failed'', None)
              else if js_truthy (js_prop response ''ok'')
              then (case js_prop response ''outcome'' of
                      JStr outcome \<Rightarrow> if outcome \<in> set workspaceSyncGitRunOutcomes then Inr outcome else failed
                    | _ \<Rightarrow> failed)
              else failed))"

definition formatRemoteParts :: "string \<Rightarrow> string \<Rightarrow> string" where
  "formatRemoteParts host path =
     (let pathParts = path_words path in
      if pathParts = [] then host else host @ ''/.../'' @ last pathParts)"

text \<open>The match of \<open>([^:/]+)[:/](.+)$\<close> at the start of a text, where \<open>.\<close> is no line terminator.\<close>

definition match_host_path :: "string \<Rightarrow> (string \<times> string) option" where
  "match_host_path s =
     (let host = takeWhile (\<lambda>c. c \<noteq> CHR '':'' \<and> c \<noteq> slash) s;
          rest = drop (length host + 1) s
      in if host = [] \<or> length s \<le> length host + 1 \<or> CHR 0x0A \<in> set rest \<or> CHR 0x0D \<in> set rest then None
         else Some (host, rest))"

definition match_ssh_remote :: "string \<Rightarrow> (string \<times> string) option" where
  "match_ssh_remote s =
     (let user = takeWhile (\<lambda>c. c \<noteq> CHR ''@'') s in
      if user \<noteq> [] \<and> length user < length s
      then (case match_host_path (drop (length user + 1) s) of Some m \<Rightarrow> Some m | None \<Rightarrow> match_host_path s)
      else match_host_path s)"

text \<open>\<open>s.replace(/\.git$/u, '')\<close>\<close>

definition drop_git :: "string \<Rightarrow> string" where
  "drop_git s = (if length s \<ge> 4 \<and> drop (length s - 4) s = ''.git'' then take (length s - 4) s else s)"

definition formatWorkspaceSyncRemoteForDisplay :: "url_parser \<Rightarrow> string option \<Rightarrow> string" where
  "formatWorkspaceSyncRemoteForDisplay U originUrl =
     (case originUrl of
        None \<Rightarrow> ''No remote''
      | Some url \<Rightarrow>
          if js_trim url = [] then ''No remote''
          else (let normalizedOriginUrl = drop_git (js_trim url) in
            if sublist ''://'' normalizedOriginUrl
            then (case U normalizedOriginUrl of
                    Some parts \<Rightarrow> formatRemoteParts (url_hostname parts) (url_pathname parts)
                  | None \<Rightarrow> normalizedOriginUrl)
            else (case match_ssh_remote normalizedOriginUrl of
                    Some (host, path) \<Rightarrow> formatRemoteParts host path
                  | None \<Rightarrow>
                      (let fallbackParts = path_words normalizedOriginUrl in
                       if fallbackParts = [] then normalizedOriginUrl else last fallbackParts))))"

section \<open>Preparing the repository of a workspace\<close>

definition workspaceRepositorySetupErrors :: "string list" where
  "workspaceRepositorySetupErrors =
     [''workspace-repository-workspace-required'', ''workspace-repository-workspace-not-absolute'',
      ''workspace-repository-workspace-not-found'', ''workspace-repository-workspace-not-directory'',
      ''workspace-repository-workspace-permission-denied'', ''workspace-repository-workspace-unreadable'',
      ''workspace-repository-layout-invalid'', ''workspace-repository-create-failed'', ''workspace-repository-git-unavailable'',
      ''workspace-repository-git-timed-out'', ''workspace-repository-git-init-failed'',
      ''workspace-repository-agent-instructions-failed'', ''workspace-repository-gitignore-failed'', ''workspace-repository-unavailable'']"

record repository_setup_options =
  so_initializeGit :: bool
  so_installGitignore :: bool

text \<open>The fields of a success are handed on unchecked.\<close>

record repository_setup_success =
  ss_initializedGit :: js
  ss_installedGitignore :: js
  ss_createdPaths :: js

definition setupWorkspaceRepository ::
  "(string \<Rightarrow> repository_setup_options \<Rightarrow> reply) \<Rightarrow> string \<Rightarrow> repository_setup_options \<Rightarrow> string + repository_setup_success" where
  "setupWorkspaceRepository command workspacePath options =
     (case command (normalizeWorkspacePathForStorage workspacePath) options of
        NoBridge \<Rightarrow> Inl ''workspace-repository-unavailable''
      | Rejected \<Rightarrow> Inl ''workspace-repository-create-failed''
      | Reply response \<Rightarrow>
          if response = JNull \<or> response = JUndefined then Inl ''workspace-repository-create-failed''
          else if js_truthy (js_prop response ''ok'')
          then Inr \<lparr>ss_initializedGit = js_or (js_prop response ''initializedGit'') (JBool False),
                    ss_installedGitignore = js_or (js_prop response ''installedGitignore'') (JBool False),
                    ss_createdPaths = js_or (js_prop response ''createdPaths'') (JArr [])\<rparr>
          else Inl (error_or workspaceRepositorySetupErrors ''workspace-repository-create-failed'' (js_prop response ''error'')))"

end
