(* ===== verification/Workspace_Storage.thy ===== *)
theory Workspace_Storage
  imports Workspace_Clients App_System
begin

text \<open>
  Saving the workspace registry (\<open>workspace-storage.ts\<close>) over the application state and its native store, and
  its two users: the repair of a workspace path (\<open>workspace-path-repair.ts\<close>) and the registration of a
  workspace (\<open>workspace-registration.ts\<close>). A save is cut at its awaits: \<open>plan_save\<close> is its start,
  \<open>browser_save\<close> its body under the lock of the browser; in the desktop application \<open>begin_transaction\<close>, a
  flush, \<open>native_commit\<close> with the answer of the native command, and \<open>end_native_save\<close>.
\<close>

section \<open>Reading\<close>

definition WORKDUCK_WORKSPACE_REGISTRY_STORAGE_KEY :: string where
  "WORKDUCK_WORKSPACE_REGISTRY_STORAGE_KEY = ''workduck.workspaceRegistry.v1''"

datatype workspace_storage_error =
    workspace_registry_read_failed
  | workspace_registry_conflict
  | workspace_registry_write_failed

datatype workspace_storage_result =
    Stored workspace_registry
  | NotStored workspace_registry workspace_storage_error

definition readWorkspaceRegistryFromBrowser ::
  "(string \<Rightarrow> js option) \<Rightarrow> app_state \<Rightarrow> app_state \<times> workspace_storage_result" where
  "readWorkspaceRegistryFromBrowser json_parse st =
     (case readWorkduckAppStateValue st KeyWorkspaces WORKDUCK_WORKSPACE_REGISTRY_STORAGE_KEY of
        (st', valueJson, err) \<Rightarrow>
          (case parseStoredWorkspaceRegistry json_parse valueJson of
             Inr registry \<Rightarrow>
               (st', if err = None then Stored registry else NotStored registry workspace_registry_read_failed)
           | Inl _ \<Rightarrow> (st', NotStored createEmptyWorkspaceRegistry workspace_registry_read_failed)))"

fun stored_registry_of :: "workspace_storage_result \<Rightarrow> workspace_registry" where
  "stored_registry_of (Stored r) = r"
| "stored_registry_of (NotStored r e) = r"

definition isWorkduckAppStateBrowserStorageActive :: "app_state \<Rightarrow> bool" where
  "isWorkduckAppStateBrowserStorageActive st =
     (ap_backend st = BrowserBackend \<or> ap_backend st = Uninitialized \<and> \<not> ap_native st)"

section \<open>Saving\<close>

text \<open>\<open>failed\<close>: the registry of a failure is read again.\<close>

definition save_failed ::
  "(string \<Rightarrow> js option) \<Rightarrow> workspace_storage_error \<Rightarrow> app_state \<Rightarrow> app_state \<times> workspace_storage_result" where
  "save_failed json_parse e st =
     (case readWorkspaceRegistryFromBrowser json_parse st of (st', cur) \<Rightarrow> (st', NotStored (stored_registry_of cur) e))"

record save_plan =
  sp_registry :: workspace_registry
  sp_expectedJson :: string
  sp_valueJson :: string

definition plan_save ::
  "(js \<Rightarrow> string) \<Rightarrow> bool \<Rightarrow> workspace_registry \<Rightarrow> workspace_registry \<Rightarrow> save_plan option" where
  "plan_save json_stringify aborted registry expectedRegistry =
     (if aborted then None
      else (case (normalizeStoredWorkspaceRegistry (workspace_registry_js registry),
                  normalizeStoredWorkspaceRegistry (workspace_registry_js expectedRegistry)) of
              (Inr parsed, Inr expected) \<Rightarrow>
                Some \<lparr>sp_registry = parsed, sp_expectedJson = serializeWorkspaceRegistry json_stringify expected,
                      sp_valueJson = serializeWorkspaceRegistry json_stringify parsed\<rparr>
            | _ \<Rightarrow> None))"

text \<open>The function given to \<open>locks.request\<close>. The notification is part of a success.\<close>

definition browser_save ::
  "(string \<Rightarrow> bool) \<Rightarrow> (string \<Rightarrow> js option) \<Rightarrow> (js \<Rightarrow> string) \<Rightarrow> app_state \<Rightarrow> save_plan \<Rightarrow> bool \<Rightarrow> string \<Rightarrow>
   app_state \<times> workspace_storage_result" where
  "browser_save P json_parse json_stringify st plan aborted now =
     (if aborted then save_failed json_parse workspace_registry_write_failed st
      else (case readWorkspaceRegistryFromBrowser json_parse st of
              (st1, NotStored _ _) \<Rightarrow> save_failed json_parse workspace_registry_write_failed st1
            | (st1, Stored current) \<Rightarrow>
                if serializeWorkspaceRegistry json_stringify current \<noteq> sp_expectedJson plan
                then save_failed json_parse workspace_registry_conflict st1
                else (case writeWorkduckAppStateValue P st1 KeyWorkspaces WORKDUCK_WORKSPACE_REGISTRY_STORAGE_KEY
                             (sp_valueJson plan) now of
                        (st2, Failed _ _) \<Rightarrow> save_failed json_parse workspace_registry_write_failed st2
                      | (st2, Accepted _) \<Rightarrow> (st2, Stored (sp_registry plan)))))"

text \<open>
  The callback of the native transaction, from the snapshot it is given to the moment the native command
  answers: nothing is sent, or the command runs on the rows, and its answer arrives or is lost. The result
  is the new rows, whether the save is committed, and \<open>conflict\<close>.
\<close>

datatype answer_fate = Arrives | LostBefore | LostAfter

definition native_commit ::
  "(string \<Rightarrow> bool) \<Rightarrow> (string \<Rightarrow> js option) \<Rightarrow> (js \<Rightarrow> string) \<Rightarrow> app_system \<Rightarrow> save_plan \<Rightarrow> bool \<Rightarrow> answer_fate \<Rightarrow>
   string \<Rightarrow> app_rows \<times> bool \<times> bool" where
  "native_commit Q json_parse json_stringify s plan aborted fate now =
     (let expectedValueJson = transaction_expects (as_app s) KeyWorkspaces; rows = as_rows s in
      if aborted then (rows, False, False)
      else (case parseStoredWorkspaceRegistry json_parse expectedValueJson of
              Inl _ \<Rightarrow> (rows, False, False)
            | Inr current \<Rightarrow>
                if serializeWorkspaceRegistry json_stringify current \<noteq> sp_expectedJson plan then (rows, False, True)
                else if \<not> ap_native (as_app s) \<or> fate = LostBefore then (rows, False, False)
                else (case compare_and_write_record Q rows KeyWorkspaces expectedValueJson
                             \<lparr>pw_valueJson = sp_valueJson plan, pw_updatedAt = now\<rparr> of
                        (rows', response) \<Rightarrow>
                          if fate = LostAfter then (rows', False, False)
                          else (rows', js_prop response ''ok'' = JBool True,
                                js_prop response ''error'' = JStr ''app-state-conflict''))))"

text \<open>After the answer: the end of the transaction, and the result of the save. On a conflict a refresh is
  requested first, as a call of its own.\<close>

definition end_native_save ::
  "(string \<Rightarrow> js option) \<Rightarrow> app_state \<Rightarrow> save_plan \<Rightarrow> bool \<Rightarrow> bool \<Rightarrow> app_state \<times> workspace_storage_result" where
  "end_native_save json_parse st plan committed conflict =
     (case end_transaction st KeyWorkspaces WORKDUCK_WORKSPACE_REGISTRY_STORAGE_KEY (sp_valueJson plan) committed of
        (st', Accepted _) \<Rightarrow> (st', Stored (sp_registry plan))
      | (st', Failed _ _) \<Rightarrow>
          save_failed json_parse (if conflict then workspace_registry_conflict else workspace_registry_write_failed) st')"

section \<open>Notifications\<close>

text \<open>\<open>subscribeWorkspaceRegistry\<close>: what each of its three handlers hands to the callback while it is active.\<close>

definition workspace_registry_changed ::
  "(string \<Rightarrow> js option) \<Rightarrow> bool \<Rightarrow> app_state \<Rightarrow> js \<Rightarrow> workspace_registry option" where
  "workspace_registry_changed json_parse isActive st detail =
     (if \<not> isActive then None
      else if js_prop detail ''registry'' = JUndefined
      then (case snd (readWorkspaceRegistryFromBrowser json_parse st) of Stored r \<Rightarrow> Some r | _ \<Rightarrow> None)
      else (case normalizeStoredWorkspaceRegistry (js_prop detail ''registry'') of Inr r \<Rightarrow> Some r | Inl _ \<Rightarrow> None))"

definition workspace_storage_changed ::
  "(string \<Rightarrow> js option) \<Rightarrow> bool \<Rightarrow> app_state \<Rightarrow> bool \<Rightarrow> string option \<Rightarrow> workspace_registry option" where
  "workspace_storage_changed json_parse isActive st isLocalStorage eventKey =
     (if \<not> isActive \<or> \<not> isWorkduckAppStateBrowserStorageActive st \<or> \<not> isLocalStorage \<or>
         eventKey \<notin> {None, Some WORKDUCK_WORKSPACE_REGISTRY_STORAGE_KEY}
      then None
      else (case snd (readWorkspaceRegistryFromBrowser json_parse st) of Stored r \<Rightarrow> Some r | _ \<Rightarrow> None))"

definition workspace_value_published ::
  "(string \<Rightarrow> js option) \<Rightarrow> bool \<Rightarrow> string \<Rightarrow> workspace_registry option" where
  "workspace_value_published json_parse isActive valueJson =
     (case parseStoredWorkspaceRegistry json_parse (Some valueJson) of
        Inr r \<Rightarrow> if isActive then Some r else None
      | Inl _ \<Rightarrow> None)"

section \<open>Repairing a path\<close>

text \<open>
  \<open>repairWorkspacePath\<close>: \<open>aborted\<close> is the signal at its three checks, \<open>read\<close> what the registry reads as after
  the validation, \<open>save\<close> the outcome of \<open>writeWorkspaceRegistryToBrowser\<close>. The first result is the call of
  the save, if there was one: the registry and the expected one.
\<close>

datatype repair_result = Repaired string | RepairFailed string

definition storage_error_name :: "workspace_storage_error \<Rightarrow> string" where
  "storage_error_name e = (case e of workspace_registry_read_failed \<Rightarrow> ''workspace-registry-read-failed''
     | workspace_registry_conflict \<Rightarrow> ''workspace-registry-conflict''
     | workspace_registry_write_failed \<Rightarrow> ''workspace-registry-write-failed'')"

definition registry_error_name :: "workspace_registry_error \<Rightarrow> string" where
  "registry_error_name e = (case e of workspace_name_required \<Rightarrow> ''workspace-name-required''
     | workspace_path_required \<Rightarrow> ''workspace-path-required'' | workspace_path_too_long \<Rightarrow> ''workspace-path-too-long''
     | workspace_path_duplicate \<Rightarrow> ''workspace-path-duplicate''
     | workspace_password_hash_invalid \<Rightarrow> ''workspace-password-hash-invalid''
     | workspace_not_found \<Rightarrow> ''workspace-not-found'')"

definition repairWorkspacePath ::
  "(string \<Rightarrow> reply) \<Rightarrow> workspace_record \<Rightarrow> string \<Rightarrow> bool \<times> bool \<times> bool \<Rightarrow> workspace_storage_result \<Rightarrow> string \<Rightarrow>
   (workspace_registry \<Rightarrow> workspace_registry \<Rightarrow> workspace_storage_result) \<Rightarrow>
   (workspace_registry \<times> workspace_registry) option \<times> repair_result" where
  "repairWorkspacePath validate workspace nextPath aborted read now save =
     (case aborted of (before, after_validation, after_save) \<Rightarrow>
      if before then (None, RepairFailed ''workspace-path-repair-cancelled'')
      else (let validated = validateWorkspacePath validate nextPath in
        if after_validation then (None, RepairFailed ''workspace-path-repair-cancelled'')
        else (case validated of
          Inl e \<Rightarrow> (None, RepairFailed e)
        | Inr path \<Rightarrow>
          (case read of
             NotStored _ e \<Rightarrow> (None, RepairFailed (storage_error_name e))
           | Stored current \<Rightarrow>
             (case List.find (\<lambda>w. ws_id w = ws_id workspace) (wr_workspaces current) of
                None \<Rightarrow> (None, RepairFailed ''workspace-not-found'')
              | Some target \<Rightarrow>
                if ws_path target \<noteq> ws_path workspace then (None, RepairFailed ''workspace-registry-conflict'')
                else (case updateWorkspacePath current (ws_id workspace) path now of
                        Err _ e \<Rightarrow> (None, RepairFailed (registry_error_name e))
                      | Ok updated \<Rightarrow>
                          (Some (updated, current),
                           if after_save then RepairFailed ''workspace-path-repair-cancelled''
                           else (case save updated current of
                                   Stored _ \<Rightarrow> Repaired path
                                 | NotStored _ e \<Rightarrow> RepairFailed (storage_error_name e)))))))))"

section \<open>Registering a workspace\<close>

record registration_input =
  rg_name :: string
  rg_path :: string
  rg_password :: string
  rg_repositoryChoice :: "bool option"   \<comment> \<open>\<open>'yes'\<close> and \<open>'no'\<close>\<close>
  rg_initializeGit :: bool
  rg_installGitignore :: bool

datatype registration_result =
    Registered workspace_record "(string + repository_setup_success) option"
  | NotPrepared string
  | NotPersisted

definition password_error_name :: "password_error \<Rightarrow> string" where
  "password_error_name e = (case e of workspace_password_required \<Rightarrow> ''workspace-password-required''
     | workspace_password_too_short \<Rightarrow> ''workspace-password-too-short''
     | workspace_password_hash_failed \<Rightarrow> ''workspace-password-hash-failed''
     | workspace_password_invalid_hash \<Rightarrow> ''workspace-password-invalid-hash''
     | workspace_password_unavailable \<Rightarrow> ''workspace-password-unavailable'')"

text \<open>
  \<open>registerWorkspace\<close>: \<open>validate\<close>, \<open>hash\<close> and \<open>setup\<close> are the native commands, \<open>registry\<close> what \<open>getRegistry\<close>
  gives after the hashing, \<open>persist\<close> the outcome of \<open>persistRegistry\<close>. The results are the call of
  \<open>persistRegistry\<close>, the unlock state after it, and the result of the registration.
\<close>

definition registerWorkspace ::
  "(string \<Rightarrow> reply) \<Rightarrow> (string \<Rightarrow> Workspace_Unlock.native_reply) \<Rightarrow> (string \<Rightarrow> repository_setup_options \<Rightarrow> reply) \<Rightarrow>
   registration_input \<Rightarrow> workspace_registry \<Rightarrow> (workspace_registry \<Rightarrow> workspace_registry \<Rightarrow> bool) \<Rightarrow>
   unlock_state \<Rightarrow> string \<Rightarrow> string \<Rightarrow> int \<Rightarrow>
   (workspace_registry \<times> workspace_registry) option \<times> unlock_state \<times> registration_result" where
  "registerWorkspace validate hash setup submitted registry persist st now createdId dateNow =
     (case rg_repositoryChoice submitted of
        None \<Rightarrow> (None, st, NotPrepared ''workspace-repository-choice-required'')
      | Some choice \<Rightarrow>
        if js_trim (rg_password submitted) = [] then (None, st, NotPrepared ''workspace-password-required'')
        else (case validateWorkspacePath validate (rg_path submitted) of
          Inl e \<Rightarrow> (None, st, NotPrepared e)
        | Inr path \<Rightarrow>
          (case createWorkspacePasswordHash (rg_password submitted) (hash (rg_password submitted)) of
             Inl e \<Rightarrow> (None, st, NotPrepared (password_error_name e))
           | Inr passwordHash \<Rightarrow>
             (case addWorkspace registry \<lparr>wi_name = rg_name submitted, wi_path = path, wi_passwordHash = Some passwordHash\<rparr>
                     now createdId of
                AddErr _ e \<Rightarrow> (None, st, NotPrepared (registry_error_name e))
              | AddOk added workspace \<Rightarrow>
                if \<not> persist added registry then (Some (added, registry), st, NotPersisted)
                else (Some (added, registry), markWorkspaceUnlocked st (ws_id workspace) (Some (rg_password submitted)) dateNow,
                      Registered workspace
                        (if choice
                         then Some (setupWorkspaceRepository setup (ws_path workspace)
                                \<lparr>so_initializeGit = rg_initializeGit submitted, so_installGitignore = rg_installGitignore submitted\<rparr>)
                         else None))))))"

definition isWorkspaceRegistrationInputEqual :: "registration_input \<Rightarrow> registration_input \<Rightarrow> bool" where
  "isWorkspaceRegistrationInputEqual left right \<longleftrightarrow>
     rg_name left = rg_name right \<and> rg_path left = rg_path right \<and> rg_password left = rg_password right \<and>
     rg_repositoryChoice left = rg_repositoryChoice right \<and> rg_initializeGit left = rg_initializeGit right \<and>
     rg_installGitignore left = rg_installGitignore right"

end
