(* ===== verification/Saving_Properties.thy ===== *)
theory Saving_Properties
  imports Workspace_Storage
begin

text \<open>
  The properties of saving the workspace registry, of the repair of a path and of the registration of a
  workspace, and those of the clients of native commands.
\<close>

section \<open>Saving replaces what was expected\<close>

lemma read_frame:
  "readWorkduckAppStateValue st k n = (st', v, e) \<Longrightarrow>
   ap_legacy st' = ap_legacy st \<and> ap_native st' = ap_native st \<and> ap_backend st' = ap_backend st \<and>
   (ap_backend st = BrowserBackend \<or> ap_backend st = Uninitialized \<and> \<not> ap_native st \<longrightarrow> e = None \<longrightarrow> v = ap_legacy st n)"
  by (auto simp: readWorkduckAppStateValue_def Let_def split: if_split_asm)

lemma read_registry_frame:
  assumes "readWorkspaceRegistryFromBrowser json_parse st = (st', res)"
  shows "ap_legacy st' = ap_legacy st \<and> ap_native st' = ap_native st \<and> ap_backend st' = ap_backend st"
  using assms read_frame [of st KeyWorkspaces WORKDUCK_WORKSPACE_REGISTRY_STORAGE_KEY]
  by (auto simp: readWorkspaceRegistryFromBrowser_def split: prod.split_asm sum.split_asm)

lemma save_failed_frame:
  "save_failed json_parse e st = (st', res) \<Longrightarrow> ap_legacy st' = ap_legacy st \<and> (\<exists>r. res = NotStored r e)"
  using read_registry_frame by (auto simp: save_failed_def split: prod.split_asm)

lemma read_registry_browser:
  assumes "readWorkspaceRegistryFromBrowser json_parse st = (st', Stored r)" "isWorkduckAppStateBrowserStorageActive st"
  shows "parseStoredWorkspaceRegistry json_parse (ap_legacy st WORKDUCK_WORKSPACE_REGISTRY_STORAGE_KEY) = Inr r"
  using assms read_frame [of st KeyWorkspaces WORKDUCK_WORKSPACE_REGISTRY_STORAGE_KEY]
  by (auto simp: readWorkspaceRegistryFromBrowser_def isWorkduckAppStateBrowserStorageActive_def
      split: prod.split_asm sum.split_asm if_split_asm)

lemma write_browser:
  assumes "writeWorkduckAppStateValue P st k n v now = (st', res)" "isWorkduckAppStateBrowserStorageActive st"
  shows "ap_legacy st' = (case res of Accepted _ \<Rightarrow> (ap_legacy st)(n \<mapsto> v) | Failed _ _ \<Rightarrow> ap_legacy st)"
  using assms by (auto simp: writeWorkduckAppStateValue_def isWorkduckAppStateBrowserStorageActive_def writeBrowserValue_def
      cacheAppStateValue_def Let_def split: if_split_asm)

text \<open>
  In a browser, a save that succeeds found the stored registry to be the expected one and stored exactly its
  own; a save that fails left the stored text as it was.
\<close>

theorem browser_save_swaps:
  assumes "browser_save P json_parse json_stringify st plan aborted now = (st', res)"
    and "isWorkduckAppStateBrowserStorageActive st"
  shows "(case res of
      Stored r \<Rightarrow> r = sp_registry plan \<and> \<not> aborted \<and>
        (\<exists>current. parseStoredWorkspaceRegistry json_parse (ap_legacy st WORKDUCK_WORKSPACE_REGISTRY_STORAGE_KEY) = Inr current \<and>
           serializeWorkspaceRegistry json_stringify current = sp_expectedJson plan) \<and>
        ap_legacy st' = (ap_legacy st)(WORKDUCK_WORKSPACE_REGISTRY_STORAGE_KEY \<mapsto> sp_valueJson plan)
    | NotStored _ _ \<Rightarrow> ap_legacy st' = ap_legacy st)"
proof (cases "aborted")
  case True
  then show ?thesis using assms(1) save_failed_frame by (fastforce simp: browser_save_def)
next
  case False
  obtain st1 cur where read: "readWorkspaceRegistryFromBrowser json_parse st = (st1, cur)" by fastforce
  note f = read_registry_frame [OF read]
  have active: "isWorkduckAppStateBrowserStorageActive st1" using assms(2) f by (simp add: isWorkduckAppStateBrowserStorageActive_def)
  show ?thesis
  proof (cases cur)
    case (NotStored r e)
    then have "save_failed json_parse workspace_registry_write_failed st1 = (st', res)" using assms(1) False read by (simp add: browser_save_def)
    from save_failed_frame [OF this] show ?thesis using f by auto
  next
    case (Stored current)
    have parsed: "parseStoredWorkspaceRegistry json_parse (ap_legacy st WORKDUCK_WORKSPACE_REGISTRY_STORAGE_KEY) = Inr current"
      using read_registry_browser assms(2) read Stored by blast
    show ?thesis
    proof (cases "serializeWorkspaceRegistry json_stringify current = sp_expectedJson plan")
      case eq: False
      then have "save_failed json_parse workspace_registry_conflict st1 = (st', res)"
        using assms(1) False read Stored by (simp add: browser_save_def)
      from save_failed_frame [OF this] show ?thesis using f by auto
    next
      case eq: True
      obtain st2 w where w: "writeWorkduckAppStateValue P st1 KeyWorkspaces WORKDUCK_WORKSPACE_REGISTRY_STORAGE_KEY (sp_valueJson plan) now = (st2, w)"
        by fastforce
      note l = write_browser [OF w active]
      show ?thesis
      proof (cases w)
        case (Accepted v)
        then show ?thesis using assms(1) False read Stored eq w l f parsed by (auto simp: browser_save_def)
      next
        case (Failed v e)
        then have "save_failed json_parse workspace_registry_write_failed st2 = (st', res)"
          using assms(1) False read Stored eq w by (simp add: browser_save_def)
        from save_failed_frame [OF this] show ?thesis using f l Failed by auto
      qed
    qed
  qed
qed

text \<open>
  In the desktop application a save is committed only if, at that moment, the row of the native store holds
  the text that was read, which reads as the expected registry; the row then holds the new text. Unless the
  answer was lost after the command had run, a save that is not committed leaves every row as it was; in no
  case another row changes.
\<close>

theorem native_save_swaps:
  assumes "native_commit Q json_parse json_stringify s plan aborted fate now = (rows, committed, conflict)"
  shows "(committed \<longrightarrow> \<not> aborted \<and>
      (\<exists>current. parseStoredWorkspaceRegistry json_parse (map_option fst (as_rows s KeyWorkspaces)) = Inr current \<and>
         serializeWorkspaceRegistry json_stringify current = sp_expectedJson plan) \<and>
      rows KeyWorkspaces = Some (rust_trim (sp_valueJson plan), rust_trim now)) \<and>
    (\<not> committed \<and> fate \<noteq> LostAfter \<longrightarrow> rows = as_rows s) \<and>
    (\<forall>k. k \<noteq> KeyWorkspaces \<longrightarrow> rows k = as_rows s k)"
proof -
  let ?rec = "\<lparr>pw_valueJson = sp_valueJson plan, pw_updatedAt = now\<rparr>"
  obtain rows' response where c: "compare_and_write_record Q (as_rows s) KeyWorkspaces (transaction_expects (as_app s) KeyWorkspaces) ?rec = (rows', response)"
    by fastforce
  have valid: "the (rs KeyWorkspaces) = \<lparr>pw_valueJson = rust_trim (sp_valueJson plan), pw_updatedAt = rust_trim now\<rparr>"
    if "validate_records Q [KeyWorkspaces \<mapsto> ?rec] = Inr rs" for rs
    using that by (auto simp: validate_records_def split: list.split_asm)
  have row: "(js_prop response ''ok'' = JBool True \<and> map_option fst (as_rows s KeyWorkspaces) = transaction_expects (as_app s) KeyWorkspaces \<and>
       rows' = (as_rows s)(KeyWorkspaces \<mapsto> (rust_trim (sp_valueJson plan), rust_trim now))) \<or>
      (js_prop response ''ok'' = JBool False \<and> rows' = as_rows s)"
    using c valid by (auto simp: compare_and_write_record_def Let_def js_prop_def split: sum.split_asm if_split_asm)
  show ?thesis
  proof (cases "parseStoredWorkspaceRegistry json_parse (transaction_expects (as_app s) KeyWorkspaces)")
    case (Inr current)
    show ?thesis using assms row unfolding native_commit_def Let_def Inr c
      by (auto simp: Inr split: if_split_asm)
  qed (use assms in \<open>auto simp: native_commit_def Let_def split: if_split_asm\<close>)
qed

section \<open>Repair and registration\<close>

text \<open>
  A repair of a workspace path that was cancelled before or after the validation, or that failed, writes
  nothing, and a repair that writes replaces the registry it has read, in which the workspace still has the
  path the repair started from, by the same workspaces with only that path (and its time) changed.
\<close>

theorem repair_changes_one_path:
  assumes "repairWorkspacePath validate workspace nextPath aborted read now save = (Some (updated, expected), res)"
  shows "read = Stored expected \<and> \<not> fst aborted \<and> \<not> fst (snd aborted) \<and>
    (\<exists>path. validateWorkspacePath validate nextPath = Inr path \<and>
       wr_activeWorkspaceId updated = wr_activeWorkspaceId (canonical_workspaces expected) \<and>
       wr_workspaces updated = map (\<lambda>w. if ws_id w = ws_id workspace then w\<lparr>ws_path := normalizeWorkspacePathForStorage path, ws_updatedAt := now\<rparr> else w)
         (wr_workspaces (canonical_workspaces expected))) \<and>
    (\<exists>w \<in> set (wr_workspaces expected). ws_id w = ws_id workspace \<and> ws_path w = ws_path workspace)"
proof -
  obtain a b c where ab: "aborted = (a, b, c)" by (cases aborted)
  have na: "\<not> a" "\<not> b" using assms by (auto simp: ab repairWorkspacePath_def Let_def split: if_split_asm)
  obtain path where p: "validateWorkspacePath validate nextPath = Inr path"
    using assms na by (cases "validateWorkspacePath validate nextPath") (auto simp: ab repairWorkspacePath_def Let_def)
  obtain current where r: "read = Stored current"
    using assms na p by (cases read) (auto simp: ab repairWorkspacePath_def Let_def)
  obtain target where t: "List.find (\<lambda>w. ws_id w = ws_id workspace) (wr_workspaces current) = Some target" "ws_path target = ws_path workspace"
    using assms na p r by (auto simp: ab repairWorkspacePath_def Let_def split: option.split_asm if_split_asm)
  have u: "updateWorkspacePath current (ws_id workspace) path now = Ok updated" "current = expected"
    using assms na p r t by (auto simp: ab repairWorkspacePath_def Let_def split: mutation.split_asm if_split_asm)
  have "wr_activeWorkspaceId updated = wr_activeWorkspaceId (canonical_workspaces current) \<and>
    wr_workspaces updated = map (\<lambda>w. if ws_id w = ws_id workspace then w\<lparr>ws_path := normalizeWorkspacePathForStorage path, ws_updatedAt := now\<rparr> else w)
         (wr_workspaces (canonical_workspaces current))"
    using u(1) by (auto simp: updateWorkspacePath_def Let_def split: if_split_asm option.split_asm)
  then show ?thesis using ab na p r t u(2) find_Some_props [OF t(1)] by auto
qed

text \<open>
  A registration opens a workspace only after its registry was persisted with the workspace in it, locked
  with the hash that the native side has given for the submitted password; the session is opened with that
  password, and no other workspace is opened.
\<close>

theorem registration_opens_what_it_saved:
  assumes "registerWorkspace validate hash setup submitted registry persist st now createdId dateNow = (call, st', res)"
    and "st' \<noteq> st"
  shows "\<exists>added workspace h setupResult. call = Some (added, registry) \<and> persist added registry \<and>
    res = Registered workspace setupResult \<and> workspace \<in> set (wr_workspaces added) \<and> ws_id workspace = createdId \<and>
    createWorkspacePasswordHash (rg_password submitted) (hash (rg_password submitted)) = Inr h \<and>
    map_option lk_passwordHash (ws_lock workspace) = normalizePasswordHash (Some h) \<and>
    st' = markWorkspaceUnlocked st createdId (Some (rg_password submitted)) dateNow"
proof -
  obtain choice where ch: "rg_repositoryChoice submitted = Some choice"
    using assms by (cases "rg_repositoryChoice submitted") (auto simp: registerWorkspace_def)
  have pw: "js_trim (rg_password submitted) \<noteq> []" using assms ch by (auto simp: registerWorkspace_def)
  obtain path where p: "validateWorkspacePath validate (rg_path submitted) = Inr path"
    using assms ch pw by (cases "validateWorkspacePath validate (rg_path submitted)") (auto simp: registerWorkspace_def)
  obtain h where h: "createWorkspacePasswordHash (rg_password submitted) (hash (rg_password submitted)) = Inr h"
    using assms ch pw p by (cases "createWorkspacePasswordHash (rg_password submitted) (hash (rg_password submitted))")
      (auto simp: registerWorkspace_def)
  let ?in = "\<lparr>wi_name = rg_name submitted, wi_path = path, wi_passwordHash = Some h\<rparr>"
  obtain added workspace where a: "addWorkspace registry ?in now createdId = AddOk added workspace"
    using assms ch pw p h by (cases "addWorkspace registry ?in now createdId") (auto simp: registerWorkspace_def)
  have ps: "persist added registry" using assms ch pw p h a by (auto simp: registerWorkspace_def split: if_split_asm)
  have w: "workspace \<in> set (wr_workspaces added)" "ws_id workspace = createdId"
    "map_option lk_passwordHash (ws_lock workspace) = normalizePasswordHash (Some h)"
    using a by (auto simp: addWorkspace_def Let_def normalizePasswordHash_def split: if_split_asm)
  show ?thesis using assms ch pw p h a ps w by (auto simp: registerWorkspace_def)
qed

section \<open>Native commands\<close>

text \<open>
  A validated workspace path is not empty, within the limit of stored paths, and what the native side
  answered, whatever it answered; and a file name that is not usable never reaches the native side.
\<close>

theorem native_answers_are_checked:
  "(validateWorkspacePath validate path = Inr p \<longrightarrow> p \<noteq> [] \<and> length p \<le> WORKSPACE_PATH_MAX_LENGTH \<and>
     (\<exists>response answered. validate (js_trim path) = Reply response \<and> js_truthy (js_prop response ''ok'') \<and>
        js_prop response ''normalizedPath'' = JStr answered \<and> p = normalizeWorkspacePathForStorage answered)) \<and>
   (\<not> isWorkspaceSyncFileNameUsable fileName \<longrightarrow>
     writeWorkspaceSyncFile write folder fileName content = writeWorkspaceSyncFile write' folder fileName content \<and>
     readWorkspaceSyncFile read folder fileName = readWorkspaceSyncFile read' folder fileName)"
proof -
  have idem: "normalizeWorkspaceSyncFileName (normalizeWorkspaceSyncFileName n) = normalizeWorkspaceSyncFileName n" for n
    by (simp add: normalizeWorkspaceSyncFileName_def)
  have "isWorkspaceSyncFileNameUsable (normalizeWorkspaceSyncFileName fileName) = isWorkspaceSyncFileNameUsable fileName"
    by (simp add: isWorkspaceSyncFileNameUsable_def idem)
  moreover have "p \<noteq> [] \<and> length p \<le> WORKSPACE_PATH_MAX_LENGTH \<and>
     (\<exists>response answered. validate (js_trim path) = Reply response \<and> js_truthy (js_prop response ''ok'') \<and>
        js_prop response ''normalizedPath'' = JStr answered \<and> p = normalizeWorkspacePathForStorage answered)"
    if v: "validateWorkspacePath validate path = Inr p"
  proof -
    obtain response where r: "validate (js_trim path) = Reply response"
      using v by (cases "validate (js_trim path)") (auto simp: validateWorkspacePath_def Let_def split: if_split_asm)
    have empty: "normalizeWorkspacePathForStorage [] = []" by code_simp
    have ok: "js_truthy (js_prop response ''ok'')" using v r by (auto simp: validateWorkspacePath_def Let_def split: if_split_asm)
    obtain a where a: "js_or (js_prop response ''normalizedPath'') (JStr []) = JStr a" "p = normalizeWorkspacePathForStorage a"
      "p \<noteq> []" "length p \<le> WORKSPACE_PATH_MAX_LENGTH"
      using v r ok by (auto simp: validateWorkspacePath_def Let_def split: if_split_asm js.split_asm)
    then have "js_prop response ''normalizedPath'' = JStr a" using empty by (auto simp: js_or_def split: if_split_asm)
    then show ?thesis using r ok a by auto
  qed
  ultimately show ?thesis by (simp add: writeWorkspaceSyncFile_def readWorkspaceSyncFile_def)
qed

end
