(* ===== verification/Spec2Isabelle.thy ===== *)
theory Spec2Isabelle
  imports Project_Properties Package_Properties Workspace_Properties
    Repository_Properties App_Properties Vault_Properties Queue_Properties Registry_Properties File_Properties
    Stored_Registries Brief_Properties Sync_Properties Saving_Properties
begin

text \<open>
  A verification development for Workduck, a local workbench for projects, repositories, agents and work
  queues: a TypeScript renderer (\<open>src/\<close>, \<open>packages/\<close>) over a native side in Rust (\<open>src-tauri/\<close>).

  The program. The packages hold the shared vocabulary, its JSON Schemas, the prompt compiler, the engine
  that turns gates into runs, and the export adapters. The renderer keeps registries (workspaces,
  projects and their repositories, secrets): each is read from stored JSON of any form, canonicalised,
  mutated by operations that answer with a new registry or a refusal, and written back. Around them stand
  the unlock sessions of workspaces, the worker pool for repository commands, and the application state,
  which journals every setting in local storage until the native store has it.

  Theories and sources.
  \<^item> \<open>Prelude\<close>: JavaScript strings, values and numbers, results of mutations, list lemmas.
    \<open>Registry_Contract\<close>: the interface of all registries, \<open>guarded_registry\<close> (a mutation canonicalises,
    a refusal answers with the canonical registry, a success keeps the invariant) and \<open>healing_registry\<close>
    (the canonical form always has the invariant), with the lemmas on runs of mutations.
    \<open>Named_Records\<close>: the loop, insertion and stable sort that the registries of named records share.
  \<^item> Projects (\<open>src/lib/projects\<close>): \<open>Project_Text\<close>, \<open>Scheduler\<close>, \<open>Project_Normalization\<close> (the file
    \<open>project-registry-normalization.ts\<close>, with its heap of scheduled nodes), \<open>Project_Registry\<close>
    (\<open>project-registry.ts\<close>); \<open>Project_Hierarchy\<close> (the traversal equals repeated scans),
    \<open>Project_Invariant\<close>, \<open>Project_Canonical\<close>, \<open>Project_Mutations\<close>, \<open>Project_Operations\<close>,
    \<open>Project_Stored\<close>, \<open>Project_Properties\<close> (claims).
  \<^item> Packages: \<open>Core_Domain\<close> (\<open>packages/core\<close>), \<open>Schemas\<close> (\<open>packages/schemas\<close>), \<open>Prompts\<close>
    (\<open>packages/prompts\<close>), \<open>Workbench_Engine\<close> and \<open>Engine_Properties\<close> (\<open>packages/workbench-engine\<close>),
    \<open>Agents\<close> (\<open>packages/agents\<close>), \<open>Package_Properties\<close> (claims, among them that the records the engine
    creates satisfy the published schemas).
  \<^item> Workspaces (\<open>src/lib/workspaces\<close>): \<open>Workspace_Registry\<close>, \<open>Workspace_Operations\<close>
    (\<open>workspace-registry.ts\<close>), \<open>Workspace_Unlock\<close> (\<open>workspace-unlock.ts\<close>, \<open>workspace-password.ts\<close>),
    \<open>Unlock_System\<close> (the sessions as a step relation, an abstract lock and the refinement),
    \<open>Unlock_Lockout\<close>, \<open>Workspace_Properties\<close> (claims).
  \<^item> Repositories (\<open>src/lib/projects\<close>): \<open>Repository_Tasks\<close> (\<open>project-repository-task.ts\<close>,
    \<open>project-repository-task-runs.ts\<close>, \<open>project-repository-batch.ts\<close>), \<open>Batch_Laws\<close>,
    \<open>Repository_Properties\<close> (claims).
  \<^item> Application state: \<open>App_State\<close>, \<open>App_Init\<close> (\<open>src/lib/app-state/app-state-storage.ts\<close> and
    \<open>src-tauri/src/app_state_store.rs\<close>), \<open>App_System\<close> (both as one step relation with failures and
    crashes), \<open>App_Durability\<close> (its invariant), \<open>App_Properties\<close> (claims).
  \<^item> Secrets (\<open>src/lib/environment\<close>): \<open>Environment_Vault\<close> (\<open>environment-vault.ts\<close>,
    \<open>secret-vault-crypto.ts\<close>), \<open>Vault_Session\<close>
    (\<open>environment-vault-session.ts\<close>), \<open>Vault_System\<close> and \<open>Vault_Laws\<close> (overlapping commands, closes and locks
    as a step relation with a trace invariant; the native close of
    \<open>src-tauri/src/secret_vault_session.rs\<close>), \<open>Vault_Properties\<close> (claims).
  \<^item> \<open>Js_Objects\<close>: spreading and checking JSON values; what JSON is trusted for, and a codec that has it.
  \<^item> Work queue (\<open>src/lib/queue\<close>): \<open>Queue_Voting\<close>
    (\<open>queue-voting.ts\<close>), \<open>Voting_Laws\<close>, \<open>Queue_Parsers\<close> (\<open>domain/queue-artifact-parsers.ts\<close>,
    \<open>domain/queue-artifact-readers.ts\<close>), \<open>Queue_Artifacts\<close> (\<open>queue-artifacts.ts\<close>),
    \<open>Queue_Laws\<close>, \<open>Queue_Changes\<close> (also against the published schemas), \<open>Queue_Properties\<close> (claims).
  \<^item> Agents and terminals: \<open>Terminal_Registry\<close> (\<open>src/lib/terminals/terminal-registry.ts\<close>),
    \<open>Agent_Evaluation\<close> and \<open>Agent_Registry\<close> (\<open>src/lib/agents\<close>), \<open>Agent_Laws\<close>,
    \<open>Registry_Properties\<close> (claims).
  \<^item> Stored registries: \<open>Workspace_Files\<close>
    (\<open>src-tauri/src/workspace_data_file.rs\<close>, every access may fail or be the last), \<open>Workspace_Files_Laws\<close>
    (weakest preconditions; the store behind the journal), \<open>File_Store\<close> (the atomic store that the commands
    refine, revisions, recovery), \<open>Registry_Storage\<close> (\<open>src/lib/workspaces/workspace-data-file.ts\<close>,
    \<open>src/lib/agents/agent-registry-storage.ts\<close>), \<open>File_Properties\<close> (claims).
  \<^item> The library of a workspace: \<open>Persona_Registry\<close> (\<open>src/lib/personas/persona-registry.ts\<close>), \<open>Reference_Registry\<close>
    (\<open>src/lib/references/reference-registry.ts\<close>), \<open>Skill_Registry\<close> (\<open>src/lib/skills/skill-registry.ts\<close>,
    \<open>skill-schema.ts\<close>), with \<open>Skill_Laws\<close>; \<open>Library_Storage\<close> (their
    \<open>*-registry-storage.ts\<close>, \<open>terminal-registry-storage.ts\<close> and \<open>workspace-registry-pair-storage.ts\<close>),
    \<open>Stored_Registries\<close> (the locale \<open>stored_registry\<close>: what is written is read back, interpreted on the five
    kinds of registries), \<open>Library_Properties\<close> (claims).
  \<^item> Briefs (\<open>src/lib/briefs\<close>): \<open>Brief_Registry\<close> (\<open>brief-registry.ts\<close>, \<open>brief-run-registry.ts\<close> and their storage),
    \<open>Brief_Laws\<close>, \<open>Brief_Evidence\<close> (\<open>brief-run-evidence.ts\<close>, \<open>brief-gate.ts\<close>), \<open>Brief_Drafts\<close>
    (\<open>brief-editor-drafts.ts\<close>), \<open>Brief_Properties\<close> (claims).

  \<^item> Around workspaces (\<open>src/lib/workspaces\<close>): \<open>Workspace_Sync\<close> (\<open>workspace-sync.ts\<close>), \<open>Sync_Laws\<close> (paths, the
    snapshot and its reader), \<open>Sync_Properties\<close> (the payload comes back; what an import may contain);
    \<open>Workspace_Clients\<close> (\<open>workspace-path.ts\<close>, \<open>workspace-path-messages.ts\<close>, \<open>workspace-registration-draft.ts\<close>,
    \<open>workspace-sync-file.ts\<close>, \<open>workspace-sync-git.ts\<close>, \<open>workspace-repository-setup.ts\<close>), \<open>Workspace_Storage\<close>
    (\<open>workspace-storage.ts\<close>, \<open>workspace-path-repair.ts\<close>, \<open>workspace-registration.ts\<close>), \<open>Saving_Properties\<close>
    (a save replaces only what was expected; repair and registration).

  Conventions. A string is a list of Latin-1 characters, one per code unit; an \<open>unknown\<close> value is a \<open>js\<close>.
  \<open>JSON.parse\<close> and \<open>JSON.stringify\<close>, the URL parser, \<open>localeCompare\<close>, the clock and generated
  identifiers are arguments. A mutation answers \<open>Ok r\<close> or \<open>Err r e\<close>. An asynchronous function is cut at
  its \<open>await\<close>s, and the parts are steps of a relation that may interleave.

  Bounds and termination. Every modelled function is total. The loops of the traversal and of the subtree
  computation carry their own measures; the poll loop runs for the number of attempts the source gives; the
  walk from a node to its project takes at most as many steps as there are nodes, which is enough
  (\<open>enough_steps\<close>).

  Not modelled: the Svelte components and their controllers, the texts of \<open>i18n\<close>, the Rust side except the
  application state store, the workspace data files and the close of a vault session, code that only calls the network, the file system or a terminal, and code units
  beyond Latin-1. A reader of a component finds in its theory what of it is left out.
\<close>

end
